(* ===== verification/Prelude.thy ===== *)
theory Prelude
  imports Main "HOL-Library.Word"
begin

text \<open>
  What every component of the library shares: the byte type, the widths of the native
  integers of the modelled build (64-bit Linux, where \<open>unsigned long\<close> and
  \<open>long long\<close> have 64 bits), and the two operations on a byte image that all file
  accesses reduce to, \<open>bytes_at\<close> (read a region) and \<open>put_at\<close> (overwrite a region,
  growing the image when it ends inside or before the region), with the frame lemmas that
  say which regions a write leaves alone.
\<close>

type_synonym byte = "8 word"

named_theorems engine_simps \<open>rewrite rules that compute an engine call on a ready file\<close>

named_theorems frame_simps \<open>what an operation leaves unchanged\<close>

section \<open>Native integer widths\<close>

definition to_s64 :: "int \<Rightarrow> int" where
  "to_s64 x = (x + 2 ^ 63) mod 2 ^ 64 - 2 ^ 63"

definition to_u64 :: "int \<Rightarrow> int" where
  "to_u64 x = x mod 2 ^ 64"

definition to_u32 :: "int \<Rightarrow> int" where
  "to_u32 x = x mod 2 ^ 32"

lemma to_s64_id [simp]: "- (2 ^ 63) \<le> x \<Longrightarrow> x < 2 ^ 63 \<Longrightarrow> to_s64 x = x"
  unfolding to_s64_def by (subst mod_pos_pos_trivial) auto

lemma to_u64_id [simp]: "0 \<le> x \<Longrightarrow> x < 2 ^ 64 \<Longrightarrow> to_u64 x = x"
  by (simp add: to_u64_def)

lemma to_u32_id [simp]: "0 \<le> x \<Longrightarrow> x < 2 ^ 32 \<Longrightarrow> to_u32 x = x"
  by (simp add: to_u32_def)

lemma to_u64_nonneg [simp]: "0 \<le> to_u64 x"
  by (simp add: to_u64_def)

lemma to_u32_bounds [simp]: "0 \<le> to_u32 x" "to_u32 x < 2 ^ 32"
  by (simp_all add: to_u32_def)

section \<open>Byte images\<close>

definition bytes_at :: "byte list \<Rightarrow> nat \<Rightarrow> nat \<Rightarrow> byte list" where
  "bytes_at f p n = take n (drop p f)"

definition put_at :: "byte list \<Rightarrow> nat \<Rightarrow> byte list \<Rightarrow> byte list" where
  "put_at f p d =
     (if d = [] then f
      else take p (f @ replicate (p - length f) 0) @ d @ drop (p + length d) f)"

lemma length_bytes_at [simp]: "length (bytes_at f p n) = min n (length f - p)"
  by (simp add: bytes_at_def)

lemma bytes_at_full [simp]: "p + n \<le> length f \<Longrightarrow> length (bytes_at f p n) = n"
  by simp

lemma bytes_at_zero [simp]: "bytes_at f p 0 = []"
  by (simp add: bytes_at_def)

lemma put_at_Nil [simp]: "put_at f p [] = f"
  by (simp add: put_at_def)

lemma length_put_at:
  "length (put_at f p d) = (if d = [] then length f else max (length f) (p + length d))"
  by (auto simp: put_at_def max_def min_def)

lemma length_put_at_inside [simp]:
  "p + length d \<le> length f \<Longrightarrow> length (put_at f p d) = length f"
  by (simp add: length_put_at)

lemma length_put_at_mono: "length f \<le> length (put_at f p d)"
  by (simp add: length_put_at)

lemma take_put_at:
  assumes "d \<noteq> []"
  shows "take p (put_at f p d) = take p (f @ replicate (p - length f) 0)"
  using assms by (simp add: put_at_def)

lemma drop_put_at:
  assumes "d \<noteq> []"
  shows "drop p (put_at f p d) = d @ drop (p + length d) f"
proof -
  have "length (take p (f @ replicate (p - length f) 0)) = p" by simp
  then show ?thesis using assms by (simp add: put_at_def)
qed

lemma bytes_at_put_same [simp]: "bytes_at (put_at f p d) p (length d) = d"
  by (cases "d = []") (simp_all add: bytes_at_def drop_put_at)

lemma bytes_at_put_same_len: "length d = n \<Longrightarrow> bytes_at (put_at f p d) p n = d"
  by (metis bytes_at_put_same)

lemma bytes_at_put_below:
  assumes "q + n \<le> p" "q + n \<le> length f"
  shows "bytes_at (put_at f p d) q n = bytes_at f q n"
proof (cases "d = []")
  case False
  have "bytes_at (put_at f p d) q n = take n (drop q (take p (put_at f p d)))"
    using assms(1) by (simp add: bytes_at_def drop_take min_def)
  also have "\<dots> = take n (drop q f)"
    using assms False by (simp add: take_put_at drop_take min_def)
  finally show ?thesis by (simp add: bytes_at_def)
qed simp

lemma bytes_at_put_above:
  assumes "p + length d \<le> q" "q + n \<le> length f"
  shows "bytes_at (put_at f p d) q n = bytes_at f q n"
proof (cases "d = []")
  case False
  have "drop q (put_at f p d) = drop (q - p) (drop p (put_at f p d))"
    using assms(1) by simp
  also have "\<dots> = drop q f"
    using assms(1) by (simp add: drop_put_at [OF False])
  finally show ?thesis by (simp add: bytes_at_def)
qed simp

lemma bytes_at_put_disjoint:
  assumes "q + n \<le> p \<or> p + length d \<le> q" "q + n \<le> length f"
  shows "bytes_at (put_at f p d) q n = bytes_at f q n"
  using assms bytes_at_put_above bytes_at_put_below by blast

lemma bytes_at_append: "bytes_at f p (m + n) = bytes_at f p m @ bytes_at f (p + m) n"
  by (simp add: bytes_at_def take_add add.commute)

lemma bytes_at_sub: "k + m \<le> n \<Longrightarrow> bytes_at (bytes_at f p n) k m = bytes_at f (p + k) m"
  by (simp add: bytes_at_def drop_take min_def add.commute)

lemma bytes_at_put_inner:
  assumes "p \<le> q" "q + n \<le> p + length d"
  shows "bytes_at (put_at f p d) q n = bytes_at d (q - p) n"
proof -
  have "bytes_at d (q - p) n = bytes_at (bytes_at (put_at f p d) p (length d)) (q - p) n"
    by simp
  also have "\<dots> = bytes_at (put_at f p d) (p + (q - p)) n"
    using assms by (intro bytes_at_sub) linarith
  finally show ?thesis using assms by simp
qed

text \<open>A write that lies inside a region replaces the matching part of that region.\<close>

lemma put_at_idem [simp]: "put_at (put_at f p d) p d = put_at f p d"
proof (cases "d = []")
  case False
  let ?g = "put_at f p d"
  have len: "p + length d \<le> length ?g" using False by (simp add: length_put_at)
  have "put_at ?g p d = take p ?g @ d @ drop (p + length d) ?g"
    using False len by (simp add: put_at_def)
  also have "drop (p + length d) ?g = drop (length d) (drop p ?g)"
    by (simp add: add.commute)
  also have "\<dots> = drop (p + length d) f"
    using False by (simp add: drop_put_at)
  also have "take p ?g = take p (f @ replicate (p - length f) 0)"
    using False by (rule take_put_at)
  finally show ?thesis using False by (simp add: put_at_def)
qed simp

end
