(* ===== verification/FixedInts.thy ===== *)
theory FixedInts
  imports Prelude
begin

text \<open>
  The portable integer classes of \<open>src/gxint16.cpp\<close>, \<open>gxuint16.cpp\<close>, \<open>gxint32.cpp\<close>,
  \<open>gxuint32.cpp\<close>, \<open>gxint64.cpp\<close> and \<open>gxuint64.cpp\<close>: an object is its byte array, lowest
  byte first; \<open>UnPackBits\<close> stores a native value, \<open>PackBits\<close> reads it back. Native
  values are integers in the range of their type (\<open>__LWORD__\<close> and \<open>__ULWORD__\<close> have 64
  bits in the modelled build). The locale \<open>codec\<close> states what the rest of the library uses
  of a fixed layout type: its size and that reading gives back what was written.
\<close>

unbundle bit_operations_syntax

section \<open>Little-endian bytes, the reference\<close>

fun le_bytes :: "nat \<Rightarrow> int \<Rightarrow> byte list" where
  "le_bytes 0 v = []"
| "le_bytes (Suc n) v = word_of_int v # le_bytes n (v div 256)"

fun le_val :: "byte list \<Rightarrow> int" where
  "le_val [] = 0"
| "le_val (b # bs) = uint b + 256 * le_val bs"

lemma length_le_bytes [simp]: "length (le_bytes n v) = n"
  by (induction n arbitrary: v) auto

lemma uint_byte_of_int: "uint (word_of_int v :: byte) = v mod 256"
  by (simp add: uint_word_of_int)

lemma uint_byte_bounds: "0 \<le> uint (b :: byte)" "uint (b :: byte) < 256"
  using uint_lt2p [of b] by auto

lemma le_val_le_bytes: "le_val (le_bytes n v) = v mod 256 ^ n"
proof (induction n arbitrary: v)
  case (Suc n)
  have "v mod (256 * 256 ^ n) = 256 * (v div 256 mod 256 ^ n) + v mod 256"
    by (rule zmod_zmult2_eq) simp
  then show ?case by (simp add: Suc uint_byte_of_int)
qed simp

lemma le_val_snoc: "le_val (bs @ [b]) = le_val bs + uint b * 256 ^ length bs"
  by (induction bs) (simp_all add: algebra_simps)

lemma le_val_bounds: "0 \<le> le_val bs \<and> le_val bs < 256 ^ length bs"
proof (induction bs)
  case (Cons b bs)
  have "0 \<le> uint b" "uint b < 256" by (rule uint_byte_bounds)+
  with Cons show ?case by simp
qed simp

lemma le_bytes_le_val: "le_bytes (length bs) (le_val bs) = bs"
proof (induction bs)
  case (Cons b bs)
  have "(uint b + 256 * le_val bs) div 256 = le_val bs"
    using uint_byte_bounds [of b] by simp
  moreover have "(word_of_int (uint b + 256 * le_val bs) :: byte) = b"
  proof -
    have "uint (word_of_int (uint b + 256 * le_val bs) :: byte) = uint b"
      using uint_byte_bounds [of b] by (simp only: uint_byte_of_int) simp
    then show ?thesis by (simp only: word_uint_eq_iff)
  qed
  ultimately show ?case using Cons by simp
qed simp

lemma byte_mask: "(word_of_int (v AND 255) :: byte) = word_of_int v"
proof -
  have "v AND 255 = v mod 256"
    using take_bit_eq_mask [of 8 v] take_bit_eq_mod [of 8 v] by (simp add: mask_eq_exp_minus_1)
  then show ?thesis by (metis uint_byte_of_int word_of_int_uint mod_mod_trivial uint_word_of_int_eq)
qed

lemma byte_mask_shift:
  assumes "m = push_bit k 255"
  shows "(word_of_int (drop_bit k (v AND m)) :: byte) = word_of_int (v div 2 ^ k)"
proof -
  have "drop_bit k (v AND m) = (v div 2 ^ k) AND 255"
    using assms by (simp add: drop_bit_push_bit drop_bit_eq_div [symmetric])
  then show ?thesis by (simp add: byte_mask)
qed

lemma byte_place:
  assumes "m = push_bit k 255"
  shows "(push_bit k (uint (b :: byte)) AND m) = uint b * 2 ^ k"
proof -
  have "uint b AND 255 = uint b mod 256"
    using take_bit_eq_mask [of 8 "uint b"] take_bit_eq_mod [of 8 "uint b"]
    by (simp add: mask_eq_exp_minus_1)
  then have "uint b AND 255 = uint b" using uint_byte_bounds [of b] by simp
  then have "push_bit k (uint b) AND m = push_bit k (uint b)"
    using assms by (simp flip: push_bit_and)
  then show ?thesis by (simp add: push_bit_eq_mult)
qed

section \<open>The six classes\<close>

definition gxUINT16_UnPackBits :: "int \<Rightarrow> byte list" where
  "gxUINT16_UnPackBits val =
     [word_of_int (val AND 0xFF), word_of_int (drop_bit 8 (val AND 0xFF00))]"

definition gxUINT16_PackBits :: "byte list \<Rightarrow> int" where
  "gxUINT16_PackBits byte =
     (let a = uint (byte ! 0) AND 0xFF;
          b = push_bit 8 (uint (byte ! 1)) AND 0xFF00
      in (a + b) mod 2 ^ 16)"

definition gxINT16_UnPackBits :: "int \<Rightarrow> byte list" where
  "gxINT16_UnPackBits val =
     [word_of_int (val AND 0xFF), word_of_int (drop_bit 8 (val AND 0xFF00))]"

text \<open>The loop \<open>for(i = n-1; i >= 0; i--) val = (val << 8) | byte[i]\<close>, at width \<open>w\<close>.\<close>

fun pack_loop :: "nat \<Rightarrow> byte list \<Rightarrow> nat \<Rightarrow> int \<Rightarrow> int" where
  "pack_loop w byte 0 val = val"
| "pack_loop w byte (Suc i) val =
     pack_loop w byte i ((push_bit 8 val OR uint (byte ! i)) mod 2 ^ w)"

definition gxINT16_PackBits :: "byte list \<Rightarrow> int" where
  "gxINT16_PackBits byte = (pack_loop 16 byte 2 0 + 2 ^ 15) mod 2 ^ 16 - 2 ^ 15"

definition gxUINT32_UnPackBits :: "int \<Rightarrow> byte list" where
  "gxUINT32_UnPackBits val =
     [word_of_int (val AND 0xFF), word_of_int (drop_bit 8 (val AND 0xFF00)),
      word_of_int (drop_bit 16 (val AND 0xFF0000)),
      word_of_int (drop_bit 24 (val AND 0xFF000000))]"

definition gxUINT32_PackBits :: "byte list \<Rightarrow> int" where
  "gxUINT32_PackBits byte =
     (let a = uint (byte ! 0) AND 0xFF;
          b = push_bit 8 (uint (byte ! 1)) AND 0xFF00;
          c = push_bit 16 (uint (byte ! 2)) AND 0xFF0000;
          d = push_bit 24 (uint (byte ! 3)) AND 0xFF000000
      in to_u64 (a + b + c + d))"

definition gxINT32_UnPackBits :: "int \<Rightarrow> byte list" where
  "gxINT32_UnPackBits val =
     [word_of_int (val AND 0xFF), word_of_int (drop_bit 8 (val AND 0xFF00)),
      word_of_int (drop_bit 16 (val AND 0xFF0000)),
      word_of_int (drop_bit 24 (val AND 0xFF000000))]"

definition gxINT32_PackBits :: "byte list \<Rightarrow> int" where
  "gxINT32_PackBits byte = to_s64 (pack_loop 64 byte 4 0)"

definition gxUINT64_UnPackBits :: "int \<Rightarrow> byte list" where
  "gxUINT64_UnPackBits val =
     [word_of_int (val AND 0xFF), word_of_int (drop_bit 8 (val AND 0xFF00)),
      word_of_int (drop_bit 16 (val AND 0xFF0000)),
      word_of_int (drop_bit 24 (val AND 0xFF000000)),
      word_of_int (drop_bit 32 (val AND 0xFF00000000)),
      word_of_int (drop_bit 40 (val AND 0xFF0000000000)),
      word_of_int (drop_bit 48 (val AND 0xFF000000000000)),
      word_of_int (drop_bit 56 (val AND 0xFF00000000000000))]"

definition gxUINT64_PackBits :: "byte list \<Rightarrow> int" where
  "gxUINT64_PackBits byte =
     (let a = uint (byte ! 0) AND 0xFF;
          b = push_bit 8 (uint (byte ! 1)) AND 0xFF00;
          c = push_bit 16 (uint (byte ! 2)) AND 0xFF0000;
          d = push_bit 24 (uint (byte ! 3)) AND 0xFF000000;
          e = push_bit 32 (uint (byte ! 4)) AND 0xFF00000000;
          f = push_bit 40 (uint (byte ! 5)) AND 0xFF0000000000;
          g = push_bit 48 (uint (byte ! 6)) AND 0xFF000000000000;
          h = push_bit 56 (uint (byte ! 7)) AND 0xFF00000000000000
      in to_u64 (a + b + c + d + e + f + g + h))"

definition gxINT64_UnPackBits :: "int \<Rightarrow> byte list" where
  "gxINT64_UnPackBits val =
     [word_of_int (val AND 0xFF), word_of_int (drop_bit 8 (val AND 0xFF00)),
      word_of_int (drop_bit 16 (val AND 0xFF0000)),
      word_of_int (drop_bit 24 (val AND 0xFF000000)),
      word_of_int (drop_bit 32 (val AND 0xFF00000000)),
      word_of_int (drop_bit 40 (val AND 0xFF0000000000)),
      word_of_int (drop_bit 48 (val AND 0xFF000000000000)),
      word_of_int (drop_bit 56 (val AND 0xFF00000000000000))]"

definition gxINT64_PackBits :: "byte list \<Rightarrow> int" where
  "gxINT64_PackBits byte = to_s64 (pack_loop 64 byte 8 0)"

lemmas unpack_defs =
  gxUINT16_UnPackBits_def gxINT16_UnPackBits_def gxUINT32_UnPackBits_def
  gxINT32_UnPackBits_def gxUINT64_UnPackBits_def gxINT64_UnPackBits_def

section \<open>The classes store little-endian bytes\<close>

lemma le_bytes_unfold:
  "le_bytes 2 v = [word_of_int v, word_of_int (v div 2 ^ 8)]"
  "le_bytes 4 v = [word_of_int v, word_of_int (v div 2 ^ 8), word_of_int (v div 2 ^ 16),
     word_of_int (v div 2 ^ 24)]"
  "le_bytes 8 v = [word_of_int v, word_of_int (v div 2 ^ 8), word_of_int (v div 2 ^ 16),
     word_of_int (v div 2 ^ 24), word_of_int (v div 2 ^ 32), word_of_int (v div 2 ^ 40),
     word_of_int (v div 2 ^ 48), word_of_int (v div 2 ^ 56)]"
  by (simp_all add: eval_nat_numeral zdiv_zmult2_eq [symmetric])

lemma byte_masks:
  "(word_of_int (drop_bit 8 (v AND 0xFF00)) :: byte) = word_of_int (v div 2 ^ 8)"
  "(word_of_int (drop_bit 16 (v AND 0xFF0000)) :: byte) = word_of_int (v div 2 ^ 16)"
  "(word_of_int (drop_bit 24 (v AND 0xFF000000)) :: byte) = word_of_int (v div 2 ^ 24)"
  "(word_of_int (drop_bit 32 (v AND 0xFF00000000)) :: byte) = word_of_int (v div 2 ^ 32)"
  "(word_of_int (drop_bit 40 (v AND 0xFF0000000000)) :: byte) = word_of_int (v div 2 ^ 40)"
  "(word_of_int (drop_bit 48 (v AND 0xFF000000000000)) :: byte) = word_of_int (v div 2 ^ 48)"
  "(word_of_int (drop_bit 56 (v AND 0xFF00000000000000)) :: byte) = word_of_int (v div 2 ^ 56)"
  by (rule byte_mask_shift, simp add: push_bit_eq_mult)+

lemma byte_places:
  "uint (b :: byte) AND 0xFF = uint b"
  "push_bit 8 (uint (b :: byte)) AND 0xFF00 = uint b * 2 ^ 8"
  "push_bit 16 (uint (b :: byte)) AND 0xFF0000 = uint b * 2 ^ 16"
  "push_bit 24 (uint (b :: byte)) AND 0xFF000000 = uint b * 2 ^ 24"
  "push_bit 32 (uint (b :: byte)) AND 0xFF00000000 = uint b * 2 ^ 32"
  "push_bit 40 (uint (b :: byte)) AND 0xFF0000000000 = uint b * 2 ^ 40"
  "push_bit 48 (uint (b :: byte)) AND 0xFF000000000000 = uint b * 2 ^ 48"
  "push_bit 56 (uint (b :: byte)) AND 0xFF00000000000000 = uint b * 2 ^ 56"
  subgoal by (rule byte_place [where k = 0, simplified]) simp
  by (rule byte_place, simp add: push_bit_eq_mult)+

lemma unpack16_le: "gxUINT16_UnPackBits v = le_bytes 2 v" "gxINT16_UnPackBits v = le_bytes 2 v"
  by (simp_all only: unpack_defs byte_mask byte_masks le_bytes_unfold)

lemma unpack32_le: "gxUINT32_UnPackBits v = le_bytes 4 v" "gxINT32_UnPackBits v = le_bytes 4 v"
  by (simp_all only: unpack_defs byte_mask byte_masks le_bytes_unfold)

lemma unpack64_le: "gxUINT64_UnPackBits v = le_bytes 8 v" "gxINT64_UnPackBits v = le_bytes 8 v"
  by (simp_all only: unpack_defs byte_mask byte_masks le_bytes_unfold)

text \<open>A list of known length, written out.\<close>

lemma list_len2: "length xs = 2 \<Longrightarrow> xs = [xs ! 0, xs ! 1]"
  by (intro nth_equalityI) (auto simp: less_Suc_eq numeral_2_eq_2)

lemma list_len4: "length xs = 4 \<Longrightarrow> xs = [xs ! 0, xs ! 1, xs ! 2, xs ! 3]"
  by (intro nth_equalityI) (auto simp: less_Suc_eq eval_nat_numeral)

lemma list_len8:
  "length xs = 8 \<Longrightarrow> xs = [xs ! 0, xs ! 1, xs ! 2, xs ! 3, xs ! 4, xs ! 5, xs ! 6, xs ! 7]"
  by (intro nth_equalityI) (auto simp: less_Suc_eq eval_nat_numeral)

lemma le_val_unfold:
  "length bs = 2 \<Longrightarrow> le_val bs = uint (bs ! 0) + uint (bs ! 1) * 2 ^ 8"
  "length bs = 4 \<Longrightarrow> le_val bs = uint (bs ! 0) + uint (bs ! 1) * 2 ^ 8 + uint (bs ! 2) * 2 ^ 16
     + uint (bs ! 3) * 2 ^ 24"
  "length bs = 8 \<Longrightarrow> le_val bs = uint (bs ! 0) + uint (bs ! 1) * 2 ^ 8 + uint (bs ! 2) * 2 ^ 16
     + uint (bs ! 3) * 2 ^ 24 + uint (bs ! 4) * 2 ^ 32 + uint (bs ! 5) * 2 ^ 40
     + uint (bs ! 6) * 2 ^ 48 + uint (bs ! 7) * 2 ^ 56"
  subgoal by (subst list_len2, assumption) simp
  subgoal by (subst list_len4, assumption) simp
  subgoal by (subst list_len8, assumption) simp
  done

lemma pack_step:
  assumes "0 \<le> val" "val * 256 + 255 < 2 ^ w"
  shows "(push_bit 8 val OR uint (b :: byte)) mod 2 ^ w = val * 256 + uint b"
proof -
  have b: "0 \<le> uint b" "uint b < 2 ^ 8" using uint_byte_bounds [of b] by auto
  have "push_bit 8 val OR uint b = push_bit 8 val + uint b"
  proof (rule disjunctive_add [symmetric])
    fix n
    have "take_bit 8 (uint b) = uint b" using b by (simp add: take_bit_int_eq_self)
    then show "\<not> bit (push_bit 8 val) n \<or> \<not> bit (uint b) n"
      by (metis bit_push_bit_iff_int bit_take_bit_iff not_less)
  qed
  then show ?thesis using assms b by (simp add: push_bit_eq_mult)
qed

text \<open>The read loop adds the next byte below what it has read, so it is \<open>le_val\<close>.\<close>

lemma pack_loop_le:
  assumes "i \<le> length bs" "0 \<le> val" "(val + 1) * 256 ^ i \<le> 2 ^ w"
  shows "pack_loop w bs i val = val * 256 ^ i + le_val (take i bs)"
  using assms
proof (induction i arbitrary: val)
  case (Suc i)
  have pos: "(1::int) \<le> 256 ^ i" by simp
  have "(val + 1) * 256 \<le> (val + 1) * 256 * 256 ^ i"
    using pos Suc.prems(2) by (simp add: mult_le_cancel_left1)
  also have "\<dots> \<le> 2 ^ w" using Suc.prems(3) by (simp add: algebra_simps)
  finally have "val * 256 + 255 < 2 ^ w" by simp
  then have step: "(push_bit 8 val OR uint (bs ! i)) mod 2 ^ w = val * 256 + uint (bs ! i)"
    using Suc.prems(2) by (rule pack_step [rotated])
  have b: "uint (bs ! i) < 256" "0 \<le> uint (bs ! i)" by (rule uint_byte_bounds)+
  have "(val * 256 + uint (bs ! i) + 1) * 256 ^ i \<le> ((val + 1) * 256) * 256 ^ i"
    using b by (intro mult_right_mono) auto
  also have "((val + 1) * 256) * 256 ^ i \<le> 2 ^ w" using Suc.prems(3) by (simp add: algebra_simps)
  finally have bound: "(val * 256 + uint (bs ! i) + 1) * 256 ^ i \<le> 2 ^ w" .
  from Suc.IH [of "val * 256 + uint (bs ! i)"] Suc.prems b bound
  have "pack_loop w bs (Suc i) val
      = (val * 256 + uint (bs ! i)) * 256 ^ i + le_val (take i bs)"
    by (simp add: step)
  moreover have "le_val (take (Suc i) bs) = le_val (take i bs) + uint (bs ! i) * 256 ^ i"
    using Suc.prems(1) by (simp add: take_Suc_conv_app_nth le_val_snoc)
  ultimately show ?case by (simp add: algebra_simps)
qed simp

lemma pack_loop_val: "length bs = i \<Longrightarrow> 256 ^ i \<le> (2::int) ^ w \<Longrightarrow> pack_loop w bs i 0 = le_val bs"
  by (simp add: pack_loop_le)

lemma pack_le:
  "length bs = 2 \<Longrightarrow> gxUINT16_PackBits bs = le_val bs"
  "length bs = 4 \<Longrightarrow> gxUINT32_PackBits bs = le_val bs"
  "length bs = 8 \<Longrightarrow> gxUINT64_PackBits bs = le_val bs"
  "length bs = 4 \<Longrightarrow> gxINT32_PackBits bs = le_val bs"
  "length bs = 8 \<Longrightarrow> gxINT64_PackBits bs = to_s64 (le_val bs)"
  "length bs = 2 \<Longrightarrow> gxINT16_PackBits bs = (le_val bs + 2 ^ 15) mod 2 ^ 16 - 2 ^ 15"
  subgoal using le_val_bounds [of bs]
    by (simp only: gxUINT16_PackBits_def Let_def byte_places le_val_unfold(1) [symmetric]) simp
  subgoal using le_val_bounds [of bs]
    by (simp only: gxUINT32_PackBits_def Let_def byte_places le_val_unfold(2) [symmetric]) simp
  subgoal using le_val_bounds [of bs]
    by (simp only: gxUINT64_PackBits_def Let_def byte_places le_val_unfold(3) [symmetric]) simp
  subgoal using le_val_bounds [of bs]
    by (simp add: gxINT32_PackBits_def pack_loop_val)
  subgoal by (simp add: gxINT64_PackBits_def pack_loop_val)
  subgoal by (simp add: gxINT16_PackBits_def pack_loop_val)
  done

lemma mod_signed:
  assumes "- m \<le> (v::int)" "v < m"
  shows "(v mod (2 * m) + m) mod (2 * m) - m = v"
proof -
  have "(v mod (2 * m) + m) mod (2 * m) = (v + m) mod (2 * m)" by (simp add: mod_add_left_eq)
  then show ?thesis using assms by (simp add: mod_pos_pos_trivial)
qed

section \<open>Fixed layout types\<close>

text \<open>
  What a user of a fixed layout type relies on: every value of the type's range takes
  \<open>width\<close> bytes and is read back unchanged. The lemmas below are what the engine's header
  input and output needs of every such type.
\<close>

locale codec =
  fixes enc :: "'a \<Rightarrow> byte list"
    and dec :: "byte list \<Rightarrow> 'a"
    and width :: nat
    and ok :: "'a \<Rightarrow> bool"
  assumes len: "length (enc v) = width"
    and dec_enc: "ok v \<Longrightarrow> dec (enc v) = v"
begin

lemma enc_inj: "ok v \<Longrightarrow> ok w \<Longrightarrow> enc v = enc w \<Longrightarrow> v = w"
  using dec_enc by metis

lemma read_back: "ok v \<Longrightarrow> dec (bytes_at (put_at f p (enc v)) p width) = v"
  using dec_enc len bytes_at_put_same_len by metis

lemma read_back_disjoint:
  "q + width \<le> p \<or> p + width \<le> q \<Longrightarrow> q + width \<le> length f \<Longrightarrow>
   dec (bytes_at (put_at f p (enc v)) q width) = dec (bytes_at f q width)"
  using len bytes_at_put_disjoint by metis

lemma dec_take_append: "ok v \<Longrightarrow> dec (take width (enc v @ bs)) = v"
  by (simp add: dec_enc len)

lemma drop_enc_append: "drop width (enc v @ bs) = bs"
  by (simp add: len)

end

definition in_s64 :: "int \<Rightarrow> bool" where
  "in_s64 v \<longleftrightarrow> - (2 ^ 63) \<le> v \<and> v < 2 ^ 63"

definition in_u32 :: "int \<Rightarrow> bool" where
  "in_u32 v \<longleftrightarrow> 0 \<le> v \<and> v < 2 ^ 32"

interpretation u16: codec gxUINT16_UnPackBits gxUINT16_PackBits 2 "\<lambda>v. 0 \<le> v \<and> v < 2 ^ 16"
  by unfold_locales (auto simp: unpack16_le pack_le le_val_le_bytes)

interpretation s16: codec gxINT16_UnPackBits gxINT16_PackBits 2 "\<lambda>v. - (2 ^ 15) \<le> v \<and> v < 2 ^ 15"
  using mod_signed [of "2 ^ 15"] by unfold_locales (auto simp: unpack16_le pack_le le_val_le_bytes)

interpretation u32: codec gxUINT32_UnPackBits gxUINT32_PackBits 4 in_u32
  by unfold_locales (auto simp: unpack32_le pack_le le_val_le_bytes in_u32_def)

text \<open>
  A \<open>gxINT32\<close> is only read back unchanged when it is not negative: \<open>PackBits\<close> builds the value in
  a 64-bit \<open>__ULWORD__\<close> and never extends the sign.
\<close>

interpretation s32: codec gxINT32_UnPackBits gxINT32_PackBits 4 in_u32
  by unfold_locales (auto simp: unpack32_le pack_le le_val_le_bytes in_u32_def)

interpretation u64: codec gxUINT64_UnPackBits gxUINT64_PackBits 8 "\<lambda>v. 0 \<le> v \<and> v < 2 ^ 64"
  by unfold_locales (auto simp: unpack64_le pack_le le_val_le_bytes)

interpretation s64: codec gxINT64_UnPackBits gxINT64_PackBits 8 in_s64
  using mod_signed [of "2 ^ 63"]
  by unfold_locales (auto simp: unpack64_le pack_le le_val_le_bytes in_s64_def to_s64_def)

lemma gxINT32_wraps: "gxINT32_PackBits (gxINT32_UnPackBits v) = v mod 2 ^ 32"
  by (simp add: unpack32_le pack_le le_val_le_bytes)

lemma gxUINT32_wraps: "gxUINT32_PackBits (gxUINT32_UnPackBits v) = v mod 2 ^ 32"
  by (simp add: unpack32_le pack_le le_val_le_bytes)

lemma gxINT64_wraps: "gxINT64_PackBits (gxINT64_UnPackBits v) = to_s64 v"
  by (simp add: unpack64_le pack_le le_val_le_bytes to_s64_def mod_add_left_eq)

lemma gxUINT32_bytes: "length bs = 4 \<Longrightarrow> gxUINT32_UnPackBits (gxUINT32_PackBits bs) = bs"
  using le_bytes_le_val [of bs] by (simp add: unpack32_le pack_le)

lemma in_u32_PackBits: "length bs = 4 \<Longrightarrow> in_u32 (gxUINT32_PackBits bs)"
  using le_val_bounds [of bs] by (simp add: in_u32_def pack_le)

lemma in_s64_PackBits: "in_s64 (gxINT64_PackBits bs)"
  by (simp add: in_s64_def gxINT64_PackBits_def to_s64_def)

end
