(* ===== verification/IntOps.thy ===== *)
theory IntOps
  imports FixedInts "HOL-Library.Signed_Division"
begin

text \<open>
  The operators of the portable integer classes: comparisons with another object or a native
  integer on either side, \<open>+=\<close>, \<open>-=\<close>, \<open>*=\<close>, \<open>/=\<close>, \<open>++\<close> and \<open>--\<close>, and the decimal strings of the
  64-bit classes. Every operator converts a native operand to the class's own native type (a
  cast in the source, or the usual conversions where the cast is missing: both give the same
  value) and works on \<open>PackBits\<close>. C++ arithmetic is done in \<open>int\<close> for the 16-bit classes, in
  \<open>long\<close> for \<open>gxINT32\<close> and \<open>gxINT64\<close> and modulo \<open>2 ^ 64\<close> for the other two; \<open>None\<close> stands for a
  result that C++ leaves undefined, a signed overflow or a division by zero. The overloads for
  \<open>__LLWORD__\<close> and \<open>__ULLWORD__\<close> exist in the 64-bit classes only, so for the others those two
  operands are never used. The relations are symmetric in their operand types: one side is an
  object, the other one an object or a native value.
\<close>

section \<open>Operands and native arithmetic\<close>

datatype native =
    SBYTE int | UBYTE int | SWORD int | USWORD int | WORD int | UWORD int
  | LWORD int | ULWORD int | LLWORD int | ULLWORD int

datatype operand = Obj "byte list" | Native native

datatype arith = Plus | Minus | Times

fun native_value :: "native \<Rightarrow> int" where
  "native_value (SBYTE v) = v"
| "native_value (UBYTE v) = v"
| "native_value (SWORD v) = v"
| "native_value (USWORD v) = v"
| "native_value (WORD v) = v"
| "native_value (UWORD v) = v"
| "native_value (LWORD v) = v"
| "native_value (ULWORD v) = v"
| "native_value (LLWORD v) = v"
| "native_value (ULLWORD v) = v"

fun native_ok :: "native \<Rightarrow> bool" where
  "native_ok (SBYTE v) \<longleftrightarrow> - (2 ^ 7) \<le> v \<and> v < 2 ^ 7"
| "native_ok (UBYTE v) \<longleftrightarrow> 0 \<le> v \<and> v < 2 ^ 8"
| "native_ok (SWORD v) \<longleftrightarrow> - (2 ^ 15) \<le> v \<and> v < 2 ^ 15"
| "native_ok (USWORD v) \<longleftrightarrow> 0 \<le> v \<and> v < 2 ^ 16"
| "native_ok (WORD v) \<longleftrightarrow> - (2 ^ 31) \<le> v \<and> v < 2 ^ 31"
| "native_ok (UWORD v) \<longleftrightarrow> 0 \<le> v \<and> v < 2 ^ 32"
| "native_ok (LWORD v) \<longleftrightarrow> - (2 ^ 63) \<le> v \<and> v < 2 ^ 63"
| "native_ok (ULWORD v) \<longleftrightarrow> 0 \<le> v \<and> v < 2 ^ 64"
| "native_ok (LLWORD v) \<longleftrightarrow> - (2 ^ 63) \<le> v \<and> v < 2 ^ 63"
| "native_ok (ULLWORD v) \<longleftrightarrow> 0 \<le> v \<and> v < 2 ^ 64"

definition to_s16 :: "int \<Rightarrow> int" where
  "to_s16 x = (x + 2 ^ 15) mod 2 ^ 16 - 2 ^ 15"

definition to_u16 :: "int \<Rightarrow> int" where
  "to_u16 x = x mod 2 ^ 16"

definition in_int :: "int \<Rightarrow> int option" where
  "in_int r = (if - (2 ^ 31) \<le> r \<and> r < 2 ^ 31 then Some r else None)"

definition in_long :: "int \<Rightarrow> int option" where
  "in_long r = (if - (2 ^ 63) \<le> r \<and> r < 2 ^ 63 then Some r else None)"

definition in_ulong :: "int \<Rightarrow> int option" where
  "in_ulong r = Some (to_u64 r)"

lemma to_s16_id [simp]: "- (2 ^ 15) \<le> x \<Longrightarrow> x < 2 ^ 15 \<Longrightarrow> to_s16 x = x"
  unfolding to_s16_def by (subst mod_pos_pos_trivial) auto

lemma to_u16_id [simp]: "0 \<le> x \<Longrightarrow> x < 2 ^ 16 \<Longrightarrow> to_u16 x = x"
  by (simp add: to_u16_def)

section \<open>gxINT16\<close>

fun gxINT16_operand :: "operand \<Rightarrow> int" where
  "gxINT16_operand (Obj b) = gxINT16_PackBits b"
| "gxINT16_operand (Native (SWORD v)) = v"
| "gxINT16_operand (Native n) = to_s16 (native_value n)"

definition gxINT16_equal :: "operand \<Rightarrow> operand \<Rightarrow> bool" where
  "gxINT16_equal a b \<longleftrightarrow> gxINT16_operand a = gxINT16_operand b"

definition gxINT16_not_equal :: "operand \<Rightarrow> operand \<Rightarrow> bool" where
  "gxINT16_not_equal a b \<longleftrightarrow> gxINT16_operand a \<noteq> gxINT16_operand b"

definition gxINT16_less :: "operand \<Rightarrow> operand \<Rightarrow> bool" where
  "gxINT16_less a b \<longleftrightarrow> gxINT16_operand a < gxINT16_operand b"

definition gxINT16_greater :: "operand \<Rightarrow> operand \<Rightarrow> bool" where
  "gxINT16_greater a b \<longleftrightarrow> gxINT16_operand a > gxINT16_operand b"

definition gxINT16_less_equal :: "operand \<Rightarrow> operand \<Rightarrow> bool" where
  "gxINT16_less_equal a b \<longleftrightarrow>
     gxINT16_operand a = gxINT16_operand b \<or> gxINT16_operand a < gxINT16_operand b"

definition gxINT16_greater_equal :: "operand \<Rightarrow> operand \<Rightarrow> bool" where
  "gxINT16_greater_equal a b \<longleftrightarrow>
     gxINT16_operand a = gxINT16_operand b \<or> gxINT16_operand a > gxINT16_operand b"

definition gxINT16_assign :: "int \<Rightarrow> byte list" where
  "gxINT16_assign v = gxINT16_UnPackBits (to_s16 v)"

fun gxINT16_addend :: "operand \<Rightarrow> int" where
  "gxINT16_addend (Native (USWORD v)) = v"
| "gxINT16_addend n = gxINT16_operand n"

definition gxINT16_arith :: "arith \<Rightarrow> byte list \<Rightarrow> operand \<Rightarrow> byte list option" where
  "gxINT16_arith op this i = map_option gxINT16_assign
     (case op of Plus \<Rightarrow> in_int (gxINT16_PackBits this + gxINT16_addend i)
      | Minus \<Rightarrow> in_int (gxINT16_PackBits this - gxINT16_addend i)
      | Times \<Rightarrow> in_int (gxINT16_PackBits this * gxINT16_addend i))"

definition gxINT16_divide :: "byte list \<Rightarrow> operand \<Rightarrow> byte list option" where
  "gxINT16_divide this i =
     (if (case i of Obj b \<Rightarrow> gxINT16_PackBits b = gxINT16_PackBits (gxINT16_UnPackBits 0)
          | Native n \<Rightarrow> native_value n = 0)
      then Some this
      else if gxINT16_operand i = 0 then None
      else map_option gxINT16_assign (in_int (gxINT16_PackBits this sdiv gxINT16_operand i)))"

definition gxINT16_increment :: "byte list \<Rightarrow> (byte list \<times> byte list) option" where
  "gxINT16_increment this =
     map_option (\<lambda>v. (this, gxINT16_assign v)) (in_int (gxINT16_PackBits this + 1))"

definition gxINT16_decrement :: "byte list \<Rightarrow> (byte list \<times> byte list) option" where
  "gxINT16_decrement this =
     map_option (\<lambda>v. (this, gxINT16_assign v)) (in_int (gxINT16_PackBits this - 1))"

lemmas gxINT16_compare_defs =
  gxINT16_equal_def gxINT16_not_equal_def gxINT16_less_def gxINT16_greater_def
  gxINT16_less_equal_def gxINT16_greater_equal_def

section \<open>gxUINT16\<close>

fun gxUINT16_operand :: "operand \<Rightarrow> int" where
  "gxUINT16_operand (Obj b) = gxUINT16_PackBits b"
| "gxUINT16_operand (Native (USWORD v)) = v"
| "gxUINT16_operand (Native n) = to_u16 (native_value n)"

definition gxUINT16_equal :: "operand \<Rightarrow> operand \<Rightarrow> bool" where
  "gxUINT16_equal a b \<longleftrightarrow> gxUINT16_operand a = gxUINT16_operand b"

definition gxUINT16_not_equal :: "operand \<Rightarrow> operand \<Rightarrow> bool" where
  "gxUINT16_not_equal a b \<longleftrightarrow> gxUINT16_operand a \<noteq> gxUINT16_operand b"

definition gxUINT16_less :: "operand \<Rightarrow> operand \<Rightarrow> bool" where
  "gxUINT16_less a b \<longleftrightarrow> gxUINT16_operand a < gxUINT16_operand b"

definition gxUINT16_greater :: "operand \<Rightarrow> operand \<Rightarrow> bool" where
  "gxUINT16_greater a b \<longleftrightarrow> gxUINT16_operand a > gxUINT16_operand b"

definition gxUINT16_less_equal :: "operand \<Rightarrow> operand \<Rightarrow> bool" where
  "gxUINT16_less_equal a b \<longleftrightarrow>
     gxUINT16_operand a = gxUINT16_operand b \<or> gxUINT16_operand a < gxUINT16_operand b"

definition gxUINT16_greater_equal :: "operand \<Rightarrow> operand \<Rightarrow> bool" where
  "gxUINT16_greater_equal a b \<longleftrightarrow>
     gxUINT16_operand a = gxUINT16_operand b \<or> gxUINT16_operand a > gxUINT16_operand b"

definition gxUINT16_assign :: "int \<Rightarrow> byte list" where
  "gxUINT16_assign v = gxUINT16_UnPackBits (to_u16 v)"

definition gxUINT16_arith :: "arith \<Rightarrow> byte list \<Rightarrow> operand \<Rightarrow> byte list option" where
  "gxUINT16_arith op this i = map_option gxUINT16_assign
     (case op of Plus \<Rightarrow> in_int (gxUINT16_PackBits this + gxUINT16_operand i)
      | Minus \<Rightarrow> in_int (gxUINT16_PackBits this - gxUINT16_operand i)
      | Times \<Rightarrow> in_int (gxUINT16_PackBits this * gxUINT16_operand i))"

definition gxUINT16_divide :: "byte list \<Rightarrow> operand \<Rightarrow> byte list option" where
  "gxUINT16_divide this i =
     (if (case i of Obj b \<Rightarrow> gxUINT16_PackBits b = gxUINT16_PackBits (gxUINT16_UnPackBits 0)
          | Native n \<Rightarrow> native_value n = 0)
      then Some this
      else if gxUINT16_operand i = 0 then None
      else map_option gxUINT16_assign (in_int (gxUINT16_PackBits this sdiv gxUINT16_operand i)))"

definition gxUINT16_increment :: "byte list \<Rightarrow> (byte list \<times> byte list) option" where
  "gxUINT16_increment this =
     map_option (\<lambda>v. (this, gxUINT16_assign v)) (in_int (gxUINT16_PackBits this + 1))"

definition gxUINT16_decrement :: "byte list \<Rightarrow> (byte list \<times> byte list) option" where
  "gxUINT16_decrement this =
     map_option (\<lambda>v. (this, gxUINT16_assign v)) (in_int (gxUINT16_PackBits this - 1))"

lemmas gxUINT16_compare_defs =
  gxUINT16_equal_def gxUINT16_not_equal_def gxUINT16_less_def gxUINT16_greater_def
  gxUINT16_less_equal_def gxUINT16_greater_equal_def

section \<open>gxINT32\<close>

fun gxINT32_operand :: "operand \<Rightarrow> int" where
  "gxINT32_operand (Obj b) = gxINT32_PackBits b"
| "gxINT32_operand (Native (LWORD v)) = v"
| "gxINT32_operand (Native n) = to_s64 (native_value n)"

definition gxINT32_equal :: "operand \<Rightarrow> operand \<Rightarrow> bool" where
  "gxINT32_equal a b \<longleftrightarrow> gxINT32_operand a = gxINT32_operand b"

definition gxINT32_not_equal :: "operand \<Rightarrow> operand \<Rightarrow> bool" where
  "gxINT32_not_equal a b \<longleftrightarrow> gxINT32_operand a \<noteq> gxINT32_operand b"

definition gxINT32_less :: "operand \<Rightarrow> operand \<Rightarrow> bool" where
  "gxINT32_less a b \<longleftrightarrow> gxINT32_operand a < gxINT32_operand b"

definition gxINT32_greater :: "operand \<Rightarrow> operand \<Rightarrow> bool" where
  "gxINT32_greater a b \<longleftrightarrow> gxINT32_operand a > gxINT32_operand b"

definition gxINT32_less_equal :: "operand \<Rightarrow> operand \<Rightarrow> bool" where
  "gxINT32_less_equal a b \<longleftrightarrow>
     gxINT32_operand a = gxINT32_operand b \<or> gxINT32_operand a < gxINT32_operand b"

definition gxINT32_greater_equal :: "operand \<Rightarrow> operand \<Rightarrow> bool" where
  "gxINT32_greater_equal a b \<longleftrightarrow>
     gxINT32_operand a = gxINT32_operand b \<or> gxINT32_operand a > gxINT32_operand b"

definition gxINT32_assign :: "int \<Rightarrow> byte list" where
  "gxINT32_assign v = gxINT32_UnPackBits v"

definition gxINT32_arith :: "arith \<Rightarrow> byte list \<Rightarrow> operand \<Rightarrow> byte list option" where
  "gxINT32_arith op this i = map_option gxINT32_assign
     (case op of Plus \<Rightarrow> in_long (gxINT32_PackBits this + gxINT32_operand i)
      | Minus \<Rightarrow> in_long (gxINT32_PackBits this - gxINT32_operand i)
      | Times \<Rightarrow> in_long (gxINT32_PackBits this * gxINT32_operand i))"

definition gxINT32_divide :: "byte list \<Rightarrow> operand \<Rightarrow> byte list option" where
  "gxINT32_divide this i =
     (if (case i of Obj b \<Rightarrow> gxINT32_PackBits b = gxINT32_PackBits (gxINT32_UnPackBits 0)
          | Native n \<Rightarrow> native_value n = 0)
      then Some this
      else if gxINT32_operand i = 0 then None
      else map_option gxINT32_assign (in_long (gxINT32_PackBits this sdiv gxINT32_operand i)))"

definition gxINT32_increment :: "byte list \<Rightarrow> (byte list \<times> byte list) option" where
  "gxINT32_increment this =
     map_option (\<lambda>v. (this, gxINT32_assign v)) (in_long (gxINT32_PackBits this + 1))"

definition gxINT32_decrement :: "byte list \<Rightarrow> (byte list \<times> byte list) option" where
  "gxINT32_decrement this =
     map_option (\<lambda>v. (this, gxINT32_assign v)) (in_long (gxINT32_PackBits this - 1))"

lemmas gxINT32_compare_defs =
  gxINT32_equal_def gxINT32_not_equal_def gxINT32_less_def gxINT32_greater_def
  gxINT32_less_equal_def gxINT32_greater_equal_def

section \<open>gxUINT32\<close>

fun gxUINT32_operand :: "operand \<Rightarrow> int" where
  "gxUINT32_operand (Obj b) = gxUINT32_PackBits b"
| "gxUINT32_operand (Native (ULWORD v)) = v"
| "gxUINT32_operand (Native n) = to_u64 (native_value n)"

definition gxUINT32_equal :: "operand \<Rightarrow> operand \<Rightarrow> bool" where
  "gxUINT32_equal a b \<longleftrightarrow> gxUINT32_operand a = gxUINT32_operand b"

definition gxUINT32_not_equal :: "operand \<Rightarrow> operand \<Rightarrow> bool" where
  "gxUINT32_not_equal a b \<longleftrightarrow> gxUINT32_operand a \<noteq> gxUINT32_operand b"

definition gxUINT32_less :: "operand \<Rightarrow> operand \<Rightarrow> bool" where
  "gxUINT32_less a b \<longleftrightarrow> gxUINT32_operand a < gxUINT32_operand b"

definition gxUINT32_greater :: "operand \<Rightarrow> operand \<Rightarrow> bool" where
  "gxUINT32_greater a b \<longleftrightarrow> gxUINT32_operand a > gxUINT32_operand b"

definition gxUINT32_less_equal :: "operand \<Rightarrow> operand \<Rightarrow> bool" where
  "gxUINT32_less_equal a b \<longleftrightarrow>
     gxUINT32_operand a = gxUINT32_operand b \<or> gxUINT32_operand a < gxUINT32_operand b"

definition gxUINT32_greater_equal :: "operand \<Rightarrow> operand \<Rightarrow> bool" where
  "gxUINT32_greater_equal a b \<longleftrightarrow>
     gxUINT32_operand a = gxUINT32_operand b \<or> gxUINT32_operand a > gxUINT32_operand b"

definition gxUINT32_assign :: "int \<Rightarrow> byte list" where
  "gxUINT32_assign v = gxUINT32_UnPackBits v"

definition gxUINT32_arith :: "arith \<Rightarrow> byte list \<Rightarrow> operand \<Rightarrow> byte list option" where
  "gxUINT32_arith op this i = map_option gxUINT32_assign
     (case op of Plus \<Rightarrow> in_ulong (gxUINT32_PackBits this + gxUINT32_operand i)
      | Minus \<Rightarrow> in_ulong (gxUINT32_PackBits this - gxUINT32_operand i)
      | Times \<Rightarrow> in_ulong (gxUINT32_PackBits this * gxUINT32_operand i))"

definition gxUINT32_divide :: "byte list \<Rightarrow> operand \<Rightarrow> byte list option" where
  "gxUINT32_divide this i =
     (if (case i of Obj b \<Rightarrow> gxUINT32_PackBits b = gxUINT32_PackBits (gxUINT32_UnPackBits 0)
          | Native n \<Rightarrow> native_value n = 0)
      then Some this
      else if gxUINT32_operand i = 0 then None
      else map_option gxUINT32_assign (in_ulong (gxUINT32_PackBits this sdiv gxUINT32_operand i)))"

definition gxUINT32_increment :: "byte list \<Rightarrow> (byte list \<times> byte list) option" where
  "gxUINT32_increment this =
     map_option (\<lambda>v. (this, gxUINT32_assign v)) (in_ulong (gxUINT32_PackBits this + 1))"

definition gxUINT32_decrement :: "byte list \<Rightarrow> (byte list \<times> byte list) option" where
  "gxUINT32_decrement this =
     map_option (\<lambda>v. (this, gxUINT32_assign v)) (in_ulong (gxUINT32_PackBits this - 1))"

lemmas gxUINT32_compare_defs =
  gxUINT32_equal_def gxUINT32_not_equal_def gxUINT32_less_def gxUINT32_greater_def
  gxUINT32_less_equal_def gxUINT32_greater_equal_def

section \<open>gxINT64\<close>

fun gxINT64_operand :: "operand \<Rightarrow> int" where
  "gxINT64_operand (Obj b) = gxINT64_PackBits b"
| "gxINT64_operand (Native (LLWORD v)) = v"
| "gxINT64_operand (Native n) = to_s64 (native_value n)"

definition gxINT64_equal :: "operand \<Rightarrow> operand \<Rightarrow> bool" where
  "gxINT64_equal a b \<longleftrightarrow> gxINT64_operand a = gxINT64_operand b"

definition gxINT64_not_equal :: "operand \<Rightarrow> operand \<Rightarrow> bool" where
  "gxINT64_not_equal a b \<longleftrightarrow> gxINT64_operand a \<noteq> gxINT64_operand b"

definition gxINT64_less :: "operand \<Rightarrow> operand \<Rightarrow> bool" where
  "gxINT64_less a b \<longleftrightarrow> gxINT64_operand a < gxINT64_operand b"

definition gxINT64_greater :: "operand \<Rightarrow> operand \<Rightarrow> bool" where
  "gxINT64_greater a b \<longleftrightarrow> gxINT64_operand a > gxINT64_operand b"

definition gxINT64_less_equal :: "operand \<Rightarrow> operand \<Rightarrow> bool" where
  "gxINT64_less_equal a b \<longleftrightarrow>
     gxINT64_operand a = gxINT64_operand b \<or> gxINT64_operand a < gxINT64_operand b"

definition gxINT64_greater_equal :: "operand \<Rightarrow> operand \<Rightarrow> bool" where
  "gxINT64_greater_equal a b \<longleftrightarrow>
     gxINT64_operand a = gxINT64_operand b \<or> gxINT64_operand a > gxINT64_operand b"

definition gxINT64_assign :: "int \<Rightarrow> byte list" where
  "gxINT64_assign v = gxINT64_UnPackBits v"

definition gxINT64_arith :: "arith \<Rightarrow> byte list \<Rightarrow> operand \<Rightarrow> byte list option" where
  "gxINT64_arith op this i = map_option gxINT64_assign
     (case op of Plus \<Rightarrow> in_long (gxINT64_PackBits this + gxINT64_operand i)
      | Minus \<Rightarrow> in_long (gxINT64_PackBits this - gxINT64_operand i)
      | Times \<Rightarrow> in_long (gxINT64_PackBits this * gxINT64_operand i))"

definition gxINT64_divide :: "byte list \<Rightarrow> operand \<Rightarrow> byte list option" where
  "gxINT64_divide this i =
     (if (case i of Obj b \<Rightarrow> gxINT64_PackBits b = gxINT64_PackBits (gxINT64_UnPackBits 0)
          | Native n \<Rightarrow> native_value n = 0)
      then Some this
      else if gxINT64_operand i = 0 then None
      else map_option gxINT64_assign (in_long (gxINT64_PackBits this sdiv gxINT64_operand i)))"

definition gxINT64_increment :: "byte list \<Rightarrow> (byte list \<times> byte list) option" where
  "gxINT64_increment this =
     map_option (\<lambda>v. (this, gxINT64_assign v)) (in_long (gxINT64_PackBits this + 1))"

definition gxINT64_decrement :: "byte list \<Rightarrow> (byte list \<times> byte list) option" where
  "gxINT64_decrement this =
     map_option (\<lambda>v. (this, gxINT64_assign v)) (in_long (gxINT64_PackBits this - 1))"

lemmas gxINT64_compare_defs =
  gxINT64_equal_def gxINT64_not_equal_def gxINT64_less_def gxINT64_greater_def
  gxINT64_less_equal_def gxINT64_greater_equal_def

section \<open>gxUINT64\<close>

fun gxUINT64_operand :: "operand \<Rightarrow> int" where
  "gxUINT64_operand (Obj b) = gxUINT64_PackBits b"
| "gxUINT64_operand (Native (ULLWORD v)) = v"
| "gxUINT64_operand (Native n) = to_u64 (native_value n)"

definition gxUINT64_equal :: "operand \<Rightarrow> operand \<Rightarrow> bool" where
  "gxUINT64_equal a b \<longleftrightarrow> gxUINT64_operand a = gxUINT64_operand b"

definition gxUINT64_not_equal :: "operand \<Rightarrow> operand \<Rightarrow> bool" where
  "gxUINT64_not_equal a b \<longleftrightarrow> gxUINT64_operand a \<noteq> gxUINT64_operand b"

definition gxUINT64_less :: "operand \<Rightarrow> operand \<Rightarrow> bool" where
  "gxUINT64_less a b \<longleftrightarrow> gxUINT64_operand a < gxUINT64_operand b"

definition gxUINT64_greater :: "operand \<Rightarrow> operand \<Rightarrow> bool" where
  "gxUINT64_greater a b \<longleftrightarrow> gxUINT64_operand a > gxUINT64_operand b"

definition gxUINT64_less_equal :: "operand \<Rightarrow> operand \<Rightarrow> bool" where
  "gxUINT64_less_equal a b \<longleftrightarrow>
     gxUINT64_operand a = gxUINT64_operand b \<or> gxUINT64_operand a < gxUINT64_operand b"

definition gxUINT64_greater_equal :: "operand \<Rightarrow> operand \<Rightarrow> bool" where
  "gxUINT64_greater_equal a b \<longleftrightarrow>
     gxUINT64_operand a = gxUINT64_operand b \<or> gxUINT64_operand a > gxUINT64_operand b"

definition gxUINT64_assign :: "int \<Rightarrow> byte list" where
  "gxUINT64_assign v = gxUINT64_UnPackBits v"

definition gxUINT64_arith :: "arith \<Rightarrow> byte list \<Rightarrow> operand \<Rightarrow> byte list option" where
  "gxUINT64_arith op this i = map_option gxUINT64_assign
     (case op of Plus \<Rightarrow> in_ulong (gxUINT64_PackBits this + gxUINT64_operand i)
      | Minus \<Rightarrow> in_ulong (gxUINT64_PackBits this - gxUINT64_operand i)
      | Times \<Rightarrow> in_ulong (gxUINT64_PackBits this * gxUINT64_operand i))"

definition gxUINT64_divide :: "byte list \<Rightarrow> operand \<Rightarrow> byte list option" where
  "gxUINT64_divide this i =
     (if (case i of Obj b \<Rightarrow> gxUINT64_PackBits b = gxUINT64_PackBits (gxUINT64_UnPackBits 0)
          | Native n \<Rightarrow> native_value n = 0)
      then Some this
      else if gxUINT64_operand i = 0 then None
      else map_option gxUINT64_assign (in_ulong (gxUINT64_PackBits this sdiv gxUINT64_operand i)))"

definition gxUINT64_increment :: "byte list \<Rightarrow> (byte list \<times> byte list) option" where
  "gxUINT64_increment this =
     map_option (\<lambda>v. (this, gxUINT64_assign v)) (in_ulong (gxUINT64_PackBits this + 1))"

definition gxUINT64_decrement :: "byte list \<Rightarrow> (byte list \<times> byte list) option" where
  "gxUINT64_decrement this =
     map_option (\<lambda>v. (this, gxUINT64_assign v)) (in_ulong (gxUINT64_PackBits this - 1))"

lemmas gxUINT64_compare_defs =
  gxUINT64_equal_def gxUINT64_not_equal_def gxUINT64_less_def gxUINT64_greater_def
  gxUINT64_less_equal_def gxUINT64_greater_equal_def
section \<open>Decimal strings of the 64-bit classes\<close>

text \<open>\<open>std::to_string\<close>, and \<open>std::strtoll\<close> and \<open>std::strtoull\<close> in base 10.\<close>

fun dec_digits :: "nat \<Rightarrow> string" where
  "dec_digits n =
     (if n < 10 then [char_of (48 + n)] else dec_digits (n div 10) @ [char_of (48 + n mod 10)])"

declare dec_digits.simps [simp del]

definition to_string :: "int \<Rightarrow> string" where
  "to_string v = (if v < 0 then CHR ''-'' # dec_digits (nat (- v)) else dec_digits (nat v))"

definition is_space :: "char \<Rightarrow> bool" where
  "is_space c \<longleftrightarrow> of_char c \<in> {9, 10, 11, 12, 13, 32::nat}"

definition is_digit :: "char \<Rightarrow> bool" where
  "is_digit c \<longleftrightarrow> 48 \<le> (of_char c :: nat) \<and> (of_char c :: nat) \<le> 57"

definition digits_value :: "string \<Rightarrow> nat" where
  "digits_value cs = foldl (\<lambda>n c. 10 * n + (of_char c - 48)) 0 cs"

text \<open>The sign and the magnitude after the leading white space; what follows the digits is ignored.\<close>

definition scan_number :: "string \<Rightarrow> bool \<times> nat" where
  "scan_number s =
     (case dropWhile is_space s of
        c # cs \<Rightarrow>
          if c = CHR ''-'' then (True, digits_value (takeWhile is_digit cs))
          else if c = CHR ''+'' then (False, digits_value (takeWhile is_digit cs))
          else (False, digits_value (takeWhile is_digit (c # cs)))
      | [] \<Rightarrow> (False, 0))"

definition strtoll :: "string \<Rightarrow> int" where
  "strtoll s =
     (case scan_number s of (neg, n) \<Rightarrow>
        if neg then max (- (2 ^ 63)) (- int n) else min (2 ^ 63 - 1) (int n))"

definition strtoull :: "string \<Rightarrow> int" where
  "strtoull s =
     (case scan_number s of (neg, n) \<Rightarrow>
        if int n \<ge> 2 ^ 64 then 2 ^ 64 - 1 else if neg then to_u64 (- int n) else int n)"

definition gxINT64_str :: "byte list \<Rightarrow> string" where
  "gxINT64_str this = to_string (gxINT64_PackBits this)"

definition gxINT64_FromString :: "string \<Rightarrow> byte list" where
  "gxINT64_FromString s = gxINT64_assign (strtoll s)"

definition gxUINT64_str :: "byte list \<Rightarrow> string" where
  "gxUINT64_str this = to_string (gxUINT64_PackBits this)"

definition gxUINT64_FromString :: "string \<Rightarrow> byte list" where
  "gxUINT64_FromString s = gxUINT64_assign (strtoull s)"

text \<open>
  \<open>operator>>\<close> reads one word with \<open>os >> sbuf\<close> (white space skipped, then everything up to the
  next white space) and parses it; the rest of the stream is left. An empty read gives
  \<open>FromString\<close> the empty string, which is 0.
\<close>

definition read_word :: "string \<Rightarrow> string \<times> string" where
  "read_word s =
     (let t = dropWhile is_space s
      in (takeWhile (\<lambda>c. \<not> is_space c) t, dropWhile (\<lambda>c. \<not> is_space c) t))"

definition gxINT64_extract :: "string \<Rightarrow> byte list \<times> string" where
  "gxINT64_extract os = (case read_word os of (w, rest) \<Rightarrow> (gxINT64_FromString w, rest))"

definition gxUINT64_extract :: "string \<Rightarrow> byte list \<times> string" where
  "gxUINT64_extract os = (case read_word os of (w, rest) \<Rightarrow> (gxUINT64_FromString w, rest))"

definition gxINT64_insert :: "string \<Rightarrow> byte list \<Rightarrow> string" where
  "gxINT64_insert os this = os @ gxINT64_str this"

definition gxUINT64_insert :: "string \<Rightarrow> byte list \<Rightarrow> string" where
  "gxUINT64_insert os this = os @ gxUINT64_str this"


text \<open>
  The class \<open>gxFLOAT64\<close> of \<open>src/src/gxfloat.cpp\<close>: eight bytes that hold a \<open>double\<close>, highest byte first
  in the modelled build. A \<open>double\<close> is the unsigned value of its 64 bits (IEEE 754 binary64); two of
  them are compared as their sign and magnitude unless one is not a number, and an integer operand
  is converted to the nearest \<open>double\<close>, ties to even. The arithmetic operators are the hardware's and
  are left out.
\<close>

section \<open>Native doubles\<close>

definition dbl_magnitude :: "int \<Rightarrow> int" where
  "dbl_magnitude d = d mod 2 ^ 63"

definition dbl_is_nan :: "int \<Rightarrow> bool" where
  "dbl_is_nan d \<longleftrightarrow> dbl_magnitude d > 2047 * 2 ^ 52"

definition dbl_rank :: "int \<Rightarrow> int" where
  "dbl_rank d = (if d < 2 ^ 63 then dbl_magnitude d else - dbl_magnitude d)"

definition dbl_equal :: "int \<Rightarrow> int \<Rightarrow> bool" where
  "dbl_equal a b \<longleftrightarrow> \<not> dbl_is_nan a \<and> \<not> dbl_is_nan b \<and> dbl_rank a = dbl_rank b"

definition dbl_less :: "int \<Rightarrow> int \<Rightarrow> bool" where
  "dbl_less a b \<longleftrightarrow> \<not> dbl_is_nan a \<and> \<not> dbl_is_nan b \<and> dbl_rank a < dbl_rank b"

function bit_length :: "int \<Rightarrow> nat" where
  "bit_length n = (if n \<le> 0 then 0 else Suc (bit_length (n div 2)))"
  by pat_completeness auto
termination by (relation "measure nat") auto

declare bit_length.simps [simp del]

text \<open>The significand is rounded to 53 bits; a carry out of it goes to the exponent.\<close>

definition round_significand :: "int \<Rightarrow> nat \<Rightarrow> int" where
  "round_significand n k =
     (if k \<le> 53 then n * 2 ^ (53 - k)
      else let s = k - 53; q = n div 2 ^ s; r = n mod 2 ^ s; half = 2 ^ (s - 1)
           in if r > half \<or> r = half \<and> odd q then q + 1 else q)"

definition dbl_of_int :: "int \<Rightarrow> int" where
  "dbl_of_int v =
     (if v = 0 then 0
      else let k = bit_length (abs v)
           in (if v < 0 then 2 ^ 63 else 0) + (1022 + int k) * 2 ^ 52 +
              (round_significand (abs v) k - 2 ^ 52))"

section \<open>The class\<close>

definition gxFLOAT64_UnPackBits :: "int \<Rightarrow> byte list" where
  "gxFLOAT64_UnPackBits val = rev (le_bytes 8 val)"

definition gxFLOAT64_PackBits :: "byte list \<Rightarrow> int" where
  "gxFLOAT64_PackBits byte = le_val (rev byte)"

datatype foperand = FObj "byte list" | FDouble int | FInt native

fun gxFLOAT64_operand :: "foperand \<Rightarrow> int" where
  "gxFLOAT64_operand (FObj b) = gxFLOAT64_PackBits b"
| "gxFLOAT64_operand (FDouble d) = d"
| "gxFLOAT64_operand (FInt n) = dbl_of_int (native_value n)"

definition gxFLOAT64_equal :: "foperand \<Rightarrow> foperand \<Rightarrow> bool" where
  "gxFLOAT64_equal a b \<longleftrightarrow> dbl_equal (gxFLOAT64_operand a) (gxFLOAT64_operand b)"

definition gxFLOAT64_not_equal :: "foperand \<Rightarrow> foperand \<Rightarrow> bool" where
  "gxFLOAT64_not_equal a b \<longleftrightarrow> \<not> dbl_equal (gxFLOAT64_operand a) (gxFLOAT64_operand b)"

definition gxFLOAT64_less :: "foperand \<Rightarrow> foperand \<Rightarrow> bool" where
  "gxFLOAT64_less a b \<longleftrightarrow> dbl_less (gxFLOAT64_operand a) (gxFLOAT64_operand b)"

definition gxFLOAT64_greater :: "foperand \<Rightarrow> foperand \<Rightarrow> bool" where
  "gxFLOAT64_greater a b \<longleftrightarrow> dbl_less (gxFLOAT64_operand b) (gxFLOAT64_operand a)"

definition gxFLOAT64_less_equal :: "foperand \<Rightarrow> foperand \<Rightarrow> bool" where
  "gxFLOAT64_less_equal a b \<longleftrightarrow>
     dbl_equal (gxFLOAT64_operand a) (gxFLOAT64_operand b) \<or>
     dbl_less (gxFLOAT64_operand a) (gxFLOAT64_operand b)"

definition gxFLOAT64_greater_equal :: "foperand \<Rightarrow> foperand \<Rightarrow> bool" where
  "gxFLOAT64_greater_equal a b \<longleftrightarrow>
     dbl_equal (gxFLOAT64_operand a) (gxFLOAT64_operand b) \<or>
     dbl_less (gxFLOAT64_operand b) (gxFLOAT64_operand a)"

interpretation f64: codec gxFLOAT64_UnPackBits gxFLOAT64_PackBits 8 "\<lambda>v. 0 \<le> v \<and> v < 2 ^ 64"
  by unfold_locales (auto simp: gxFLOAT64_UnPackBits_def gxFLOAT64_PackBits_def le_val_le_bytes)

lemma dbl_order:
  "dbl_less a b \<Longrightarrow> \<not> dbl_less b a" "dbl_less a b \<Longrightarrow> dbl_less b c \<Longrightarrow> dbl_less a c"
  "\<not> dbl_is_nan a \<Longrightarrow> \<not> dbl_is_nan b \<Longrightarrow> dbl_less a b \<or> dbl_equal a b \<or> dbl_less b a"
  by (auto simp: dbl_less_def dbl_equal_def)

end
