(* ===== verification/IntProps.thy ===== *)
theory IntProps
  imports IntOps
begin

text \<open>
  What the operators of the portable integer classes compute. The locale \<open>int_class\<close> is what a
  comparison relies on: an operand of the class is read as its value when the value is in the
  range of the class; it is interpreted for the six classes, \<open>gxINT32\<close> with the range
  \<open>0 .. 2 ^ 32 - 1\<close> that its \<open>PackBits\<close> has in the modelled build.
\<close>

section \<open>Reading an operand\<close>

locale int_class =
  fixes obj :: "int \<Rightarrow> byte list"
    and read :: "operand \<Rightarrow> int"
    and lo hi :: int
  assumes read_obj: "lo \<le> v \<Longrightarrow> v < hi \<Longrightarrow> read (Obj (obj v)) = v"
    and read_native: "native_ok n \<Longrightarrow> lo \<le> native_value n \<Longrightarrow> native_value n < hi \<Longrightarrow>
      read (Native n) = native_value n"
begin

definition stands_for :: "operand \<Rightarrow> int \<Rightarrow> bool" where
  "stands_for a v \<longleftrightarrow> lo \<le> v \<and> v < hi \<and>
     (a = Obj (obj v) \<or> (\<exists>n. a = Native n \<and> native_ok n \<and> native_value n = v))"

lemma read_stands_for: "stands_for a v \<Longrightarrow> read a = v"
  unfolding stands_for_def using read_obj read_native by auto

lemma stands_for_obj: "lo \<le> v \<Longrightarrow> v < hi \<Longrightarrow> stands_for (Obj (obj v)) v"
  by (simp add: stands_for_def)

lemma stands_for_native:
  "native_ok n \<Longrightarrow> lo \<le> native_value n \<Longrightarrow> native_value n < hi \<Longrightarrow>
   stands_for (Native n) (native_value n)"
  by (auto simp: stands_for_def)

lemma obj_inj: "lo \<le> v \<Longrightarrow> v < hi \<Longrightarrow> lo \<le> w \<Longrightarrow> w < hi \<Longrightarrow> obj v = obj w \<Longrightarrow> v = w"
  using read_obj by metis

end

lemma to_s16_bounds: "- (2 ^ 15) \<le> to_s16 x" "to_s16 x < 2 ^ 15"
  by (simp_all add: to_s16_def)

interpretation i16: int_class gxINT16_UnPackBits gxINT16_operand "- (2 ^ 15)" "2 ^ 15"
proof
  show "gxINT16_operand (Obj (gxINT16_UnPackBits v)) = v" if "- (2 ^ 15) \<le> v" "v < 2 ^ 15" for v
    using that by (simp add: s16.dec_enc)
  show "gxINT16_operand (Native n) = native_value n"
    if "native_ok n" "- (2 ^ 15) \<le> native_value n" "native_value n < 2 ^ 15" for n
    using that by (cases n) simp_all
qed

interpretation iu16: int_class gxUINT16_UnPackBits gxUINT16_operand 0 "2 ^ 16"
proof
  show "gxUINT16_operand (Obj (gxUINT16_UnPackBits v)) = v" if "0 \<le> v" "v < 2 ^ 16" for v
    using that by (simp add: u16.dec_enc)
  show "gxUINT16_operand (Native n) = native_value n"
    if "native_ok n" "0 \<le> native_value n" "native_value n < 2 ^ 16" for n
    using that by (cases n) simp_all
qed

interpretation i32: int_class gxINT32_UnPackBits gxINT32_operand 0 "2 ^ 32"
proof
  show "gxINT32_operand (Obj (gxINT32_UnPackBits v)) = v" if "0 \<le> v" "v < 2 ^ 32" for v
    using that by (simp add: gxINT32_wraps)
  show "gxINT32_operand (Native n) = native_value n"
    if "native_ok n" "0 \<le> native_value n" "native_value n < 2 ^ 32" for n
    using that by (cases n) simp_all
qed

interpretation iu32: int_class gxUINT32_UnPackBits gxUINT32_operand 0 "2 ^ 32"
proof
  show "gxUINT32_operand (Obj (gxUINT32_UnPackBits v)) = v" if "0 \<le> v" "v < 2 ^ 32" for v
    using that by (simp add: gxUINT32_wraps)
  show "gxUINT32_operand (Native n) = native_value n"
    if "native_ok n" "0 \<le> native_value n" "native_value n < 2 ^ 32" for n
    using that by (cases n) simp_all
qed

interpretation i64: int_class gxINT64_UnPackBits gxINT64_operand "- (2 ^ 63)" "2 ^ 63"
proof
  show "gxINT64_operand (Obj (gxINT64_UnPackBits v)) = v" if "- (2 ^ 63) \<le> v" "v < 2 ^ 63" for v
    using that by (simp add: gxINT64_wraps)
  show "gxINT64_operand (Native n) = native_value n"
    if "native_ok n" "- (2 ^ 63) \<le> native_value n" "native_value n < 2 ^ 63" for n
    using that by (cases n) simp_all
qed

interpretation iu64: int_class gxUINT64_UnPackBits gxUINT64_operand 0 "2 ^ 64"
proof
  show "gxUINT64_operand (Obj (gxUINT64_UnPackBits v)) = v" if "0 \<le> v" "v < 2 ^ 64" for v
    using that by (simp add: u64.dec_enc)
  show "gxUINT64_operand (Native n) = native_value n"
    if "native_ok n" "0 \<le> native_value n" "native_value n < 2 ^ 64" for n
    using that by (cases n) simp_all
qed

section \<open>Comparisons\<close>

text \<open>The comparison operators of \<open>gxINT64\<close>, the class of every file pointer, order an object
  and a native integer of any type by their values, on either side, when the native value fits
  in 64 signed bits; an unsigned value above that range is taken for a negative one.\<close>

theorem gxINT64_compare:
  assumes "in_s64 v" "native_ok n" "native_value n < 2 ^ 63"
  shows "gxINT64_equal (Obj (gxINT64_UnPackBits v)) (Native n) = (v = native_value n)
     \<and> gxINT64_not_equal (Native n) (Obj (gxINT64_UnPackBits v)) = (native_value n \<noteq> v)
     \<and> gxINT64_less (Obj (gxINT64_UnPackBits v)) (Native n) = (v < native_value n)
     \<and> gxINT64_greater (Obj (gxINT64_UnPackBits v)) (Native n) = (v > native_value n)
     \<and> gxINT64_less_equal (Native n) (Obj (gxINT64_UnPackBits v)) = (native_value n \<le> v)
     \<and> gxINT64_greater_equal (Native n) (Obj (gxINT64_UnPackBits v)) = (native_value n \<ge> v)"
proof -
  have "- (2 ^ 63) \<le> native_value n" using assms(2) by (cases n) simp_all
  then have "gxINT64_operand (Native n) = native_value n"
    using assms by (intro i64.read_native) auto
  moreover have "gxINT64_operand (Obj (gxINT64_UnPackBits v)) = v"
    using assms(1) by (intro i64.read_obj) (auto simp: in_s64_def)
  ultimately show ?thesis by (auto simp only: gxINT64_compare_defs)
qed

theorem gxINT64_compare_witness:
  "gxINT64_less (Obj (gxINT64_UnPackBits (- 5))) (Native (UWORD 7))
   \<and> gxINT64_greater_equal (Native (UWORD 7)) (Obj (gxINT64_UnPackBits (- 5)))"
  using gxINT64_compare [of "- 5" "UWORD 7"] by (simp add: in_s64_def)

text \<open>A \<open>gxINT32\<close> made from a negative number is not equal to that number, compares as greater
  than zero and reads as the number plus \<open>2 ^ 32\<close>: \<open>PackBits\<close> builds the value in the 64 bits of
  \<open>__ULWORD__\<close> and does not extend the sign of the 32 bits that were stored.\<close>

theorem gxINT32_loses_sign:
  assumes "- (2 ^ 31) \<le> v" "v < 0"
  shows "gxINT32_PackBits (gxINT32_UnPackBits v) = v + 2 ^ 32
     \<and> \<not> gxINT32_equal (Obj (gxINT32_UnPackBits v)) (Native (LWORD v))
     \<and> gxINT32_greater (Obj (gxINT32_UnPackBits v)) (Native (LWORD 0))"
proof -
  have "v mod 2 ^ 32 = (v + 2 ^ 32) mod 2 ^ 32" by simp
  also have "\<dots> = v + 2 ^ 32" using assms by (intro mod_pos_pos_trivial) simp_all
  finally have "gxINT32_PackBits (gxINT32_UnPackBits v) = v + 2 ^ 32"
    by (simp only: gxINT32_wraps)
  then show ?thesis using assms by (simp add: gxINT32_equal_def gxINT32_greater_def)
qed

theorem gxINT32_loses_sign_witness:
  "gxINT32_PackBits (gxINT32_UnPackBits (- 1)) = 4294967295"
  using gxINT32_loses_sign [of "- 1"] by simp

section \<open>Arithmetic\<close>

text \<open>Division by a wide divisor whose low 16 bits are zero divides by zero in the 16-bit
  classes: the guard of \<open>/=\<close> looks at the divisor, the division uses the divisor cut to 16
  bits. A divisor that is zero itself leaves the object alone.\<close>

theorem divide_by_truncated_zero:
  assumes "native_value n mod 2 ^ 16 = 0" "native_ok n"
  shows "gxINT16_divide this (Native n) = (if native_value n = 0 then Some this else None)
     \<and> gxUINT16_divide this (Native n) = (if native_value n = 0 then Some this else None)"
proof -
  have s: "to_s16 (native_value n) = 0"
    using assms(1) by (simp add: to_s16_def mod_add_left_eq [symmetric])
  have u: "to_u16 (native_value n) = 0" using assms(1) by (simp add: to_u16_def)
  have "gxINT16_operand (Native n) = 0"
    using s assms by (cases n) simp_all
  moreover have "gxUINT16_operand (Native n) = 0"
    using u assms by (cases n) simp_all
  ultimately show ?thesis by (simp add: gxINT16_divide_def gxUINT16_divide_def)
qed

theorem divide_by_truncated_zero_witness:
  "gxUINT16_divide [7, 0] (Native (LWORD 65536)) = None
   \<and> gxUINT16_divide [7, 0] (Native (LWORD 0)) = Some [7, 0]"
  using divide_by_truncated_zero [of "LWORD 65536" "[7, 0]"]
    divide_by_truncated_zero [of "LWORD 0" "[7, 0]"] by simp

text \<open>The product of two 16-bit unsigned values is formed in \<open>int\<close>, where it can overflow.\<close>

lemma gxUINT16_times_overflows:
  assumes "0 \<le> v" "v < 2 ^ 16" "2 ^ 31 \<le> v * w" "0 \<le> w" "w < 2 ^ 16"
  shows "gxUINT16_arith Times (gxUINT16_UnPackBits v) (Native (USWORD w)) = None"
  using assms by (simp add: gxUINT16_arith_def in_int_def u16.dec_enc)

text \<open>The signed 16-bit product never does.\<close>

lemma gxINT16_times_defined:
  assumes "native_ok n" "length this = 2"
  shows "gxINT16_arith Times this (Native n) \<noteq> None"
proof -
  let ?a = "gxINT16_PackBits this" and ?b = "gxINT16_addend (Native n)"
  have a: "\<bar>?a\<bar> \<le> 2 ^ 15" unfolding gxINT16_PackBits_def by simp
  have b: "\<bar>?b\<bar> < 2 ^ 16"
    using assms(1) to_s16_bounds [of "native_value n"] by (cases n) (auto simp: abs_less_iff)
  have "\<bar>?a * ?b\<bar> \<le> 2 ^ 15 * (2 ^ 16 - 1)"
    unfolding abs_mult using a b by (intro mult_mono) auto
  then show ?thesis by (simp add: gxINT16_arith_def in_int_def abs_le_iff)
qed

lemma gxUINT64_increment_wraps:
  "gxUINT64_increment (gxUINT64_UnPackBits (2 ^ 64 - 1))
   = Some (gxUINT64_UnPackBits (2 ^ 64 - 1), gxUINT64_UnPackBits 0)"
  using u64.dec_enc [of "2 ^ 64 - 1"]
  by (simp add: gxUINT64_increment_def gxUINT64_assign_def in_ulong_def to_u64_def)

section \<open>Decimal strings\<close>

lemma of_char_digit: "m < 10 \<Longrightarrow> (of_char (char_of (48 + m) :: char) :: nat) = 48 + m"
  by (simp add: of_char_of)

lemma digits_value_snoc:
  "m < 10 \<Longrightarrow> digits_value (cs @ [char_of (48 + m)]) = 10 * digits_value cs + m"
  by (simp add: digits_value_def of_char_digit)

lemma digits_value_dec_digits: "digits_value (dec_digits n) = n"
proof (induction n rule: dec_digits.induct)
  case (1 n)
  show ?case
  proof (cases "n < 10")
    case True
    then show ?thesis using digits_value_snoc [of n "[]"]
      by (subst dec_digits.simps) (simp add: digits_value_def)
  next
    case False
    then show ?thesis using 1 digits_value_snoc [of "n mod 10" "dec_digits (n div 10)"]
      by (subst dec_digits.simps) simp
  qed
qed

lemma is_digit_char: "(m::nat) < 10 \<Longrightarrow> is_digit (char_of (48 + m))"
  by (simp add: is_digit_def of_char_digit)

lemma dec_digits_digits: "\<forall>c \<in> set (dec_digits n). is_digit c"
proof (induction n rule: dec_digits.induct)
  case (1 n)
  then show ?case by (subst dec_digits.simps) (auto simp: is_digit_char)
qed

lemma dec_digits_ne: "dec_digits n \<noteq> []"
  by (subst dec_digits.simps) simp

lemma takeWhile_dec_digits: "takeWhile is_digit (dec_digits n) = dec_digits n"
  using dec_digits_digits by (simp add: takeWhile_eq_all_conv)

lemma digit_not_other: "is_digit c \<Longrightarrow> \<not> is_space c \<and> c \<noteq> CHR ''-'' \<and> c \<noteq> CHR ''+''"
  by (auto simp: is_digit_def is_space_def)

lemma scan_number_to_string: "scan_number (to_string v) = (v < 0, nat \<bar>v\<bar>)"
proof (cases "v < 0")
  case True
  then show ?thesis
    by (simp add: scan_number_def to_string_def takeWhile_dec_digits digits_value_dec_digits
        is_space_def)
next
  case False
  obtain c cs where c: "dec_digits (nat v) = c # cs"
    using dec_digits_ne by (cases "dec_digits (nat v)") auto
  then have d: "is_digit c" and tw: "takeWhile is_digit cs = cs"
    using dec_digits_digits [of "nat v"] by (simp_all add: takeWhile_eq_all_conv)
  show ?thesis
    using False c d digits_value_dec_digits [of "nat v"]
    by (simp add: scan_number_def to_string_def digit_not_other tw)
qed

lemma to_string_no_space: "\<forall>c \<in> set (to_string v). \<not> is_space c"
  using dec_digits_digits digit_not_other
  by (auto simp: to_string_def is_space_def)

lemma to_string_ne: "to_string v \<noteq> []"
  by (simp add: to_string_def dec_digits_ne)

lemma read_word_word:
  assumes "\<forall>c \<in> set w. \<not> is_space c" "w \<noteq> []" "rest = [] \<or> is_space (hd rest)"
  shows "read_word (w @ rest) = (w, rest)"
proof -
  have "dropWhile is_space (w @ rest) = w @ rest" using assms(1,2) by (cases w) auto
  moreover have "takeWhile (\<lambda>c. \<not> is_space c) rest = []" "dropWhile (\<lambda>c. \<not> is_space c) rest = rest"
    using assms(3) by (cases rest; simp)+
  ultimately show ?thesis
    using assms(1) by (simp add: read_word_def Let_def takeWhile_append dropWhile_append)
qed

lemma strtoll_to_string: "in_s64 v \<Longrightarrow> strtoll (to_string v) = v"
  by (auto simp: strtoll_def scan_number_to_string in_s64_def)

lemma strtoull_to_string: "0 \<le> v \<Longrightarrow> v < 2 ^ 64 \<Longrightarrow> strtoull (to_string v) = v"
  by (auto simp: strtoull_def scan_number_to_string le_nat_iff)

lemma le_bytes_cong:
  assumes "v mod 256 ^ n = w mod 256 ^ n"
  shows "le_bytes n v = le_bytes n w"
proof -
  have norm: "le_bytes n x = le_bytes n (x mod 256 ^ n)" for x
    using le_bytes_le_val [of "le_bytes n x"] by (simp add: le_val_le_bytes)
  show ?thesis using norm [of v] norm [of w] assms by simp
qed

text \<open>C15: a 64-bit object written to a stream and followed by white space or the end is read back
  byte for byte by the extraction operator, which leaves the rest of the stream.\<close>

theorem decimal_roundtrip:
  assumes "length this = 8" "rest = [] \<or> is_space (hd rest)"
  shows "gxINT64_extract (gxINT64_insert [] this @ rest) = (this, rest)
     \<and> gxUINT64_extract (gxUINT64_insert [] this @ rest) = (this, rest)"
proof -
  have s: "in_s64 (gxINT64_PackBits this)" by (rule in_s64_PackBits)
  have u: "gxUINT64_PackBits this = le_val this" using assms(1) by (simp add: pack_le)
  have b: "0 \<le> le_val this" "le_val this < 2 ^ 64" using le_val_bounds [of this] assms(1) by simp_all
  have "gxUINT64_UnPackBits (le_val this) = this"
    using le_bytes_le_val [of this] assms(1) by (simp add: unpack64_le)
  moreover have "gxINT64_UnPackBits (gxINT64_PackBits this) = this"
  proof -
    have "le_bytes 8 (to_s64 (le_val this)) = le_bytes 8 (le_val this)"
      by (rule le_bytes_cong) (simp add: to_s64_def mod_diff_left_eq)
    then show ?thesis using le_bytes_le_val [of this] assms(1) by (simp add: unpack64_le pack_le)
  qed
  ultimately show ?thesis
    using s u b assms(2)
    by (simp add: gxINT64_extract_def gxUINT64_extract_def gxINT64_insert_def gxUINT64_insert_def
        gxINT64_str_def gxUINT64_str_def read_word_word to_string_no_space to_string_ne
        gxINT64_FromString_def gxUINT64_FromString_def gxINT64_assign_def gxUINT64_assign_def
        strtoll_to_string strtoull_to_string)
qed

theorem decimal_roundtrip_witness:
  "gxINT64_extract (gxINT64_insert [] (gxINT64_UnPackBits (- 42)) @ '' 7'')
   = (gxINT64_UnPackBits (- 42), '' 7'')"
  using decimal_roundtrip [of "gxINT64_UnPackBits (- 42)" "'' 7''"]
  by (simp add: unpack64_le is_space_def)

end
