(* ===== verification/Headers.thy ===== *)
theory Headers
  imports FixedInts
begin

text \<open>
  The error codes of \<open>include/gxderror.h\<close> and the constants and on-disk structures of
  \<open>include/gxheader.h\<close> in the 64-bit engine: the file header, the block header, the file and
  record lock headers and the file statistics header. Each structure is a record of native
  values with the byte layout it has on disk (fixed layout types only, so no padding); every
  layout is a \<open>codec\<close>.
\<close>

text \<open>
  The enumeration is its ordinal, as in C++; the enumerators are named in the order of the
  header.
\<close>

datatype gxDatabaseError = gxDatabaseErrorCode nat

abbreviation (input) gxDBASE_NO_ERROR :: gxDatabaseError where "gxDBASE_NO_ERROR \<equiv> gxDatabaseErrorCode 0"
abbreviation (input) gxDBASE_INVALID_CODE :: gxDatabaseError where "gxDBASE_INVALID_CODE \<equiv> gxDatabaseErrorCode 1"
abbreviation (input) gxDBASE_ACCESS_DELETED :: gxDatabaseError where "gxDBASE_ACCESS_DELETED \<equiv> gxDatabaseErrorCode 2"
abbreviation (input) gxDBASE_ACCESS_VIOLATION :: gxDatabaseError where "gxDBASE_ACCESS_VIOLATION \<equiv> gxDatabaseErrorCode 3"
abbreviation (input) gxDBASE_ASSERT_ERROR :: gxDatabaseError where "gxDBASE_ASSERT_ERROR \<equiv> gxDatabaseErrorCode 4"
abbreviation (input) gxDBASE_BAD_CLASS_ID :: gxDatabaseError where "gxDBASE_BAD_CLASS_ID \<equiv> gxDatabaseErrorCode 5"
abbreviation (input) gxDBASE_BAD_KEY :: gxDatabaseError where "gxDBASE_BAD_KEY \<equiv> gxDatabaseErrorCode 6"
abbreviation (input) gxDBASE_BAD_OBJECT_ADDRESS :: gxDatabaseError where "gxDBASE_BAD_OBJECT_ADDRESS \<equiv> gxDatabaseErrorCode 7"
abbreviation (input) gxDBASE_BAD_REFERENCE :: gxDatabaseError where "gxDBASE_BAD_REFERENCE \<equiv> gxDatabaseErrorCode 8"
abbreviation (input) gxDBASE_BLOCK_ALLOC_ERROR :: gxDatabaseError where "gxDBASE_BLOCK_ALLOC_ERROR \<equiv> gxDatabaseErrorCode 9"
abbreviation (input) gxDBASE_BUFFER_OVERFLOW :: gxDatabaseError where "gxDBASE_BUFFER_OVERFLOW \<equiv> gxDatabaseErrorCode 10"
abbreviation (input) gxDBASE_CACHE_ERROR :: gxDatabaseError where "gxDBASE_CACHE_ERROR \<equiv> gxDatabaseErrorCode 11"
abbreviation (input) gxDBASE_CACHE_FULL :: gxDatabaseError where "gxDBASE_CACHE_FULL \<equiv> gxDatabaseErrorCode 12"
abbreviation (input) gxDBASE_CHECKSUM_ERROR :: gxDatabaseError where "gxDBASE_CHECKSUM_ERROR \<equiv> gxDatabaseErrorCode 13"
abbreviation (input) gxDBASE_DIVIDEBY_ZERO :: gxDatabaseError where "gxDBASE_DIVIDEBY_ZERO \<equiv> gxDatabaseErrorCode 14"
abbreviation (input) gxDBASE_DUPLICATE_ENTRY :: gxDatabaseError where "gxDBASE_DUPLICATE_ENTRY \<equiv> gxDatabaseErrorCode 15"
abbreviation (input) gxDBASE_ENTRY_NOT_FOUND :: gxDatabaseError where "gxDBASE_ENTRY_NOT_FOUND \<equiv> gxDatabaseErrorCode 16"
abbreviation (input) gxDBASE_EOF_ERROR :: gxDatabaseError where "gxDBASE_EOF_ERROR \<equiv> gxDatabaseErrorCode 17"
abbreviation (input) gxDBASE_FILE_CLOSE_ERROR :: gxDatabaseError where "gxDBASE_FILE_CLOSE_ERROR \<equiv> gxDatabaseErrorCode 18"
abbreviation (input) gxDBASE_FILE_CORRUPT :: gxDatabaseError where "gxDBASE_FILE_CORRUPT \<equiv> gxDatabaseErrorCode 19"
abbreviation (input) gxDBASE_FILE_CREATION_ERROR :: gxDatabaseError where "gxDBASE_FILE_CREATION_ERROR \<equiv> gxDatabaseErrorCode 20"
abbreviation (input) gxDBASE_FILE_EXISTS :: gxDatabaseError where "gxDBASE_FILE_EXISTS \<equiv> gxDatabaseErrorCode 21"
abbreviation (input) gxDBASE_FILE_NOT_OPEN_ERROR :: gxDatabaseError where "gxDBASE_FILE_NOT_OPEN_ERROR \<equiv> gxDatabaseErrorCode 22"
abbreviation (input) gxDBASE_FILE_NOT_READY :: gxDatabaseError where "gxDBASE_FILE_NOT_READY \<equiv> gxDatabaseErrorCode 23"
abbreviation (input) gxDBASE_FILE_NOT_WRITEABLE :: gxDatabaseError where "gxDBASE_FILE_NOT_WRITEABLE \<equiv> gxDatabaseErrorCode 24"
abbreviation (input) gxDBASE_FILE_OPEN_ERROR :: gxDatabaseError where "gxDBASE_FILE_OPEN_ERROR \<equiv> gxDatabaseErrorCode 25"
abbreviation (input) gxDBASE_FILE_POSITION_ERROR :: gxDatabaseError where "gxDBASE_FILE_POSITION_ERROR \<equiv> gxDatabaseErrorCode 26"
abbreviation (input) gxDBASE_FILE_READ_ERROR :: gxDatabaseError where "gxDBASE_FILE_READ_ERROR \<equiv> gxDatabaseErrorCode 27"
abbreviation (input) gxDBASE_FILE_SEEK_ERROR :: gxDatabaseError where "gxDBASE_FILE_SEEK_ERROR \<equiv> gxDatabaseErrorCode 28"
abbreviation (input) gxDBASE_FILE_WRITE_ERROR :: gxDatabaseError where "gxDBASE_FILE_WRITE_ERROR \<equiv> gxDatabaseErrorCode 29"
abbreviation (input) gxDBASE_INSERTION_ERROR :: gxDatabaseError where "gxDBASE_INSERTION_ERROR \<equiv> gxDatabaseErrorCode 30"
abbreviation (input) gxDBASE_MEM_ALLOC_ERROR :: gxDatabaseError where "gxDBASE_MEM_ALLOC_ERROR \<equiv> gxDatabaseErrorCode 31"
abbreviation (input) gxDBASE_NO_DATABASE_OPEN :: gxDatabaseError where "gxDBASE_NO_DATABASE_OPEN \<equiv> gxDatabaseErrorCode 32"
abbreviation (input) gxDBASE_NO_FILE_EXISTS :: gxDatabaseError where "gxDBASE_NO_FILE_EXISTS \<equiv> gxDatabaseErrorCode 33"
abbreviation (input) gxDBASE_NO_OBJECTS_EXIST :: gxDatabaseError where "gxDBASE_NO_OBJECTS_EXIST \<equiv> gxDatabaseErrorCode 34"
abbreviation (input) gxDBASE_NULL_PTR :: gxDatabaseError where "gxDBASE_NULL_PTR \<equiv> gxDatabaseErrorCode 35"
abbreviation (input) gxDBASE_OBJECT_EXISTS :: gxDatabaseError where "gxDBASE_OBJECT_EXISTS \<equiv> gxDatabaseErrorCode 36"
abbreviation (input) gxDBASE_OBJECT_NOT_FOUND :: gxDatabaseError where "gxDBASE_OBJECT_NOT_FOUND \<equiv> gxDatabaseErrorCode 37"
abbreviation (input) gxDBASE_OPEN_FILE_REFERENCE :: gxDatabaseError where "gxDBASE_OPEN_FILE_REFERENCE \<equiv> gxDatabaseErrorCode 38"
abbreviation (input) gxDBASE_OVERFLOW :: gxDatabaseError where "gxDBASE_OVERFLOW \<equiv> gxDatabaseErrorCode 39"
abbreviation (input) gxDBASE_PARSE_ERROR :: gxDatabaseError where "gxDBASE_PARSE_ERROR \<equiv> gxDatabaseErrorCode 40"
abbreviation (input) gxDBASE_PATH_ERROR :: gxDatabaseError where "gxDBASE_PATH_ERROR \<equiv> gxDatabaseErrorCode 41"
abbreviation (input) gxDBASE_READ_ONLY_FILE :: gxDatabaseError where "gxDBASE_READ_ONLY_FILE \<equiv> gxDatabaseErrorCode 42"
abbreviation (input) gxDBASE_STACK_EMPTY :: gxDatabaseError where "gxDBASE_STACK_EMPTY \<equiv> gxDatabaseErrorCode 43"
abbreviation (input) gxDBASE_STACK_FULL :: gxDatabaseError where "gxDBASE_STACK_FULL \<equiv> gxDatabaseErrorCode 44"
abbreviation (input) gxDBASE_SYNC_ERROR :: gxDatabaseError where "gxDBASE_SYNC_ERROR \<equiv> gxDatabaseErrorCode 45"
abbreviation (input) gxDBASE_UNDERFLOW :: gxDatabaseError where "gxDBASE_UNDERFLOW \<equiv> gxDatabaseErrorCode 46"
abbreviation (input) gxDBASE_WRONG_FILE_TYPE :: gxDatabaseError where "gxDBASE_WRONG_FILE_TYPE \<equiv> gxDatabaseErrorCode 47"
abbreviation (input) gxDBASE_INVALID_LOCK_TYPE :: gxDatabaseError where "gxDBASE_INVALID_LOCK_TYPE \<equiv> gxDatabaseErrorCode 48"
abbreviation (input) gxDBASE_FILELOCK_ACCESS_ERROR :: gxDatabaseError where "gxDBASE_FILELOCK_ACCESS_ERROR \<equiv> gxDatabaseErrorCode 49"
abbreviation (input) gxDBASE_FILELOCK_ERROR :: gxDatabaseError where "gxDBASE_FILELOCK_ERROR \<equiv> gxDatabaseErrorCode 50"
abbreviation (input) gxDBASE_RECORDLOCK_ACCESS_ERROR :: gxDatabaseError where "gxDBASE_RECORDLOCK_ACCESS_ERROR \<equiv> gxDatabaseErrorCode 51"
abbreviation (input) gxDBASE_RECORDLOCK_ERROR :: gxDatabaseError where "gxDBASE_RECORDLOCK_ERROR \<equiv> gxDatabaseErrorCode 52"
abbreviation (input) gxDBASE_BAD_HEADER :: gxDatabaseError where "gxDBASE_BAD_HEADER \<equiv> gxDatabaseErrorCode 53"
abbreviation (input) gxDBASE_REV_MISMATCH :: gxDatabaseError where "gxDBASE_REV_MISMATCH \<equiv> gxDatabaseErrorCode 54"
abbreviation (input) gxDBASE_VER_MISMATCH :: gxDatabaseError where "gxDBASE_VER_MISMATCH \<equiv> gxDatabaseErrorCode 55"
abbreviation (input) gxDBASE_DBEOF_ERROR :: gxDatabaseError where "gxDBASE_DBEOF_ERROR \<equiv> gxDatabaseErrorCode 56"
abbreviation (input) gxDBASE_HEAPSTART_ERROR :: gxDatabaseError where "gxDBASE_HEAPSTART_ERROR \<equiv> gxDatabaseErrorCode 57"
abbreviation (input) gxDBASE_FREESPACE_ERROR :: gxDatabaseError where "gxDBASE_FREESPACE_ERROR \<equiv> gxDatabaseErrorCode 58"
abbreviation (input) gxDBASE_HIGHBLOCK_ERROR :: gxDatabaseError where "gxDBASE_HIGHBLOCK_ERROR \<equiv> gxDatabaseErrorCode 59"
abbreviation (input) gxDBASE_NOBLOCK_ERROR :: gxDatabaseError where "gxDBASE_NOBLOCK_ERROR \<equiv> gxDatabaseErrorCode 60"
abbreviation (input) gxDBASE_BADBLOCK_ERROR :: gxDatabaseError where "gxDBASE_BADBLOCK_ERROR \<equiv> gxDatabaseErrorCode 61"
abbreviation (input) gxDBASE_INVALID_FILE :: gxDatabaseError where "gxDBASE_INVALID_FILE \<equiv> gxDatabaseErrorCode 62"
abbreviation (input) gxDBASE_BAD_TABLE :: gxDatabaseError where "gxDBASE_BAD_TABLE \<equiv> gxDatabaseErrorCode 63"
abbreviation (input) gxDBASE_BAD_TABLE_DEF :: gxDatabaseError where "gxDBASE_BAD_TABLE_DEF \<equiv> gxDatabaseErrorCode 64"
abbreviation (input) gxDBASE_BAD_TABLE_FIELD :: gxDatabaseError where "gxDBASE_BAD_TABLE_FIELD \<equiv> gxDatabaseErrorCode 65"
abbreviation (input) gxDBASE_BAD_TABLE_HEADER :: gxDatabaseError where "gxDBASE_BAD_TABLE_HEADER \<equiv> gxDatabaseErrorCode 66"
abbreviation (input) gxDBASE_BAD_TABLE_ID :: gxDatabaseError where "gxDBASE_BAD_TABLE_ID \<equiv> gxDatabaseErrorCode 67"
abbreviation (input) gxDBASE_BAD_RECORD :: gxDatabaseError where "gxDBASE_BAD_RECORD \<equiv> gxDatabaseErrorCode 68"
abbreviation (input) gxDBASE_BAD_RECORD_DEF :: gxDatabaseError where "gxDBASE_BAD_RECORD_DEF \<equiv> gxDatabaseErrorCode 69"
abbreviation (input) gxDBASE_BAD_FIELD_TYPE :: gxDatabaseError where "gxDBASE_BAD_FIELD_TYPE \<equiv> gxDatabaseErrorCode 70"
abbreviation (input) gxDBASE_BAD_FIELD_LENGTH :: gxDatabaseError where "gxDBASE_BAD_FIELD_LENGTH \<equiv> gxDatabaseErrorCode 71"
abbreviation (input) gxDBASE_BAD_COL_LENGTH :: gxDatabaseError where "gxDBASE_BAD_COL_LENGTH \<equiv> gxDatabaseErrorCode 72"
abbreviation (input) gxDBASE_RECORD_EXISTS :: gxDatabaseError where "gxDBASE_RECORD_EXISTS \<equiv> gxDatabaseErrorCode 73"
abbreviation (input) gxDBASE_RECORD_NOT_FOUND :: gxDatabaseError where "gxDBASE_RECORD_NOT_FOUND \<equiv> gxDatabaseErrorCode 74"
abbreviation (input) gxDBASE_BAD_KEY_DEF :: gxDatabaseError where "gxDBASE_BAD_KEY_DEF \<equiv> gxDatabaseErrorCode 75"
abbreviation (input) gxDBASE_BAD_FAMILY_DEF :: gxDatabaseError where "gxDBASE_BAD_FAMILY_DEF \<equiv> gxDatabaseErrorCode 76"
abbreviation (input) gxDBASE_BAD_FKEY_DEF :: gxDatabaseError where "gxDBASE_BAD_FKEY_DEF \<equiv> gxDatabaseErrorCode 77"
abbreviation (input) gxDBASE_VIRTUAL_LIST_ERROR :: gxDatabaseError where "gxDBASE_VIRTUAL_LIST_ERROR \<equiv> gxDatabaseErrorCode 78"
abbreviation (input) gxDBASE_BAD_RANGE_LIMIT :: gxDatabaseError where "gxDBASE_BAD_RANGE_LIMIT \<equiv> gxDatabaseErrorCode 79"
abbreviation (input) gxDBASE_ILLEGAL_CHAR :: gxDatabaseError where "gxDBASE_ILLEGAL_CHAR \<equiv> gxDatabaseErrorCode 80"
abbreviation (input) gxDBASE_DATAFILE_EMPTY :: gxDatabaseError where "gxDBASE_DATAFILE_EMPTY \<equiv> gxDatabaseErrorCode 81"
abbreviation (input) gxDBASE_BAD_DATAFILE :: gxDatabaseError where "gxDBASE_BAD_DATAFILE \<equiv> gxDatabaseErrorCode 82"
abbreviation (input) gxDBASE_BAD_DATAFILE_NAME :: gxDatabaseError where "gxDBASE_BAD_DATAFILE_NAME \<equiv> gxDatabaseErrorCode 83"
abbreviation (input) gxDBASE_INDEX_EMPTY :: gxDatabaseError where "gxDBASE_INDEX_EMPTY \<equiv> gxDatabaseErrorCode 84"
abbreviation (input) gxDBASE_BAD_INDEX_FILE :: gxDatabaseError where "gxDBASE_BAD_INDEX_FILE \<equiv> gxDatabaseErrorCode 85"
abbreviation (input) gxDBASE_BAD_INDEX_NUMBER :: gxDatabaseError where "gxDBASE_BAD_INDEX_NUMBER \<equiv> gxDatabaseErrorCode 86"
abbreviation (input) gxDBASE_BAD_INDEX_NAME :: gxDatabaseError where "gxDBASE_BAD_INDEX_NAME \<equiv> gxDatabaseErrorCode 87"
abbreviation (input) gxDBASE_FILE_RENAME_ERROR :: gxDatabaseError where "gxDBASE_FILE_RENAME_ERROR \<equiv> gxDatabaseErrorCode 88"
abbreviation (input) gxDBASE_FILE_DELETE_ERROR :: gxDatabaseError where "gxDBASE_FILE_DELETE_ERROR \<equiv> gxDatabaseErrorCode 89"

section \<open>Constants\<close>

text \<open>A status or control constant is the code of its character; signatures are stored as bytes.\<close>

definition byte_of_char :: "char \<Rightarrow> byte" where
  "byte_of_char c = word_of_int (of_char c)"

definition char_of_byte :: "byte \<Rightarrow> char" where
  "char_of_byte b = char_of (uint b)"

lemma char_of_byte_of_char [simp]: "char_of_byte (byte_of_char c) = c"
proof -
  have "of_char c mod 256 = (of_char c :: int)"
    using of_char_mod_256 [of c] by simp
  then show ?thesis by (simp add: byte_of_char_def char_of_byte_def uint_word_of_int)
qed

definition gxBadBlock :: int where "gxBadBlock = 0x42"
definition gxDeletedBlock :: int where "gxDeletedBlock = 0x44"
definition gxNormalBlock :: int where "gxNormalBlock = 0x4E"
definition gxRemovedBlock :: int where "gxRemovedBlock = 0x52"
definition gxRemoteDeviceBlock :: int where "gxRemoteDeviceBlock = 0x56"

definition gxAddRemoteBlock :: int where "gxAddRemoteBlock = 0x41"
definition gxChangeRemoteBlock :: int where "gxChangeRemoteBlock = 0x43"
definition gxDeleteRemoteBlock :: int where "gxDeleteRemoteBlock = 0x44"
definition gxRequestFailed :: int where "gxRequestFailed = 0x46"
definition gxCloseConnection :: int where "gxCloseConnection = 0x4C"
definition gxKillServer :: int where "gxKillServer = 0x4B"
definition gxRequestBlock :: int where "gxRequestBlock = 0x52"
definition gxSendBlock :: int where "gxSendBlock = 0x53"
definition gxAcknowledgeBlock :: int where "gxAcknowledgeBlock = 0x57"

definition gxMaxNameLength :: nat where "gxMaxNameLength = 1024"
definition gxCheckWord :: int where "gxCheckWord = 0xfefe"
definition gxStartOfFile :: int where "gxStartOfFile = 0"
definition gxCurrAddress :: int where "gxCurrAddress = -1"
definition gxFSListCorrupt :: int where "gxFSListCorrupt = -1"
definition gxSignatureSize :: nat where "gxSignatureSize = 10"

lemmas block_status_defs =
  gxBadBlock_def gxDeletedBlock_def gxNormalBlock_def gxRemovedBlock_def gxRemoteDeviceBlock_def

lemmas address_defs = gxStartOfFile_def gxCurrAddress_def gxFSListCorrupt_def

section \<open>Structures\<close>

record gxFileHeader =
  gxd_fs_fptr :: int
  gxd_eof :: int
  gxd_hs_fptr :: int
  gxd_hb_fptr :: int
  gxd_sig :: "byte list"
  gxd_ver :: int

record gxBlockHeader =
  block_check_word :: int
  block_length :: int
  block_status :: int
  block_nd_fptr :: int

record gxFileLockHeader =
  file_lock_protect :: int
  file_read_lock :: int
  file_write_lock :: int

record gxRecordLockHeader =
  record_lock_protect :: int
  record_read_lock :: int
  record_write_lock :: int

record gxFileStatsHeader =
  num_blocks :: int
  deleted_blocks :: int
  removed_blocks :: int

text \<open>The constructors.\<close>

definition new_gxFileHeader :: gxFileHeader where
  "new_gxFileHeader =
     \<lparr>gxd_fs_fptr = 0, gxd_eof = 0, gxd_hs_fptr = 0, gxd_hb_fptr = 0,
      gxd_sig = replicate gxSignatureSize 0, gxd_ver = 0\<rparr>"

definition new_gxBlockHeader :: gxBlockHeader where
  "new_gxBlockHeader =
     \<lparr>block_check_word = gxCheckWord, block_length = 0, block_status = gxNormalBlock,
      block_nd_fptr = 0\<rparr>"

definition new_gxFileLockHeader :: gxFileLockHeader where
  "new_gxFileLockHeader = \<lparr>file_lock_protect = 0, file_read_lock = 0, file_write_lock = 0\<rparr>"

definition new_gxRecordLockHeader :: gxRecordLockHeader where
  "new_gxRecordLockHeader = \<lparr>record_lock_protect = 0, record_read_lock = 0, record_write_lock = 0\<rparr>"

definition new_gxFileStatsHeader :: gxFileStatsHeader where
  "new_gxFileStatsHeader = \<lparr>num_blocks = 0, deleted_blocks = 0, removed_blocks = 0\<rparr>"

text \<open>The layouts: what \<open>sizeof\<close> counts and what \<open>Read\<close> and \<open>Write\<close> move.\<close>

definition sizeof_gxFileHeader :: nat where "sizeof_gxFileHeader = 50"
definition sizeof_gxBlockHeader :: nat where "sizeof_gxBlockHeader = 20"
definition sizeof_gxFileLockHeader :: nat where "sizeof_gxFileLockHeader = 12"
definition sizeof_gxRecordLockHeader :: nat where "sizeof_gxRecordLockHeader = 12"
definition sizeof_gxFileStatsHeader :: nat where "sizeof_gxFileStatsHeader = 24"
definition sizeof_gxChecksum :: nat where "sizeof_gxChecksum = 4"

lemmas sizeof_defs =
  sizeof_gxFileHeader_def sizeof_gxBlockHeader_def sizeof_gxFileLockHeader_def
  sizeof_gxRecordLockHeader_def sizeof_gxFileStatsHeader_def sizeof_gxChecksum_def

definition enc_sig :: "byte list \<Rightarrow> byte list" where
  "enc_sig s = take 10 (s @ replicate 10 0)"

definition enc_gxFileHeader :: "gxFileHeader \<Rightarrow> byte list" where
  "enc_gxFileHeader h =
     gxINT64_UnPackBits (gxd_fs_fptr h) @ gxINT64_UnPackBits (gxd_eof h) @
     gxINT64_UnPackBits (gxd_hs_fptr h) @ gxINT64_UnPackBits (gxd_hb_fptr h) @
     enc_sig (gxd_sig h) @ gxINT64_UnPackBits (gxd_ver h)"

definition dec_gxFileHeader :: "byte list \<Rightarrow> gxFileHeader" where
  "dec_gxFileHeader bs =
     \<lparr>gxd_fs_fptr = gxINT64_PackBits (bytes_at bs 0 8), gxd_eof = gxINT64_PackBits (bytes_at bs 8 8),
      gxd_hs_fptr = gxINT64_PackBits (bytes_at bs 16 8),
      gxd_hb_fptr = gxINT64_PackBits (bytes_at bs 24 8),
      gxd_sig = bytes_at bs 32 10, gxd_ver = gxINT64_PackBits (bytes_at bs 42 8)\<rparr>"

definition enc_gxBlockHeader :: "gxBlockHeader \<Rightarrow> byte list" where
  "enc_gxBlockHeader h =
     gxUINT32_UnPackBits (block_check_word h) @ gxUINT32_UnPackBits (block_length h) @
     gxUINT32_UnPackBits (block_status h) @ gxINT64_UnPackBits (block_nd_fptr h)"

definition dec_gxBlockHeader :: "byte list \<Rightarrow> gxBlockHeader" where
  "dec_gxBlockHeader bs =
     \<lparr>block_check_word = gxUINT32_PackBits (bytes_at bs 0 4),
      block_length = gxUINT32_PackBits (bytes_at bs 4 4),
      block_status = gxUINT32_PackBits (bytes_at bs 8 4),
      block_nd_fptr = gxINT64_PackBits (bytes_at bs 12 8)\<rparr>"

definition enc_gxFileLockHeader :: "gxFileLockHeader \<Rightarrow> byte list" where
  "enc_gxFileLockHeader h =
     gxUINT32_UnPackBits (file_lock_protect h) @ gxUINT32_UnPackBits (file_read_lock h) @
     gxUINT32_UnPackBits (file_write_lock h)"

definition dec_gxFileLockHeader :: "byte list \<Rightarrow> gxFileLockHeader" where
  "dec_gxFileLockHeader bs =
     \<lparr>file_lock_protect = gxUINT32_PackBits (bytes_at bs 0 4),
      file_read_lock = gxUINT32_PackBits (bytes_at bs 4 4),
      file_write_lock = gxUINT32_PackBits (bytes_at bs 8 4)\<rparr>"

definition enc_gxRecordLockHeader :: "gxRecordLockHeader \<Rightarrow> byte list" where
  "enc_gxRecordLockHeader h =
     gxUINT32_UnPackBits (record_lock_protect h) @ gxUINT32_UnPackBits (record_read_lock h) @
     gxUINT32_UnPackBits (record_write_lock h)"

definition dec_gxRecordLockHeader :: "byte list \<Rightarrow> gxRecordLockHeader" where
  "dec_gxRecordLockHeader bs =
     \<lparr>record_lock_protect = gxUINT32_PackBits (bytes_at bs 0 4),
      record_read_lock = gxUINT32_PackBits (bytes_at bs 4 4),
      record_write_lock = gxUINT32_PackBits (bytes_at bs 8 4)\<rparr>"

definition enc_gxFileStatsHeader :: "gxFileStatsHeader \<Rightarrow> byte list" where
  "enc_gxFileStatsHeader h =
     gxINT64_UnPackBits (num_blocks h) @ gxINT64_UnPackBits (deleted_blocks h) @
     gxINT64_UnPackBits (removed_blocks h)"

definition dec_gxFileStatsHeader :: "byte list \<Rightarrow> gxFileStatsHeader" where
  "dec_gxFileStatsHeader bs =
     \<lparr>num_blocks = gxINT64_PackBits (bytes_at bs 0 8),
      deleted_blocks = gxINT64_PackBits (bytes_at bs 8 8),
      removed_blocks = gxINT64_PackBits (bytes_at bs 16 8)\<rparr>"

text \<open>The values a structure can hold.\<close>

definition ok_gxFileHeader :: "gxFileHeader \<Rightarrow> bool" where
  "ok_gxFileHeader h \<longleftrightarrow>
     in_s64 (gxd_fs_fptr h) \<and> in_s64 (gxd_eof h) \<and> in_s64 (gxd_hs_fptr h) \<and>
     in_s64 (gxd_hb_fptr h) \<and> length (gxd_sig h) = 10 \<and> in_s64 (gxd_ver h)"

definition ok_gxBlockHeader :: "gxBlockHeader \<Rightarrow> bool" where
  "ok_gxBlockHeader h \<longleftrightarrow>
     in_u32 (block_check_word h) \<and> in_u32 (block_length h) \<and> in_u32 (block_status h) \<and>
     in_s64 (block_nd_fptr h)"

definition ok_gxFileLockHeader :: "gxFileLockHeader \<Rightarrow> bool" where
  "ok_gxFileLockHeader h \<longleftrightarrow>
     in_u32 (file_lock_protect h) \<and> in_u32 (file_read_lock h) \<and> in_u32 (file_write_lock h)"

definition ok_gxRecordLockHeader :: "gxRecordLockHeader \<Rightarrow> bool" where
  "ok_gxRecordLockHeader h \<longleftrightarrow>
     in_u32 (record_lock_protect h) \<and> in_u32 (record_read_lock h) \<and> in_u32 (record_write_lock h)"

definition ok_gxFileStatsHeader :: "gxFileStatsHeader \<Rightarrow> bool" where
  "ok_gxFileStatsHeader h \<longleftrightarrow>
     in_s64 (num_blocks h) \<and> in_s64 (deleted_blocks h) \<and> in_s64 (removed_blocks h)"

lemmas enc_defs =
  enc_gxFileHeader_def enc_gxBlockHeader_def enc_gxFileLockHeader_def enc_gxRecordLockHeader_def
  enc_gxFileStatsHeader_def enc_sig_def

lemmas dec_defs =
  dec_gxFileHeader_def dec_gxBlockHeader_def dec_gxFileLockHeader_def dec_gxRecordLockHeader_def
  dec_gxFileStatsHeader_def

lemmas ok_defs =
  ok_gxFileHeader_def ok_gxBlockHeader_def ok_gxFileLockHeader_def ok_gxRecordLockHeader_def
  ok_gxFileStatsHeader_def

text \<open>Picking a field out of a concatenation of fixed width fields.\<close>

lemma bytes_at_field:
  "length ys = n \<Longrightarrow> bytes_at (ys @ zs) 0 n = ys"
  "length ys = n \<Longrightarrow> bytes_at ys 0 n = ys"
  by (simp_all add: bytes_at_def)

lemma bytes_at_skip: "length xs \<le> p \<Longrightarrow> bytes_at (xs @ ys) p n = bytes_at ys (p - length xs) n"
  by (simp add: bytes_at_def)

lemmas codec_len [simp] = u32.len s64.len s32.len

lemmas field_simps_bytes = bytes_at_field bytes_at_skip

interpretation fhdr: codec enc_gxFileHeader dec_gxFileHeader 50 ok_gxFileHeader
  by unfold_locales
    (simp_all add: enc_defs dec_defs ok_defs field_simps_bytes s64.dec_enc)

interpretation bhdr: codec enc_gxBlockHeader dec_gxBlockHeader 20 ok_gxBlockHeader
  by unfold_locales
    (simp_all add: enc_defs dec_defs ok_defs field_simps_bytes s64.dec_enc u32.dec_enc)

interpretation flhdr: codec enc_gxFileLockHeader dec_gxFileLockHeader 12 ok_gxFileLockHeader
  by unfold_locales (simp_all add: enc_defs dec_defs ok_defs field_simps_bytes u32.dec_enc)

interpretation rlhdr: codec enc_gxRecordLockHeader dec_gxRecordLockHeader 12 ok_gxRecordLockHeader
  by unfold_locales (simp_all add: enc_defs dec_defs ok_defs field_simps_bytes u32.dec_enc)

interpretation fshdr: codec enc_gxFileStatsHeader dec_gxFileStatsHeader 24 ok_gxFileStatsHeader
  by unfold_locales (simp_all add: enc_defs dec_defs ok_defs field_simps_bytes s64.dec_enc)

lemmas enc_len [simp] = fhdr.len bhdr.len flhdr.len rlhdr.len fshdr.len

end
