(* ===== verification/FilePtr.thy ===== *)
theory FilePtr
  imports FixedInts
begin

text \<open>
  The file pointer layer of \<open>src/gxdfp64.cpp\<close> (reached through \<open>src/gxdfptr.cpp\<close>) on its UNIX
  branch. A stream is a C library \<open>FILE\<close>: the bytes of the file as the process sees them, the
  position, whether it was opened for writing, the number of bytes the device can hold and
  whether writing buffered data back fails. \<open>filesys\<close> is what the program finds outside: the
  files, the names it may not open and the capacity of the device. A null pointer is \<open>None\<close>.
\<close>

datatype gxDatabaseAccessMode =
    gxDBASE_READONLY | gxDABSE_WRITEONLY | gxDBASE_READWRITE | gxDBASE_CREATE
  | gxDBASE_NO_CREATE | gxDBASE_TRUNCATE | gxDBASE_APPEND | gxDBASE_SHARE | gxDBASE_EXCLUSIVE

datatype gxDatabaseSeekMode = gxDBASE_SEEK_BEG | gxDBASE_SEEK_CUR | gxDBASE_SEEK_END

record filesys =
  files :: "string \<Rightarrow> byte list option"
  denied :: "string \<Rightarrow> bool"
  capacity :: nat
  flush_fails :: bool

record gxdFPTR =
  fname :: string
  fdata :: "byte list"
  fpos :: nat
  fwritable :: bool
  fcap :: nat

section \<open>The C library calls\<close>

text \<open>\<open>fopen\<close> with mode \<open>w+\<close>, \<open>r\<close> and \<open>r+\<close>.\<close>

definition fopen_w :: "string \<Rightarrow> filesys \<Rightarrow> gxdFPTR option \<times> filesys" where
  "fopen_w n fs =
     (if denied fs n then (None, fs)
      else (Some \<lparr>fname = n, fdata = [], fpos = 0, fwritable = True, fcap = capacity fs\<rparr>,
            fs\<lparr>files := (files fs)(n \<mapsto> [])\<rparr>))"

definition fopen_r :: "string \<Rightarrow> bool \<Rightarrow> filesys \<Rightarrow> gxdFPTR option" where
  "fopen_r n w fs =
     (if denied fs n then None
      else map_option (\<lambda>d. \<lparr>fname = n, fdata = d, fpos = 0, fwritable = w, fcap = capacity fs\<rparr>)
             (files fs n))"

text \<open>Writing the buffered bytes back to the file, as \<open>fflush\<close> and \<open>fclose\<close> do.\<close>

definition sync_file :: "gxdFPTR \<Rightarrow> filesys \<Rightarrow> filesys" where
  "sync_file s fs =
     (if fwritable s then fs\<lparr>files := (files fs)(fname s \<mapsto> fdata s)\<rparr> else fs)"

definition fread :: "gxdFPTR \<Rightarrow> nat \<Rightarrow> byte list \<times> gxdFPTR" where
  "fread s n =
     (let d = bytes_at (fdata s) (fpos s) n in (d, s\<lparr>fpos := fpos s + length d\<rparr>))"

definition fwrite :: "gxdFPTR \<Rightarrow> byte list \<Rightarrow> nat \<times> gxdFPTR" where
  "fwrite s d =
     (if \<not> fwritable s then (0, s)
      else (let k = min (length d) (fcap s - fpos s)
            in (k, s\<lparr>fdata := put_at (fdata s) (fpos s) (take k d), fpos := fpos s + k\<rparr>)))"

text \<open>\<open>fseeko64\<close> with \<open>SEEK_SET\<close> and \<open>SEEK_CUR\<close>: 0, or -1 for a negative position.\<close>

definition fseek_to :: "gxdFPTR \<Rightarrow> int \<Rightarrow> int \<times> gxdFPTR" where
  "fseek_to s p = (if p < 0 then (-1, s) else (0, s\<lparr>fpos := nat p\<rparr>))"

section \<open>The file pointer functions\<close>

definition gxdFPTRCreate :: "string \<Rightarrow> filesys \<Rightarrow> gxdFPTR option \<times> filesys" where
  "gxdFPTRCreate n fs = fopen_w n fs"

definition gxdFPTROpen :: "string \<Rightarrow> gxDatabaseAccessMode \<Rightarrow> filesys \<Rightarrow> gxdFPTR option" where
  "gxdFPTROpen n mode fs =
     (if mode = gxDBASE_READONLY then fopen_r n False fs else fopen_r n True fs)"

definition gxdFPTRClose :: "gxdFPTR option \<Rightarrow> filesys \<Rightarrow> int \<times> filesys" where
  "gxdFPTRClose stream fs =
     (case stream of
        None \<Rightarrow> (0, fs)
      | Some s \<Rightarrow> if flush_fails fs then (1, fs) else (0, sync_file s fs))"

definition gxdFPTRFlush :: "gxdFPTR option \<Rightarrow> filesys \<Rightarrow> int \<times> filesys" where
  "gxdFPTRFlush stream fs =
     (case stream of
        None \<Rightarrow> (0, fs)
      | Some s \<Rightarrow> if flush_fails fs then (1, fs) else (0, sync_file s fs))"

definition gxdFPTRRead :: "gxdFPTR option \<Rightarrow> nat \<Rightarrow> byte list \<times> gxdFPTR option" where
  "gxdFPTRRead stream n =
     (case stream of
        None \<Rightarrow> ([], None)
      | Some s \<Rightarrow> (case fread s n of (d, s') \<Rightarrow> (d, Some s')))"

definition gxdFPTRWrite :: "gxdFPTR option \<Rightarrow> byte list \<Rightarrow> nat \<times> gxdFPTR option" where
  "gxdFPTRWrite stream d =
     (case stream of
        None \<Rightarrow> (0, None)
      | Some s \<Rightarrow> (case fwrite s d of (k, s') \<Rightarrow> (k, Some s')))"

text \<open>
  \<open>gxDBASE_SEEK_END\<close> is passed on as \<open>SEEK_CUR\<close>, so a seek from the end is a seek from the
  current position.
\<close>

definition gxdFPTRSeek ::
  "gxdFPTR option \<Rightarrow> int \<Rightarrow> gxDatabaseSeekMode \<Rightarrow> int \<times> gxdFPTR option" where
  "gxdFPTRSeek stream offset mode =
     (case stream of
        None \<Rightarrow> (-1, None)
      | Some s \<Rightarrow>
          (case mode of
             gxDBASE_SEEK_BEG \<Rightarrow> (case fseek_to s offset of (r, s') \<Rightarrow> (r, Some s'))
           | gxDBASE_SEEK_CUR \<Rightarrow> (case fseek_to s (int (fpos s) + offset) of (r, s') \<Rightarrow> (r, Some s'))
           | gxDBASE_SEEK_END \<Rightarrow> (case fseek_to s (int (fpos s) + offset) of (r, s') \<Rightarrow> (r, Some s'))))"

definition gxdFPTRTell :: "gxdFPTR option \<Rightarrow> int" where
  "gxdFPTRTell stream = (case stream of None \<Rightarrow> -1 | Some s \<Rightarrow> int (fpos s))"

definition gxdFPTRExists :: "string \<Rightarrow> filesys \<Rightarrow> bool" where
  "gxdFPTRExists n fs \<longleftrightarrow> files fs n \<noteq> None"

definition gxdFPTRFileSize :: "string \<Rightarrow> filesys \<Rightarrow> int" where
  "gxdFPTRFileSize n fs = (case files fs n of None \<Rightarrow> -1 | Some d \<Rightarrow> int (length d))"

lemmas fptr_defs =
  gxdFPTRRead_def gxdFPTRWrite_def gxdFPTRSeek_def gxdFPTRTell_def fread_def fwrite_def
  fseek_to_def

section \<open>Reads and writes that fit\<close>

lemma fptr_read_inside:
  "fpos s + n \<le> length (fdata s) \<Longrightarrow>
   gxdFPTRRead (Some s) n = (bytes_at (fdata s) (fpos s) n, Some (s\<lparr>fpos := fpos s + n\<rparr>))"
  by (simp add: fptr_defs)

lemma fptr_write_fits:
  "fwritable s \<Longrightarrow> fpos s + length d \<le> fcap s \<Longrightarrow>
   gxdFPTRWrite (Some s) d =
     (length d, Some (s\<lparr>fdata := put_at (fdata s) (fpos s) d, fpos := fpos s + length d\<rparr>))"
  by (simp add: fptr_defs Let_def min_absorb1)

lemma fptr_write_short:
  "gxdFPTRWrite (Some s) d = (k, Some s') \<Longrightarrow> k \<le> length d \<and> length (fdata s) \<le> length (fdata s')"
  by (auto simp: fptr_defs Let_def length_put_at_mono split: if_splits)

end
