(* ===== verification/Crc32.thy ===== *)
theory Crc32
  imports FixedInts
begin

text \<open>
  The 32-bit CRC of \<open>src/gxcrc32.cpp\<close>: the table of \<open>include/gxcrctab.h\<close>, the two
  calculation routines (a buffer at a time, a byte at a time) and the table generator
  \<open>makeCRC32\<close>. A CRC register is an \<open>unsigned long\<close>, 64 bits wide, whose value never
  leaves the low 32. The lemmas show that the stored table is the generated one, that the two routines
  agree and can be chained, and that changing one byte of a buffer always changes its CRC.
\<close>

type_synonym crc = int

unbundle bit_operations_syntax

section \<open>The table and its generator\<close>

definition crc32tab :: "crc list" where
  "crc32tab =
     [0x00000000, 0x77073096, 0xee0e612c, 0x990951ba, 0x076dc419, 0x706af48f,
      0xe963a535, 0x9e6495a3, 0x0edb8832, 0x79dcb8a4, 0xe0d5e91e, 0x97d2d988,
      0x09b64c2b, 0x7eb17cbd, 0xe7b82d07, 0x90bf1d91, 0x1db71064, 0x6ab020f2,
      0xf3b97148, 0x84be41de, 0x1adad47d, 0x6ddde4eb, 0xf4d4b551, 0x83d385c7,
      0x136c9856, 0x646ba8c0, 0xfd62f97a, 0x8a65c9ec, 0x14015c4f, 0x63066cd9,
      0xfa0f3d63, 0x8d080df5, 0x3b6e20c8, 0x4c69105e, 0xd56041e4, 0xa2677172,
      0x3c03e4d1, 0x4b04d447, 0xd20d85fd, 0xa50ab56b, 0x35b5a8fa, 0x42b2986c,
      0xdbbbc9d6, 0xacbcf940, 0x32d86ce3, 0x45df5c75, 0xdcd60dcf, 0xabd13d59,
      0x26d930ac, 0x51de003a, 0xc8d75180, 0xbfd06116, 0x21b4f4b5, 0x56b3c423,
      0xcfba9599, 0xb8bda50f, 0x2802b89e, 0x5f058808, 0xc60cd9b2, 0xb10be924,
      0x2f6f7c87, 0x58684c11, 0xc1611dab, 0xb6662d3d, 0x76dc4190, 0x01db7106,
      0x98d220bc, 0xefd5102a, 0x71b18589, 0x06b6b51f, 0x9fbfe4a5, 0xe8b8d433,
      0x7807c9a2, 0x0f00f934, 0x9609a88e, 0xe10e9818, 0x7f6a0dbb, 0x086d3d2d,
      0x91646c97, 0xe6635c01, 0x6b6b51f4, 0x1c6c6162, 0x856530d8, 0xf262004e,
      0x6c0695ed, 0x1b01a57b, 0x8208f4c1, 0xf50fc457, 0x65b0d9c6, 0x12b7e950,
      0x8bbeb8ea, 0xfcb9887c, 0x62dd1ddf, 0x15da2d49, 0x8cd37cf3, 0xfbd44c65,
      0x4db26158, 0x3ab551ce, 0xa3bc0074, 0xd4bb30e2, 0x4adfa541, 0x3dd895d7,
      0xa4d1c46d, 0xd3d6f4fb, 0x4369e96a, 0x346ed9fc, 0xad678846, 0xda60b8d0,
      0x44042d73, 0x33031de5, 0xaa0a4c5f, 0xdd0d7cc9, 0x5005713c, 0x270241aa,
      0xbe0b1010, 0xc90c2086, 0x5768b525, 0x206f85b3, 0xb966d409, 0xce61e49f,
      0x5edef90e, 0x29d9c998, 0xb0d09822, 0xc7d7a8b4, 0x59b33d17, 0x2eb40d81,
      0xb7bd5c3b, 0xc0ba6cad, 0xedb88320, 0x9abfb3b6, 0x03b6e20c, 0x74b1d29a,
      0xead54739, 0x9dd277af, 0x04db2615, 0x73dc1683, 0xe3630b12, 0x94643b84,
      0x0d6d6a3e, 0x7a6a5aa8, 0xe40ecf0b, 0x9309ff9d, 0x0a00ae27, 0x7d079eb1,
      0xf00f9344, 0x8708a3d2, 0x1e01f268, 0x6906c2fe, 0xf762575d, 0x806567cb,
      0x196c3671, 0x6e6b06e7, 0xfed41b76, 0x89d32be0, 0x10da7a5a, 0x67dd4acc,
      0xf9b9df6f, 0x8ebeeff9, 0x17b7be43, 0x60b08ed5, 0xd6d6a3e8, 0xa1d1937e,
      0x38d8c2c4, 0x4fdff252, 0xd1bb67f1, 0xa6bc5767, 0x3fb506dd, 0x48b2364b,
      0xd80d2bda, 0xaf0a1b4c, 0x36034af6, 0x41047a60, 0xdf60efc3, 0xa867df55,
      0x316e8eef, 0x4669be79, 0xcb61b38c, 0xbc66831a, 0x256fd2a0, 0x5268e236,
      0xcc0c7795, 0xbb0b4703, 0x220216b9, 0x5505262f, 0xc5ba3bbe, 0xb2bd0b28,
      0x2bb45a92, 0x5cb36a04, 0xc2d7ffa7, 0xb5d0cf31, 0x2cd99e8b, 0x5bdeae1d,
      0x9b64c2b0, 0xec63f226, 0x756aa39c, 0x026d930a, 0x9c0906a9, 0xeb0e363f,
      0x72076785, 0x05005713, 0x95bf4a82, 0xe2b87a14, 0x7bb12bae, 0x0cb61b38,
      0x92d28e9b, 0xe5d5be0d, 0x7cdcefb7, 0x0bdbdf21, 0x86d3d2d4, 0xf1d4e242,
      0x68ddb3f8, 0x1fda836e, 0x81be16cd, 0xf6b9265b, 0x6fb077e1, 0x18b74777,
      0x88085ae6, 0xff0f6a70, 0x66063bca, 0x11010b5c, 0x8f659eff, 0xf862ae69,
      0x616bffd3, 0x166ccf45, 0xa00ae278, 0xd70dd2ee, 0x4e048354, 0x3903b3c2,
      0xa7672661, 0xd06016f7, 0x4969474d, 0x3e6e77db, 0xaed16a4a, 0xd9d65adc,
      0x40df0b66, 0x37d83bf0, 0xa9bcae53, 0xdebb9ec5, 0x47b2cf7f, 0x30b5ffe9,
      0xbdbdf21c, 0xcabac28a, 0x53b39330, 0x24b4a3a6, 0xbad03605, 0xcdd70693,
      0x54de5729, 0x23d967bf, 0xb3667a2e, 0xc4614ab8, 0x5d681b02, 0x2a6f2b94,
      0xb40bbe37, 0xc30c8ea1, 0x5a05df1b, 0x2d02ef8d]"

definition crc_poly_terms :: "nat list" where
  "crc_poly_terms = [0, 1, 2, 4, 5, 7, 8, 10, 11, 12, 16, 22, 23, 26]"

fun crc_poly_or :: "nat list \<Rightarrow> crc \<Rightarrow> crc" where
  "crc_poly_or [] e = e"
| "crc_poly_or (t # ts) e = crc_poly_or ts (e OR push_bit (31 - t) 1)"

text \<open>The inner loop \<open>for(k = i | 256; k != 1; k >>= 1)\<close>: \<open>k\<close> has a top bit that never clears.\<close>

fun crc_shift_loop :: "crc \<Rightarrow> nat \<Rightarrow> crc \<Rightarrow> crc" where
  "crc_shift_loop e k c =
     (if k \<le> 1 then c
      else (let c1 = (if odd c then drop_bit 1 c XOR e else drop_bit 1 c);
                c2 = (if odd k then c1 XOR e else c1)
            in crc_shift_loop e (k div 2) c2))"

declare crc_shift_loop.simps [simp del]

definition crc_entry :: "nat \<Rightarrow> crc" where
  "crc_entry i = crc_shift_loop (crc_poly_or crc_poly_terms 0) (256 + i) 0"

definition makeCRC32 :: "crc list" where
  "makeCRC32 = 0 # map crc_entry [1..<256]"

section \<open>The two routines\<close>

definition crc_index :: "crc \<Rightarrow> nat" where
  "crc_index w = nat (w AND 0xFF)"

text \<open>\<open>calcCRC32(unsigned char, unsigned long)\<close>\<close>

definition calcCRC32_byte :: "byte \<Rightarrow> crc \<Rightarrow> crc" where
  "calcCRC32_byte c CRC =
     (let i = uint c AND 0xFF
      in crc32tab ! crc_index (CRC XOR i) XOR (drop_bit 8 CRC AND 0x00ffffff))"

text \<open>One turn of the buffer loop: \<open>CRC = crc32tab[(CRC ^ (*buf++)) & 0xFF] ^ ((CRC >> 8) & 0x00ffffff)\<close>.\<close>

definition crc_step :: "crc \<Rightarrow> byte \<Rightarrow> crc" where
  "crc_step CRC b =
     crc32tab ! crc_index (CRC XOR to_u64 (sint b)) XOR (drop_bit 8 CRC AND 0x00ffffff)"

text \<open>
  \<open>calcCRC32(const char *, unsigned)\<close>: the character is sign extended before the exclusive or.
\<close>

fun calcCRC32_loop :: "byte list \<Rightarrow> crc \<Rightarrow> crc" where
  "calcCRC32_loop [] CRC = CRC"
| "calcCRC32_loop (b # bs) CRC = calcCRC32_loop bs (crc_step CRC b)"

definition calcCRC32 :: "byte list \<Rightarrow> crc" where
  "calcCRC32 buf = calcCRC32_loop buf 0xffffffff XOR 0xffffffff"

section \<open>The stored table is the generated one\<close>

lemma length_crc32tab: "length crc32tab = 256"
  by (simp add: crc32tab_def)

lemma crc_poly: "crc_poly_or crc_poly_terms 0 = 0xEDB88320"
  by code_simp

lemma crc_entry_poly: "crc_entry i = crc_shift_loop 0xEDB88320 (256 + i) 0"
  by (simp add: crc_entry_def crc_poly)

lemma crc_chunk0: "map (\<lambda>i. crc_shift_loop 0xEDB88320 (256 + i) 0) [1..<32] = take 31 (drop 1 crc32tab)"
  by code_simp

lemma crc_chunk1: "map (\<lambda>i. crc_shift_loop 0xEDB88320 (256 + i) 0) [32..<64] = take 32 (drop 32 crc32tab)"
  by code_simp

lemma crc_chunk2: "map (\<lambda>i. crc_shift_loop 0xEDB88320 (256 + i) 0) [64..<96] = take 32 (drop 64 crc32tab)"
  by code_simp

lemma crc_chunk3: "map (\<lambda>i. crc_shift_loop 0xEDB88320 (256 + i) 0) [96..<128] = take 32 (drop 96 crc32tab)"
  by code_simp

lemma crc_chunk4: "map (\<lambda>i. crc_shift_loop 0xEDB88320 (256 + i) 0) [128..<160] = take 32 (drop 128 crc32tab)"
  by code_simp

lemma crc_chunk5: "map (\<lambda>i. crc_shift_loop 0xEDB88320 (256 + i) 0) [160..<192] = take 32 (drop 160 crc32tab)"
  by code_simp

lemma crc_chunk6: "map (\<lambda>i. crc_shift_loop 0xEDB88320 (256 + i) 0) [192..<224] = take 32 (drop 192 crc32tab)"
  by code_simp

lemma crc_chunk7: "map (\<lambda>i. crc_shift_loop 0xEDB88320 (256 + i) 0) [224..<256] = take 32 (drop 224 crc32tab)"
  by code_simp

lemma crc32tab_nth0: "crc32tab ! 0 = 0"
  by (simp add: crc32tab_def)

lemma map_upt_split:
  "a \<le> b \<Longrightarrow> b \<le> c \<Longrightarrow> map f [a..<c] = map f [a..<b] @ map f [b..<c]"
  by (metis map_append upt_add_eq_append le_add_diff_inverse)

lemma take_drop_glue: "take m (drop a xs) @ take n (drop (a + m) xs) = take (m + n) (drop a xs)"
  by (simp add: take_add add.commute)

text \<open>Property of the table: every stored entry is the one the generator computes.\<close>

lemma crc32tab_is_generated: "makeCRC32 = crc32tab"
proof -
  let ?g = "\<lambda>i. crc_shift_loop 0xEDB88320 (256 + i) 0"
  have "map ?g [1..<256] = map ?g [1..<32] @ map ?g [32..<64] @ map ?g [64..<96] @ map ?g [96..<128]
      @ map ?g [128..<160] @ map ?g [160..<192] @ map ?g [192..<224] @ map ?g [224..<256]"
    using map_upt_split [of 1 32 256 ?g] map_upt_split [of 32 64 256 ?g]
      map_upt_split [of 64 96 256 ?g] map_upt_split [of 96 128 256 ?g]
      map_upt_split [of 128 160 256 ?g] map_upt_split [of 160 192 256 ?g]
      map_upt_split [of 192 224 256 ?g] by simp
  also have "\<dots> = take 255 (drop 1 crc32tab)"
    unfolding crc_chunk0 crc_chunk1 crc_chunk2 crc_chunk3 crc_chunk4 crc_chunk5 crc_chunk6 crc_chunk7
    using take_drop_glue [of 32 192 crc32tab 32] take_drop_glue [of 32 160 crc32tab 64]
      take_drop_glue [of 32 128 crc32tab 96] take_drop_glue [of 32 96 crc32tab 128]
      take_drop_glue [of 32 64 crc32tab 160] take_drop_glue [of 32 32 crc32tab 192]
      take_drop_glue [of 31 1 crc32tab 224] by simp
  also have "\<dots> = drop 1 crc32tab"
    by (simp add: length_crc32tab)
  finally have "makeCRC32 = crc32tab ! 0 # drop 1 crc32tab"
    by (simp add: makeCRC32_def crc_entry_poly crc32tab_nth0 cong: map_cong)
  then show ?thesis
    using length_crc32tab Cons_nth_drop_Suc [of 0 crc32tab] by simp
qed

section \<open>The two routines agree\<close>

lemma xor_cancel:
  "a XOR b = a XOR c \<longleftrightarrow> b = (c::int)"
  "b XOR a = c XOR a \<longleftrightarrow> b = (c::int)"
proof -
  have "a XOR (a XOR x) = x" for x by (simp flip: xor.assoc)
  then show "a XOR b = a XOR c \<longleftrightarrow> b = c" by metis
  then show "b XOR a = c XOR a \<longleftrightarrow> b = c" by (simp add: xor.commute)
qed

lemma and_255: "x AND 255 = x mod (256::int)"
  using take_bit_eq_mask [of 8 x] take_bit_eq_mod [of 8 x] by (simp add: mask_eq_exp_minus_1)

lemma low_byte_xor: "(x XOR y) mod 256 = (x mod 256) XOR (y mod (256::int))"
  using take_bit_xor [of 8 x y] by (simp add: take_bit_eq_mod)

lemma sign_extended_byte:
  fixes b :: byte
  shows "to_u64 (sint b) mod 256 = uint b"
proof -
  have "to_u64 (sint b) mod 256 = sint b mod 256"
    by (simp add: to_u64_def mod_mod_cancel)
  also have "\<dots> = uint b"
    using take_bit_signed_take_bit [of 8 7 "uint b"] uint_byte_bounds [of b]
    by (simp add: sint_uint take_bit_eq_mod)
  finally show ?thesis .
qed

lemma crc_index_low: "crc_index x = nat (x mod 256)"
  by (simp add: crc_index_def and_255)

lemma crc_index_bound: "crc_index x < 256"
  by (simp add: crc_index_low nat_less_iff)

lemma crc_step_index:
  fixes b :: byte
  shows "crc_index (c XOR to_u64 (sint b)) = crc_index (c XOR uint b)"
  using uint_byte_bounds [of b]
  by (simp add: crc_index_low low_byte_xor sign_extended_byte)

lemma calcCRC32_byte_step: "calcCRC32_byte b c = crc_step c b"
  using uint_byte_bounds [of b]
  by (simp add: calcCRC32_byte_def crc_step_def crc_step_index Let_def and_255)

lemma calcCRC32_loop_fold: "calcCRC32_loop bs c = fold calcCRC32_byte bs c"
  by (induction bs arbitrary: c) (simp_all add: calcCRC32_byte_step)

lemma calcCRC32_loop_append:
  "calcCRC32_loop (xs @ ys) c = calcCRC32_loop ys (calcCRC32_loop xs c)"
  by (simp add: calcCRC32_loop_fold)

section \<open>A step loses nothing\<close>

lemma crc32tab_range: "\<forall>x \<in> set crc32tab. 0 \<le> x \<and> x < 2 ^ 32"
  by (simp add: crc32tab_def)

lemma crc32tab_tops_distinct: "distinct (map (drop_bit 24) crc32tab)"
  by code_simp

definition in_crc :: "crc \<Rightarrow> bool" where
  "in_crc c \<longleftrightarrow> take_bit 32 c = c"

lemma in_crc_nth: "i < 256 \<Longrightarrow> in_crc (crc32tab ! i)"
  using crc32tab_range length_crc32tab
  by (auto simp: in_crc_def take_bit_int_eq_self_iff)

lemma in_crc_init: "in_crc 0xffffffff"
  by (simp add: in_crc_def take_bit_int_eq_self_iff)

lemma in_crc_xor: "in_crc a \<Longrightarrow> in_crc b \<Longrightarrow> in_crc (a XOR b)"
  by (simp add: in_crc_def take_bit_xor)

lemma low24_mask: "(0x00ffffff::int) = mask 24"
  by (simp add: mask_eq_exp_minus_1)

lemma in_crc_low24: "in_crc (x AND 0x00ffffff)"
  unfolding in_crc_def low24_mask by (simp add: take_bit_eq_mask [symmetric])

lemma in_crc_step: "in_crc (crc_step c b)"
  unfolding crc_step_def by (intro in_crc_xor in_crc_nth crc_index_bound in_crc_low24)

lemma crc_step_top: "drop_bit 24 (crc_step c b) = drop_bit 24 (crc32tab ! crc_index (c XOR uint b))"
  unfolding crc_step_def crc_step_index low24_mask
  by (simp add: drop_bit_xor take_bit_eq_mask [symmetric] drop_bit_take_bit)

lemma crc_step_index_eq:
  assumes "crc_step c b = crc_step c' b'"
  shows "crc_index (c XOR uint b) = crc_index (c' XOR uint b')"
proof -
  let ?i = "crc_index (c XOR uint b)" and ?j = "crc_index (c' XOR uint b')"
  have "map (drop_bit 24) crc32tab ! ?i = map (drop_bit 24) crc32tab ! ?j"
    using assms crc_step_top [of c b] crc_step_top [of c' b']
    by (simp add: crc_index_bound length_crc32tab)
  then show ?thesis
    using nth_eq_iff_index_eq [OF crc32tab_tops_distinct, of ?i ?j]
    by (simp only: length_map length_crc32tab crc_index_bound)
qed

lemma crc_step_high_eq:
  assumes "in_crc c" "in_crc c'" "crc_step c b = crc_step c' b'"
  shows "c div 256 = c' div 256"
proof -
  have "drop_bit 8 c AND 0x00ffffff = drop_bit 8 c' AND 0x00ffffff"
    using assms(3) crc_step_index_eq [OF assms(3)]
    by (simp add: crc_step_def crc_step_index xor_cancel)
  moreover have "drop_bit 8 x AND 0x00ffffff = drop_bit 8 x" if "in_crc x" for x :: int
  proof -
    have "drop_bit 8 x AND 0x00ffffff = take_bit 24 (drop_bit 8 x)"
      by (simp only: low24_mask take_bit_eq_mask)
    also have "\<dots> = drop_bit 8 (take_bit 32 x)"
      by (simp add: drop_bit_take_bit)
    finally show ?thesis using that by (simp add: in_crc_def)
  qed
  ultimately show ?thesis
    using assms(1,2) by (simp add: drop_bit_eq_div)
qed

lemma crc_step_inj_byte:
  assumes "crc_step c a = crc_step c b"
  shows "a = b"
proof -
  have "(c XOR uint a) mod 256 = (c XOR uint b) mod 256"
    using crc_step_index_eq [OF assms] by (simp add: crc_index_low nat_eq_iff)
  then have "uint a = uint b"
    using uint_byte_bounds [of a] uint_byte_bounds [of b]
    by (simp add: low_byte_xor xor_cancel)
  then show ?thesis by (simp only: word_uint_eq_iff)
qed

lemma crc_step_inj_crc:
  assumes "in_crc c" "in_crc c'" "crc_step c b = crc_step c' b"
  shows "c = c'"
proof -
  have "(c XOR uint b) mod 256 = (c' XOR uint b) mod 256"
    using crc_step_index_eq [OF assms(3)] by (simp add: crc_index_low nat_eq_iff)
  then have "c mod 256 = c' mod 256"
    using uint_byte_bounds [of b] by (simp add: low_byte_xor xor_cancel)
  moreover have "c div 256 = c' div 256"
    using assms by (rule crc_step_high_eq)
  ultimately show ?thesis by (metis mult_div_mod_eq)
qed

lemma crc_loop_inj:
  "in_crc c \<Longrightarrow> in_crc c' \<Longrightarrow> calcCRC32_loop bs c = calcCRC32_loop bs c' \<Longrightarrow> c = c'"
proof (induction bs arbitrary: c c')
  case (Cons b bs)
  have "crc_step c b = crc_step c' b"
    by (rule Cons.IH [OF in_crc_step in_crc_step]) (use Cons.prems(3) in simp)
  with Cons.prems(1,2) show ?case by (rule crc_step_inj_crc)
qed simp

text \<open>The lemma behind the error detection claim: one changed byte changes the checksum.\<close>

lemma calcCRC32_one_byte:
  "calcCRC32 (xs @ a # ys) = calcCRC32 (xs @ b # ys) \<longleftrightarrow> a = b"
proof
  assume "calcCRC32 (xs @ a # ys) = calcCRC32 (xs @ b # ys)"
  then have "crc_step (calcCRC32_loop xs 0xffffffff) a = crc_step (calcCRC32_loop xs 0xffffffff) b"
    by (intro crc_loop_inj [OF in_crc_step in_crc_step])
      (simp add: calcCRC32_def calcCRC32_loop_append xor_cancel)
  then show "a = b" by (rule crc_step_inj_byte)
qed simp

lemma calcCRC32_range: "0 \<le> calcCRC32 bs \<and> calcCRC32 bs < 2 ^ 32"
proof -
  have "in_crc (calcCRC32_loop bs 0xffffffff)"
    by (cases bs rule: rev_cases) (simp_all add: calcCRC32_loop_append in_crc_step in_crc_init)
  then have "in_crc (calcCRC32 bs)"
    unfolding calcCRC32_def by (intro in_crc_xor in_crc_init)
  then show ?thesis
    using take_bit_int_less_exp [of 32 "calcCRC32 bs"] take_bit_nonnegative [of 32 "calcCRC32 bs"]
    by (simp add: in_crc_def)
qed

end
