(* ===== verification/Engine.thy ===== *)
theory Engine
  imports Headers FilePtr Crc32
begin

text \<open>
  The state of a \<open>gxDatabase\<close> object and the operations of \<open>src/gxdbase.cpp\<close> that move bytes:
  opening and closing, seeking, reading and writing with their error handling, and the file
  header, block header and statistics header input and output. A member function that returns
  its \<open>gxd_error\<close> returns the new state, where the return value is the field \<open>gxd_error\<close>; one
  that returns something else returns a pair. A \<open>Read\<close> is given the caller's buffer and returns
  its contents afterwards, so a short read leaves the rest of the buffer as it was. File
  addresses (\<open>FAU_t\<close>) are integers, wrapped to 64 bits where they are stored.
\<close>

datatype gxDatabaseOperation =
  gxDBASE_READ | gxDBASE_WRITE | gxDBASE_REWIND | gxDBASE_NO_OPERATION | gxDBASE_SEEK

record gxDatabase =
  db_fs :: filesys
  write_hook :: bool
  hook_calls :: nat
  file_name :: string
  rev_letter :: char
  file_header :: gxFileHeader
  fp :: "gxdFPTR option"
  last_operation :: gxDatabaseOperation
  gxd_error :: gxDatabaseError
  is_ok :: bool
  is_open :: bool
  ready_for_reading :: bool
  ready_for_writing :: bool
  file_stats_header :: gxFileStatsHeader

definition gxDefaultFileName :: string where "gxDefaultFileName = ''closed.gxd''"

definition gxDatabaseVersionNumber :: int where "gxDatabaseVersionNumber = 4630"

definition gxDatabaseRevisionLetter :: char where "gxDatabaseRevisionLetter = CHR ''E''"

definition gxSignature :: "byte list" where
  "gxSignature = map byte_of_char (''GXDBASE64'' @ [gxDatabaseRevisionLetter])"

definition new_gxDatabase :: "filesys \<Rightarrow> gxDatabase" where
  "new_gxDatabase fs =
     \<lparr>db_fs = fs, write_hook = False, hook_calls = 0, file_name = gxDefaultFileName,
      rev_letter = gxDatabaseRevisionLetter, file_header = new_gxFileHeader, fp = None,
      last_operation = gxDBASE_SEEK, gxd_error = gxDBASE_NO_ERROR, is_ok = False, is_open = False,
      ready_for_reading = False, ready_for_writing = False,
      file_stats_header = new_gxFileStatsHeader\<rparr>"

definition Release :: "gxDatabase \<Rightarrow> gxDatabase" where
  "Release db =
     db\<lparr>file_name := gxDefaultFileName, fp := None, gxd_error := gxDBASE_NO_ERROR,
        is_open := False, is_ok := False, ready_for_reading := False,
        ready_for_writing := False\<rparr>"

definition IsOK :: "gxDatabase \<Rightarrow> bool" where
  "IsOK db \<longleftrightarrow> is_ok db \<and> is_open db"

definition SetDatabaseError :: "gxDatabaseError \<Rightarrow> gxDatabase \<Rightarrow> gxDatabase" where
  "SetDatabaseError e db = db\<lparr>gxd_error := e\<rparr>"

section \<open>Revision letters and header sizes\<close>

definition SetRevisionLetter :: "char \<Rightarrow> gxDatabase \<Rightarrow> gxDatabase" where
  "SetRevisionLetter r db =
     db\<lparr>rev_letter :=
       (if r = CHR 0x00 \<or> r = CHR '' '' then CHR 0x00
        else if r = CHR ''A'' \<or> r = CHR ''a'' then CHR ''A''
        else if r = CHR ''B'' \<or> r = CHR ''b'' then CHR ''B''
        else if r = CHR ''C'' \<or> r = CHR ''c'' then CHR ''C''
        else if r = CHR ''D'' \<or> r = CHR ''d'' then CHR ''D''
        else if r = CHR ''E'' \<or> r = CHR ''e'' then CHR ''E''
        else gxDatabaseRevisionLetter)\<rparr>"

text \<open>The \<open>case\<close> labels of the revision switches.\<close>

definition rev_zero_or_E :: "char \<Rightarrow> bool" where
  "rev_zero_or_E r \<longleftrightarrow> r = CHR 0x00 \<or> r = CHR '' '' \<or> r = CHR ''e'' \<or> r = CHR ''E''"

definition rev_B_or_C :: "char \<Rightarrow> bool" where
  "rev_B_or_C r \<longleftrightarrow> r = CHR ''b'' \<or> r = CHR ''B'' \<or> r = CHR ''c'' \<or> r = CHR ''C''"

definition rev_C_or_D :: "char \<Rightarrow> bool" where
  "rev_C_or_D r \<longleftrightarrow> r = CHR ''c'' \<or> r = CHR ''C'' \<or> r = CHR ''d'' \<or> r = CHR ''D''"

definition rev_D_or_E :: "char \<Rightarrow> bool" where
  "rev_D_or_E r \<longleftrightarrow> r = CHR ''d'' \<or> r = CHR ''D'' \<or> r = CHR ''e'' \<or> r = CHR ''E''"

lemmas rev_defs = rev_zero_or_E_def rev_B_or_C_def rev_C_or_D_def rev_D_or_E_def

definition FileHeaderSize :: "gxDatabase \<Rightarrow> int" where
  "FileHeaderSize db =
     (let fh = int sizeof_gxFileHeader; flh = int sizeof_gxFileLockHeader;
          fsh = int sizeof_gxFileStatsHeader
      in if rev_B_or_C (rev_letter db) then fh + flh
         else if rev_D_or_E (rev_letter db) then (fh + flh) + fsh
         else fh)"

definition BlockHeaderSize :: "gxDatabase \<Rightarrow> int" where
  "BlockHeaderSize db =
     (let bh = int sizeof_gxBlockHeader; blh = int sizeof_gxRecordLockHeader
      in if rev_C_or_D (rev_letter db) then bh + blh else bh)"

section \<open>Seeking\<close>

definition Seek :: "int \<Rightarrow> gxDatabaseSeekMode \<Rightarrow> gxDatabase \<Rightarrow> gxDatabase" where
  "Seek offset mode db =
     (if IsOK db then
        (case gxdFPTRSeek (fp db) offset mode of (r, fp') \<Rightarrow>
           if r = -1 then db\<lparr>fp := fp', gxd_error := gxDBASE_FILE_SEEK_ERROR\<rparr>
           else db\<lparr>fp := fp', last_operation := gxDBASE_SEEK, gxd_error := gxDBASE_NO_ERROR\<rparr>)
      else db\<lparr>gxd_error := gxDBASE_FILE_NOT_READY\<rparr>)"

definition FilePosition :: "gxDatabase \<Rightarrow> int \<times> gxDatabase" where
  "FilePosition db =
     (if \<not> IsOK db then (-1, db\<lparr>gxd_error := gxDBASE_FILE_NOT_READY\<rparr>)
      else (let pos = gxdFPTRTell (fp db)
            in (pos, if pos < 0 then db\<lparr>gxd_error := gxDBASE_FILE_POSITION_ERROR\<rparr> else db)))"

definition SeekTo :: "int \<Rightarrow> gxDatabase \<Rightarrow> int \<times> gxDatabase" where
  "SeekTo file_address db =
     (case FilePosition db of (pos, db1) \<Rightarrow>
        if file_address = gxCurrAddress then (pos, db1)
        else if file_address > pos then
          FilePosition (Seek (file_address - pos) gxDBASE_SEEK_CUR db1)
        else if file_address < pos then FilePosition (Seek file_address gxDBASE_SEEK_BEG db1)
        else FilePosition (Seek 0 gxDBASE_SEEK_CUR db1))"

text \<open>
  The seek in front of a transfer: to the address given, or, at the current address, a null
  seek when the last operation was of the other direction. True when the transfer goes on.
\<close>

definition pre_seek :: "gxDatabaseOperation \<Rightarrow> int \<Rightarrow> gxDatabase \<Rightarrow> bool \<times> gxDatabase" where
  "pre_seek other file_address db =
     (if file_address = gxCurrAddress then
        (if last_operation db = other
         then (let db1 = Seek 0 gxDBASE_SEEK_CUR db in (gxd_error db1 = gxDBASE_NO_ERROR, db1))
         else (True, db))
      else (let db1 = Seek file_address gxDBASE_SEEK_BEG db
            in (gxd_error db1 = gxDBASE_NO_ERROR, db1)))"

section \<open>Reading\<close>

definition Read :: "byte list \<Rightarrow> int \<Rightarrow> gxDatabase \<Rightarrow> byte list \<times> gxDatabase" where
  "Read buf file_address db =
     (if IsOK db \<and> ready_for_reading db then
        (case pre_seek gxDBASE_WRITE file_address db of (go, db1) \<Rightarrow>
           if \<not> go then (buf, db1)
           else (case gxdFPTRRead (fp db1) (length buf) of (d, fp') \<Rightarrow>
                   let buf' = d @ drop (length d) buf
                   in if length d \<noteq> length buf
                      then (buf', db1\<lparr>fp := fp', gxd_error := gxDBASE_FILE_READ_ERROR\<rparr>)
                      else (buf', db1\<lparr>fp := fp', last_operation := gxDBASE_READ,
                                       gxd_error := gxDBASE_NO_ERROR\<rparr>)))
      else (buf, db\<lparr>gxd_error := gxDBASE_FILE_NOT_READY\<rparr>))"

definition InitFileStatsHdr :: gxFileStatsHeader where
  "InitFileStatsHdr = \<lparr>num_blocks = 0, deleted_blocks = 0, removed_blocks = 0\<rparr>"

definition ReadFileStatsHdr ::
  "gxFileStatsHeader \<Rightarrow> gxDatabase \<Rightarrow> gxFileStatsHeader \<times> gxDatabase" where
  "ReadFileStatsHdr hdr db =
     (if rev_D_or_E (rev_letter db) then
        (case Read (enc_gxFileStatsHeader hdr)
                (int sizeof_gxFileHeader + int sizeof_gxFileLockHeader) db of
           (b, db1) \<Rightarrow> (dec_gxFileStatsHeader b, db1))
      else (InitFileStatsHdr, db\<lparr>gxd_error := gxDBASE_NO_ERROR\<rparr>))"

definition ReadFileHdr :: "gxDatabase \<Rightarrow> gxDatabase" where
  "ReadFileHdr db =
     (case Read (enc_gxFileHeader (file_header db)) gxStartOfFile db of (b, db0) \<Rightarrow>
        let db1 = db0\<lparr>file_header := dec_gxFileHeader b\<rparr>
        in if gxd_error db1 \<noteq> gxDBASE_NO_ERROR then db1
           else (let db2 = db1\<lparr>rev_letter := char_of_byte (gxd_sig (file_header db1) ! 9)\<rparr>
                 in if rev_D_or_E (rev_letter db2) then
                      (case ReadFileStatsHdr (file_stats_header db2) db2 of (h, db3) \<Rightarrow>
                         let db4 = db3\<lparr>file_stats_header := h\<rparr>
                         in if gxd_error db4 \<noteq> gxDBASE_NO_ERROR then db4
                            else db4\<lparr>gxd_error := gxDBASE_NO_ERROR\<rparr>)
                    else db2\<lparr>gxd_error := gxDBASE_NO_ERROR\<rparr>))"

text \<open>The reads of a fresh copy of the header that the header queries make; errors are ignored.\<close>

definition read_fresh_hdr :: "gxDatabase \<Rightarrow> gxFileHeader \<times> gxDatabase" where
  "read_fresh_hdr db =
     (case Read (enc_gxFileHeader new_gxFileHeader) gxStartOfFile db of
        (b, db1) \<Rightarrow> (dec_gxFileHeader b, db1))"

definition GetDatabaseFreeSpace :: "gxDatabase \<Rightarrow> int \<times> gxDatabase" where
  "GetDatabaseFreeSpace db =
     (case read_fresh_hdr db of (fh, db1) \<Rightarrow>
        let db2 = (if gxd_fs_fptr fh \<noteq> gxd_fs_fptr (file_header db1) then ReadFileHdr db1 else db1)
        in (gxd_fs_fptr (file_header db2), db2))"

definition GetEOF :: "gxDatabase \<Rightarrow> int \<times> gxDatabase" where
  "GetEOF db =
     (case read_fresh_hdr db of (fh, db1) \<Rightarrow>
        let db2 = (if gxd_eof fh \<noteq> gxd_eof (file_header db1) then ReadFileHdr db1 else db1)
        in (gxd_eof (file_header db2), db2))"

definition GetHeapStart :: "gxDatabase \<Rightarrow> int \<times> gxDatabase" where
  "GetHeapStart db =
     (case read_fresh_hdr db of (fh, db1) \<Rightarrow>
        let db2 = (if gxd_hs_fptr fh \<noteq> gxd_hs_fptr (file_header db1) then ReadFileHdr db1 else db1)
        in (gxd_hs_fptr (file_header db2), db2))"

definition GetHighestBlock :: "gxDatabase \<Rightarrow> int \<times> gxDatabase" where
  "GetHighestBlock db =
     (case read_fresh_hdr db of (fh, db1) \<Rightarrow>
        let db2 = (if gxd_hb_fptr fh \<noteq> gxd_hb_fptr (file_header db1) then ReadFileHdr db1 else db1)
        in (gxd_hb_fptr (file_header db2), db2))"

definition StaticArea :: "gxDatabase \<Rightarrow> int \<times> gxDatabase" where
  "StaticArea db =
     (case read_fresh_hdr db of (fh, db1) \<Rightarrow>
        let db2 = (if gxd_hs_fptr fh \<noteq> gxd_hs_fptr (file_header db1) then ReadFileHdr db1 else db1)
        in (gxd_hs_fptr (file_header db2) - FileHeaderSize db2, db2))"

definition TestFileHeader :: "gxDatabase \<Rightarrow> nat \<times> gxDatabase" where
  "TestFileHeader db =
     (case read_fresh_hdr db of (fh, db1) \<Rightarrow>
        let mh = file_header db1;
            errors = (if gxd_fs_fptr fh \<noteq> gxd_fs_fptr mh then 1 else 0) +
                     (if gxd_eof fh \<noteq> gxd_eof mh then 1 else 0) +
                     (if gxd_hs_fptr fh \<noteq> gxd_hs_fptr mh then 1 else 0) +
                     (if gxd_hb_fptr fh \<noteq> gxd_hb_fptr mh then 1 else 0) +
                     (if gxd_hs_fptr fh \<noteq> gxd_hs_fptr mh then 1 else 0)
        in (errors, if errors > 0 then ReadFileHdr db1 else db1))"

section \<open>Checksums\<close>

fun crc_read_loop :: "nat \<Rightarrow> crc \<Rightarrow> gxDatabase \<Rightarrow> crc option \<times> gxDatabase" where
  "crc_read_loop 0 CRC db = (Some CRC, db)"
| "crc_read_loop (Suc len) CRC db =
     (case Read [0] gxCurrAddress db of (b, db1) \<Rightarrow>
        if gxd_error db1 \<noteq> gxDBASE_NO_ERROR then (None, db1)
        else crc_read_loop len (calcCRC32_byte (hd b) CRC) db1)"

text \<open>
  \<open>buffer\<close> says whether a buffer was wanted (\<open>mem_alloc\<close>) and its allocation succeeded. The
  comparison is of unsigned 64-bit values; both sides are in range there.
\<close>

definition CalcChecksum :: "int \<Rightarrow> int \<Rightarrow> bool \<Rightarrow> gxDatabase \<Rightarrow> crc \<times> gxDatabase" where
  "CalcChecksum bytes file_address buffer db =
     (case GetEOF db of (eof, db1) \<Rightarrow>
        if file_address < 0 \<or> file_address > eof \<or> bytes > eof - file_address
        then (0, db1\<lparr>gxd_error := gxDBASE_BADBLOCK_ERROR\<rparr>)
        else if buffer then
          (if IsOK db1 then
             (case Read (replicate (nat bytes) 0) file_address db1 of (b, db2) \<Rightarrow>
                if gxd_error db2 \<noteq> gxDBASE_NO_ERROR then (0, db2) else (calcCRC32 b, db2))
           else (0, db1))
        else if IsOK db1 then
          (case SeekTo file_address db1 of (_, db2) \<Rightarrow>
             if gxd_error db2 \<noteq> gxDBASE_NO_ERROR then (0, db2)
             else (case crc_read_loop (nat bytes) 0xffffffff db2 of
                     (None, db3) \<Rightarrow> (0, db3)
                   | (Some CRC, db3) \<Rightarrow> (CRC XOR 0xffffffff, db3)))
        else (0, db1))"

end
