(* ===== verification/Files.thy ===== *)
theory Files
  imports Engine
begin

text \<open>
  The writing half of \<open>src/gxdbase.cpp\<close>: \<open>Write\<close> with its flush and read-back options, the
  headers written through it, the block header test, and opening, creating, flushing and
  closing a file.
\<close>

section \<open>Writing\<close>

definition bit_test_failed :: "byte list \<Rightarrow> int \<Rightarrow> bool \<Rightarrow> gxDatabase \<Rightarrow> gxDatabase" where
  "bit_test_failed buf buf_address buffer db =
     (let w_csum = calcCRC32 buf
      in case CalcChecksum (int (length buf)) buf_address buffer db of (r_csum, db1) \<Rightarrow>
           if gxd_error db1 \<noteq> gxDBASE_NO_ERROR then db1
           else if w_csum \<noteq> r_csum then db1\<lparr>gxd_error := gxDBASE_CHECKSUM_ERROR\<rparr>
           else db1\<lparr>gxd_error := gxDBASE_NO_ERROR\<rparr>)"

definition finish_write ::
  "byte list \<Rightarrow> int \<Rightarrow> bool \<Rightarrow> bool \<Rightarrow> gxDatabase \<Rightarrow> gxDatabase" where
  "finish_write buf buf_address flushdb bit_test db =
     (if flushdb then
        (case gxdFPTRFlush (fp db) (db_fs db) of (r, fs') \<Rightarrow>
           if r \<noteq> 0 then db\<lparr>db_fs := fs', gxd_error := gxDBASE_FILE_WRITE_ERROR\<rparr>
           else (let db1 = Seek 0 gxDBASE_SEEK_CUR (db\<lparr>db_fs := fs'\<rparr>)
                 in if gxd_error db1 \<noteq> gxDBASE_NO_ERROR then db1
                    else if bit_test then bit_test_failed buf buf_address True db1
                    else db1\<lparr>gxd_error := gxDBASE_NO_ERROR\<rparr>))
      else if bit_test then bit_test_failed buf buf_address True db
      else db\<lparr>gxd_error := gxDBASE_NO_ERROR\<rparr>)"

definition Write_opt ::
  "byte list \<Rightarrow> int \<Rightarrow> bool \<Rightarrow> bool \<Rightarrow> gxDatabase \<Rightarrow> gxDatabase" where
  "Write_opt buf file_address flushdb bit_test db =
     (if IsOK db \<and> ready_for_writing db then
        (case pre_seek gxDBASE_READ file_address db of (go, db1) \<Rightarrow>
           if \<not> go then db1
           else (case (if bit_test \<and> file_address = gxCurrAddress then FilePosition db1
                       else (file_address, db1)) of (buf_address, db2) \<Rightarrow>
             if bit_test \<and> gxd_error db2 \<noteq> gxDBASE_NO_ERROR then db2
             else (case gxdFPTRWrite (fp db2) buf of (k, fp') \<Rightarrow>
               if k \<noteq> length buf then db2\<lparr>fp := fp', gxd_error := gxDBASE_FILE_WRITE_ERROR\<rparr>
               else finish_write buf buf_address flushdb bit_test
                      (db2\<lparr>fp := fp', last_operation := gxDBASE_WRITE,
                           hook_calls := (if write_hook db2 then hook_calls db2 + 1
                                          else hook_calls db2)\<rparr>))))
      else db\<lparr>gxd_error := gxDBASE_FILE_NOT_WRITEABLE\<rparr>)"

text \<open>\<open>Write\<close> with its default arguments.\<close>

abbreviation Write :: "byte list \<Rightarrow> int \<Rightarrow> gxDatabase \<Rightarrow> gxDatabase" where
  "Write buf file_address db \<equiv> Write_opt buf file_address False False db"

definition WriteFileStatsHdr :: "gxFileStatsHeader \<Rightarrow> gxDatabase \<Rightarrow> gxDatabase" where
  "WriteFileStatsHdr hdr db =
     (if rev_D_or_E (rev_letter db)
      then Write (enc_gxFileStatsHeader hdr)
             (int sizeof_gxFileHeader + int sizeof_gxFileLockHeader) db
      else db\<lparr>gxd_error := gxDBASE_NO_ERROR\<rparr>)"

definition WriteFileHdr :: "gxDatabase \<Rightarrow> gxDatabase" where
  "WriteFileHdr db =
     (let db1 = Write (enc_gxFileHeader (file_header db)) gxStartOfFile db
      in if gxd_error db1 \<noteq> gxDBASE_NO_ERROR then db1
         else if rev_D_or_E (rev_letter db1) then
           (let db2 = WriteFileStatsHdr (file_stats_header db1) db1
            in if gxd_error db2 \<noteq> gxDBASE_NO_ERROR then db2
               else db2\<lparr>gxd_error := gxDBASE_NO_ERROR\<rparr>)
         else db1\<lparr>gxd_error := gxDBASE_NO_ERROR\<rparr>)"

section \<open>Block headers\<close>

definition TestBlockHeader :: "gxBlockHeader \<Rightarrow> bool" where
  "TestBlockHeader hdr =
     (if block_check_word hdr \<noteq> gxCheckWord then False
      else (let unused_1 = drop_bit 24 (block_status hdr AND 0xFF000000);
                unused_2 = drop_bit 16 (block_status hdr AND 0xFF0000)
            in if unused_1 \<noteq> 0 \<or> unused_2 \<noteq> 0 then False
               else (let control = drop_bit 8 (block_status hdr AND 0xFF00);
                         status = block_status hdr AND 0xff
                     in if status \<notin> {gxBadBlock, gxDeletedBlock, gxNormalBlock, gxRemovedBlock,
                                       gxRemoteDeviceBlock} then False
                        else if status = gxRemoteDeviceBlock then
                          control \<in> {gxAddRemoteBlock, gxChangeRemoteBlock, gxDeleteRemoteBlock,
                             gxRequestFailed, gxCloseConnection, gxKillServer, gxRequestBlock,
                             gxSendBlock, gxAcknowledgeBlock}
                        else control = 0)))"

definition block_state :: "gxBlockHeader \<Rightarrow> int" where
  "block_state hdr = block_status hdr AND 0xff"

text \<open>\<open>Read\<close> of a block header into the caller's variable \<open>hdr\<close>.\<close>

definition Read_hdr :: "gxBlockHeader \<Rightarrow> int \<Rightarrow> gxDatabase \<Rightarrow> gxBlockHeader \<times> gxDatabase" where
  "Read_hdr hdr block_address db =
     (case Read (enc_gxBlockHeader hdr) block_address db of (b, db1) \<Rightarrow> (dec_gxBlockHeader b, db1))"

definition ReadBlockHdr ::
  "gxBlockHeader \<Rightarrow> int \<Rightarrow> gxDatabase \<Rightarrow> gxBlockHeader \<times> gxDatabase" where
  "ReadBlockHdr hdr block_address db =
     (case Read_hdr hdr block_address db of (h, db1) \<Rightarrow>
        if gxd_error db1 \<noteq> gxDBASE_NO_ERROR then (h, db1)
        else if \<not> TestBlockHeader h then (h, db1\<lparr>gxd_error := gxDBASE_SYNC_ERROR\<rparr>)
        else (h, db1\<lparr>gxd_error := gxDBASE_NO_ERROR\<rparr>))"

definition WriteBlockHdr :: "gxBlockHeader \<Rightarrow> int \<Rightarrow> gxDatabase \<Rightarrow> gxDatabase" where
  "WriteBlockHdr hdr block_address db = Write (enc_gxBlockHeader hdr) block_address db"

section \<open>Object checksums\<close>

text \<open>The unsigned subtractions \<open>(block_length - BlockHeaderSize()) - sizeof(gxChecksum)\<close>.\<close>

definition object_bytes :: "gxBlockHeader \<Rightarrow> gxDatabase \<Rightarrow> int" where
  "object_bytes h db =
     to_u64 (to_u64 (block_length h - BlockHeaderSize db) - int sizeof_gxChecksum)"

text \<open>
  When the file is not open the variable \<open>CRC\<close> is returned as its constructor left it, zero.
\<close>

definition WriteObjectChecksum :: "int \<Rightarrow> gxDatabase \<Rightarrow> int \<times> gxDatabase" where
  "WriteObjectChecksum object_address db =
     (if rev_zero_or_E (rev_letter db) then (0, db)
      else if \<not> IsOK db then (0, db)
      else (case ReadBlockHdr new_gxBlockHeader (object_address - BlockHeaderSize db) db of
             (h, db1) \<Rightarrow>
               if gxd_error db1 \<noteq> gxDBASE_NO_ERROR then (0, db1)
               else (let bytes = object_bytes h db1
                     in case CalcChecksum bytes object_address True db1 of (CRC, db2) \<Rightarrow>
                          if gxd_error db2 \<noteq> gxDBASE_NO_ERROR then (0, db2)
                          else (let db3 = Write (gxUINT32_UnPackBits CRC) (object_address + bytes) db2
                                in if gxd_error db3 \<noteq> gxDBASE_NO_ERROR then (0, db3)
                                   else (CRC, db3)))))"

text \<open>True or false, with the stored and the calculated checksum when both were obtained.\<close>

definition ReadObjectChecksum :: "int \<Rightarrow> gxDatabase \<Rightarrow> (bool \<times> (int \<times> int) option) \<times> gxDatabase" where
  "ReadObjectChecksum object_address db =
     (if rev_zero_or_E (rev_letter db) then ((True, Some (0, 0)), db)
      else if \<not> IsOK db then ((False, None), db)
      else (case ReadBlockHdr new_gxBlockHeader (object_address - BlockHeaderSize db) db of
             (h, db1) \<Rightarrow>
               if gxd_error db1 \<noteq> gxDBASE_NO_ERROR then ((False, None), db1)
               else (let bytes = object_bytes h db1
                     in case CalcChecksum bytes object_address True db1 of (CRC, db2) \<Rightarrow>
                          if gxd_error db2 \<noteq> gxDBASE_NO_ERROR then ((False, None), db2)
                          else (case Read (gxUINT32_UnPackBits 0) (object_address + bytes) db2 of
                                 (b, db3) \<Rightarrow>
                                   if gxd_error db3 \<noteq> gxDBASE_NO_ERROR then ((False, None), db3)
                                   else (let objectCRC = gxUINT32_PackBits b
                                         in ((CRC XOR objectCRC = 0, Some (objectCRC, CRC)),
                                             db3))))))"

section \<open>File lock header\<close>

definition InitFileLockHdr :: gxFileLockHeader where
  "InitFileLockHdr = \<lparr>file_lock_protect = 0, file_read_lock = 0, file_write_lock = 0\<rparr>"

definition has_file_lock :: "char \<Rightarrow> bool" where
  "has_file_lock r \<longleftrightarrow> rev_B_or_C r \<or> rev_D_or_E r"

definition WriteFileLockHdr :: "gxFileLockHeader \<Rightarrow> gxDatabase \<Rightarrow> gxDatabase" where
  "WriteFileLockHdr hdr db =
     (if has_file_lock (rev_letter db)
      then Write (enc_gxFileLockHeader hdr) (int sizeof_gxFileHeader) db
      else db\<lparr>gxd_error := gxDBASE_NO_ERROR\<rparr>)"

section \<open>Opening and closing\<close>

definition Flush :: "gxDatabase \<Rightarrow> gxDatabase" where
  "Flush db =
     (if IsOK db \<and> ready_for_writing db then
        (let db1 = WriteFileHdr db
         in if gxd_error db1 \<noteq> gxDBASE_NO_ERROR then db1
            else (case gxdFPTRFlush (fp db1) (db_fs db1) of (r, fs') \<Rightarrow>
                    if r \<noteq> 0 then db1\<lparr>db_fs := fs', gxd_error := gxDBASE_FILE_WRITE_ERROR\<rparr>
                    else (Seek 0 gxDBASE_SEEK_CUR (db1\<lparr>db_fs := fs'\<rparr>))
                           \<lparr>gxd_error := gxDBASE_NO_ERROR\<rparr>))
      else db\<lparr>gxd_error := gxDBASE_NO_ERROR\<rparr>)"

definition reset_status :: "gxDatabase \<Rightarrow> gxDatabase" where
  "reset_status db =
     db\<lparr>is_open := False, is_ok := False, ready_for_reading := False,
        ready_for_writing := False, fp := None, gxd_error := gxDBASE_NO_ERROR\<rparr>"

definition Close :: "gxDatabase \<Rightarrow> gxDatabase" where
  "Close db =
     (if IsOK db then
        (let db1 = (if ready_for_writing db then WriteFileHdr db else db)
         in case gxdFPTRClose (fp db1) (db_fs db1) of (r, fs') \<Rightarrow>
              if r \<noteq> 0 then db1\<lparr>db_fs := fs', gxd_error := gxDBASE_FILE_CLOSE_ERROR\<rparr>
              else reset_status (db1\<lparr>db_fs := fs', file_name := gxDefaultFileName\<rparr>))
      else reset_status db)"

definition InitFileHdr :: "gxDatabase \<Rightarrow> gxDatabase" where
  "InitFileHdr db =
     (let fh = (file_header db)
                 \<lparr>gxd_fs_fptr := 0, gxd_eof := gxd_hs_fptr (file_header db), gxd_hb_fptr := 0,
                  gxd_sig := take 9 gxSignature @ [byte_of_char (rev_letter db)],
                  gxd_ver := gxDatabaseVersionNumber\<rparr>;
          db1 = WriteFileHdr (db\<lparr>file_header := fh, file_stats_header := InitFileStatsHdr\<rparr>)
      in if gxd_error db1 \<noteq> gxDBASE_NO_ERROR then db1
         else (let db2 = WriteFileLockHdr InitFileLockHdr db1
               in if gxd_error db2 \<noteq> gxDBASE_NO_ERROR then db2
                  else if gxd_hs_fptr (file_header db2) > FileHeaderSize db2 then
                    (let db3 = Write [0] (gxd_hs_fptr (file_header db2) - 1) db2
                     in if gxd_error db3 \<noteq> gxDBASE_NO_ERROR then db3
                        else db3\<lparr>gxd_error := gxDBASE_NO_ERROR\<rparr>)
                  else db2\<lparr>gxd_error := gxDBASE_NO_ERROR\<rparr>))"

text \<open>A null or too long name: \<open>(!fname) || (strlen(fname) >= gxMaxNameLength)\<close>.\<close>

definition bad_name :: "string option \<Rightarrow> bool" where
  "bad_name n = (case n of None \<Rightarrow> True | Some s \<Rightarrow> length s \<ge> gxMaxNameLength)"

definition Create :: "string option \<Rightarrow> int \<Rightarrow> char \<Rightarrow> gxDatabase \<Rightarrow> gxDatabase" where
  "Create fn static_size RevisionLetter db =
     (let db1 = Close db
      in if gxd_error db1 \<noteq> gxDBASE_NO_ERROR then db1
         else if bad_name fn then db1\<lparr>gxd_error := gxDBASE_FILE_OPEN_ERROR\<rparr>
         else (case gxdFPTRCreate (the fn) (db_fs db1) of
                 (None, fs') \<Rightarrow>
                   db1\<lparr>db_fs := fs', fp := None, is_ok := False, is_open := False,
                       ready_for_writing := False, ready_for_reading := False,
                       gxd_error := gxDBASE_FILE_CREATION_ERROR\<rparr>
               | (Some s, fs') \<Rightarrow>
                   (let db2 = SetRevisionLetter RevisionLetter
                                (db1\<lparr>db_fs := fs', fp := Some s, is_open := True, is_ok := True,
                                     ready_for_writing := True, ready_for_reading := True,
                                     file_name := the fn\<rparr>);
                        db3 = InitFileHdr
                                (db2\<lparr>file_header := (file_header db2)
                                       \<lparr>gxd_hs_fptr := to_s64 (static_size + FileHeaderSize db2)\<rparr>,
                                     last_operation := gxDBASE_READ\<rparr>)
                    in if gxd_error db3 \<noteq> gxDBASE_NO_ERROR then db3
                       else db3\<lparr>gxd_error := gxDBASE_NO_ERROR\<rparr>)))"

definition Exists :: "string \<Rightarrow> filesys \<Rightarrow> bool" where
  "Exists n fs = gxdFPTRExists n fs"

definition FileSize :: "string \<Rightarrow> filesys \<Rightarrow> int" where
  "FileSize n fs = gxdFPTRFileSize n fs"

text \<open>The second part of \<open>Open\<close>: the recorded end of file is not below the real one.\<close>

definition sync_eof :: "string \<Rightarrow> gxDatabase \<Rightarrow> gxDatabase" where
  "sync_eof n db =
     (let filesize = FileSize n (db_fs db)
      in if filesize \<noteq> -1 \<and> gxd_eof (file_header db) < filesize then
           (let db1 = Flush (db\<lparr>file_header := (file_header db)\<lparr>gxd_eof := filesize\<rparr>\<rparr>)
            in if gxd_error db1 \<noteq> gxDBASE_NO_ERROR then db1
               else db1\<lparr>gxd_error := gxDBASE_NO_ERROR\<rparr>)
         else db\<lparr>gxd_error := gxDBASE_NO_ERROR\<rparr>)"

definition Open :: "string option \<Rightarrow> gxDatabaseAccessMode \<Rightarrow> gxDatabase \<Rightarrow> gxDatabase" where
  "Open fn mode db =
     (let db1 = Close db
      in if gxd_error db1 \<noteq> gxDBASE_NO_ERROR then db1
         else if bad_name fn then db1\<lparr>gxd_error := gxDBASE_FILE_OPEN_ERROR\<rparr>
         else (let m = (if mode = gxDBASE_READONLY then gxDBASE_READONLY else gxDBASE_READWRITE)
               in case gxdFPTROpen (the fn) m (db_fs db1) of
                    None \<Rightarrow> db1\<lparr>fp := None, ready_for_reading := False, ready_for_writing := False,
                                gxd_error := gxDBASE_FILE_OPEN_ERROR\<rparr>
                  | Some s \<Rightarrow>
                      (let db2 = ReadFileHdr
                                   (db1\<lparr>fp := Some s, ready_for_reading := True,
                                        ready_for_writing := (mode \<noteq> gxDBASE_READONLY),
                                        is_open := True, is_ok := True, file_name := the fn,
                                        last_operation := gxDBASE_WRITE\<rparr>)
                       in if gxd_error db2 \<noteq> gxDBASE_NO_ERROR then db2
                          else if take 9 (gxd_sig (file_header db2)) \<noteq> take 9 gxSignature
                          then db2\<lparr>gxd_error := gxDBASE_WRONG_FILE_TYPE, is_ok := False\<rparr>
                          else sync_eof (the fn) db2)))"


text \<open>
  The status word of a block header: four bytes, of which the test of \<open>TestBlockHeader\<close> allows
  the two upper ones to be zero only, the second to be a remote control code and the first to be
  the state of the block.
\<close>
unbundle bit_operations_syntax

lemma and_bytes:
  fixes s :: int
  shows "s AND 0xff = s mod 2 ^ 8"
    and "drop_bit 8 (s AND 0xFF00) = (s div 2 ^ 8) mod 2 ^ 8"
    and "drop_bit 16 (s AND 0xFF0000) = (s div 2 ^ 16) mod 2 ^ 8"
    and "drop_bit 24 (s AND 0xFF000000) = (s div 2 ^ 24) mod 2 ^ 8"
proof -
  have m: "(0xff :: int) = mask 8" "(0xFF00 :: int) = push_bit 8 (mask 8)"
    "(0xFF0000 :: int) = push_bit 16 (mask 8)" "(0xFF000000 :: int) = push_bit 24 (mask 8)"
    by (simp_all add: mask_eq_exp_minus_1 push_bit_eq_mult)
  have d: "drop_bit n (s AND push_bit n (mask 8)) = take_bit 8 (drop_bit n s)" for n
    by (rule bit_eqI) (auto simp: bit_simps)
  show "s AND 0xff = s mod 2 ^ 8"
    by (simp only: m(1) take_bit_eq_mask [symmetric] take_bit_eq_mod)
  show "drop_bit 8 (s AND 0xFF00) = (s div 2 ^ 8) mod 2 ^ 8"
    "drop_bit 16 (s AND 0xFF0000) = (s div 2 ^ 16) mod 2 ^ 8"
    "drop_bit 24 (s AND 0xFF000000) = (s div 2 ^ 24) mod 2 ^ 8"
    by (simp_all only: m d) (simp_all only: take_bit_eq_mod drop_bit_eq_div)
qed

lemma and_high:
  fixes s :: int
  assumes "0 \<le> s" "s < 2 ^ 32"
  shows "s AND 0xffffff00 = s - s mod 2 ^ 8"
proof -
  have "(0xffffff00 :: int) = push_bit 8 (mask 24)"
    by (simp add: mask_eq_exp_minus_1 push_bit_eq_mult)
  moreover have "s AND push_bit 8 (mask 24) = push_bit 8 (take_bit 24 (drop_bit 8 s))"
    by (rule bit_eqI) (auto simp: bit_simps)
  moreover have "take_bit 24 (drop_bit 8 s) = drop_bit 8 s"
    using assms by (simp add: take_bit_eq_mod drop_bit_eq_div)
  moreover have "push_bit 8 (drop_bit 8 s) = s - s mod 2 ^ 8"
    by (simp add: push_bit_eq_mult drop_bit_eq_div minus_mod_eq_div_mult)
  ultimately show ?thesis by simp
qed

definition remote_controls :: "int set" where
  "remote_controls =
     {gxAddRemoteBlock, gxChangeRemoteBlock, gxDeleteRemoteBlock, gxRequestFailed,
      gxCloseConnection, gxKillServer, gxRequestBlock, gxSendBlock, gxAcknowledgeBlock}"

lemma status_bytes:
  fixes s :: int
  assumes "0 \<le> s" "s < 2 ^ 32"
  shows "s = 2 ^ 24 * ((s div 2 ^ 24) mod 2 ^ 8) + 2 ^ 16 * ((s div 2 ^ 16) mod 2 ^ 8) +
    2 ^ 8 * ((s div 2 ^ 8) mod 2 ^ 8) + s mod 2 ^ 8"
proof -
  have lt: "s div 2 ^ 24 < 2 ^ 8" "0 \<le> s div 2 ^ 24" using assms by auto
  define q1 where "q1 = s div 2 ^ 8"
  define q2 where "q2 = q1 div 2 ^ 8"
  define q3 where "q3 = q2 div 2 ^ 8"
  have q: "s div 2 ^ 16 = q2" "s div 2 ^ 24 = q3"
    by (simp_all add: q1_def q2_def q3_def flip: zdiv_zmult2_eq)
  have t: "q3 mod 2 ^ 8 = q3" using lt q by simp
  define m0 m1 m2 where "m0 = s mod 2 ^ 8" and "m1 = q1 mod 2 ^ 8" and "m2 = q2 mod 2 ^ 8"
  have d: "s = 2 ^ 8 * q1 + m0" "q1 = 2 ^ 8 * q2 + m1" "q2 = 2 ^ 8 * q3 + m2"
    by (simp_all add: q1_def q2_def q3_def m0_def m1_def m2_def)
  have "s = 2 ^ 24 * q3 + 2 ^ 16 * m2 + 2 ^ 8 * m1 + m0" using d by simp
  then show ?thesis
    unfolding q t q1_def [symmetric] m0_def [symmetric] m1_def [symmetric] m2_def [symmetric] .
qed

lemma TestBlockHeader_iff:
  assumes "in_u32 (block_status h)"
  shows "TestBlockHeader h \<longleftrightarrow> block_check_word h = gxCheckWord \<and>
    (block_status h \<in> {gxBadBlock, gxDeletedBlock, gxNormalBlock, gxRemovedBlock} \<or>
     (\<exists>c \<in> remote_controls. block_status h = 2 ^ 8 * c + gxRemoteDeviceBlock))"
proof -
  let ?s = "block_status h"
  have s: "0 \<le> ?s" "?s < 2 ^ 32" using assms by (auto simp: in_u32_def)
  define a where "a = (?s div 2 ^ 24) mod 2 ^ 8"
  define b where "b = (?s div 2 ^ 16) mod 2 ^ 8"
  define c where "c = (?s div 2 ^ 8) mod 2 ^ 8"
  define d where "d = ?s mod 2 ^ 8"
  note abcd = a_def b_def c_def d_def
  have e: "?s = 2 ^ 24 * a + 2 ^ 16 * b + 2 ^ 8 * c + d"
    unfolding abcd by (rule status_bytes [OF s])
  have r: "0 \<le> a" "a < 256" "0 \<le> b" "b < 256" "0 \<le> c" "c < 256" "0 \<le> d" "d < 256"
    unfolding abcd by simp_all
  have t: "TestBlockHeader h \<longleftrightarrow> block_check_word h = gxCheckWord \<and> a = 0 \<and> b = 0 \<and>
     d \<in> {gxBadBlock, gxDeletedBlock, gxNormalBlock, gxRemovedBlock, gxRemoteDeviceBlock} \<and>
     (if d = gxRemoteDeviceBlock then c \<in> remote_controls else c = 0)"
    unfolding TestBlockHeader_def Let_def and_bytes abcd [symmetric] remote_controls_def by auto
  have u: "?s = 2 ^ 8 * x + y \<longleftrightarrow> a = 0 \<and> b = 0 \<and> c = x \<and> d = y"
    if q: "0 \<le> x" "x < 256" "0 \<le> y" "y < 256" for x y
  proof
    assume "?s = 2 ^ 8 * x + y"
    then have i: "2 ^ 24 * a + 2 ^ 16 * b + 2 ^ 8 * c + d = 2 ^ 8 * x + y" using e by simp
    then have a0: "a = 0" using r q by simp
    then have b0: "b = 0" using i r q by simp
    have "2 ^ 8 * c + d = 2 ^ 8 * x + y" using i a0 b0 by simp
    then have "c = x" using r q by simp
    then show "a = 0 \<and> b = 0 \<and> c = x \<and> d = y" using i a0 b0 by simp
  qed (simp add: e)
  have v: "?s = y \<longleftrightarrow> a = 0 \<and> b = 0 \<and> c = 0 \<and> d = y" if "0 \<le> y" "y < 256" for y
    using u [of 0 y] that by simp
  have w: "0 \<le> x \<and> x < 256" if "x \<in> remote_controls" for x
    using that by (auto simp: remote_controls_def gxAddRemoteBlock_def gxChangeRemoteBlock_def
      gxDeleteRemoteBlock_def gxRequestFailed_def gxCloseConnection_def gxKillServer_def
      gxRequestBlock_def gxSendBlock_def gxAcknowledgeBlock_def)
  have vs: "?s = gxBadBlock \<longleftrightarrow> a = 0 \<and> b = 0 \<and> c = 0 \<and> d = gxBadBlock"
    "?s = gxDeletedBlock \<longleftrightarrow> a = 0 \<and> b = 0 \<and> c = 0 \<and> d = gxDeletedBlock"
    "?s = gxNormalBlock \<longleftrightarrow> a = 0 \<and> b = 0 \<and> c = 0 \<and> d = gxNormalBlock"
    "?s = gxRemovedBlock \<longleftrightarrow> a = 0 \<and> b = 0 \<and> c = 0 \<and> d = gxRemovedBlock"
    by (intro v; simp add: block_status_defs)+
  have us: "(\<exists>x \<in> remote_controls. ?s = 2 ^ 8 * x + gxRemoteDeviceBlock) \<longleftrightarrow>
    a = 0 \<and> b = 0 \<and> c \<in> remote_controls \<and> d = gxRemoteDeviceBlock"
    using u w by (auto simp: block_status_defs)
  have ne: "gxRemoteDeviceBlock \<notin> {gxBadBlock, gxDeletedBlock, gxNormalBlock, gxRemovedBlock}"
    by (simp add: block_status_defs)
  show ?thesis
    unfolding t us insert_iff empty_iff vs using ne by (cases "d = gxRemoteDeviceBlock") auto
qed

text \<open>
  For a block that is not a remote device block the status word is its state, so marking it
  replaces the word.
\<close>

lemma status_is_state:
  assumes "in_u32 (block_status h)" "TestBlockHeader h" "block_state h \<noteq> gxRemoteDeviceBlock"
  shows "block_status h = block_state h"
    "block_state h \<in> {gxBadBlock, gxDeletedBlock, gxNormalBlock, gxRemovedBlock}"
proof -
  have m: "block_state h = block_status h mod 2 ^ 8" by (simp only: block_state_def and_bytes)
  have "\<not> (\<exists>c \<in> remote_controls. block_status h = 2 ^ 8 * c + gxRemoteDeviceBlock)"
    using assms(3) m by (auto simp: gxRemoteDeviceBlock_def)
  then have s: "block_status h \<in> {gxBadBlock, gxDeletedBlock, gxNormalBlock, gxRemovedBlock}"
    using assms(1,2) TestBlockHeader_iff by blast
  show "block_status h = block_state h" using s m by (auto simp: block_status_defs)
  then show "block_state h \<in> {gxBadBlock, gxDeletedBlock, gxNormalBlock, gxRemovedBlock}"
    using s by simp
qed

lemma TestBlockHeader_plain:
  assumes "block_check_word h = gxCheckWord"
    "block_status h \<in> {gxBadBlock, gxDeletedBlock, gxNormalBlock, gxRemovedBlock}"
  shows "TestBlockHeader h" "block_state h = block_status h"
proof -
  have "in_u32 (block_status h)" using assms(2) by (auto simp: in_u32_def block_status_defs)
  then show "TestBlockHeader h" using assms by (simp add: TestBlockHeader_iff)
  show "block_state h = block_status h"
    using assms(2) unfolding block_state_def and_bytes by (auto simp: block_status_defs)
qed

end
