(* ===== verification/Blocks.thy ===== *)
theory Blocks
  imports Files
begin

text \<open>
  Block allocation in \<open>src/gxdbase.cpp\<close>: \<open>Alloc\<close> with its two reclaim methods, \<open>Delete\<close>,
  \<open>Remove\<close> and \<open>UnDelete\<close> on the free space list, and the block counts and lengths. The free
  space list is the chain of \<open>block_nd_fptr\<close> pointers in the file that starts at the header's
  \<open>gxd_fs_fptr\<close>. A walk over it follows what the file holds, so it may go round a cycle for
  ever: the walks are partial functions and \<open>None\<close> is not returning. Block lengths are stored
  in 32 bits and sums of \<open>__ULWORD__\<close> values wrap at 64 bits.
\<close>

datatype gxDatabaseReclaimMethod =
  gxDBASE_RECLAIM_NONE | gxDBASE_RECLAIM_BESTFIT | gxDBASE_RECLAIM_FIRSTFIT

section \<open>Common parts of the free list walks\<close>

text \<open>The size of a block for \<open>bytes\<close>: the header and, but for revisions zero and E, a checksum.\<close>

definition with_overhead :: "int \<Rightarrow> gxDatabase \<Rightarrow> int" where
  "with_overhead bytes db =
     (if rev_zero_or_E (rev_letter db) then to_u64 (bytes + BlockHeaderSize db)
      else to_u64 (to_u64 (bytes + BlockHeaderSize db) + int sizeof_gxChecksum))"

text \<open>A block on the free list is deleted or removed and does not point to itself.\<close>

definition bad_free_block :: "int \<Rightarrow> gxBlockHeader \<Rightarrow> bool" where
  "bad_free_block addr h \<longleftrightarrow>
     (block_state h \<noteq> gxDeletedBlock \<and> block_state h \<noteq> gxRemovedBlock) \<or> addr = block_nd_fptr h"

definition set_fs_fptr :: "int \<Rightarrow> gxDatabase \<Rightarrow> gxDatabase" where
  "set_fs_fptr a db = db\<lparr>file_header := (file_header db)\<lparr>gxd_fs_fptr := a\<rparr>\<rparr>"

definition mark_corrupt :: "gxDatabase \<Rightarrow> gxDatabase" where
  "mark_corrupt db = WriteFileHdr (set_fs_fptr gxFSListCorrupt db)"

definition upd_stats ::
  "(gxFileStatsHeader \<Rightarrow> gxFileStatsHeader) \<Rightarrow> gxDatabase \<Rightarrow> gxDatabase" where
  "upd_stats f db = db\<lparr>file_stats_header := f (file_stats_header db)\<rparr>"

definition one_less_deleted :: "gxFileStatsHeader \<Rightarrow> gxFileStatsHeader" where
  "one_less_deleted s =
     (if deleted_blocks s > 0 then s\<lparr>deleted_blocks := deleted_blocks s - 1\<rparr> else s)"

definition one_less_removed :: "gxFileStatsHeader \<Rightarrow> gxFileStatsHeader" where
  "one_less_removed s =
     (if removed_blocks s > 0 then s\<lparr>removed_blocks := removed_blocks s - 1\<rparr> else s)"

text \<open>The statistics when a block of the given state leaves the free list.\<close>

definition reuse_stats :: "int \<Rightarrow> gxFileStatsHeader \<Rightarrow> gxFileStatsHeader" where
  "reuse_stats status s =
     (if status = gxDeletedBlock then one_less_deleted s
      else if status = gxRemovedBlock then one_less_removed s else s)"

text \<open>The statistics when the rest of a block becomes a removed block of its own.\<close>

definition split_stats :: "gxFileStatsHeader \<Rightarrow> gxFileStatsHeader" where
  "split_stats s =
     s\<lparr>num_blocks := to_s64 (num_blocks s + 1), removed_blocks := to_s64 (removed_blocks s + 1)\<rparr>"

text \<open>
  Let the list go on at \<open>next\<close> after the block \<open>prev_blk\<close> at \<open>prev_addr\<close>, or at its head when
  there is no such block. False when writing it failed.
\<close>

definition relink :: "int \<Rightarrow> int \<Rightarrow> gxBlockHeader \<Rightarrow> gxDatabase \<Rightarrow> bool \<times> gxDatabase" where
  "relink next_addr prev_addr prev_blk db =
     (if prev_addr = 0 then
        (let db1 = WriteFileHdr (set_fs_fptr next_addr db)
         in (gxd_error db1 = gxDBASE_NO_ERROR, db1))
      else
        (let db1 = WriteBlockHdr (prev_blk\<lparr>block_nd_fptr := next_addr\<rparr>) prev_addr db
         in if gxd_error db1 \<noteq> gxDBASE_NO_ERROR then (False, db1)
            else (let db2 = WriteFileStatsHdr (file_stats_header db1) db1
                  in (gxd_error db2 = gxDBASE_NO_ERROR, db2))))"

definition addr_if_ok :: "int \<Rightarrow> bool \<times> gxDatabase \<Rightarrow> int \<times> gxDatabase" where
  "addr_if_ok addr r = (case r of (ok, db) \<Rightarrow> (if ok \<and> IsOK db then addr else 0, db))"

text \<open>The unused bytes of a block that has room for another block, else zero.\<close>

definition unused_length :: "int \<Rightarrow> gxBlockHeader \<Rightarrow> gxDatabase \<Rightarrow> int" where
  "unused_length bytes h db =
     (if block_length h > with_overhead bytes db then block_length h - bytes else 0)"

definition rest_block :: "int \<Rightarrow> int \<Rightarrow> gxBlockHeader" where
  "rest_block len next_addr =
     \<lparr>block_check_word = gxCheckWord, block_length = to_u32 len, block_status = gxRemovedBlock,
      block_nd_fptr = next_addr\<rparr>"

section \<open>First fit\<close>

text \<open>The block \<open>h\<close> at \<open>addr\<close> is taken, exactly or with its rest made a removed block.\<close>

definition take_exact ::
  "int \<Rightarrow> int \<Rightarrow> gxBlockHeader \<Rightarrow> gxBlockHeader \<Rightarrow> gxDatabase \<Rightarrow> int \<times> gxDatabase" where
  "take_exact addr prev_addr prev_blk h db =
     addr_if_ok addr (relink (block_nd_fptr h) prev_addr prev_blk
       (upd_stats (reuse_stats (block_state h)) db))"

definition take_split ::
  "int \<Rightarrow> int \<Rightarrow> int \<Rightarrow> gxBlockHeader \<Rightarrow> gxBlockHeader \<Rightarrow> gxDatabase \<Rightarrow> int \<times> gxDatabase" where
  "take_split bytes addr prev_addr prev_blk h db =
     (let new_addr = to_s64 (addr + bytes);
          db1 = WriteBlockHdr (rest_block (unused_length bytes h db) (block_nd_fptr h)) new_addr
                  (upd_stats (split_stats \<circ> reuse_stats (block_state h)) db)
      in if gxd_error db1 \<noteq> gxDBASE_NO_ERROR then (0, db1)
         else addr_if_ok addr (relink new_addr prev_addr prev_blk db1))"

partial_function (option) first_fit_loop ::
  "int \<Rightarrow> int \<Rightarrow> int \<Rightarrow> gxBlockHeader \<Rightarrow> gxBlockHeader \<Rightarrow> gxDatabase \<Rightarrow>
   (int \<times> gxDatabase) option" where
  "first_fit_loop bytes addr prev_addr prev_blk hdr db =
     (if addr = 0 then Some (0, db)
      else (case Read_hdr hdr gxCurrAddress db of (h, db1) \<Rightarrow>
        if gxd_error db1 \<noteq> gxDBASE_NO_ERROR then Some (0, db1)
        else if \<not> IsOK db1 then Some (0, db1)
        else if \<not> TestBlockHeader h \<or> bad_free_block addr h then Some (0, mark_corrupt db1)
        else if block_length h = bytes then Some (take_exact addr prev_addr prev_blk h db1)
        else if unused_length bytes h db1 > 0
        then Some (take_split bytes addr prev_addr prev_blk h db1)
        else (case SeekTo (block_nd_fptr h) db1 of
                (_, db2) \<Rightarrow> first_fit_loop bytes (block_nd_fptr h) addr h h db2)))"

definition ReclaimFirstFit :: "int \<Rightarrow> gxDatabase \<Rightarrow> (int \<times> gxDatabase) option" where
  "ReclaimFirstFit bytes db =
     (if gxd_fs_fptr (file_header db) = gxFSListCorrupt then Some (0, db)
      else (case SeekTo (gxd_fs_fptr (file_header db)) db of (_, db1) \<Rightarrow>
              first_fit_loop bytes (gxd_fs_fptr (file_header db)) 0 new_gxBlockHeader
                new_gxBlockHeader db1))"

section \<open>Best fit\<close>

text \<open>
  The candidate of the best fit search: its address, the block before it, the two headers and
  the unused bytes. \<open>best_length\<close> is the truncated \<open>bytes * 0.25 * i\<close> for \<open>i\<close> from 1 to 10, cut to 32 bits,
  which is exact in double arithmetic for the 32-bit lengths a block can have.
\<close>

record best_fit =
  best_fit_addr :: int
  best_fit_prev_addr :: int
  best_fit_blk :: gxBlockHeader
  best_fit_prev_blk :: gxBlockHeader
  best_fit_unused_len :: int

definition no_best_fit :: best_fit where
  "no_best_fit =
     \<lparr>best_fit_addr = 0, best_fit_prev_addr = 0, best_fit_blk = new_gxBlockHeader,
      best_fit_prev_blk = new_gxBlockHeader, best_fit_unused_len = 0\<rparr>"

definition best_length :: "int \<Rightarrow> nat \<Rightarrow> int" where
  "best_length bytes i = to_u32 ((bytes * (int i + 1)) div 4)"

definition max_limit :: nat where "max_limit = 10"

fun best_fit_tests ::
  "int \<Rightarrow> int \<Rightarrow> int \<Rightarrow> int \<Rightarrow> gxBlockHeader \<Rightarrow> gxBlockHeader \<Rightarrow> nat list \<Rightarrow> best_fit \<Rightarrow> best_fit"
where
  "best_fit_tests bytes unused addr prev_addr h prev_blk [] best = best"
| "best_fit_tests bytes unused addr prev_addr h prev_blk (i # is) best =
     best_fit_tests bytes unused addr prev_addr h prev_blk is
       (if unused \<le> best_length bytes i \<and> best_fit_unused_len best > best_length bytes i
        then \<lparr>best_fit_addr = addr, best_fit_prev_addr = prev_addr, best_fit_blk = h,
              best_fit_prev_blk = prev_blk, best_fit_unused_len = unused\<rparr>
        else best)"

definition note_best_fit ::
  "int \<Rightarrow> int \<Rightarrow> int \<Rightarrow> gxBlockHeader \<Rightarrow> gxBlockHeader \<Rightarrow> gxDatabase \<Rightarrow> best_fit \<Rightarrow> best_fit" where
  "note_best_fit bytes addr prev_addr h prev_blk db best =
     (let unused = unused_length bytes h db
      in if unused > 0
         then best_fit_tests bytes unused addr prev_addr h prev_blk [0..<max_limit] best
         else best)"

text \<open>After the search: \<open>status\<close> is that of the last block looked at.\<close>

definition take_best :: "int \<Rightarrow> int \<Rightarrow> best_fit \<Rightarrow> gxDatabase \<Rightarrow> int \<times> gxDatabase" where
  "take_best bytes status best db =
     (if best_fit_addr best = 0 then (0, db)
      else (let new_addr = to_s64 (best_fit_addr best + bytes);
                db1 = WriteBlockHdr
                        (rest_block (best_fit_unused_len best) (block_nd_fptr (best_fit_blk best)))
                        new_addr (upd_stats (split_stats \<circ> reuse_stats status) db)
            in if gxd_error db1 \<noteq> gxDBASE_NO_ERROR then (0, db1)
               else addr_if_ok (best_fit_addr best)
                      (relink new_addr (best_fit_prev_addr best) (best_fit_prev_blk best) db1)))"

partial_function (option) best_fit_loop ::
  "int \<Rightarrow> int \<Rightarrow> int \<Rightarrow> gxBlockHeader \<Rightarrow> gxBlockHeader \<Rightarrow> int \<Rightarrow> best_fit \<Rightarrow> gxDatabase \<Rightarrow>
   (int \<times> gxDatabase) option" where
  "best_fit_loop bytes addr prev_addr prev_blk hdr status best db =
     (if addr = 0 then Some (take_best bytes status best db)
      else (case Read_hdr hdr gxCurrAddress db of (h, db1) \<Rightarrow>
        if gxd_error db1 \<noteq> gxDBASE_NO_ERROR then Some (0, db1)
        else if \<not> IsOK db1 then Some (take_best bytes status best db1)
        else if \<not> TestBlockHeader h \<or> bad_free_block addr h then Some (0, mark_corrupt db1)
        else if block_length h = bytes then Some (take_exact addr prev_addr prev_blk h db1)
        else (case SeekTo (block_nd_fptr h) db1 of
                (_, db2) \<Rightarrow> best_fit_loop bytes (block_nd_fptr h) addr h h (block_state h)
                             (note_best_fit bytes addr prev_addr h prev_blk db1 best) db2)))"

definition ReclaimBestFit :: "int \<Rightarrow> gxDatabase \<Rightarrow> (int \<times> gxDatabase) option" where
  "ReclaimBestFit bytes db =
     (if gxd_fs_fptr (file_header db) = gxFSListCorrupt then Some (0, db)
      else (case SeekTo (gxd_fs_fptr (file_header db)) db of (_, db1) \<Rightarrow>
              best_fit_loop bytes (gxd_fs_fptr (file_header db)) 0 new_gxBlockHeader
                new_gxBlockHeader 0 no_best_fit db1))"

section \<open>Allocation\<close>

text \<open>
  Extending the file: the zero fill is written at the old end of file. The second component is
  true when it was written.
\<close>

definition extend_file :: "int \<Rightarrow> gxDatabase \<Rightarrow> (int \<times> bool) \<times> gxDatabase" where
  "extend_file bytes db =
     (let file_address = gxd_eof (file_header db);
          db1 = Write (replicate (nat bytes) 0) file_address
                  (db\<lparr>file_header := (file_header db)\<lparr>gxd_eof := to_s64 (file_address + bytes)\<rparr>\<rparr>)
      in if gxd_error db1 \<noteq> gxDBASE_NO_ERROR then ((0, False), db1)
         else ((file_address, True),
               (upd_stats (\<lambda>s. s\<lparr>num_blocks := to_s64 (num_blocks s + 1)\<rparr>) db1)
                 \<lparr>file_header := (file_header db1)\<lparr>gxd_hb_fptr := file_address\<rparr>\<rparr>))"

definition fresh_block :: "int \<Rightarrow> gxBlockHeader" where
  "fresh_block bytes =
     \<lparr>block_check_word = gxCheckWord, block_length = to_u32 bytes, block_status = gxNormalBlock,
      block_nd_fptr = 0\<rparr>"

text \<open>The last part of \<open>Alloc\<close>: the headers of the block at \<open>file_address\<close> and of the file.\<close>

definition init_block :: "int \<Rightarrow> int \<Rightarrow> gxDatabase \<Rightarrow> int \<times> gxDatabase" where
  "init_block bytes file_address db =
     (let db1 = WriteBlockHdr (fresh_block bytes) file_address db
      in if gxd_error db1 \<noteq> gxDBASE_NO_ERROR then (0, db1)
         else (let db2 = (if rev_C_or_D (rev_letter db1)
                          then Write (enc_gxRecordLockHeader new_gxRecordLockHeader) gxCurrAddress db1
                          else db1)
               in if rev_C_or_D (rev_letter db1) \<and> gxd_error db2 \<noteq> gxDBASE_NO_ERROR then (0, db2)
                  else (let db3 = (if file_address > gxd_hb_fptr (file_header db2)
                                   then db2\<lparr>file_header :=
                                          (file_header db2)\<lparr>gxd_hb_fptr := file_address\<rparr>\<rparr>
                                   else db2);
                            db4 = WriteFileHdr db3
                        in SeekTo (file_address + BlockHeaderSize db4) db4)))"

definition Alloc ::
  "int \<Rightarrow> gxDatabaseReclaimMethod \<Rightarrow> gxDatabase \<Rightarrow> (int \<times> gxDatabase) option" where
  "Alloc size_bytes how db =
     (if IsOK db \<and> ready_for_writing db then
        (let bytes = with_overhead size_bytes db
         in case (if gxd_fs_fptr (file_header db) \<noteq> 0 then
                    (case how of
                       gxDBASE_RECLAIM_FIRSTFIT \<Rightarrow> ReclaimFirstFit bytes db
                     | gxDBASE_RECLAIM_BESTFIT \<Rightarrow> ReclaimBestFit bytes db
                     | gxDBASE_RECLAIM_NONE \<Rightarrow> Some (0, db))
                  else Some (0, db)) of
              None \<Rightarrow> None
            | Some (addr, db1) \<Rightarrow>
                if IsOK db1 \<and> addr = 0 then
                  (case extend_file bytes db1 of ((file_address, ok), db2) \<Rightarrow>
                     if ok then Some (init_block bytes file_address db2) else Some (0, db2))
                else Some (init_block bytes addr db1))
      else Some (0, db\<lparr>gxd_error := gxDBASE_FILE_NOT_WRITEABLE\<rparr>))"

section \<open>Deletion\<close>

definition with_state :: "int \<Rightarrow> gxBlockHeader \<Rightarrow> gxBlockHeader" where
  "with_state s h = h\<lparr>block_status := (block_status h AND 0xffffff00) + s\<rparr>"

definition Delete_opt :: "int \<Rightarrow> bool \<Rightarrow> gxDatabase \<Rightarrow> bool \<times> gxDatabase" where
  "Delete_opt object_address remove_object db =
     (let block_address = object_address - BlockHeaderSize db
      in case ReadBlockHdr new_gxBlockHeader block_address db of (h, db1) \<Rightarrow>
           if gxd_error db1 \<noteq> gxDBASE_NO_ERROR then (False, db1)
           else if block_state h \<noteq> gxNormalBlock then (False, db1)
           else (let h1 = with_state (if remove_object then gxRemovedBlock else gxDeletedBlock) h;
                     db2 = upd_stats
                             (if remove_object
                              then (\<lambda>s. s\<lparr>removed_blocks := to_s64 (removed_blocks s + 1)\<rparr>)
                              else (\<lambda>s. s\<lparr>deleted_blocks := to_s64 (deleted_blocks s + 1)\<rparr>)) db1
                 in if ready_for_writing db2 then
                      (let db3 = WriteBlockHdr
                                   (h1\<lparr>block_nd_fptr := gxd_fs_fptr (file_header db2)\<rparr>)
                                   block_address db2
                       in if gxd_error db3 \<noteq> gxDBASE_NO_ERROR then (False, db3)
                          else if gxd_fs_fptr (file_header db3) \<noteq> gxFSListCorrupt
                          then (True, WriteFileHdr (set_fs_fptr block_address db3))
                          else (True, db3))
                    else (False, db2\<lparr>gxd_error := gxDBASE_FILE_NOT_WRITEABLE\<rparr>)))"

definition Remove :: "int \<Rightarrow> gxDatabase \<Rightarrow> bool \<times> gxDatabase" where
  "Remove object_address db = Delete_opt object_address True db"

definition Delete :: "int \<Rightarrow> gxDatabase \<Rightarrow> bool \<times> gxDatabase" where
  "Delete object_address db = Delete_opt object_address False db"

text \<open>The block \<open>h\<close> was found at \<open>addr\<close> in the free list: unlink it and mark it normal.\<close>

definition undelete_found ::
  "int \<Rightarrow> int \<Rightarrow> gxBlockHeader \<Rightarrow> gxBlockHeader \<Rightarrow> gxDatabase \<Rightarrow> bool \<times> gxDatabase" where
  "undelete_found addr prev_addr prev_blk h db =
     (let db1 = upd_stats one_less_deleted db;
          db2 = (if prev_addr = 0 then WriteFileHdr (set_fs_fptr (block_nd_fptr h) db1)
                 else WriteBlockHdr (prev_blk\<lparr>block_nd_fptr := block_nd_fptr h\<rparr>) prev_addr db1)
      in if gxd_error db2 \<noteq> gxDBASE_NO_ERROR then (False, db2)
         else (let db3 = WriteBlockHdr ((with_state gxNormalBlock h)\<lparr>block_nd_fptr := 0\<rparr>) addr db2
               in (gxd_error db3 = gxDBASE_NO_ERROR, db3)))"

partial_function (option) undelete_loop ::
  "int \<Rightarrow> int \<Rightarrow> int \<Rightarrow> gxBlockHeader \<Rightarrow> gxBlockHeader \<Rightarrow> gxDatabase \<Rightarrow>
   (bool \<times> gxDatabase) option" where
  "undelete_loop block_address addr prev_addr prev_blk hdr db =
     (if addr = 0 then Some (False, db)
      else (case Read_hdr hdr addr db of (h, db1) \<Rightarrow>
        if gxd_error db1 \<noteq> gxDBASE_NO_ERROR then Some (False, db1)
        else if \<not> IsOK db1 then Some (False, db1)
        else if \<not> TestBlockHeader h \<or> bad_free_block addr h then Some (False, mark_corrupt db1)
        else if addr = block_address then Some (undelete_found addr prev_addr prev_blk h db1)
        else undelete_loop block_address (block_nd_fptr h) addr h h db1))"

definition UnDelete :: "int \<Rightarrow> gxDatabase \<Rightarrow> (bool \<times> gxDatabase) option" where
  "UnDelete object_address db =
     (let addr = gxd_fs_fptr (file_header db);
          block_address = object_address - BlockHeaderSize db
      in case ReadBlockHdr new_gxBlockHeader block_address db of (h, db1) \<Rightarrow>
           if gxd_error db1 \<noteq> gxDBASE_NO_ERROR then Some (False, db1)
           else if block_state h \<noteq> gxDeletedBlock then Some (False, db1)
           else undelete_loop block_address addr 0 new_gxBlockHeader h db1)"

section \<open>Counts and lengths\<close>

partial_function (option) deleted_loop ::
  "int \<Rightarrow> int \<Rightarrow> int \<Rightarrow> int \<Rightarrow> gxBlockHeader \<Rightarrow> gxDatabase \<Rightarrow>
   ((int \<times> int \<times> int) \<times> gxDatabase) option" where
  "deleted_loop block_address i d r hdr db =
     (if block_address = 0 then Some ((i, d, r), db)
      else (case Read_hdr hdr gxCurrAddress db of (h, db1) \<Rightarrow>
        if gxd_error db1 \<noteq> gxDBASE_NO_ERROR then Some ((i, d, r), db1)
        else if \<not> IsOK db1 then Some ((i, d, r), db1)
        else if \<not> TestBlockHeader h then Some ((gxFSListCorrupt, d, r), mark_corrupt db1)
        else if bad_free_block block_address h then Some ((0, d, r), mark_corrupt db1)
        else if block_nd_fptr h = gxFSListCorrupt then Some ((gxFSListCorrupt, d, r), db1)
        else (case SeekTo (block_nd_fptr h) db1 of (_, db2) \<Rightarrow>
                deleted_loop (block_nd_fptr h) (i + 1)
                  (if block_state h = gxDeletedBlock then d + 1 else d)
                  (if block_state h = gxRemovedBlock then r + 1 else r) h db2)))"

text \<open>The total and the numbers of deleted and of removed blocks.\<close>

definition DeletedBlocks :: "gxDatabase \<Rightarrow> ((int \<times> int \<times> int) \<times> gxDatabase) option" where
  "DeletedBlocks db =
     (case TestFileHeader db of (_, db1) \<Rightarrow>
        let s = file_stats_header db1; a = gxd_fs_fptr (file_header db1)
        in if rev_D_or_E (rev_letter db1)
           then Some ((to_s64 (deleted_blocks s + removed_blocks s), deleted_blocks s,
                       removed_blocks s), db1)
           else if a = gxFSListCorrupt then Some ((gxFSListCorrupt, 0, 0), db1)
           else (case SeekTo a db1 of (_, db2) \<Rightarrow> deleted_loop a 0 0 0 new_gxBlockHeader db2))"

definition DeleteBlocks :: "gxDatabase \<Rightarrow> ((int \<times> int \<times> int) \<times> gxDatabase) option" where
  "DeleteBlocks db = DeletedBlocks db"

text \<open>The address of the block header of an object, which may be the current position.\<close>

definition block_addr_of :: "int \<Rightarrow> gxDatabase \<Rightarrow> int \<times> gxDatabase" where
  "block_addr_of object_address db =
     (if object_address = gxCurrAddress
      then (case FilePosition db of (p, db1) \<Rightarrow> (p - BlockHeaderSize db1, db1))
      else (object_address - BlockHeaderSize db, db))"

definition ObjectLength :: "int \<Rightarrow> gxDatabase \<Rightarrow> int \<times> gxDatabase" where
  "ObjectLength object_address db =
     (case block_addr_of object_address db of (block_address, db1) \<Rightarrow>
        case ReadBlockHdr new_gxBlockHeader block_address db1 of (h, db2) \<Rightarrow>
          if gxd_error db2 \<noteq> gxDBASE_NO_ERROR then (0, db2)
          else if rev_zero_or_E (rev_letter db2)
          then (to_u64 (block_length h - BlockHeaderSize db2), db2)
          else (object_bytes h db2, db2))"

definition BlockLength :: "int \<Rightarrow> gxDatabase \<Rightarrow> int \<times> gxDatabase" where
  "BlockLength object_address db =
     (case block_addr_of object_address db of (block_address, db1) \<Rightarrow>
        case ReadBlockHdr new_gxBlockHeader block_address db1 of (h, db2) \<Rightarrow>
          if gxd_error db2 \<noteq> gxDBASE_NO_ERROR then (0, db2) else (block_length h, db2))"

end
