(* ===== verification/BlockMap.thy ===== *)
theory BlockMap
  imports Blocks
begin

text \<open>
  The abstract specification of the block heap: a map \<open>f\<close> from addresses to block headers, the
  list of addresses of the blocks in file order, which tile the heap from its start to the end
  of file (\<open>tiling\<close>), and the list of addresses on the free space list (\<open>free_path\<close>). The
  lemmas say what the changes that the engine makes (marking a block, unlinking one, splitting
  one, adding one at the end) do to the two lists.
\<close>

type_synonym block_map = "int \<Rightarrow> gxBlockHeader"

definition is_free :: "gxBlockHeader \<Rightarrow> bool" where
  "is_free h \<longleftrightarrow> block_state h = gxDeletedBlock \<or> block_state h = gxRemovedBlock"

fun tiling :: "int \<Rightarrow> block_map \<Rightarrow> int list \<Rightarrow> int \<Rightarrow> int \<Rightarrow> bool" where
  "tiling m f [] a e \<longleftrightarrow> a = e"
| "tiling m f (x # xs) a e \<longleftrightarrow>
     x = a \<and> TestBlockHeader (f x) \<and> m \<le> block_length (f x) \<and>
     tiling m f xs (x + block_length (f x)) e"

fun free_path :: "block_map \<Rightarrow> int list \<Rightarrow> int \<Rightarrow> bool" where
  "free_path f [] a \<longleftrightarrow> a = 0"
| "free_path f (x # xs) a \<longleftrightarrow> x = a \<and> a \<noteq> 0 \<and> is_free (f x) \<and> free_path f xs (block_nd_fptr (f x))"

section \<open>Tilings\<close>

lemma tiling_cong: "(\<And>x. x \<in> set bs \<Longrightarrow> f x = g x) \<Longrightarrow> tiling m f bs a e = tiling m g bs a e"
  by (induction bs arbitrary: a) auto

lemma tiling_test: "tiling m f bs a e \<Longrightarrow> x \<in> set bs \<Longrightarrow> TestBlockHeader (f x) \<and> m \<le> block_length (f x)"
  by (induction bs arbitrary: a) auto

lemma tiling_le: "tiling m f bs a e \<Longrightarrow> 0 \<le> m \<Longrightarrow> a \<le> e"
  by (induction bs arbitrary: a) force+

lemma tiling_within:
  "tiling m f bs a e \<Longrightarrow> 0 \<le> m \<Longrightarrow> x \<in> set bs \<Longrightarrow> a \<le> x \<and> x + block_length (f x) \<le> e"
proof (induction bs arbitrary: a)
  case (Cons y ys)
  then show ?case using tiling_le [of m f ys "y + block_length (f y)" e] by force
qed simp

lemma tiling_append:
  "tiling m f (us @ vs) a e \<longleftrightarrow> (\<exists>b. tiling m f us a b \<and> tiling m f vs b e)"
  by (induction us arbitrary: a) auto

lemma tiling_apart:
  assumes "tiling m f bs a e" "0 < m" "x \<in> set bs" "y \<in> set bs" "x \<noteq> y"
  shows "x + block_length (f x) \<le> y \<or> y + block_length (f y) \<le> x"
  using assms
proof (induction bs arbitrary: a)
  case (Cons z zs)
  have t: "tiling m f zs (z + block_length (f z)) e" using Cons.prems(1) by auto
  have w: "\<And>w. w \<in> set zs \<Longrightarrow> z + block_length (f z) \<le> w"
    using tiling_within [OF t] Cons.prems(2) by simp
  show ?case
    using Cons.IH [OF t Cons.prems(2)] Cons.prems(3-5) w by auto
qed simp

lemma tiling_distinct: "tiling m f bs a e \<Longrightarrow> 0 < m \<Longrightarrow> distinct bs"
proof (induction bs arbitrary: a)
  case (Cons z zs)
  have t: "tiling m f zs (z + block_length (f z)) e" "m \<le> block_length (f z)"
    using Cons.prems(1) by auto
  have "z \<notin> set zs" using tiling_within [OF t(1), of z] t(2) Cons.prems(2) by auto
  then show ?case using Cons.IH [OF t(1)] Cons.prems(2) by simp
qed simp

lemma tiling_length: "tiling m f bs a e \<Longrightarrow> 0 \<le> m \<Longrightarrow> a + m * int (length bs) \<le> e"
proof (induction bs arbitrary: a)
  case (Cons z zs)
  then have "z + block_length (f z) + m * int (length zs) \<le> e" "m \<le> block_length (f z)" "z = a"
    by auto
  then show ?case by (simp add: algebra_simps)
qed simp

text \<open>Changing the status or the link of a block.\<close>

lemma tiling_upd:
  assumes "tiling m f bs a e" "TestBlockHeader h" "block_length h = block_length (f x)"
  shows "tiling m (f(x := h)) bs a e"
  using assms by (induction bs arbitrary: a) auto

text \<open>Splitting a block in two.\<close>

lemma tiling_split:
  assumes t: "tiling m f (us @ x # vs) a e" and m: "0 < m"
    and h: "TestBlockHeader h" "m \<le> block_length h"
    and r: "TestBlockHeader r" "m \<le> block_length r"
    and len: "block_length h + block_length r = block_length (f x)"
    and n: "n = x + block_length h"
  shows "tiling m (f(x := h, n := r)) (us @ x # n # vs) a e"
proof -
  have x: "x \<in> set (us @ x # vs)" by simp
  have d: "distinct (us @ x # vs)" using tiling_distinct [OF t m] .
  have nx: "n \<noteq> x" using n h m by simp
  have nb: "n \<notin> set us" "n \<notin> set vs"
  proof -
    have "n \<noteq> y" if "y \<in> set (us @ x # vs)" "y \<noteq> x" for y
    proof -
      have "m \<le> block_length (f y)" using tiling_test [OF t that(1)] by simp
      then show ?thesis using tiling_apart [OF t m x that(1)] that(2) n h r len m by auto
    qed
    then show "n \<notin> set us" "n \<notin> set vs" using d by auto
  qed
  obtain b where b: "tiling m f us a b" "tiling m f (x # vs) b e"
    using t by (auto simp: tiling_append)
  let ?g = "f(x := h, n := r)"
  have "tiling m ?g us a b"
    using b(1) d nb by (subst tiling_cong [where g = f]) auto
  moreover have "tiling m ?g vs (x + block_length (f x)) e"
    using b(2) d nb by (subst tiling_cong [where g = f]) auto
  ultimately show ?thesis
    using b(2) h r n nx len by (auto simp: tiling_append algebra_simps intro!: exI [of _ b])
qed

text \<open>A block added at the end.\<close>

lemma tiling_snoc:
  assumes "tiling m f bs a e" "0 < m" "TestBlockHeader h" "m \<le> block_length h"
  shows "tiling m (f(e := h)) (bs @ [e]) a (e + block_length h)"
proof -
  have "e \<notin> set bs"
  proof
    assume e: "e \<in> set bs"
    then have "m \<le> block_length (f e)" using tiling_test [OF assms(1)] by blast
    then show False using tiling_within [OF assms(1) _ e] assms(2) by simp
  qed
  then have "tiling m (f(e := h)) bs a e"
    using assms(1) by (subst tiling_cong [where g = f]) auto
  then show ?thesis using assms by (simp add: tiling_append)
qed

section \<open>Free paths\<close>

lemma free_path_cong: "(\<And>x. x \<in> set fl \<Longrightarrow> f x = g x) \<Longrightarrow> free_path f fl a = free_path g fl a"
  by (induction fl arbitrary: a) auto

lemma free_path_free: "free_path f fl a \<Longrightarrow> x \<in> set fl \<Longrightarrow> is_free (f x) \<and> x \<noteq> 0"
  by (induction fl arbitrary: a) auto

text \<open>A path to zero determines its list, and has no repetition.\<close>

lemma free_path_unique: "free_path f xs a \<Longrightarrow> free_path f ys a \<Longrightarrow> xs = ys"
proof (induction xs arbitrary: ys a)
  case Nil
  then show ?case by (cases ys) auto
next
  case (Cons x xs)
  then show ?case by (cases ys) auto
qed

lemma free_path_suffix: "free_path f (us @ x # vs) a \<Longrightarrow> free_path f (x # vs) x"
  by (induction us arbitrary: a) auto

lemma free_path_distinct: "free_path f xs a \<Longrightarrow> distinct xs"
proof (induction xs arbitrary: a)
  case (Cons x xs)
  have "x \<notin> set xs"
  proof
    assume "x \<in> set xs"
    then obtain us vs where "xs = us @ x # vs" by (meson split_list)
    then have "free_path f (x # vs) x"
      using Cons.prems free_path_suffix [of f "x # us" x vs a] by force
    moreover have "free_path f (x # xs) x" using Cons.prems by auto
    ultimately have "x # vs = x # xs" using free_path_unique by blast
    then show False using \<open>xs = us @ x # vs\<close> by simp
  qed
  then show ?case using Cons by auto
qed simp

lemma free_path_next_ne: "free_path f (x # xs) a \<Longrightarrow> block_nd_fptr (f x) \<noteq> x"
proof
  assume p: "free_path f (x # xs) a" "block_nd_fptr (f x) = x"
  then have "free_path f xs x" "free_path f (x # xs) x" by auto
  then show False using free_path_unique [of f xs x "x # xs"] by simp
qed

text \<open>The first link of a path, and the last before a given element.\<close>

lemma free_path_push:
  assumes "free_path f fl a" "x \<notin> set fl" "x \<noteq> 0" "is_free h" "block_nd_fptr h = a"
  shows "free_path (f(x := h)) (x # fl) x"
proof -
  have "free_path (f(x := h)) fl a = free_path f fl a"
    using assms(2) by (intro free_path_cong) auto
  then show ?thesis using assms by simp
qed

lemma free_path_head: "free_path f (x # xs) a \<Longrightarrow> free_path f xs (block_nd_fptr (f x))"
  by auto

lemma free_path_relink:
  assumes p: "free_path f (us @ y # x # vs) a"
    and q: "free_path g ws n" "\<And>z. z \<in> set us \<Longrightarrow> g z = f z"
    and y: "is_free (g y)" "block_nd_fptr (g y) = n"
  shows "free_path g (us @ y # ws) a"
  using p q by (induction us arbitrary: a) (auto simp: y)

section \<open>Changing a link\<close>

lemma nd_update [simp]:
  "TestBlockHeader (h\<lparr>block_nd_fptr := n\<rparr>) = TestBlockHeader h"
  "block_state (h\<lparr>block_nd_fptr := n\<rparr>) = block_state h"
  "is_free (h\<lparr>block_nd_fptr := n\<rparr>) = is_free h"
  by (simp_all add: TestBlockHeader_def block_state_def is_free_def)

text \<open>The map when the list goes on at \<open>n\<close> after the elements \<open>us\<close>.\<close>

definition relinked :: "block_map \<Rightarrow> int list \<Rightarrow> int \<Rightarrow> block_map" where
  "relinked f us n =
     (if us = [] then f else f(last us := (f (last us))\<lparr>block_nd_fptr := n\<rparr>))"

lemma relinked_same [simp]:
  "block_length (relinked f us n x) = block_length (f x)"
  "block_state (relinked f us n x) = block_state (f x)"
  "is_free (relinked f us n x) = is_free (f x)"
  "TestBlockHeader (relinked f us n x) = TestBlockHeader (f x)"
  by (simp_all add: relinked_def)

lemma relinked_other: "x \<notin> set us \<Longrightarrow> relinked f us n x = f x"
  by (auto simp: relinked_def)

lemma tiling_relinked: "tiling m (relinked f us n) bs a e = tiling m f bs a e"
  by (induction bs arbitrary: a) auto

lemma free_path_relinked:
  assumes p: "free_path f (us @ x # vs) a" and q: "free_path g ws n"
    and g: "\<And>y. y \<in> set us \<Longrightarrow> g y = relinked f us n y"
  shows "free_path g (us @ ws) (if us = [] then n else a)"
proof (cases us rule: rev_cases)
  case (snoc us' u)
  have d: "distinct (us @ x # vs)" using free_path_distinct [OF p] .
  have gu: "g u = (f u)\<lparr>block_nd_fptr := n\<rparr>" using g [of u] by (simp add: snoc relinked_def)
  have fu: "is_free (f u)" using free_path_free [OF p, of u] by (simp add: snoc)
  have "g z = f z" if "z \<in> set us'" for z
    using g [of z] that d by (auto simp: snoc relinked_def)
  then show ?thesis
    using free_path_relink [of f us' u x vs a g ws n] p q gu fu by (simp add: snoc)
qed (simp add: q)

end
