(* ===== verification/Store.thy ===== *)
theory Store
  imports Files
begin

text \<open>
  The engine on an open file whose accesses succeed. \<open>readable\<close> and \<open>writable\<close> say when that
  is so; then every operation is a change of the byte image and of the position, \<open>stored\<close> and
  \<open>moved\<close>, and the lemmas in \<open>engine_simps\<close> compute each call. \<open>synced\<close> is the relation the
  engine keeps between the header in memory and the one on disk.
\<close>

section \<open>The state of an open file\<close>

definition dbytes :: "gxDatabase \<Rightarrow> byte list" where
  "dbytes db = fdata (the (fp db))"

definition dpos :: "gxDatabase \<Rightarrow> nat" where
  "dpos db = fpos (the (fp db))"

definition readable :: "gxDatabase \<Rightarrow> bool" where
  "readable db \<longleftrightarrow> IsOK db \<and> ready_for_reading db \<and> fp db \<noteq> None"

text \<open>Writes that end at \<open>n\<close> or before it fit on the device.\<close>

definition writable :: "nat \<Rightarrow> gxDatabase \<Rightarrow> bool" where
  "writable n db \<longleftrightarrow>
     readable db \<and> ready_for_writing db \<and> fwritable (the (fp db)) \<and> n \<le> fcap (the (fp db))"

definition moved :: "nat \<Rightarrow> gxDatabaseOperation \<Rightarrow> gxDatabase \<Rightarrow> gxDatabase" where
  "moved p op db =
     db\<lparr>fp := Some ((the (fp db))\<lparr>fpos := p\<rparr>), last_operation := op, gxd_error := gxDBASE_NO_ERROR\<rparr>"

definition stored :: "nat \<Rightarrow> byte list \<Rightarrow> gxDatabase \<Rightarrow> gxDatabase" where
  "stored p d db =
     db\<lparr>fp := Some ((the (fp db))\<lparr>fdata := put_at (dbytes db) p d\<rparr>),
        hook_calls := (if write_hook db then hook_calls db + 1 else hook_calls db)\<rparr>"

lemmas state_defs = dbytes_def dpos_def readable_def writable_def IsOK_def

lemma moved_fields [simp]:
  "dbytes (moved p op db) = dbytes db" "dpos (moved p op db) = p"
  "gxd_error (moved p op db) = gxDBASE_NO_ERROR" "last_operation (moved p op db) = op"
  "file_header (moved p op db) = file_header db"
  "file_stats_header (moved p op db) = file_stats_header db"
  "rev_letter (moved p op db) = rev_letter db" "write_hook (moved p op db) = write_hook db"
  "hook_calls (moved p op db) = hook_calls db" "db_fs (moved p op db) = db_fs db"
  "is_ok (moved p op db) = is_ok db" "is_open (moved p op db) = is_open db"
  "ready_for_reading (moved p op db) = ready_for_reading db"
  "ready_for_writing (moved p op db) = ready_for_writing db" "file_name (moved p op db) = file_name db"
  "IsOK (moved p op db) = IsOK db"
  "FileHeaderSize (moved p op db) = FileHeaderSize db"
  "BlockHeaderSize (moved p op db) = BlockHeaderSize db"
  by (simp_all add: moved_def state_defs FileHeaderSize_def BlockHeaderSize_def Let_def)

lemma stored_fields [simp]:
  "dbytes (stored p d db) = put_at (dbytes db) p d" "dpos (stored p d db) = dpos db"
  "gxd_error (stored p d db) = gxd_error db" "last_operation (stored p d db) = last_operation db"
  "file_header (stored p d db) = file_header db"
  "file_stats_header (stored p d db) = file_stats_header db"
  "rev_letter (stored p d db) = rev_letter db" "write_hook (stored p d db) = write_hook db"
  "db_fs (stored p d db) = db_fs db" "is_ok (stored p d db) = is_ok db"
  "is_open (stored p d db) = is_open db"
  "ready_for_reading (stored p d db) = ready_for_reading db"
  "ready_for_writing (stored p d db) = ready_for_writing db"
  "file_name (stored p d db) = file_name db" "IsOK (stored p d db) = IsOK db"
  "FileHeaderSize (stored p d db) = FileHeaderSize db"
  "BlockHeaderSize (stored p d db) = BlockHeaderSize db"
  by (simp_all add: stored_def state_defs FileHeaderSize_def BlockHeaderSize_def Let_def)

lemma readableI [simp]: "readable db \<Longrightarrow> readable (moved p op db)"
  "readable db \<Longrightarrow> readable (stored p d db)"
  by (simp_all add: moved_def stored_def state_defs)

lemma writableI [simp]: "writable n db \<Longrightarrow> writable n (moved p op db)"
  "writable n db \<Longrightarrow> writable n (stored p d db)"
  by (simp_all add: moved_def stored_def state_defs)

lemma writable_readable [simp]: "writable n db \<Longrightarrow> readable db"
  by (simp add: writable_def)

lemma writable_mono: "writable n db \<Longrightarrow> m \<le> n \<Longrightarrow> writable m db"
  by (simp add: writable_def)

lemma writable_ready [simp]: "writable n db \<Longrightarrow> ready_for_writing db"
  by (simp add: writable_def)

lemma readable_ok [simp]: "readable db \<Longrightarrow> IsOK db"
  by (simp add: readable_def)

text \<open>Updates of the fields that are not the stream.\<close>

lemma upd_fields [simp]:
  "dbytes (db\<lparr>file_header := h\<rparr>) = dbytes db" "dpos (db\<lparr>file_header := h\<rparr>) = dpos db"
  "dbytes (db\<lparr>gxd_error := e\<rparr>) = dbytes db" "dpos (db\<lparr>gxd_error := e\<rparr>) = dpos db"
  "dbytes (db\<lparr>file_stats_header := s\<rparr>) = dbytes db"
  "dpos (db\<lparr>file_stats_header := s\<rparr>) = dpos db"
  "dbytes (db\<lparr>rev_letter := r\<rparr>) = dbytes db" "dpos (db\<lparr>rev_letter := r\<rparr>) = dpos db"
  "dbytes (db\<lparr>db_fs := f\<rparr>) = dbytes db" "dpos (db\<lparr>db_fs := f\<rparr>) = dpos db"
  "IsOK (db\<lparr>file_header := h\<rparr>) = IsOK db" "IsOK (db\<lparr>gxd_error := e\<rparr>) = IsOK db"
  "IsOK (db\<lparr>file_stats_header := s\<rparr>) = IsOK db" "IsOK (db\<lparr>rev_letter := r\<rparr>) = IsOK db"
  "IsOK (db\<lparr>db_fs := f\<rparr>) = IsOK db"
  "readable (db\<lparr>file_header := h\<rparr>) = readable db" "readable (db\<lparr>gxd_error := e\<rparr>) = readable db"
  "readable (db\<lparr>file_stats_header := s\<rparr>) = readable db"
  "readable (db\<lparr>rev_letter := r\<rparr>) = readable db" "readable (db\<lparr>db_fs := f\<rparr>) = readable db"
  "writable n (db\<lparr>file_header := h\<rparr>) = writable n db"
  "writable n (db\<lparr>gxd_error := e\<rparr>) = writable n db"
  "writable n (db\<lparr>file_stats_header := s\<rparr>) = writable n db"
  "writable n (db\<lparr>rev_letter := r\<rparr>) = writable n db"
  "writable n (db\<lparr>db_fs := f\<rparr>) = writable n db"
  "BlockHeaderSize (db\<lparr>file_header := h\<rparr>) = BlockHeaderSize db"
  "BlockHeaderSize (db\<lparr>gxd_error := e\<rparr>) = BlockHeaderSize db"
  "BlockHeaderSize (db\<lparr>file_stats_header := s\<rparr>) = BlockHeaderSize db"
  "FileHeaderSize (db\<lparr>file_header := h\<rparr>) = FileHeaderSize db"
  "FileHeaderSize (db\<lparr>gxd_error := e\<rparr>) = FileHeaderSize db"
  "FileHeaderSize (db\<lparr>file_stats_header := s\<rparr>) = FileHeaderSize db"
  by (simp_all add: state_defs BlockHeaderSize_def FileHeaderSize_def Let_def)

lemma moved_moved [simp]: "moved p op (moved q op' db) = moved p op db"
  by (simp add: moved_def)

lemma stored_moved [simp]: "stored p d (moved q op db) = moved q op (stored p d db)"
  by (simp add: moved_def stored_def dbytes_def)

lemma moved_error [simp]: "moved p op (db\<lparr>gxd_error := e\<rparr>) = moved p op db"
  by (simp add: moved_def)

lemma moved_no_error [simp]: "(moved p op db)\<lparr>gxd_error := gxDBASE_NO_ERROR\<rparr> = moved p op db"
  by (simp add: moved_def)

lemma moved_upd [simp]:
  "(moved p op db)\<lparr>file_header := h\<rparr> = moved p op (db\<lparr>file_header := h\<rparr>)"
  "(moved p op db)\<lparr>file_stats_header := s\<rparr> = moved p op (db\<lparr>file_stats_header := s\<rparr>)"
  "(moved p op db)\<lparr>rev_letter := r\<rparr> = moved p op (db\<lparr>rev_letter := r\<rparr>)"
  by (simp_all add: moved_def)

lemma stored_upd [simp]:
  "(stored p d db)\<lparr>file_header := h\<rparr> = stored p d (db\<lparr>file_header := h\<rparr>)"
  "(stored p d db)\<lparr>file_stats_header := s\<rparr> = stored p d (db\<lparr>file_stats_header := s\<rparr>)"
  by (simp_all add: stored_def dbytes_def)

lemma self_upd:
  "file_header db = h \<Longrightarrow> db\<lparr>file_header := h\<rparr> = db"
  "file_stats_header db = s \<Longrightarrow> db\<lparr>file_stats_header := s\<rparr> = db"
  "rev_letter db = r \<Longrightarrow> db\<lparr>rev_letter := r\<rparr> = db"
  by auto

section \<open>Seeks\<close>

lemma Seek_beg_ok [engine_simps]:
  "readable db \<Longrightarrow> 0 \<le> a \<Longrightarrow> Seek a gxDBASE_SEEK_BEG db = moved (nat a) gxDBASE_SEEK db"
  by (auto simp: Seek_def moved_def readable_def fptr_defs)

lemma Seek_cur_ok [engine_simps]:
  "readable db \<Longrightarrow> 0 \<le> int (dpos db) + off \<Longrightarrow>
   Seek off gxDBASE_SEEK_CUR db = moved (nat (int (dpos db) + off)) gxDBASE_SEEK db"
  by (auto simp: Seek_def moved_def readable_def dpos_def fptr_defs)

lemma FilePosition_ok [engine_simps]: "readable db \<Longrightarrow> FilePosition db = (int (dpos db), db)"
  by (auto simp: FilePosition_def readable_def dpos_def fptr_defs)

lemma SeekTo_ok [engine_simps]:
  assumes "readable db" "0 \<le> a"
  shows "SeekTo a db = (a, moved (nat a) gxDBASE_SEEK db)"
  using assms by (auto simp: SeekTo_def engine_simps gxCurrAddress_def)

section \<open>Transfers\<close>

lemma pre_seek_at [engine_simps]:
  "readable db \<Longrightarrow> 0 \<le> a \<Longrightarrow> pre_seek other a db = (True, moved (nat a) gxDBASE_SEEK db)"
  by (simp add: pre_seek_def engine_simps gxCurrAddress_def)

lemma pre_seek_cur:
  "readable db \<Longrightarrow> \<exists>db'. pre_seek other gxCurrAddress db = (True, db') \<and>
     (db' = db \<or> db' = moved (dpos db) gxDBASE_SEEK db)"
  by (simp add: pre_seek_def engine_simps)

lemma moved_here:
  "readable db \<Longrightarrow> dpos db = p \<Longrightarrow> last_operation db = op \<Longrightarrow> gxd_error db = gxDBASE_NO_ERROR \<Longrightarrow>
   moved p op db = db"
  by (auto simp: moved_def readable_def dpos_def)

lemma Read_ok [engine_simps]:
  assumes "readable db" "0 \<le> a" "nat a + length buf \<le> length (dbytes db)"
  shows "Read buf a db =
    (bytes_at (dbytes db) (nat a) (length buf), moved (nat a + length buf) gxDBASE_READ db)"
proof -
  obtain s where s: "fp db = Some s" using assms(1) by (auto simp: readable_def)
  have "gxdFPTRRead (fp (moved (nat a) gxDBASE_SEEK db)) (length buf) =
    (bytes_at (fdata s) (nat a) (length buf), Some (s\<lparr>fpos := nat a + length buf\<rparr>))"
    using assms(3) s by (simp add: moved_def dbytes_def fptr_read_inside)
  then show ?thesis
    using assms s by (simp add: Read_def engine_simps readable_def moved_def dbytes_def)
qed

lemma Read_cur_ok [engine_simps]:
  assumes "readable db" "dpos db + length buf \<le> length (dbytes db)"
  shows "Read buf gxCurrAddress db =
    (bytes_at (dbytes db) (dpos db) (length buf), moved (dpos db + length buf) gxDBASE_READ db)"
proof -
  obtain s where s: "fp db = Some s" using assms(1) by (auto simp: readable_def)
  obtain db' where p: "pre_seek gxDBASE_WRITE gxCurrAddress db = (True, db')"
    and db': "db' = db \<or> db' = moved (dpos db) gxDBASE_SEEK db"
    using pre_seek_cur [OF assms(1)] by blast
  have r: "gxdFPTRRead (fp db') (length buf) =
    (bytes_at (fdata s) (dpos db) (length buf), Some (s\<lparr>fpos := dpos db + length buf\<rparr>))"
    using assms(2) s db' by (auto simp: moved_def dbytes_def dpos_def fptr_read_inside)
  show ?thesis
    using assms s p r db' by (auto simp: Read_def readable_def moved_def dbytes_def dpos_def)
qed

lemma Read_short:
  assumes "readable db" "0 \<le> a" "length (dbytes db) < nat a + length buf" "buf \<noteq> []"
  shows "gxd_error (snd (Read buf a db)) = gxDBASE_FILE_READ_ERROR"
    and "dbytes (snd (Read buf a db)) = dbytes db"
proof -
  obtain s where s: "fp db = Some s" using assms(1) by (auto simp: readable_def)
  have ne: "min (length buf) (length (fdata s) - nat a) \<noteq> length buf"
    using assms s by (cases buf) (auto simp: dbytes_def min_def)
  show "gxd_error (snd (Read buf a db)) = gxDBASE_FILE_READ_ERROR"
    "dbytes (snd (Read buf a db)) = dbytes db"
    using assms s ne
    by (auto simp: Read_def engine_simps readable_def moved_def fptr_defs Let_def dbytes_def
        split: if_splits)
qed

lemma Write_ok [engine_simps]:
  assumes "writable (nat a + length buf) db" "0 \<le> a"
  shows "Write buf a db = moved (nat a + length buf) gxDBASE_WRITE (stored (nat a) buf db)"
proof -
  obtain s where s: "fp db = Some s" using writable_readable [OF assms(1)] by (auto simp: readable_def)
  have w: "fwritable s" "nat a + length buf \<le> fcap s"
    using assms s unfolding writable_def by auto
  have "gxdFPTRWrite (fp (moved (nat a) gxDBASE_SEEK db)) buf =
    (length buf, Some (s\<lparr>fdata := put_at (fdata s) (nat a) buf, fpos := nat a + length buf\<rparr>))"
    using w s by (simp add: moved_def dbytes_def fptr_write_fits)
  then show ?thesis
    using assms s
    by (simp add: Write_opt_def finish_write_def engine_simps moved_def stored_def dbytes_def)
qed

lemma Write_cur_ok [engine_simps]:
  assumes "writable (dpos db + length buf) db"
  shows "Write buf gxCurrAddress db =
    moved (dpos db + length buf) gxDBASE_WRITE (stored (dpos db) buf db)"
proof -
  have rd: "readable db" using assms by simp
  obtain s where s: "fp db = Some s" using rd by (auto simp: readable_def)
  have w: "fwritable s" "fpos s + length buf \<le> fcap s"
    using assms s unfolding writable_def dpos_def by auto
  obtain db' where p: "pre_seek gxDBASE_READ gxCurrAddress db = (True, db')"
    and db': "db' = db \<or> db' = moved (dpos db) gxDBASE_SEEK db"
    using pre_seek_cur [OF rd] by blast
  have r: "gxdFPTRWrite (fp db') buf =
    (length buf, Some (s\<lparr>fdata := put_at (fdata s) (fpos s) buf, fpos := fpos s + length buf\<rparr>))"
    using w s db' by (auto simp: moved_def dpos_def fptr_write_fits)
  show ?thesis
    using assms p s r db'
    by (auto simp: Write_opt_def finish_write_def moved_def stored_def dbytes_def dpos_def)
qed

end
