(* ===== verification/Layout.thy ===== *)
theory Layout
  imports Store
begin

text \<open>
  The headers as parts of the byte image of an open file: what \<open>ReadBlockHdr\<close>,
  \<open>WriteBlockHdr\<close>, \<open>ReadFileHdr\<close> and \<open>WriteFileHdr\<close> do to it, the relation \<open>synced\<close> between the
  header in memory and the header on disk, and the checksum of a region. The first properties
  of the development are about these operations.
\<close>

lemma enc_nonempty [simp]:
  "enc_gxFileHeader fh \<noteq> []" "enc_gxBlockHeader bh \<noteq> []" "enc_gxFileLockHeader fl \<noteq> []"
  "enc_gxRecordLockHeader rl \<noteq> []" "enc_gxFileStatsHeader fs \<noteq> []"
  using enc_len by (metis list.size(3) numeral_neq_zero)+

section \<open>Block headers in the image\<close>

definition blk :: "byte list \<Rightarrow> int \<Rightarrow> gxBlockHeader" where
  "blk img a = dec_gxBlockHeader (bytes_at img (nat a) sizeof_gxBlockHeader)"

lemma Read_hdr_ok [engine_simps]:
  "readable db \<Longrightarrow> 0 \<le> a \<Longrightarrow> nat a + 20 \<le> length (dbytes db) \<Longrightarrow>
   Read_hdr h a db = (blk (dbytes db) a, moved (nat a + 20) gxDBASE_READ db)"
  by (simp add: Read_hdr_def engine_simps blk_def sizeof_defs)

lemma Read_hdr_cur_ok [engine_simps]:
  "readable db \<Longrightarrow> dpos db + 20 \<le> length (dbytes db) \<Longrightarrow>
   Read_hdr h gxCurrAddress db =
     (blk (dbytes db) (int (dpos db)), moved (dpos db + 20) gxDBASE_READ db)"
  by (simp add: Read_hdr_def engine_simps blk_def sizeof_defs)

lemma ReadBlockHdr_ok [engine_simps]:
  "readable db \<Longrightarrow> 0 \<le> a \<Longrightarrow> nat a + 20 \<le> length (dbytes db) \<Longrightarrow>
   ReadBlockHdr h a db =
     (blk (dbytes db) a,
      if TestBlockHeader (blk (dbytes db) a) then moved (nat a + 20) gxDBASE_READ db
      else (moved (nat a + 20) gxDBASE_READ db)\<lparr>gxd_error := gxDBASE_SYNC_ERROR\<rparr>)"
  by (simp add: ReadBlockHdr_def engine_simps)

lemma WriteBlockHdr_ok [engine_simps]:
  "writable (nat a + 20) db \<Longrightarrow> 0 \<le> a \<Longrightarrow>
   WriteBlockHdr h a db =
     moved (nat a + 20) gxDBASE_WRITE (stored (nat a) (enc_gxBlockHeader h) db)"
  by (simp add: WriteBlockHdr_def engine_simps)

lemma blk_put_same:
  "ok_gxBlockHeader h \<Longrightarrow> p = nat a \<Longrightarrow> blk (put_at img p (enc_gxBlockHeader h)) a = h"
  by (simp add: blk_def sizeof_defs bytes_at_put_same_len bhdr.dec_enc)

lemma blk_put_other:
  "nat a + 20 \<le> p \<or> p + length d \<le> nat a \<Longrightarrow> nat a + 20 \<le> length img \<Longrightarrow>
   blk (put_at img p d) a = blk img a"
  by (simp add: blk_def sizeof_defs bytes_at_put_disjoint)

lemma blk_write_other:
  assumes "y + 20 \<le> x \<or> x + 20 \<le> y" "0 \<le> x" "0 \<le> y" "nat y + 20 \<le> length img"
  shows "blk (put_at img (nat x) (enc_gxBlockHeader h)) y = blk img y"
proof -
  have "nat y + 20 \<le> nat x \<or> nat x + 20 \<le> nat y" using assms(1-3) by linarith
  then show ?thesis using assms(4) by (intro blk_put_other) auto
qed

lemma ok_blk: "nat a + 20 \<le> length img \<Longrightarrow> ok_gxBlockHeader (blk img a)"
  by (auto simp: blk_def sizeof_defs dec_defs ok_defs in_u32_PackBits in_s64_PackBits)

section \<open>The file header in the image\<close>

definition hdr_end :: "gxDatabase \<Rightarrow> nat" where
  "hdr_end db = (if rev_D_or_E (rev_letter db) then 86 else 50)"

definition headed :: "gxDatabase \<Rightarrow> gxDatabase" where
  "headed db =
     (let db1 = stored 0 (enc_gxFileHeader (file_header db)) db
      in if rev_D_or_E (rev_letter db)
         then stored 62 (enc_gxFileStatsHeader (file_stats_header db)) db1 else db1)"

lemma headed_fields [simp]:
  "gxd_error (headed db) = gxd_error db" "last_operation (headed db) = last_operation db"
  "file_header (headed db) = file_header db"
  "file_stats_header (headed db) = file_stats_header db"
  "rev_letter (headed db) = rev_letter db" "write_hook (headed db) = write_hook db"
  "db_fs (headed db) = db_fs db" "is_ok (headed db) = is_ok db"
  "is_open (headed db) = is_open db" "ready_for_reading (headed db) = ready_for_reading db"
  "ready_for_writing (headed db) = ready_for_writing db" "file_name (headed db) = file_name db"
  "IsOK (headed db) = IsOK db" "dpos (headed db) = dpos db"
  "FileHeaderSize (headed db) = FileHeaderSize db"
  "BlockHeaderSize (headed db) = BlockHeaderSize db"
  by (simp_all add: headed_def Let_def)

lemma headedI [simp]:
  "readable db \<Longrightarrow> readable (headed db)" "writable n db \<Longrightarrow> writable n (headed db)"
  by (simp_all add: headed_def Let_def)

lemma headed_moved [simp]: "headed (moved p op db) = moved p op (headed db)"
  by (simp add: headed_def Let_def)

lemma dbytes_headed:
  "dbytes (headed db) =
     (if rev_D_or_E (rev_letter db)
      then put_at (put_at (dbytes db) 0 (enc_gxFileHeader (file_header db))) 62
             (enc_gxFileStatsHeader (file_stats_header db))
      else put_at (dbytes db) 0 (enc_gxFileHeader (file_header db)))"
  by (simp add: headed_def Let_def)

lemma length_headed [simp]:
  "length (dbytes (headed db)) = max (length (dbytes db)) (hdr_end db)"
  by (simp add: dbytes_headed length_put_at hdr_end_def max_def)

lemma WriteFileHdr_ok [engine_simps]:
  assumes "writable (hdr_end db) db"
  shows "WriteFileHdr db = moved (hdr_end db) gxDBASE_WRITE (headed db)"
proof -
  have "writable 50 db" "rev_D_or_E (rev_letter db) \<Longrightarrow> writable 86 db"
    using assms by (auto simp: hdr_end_def intro: writable_mono split: if_splits)
  then show ?thesis
    by (simp add: WriteFileHdr_def WriteFileStatsHdr_def engine_simps hdr_end_def headed_def Let_def
        gxStartOfFile_def sizeof_defs)
qed

lemma WriteFileStatsHdr_ok [engine_simps]:
  "(rev_D_or_E (rev_letter db) \<Longrightarrow> writable 86 db) \<Longrightarrow> WriteFileStatsHdr s db =
     (if rev_D_or_E (rev_letter db)
      then moved 86 gxDBASE_WRITE (stored 62 (enc_gxFileStatsHeader s) db)
      else db\<lparr>gxd_error := gxDBASE_NO_ERROR\<rparr>)"
  by (simp add: WriteFileStatsHdr_def engine_simps sizeof_defs)

text \<open>
  The header in memory is the header on disk; and, where the file has one, the statistics
  header in memory is that on disk. The two are kept apart because \<open>UnDelete\<close> changes the
  statistics without writing them.
\<close>

definition synced :: "gxDatabase \<Rightarrow> bool" where
  "synced db \<longleftrightarrow>
     hdr_end db \<le> length (dbytes db) \<and>
     bytes_at (dbytes db) 0 50 = enc_gxFileHeader (file_header db)"

definition stats_synced :: "gxDatabase \<Rightarrow> bool" where
  "stats_synced db \<longleftrightarrow>
     (rev_D_or_E (rev_letter db) \<longrightarrow>
        bytes_at (dbytes db) 62 24 = enc_gxFileStatsHeader (file_stats_header db))"

text \<open>What the fields of the header in memory can hold; the last signature byte is the revision.\<close>

definition header_ok :: "gxDatabase \<Rightarrow> bool" where
  "header_ok db \<longleftrightarrow>
     ok_gxFileHeader (file_header db) \<and> ok_gxFileStatsHeader (file_stats_header db) \<and>
     rev_letter db = char_of_byte (gxd_sig (file_header db) ! 9)"

lemma header_ok_moved [simp]:
  "header_ok (moved p op db) = header_ok db" "header_ok (stored q d db) = header_ok db"
  "header_ok (headed db) = header_ok db" "header_ok (db\<lparr>gxd_error := e\<rparr>) = header_ok db"
  by (simp_all add: header_ok_def)

lemma hdr_end_fields [simp]:
  "hdr_end (moved p op db) = hdr_end db" "hdr_end (stored q d db) = hdr_end db"
  "hdr_end (headed db) = hdr_end db" "hdr_end (db\<lparr>gxd_error := e\<rparr>) = hdr_end db"
  "hdr_end (db\<lparr>file_header := h\<rparr>) = hdr_end db" "hdr_end (db\<lparr>file_stats_header := s\<rparr>) = hdr_end db"
  by (simp_all add: hdr_end_def)

lemma synced_moved [simp]:
  "synced (moved p op db) = synced db" "synced (db\<lparr>gxd_error := e\<rparr>) = synced db"
  "synced (db\<lparr>file_stats_header := s\<rparr>) = synced db"
  "stats_synced (moved p op db) = stats_synced db"
  "stats_synced (db\<lparr>gxd_error := e\<rparr>) = stats_synced db"
  by (simp_all add: synced_def stats_synced_def hdr_end_def)

lemma synced_stored:
  assumes "synced db" "hdr_end db \<le> p"
  shows "synced (stored p d db)"
  using assms length_put_at_mono [of "dbytes db" p d]
  by (auto simp: synced_def hdr_end_def bytes_at_put_below split: if_splits)

lemma stats_synced_stored:
  assumes "stats_synced db" "hdr_end db \<le> p" "hdr_end db \<le> length (dbytes db)"
  shows "stats_synced (stored p d db)"
  using assms by (auto simp: stats_synced_def hdr_end_def bytes_at_put_below)

lemma synced_headed [simp]: "synced (headed db)" and stats_synced_headed [simp]: "stats_synced (headed db)"
proof -
  let ?e = "enc_gxFileHeader (file_header db)" and ?s = "enc_gxFileStatsHeader (file_stats_header db)"
  have l: "50 \<le> length (put_at (dbytes db) 0 ?e)"
    by (simp add: length_put_at)
  then have "bytes_at (put_at (put_at (dbytes db) 0 ?e) 62 ?s) 0 50 = ?e"
    by (simp add: bytes_at_put_below bytes_at_put_same_len)
  then show "synced (headed db)"
    by (simp add: synced_def) (simp add: dbytes_headed bytes_at_put_same_len)
  show "stats_synced (headed db)"
    by (simp add: stats_synced_def dbytes_headed bytes_at_put_same_len)
qed

lemma rev_sizes:
  "hdr_end db \<le> nat (FileHeaderSize db)" "int (hdr_end db) \<le> FileHeaderSize db"
  "0 \<le> FileHeaderSize db" "20 \<le> BlockHeaderSize db" "BlockHeaderSize db \<le> 32"
  "FileHeaderSize db \<le> 86" "50 \<le> FileHeaderSize db"
  by (auto simp: hdr_end_def FileHeaderSize_def BlockHeaderSize_def sizeof_defs Let_def rev_defs)

lemma bytes_at_headed:
  assumes "hdr_end db \<le> q" "q + n \<le> length (dbytes db)"
  shows "bytes_at (dbytes (headed db)) q n = bytes_at (dbytes db) q n"
  using assms length_put_at_mono [of "dbytes db" 0 "enc_gxFileHeader (file_header db)"]
  by (auto simp: dbytes_headed hdr_end_def bytes_at_put_above split: if_splits)

lemma blk_headed [simp]:
  "int (hdr_end db) \<le> a \<Longrightarrow> nat a + 20 \<le> length (dbytes db) \<Longrightarrow>
   blk (dbytes (headed db)) a = blk (dbytes db) a"
  by (simp add: blk_def sizeof_defs bytes_at_headed nat_le_iff le_nat_iff)

section \<open>Reading the file header\<close>

lemma read_fresh_hdr_ok [engine_simps]:
  "readable db \<Longrightarrow> 50 \<le> length (dbytes db) \<Longrightarrow>
   read_fresh_hdr db =
     (dec_gxFileHeader (bytes_at (dbytes db) 0 50), moved 50 gxDBASE_READ db)"
  by (simp add: read_fresh_hdr_def engine_simps gxStartOfFile_def)

lemma read_fresh_synced [engine_simps]:
  "readable db \<Longrightarrow> synced db \<Longrightarrow> header_ok db \<Longrightarrow>
   read_fresh_hdr db = (file_header db, moved 50 gxDBASE_READ db)"
  by (auto simp: read_fresh_hdr_ok synced_def hdr_end_def header_ok_def fhdr.dec_enc split: if_splits)

lemma TestFileHeader_ok [engine_simps]:
  "readable db \<Longrightarrow> synced db \<Longrightarrow> header_ok db \<Longrightarrow>
   TestFileHeader db = (0, moved 50 gxDBASE_READ db)"
  by (simp add: TestFileHeader_def read_fresh_synced)

lemma GetEOF_ok [engine_simps]:
  "readable db \<Longrightarrow> synced db \<Longrightarrow> header_ok db \<Longrightarrow>
   GetEOF db = (gxd_eof (file_header db), moved 50 gxDBASE_READ db)"
  by (simp add: GetEOF_def read_fresh_synced)

text \<open>What \<open>ReadFileHdr\<close> loads.\<close>

definition disk_header :: "gxDatabase \<Rightarrow> gxFileHeader" where
  "disk_header db = dec_gxFileHeader (bytes_at (dbytes db) 0 50)"

definition disk_rev :: "gxDatabase \<Rightarrow> char" where
  "disk_rev db = char_of_byte (gxd_sig (disk_header db) ! 9)"

lemma ReadFileHdr_ok [engine_simps]:
  assumes "readable db" "(if rev_D_or_E (disk_rev db) then 86 else 50) \<le> length (dbytes db)"
  shows "ReadFileHdr db =
    (if rev_D_or_E (disk_rev db)
     then moved 86 gxDBASE_READ
            (db\<lparr>file_header := disk_header db, rev_letter := disk_rev db,
                file_stats_header := dec_gxFileStatsHeader (bytes_at (dbytes db) 62 24)\<rparr>)
     else moved 50 gxDBASE_READ (db\<lparr>file_header := disk_header db, rev_letter := disk_rev db\<rparr>))"
  using assms
  by (auto simp: ReadFileHdr_def ReadFileStatsHdr_def engine_simps gxStartOfFile_def sizeof_defs
      disk_header_def disk_rev_def Let_def)

lemma disk_synced:
  assumes "synced db" "header_ok db"
  shows "disk_header db = file_header db" "disk_rev db = rev_letter db"
  using assms
  by (auto simp: disk_header_def disk_rev_def synced_def header_ok_def fhdr.dec_enc)

lemma disk_stats:
  assumes "stats_synced db" "header_ok db" "rev_D_or_E (rev_letter db)"
  shows "dec_gxFileStatsHeader (bytes_at (dbytes db) 62 24) = file_stats_header db"
  using assms by (auto simp: stats_synced_def header_ok_def fshdr.dec_enc)

lemma ReadFileHdr_synced:
  assumes "readable db" "synced db" "stats_synced db" "header_ok db"
  shows "ReadFileHdr db = moved (hdr_end db) gxDBASE_READ db"
proof -
  note d = disk_synced [OF assms(2,4)]
  have "(if rev_D_or_E (disk_rev db) then 86 else 50) \<le> length (dbytes db)"
    using assms(2) d by (simp add: synced_def hdr_end_def)
  then show ?thesis
    using assms d disk_stats [OF assms(3,4)]
    by (simp add: ReadFileHdr_ok hdr_end_def self_upd)
qed

end
