(* ===== verification/Heap.thy ===== *)
theory Heap
  imports BlockMap Layout Files
begin

text \<open>
  The block heap of an open file refines the block map. \<open>heap_ok db bs fl\<close> says that the blocks
  \<open>bs\<close> tile the heap of the file, that \<open>fl\<close> is its free space list and that the free list holds
  exactly the deleted and removed blocks; \<open>stats_ok\<close> that the statistics header counts them.
  The properties say what \<open>Delete\<close>, \<open>UnDelete\<close> and \<open>Alloc\<close> do to such a file.
\<close>

section \<open>The invariant\<close>

abbreviation hs_of :: "gxDatabase \<Rightarrow> int" where "hs_of db \<equiv> gxd_hs_fptr (file_header db)"
abbreviation eof_of :: "gxDatabase \<Rightarrow> int" where "eof_of db \<equiv> gxd_eof (file_header db)"
abbreviation fs_of :: "gxDatabase \<Rightarrow> int" where "fs_of db \<equiv> gxd_fs_fptr (file_header db)"

definition heap_meta :: "gxDatabase \<Rightarrow> bool" where
  "heap_meta db \<longleftrightarrow>
     readable db \<and> header_ok db \<and> FileHeaderSize db \<le> hs_of db \<and>
     eof_of db \<le> int (length (dbytes db))"

text \<open>The lists \<open>bs\<close> and \<open>fl\<close> are right for the block map \<open>f\<close>.\<close>

definition heap_lists :: "gxDatabase \<Rightarrow> block_map \<Rightarrow> int list \<Rightarrow> int list \<Rightarrow> bool" where
  "heap_lists db f bs fl \<longleftrightarrow>
     tiling (BlockHeaderSize db) f bs (hs_of db) (eof_of db) \<and> free_path f fl (fs_of db) \<and>
     set fl = {x \<in> set bs. is_free (f x)}"

definition shows_map :: "gxDatabase \<Rightarrow> block_map \<Rightarrow> int set \<Rightarrow> bool" where
  "shows_map db f S \<longleftrightarrow> (\<forall>x \<in> S. blk (dbytes db) x = f x)"

definition heap_ok :: "gxDatabase \<Rightarrow> int list \<Rightarrow> int list \<Rightarrow> bool" where
  "heap_ok db bs fl \<longleftrightarrow>
     heap_meta db \<and> synced db \<and> heap_lists db (blk (dbytes db)) bs fl"

definition count_state :: "int \<Rightarrow> block_map \<Rightarrow> int list \<Rightarrow> int" where
  "count_state s f bs = int (length (filter (\<lambda>x. block_state (f x) = s) bs))"

definition stats_for :: "gxDatabase \<Rightarrow> block_map \<Rightarrow> int list \<Rightarrow> bool" where
  "stats_for db f bs \<longleftrightarrow>
     (rev_D_or_E (rev_letter db) \<longrightarrow>
        num_blocks (file_stats_header db) = int (length bs) \<and>
        deleted_blocks (file_stats_header db) = count_state gxDeletedBlock f bs \<and>
        removed_blocks (file_stats_header db) = count_state gxRemovedBlock f bs)"

definition stats_ok :: "gxDatabase \<Rightarrow> int list \<Rightarrow> bool" where
  "stats_ok db bs \<longleftrightarrow> stats_for db (blk (dbytes db)) bs"

text \<open>The bytes of a block after its block header.\<close>

definition payload :: "byte list \<Rightarrow> int \<Rightarrow> int \<Rightarrow> byte list" where
  "payload img x n = bytes_at img (nat x + 20) (nat n - 20)"

definition data_at :: "gxDatabase \<Rightarrow> int \<Rightarrow> byte list" where
  "data_at db x = payload (dbytes db) x (block_length (blk (dbytes db) x))"

lemma payload_put:
  assumes "0 \<le> y" "20 \<le> n" "y + n \<le> int (length img)"
    and "int p + int (length d) \<le> y + 20 \<or> y + n \<le> int p"
  shows "payload (put_at img p d) y n = payload img y n"
  unfolding payload_def using assms by (intro bytes_at_put_disjoint) linarith+

lemma payload_headed:
  assumes "int (hdr_end db) \<le> y" "20 \<le> n" "y + n \<le> int (length (dbytes db))"
  shows "payload (dbytes (headed db)) y n = payload (dbytes db) y n"
  unfolding payload_def using assms by (intro bytes_at_headed) linarith+

lemma heap_meta_stored [simp]: "heap_meta db \<Longrightarrow> heap_meta (stored p d db)"
  using length_put_at_mono [of "dbytes db" p d] by (simp add: heap_meta_def)

lemma heap_meta_headed [simp]: "heap_meta db \<Longrightarrow> heap_meta (headed db)"
  by (simp add: heap_meta_def of_nat_max le_max_iff_disj)

lemma heap_meta_moved [simp]: "heap_meta db \<Longrightarrow> heap_meta (moved p op db)"
  by (simp add: heap_meta_def)

lemma heap_lists_fields [simp]:
  "heap_lists (moved p op db) f bs fl = heap_lists db f bs fl"
  "heap_lists (stored q d db) f bs fl = heap_lists db f bs fl"
  "heap_lists (headed db) f bs fl = heap_lists db f bs fl"
  "heap_lists (db\<lparr>file_stats_header := s\<rparr>) f bs fl = heap_lists db f bs fl"
  by (simp_all add: heap_lists_def)

lemma stats_for_fields [simp]:
  "stats_for (moved p op db) f bs = stats_for db f bs"
  "stats_for (stored q d db) f bs = stats_for db f bs"
  "stats_for (headed db) f bs = stats_for db f bs"
  "stats_for (db\<lparr>file_header := h\<rparr>) f bs = stats_for db f bs"
  by (simp_all add: stats_for_def)

lemma heap_lists_cong:
  assumes "\<And>x. x \<in> set bs \<Longrightarrow> f x = g x" "heap_lists db f bs fl"
  shows "heap_lists db g bs fl"
proof -
  have fl: "set fl \<subseteq> set bs" using assms(2) by (auto simp: heap_lists_def)
  have "tiling (BlockHeaderSize db) g bs (hs_of db) (eof_of db)"
    using assms by (subst tiling_cong [where g = f]) (auto simp: heap_lists_def)
  moreover have "free_path g fl (fs_of db)"
    using assms fl by (subst free_path_cong [where g = f]) (auto simp: heap_lists_def)
  ultimately show ?thesis using assms by (auto simp: heap_lists_def)
qed

lemma count_state_cong: "(\<And>x. x \<in> set bs \<Longrightarrow> f x = g x) \<Longrightarrow> count_state s f bs = count_state s g bs"
  unfolding count_state_def by (metis (mono_tags, lifting) filter_cong)

lemma stats_for_cong: "(\<And>x. x \<in> set bs \<Longrightarrow> f x = g x) \<Longrightarrow> stats_for db f bs = stats_for db g bs"
  unfolding stats_for_def using count_state_cong [of bs f g] by simp

section \<open>Where the blocks are\<close>

abbreviation tiles :: "gxDatabase \<Rightarrow> block_map \<Rightarrow> int list \<Rightarrow> bool" where
  "tiles db f bs \<equiv> tiling (BlockHeaderSize db) f bs (hs_of db) (eof_of db)"

lemma heap_tiles: "heap_lists db f bs fl \<Longrightarrow> tiles db f bs"
  by (simp add: heap_lists_def)

lemma tiles_spaced:
  assumes "heap_meta db" "tiles db f bs" "x \<in> set bs"
  shows "int (hdr_end db) \<le> x" "50 \<le> x" "x + block_length (f x) \<le> eof_of db"
    "BlockHeaderSize db \<le> block_length (f x)" "TestBlockHeader (f x)"
    "nat x + 20 \<le> length (dbytes db)" "hdr_end db \<le> nat x"
    "x + BlockHeaderSize db \<le> int (length (dbytes db))"
    "x + block_length (f x) \<le> int (length (dbytes db))" "20 \<le> block_length (f x)"
proof -
  note r = rev_sizes [of db]
  have w: "hs_of db \<le> x" "x + block_length (f x) \<le> eof_of db"
    using tiling_within [OF assms(2) _ assms(3)] r by auto
  have l: "BlockHeaderSize db \<le> block_length (f x)" "TestBlockHeader (f x)"
    using tiling_test [OF assms(2,3)] by auto
  have m: "FileHeaderSize db \<le> hs_of db" "eof_of db \<le> int (length (dbytes db))"
    using assms(1) by (auto simp: heap_meta_def)
  show "int (hdr_end db) \<le> x" "50 \<le> x" "x + block_length (f x) \<le> eof_of db"
    "BlockHeaderSize db \<le> block_length (f x)" "TestBlockHeader (f x)"
    "nat x + 20 \<le> length (dbytes db)" "hdr_end db \<le> nat x"
    "x + BlockHeaderSize db \<le> int (length (dbytes db))"
    "x + block_length (f x) \<le> int (length (dbytes db))" "20 \<le> block_length (f x)"
    using w l m r by linarith+
qed

lemmas heap_spaced = tiles_spaced [OF _ heap_tiles]

lemma tiles_apart:
  assumes "tiles db f bs" "x \<in> set bs" "y \<in> set bs" "x \<noteq> y"
  shows "x + block_length (f x) \<le> y \<or> y + block_length (f y) \<le> x"
proof -
  have "0 < BlockHeaderSize db" using rev_sizes(4) [of db] by linarith
  then show ?thesis using tiling_apart [OF assms(1) _ assms(2-4)] by blast
qed

lemmas heap_apart = tiles_apart [OF heap_tiles]

text \<open>
  A write to a part of a block changes neither the header nor the data of another block, and a
  write to its header does not change its data.
\<close>

lemma tiles_write_inside:
  assumes m: "heap_meta db" and t: "tiles db f bs" and x: "x \<in> set bs" and y: "y \<in> set bs" "y \<noteq> x"
    and p: "x \<le> int p" "int p + int (length d) \<le> x + block_length (f x)"
  shows "blk (put_at (dbytes db) p d) y = blk (dbytes db) y"
    and "payload (put_at (dbytes db) p d) y (block_length (f y)) = payload (dbytes db) y (block_length (f y))"
proof -
  note sx = tiles_spaced [OF m t x] and sy = tiles_spaced [OF m t y(1)]
  have a: "y + block_length (f y) \<le> x \<or> x + block_length (f x) \<le> y"
    using tiles_apart [OF t x y(1)] y(2) by auto
  have "nat y + 20 \<le> p \<or> p + length d \<le> nat y"
    using a p sx(2,10) sy(2,10) by linarith
  then show "blk (put_at (dbytes db) p d) y = blk (dbytes db) y"
    using sy(6) by (rule blk_put_other)
  show "payload (put_at (dbytes db) p d) y (block_length (f y)) = payload (dbytes db) y (block_length (f y))"
    using a p sx(2,10) sy(2,9,10) by (intro payload_put) linarith+
qed

lemma tiles_write_header:
  assumes m: "heap_meta db" and t: "tiles db f bs" and x: "x \<in> set bs" and y: "y \<in> set bs"
  shows "payload (put_at (dbytes db) (nat x) (enc_gxBlockHeader h)) y (block_length (f y)) =
    payload (dbytes db) y (block_length (f y))"
proof (cases "y = x")
  case True
  note sx = tiles_spaced [OF m t x]
  show ?thesis unfolding True using sx(2,9,10) by (intro payload_put) auto
next
  case False
  note sx = tiles_spaced [OF m t x]
  show ?thesis
    using sx(2,10) by (intro tiles_write_inside(2) [OF m t x y False]) auto
qed

text \<open>Writing the header of a block makes the image show the map there.\<close>

lemma tiles_shows_stored:
  assumes m: "heap_meta db" and t: "tiles db f bs" and x: "x \<in> set bs" and S: "S \<subseteq> set bs"
    and s: "shows_map db f (S - {x})" and ok: "ok_gxBlockHeader (f x)"
  shows "shows_map (stored (nat x) (enc_gxBlockHeader (f x)) db) f (insert x S)"
  unfolding shows_map_def
proof
  fix y assume y: "y \<in> insert x S"
  note sx = tiles_spaced [OF m t x]
  show "blk (dbytes (stored (nat x) (enc_gxBlockHeader (f x)) db)) y = f y"
  proof (cases "y = x")
    case False
    then have yb: "y \<in> set bs" and "blk (dbytes db) y = f y" using y S s by (auto simp: shows_map_def)
    then show ?thesis
      using tiles_write_inside(1) [OF m t x yb False, of "nat x" "enc_gxBlockHeader (f x)"] sx(2,10)
      by simp
  qed (simp add: blk_put_same ok)
qed

lemma shows_stored:
  assumes "heap_meta db" "heap_lists db f bs fl" "x \<in> set bs"
    "shows_map db f (set bs - {x})" "ok_gxBlockHeader (f x)"
  shows "shows_map (stored (nat x) (enc_gxBlockHeader (f x)) db) f (set bs)"
  using tiles_shows_stored [OF assms(1) heap_tiles [OF assms(2)] assms(3) _ assms(4,5)] assms(3)
  by (simp add: insert_absorb)

lemma shows_moved [simp]: "shows_map (moved p op db) f S = shows_map db f S"
  by (simp add: shows_map_def)

lemma tiles_shows_headed:
  assumes "heap_meta db" "tiles db f bs" "S \<subseteq> set bs" "shows_map db g S"
  shows "shows_map (headed db) g S"
  using assms(3,4) tiles_spaced [OF assms(1,2)] by (auto simp: shows_map_def)

lemma shows_headed:
  assumes "heap_meta db" "heap_lists db f bs fl" "shows_map db g (set bs)"
  shows "shows_map (headed db) g (set bs)"
  using tiles_shows_headed [OF assms(1) heap_tiles [OF assms(2)] _ assms(3)] by simp

lemma heap_okI:
  assumes "heap_meta db" "synced db" "heap_lists db f bs fl" "shows_map db f (set bs)"
  shows "heap_ok db bs fl"
  using assms heap_lists_cong [of bs f "blk (dbytes db)"] by (auto simp: heap_ok_def shows_map_def)

lemma stats_okI:
  assumes "shows_map db f (set bs)" "stats_for db f bs"
  shows "stats_ok db bs"
  using assms stats_for_cong [of bs f "blk (dbytes db)" db] by (auto simp: stats_ok_def shows_map_def)

lemma shows_self [simp]: "shows_map db (blk (dbytes db)) S"
  by (simp add: shows_map_def)

lemma shows_except: "shows_map db f S \<Longrightarrow> shows_map db (f(x := h)) (S - {x})"
  by (auto simp: shows_map_def)

section \<open>Counting blocks\<close>

lemma count_state_Nil [simp]: "count_state s f [] = 0"
  by (simp add: count_state_def)

lemma count_state_Cons [simp]:
  "count_state s f (x # xs) = (if block_state (f x) = s then 1 else 0) + count_state s f xs"
  by (simp add: count_state_def)

lemma count_state_append [simp]: "count_state s f (xs @ ys) = count_state s f xs + count_state s f ys"
  by (simp add: count_state_def)

lemma count_state_bounds: "0 \<le> count_state s f bs" "count_state s f bs \<le> int (length bs)"
  by (simp_all add: count_state_def)

lemma count_state_other [simp]: "x \<notin> set bs \<Longrightarrow> count_state s (f(x := h)) bs = count_state s f bs"
  by (rule count_state_cong) auto

lemma count_state_upd:
  assumes "distinct bs" "x \<in> set bs"
  shows "count_state s (f(x := h)) bs =
    count_state s f bs - (if block_state (f x) = s then 1 else 0) +
    (if block_state h = s then 1 else 0)"
proof -
  obtain us vs where bs: "bs = us @ x # vs" using assms(2) by (meson split_list)
  then have "x \<notin> set us" "x \<notin> set vs" using assms(1) by auto
  then show ?thesis by (simp add: bs)
qed

lemma heap_distinct: "heap_lists db f bs fl \<Longrightarrow> distinct bs"
  unfolding heap_lists_def using tiling_distinct rev_sizes(4) [of db] by fastforce

lemma heap_bounds:
  assumes "heap_meta db" "heap_lists db f bs fl"
  shows "50 \<le> hs_of db" "hs_of db + 20 * int (length bs) \<le> eof_of db" "eof_of db < 2 ^ 63"
    "hs_of db \<le> eof_of db" "int (length bs) < 2 ^ 62"
proof -
  have t: "tiling (BlockHeaderSize db) f bs (hs_of db) (eof_of db)"
    using assms(2) by (simp add: heap_lists_def)
  note r = rev_sizes [of db]
  show h: "50 \<le> hs_of db" using assms(1) r unfolding heap_meta_def by linarith
  have "20 * int (length bs) \<le> BlockHeaderSize db * int (length bs)"
    using r by (intro mult_right_mono) auto
  then show l: "hs_of db + 20 * int (length bs) \<le> eof_of db"
    using tiling_length [OF t] r by linarith
  show e: "eof_of db < 2 ^ 63"
    using assms(1) by (simp add: heap_meta_def header_ok_def ok_defs in_s64_def)
  show "hs_of db \<le> eof_of db" using l by linarith
  show "int (length bs) < 2 ^ 62" using h l e by simp
qed

lemma to_s64_in_s64 [simp]: "in_s64 (to_s64 x)"
proof -
  have "0 \<le> (x + 2 ^ 63) mod 2 ^ 64 \<and> (x + 2 ^ 63) mod 2 ^ 64 < (2 ^ 64 :: int)" by simp
  then show ?thesis unfolding in_s64_def to_s64_def by simp
qed

lemma in_s64_small: "0 \<le> x \<Longrightarrow> x < 2 ^ 63 \<Longrightarrow> in_s64 x"
  by (simp add: in_s64_def)

text \<open>The free space pointer is zero or the address of a block.\<close>

lemma heap_fs:
  assumes "heap_meta db" "heap_lists db f bs fl"
  shows "fs_of db = 0 \<or> fs_of db \<in> set bs" "fs_of db \<noteq> gxFSListCorrupt" "0 \<le> fs_of db" "in_s64 (fs_of db)"
proof -
  show z: "fs_of db = 0 \<or> fs_of db \<in> set bs"
    using assms(2) by (cases fl) (auto simp: heap_lists_def)
  have "fs_of db = 0 \<or> 50 \<le> fs_of db" using z heap_spaced(2) [OF assms] by blast
  then show "fs_of db \<noteq> gxFSListCorrupt" "0 \<le> fs_of db" by (auto simp: gxFSListCorrupt_def)
  show "in_s64 (fs_of db)" using assms(1) by (simp add: heap_meta_def header_ok_def ok_defs)
qed

lemma heap_addr_in_s64:
  assumes "heap_meta db" "heap_lists db f bs fl" "x \<in> set bs"
  shows "in_s64 x" "0 \<le> x"
proof -
  note h = heap_spaced [OF assms] and b = heap_bounds [OF assms(1,2)] and r = rev_sizes(4) [of db]
  show "0 \<le> x" using h by linarith
  have "x < 2 ^ 63" using h b r by linarith
  then show "in_s64 x" using h(2) by (intro in_s64_small) auto
qed

section \<open>Deletion\<close>

lemma mark_block:
  assumes "ok_gxBlockHeader h" "TestBlockHeader h" "block_state h \<noteq> gxRemoteDeviceBlock"
    and s: "s \<in> {gxBadBlock, gxDeletedBlock, gxNormalBlock, gxRemovedBlock}"
  shows "with_state s h = h\<lparr>block_status := s\<rparr>"
    "TestBlockHeader ((with_state s h)\<lparr>block_nd_fptr := n\<rparr>)"
    "block_state ((with_state s h)\<lparr>block_nd_fptr := n\<rparr>) = s"
    "in_s64 n \<Longrightarrow> ok_gxBlockHeader ((with_state s h)\<lparr>block_nd_fptr := n\<rparr>)"
    "block_length ((with_state s h)\<lparr>block_nd_fptr := n\<rparr>) = block_length h"
proof -
  have u: "in_u32 (block_status h)" using assms(1) by (simp add: ok_defs)
  then have b: "0 \<le> block_status h" "block_status h < 2 ^ 32" by (auto simp: in_u32_def)
  have st: "block_status h \<in> {gxBadBlock, gxDeletedBlock, gxNormalBlock, gxRemovedBlock}"
    using status_is_state [OF u assms(2,3)] by simp
  have "block_status h - block_status h mod 2 ^ 8 = 0" using st by (auto simp: block_status_defs)
  then show w: "with_state s h = h\<lparr>block_status := s\<rparr>"
    using and_high [OF b] by (simp add: with_state_def)
  have c: "block_check_word h = gxCheckWord" using assms(2) u by (simp add: TestBlockHeader_iff)
  show "TestBlockHeader ((with_state s h)\<lparr>block_nd_fptr := n\<rparr>)"
    "block_state ((with_state s h)\<lparr>block_nd_fptr := n\<rparr>) = s"
    using TestBlockHeader_plain [of "(with_state s h)\<lparr>block_nd_fptr := n\<rparr>"] c s by (simp_all add: w)
  show "in_s64 n \<Longrightarrow> ok_gxBlockHeader ((with_state s h)\<lparr>block_nd_fptr := n\<rparr>)"
    using assms(1) s by (auto simp: ok_defs w in_u32_def block_status_defs)
  show "block_length ((with_state s h)\<lparr>block_nd_fptr := n\<rparr>) = block_length h"
    by (simp add: w)
qed

end
