(* ===== verification/HeapOps.thy ===== *)
theory HeapOps
  imports Heap
begin

text \<open>
  What the operations of \<open>src/gxdbase.cpp\<close> on blocks do to a well-formed heap: deletion,
  undeletion and the walks over the free space list.
\<close>

section \<open>Deletion\<close>

text \<open>The statistics after a deletion.\<close>

definition deleted_stats :: "bool \<Rightarrow> gxFileStatsHeader \<Rightarrow> gxFileStatsHeader" where
  "deleted_stats r s =
     (if r then s\<lparr>removed_blocks := to_s64 (removed_blocks s + 1)\<rparr>
      else s\<lparr>deleted_blocks := to_s64 (deleted_blocks s + 1)\<rparr>)"

definition delete_mark :: "bool \<Rightarrow> int" where
  "delete_mark r = (if r then gxRemovedBlock else gxDeletedBlock)"

definition deleted_header :: "bool \<Rightarrow> int \<Rightarrow> gxBlockHeader \<Rightarrow> gxBlockHeader" where
  "deleted_header r a h = (with_state (delete_mark r) h)\<lparr>block_nd_fptr := a\<rparr>"

lemma Delete_computes:
  assumes ok: "heap_ok db bs fl" and w: "writable (length (dbytes db)) db" and x: "x \<in> set bs"
    and n: "block_state (blk (dbytes db) x) = gxNormalBlock"
  shows "Delete_opt (x + BlockHeaderSize db) r db =
    (True, moved (hdr_end db) gxDBASE_WRITE (headed
      (stored (nat x) (enc_gxBlockHeader (deleted_header r (fs_of db) (blk (dbytes db) x)))
        (set_fs_fptr x (upd_stats (deleted_stats r) db)))))"
proof -
  have m: "heap_meta db" and l: "heap_lists db (blk (dbytes db)) bs fl"
    using ok by (auto simp: heap_ok_def)
  note s = heap_spaced [OF m l x] and fs = heap_fs [OF m l]
  have rd: "readable db" using m by (simp add: heap_meta_def)
  have w1: "writable (nat x + 20) db" using w s by (rule_tac writable_mono) auto
  have "hdr_end db \<le> length (dbytes db)" using ok by (simp add: heap_ok_def synced_def)
  then have w2: "writable (hdr_end db) db" using w by (rule_tac writable_mono) auto
  have st: "(if r then \<lambda>s. s\<lparr>removed_blocks := to_s64 (removed_blocks s + 1)\<rparr>
     else (\<lambda>s. s\<lparr>deleted_blocks := to_s64 (deleted_blocks s + 1)\<rparr>)) = deleted_stats r"
    by (auto simp: deleted_stats_def)
  show ?thesis
    using s rd fs w1 w2 n
    by (simp add: Delete_opt_def engine_simps Let_def st upd_stats_def set_fs_fptr_def
        deleted_header_def delete_mark_def)
qed

lemma heap_meta_upd:
  assumes "heap_meta db" "in_s64 x"
  shows "heap_meta (set_fs_fptr x (upd_stats (deleted_stats r) db))"
  using assms
  by (auto simp: heap_meta_def header_ok_def ok_defs set_fs_fptr_def upd_stats_def deleted_stats_def)

text \<open>A deletion puts the block at the front of the free list and leaves all data as it was.\<close>

lemma Delete_refines:
  assumes ok: "heap_ok db bs fl" and w: "writable (length (dbytes db)) db" and x: "x \<in> set bs"
    and n: "block_state (blk (dbytes db) x) = gxNormalBlock"
    and D: "Delete_opt (x + BlockHeaderSize db) r db = (b, db')"
  shows "b" "heap_ok db' bs (x # fl)" "stats_ok db bs \<Longrightarrow> stats_ok db' bs"
    "blk (dbytes db') x = deleted_header r (fs_of db) (blk (dbytes db) x)"
    "\<And>y. y \<in> set bs \<Longrightarrow> y \<noteq> x \<Longrightarrow> blk (dbytes db') y = blk (dbytes db) y"
    "\<And>y. y \<in> set bs \<Longrightarrow> data_at db' y = data_at db y"
proof -
  let ?f = "blk (dbytes db)"
  let ?h = "deleted_header r (fs_of db) (?f x)"
  let ?db0 = "set_fs_fptr x (upd_stats (deleted_stats r) db)"
  let ?db1 = "stored (nat x) (enc_gxBlockHeader ?h) ?db0"
  let ?g = "?f(x := ?h)"
  have m: "heap_meta db" and l: "heap_lists db ?f bs fl"
    using ok by (auto simp: heap_ok_def)
  have db': "db' = moved (hdr_end db) gxDBASE_WRITE (headed ?db1)" and b: "b"
    using Delete_computes [OF ok w x n] D by auto
  show "b" by (rule b)
  have s: "\<And>y. y \<in> set bs \<Longrightarrow> 50 \<le> y" using heap_spaced(2) [OF m l] .
  note sx = heap_spaced [OF m l x]
  note i = heap_addr_in_s64 [OF m l x] heap_fs [OF m l]
  have mk: "delete_mark r \<in> {gxBadBlock, gxDeletedBlock, gxNormalBlock, gxRemovedBlock}"
    by (simp add: delete_mark_def)
  have nr: "block_state (?f x) \<noteq> gxRemoteDeviceBlock" using n by (simp add: block_status_defs)
  have fh: "\<not> is_free (?f x)" using n by (simp add: is_free_def block_status_defs)
  note h = mark_block [OF ok_blk [OF sx(6)] sx(5) nr mk, folded deleted_header_def]
  have hf: "is_free ?h" using h(3) by (simp add: is_free_def delete_mark_def)
  have xfl: "x \<notin> set fl" using l fh by (auto simp: heap_lists_def)
  have e: "hs_of ?db0 = hs_of db" "eof_of ?db0 = eof_of db" "fs_of ?db0 = x" "dbytes ?db0 = dbytes db"
    "BlockHeaderSize ?db0 = BlockHeaderSize db" "hdr_end ?db0 = hdr_end db"
    by (simp_all add: set_fs_fptr_def upd_stats_def)
  have m0: "heap_meta ?db0" using heap_meta_upd [OF m i(1)] .
  have l0: "heap_lists ?db0 ?g bs (x # fl)"
  proof -
    have "tiling (BlockHeaderSize db) ?g bs (hs_of db) (eof_of db)"
      using l h by (intro tiling_upd) (auto simp: heap_lists_def)
    moreover have "free_path ?g (x # fl) x"
      using l xfl hf sx(2) by (intro free_path_push) (auto simp: heap_lists_def deleted_header_def)
    moreover have "set (x # fl) = {y \<in> set bs. is_free (?g y)}"
      using l hf x by (auto simp: heap_lists_def)
    ultimately show ?thesis by (simp add: heap_lists_def e)
  qed
  have sh0: "shows_map ?db0 ?g (set bs - {x})"
    by (simp add: shows_map_def e)
  have okh: "ok_gxBlockHeader (?g x)" using h(4) i by simp
  have sh1: "shows_map ?db1 ?g (set bs)"
    using shows_stored [OF m0 l0 x sh0 okh] unfolding fun_upd_same .
  have sh2: "shows_map (headed ?db1) ?g (set bs)"
    using shows_headed [OF _ _ sh1] m0 l0 by simp
  show "heap_ok db' bs (x # fl)"
    unfolding db' using m0 l0 sh2 by (intro heap_okI [where f = ?g]) auto
  have blks: "\<And>y. y \<in> set bs \<Longrightarrow> blk (dbytes db') y = ?g y"
    using sh2 by (simp add: db' shows_map_def)
  show "blk (dbytes db') x = ?h" "\<And>y. y \<in> set bs \<Longrightarrow> y \<noteq> x \<Longrightarrow> blk (dbytes db') y = ?f y"
    using blks x by auto
  show "data_at db' y = data_at db y" if y: "y \<in> set bs" for y
  proof -
    note sy = heap_spaced [OF m l y]
    have len: "block_length (blk (dbytes db') y) = block_length (?f y)"
      using blks [OF y] h(5) by simp
    have "y + block_length (?f y) \<le> int (length (dbytes db))" "20 \<le> block_length (?f y)"
      using sy m rev_sizes(4) [of db] unfolding heap_meta_def by linarith+
    moreover have "x + 20 \<le> y + 20 \<or> y + block_length (?f y) \<le> x"
      using heap_apart [OF l x y] sx(4) rev_sizes(4) [of db] by (cases "x = y") auto
    ultimately show ?thesis
      unfolding data_at_def len unfolding db' using sy sx(2)
      by (simp add: payload_headed payload_put e length_put_at)
  qed
  show "stats_ok db' bs" if st: "stats_ok db bs"
  proof -
    have d: "distinct bs" using heap_distinct [OF l] .
    have c: "count_state s ?f bs < 2 ^ 62" "0 \<le> count_state s ?f bs" for s
      using count_state_bounds [of s ?f bs] heap_bounds(5) [OF m l] by linarith+
    have "stats_for (headed ?db1) ?g bs"
      using st c [of gxDeletedBlock] c [of gxRemovedBlock] n h(3) [of "fs_of db"]
      by (auto simp: stats_ok_def stats_for_def count_state_upd [OF d x] set_fs_fptr_def upd_stats_def
          deleted_stats_def delete_mark_def block_status_defs)
    then show ?thesis
      unfolding db' using sh2 by (intro stats_okI [where f = ?g]) auto
  qed
qed

section \<open>The first fit walk\<close>

lemma with_overhead_fields [simp]:
  "with_overhead n (moved p op db) = with_overhead n db"
  "with_overhead n (stored q d db) = with_overhead n db"
  "with_overhead n (db\<lparr>file_stats_header := s\<rparr>) = with_overhead n db"
  "with_overhead n (db\<lparr>file_header := h\<rparr>) = with_overhead n db"
  by (simp_all add: with_overhead_def)

lemma unused_length_fields [simp]:
  "unused_length n h (moved p op db) = unused_length n h db"
  "unused_length n h (db\<lparr>file_stats_header := s\<rparr>) = unused_length n h db"
  by (simp_all add: unused_length_def)

text \<open>A block is used when its length is right or it has room for a second block.\<close>

definition fits :: "int \<Rightarrow> gxBlockHeader \<Rightarrow> gxDatabase \<Rightarrow> bool" where
  "fits bytes h db \<longleftrightarrow> block_length h = bytes \<or> unused_length bytes h db > 0"

definition take_block ::
  "int \<Rightarrow> int \<Rightarrow> int \<Rightarrow> gxBlockHeader \<Rightarrow> gxBlockHeader \<Rightarrow> gxDatabase \<Rightarrow> int \<times> gxDatabase" where
  "take_block bytes addr prev_addr prev_blk h db =
     (if block_length h = bytes then take_exact addr prev_addr prev_blk h db
      else take_split bytes addr prev_addr prev_blk h db)"

text \<open>What the walks rely on: the blocks of a part of the free list are there and free.\<close>

definition walkable :: "gxDatabase \<Rightarrow> int list \<Rightarrow> bool" where
  "walkable db zs \<longleftrightarrow> readable db \<and>
     (\<forall>z \<in> set zs. 0 < z \<and> nat z + 20 \<le> length (dbytes db) \<and> TestBlockHeader (blk (dbytes db) z))"

lemma walkable_heap:
  assumes "heap_meta db" "heap_lists db (blk (dbytes db)) bs fl"
  shows "walkable db fl"
proof -
  have "set fl \<subseteq> set bs" using assms(2) by (auto simp: heap_lists_def)
  then show ?thesis
    using heap_spaced(2,5,6) [OF assms] assms(1) by (force simp: walkable_def heap_meta_def)
qed

lemma free_not_bad:
  assumes "free_path f (z # zs) a"
  shows "\<not> bad_free_block z (f z)"
  using assms free_path_next_ne [OF assms] by (auto simp: bad_free_block_def is_free_def)

lemma walk_read:
  assumes "walkable db (z # zs)"
  shows "Read_hdr h gxCurrAddress (moved (nat z) op db) =
    (blk (dbytes db) z, moved (nat z + 20) gxDBASE_READ db)"
    "Read_hdr h z (moved p op db) = (blk (dbytes db) z, moved (nat z + 20) gxDBASE_READ db)"
    "z \<noteq> 0" "TestBlockHeader (blk (dbytes db) z)" "readable db"
  using assms by (auto simp: walkable_def engine_simps)

lemma walk_seek:
  assumes "walkable db zs" "free_path f zs a"
  shows "SeekTo a (moved p op db) = (a, moved (nat a) gxDBASE_SEEK db)"
proof -
  have "0 \<le> a" using assms by (cases zs) (auto simp: walkable_def)
  then show ?thesis using assms(1) by (simp add: walkable_def engine_simps)
qed

lemma walkable_Cons: "walkable db (z # zs) \<Longrightarrow> walkable db zs"
  by (simp add: walkable_def)

lemma first_fit_hit:
  assumes "walkable db (z # zs)" "free_path (blk (dbytes db)) (z # zs) z"
    "fits bytes (blk (dbytes db) z) db"
  shows "first_fit_loop bytes z prev prev_blk hdr (moved (nat z) op db) =
    Some (take_block bytes z prev prev_blk (blk (dbytes db) z) (moved (nat z + 20) gxDBASE_READ db))"
  using walk_read [OF assms(1)] free_not_bad [OF assms(2)] assms(3)
  by (auto simp: first_fit_loop.simps take_block_def fits_def)

lemma first_fit_skip:
  assumes w: "walkable db (z # zs)" and p: "free_path (blk (dbytes db)) (z # zs) z"
    and "\<not> fits bytes (blk (dbytes db) z) db"
  shows "first_fit_loop bytes z prev prev_blk hdr (moved (nat z) op db) =
    first_fit_loop bytes (block_nd_fptr (blk (dbytes db) z)) z (blk (dbytes db) z)
      (blk (dbytes db) z) (moved (nat (block_nd_fptr (blk (dbytes db) z))) gxDBASE_SEEK db)"
  using walk_read [OF w] free_not_bad [OF p] assms(3)
    walk_seek [OF walkable_Cons [OF w] free_path_head [OF p]]
  by (subst first_fit_loop.simps) (auto simp: fits_def)

lemma first_fit_miss:
  assumes "walkable db zs" "free_path (blk (dbytes db)) zs a"
    "\<And>z. z \<in> set zs \<Longrightarrow> \<not> fits bytes (blk (dbytes db) z) db"
  shows "\<exists>op'. first_fit_loop bytes a prev prev_blk hdr (moved (nat a) op db) =
    Some (0, moved 0 op' db)"
  using assms
proof (induction zs arbitrary: a prev prev_blk hdr op)
  case Nil
  then show ?case by (auto simp: first_fit_loop.simps)
next
  case (Cons z zs)
  have a: "a = z" using Cons.prems(2) by simp
  show ?case
    unfolding a
    using Cons.IH [OF walkable_Cons [OF Cons.prems(1)] free_path_head [OF Cons.prems(2)]]
      first_fit_skip [OF Cons.prems(1)] Cons.prems(2,3)
    by (metis a list.set_intros)
qed

text \<open>The element before a position of a path, or what was before the path.\<close>

definition prev_of :: "int list \<Rightarrow> int" where
  "prev_of us = (if us = [] then 0 else last us)"

lemma first_fit_finds:
  assumes "walkable db (us @ z # vs)" "free_path (blk (dbytes db)) (us @ z # vs) a"
    "\<And>u. u \<in> set us \<Longrightarrow> \<not> fits bytes (blk (dbytes db) u) db"
    "fits bytes (blk (dbytes db) z) db"
  shows "first_fit_loop bytes a prev prev_blk hdr (moved (nat a) op db) =
    Some (take_block bytes z (if us = [] then prev else last us)
      (if us = [] then prev_blk else blk (dbytes db) (last us)) (blk (dbytes db) z)
      (moved (nat z + 20) gxDBASE_READ db))"
  using assms
proof (induction us arbitrary: a prev prev_blk hdr op)
  case Nil
  then show ?case using first_fit_hit [of db z vs bytes] by auto
next
  case (Cons u us)
  have a: "a = u" using Cons.prems(2) by simp
  have p: "free_path (blk (dbytes db)) (u # us @ z # vs) u" using Cons.prems(2) by auto
  have w: "walkable db (u # us @ z # vs)" using Cons.prems(1) by simp
  have "\<not> fits bytes (blk (dbytes db) u) db" using Cons.prems(3) by simp
  note skip = first_fit_skip [OF w p this]
  have "first_fit_loop bytes u prev prev_blk hdr (moved (nat u) op db) =
    Some (take_block bytes z (if us = [] then u else last us)
      (if us = [] then blk (dbytes db) u else blk (dbytes db) (last us)) (blk (dbytes db) z)
      (moved (nat z + 20) gxDBASE_READ db))"
    unfolding skip
    using walkable_Cons [OF w] free_path_head [OF p] Cons.prems(3,4) by (intro Cons.IH) auto
  then show ?case unfolding a by simp
qed

text \<open>
  The first fit search always returns on a well-formed list, with the first block that fits.
\<close>

lemma ReclaimFirstFit_finds:
  assumes ok: "heap_ok db bs fl" and w: "fl = us @ z # vs"
    and us: "\<And>u. u \<in> set us \<Longrightarrow> \<not> fits bytes (blk (dbytes db) u) db"
    and z: "fits bytes (blk (dbytes db) z) db"
  shows "ReclaimFirstFit bytes db =
    Some (take_block bytes z (prev_of us) (if us = [] then new_gxBlockHeader else blk (dbytes db) (last us))
      (blk (dbytes db) z) (moved (nat z + 20) gxDBASE_READ db))"
proof -
  have m: "heap_meta db" and l: "heap_lists db (blk (dbytes db)) bs fl"
    using ok by (auto simp: heap_ok_def)
  have rd: "readable db" using m by (simp add: heap_meta_def)
  have p: "free_path (blk (dbytes db)) fl (fs_of db)" using l by (simp add: heap_lists_def)
  have k: "walkable db fl" by (rule walkable_heap [OF m l])
  note fs = heap_fs [OF m l]
  show ?thesis
    using fs rd first_fit_finds [OF k [unfolded w] p [unfolded w] us z, of 0 new_gxBlockHeader
        new_gxBlockHeader gxDBASE_SEEK]
    by (simp add: ReclaimFirstFit_def engine_simps prev_of_def)
qed

lemma ReclaimFirstFit_misses:
  assumes ok: "heap_ok db bs fl"
    and us: "\<And>u. u \<in> set fl \<Longrightarrow> \<not> fits bytes (blk (dbytes db) u) db"
  shows "\<exists>op. ReclaimFirstFit bytes db = Some (0, moved 0 op db)"
proof -
  have m: "heap_meta db" and l: "heap_lists db (blk (dbytes db)) bs fl"
    using ok by (auto simp: heap_ok_def)
  have rd: "readable db" using m by (simp add: heap_meta_def)
  have p: "free_path (blk (dbytes db)) fl (fs_of db)" using l by (simp add: heap_lists_def)
  have k: "walkable db fl" by (rule walkable_heap [OF m l])
  note fs = heap_fs [OF m l]
  show ?thesis
    using fs rd first_fit_miss [OF k p us, of 0 new_gxBlockHeader new_gxBlockHeader gxDBASE_SEEK]
    by (simp add: ReclaimFirstFit_def engine_simps)
qed

end
