(* ===== verification/HeapAlloc.thy ===== *)
theory HeapAlloc
  imports HeapOps
begin

text \<open>
  \<open>Alloc\<close> on a well-formed heap: reuse of a block of the free space list, exactly or with its
  rest made a block, and extension of the file. In every case the heap stays well-formed, the
  new block is apart from all blocks in use, and their headers and data are as before.
\<close>

section \<open>Changes that keep the heap\<close>

text \<open>
  \<open>db'\<close> has the data of \<open>db\<close> in all blocks of \<open>bs\<close> and its heap has the same extent; the
  list head may have changed.
\<close>

definition kept :: "gxDatabase \<Rightarrow> gxDatabase \<Rightarrow> block_map \<Rightarrow> int list \<Rightarrow> bool" where
  "kept db db' f bs \<longleftrightarrow>
     heap_meta db' \<and> rev_letter db' = rev_letter db \<and>
     hs_of db' = hs_of db \<and> eof_of db' = eof_of db \<and>
     gxd_hb_fptr (file_header db') = gxd_hb_fptr (file_header db) \<and>
     file_stats_header db' = file_stats_header db \<and>
     length (dbytes db') = length (dbytes db) \<and>
     (\<forall>n. writable n db \<longrightarrow> writable n db') \<and>
     (\<forall>y \<in> set bs. payload (dbytes db') y (block_length (f y)) =
                    payload (dbytes db) y (block_length (f y)))"

lemma kept_trans: "kept db db1 f bs \<Longrightarrow> kept db1 db2 f bs \<Longrightarrow> kept db db2 f bs"
  by (auto simp: kept_def)

lemma kept_sizes:
  assumes "kept db db' f bs"
  shows "BlockHeaderSize db' = BlockHeaderSize db" "hdr_end db' = hdr_end db"
    "FileHeaderSize db' = FileHeaderSize db" "IsOK db'"
    "tiles db' f bs = tiles db f bs"
  using assms
  by (auto simp: kept_def BlockHeaderSize_def hdr_end_def FileHeaderSize_def heap_meta_def Let_def)

lemma kept_moved: "kept db db' f bs \<Longrightarrow> kept db (moved p op db') f bs"
  by (simp add: kept_def)

lemma kept_no_error: "kept db db' f bs \<Longrightarrow> kept db (db'\<lparr>gxd_error := e\<rparr>) f bs"
  by (auto simp: kept_def heap_meta_def)

lemma kept_headed:
  assumes m: "heap_meta db" and t: "tiles db f bs" and l: "hdr_end db \<le> length (dbytes db)"
  shows "kept db (headed db) f bs"
  using m l tiles_spaced [OF m t] by (simp add: kept_def payload_headed max_absorb1)

lemma kept_header:
  assumes m: "heap_meta db" and t: "tiles db f bs" and x: "x \<in> set bs"
  shows "kept db (stored (nat x) (enc_gxBlockHeader h) db) f bs"
  using m tiles_spaced [OF m t x] tiles_write_header [OF m t x] by (simp add: kept_def)

lemma stats_sizes:
  assumes "heap_meta db" "rev_D_or_E (rev_letter db)"
  shows "hdr_end db = 86" "FileHeaderSize db = 86"
  using assms by (auto simp: hdr_end_def FileHeaderSize_def Let_def sizeof_defs rev_defs)

lemma kept_stats:
  assumes m: "heap_meta db" and t: "tiles db f bs" and r: "rev_D_or_E (rev_letter db)"
    and l: "86 \<le> length (dbytes db)"
  shows "kept db (stored 62 (enc_gxFileStatsHeader s) db) f bs"
    and "S \<subseteq> set bs \<Longrightarrow> shows_map (stored 62 (enc_gxFileStatsHeader s) db) g S = shows_map db g S"
proof -
  note e = stats_sizes [OF m r] and sp = tiles_spaced [OF m t]
  have p: "payload (put_at (dbytes db) 62 (enc_gxFileStatsHeader s)) y (block_length (f y)) =
    payload (dbytes db) y (block_length (f y))" if "y \<in> set bs" for y
    using sp [OF that] e by (intro payload_put) auto
  then show "kept db (stored 62 (enc_gxFileStatsHeader s) db) f bs"
    using m l by (simp add: kept_def)
  have b: "blk (put_at (dbytes db) 62 (enc_gxFileStatsHeader s)) y = blk (dbytes db) y"
    if "y \<in> set bs" for y
    using sp [OF that] e by (intro blk_put_other) auto
  show "shows_map (stored 62 (enc_gxFileStatsHeader s) db) g S = shows_map db g S" if "S \<subseteq> set bs"
    using b that by (simp add: shows_map_def) (metis subsetD)
qed

lemma kept_fs:
  assumes "heap_meta db" "in_s64 n"
  shows "kept db (set_fs_fptr n db) f bs"
  using assms by (auto simp: kept_def set_fs_fptr_def heap_meta_def header_ok_def ok_defs)

lemma set_fs_simps [simp]:
  "dbytes (set_fs_fptr n db) = dbytes db" "shows_map (set_fs_fptr n db) g S = shows_map db g S"
  "writable k (set_fs_fptr n db) = writable k db" "hdr_end (set_fs_fptr n db) = hdr_end db"
  "fs_of (set_fs_fptr n db) = n" "hs_of (set_fs_fptr n db) = hs_of db"
  "eof_of (set_fs_fptr n db) = eof_of db" "BlockHeaderSize (set_fs_fptr n db) = BlockHeaderSize db"
  by (simp_all add: set_fs_fptr_def shows_map_def)

section \<open>Relinking\<close>

lemma relink_ok:
  assumes m: "heap_meta db" and t: "tiles db f bs"
    and w: "writable (length (dbytes db)) db" and l: "hdr_end db \<le> length (dbytes db)"
    and n: "in_s64 n" and S: "S \<subseteq> set bs"
    and p: "prev \<noteq> 0 \<Longrightarrow> prev \<in> set bs \<and> prev \<in> S \<and> ok_gxBlockHeader pb \<and> f prev = pb\<lparr>block_nd_fptr := n\<rparr>"
    and s: "shows_map db f (S - (if prev = 0 then {} else {prev}))"
  obtains db' where "relink n prev pb db = (True, db')" "kept db db' f bs" "shows_map db' f S"
    "fs_of db' = (if prev = 0 then n else fs_of db)"
proof (cases "prev = 0")
  case True
  let ?d = "set_fs_fptr n db"
  have kd: "kept db ?d f bs" using kept_fs [OF m n] .
  have md: "heap_meta ?d" using kd by (simp add: kept_def)
  have td: "tiles ?d f bs" using t by simp
  have ld: "hdr_end ?d \<le> length (dbytes ?d)" using l by simp
  have wd: "writable (hdr_end ?d) ?d" using w l by (simp add: writable_mono)
  have r: "relink n prev pb db = (True, moved (hdr_end db) gxDBASE_WRITE (headed ?d))"
    using True wd by (simp add: relink_def engine_simps)
  have "kept ?d (headed ?d) f bs" using kept_headed [OF md td ld] .
  then have "kept db (moved (hdr_end db) gxDBASE_WRITE (headed ?d)) f bs"
    using kd kept_trans kept_moved by blast
  moreover have "shows_map (headed ?d) f S"
    using tiles_shows_headed [OF md td S] s True by simp
  ultimately show thesis using that [OF r] True by simp
next
  case False
  have x: "prev \<in> set bs" "prev \<in> S" and okp: "ok_gxBlockHeader pb"
    and fp: "f prev = pb\<lparr>block_nd_fptr := n\<rparr>"
    using p False by auto
  have okf: "ok_gxBlockHeader (f prev)" using okp n by (simp add: fp ok_defs)
  note sx = tiles_spaced [OF m t x(1)]
  let ?d = "stored (nat prev) (enc_gxBlockHeader (f prev)) db"
  have kd: "kept db ?d f bs" using kept_header [OF m t x(1)] .
  have md: "heap_meta ?d" using kd by (simp add: kept_def)
  have td: "tiles ?d f bs" using t by simp
  have shd: "shows_map ?d f S"
    using tiles_shows_stored [OF m t x(1) S _ okf] s False x(2) by (simp add: insert_absorb)
  have ld: "length (dbytes ?d) = length (dbytes db)" using sx by simp
  have wp: "writable (nat prev + 20) db" using w sx by (simp add: writable_mono)
  have w1: "WriteBlockHdr (pb\<lparr>block_nd_fptr := n\<rparr>) prev db = moved (nat prev + 20) gxDBASE_WRITE ?d"
    using wp sx by (simp add: engine_simps fp)
  have wst: "rev_D_or_E (rev_letter db) \<Longrightarrow> writable 86 db"
    using w l stats_sizes [OF m] by (metis writable_mono)
  show thesis
  proof (cases "rev_D_or_E (rev_letter db)")
    case True
    have l86: "86 \<le> length (dbytes ?d)" using l stats_sizes [OF m True] ld by simp
    have r: "relink n prev pb db =
      (True, moved 86 gxDBASE_WRITE
         (stored 62 (enc_gxFileStatsHeader (file_stats_header db)) ?d))"
      using False True w1 wst by (simp add: relink_def engine_simps)
    have "kept ?d (stored 62 (enc_gxFileStatsHeader (file_stats_header db)) ?d) f bs"
      using kept_stats(1) [OF md td _ l86] True by simp
    then have "kept db (moved 86 gxDBASE_WRITE
         (stored 62 (enc_gxFileStatsHeader (file_stats_header db)) ?d)) f bs"
      using kd kept_trans kept_moved by blast
    moreover have "shows_map (stored 62 (enc_gxFileStatsHeader (file_stats_header db)) ?d) f S"
      using kept_stats(2) [OF md td _ l86 S] True shd by simp
    ultimately show thesis using that [OF r] False by simp
  next
    case nr: False
    have r: "relink n prev pb db = (True, moved (nat prev + 20) gxDBASE_WRITE ?d)"
      using False nr w1 by (simp add: relink_def WriteFileStatsHdr_def Let_def)
    show thesis using that [OF r] kept_moved [OF kd] shd False by simp
  qed
qed

section \<open>The headers of the new block\<close>

text \<open>A block is set aside at \<open>a\<close>: but for its header, the image shows the map \<open>f\<close>.\<close>

definition reserved :: "gxDatabase \<Rightarrow> block_map \<Rightarrow> int list \<Rightarrow> int list \<Rightarrow> int \<Rightarrow> int \<Rightarrow> bool" where
  "reserved db f bs fl a bytes \<longleftrightarrow>
     heap_meta db \<and> hdr_end db \<le> length (dbytes db) \<and> writable (length (dbytes db)) db \<and>
     heap_lists db f bs fl \<and> shows_map db f (set bs - {a}) \<and> a \<in> set bs \<and>
     f a = fresh_block bytes \<and> in_u32 bytes"

lemma fresh_block_ok:
  assumes "in_u32 bytes"
  shows "ok_gxBlockHeader (fresh_block bytes)" "TestBlockHeader (fresh_block bytes)"
    "block_length (fresh_block bytes) = bytes" "block_state (fresh_block bytes) = gxNormalBlock"
    "\<not> is_free (fresh_block bytes)"
proof -
  show "ok_gxBlockHeader (fresh_block bytes)" "block_length (fresh_block bytes) = bytes"
    using assms by (auto simp: fresh_block_def ok_defs in_u32_def in_s64_def block_status_defs gxCheckWord_def)
  note t = TestBlockHeader_plain [of "fresh_block bytes"]
  show "TestBlockHeader (fresh_block bytes)" "block_state (fresh_block bytes) = gxNormalBlock"
    using t by (simp_all add: fresh_block_def)
  then show "\<not> is_free (fresh_block bytes)" by (simp add: is_free_def block_status_defs)
qed

text \<open>The two last parts: the record lock header and the pointer to the highest block.\<close>

definition lock_stored :: "int \<Rightarrow> gxDatabase \<Rightarrow> gxDatabase" where
  "lock_stored a db =
     (if rev_C_or_D (rev_letter db)
      then stored (nat a + 20) (enc_gxRecordLockHeader new_gxRecordLockHeader) db else db)"

definition hb_raised :: "int \<Rightarrow> gxDatabase \<Rightarrow> gxDatabase" where
  "hb_raised a db =
     (if a > gxd_hb_fptr (file_header db)
      then db\<lparr>file_header := (file_header db)\<lparr>gxd_hb_fptr := a\<rparr>\<rparr> else db)"

lemma lock_stored_fields [simp]:
  "file_header (lock_stored a db) = file_header db" "rev_letter (lock_stored a db) = rev_letter db"
  "file_stats_header (lock_stored a db) = file_stats_header db"
  "BlockHeaderSize (lock_stored a db) = BlockHeaderSize db" "hdr_end (lock_stored a db) = hdr_end db"
  "heap_lists (lock_stored a db) f bs fl = heap_lists db f bs fl"
  "stats_for (lock_stored a db) f bs = stats_for db f bs"
  "writable n db \<Longrightarrow> writable n (lock_stored a db)" "heap_meta db \<Longrightarrow> heap_meta (lock_stored a db)"
  "lock_stored a (moved p op db) = moved p op (lock_stored a db)"
  by (simp_all add: lock_stored_def)

lemma hb_raised_fields [simp]:
  "dbytes (hb_raised a db) = dbytes db" "rev_letter (hb_raised a db) = rev_letter db"
  "BlockHeaderSize (hb_raised a db) = BlockHeaderSize db" "hdr_end (hb_raised a db) = hdr_end db"
  "heap_lists (hb_raised a db) f bs fl = heap_lists db f bs fl"
  "stats_for (hb_raised a db) f bs = stats_for db f bs"
  "writable n (hb_raised a db) = writable n db" "hs_of (hb_raised a db) = hs_of db"
  "eof_of (hb_raised a db) = eof_of db" "shows_map (hb_raised a db) f S = shows_map db f S"
  "hb_raised a (moved p op db) = moved p op (hb_raised a db)"
  by (simp_all add: hb_raised_def heap_lists_def shows_map_def)

lemma hb_raised_meta: "heap_meta db \<Longrightarrow> in_s64 a \<Longrightarrow> heap_meta (hb_raised a db)"
  by (auto simp: hb_raised_def heap_meta_def header_ok_def ok_defs)

lemma init_block_computes:
  assumes "readable db" "writable (nat (a + BlockHeaderSize db)) db" "writable (hdr_end db) db" "0 \<le> a"
  shows "init_block bytes a db =
    (a + BlockHeaderSize db, moved (nat (a + BlockHeaderSize db)) gxDBASE_SEEK (headed (hb_raised a
       (lock_stored a (stored (nat a) (enc_gxBlockHeader (fresh_block bytes)) db)))))"
proof -
  have w1: "writable (nat a + 20) db"
    using assms(2,4) rev_sizes(4) [of db] by (elim writable_mono) linarith
  have w2: "writable (32 + nat a) db" if "rev_C_or_D (rev_letter db)"
    using assms(2,4) that by (elim writable_mono) (simp add: BlockHeaderSize_def sizeof_defs)
  show ?thesis
    using assms w1 w2 rev_sizes(4) [of db]
    by (cases "rev_C_or_D (rev_letter db)")
      (simp_all add: init_block_def engine_simps Let_def lock_stored_def hb_raised_def)
qed

lemma lock_stored_kept:
  assumes m: "heap_meta db" and t: "tiles db f bs" and a: "a \<in> set bs"
  shows "shows_map db f (set bs) \<Longrightarrow> shows_map (lock_stored a db) f (set bs)"
    and "\<And>y. y \<in> set bs \<Longrightarrow> y \<noteq> a \<Longrightarrow>
      payload (dbytes (lock_stored a db)) y (block_length (f y)) = payload (dbytes db) y (block_length (f y))"
    and "length (dbytes (lock_stored a db)) = length (dbytes db)"
proof -
  let ?lk = "enc_gxRecordLockHeader new_gxRecordLockHeader"
  note sa = tiles_spaced [OF m t a]
  have i: "a \<le> int (nat a + 20)" "int (nat a + 20) + int (length ?lk) \<le> a + block_length (f a)"
    if "rev_C_or_D (rev_letter db)"
    using sa that by (auto simp: BlockHeaderSize_def sizeof_defs)
  show "length (dbytes (lock_stored a db)) = length (dbytes db)"
    using sa i by (auto simp: lock_stored_def length_put_at max_def)
  show "payload (dbytes (lock_stored a db)) y (block_length (f y)) = payload (dbytes db) y (block_length (f y))"
    if "y \<in> set bs" "y \<noteq> a" for y
    using tiles_write_inside(2) [OF m t a that i] by (simp add: lock_stored_def)
  have "blk (put_at (dbytes db) (nat a + 20) ?lk) y = blk (dbytes db) y"
    if "y \<in> set bs" "rev_C_or_D (rev_letter db)" for y
  proof (cases "y = a")
    case True
    then show ?thesis using sa by (intro blk_put_other) auto
  next
    case False
    show ?thesis using tiles_write_inside(1) [OF m t a that(1) False i [OF that(2)]] .
  qed
  then show "shows_map db f (set bs) \<Longrightarrow> shows_map (lock_stored a db) f (set bs)"
    by (auto simp: shows_map_def lock_stored_def)
qed

lemma init_block_ok:
  assumes res: "reserved db f bs fl a bytes"
  obtains db' where "init_block bytes a db = (a + BlockHeaderSize db, db')"
    "heap_ok db' bs fl" "shows_map db' f (set bs)" "stats_for db f bs \<Longrightarrow> stats_ok db' bs"
    "gxd_error db' = gxDBASE_NO_ERROR"
    "\<And>y. y \<in> set bs \<Longrightarrow> y \<noteq> a \<Longrightarrow>
       payload (dbytes db') y (block_length (f y)) = payload (dbytes db) y (block_length (f y))"
    "rev_letter db' = rev_letter db" "length (dbytes db') = length (dbytes db)"
    "hs_of db' = hs_of db" "eof_of db' = eof_of db"
    "dpos db' = nat (a + BlockHeaderSize db)" "writable (length (dbytes db')) db'"
proof -
  have m: "heap_meta db" and l: "heap_lists db f bs fl" and a: "a \<in> set bs"
    and fa: "f a = fresh_block bytes" and u: "in_u32 bytes" and e: "hdr_end db \<le> length (dbytes db)"
    and w: "writable (length (dbytes db)) db" and sh: "shows_map db f (set bs - {a})"
    using res by (auto simp: reserved_def)
  have t: "tiles db f bs" using l by (simp add: heap_lists_def)
  note fb = fresh_block_ok [OF u] and sa = tiles_spaced [OF m t a]
  let ?d1 = "stored (nat a) (enc_gxBlockHeader (fresh_block bytes)) db"
  let ?d2 = "lock_stored a ?d1"
  let ?d3 = "hb_raised a ?d2"
  let ?d5 = "moved (nat (a + BlockHeaderSize db)) gxDBASE_SEEK (headed ?d3)"
  have k1: "kept db ?d1 f bs" using kept_header [OF m t a] .
  have m1: "heap_meta ?d1" and t1: "tiles ?d1 f bs" using k1 t by (auto simp: kept_def)
  have sh1: "shows_map ?d1 f (set bs)" using shows_stored [OF m l a sh] fb(1) by (simp add: fa)
  note lk = lock_stored_kept [OF m1 t1 a]
  have m3: "heap_meta ?d3" using m1 heap_addr_in_s64(1) [OF m l a] by (intro hb_raised_meta) auto
  have l3: "heap_lists ?d3 f bs fl" using l by simp
  have sh3: "shows_map (headed ?d3) f (set bs)" using shows_headed [OF m3 l3] lk(1) [OF sh1] by simp
  have rd: "readable db" using m by (simp add: heap_meta_def)
  have wb: "writable (nat (a + BlockHeaderSize db)) db" "writable (hdr_end db) db"
    using w sa e by (auto elim!: writable_mono)
  have "init_block bytes a db = (a + BlockHeaderSize db, ?d5)"
    using rd wb sa(2) by (intro init_block_computes) auto
  moreover have "heap_ok ?d5 bs fl" using m3 l3 sh3 by (intro heap_okI [where f = f]) auto
  moreover have "stats_ok ?d5 bs" if "stats_for db f bs"
    using sh3 that by (intro stats_okI [where f = f]) auto
  moreover have "payload (dbytes ?d5) y (block_length (f y)) = payload (dbytes db) y (block_length (f y))"
    if "y \<in> set bs" "y \<noteq> a" for y
    using tiles_spaced [OF m3 heap_tiles [OF l3] that(1)] lk(2) [OF that] k1 that
    by (simp add: payload_headed kept_def)
  moreover have n5: "length (dbytes db) = length (dbytes ?d5)" using k1 lk(3) e by (simp add: kept_def max_def)
  moreover have "writable (length (dbytes ?d5)) ?d5" using w unfolding n5 [symmetric] by simp
  moreover have "hs_of ?d5 = hs_of db" "eof_of ?d5 = eof_of db" by simp_all
  ultimately show thesis using that sh3 by simp
qed

section \<open>Taking a block off the list\<close>

lemma reuse_stats_ok: "ok_gxFileStatsHeader s \<Longrightarrow> ok_gxFileStatsHeader (reuse_stats st s)"
  by (auto simp: reuse_stats_def one_less_deleted_def one_less_removed_def ok_defs in_s64_def)

lemma split_stats_ok: "ok_gxFileStatsHeader s \<Longrightarrow> ok_gxFileStatsHeader (split_stats s)"
  by (simp add: split_stats_def ok_defs)

lemma heap_meta_stats:
  "heap_meta db \<Longrightarrow> (\<And>s. ok_gxFileStatsHeader s \<Longrightarrow> ok_gxFileStatsHeader (g s)) \<Longrightarrow>
   heap_meta (upd_stats g db)"
  by (simp add: heap_meta_def header_ok_def upd_stats_def)

lemma upd_stats_simps [simp]:
  "dbytes (upd_stats g db) = dbytes db" "file_header (upd_stats g db) = file_header db"
  "writable n (upd_stats g db) = writable n db" "hdr_end (upd_stats g db) = hdr_end db"
  "BlockHeaderSize (upd_stats g db) = BlockHeaderSize db" "rev_letter (upd_stats g db) = rev_letter db"
  "file_stats_header (upd_stats g db) = g (file_stats_header db)"
  "heap_lists (upd_stats g db) f bs fl = heap_lists db f bs fl"
  "shows_map (upd_stats g db) f S = shows_map db f S"
  "unused_length k h (upd_stats g db) = unused_length k h db"
  by (simp_all add: upd_stats_def unused_length_def with_overhead_def shows_map_def)

text \<open>The header of the block before \<open>z\<close> on the list, as the walk carries it.\<close>

definition prev_hdr :: "gxDatabase \<Rightarrow> int list \<Rightarrow> gxBlockHeader" where
  "prev_hdr db us = (if us = [] then new_gxBlockHeader else blk (dbytes db) (last us))"

text \<open>The facts about the block \<open>z\<close> on the list that both ways of taking it use.\<close>

lemma list_block:
  assumes ok: "heap_ok db bs (us @ z # vs)"
  shows "heap_meta db" "heap_lists db (blk (dbytes db)) bs (us @ z # vs)" "tiles db (blk (dbytes db)) bs"
    "z \<in> set bs" "z \<notin> set us" "z \<notin> set vs" "set us \<subseteq> set bs" "set vs \<subseteq> set bs"
    "free_path (blk (dbytes db)) (us @ z # vs) (fs_of db)" "hdr_end db \<le> length (dbytes db)"
    "is_free (blk (dbytes db) z)" "0 \<le> z" "in_s64 z" "in_s64 (block_nd_fptr (blk (dbytes db) z))"
    "prev_of us \<noteq> 0 \<Longrightarrow> us \<noteq> []" "us \<noteq> [] \<Longrightarrow> prev_of us = last us \<and> last us \<in> set us \<and> last us \<noteq> 0"
    "us \<noteq> [] \<Longrightarrow> last us \<notin> set vs"
proof -
  show m: "heap_meta db" and l: "heap_lists db (blk (dbytes db)) bs (us @ z # vs)"
    and "hdr_end db \<le> length (dbytes db)"
    using ok by (auto simp: heap_ok_def synced_def)
  show "tiles db (blk (dbytes db)) bs" using l by (simp add: heap_lists_def)
  show p: "free_path (blk (dbytes db)) (us @ z # vs) (fs_of db)" using l by (simp add: heap_lists_def)
  show "z \<notin> set us" "z \<notin> set vs" using free_path_distinct [OF p] by auto
  show "us \<noteq> [] \<Longrightarrow> last us \<notin> set vs"
    using free_path_distinct [OF p] by (cases us rule: rev_cases) auto
  show z: "z \<in> set bs" and "set us \<subseteq> set bs" "set vs \<subseteq> set bs" using l by (auto simp: heap_lists_def)
  show "is_free (blk (dbytes db) z)" using free_path_free [OF p, of z] by simp
  show "0 \<le> z" "in_s64 z" using heap_addr_in_s64 [OF m l z] by auto
  show "in_s64 (block_nd_fptr (blk (dbytes db) z))"
    using ok_blk [OF heap_spaced(6) [OF m l z]] by (simp add: ok_defs)
  show "prev_of us \<noteq> 0 \<Longrightarrow> us \<noteq> []" by (auto simp: prev_of_def)
  show "us \<noteq> [] \<Longrightarrow> prev_of us = last us \<and> last us \<in> set us \<and> last us \<noteq> 0"
    using free_path_free [OF p, of "last us"] by (simp add: prev_of_def)
qed

lemma take_exact_ok:
  assumes ok: "heap_ok db bs (us @ z # vs)" and w: "writable (length (dbytes db)) db"
    and len: "block_length (blk (dbytes db) z) = bytes"
  obtains db' f where
    "take_exact z (prev_of us) (prev_hdr db us) (blk (dbytes db) z) db = (z, db')"
    "reserved db' f bs (us @ vs) z bytes" "rev_letter db' = rev_letter db"
    "stats_ok db bs \<Longrightarrow> stats_for db' f bs"
    "\<And>y. y \<in> set bs \<Longrightarrow> \<not> is_free (blk (dbytes db) y) \<Longrightarrow> f y = blk (dbytes db) y"
    "\<And>y. y \<in> set bs \<Longrightarrow> payload (dbytes db') y (block_length (f y)) = payload (dbytes db) y (block_length (f y))"
proof -
  note b = list_block [OF ok]
  let ?f = "blk (dbytes db)"
  let ?n = "block_nd_fptr (?f z)"
  let ?r = "relinked ?f us ?n"
  let ?g = "?r(z := fresh_block bytes)"
  let ?d0 = "upd_stats (reuse_stats (block_state (?f z))) db"
  have u: "in_u32 bytes" using ok_blk [OF tiles_spaced(6) [OF b(1,3,4)]] len by (simp add: ok_defs)
  note fb = fresh_block_ok [OF u]
  have m0: "heap_meta ?d0" using b(1) reuse_stats_ok by (intro heap_meta_stats) auto
  have lg: "block_length (?g y) = block_length (?f y)" for y using len fb by simp
  have tg: "tiles db ?g bs"
    using tiling_upd [of _ ?r bs _ _ "fresh_block bytes" z] b(3) fb len by (simp add: tiling_relinked)
  have gu: "?g y = ?r y" if "y \<in> set us" for y using that b(5) by auto
  have sh: "shows_map ?d0 ?g ((set bs - {z}) - (if prev_of us = 0 then {} else {prev_of us}))"
    using b(16) by (cases "us = []") (auto simp: shows_map_def relinked_def prev_of_def)
  have pr: "prev_of us \<in> set bs \<and> prev_of us \<in> set bs - {z} \<and> ok_gxBlockHeader (prev_hdr db us) \<and>
     ?g (prev_of us) = (prev_hdr db us)\<lparr>block_nd_fptr := ?n\<rparr>" if "prev_of us \<noteq> 0"
  proof -
    have ne: "us \<noteq> []" using b(15) that by blast
    then have lu: "last us \<in> set us" "last us \<in> set bs" "last us \<noteq> z" using b(5,7) by auto
    then show ?thesis
      using ne ok_blk [OF tiles_spaced(6) [OF b(1,3) lu(2)]] by (simp add: prev_of_def prev_hdr_def relinked_def)
  qed
  have w0: "writable (length (dbytes ?d0)) ?d0" using w by simp
  have S: "set bs - {z} \<subseteq> set bs" by auto
  obtain db' where r: "relink ?n (prev_of us) (prev_hdr db us) ?d0 = (True, db')"
    and k: "kept ?d0 db' ?g bs" and sh': "shows_map db' ?g (set bs - {z})"
    and fs: "fs_of db' = (if prev_of us = 0 then ?n else fs_of ?d0)"
    using relink_ok [OF m0 _ w0 _ b(14) S pr sh] tg b(10) by auto
  have t: "take_exact z (prev_of us) (prev_hdr db us) (?f z) db = (z, db')"
    using r kept_sizes(4) [OF k] by (simp add: take_exact_def addr_if_ok_def)
  have fp: "free_path ?g (us @ vs) (fs_of db')"
  proof -
    have "free_path ?f vs ?n" using free_path_suffix [OF b(9)] by auto
    then have "free_path ?g vs ?n"
      using b(6,17)
      by (subst free_path_cong [where g = ?f]) (auto simp: relinked_def)
    then have "free_path ?g (us @ vs) (if us = [] then ?n else fs_of db)"
      using gu by (intro free_path_relinked [OF b(9)]) auto
    then show ?thesis using b(15,16) fs by (cases "us = []") (auto simp: prev_of_def)
  qed
  have hl: "heap_lists db' ?g bs (us @ vs)"
    using k fp tg kept_sizes(1,5) [OF k] b(2,5,6) fb(5)
    by (auto simp: heap_lists_def kept_def)
  have "reserved db' ?g bs (us @ vs) z bytes"
    using k hl sh' b(4,10) u w kept_sizes(2) [OF k] by (auto simp: reserved_def kept_def)
  moreover have "stats_for db' ?g bs" if st: "stats_ok db bs"
  proof -
    have c: "count_state s ?r bs = count_state s ?f bs" for s by (simp add: count_state_def)
    have p: "count_state (block_state (?f z)) ?f bs \<ge> 1"
    proof -
      have "z \<in> set (filter (\<lambda>x. block_state (?f x) = block_state (?f z)) bs)" using b(4) by simp
      then show ?thesis unfolding count_state_def
        by (metis One_nat_def length_pos_if_in_set nat_int_comparison(3) of_nat_1 Suc_leI)
    qed
    show ?thesis
      using st b(11) p k fb(4)
      by (auto simp: stats_ok_def stats_for_def kept_def c count_state_upd [OF heap_distinct [OF b(2)] b(4)]
          is_free_def reuse_stats_def one_less_deleted_def one_less_removed_def block_status_defs)
  qed
  moreover have "?g y = ?f y" if "y \<in> set bs" "\<not> is_free (?f y)" for y
    using that b(11) free_path_free [OF b(9)] by (auto simp: relinked_def)
  moreover have "payload (dbytes db') y (block_length (?g y)) = payload (dbytes db) y (block_length (?g y))"
    if "y \<in> set bs" for y
    using k that by (simp add: kept_def)
  ultimately show thesis using that [OF t] k by (simp add: kept_def)
qed

lemma rest_block_ok:
  assumes "in_u32 len" "in_s64 n"
  shows "ok_gxBlockHeader (rest_block len n)" "TestBlockHeader (rest_block len n)"
    "block_length (rest_block len n) = len" "block_state (rest_block len n) = gxRemovedBlock"
    "is_free (rest_block len n)" "block_nd_fptr (rest_block len n) = n"
proof -
  show "ok_gxBlockHeader (rest_block len n)" "block_length (rest_block len n) = len"
    "block_nd_fptr (rest_block len n) = n"
    using assms by (auto simp: rest_block_def ok_defs in_u32_def in_s64_def block_status_defs gxCheckWord_def)
  note t = TestBlockHeader_plain [of "rest_block len n"]
  show "TestBlockHeader (rest_block len n)" "block_state (rest_block len n) = gxRemovedBlock"
    using t by (simp_all add: rest_block_def)
  then show "is_free (rest_block len n)" by (simp add: is_free_def)
qed

text \<open>What room for a second block means, when the sum of lengths does not wrap.\<close>

lemma with_overhead_eq:
  assumes "0 \<le> n" "n < 2 ^ 32"
  shows "with_overhead n db = n + BlockHeaderSize db + (if rev_zero_or_E (rev_letter db) then 0 else 4)"
  using assms rev_sizes(4,5) [of db] by (simp add: with_overhead_def sizeof_defs)

lemma split_lengths:
  assumes "unused_length bytes h db > 0" "BlockHeaderSize db \<le> bytes" "bytes < 2 ^ 32"
  shows "unused_length bytes h db = block_length h - bytes"
    "BlockHeaderSize db < block_length h - bytes" "bytes < block_length h"
  using assms rev_sizes(4) [of db] with_overhead_eq [of bytes db]
  by (auto simp: unused_length_def split: if_splits)

text \<open>The map when \<open>z\<close> is split, and its tiling.\<close>

definition split_map :: "block_map \<Rightarrow> int list \<Rightarrow> int \<Rightarrow> int \<Rightarrow> block_map" where
  "split_map f us z bytes =
     (relinked f us (z + bytes))
       (z := fresh_block bytes,
        z + bytes := rest_block (block_length (f z) - bytes) (block_nd_fptr (f z)))"

lemma split_tiles:
  assumes t: "tiling m f (bs1 @ z # bs2) a e" and m: "20 \<le> m" and u: "in_u32 bytes" "m \<le> bytes"
    and r: "in_u32 (block_length (f z) - bytes)" "m \<le> block_length (f z) - bytes"
    and n: "in_s64 (block_nd_fptr (f z))"
  shows "tiling m (split_map f us z bytes) (bs1 @ z # (z + bytes) # bs2) a e"
    "z + bytes \<notin> set (bs1 @ z # bs2)"
proof -
  note fb = fresh_block_ok [OF u(1)] and rb = rest_block_ok [OF r(1) n]
  show g: "tiling m (split_map f us z bytes) (bs1 @ z # (z + bytes) # bs2) a e"
    unfolding split_map_def
  proof (rule tiling_split)
    show "tiling m (relinked f us (z + bytes)) (bs1 @ z # bs2) a e" using t by (simp add: tiling_relinked)
  qed (use m u r fb(2,3) rb(2,3) in auto)
  have "distinct (bs1 @ z # (z + bytes) # bs2)" using tiling_distinct [OF g] m by simp
  then show "z + bytes \<notin> set (bs1 @ z # bs2)" by auto
qed

lemma split_free_path:
  assumes p: "free_path f (us @ z # vs) a" and n: "z + bytes \<notin> set (us @ z # vs)"
    and r: "in_u32 (block_length (f z) - bytes)" "in_s64 (block_nd_fptr (f z))" and nz: "z + bytes \<noteq> 0"
  shows "free_path (split_map f us z bytes) (us @ (z + bytes) # vs) (if us = [] then z + bytes else a)"
proof -
  let ?g = "split_map f us z bytes"
  note rb = rest_block_ok [OF r]
  have d: "distinct (us @ z # vs)" using free_path_distinct [OF p] .
  then have lu: "us \<noteq> [] \<Longrightarrow> last us \<notin> set vs" by (cases us rule: rev_cases) auto
  have "free_path f vs (block_nd_fptr (f z))" using free_path_suffix [OF p] by auto
  then have "free_path ?g vs (block_nd_fptr (f z))"
    using d n lu by (subst free_path_cong [where g = f]) (auto simp: split_map_def relinked_def)
  then have q: "free_path ?g ((z + bytes) # vs) (z + bytes)"
    using rb nz by (simp add: split_map_def)
  show ?thesis
    using d n by (intro free_path_relinked [OF p q]) (auto simp: split_map_def)
qed

lemma split_free_set:
  assumes fl: "set (us @ z # vs) = {y \<in> set (bs1 @ z # bs2). is_free (f y)}"
    and n: "z + bytes \<notin> set (bs1 @ z # bs2)" "z + bytes \<noteq> z" and z: "z \<notin> set us" "z \<notin> set vs"
    and u: "in_u32 bytes" "in_u32 (block_length (f z) - bytes)" "in_s64 (block_nd_fptr (f z))"
  shows "set (us @ (z + bytes) # vs) =
    {y \<in> set (bs1 @ z # (z + bytes) # bs2). is_free (split_map f us z bytes y)}"
proof (rule set_eqI)
  fix y
  let ?g = "split_map f us z bytes"
  have e: "y \<in> set (us @ z # vs) \<longleftrightarrow> y \<in> set (bs1 @ z # bs2) \<and> is_free (f y)" using fl by blast
  have g: "\<not> is_free (?g z)" "is_free (?g (z + bytes))" "y \<noteq> z \<Longrightarrow> y \<noteq> z + bytes \<Longrightarrow> is_free (?g y) = is_free (f y)"
    using fresh_block_ok(5) [OF u(1)] rest_block_ok(5) [OF u(2,3)] n(2) by (auto simp: split_map_def)
  show "y \<in> set (us @ (z + bytes) # vs) \<longleftrightarrow>
    y \<in> {y \<in> set (bs1 @ z # (z + bytes) # bs2). is_free (?g y)}"
  proof (cases "y = z \<or> y = z + bytes")
    case True
    then show ?thesis using g(1,2) z n(2) by auto
  next
    case False
    then show ?thesis using e g(3) by auto
  qed
qed

lemma split_counts:
  assumes d: "distinct (bs1 @ z # bs2)" "z + bytes \<notin> set (bs1 @ z # bs2)"
    and u: "in_u32 bytes" "in_u32 (block_length (f z) - bytes)" "in_s64 (block_nd_fptr (f z))"
  shows "count_state s (split_map f us z bytes) (bs1 @ z # (z + bytes) # bs2) =
    count_state s f (bs1 @ z # bs2) - (if block_state (f z) = s then 1 else 0) +
    (if gxNormalBlock = s then 1 else 0) + (if gxRemovedBlock = s then 1 else 0)"
proof -
  have "count_state s (relinked f us (z + bytes)) xs = count_state s f xs" for xs
    by (simp add: count_state_def)
  then show ?thesis
    using d fresh_block_ok(4) [OF u(1)] rest_block_ok(4) [OF u(2,3)]
    by (auto simp: split_map_def)
qed

lemma split_stats_for:
  assumes st: "stats_for db f (bs1 @ z # bs2)" and fz: "is_free (f z)"
    and d: "distinct (bs1 @ z # bs2)" "z + bytes \<notin> set (bs1 @ z # bs2)"
    and u: "in_u32 bytes" "in_u32 (block_length (f z) - bytes)" "in_s64 (block_nd_fptr (f z))"
    and l: "int (length (bs1 @ z # bs2)) < 2 ^ 62"
    and db': "rev_letter db' = rev_letter db"
      "file_stats_header db' = split_stats (reuse_stats (block_state (f z)) (file_stats_header db))"
  shows "stats_for db' (split_map f us z bytes) (bs1 @ z # (z + bytes) # bs2)"
proof -
  let ?bs = "bs1 @ z # bs2"
  note c = split_counts [of bs1 z bs2 bytes f, OF d u]
  have b: "0 \<le> count_state s f ?bs" "count_state s f ?bs < 2 ^ 62" for s
    using count_state_bounds [of s f ?bs] l by linarith+
  have p: "count_state (block_state (f z)) f ?bs \<ge> 1"
    using count_state_bounds(1) [of _ f bs1] count_state_bounds(1) [of _ f bs2] by simp
  note ss = split_stats_def reuse_stats_def one_less_deleted_def one_less_removed_def
  have n: "int (length (bs1 @ z # (z + bytes) # bs2)) = int (length ?bs) + 1" by simp
  consider "block_state (f z) = gxDeletedBlock" | "block_state (f z) = gxRemovedBlock"
    using fz by (auto simp: is_free_def)
  then show ?thesis
  proof cases
    case 1
    then show ?thesis
      using st p b [of gxDeletedBlock] b [of gxRemovedBlock] l
      unfolding stats_for_def n c db' by (auto simp: ss block_status_defs)
  next
    case 2
    then show ?thesis
      using st p b [of gxDeletedBlock] b [of gxRemovedBlock] l
      unfolding stats_for_def n c db' by (auto simp: ss block_status_defs)
  qed
qed

lemma take_split_ok:
  assumes ok: "heap_ok db bs (us @ z # vs)" and w: "writable (length (dbytes db)) db"
    and room: "unused_length bytes (blk (dbytes db) z) db > 0"
    and u: "in_u32 bytes" "BlockHeaderSize db \<le> bytes"
  obtains db' f bs1 bs2 where "bs = bs1 @ z # bs2"
    "take_split bytes z (prev_of us) (prev_hdr db us) (blk (dbytes db) z) db = (z, db')"
    "reserved db' f (bs1 @ z # (z + bytes) # bs2) (us @ (z + bytes) # vs) z bytes"
    "rev_letter db' = rev_letter db"
    "stats_ok db bs \<Longrightarrow> stats_for db' f (bs1 @ z # (z + bytes) # bs2)"
    "\<And>y. y \<in> set bs \<Longrightarrow> \<not> is_free (blk (dbytes db) y) \<Longrightarrow> f y = blk (dbytes db) y"
    "\<And>y. y \<in> set bs \<Longrightarrow> payload (dbytes db') y (block_length (f y)) = payload (dbytes db) y (block_length (f y))"
proof -
  note b = list_block [OF ok]
  let ?f = "blk (dbytes db)"
  let ?n = "z + bytes"
  let ?g = "split_map ?f us z bytes"
  obtain bs1 bs2 where bs: "bs = bs1 @ z # bs2" using b(4) by (meson split_list)
  let ?bs = "bs1 @ z # ?n # bs2"
  note sz = tiles_spaced [OF b(1,3,4)]
  note r4 = rev_sizes(4) [of db]
  have u32: "bytes < 2 ^ 32" using u(1) by (simp add: in_u32_def)
  note sl = split_lengths [OF room u(2) u32]
  have lz: "in_u32 (block_length (?f z))" using ok_blk [OF sz(6)] by (simp add: ok_defs)
  have rest: "in_u32 (block_length (?f z) - bytes)" "BlockHeaderSize db \<le> block_length (?f z) - bytes"
    using sl lz u(2) r4 by (auto simp: in_u32_def)
  note fb = fresh_block_ok [OF u(1)] and rb = rest_block_ok [OF rest(1) b(14)]
  have tb: "tiles db ?f (bs1 @ z # bs2)" using b(3) unfolding bs .
  have t': "tiles db ?g ?bs" and nbs: "?n \<notin> set bs"
    using split_tiles [OF tb r4 u rest b(14)] unfolding bs by auto
  have nn: "?n \<noteq> z" using u(2) r4 by simp
  let ?st = "split_stats \<circ> reuse_stats (block_state (?f z))"
  let ?d0 = "upd_stats ?st db"
  have m0: "heap_meta ?d0" using b(1) reuse_stats_ok split_stats_ok by (intro heap_meta_stats) auto
  have t0: "tiles ?d0 ?g ?bs" using t' by simp
  have nin: "?n \<in> set ?bs" by simp
  note sn = tiles_spaced [OF m0 t0 nin]
  have gn: "?g ?n = rest_block (block_length (?f z) - bytes) (block_nd_fptr (?f z))"
    by (simp add: split_map_def)
  let ?d1 = "stored (nat ?n) (enc_gxBlockHeader (?g ?n)) ?d0"
  have k1: "kept ?d0 ?d1 ?g ?bs" using kept_header [OF m0 t0 nin] .
  have m1: "heap_meta ?d1" and t1: "tiles ?d1 ?g ?bs" using k1 t0 by (auto simp: kept_def)
  let ?S = "set ?bs - {z}"
  let ?P = "if prev_of us = 0 then {} else {prev_of us}"
  have sh0: "shows_map ?d0 ?g (?S - ?P - {?n})"
    using b(16) by (cases "us = []") (auto simp: shows_map_def split_map_def relinked_def prev_of_def)
  have "shows_map ?d1 ?g (insert ?n (?S - ?P))"
    using sh0 rb(1) by (intro tiles_shows_stored [OF m0 t0 nin]) (auto simp: gn)
  then have sh1: "shows_map ?d1 ?g (?S - ?P)" by (auto simp: shows_map_def)
  have n64: "in_s64 ?n" "to_s64 ?n = ?n" "0 \<le> ?n" "?n \<noteq> 0"
  proof -
    have "?n < 2 ^ 63" using sz(3) sl(3) b(1) by (auto simp: heap_meta_def header_ok_def ok_defs in_s64_def)
    then show "in_s64 ?n" "to_s64 ?n = ?n" "0 \<le> ?n" "?n \<noteq> 0" using b(12) u(2) r4 by (auto simp: in_s64_def)
  qed
  have wn: "writable (nat ?n + 20) ?d0" using w sn(6) by (simp add: writable_mono)
  have w1: "WriteBlockHdr (?g ?n) ?n ?d0 = moved (nat ?n + 20) gxDBASE_WRITE ?d1"
    using wn n64 by (simp add: engine_simps)
  let ?d2 = "moved (nat ?n + 20) gxDBASE_WRITE ?d1"
  have pr: "prev_of us \<in> set ?bs \<and> prev_of us \<in> ?S \<and> ok_gxBlockHeader (prev_hdr db us) \<and>
     ?g (prev_of us) = (prev_hdr db us)\<lparr>block_nd_fptr := ?n\<rparr>" if "prev_of us \<noteq> 0"
  proof -
    have ne: "us \<noteq> []" using b(15) that by blast
    then have lu: "last us \<in> set us" "last us \<in> set bs" "last us \<noteq> z" using b(5,7) by auto
    then have "last us \<noteq> ?n" using nbs by auto
    then show ?thesis
      using ne lu ok_blk [OF tiles_spaced(6) [OF b(1,3) lu(2)]]
      by (auto simp: prev_of_def prev_hdr_def split_map_def relinked_def bs)
  qed
  have m2: "heap_meta ?d2" and t2: "tiles ?d2 ?g ?bs" using m1 t1 by auto
  have len1: "length (dbytes ?d1) = length (dbytes db)" using k1 by (simp add: kept_def)
  have w2: "writable (length (dbytes ?d2)) ?d2" using w len1 by simp
  have S: "?S \<subseteq> set ?bs" by auto
  have h2: "hdr_end ?d2 \<le> length (dbytes ?d2)" using b(10) len1 by simp
  have sh2: "shows_map ?d2 ?g (?S - ?P)" using sh1 by simp
  obtain db' where r: "relink ?n (prev_of us) (prev_hdr db us) ?d2 = (True, db')"
    and k: "kept ?d2 db' ?g ?bs" and sh': "shows_map db' ?g ?S"
    and fs: "fs_of db' = (if prev_of us = 0 then ?n else fs_of ?d2)"
    using relink_ok [OF m2 t2 w2 h2 n64(1) S pr sh2] by blast
  have t: "take_split bytes z (prev_of us) (prev_hdr db us) (?f z) db = (z, db')"
    using r kept_sizes(4) [OF k] w1
    by (simp add: take_split_def addr_if_ok_def n64(2) sl(1) gn Let_def)
  have fpl: "?n \<notin> set (us @ z # vs)" using nbs b(4,7,8) by auto
  have fp: "free_path ?g (us @ ?n # vs) (fs_of db')"
    using split_free_path [OF b(9) fpl rest(1) b(14) n64(4)] b(15,16) fs
    by (cases "us = []") (auto simp: prev_of_def)
  have "set (us @ z # vs) = {y \<in> set (bs1 @ z # bs2). is_free (?f y)}"
    using b(2) bs by (simp add: heap_lists_def)
  then have "set (us @ ?n # vs) = {y \<in> set ?bs. is_free (?g y)}"
    using nbs bs b(5,6) nn u(1) rest(1) b(14) by (intro split_free_set) auto
  then have hl: "heap_lists db' ?g ?bs (us @ ?n # vs)"
    using fp t2 kept_sizes(5) [OF k] by (simp add: heap_lists_def)
  have l': "length (dbytes db') = length (dbytes db)" using k len1 by (simp add: kept_def)
  have "reserved db' ?g ?bs (us @ ?n # vs) z bytes"
    using k hl sh' b(10) u w kept_sizes(2) [OF k] l' nn by (auto simp: reserved_def kept_def split_map_def)
  moreover have "stats_for db' ?g ?bs" if st: "stats_ok db bs"
  proof (rule split_stats_for)
    show "stats_for db ?f (bs1 @ z # bs2)" using st bs by (simp add: stats_ok_def)
    show "distinct (bs1 @ z # bs2)" using heap_distinct [OF b(2)] bs by simp
    show "int (length (bs1 @ z # bs2)) < 2 ^ 62" using heap_bounds(5) [OF b(1,2)] bs by simp
  qed (use nbs bs k k1 b(11,14) u(1) rest(1) in \<open>auto simp: kept_def\<close>)
  moreover have "?g y = ?f y" if "y \<in> set bs" "\<not> is_free (?f y)" for y
  proof -
    have "y \<notin> set us" "y \<noteq> z" "y \<noteq> ?n" using that b(11) free_path_free [OF b(9)] nbs by auto
    then show ?thesis by (simp add: split_map_def relinked_other)
  qed
  moreover have "payload (dbytes db') y (block_length (?g y)) = payload (dbytes db) y (block_length (?g y))"
    if "y \<in> set bs" for y
  proof -
    have y: "y \<in> set ?bs" using that bs by auto
    have "payload (dbytes db') y (block_length (?g y)) = payload (dbytes ?d2) y (block_length (?g y))"
      using k y unfolding kept_def by blast
    also have "\<dots> = payload (dbytes ?d1) y (block_length (?g y))" by simp
    also have "\<dots> = payload (dbytes ?d0) y (block_length (?g y))"
      using k1 y unfolding kept_def by blast
    finally show ?thesis by simp
  qed
  ultimately show thesis using that [OF bs t] k by (simp add: kept_def)
qed

section \<open>Extending the file\<close>

lemma heap_ok_moved [simp]: "heap_ok db bs fl \<Longrightarrow> heap_ok (moved p op db) bs fl"
  by (simp add: heap_ok_def)

lemma stats_ok_moved [simp]: "stats_ok (moved p op db) bs = stats_ok db bs"
  by (simp add: stats_ok_def)

lemma data_at_moved [simp]: "data_at (moved p op db) y = data_at db y"
  by (simp add: data_at_def)

lemma extend_file_ok:
  assumes ok: "heap_ok db bs fl" and w: "writable (max (length (dbytes db)) (nat (eof_of db + bytes))) db"
    and u: "in_u32 bytes" "BlockHeaderSize db \<le> bytes" and e: "eof_of db + bytes < 2 ^ 63"
  obtains db' where "extend_file bytes db = ((eof_of db, True), db')"
    "reserved db' ((blk (dbytes db))(eof_of db := fresh_block bytes)) (bs @ [eof_of db]) fl (eof_of db) bytes"
    "rev_letter db' = rev_letter db"
    "stats_ok db bs \<Longrightarrow> stats_for db' ((blk (dbytes db))(eof_of db := fresh_block bytes)) (bs @ [eof_of db])"
    "\<And>y. y \<in> set bs \<Longrightarrow> payload (dbytes db') y (block_length (blk (dbytes db) y)) =
       payload (dbytes db) y (block_length (blk (dbytes db) y))"
    "eof_of db \<notin> set bs"
proof -
  let ?f = "blk (dbytes db)" and ?e = "eof_of db"
  let ?z = "replicate (nat bytes) (0 :: byte)"
  let ?g = "?f(?e := fresh_block bytes)"
  have m: "heap_meta db" and l: "heap_lists db ?f bs fl" and h: "hdr_end db \<le> length (dbytes db)"
    using ok by (auto simp: heap_ok_def synced_def)
  have t: "tiles db ?f bs" using l by (simp add: heap_lists_def)
  note b = heap_bounds [OF m l] and r = rev_sizes [of db] and fb = fresh_block_ok [OF u(1)]
  have e0: "0 \<le> ?e" "50 \<le> ?e" using b by auto
  have by20: "20 \<le> bytes" using u r by linarith
  have el: "?e \<le> int (length (dbytes db))" using m by (simp add: heap_meta_def)
  have w1: "writable (nat ?e + length ?z) db"
  proof -
    have "nat ?e + length ?z = nat (?e + bytes)" using e0 by20 by simp
    then show ?thesis using w by (simp add: writable_mono)
  qed
  let ?d1 = "db\<lparr>file_header := (file_header db)\<lparr>gxd_eof := ?e + bytes\<rparr>\<rparr>"
  let ?h2 = "(file_header db)\<lparr>gxd_eof := ?e + bytes, gxd_hb_fptr := ?e\<rparr>"
  let ?s2 = "(file_stats_header db)\<lparr>num_blocks := to_s64 (num_blocks (file_stats_header db) + 1)\<rparr>"
  let ?d = "moved (nat ?e + nat bytes) gxDBASE_WRITE (stored (nat ?e) ?z
    (db\<lparr>file_stats_header := ?s2, file_header := ?h2\<rparr>))"
  have te: "to_s64 (?e + bytes) = ?e + bytes" using e e0 by20 by simp
  have x: "extend_file bytes db = ((?e, True), ?d)"
  proof -
    have "Write ?z ?e ?d1 = moved (nat ?e + nat bytes) gxDBASE_WRITE (stored (nat ?e) ?z ?d1)"
      using w1 e0 by (simp add: engine_simps)
    then show ?thesis by (simp add: extend_file_def te Let_def upd_stats_def)
  qed
  have len: "length (dbytes ?d) = max (length (dbytes db)) (nat (?e + bytes))"
    using by20 e0 by (simp add: length_put_at nat_add_distrib)
  have md: "heap_meta ?d"
  proof -
    have "in_s64 (?e + bytes)" "in_s64 ?e" using e e0 by20 by (auto simp: in_s64_def)
    then show ?thesis using m e0 by20 len by (auto simp: heap_meta_def header_ok_def ok_defs)
  qed
  have nb: "?e \<notin> set bs"
  proof
    assume "?e \<in> set bs"
    then show False using tiles_spaced(3,10) [OF m t, of ?e] by simp
  qed
  have td: "tiles ?d ?g (bs @ [?e])"
    using tiling_snoc [OF t _ fb(2)] fb(3) u r by (simp add: BlockHeaderSize_def)
  have fld: "free_path ?g fl (fs_of db)"
    using l nb by (subst free_path_cong [where g = ?f]) (auto simp: heap_lists_def)
  have ld: "heap_lists ?d ?g (bs @ [?e]) fl"
    using td fld l nb fb(5) by (auto simp: heap_lists_def)
  have below: "blk (dbytes ?d) y = ?f y" "payload (dbytes ?d) y (block_length (?f y)) = payload (dbytes db) y (block_length (?f y))"
    if y: "y \<in> set bs" for y
  proof -
    note sy = tiles_spaced [OF m t y]
    show "blk (dbytes ?d) y = ?f y"
      using sy by (simp, intro blk_put_other) auto
    show "payload (dbytes ?d) y (block_length (?f y)) = payload (dbytes db) y (block_length (?f y))"
      using sy by (simp, intro payload_put) auto
  qed
  have shd: "shows_map ?d ?g (set (bs @ [?e]) - {?e})"
    using below(1) nb by (auto simp: shows_map_def)
  have hd: "hdr_end ?d \<le> length (dbytes ?d)" using h unfolding len by simp
  have wd: "writable (length (dbytes ?d)) ?d" unfolding len using w by simp
  have "reserved ?d ?g (bs @ [?e]) fl ?e bytes"
    unfolding reserved_def using md hd wd ld shd u(1) by auto
  moreover have "stats_for ?d ?g (bs @ [?e])" if st: "stats_ok db bs"
    using st b(5) nb fb(4) by (auto simp: stats_ok_def stats_for_def block_status_defs)
  ultimately show thesis using that [OF x] below(2) nb by simp
qed

section \<open>The best fit walk\<close>

lemma find_split:
  "List.find P xs = Some z \<Longrightarrow> \<exists>us vs. xs = us @ z # vs \<and> P z \<and> (\<forall>u \<in> set us. \<not> P u)"
proof (induction xs)
  case (Cons x xs)
  show ?case
  proof (cases "P x")
    case True
    then show ?thesis using Cons.prems by (intro exI [of _ "[]"] exI [of _ xs]) simp
  next
    case False
    then obtain us vs where "xs = us @ z # vs" "P z" "\<forall>u \<in> set us. \<not> P u"
      using Cons by auto
    then show ?thesis using False by (intro exI [of _ "x # us"] exI [of _ vs]) simp
  qed
qed simp

text \<open>
  No block ever becomes the candidate of the best fit search: its recorded unused length starts
  at zero, and a block replaces it only when that is above one of the limits, which are not
  negative.
\<close>

lemma best_fit_tests_none:
  assumes "best_fit_unused_len best = 0" "0 \<le> bytes"
  shows "best_fit_tests bytes unused addr prev h pb is best = best"
proof -
  have n: "\<not> best_length bytes i < 0" for i
    by (simp add: best_length_def not_less to_u32_def)
  show ?thesis using assms(1) n by (induction "is" arbitrary: best) auto
qed

lemma note_best_fit_none: "0 \<le> bytes \<Longrightarrow> note_best_fit bytes addr prev h pb db no_best_fit = no_best_fit"
  by (simp add: note_best_fit_def Let_def best_fit_tests_none no_best_fit_def)

lemma best_fit_hit:
  assumes "walkable db (z # zs)" "free_path (blk (dbytes db)) (z # zs) z"
    "block_length (blk (dbytes db) z) = bytes"
  shows "best_fit_loop bytes z prev prev_blk hdr st best (moved (nat z) op db) =
    Some (take_exact z prev prev_blk (blk (dbytes db) z) (moved (nat z + 20) gxDBASE_READ db))"
  using walk_read [OF assms(1)] free_not_bad [OF assms(2)] assms(3)
  by (auto simp: best_fit_loop.simps)

lemma best_fit_skip:
  assumes w: "walkable db (z # zs)" and p: "free_path (blk (dbytes db)) (z # zs) z"
    and "block_length (blk (dbytes db) z) \<noteq> bytes" "0 \<le> bytes"
  shows "best_fit_loop bytes z prev prev_blk hdr st no_best_fit (moved (nat z) op db) =
    best_fit_loop bytes (block_nd_fptr (blk (dbytes db) z)) z (blk (dbytes db) z)
      (blk (dbytes db) z) (block_state (blk (dbytes db) z)) no_best_fit
      (moved (nat (block_nd_fptr (blk (dbytes db) z))) gxDBASE_SEEK db)"
  using walk_read [OF w] free_not_bad [OF p] assms(3)
    walk_seek [OF walkable_Cons [OF w] free_path_head [OF p]]
  by (subst best_fit_loop.simps) (auto simp: note_best_fit_none assms(4))

lemma best_fit_miss:
  assumes "walkable db zs" "free_path (blk (dbytes db)) zs a" "0 \<le> bytes"
    "\<And>z. z \<in> set zs \<Longrightarrow> block_length (blk (dbytes db) z) \<noteq> bytes"
  shows "\<exists>op'. best_fit_loop bytes a prev prev_blk hdr st no_best_fit (moved (nat a) op db) =
    Some (0, moved 0 op' db)"
  using assms
proof (induction zs arbitrary: a prev prev_blk hdr st op)
  case Nil
  then show ?case by (auto simp: best_fit_loop.simps take_best_def no_best_fit_def)
next
  case (Cons z zs)
  have a: "a = z" using Cons.prems(2) by simp
  have p: "free_path (blk (dbytes db)) (z # zs) z" using Cons.prems(2) a by simp
  have n: "block_length (blk (dbytes db) z) \<noteq> bytes" using Cons.prems(4) by simp
  show ?case
    unfolding a best_fit_skip [OF Cons.prems(1) p n Cons.prems(3)]
    using Cons.prems(3,4) by (intro Cons.IH [OF walkable_Cons [OF Cons.prems(1)] free_path_head [OF p]]) auto
qed

lemma best_fit_finds:
  assumes "walkable db (us @ z # vs)" "free_path (blk (dbytes db)) (us @ z # vs) a" "0 \<le> bytes"
    "\<And>u. u \<in> set us \<Longrightarrow> block_length (blk (dbytes db) u) \<noteq> bytes"
    "block_length (blk (dbytes db) z) = bytes"
  shows "best_fit_loop bytes a prev prev_blk hdr st no_best_fit (moved (nat a) op db) =
    Some (take_exact z (if us = [] then prev else last us)
      (if us = [] then prev_blk else blk (dbytes db) (last us)) (blk (dbytes db) z)
      (moved (nat z + 20) gxDBASE_READ db))"
  using assms
proof (induction us arbitrary: a prev prev_blk hdr st op)
  case Nil
  then show ?case using best_fit_hit [of db z vs bytes] by auto
next
  case (Cons u us)
  have a: "a = u" using Cons.prems(2) by simp
  have p: "free_path (blk (dbytes db)) (u # us @ z # vs) u" using Cons.prems(2) by auto
  have w: "walkable db (u # us @ z # vs)" using Cons.prems(1) by simp
  have n: "block_length (blk (dbytes db) u) \<noteq> bytes" using Cons.prems(4) by simp
  note skip = best_fit_skip [OF w p n Cons.prems(3)]
  have "best_fit_loop bytes u prev prev_blk hdr st no_best_fit (moved (nat u) op db) =
    Some (take_exact z (if us = [] then u else last us)
      (if us = [] then blk (dbytes db) u else blk (dbytes db) (last us)) (blk (dbytes db) z)
      (moved (nat z + 20) gxDBASE_READ db))"
    unfolding skip
    using walkable_Cons [OF w] free_path_head [OF p] Cons.prems(3,4,5) by (intro Cons.IH) auto
  then show ?case unfolding a by simp
qed

section \<open>Allocation\<close>

text \<open>The block of the free list that a reclaim method takes, if any.\<close>

definition reclaim_choice ::
  "gxDatabaseReclaimMethod \<Rightarrow> int \<Rightarrow> gxDatabase \<Rightarrow> int list \<Rightarrow> int option" where
  "reclaim_choice how bytes db fl =
     (case how of
        gxDBASE_RECLAIM_NONE \<Rightarrow> None
      | gxDBASE_RECLAIM_FIRSTFIT \<Rightarrow> List.find (\<lambda>z. fits bytes (blk (dbytes db) z) db) fl
      | gxDBASE_RECLAIM_BESTFIT \<Rightarrow> List.find (\<lambda>z. block_length (blk (dbytes db) z) = bytes) fl)"

definition reclaim ::
  "gxDatabaseReclaimMethod \<Rightarrow> int \<Rightarrow> gxDatabase \<Rightarrow> (int \<times> gxDatabase) option" where
  "reclaim how bytes db =
     (case how of
        gxDBASE_RECLAIM_FIRSTFIT \<Rightarrow> ReclaimFirstFit bytes db
      | gxDBASE_RECLAIM_BESTFIT \<Rightarrow> ReclaimBestFit bytes db
      | gxDBASE_RECLAIM_NONE \<Rightarrow> Some (0, db))"

lemma reclaim_ok:
  assumes ok: "heap_ok db bs fl" and b: "0 \<le> bytes"
  shows "reclaim_choice how bytes db fl = None \<Longrightarrow>
      \<exists>db1. reclaim how bytes db = Some (0, db1) \<and> (db1 = db \<or> (\<exists>p op. db1 = moved p op db))"
    and "reclaim_choice how bytes db fl = Some z \<Longrightarrow>
      \<exists>us vs. fl = us @ z # vs \<and>
        (block_length (blk (dbytes db) z) = bytes \<or> unused_length bytes (blk (dbytes db) z) db > 0) \<and>
        reclaim how bytes db = Some (take_block bytes z (prev_of us) (prev_hdr db us)
          (blk (dbytes db) z) (moved (nat z + 20) gxDBASE_READ db))"
proof -
  have m: "heap_meta db" and l: "heap_lists db (blk (dbytes db)) bs fl"
    using ok by (auto simp: heap_ok_def)
  have rd: "readable db" using m by (simp add: heap_meta_def)
  have p: "free_path (blk (dbytes db)) fl (fs_of db)" using l by (simp add: heap_lists_def)
  have k: "walkable db fl" by (rule walkable_heap [OF m l])
  note fs = heap_fs [OF m l]
  have bf: "ReclaimBestFit bytes db = best_fit_loop bytes (fs_of db) 0 new_gxBlockHeader
      new_gxBlockHeader 0 no_best_fit (moved (nat (fs_of db)) gxDBASE_SEEK db)"
    using fs rd by (simp add: ReclaimBestFit_def engine_simps)
  show "\<exists>db1. reclaim how bytes db = Some (0, db1) \<and> (db1 = db \<or> (\<exists>p op. db1 = moved p op db))"
    if c: "reclaim_choice how bytes db fl = None"
  proof (cases how)
    case gxDBASE_RECLAIM_BESTFIT
    then have "\<And>z. z \<in> set fl \<Longrightarrow> block_length (blk (dbytes db) z) \<noteq> bytes"
      using c by (simp add: reclaim_choice_def find_None_iff)
    then show ?thesis
      using best_fit_miss [OF k p b] gxDBASE_RECLAIM_BESTFIT bf by (fastforce simp: reclaim_def)
  next
    case gxDBASE_RECLAIM_FIRSTFIT
    then have "\<And>z. z \<in> set fl \<Longrightarrow> \<not> fits bytes (blk (dbytes db) z) db"
      using c by (simp add: reclaim_choice_def find_None_iff)
    then show ?thesis
      using ReclaimFirstFit_misses [OF ok] gxDBASE_RECLAIM_FIRSTFIT by (fastforce simp: reclaim_def)
  qed (simp add: reclaim_def)
  show "\<exists>us vs. fl = us @ z # vs \<and>
        (block_length (blk (dbytes db) z) = bytes \<or> unused_length bytes (blk (dbytes db) z) db > 0) \<and>
        reclaim how bytes db = Some (take_block bytes z (prev_of us) (prev_hdr db us)
          (blk (dbytes db) z) (moved (nat z + 20) gxDBASE_READ db))"
    if c: "reclaim_choice how bytes db fl = Some z"
  proof (cases how)
    case gxDBASE_RECLAIM_BESTFIT
    obtain us vs where fl: "fl = us @ z # vs" and z: "block_length (blk (dbytes db) z) = bytes"
      and us: "\<And>u. u \<in> set us \<Longrightarrow> block_length (blk (dbytes db) u) \<noteq> bytes"
      using c gxDBASE_RECLAIM_BESTFIT
      by (auto simp: reclaim_choice_def find_Some_iff2 dest!: find_split)
    have "ReclaimBestFit bytes db = Some (take_block bytes z (prev_of us) (prev_hdr db us)
          (blk (dbytes db) z) (moved (nat z + 20) gxDBASE_READ db))"
      using best_fit_finds [OF k [unfolded fl] p [unfolded fl] b us z]
      by (simp add: bf take_block_def z prev_of_def prev_hdr_def)
    then show ?thesis using fl z gxDBASE_RECLAIM_BESTFIT by (auto simp: reclaim_def)
  next
    case gxDBASE_RECLAIM_FIRSTFIT
    obtain us vs where fl: "fl = us @ z # vs" and z: "fits bytes (blk (dbytes db) z) db"
      and us: "\<And>u. u \<in> set us \<Longrightarrow> \<not> fits bytes (blk (dbytes db) u) db"
      using c gxDBASE_RECLAIM_FIRSTFIT
      by (auto simp: reclaim_choice_def dest!: find_split)
    have "ReclaimFirstFit bytes db = Some (take_block bytes z (prev_of us) (prev_hdr db us)
          (blk (dbytes db) z) (moved (nat z + 20) gxDBASE_READ db))"
      using ReclaimFirstFit_finds [OF ok fl us z] by (simp add: prev_hdr_def)
    then show ?thesis using fl z gxDBASE_RECLAIM_FIRSTFIT by (auto simp: reclaim_def fits_def)
  qed (use c in \<open>simp add: reclaim_choice_def\<close>)
qed

text \<open>
  What an allocation at \<open>a\<close> of a block of \<open>bytes\<close> bytes did: the heap is well-formed with the new
  block in it, and the blocks in use before are other blocks, with their headers and data as
  they were.
\<close>

definition alloc_result ::
  "gxDatabase \<Rightarrow> int list \<Rightarrow> int \<Rightarrow> int \<Rightarrow> gxDatabase \<Rightarrow> int list \<Rightarrow> int list \<Rightarrow> bool" where
  "alloc_result db bs bytes a db' bs' fl' \<longleftrightarrow>
     heap_ok db' bs' fl' \<and> (stats_ok db bs \<longrightarrow> stats_ok db' bs') \<and> a \<in> set bs' \<and>
     blk (dbytes db') a = fresh_block bytes \<and> gxd_error db' = gxDBASE_NO_ERROR \<and>
     rev_letter db' = rev_letter db \<and>
     dpos db' = nat (a + BlockHeaderSize db) \<and> writable (length (dbytes db')) db' \<and>
     (\<forall>y \<in> set bs. \<not> is_free (blk (dbytes db) y) \<longrightarrow>
        y \<in> set bs' \<and> y \<noteq> a \<and> blk (dbytes db') y = blk (dbytes db) y \<and> data_at db' y = data_at db y)"

lemma reserved_result:
  assumes r: "reserved d f bs' fl' a bytes" and rl: "rev_letter d = rev_letter db"
    and st: "stats_ok db bs \<Longrightarrow> stats_for d f bs'" and sub: "set bs \<subseteq> set bs'"
    and fr: "\<And>y. y \<in> set bs \<Longrightarrow> \<not> is_free (blk (dbytes db) y) \<Longrightarrow> y \<noteq> a \<and> f y = blk (dbytes db) y"
    and pay: "\<And>y. y \<in> set bs \<Longrightarrow> \<not> is_free (blk (dbytes db) y) \<Longrightarrow>
      payload (dbytes d) y (block_length (f y)) = payload (dbytes db) y (block_length (f y))"
  obtains db' where "init_block bytes a d = (a + BlockHeaderSize db, db')"
    "alloc_result db bs bytes a db' bs' fl'"
proof -
  obtain db' where i: "init_block bytes a d = (a + BlockHeaderSize d, db')"
    and ok: "heap_ok db' bs' fl'" and sh: "shows_map db' f (set bs')"
    and st': "stats_for d f bs' \<Longrightarrow> stats_ok db' bs'" and e: "gxd_error db' = gxDBASE_NO_ERROR"
    and p: "\<And>y. y \<in> set bs' \<Longrightarrow> y \<noteq> a \<Longrightarrow>
       payload (dbytes db') y (block_length (f y)) = payload (dbytes d) y (block_length (f y))"
    and rv: "rev_letter db' = rev_letter d"
    and pos: "dpos db' = nat (a + BlockHeaderSize d)" "writable (length (dbytes db')) db'"
    by (rule init_block_ok [OF r]) blast
  have a: "a \<in> set bs'" "f a = fresh_block bytes" using r by (auto simp: reserved_def)
  have b: "BlockHeaderSize d = BlockHeaderSize db" using rl by (simp add: BlockHeaderSize_def)
  have "y \<in> set bs' \<and> y \<noteq> a \<and> blk (dbytes db') y = blk (dbytes db) y \<and> data_at db' y = data_at db y"
    if y: "y \<in> set bs" "\<not> is_free (blk (dbytes db) y)" for y
  proof -
    have y': "y \<in> set bs'" using y sub by auto
    have bl: "blk (dbytes db') y = blk (dbytes db) y" using sh y' fr [OF y] by (simp add: shows_map_def)
    then have "data_at db' y = data_at db y"
      using p [OF y'] fr [OF y] pay [OF y] by (simp add: data_at_def)
    then show ?thesis using y' bl fr [OF y] by simp
  qed
  then have "alloc_result db bs bytes a db' bs' fl'"
    using ok st st' a sh e rv rl pos b by (auto simp: alloc_result_def shows_map_def)
  then show thesis using that i b by simp
qed

lemma take_block_result:
  assumes ok: "heap_ok db bs (us @ z # vs)" and w: "writable (length (dbytes db)) db"
    and u: "in_u32 bytes" "BlockHeaderSize db \<le> bytes"
    and z: "block_length (blk (dbytes db) z) = bytes \<or> unused_length bytes (blk (dbytes db) z) db > 0"
  obtains d db' bs' fl' where "take_block bytes z (prev_of us) (prev_hdr db us) (blk (dbytes db) z) db = (z, d)"
    "init_block bytes z d = (z + BlockHeaderSize db, db')" "alloc_result db bs bytes z db' bs' fl'"
proof -
  have fz: "is_free (blk (dbytes db) z)" using list_block(11) [OF ok] .
  show thesis
  proof (cases "block_length (blk (dbytes db) z) = bytes")
    case True
    obtain d f where t: "take_exact z (prev_of us) (prev_hdr db us) (blk (dbytes db) z) db = (z, d)"
      and r: "reserved d f bs (us @ vs) z bytes" and rl: "rev_letter d = rev_letter db"
      and st: "stats_ok db bs \<Longrightarrow> stats_for d f bs"
      and fr: "\<And>y. y \<in> set bs \<Longrightarrow> \<not> is_free (blk (dbytes db) y) \<Longrightarrow> f y = blk (dbytes db) y"
      and pay: "\<And>y. y \<in> set bs \<Longrightarrow> payload (dbytes d) y (block_length (f y)) = payload (dbytes db) y (block_length (f y))"
      by (rule take_exact_ok [OF ok w True]) blast
    have fr': "y \<noteq> z \<and> f y = blk (dbytes db) y" if "y \<in> set bs" "\<not> is_free (blk (dbytes db) y)" for y
      using fr that fz by auto
    obtain db' where "init_block bytes z d = (z + BlockHeaderSize db, db')"
      "alloc_result db bs bytes z db' bs (us @ vs)"
      by (rule reserved_result [OF r rl st subset_refl fr' pay])
    then show thesis using that t True by (simp add: take_block_def)
  next
    case False
    then have room: "unused_length bytes (blk (dbytes db) z) db > 0" using z by simp
    obtain d f bs1 bs2 where bs: "bs = bs1 @ z # bs2"
      and t: "take_split bytes z (prev_of us) (prev_hdr db us) (blk (dbytes db) z) db = (z, d)"
      and r: "reserved d f (bs1 @ z # (z + bytes) # bs2) (us @ (z + bytes) # vs) z bytes"
      and rl: "rev_letter d = rev_letter db"
      and st: "stats_ok db bs \<Longrightarrow> stats_for d f (bs1 @ z # (z + bytes) # bs2)"
      and fr: "\<And>y. y \<in> set bs \<Longrightarrow> \<not> is_free (blk (dbytes db) y) \<Longrightarrow> f y = blk (dbytes db) y"
      and pay: "\<And>y. y \<in> set bs \<Longrightarrow> payload (dbytes d) y (block_length (f y)) = payload (dbytes db) y (block_length (f y))"
      by (rule take_split_ok [OF ok w room u]) blast
    have fr': "y \<noteq> z \<and> f y = blk (dbytes db) y" if "y \<in> set bs" "\<not> is_free (blk (dbytes db) y)" for y
      using fr that fz by auto
    have sub: "set bs \<subseteq> set (bs1 @ z # (z + bytes) # bs2)" using bs by auto
    obtain db' where "init_block bytes z d = (z + BlockHeaderSize db, db')"
      "alloc_result db bs bytes z db' (bs1 @ z # (z + bytes) # bs2) (us @ (z + bytes) # vs)"
      by (rule reserved_result [OF r rl st sub fr' pay])
    then show thesis using that t False by (simp add: take_block_def)
  qed
qed

text \<open>The size of the block, and the room on the device, that an allocation asks for.\<close>

definition alloc_room :: "int \<Rightarrow> gxDatabase \<Rightarrow> bool" where
  "alloc_room n db \<longleftrightarrow>
     0 \<le> n \<and> with_overhead n db < 2 ^ 32 \<and> n < 2 ^ 32 \<and> eof_of db + with_overhead n db < 2 ^ 63 \<and>
     writable (max (length (dbytes db)) (nat (eof_of db + with_overhead n db))) db"

lemma alloc_room_bytes:
  assumes "alloc_room n db"
  shows "in_u32 (with_overhead n db)" "BlockHeaderSize db \<le> with_overhead n db" "0 \<le> with_overhead n db"
  using assms with_overhead_eq [of n db] rev_sizes(4) [of db]
  by (auto simp: alloc_room_def in_u32_def)

lemma Alloc_eq:
  assumes "IsOK db" "ready_for_writing db"
  shows "Alloc n how db =
    (case (if fs_of db \<noteq> 0 then reclaim how (with_overhead n db) db else Some (0, db)) of
       None \<Rightarrow> None
     | Some (addr, db1) \<Rightarrow>
         if IsOK db1 \<and> addr = 0 then
           (case extend_file (with_overhead n db) db1 of ((file_address, ok), db2) \<Rightarrow>
              if ok then Some (init_block (with_overhead n db) file_address db2) else Some (0, db2))
         else Some (init_block (with_overhead n db) addr db1))"
  using assms by (simp add: Alloc_def reclaim_def Let_def)

lemma Alloc_refines:
  assumes ok: "heap_ok db bs fl" and room: "alloc_room n db"
  obtains a db' bs' fl' where "Alloc n how db = Some (a + BlockHeaderSize db, db')"
    "a = (case reclaim_choice how (with_overhead n db) db fl of Some z \<Rightarrow> z | None \<Rightarrow> eof_of db)"
    "alloc_result db bs (with_overhead n db) a db' bs' fl'"
    "reclaim_choice how (with_overhead n db) db fl = None \<Longrightarrow> bs' = bs @ [a] \<and> fl' = fl"
proof -
  let ?b = "with_overhead n db"
  note ab = alloc_room_bytes [OF room]
  have m: "heap_meta db" and l: "heap_lists db (blk (dbytes db)) bs fl"
    using ok by (auto simp: heap_ok_def)
  have rd: "readable db" "IsOK db" using m by (auto simp: heap_meta_def)
  have w: "writable (max (length (dbytes db)) (nat (eof_of db + ?b))) db" "eof_of db + ?b < 2 ^ 63"
    using room by (auto simp: alloc_room_def)
  have w': "writable (length (dbytes db)) db" using w(1) by (rule writable_mono) simp
  have rw: "ready_for_writing db" using w' by simp
  show thesis
  proof (cases "reclaim_choice how ?b db fl")
    case None
    obtain d where d: "(if fs_of db \<noteq> 0 then reclaim how ?b db else Some (0, db)) = Some (0, d)"
      "d = db \<or> (\<exists>p op. d = moved p op db)"
      using reclaim_ok(1) [OF ok ab(3) None] by (cases "fs_of db = 0") auto
    have okd: "heap_ok d bs fl" and ed: "eof_of d = eof_of db" "dbytes d = dbytes db"
      "BlockHeaderSize d = BlockHeaderSize db" "rev_letter d = rev_letter db" "stats_ok d bs = stats_ok db bs"
      and wd: "writable (max (length (dbytes d)) (nat (eof_of d + ?b))) d" and okd': "IsOK d"
      using d(2) ok w rd by (auto simp: stats_ok_def)
    have bd: "BlockHeaderSize d \<le> ?b" "eof_of d + ?b < 2 ^ 63" using ab ed w by auto
    obtain d2 where x: "extend_file ?b d = ((eof_of d, True), d2)"
      and r: "reserved d2 ((blk (dbytes d))(eof_of d := fresh_block ?b)) (bs @ [eof_of d]) fl (eof_of d) ?b"
      and rl: "rev_letter d2 = rev_letter d"
      and st: "stats_ok d bs \<Longrightarrow> stats_for d2 ((blk (dbytes d))(eof_of d := fresh_block ?b)) (bs @ [eof_of d])"
      and pay: "\<And>y. y \<in> set bs \<Longrightarrow> payload (dbytes d2) y (block_length (blk (dbytes d) y)) =
         payload (dbytes d) y (block_length (blk (dbytes d) y))"
      and nb: "eof_of d \<notin> set bs"
      by (rule extend_file_ok [OF okd wd ab(1) bd]) blast
    have rl': "rev_letter d2 = rev_letter db" using rl ed by simp
    have st': "stats_ok db bs \<Longrightarrow> stats_for d2 ((blk (dbytes d))(eof_of d := fresh_block ?b)) (bs @ [eof_of d])"
      using st ed by simp
    have sub: "set bs \<subseteq> set (bs @ [eof_of d])" by auto
    have fr: "y \<noteq> eof_of d \<and> ((blk (dbytes d))(eof_of d := fresh_block ?b)) y = blk (dbytes db) y"
      if "y \<in> set bs" "\<not> is_free (blk (dbytes db) y)" for y
      using that nb ed by auto
    have pay': "payload (dbytes d2) y (block_length (((blk (dbytes d))(eof_of d := fresh_block ?b)) y)) =
         payload (dbytes db) y (block_length (((blk (dbytes d))(eof_of d := fresh_block ?b)) y))"
      if "y \<in> set bs" "\<not> is_free (blk (dbytes db) y)" for y
      using pay [OF that(1)] fr [OF that] ed by simp
    obtain db' where i: "init_block ?b (eof_of d) d2 = (eof_of d + BlockHeaderSize db, db')"
      and res: "alloc_result db bs ?b (eof_of d) db' (bs @ [eof_of d]) fl"
      by (rule reserved_result [OF r rl' st' sub fr pay'])
    have "Alloc n how db = Some (eof_of db + BlockHeaderSize db, db')"
      unfolding Alloc_eq [OF rd(2) rw] d(1) using x i ed okd' by simp
    then show thesis using that [of "eof_of db" db' "bs @ [eof_of db]" fl] res None ed by simp
  next
    case (Some z)
    obtain us vs where fl: "fl = us @ z # vs"
      and z: "block_length (blk (dbytes db) z) = ?b \<or> unused_length ?b (blk (dbytes db) z) db > 0"
      and rc: "reclaim how ?b db = Some (take_block ?b z (prev_of us) (prev_hdr db us)
          (blk (dbytes db) z) (moved (nat z + 20) gxDBASE_READ db))"
      using reclaim_ok(2) [OF ok ab(3) Some] by blast
    let ?d = "moved (nat z + 20) gxDBASE_READ db"
    have okd: "heap_ok ?d bs (us @ z # vs)" using ok fl by simp
    have e: "prev_hdr ?d us = prev_hdr db us" by (simp add: prev_hdr_def)
    obtain d db' bs' fl' where t: "take_block ?b z (prev_of us) (prev_hdr ?d us) (blk (dbytes ?d) z) ?d = (z, d)"
      and i: "init_block ?b z d = (z + BlockHeaderSize ?d, db')" and res: "alloc_result ?d bs ?b z db' bs' fl'"
      by (rule take_block_result [OF okd, of ?b]) (use w' ab z in auto)
    have fp: "free_path (blk (dbytes db)) (us @ z # vs) (fs_of db)"
      using l fl by (simp add: heap_lists_def)
    have zfl: "z \<noteq> 0" "fs_of db \<noteq> 0"
      using free_path_free [OF fp, of z] fp by (simp, cases us, auto)
    have A: "Alloc n how db = Some (z + BlockHeaderSize db, db')"
      unfolding Alloc_eq [OF rd(2) rw] using rc t i zfl e by simp
    have R: "alloc_result db bs ?b z db' bs' fl'"
      using res unfolding alloc_result_def stats_ok_moved data_at_moved moved_fields .
    show thesis
    proof (rule that [OF A _ R])
      show "z = (case reclaim_choice how ?b db fl of Some z \<Rightarrow> z | None \<Rightarrow> eof_of db)"
        by (simp add: Some)
      show "bs' = bs @ [z] \<and> fl' = fl" if "reclaim_choice how ?b db fl = None"
        using that Some by simp
    qed
  qed
qed

end
