(* ===== verification/HeapUndelete.thy ===== *)
theory HeapUndelete
  imports HeapAlloc
begin

text \<open>
  \<open>UnDelete\<close> on a well-formed heap, the walks that count deleted blocks, and the walks on a free
  space list that is a cycle.
\<close>

section \<open>Undeletion\<close>

lemma undelete_finds:
  assumes "walkable db (us @ x # vs)" "free_path (blk (dbytes db)) (us @ x # vs) a" "x \<notin> set us"
    and d: "d = db \<or> (\<exists>p op. d = moved p op db)"
  shows "undelete_loop x a prev pb hdr d =
    Some (undelete_found x (if us = [] then prev else last us)
      (if us = [] then pb else blk (dbytes db) (last us)) (blk (dbytes db) x)
      (moved (nat x + 20) gxDBASE_READ db))"
  using assms
proof (induction us arbitrary: a prev pb hdr d)
  case Nil
  then have a: "a = x" by simp
  have p: "free_path (blk (dbytes db)) (x # vs) x" and w: "walkable db (x # vs)" using Nil a by auto
  have r: "Read_hdr hdr x d = (blk (dbytes db) x, moved (nat x + 20) gxDBASE_READ db)"
    using Nil.prems(4) w by (auto simp: walkable_def engine_simps)
  show ?case
    unfolding a using walk_read [OF w] free_not_bad [OF p] r
    by (subst undelete_loop.simps) auto
next
  case (Cons u us)
  have a: "a = u" using Cons.prems(2) by simp
  have p: "free_path (blk (dbytes db)) (u # us @ x # vs) u" using Cons.prems(2) a by auto
  have w: "walkable db (u # us @ x # vs)" using Cons.prems(1) by simp
  have r: "Read_hdr hdr u d = (blk (dbytes db) u, moved (nat u + 20) gxDBASE_READ db)"
    using Cons.prems(4) w by (auto simp: walkable_def engine_simps)
  have "undelete_loop x u prev pb hdr d =
    undelete_loop x (block_nd_fptr (blk (dbytes db) u)) u (blk (dbytes db) u) (blk (dbytes db) u)
      (moved (nat u + 20) gxDBASE_READ db)"
    using walk_read [OF w] free_not_bad [OF p] r Cons.prems(3)
    by (subst undelete_loop.simps) auto
  also have "\<dots> = Some (undelete_found x (if us = [] then u else last us)
      (if us = [] then blk (dbytes db) u else blk (dbytes db) (last us)) (blk (dbytes db) x)
      (moved (nat x + 20) gxDBASE_READ db))"
    using walkable_Cons [OF w] free_path_head [OF p] Cons.prems(3) by (intro Cons.IH) auto
  finally show ?case unfolding a by simp
qed

text \<open>Setting a link, at the head of the list or in the block before.\<close>

definition link_to :: "int \<Rightarrow> int \<Rightarrow> gxBlockHeader \<Rightarrow> gxDatabase \<Rightarrow> gxDatabase" where
  "link_to n prev pb db =
     (if prev = 0 then WriteFileHdr (set_fs_fptr n db)
      else WriteBlockHdr (pb\<lparr>block_nd_fptr := n\<rparr>) prev db)"

lemma link_to_ok:
  assumes m: "heap_meta db" and t: "tiles db f bs"
    and w: "writable (length (dbytes db)) db" and l: "hdr_end db \<le> length (dbytes db)"
    and n: "in_s64 n" and S: "S \<subseteq> set bs" and sy: "synced db"
    and p: "prev \<noteq> 0 \<Longrightarrow> prev \<in> set bs \<and> prev \<in> S \<and> ok_gxBlockHeader pb \<and> f prev = pb\<lparr>block_nd_fptr := n\<rparr>"
    and s: "shows_map db f (S - (if prev = 0 then {} else {prev}))"
  obtains db' where "link_to n prev pb db = db'" "kept db db' f bs" "shows_map db' f S"
    "fs_of db' = (if prev = 0 then n else fs_of db)" "gxd_error db' = gxDBASE_NO_ERROR" "synced db'"
    "if prev = 0 then stats_synced db'
     else bytes_at (dbytes db') 62 24 = bytes_at (dbytes db) 62 24 \<or> \<not> rev_D_or_E (rev_letter db)"
proof (cases "prev = 0")
  case True
  let ?d = "set_fs_fptr n db"
  have kd: "kept db ?d f bs" using kept_fs [OF m n] .
  have md: "heap_meta ?d" using kd by (simp add: kept_def)
  have td: "tiles ?d f bs" using t by simp
  have ld: "hdr_end ?d \<le> length (dbytes ?d)" using l by simp
  have wd: "writable (hdr_end ?d) ?d" using w l by (simp add: writable_mono)
  have r: "link_to n prev pb db = moved (hdr_end db) gxDBASE_WRITE (headed ?d)"
    using True wd by (simp add: link_to_def engine_simps)
  have "kept ?d (headed ?d) f bs" using kept_headed [OF md td ld] .
  then have "kept db (moved (hdr_end db) gxDBASE_WRITE (headed ?d)) f bs"
    using kd kept_trans kept_moved by blast
  moreover have "shows_map (headed ?d) f S"
    using tiles_shows_headed [OF md td S] s True by simp
  ultimately show thesis using that [OF r] True by simp
next
  case False
  have x: "prev \<in> set bs" "prev \<in> S" and okp: "ok_gxBlockHeader pb"
    and fp: "f prev = pb\<lparr>block_nd_fptr := n\<rparr>"
    using p False by auto
  have okf: "ok_gxBlockHeader (f prev)" using okp n by (simp add: fp ok_defs)
  note sx = tiles_spaced [OF m t x(1)]
  let ?d = "stored (nat prev) (enc_gxBlockHeader (f prev)) db"
  have kd: "kept db ?d f bs" using kept_header [OF m t x(1)] .
  have shd: "shows_map ?d f S"
    using tiles_shows_stored [OF m t x(1) S _ okf] s False x(2) by (simp add: insert_absorb)
  have wp: "writable (nat prev + 20) db" using w sx by (simp add: writable_mono)
  have r: "link_to n prev pb db = moved (nat prev + 20) gxDBASE_WRITE ?d"
    using False wp sx by (simp add: link_to_def engine_simps fp)
  have "bytes_at (dbytes ?d) 62 24 = bytes_at (dbytes db) 62 24" if "rev_D_or_E (rev_letter db)"
    using sx(6,7) stats_sizes [OF m that] by (simp add: bytes_at_put_below)
  moreover have "synced ?d" using synced_stored [OF sy sx(7)] .
  ultimately show thesis using that [OF r] kept_moved [OF kd] shd False by auto
qed

lemma undelete_found_eq:
  "undelete_found addr prev pb h db =
    (let db2 = link_to (block_nd_fptr h) prev pb (upd_stats one_less_deleted db)
     in if gxd_error db2 \<noteq> gxDBASE_NO_ERROR then (False, db2)
        else (let db3 = WriteBlockHdr ((with_state gxNormalBlock h)\<lparr>block_nd_fptr := 0\<rparr>) addr db2
              in (gxd_error db3 = gxDBASE_NO_ERROR, db3)))"
  by (simp add: undelete_found_def link_to_def Let_def)

definition undeleted_header :: "gxBlockHeader \<Rightarrow> gxBlockHeader" where
  "undeleted_header h = (with_state gxNormalBlock h)\<lparr>block_nd_fptr := 0\<rparr>"

lemma UnDelete_refines:
  assumes ok: "heap_ok db bs (us @ x # vs)" and w: "writable (length (dbytes db)) db"
    and dx: "block_state (blk (dbytes db) x) = gxDeletedBlock"
  obtains db' where "UnDelete (x + BlockHeaderSize db) db = Some (True, db')"
    "heap_ok db' bs (us @ vs)" "stats_ok db bs \<Longrightarrow> stats_ok db' bs"
    "blk (dbytes db') x = undeleted_header (blk (dbytes db) x)"
    "\<And>y. y \<in> set bs \<Longrightarrow> data_at db' y = data_at db y"
    "\<And>y. y \<in> set bs \<Longrightarrow> \<not> is_free (blk (dbytes db) y) \<Longrightarrow> blk (dbytes db') y = blk (dbytes db) y"
    "us = [] \<Longrightarrow> stats_synced db'"
    "us \<noteq> [] \<Longrightarrow> rev_D_or_E (rev_letter db) \<Longrightarrow>
       bytes_at (dbytes db') 62 24 = bytes_at (dbytes db) 62 24 \<and>
       file_stats_header db' = one_less_deleted (file_stats_header db)"
    "rev_letter db' = rev_letter db"
proof -
  note b = list_block [OF ok]
  let ?f = "blk (dbytes db)"
  let ?n = "block_nd_fptr (?f x)"
  let ?h = "undeleted_header (?f x)"
  let ?g = "(relinked ?f us ?n)(x := ?h)"
  let ?rd = "moved (nat x + 20) gxDBASE_READ db"
  let ?d0 = "upd_stats one_less_deleted ?rd"
  note sx = tiles_spaced [OF b(1,3,4)]
  have nr: "block_state (?f x) \<noteq> gxRemoteDeviceBlock" using dx by (simp add: block_status_defs)
  have mk: "gxNormalBlock \<in> {gxBadBlock, gxDeletedBlock, gxNormalBlock, gxRemovedBlock}" by simp
  note h = mark_block(2-5) [OF ok_blk [OF sx(6)] sx(5) nr mk, of 0, folded undeleted_header_def]
  have hn: "\<not> is_free ?h" using h(2) by (simp add: is_free_def block_status_defs)
  have okh: "ok_gxBlockHeader ?h" using h(3) by (simp add: in_s64_def)
  have m0: "heap_meta ?d0"
    using b(1) by (intro heap_meta_stats) (auto simp: one_less_deleted_def ok_defs in_s64_def)
  have lg: "block_length (?g y) = block_length (?f y)" for y using h(4) by simp
  have tg: "tiles db ?g bs"
    using b(3) h by (intro tiling_upd) (auto simp: tiling_relinked)
  have t0: "tiles ?d0 ?g bs" using tg by simp
  have sh0: "shows_map ?d0 ?g ((set bs - {x}) - (if prev_of us = 0 then {} else {prev_of us}))"
    using b(16) by (cases "us = []") (auto simp: shows_map_def relinked_def prev_of_def)
  have pr: "prev_of us \<in> set bs \<and> prev_of us \<in> set bs - {x} \<and> ok_gxBlockHeader (prev_hdr db us) \<and>
     ?g (prev_of us) = (prev_hdr db us)\<lparr>block_nd_fptr := ?n\<rparr>" if "prev_of us \<noteq> 0"
  proof -
    have ne: "us \<noteq> []" using b(15) that by blast
    then have lu: "last us \<in> set us" "last us \<in> set bs" "last us \<noteq> x" using b(5,7) by auto
    then show ?thesis
      using ne ok_blk [OF tiles_spaced(6) [OF b(1,3) lu(2)]] by (simp add: prev_of_def prev_hdr_def relinked_def)
  qed
  have sy0: "synced ?d0" using ok by (simp add: heap_ok_def upd_stats_def)
  have w0: "writable (length (dbytes ?d0)) ?d0" using w by simp
  have h0: "hdr_end ?d0 \<le> length (dbytes ?d0)" using b(10) by simp
  have S: "set bs - {x} \<subseteq> set bs" by auto
  obtain d1 where l1: "link_to ?n (prev_of us) (prev_hdr db us) ?d0 = d1"
    and k1: "kept ?d0 d1 ?g bs" and sh1: "shows_map d1 ?g (set bs - {x})"
    and fs1: "fs_of d1 = (if prev_of us = 0 then ?n else fs_of ?d0)"
    and e1: "gxd_error d1 = gxDBASE_NO_ERROR" and sy1: "synced d1"
    and st1: "if prev_of us = 0 then stats_synced d1
     else bytes_at (dbytes d1) 62 24 = bytes_at (dbytes ?d0) 62 24 \<or> \<not> rev_D_or_E (rev_letter ?d0)"
    by (rule link_to_ok [OF m0 t0 w0 h0 b(14) S sy0 pr sh0])
  have m1: "heap_meta d1" and t1: "tiles d1 ?g bs" and len1: "length (dbytes d1) = length (dbytes db)"
    and r1: "rev_letter d1 = rev_letter db" and w1: "writable (length (dbytes db)) d1"
    using k1 t0 kept_sizes(5) [OF k1] w by (auto simp: kept_def)
  note s1 = tiles_spaced [OF m1 t1 b(4)]
  let ?d2 = "stored (nat x) (enc_gxBlockHeader ?h) d1"
  let ?db' = "moved (nat x + 20) gxDBASE_WRITE ?d2"
  have k2: "kept d1 ?d2 ?g bs" using kept_header [OF m1 t1 b(4)] .
  have sh2: "shows_map ?d2 ?g (set bs)"
    using tiles_shows_stored [OF m1 t1 b(4) subset_refl sh1] okh b(4) by (simp add: insert_absorb)
  have wx: "writable (nat x + 20) d1" using w1 s1(6) len1 by (simp add: writable_mono)
  have uf: "undelete_found x (prev_of us) (prev_hdr db us) (?f x) ?rd = (True, ?db')"
    unfolding undelete_found_eq l1 Let_def using e1 wx b(12) by (simp add: undeleted_header_def engine_simps)
  have wk: "walkable db (us @ x # vs)" using walkable_heap [OF b(1,2)] .
  have rd: "readable db" using b(1) by (simp add: heap_meta_def)
  have U: "UnDelete (x + BlockHeaderSize db) db = Some (True, ?db')"
    using undelete_finds [OF wk b(9) b(5), of ?rd 0 new_gxBlockHeader "?f x"] uf rd sx(2,5,6) dx
    by (auto simp: UnDelete_def Let_def engine_simps prev_of_def prev_hdr_def)
  have fp: "free_path ?g (us @ vs) (fs_of d1)"
  proof -
    have "free_path ?f vs ?n" using free_path_suffix [OF b(9)] by auto
    then have "free_path ?g vs ?n"
      using b(6,17) by (subst free_path_cong [where g = ?f]) (auto simp: relinked_def)
    then have "free_path ?g (us @ vs) (if us = [] then ?n else fs_of db)"
      using b(5) by (intro free_path_relinked [OF b(9)]) auto
    then show ?thesis using b(15,16) fs1 by (cases "us = []") (auto simp: prev_of_def)
  qed
  have hl: "heap_lists ?db' ?g bs (us @ vs)"
    using fp t1 b(2,5,6) hn by (auto simp: heap_lists_def)
  have m2: "heap_meta ?db'" using m1 by simp
  have sy2: "synced ?db'" using synced_stored [OF sy1 s1(7)] by simp
  have sh': "shows_map ?db' ?g (set bs)" using sh2 by simp
  have blks: "blk (dbytes ?db') y = ?g y" if "y \<in> set bs" for y
    using sh' that unfolding shows_map_def by blast
  have "heap_ok ?db' bs (us @ vs)" by (rule heap_okI [OF m2 sy2 hl sh'])
  moreover have "stats_ok ?db' bs" if st: "stats_ok db bs"
  proof -
    have c: "count_state s (relinked ?f us ?n) bs = count_state s ?f bs" for s by (simp add: count_state_def)
    have p: "count_state gxDeletedBlock ?f bs \<ge> 1"
      using b(4) dx count_state_upd [OF heap_distinct [OF b(2)] b(4), of gxDeletedBlock ?f ?h]
        count_state_bounds(1) [of gxDeletedBlock "?f(x := ?h)" bs] h(2) by (simp add: block_status_defs)
    have "stats_for ?db' ?g bs"
      using st p k1 h(2) dx
      by (auto simp: stats_ok_def stats_for_def kept_def c count_state_upd [OF heap_distinct [OF b(2)] b(4)]
          one_less_deleted_def block_status_defs)
    then show ?thesis by (rule stats_okI [OF sh'])
  qed
  moreover have "data_at ?db' y = data_at db y" if y: "y \<in> set bs" for y
  proof -
    have "payload (dbytes ?db') y (block_length (?g y)) = payload (dbytes d1) y (block_length (?g y))"
      using k2 y unfolding kept_def by simp
    also have "\<dots> = payload (dbytes ?d0) y (block_length (?g y))" using k1 y unfolding kept_def by blast
    finally show ?thesis unfolding data_at_def blks [OF y] lg by simp
  qed
  moreover have "blk (dbytes ?db') y = ?f y" if "y \<in> set bs" "\<not> is_free (?f y)" for y
    using blks [OF that(1)] that b(11) free_path_free [OF b(9)] by (auto simp: relinked_def)
  moreover have "stats_synced ?db'" if "us = []"
    using st1 that stats_synced_stored [OF _ s1(7)] sy1 by (simp add: prev_of_def synced_def)
  moreover have "bytes_at (dbytes ?db') 62 24 = bytes_at (dbytes db) 62 24 \<and>
       file_stats_header ?db' = one_less_deleted (file_stats_header db)"
    if "us \<noteq> []" "rev_D_or_E (rev_letter db)"
    using st1 that s1(6,7) stats_sizes [OF m1] r1 b(16) k1
    by (simp add: bytes_at_put_below kept_def)
  moreover have "rev_letter ?db' = rev_letter db" using r1 by simp
  ultimately show thesis
    using that [OF U] blks [OF b(4)] by simp
qed

end
