(* ===== verification/Samples.thy ===== *)
theory Samples
  imports HeapUndelete
begin

text \<open>
  A concrete database for the witnesses of the properties: revision E, with three blocks, the
  first in use, the second deleted and the third removed, and the free space list that goes
  from the third to the second.
\<close>

definition sample_fs :: filesys where
  "sample_fs = \<lparr>files = (\<lambda>_. None), denied = (\<lambda>_. False), capacity = 1000, flush_fails = False\<rparr>"

definition sample_header :: gxFileHeader where
  "sample_header =
     \<lparr>gxd_fs_fptr = 156, gxd_eof = 186, gxd_hs_fptr = 86, gxd_hb_fptr = 156, gxd_sig = gxSignature,
      gxd_ver = gxDatabaseVersionNumber\<rparr>"

definition sample_stats :: gxFileStatsHeader where
  "sample_stats = \<lparr>num_blocks = 3, deleted_blocks = 1, removed_blocks = 1\<rparr>"

definition sample_block :: "int \<Rightarrow> int \<Rightarrow> int \<Rightarrow> gxBlockHeader" where
  "sample_block len st nd =
     \<lparr>block_check_word = gxCheckWord, block_length = len, block_status = st, block_nd_fptr = nd\<rparr>"

definition sample_bytes :: "byte list" where
  "sample_bytes =
     enc_gxFileHeader sample_header @ enc_gxFileLockHeader new_gxFileLockHeader @
     enc_gxFileStatsHeader sample_stats @
     enc_gxBlockHeader (sample_block 30 gxNormalBlock 0) @ replicate 10 7 @
     enc_gxBlockHeader (sample_block 40 gxDeletedBlock 0) @ replicate 20 8 @
     enc_gxBlockHeader (sample_block 30 gxRemovedBlock 116) @ replicate 10 9"

definition sample_db :: gxDatabase where
  "sample_db =
     (new_gxDatabase sample_fs)
       \<lparr>file_name := ''a.gxd'', file_header := sample_header, file_stats_header := sample_stats,
        fp := Some \<lparr>fname = ''a.gxd'', fdata = sample_bytes, fpos = 0, fwritable = True, fcap = 1000\<rparr>,
        is_ok := True, is_open := True, ready_for_reading := True, ready_for_writing := True\<rparr>"

lemma sample_heap_ok: "heap_ok sample_db [86, 116, 156] [156, 116]"
  by code_simp

lemma sample_stats_ok: "stats_ok sample_db [86, 116, 156]"
  by code_simp

lemma sample_writable: "writable (length (dbytes sample_db)) sample_db"
  by code_simp

lemma sample_room: "alloc_room 20 sample_db"
  by code_simp

lemma sample_blocks:
  "blk (dbytes sample_db) 86 = sample_block 30 gxNormalBlock 0"
  "blk (dbytes sample_db) 116 = sample_block 40 gxDeletedBlock 0"
  "blk (dbytes sample_db) 156 = sample_block 30 gxRemovedBlock 116"
  by code_simp+

end
