(* ===== verification/HeapProps.thy ===== *)
theory HeapProps
  imports Samples
begin

text \<open>
  The properties of the block heap: what allocation, deletion and undeletion promise to their
  callers on a well-formed file, which block a reclaim method takes, and what happens on a
  free space list that is not well-formed.
\<close>

text \<open>
  C2: on a well-formed heap with room, an allocation by any reclaim method returns (also the
  walks over the free space list end), the address returned is just behind the header of a
  block of the size asked for, the heap is well-formed again, and every block that was in use
  is still there, does not overlap the new block, and has its header and its data unchanged.
\<close>

theorem Alloc_keeps_heap:
  assumes "heap_ok db bs fl" and "stats_ok db bs" and "alloc_room n db"
  shows "\<exists>a db' bs' fl'. Alloc n how db = Some (a + BlockHeaderSize db, db') \<and>
    heap_ok db' bs' fl' \<and> stats_ok db' bs' \<and> a \<in> set bs' \<and>
    blk (dbytes db') a = fresh_block (with_overhead n db) \<and>
    (\<forall>y \<in> set bs. \<not> is_free (blk (dbytes db) y) \<longrightarrow>
       y \<in> set bs' \<and> (a + with_overhead n db \<le> y \<or> y + block_length (blk (dbytes db) y) \<le> a) \<and>
       blk (dbytes db') y = blk (dbytes db) y \<and> data_at db' y = data_at db y)"
proof -
  obtain a db' bs' fl' where A: "Alloc n how db = Some (a + BlockHeaderSize db, db')"
    and r: "alloc_result db bs (with_overhead n db) a db' bs' fl'"
    by (rule Alloc_refines [OF assms(1,3)])
  have "a + with_overhead n db \<le> y \<or> y + block_length (blk (dbytes db') y) \<le> a"
    if "y \<in> set bs'" "y \<noteq> a" for y
    using r that heap_apart [of db' "blk (dbytes db')" bs' fl' a y]
      fresh_block_ok(3) [OF alloc_room_bytes(1) [OF assms(3)]]
    by (auto simp: alloc_result_def heap_ok_def)
  then show ?thesis using A r assms(2) unfolding alloc_result_def by (intro exI [of _ a] exI) (auto; metis)
qed

theorem Alloc_keeps_heap_witness:
  "\<exists>a db' bs' fl'. Alloc 20 gxDBASE_RECLAIM_FIRSTFIT sample_db = Some (a + BlockHeaderSize sample_db, db') \<and>
    heap_ok db' bs' fl' \<and> a \<in> set bs' \<and>
    86 \<in> set bs' \<and> data_at db' 86 = data_at sample_db 86"
proof -
  have n: "86 \<in> set [86, 116, 156 :: int]" "\<not> is_free (blk (dbytes sample_db) 86)"
    unfolding sample_blocks by (simp, code_simp)
  show ?thesis
    using Alloc_keeps_heap [OF sample_heap_ok sample_stats_ok sample_room, of gxDBASE_RECLAIM_FIRSTFIT]
      n by blast
qed

text \<open>
  The block that an allocation takes. First fit takes the first block of the free space list
  of the right length or with room for a second block behind; no reclaim, or no such block,
  extends the file by one block at the old end of file.
\<close>

theorem Alloc_choice:
  assumes "heap_ok db bs fl" and "alloc_room n db"
  shows "(\<exists>db'. Alloc n gxDBASE_RECLAIM_FIRSTFIT db =
    Some ((case List.find (\<lambda>z. fits (with_overhead n db) (blk (dbytes db) z) db) fl of
             Some z \<Rightarrow> z | None \<Rightarrow> eof_of db) + BlockHeaderSize db, db')) \<and>
    (\<exists>db'. Alloc n gxDBASE_RECLAIM_NONE db = Some (eof_of db + BlockHeaderSize db, db'))"
proof
  show "\<exists>db'. Alloc n gxDBASE_RECLAIM_FIRSTFIT db =
    Some ((case List.find (\<lambda>z. fits (with_overhead n db) (blk (dbytes db) z) db) fl of
             Some z \<Rightarrow> z | None \<Rightarrow> eof_of db) + BlockHeaderSize db, db')"
    by (rule Alloc_refines [OF assms, of gxDBASE_RECLAIM_FIRSTFIT]) (auto simp: reclaim_choice_def)
  show "\<exists>db'. Alloc n gxDBASE_RECLAIM_NONE db = Some (eof_of db + BlockHeaderSize db, db')"
    by (rule Alloc_refines [OF assms, of gxDBASE_RECLAIM_NONE]) (auto simp: reclaim_choice_def)
qed

theorem Alloc_choice_witness:
  "\<exists>db'. Alloc 20 gxDBASE_RECLAIM_NONE sample_db = Some (186 + BlockHeaderSize sample_db, db')"
  using conjunct2 [OF Alloc_choice [OF sample_heap_ok sample_room]]
  by (simp add: sample_db_def sample_header_def)

text \<open>
  Best fit reuses a block of the free space list only when its length is exactly the one
  asked for: the search for a best fit never accepts a larger block, however well it fits, and
  the file is extended instead.
\<close>

theorem best_fit_is_exact_fit:
  assumes "heap_ok db bs fl" and "alloc_room n db"
  shows "\<exists>db'. Alloc n gxDBASE_RECLAIM_BESTFIT db =
    Some ((case List.find (\<lambda>z. block_length (blk (dbytes db) z) = with_overhead n db) fl of
             Some z \<Rightarrow> z | None \<Rightarrow> eof_of db) + BlockHeaderSize db, db')"
  by (rule Alloc_refines [OF assms, of gxDBASE_RECLAIM_BESTFIT]) (auto simp: reclaim_choice_def)

theorem best_fit_is_exact_fit_witness:
  "\<exists>db'. Alloc 20 gxDBASE_RECLAIM_BESTFIT sample_db = Some (116 + BlockHeaderSize sample_db, db')"
proof -
  have "List.find (\<lambda>z. block_length (blk (dbytes sample_db) z) = with_overhead 20 sample_db) [156, 116] =
    Some 116"
    unfolding List.find.simps sample_blocks by code_simp
  then show ?thesis using best_fit_is_exact_fit [OF sample_heap_ok sample_room] by simp
qed

text \<open>
  C3: deleting or removing a block in use succeeds, puts the block at the front of the free space
  list, counts it in the statistics, marks it and keeps the data of all blocks (its own
  included) and the headers of all others.
\<close>

theorem Delete_keeps_heap:
  assumes "heap_ok db bs fl" and "stats_ok db bs" and "writable (length (dbytes db)) db"
    and "x \<in> set bs" and "block_state (blk (dbytes db) x) = gxNormalBlock"
  shows "\<exists>db'. Delete_opt (x + BlockHeaderSize db) r db = (True, db') \<and>
    heap_ok db' bs (x # fl) \<and> stats_ok db' bs \<and>
    blk (dbytes db') x = deleted_header r (fs_of db) (blk (dbytes db) x) \<and>
    (\<forall>y \<in> set bs. data_at db' y = data_at db y \<and>
       (y \<noteq> x \<longrightarrow> blk (dbytes db') y = blk (dbytes db) y))"
proof -
  obtain b db' where D: "Delete_opt (x + BlockHeaderSize db) r db = (b, db')" by fastforce
  show ?thesis using Delete_refines [OF assms(1,3-5) D] assms(2) D by auto
qed

theorem Delete_keeps_heap_witness:
  "\<exists>db'. Delete_opt (86 + BlockHeaderSize sample_db) False sample_db = (True, db') \<and>
    heap_ok db' [86, 116, 156] [86, 156, 116]"
proof -
  have "block_state (blk (dbytes sample_db) 86) = gxNormalBlock"
    unfolding sample_blocks by code_simp
  then show ?thesis
    using Delete_keeps_heap [OF sample_heap_ok sample_stats_ok sample_writable, of 86 False] by auto
qed

text \<open>
  C12: undeleting a deleted block at any place of the free space list takes just that block off
  the list and makes it a block in use with its data as it was; the other blocks in use and the
  data of all blocks are unchanged and the statistics in memory are right.
\<close>

theorem UnDelete_keeps_heap:
  assumes "heap_ok db bs (us @ x # vs)" and "stats_ok db bs" and "writable (length (dbytes db)) db"
    and "block_state (blk (dbytes db) x) = gxDeletedBlock"
  shows "\<exists>db'. UnDelete (x + BlockHeaderSize db) db = Some (True, db') \<and>
    heap_ok db' bs (us @ vs) \<and> stats_ok db' bs \<and>
    blk (dbytes db') x = undeleted_header (blk (dbytes db) x) \<and>
    (\<forall>y \<in> set bs. data_at db' y = data_at db y \<and>
       (\<not> is_free (blk (dbytes db) y) \<longrightarrow> blk (dbytes db') y = blk (dbytes db) y))"
  by (rule UnDelete_refines [OF assms(1,3,4)]) (use assms(2) in auto)

theorem UnDelete_keeps_heap_witness:
  "\<exists>db'. UnDelete (116 + BlockHeaderSize sample_db) sample_db = Some (True, db') \<and>
    heap_ok db' [86, 116, 156] [156]"
proof -
  have "block_state (blk (dbytes sample_db) 116) = gxDeletedBlock"
    unfolding sample_blocks by code_simp
  moreover have "heap_ok sample_db [86, 116, 156] ([156] @ 116 # [])" using sample_heap_ok by simp
  ultimately show ?thesis
    using UnDelete_keeps_heap [OF _ sample_stats_ok sample_writable, of "[156]" 116 "[]"] by auto
qed

text \<open>
  Undeleting a block that is not at the head of the free space list leaves the statistics on
  disk as they were, while those in memory count one deleted block less: the file disagrees
  with the object until the next operation that writes the file header.
\<close>

theorem UnDelete_stale_stats:
  assumes "heap_ok db bs (us @ x # vs)" and "us \<noteq> []" and "writable (length (dbytes db)) db"
    and "block_state (blk (dbytes db) x) = gxDeletedBlock" and "rev_D_or_E (rev_letter db)"
    and "stats_ok db bs"
    and "stats_synced db"
  shows "\<exists>db'. UnDelete (x + BlockHeaderSize db) db = Some (True, db') \<and> \<not> stats_synced db'"
proof (rule UnDelete_refines [OF assms(1,3,4)])
  fix db'
  assume U: "UnDelete (x + BlockHeaderSize db) db = Some (True, db')"
    and ok': "heap_ok db' bs (us @ vs)" and rl: "rev_letter db' = rev_letter db"
    and s: "us \<noteq> [] \<Longrightarrow> rev_D_or_E (rev_letter db) \<Longrightarrow>
       bytes_at (dbytes db') 62 24 = bytes_at (dbytes db) 62 24 \<and>
       file_stats_header db' = one_less_deleted (file_stats_header db)"
  have hk: "header_ok db" "header_ok db'" using assms(1) ok' by (auto simp: heap_ok_def heap_meta_def)
  note b = list_block [OF assms(1)]
  have "x \<in> set (filter (\<lambda>x. block_state (blk (dbytes db) x) = gxDeletedBlock) bs)"
    using b(4) assms(4) by simp
  then have "0 < count_state gxDeletedBlock (blk (dbytes db)) bs"
    unfolding count_state_def by (metis length_pos_if_in_set of_nat_0_less_iff)
  then have ne: "one_less_deleted (file_stats_header db) \<noteq> file_stats_header db"
    using assms(5,6)
    by (simp add: stats_ok_def stats_for_def one_less_deleted_def)
      (metis (no_types, lifting) gxFileStatsHeader.select_convs(2) gxFileStatsHeader.surjective
        gxFileStatsHeader.update_convs(2) diff_add_cancel less_irrefl add_cancel_right_right zero_neq_one)
  have "\<not> stats_synced db'"
  proof
    assume "stats_synced db'"
    then have e: "rev_D_or_E (rev_letter db') \<Longrightarrow>
      enc_gxFileStatsHeader (file_stats_header db') = enc_gxFileStatsHeader (file_stats_header db)"
      using s assms(2,5,7) by (simp add: stats_synced_def)
    have "file_stats_header db' = file_stats_header db"
      using e hk rl assms(5) fshdr.dec_enc unfolding header_ok_def by metis
    then show False using s assms(2,5) ne by simp
  qed
  then show ?thesis using U by blast
qed

theorem UnDelete_stale_stats_witness:
  "\<exists>db'. UnDelete (116 + BlockHeaderSize sample_db) sample_db = Some (True, db') \<and> \<not> stats_synced db'"
proof -
  have "block_state (blk (dbytes sample_db) 116) = gxDeletedBlock"
    unfolding sample_blocks by code_simp
  moreover have "heap_ok sample_db [86, 116, 156] ([156] @ 116 # [])" using sample_heap_ok by simp
  moreover have "stats_synced sample_db" "rev_D_or_E (rev_letter sample_db)" by code_simp+
  ultimately show ?thesis
    using UnDelete_stale_stats [OF _ _ sample_writable _ _ sample_stats_ok, of "[156]" 116 "[]"] by auto
qed

end
