(* ===== verification/Navigate.thy ===== *)
theory Navigate
  imports Blocks
begin

text \<open>
  The linear navigation of \<open>src/gxdbase.cpp\<close>: finding the first block at or after an address by
  its header, the next and the previous block or object of an object, and the total number of
  blocks. The four static helpers \<open>gxd_valid_block\<close>, \<open>gxd_block_of\<close>, \<open>gxd_next_block\<close> and
  \<open>gxd_normal_block\<close> are definitions of their own.
\<close>

section \<open>The first block\<close>

partial_function (option) find_block_loop ::
  "int \<Rightarrow> gxBlockHeader \<Rightarrow> gxDatabase \<Rightarrow> (int \<times> gxDatabase) option" where
  "find_block_loop file_address hdr db =
     (if file_address + BlockHeaderSize db \<ge> gxd_eof (file_header db) \<or> \<not> IsOK db then Some (0, db)
      else (case Read_hdr hdr file_address db of (h, db1) \<Rightarrow>
        if gxd_error db1 \<noteq> gxDBASE_NO_ERROR then Some (0, db1)
        else if \<not> TestBlockHeader h then find_block_loop (file_address + 1) h db1
        else Some (SeekTo file_address db1)))"

definition FindFirstBlock :: "int \<Rightarrow> gxDatabase \<Rightarrow> (int \<times> gxDatabase) option" where
  "FindFirstBlock offset db =
     (case TestFileHeader db of (_, db1) \<Rightarrow>
        let fh = file_header db1
        in if gxd_hs_fptr fh = gxd_eof fh then Some (0, db1)
           else if offset = 0 then find_block_loop (gxd_hs_fptr fh) new_gxBlockHeader db1
           else if offset \<ge> gxd_eof fh then Some (0, db1)
           else find_block_loop offset new_gxBlockHeader db1)"

section \<open>The helpers\<close>

definition gxd_valid_block :: "int \<Rightarrow> int \<Rightarrow> gxDatabase \<Rightarrow> bool \<times> gxDatabase" where
  "gxd_valid_block address eof db =
     (if address \<le> 0 \<or> address + BlockHeaderSize db > eof then (False, db)
      else (case Read_hdr new_gxBlockHeader address db of (h, db1) \<Rightarrow>
              if gxd_error db1 \<noteq> gxDBASE_NO_ERROR then (False, db1)
              else (TestBlockHeader h, db1)))"

definition gxd_block_of :: "int \<Rightarrow> int \<Rightarrow> gxDatabase \<Rightarrow> int \<times> gxDatabase" where
  "gxd_block_of offset eof db =
     (let hdr_size = BlockHeaderSize db
      in case (if offset > hdr_size then gxd_valid_block (offset - hdr_size) eof db
               else (False, db)) of (v, db1) \<Rightarrow>
           if v then (offset - hdr_size, db1)
           else (case gxd_valid_block offset eof db1 of (v2, db2) \<Rightarrow>
                   (if v2 then offset else 0, db2)))"

definition gxd_next_block :: "int \<Rightarrow> int \<Rightarrow> gxDatabase \<Rightarrow> (int \<times> gxDatabase) option" where
  "gxd_next_block block_address eof db =
     (case ReadBlockHdr new_gxBlockHeader block_address db of (h, db1) \<Rightarrow>
        if gxd_error db1 \<noteq> gxDBASE_NO_ERROR then Some (0, db1)
        else (let n = block_address + block_length h;
                  next_addr = (if n \<le> block_address then block_address + 1 else n)
              in if next_addr + BlockHeaderSize db1 > eof then Some (0, db1)
                 else (case gxd_valid_block next_addr eof db1 of (v, db2) \<Rightarrow>
                         if v then Some (next_addr, db2) else FindFirstBlock next_addr db2)))"

definition gxd_normal_block :: "int \<Rightarrow> gxDatabase \<Rightarrow> bool \<times> gxDatabase" where
  "gxd_normal_block block_address db =
     (case ReadBlockHdr new_gxBlockHeader block_address db of (h, db1) \<Rightarrow>
        if gxd_error db1 \<noteq> gxDBASE_NO_ERROR then (False, db1)
        else (block_state h = gxNormalBlock, db1))"

section \<open>Blocks and objects\<close>

text \<open>From a block address to the address of its object, where zero stays zero.\<close>

definition object_of :: "int \<times> gxDatabase \<Rightarrow> int \<times> gxDatabase" where
  "object_of r = (case r of (a, db) \<Rightarrow> (if a = 0 then 0 else a + BlockHeaderSize db, db))"

partial_function (option) skip_to_normal ::
  "int \<Rightarrow> int \<Rightarrow> gxDatabase \<Rightarrow> (int \<times> gxDatabase) option" where
  "skip_to_normal file_address eof db =
     (if file_address = 0 then Some (0, db)
      else (case gxd_normal_block file_address db of (normal, db1) \<Rightarrow>
        if normal then Some (file_address, db1)
        else Option.bind (gxd_next_block file_address eof db1)
               (\<lambda>r. skip_to_normal (fst r) eof (snd r))))"

definition FindFirstObject :: "int \<Rightarrow> gxDatabase \<Rightarrow> (int \<times> gxDatabase) option" where
  "FindFirstObject offset db =
     Option.bind (FindFirstBlock offset db)
       (\<lambda>(a, db1). map_option object_of (skip_to_normal a (gxd_eof (file_header db1)) db1))"

definition FindNextBlock :: "int \<Rightarrow> gxDatabase \<Rightarrow> (int \<times> gxDatabase) option" where
  "FindNextBlock offset db =
     (case TestFileHeader db of (_, db1) \<Rightarrow>
        let eof = gxd_eof (file_header db1)
        in if gxd_hs_fptr (file_header db1) = eof then Some (0, db1)
           else if offset = 0 then
             Option.bind (FindFirstBlock 0 db1)
               (\<lambda>(a, db2). if a = 0 then Some (0, db2) else gxd_next_block a eof db2)
           else (case gxd_block_of offset eof db1 of (a, db2) \<Rightarrow>
                   if a = 0 then FindFirstBlock offset db2 else gxd_next_block a eof db2))"

definition FindNextObject :: "int \<Rightarrow> gxDatabase \<Rightarrow> (int \<times> gxDatabase) option" where
  "FindNextObject offset db =
     Option.bind (FindNextBlock offset db)
       (\<lambda>(a, db1). map_option object_of (skip_to_normal a (gxd_eof (file_header db1)) db1))"

text \<open>
  The walk from the heap start up to \<open>target\<close>, remembering the last block, or the last normal
  block, before it.
\<close>

partial_function (option) prev_loop ::
  "bool \<Rightarrow> int \<Rightarrow> int \<Rightarrow> int \<Rightarrow> int \<Rightarrow> gxDatabase \<Rightarrow> (int \<times> gxDatabase) option" where
  "prev_loop normals target eof prev_addr block_address db =
     (if block_address = 0 \<or> block_address \<ge> target then Some (prev_addr, db)
      else (case (if normals then gxd_normal_block block_address db else (True, db)) of (counts, db1) \<Rightarrow>
        Option.bind (gxd_next_block block_address eof db1)
          (\<lambda>r. prev_loop normals target eof (if counts then block_address else prev_addr) (fst r) (snd r))))"

definition find_prev :: "bool \<Rightarrow> int \<Rightarrow> gxDatabase \<Rightarrow> (int \<times> gxDatabase) option" where
  "find_prev normals offset db =
     (case TestFileHeader db of (_, db1) \<Rightarrow>
        let eof = gxd_eof (file_header db1)
        in if gxd_hs_fptr (file_header db1) = eof \<or> offset = 0 then Some (0, db1)
           else (case gxd_block_of offset eof db1 of (target, db2) \<Rightarrow>
                   if target = 0 then Some (0, db2)
                   else Option.bind (FindFirstBlock 0 db2)
                          (\<lambda>(a, db3). prev_loop normals target eof 0 a db3)))"

definition FindPrevBlock :: "int \<Rightarrow> gxDatabase \<Rightarrow> (int \<times> gxDatabase) option" where
  "FindPrevBlock offset db = find_prev False offset db"

definition FindPrevObject :: "int \<Rightarrow> gxDatabase \<Rightarrow> (int \<times> gxDatabase) option" where
  "FindPrevObject offset db = map_option object_of (find_prev True offset db)"

section \<open>Counting\<close>

partial_function (option) total_loop ::
  "int \<Rightarrow> int \<Rightarrow> gxBlockHeader \<Rightarrow> gxDatabase \<Rightarrow> (int \<times> gxDatabase) option" where
  "total_loop block_address i hdr db =
     (if block_address = 0 then Some (i, db)
      else if block_address \<ge> gxd_eof (file_header db) then Some (i, db)
      else (case Read_hdr hdr gxCurrAddress db of (h, db1) \<Rightarrow>
        if gxd_error db1 \<noteq> gxDBASE_NO_ERROR then Some (i, db1)
        else if \<not> IsOK db1 then Some (i, db1)
        else if \<not> TestBlockHeader h then
          Option.bind (FindFirstBlock block_address db1) (\<lambda>r. total_loop (fst r) i h (snd r))
        else total_loop (block_address + block_length h) (i + 1) h
               (snd (SeekTo (block_address + block_length h) db1))))"

definition TotalBlocks :: "gxDatabase \<Rightarrow> (int \<times> gxDatabase) option" where
  "TotalBlocks db =
     (case TestFileHeader db of (_, db1) \<Rightarrow>
        if rev_D_or_E (rev_letter db1) then Some (num_blocks (file_stats_header db1), db1)
        else Option.bind (FindFirstBlock 0 db1)
               (\<lambda>(a, db2). total_loop a 0 new_gxBlockHeader db2))"

definition NormalBlocks :: "gxDatabase \<Rightarrow> (int \<times> gxDatabase) option" where
  "NormalBlocks db =
     Option.bind (TotalBlocks db)
       (\<lambda>(n, db1). map_option (\<lambda>((deleted, _, _), db2). (n - deleted, db2)) (DeletedBlocks db1))"

end
