(* ===== verification/HeapNav.thy ===== *)
theory HeapNav
  imports Navigate HeapOps
begin

text \<open>
  Linear navigation on a well-formed heap: every call only moves the file position (\<open>same_file\<close>),
  and its result is the neighbour of the block in the list of blocks, or the nearest one in use.
  The searches and walks end there, which the partial functions of \<open>Navigate\<close> do not promise.
\<close>

section \<open>Calls that only move the file position\<close>

definition same_file :: "gxDatabase \<Rightarrow> gxDatabase \<Rightarrow> bool" where
  "same_file db db' \<longleftrightarrow> (\<exists>p op. db' = moved p op db)"

lemma same_file_moved [intro, simp]: "same_file db (moved p op db)"
  by (auto simp: same_file_def)

lemma moved_exists [simp]: "\<exists>q op'. moved p op db = moved q op' db"
  by blast

lemma same_file_trans: "same_file db db1 \<Longrightarrow> same_file db1 db2 \<Longrightarrow> same_file db db2"
  unfolding same_file_def by (metis moved_moved)

lemma same_file_fields:
  assumes "same_file db db'"
  shows "dbytes db' = dbytes db" "file_header db' = file_header db"
    "file_stats_header db' = file_stats_header db" "rev_letter db' = rev_letter db"
    "BlockHeaderSize db' = BlockHeaderSize db" "readable db \<Longrightarrow> readable db'"
    "gxd_error db' = gxDBASE_NO_ERROR"
  using assms by (auto simp: same_file_def)

lemma heap_ok_moved_iff: "heap_ok (moved p op db) bs fl \<longleftrightarrow> heap_ok db bs fl" if "readable db"
  using that by (simp add: heap_ok_def heap_meta_def)

lemma same_file_heap: "same_file db db' \<Longrightarrow> heap_ok db bs fl \<Longrightarrow> heap_ok db' bs fl"
  by (auto simp: same_file_def heap_ok_def)

lemma heap_parts:
  assumes "heap_ok db bs fl"
  shows "heap_meta db" "heap_lists db (blk (dbytes db)) bs fl" "readable db" "synced db" "header_ok db"
    "tiles db (blk (dbytes db)) bs"
  using assms by (auto simp: heap_ok_def heap_meta_def heap_lists_def)

section \<open>The helpers\<close>

text \<open>The address of the first block of a list, or zero.\<close>

definition first_of :: "int list \<Rightarrow> int" where
  "first_of xs = (case xs of [] \<Rightarrow> 0 | x # _ \<Rightarrow> x)"

lemma first_of_simps [simp]: "first_of [] = 0" "first_of (x # xs) = x"
  by (simp_all add: first_of_def)

lemma tiling_end: "tiling m f (us @ [x]) a e \<Longrightarrow> x + block_length (f x) = e"
  by (induction us arbitrary: a) auto

lemma tiling_next: "tiling m f (us @ x # y # vs) a e \<Longrightarrow> x + block_length (f x) = y"
  by (induction us arbitrary: a) auto

lemma valid_block_at:
  assumes "heap_ok db bs fl" "x \<in> set bs"
  shows "gxd_valid_block x (eof_of db) (moved p op db) = (True, moved (nat x + 20) gxDBASE_READ db)"
proof -
  note h = heap_parts [OF assms(1)]
  note s = heap_spaced [OF h(1,2) assms(2)]
  have "\<not> (x \<le> 0 \<or> x + BlockHeaderSize db > eof_of db)" using s by linarith
  then show ?thesis using s h(3) by (simp add: gxd_valid_block_def engine_simps)
qed

lemma normal_block_at:
  assumes "heap_ok db bs fl" "x \<in> set bs"
  shows "gxd_normal_block x (moved p op db) =
    (block_state (blk (dbytes db) x) = gxNormalBlock, moved (nat x + 20) gxDBASE_READ db)"
proof -
  note h = heap_parts [OF assms(1)]
  note s = heap_spaced [OF h(1,2) assms(2)]
  show ?thesis using s h(3) by (simp add: gxd_normal_block_def engine_simps)
qed

lemma block_of_object:
  assumes "heap_ok db bs fl" "x \<in> set bs"
  shows "gxd_block_of (x + BlockHeaderSize db) (eof_of db) (moved p op db) =
    (x, moved (nat x + 20) gxDBASE_READ db)"
proof -
  note h = heap_parts [OF assms(1)]
  have "0 < x" using heap_spaced(2) [OF h(1,2) assms(2)] by linarith
  then show ?thesis using valid_block_at [OF assms] by (simp add: gxd_block_of_def)
qed

lemma next_block_at:
  assumes ok: "heap_ok db (us @ x # vs) fl"
  shows "\<exists>q op'. gxd_next_block x (eof_of db) (moved p op db) = Some (first_of vs, moved q op' db)"
proof -
  note h = heap_parts [OF ok]
  have x: "x \<in> set (us @ x # vs)" by simp
  note s = heap_spaced [OF h(1,2) x] and r = rev_sizes(4) [of db]
  have rd: "ReadBlockHdr new_gxBlockHeader x (moved p op db) =
    (blk (dbytes db) x, moved (nat x + 20) gxDBASE_READ db)"
    using s h(3) by (simp add: engine_simps)
  show ?thesis
  proof (cases vs)
    case Nil
    have "x + block_length (blk (dbytes db) x) = eof_of db"
      using tiling_end [of _ _ us] h(6) Nil by simp
    then show ?thesis using s r by (auto simp: gxd_next_block_def rd Let_def Nil)
  next
    case (Cons y ws)
    have y: "y \<in> set (us @ x # vs)" using Cons by simp
    have n: "x + block_length (blk (dbytes db) x) = y"
      using tiling_next [of _ _ us] h(6) Cons by simp
    have "\<not> y \<le> x" using n s r by linarith
    moreover have "\<not> y + BlockHeaderSize db > eof_of db"
      using heap_spaced(3,4) [OF h(1,2) y] by linarith
    ultimately have "gxd_next_block x (eof_of db) (moved p op db) =
      Some (y, moved (nat y + 20) gxDBASE_READ db)"
      by (simp add: gxd_next_block_def rd n valid_block_at [OF ok y])
    then show ?thesis by (simp add: Cons)
  qed
qed

section \<open>The first block\<close>

lemma find_block_here:
  assumes "heap_ok db bs fl" "x \<in> set bs" "x + BlockHeaderSize db < eof_of db"
  shows "find_block_loop x hdr (moved p op db) = Some (x, moved (nat x) gxDBASE_SEEK db)"
proof -
  note h = heap_parts [OF assms(1)]
  note s = heap_spaced [OF h(1,2) assms(2)]
  show ?thesis using s h(3) assms(3) by (subst find_block_loop.simps) (simp add: engine_simps)
qed

text \<open>
  From the heap start the first block is found at once, but for a heap that is one block
  without data.
\<close>

lemma FindFirstBlock_start:
  assumes ok: "heap_ok db bs fl" and big: "hs_of db + BlockHeaderSize db < eof_of db \<or> bs = []"
  shows "\<exists>q op. FindFirstBlock 0 db = Some (first_of bs, moved q op db)"
proof (cases bs)
  case Nil
  note h = heap_parts [OF ok]
  have "hs_of db = eof_of db" using h(6) Nil by simp
  then show ?thesis using h(3-5) Nil by (auto simp: FindFirstBlock_def engine_simps)
next
  case (Cons b bs')
  note h = heap_parts [OF ok]
  have b: "b = hs_of db" "b \<in> set bs" using h(6) Cons by auto
  have lt: "b + BlockHeaderSize db < eof_of db" using big Cons b by simp
  then have "hs_of db \<noteq> eof_of db" using b rev_sizes(4) [of db] by linarith
  then show ?thesis
    using find_block_here [OF ok b(2) lt] h(3-5) b(1)
    by (auto simp: FindFirstBlock_def engine_simps Cons Let_def)
qed

lemma FindFirstBlock_tiny:
  assumes ok: "heap_ok db bs fl" and big: "\<not> hs_of db + BlockHeaderSize db < eof_of db"
  shows "\<exists>q op. FindFirstBlock 0 db = Some (0, moved q op db)"
proof -
  note h = heap_parts [OF ok]
  show ?thesis
    using h(3-5) big find_block_loop.simps [of "hs_of db" new_gxBlockHeader "moved 50 gxDBASE_READ db"]
    by (auto simp: FindFirstBlock_def engine_simps Let_def)
qed

section \<open>Next\<close>

lemma FindNextBlock_at:
  assumes ok: "heap_ok db (us @ x # vs) fl"
  shows "\<exists>q op. FindNextBlock (x + BlockHeaderSize db) db = Some (first_of vs, moved q op db)"
proof -
  note h = heap_parts [OF ok]
  have x: "x \<in> set (us @ x # vs)" by simp
  note s = heap_spaced [OF h(1,2) x] and r = rev_sizes(4) [of db]
  have b: "hs_of db \<le> x" using tiling_within [OF h(6) _ x] r by simp
  have ne: "hs_of db \<noteq> eof_of db" "x + BlockHeaderSize db \<noteq> 0" "x \<noteq> 0" using s r b by linarith+
  obtain q op where "gxd_next_block x (eof_of db) (moved (nat x + 20) gxDBASE_READ db) =
    Some (first_of vs, moved q op db)" using next_block_at [OF ok] by blast
  then show ?thesis
    using ne h(3-5) block_of_object [OF ok x]
    by (auto simp: FindNextBlock_def engine_simps Let_def)
qed

abbreviation in_use :: "gxDatabase \<Rightarrow> int \<Rightarrow> bool" where
  "in_use db x \<equiv> block_state (blk (dbytes db) x) = gxNormalBlock"

lemma skip_to_normal_at:
  assumes "heap_ok db (us @ vs) fl"
  shows "\<exists>q op'. skip_to_normal (first_of vs) (eof_of db) (moved p op db) =
    Some (first_of (filter (in_use db) vs), moved q op' db)"
  using assms
proof (induction vs arbitrary: us p op)
  case Nil
  show ?case by (subst skip_to_normal.simps) auto
next
  case (Cons v vs)
  note h = heap_parts [OF Cons.prems]
  have v: "v \<in> set (us @ v # vs)" by simp
  have v0: "v \<noteq> 0" using heap_spaced(2) [OF h(1,2) v] by linarith
  show ?case
  proof (cases "in_use db v")
    case True
    then show ?thesis
      using v0 normal_block_at [OF Cons.prems v] by (subst skip_to_normal.simps) auto
  next
    case False
    obtain q op' where n: "gxd_next_block v (eof_of db) (moved (nat v + 20) gxDBASE_READ db) =
      Some (first_of vs, moved q op' db)" using next_block_at [OF Cons.prems] by blast
    have "heap_ok db ((us @ [v]) @ vs) fl" using Cons.prems by simp
    then show ?thesis
      using Cons.IH [of "us @ [v]" q op'] False v0 n normal_block_at [OF Cons.prems v]
      by (subst skip_to_normal.simps) auto
  qed
qed

text \<open>The object address of the first block of a list, or zero.\<close>

definition first_object :: "gxDatabase \<Rightarrow> int list \<Rightarrow> int" where
  "first_object db xs = (case xs of [] \<Rightarrow> 0 | x # _ \<Rightarrow> x + BlockHeaderSize db)"

lemma object_of_first:
  assumes "heap_ok db bs fl" "set xs \<subseteq> set bs"
  shows "object_of (first_of xs, moved q op db) = (first_object db xs, moved q op db)"
proof (cases xs)
  case (Cons x ys)
  note h = heap_parts [OF assms(1)]
  have "x \<noteq> 0" using heap_spaced(2) [OF h(1,2)] assms(2) Cons by force
  then show ?thesis by (simp add: object_of_def first_object_def Cons)
qed (simp add: object_of_def first_object_def)

lemma FindNextObject_at:
  assumes ok: "heap_ok db (us @ x # vs) fl"
  shows "\<exists>q op. FindNextObject (x + BlockHeaderSize db) db =
    Some (first_object db (filter (in_use db) vs), moved q op db)"
proof -
  obtain q op where n: "FindNextBlock (x + BlockHeaderSize db) db = Some (first_of vs, moved q op db)"
    using FindNextBlock_at [OF ok] by blast
  have "heap_ok db ((us @ [x]) @ vs) fl" using ok by simp
  then obtain q' op' where "skip_to_normal (first_of vs) (eof_of db) (moved q op db) =
    Some (first_of (filter (in_use db) vs), moved q' op' db)"
    using skip_to_normal_at by blast
  then show ?thesis
    using n object_of_first [OF ok, of "filter (in_use db) vs"] by (force simp: FindNextObject_def)
qed

lemma FindFirstObject_start:
  assumes ok: "heap_ok db bs fl" and big: "hs_of db + BlockHeaderSize db < eof_of db \<or> bs = []"
  shows "\<exists>q op. FindFirstObject 0 db =
    Some (first_object db (filter (in_use db) bs), moved q op db)"
proof -
  obtain q op where n: "FindFirstBlock 0 db = Some (first_of bs, moved q op db)"
    using FindFirstBlock_start [OF assms] by blast
  obtain q' op' where "skip_to_normal (first_of bs) (eof_of db) (moved q op db) =
    Some (first_of (filter (in_use db) bs), moved q' op' db)"
    using skip_to_normal_at [of db "[]" bs fl q op] ok by auto
  then show ?thesis
    using n object_of_first [OF ok, of "filter (in_use db) bs"] by (force simp: FindFirstObject_def)
qed

section \<open>Previous\<close>

definition last_or :: "int \<Rightarrow> int list \<Rightarrow> int" where
  "last_or a xs = (if xs = [] then a else last xs)"

lemma last_or_simps [simp]: "last_or a [] = a" "last_or a (x # xs) = last_or x xs"
  by (simp_all add: last_or_def)

lemma tiling_less:
  assumes "tiling m f (us @ w # vs) a e" "0 < m" "x \<in> set vs"
  shows "w < x"
proof -
  obtain b where b: "tiling m f (w # vs) b e" using assms(1) by (auto simp: tiling_append)
  then show ?thesis using tiling_within [of m f vs "w + block_length (f w)" e x] assms(2,3) by auto
qed

lemma prev_loop_at:
  assumes "heap_ok db (us @ ws @ x # vs) fl"
  shows "\<exists>q op'. prev_loop normals x (eof_of db) prev (first_of (ws @ [x])) (moved p op db) =
    Some (last_or prev (filter (\<lambda>w. normals \<longrightarrow> in_use db w) ws), moved q op' db)"
  using assms
proof (induction ws arbitrary: us prev p op)
  case Nil
  show ?case by (subst prev_loop.simps) auto
next
  case (Cons w ws)
  note h = heap_parts [OF Cons.prems]
  have w: "w \<in> set (us @ (w # ws) @ x # vs)" by simp
  have m: "0 < BlockHeaderSize db" using rev_sizes(4) [of db] by linarith
  have w0: "w \<noteq> 0" using heap_spaced(2) [OF h(1,2) w] by linarith
  have "w < x" using tiling_less [of _ _ us w "ws @ x # vs"] h(6) m by auto
  then have go: "\<not> (w = 0 \<or> x \<le> w)" using w0 by linarith
  obtain q op1 where st: "(if normals then gxd_normal_block w (moved p op db) else (True, moved p op db)) =
    (normals \<longrightarrow> in_use db w, moved q op1 db)"
    using normal_block_at [OF Cons.prems w] by (cases normals) auto
  have ok: "heap_ok db (us @ w # (ws @ x # vs)) fl" using Cons.prems by simp
  obtain q2 op2 where n: "gxd_next_block w (eof_of db) (moved q op1 db) =
    Some (first_of (ws @ x # vs), moved q2 op2 db)" using next_block_at [OF ok] by blast
  have f: "first_of (ws @ x # vs) = first_of (ws @ [x])" by (cases ws) auto
  have ok2: "heap_ok db ((us @ [w]) @ ws @ x # vs) fl" using Cons.prems by simp
  obtain q3 op3 where r: "prev_loop normals x (eof_of db) (if normals \<longrightarrow> in_use db w then w else prev)
    (first_of (ws @ [x])) (moved q2 op2 db) =
    Some (last_or (if normals \<longrightarrow> in_use db w then w else prev)
      (filter (\<lambda>w. normals \<longrightarrow> in_use db w) ws), moved q3 op3 db)"
    using Cons.IH [OF ok2] by blast
  have e: "prev_loop normals x (eof_of db) prev w (moved p op db) =
    prev_loop normals x (eof_of db) (if normals \<longrightarrow> in_use db w then w else prev)
      (first_of (ws @ [x])) (moved q2 op2 db)"
    unfolding prev_loop.simps [of normals x "eof_of db" prev w "moved p op db"] st
    by (simp add: go n f)
  have "last_or prev (filter (\<lambda>w. normals \<longrightarrow> in_use db w) (w # ws)) =
    last_or (if normals \<longrightarrow> in_use db w then w else prev)
      (filter (\<lambda>w. normals \<longrightarrow> in_use db w) ws)"
    by simp
  then show ?case using r by (simp only: append_Cons first_of_simps e) blast
qed

lemma find_prev_at:
  assumes ok: "heap_ok db (us @ x # vs) fl"
  shows "\<exists>q op. find_prev normals (x + BlockHeaderSize db) db =
    Some (prev_of (filter (\<lambda>w. normals \<longrightarrow> in_use db w) us), moved q op db)"
proof -
  note h = heap_parts [OF ok]
  have x: "x \<in> set (us @ x # vs)" by simp
  note s = heap_spaced [OF h(1,2) x] and r = rev_sizes(4) [of db]
  have b: "hs_of db \<le> x" using tiling_within [OF h(6) _ x] r by simp
  have ne: "hs_of db \<noteq> eof_of db" "x + BlockHeaderSize db \<noteq> 0" "x \<noteq> 0" using s r b by linarith+
  let ?db = "moved (nat x + 20) gxDBASE_READ db"
  have fp: "find_prev normals (x + BlockHeaderSize db) db =
    Option.bind (FindFirstBlock 0 ?db) (\<lambda>(a, db3). prev_loop normals x (eof_of db) 0 a db3)"
    using ne h(3-5) block_of_object [OF ok x] by (simp add: find_prev_def engine_simps Let_def)
  have ok': "heap_ok ?db (us @ x # vs) fl" using same_file_heap [OF same_file_moved ok] .
  show ?thesis
  proof (cases "hs_of db + BlockHeaderSize db < eof_of db")
    case True
    then obtain q op where "FindFirstBlock 0 ?db = Some (first_of (us @ x # vs), moved q op db)"
      using FindFirstBlock_start [OF ok'] by auto
    moreover have "first_of (us @ x # vs) = first_of (us @ [x])" by (cases us) auto
    moreover obtain q2 op2 where "prev_loop normals x (eof_of db) 0 (first_of (us @ [x])) (moved q op db) =
      Some (last_or 0 (filter (\<lambda>w. normals \<longrightarrow> in_use db w) us), moved q2 op2 db)"
      using prev_loop_at [of db "[]" us x vs fl] ok by fastforce
    ultimately show ?thesis by (auto simp: fp prev_of_def last_or_def)
  next
    case False
    then obtain q op where f: "FindFirstBlock 0 ?db = Some (0, moved q op db)"
      using FindFirstBlock_tiny [OF ok'] by auto
    have "us = []"
    proof (rule ccontr)
      assume "us \<noteq> []"
      then obtain u us' where u: "us = u # us'" by (cases us) auto
      then have "hs_of db = u" "u \<in> set (us @ x # vs)" "u \<noteq> x" "x \<noteq> u"
        using h(6) heap_distinct [OF h(2)] by auto
      then have "hs_of db + BlockHeaderSize db < eof_of db"
        using heap_apart [OF h(2) x, of u] heap_spaced [OF h(1,2), of u] s b r by auto
      then show False using False by simp
    qed
    then show ?thesis by (auto simp: fp f prev_loop.simps prev_of_def)
  qed
qed

section \<open>Counting\<close>

lemma total_loop_at:
  assumes "heap_ok db (us @ vs) fl" "a = first_of (vs @ [eof_of db])"
  shows "\<exists>q op'. total_loop a i hdr (moved (nat a) op db) = Some (i + int (length vs), moved q op' db)"
  using assms
proof (induction vs arbitrary: us a i hdr op)
  case Nil
  then show ?case by (subst total_loop.simps) auto
next
  case (Cons v vs)
  note h = heap_parts [OF Cons.prems(1)]
  have v: "v \<in> set (us @ v # vs)" by simp
  note s = heap_spaced [OF h(1,2) v] and r = rev_sizes(4) [of db]
  let ?n = "v + block_length (blk (dbytes db) v)"
  have n: "?n = first_of (vs @ [eof_of db])"
    using tiling_end [of _ _ us] tiling_next [of _ _ us] h(6) by (cases vs) auto
  have go: "\<not> v = 0" "\<not> eof_of db \<le> v" "0 \<le> ?n" "0 \<le> v" using s r by linarith+
  have ok: "heap_ok db ((us @ [v]) @ vs) fl" using Cons.prems by simp
  obtain q op' where "total_loop ?n (i + 1) (blk (dbytes db) v) (moved (nat ?n) gxDBASE_SEEK db) =
    Some (i + 1 + int (length vs), moved q op' db)"
    using Cons.IH [OF ok n] by blast
  moreover have rd: "Read_hdr hdr gxCurrAddress (moved (nat v) op db) =
    (blk (dbytes db) v, moved (nat v + 20) gxDBASE_READ db)"
    using s(6) h(3) go(4) by (simp add: engine_simps)
  moreover have "SeekTo ?n (moved (nat v + 20) gxDBASE_READ db) = (?n, moved (nat ?n) gxDBASE_SEEK db)"
    using h(3) go(3) by (simp add: engine_simps)
  ultimately have "total_loop v i hdr (moved (nat v) op db) =
    Some (i + 1 + int (length vs), moved q op' db)"
    using go(1,2) s(5) h(3) by (subst total_loop.simps) simp
  then show ?case using Cons.prems(2) by simp
qed

text \<open>Before revision D the blocks are counted by a walk, and the free ones along the list.\<close>

lemma TotalBlocks_walk:
  assumes ok: "heap_ok db bs fl" and big: "hs_of db + BlockHeaderSize db < eof_of db \<or> bs = []"
    and rev: "\<not> rev_D_or_E (rev_letter db)"
  shows "\<exists>q op. TotalBlocks db = Some (int (length bs), moved q op db)"
proof -
  note h = heap_parts [OF ok]
  let ?db = "moved 50 gxDBASE_READ db"
  have ok': "heap_ok ?db bs fl" using same_file_heap [OF same_file_moved ok] .
  have t: "TotalBlocks db =
    Option.bind (FindFirstBlock 0 ?db) (\<lambda>(a, db2). total_loop a 0 new_gxBlockHeader db2)"
    using h(3-5) rev by (simp add: TotalBlocks_def engine_simps)
  show ?thesis
  proof (cases bs)
    case Nil
    then obtain q op where "FindFirstBlock 0 ?db = Some (0, moved q op db)"
      using FindFirstBlock_start [OF ok'] by auto
    then show ?thesis by (simp add: t Nil total_loop.simps)
  next
    case (Cons b bs')
    have b: "b = hs_of db" "b \<in> set bs" using h(6) Cons by auto
    note s = heap_spaced [OF h(1,2) b(2)]
    have lt: "b + BlockHeaderSize db < eof_of db" using big Cons b by simp
    then have ne: "hs_of db \<noteq> eof_of db" using b rev_sizes(4) [of db] by linarith
    have f: "FindFirstBlock 0 ?db = Some (b, moved (nat b) gxDBASE_SEEK db)"
      using find_block_here [OF ok b(2) lt] h(3-5) b(1) ne
      by (simp add: FindFirstBlock_def engine_simps Let_def)
    obtain q op where "total_loop b 0 new_gxBlockHeader (moved (nat b) gxDBASE_SEEK db) =
      Some (0 + int (length bs), moved q op db)"
      using total_loop_at [of db "[]" bs fl b 0 new_gxBlockHeader gxDBASE_SEEK] ok
      unfolding Cons by auto
    then show ?thesis by (simp add: t f)
  qed
qed

lemma deleted_loop_at:
  assumes "walkable db zs" "free_path (blk (dbytes db)) zs a" "\<And>z. z \<in> set zs \<Longrightarrow> in_s64 z"
  shows "\<exists>q op'. deleted_loop a i d r hdr (moved (nat a) op db) =
    Some ((i + int (length zs), d + count_state gxDeletedBlock (blk (dbytes db)) zs,
           r + count_state gxRemovedBlock (blk (dbytes db)) zs), moved q op' db)"
  using assms
proof (induction zs arbitrary: a i d r hdr op)
  case Nil
  then show ?case by (subst deleted_loop.simps) auto
next
  case (Cons z zs)
  have a: "a = z" using Cons.prems(2) by simp
  have p: "free_path (blk (dbytes db)) (z # zs) z" using Cons.prems(2) a by simp
  let ?n = "block_nd_fptr (blk (dbytes db) z)"
  note wr = walk_read [OF Cons.prems(1)]
  have w: "walkable db zs" by (rule walkable_Cons [OF Cons.prems(1)])
  have n0: "?n \<noteq> gxFSListCorrupt"
    using walk_seek [OF w free_path_head [OF p]] free_path_head [OF p] w
    by (cases zs) (auto simp: walkable_def gxFSListCorrupt_def)
  let ?d = "if block_state (blk (dbytes db) z) = gxDeletedBlock then d + 1 else d"
  let ?r = "if block_state (blk (dbytes db) z) = gxRemovedBlock then r + 1 else r"
  obtain q op' where "deleted_loop ?n (i + 1) ?d ?r (blk (dbytes db) z) (moved (nat ?n) gxDBASE_SEEK db) =
    Some ((i + 1 + int (length zs), ?d + count_state gxDeletedBlock (blk (dbytes db)) zs,
           ?r + count_state gxRemovedBlock (blk (dbytes db)) zs), moved q op' db)"
    using Cons.IH [OF w free_path_head [OF p]] Cons.prems(3) by fastforce
  then show ?case
    unfolding a
    using wr n0 free_not_bad [OF p] walk_seek [OF w free_path_head [OF p]]
    by (subst deleted_loop.simps) auto
qed

end
