(* ===== verification/NavProps.thy ===== *)
theory NavProps
  imports HeapNav Samples
begin

text \<open>
  The properties of the linear navigation: neighbours of a block, counts of blocks, and the two
  situations in which the walks do not end.
\<close>

text \<open>
  C17: given the address of an object, \<open>FindNextBlock\<close> returns the block that follows in the file
  and \<open>FindNextObject\<close> the next object in use, both zero at the end of file. The searches end and
  change nothing but the file position.
\<close>

theorem FindNext_neighbour:
  assumes "heap_ok db (us @ x # vs) fl"
  shows "(\<exists>db1. FindNextBlock (x + BlockHeaderSize db) db = Some (first_of vs, db1) \<and>
      same_file db db1) \<and>
    (\<exists>db2. FindNextObject (x + BlockHeaderSize db) db =
      Some (first_object db (filter (in_use db) vs), db2) \<and> same_file db db2)"
  using FindNextBlock_at [OF assms] FindNextObject_at [OF assms] by (meson same_file_moved)

theorem FindNext_neighbour_witness:
  "(\<exists>db1. FindNextBlock 106 sample_db = Some (116, db1)) \<and>
   (\<exists>db2. FindNextObject 106 sample_db = Some (0, db2))"
proof -
  have "heap_ok sample_db ([] @ 86 # [116, 156]) [156, 116]" using sample_heap_ok by simp
  moreover have "filter (in_use sample_db) [116, 156] = []" "86 + BlockHeaderSize sample_db = 106"
    unfolding filter.simps sample_blocks by code_simp+
  ultimately show ?thesis
    using FindNext_neighbour [of sample_db "[]" 86 "[116, 156]" "[156, 116]"]
    by (auto simp: first_object_def)
qed

text \<open>
  Given the address of an object, \<open>FindPrevBlock\<close> returns the block in front of its block and
  \<open>FindPrevObject\<close> the last object in use before it, both zero for the first; from the object
  that \<open>FindNextObject\<close> found it leads back to where the search began.
\<close>

theorem FindPrev_neighbour:
  assumes "heap_ok db (us @ x # vs) fl"
  shows "(\<exists>db1. FindPrevBlock (x + BlockHeaderSize db) db = Some (prev_of us, db1) \<and>
      same_file db db1) \<and>
    (\<exists>db2. FindPrevObject (x + BlockHeaderSize db) db =
      Some (fst (object_of (prev_of (filter (in_use db) us), db)), db2) \<and> same_file db db2) \<and>
    (in_use db x \<longrightarrow> (\<forall>y db3. FindNextObject (x + BlockHeaderSize db) db = Some (y, db3) \<and> y \<noteq> 0 \<longrightarrow>
      (\<exists>db4. FindPrevObject y db3 = Some (x + BlockHeaderSize db, db4))))"
proof (intro conjI impI allI)
  show "\<exists>db1. FindPrevBlock (x + BlockHeaderSize db) db = Some (prev_of us, db1) \<and> same_file db db1"
    using find_prev_at [OF assms, of False] by (auto simp: FindPrevBlock_def)
  have prev: "\<exists>q op. FindPrevObject (x + BlockHeaderSize db) db =
    Some (fst (object_of (prev_of (filter (in_use db) us), db)), moved q op db)"
    if "heap_ok db (us @ x # vs) fl" for db us x vs
    using find_prev_at [OF that, of True] by (auto simp: FindPrevObject_def object_of_def)
  then show "\<exists>db2. FindPrevObject (x + BlockHeaderSize db) db =
      Some (fst (object_of (prev_of (filter (in_use db) us), db)), db2) \<and> same_file db db2"
    using assms by (meson same_file_moved)
  fix y db3
  assume n: "in_use db x" and f: "FindNextObject (x + BlockHeaderSize db) db = Some (y, db3) \<and> y \<noteq> 0"
  obtain q op where y: "y = first_object db (filter (in_use db) vs)" and db3: "db3 = moved q op db"
    using FindNextObject_at [OF assms] f by auto
  then obtain z zs where z: "filter (in_use db) vs = z # zs" using f by (auto simp: first_object_def split: list.splits)
  then obtain ws ws' where vs: "vs = ws @ z # ws'" "\<forall>w \<in> set ws. \<not> in_use db w"
    by (auto simp: filter_eq_Cons_iff)
  have ok: "heap_ok db3 ((us @ x # ws) @ z # ws') fl"
    using same_file_heap [OF same_file_moved assms, of q op] by (simp add: db3 vs)
  have "filter (in_use db3) (us @ x # ws) = filter (in_use db) us @ [x]"
    using n vs(2) by (simp add: db3)
  moreover have "x \<noteq> 0" using heap_parts(1,2) [OF assms] heap_spaced(2) by fastforce
  ultimately show "\<exists>db4. FindPrevObject y db3 = Some (x + BlockHeaderSize db, db4)"
    using prev [OF ok] y z by (auto simp: first_object_def prev_of_def object_of_def db3)
qed

theorem FindPrev_neighbour_witness:
  "(\<exists>db1. FindPrevBlock 176 sample_db = Some (116, db1)) \<and>
   (\<exists>db2. FindPrevObject 176 sample_db = Some (106, db2))"
proof -
  have "heap_ok sample_db ([86, 116] @ 156 # []) [156, 116]" using sample_heap_ok by simp
  moreover have "filter (in_use sample_db) [86, 116] = [86]" "BlockHeaderSize sample_db = 20"
    unfolding filter.simps sample_blocks by code_simp+
  ultimately show ?thesis
    using FindPrev_neighbour [of sample_db "[86, 116]" 156 "[]" "[156, 116]"]
    by (auto simp: prev_of_def object_of_def)
qed

lemma free_list_length:
  assumes "heap_lists db f bs fl"
  shows "length fl = length (filter (\<lambda>x. is_free (f x)) bs)"
proof -
  have "set fl = set (filter (\<lambda>x. is_free (f x)) bs)" "distinct fl"
    using assms free_path_distinct by (auto simp: heap_lists_def)
  then show ?thesis using heap_distinct [OF assms] by (metis distinct_card distinct_filter)
qed

lemma length_free: "length (filter (\<lambda>x. is_free (f x)) bs) =
  length (filter (\<lambda>x. block_state (f x) = gxDeletedBlock) bs) +
  length (filter (\<lambda>x. block_state (f x) = gxRemovedBlock) bs)"
  by (induction bs) (auto simp: is_free_def block_status_defs)

lemma count_free_list:
  assumes "heap_lists db f bs fl" "s \<in> {gxDeletedBlock, gxRemovedBlock}"
  shows "count_state s f fl = count_state s f bs"
proof -
  have fl: "set fl = {x \<in> set bs. is_free (f x)}" "distinct fl"
    using assms(1) free_path_distinct by (auto simp: heap_lists_def)
  have "set (filter (\<lambda>x. block_state (f x) = s) fl) = set (filter (\<lambda>x. block_state (f x) = s) bs)"
    using fl(1) assms(2) by (auto simp: is_free_def)
  then show ?thesis
    unfolding count_state_def
    using fl(2) heap_distinct [OF assms(1)] by (metis distinct_card distinct_filter)
qed

lemma DeletedBlocks_at:
  assumes ok: "heap_ok db bs fl" and st: "stats_ok db bs"
  shows "\<exists>q op. DeletedBlocks db =
    Some ((count_state gxDeletedBlock (blk (dbytes db)) bs + count_state gxRemovedBlock (blk (dbytes db)) bs,
           count_state gxDeletedBlock (blk (dbytes db)) bs, count_state gxRemovedBlock (blk (dbytes db)) bs),
          moved q op db)"
proof -
  note h = heap_parts [OF ok]
  let ?c = "\<lambda>s. count_state s (blk (dbytes db)) bs"
  have b: "0 \<le> ?c s" "?c s \<le> int (length bs)" for s
    using count_state_bounds by auto
  show ?thesis
  proof (cases "rev_D_or_E (rev_letter db)")
    case True
    have s: "in_s64 (?c gxDeletedBlock + ?c gxRemovedBlock)"
      using b [of gxDeletedBlock] b [of gxRemovedBlock] heap_bounds(5) [OF h(1,2)]
      by (intro in_s64_small) simp_all
    then show ?thesis
      using True st h(3-5) to_s64_id [OF s [unfolded in_s64_def, THEN conjunct1]
          s [unfolded in_s64_def, THEN conjunct2]]
      by (auto simp: DeletedBlocks_def engine_simps Let_def stats_ok_def stats_for_def)
  next
    case False
    have w: "walkable db fl" by (rule walkable_heap [OF h(1,2)])
    have p: "free_path (blk (dbytes db)) fl (fs_of db)" using h(2) by (simp add: heap_lists_def)
    have i: "in_s64 z" if "z \<in> set fl" for z
      using that heap_addr_in_s64(1) [OF h(1,2)] h(2) by (auto simp: heap_lists_def)
    obtain q op where d: "deleted_loop (fs_of db) 0 0 0 new_gxBlockHeader (moved (nat (fs_of db)) gxDBASE_SEEK db) =
      Some ((0 + int (length fl), 0 + count_state gxDeletedBlock (blk (dbytes db)) fl,
           0 + count_state gxRemovedBlock (blk (dbytes db)) fl), moved q op db)"
      using deleted_loop_at [OF w p i] by blast
    have "int (length fl) = ?c gxDeletedBlock + ?c gxRemovedBlock"
      using free_list_length [OF h(2)] length_free [of "blk (dbytes db)" bs] by (simp add: count_state_def)
    then show ?thesis
      using False d h(3-5) heap_fs(2,3) [OF h(1,2)] count_free_list [OF h(2)]
      by (auto simp: DeletedBlocks_def engine_simps Let_def)
  qed
qed

text \<open>
  On a well-formed heap the total number of blocks, the numbers of deleted and removed
  blocks and the number of blocks in use are right, whether the file has a statistics header
  (revisions D and E) or the blocks are counted by walks over the file (the older ones).
\<close>

theorem block_counts:
  assumes "heap_ok db bs fl" and "stats_ok db bs"
    and "hs_of db + BlockHeaderSize db < eof_of db \<or> bs = []"
  shows "(\<exists>db1. TotalBlocks db = Some (int (length bs), db1)) \<and>
    (\<exists>db2. DeletedBlocks db =
      Some ((int (length fl), count_state gxDeletedBlock (blk (dbytes db)) bs,
             count_state gxRemovedBlock (blk (dbytes db)) bs), db2)) \<and>
    (\<exists>db3. NormalBlocks db =
      Some (int (length (filter (\<lambda>x. \<not> is_free (blk (dbytes db) x)) bs)), db3))"
proof (intro conjI)
  note h = heap_parts [OF assms(1)]
  let ?c = "\<lambda>s. count_state s (blk (dbytes db)) bs"
  have fl: "int (length fl) = ?c gxDeletedBlock + ?c gxRemovedBlock"
    using free_list_length [OF h(2)] length_free [of "blk (dbytes db)" bs] by (simp add: count_state_def)
  have nf: "int (length (filter (\<lambda>x. \<not> is_free (blk (dbytes db) x)) bs)) = int (length bs) - int (length fl)"
    using free_list_length [OF h(2)] sum_length_filter_compl [of "\<lambda>x. is_free (blk (dbytes db) x)" bs]
    by linarith
  obtain q op where t: "TotalBlocks db = Some (int (length bs), moved q op db)"
  proof (cases "rev_D_or_E (rev_letter db)")
    case True
    then show ?thesis
      using that assms(2) h(3-5)
      by (simp add: TotalBlocks_def engine_simps stats_ok_def stats_for_def)
  next
    case False
    then show ?thesis using that TotalBlocks_walk [OF assms(1,3)] by blast
  qed
  then show "\<exists>db1. TotalBlocks db = Some (int (length bs), db1)" by blast
  show "\<exists>db2. DeletedBlocks db = Some ((int (length fl), ?c gxDeletedBlock, ?c gxRemovedBlock), db2)"
    using DeletedBlocks_at [OF assms(1,2)] fl by auto
  have ok1: "heap_ok (moved q op db) bs fl" using same_file_heap [OF same_file_moved assms(1)] .
  have "stats_ok (moved q op db) bs" using assms(2) by (simp add: stats_ok_def)
  then show "\<exists>db3. NormalBlocks db =
      Some (int (length (filter (\<lambda>x. \<not> is_free (blk (dbytes db) x)) bs)), db3)"
    using DeletedBlocks_at [OF ok1] t fl nf by (auto simp: NormalBlocks_def)
qed

theorem block_counts_witness:
  "(\<exists>db1. TotalBlocks sample_db = Some (3, db1)) \<and>
   (\<exists>db2. DeletedBlocks sample_db = Some ((2, 1, 1), db2))"
proof -
  have "hs_of sample_db + BlockHeaderSize sample_db < eof_of sample_db" by code_simp
  moreover have "count_state gxDeletedBlock (blk (dbytes sample_db)) [86, 116, 156] = 1"
    "count_state gxRemovedBlock (blk (dbytes sample_db)) [86, 116, 156] = 1"
    unfolding count_state_Cons count_state_Nil sample_blocks by code_simp+
  ultimately show ?thesis using block_counts [OF sample_heap_ok sample_stats_ok] by auto
qed

section \<open>Walks that do not end\<close>

text \<open>
  A free space list of two blocks that point to each other passes every test of the walks, since
  a block is only compared with itself.
\<close>

definition free_cycle :: "gxDatabase \<Rightarrow> int \<Rightarrow> int \<Rightarrow> bool" where
  "free_cycle db x y \<longleftrightarrow>
     readable db \<and> x \<noteq> y \<and>
     block_nd_fptr (blk (dbytes db) x) = y \<and> block_nd_fptr (blk (dbytes db) y) = x \<and>
     (\<forall>z \<in> {x, y}. 0 < z \<and> nat z + 20 \<le> length (dbytes db) \<and>
        TestBlockHeader (blk (dbytes db) z) \<and> is_free (blk (dbytes db) z))"

lemma free_cycle_sym: "free_cycle db x y \<Longrightarrow> free_cycle db y x"
  by (auto simp: free_cycle_def)

lemma free_cycle_read:
  assumes "free_cycle db x y"
  shows "Read_hdr h gxCurrAddress (moved (nat x) op db) =
    (blk (dbytes db) x, moved (nat x + 20) gxDBASE_READ db)"
    "\<not> bad_free_block x (blk (dbytes db) x)" "TestBlockHeader (blk (dbytes db) x)" "x \<noteq> 0"
    "SeekTo y (moved p op db) = (y, moved (nat y) gxDBASE_SEEK db)"
    "block_nd_fptr (blk (dbytes db) x) = y" "readable db" "y \<noteq> gxFSListCorrupt"
  using assms
  by (auto simp: free_cycle_def engine_simps bad_free_block_def is_free_def gxFSListCorrupt_def)

lemma first_fit_cycle:
  assumes "first_fit_loop bytes a prev prev_blk hdr (moved (nat a) op db) = Some r"
    "free_cycle db a b" "\<not> fits bytes (blk (dbytes db) a) db" "\<not> fits bytes (blk (dbytes db) b) db"
  shows False
proof -
  let ?P = "\<lambda>n a (prev::int) (prev_blk::gxBlockHeader) (hdr::gxBlockHeader) s (v::int \<times> gxDatabase).
    \<forall>b. n = bytes \<longrightarrow> free_cycle db a b \<longrightarrow> \<not> fits bytes (blk (dbytes db) a) db \<longrightarrow>
      \<not> fits bytes (blk (dbytes db) b) db \<longrightarrow> (\<exists>op. s = moved (nat a) op db) \<longrightarrow> False"
  have "?P bytes a prev prev_blk hdr (moved (nat a) op db) r"
  proof (rule first_fit_loop.raw_induct [of ?P, OF _ assms(1)], intro allI impI, elim exE)
    fix loop n a prev prev_blk hdr s v b op
    assume IH: "\<And>n a prev prev_blk hdr s v.
        loop n a prev prev_blk hdr s = Some v \<Longrightarrow> ?P n a prev prev_blk hdr s v"
      and run: "(if a = 0 then Some (0, s)
         else case Read_hdr hdr gxCurrAddress s of (h, db1) \<Rightarrow>
           if gxd_error db1 \<noteq> gxDBASE_NO_ERROR then Some (0, db1)
           else if \<not> IsOK db1 then Some (0, db1)
           else if \<not> TestBlockHeader h \<or> bad_free_block a h then Some (0, mark_corrupt db1)
           else if block_length h = n then Some (take_exact a prev prev_blk h db1)
           else if 0 < unused_length n h db1 then Some (take_split n a prev prev_blk h db1)
           else case SeekTo (block_nd_fptr h) db1 of (_, db2) \<Rightarrow> loop n (block_nd_fptr h) a h h db2) = Some v"
      and c: "n = bytes" "free_cycle db a b" "\<not> fits bytes (blk (dbytes db) a) db"
        "\<not> fits bytes (blk (dbytes db) b) db" "s = moved (nat a) op db"
    note rd = free_cycle_read [OF c(2)]
    have "loop bytes b a (blk (dbytes db) a) (blk (dbytes db) a) (moved (nat b) gxDBASE_SEEK db) = Some v"
      using run rd(2-4,6,7) c(3) by (simp add: c(1,5) rd(1,5) fits_def)
    from IH [OF this] show False using free_cycle_sym [OF c(2)] c(3,4) by blast
  qed
  then show False using assms(2-4) by blast
qed

lemma deleted_cycle:
  assumes "deleted_loop a i d r hdr (moved (nat a) op db) = Some v" "free_cycle db a b"
  shows False
proof -
  let ?P = "\<lambda>a (i::int) (d::int) (r::int) (hdr::gxBlockHeader) s (v::(int \<times> int \<times> int) \<times> gxDatabase).
    \<forall>b. free_cycle db a b \<longrightarrow> (\<exists>op. s = moved (nat a) op db) \<longrightarrow> False"
  have "?P a i d r hdr (moved (nat a) op db) v"
  proof (rule deleted_loop.raw_induct [of ?P, OF _ assms(1)], intro allI impI, elim exE)
    fix loop a i d r hdr s v b op
    assume IH: "\<And>a i d r hdr s v. loop a i d r hdr s = Some v \<Longrightarrow> ?P a i d r hdr s v"
      and run: "(if a = 0 then Some ((i, d, r), s)
         else case Read_hdr hdr gxCurrAddress s of (h, db1) \<Rightarrow>
           if gxd_error db1 \<noteq> gxDBASE_NO_ERROR then Some ((i, d, r), db1)
           else if \<not> IsOK db1 then Some ((i, d, r), db1)
           else if \<not> TestBlockHeader h then Some ((gxFSListCorrupt, d, r), mark_corrupt db1)
           else if bad_free_block a h then Some ((0, d, r), mark_corrupt db1)
           else if block_nd_fptr h = gxFSListCorrupt then Some ((gxFSListCorrupt, d, r), db1)
           else case SeekTo (block_nd_fptr h) db1 of (_, db2) \<Rightarrow>
             loop (block_nd_fptr h) (i + 1) (if block_state h = gxDeletedBlock then d + 1 else d)
               (if block_state h = gxRemovedBlock then r + 1 else r) h db2) = Some v"
      and c: "free_cycle db a b" "s = moved (nat a) op db"
    note rd = free_cycle_read [OF c(1)]
    have "\<exists>i d r. loop b i d r (blk (dbytes db) a) (moved (nat b) gxDBASE_SEEK db) = Some v"
      using run rd(2-4,6-8) by (intro exI) (simp add: c(2) rd(1,5))
    then show False using IH free_cycle_sym [OF c(1)] by blast
  qed
  then show False using assms(2) by blast
qed

text \<open>
  When the free space list of a file runs into a cycle of two valid free blocks, an
  allocation by first fit that fits neither never returns, and neither does the count of
  the deleted blocks of a file without a statistics header: the walks only test for a block that
  points to itself.
\<close>

theorem free_cycle_hangs:
  assumes "free_cycle db x y" and "fs_of db = x" and "ready_for_writing db"
    and "\<not> fits (with_overhead n db) (blk (dbytes db) x) db"
    and "\<not> fits (with_overhead n db) (blk (dbytes db) y) db"
  shows "Alloc n gxDBASE_RECLAIM_FIRSTFIT db = None \<and>
    (synced db \<longrightarrow> header_ok db \<longrightarrow> \<not> rev_D_or_E (rev_letter db) \<longrightarrow> DeletedBlocks db = None)"
proof
  note r = free_cycle_read [OF assms(1)] and r' = free_cycle_read [OF free_cycle_sym [OF assms(1)]]
  have "first_fit_loop (with_overhead n db) x 0 new_gxBlockHeader new_gxBlockHeader
      (moved (nat x) gxDBASE_SEEK db) = None"
    using first_fit_cycle [OF _ assms(1,4,5)] by (metis option.exhaust)
  then have "ReclaimFirstFit (with_overhead n db) db = None"
    using r(7) r'(8) assms(1,2) by (simp add: ReclaimFirstFit_def engine_simps free_cycle_def)
  then show "Alloc n gxDBASE_RECLAIM_FIRSTFIT db = None"
    using r(4,7) assms(2,3) by (simp add: Alloc_def)
  show "synced db \<longrightarrow> header_ok db \<longrightarrow> \<not> rev_D_or_E (rev_letter db) \<longrightarrow> DeletedBlocks db = None"
  proof (intro impI)
    assume "synced db" "header_ok db" "\<not> rev_D_or_E (rev_letter db)"
    moreover have "deleted_loop x 0 0 0 new_gxBlockHeader (moved (nat x) gxDBASE_SEEK db) = None"
      using deleted_cycle [OF _ assms(1)] by (metis option.exhaust)
    ultimately show "DeletedBlocks db = None"
      using r(7) r'(8) assms(1,2) by (simp add: DeletedBlocks_def engine_simps Let_def free_cycle_def)
  qed
qed

text \<open>A file of revision A whose two blocks, both deleted, point to each other.\<close>

definition cycle_header :: gxFileHeader where
  "cycle_header =
     \<lparr>gxd_fs_fptr = 50, gxd_eof = 110, gxd_hs_fptr = 50, gxd_hb_fptr = 80,
      gxd_sig = take 9 gxSignature @ [byte_of_char CHR ''A''], gxd_ver = gxDatabaseVersionNumber\<rparr>"

definition cycle_bytes :: "byte list" where
  "cycle_bytes =
     enc_gxFileHeader cycle_header @
     enc_gxBlockHeader (sample_block 30 gxDeletedBlock 80) @ replicate 10 0 @
     enc_gxBlockHeader (sample_block 30 gxDeletedBlock 50) @ replicate 10 0"

definition cycle_db :: gxDatabase where
  "cycle_db =
     (new_gxDatabase sample_fs)
       \<lparr>file_name := ''a.gxd'', rev_letter := CHR ''A'', file_header := cycle_header,
        fp := Some \<lparr>fname = ''a.gxd'', fdata = cycle_bytes, fpos = 0, fwritable = True, fcap = 1000\<rparr>,
        is_ok := True, is_open := True, ready_for_reading := True, ready_for_writing := True\<rparr>"

theorem free_cycle_hangs_witness:
  "Alloc 100 gxDBASE_RECLAIM_FIRSTFIT cycle_db = None \<and> DeletedBlocks cycle_db = None"
proof -
  have c: "free_cycle cycle_db 50 80" by code_simp
  have f: "fs_of cycle_db = 50" "ready_for_writing cycle_db" by code_simp+
  have n: "\<not> fits (with_overhead 100 cycle_db) (blk (dbytes cycle_db) 50) cycle_db"
    "\<not> fits (with_overhead 100 cycle_db) (blk (dbytes cycle_db) 80) cycle_db" by code_simp+
  have s: "synced cycle_db" "header_ok cycle_db" "\<not> rev_D_or_E (rev_letter cycle_db)" by code_simp+
  show ?thesis using free_cycle_hangs [OF c f n] s by blast
qed

text \<open>
  The search \<open>FindNextBlock\<close> also takes the address of a block, but for a block that follows a block
  without data it returns that same block: the header in front is taken for the block of an object
  at that address. A loop over block addresses does not get past it.
\<close>

theorem FindNextBlock_stuck:
  assumes "heap_ok db (us @ x # y # vs) fl"
    and "block_length (blk (dbytes db) x) = BlockHeaderSize db"
  shows "\<exists>db1. FindNextBlock y db = Some (y, db1) \<and> same_file db db1"
proof -
  have "y = x + BlockHeaderSize db"
    using tiling_next [of _ _ us] heap_parts(6) [OF assms(1)] assms(2) by fastforce
  then show ?thesis using FindNextBlock_at [OF assms(1)] by (auto simp: same_file_def)
qed

definition empty_header :: gxFileHeader where
  "empty_header =
     \<lparr>gxd_fs_fptr = 0, gxd_eof = 136, gxd_hs_fptr = 86, gxd_hb_fptr = 106, gxd_sig = gxSignature,
      gxd_ver = gxDatabaseVersionNumber\<rparr>"

definition empty_bytes :: "byte list" where
  "empty_bytes =
     enc_gxFileHeader empty_header @ enc_gxFileLockHeader new_gxFileLockHeader @
     enc_gxFileStatsHeader \<lparr>num_blocks = 2, deleted_blocks = 0, removed_blocks = 0\<rparr> @
     enc_gxBlockHeader (sample_block 20 gxNormalBlock 0) @
     enc_gxBlockHeader (sample_block 30 gxNormalBlock 0) @ replicate 10 7"

definition empty_db :: gxDatabase where
  "empty_db =
     sample_db\<lparr>file_header := empty_header,
       file_stats_header := \<lparr>num_blocks = 2, deleted_blocks = 0, removed_blocks = 0\<rparr>,
       fp := Some \<lparr>fname = ''a.gxd'', fdata = empty_bytes, fpos = 0, fwritable = True, fcap = 1000\<rparr>\<rparr>"

theorem FindNextBlock_stuck_witness: "\<exists>db1. FindNextBlock 106 empty_db = Some (106, db1)"
proof -
  have "heap_ok empty_db ([] @ 86 # 106 # []) []" by code_simp
  moreover have "block_length (blk (dbytes empty_db) 86) = BlockHeaderSize empty_db" by code_simp
  ultimately show ?thesis using FindNextBlock_stuck by blast
qed

end
