(* ===== verification/Locks.thy ===== *)
theory Locks
  imports Files
begin

text \<open>
  The advisory file locks and record locks of \<open>src/gxdbase.cpp\<close>. A lock header is three 32-bit
  words in the file: the lock protect, the number of readers and the writer mark. File locks
  exist from revision B on, behind the file header; record locks in revisions C and D, behind
  each block header. An operation returns its error code, which is also left in \<open>gxd_error\<close>.
\<close>

datatype gxDatabaseLockType = gxDBASE_READLOCK | gxDBASE_WRITELOCK

section \<open>The three writes of an update\<close>

text \<open>
  \<open>Write\<close> of one \<open>gxUINT32\<close> member. An update of the write lock skips the read lock member with a
  \<open>SeekTo\<close> whose result is ignored; an update of the read lock goes on where the first write ended.
\<close>

definition put_lock_word :: "int \<Rightarrow> int \<Rightarrow> gxDatabase \<Rightarrow> gxDatabase" where
  "put_lock_word v a db = Write (gxUINT32_UnPackBits v) a db"

definition update_lock :: "int \<Rightarrow> gxDatabaseLockType \<Rightarrow> int \<Rightarrow> gxDatabase \<Rightarrow> gxDatabase" where
  "update_lock header_address l_type v db =
     (let db1 = put_lock_word 1 header_address db
      in if gxd_error db1 \<noteq> gxDBASE_NO_ERROR then db1
         else (let db2 = (case l_type of
                            gxDBASE_WRITELOCK \<Rightarrow> snd (SeekTo (header_address + 4 * 2) db1)
                          | gxDBASE_READLOCK \<Rightarrow> db1);
                   db3 = put_lock_word v gxCurrAddress db2
               in if gxd_error db3 \<noteq> gxDBASE_NO_ERROR then db3
                  else (let db4 = put_lock_word 0 header_address db3
                        in if gxd_error db4 \<noteq> gxDBASE_NO_ERROR then db4
                           else db4\<lparr>gxd_error := gxDBASE_NO_ERROR\<rparr>)))"

section \<open>File locks\<close>

definition ReadFileLockHdr ::
  "gxFileLockHeader \<Rightarrow> gxDatabase \<Rightarrow> gxFileLockHeader \<times> gxDatabase" where
  "ReadFileLockHdr hdr db =
     (if has_file_lock (rev_letter db) then
        (case Read (enc_gxFileLockHeader hdr) (int sizeof_gxFileHeader) db of
           (b, db1) \<Rightarrow> (dec_gxFileLockHeader b, db1))
      else (InitFileLockHdr, db\<lparr>gxd_error := gxDBASE_NO_ERROR\<rparr>))"

definition LockFile :: "gxDatabaseLockType \<Rightarrow> gxDatabase \<Rightarrow> gxDatabase" where
  "LockFile l_type db =
     (if \<not> has_file_lock (rev_letter db) then db\<lparr>gxd_error := gxDBASE_NO_ERROR\<rparr>
      else (case ReadFileLockHdr new_gxFileLockHeader db of (h, db1) \<Rightarrow>
        if gxd_error db1 \<noteq> gxDBASE_NO_ERROR then db1
        else if file_lock_protect h \<noteq> 0 then db1\<lparr>gxd_error := gxDBASE_FILELOCK_ACCESS_ERROR\<rparr>
        else (case l_type of
                gxDBASE_WRITELOCK \<Rightarrow>
                  if file_read_lock h \<noteq> 0 \<or> file_write_lock h \<noteq> 0
                  then db1\<lparr>gxd_error := gxDBASE_FILELOCK_ERROR\<rparr>
                  else update_lock (int sizeof_gxFileHeader) gxDBASE_WRITELOCK 1 db1
              | gxDBASE_READLOCK \<Rightarrow>
                  if file_write_lock h = 1 then db1\<lparr>gxd_error := gxDBASE_FILELOCK_ERROR\<rparr>
                  else if file_read_lock h < 0xFFFFFFFF
                  then update_lock (int sizeof_gxFileHeader) gxDBASE_READLOCK (file_read_lock h + 1) db1
                  else db1\<lparr>gxd_error := gxDBASE_FILELOCK_ERROR\<rparr>)))"

definition UnlockFile :: "gxDatabaseLockType \<Rightarrow> gxDatabase \<Rightarrow> gxDatabase" where
  "UnlockFile l_type db =
     (if \<not> has_file_lock (rev_letter db) then db\<lparr>gxd_error := gxDBASE_NO_ERROR\<rparr>
      else (case ReadFileLockHdr new_gxFileLockHeader db of (h, db1) \<Rightarrow>
        if gxd_error db1 \<noteq> gxDBASE_NO_ERROR then db1
        else if file_lock_protect h \<noteq> 0 then db1\<lparr>gxd_error := gxDBASE_FILELOCK_ACCESS_ERROR\<rparr>
        else (case l_type of
                gxDBASE_WRITELOCK \<Rightarrow>
                  if file_write_lock h = 0 then db1
                  else update_lock (int sizeof_gxFileHeader) gxDBASE_WRITELOCK 0 db1
              | gxDBASE_READLOCK \<Rightarrow>
                  if file_read_lock h = 0 then db1\<lparr>gxd_error := gxDBASE_NO_ERROR\<rparr>
                  else update_lock (int sizeof_gxFileHeader) gxDBASE_READLOCK
                         (if file_read_lock h > 0 then file_read_lock h - 1 else 0) db1)))"

definition ResetFileLock :: "gxDatabase \<Rightarrow> gxDatabase" where
  "ResetFileLock db =
     (if \<not> has_file_lock (rev_letter db) then db\<lparr>gxd_error := gxDBASE_NO_ERROR\<rparr>
      else WriteFileLockHdr InitFileLockHdr db)"

section \<open>Record locks\<close>

definition InitRecordLockHdr :: gxRecordLockHeader where
  "InitRecordLockHdr = \<lparr>record_lock_protect = 0, record_read_lock = 0, record_write_lock = 0\<rparr>"

definition ReadRecordLockHdr ::
  "gxRecordLockHeader \<Rightarrow> int \<Rightarrow> gxDatabase \<Rightarrow> gxRecordLockHeader \<times> gxDatabase" where
  "ReadRecordLockHdr hdr block_address db =
     (if \<not> rev_C_or_D (rev_letter db) then (InitRecordLockHdr, db\<lparr>gxd_error := gxDBASE_NO_ERROR\<rparr>)
      else (case ReadBlockHdr new_gxBlockHeader block_address db of (_, db1) \<Rightarrow>
        if gxd_error db1 \<noteq> gxDBASE_NO_ERROR then (hdr, db1)
        else (case Read (enc_gxRecordLockHeader hdr) gxCurrAddress db1 of
                (b, db2) \<Rightarrow> (dec_gxRecordLockHeader b, db2))))"

definition WriteRecordLockHdr :: "gxRecordLockHeader \<Rightarrow> int \<Rightarrow> gxDatabase \<Rightarrow> gxDatabase" where
  "WriteRecordLockHdr hdr block_address db =
     (if \<not> rev_C_or_D (rev_letter db) then db\<lparr>gxd_error := gxDBASE_NO_ERROR\<rparr>
      else (case ReadBlockHdr new_gxBlockHeader block_address db of (_, db1) \<Rightarrow>
        if gxd_error db1 \<noteq> gxDBASE_NO_ERROR then db1
        else Write (enc_gxRecordLockHeader hdr) gxCurrAddress db1))"

text \<open>
  The address of the lock words. At the current address the position is taken after the headers
  were read.
\<close>

definition record_lock_address :: "int \<Rightarrow> gxDatabase \<Rightarrow> int \<times> gxDatabase" where
  "record_lock_address block_address db =
     (if block_address = gxCurrAddress
      then (case FilePosition db of (p, db1) \<Rightarrow> (p + int sizeof_gxBlockHeader, db1))
      else (block_address + int sizeof_gxBlockHeader, db))"

definition LockRecord :: "gxDatabaseLockType \<Rightarrow> int \<Rightarrow> gxDatabase \<Rightarrow> gxDatabase" where
  "LockRecord l_type block_address db =
     (if \<not> rev_C_or_D (rev_letter db) then db\<lparr>gxd_error := gxDBASE_NO_ERROR\<rparr>
      else (case ReadRecordLockHdr new_gxRecordLockHeader block_address db of (h, db1) \<Rightarrow>
        if gxd_error db1 \<noteq> gxDBASE_NO_ERROR then db1
        else if record_lock_protect h \<noteq> 0 then db1\<lparr>gxd_error := gxDBASE_RECORDLOCK_ACCESS_ERROR\<rparr>
        else (case record_lock_address block_address db1 of (a, db2) \<Rightarrow>
          case l_type of
            gxDBASE_WRITELOCK \<Rightarrow>
              if record_read_lock h \<noteq> 0 then db2\<lparr>gxd_error := gxDBASE_RECORDLOCK_ERROR\<rparr>
              else if record_write_lock h = 0 then update_lock a gxDBASE_WRITELOCK 1 db2
              else db2\<lparr>gxd_error := gxDBASE_RECORDLOCK_ERROR\<rparr>
          | gxDBASE_READLOCK \<Rightarrow>
              if record_write_lock h = 1 then db2\<lparr>gxd_error := gxDBASE_RECORDLOCK_ERROR\<rparr>
              else if record_read_lock h < 0xFFFFFFFF
              then update_lock a gxDBASE_READLOCK (record_read_lock h + 1) db2
              else db2\<lparr>gxd_error := gxDBASE_RECORDLOCK_ERROR\<rparr>)))"

definition UnlockRecord :: "gxDatabaseLockType \<Rightarrow> int \<Rightarrow> gxDatabase \<Rightarrow> gxDatabase" where
  "UnlockRecord l_type block_address db =
     (if \<not> rev_C_or_D (rev_letter db) then db\<lparr>gxd_error := gxDBASE_NO_ERROR\<rparr>
      else (case ReadRecordLockHdr new_gxRecordLockHeader block_address db of (h, db1) \<Rightarrow>
        if gxd_error db1 \<noteq> gxDBASE_NO_ERROR then db1
        else if record_lock_protect h \<noteq> 0 then db1\<lparr>gxd_error := gxDBASE_RECORDLOCK_ACCESS_ERROR\<rparr>
        else (case record_lock_address block_address db1 of (a, db2) \<Rightarrow>
          case l_type of
            gxDBASE_WRITELOCK \<Rightarrow>
              if record_write_lock h = 0 then db2
              else update_lock a gxDBASE_WRITELOCK 0 db2
          | gxDBASE_READLOCK \<Rightarrow>
              if record_read_lock h = 0 then db2\<lparr>gxd_error := gxDBASE_NO_ERROR\<rparr>
              else update_lock a gxDBASE_READLOCK
                     (if record_read_lock h > 0 then record_read_lock h - 1 else 0) db2)))"

definition ResetRecordLock :: "int \<Rightarrow> gxDatabase \<Rightarrow> gxDatabase" where
  "ResetRecordLock block_address db =
     (if \<not> rev_C_or_D (rev_letter db) then db\<lparr>gxd_error := gxDBASE_NO_ERROR\<rparr>
      else WriteRecordLockHdr InitRecordLockHdr block_address db)"


text \<open>
  The abstract specification of a lock: the number of readers and the writer mark, who is
  granted a lock and what a release does. The locale \<open>lock_interface\<close> states what a user of file
  or record locks relies on, and proves once that calls that are not interleaved keep readers and
  writers apart (\<open>lock_run\<close> counts who holds a lock).
\<close>

record lock_state =
  readers :: int
  writer :: int

definition free_lock :: lock_state where
  "free_lock = \<lparr>readers = 0, writer = 0\<rparr>"

definition grant :: "gxDatabaseLockType \<Rightarrow> lock_state \<Rightarrow> lock_state option" where
  "grant t l =
     (case t of
        gxDBASE_WRITELOCK \<Rightarrow> if readers l = 0 \<and> writer l = 0 then Some (l\<lparr>writer := 1\<rparr>) else None
      | gxDBASE_READLOCK \<Rightarrow>
          if writer l \<noteq> 1 \<and> readers l < 0xFFFFFFFF then Some (l\<lparr>readers := readers l + 1\<rparr>) else None)"

definition release :: "gxDatabaseLockType \<Rightarrow> lock_state \<Rightarrow> lock_state" where
  "release t l =
     (case t of
        gxDBASE_WRITELOCK \<Rightarrow> l\<lparr>writer := 0\<rparr>
      | gxDBASE_READLOCK \<Rightarrow> if readers l > 0 then l\<lparr>readers := readers l - 1\<rparr> else l)"

lemma release_grant: "grant t l = Some l' \<Longrightarrow> 0 \<le> readers l \<Longrightarrow> release t l' = l"
  by (cases l) (auto simp: grant_def release_def split: if_splits gxDatabaseLockType.splits)

lemma grant_counts:
  "grant gxDBASE_READLOCK \<lparr>readers = int r, writer = int w\<rparr> = Some l \<Longrightarrow>
   w \<noteq> 1 \<and> l = \<lparr>readers = int (Suc r), writer = int w\<rparr>"
  "grant gxDBASE_WRITELOCK \<lparr>readers = int r, writer = int w\<rparr> = Some l \<Longrightarrow>
   r = 0 \<and> w = 0 \<and> l = \<lparr>readers = int r, writer = int (Suc w)\<rparr>"
  by (auto simp: grant_def split: if_splits)

text \<open>
  What clients do one call at a time: ask for a lock, which is granted or refused, and release one
  they hold. The two numbers count the read and the write locks that are held.
\<close>

inductive lock_run ::
  "(gxDatabaseLockType \<Rightarrow> 's \<Rightarrow> 's) \<Rightarrow> (gxDatabaseLockType \<Rightarrow> 's \<Rightarrow> 's) \<Rightarrow> ('s \<Rightarrow> bool) \<Rightarrow> ('s \<Rightarrow> bool) \<Rightarrow>
   's \<Rightarrow> nat \<Rightarrow> nat \<Rightarrow> bool"
  for lock unlock granted start where
  begin_run: "start s \<Longrightarrow> lock_run lock unlock granted start s 0 0"
| grant_read: "lock_run lock unlock granted start s r w \<Longrightarrow> granted (lock gxDBASE_READLOCK s) \<Longrightarrow>
    lock_run lock unlock granted start (lock gxDBASE_READLOCK s) (Suc r) w"
| grant_write: "lock_run lock unlock granted start s r w \<Longrightarrow> granted (lock gxDBASE_WRITELOCK s) \<Longrightarrow>
    lock_run lock unlock granted start (lock gxDBASE_WRITELOCK s) r (Suc w)"
| refuse: "lock_run lock unlock granted start s r w \<Longrightarrow> \<not> granted (lock t s) \<Longrightarrow>
    lock_run lock unlock granted start (lock t s) r w"
| free_read: "lock_run lock unlock granted start s (Suc r) w \<Longrightarrow>
    lock_run lock unlock granted start (unlock gxDBASE_READLOCK s) r w"
| free_write: "lock_run lock unlock granted start s r (Suc w) \<Longrightarrow>
    lock_run lock unlock granted start (unlock gxDBASE_WRITELOCK s) r w"

locale lock_interface =
  fixes look :: "'s \<Rightarrow> lock_state"
    and good :: "'s \<Rightarrow> bool"
    and lock unlock :: "gxDatabaseLockType \<Rightarrow> 's \<Rightarrow> 's"
    and granted :: "'s \<Rightarrow> bool"
  assumes lock_good: "good s \<Longrightarrow> good (lock t s)"
    and lock_granted: "good s \<Longrightarrow> grant t (look s) = Some l \<Longrightarrow> granted (lock t s) \<and> look (lock t s) = l"
    and lock_refused: "good s \<Longrightarrow> grant t (look s) = None \<Longrightarrow>
      \<not> granted (lock t s) \<and> look (lock t s) = look s"
    and unlock_good: "good s \<Longrightarrow> good (unlock t s)"
    and unlock_release: "good s \<Longrightarrow> granted (unlock t s) \<and> look (unlock t s) = release t (look s)"
begin

lemma lock_cases:
  assumes "good s"
  shows "granted (lock t s) \<longleftrightarrow> grant t (look s) \<noteq> None"
    and "granted (lock t s) \<Longrightarrow> \<exists>l. grant t (look s) = Some l \<and> look (lock t s) = l"
    and "\<not> granted (lock t s) \<Longrightarrow> look (lock t s) = look s"
  using lock_granted [OF assms, of t] lock_refused [OF assms, of t]
  by (cases "grant t (look s)"; simp)+

text \<open>The words count the locks held, and a write lock excludes every other lock.\<close>

lemma exclusive:
  assumes "lock_run lock unlock granted (\<lambda>s. good s \<and> look s = free_lock) s r w"
  shows "good s \<and> look s = \<lparr>readers = int r, writer = int w\<rparr> \<and> (w = 0 \<or> w = 1 \<and> r = 0)"
  using assms
proof induction
  case (grant_read s r w)
  then have g: "good s" "look s = \<lparr>readers = int r, writer = int w\<rparr>" "w = 0 \<or> w = 1 \<and> r = 0"
    by simp_all
  obtain l where l: "grant gxDBASE_READLOCK (look s) = Some l" "look (lock gxDBASE_READLOCK s) = l"
    using lock_cases(2) [OF g(1) grant_read(2)] by blast
  show ?case using grant_counts(1) [OF l(1) [unfolded g(2)]] l(2) g(3) lock_good [OF g(1)] by simp
next
  case (grant_write s r w)
  then have g: "good s" "look s = \<lparr>readers = int r, writer = int w\<rparr>" "w = 0 \<or> w = 1 \<and> r = 0"
    by simp_all
  obtain l where l: "grant gxDBASE_WRITELOCK (look s) = Some l" "look (lock gxDBASE_WRITELOCK s) = l"
    using lock_cases(2) [OF g(1) grant_write(2)] by blast
  show ?case using grant_counts(2) [OF l(1) [unfolded g(2)]] l(2) g(3) lock_good [OF g(1)] by simp
next
  case (refuse s r w t)
  then show ?case using lock_cases(3) lock_good by auto
next
  case (free_read s r w)
  then show ?case using unlock_release unlock_good by (auto simp: release_def)
next
  case (free_write s r w)
  then show ?case using unlock_release unlock_good by (auto simp: release_def)
qed (simp add: free_lock_def)

text \<open>Releasing a lock that was just granted restores the words.\<close>

lemma lock_unlock:
  assumes "good s" "granted (lock t s)" "0 \<le> readers (look s)"
  shows "look (unlock t (lock t s)) = look s"
proof -
  obtain l where l: "grant t (look s) = Some l" "look (lock t s) = l"
    using lock_cases(2) [OF assms(1,2)] by blast
  then show ?thesis
    using unlock_release lock_good assms release_grant by metis
qed

end

section \<open>Words of a byte image\<close>

definition word_at :: "byte list \<Rightarrow> nat \<Rightarrow> int" where
  "word_at img p = gxUINT32_PackBits (bytes_at img p 4)"

lemma word_at_put_same: "in_u32 v \<Longrightarrow> word_at (put_at img p (gxUINT32_UnPackBits v)) p = v"
  by (simp add: word_at_def bytes_at_put_same_len u32.dec_enc)

lemma word_at_put_other:
  "q + 4 \<le> p \<or> p + 4 \<le> q \<Longrightarrow> q + 4 \<le> length img \<Longrightarrow>
   word_at (put_at img p (gxUINT32_UnPackBits v)) q = word_at img q"
  by (simp add: word_at_def bytes_at_put_disjoint)

lemma word_at_u32: "p + 4 \<le> length img \<Longrightarrow> in_u32 (word_at img p)"
  by (simp add: word_at_def in_u32_PackBits)

lemma dec_lock_words:
  assumes "p + 12 \<le> length img"
  shows "dec_gxFileLockHeader (bytes_at img p 12) =
      \<lparr>file_lock_protect = word_at img p, file_read_lock = word_at img (p + 4),
       file_write_lock = word_at img (p + 8)\<rparr>"
    "dec_gxRecordLockHeader (bytes_at img p 12) =
      \<lparr>record_lock_protect = word_at img p, record_read_lock = word_at img (p + 4),
       record_write_lock = word_at img (p + 8)\<rparr>"
  by (simp_all add: dec_defs word_at_def bytes_at_sub)

end
