(* ===== verification/LockProps.thy ===== *)
theory LockProps
  imports Locks NavProps
begin

text \<open>
  The locks of an open file refine the abstract lock: \<open>LockFile\<close> and \<open>LockRecord\<close> grant and refuse
  as \<open>grant\<close> says and change nothing but their three words. Both are interpretations of
  \<open>lock_interface\<close>. At the end, what the lock protect word does not do: two clients whose calls
  are interleaved, and one that stops in the middle of a call.
\<close>

section \<open>The update of a lock header\<close>

definition lock_offset :: "gxDatabaseLockType \<Rightarrow> nat" where
  "lock_offset t = (case t of gxDBASE_WRITELOCK \<Rightarrow> 8 | gxDBASE_READLOCK \<Rightarrow> 4)"

text \<open>The image after the three writes.\<close>

definition lock_image :: "nat \<Rightarrow> gxDatabaseLockType \<Rightarrow> int \<Rightarrow> byte list \<Rightarrow> byte list" where
  "lock_image a t v img =
     put_at (put_at (put_at img a (gxUINT32_UnPackBits 1)) (a + lock_offset t) (gxUINT32_UnPackBits v))
       a (gxUINT32_UnPackBits 0)"

definition locked :: "nat \<Rightarrow> gxDatabaseLockType \<Rightarrow> int \<Rightarrow> gxDatabase \<Rightarrow> gxDatabase" where
  "locked a t v db =
     stored a (gxUINT32_UnPackBits 0)
       (stored (a + lock_offset t) (gxUINT32_UnPackBits v) (stored a (gxUINT32_UnPackBits 1) db))"

lemma locked_fields [simp]:
  "dbytes (locked a t v db) = lock_image a t v (dbytes db)" "dpos (locked a t v db) = dpos db"
  "file_header (locked a t v db) = file_header db" "rev_letter (locked a t v db) = rev_letter db"
  "file_stats_header (locked a t v db) = file_stats_header db"
  "gxd_error (locked a t v db) = gxd_error db"
  "readable db \<Longrightarrow> readable (locked a t v db)" "writable n db \<Longrightarrow> writable n (locked a t v db)"
  by (simp_all add: locked_def lock_image_def)

lemma lock_image_frame:
  assumes "a + 12 \<le> length img"
  shows "length (lock_image a t v img) = length img"
    and "q + n \<le> a \<or> a + 12 \<le> q \<Longrightarrow> q + n \<le> length img \<Longrightarrow>
      bytes_at (lock_image a t v img) q n = bytes_at img q n"
proof -
  show "length (lock_image a t v img) = length img"
    using assms by (simp add: lock_image_def lock_offset_def split: gxDatabaseLockType.split)
  show "bytes_at (lock_image a t v img) q n = bytes_at img q n"
    if "q + n \<le> a \<or> a + 12 \<le> q" "q + n \<le> length img"
    using that assms
    by (auto simp: lock_image_def lock_offset_def bytes_at_put_disjoint split: gxDatabaseLockType.split)
qed

lemma lock_image_words:
  assumes "a + 12 \<le> length img" "in_u32 v"
  shows "word_at (lock_image a t v img) a = 0"
    "word_at (lock_image a t v img) (a + 4) =
      (if t = gxDBASE_READLOCK then v else word_at img (a + 4))"
    "word_at (lock_image a t v img) (a + 8) =
      (if t = gxDBASE_WRITELOCK then v else word_at img (a + 8))"
proof -
  have z: "in_u32 0" by (simp add: in_u32_def)
  show "word_at (lock_image a t v img) a = 0"
    by (simp add: lock_image_def word_at_put_same z)
  show "word_at (lock_image a t v img) (a + 4) =
      (if t = gxDBASE_READLOCK then v else word_at img (a + 4))"
    "word_at (lock_image a t v img) (a + 8) =
      (if t = gxDBASE_WRITELOCK then v else word_at img (a + 8))"
    using assms
    by (cases t; simp add: lock_image_def lock_offset_def word_at_put_same word_at_put_other)+
qed

lemma update_lock_ok:
  assumes "writable (nat a + 12) db" "0 \<le> a"
  shows "update_lock a t v db = moved (nat a + 4) gxDBASE_WRITE (locked (nat a) t v db)"
proof -
  have w: "writable (nat a + 4) db" "writable (nat a + 8) db" "readable db"
    using writable_mono [OF assms(1)] writable_readable [OF assms(1)] by simp_all
  have n: "nat (a + 8) = nat a + 8" using assms(2) by simp
  have c: "nat a + 8 + 4 = nat a + 12" "nat a + 4 + 4 = nat a + 8" by simp_all
  show ?thesis
  proof (cases t)
    case gxDBASE_WRITELOCK
    then show ?thesis
      using assms w
      by (simp add: update_lock_def put_lock_word_def engine_simps Let_def n c locked_def lock_offset_def)
  next
    case gxDBASE_READLOCK
    then show ?thesis
      using assms w
      by (simp add: update_lock_def put_lock_word_def engine_simps Let_def n c locked_def lock_offset_def)
  qed
qed

section \<open>File locks\<close>

definition file_lock_words :: "gxDatabase \<Rightarrow> lock_state" where
  "file_lock_words db = \<lparr>readers = word_at (dbytes db) 54, writer = word_at (dbytes db) 58\<rparr>"

text \<open>An open file of revision B or later, that can be written, whose lock protect is clear.\<close>

definition file_lockable :: "gxDatabase \<Rightarrow> bool" where
  "file_lockable db \<longleftrightarrow>
     writable 62 db \<and> has_file_lock (rev_letter db) \<and> 62 \<le> length (dbytes db) \<and>
     word_at (dbytes db) 50 = 0"

definition succeeded :: "gxDatabase \<Rightarrow> bool" where
  "succeeded db \<longleftrightarrow> gxd_error db = gxDBASE_NO_ERROR"

lemma file_lockableD:
  assumes "file_lockable db"
  shows "readable db" "writable 62 db" "has_file_lock (rev_letter db)" "62 \<le> length (dbytes db)"
    "word_at (dbytes db) 50 = 0"
  using assms writable_readable by (auto simp: file_lockable_def)

lemma ReadFileLockHdr_ok:
  assumes "file_lockable db"
  shows "ReadFileLockHdr new_gxFileLockHeader db =
    (\<lparr>file_lock_protect = 0, file_read_lock = readers (file_lock_words db),
      file_write_lock = writer (file_lock_words db)\<rparr>, moved 62 gxDBASE_READ db)"
  using file_lockableD [OF assms] dec_lock_words(1) [of 50 "dbytes db"]
  by (simp add: ReadFileLockHdr_def engine_simps sizeof_defs file_lock_words_def)

definition lock_value :: "gxDatabaseLockType \<Rightarrow> lock_state \<Rightarrow> int" where
  "lock_value t l = (case t of gxDBASE_WRITELOCK \<Rightarrow> writer l | gxDBASE_READLOCK \<Rightarrow> readers l)"

lemma LockFile_computes:
  assumes "file_lockable db"
  shows "LockFile t db =
    (case grant t (file_lock_words db) of
       None \<Rightarrow> (moved 62 gxDBASE_READ db)\<lparr>gxd_error := gxDBASE_FILELOCK_ERROR\<rparr>
     | Some l \<Rightarrow> moved 54 gxDBASE_WRITE (locked 50 t (lock_value t l) db))"
proof -
  have u: "update_lock (int sizeof_gxFileHeader) t v (moved 62 gxDBASE_READ db) =
    moved 54 gxDBASE_WRITE (locked 50 t v db)" for t v
    using assms by (simp add: file_lockable_def update_lock_ok sizeof_defs locked_def)
  have r: "has_file_lock (rev_letter db)" using assms by (simp add: file_lockable_def)
  show ?thesis
    by (cases t) (simp_all add: LockFile_def r ReadFileLockHdr_ok [OF assms] u grant_def lock_value_def)
qed

lemma UnlockFile_computes:
  assumes "file_lockable db"
  shows "UnlockFile t db =
    (if lock_value t (file_lock_words db) = 0 then moved 62 gxDBASE_READ db
     else moved 54 gxDBASE_WRITE (locked 50 t (lock_value t (release t (file_lock_words db))) db))"
proof -
  have u: "update_lock (int sizeof_gxFileHeader) t v (moved 62 gxDBASE_READ db) =
    moved 54 gxDBASE_WRITE (locked 50 t v db)" for t v
    using assms by (simp add: file_lockable_def update_lock_ok sizeof_defs locked_def)
  have r: "has_file_lock (rev_letter db)" using assms by (simp add: file_lockable_def)
  have n: "0 \<le> readers (file_lock_words db)"
    using assms word_at_u32 [of 54 "dbytes db"]
    by (simp add: file_lock_words_def file_lockable_def in_u32_def)
  show ?thesis
    using n
    by (cases t) (auto simp: UnlockFile_def r ReadFileLockHdr_ok [OF assms] u release_def lock_value_def)
qed

lemma locked_file:
  assumes "file_lockable db" "in_u32 v"
  shows "file_lockable (moved p op (locked 50 t v db))"
    "file_lock_words (moved p op (locked 50 t v db)) =
      (case t of gxDBASE_WRITELOCK \<Rightarrow> (file_lock_words db)\<lparr>writer := v\<rparr>
       | gxDBASE_READLOCK \<Rightarrow> (file_lock_words db)\<lparr>readers := v\<rparr>)"
proof -
  have l: "50 + 12 \<le> length (dbytes db)" using assms(1) by (simp add: file_lockable_def)
  note w = lock_image_words [OF l assms(2), simplified]
  show "file_lockable (moved p op (locked 50 t v db))"
    using assms(1) w lock_image_frame(1) [OF l] by (simp add: file_lockable_def)
  show "file_lock_words (moved p op (locked 50 t v db)) =
      (case t of gxDBASE_WRITELOCK \<Rightarrow> (file_lock_words db)\<lparr>writer := v\<rparr>
       | gxDBASE_READLOCK \<Rightarrow> (file_lock_words db)\<lparr>readers := v\<rparr>)"
    by (cases t) (simp_all add: file_lock_words_def w)
qed

lemma file_words_range:
  assumes "file_lockable db"
  shows "in_u32 (readers (file_lock_words db))" "in_u32 (writer (file_lock_words db))"
  using assms word_at_u32 by (simp_all add: file_lockable_def file_lock_words_def)

lemma grant_value:
  assumes "grant t l = Some l'" "in_u32 (readers l)"
  shows "in_u32 (lock_value t l')"
    "l' = (case t of gxDBASE_WRITELOCK \<Rightarrow> l\<lparr>writer := lock_value t l'\<rparr>
       | gxDBASE_READLOCK \<Rightarrow> l\<lparr>readers := lock_value t l'\<rparr>)"
  using assms
  by (auto simp: grant_def lock_value_def in_u32_def split: if_splits gxDatabaseLockType.splits)

lemma release_value:
  assumes "in_u32 (readers l)"
  shows "in_u32 (lock_value t (release t l))"
    "release t l = (case t of gxDBASE_WRITELOCK \<Rightarrow> l\<lparr>writer := lock_value t (release t l)\<rparr>
       | gxDBASE_READLOCK \<Rightarrow> l\<lparr>readers := lock_value t (release t l)\<rparr>)"
    "lock_value t l = 0 \<Longrightarrow> release t l = l"
  using assms
  by (cases l; auto simp: release_def lock_value_def in_u32_def split: if_splits gxDatabaseLockType.splits)+

lemma file_lockable_err [simp]:
  "file_lockable (db\<lparr>gxd_error := e\<rparr>) = file_lockable db"
  "file_lockable (moved p op db) = file_lockable db" if "readable db"
  using that by (auto simp: file_lockable_def writable_def moved_def state_defs)

lemma file_words_err [simp]:
  "file_lock_words (db\<lparr>gxd_error := e\<rparr>) = file_lock_words db"
  "file_lock_words (moved p op db) = file_lock_words db"
  by (simp_all add: file_lock_words_def)

interpretation fl: lock_interface file_lock_words file_lockable LockFile UnlockFile succeeded
proof
  fix db t l
  assume ok: "file_lockable db"
  then have rd: "readable db" by (rule file_lockableD)
  note r = file_words_range [OF ok]
  show "file_lockable (LockFile t db)"
    using locked_file(1) [OF ok] grant_value(1) [OF _ r(1)] ok rd
    by (simp add: LockFile_computes [OF ok] split: option.split)
  show "succeeded (LockFile t db) \<and> file_lock_words (LockFile t db) = l"
    if g: "grant t (file_lock_words db) = Some l"
    using locked_file(2) [OF ok grant_value(1) [OF g r(1)]] grant_value(2) [OF g r(1)]
    by (simp add: LockFile_computes [OF ok] g succeeded_def)
  show "\<not> succeeded (LockFile t db) \<and> file_lock_words (LockFile t db) = file_lock_words db"
    if "grant t (file_lock_words db) = None"
    by (simp add: LockFile_computes [OF ok] that succeeded_def)
  show "file_lockable (UnlockFile t db)"
    using locked_file(1) [OF ok release_value(1) [OF r(1)]] ok rd by (simp add: UnlockFile_computes [OF ok])
  show "succeeded (UnlockFile t db) \<and>
      file_lock_words (UnlockFile t db) = release t (file_lock_words db)"
    using locked_file(2) [OF ok release_value(1) [OF r(1)]] release_value(2,3) [OF r(1)]
    by (simp add: UnlockFile_computes [OF ok] succeeded_def)
qed

section \<open>Record locks\<close>

definition record_lock_words :: "int \<Rightarrow> gxDatabase \<Rightarrow> lock_state" where
  "record_lock_words x db =
     \<lparr>readers = word_at (dbytes db) (nat x + 24), writer = word_at (dbytes db) (nat x + 28)\<rparr>"

text \<open>A block of a revision C or D file with a clear lock protect.\<close>

definition record_lockable :: "int \<Rightarrow> gxDatabase \<Rightarrow> bool" where
  "record_lockable x db \<longleftrightarrow>
     0 \<le> x \<and> writable (nat x + 32) db \<and> rev_C_or_D (rev_letter db) \<and>
     nat x + 32 \<le> length (dbytes db) \<and> TestBlockHeader (blk (dbytes db) x) \<and>
     word_at (dbytes db) (nat x + 20) = 0"

lemma record_lockableD:
  assumes "record_lockable x db"
  shows "readable db" "writable (nat x + 32) db" "rev_C_or_D (rev_letter db)"
    "nat x + 32 \<le> length (dbytes db)" "TestBlockHeader (blk (dbytes db) x)"
    "word_at (dbytes db) (nat x + 20) = 0" "0 \<le> x" "x \<noteq> gxCurrAddress"
  using assms writable_readable by (auto simp: record_lockable_def gxCurrAddress_def)

lemma ReadRecordLockHdr_ok:
  assumes "record_lockable x db"
  shows "ReadRecordLockHdr new_gxRecordLockHeader x db =
    (\<lparr>record_lock_protect = 0, record_read_lock = readers (record_lock_words x db),
      record_write_lock = writer (record_lock_words x db)\<rparr>, moved (nat x + 32) gxDBASE_READ db)"
proof -
  note d = record_lockableD [OF assms]
  have "Read (enc_gxRecordLockHeader new_gxRecordLockHeader) gxCurrAddress (moved (nat x + 20) gxDBASE_READ db) =
    (bytes_at (dbytes db) (nat x + 20) 12, moved (nat x + 32) gxDBASE_READ db)"
    using d(1,4) by (simp add: engine_simps add.commute)
  then show ?thesis
    using d dec_lock_words(2) [of "nat x + 20" "dbytes db"]
    by (simp add: ReadRecordLockHdr_def engine_simps record_lock_words_def add.assoc)
qed

lemma update_record:
  assumes "record_lockable x db"
  shows "update_lock (x + int sizeof_gxBlockHeader) t v (moved p op db) =
    moved (nat x + 24) gxDBASE_WRITE (locked (nat x + 20) t v db)"
proof -
  note d = record_lockableD [OF assms]
  have n: "nat (x + 20) = nat x + 20" using d(7) by simp
  have "writable (nat (x + 20) + 12) (moved p op db)"
    using d(2) unfolding n by (simp add: add.assoc)
  then show ?thesis using d(7) by (simp add: update_lock_ok sizeof_defs n locked_def add.assoc)
qed

lemma LockRecord_computes:
  assumes "record_lockable x db"
  shows "LockRecord t x db =
    (case grant t (record_lock_words x db) of
       None \<Rightarrow> (moved (nat x + 32) gxDBASE_READ db)\<lparr>gxd_error := gxDBASE_RECORDLOCK_ERROR\<rparr>
     | Some l \<Rightarrow> moved (nat x + 24) gxDBASE_WRITE (locked (nat x + 20) t (lock_value t l) db))"
  using record_lockableD [OF assms]
  by (cases t)
    (simp_all add: LockRecord_def ReadRecordLockHdr_ok [OF assms] record_lock_address_def
      update_record [OF assms] grant_def lock_value_def)

lemma record_words_range:
  assumes "record_lockable x db"
  shows "in_u32 (readers (record_lock_words x db))" "in_u32 (writer (record_lock_words x db))"
  using record_lockableD [OF assms] by (simp_all add: record_lock_words_def word_at_u32)

lemma UnlockRecord_computes:
  assumes "record_lockable x db"
  shows "UnlockRecord t x db =
    (if lock_value t (record_lock_words x db) = 0 then moved (nat x + 32) gxDBASE_READ db
     else moved (nat x + 24) gxDBASE_WRITE
            (locked (nat x + 20) t (lock_value t (release t (record_lock_words x db))) db))"
  using record_lockableD [OF assms] record_words_range [OF assms]
  by (cases t)
    (auto simp add: UnlockRecord_def ReadRecordLockHdr_ok [OF assms] record_lock_address_def
      update_record [OF assms] release_def lock_value_def in_u32_def)

lemma locked_record:
  assumes "record_lockable x db" "in_u32 v"
  shows "record_lockable x (moved p op (locked (nat x + 20) t v db))"
    "record_lock_words x (moved p op (locked (nat x + 20) t v db)) =
      (case t of gxDBASE_WRITELOCK \<Rightarrow> (record_lock_words x db)\<lparr>writer := v\<rparr>
       | gxDBASE_READLOCK \<Rightarrow> (record_lock_words x db)\<lparr>readers := v\<rparr>)"
proof -
  note d = record_lockableD [OF assms(1)]
  have l: "nat x + 20 + 12 \<le> length (dbytes db)" using d(4) by simp
  note w = lock_image_words [OF l assms(2)] and f = lock_image_frame [OF l]
  have "blk (lock_image (nat x + 20) t v (dbytes db)) x = blk (dbytes db) x"
    using f(2) [of "nat x" 20] d(4) by (simp add: blk_def sizeof_defs)
  then show "record_lockable x (moved p op (locked (nat x + 20) t v db))"
    using d w f(1) by (simp add: record_lockable_def)
  have e: "nat x + 20 + 4 = nat x + 24" "nat x + 20 + 8 = nat x + 28" by simp_all
  show "record_lock_words x (moved p op (locked (nat x + 20) t v db)) =
      (case t of gxDBASE_WRITELOCK \<Rightarrow> (record_lock_words x db)\<lparr>writer := v\<rparr>
       | gxDBASE_READLOCK \<Rightarrow> (record_lock_words x db)\<lparr>readers := v\<rparr>)"
    using w(2,3) unfolding e by (cases t) (simp_all add: record_lock_words_def)
qed

lemma record_fields [simp]:
  "record_lock_words x (db\<lparr>gxd_error := e\<rparr>) = record_lock_words x db"
  "record_lock_words x (moved p op db) = record_lock_words x db"
  by (simp_all add: record_lock_words_def)

lemma record_lockable_moved:
  assumes "record_lockable x db"
  shows "record_lockable x (moved p op db)" "record_lockable x ((moved p op db)\<lparr>gxd_error := e\<rparr>)"
  using assms by (simp_all add: record_lockable_def)

interpretation rl: lock_interface "record_lock_words x" "record_lockable x"
  "\<lambda>t. LockRecord t x" "\<lambda>t. UnlockRecord t x" succeeded for x
proof
  fix db t l
  assume ok: "record_lockable x db"
  note r = record_words_range [OF ok]
  show "record_lockable x (LockRecord t x db)"
    using locked_record(1) [OF ok] grant_value(1) [OF _ r(1)] record_lockable_moved [OF ok]
    by (simp add: LockRecord_computes [OF ok] split: option.split)
  show "succeeded (LockRecord t x db) \<and> record_lock_words x (LockRecord t x db) = l"
    if g: "grant t (record_lock_words x db) = Some l"
    using locked_record(2) [OF ok grant_value(1) [OF g r(1)]] grant_value(2) [OF g r(1)]
    by (simp add: LockRecord_computes [OF ok] g succeeded_def)
  show "\<not> succeeded (LockRecord t x db) \<and> record_lock_words x (LockRecord t x db) = record_lock_words x db"
    if "grant t (record_lock_words x db) = None"
    by (simp add: LockRecord_computes [OF ok] that succeeded_def)
  show "record_lockable x (UnlockRecord t x db)"
    using locked_record(1) [OF ok release_value(1) [OF r(1)]] record_lockable_moved [OF ok]
    by (simp add: UnlockRecord_computes [OF ok])
  show "succeeded (UnlockRecord t x db) \<and>
      record_lock_words x (UnlockRecord t x db) = release t (record_lock_words x db)"
    using locked_record(2) [OF ok release_value(1) [OF r(1)]] release_value(2,3) [OF r(1)]
    by (simp add: UnlockRecord_computes [OF ok] succeeded_def)
qed

section \<open>Interleaved calls\<close>

text \<open>
  Two processes with the file open, each with its own object. \<open>lock_step\<close> cuts \<open>LockFile\<close> for a
  write lock at its accesses to the file: read the header and test it, then the three writes of the
  update. A step of client \<open>i\<close> sees the bytes that the other one left.
\<close>

datatype lock_pc = Asking | Granted | Protecting | Writing | Holding | Refused

definition lock_step :: "lock_pc \<times> gxDatabase \<Rightarrow> lock_pc \<times> gxDatabase" where
  "lock_step c =
     (case c of
        (Asking, db) \<Rightarrow>
          (case ReadFileLockHdr new_gxFileLockHeader db of (h, db1) \<Rightarrow>
             if gxd_error db1 \<noteq> gxDBASE_NO_ERROR then (Refused, db1)
             else if file_lock_protect h \<noteq> 0
             then (Refused, db1\<lparr>gxd_error := gxDBASE_FILELOCK_ACCESS_ERROR\<rparr>)
             else if file_read_lock h \<noteq> 0 \<or> file_write_lock h \<noteq> 0
             then (Refused, db1\<lparr>gxd_error := gxDBASE_FILELOCK_ERROR\<rparr>)
             else (Granted, db1))
      | (Granted, db) \<Rightarrow>
          (let db1 = put_lock_word 1 (int sizeof_gxFileHeader) db
           in (if gxd_error db1 \<noteq> gxDBASE_NO_ERROR then Refused else Protecting, db1))
      | (Protecting, db) \<Rightarrow>
          (let db1 = put_lock_word 1 gxCurrAddress (snd (SeekTo (int sizeof_gxFileHeader + 4 * 2) db))
           in (if gxd_error db1 \<noteq> gxDBASE_NO_ERROR then Refused else Writing, db1))
      | (Writing, db) \<Rightarrow>
          (let db1 = put_lock_word 0 (int sizeof_gxFileHeader) db
           in if gxd_error db1 \<noteq> gxDBASE_NO_ERROR then (Refused, db1)
              else (Holding, db1\<lparr>gxd_error := gxDBASE_NO_ERROR\<rparr>))
      | (Holding, db) \<Rightarrow> (Holding, db)
      | (Refused, db) \<Rightarrow> (Refused, db))"

text \<open>Four steps without interruption are a call of \<open>LockFile\<close>.\<close>

lemma lock_steps_are_LockFile:
  assumes "has_file_lock (rev_letter db)"
  shows "snd ((lock_step ^^ 4) (Asking, db)) = LockFile gxDBASE_WRITELOCK db"
  by (simp add: eval_nat_numeral lock_step_def LockFile_def assms update_lock_def Let_def
      split: prod.splits)

type_synonym lock_world = "byte list \<times> (nat \<Rightarrow> lock_pc \<times> gxDatabase)"

definition show_bytes :: "byte list \<Rightarrow> gxDatabase \<Rightarrow> gxDatabase" where
  "show_bytes d db = db\<lparr>fp := map_option (\<lambda>s. s\<lparr>fdata := d\<rparr>) (fp db)\<rparr>"

definition world_step :: "nat \<Rightarrow> lock_world \<Rightarrow> lock_world" where
  "world_step i w =
     (case w of (d, c) \<Rightarrow>
        let r = lock_step (fst (c i), show_bytes d (snd (c i)))
        in (dbytes (snd r), c(i := r)))"

definition run_schedule :: "nat list \<Rightarrow> lock_world \<Rightarrow> lock_world" where
  "run_schedule is w = fold world_step is w"

lemma show_bytes_fields [simp]:
  "readable (show_bytes d db) = readable db" "writable n (show_bytes d db) = writable n db"
  "rev_letter (show_bytes d db) = rev_letter db"
  by (auto simp: show_bytes_def state_defs)

lemma dbytes_show [simp]: "readable db \<Longrightarrow> dbytes (show_bytes d db) = d"
  by (auto simp: show_bytes_def state_defs)

lemma lock_step_ask:
  assumes "file_lockable db" "file_lock_words db = free_lock"
  shows "lock_step (Asking, db) = (Granted, moved 62 gxDBASE_READ db)"
  using assms by (simp add: lock_step_def ReadFileLockHdr_ok free_lock_def)

lemma lock_step_write:
  assumes "writable 62 db"
  shows "lock_step (Granted, db) =
      (Protecting, moved 54 gxDBASE_WRITE (stored 50 (gxUINT32_UnPackBits 1) db))"
    "lock_step (Protecting, db) =
      (Writing, moved 62 gxDBASE_WRITE (stored 58 (gxUINT32_UnPackBits 1) db))"
    "lock_step (Writing, db) =
      (Holding, moved 54 gxDBASE_WRITE (stored 50 (gxUINT32_UnPackBits 0) db))"
proof -
  have w: "writable 54 db" "readable db"
    using writable_mono [OF assms] writable_readable [OF assms] by simp_all
  show "lock_step (Granted, db) =
      (Protecting, moved 54 gxDBASE_WRITE (stored 50 (gxUINT32_UnPackBits 1) db))"
    "lock_step (Protecting, db) =
      (Writing, moved 62 gxDBASE_WRITE (stored 58 (gxUINT32_UnPackBits 1) db))"
    "lock_step (Writing, db) =
      (Holding, moved 54 gxDBASE_WRITE (stored 50 (gxUINT32_UnPackBits 0) db))"
    using assms w by (simp_all add: lock_step_def put_lock_word_def engine_simps sizeof_defs Let_def)
qed

lemma world_step_simp [simp]:
  "world_step i (d, c) =
    (dbytes (snd (lock_step (fst (c i), show_bytes d (snd (c i))))),
     c(i := lock_step (fst (c i), show_bytes d (snd (c i)))))"
  by (simp add: world_step_def Let_def)

lemma file_lockable_show:
  assumes "file_lockable db"
  shows "file_lockable (show_bytes (dbytes db) db)"
    "file_lock_words (show_bytes (dbytes db) db) = file_lock_words db"
  using file_lockableD [OF assms] by (simp_all add: file_lockable_def file_lock_words_def)

section \<open>Properties\<close>

text \<open>
  \<open>LockFile\<close> on a file of revision B or later whose lock protect is clear grants the lock exactly
  when the specification does (a write lock only when nobody holds a lock, a read lock unless
  there is a writer or 2^32-1 readers), sets the lock words as the specification says, reports
  \<open>gxDBASE_FILELOCK_ERROR\<close> otherwise, and changes no other byte of the file.
\<close>

theorem LockFile_grants:
  assumes "file_lockable db"
  shows "(case grant t (file_lock_words db) of
      None \<Rightarrow> gxd_error (LockFile t db) = gxDBASE_FILELOCK_ERROR \<and> dbytes (LockFile t db) = dbytes db
    | Some l \<Rightarrow> gxd_error (LockFile t db) = gxDBASE_NO_ERROR \<and> file_lock_words (LockFile t db) = l) \<and>
    file_lockable (LockFile t db) \<and> length (dbytes (LockFile t db)) = length (dbytes db) \<and>
    (\<forall>q n. q + n \<le> 50 \<or> 62 \<le> q \<longrightarrow> q + n \<le> length (dbytes db) \<longrightarrow>
       bytes_at (dbytes (LockFile t db)) q n = bytes_at (dbytes db) q n)"
proof -
  have l: "50 + 12 \<le> length (dbytes db)" using file_lockableD(4) [OF assms] by simp
  note f = lock_image_frame [OF l, simplified] and g = fl.lock_good [OF assms, of t]
  show ?thesis
  proof (cases "grant t (file_lock_words db)")
    case None
    then show ?thesis using g by (simp add: LockFile_computes [OF assms])
  next
    case (Some l)
    then show ?thesis
      using g f fl.lock_granted [OF assms Some] by (auto simp: LockFile_computes [OF assms] succeeded_def)
  qed
qed

lemma sample_lockable: "file_lockable sample_db" "file_lock_words sample_db = free_lock"
  by code_simp+

theorem LockFile_grants_witness:
  "gxd_error (LockFile gxDBASE_WRITELOCK sample_db) = gxDBASE_NO_ERROR \<and>
   file_lock_words (LockFile gxDBASE_WRITELOCK sample_db) = \<lparr>readers = 0, writer = 1\<rparr>"
  using LockFile_grants [OF sample_lockable(1), of gxDBASE_WRITELOCK]
  by (simp add: sample_lockable(2) grant_def free_lock_def)

text \<open>
  C14: as long as the calls of the clients of a file lock are not interleaved and nobody releases a
  lock that it does not hold, the lock words count the locks that are held, and a write lock
  excludes all others, for any sequence of calls.
\<close>

theorem file_lock_exclusive:
  assumes "lock_run LockFile UnlockFile succeeded
    (\<lambda>db. file_lockable db \<and> file_lock_words db = free_lock) db r w"
  shows "file_lock_words db = \<lparr>readers = int r, writer = int w\<rparr> \<and> (w = 0 \<or> w = 1 \<and> r = 0)"
  using fl.exclusive [OF assms] by simp

theorem file_lock_exclusive_witness:
  "file_lock_words (LockFile gxDBASE_READLOCK sample_db) = \<lparr>readers = 1, writer = 0\<rparr>"
proof -
  have b: "lock_run LockFile UnlockFile succeeded
    (\<lambda>db. file_lockable db \<and> file_lock_words db = free_lock) sample_db 0 0"
    by (rule begin_run) (simp add: sample_lockable)
  have "succeeded (LockFile gxDBASE_READLOCK sample_db)"
    using fl.lock_granted [OF sample_lockable(1), of gxDBASE_READLOCK]
    by (simp add: sample_lockable(2) grant_def free_lock_def)
  from file_lock_exclusive [OF grant_read [OF b this]] show ?thesis by simp
qed

text \<open>The same for the lock of a record, the one of the block at \<open>x\<close>.\<close>

theorem record_lock_exclusive:
  assumes "lock_run (\<lambda>t. LockRecord t x) (\<lambda>t. UnlockRecord t x) succeeded
    (\<lambda>db. record_lockable x db \<and> record_lock_words x db = free_lock) db r w"
  shows "record_lock_words x db = \<lparr>readers = int r, writer = int w\<rparr> \<and> (w = 0 \<or> w = 1 \<and> r = 0)"
  using rl.exclusive [OF assms] by simp

definition record_db :: gxDatabase where
  "record_db =
     sample_db\<lparr>rev_letter := CHR ''C'',
       fp := Some \<lparr>fname = ''a.gxd'',
         fdata = replicate 62 0 @ enc_gxBlockHeader (sample_block 42 gxNormalBlock 0) @
           enc_gxRecordLockHeader new_gxRecordLockHeader @ replicate 10 7,
         fpos = 0, fwritable = True, fcap = 1000\<rparr>\<rparr>"

lemma record_lockable_sample: "record_lockable 62 record_db" "record_lock_words 62 record_db = free_lock"
  by code_simp+

theorem record_lock_exclusive_witness:
  "record_lock_words 62 (LockRecord gxDBASE_WRITELOCK 62 record_db) = \<lparr>readers = 0, writer = 1\<rparr>"
proof -
  have b: "lock_run (\<lambda>t. LockRecord t 62) (\<lambda>t. UnlockRecord t 62) succeeded
    (\<lambda>db. record_lockable 62 db \<and> record_lock_words 62 db = free_lock) record_db 0 0"
    by (rule begin_run) (simp add: record_lockable_sample)
  have "succeeded (LockRecord gxDBASE_WRITELOCK 62 record_db)"
    using rl.lock_granted [OF record_lockable_sample(1), of gxDBASE_WRITELOCK]
    by (simp add: record_lockable_sample(2) grant_def free_lock_def)
  from record_lock_exclusive [OF grant_write [OF b this]] show ?thesis by simp
qed

text \<open>
  The lock protect word does not serialise clients whose calls are interleaved: it is tested
  and set in two accesses, so two clients that both read the header first are both granted the
  exclusive write lock, each with a return code of success.
\<close>

theorem two_writers:
  assumes "file_lockable db" and "file_lock_words db = free_lock"
  shows "\<exists>is. \<forall>i < 2. fst (snd (run_schedule is (dbytes db, \<lambda>i. (Asking, db))) i) = Holding \<and>
    succeeded (snd (snd (run_schedule is (dbytes db, \<lambda>i. (Asking, db))) i))"
proof -
  note d = file_lockableD [OF assms(1)]
  note s = file_lockable_show [OF assms(1)]
  note a = lock_step_ask [OF s(1) s(2) [unfolded assms(2)]]
  have "fst (snd (run_schedule [0, 1, 0, 1, 0, 1, 0, 1] (dbytes db, \<lambda>i. (Asking, db))) i) = Holding \<and>
    succeeded (snd (snd (run_schedule [0, 1, 0, 1, 0, 1, 0, 1] (dbytes db, \<lambda>i. (Asking, db))) i))"
    if "i < 2" for i
    using that d(1,2)
    by (cases i) (simp_all add: run_schedule_def a lock_step_write succeeded_def less_Suc_eq)
  then show ?thesis by blast
qed

theorem two_writers_witness:
  "\<exists>is. fst (snd (run_schedule is (dbytes sample_db, \<lambda>i. (Asking, sample_db))) 0) = Holding \<and>
     fst (snd (run_schedule is (dbytes sample_db, \<lambda>i. (Asking, sample_db))) 1) = Holding"
  using two_writers [OF sample_lockable] by fastforce

text \<open>
  C16: when the lock protect was left set, by a client that stopped in the middle of an update, all
  later calls that lock or unlock the file fail with \<open>gxDBASE_FILELOCK_ACCESS_ERROR\<close> and change
  nothing; \<open>ResetFileLock\<close> frees the lock, whoever held it.
\<close>

theorem lock_protect_left_set:
  assumes "readable db" and "has_file_lock (rev_letter db)" and "62 \<le> length (dbytes db)"
    and "word_at (dbytes db) 50 \<noteq> 0"
  shows "gxd_error (LockFile t db) = gxDBASE_FILELOCK_ACCESS_ERROR \<and> dbytes (LockFile t db) = dbytes db \<and>
    gxd_error (UnlockFile t db) = gxDBASE_FILELOCK_ACCESS_ERROR \<and> dbytes (UnlockFile t db) = dbytes db \<and>
    (writable 62 db \<longrightarrow> succeeded (ResetFileLock db) \<and> file_lockable (ResetFileLock db) \<and>
       file_lock_words (ResetFileLock db) = free_lock)"
proof -
  have r: "ReadFileLockHdr new_gxFileLockHeader db =
    (\<lparr>file_lock_protect = word_at (dbytes db) 50, file_read_lock = word_at (dbytes db) 54,
      file_write_lock = word_at (dbytes db) 58\<rparr>, moved 62 gxDBASE_READ db)"
    using assms(1-3) dec_lock_words(1) [of 50 "dbytes db"]
    by (simp add: ReadFileLockHdr_def engine_simps sizeof_defs)
  have e: "enc_gxFileLockHeader InitFileLockHdr = replicate 12 0" by code_simp
  have z: "gxUINT32_PackBits (replicate 4 0) = 0" by code_simp
  have w: "word_at (put_at (dbytes db) 50 (replicate 12 0)) q = 0" if "q \<in> {50, 54, 58}" for q
  proof -
    have "bytes_at (put_at (dbytes db) 50 (replicate 12 0)) q 4 = bytes_at (replicate 12 0) (q - 50) 4"
      using that by (intro bytes_at_put_inner) auto
    also have "\<dots> = replicate 4 0" using that by (auto simp: bytes_at_def)
    finally show ?thesis by (simp add: word_at_def z)
  qed
  have "succeeded (ResetFileLock db) \<and> file_lockable (ResetFileLock db) \<and>
       file_lock_words (ResetFileLock db) = free_lock" if wr: "writable 62 db"
    using wr assms w
    by (simp add: ResetFileLock_def WriteFileLockHdr_def engine_simps sizeof_defs e succeeded_def
        file_lockable_def file_lock_words_def free_lock_def)
  then show ?thesis using assms r by (simp add: LockFile_def UnlockFile_def)
qed

theorem lock_protect_left_set_witness:
  "gxd_error (LockFile gxDBASE_READLOCK (put_lock_word 1 50 sample_db)) = gxDBASE_FILELOCK_ACCESS_ERROR \<and>
   file_lock_words (ResetFileLock (put_lock_word 1 50 sample_db)) = free_lock"
proof -
  have a: "readable (put_lock_word 1 50 sample_db)" "has_file_lock (rev_letter (put_lock_word 1 50 sample_db))"
    "62 \<le> length (dbytes (put_lock_word 1 50 sample_db))"
    "word_at (dbytes (put_lock_word 1 50 sample_db)) 50 \<noteq> 0"
    "writable 62 (put_lock_word 1 50 sample_db)" by code_simp+
  show ?thesis using lock_protect_left_set [OF a(1-4)] a(5) by blast
qed

end
