(* ===== verification/BtNode.thy ===== *)
theory BtNode
  imports Engine
begin

text \<open>
  The B-tree node of \<open>src/btnode.cpp\<close>, the stack of node addresses of \<open>src/btstack.cpp\<close> and the key of
  \<open>src/include/dbasekey.h\<close>. A node's \<open>key_entries\<close> buffer is the list of its slots, each the
  address of a right child and the bytes of a key; \<open>memmove\<close> always moves whole slots. Slots from
  \<open>key_count\<close> on hold whatever was there before. The comparison of a derived key class is a
  parameter \<open>cmp\<close> (\<open>CompareKey\<close>, negative, zero or positive); the build defines
  \<open>__USE_BINARY_SEARCH__\<close> and \<open>__USE_SINGLE_COMPARE__\<close>.
\<close>

record DatabaseKeyB =
  right_child :: int
  db_key :: "byte list"

type_synonym compare_fun = "byte list \<Rightarrow> byte list \<Rightarrow> int"

definition new_DatabaseKeyB :: "byte list \<Rightarrow> DatabaseKeyB" where
  "new_DatabaseKeyB kptr = \<lparr>right_child = 0, db_key = kptr\<rparr>"

text \<open>\<open>KeySize()\<close> is the same for all keys of a class: the number of bytes of \<open>db_key\<close>.\<close>

definition SizeOfDatabaseKey :: "nat \<Rightarrow> int" where
  "SizeOfDatabaseKey KeySize = int KeySize + 8"

section \<open>The stack of node addresses\<close>

text \<open>
  A \<open>BtreeStack\<close> is a doubly linked list of heap nodes from \<open>head\<close> to \<open>tail\<close>; the address of a heap
  node is never seen by its users, so a stack is the list of its values.
\<close>

type_synonym BtreeStack = "int list"

definition Push :: "int \<Rightarrow> BtreeStack \<Rightarrow> BtreeStack" where
  "Push node_address s = node_address # s"

definition Pop :: "BtreeStack \<Rightarrow> int \<times> BtreeStack" where
  "Pop s = (case s of [] \<Rightarrow> (0, []) | n # s' \<Rightarrow> (n, s'))"

definition Insert_queue :: "int \<Rightarrow> BtreeStack \<Rightarrow> BtreeStack" where
  "Insert_queue node_address s = s @ [node_address]"

definition Extract :: "BtreeStack \<Rightarrow> int \<times> BtreeStack" where
  "Extract s = (case s of [] \<Rightarrow> (0, []) | n # s' \<Rightarrow> (n, s'))"

section \<open>The node\<close>

record BtreeNode =
  node_order :: int
  key_size :: int
  node_address :: int
  key_count :: int
  left_child :: int
  key_entries :: "DatabaseKeyB list"

text \<open>The constructor. The new buffer is not initialised; the model has zeros there.\<close>

definition blank_slot :: "int \<Rightarrow> DatabaseKeyB" where
  "blank_slot sz = \<lparr>right_child = 0, db_key = replicate (nat sz - 8) 0\<rparr>"

definition new_BtreeNode :: "int \<Rightarrow> int \<Rightarrow> BtreeNode" where
  "new_BtreeNode dbkey_size order =
     (let order' = (if order < 5 then 5 else order)
      in \<lparr>node_order = order' - 1, key_size = dbkey_size, node_address = -1, key_count = 0,
          left_child = 0, key_entries = replicate (nat (order' - 1)) (blank_slot dbkey_size)\<rparr>)"

text \<open>
  The slot at a location. A location outside the buffer is a read outside the allocated memory,
  for which the model has an empty slot.
\<close>

definition slot :: "BtreeNode \<Rightarrow> int \<Rightarrow> DatabaseKeyB" where
  "slot n loc =
     (if 0 \<le> loc \<and> nat loc < length (key_entries n) then key_entries n ! nat loc
      else \<lparr>right_child = 0, db_key = []\<rparr>)"

definition GetBranch :: "BtreeNode \<Rightarrow> int \<Rightarrow> int" where
  "GetBranch n key_location =
     (if key_location < 0 then left_child n else right_child (slot n key_location))"

definition LoadKey :: "BtreeNode \<Rightarrow> int \<Rightarrow> DatabaseKeyB" where
  "LoadKey n key_location = slot n key_location"

definition IsEmpty :: "BtreeNode \<Rightarrow> bool" where "IsEmpty n \<longleftrightarrow> key_count n \<le> 0"

definition IsFull :: "BtreeNode \<Rightarrow> bool" where "IsFull n \<longleftrightarrow> key_count n \<ge> node_order n"

definition HasFew :: "BtreeNode \<Rightarrow> bool" where "HasFew n \<longleftrightarrow> key_count n < node_order n div 2"

definition HasMany :: "BtreeNode \<Rightarrow> bool" where "HasMany n \<longleftrightarrow> key_count n > node_order n div 2"

definition HighestKey :: "BtreeNode \<Rightarrow> int" where "HighestKey n = key_count n - 1"

text \<open>
  The binary search: the return value, the key location and the compare key as it was left.
  \<open>nLeft + nRight\<close> is not negative inside the loop, where \<open>div\<close> is the division of C.
\<close>

function find_key_loop ::
  "compare_fun \<Rightarrow> DatabaseKeyB \<Rightarrow> BtreeNode \<Rightarrow> int \<Rightarrow> int \<Rightarrow> DatabaseKeyB \<Rightarrow> int \<times> int \<times> DatabaseKeyB" where
  "find_key_loop cmp key n nLeft nRight compare_key =
     (if nRight \<ge> nLeft then
        (let key_location = (nLeft + nRight) div 2;
             ck = slot n key_location;
             rv = cmp (db_key key) (db_key ck)
         in if rv = 0 then (0, key_location, ck)
            else if rv > 0 then find_key_loop cmp key n (key_location + 1) nRight ck
            else find_key_loop cmp key n nLeft (key_location - 1) ck)
      else (if nRight < 0 then -1 else 1, nRight, compare_key))"
  by pat_completeness auto
termination
  by (relation "measure (\<lambda>(cmp, key, n, l, r, ck). nat (r - l + 1))") auto

declare find_key_loop.simps [simp del]

definition FindKeyLocation ::
  "compare_fun \<Rightarrow> DatabaseKeyB \<Rightarrow> DatabaseKeyB \<Rightarrow> BtreeNode \<Rightarrow> int \<times> int \<times> DatabaseKeyB" where
  "FindKeyLocation cmp key compare_key n = find_key_loop cmp key n 0 (key_count n - 1) compare_key"

text \<open>The linear search that is compiled without \<open>__USE_BINARY_SEARCH__\<close>.\<close>

fun find_key_linear ::
  "compare_fun \<Rightarrow> DatabaseKeyB \<Rightarrow> BtreeNode \<Rightarrow> nat \<Rightarrow> DatabaseKeyB \<Rightarrow> int \<times> int \<times> DatabaseKeyB" where
  "find_key_linear cmp key n 0 compare_key = (-1, -1, compare_key)"
| "find_key_linear cmp key n (Suc i) compare_key =
     (let ck = slot n (int i); rv = cmp (db_key key) (db_key ck)
      in if rv > 0 then (1, int i, ck)
         else if rv = 0 then (0, int i, ck)
         else find_key_linear cmp key n i ck)"

definition FindKeyLocation_linear ::
  "compare_fun \<Rightarrow> DatabaseKeyB \<Rightarrow> DatabaseKeyB \<Rightarrow> BtreeNode \<Rightarrow> int \<times> int \<times> DatabaseKeyB" where
  "FindKeyLocation_linear cmp key compare_key n =
     find_key_linear cmp key n (nat (key_count n)) compare_key"

section \<open>Changing a node\<close>

text \<open>\<open>memmove\<close> of whole slots to the slot \<open>i\<close>.\<close>

definition move_in :: "DatabaseKeyB list \<Rightarrow> nat \<Rightarrow> DatabaseKeyB list \<Rightarrow> DatabaseKeyB list" where
  "move_in xs i ys = take i xs @ ys @ drop (i + length ys) xs"

definition slots_at :: "BtreeNode \<Rightarrow> int \<Rightarrow> int \<Rightarrow> DatabaseKeyB list" where
  "slots_at n loc cnt = take (nat cnt) (drop (nat loc) (key_entries n))"

text \<open>Splitting: the node and the other node afterwards.\<close>

definition SplitNode :: "BtreeNode \<Rightarrow> BtreeNode \<Rightarrow> int \<Rightarrow> BtreeNode \<times> BtreeNode" where
  "SplitNode n node split_location =
     (let kc = to_u32 (key_count n - split_location)
      in (n\<lparr>key_count := to_u32 split_location\<rparr>,
          node\<lparr>key_count := kc,
               key_entries := move_in (key_entries node) 0 (slots_at n split_location kc)\<rparr>))"

definition InsertDatabaseKey_node :: "BtreeNode \<Rightarrow> DatabaseKeyB \<Rightarrow> int \<Rightarrow> BtreeNode" where
  "InsertDatabaseKey_node n key key_location =
     n\<lparr>key_count := to_u32 (key_count n + 1),
       key_entries := move_in (move_in (key_entries n) (nat key_location + 1)
                        (slots_at n key_location (key_count n - key_location))) (nat key_location) [key]\<rparr>"

definition AppendDatabaseKey :: "BtreeNode \<Rightarrow> DatabaseKeyB \<Rightarrow> BtreeNode" where
  "AppendDatabaseKey n key = InsertDatabaseKey_node n key (key_count n)"

definition OverWriteDatabaseKey :: "BtreeNode \<Rightarrow> DatabaseKeyB \<Rightarrow> int \<Rightarrow> BtreeNode" where
  "OverWriteDatabaseKey n key key_location =
     n\<lparr>key_entries := move_in (key_entries n) (nat key_location) [key]\<rparr>"

definition MergeNode :: "BtreeNode \<Rightarrow> BtreeNode \<Rightarrow> BtreeNode" where
  "MergeNode n node =
     n\<lparr>key_count := to_u32 (key_count n + key_count node),
       key_entries := move_in (key_entries n) (nat (key_count n)) (slots_at node 0 (key_count node))\<rparr>"

definition DeleteDatabaseKey_node :: "BtreeNode \<Rightarrow> int \<Rightarrow> BtreeNode" where
  "DeleteDatabaseKey_node n key_location =
     (let kc = to_u32 (key_count n - 1)
      in n\<lparr>key_count := kc,
           key_entries := move_in (key_entries n) (nat key_location)
                            (slots_at n (key_location + 1) (kc - key_location))\<rparr>)"

definition SizeOfBtreeNode :: "BtreeNode \<Rightarrow> int" where
  "SizeOfBtreeNode n = key_size n * node_order n + 4 + 8"

end
