(* ===== verification/RdKey.thy ===== *)
theory RdKey
  imports BtNode
begin

text \<open>
  The two key classes the library derives from \<open>DatabaseKeyB\<close>: \<open>gxrdDatabaseKey\<close> of
  \<open>src/include/gxrdbhdr.h\<close> and \<open>src/src/gxrdbhdr.cpp\<close>, whose key is 16 bytes long, and the template
  \<open>InfoHogKey\<close> of \<open>src/include/infohog.h\<close>, whose parameter \<open>TYPE\<close> brings its own operators. Each has
  the two operators of the dual comparison and the single comparison \<open>CompareKey\<close>. The locale
  \<open>key_order\<close> is what the B-tree needs of a comparison.
\<close>

section \<open>What a B-tree needs of a comparison\<close>

locale key_order =
  fixes cmp :: "'k \<Rightarrow> 'k \<Rightarrow> int"
  assumes cmp_flip: "0 < cmp a b \<longleftrightarrow> cmp b a < 0"
    and cmp_trans: "cmp a b \<le> 0 \<Longrightarrow> cmp b c \<le> 0 \<Longrightarrow> cmp a c \<le> 0"

begin

lemma zero_sym: "cmp a b = 0 \<longleftrightarrow> cmp b a = 0"
  using cmp_flip [of a b] cmp_flip [of b a] by auto

lemma cmp_self [simp]: "cmp a a = 0"
  using cmp_flip [of a a] by auto

lemma less_le_trans: "cmp a b < 0 \<Longrightarrow> cmp b c \<le> 0 \<Longrightarrow> cmp a c < 0"
  by (meson cmp_flip cmp_trans linorder_not_le order.strict_implies_order)

lemma le_less_trans: "cmp a b \<le> 0 \<Longrightarrow> cmp b c < 0 \<Longrightarrow> cmp a c < 0"
  by (meson cmp_flip cmp_trans linorder_not_le order.strict_implies_order)

lemma less_trans: "cmp a b < 0 \<Longrightarrow> cmp b c < 0 \<Longrightarrow> cmp a c < 0"
  using less_le_trans [of a b c] by simp

lemma zero_less: "cmp a b = 0 \<Longrightarrow> cmp b c < 0 \<Longrightarrow> cmp a c < 0"
  using le_less_trans [of a b c] by simp

lemma less_zero: "cmp a b < 0 \<Longrightarrow> cmp b c = 0 \<Longrightarrow> cmp a c < 0"
  using less_le_trans [of a b c] by simp

lemma not_both: "cmp a b < 0 \<Longrightarrow> \<not> cmp b a < 0"
  using cmp_flip [of b a] by auto

end

section \<open>The key of the relational database\<close>

record gxrdDatabaseKey_t =
  rd_k :: int
  rd_tid :: int
  rd_kid :: int

definition rd_KeySize :: nat where "rd_KeySize = 16"

definition enc_gxrdDatabaseKey_t :: "gxrdDatabaseKey_t \<Rightarrow> byte list" where
  "enc_gxrdDatabaseKey_t x =
     gxUINT32_UnPackBits (rd_k x) @ gxUINT32_UnPackBits (rd_tid x) @ gxINT64_UnPackBits (rd_kid x)"

definition dec_gxrdDatabaseKey_t :: "byte list \<Rightarrow> gxrdDatabaseKey_t" where
  "dec_gxrdDatabaseKey_t bs =
     \<lparr>rd_k = gxUINT32_PackBits (bytes_at bs 0 4), rd_tid = gxUINT32_PackBits (bytes_at bs 4 4),
      rd_kid = gxINT64_PackBits (bytes_at bs 8 8)\<rparr>"

definition rd_equal :: "bool \<Rightarrow> gxrdDatabaseKey_t \<Rightarrow> gxrdDatabaseKey_t \<Rightarrow> bool" where
  "rd_equal allow_dup_names a b \<longleftrightarrow>
     (if \<not> allow_dup_names then rd_k a = rd_k b else rd_k a = rd_k b \<and> rd_kid a = rd_kid b)"

definition rd_greater :: "bool \<Rightarrow> gxrdDatabaseKey_t \<Rightarrow> gxrdDatabaseKey_t \<Rightarrow> bool" where
  "rd_greater allow_dup_names a b \<longleftrightarrow>
     (if \<not> allow_dup_names then rd_k a > rd_k b
      else if rd_k a > rd_k b then True
      else if rd_k a < rd_k b then False
      else rd_kid a > rd_kid b)"

definition rd_CompareKey :: "bool \<Rightarrow> gxrdDatabaseKey_t \<Rightarrow> gxrdDatabaseKey_t \<Rightarrow> int" where
  "rd_CompareKey allow_dup_names a b =
     (let rv = (if rd_k a = rd_k b then 0 else if rd_k a > rd_k b then 1 else -1)
      in if \<not> allow_dup_names then rv
         else if rv = 0 \<and> rd_kid a > rd_kid b then 1
         else if rv = 0 \<and> rd_kid a < rd_kid b then -1
         else rv)"

text \<open>The comparison of two keys as a node holds them.\<close>

definition rd_compare :: "bool \<Rightarrow> compare_fun" where
  "rd_compare dup x y = rd_CompareKey dup (dec_gxrdDatabaseKey_t x) (dec_gxrdDatabaseKey_t y)"

interpretation rd_key: key_order "rd_CompareKey dup" for dup
  by unfold_locales (auto simp: rd_CompareKey_def Let_def split: if_splits)

interpretation rd: key_order "rd_compare dup" for dup
  by unfold_locales (auto simp: rd_compare_def rd_key.cmp_flip intro: rd_key.cmp_trans)

section \<open>The key of an InfoHog database\<close>

record 'name InfoHogKey_t =
  object_name :: 'name
  object_id :: int
  class_id :: int

definition ih_equal ::
  "('n \<Rightarrow> 'n \<Rightarrow> bool) \<Rightarrow> bool \<Rightarrow> 'n InfoHogKey_t \<Rightarrow> 'n InfoHogKey_t \<Rightarrow> bool" where
  "ih_equal eq allow_dup_names a b \<longleftrightarrow>
     (if \<not> allow_dup_names then eq (object_name a) (object_name b)
      else eq (object_name a) (object_name b) \<and> object_id a = object_id b)"

definition ih_greater ::
  "('n \<Rightarrow> 'n \<Rightarrow> bool) \<Rightarrow> bool \<Rightarrow> 'n InfoHogKey_t \<Rightarrow> 'n InfoHogKey_t \<Rightarrow> bool" where
  "ih_greater gt allow_dup_names a b \<longleftrightarrow>
     (if \<not> allow_dup_names then gt (object_name a) (object_name b)
      else gt (object_name a) (object_name b) \<and> object_id a > object_id b)"

definition ih_CompareKey ::
  "('n \<Rightarrow> 'n \<Rightarrow> bool) \<Rightarrow> ('n \<Rightarrow> 'n \<Rightarrow> bool) \<Rightarrow> bool \<Rightarrow> 'n InfoHogKey_t \<Rightarrow> 'n InfoHogKey_t \<Rightarrow> int" where
  "ih_CompareKey gt eq allow_dup_names a b =
     (let rv = (if eq (object_name a) (object_name b) then 0
                else if gt (object_name a) (object_name b) then 1 else -1)
      in if \<not> allow_dup_names then rv
         else if rv = 0 \<and> object_id a > object_id b then 1
         else if rv = 0 \<and> object_id a < object_id b then -1
         else rv)"

text \<open>
  With the operators of an ordered type for \<open>TYPE\<close>, such as \<open>std::string\<close> or an integer.
\<close>

interpretation ih_key: key_order "ih_CompareKey (\<lambda>x y :: 'n :: linorder. x > y) (=) dup" for dup
  by unfold_locales (auto simp: ih_CompareKey_def Let_def split: if_splits)

end
