(* ===== verification/BtOrder.thy ===== *)
theory BtOrder
  imports RdKey
begin

text \<open>
  The ordered key list of a node and the search in it: the position that the binary search of
  \<open>FindKeyLocation\<close> computes is the number of smaller keys in the node, and the linear search that
  is compiled without \<open>__USE_BINARY_SEARCH__\<close> agrees with it. The laws of the comparison are those
  of the locale \<open>key_order\<close>.
\<close>

definition entries :: "BtreeNode \<Rightarrow> DatabaseKeyB list" where
  "entries n = take (nat (key_count n)) (key_entries n)"

text \<open>A node whose key count fits its buffer.\<close>

definition node_ok :: "BtreeNode \<Rightarrow> bool" where
  "node_ok n \<longleftrightarrow> 0 \<le> key_count n \<and> key_count n \<le> int (length (key_entries n))"

definition keys_sorted :: "compare_fun \<Rightarrow> DatabaseKeyB list \<Rightarrow> bool" where
  "keys_sorted cmp es \<longleftrightarrow> sorted_wrt (\<lambda>a b. cmp (db_key a) (db_key b) < 0) es"

text \<open>The number of keys at the front that are less than \<open>k\<close>.\<close>

definition keys_below :: "compare_fun \<Rightarrow> byte list \<Rightarrow> DatabaseKeyB list \<Rightarrow> nat" where
  "keys_below cmp k es = length (takeWhile (\<lambda>e. cmp (db_key e) k < 0) es)"

text \<open>What \<open>FindKeyLocation\<close> promises: its return value and the key location.\<close>

definition key_location_of :: "compare_fun \<Rightarrow> byte list \<Rightarrow> DatabaseKeyB list \<Rightarrow> int \<times> int" where
  "key_location_of cmp k es =
     (let m = keys_below cmp k es
      in if m < length es \<and> cmp k (db_key (es ! m)) = 0 then (0, int m)
         else (if m = 0 then -1 else 1, int m - 1))"

lemma length_entries [simp]: "node_ok n \<Longrightarrow> length (entries n) = nat (key_count n)"
  by (auto simp: entries_def node_ok_def)

lemma slot_entries: "node_ok n \<Longrightarrow> 0 \<le> i \<Longrightarrow> i < key_count n \<Longrightarrow> slot n i = entries n ! nat i"
  by (auto simp: entries_def node_ok_def slot_def)

lemma keys_below_le: "keys_below cmp k es \<le> length es"
  by (simp add: keys_below_def length_takeWhile_le)

lemma keys_below_eq:
  assumes "m \<le> length es" and "\<And>i. i < m \<Longrightarrow> cmp (db_key (es ! i)) k < 0"
    and "m < length es \<Longrightarrow> \<not> cmp (db_key (es ! m)) k < 0"
  shows "keys_below cmp k es = m"
proof -
  have "takeWhile (\<lambda>e. cmp (db_key e) k < 0) es = take m es"
    by (rule takeWhile_eq_take_P_nth) (use assms in auto)
  then show ?thesis using assms(1) by (simp add: keys_below_def)
qed

lemma keys_sortedD: "keys_sorted cmp es \<Longrightarrow> i < j \<Longrightarrow> j < length es \<Longrightarrow> cmp (db_key (es ! i)) (db_key (es ! j)) < 0"
  by (simp add: keys_sorted_def sorted_wrt_iff_nth_less)

section \<open>The searches under the laws of the comparison\<close>

locale key_search = key_order cmp for cmp :: "byte list \<Rightarrow> byte list \<Rightarrow> int"

begin

text \<open>The position of a key once everything to its left and right is known.\<close>

lemma location_found:
  assumes "keys_sorted cmp es" "i < length es" "cmp k (db_key (es ! i)) = 0"
  shows "key_location_of cmp k es = (0, int i)"
proof -
  have "keys_below cmp k es = i"
  proof (rule keys_below_eq)
    show "i \<le> length es" using assms(2) by simp
    show "cmp (db_key (es ! j)) k < 0" if "j < i" for j
      using less_zero [OF keys_sortedD [OF assms(1) that assms(2)]] assms(3) zero_sym by simp
    show "\<not> cmp (db_key (es ! i)) k < 0" using assms(3) zero_sym [of k] by simp
  qed
  then show ?thesis using assms by (simp add: key_location_of_def)
qed

lemma location_between:
  assumes "m \<le> length es" and "\<And>i. i < m \<Longrightarrow> 0 < cmp k (db_key (es ! i))"
    and "m < length es \<Longrightarrow> cmp k (db_key (es ! m)) < 0"
  shows "key_location_of cmp k es = (if m = 0 then -1 else 1, int m - 1)"
proof -
  have "keys_below cmp k es = m"
    using assms cmp_flip not_both by (intro keys_below_eq) auto
  then show ?thesis using assms(3) by (auto simp: key_location_of_def)
qed

lemma greater_left:
  assumes "keys_sorted cmp es" "j < length es" "0 < cmp k (db_key (es ! j))" "i \<le> j"
  shows "0 < cmp k (db_key (es ! i))"
proof (cases "i = j")
  case False
  then have "cmp (db_key (es ! i)) (db_key (es ! j)) < 0" using assms keys_sortedD by simp
  then show ?thesis using less_trans assms(3) cmp_flip by blast
qed (use assms in simp)

lemma less_right:
  assumes "keys_sorted cmp es" "i < length es" "cmp k (db_key (es ! j)) < 0" "j \<le> i"
  shows "cmp k (db_key (es ! i)) < 0"
proof (cases "i = j")
  case False
  then have "cmp (db_key (es ! j)) (db_key (es ! i)) < 0" using assms keys_sortedD by simp
  then show ?thesis using less_trans assms(3) by blast
qed (use assms in simp)

lemma find_key_loop_spec:
  assumes "node_ok n" "keys_sorted cmp (entries n)"
    and "0 \<le> l" "r < key_count n" "l \<le> r + 1"
    and "\<forall>i < nat l. 0 < cmp (db_key key) (db_key (entries n ! i))"
    and "\<forall>i < nat (key_count n). r < int i \<longrightarrow> cmp (db_key key) (db_key (entries n ! i)) < 0"
  shows "\<exists>ck1. (\<exists>rv loc. find_key_loop cmp key n l r ck = (rv, loc, ck1) \<and>
      key_location_of cmp (db_key key) (entries n) = (rv, loc) \<and> (rv = 0 \<longrightarrow> ck1 = slot n loc))"
  using assms(3-)
proof (induction "nat (r - l + 1)" arbitrary: l r ck rule: less_induct)
  case less
  let ?es = "entries n" and ?k = "db_key key"
  have len: "length ?es = nat (key_count n)" using assms(1) by simp
  show ?case
  proof (cases "r \<ge> l")
    case False
    then have "l = r + 1" using less.prems by simp
    then have "key_location_of cmp ?k ?es = (if nat l = 0 then -1 else 1, int (nat l) - 1)"
      using less.prems len by (intro location_between) auto
    then show ?thesis
      using False less.prems \<open>l = r + 1\<close> by (simp add: find_key_loop.simps)
  next
    case True
    let ?m = "(l + r) div 2"
    have m: "l \<le> ?m" "?m \<le> r" "0 \<le> ?m" "?m < key_count n" using True less.prems by auto
    then have sl: "slot n ?m = ?es ! nat ?m" and lt: "nat ?m < length ?es"
      using assms(1) slot_entries len by auto
    let ?rv = "cmp ?k (db_key (slot n ?m))"
    consider "?rv = 0" | "?rv > 0" | "?rv < 0" by linarith
    then show ?thesis
    proof cases
      case 1
      then show ?thesis
        using True m location_found [OF assms(2) lt] sl by (simp add: find_key_loop.simps Let_def)
    next
      case 2
      have "\<forall>i < nat (?m + 1). 0 < cmp ?k (db_key (?es ! i))"
        using greater_left [OF assms(2) lt] 2 sl m by auto
      then show ?thesis
        using less.hyps [of r "?m + 1" "slot n ?m"] less.prems m 2 True
        by (simp add: find_key_loop.simps [of cmp key n l] Let_def)
    next
      case 3
      have "\<forall>i < nat (key_count n). ?m - 1 < int i \<longrightarrow> cmp ?k (db_key (?es ! i)) < 0"
        using less_right [OF assms(2), of _ ?k "nat ?m"] 3 sl m len by auto
      then show ?thesis
        using less.hyps [of "?m - 1" l "slot n ?m"] less.prems m 3 True
        by (simp add: find_key_loop.simps [of cmp key n l] Let_def)
    qed
  qed
qed

lemma FindKeyLocation_spec:
  assumes "node_ok n" "keys_sorted cmp (entries n)"
    and "FindKeyLocation cmp key ck n = (rv, loc, ck1)"
  shows "key_location_of cmp (db_key key) (entries n) = (rv, loc)" "rv = 0 \<Longrightarrow> ck1 = slot n loc"
proof -
  have "\<forall>i < nat (key_count n). key_count n - 1 < int i \<longrightarrow> cmp (db_key key) (db_key (entries n ! i)) < 0"
    by auto
  then have "\<exists>ck1 rv loc. find_key_loop cmp key n 0 (key_count n - 1) ck = (rv, loc, ck1) \<and>
      key_location_of cmp (db_key key) (entries n) = (rv, loc) \<and> (rv = 0 \<longrightarrow> ck1 = slot n loc)"
    using find_key_loop_spec [OF assms(1,2), of 0 "key_count n - 1" key ck] assms(1)
    by (auto simp: node_ok_def)
  then show "key_location_of cmp (db_key key) (entries n) = (rv, loc)" "rv = 0 \<Longrightarrow> ck1 = slot n loc"
    using assms(3) by (auto simp: FindKeyLocation_def)
qed

lemma find_key_linear_spec:
  assumes "node_ok n" "keys_sorted cmp (entries n)" "m \<le> nat (key_count n)"
    and "\<forall>i < nat (key_count n). m \<le> i \<longrightarrow> cmp (db_key key) (db_key (entries n ! i)) < 0"
  shows "\<exists>ck1. (\<exists>rv loc. find_key_linear cmp key n m ck = (rv, loc, ck1) \<and>
      key_location_of cmp (db_key key) (entries n) = (rv, loc))"
  using assms(3-)
proof (induction m arbitrary: ck)
  case 0
  then have "key_location_of cmp (db_key key) (entries n) = (-1, -1)"
    using location_between [of 0 "entries n" "db_key key"] assms(1) by simp
  then show ?case by simp
next
  case (Suc m)
  let ?es = "entries n" and ?k = "db_key key"
  have lt: "m < length ?es" using Suc.prems assms(1) by simp
  have sl: "slot n (int m) = ?es ! m" using Suc.prems assms(1) slot_entries [of n "int m"] by simp
  consider "cmp ?k (db_key (?es ! m)) > 0" | "cmp ?k (db_key (?es ! m)) = 0"
    | "cmp ?k (db_key (?es ! m)) < 0" by linarith
  then show ?case
  proof cases
    case 1
    then have "key_location_of cmp ?k ?es = (if Suc m = 0 then -1 else 1, int (Suc m) - 1)"
      using lt Suc.prems assms(1) greater_left [OF assms(2) lt] by (intro location_between) auto
    then show ?thesis using 1 sl by (simp add: Let_def)
  next
    case 2
    then show ?thesis using location_found [OF assms(2) lt] sl by (simp add: Let_def)
  next
    case 3
    have "\<forall>i < nat (key_count n). m \<le> i \<longrightarrow> cmp ?k (db_key (?es ! i)) < 0"
      using Suc.prems(2) 3 by (metis Suc_leI le_eq_less_or_eq)
    note IH = Suc.IH [OF _ this, of "slot n (int m)"]
    show ?thesis using IH Suc.prems(1) 3 by (simp add: Let_def sl)
  qed
qed

lemma FindKeyLocation_linear_spec:
  assumes "node_ok n" "keys_sorted cmp (entries n)"
    and "FindKeyLocation_linear cmp key ck n = (rv, loc, ck1)"
  shows "key_location_of cmp (db_key key) (entries n) = (rv, loc)"
  using find_key_linear_spec [OF assms(1,2), of "nat (key_count n)" key ck] assms(3)
  by (auto simp: FindKeyLocation_linear_def)

end

interpretation rd_node: key_search "rd_compare dup" for dup
  by unfold_locales

end
