(* ===== verification/BtNodeOps.thy ===== *)
theory BtNodeOps
  imports BtOrder
begin

text \<open>
  The effect of the node operations on the list of entries that are in use: what \<open>memmove\<close> does
  to the buffer is insertion, deletion, replacement, splitting and concatenation of that list, as
  long as the buffer has room.
\<close>

named_theorems node_simps \<open>the entries of a node after an operation\<close>

text \<open>A node whose buffer has the size the constructor gives it.\<close>

definition buffer_ok :: "BtreeNode \<Rightarrow> bool" where
  "buffer_ok n \<longleftrightarrow>
     0 \<le> key_count n \<and> key_count n \<le> node_order n \<and> int (length (key_entries n)) = node_order n \<and>
     node_order n < 2 ^ 32"

lemma buffer_node_ok [simp]: "buffer_ok n \<Longrightarrow> node_ok n"
  by (simp add: buffer_ok_def node_ok_def)

lemma length_move_in [simp]: "i + length ys \<le> length xs \<Longrightarrow> length (move_in xs i ys) = length xs"
  by (simp add: move_in_def)

lemma take_move_in: "i \<le> length xs \<Longrightarrow> take (i + length ys) (move_in xs i ys) = take i xs @ ys"
  by (simp add: move_in_def)

lemma move_in_shift:
  assumes "i \<le> c" "c < length xs"
  shows "take (Suc c) (move_in (move_in xs (Suc i) (take (c - i) (drop i xs))) i [x]) =
         take i xs @ x # drop i (take c xs)"
  using assms by (simp add: move_in_def take_drop min_def Suc_diff_le)

lemma length_shift:
  "i \<le> c \<Longrightarrow> c < length xs \<Longrightarrow>
     length (move_in (move_in xs (Suc i) (take (c - i) (drop i xs))) i [x]) = length xs"
  by (simp add: move_in_def)

lemma move_in_close:
  assumes "i < c" "c \<le> length xs"
  shows "take (c - 1) (move_in xs i (take (c - 1 - i) (drop (i + 1) xs))) = take i xs @ drop (Suc i) (take c xs)"
proof -
  have "i \<le> c - 1" using assms by simp
  then show ?thesis using assms by (simp add: move_in_def take_drop min_absorb2)
qed

lemma length_close:
  "i < c \<Longrightarrow> c \<le> length xs \<Longrightarrow>
     length (move_in xs i (take (c - 1 - i) (drop (i + 1) xs))) = length xs"
  by (simp add: move_in_def)

lemma insert_entries [node_simps]:
  assumes "buffer_ok n" "0 \<le> loc" "loc \<le> key_count n" "\<not> IsFull n"
  shows "entries (InsertDatabaseKey_node n k loc) = take (nat loc) (entries n) @ k # drop (nat loc) (entries n)"
    and "buffer_ok (InsertDatabaseKey_node n k loc)"
    and "key_count (InsertDatabaseKey_node n k loc) = key_count n + 1"
proof -
  have k: "to_u32 (key_count n + 1) = key_count n + 1" and c: "nat (key_count n) < length (key_entries n)"
    using assms by (auto simp: buffer_ok_def IsFull_def)
  have i: "nat loc \<le> nat (key_count n)" "nat (key_count n - loc) = nat (key_count n) - nat loc"
    "nat (key_count n + 1) = Suc (nat (key_count n))" "nat loc + 1 = Suc (nat loc)"
    using assms by auto
  show "key_count (InsertDatabaseKey_node n k loc) = key_count n + 1"
    by (simp add: InsertDatabaseKey_node_def k)
  show "entries (InsertDatabaseKey_node n k loc) = take (nat loc) (entries n) @ k # drop (nat loc) (entries n)"
    using i move_in_shift [OF i(1) c, of k]
    by (simp add: InsertDatabaseKey_node_def entries_def slots_at_def k min_def)
  show "buffer_ok (InsertDatabaseKey_node n k loc)"
    using assms i length_shift [OF i(1) c]
    by (auto simp: InsertDatabaseKey_node_def buffer_ok_def slots_at_def IsFull_def k)
qed

lemma append_entries [node_simps]:
  assumes "buffer_ok n" "\<not> IsFull n"
  shows "entries (AppendDatabaseKey n k) = entries n @ [k]"
    and "buffer_ok (AppendDatabaseKey n k)"
    and "key_count (AppendDatabaseKey n k) = key_count n + 1"
  using insert_entries [OF assms(1) _ order.refl assms(2), of k] assms(1)
  by (auto simp: AppendDatabaseKey_def buffer_ok_def)

lemma delete_entries [node_simps]:
  assumes "buffer_ok n" "0 \<le> loc" "loc < key_count n"
  shows "entries (DeleteDatabaseKey_node n loc) = take (nat loc) (entries n) @ drop (Suc (nat loc)) (entries n)"
    and "buffer_ok (DeleteDatabaseKey_node n loc)"
    and "key_count (DeleteDatabaseKey_node n loc) = key_count n - 1"
proof -
  have k: "to_u32 (key_count n - 1) = key_count n - 1" and c: "nat (key_count n) \<le> length (key_entries n)"
    using assms by (auto simp: buffer_ok_def)
  have i: "nat loc < nat (key_count n)" "nat (key_count n - 1 - loc) = nat (key_count n) - 1 - nat loc"
    "nat (key_count n - 1) = nat (key_count n) - 1" "nat (loc + 1) = nat loc + 1"
    using assms by auto
  show "key_count (DeleteDatabaseKey_node n loc) = key_count n - 1"
    by (simp add: DeleteDatabaseKey_node_def k Let_def)
  show "entries (DeleteDatabaseKey_node n loc) = take (nat loc) (entries n) @ drop (Suc (nat loc)) (entries n)"
    using i move_in_close [OF i(1) c]
    by (simp add: DeleteDatabaseKey_node_def entries_def slots_at_def k Let_def min_absorb1)
  show "buffer_ok (DeleteDatabaseKey_node n loc)"
    using assms i length_close [OF i(1) c]
    by (auto simp: DeleteDatabaseKey_node_def buffer_ok_def slots_at_def k Let_def)
qed

lemma overwrite_entries [node_simps]:
  assumes "buffer_ok n" "0 \<le> loc" "loc < key_count n"
  shows "entries (OverWriteDatabaseKey n k loc) = (entries n)[nat loc := k]"
    and "buffer_ok (OverWriteDatabaseKey n k loc)"
    and "key_count (OverWriteDatabaseKey n k loc) = key_count n"
proof -
  have i: "nat loc < nat (key_count n)" "nat (key_count n) \<le> length (key_entries n)"
    using assms by (auto simp: buffer_ok_def)
  show "key_count (OverWriteDatabaseKey n k loc) = key_count n" by (simp add: OverWriteDatabaseKey_def)
  show "buffer_ok (OverWriteDatabaseKey n k loc)"
    using assms i by (auto simp: OverWriteDatabaseKey_def buffer_ok_def)
  have "move_in (key_entries n) (nat loc) [k] = (key_entries n)[nat loc := k]"
    by (subst upd_conv_take_nth_drop) (use i in \<open>auto simp: move_in_def\<close>)
  then show "entries (OverWriteDatabaseKey n k loc) = (entries n)[nat loc := k]"
    using i by (simp add: OverWriteDatabaseKey_def entries_def take_update_swap)
qed

lemma slots_at_entries:
  "buffer_ok n \<Longrightarrow> 0 \<le> loc \<Longrightarrow> loc \<le> key_count n \<Longrightarrow>
     slots_at n loc (key_count n - loc) = drop (nat loc) (entries n)"
  by (auto simp: slots_at_def entries_def buffer_ok_def drop_take nat_diff_distrib)

lemma merge_entries [node_simps]:
  assumes "buffer_ok n" "buffer_ok m" "key_count n + key_count m \<le> node_order n"
  shows "entries (MergeNode n m) = entries n @ entries m"
    and "buffer_ok (MergeNode n m)"
    and "key_count (MergeNode n m) = key_count n + key_count m"
proof -
  have k: "to_u32 (key_count n + key_count m) = key_count n + key_count m"
    using assms by (auto simp: buffer_ok_def)
  have s: "slots_at m 0 (key_count m) = entries m"
    using slots_at_entries [OF assms(2), of 0] assms(2) by (simp add: buffer_ok_def)
  have l: "length (entries m) = nat (key_count m)" using assms(2) by simp
  have i: "nat (key_count n) + nat (key_count m) = nat (key_count n + key_count m)"
    "nat (key_count n) \<le> length (key_entries n)"
    "nat (key_count n) + length (entries m) \<le> length (key_entries n)"
    using assms l by (auto simp: buffer_ok_def)
  show "key_count (MergeNode n m) = key_count n + key_count m" by (simp add: MergeNode_def k)
  show "entries (MergeNode n m) = entries n @ entries m"
    using take_move_in [OF i(2), of "entries m"] i l
    by (simp add: MergeNode_def k s entries_def)
  show "buffer_ok (MergeNode n m)"
    using assms i by (simp add: MergeNode_def buffer_ok_def s k)
qed

lemma split_entries [node_simps]:
  assumes "buffer_ok n" "buffer_ok m" "node_order m = node_order n" "0 \<le> s" "s \<le> key_count n"
    and "SplitNode n m s = (l, r)"
  shows "entries l = take (nat s) (entries n)" "entries r = drop (nat s) (entries n)"
    and "buffer_ok l" "buffer_ok r" "key_count l = s" "key_count r = key_count n - s"
    and "node_order l = node_order n" "node_order r = node_order n"
    and "left_child l = left_child n" "left_child r = left_child m"
    and "node_address l = node_address n" "key_size l = key_size n" "key_size r = key_size m"
proof -
  have k: "to_u32 s = s" "to_u32 (key_count n - s) = key_count n - s"
    using assms by (auto simp: buffer_ok_def)
  have sl: "slots_at n s (key_count n - s) = drop (nat s) (entries n)"
    using slots_at_entries assms by simp
  have len: "length (drop (nat s) (entries n)) = nat (key_count n - s)"
    using assms by (simp add: nat_diff_distrib)
  have le: "length (drop (nat s) (entries n)) \<le> length (key_entries m)"
    using assms(1-5) unfolding len buffer_ok_def by auto
  have lr: "l = n\<lparr>key_count := s\<rparr>"
    "r = m\<lparr>key_count := key_count n - s, key_entries := move_in (key_entries m) 0 (drop (nat s) (entries n))\<rparr>"
    using assms(6) by (auto simp: SplitNode_def Let_def k sl)
  show "entries l = take (nat s) (entries n)"
    using assms by (simp add: lr entries_def min_def)
  show "entries r = drop (nat s) (entries n)"
    using take_move_in [of 0 "key_entries m" "drop (nat s) (entries n)"] len
    by (simp add: lr) (simp add: entries_def)
  show "buffer_ok l" "buffer_ok r" using assms le by (auto simp: lr buffer_ok_def)
  show "key_count l = s" "key_count r = key_count n - s" "node_order l = node_order n"
    "node_order r = node_order n" "left_child l = left_child n" "left_child r = left_child m"
    "node_address l = node_address n" "key_size l = key_size n" "key_size r = key_size m"
    using assms(3) by (auto simp: lr)
qed

text \<open>What the operations leave alone.\<close>

lemma node_frame [simp]:
  "left_child (InsertDatabaseKey_node n k loc) = left_child n"
  "left_child (DeleteDatabaseKey_node n loc) = left_child n"
  "left_child (OverWriteDatabaseKey n k loc) = left_child n"
  "left_child (MergeNode n m) = left_child n"
  "left_child (AppendDatabaseKey n k) = left_child n"
  "node_order (InsertDatabaseKey_node n k loc) = node_order n"
  "node_order (DeleteDatabaseKey_node n loc) = node_order n"
  "node_order (OverWriteDatabaseKey n k loc) = node_order n"
  "node_order (MergeNode n m) = node_order n"
  "node_order (AppendDatabaseKey n k) = node_order n"
  "key_size (InsertDatabaseKey_node n k loc) = key_size n"
  "key_size (DeleteDatabaseKey_node n loc) = key_size n"
  "key_size (OverWriteDatabaseKey n k loc) = key_size n"
  "key_size (MergeNode n m) = key_size n"
  "key_size (AppendDatabaseKey n k) = key_size n"
  by (simp_all add: InsertDatabaseKey_node_def DeleteDatabaseKey_node_def OverWriteDatabaseKey_def
      MergeNode_def AppendDatabaseKey_def Let_def)

lemma entries_left_child [simp]: "entries (n\<lparr>left_child := a\<rparr>) = entries n"
  by (simp add: entries_def)

lemma buffer_ok_left_child [simp]: "buffer_ok (n\<lparr>left_child := a\<rparr>) = buffer_ok n"
  by (simp add: buffer_ok_def)

lemma new_node_ok: "order < 2 ^ 32 \<Longrightarrow> buffer_ok (new_BtreeNode sz order)"
  by (simp add: buffer_ok_def new_BtreeNode_def Let_def)

lemma new_node_entries [simp]: "entries (new_BtreeNode sz order) = []"
  by (simp add: entries_def new_BtreeNode_def Let_def)

end
