(* ===== verification/BtFile.thy ===== *)
theory BtFile
  imports BtNode Navigate
begin

text \<open>
  The state of a \<open>gxBtree\<close> object and its file operations, from \<open>src/gxbtree.cpp\<close>: the B-tree header,
  reading and writing it and the nodes, creating, opening and closing an index file, and the test
  that memory and file agree. A tree that is not connected has the null database pointer \<open>None\<close>.
  The members of the header and the key count of a node are \<open>gxINT32\<close>, whose values on this build
  are from 0 to 2^32-1.
\<close>

record gxBtreeHeader =
  hdr_node_order :: int
  hdr_key_size :: int
  n_keys :: int
  n_nodes :: int
  btree_height :: int
  root :: int
  num_trees :: int

definition new_gxBtreeHeader :: gxBtreeHeader where
  "new_gxBtreeHeader =
     \<lparr>hdr_node_order = 0, hdr_key_size = 0, n_keys = 0, n_nodes = 0, btree_height = 0, root = 0,
      num_trees = 1\<rparr>"

definition sizeof_gxBtreeHeader :: nat where "sizeof_gxBtreeHeader = 32"

definition enc_gxBtreeHeader :: "gxBtreeHeader \<Rightarrow> byte list" where
  "enc_gxBtreeHeader h =
     gxINT32_UnPackBits (hdr_node_order h) @ gxINT32_UnPackBits (hdr_key_size h) @
     gxINT32_UnPackBits (n_keys h) @ gxINT32_UnPackBits (n_nodes h) @
     gxINT32_UnPackBits (btree_height h) @ gxINT64_UnPackBits (root h) @
     gxINT32_UnPackBits (num_trees h)"

definition dec_gxBtreeHeader :: "byte list \<Rightarrow> gxBtreeHeader" where
  "dec_gxBtreeHeader bs =
     \<lparr>hdr_node_order = gxINT32_PackBits (bytes_at bs 0 4),
      hdr_key_size = gxINT32_PackBits (bytes_at bs 4 4),
      n_keys = gxINT32_PackBits (bytes_at bs 8 4), n_nodes = gxINT32_PackBits (bytes_at bs 12 4),
      btree_height = gxINT32_PackBits (bytes_at bs 16 4), root = gxINT64_PackBits (bytes_at bs 20 8),
      num_trees = gxINT32_PackBits (bytes_at bs 28 4)\<rparr>"

record gxBtree =
  bt_f :: "gxDatabase option"
  btree_header_address :: int
  btree_header :: gxBtreeHeader
  header_in_sync :: bool
  node_writes :: int
  node_reads :: int
  header_writes :: int
  header_reads :: int

definition ResetStats :: "gxBtree \<Rightarrow> gxBtree" where
  "ResetStats t = t\<lparr>node_writes := 0, node_reads := 0, header_writes := 0, header_reads := 0\<rparr>"

text \<open>The constructor; the header address is not initialised there (zero in the model).\<close>

definition new_gxBtree :: "nat \<Rightarrow> int \<Rightarrow> gxBtree" where
  "new_gxBtree KeySize order =
     \<lparr>bt_f = None, btree_header_address = 0,
      btree_header = new_gxBtreeHeader
        \<lparr>hdr_node_order := to_u32 order, hdr_key_size := to_u32 (SizeOfDatabaseKey KeySize)\<rparr>,
      header_in_sync = False, node_writes = 0, node_reads = 0, header_writes = 0, header_reads = 0\<rparr>"

section \<open>Working on the database\<close>

text \<open>A call \<open>f->op(...)\<close> on the connected database.\<close>

definition on_f :: "(gxDatabase \<Rightarrow> gxDatabase) \<Rightarrow> gxBtree \<Rightarrow> gxBtree" where
  "on_f g t = t\<lparr>bt_f := map_option g (bt_f t)\<rparr>"

definition f_error :: "gxBtree \<Rightarrow> gxDatabaseError" where
  "f_error t = (case bt_f t of None \<Rightarrow> gxDBASE_NULL_PTR | Some db \<Rightarrow> gxd_error db)"

text \<open>\<open>SetDatabaseError\<close> followed by the return of the error.\<close>

definition fail_with :: "gxDatabaseError \<Rightarrow> gxBtree \<Rightarrow> gxDatabaseError \<times> gxBtree" where
  "fail_with e t = (e, on_f (SetDatabaseError e) t)"

definition upd_header :: "(gxBtreeHeader \<Rightarrow> gxBtreeHeader) \<Rightarrow> gxBtree \<Rightarrow> gxBtree" where
  "upd_header g t = t\<lparr>btree_header := g (btree_header t), header_in_sync := False\<rparr>"

definition add_keys :: "int \<Rightarrow> gxBtreeHeader \<Rightarrow> gxBtreeHeader" where
  "add_keys d h = h\<lparr>n_keys := to_u32 (n_keys h + d)\<rparr>"

definition add_nodes :: "int \<Rightarrow> gxBtreeHeader \<Rightarrow> gxBtreeHeader" where
  "add_nodes d h = h\<lparr>n_nodes := to_u32 (n_nodes h + d)\<rparr>"

text \<open>A node as the operations declare it: \<open>BtreeNode n(key_size, node_order)\<close>.\<close>

definition fresh_node :: "gxBtree \<Rightarrow> BtreeNode" where
  "fresh_node t = new_BtreeNode (hdr_key_size (btree_header t)) (hdr_node_order (btree_header t))"

section \<open>The B-tree header\<close>

definition WriteBtreeHeader :: "gxBtree \<Rightarrow> gxDatabaseError \<times> gxBtree" where
  "WriteBtreeHeader t0 =
     (let t = t0\<lparr>header_writes := to_u32 (header_writes t0 + 1)\<rparr>
      in case bt_f t of
           None \<Rightarrow> (gxDBASE_NULL_PTR, t)
         | Some db \<Rightarrow>
             if ready_for_writing db then
               (let t1 = on_f (Write (enc_gxBtreeHeader (btree_header t)) (btree_header_address t)) t
                in if f_error t1 \<noteq> gxDBASE_NO_ERROR then (f_error t1, t1)
                   else (gxDBASE_NO_ERROR, t1\<lparr>header_in_sync := True\<rparr>))
             else (gxDBASE_NO_ERROR, t))"

definition WriteBtreeHeader_at :: "gxBtreeHeader \<Rightarrow> int \<Rightarrow> gxBtree \<Rightarrow> gxDatabaseError \<times> gxBtree" where
  "WriteBtreeHeader_at hdr header_address t =
     WriteBtreeHeader (t\<lparr>btree_header_address := header_address, btree_header := hdr\<rparr>)"

definition ReadBtreeHeader :: "gxBtree \<Rightarrow> gxDatabaseError \<times> gxBtree" where
  "ReadBtreeHeader t0 =
     (let t = t0\<lparr>header_reads := to_u32 (header_reads t0 + 1)\<rparr>
      in case bt_f t of
           None \<Rightarrow> (gxDBASE_NULL_PTR, t)
         | Some db \<Rightarrow>
             (case Read (enc_gxBtreeHeader (btree_header t)) (btree_header_address t) db of (b, db1) \<Rightarrow>
                let t1 = t\<lparr>bt_f := Some db1, btree_header := dec_gxBtreeHeader b\<rparr>
                in if gxd_error db1 \<noteq> gxDBASE_NO_ERROR then (gxd_error db1, t1)
                   else (gxDBASE_NO_ERROR, t1\<lparr>header_in_sync := True\<rparr>)))"

definition ReadBtreeHeader_at ::
  "gxBtreeHeader \<Rightarrow> int \<Rightarrow> gxBtree \<Rightarrow> (gxDatabaseError \<times> gxBtreeHeader) \<times> gxBtree" where
  "ReadBtreeHeader_at hdr header_address t =
     (case bt_f t of
        None \<Rightarrow> ((gxDBASE_NULL_PTR, hdr), t)
      | Some db \<Rightarrow>
          (case Read (enc_gxBtreeHeader hdr) header_address db of (b, db1) \<Rightarrow>
             ((gxd_error db1, dec_gxBtreeHeader b), t\<lparr>bt_f := Some db1\<rparr>)))"

section \<open>Nodes in the file\<close>

definition enc_slot :: "DatabaseKeyB \<Rightarrow> byte list" where
  "enc_slot s = gxINT64_UnPackBits (right_child s) @ db_key s"

definition enc_slots :: "DatabaseKeyB list \<Rightarrow> byte list" where
  "enc_slots xs = concat (map enc_slot xs)"

definition dec_slot :: "int \<Rightarrow> byte list \<Rightarrow> nat \<Rightarrow> DatabaseKeyB" where
  "dec_slot sz b i =
     \<lparr>right_child = gxINT64_PackBits (bytes_at b (i * nat sz) 8),
      db_key = bytes_at b (i * nat sz + 8) (nat sz - 8)\<rparr>"

definition dec_slots :: "int \<Rightarrow> byte list \<Rightarrow> nat \<Rightarrow> DatabaseKeyB list" where
  "dec_slots sz b k = map (dec_slot sz b) [0..<k]"

definition WriteNode :: "BtreeNode \<Rightarrow> int \<Rightarrow> gxBtree \<Rightarrow> gxDatabaseError \<times> gxBtree" where
  "WriteNode n node_addr t0 =
     (let t = t0\<lparr>node_writes := to_u32 (node_writes t0 + 1)\<rparr>
      in if bt_f t = None then (gxDBASE_NULL_PTR, t)
         else (let t1 = on_f (Write (gxINT32_UnPackBits (key_count n)) node_addr) t
               in if f_error t1 \<noteq> gxDBASE_NO_ERROR then (f_error t1, t1)
                  else (let t2 = on_f (Write (gxINT64_UnPackBits (left_child n)) gxCurrAddress) t1
                        in if f_error t2 \<noteq> gxDBASE_NO_ERROR then (f_error t2, t2)
                           else if key_count n > 0 then
                             (let t3 = on_f (Write (enc_slots (slots_at n 0 (key_count n))) gxCurrAddress) t2
                              in if f_error t3 \<noteq> gxDBASE_NO_ERROR then (f_error t3, t3)
                                 else (gxDBASE_NO_ERROR, t3))
                           else (gxDBASE_NO_ERROR, t2))))"

text \<open>
  The key count is read from the file and tested before the slots are read into the buffer.
\<close>

definition ReadNode :: "BtreeNode \<Rightarrow> int \<Rightarrow> gxBtree \<Rightarrow> (gxDatabaseError \<times> BtreeNode) \<times> gxBtree" where
  "ReadNode n0 node_addr t0 =
     (let n = n0\<lparr>node_address := node_addr\<rparr>; t = t0\<lparr>node_reads := to_u32 (node_reads t0 + 1)\<rparr>
      in case bt_f t of
           None \<Rightarrow> ((gxDBASE_NULL_PTR, n), t)
         | Some db \<Rightarrow>
            (case Read (gxINT32_UnPackBits (key_count n)) node_addr db of (b1, db1) \<Rightarrow>
               let n1 = n\<lparr>key_count := gxINT32_PackBits b1\<rparr>
               in if gxd_error db1 \<noteq> gxDBASE_NO_ERROR then ((gxd_error db1, n1), t\<lparr>bt_f := Some db1\<rparr>)
                  else (case Read (gxINT64_UnPackBits (left_child n1)) gxCurrAddress db1 of (b2, db2) \<Rightarrow>
                    let n2 = n1\<lparr>left_child := gxINT64_PackBits b2\<rparr>
                    in if gxd_error db2 \<noteq> gxDBASE_NO_ERROR then ((gxd_error db2, n2), t\<lparr>bt_f := Some db2\<rparr>)
                       else if key_count n2 < 0 \<or> key_count n2 > node_order n2 then
                         ((gxDBASE_BADBLOCK_ERROR, n2\<lparr>key_count := 0\<rparr>),
                          t\<lparr>bt_f := Some (SetDatabaseError gxDBASE_BADBLOCK_ERROR db2)\<rparr>)
                       else if key_count n2 > 0 then
                         (case Read (enc_slots (slots_at n2 0 (key_count n2))) gxCurrAddress db2 of
                            (b3, db3) \<Rightarrow>
                              ((gxd_error db3,
                                n2\<lparr>key_entries := move_in (key_entries n2) 0
                                     (dec_slots (key_size n2) b3 (nat (key_count n2)))\<rparr>),
                               t\<lparr>bt_f := Some db3\<rparr>))
                       else ((gxDBASE_NO_ERROR, n2), t\<lparr>bt_f := Some db2\<rparr>))))"

definition gxBtreeMaxNodeReads :: nat where "gxBtreeMaxNodeReads = 4096"

text \<open>\<open>depth\<close> is what the caller's counter holds before the call.\<close>

definition ReadNodeChecked ::
  "BtreeNode \<Rightarrow> int \<Rightarrow> nat \<Rightarrow> gxBtree \<Rightarrow> (gxDatabaseError \<times> BtreeNode) \<times> gxBtree" where
  "ReadNodeChecked n node_addr depth t =
     (if depth + 1 > gxBtreeMaxNodeReads
      then ((gxDBASE_BADBLOCK_ERROR, n), on_f (SetDatabaseError gxDBASE_BADBLOCK_ERROR) t)
      else ReadNode n node_addr t)"

text \<open>\<open>f->Alloc\<close> and \<open>f->Remove\<close>; an allocation may not return (\<open>None\<close>).\<close>

definition alloc_node :: "int \<Rightarrow> gxBtree \<Rightarrow> (int \<times> gxBtree) option" where
  "alloc_node bytes t =
     (case bt_f t of
        None \<Rightarrow> Some (0, t)
      | Some db \<Rightarrow> map_option (\<lambda>(a, db1). (a, t\<lparr>bt_f := Some db1\<rparr>))
                     (Alloc bytes gxDBASE_RECLAIM_FIRSTFIT db))"

definition remove_node :: "int \<Rightarrow> gxBtree \<Rightarrow> bool \<times> gxBtree" where
  "remove_node a t =
     (case bt_f t of
        None \<Rightarrow> (False, t)
      | Some db \<Rightarrow> (case Remove a db of (r, db1) \<Rightarrow> (r, t\<lparr>bt_f := Some db1\<rparr>)))"

section \<open>Files\<close>

definition Flush_tree :: "bool \<Rightarrow> gxBtree \<Rightarrow> gxDatabaseError \<times> gxBtree" where
  "Flush_tree write_header t =
     (if bt_f t = None then (gxDBASE_NULL_PTR, t)
      else (case (if write_header then WriteBtreeHeader t else (gxDBASE_NO_ERROR, t)) of (e, t1) \<Rightarrow>
              if e \<noteq> gxDBASE_NO_ERROR then (f_error t1, t1)
              else (let t2 = on_f Flush t1 in (f_error t2, t2))))"

text \<open>Connecting to the database that is open in \<open>f\<close>, and making a new tree in it.\<close>

definition make_tree :: "int \<Rightarrow> bool \<Rightarrow> gxBtree \<Rightarrow> (gxDatabaseError \<times> gxBtree) option" where
  "make_tree num flushdb t =
     Option.bind (alloc_node (SizeOfBtreeNode (fresh_node t)) t) (\<lambda>(root_address, t1).
       if root_address = 0 then Some (f_error t1, t1)
       else (case WriteBtreeHeader (t1\<lparr>btree_header := (btree_header t1)
                    \<lparr>root := root_address, btree_height := 1, n_keys := 0, n_nodes := 1,
                     num_trees := to_u32 num\<rparr>\<rparr>) of (e, t2) \<Rightarrow>
               if e \<noteq> gxDBASE_NO_ERROR then Some (f_error t2, t2)
               else (case WriteNode (fresh_node t) root_address t2 of (e2, t3) \<Rightarrow>
                       if e2 \<noteq> gxDBASE_NO_ERROR then Some (f_error t3, t3)
                       else Some (gxDBASE_NO_ERROR, if flushdb then snd (Flush_tree False t3) else t3))))"

definition load_tree :: "gxBtree \<Rightarrow> gxDatabaseError \<times> gxBtree" where
  "load_tree t =
     (let expected_key_size = hdr_key_size (btree_header t)
      in case ReadBtreeHeader t of (e, t1) \<Rightarrow>
           if e \<noteq> gxDBASE_NO_ERROR then (f_error t1, t1)
           else (let h = btree_header t1
                 in if hdr_key_size h \<noteq> expected_key_size \<or> hdr_node_order h < 2 \<or>
                       hdr_node_order h > 0x1000000 div (if expected_key_size \<noteq> 0 then expected_key_size else 1)
                    then fail_with gxDBASE_BAD_HEADER t1
                    else (gxDBASE_NO_ERROR,
                          if (case bt_f t1 of None \<Rightarrow> False | Some db \<Rightarrow> gxd_ver (file_header db) = 4000)
                          then t1\<lparr>btree_header := h\<lparr>num_trees := 1\<rparr>\<rparr> else t1)))"

definition InitBtree ::
  "bool \<Rightarrow> int \<Rightarrow> int \<Rightarrow> bool \<Rightarrow> gxBtree \<Rightarrow> (gxDatabaseError \<times> gxBtree) option" where
  "InitBtree create header_address num flushdb t0 =
     (let t = t0\<lparr>btree_header_address := header_address\<rparr>
      in if bt_f t = None then Some (gxDBASE_NULL_PTR, t)
         else if create then make_tree (if num \<le> 0 then 1 else num) flushdb t
         else Some (load_tree t))"

definition InitBtree_on ::
  "gxDatabase option \<Rightarrow> bool \<Rightarrow> int \<Rightarrow> int \<Rightarrow> bool \<Rightarrow> gxBtree \<Rightarrow> (gxDatabaseError \<times> gxBtree) option" where
  "InitBtree_on fptr create header_address num flushdb t =
     InitBtree create header_address num flushdb (t\<lparr>bt_f := fptr\<rparr>)"

text \<open>
  \<open>delete f\<close> runs the destructor of the engine object, which closes the file; the process's files
  go on in \<open>fs\<close>. A failed \<open>Close\<close> of the engine is not noticed.
\<close>

definition Close_tree :: "filesys \<Rightarrow> gxBtree \<Rightarrow> (gxDatabaseError \<times> gxBtree) \<times> filesys" where
  "Close_tree fs t =
     (case bt_f t of
        None \<Rightarrow> ((gxDBASE_NO_ERROR, t), fs)
      | Some _ \<Rightarrow>
          (case WriteBtreeHeader t of (e, t1) \<Rightarrow>
             if e \<noteq> gxDBASE_NO_ERROR then ((f_error t1, t1), fs)
             else ((gxDBASE_NO_ERROR, t1\<lparr>bt_f := None\<rparr>),
                   case bt_f t1 of None \<Rightarrow> fs | Some db \<Rightarrow> db_fs (Close db))))"

definition Open_tree_at ::
  "string option \<Rightarrow> int option \<Rightarrow> gxDatabaseAccessMode \<Rightarrow> filesys \<Rightarrow> gxBtree \<Rightarrow>
   (gxDatabaseError \<times> gxBtree) option" where
  "Open_tree_at fn header_address mode fs t =
     (case Close_tree fs t of ((e, t1), fs1) \<Rightarrow>
        if e \<noteq> gxDBASE_NO_ERROR then Some (f_error t1, t1)
        else (let db = Open fn mode (new_gxDatabase fs1); t2 = t1\<lparr>bt_f := Some db\<rparr>
              in if gxd_error db \<noteq> gxDBASE_NO_ERROR then Some (gxd_error db, t2)
                 else InitBtree False
                        (case header_address of None \<Rightarrow> FileHeaderSize db | Some a \<Rightarrow> a) 1 True t2))"

definition Open_tree ::
  "string option \<Rightarrow> gxDatabaseAccessMode \<Rightarrow> filesys \<Rightarrow> gxBtree \<Rightarrow> (gxDatabaseError \<times> gxBtree) option" where
  "Open_tree fn mode fs t = Open_tree_at fn None mode fs t"

fun init_trees :: "nat \<Rightarrow> int \<Rightarrow> int \<Rightarrow> gxBtree \<Rightarrow> (gxDatabaseError \<times> gxBtree) option" where
  "init_trees 0 offset num t = Some (gxDBASE_NO_ERROR, t)"
| "init_trees (Suc k) offset num t =
     Option.bind (InitBtree True offset num False t) (\<lambda>(e, t1).
       if e \<noteq> gxDBASE_NO_ERROR then Some (f_error t1, t1)
       else init_trees k (offset + int sizeof_gxBtreeHeader) num t1)"

definition Create_tree ::
  "string option \<Rightarrow> int \<Rightarrow> char \<Rightarrow> filesys \<Rightarrow> gxBtree \<Rightarrow> (gxDatabaseError \<times> gxBtree) option" where
  "Create_tree fn num0 RevisionLetter fs t =
     (case Close_tree fs t of ((e, t1), fs1) \<Rightarrow>
        if e \<noteq> gxDBASE_NO_ERROR then Some (f_error t1, t1)
        else (let num = (if num0 \<le> 0 then 1 else num0);
                  db = Create fn (int sizeof_gxBtreeHeader * num) RevisionLetter (new_gxDatabase fs1);
                  t2 = t1\<lparr>bt_f := Some db\<rparr>
              in if gxd_error db \<noteq> gxDBASE_NO_ERROR then Some (gxd_error db, t2)
                 else Option.bind (init_trees (nat num) (FileHeaderSize db) num t2) (\<lambda>(e2, t3).
                   if e2 \<noteq> gxDBASE_NO_ERROR then Some (f_error t3, t3)
                   else (let t4 = snd (Flush_tree False t3)
                         in if num > 1 then InitBtree False (FileHeaderSize db) 1 True t4
                            else Some (f_error t4, t4)))))"

section \<open>Synchronisation\<close>

definition ReConnect :: "int \<Rightarrow> gxBtree \<Rightarrow> gxDatabaseError \<times> gxBtree" where
  "ReConnect tree_number t =
     (case bt_f t of
        None \<Rightarrow> (gxDBASE_NULL_PTR, t)
      | Some _ \<Rightarrow>
          (case Flush_tree True t of (e, t1) \<Rightarrow>
             if e \<noteq> gxDBASE_NO_ERROR then (f_error t1, t1)
             else ReadBtreeHeader
                    (t1\<lparr>btree_header_address :=
                          (case bt_f t1 of None \<Rightarrow> 0 | Some db \<Rightarrow> FileHeaderSize db) +
                          (if tree_number > 0 then tree_number - 1 else tree_number) *
                            int sizeof_gxBtreeHeader\<rparr>)))"

definition ReInit :: "int \<Rightarrow> bool \<Rightarrow> gxBtree \<Rightarrow> gxDatabaseError \<times> gxBtree" where
  "ReInit header_address flushdb t =
     ReadBtreeHeader
       ((if flushdb then snd (Flush_tree True t) else t)\<lparr>btree_header_address := header_address\<rparr>)"

definition header_difference :: "gxBtreeHeader \<Rightarrow> gxBtreeHeader \<Rightarrow> int" where
  "header_difference h m =
     (if num_trees h \<noteq> num_trees m then 7 else if root h \<noteq> root m then 6
      else if btree_height h \<noteq> btree_height m then 5 else if n_nodes h \<noteq> n_nodes m then 4
      else if n_keys h \<noteq> n_keys m then 3 else if hdr_key_size h \<noteq> hdr_key_size m then 2
      else if hdr_node_order h \<noteq> hdr_node_order m then 1 else 0)"

definition TestTree :: "int \<Rightarrow> bool \<Rightarrow> gxBtree \<Rightarrow> int \<times> gxBtree" where
  "TestTree header_address reinit t0 =
     (let t = t0\<lparr>btree_header_address := header_address\<rparr>
      in case bt_f t0 of
           None \<Rightarrow> (35, t0)
         | Some db \<Rightarrow>
             (case ReadBtreeHeader_at new_gxBtreeHeader header_address t of ((e, h), t1) \<Rightarrow>
                if e \<noteq> gxDBASE_NO_ERROR then (8, t1)
                else (let err = header_difference h (btree_header t1)
                      in (err, if err > 0 \<and> reinit
                               then snd (ReInit (btree_header_address t1) False t1) else t1))))"

text \<open>The size of a node's block, with the header and, but for revision zero, a checksum.\<close>

definition TotalNodeSize :: "gxBtree \<Rightarrow> int" where
  "TotalNodeSize t =
     (case bt_f t of
        None \<Rightarrow> 35
      | Some db \<Rightarrow>
          (let node_size = SizeOfBtreeNode (fresh_node t) + BlockHeaderSize db
           in if rev_letter db = CHR 0x00 \<or> rev_letter db = CHR '' '' then node_size
              else node_size + int sizeof_gxChecksum))"

end
