(* ===== verification/BtSearch.thy ===== *)
theory BtSearch
  imports BtFile
begin

text \<open>
  The searches of \<open>src/gxbtree.cpp\<close> that do not use a cache: \<open>Find\<close>, \<open>FindFirst\<close>, \<open>FindLast\<close>,
  \<open>FindNext\<close>, \<open>FindPrev\<close> and \<open>PartialFind\<close>. A search returns its C result (one or zero, or the error
  code of a null pointer), the key, the compare key and the current node as they are afterwards, and
  the tree. Every walk counts the nodes it reads in \<open>depth\<close> and \<open>ReadNodeChecked\<close> fails after
  \<open>gxBtreeMaxNodeReads\<close> of them: this is why the walks end.
\<close>

type_synonym found = "(int \<times> DatabaseKeyB \<times> DatabaseKeyB \<times> BtreeNode) \<times> gxBtree"

lemma ReadNodeChecked_depth:
  "ReadNodeChecked n a d t = ((gxDBASE_NO_ERROR, n'), t') \<Longrightarrow> d < gxBtreeMaxNodeReads"
  by (auto simp: ReadNodeChecked_def split: if_splits)

lemma ReadNodeChecked_less:
  "((gxDBASE_NO_ERROR, n'), t') = ReadNodeChecked n a d t \<Longrightarrow> d < gxBtreeMaxNodeReads"
  by (erule ReadNodeChecked_depth [OF sym])

definition sync_tree :: "bool \<Rightarrow> gxBtree \<Rightarrow> gxBtree" where
  "sync_tree test_tree t =
     (if test_tree then snd (TestTree (btree_header_address t) True t) else t)"

definition not_found :: "DatabaseKeyB \<Rightarrow> DatabaseKeyB \<Rightarrow> BtreeNode \<Rightarrow> gxBtree \<Rightarrow> found" where
  "not_found key ck n t = ((0, key, ck, n), snd (fail_with gxDBASE_ENTRY_NOT_FOUND t))"

section \<open>Find\<close>

function find_walk ::
  "compare_fun \<Rightarrow> DatabaseKeyB \<Rightarrow> DatabaseKeyB \<Rightarrow> BtreeNode \<Rightarrow> int \<Rightarrow> nat \<Rightarrow> gxBtree \<Rightarrow> found" where
  "find_walk cmp key ck cur curr_address depth t =
     (if curr_address = 0 then not_found key ck cur t
      else (case ReadNodeChecked cur curr_address depth t of ((e, n), t1) \<Rightarrow>
        if e \<noteq> gxDBASE_NO_ERROR then ((0, key, ck, n), t1)
        else (case FindKeyLocation cmp key ck n of (rv, loc, ck1) \<Rightarrow>
          if rv = 0 then ((1, LoadKey n loc, ck1, n), t1)
          else find_walk cmp key ck1 n (GetBranch n loc) (depth + 1) t1)))"
  by pat_completeness auto
termination
  by (relation "measure (\<lambda>(cmp, key, ck, n, a, d, t). gxBtreeMaxNodeReads - d)")
    (auto dest: ReadNodeChecked_less)

text \<open>
  The look at the caller's node. When the key is not in it the search starts at the root, whatever
  the tests of its branches found; they only load another compare key.
\<close>

definition Find_at ::
  "compare_fun \<Rightarrow> DatabaseKeyB \<Rightarrow> DatabaseKeyB \<Rightarrow> BtreeNode \<Rightarrow> bool \<Rightarrow> gxBtree \<Rightarrow> found" where
  "Find_at cmp key ck cur test_tree t0 =
     (if bt_f t0 = None then ((35, key, ck, cur), t0)
      else (let t = sync_tree test_tree t0
            in if key_count cur > 0 then
                 (case FindKeyLocation cmp key ck cur of (rv, loc, ck1) \<Rightarrow>
                    if rv = 0 then ((1, LoadKey cur loc, ck1, cur), t)
                    else find_walk cmp key
                           (if GetBranch cur loc \<noteq> 0 \<and> loc \<ge> 0 then LoadKey cur loc else ck1)
                           cur (root (btree_header t)) 0 t)
               else find_walk cmp key ck cur (root (btree_header t)) 0 t))"

definition Find ::
  "compare_fun \<Rightarrow> DatabaseKeyB \<Rightarrow> DatabaseKeyB \<Rightarrow> bool \<Rightarrow> gxBtree \<Rightarrow> found" where
  "Find cmp key ck test_tree t = Find_at cmp key ck (fresh_node t) test_tree t"

section \<open>Ends of a subtree\<close>

text \<open>Down the left children, and the first key there.\<close>

function leftmost :: "BtreeNode \<Rightarrow> nat \<Rightarrow> gxBtree \<Rightarrow> (gxDatabaseError \<times> BtreeNode) \<times> gxBtree" where
  "leftmost n depth t =
     (if left_child n = 0 then ((gxDBASE_NO_ERROR, n), t)
      else (case ReadNodeChecked n (left_child n) depth t of ((e, n1), t1) \<Rightarrow>
        if e \<noteq> gxDBASE_NO_ERROR then ((e, n1), t1) else leftmost n1 (depth + 1) t1))"
  by pat_completeness auto
termination
  by (relation "measure (\<lambda>(n, d, t). gxBtreeMaxNodeReads - d)") (auto dest: ReadNodeChecked_less)

definition first_key ::
  "DatabaseKeyB \<Rightarrow> DatabaseKeyB \<Rightarrow> BtreeNode \<Rightarrow> int \<Rightarrow> nat \<Rightarrow> gxBtree \<Rightarrow> found" where
  "first_key key ck n addr depth t =
     (case ReadNodeChecked n addr depth t of ((e, n1), t1) \<Rightarrow>
        if e \<noteq> gxDBASE_NO_ERROR then ((0, key, ck, n1), t1)
        else (case leftmost n1 (depth + 1) t1 of ((e2, n2), t2) \<Rightarrow>
          if e2 \<noteq> gxDBASE_NO_ERROR then ((0, key, ck, n2), t2)
          else if key_count n2 \<le> 0 then not_found key ck n2 t2
          else ((1, LoadKey n2 0, ck, n2), t2)))"

text \<open>Down the last branches from the location \<open>loc\<close>, and the last key there.\<close>

function rightmost ::
  "BtreeNode \<Rightarrow> int \<Rightarrow> nat \<Rightarrow> gxBtree \<Rightarrow> (gxDatabaseError \<times> BtreeNode \<times> int) \<times> gxBtree" where
  "rightmost n loc depth t =
     (if GetBranch n loc = 0 then ((gxDBASE_NO_ERROR, n, loc), t)
      else (case ReadNodeChecked n (GetBranch n loc) depth t of ((e, n1), t1) \<Rightarrow>
        if e \<noteq> gxDBASE_NO_ERROR then ((e, n1, loc), t1)
        else rightmost n1 (key_count n1 - 1) (depth + 1) t1))"
  by pat_completeness auto
termination
  by (relation "measure (\<lambda>(n, loc, d, t). gxBtreeMaxNodeReads - d)") (auto dest: ReadNodeChecked_less)

declare find_walk.simps [simp del] leftmost.simps [simp del] rightmost.simps [simp del]

definition last_key ::
  "DatabaseKeyB \<Rightarrow> DatabaseKeyB \<Rightarrow> BtreeNode \<Rightarrow> int \<Rightarrow> nat \<Rightarrow> gxBtree \<Rightarrow> found" where
  "last_key key ck n loc depth t =
     (case rightmost n loc depth t of ((e, n1, loc1), t1) \<Rightarrow>
        if e \<noteq> gxDBASE_NO_ERROR then ((0, key, ck, n1), t1)
        else ((1, LoadKey n1 loc1, ck, n1), t1))"

definition FindFirst_at :: "DatabaseKeyB \<Rightarrow> BtreeNode \<Rightarrow> bool \<Rightarrow> gxBtree \<Rightarrow> found" where
  "FindFirst_at key cur test_tree t0 =
     (if bt_f t0 = None then ((35, key, key, cur), t0)
      else (let t = sync_tree test_tree t0
            in if n_keys (btree_header t) = 0 then ((0, key, key, cur), t)
               else first_key key key cur (root (btree_header t)) 0 t))"

definition FindFirst :: "DatabaseKeyB \<Rightarrow> bool \<Rightarrow> gxBtree \<Rightarrow> found" where
  "FindFirst key test_tree t = FindFirst_at key (fresh_node t) test_tree t"

definition FindLast_at :: "DatabaseKeyB \<Rightarrow> BtreeNode \<Rightarrow> bool \<Rightarrow> gxBtree \<Rightarrow> found" where
  "FindLast_at key cur test_tree t0 =
     (let t = sync_tree test_tree t0
      in if n_keys (btree_header t) = 0 then ((0, key, key, cur), t)
         else (case ReadNodeChecked cur (root (btree_header t)) 0 t of ((e, n), t1) \<Rightarrow>
           if e \<noteq> gxDBASE_NO_ERROR then ((0, key, key, n), t1)
           else (case rightmost n (key_count n - 1) 1 t1 of ((e2, n2, loc), t2) \<Rightarrow>
             if e2 \<noteq> gxDBASE_NO_ERROR \<or> key_count n2 \<le> 0 then ((0, key, key, n2), t2)
             else ((1, LoadKey n2 (key_count n2 - 1), key, n2), t2))))"

definition FindLast :: "DatabaseKeyB \<Rightarrow> bool \<Rightarrow> gxBtree \<Rightarrow> found" where
  "FindLast key test_tree t = FindLast_at key (fresh_node t) test_tree t"

section \<open>Next\<close>

text \<open>Back to the node from which the walk last went left of a key: that key.\<close>

definition parent_key ::
  "DatabaseKeyB \<Rightarrow> DatabaseKeyB \<Rightarrow> BtreeNode \<Rightarrow> BtreeNode \<Rightarrow> int \<Rightarrow> int \<Rightarrow> nat \<Rightarrow> gxBtree \<Rightarrow> found" where
  "parent_key key ck cur parent parent_address sav_location depth t =
     (if parent_address \<noteq> 0 then
        (case ReadNodeChecked parent parent_address depth t of ((e, p), t1) \<Rightarrow>
           if e \<noteq> gxDBASE_NO_ERROR then ((0, key, ck, cur), t1)
           else if key_count p \<le> 0 then not_found key ck cur t1
           else if sav_location + 1 \<ge> key_count p then not_found key ck cur t1
           else ((1, LoadKey p (sav_location + 1), ck, cur), t1))
      else ((0, key, ck, cur), t))"

function next_walk ::
  "compare_fun \<Rightarrow> DatabaseKeyB \<Rightarrow> DatabaseKeyB \<Rightarrow> BtreeNode \<Rightarrow> int \<Rightarrow> int \<Rightarrow> int \<Rightarrow> nat \<Rightarrow> gxBtree \<Rightarrow> found"
where
  "next_walk cmp key ck cur curr_address parent_address sav_location depth t =
     (if curr_address = 0 then not_found key ck cur t
      else (case ReadNodeChecked cur curr_address depth t of ((e, n), t1) \<Rightarrow>
        if e \<noteq> gxDBASE_NO_ERROR then ((0, key, ck, n), t1)
        else (case FindKeyLocation cmp key ck n of (rv, loc, ck1) \<Rightarrow>
          if rv = 0 then
            (if GetBranch n loc \<noteq> 0 then first_key key ck1 n (GetBranch n loc) (depth + 1) t1
             else if loc < key_count n - 1 then ((1, LoadKey n (loc + 1), ck1, n), t1)
             else parent_key key ck1 n (fresh_node t) parent_address sav_location (depth + 1) t1)
          else if loc < key_count n - 1
          then next_walk cmp key ck1 n (GetBranch n loc) curr_address loc (depth + 1) t1
          else next_walk cmp key ck1 n (GetBranch n loc) parent_address sav_location (depth + 1) t1)))"
  by pat_completeness auto
termination
  by (relation "measure (\<lambda>(cmp, key, ck, n, a, p, s, d, t). gxBtreeMaxNodeReads - d)")
    (auto dest: ReadNodeChecked_less)

definition FindNext_at ::
  "compare_fun \<Rightarrow> DatabaseKeyB \<Rightarrow> DatabaseKeyB \<Rightarrow> BtreeNode \<Rightarrow> bool \<Rightarrow> gxBtree \<Rightarrow> found" where
  "FindNext_at cmp key ck cur test_tree t0 =
     (if bt_f t0 = None then ((35, key, ck, cur), t0)
      else (let t = sync_tree test_tree t0; r = root (btree_header t)
            in if key_count cur > 0 then
                 (case FindKeyLocation cmp key ck cur of (rv, loc, ck1) \<Rightarrow>
                    if rv = 0 \<and> GetBranch cur loc \<noteq> 0
                    then first_key key ck1 cur (GetBranch cur loc) 0 t
                    else if rv = 0 \<and> loc < key_count cur - 1
                    then ((1, LoadKey cur (loc + 1), ck1, cur), t)
                    else next_walk cmp key ck1 cur r 0 0 0 t)
               else next_walk cmp key ck cur r 0 0 0 t))"

definition FindNext ::
  "compare_fun \<Rightarrow> DatabaseKeyB \<Rightarrow> DatabaseKeyB \<Rightarrow> bool \<Rightarrow> gxBtree \<Rightarrow> found" where
  "FindNext cmp key ck test_tree t = FindNext_at cmp key ck (fresh_node t) test_tree t"

section \<open>Previous\<close>

text \<open>The key before the location \<open>loc\<close> in the node or below it, when there is one.\<close>

definition prev_in_node ::
  "DatabaseKeyB \<Rightarrow> DatabaseKeyB \<Rightarrow> BtreeNode \<Rightarrow> int \<Rightarrow> nat \<Rightarrow> gxBtree \<Rightarrow> found option" where
  "prev_in_node key ck n loc depth t =
     (if loc - 1 \<ge> 0 then Some (last_key key ck n (loc - 1) depth t)
      else if left_child n \<noteq> 0 then
        Some (case ReadNodeChecked n (left_child n) depth t of ((e, n1), t1) \<Rightarrow>
                if e \<noteq> gxDBASE_NO_ERROR then ((0, key, ck, n1), t1)
                else last_key key ck n1 (key_count n1 - 1) (depth + 1) t1)
      else None)"

function prev_walk ::
  "compare_fun \<Rightarrow> DatabaseKeyB \<Rightarrow> DatabaseKeyB \<Rightarrow> BtreeNode \<Rightarrow> int \<Rightarrow> BtreeNode \<Rightarrow> int \<Rightarrow> int \<Rightarrow> nat \<Rightarrow> gxBtree \<Rightarrow>
   found" where
  "prev_walk cmp key ck cur curr_address parent parent_address sav_location depth t =
     (if curr_address = 0 then not_found key ck cur t
      else (case ReadNodeChecked cur curr_address depth t of ((e, n), t1) \<Rightarrow>
        if e \<noteq> gxDBASE_NO_ERROR then ((0, key, ck, n), t1)
        else (case FindKeyLocation cmp key ck n of (rv, loc, ck1) \<Rightarrow>
          if rv = 0 then
            (case prev_in_node key ck1 n loc (depth + 1) t1 of
               Some r \<Rightarrow> r
             | None \<Rightarrow> if parent_address \<noteq> 0 then ((1, LoadKey parent sav_location, ck1, n), t1)
                       else not_found key ck1 n t1)
          else if rv > 0 then
            (case ReadNodeChecked parent curr_address (depth + 1) t1 of ((e2, p), t2) \<Rightarrow>
               if e2 \<noteq> gxDBASE_NO_ERROR then ((0, key, ck1, n), t2)
               else prev_walk cmp key ck1 n (GetBranch n loc) p curr_address loc (depth + 2) t2)
          else prev_walk cmp key ck1 n (GetBranch n loc) parent parent_address sav_location
                 (depth + 1) t1)))"
  by pat_completeness auto
termination
  by (relation "measure (\<lambda>(cmp, key, ck, n, a, p, pa, s, d, t). gxBtreeMaxNodeReads - d)")
    (auto dest: ReadNodeChecked_less)

declare next_walk.simps [simp del] prev_walk.simps [simp del]

definition FindPrev_at ::
  "compare_fun \<Rightarrow> DatabaseKeyB \<Rightarrow> DatabaseKeyB \<Rightarrow> BtreeNode \<Rightarrow> bool \<Rightarrow> gxBtree \<Rightarrow> found" where
  "FindPrev_at cmp key ck cur test_tree t0 =
     (if bt_f t0 = None then ((35, key, ck, cur), t0)
      else (let t = sync_tree test_tree t0; r = root (btree_header t)
            in if key_count cur > 0 then
                 (case FindKeyLocation cmp key ck cur of (rv, loc, ck1) \<Rightarrow>
                    case (if rv = 0 then prev_in_node key ck1 cur loc 0 t else None) of
                      Some res \<Rightarrow> res
                    | None \<Rightarrow> prev_walk cmp key ck1 cur r (fresh_node t) 0 (-1) 0 t)
               else prev_walk cmp key ck cur r (fresh_node t) 0 (-1) 0 t))"

definition FindPrev ::
  "compare_fun \<Rightarrow> DatabaseKeyB \<Rightarrow> DatabaseKeyB \<Rightarrow> bool \<Rightarrow> gxBtree \<Rightarrow> found" where
  "FindPrev cmp key ck test_tree t = FindPrev_at cmp key ck (fresh_node t) test_tree t"

section \<open>Partial matches\<close>

text \<open>
  After the walk failed at \<open>cur\<close> with the location \<open>loc\<close>: the next key there or in the saved parent.
\<close>

definition partial_end ::
  "DatabaseKeyB \<Rightarrow> DatabaseKeyB \<Rightarrow> BtreeNode \<Rightarrow> int \<Rightarrow> int \<Rightarrow> int \<Rightarrow> nat \<Rightarrow> gxBtree \<Rightarrow> found" where
  "partial_end key ck cur loc parent_address sav_location depth t =
     (if GetBranch cur loc \<noteq> 0 then first_key key ck cur (GetBranch cur loc) depth t
      else if loc < key_count cur - 1 then ((1, LoadKey cur (loc + 1), ck, cur), t)
      else parent_key key ck cur (fresh_node t) parent_address sav_location depth t)"

function partial_walk ::
  "compare_fun \<Rightarrow> DatabaseKeyB \<Rightarrow> DatabaseKeyB \<Rightarrow> BtreeNode \<Rightarrow> int \<Rightarrow> int \<Rightarrow> int \<Rightarrow> int \<Rightarrow> nat \<Rightarrow> gxBtree \<Rightarrow> found"
where
  "partial_walk cmp key ck cur loc curr_address parent_address sav_location depth t =
     (if curr_address = 0 then partial_end key ck cur loc parent_address sav_location depth t
      else (case ReadNodeChecked cur curr_address depth t of ((e, n), t1) \<Rightarrow>
        if e \<noteq> gxDBASE_NO_ERROR then ((0, key, ck, n), t1)
        else (case FindKeyLocation cmp key ck n of (rv, loc1, ck1) \<Rightarrow>
          if rv = 0 then ((1, LoadKey n loc1, ck1, n), t1)
          else if loc1 < key_count n - 1
          then partial_walk cmp key ck1 n loc1 (GetBranch n loc1) curr_address loc1 (depth + 1) t1
          else partial_walk cmp key ck1 n loc1 (GetBranch n loc1) parent_address sav_location
                 (depth + 1) t1)))"
  by pat_completeness auto
termination
  by (relation "measure (\<lambda>(cmp, key, ck, n, l, a, p, s, d, t). gxBtreeMaxNodeReads - d)")
    (auto dest: ReadNodeChecked_less)

declare partial_walk.simps [simp del]

definition PartialFind_at ::
  "compare_fun \<Rightarrow> DatabaseKeyB \<Rightarrow> DatabaseKeyB \<Rightarrow> BtreeNode \<Rightarrow> bool \<Rightarrow> gxBtree \<Rightarrow> found" where
  "PartialFind_at cmp key ck cur test_tree t0 =
     (if bt_f t0 = None then ((35, key, ck, cur), t0)
      else (let t = sync_tree test_tree t0
            in partial_walk cmp key ck cur 0 (root (btree_header t)) 0 0 0 t))"

definition PartialFind ::
  "compare_fun \<Rightarrow> DatabaseKeyB \<Rightarrow> DatabaseKeyB \<Rightarrow> bool \<Rightarrow> gxBtree \<Rightarrow> found" where
  "PartialFind cmp key ck test_tree t = PartialFind_at cmp key ck (fresh_node t) test_tree t"

end
