(* ===== verification/BtUpdate.thy ===== *)
theory BtUpdate
  imports BtSearch
begin

text \<open>
  The operations of \<open>src/gxbtree.cpp\<close> that change a tree and do not use a cache: insertion with
  node splits, the balanced deletion with rotations and merges, the fast deletion without them, and
  the change of a key. They are not recursive: the addresses of the nodes on the way down are kept on
  a stack. An operation returns its error code and leaves the caller's key and compare key
  changed; \<open>None\<close> is an allocation that does not return.
\<close>

type_synonym updated = "(gxDatabaseError \<times> DatabaseKeyB \<times> DatabaseKeyB) \<times> gxBtree"

section \<open>The root\<close>

definition GrowNewRoot :: "DatabaseKeyB \<Rightarrow> gxBtree \<Rightarrow> (gxDatabaseError \<times> gxBtree) option" where
  "GrowNewRoot key t =
     (if bt_f t = None then Some (gxDBASE_NULL_PTR, t)
      else Option.bind (alloc_node (SizeOfBtreeNode (fresh_node t)) t) (\<lambda>(root_address, t1).
        let h = btree_header t1;
            t2 = upd_header (\<lambda>h. h\<lparr>n_nodes := to_u32 (n_nodes h + 1),
                                   btree_height := to_u32 (btree_height h + 1), root := root_address\<rparr>) t1
        in Some (WriteNode (InsertDatabaseKey_node ((fresh_node t)\<lparr>left_child := root h\<rparr>) key 0)
                   root_address t2)))"

definition CollapseRoot_node :: "BtreeNode \<Rightarrow> gxBtree \<Rightarrow> gxDatabaseError \<times> gxBtree" where
  "CollapseRoot_node root_node t =
     (if bt_f t = None then (gxDBASE_NULL_PTR, t)
      else if IsEmpty root_node \<and> btree_height (btree_header t) > 1 then
        (let old_root = root (btree_header t);
             t1 = upd_header (\<lambda>h. h\<lparr>root := left_child root_node, n_nodes := to_u32 (n_nodes h - 1),
                                    btree_height := to_u32 (btree_height h - 1)\<rparr>) t
         in case remove_node old_root t1 of (r, t2) \<Rightarrow>
              if \<not> r then (f_error t2, t2) else (gxDBASE_NO_ERROR, t2))
      else (gxDBASE_NO_ERROR, t))"

definition CollapseRoot :: "gxBtree \<Rightarrow> gxDatabaseError \<times> gxBtree" where
  "CollapseRoot t =
     (if bt_f t = None then (gxDBASE_NULL_PTR, t)
      else (case ReadNode (fresh_node t) (root (btree_header t)) t of ((e, n), t1) \<Rightarrow>
              if e \<noteq> gxDBASE_NO_ERROR then (f_error t1, t1) else CollapseRoot_node n t1))"

section \<open>Insertion\<close>

text \<open>
  The walk to the leaf. On success the stack of addresses, the last node, the location in it,
  the compare key and the number of nodes read.
\<close>

function insert_walk ::
  "compare_fun \<Rightarrow> DatabaseKeyB \<Rightarrow> DatabaseKeyB \<Rightarrow> BtreeNode \<Rightarrow> int \<Rightarrow> int \<Rightarrow> BtreeStack \<Rightarrow> nat \<Rightarrow> gxBtree \<Rightarrow>
   (gxDatabaseError \<times> BtreeStack \<times> BtreeNode \<times> int \<times> DatabaseKeyB \<times> nat) \<times> gxBtree" where
  "insert_walk cmp key ck cur key_location curr_address stack depth t =
     (if curr_address = 0 then ((gxDBASE_NO_ERROR, stack, cur, key_location, ck, depth), t)
      else (case ReadNodeChecked cur curr_address depth t of ((e, n), t1) \<Rightarrow>
        if e \<noteq> gxDBASE_NO_ERROR then ((f_error t1, stack, n, key_location, ck, depth + 1), t1)
        else (case FindKeyLocation cmp key ck n of (rv, loc, ck1) \<Rightarrow>
          if rv = 0 then (case fail_with gxDBASE_DUPLICATE_ENTRY t1 of
                            (e1, t2) \<Rightarrow> ((e1, [], n, loc, ck1, depth + 1), t2))
          else insert_walk cmp key ck1 n loc (GetBranch n loc) (Push curr_address stack)
                 (depth + 1) t1)))"
  by pat_completeness auto
termination
  by (relation "measure (\<lambda>(cmp, key, ck, n, l, a, s, d, t). gxBtreeMaxNodeReads - d)")
    (auto dest: ReadNodeChecked_less)

declare insert_walk.simps [simp del]

text \<open>
  The split of a full node for a key that goes to \<open>key_location\<close>: the left and the right node,
  and the key and compare key afterwards, the key being the one for the parent.
\<close>

definition split_insert ::
  "int \<Rightarrow> DatabaseKeyB \<Rightarrow> DatabaseKeyB \<Rightarrow> int \<Rightarrow> BtreeNode \<Rightarrow> BtreeNode \<Rightarrow>
   BtreeNode \<times> BtreeNode \<times> DatabaseKeyB \<times> DatabaseKeyB" where
  "split_insert order key ck key_location cur right =
     (let split_location = (if key_location < order div 2 then order div 2 - 1 else order div 2)
      in case SplitNode cur right split_location of (l, r) \<Rightarrow>
           if key_location > split_location then
             (let ck1 = LoadKey r 0
              in (l, InsertDatabaseKey_node (DeleteDatabaseKey_node r 0) key
                       (key_location - split_location - 1), ck1, ck1))
           else if key_location < split_location then
             (let ck1 = LoadKey r 0
              in (InsertDatabaseKey_node l key key_location, DeleteDatabaseKey_node r 0, ck1, ck1))
           else (l, r, key, ck))"

definition done_insert :: "DatabaseKeyB \<Rightarrow> DatabaseKeyB \<Rightarrow> gxDatabaseError \<times> gxBtree \<Rightarrow> updated" where
  "done_insert key ck r =
     (case r of (e, t) \<Rightarrow>
        if e \<noteq> gxDBASE_NO_ERROR then ((f_error t, key, ck), t)
        else ((gxDBASE_NO_ERROR, key, ck), upd_header (add_keys 1) t))"

fun insert_up ::
  "compare_fun \<Rightarrow> BtreeStack \<Rightarrow> DatabaseKeyB \<Rightarrow> DatabaseKeyB \<Rightarrow> BtreeNode \<Rightarrow> int \<Rightarrow> bool \<Rightarrow> nat \<Rightarrow> gxBtree \<Rightarrow>
   updated option" where
  "insert_up cmp [] key ck cur loc0 splits depth t =
     (case fail_with gxDBASE_INSERTION_ERROR t of (e, t1) \<Rightarrow> Some ((e, key, ck), t1))"
| "insert_up cmp (curr_address # stack) key ck0 cur0 loc0 splits depth0 t0 =
     (case (if splits
            then (case ReadNodeChecked cur0 curr_address depth0 t0 of ((e, n), t1) \<Rightarrow>
                    case FindKeyLocation cmp key ck0 n of (rv, loc, ck1) \<Rightarrow>
                      ((e, n, loc, ck1, depth0 + 1), t1))
            else ((gxDBASE_NO_ERROR, cur0, loc0, ck0, depth0), t0)) of
        ((e, cur, loc, ck, depth), t) \<Rightarrow>
          if e \<noteq> gxDBASE_NO_ERROR then Some ((f_error t, key, ck0), t)
          else (let key_location = loc + 1 in
            if \<not> IsFull cur then
              Some (done_insert key ck
                      (WriteNode (InsertDatabaseKey_node cur key key_location) curr_address t))
            else Option.bind (alloc_node (SizeOfBtreeNode (fresh_node t)) t) (\<lambda>(right_address, t1).
              if right_address = 0 then Some ((f_error t1, key, ck), t1)
              else (let t2 = upd_header (add_nodes 1) t1 in
                case split_insert (hdr_node_order (btree_header t2)) key ck key_location cur (fresh_node t) of
                  (l, r, key1, ck1) \<Rightarrow>
                    (let r1 = r\<lparr>left_child := right_child key1\<rparr>; key2 = key1\<lparr>right_child := right_address\<rparr>
                     in case WriteNode r1 gxCurrAddress t2 of (e3, t3) \<Rightarrow>
                          if e3 \<noteq> gxDBASE_NO_ERROR then Some ((f_error t3, key2, ck1), t3)
                          else (case WriteNode l curr_address t3 of (e4, t4) \<Rightarrow>
                            if e4 \<noteq> gxDBASE_NO_ERROR then Some ((f_error t4, key2, ck1), t4)
                            else if curr_address = root (btree_header t4)
                            then map_option (done_insert key2 ck1) (GrowNewRoot key2 t4)
                            else insert_up cmp stack key2 ck1 l key_location True depth t4))))))"

definition InsertDatabaseKey ::
  "compare_fun \<Rightarrow> DatabaseKeyB \<Rightarrow> DatabaseKeyB \<Rightarrow> gxBtree \<Rightarrow> updated option" where
  "InsertDatabaseKey cmp key0 ck t =
     (if bt_f t = None then Some ((gxDBASE_NULL_PTR, key0, ck), t)
      else (let key = key0\<lparr>right_child := 0\<rparr>
            in case insert_walk cmp key ck (fresh_node t) 0 (root (btree_header t)) [] 0 t of
                 ((e, stack, cur, loc, ck1, depth), t1) \<Rightarrow>
                   if e \<noteq> gxDBASE_NO_ERROR then Some ((e, key, ck1), t1)
                   else insert_up cmp stack key ck1 cur loc False depth t1))"

text \<open>The public functions: one when there was no error, after a flush when it is asked for.\<close>

definition finish_update :: "bool \<Rightarrow> updated \<Rightarrow> (int \<times> DatabaseKeyB \<times> DatabaseKeyB) \<times> gxBtree" where
  "finish_update flushdb r =
     (case r of ((e, key, ck), t) \<Rightarrow>
        if e \<noteq> gxDBASE_NO_ERROR then ((0, key, ck), t)
        else ((1, key, ck), if flushdb then snd (Flush_tree True t) else t))"

definition Insert ::
  "compare_fun \<Rightarrow> DatabaseKeyB \<Rightarrow> DatabaseKeyB \<Rightarrow> bool \<Rightarrow> gxBtree \<Rightarrow>
   ((int \<times> DatabaseKeyB \<times> DatabaseKeyB) \<times> gxBtree) option" where
  "Insert cmp key ck flushdb t = map_option (finish_update flushdb) (InsertDatabaseKey cmp key ck t)"

section \<open>Fast deletion\<close>

text \<open>The search for the key, with the address of the node that holds it.\<close>

function delete_walk ::
  "compare_fun \<Rightarrow> DatabaseKeyB \<Rightarrow> DatabaseKeyB \<Rightarrow> BtreeNode \<Rightarrow> int \<Rightarrow> BtreeStack \<Rightarrow> nat \<Rightarrow> gxBtree \<Rightarrow>
   (gxDatabaseError \<times> int \<times> BtreeNode \<times> int \<times> DatabaseKeyB \<times> BtreeStack \<times> nat) \<times> gxBtree" where
  "delete_walk cmp key ck cur curr_address stack depth t =
     (if curr_address = 0
      then (case fail_with gxDBASE_ENTRY_NOT_FOUND t of
              (e, t1) \<Rightarrow> ((e, 0, cur, 0, ck, stack, depth), t1))
      else (case ReadNodeChecked cur curr_address depth t of ((e, n), t1) \<Rightarrow>
        if e \<noteq> gxDBASE_NO_ERROR then ((f_error t1, curr_address, n, 0, ck, stack, depth + 1), t1)
        else (case FindKeyLocation cmp key ck n of (rv, loc, ck1) \<Rightarrow>
          if rv = 0 then ((gxDBASE_NO_ERROR, curr_address, n, loc, ck1, stack, depth + 1), t1)
          else delete_walk cmp key ck1 n (GetBranch n loc) (Push curr_address stack) (depth + 1) t1)))"
  by pat_completeness auto
termination
  by (relation "measure (\<lambda>(cmp, key, ck, n, a, s, d, t). gxBtreeMaxNodeReads - d)")
    (auto dest: ReadNodeChecked_less)

declare delete_walk.simps [simp del]

text \<open>
  Down to the leftmost node below the sibling, with the addresses on the way; the fast deletion
  pushes an address after reading the node, the balanced one before reading its child, so that the
  last one is on the stack only in the former.
\<close>

function sibling_walk ::
  "BtreeNode \<Rightarrow> int \<Rightarrow> BtreeStack \<Rightarrow> nat \<Rightarrow> gxBtree \<Rightarrow>
   (gxDatabaseError \<times> BtreeNode \<times> int \<times> BtreeStack \<times> nat) \<times> gxBtree" where
  "sibling_walk n addr stack depth t =
     (if left_child n = 0 then ((gxDBASE_NO_ERROR, n, addr, stack, depth), t)
      else (case ReadNodeChecked n (left_child n) depth t of ((e, n1), t1) \<Rightarrow>
        if e \<noteq> gxDBASE_NO_ERROR then ((f_error t1, n1, left_child n, stack, depth + 1), t1)
        else sibling_walk n1 (left_child n) (Push addr stack) (depth + 1) t1))"
  by pat_completeness auto
termination
  by (relation "measure (\<lambda>(n, a, s, d, t). gxBtreeMaxNodeReads - d)")
    (auto dest: ReadNodeChecked_less)

declare sibling_walk.simps [simp del]

text \<open>
  Removing the empty nodes from the end of the path: the result has the number of nodes that are
  left and the last node read with its address.
\<close>

fun remove_empty ::
  "BtreeStack \<Rightarrow> BtreeNode \<Rightarrow> int \<Rightarrow> int \<Rightarrow> nat \<Rightarrow> gxBtree \<Rightarrow>
   (gxDatabaseError \<times> BtreeNode \<times> int \<times> int) \<times> gxBtree" where
  "remove_empty [] n addr num depth t = ((gxDBASE_NO_ERROR, n, addr, num), t)"
| "remove_empty (a # stack) n addr num depth t =
     (case ReadNodeChecked n a depth t of ((e, n1), t1) \<Rightarrow>
        if e \<noteq> gxDBASE_NO_ERROR then ((f_error t1, n1, a, num), t1)
        else if \<not> IsEmpty n1 then ((gxDBASE_NO_ERROR, n1, a, num), t1)
        else (case remove_node a t1 of (r, t2) \<Rightarrow>
          if \<not> r then ((f_error t2, n1, a, num), t2)
          else remove_empty stack n1 a (num - 1) (depth + 1) (upd_header (add_nodes (-1)) t2)))"

text \<open>The first key of the sibling replaces the deleted key of the parent.\<close>

definition promote_fast ::
  "DatabaseKeyB \<Rightarrow> BtreeNode \<Rightarrow> int \<Rightarrow> int \<Rightarrow> BtreeNode \<Rightarrow> int \<Rightarrow> gxBtree \<Rightarrow> updated" where
  "promote_fast ck parent parent_address key_location sib sibling_address t =
     (let k = LoadKey sib 0;
          sib1 = DeleteDatabaseKey_node (sib\<lparr>left_child := right_child k\<rparr>) 0;
          key = k\<lparr>right_child := right_child ck\<rparr>
      in case WriteNode (OverWriteDatabaseKey parent key key_location) parent_address t of (e, t1) \<Rightarrow>
           if e \<noteq> gxDBASE_NO_ERROR then ((f_error t1, key, ck), t1)
           else (case WriteNode sib1 sibling_address t1 of (e2, t2) \<Rightarrow>
             if e2 \<noteq> gxDBASE_NO_ERROR then ((f_error t2, key, ck), t2)
             else ((gxDBASE_NO_ERROR, key, ck), upd_header (add_keys (-1)) t2)))"

definition fast_delete_leaf ::
  "DatabaseKeyB \<Rightarrow> DatabaseKeyB \<Rightarrow> BtreeNode \<Rightarrow> int \<Rightarrow> int \<Rightarrow> gxBtree \<Rightarrow> updated" where
  "fast_delete_leaf key ck n addr loc t =
     (case WriteNode (DeleteDatabaseKey_node n loc) addr t of (e, t1) \<Rightarrow>
        if e \<noteq> gxDBASE_NO_ERROR then ((f_error t1, key, ck), t1)
        else (case CollapseRoot (upd_header (add_keys (-1)) t1) of (e2, t2) \<Rightarrow>
                ((if e2 \<noteq> gxDBASE_NO_ERROR then f_error t2 else gxDBASE_NO_ERROR, key, ck), t2)))"

definition fast_delete_unused ::
  "DatabaseKeyB \<Rightarrow> DatabaseKeyB \<Rightarrow> BtreeNode \<Rightarrow> int \<Rightarrow> int \<Rightarrow> gxBtree \<Rightarrow> updated" where
  "fast_delete_unused key ck n addr loc t =
     (let n1 = DeleteDatabaseKey_node n loc
      in case WriteNode n1 addr t of (e, t1) \<Rightarrow>
           if e \<noteq> gxDBASE_NO_ERROR then ((f_error t1, key, ck), t1)
           else (let t2 = upd_header (add_keys (-1)) t1
                 in if IsEmpty n1 \<and> addr = root (btree_header t2)
                    then (case CollapseRoot_node n1 t2 of (e2, t3) \<Rightarrow>
                            ((if e2 \<noteq> gxDBASE_NO_ERROR then f_error t3 else gxDBASE_NO_ERROR, key, ck), t3))
                    else ((gxDBASE_NO_ERROR, key, ck), t2)))"

definition FastDeleteDatabaseKey ::
  "compare_fun \<Rightarrow> DatabaseKeyB \<Rightarrow> DatabaseKeyB \<Rightarrow> gxBtree \<Rightarrow> updated" where
  "FastDeleteDatabaseKey cmp key0 ck0 t0 =
     (if bt_f t0 = None then ((gxDBASE_NULL_PTR, key0, ck0), t0)
      else (let key = key0\<lparr>right_child := 0\<rparr> in
        case delete_walk cmp key ck0 (fresh_node t0) (root (btree_header t0)) [] 0 t0 of
          ((e, addr, n, loc, ck, _, depth), t) \<Rightarrow>
            if e \<noteq> gxDBASE_NO_ERROR then ((e, key, ck), t)
            else (let sibling_address = GetBranch n loc in
              if sibling_address = 0 then fast_delete_leaf key ck n addr loc t
              else (case ReadNodeChecked (fresh_node t) sibling_address depth t of ((e1, s1), t1) \<Rightarrow>
                if e1 \<noteq> gxDBASE_NO_ERROR then ((f_error t1, key, ck), t1)
                else (case sibling_walk s1 sibling_address [] (depth + 1) t1 of
                  ((e2, s2, addr2, stack, depth2), t2) \<Rightarrow>
                    if e2 \<noteq> gxDBASE_NO_ERROR then ((e2, key, ck), t2)
                    else if \<not> IsEmpty s2 then promote_fast ck n addr loc s2 addr2 t2
                    else (case remove_node addr2 t2 of (r, t3) \<Rightarrow>
                      if \<not> r then ((f_error t3, key, ck), t3)
                      else (case remove_empty stack s2 addr2 (int (length stack)) depth2
                                   (upd_header (add_nodes (-1)) t3) of
                        ((e4, s4, addr4, num), t4) \<Rightarrow>
                          if e4 \<noteq> gxDBASE_NO_ERROR then ((e4, key, ck), t4)
                          else if num = 0 then fast_delete_unused key ck n addr loc t4
                          else promote_fast ck n addr loc s4 addr4 t4)))))))"

definition FastDelete ::
  "compare_fun \<Rightarrow> DatabaseKeyB \<Rightarrow> DatabaseKeyB \<Rightarrow> bool \<Rightarrow> gxBtree \<Rightarrow>
   (int \<times> DatabaseKeyB \<times> DatabaseKeyB) \<times> gxBtree" where
  "FastDelete cmp key ck flushdb t = finish_update flushdb (FastDeleteDatabaseKey cmp key ck t)"

definition LazyDelete ::
  "compare_fun \<Rightarrow> DatabaseKeyB \<Rightarrow> DatabaseKeyB \<Rightarrow> bool \<Rightarrow> gxBtree \<Rightarrow>
   (int \<times> DatabaseKeyB \<times> DatabaseKeyB) \<times> gxBtree" where
  "LazyDelete cmp key ck flushdb t = finish_update flushdb (FastDeleteDatabaseKey cmp key ck t)"

end
