(* ===== verification/BtDelete.thy ===== *)
theory BtDelete
  imports BtUpdate
begin

text \<open>
  The balanced deletion of \<open>src/gxbtree.cpp\<close>: \<open>DeleteDatabaseKey\<close> with \<open>InsertBalance\<close>, the two
  rotations and \<open>Merge\<close>, and the functions that change a key in place. A balancing step works on a
  parent node that is in memory; it returns its error code, the parent and the compare key as it
  leaves them, and the tree.
\<close>

type_synonym balanced = "(gxDatabaseError \<times> BtreeNode \<times> DatabaseKeyB) \<times> gxBtree"

section \<open>Rotations and the merge\<close>

text \<open>The right and the left child at a location of the parent.\<close>

definition read_children ::
  "BtreeNode \<Rightarrow> int \<Rightarrow> gxBtree \<Rightarrow> (gxDatabaseError \<times> BtreeNode \<times> BtreeNode) \<times> gxBtree" where
  "read_children parent key_location t =
     (case ReadNode (fresh_node t) (GetBranch parent key_location) t of ((e, r), t1) \<Rightarrow>
        if e \<noteq> gxDBASE_NO_ERROR then ((f_error t1, r, fresh_node t), t1)
        else (case ReadNode (fresh_node t) (GetBranch parent (key_location - 1)) t1 of ((e2, l), t2) \<Rightarrow>
          ((if e2 \<noteq> gxDBASE_NO_ERROR then f_error t2 else gxDBASE_NO_ERROR, r, l), t2)))"

text \<open>Writing nodes one after another, up to the first that fails.\<close>

fun write_nodes :: "(BtreeNode \<times> int) list \<Rightarrow> gxBtree \<Rightarrow> gxDatabaseError \<times> gxBtree" where
  "write_nodes [] t = (gxDBASE_NO_ERROR, t)"
| "write_nodes ((n, a) # ns) t =
     (case WriteNode n a t of (e, t1) \<Rightarrow>
        if e \<noteq> gxDBASE_NO_ERROR then (f_error t1, t1) else write_nodes ns t1)"

text \<open>
  The nodes after a rotation: the parent, the right and the left child, and the compare key.
\<close>

definition rotate_right ::
  "BtreeNode \<Rightarrow> int \<Rightarrow> BtreeNode \<Rightarrow> BtreeNode \<Rightarrow> BtreeNode \<times> BtreeNode \<times> BtreeNode \<times> DatabaseKeyB" where
  "rotate_right parent key_location r l =
     (let ck = (LoadKey parent key_location)\<lparr>right_child := left_child r\<rparr>;
          highest_key = HighestKey l;
          r1 = (InsertDatabaseKey_node r ck 0)\<lparr>left_child := GetBranch l highest_key\<rparr>;
          ck1 = (LoadKey l highest_key)\<lparr>right_child := GetBranch parent key_location\<rparr>
      in (OverWriteDatabaseKey parent ck1 key_location, r1, DeleteDatabaseKey_node l highest_key, ck1))"

definition rotate_left ::
  "BtreeNode \<Rightarrow> int \<Rightarrow> BtreeNode \<Rightarrow> BtreeNode \<Rightarrow> BtreeNode \<times> BtreeNode \<times> BtreeNode \<times> DatabaseKeyB" where
  "rotate_left parent key_location r l =
     (let ck = (LoadKey parent key_location)\<lparr>right_child := left_child r\<rparr>;
          l1 = AppendDatabaseKey l ck;
          r1 = r\<lparr>left_child := GetBranch r 0\<rparr>;
          ck1 = (LoadKey r1 0)\<lparr>right_child := GetBranch parent key_location\<rparr>
      in (OverWriteDatabaseKey parent ck1 key_location, DeleteDatabaseKey_node r1 0, l1, ck1))"

definition merge_children ::
  "BtreeNode \<Rightarrow> int \<Rightarrow> BtreeNode \<Rightarrow> BtreeNode \<Rightarrow> BtreeNode \<times> BtreeNode \<times> DatabaseKeyB" where
  "merge_children parent key_location r l =
     (let ck = (LoadKey parent key_location)\<lparr>right_child := left_child r\<rparr>
      in (DeleteDatabaseKey_node parent key_location, MergeNode (AppendDatabaseKey l ck) r, ck))"

definition InsertRightRotation :: "BtreeNode \<Rightarrow> int \<Rightarrow> DatabaseKeyB \<Rightarrow> gxBtree \<Rightarrow> balanced" where
  "InsertRightRotation parent key_location ck t =
     (if bt_f t = None then ((gxDBASE_NULL_PTR, parent, ck), t)
      else (case read_children parent key_location t of ((e, r, l), t1) \<Rightarrow>
        if e \<noteq> gxDBASE_NO_ERROR then ((e, parent, ck), t1)
        else (case rotate_right parent key_location r l of (p1, r1, l1, ck1) \<Rightarrow>
          (case write_nodes [(p1, node_address parent), (r1, GetBranch parent key_location),
                             (l1, GetBranch parent (key_location - 1))] t1 of
             (e2, t2) \<Rightarrow> ((e2, p1, ck1), t2)))))"

definition InsertLeftRotation :: "BtreeNode \<Rightarrow> int \<Rightarrow> DatabaseKeyB \<Rightarrow> gxBtree \<Rightarrow> balanced" where
  "InsertLeftRotation parent key_location ck t =
     (if bt_f t = None then ((gxDBASE_NULL_PTR, parent, ck), t)
      else (case read_children parent key_location t of ((e, r, l), t1) \<Rightarrow>
        if e \<noteq> gxDBASE_NO_ERROR then ((e, parent, ck), t1)
        else (case rotate_left parent key_location r l of (p1, r1, l1, ck1) \<Rightarrow>
          (case write_nodes [(p1, node_address parent), (r1, GetBranch parent key_location),
                             (l1, GetBranch parent (key_location - 1))] t1 of
             (e2, t2) \<Rightarrow> ((e2, p1, ck1), t2)))))"

definition Merge :: "BtreeNode \<Rightarrow> int \<Rightarrow> DatabaseKeyB \<Rightarrow> gxBtree \<Rightarrow> balanced" where
  "Merge parent key_location ck t =
     (if bt_f t = None then ((gxDBASE_NULL_PTR, parent, ck), t)
      else (case read_children parent key_location t of ((e, r, l), t1) \<Rightarrow>
        if e \<noteq> gxDBASE_NO_ERROR then ((e, parent, ck), t1)
        else (case merge_children parent key_location r l of (p1, l1, ck1) \<Rightarrow>
          (case remove_node (GetBranch parent key_location) t1 of (removed, t2) \<Rightarrow>
            if \<not> removed then ((f_error t2, p1, ck1), t2)
            else (case write_nodes [(p1, node_address parent), (l1, GetBranch parent (key_location - 1))]
                         (upd_header (add_nodes (-1)) t2) of
              (e3, t3) \<Rightarrow> ((e3, p1, ck1), t3))))))"

section \<open>Balancing\<close>

text \<open>What a balancing step returns: the error of the step is that of the database.\<close>

definition via_f :: "balanced \<Rightarrow> balanced" where
  "via_f b = (case b of ((e, p, ck), t) \<Rightarrow>
     ((if e \<noteq> gxDBASE_NO_ERROR then f_error t else gxDBASE_NO_ERROR, p, ck), t))"

definition InsertBalance :: "BtreeNode \<Rightarrow> int \<Rightarrow> DatabaseKeyB \<Rightarrow> gxBtree \<Rightarrow> balanced" where
  "InsertBalance parent key_location ck t =
     (if bt_f t = None then ((gxDBASE_NULL_PTR, parent, ck), t)
      else if key_location = -1 then
        (case ReadNode (fresh_node t) (GetBranch parent 0) t of ((e, r), t1) \<Rightarrow>
           if e \<noteq> gxDBASE_NO_ERROR then ((f_error t1, parent, ck), t1)
           else via_f (if HasMany r then InsertLeftRotation parent 0 ck t1 else Merge parent 0 ck t1))
      else (case ReadNode (fresh_node t) (GetBranch parent (key_location - 1)) t of ((e, l), t1) \<Rightarrow>
        if e \<noteq> gxDBASE_NO_ERROR then ((f_error t1, parent, ck), t1)
        else if HasMany l then via_f (InsertRightRotation parent key_location ck t1)
        else if key_location = HighestKey parent then via_f (Merge parent key_location ck t1)
        else (case ReadNode (fresh_node t) (GetBranch parent (key_location + 1)) t1 of ((e2, r), t2) \<Rightarrow>
          if e2 \<noteq> gxDBASE_NO_ERROR then ((f_error t2, parent, ck), t2)
          else via_f (if HasMany r then InsertLeftRotation parent (key_location + 1) ck t2
                      else Merge parent key_location ck t2))))"

text \<open>One node of the path is read, the key located in it and its children balanced.\<close>

definition balance_at ::
  "compare_fun \<Rightarrow> DatabaseKeyB \<Rightarrow> DatabaseKeyB \<Rightarrow> BtreeNode \<Rightarrow> int \<Rightarrow> gxBtree \<Rightarrow> balanced" where
  "balance_at cmp key ck n addr t =
     (case ReadNode n addr t of ((e, p), t1) \<Rightarrow>
        if e \<noteq> gxDBASE_NO_ERROR then ((f_error t1, p, ck), t1)
        else (case FindKeyLocation cmp key ck p of (_, loc, ck1) \<Rightarrow>
          via_f (InsertBalance p loc ck1 t1)))"

text \<open>The grandparents, until one has enough keys or is the root.\<close>

fun balance_up ::
  "compare_fun \<Rightarrow> DatabaseKeyB \<Rightarrow> DatabaseKeyB \<Rightarrow> BtreeStack \<Rightarrow> gxBtree \<Rightarrow> updated" where
  "balance_up cmp key ck [] t = ((gxDBASE_NO_ERROR, key, ck), t)"
| "balance_up cmp key ck (a # stack) t =
     (case balance_at cmp key ck (fresh_node t) a t of ((e, p, ck1), t1) \<Rightarrow>
        if e \<noteq> gxDBASE_NO_ERROR then ((e, key, ck1), t1)
        else if HasFew p \<and> node_address p \<noteq> root (btree_header t1)
        then balance_up cmp key ck1 stack t1
        else ((gxDBASE_NO_ERROR, key, ck1), t1))"

section \<open>Deletion\<close>

text \<open>
  After the key was taken from the leaf at \<open>leaf_address\<close>: balancing and the test for an empty root.
  \<open>parent_address\<close> was popped from the stack.
\<close>

definition balance_leaf ::
  "compare_fun \<Rightarrow> DatabaseKeyB \<Rightarrow> DatabaseKeyB \<Rightarrow> BtreeNode \<Rightarrow> int \<Rightarrow> BtreeStack \<Rightarrow> gxBtree \<Rightarrow> updated" where
  "balance_leaf cmp key ck leaf leaf_address stack0 t =
     (case Pop stack0 of (parent_address, stack) \<Rightarrow>
        if HasFew leaf \<and> leaf_address \<noteq> root (btree_header t) then
          (case balance_at cmp key ck (fresh_node t) parent_address t of ((e, p, ck1), t1) \<Rightarrow>
             if e \<noteq> gxDBASE_NO_ERROR then ((e, key, ck1), t1)
             else if HasFew p \<and> node_address p \<noteq> root (btree_header t1)
             then balance_up cmp key ck1 stack t1
             else ((gxDBASE_NO_ERROR, key, ck1), t1))
        else ((gxDBASE_NO_ERROR, key, ck), t))"

definition finish_delete :: "updated \<Rightarrow> updated" where
  "finish_delete r =
     (case r of ((e, key, ck), t) \<Rightarrow>
        if e \<noteq> gxDBASE_NO_ERROR then r
        else (case CollapseRoot t of (e2, t2) \<Rightarrow>
          ((if e2 \<noteq> gxDBASE_NO_ERROR then f_error t2 else gxDBASE_NO_ERROR, key, ck), t2)))"

text \<open>The deletion from a leaf, and from a parent node whose key is replaced by the next one.\<close>

definition delete_in_leaf ::
  "compare_fun \<Rightarrow> DatabaseKeyB \<Rightarrow> DatabaseKeyB \<Rightarrow> BtreeNode \<Rightarrow> int \<Rightarrow> int \<Rightarrow> BtreeStack \<Rightarrow> gxBtree \<Rightarrow> updated" where
  "delete_in_leaf cmp key ck n addr loc stack t =
     (let n1 = DeleteDatabaseKey_node n loc
      in case WriteNode n1 addr t of (e, t1) \<Rightarrow>
           if e \<noteq> gxDBASE_NO_ERROR then ((f_error t1, key, ck), t1)
           else finish_delete (balance_leaf cmp key ck n1 addr stack (upd_header (add_keys (-1)) t1)))"

definition delete_in_parent ::
  "compare_fun \<Rightarrow> DatabaseKeyB \<Rightarrow> DatabaseKeyB \<Rightarrow> BtreeNode \<Rightarrow> int \<Rightarrow> int \<Rightarrow> BtreeNode \<Rightarrow> int \<Rightarrow> BtreeStack \<Rightarrow>
   gxBtree \<Rightarrow> updated" where
  "delete_in_parent cmp key ck n addr loc sib sibling_address stack t =
     (let key1 = (LoadKey sib 0)\<lparr>right_child := right_child ck\<rparr>;
          sib1 = DeleteDatabaseKey_node sib 0
      in case write_nodes [(OverWriteDatabaseKey n key1 loc, addr), (sib1, sibling_address)] t of (e, t1) \<Rightarrow>
           if e \<noteq> gxDBASE_NO_ERROR then ((e, key1, ck), t1)
           else finish_delete
                  (balance_leaf cmp key1 ck sib1 sibling_address stack (upd_header (add_keys (-1)) t1)))"

definition DeleteDatabaseKey ::
  "compare_fun \<Rightarrow> DatabaseKeyB \<Rightarrow> DatabaseKeyB \<Rightarrow> gxBtree \<Rightarrow> updated" where
  "DeleteDatabaseKey cmp key0 ck0 t0 =
     (if bt_f t0 = None then ((gxDBASE_NULL_PTR, key0, ck0), t0)
      else (let key = key0\<lparr>right_child := 0\<rparr>; r = root (btree_header t0) in
        case delete_walk cmp key ck0 (fresh_node t0) r (Push r []) 0 t0 of
          ((e, addr, n, loc, ck, stack, depth), t) \<Rightarrow>
            if e \<noteq> gxDBASE_NO_ERROR then ((e, key, ck), t)
            else (let sibling_address = GetBranch n loc in
              if sibling_address = 0 then delete_in_leaf cmp key ck n addr loc stack t
              else (case ReadNodeChecked (fresh_node t) sibling_address depth t of ((e1, s1), t1) \<Rightarrow>
                if e1 \<noteq> gxDBASE_NO_ERROR then ((f_error t1, key, ck), t1)
                else (case sibling_walk s1 sibling_address (Push addr stack) (depth + 1) t1 of
                  ((e2, s2, addr2, stack2, depth2), t2) \<Rightarrow>
                    if e2 \<noteq> gxDBASE_NO_ERROR then ((e2, key, ck), t2)
                    else delete_in_parent cmp key ck n addr loc s2 addr2 stack2 t2)))))"

definition Delete_key ::
  "compare_fun \<Rightarrow> DatabaseKeyB \<Rightarrow> DatabaseKeyB \<Rightarrow> bool \<Rightarrow> gxBtree \<Rightarrow>
   (int \<times> DatabaseKeyB \<times> DatabaseKeyB) \<times> gxBtree" where
  "Delete_key cmp key ck flushdb t = finish_update flushdb (DeleteDatabaseKey cmp key ck t)"

section \<open>Changing a key\<close>

text \<open>The overwriting of the key that \<open>Find\<close> has found in the node \<open>cur\<close>.\<close>

definition change_found ::
  "compare_fun \<Rightarrow> DatabaseKeyB \<Rightarrow> DatabaseKeyB \<Rightarrow> DatabaseKeyB \<Rightarrow> BtreeNode \<Rightarrow> gxBtree \<Rightarrow> found" where
  "change_found cmp key new_key_vals ck cur t =
     (case FindKeyLocation cmp key ck cur of (rv, loc, ck1) \<Rightarrow>
        if rv \<noteq> 0 then ((0, key, ck1, cur), t)
        else (let n = OverWriteDatabaseKey cur new_key_vals loc
              in case WriteNode n (node_address n) t of (e, t1) \<Rightarrow>
                   ((if e \<noteq> gxDBASE_NO_ERROR then 0 else 1, key, ck1, n), t1)))"

definition ChangeKey_at ::
  "compare_fun \<Rightarrow> DatabaseKeyB \<Rightarrow> DatabaseKeyB \<Rightarrow> DatabaseKeyB \<Rightarrow> BtreeNode \<Rightarrow> bool \<Rightarrow> gxBtree \<Rightarrow> found" where
  "ChangeKey_at cmp key new_key_vals ck cur test_tree t =
     (case Find_at cmp key ck cur test_tree t of ((r, key1, ck1, n), t1) \<Rightarrow>
        if r = 0 then ((0, key1, ck1, n), t1)
        else change_found cmp key1 new_key_vals ck1 n t1)"

definition ChangeKey ::
  "compare_fun \<Rightarrow> DatabaseKeyB \<Rightarrow> DatabaseKeyB \<Rightarrow> DatabaseKeyB \<Rightarrow> bool \<Rightarrow> gxBtree \<Rightarrow> found" where
  "ChangeKey cmp key new_key_vals ck test_tree t =
     ChangeKey_at cmp key new_key_vals ck (fresh_node t) test_tree t"

text \<open>
  When the key is not found, \<open>key\<close> is inserted, not \<open>new_key_vals\<close>, and \<open>test_tree\<close> is passed for
  the argument \<open>flushdb\<close> of \<open>Insert\<close>.
\<close>

definition ChangeOrAddKey_at ::
  "compare_fun \<Rightarrow> DatabaseKeyB \<Rightarrow> DatabaseKeyB \<Rightarrow> DatabaseKeyB \<Rightarrow> BtreeNode \<Rightarrow> bool \<Rightarrow> gxBtree \<Rightarrow>
   found option" where
  "ChangeOrAddKey_at cmp key new_key_vals ck cur test_tree t =
     (case Find_at cmp key ck cur test_tree t of ((r, key1, ck1, n), t1) \<Rightarrow>
        if r = 0
        then map_option (\<lambda>((r2, key2, ck2), t2). ((r2, key2, ck2, n), t2))
               (Insert cmp key1 ck1 test_tree t1)
        else Some (change_found cmp key1 new_key_vals ck1 n t1))"

definition ChangeOrAddKey ::
  "compare_fun \<Rightarrow> DatabaseKeyB \<Rightarrow> DatabaseKeyB \<Rightarrow> DatabaseKeyB \<Rightarrow> bool \<Rightarrow> gxBtree \<Rightarrow> found option" where
  "ChangeOrAddKey cmp key new_key_vals ck test_tree t =
     ChangeOrAddKey_at cmp key new_key_vals ck (fresh_node t) test_tree t"

end
