(* ===== verification/BtNodeProps.thy ===== *)
theory BtNodeProps
  imports BtNodeOps BtDelete
begin

text \<open>
  Properties of the operations on nodes in memory: the search in a node, the split of a full node,
  the rotations and the merge. Two children \<open>l\<close> and \<open>r\<close> of a parent with the key \<open>sep\<close> between them hold the
  sequence \<open>spliced l sep r\<close> of entries, each a key and the child to its right: this is what all
  restructuring keeps.
\<close>

definition spliced :: "BtreeNode \<Rightarrow> DatabaseKeyB \<Rightarrow> BtreeNode \<Rightarrow> DatabaseKeyB list" where
  "spliced l sep r = entries l @ sep\<lparr>right_child := left_child r\<rparr> # entries r"

section \<open>Searching\<close>

text \<open>
  C9: on a node whose keys are in ascending order \<open>FindKeyLocation\<close> returns zero and the location of
  the key when the node holds an equal key, which it also loads into the compare key; otherwise it
  returns the location before the first greater key, that is the branch to follow, and a return value
  that is negative exactly when this is the left child. Stated for the key of the relational
  database, with and without duplicate names.
\<close>

theorem FindKeyLocation_position:
  assumes "node_ok n" and "keys_sorted (rd_compare dup) (entries n)"
  shows "\<exists>ck1. FindKeyLocation (rd_compare dup) key ck n =
       (fst (key_location_of (rd_compare dup) (db_key key) (entries n)),
        snd (key_location_of (rd_compare dup) (db_key key) (entries n)), ck1) \<and>
     (\<forall>i. key_location_of (rd_compare dup) (db_key key) (entries n) = (0, i) \<longrightarrow> ck1 = slot n i)"
proof -
  obtain rv loc ck1 where F: "FindKeyLocation (rd_compare dup) key ck n = (rv, loc, ck1)"
    by (metis prod_cases3)
  show ?thesis
    using rd_node.FindKeyLocation_spec [OF assms F] F by auto
qed

text \<open>
  The binary search and the linear search that is compiled without \<open>__USE_BINARY_SEARCH__\<close>
  agree in the return value and the key location.
\<close>

theorem binary_search_is_linear_search:
  assumes "node_ok n" and "keys_sorted (rd_compare dup) (entries n)"
    and "FindKeyLocation (rd_compare dup) key ck n = (rv, loc, ck1)"
    and "FindKeyLocation_linear (rd_compare dup) key ck n = (rv2, loc2, ck2)"
  shows "rv2 = rv \<and> loc2 = loc"
  using rd_node.FindKeyLocation_spec(1) [OF assms(1-3)] rd_node.FindKeyLocation_linear_spec [OF assms(1,2,4)]
  by simp

section \<open>Splitting\<close>

text \<open>The cuts of the entry list that the three cases of a split make.\<close>

lemma cut_right:
  assumes "s < loc" "loc \<le> length es"
  shows "take s es @ es ! s # take (loc - Suc s) (drop (Suc s) es) @ k # drop (loc - Suc s) (drop (Suc s) es) =
         take loc es @ k # drop loc es"
proof -
  have "take loc es = take s es @ es ! s # take (loc - Suc s) (drop (Suc s) es)"
  proof -
    have "loc = s + Suc (loc - Suc s)" using assms by simp
    then have "take loc es = take s es @ take (Suc (loc - Suc s)) (drop s es)"
      by (metis take_add)
    moreover have "drop s es = es ! s # drop (Suc s) es"
      using assms by (simp add: Cons_nth_drop_Suc)
    ultimately show ?thesis by simp
  qed
  then show ?thesis using assms by simp
qed

lemma cut_left:
  assumes "loc < s" "s < length es"
  shows "(take loc (take s es) @ k # drop loc (take s es)) @ es ! s # drop (Suc s) es =
         take loc es @ k # drop loc es"
proof -
  have "drop loc es = drop loc (take s es) @ drop s es"
    by (subst append_take_drop_id [of s es, symmetric], subst drop_append) (use assms in simp)
  then show ?thesis using assms by (simp add: Cons_nth_drop_Suc min_def)
qed

lemma split_insert_entries:
  assumes cur: "buffer_ok cur" and rn: "buffer_ok rn" "node_order rn = node_order cur" and full: "IsFull cur"
    and order: "order = node_order cur + 1" "5 \<le> order" and loc: "0 \<le> loc" "loc \<le> key_count cur"
    and split: "split_insert order key ck loc cur rn = (l, r, key1, ck1)"
  shows "entries l @ key1 # entries r = take (nat loc) (entries cur) @ key # drop (nat loc) (entries cur)"
    and "buffer_ok l" "buffer_ok r" "left_child l = left_child cur"
    and "node_order l = node_order cur" "node_order r = node_order cur"
    and "key_count l = (if loc = order div 2 - 1 then order div 2 - 1 else order div 2)"
    and "key_count l + key_count r + 1 = order"
proof -
  define s where "s = (if loc < order div 2 then order div 2 - 1 else order div 2)"
  have kc: "key_count cur = order - 1" using full cur order by (auto simp: IsFull_def buffer_ok_def)
  have s: "0 \<le> s" "s < key_count cur" using kc order by (auto simp: s_def)
  obtain l0 r0 where SN: "SplitNode cur rn s = (l0, r0)" by fastforce
  note sp = split_entries [OF cur rn s(1) less_imp_le [OF s(2)] SN]
  have len: "length (entries cur) = nat (key_count cur)" using cur by simp
  have r0: "slot r0 0 = entries cur ! nat s"
    using slot_entries [of r0 0] sp(2,4,6) s len by (simp add: nth_append)
  have nf: "\<not> IsFull l0" using sp(5,7) s kc order by (simp add: IsFull_def)
  have SI: "split_insert order key ck loc cur rn =
      (if loc > s then (l0, InsertDatabaseKey_node (DeleteDatabaseKey_node r0 0) key (loc - s - 1), slot r0 0, slot r0 0)
       else if loc < s then (InsertDatabaseKey_node l0 key loc, DeleteDatabaseKey_node r0 0, slot r0 0, slot r0 0)
       else (l0, r0, key, ck))"
    by (simp add: split_insert_def Let_def s_def [symmetric] SN LoadKey_def)
  note dr = delete_entries [OF sp(4), of 0]
  have d0: "entries (DeleteDatabaseKey_node r0 0) = drop (Suc (nat s)) (entries cur)"
    "buffer_ok (DeleteDatabaseKey_node r0 0)" "key_count (DeleteDatabaseKey_node r0 0) = key_count cur - s - 1"
    using dr sp(2,6) s by auto
  have nr: "\<not> IsFull (DeleteDatabaseKey_node r0 0)"
    using d0(3) sp(8) kc order s by (simp add: IsFull_def)
  consider (right) "loc > s" | (left) "loc < s" | (mid) "loc = s" by linarith
  then have "entries l @ key1 # entries r = take (nat loc) (entries cur) @ key # drop (nat loc) (entries cur) \<and>
    buffer_ok l \<and> buffer_ok r \<and> left_child l = left_child cur \<and> node_order l = node_order cur \<and>
    node_order r = node_order cur \<and>
    key_count l = (if loc = order div 2 - 1 then order div 2 - 1 else order div 2) \<and>
    key_count l + key_count r + 1 = order"
  proof cases
    case right
    then have sv: "s = order div 2" "loc \<noteq> order div 2 - 1" by (auto simp: s_def split: if_splits)
    have *: "l = l0" "key1 = slot r0 0"
      "r = InsertDatabaseKey_node (DeleteDatabaseKey_node r0 0) key (loc - s - 1)"
      using split right unfolding SI by simp_all
    have p: "0 \<le> loc - s - 1" "loc - s - 1 \<le> key_count (DeleteDatabaseKey_node r0 0)"
      using right loc d0(3) by auto
    have n: "nat (loc - s - 1) = nat loc - Suc (nat s)" "nat s < nat loc" "nat loc \<le> length (entries cur)"
      using right s loc len by auto
    have ins_ok: "buffer_ok r" using insert_entries(2) [OF d0(2) p nr] *(3) by simp
    show ?thesis
    proof (intro conjI)
      note ins = insert_entries [OF d0(2) p nr, of key]
      have "entries r = take (nat loc - Suc (nat s)) (drop (Suc (nat s)) (entries cur)) @ key #
          drop (nat loc - Suc (nat s)) (drop (Suc (nat s)) (entries cur))"
        unfolding *(3) ins(1) d0(1) n(1) ..
      then show "entries l @ key1 # entries r = take (nat loc) (entries cur) @ key # drop (nat loc) (entries cur)"
        unfolding *(1,2) sp(1) r0 using cut_right [OF n(2,3), of key] by simp
      show "key_count l + key_count r + 1 = order"
        unfolding *(1,3) ins(3) d0(3) using sp(5) kc by simp
    qed (use ins_ok sp * sv in simp_all)
  next
    case left
    then have sv: "s = order div 2 - 1" "loc \<noteq> order div 2 - 1" using loc by (auto simp: s_def split: if_splits)
    have *: "l = InsertDatabaseKey_node l0 key loc" "key1 = slot r0 0" "r = DeleteDatabaseKey_node r0 0"
      using split left unfolding SI by simp_all
    have n: "nat loc < nat s" "nat s < length (entries cur)" using left s loc len by auto
    have p: "loc \<le> key_count l0" using left sp(5) by simp
    show ?thesis
      using insert_entries [OF sp(3) loc(1) p nf, of key] sp * d0 r0 cut_left [OF n, of key] sv kc
      by simp
  next
    case mid
    have *: "l = l0" "key1 = key" "r = r0"
      using split mid unfolding SI by simp_all
    have sv: "s = (if loc = order div 2 - 1 then order div 2 - 1 else order div 2)" using mid s_def by presburger
    have c: "key_count l = s" "key_count r = key_count cur - s" using sp(5,6) * by simp_all
    show ?thesis
    proof (intro conjI)
      show "key_count l = (if loc = order div 2 - 1 then order div 2 - 1 else order div 2)"
        using c(1) sv by simp
      show "key_count l + key_count r + 1 = order" using c kc by simp
    qed (use sp(1-4,7-9) * mid in simp_all)
  qed
  then show "entries l @ key1 # entries r = take (nat loc) (entries cur) @ key # drop (nat loc) (entries cur)"
    "buffer_ok l" "buffer_ok r" "left_child l = left_child cur"
    "node_order l = node_order cur" "node_order r = node_order cur"
    "key_count l = (if loc = order div 2 - 1 then order div 2 - 1 else order div 2)"
    "key_count l + key_count r + 1 = order" by blast+
qed

text \<open>
  C4: the split of a full node for a new key keeps the order. For a node of the maximal size, and
  whatever location the new key has in it, the entries of the left node, the key that is passed up
  and the entries of the right node are together the old entries with the new one inserted at its
  location; neither node overflows its buffer.
\<close>

theorem split_insert_keeps_order:
  assumes "buffer_ok cur" "buffer_ok rn" "node_order rn = node_order cur" "IsFull cur"
    and "order = node_order cur + 1" "5 \<le> order" "0 \<le> loc" "loc \<le> key_count cur"
    and "split_insert order key ck loc cur rn = (l, r, key1, ck1)"
  shows "spliced l key1 (r\<lparr>left_child := right_child key1\<rparr>) =
           take (nat loc) (entries cur) @ key # drop (nat loc) (entries cur) \<and>
         left_child l = left_child cur \<and> buffer_ok l \<and> buffer_ok r \<and>
         key_count l < node_order l \<and> key_count r < node_order r"
proof -
  note sp = split_insert_entries [OF assms]
  have "key_count l \<le> order div 2" "order div 2 - 1 \<le> key_count l" unfolding sp(7) by auto
  then have "key_count l < node_order l" "key_count r < node_order r"
    using sp(5,6,8) assms(5,6) by linarith+
  then show ?thesis using sp(1-4) by (simp add: spliced_def)
qed

text \<open>
  C10: how full the halves of a split are. The right node is never short of keys; the left node is
  short exactly when the node order is odd and the new key goes to the location one before the
  middle, where the left node keeps one key less than the minimum of half the keys.
\<close>

theorem split_leaves_underfull:
  assumes "buffer_ok cur" "buffer_ok rn" "node_order rn = node_order cur" "IsFull cur"
    and "order = node_order cur + 1" "5 \<le> order" "0 \<le> loc" "loc \<le> key_count cur"
    and "split_insert order key ck loc cur rn = (l, r, key1, ck1)"
  shows "(HasFew l \<longleftrightarrow> odd order \<and> loc = order div 2 - 1) \<and> \<not> HasFew r"
proof -
  note sp = split_insert_entries [OF assms]
  have "order div 2 + (order - 1) div 2 + 1 = order" by presburger
  moreover have "odd order \<longleftrightarrow> (order - 1) div 2 = order div 2" "(order - 1) div 2 \<le> order div 2"
    by presburger+
  moreover have "node_order l = order - 1" "node_order r = order - 1" using sp(5,6) assms(5) by auto
  ultimately show ?thesis
    using sp(7,8) unfolding HasFew_def by (cases "loc = order div 2 - 1") auto
qed

section \<open>Rotations and the merge\<close>

text \<open>
  A right rotation moves the last key of the left child up and the parent's key down to the
  right child: the sequence of entries and the children of all three nodes stay the same, the
  parent's pointer to the right child and its other keys too.
\<close>

theorem rotate_right_keeps_order:
  assumes "buffer_ok p" "buffer_ok r" "buffer_ok l" "0 \<le> loc" "loc < key_count p"
    and "\<not> IsFull r" "\<not> IsEmpty l"
    and "rotate_right p loc r l = (p1, r1, l1, ck1)"
  shows "spliced l1 (slot p1 loc) r1 = spliced l (slot p loc) r \<and>
         entries p1 = (entries p)[nat loc := slot p1 loc] \<and> GetBranch p1 loc = GetBranch p loc \<and>
         left_child l1 = left_child l \<and> left_child p1 = left_child p \<and>
         key_count l1 = key_count l - 1 \<and> key_count r1 = key_count r + 1"
proof -
  let ?h = "HighestKey l" and ?ck = "(LoadKey p loc)\<lparr>right_child := left_child r\<rparr>"
  let ?k = "(LoadKey l (HighestKey l))\<lparr>right_child := GetBranch p loc\<rparr>"
  have h: "0 \<le> ?h" "?h < key_count l" "nat ?h = length (entries l) - 1" "entries l \<noteq> []"
    using assms(3,7) by (auto simp: HighestKey_def IsEmpty_def buffer_ok_def simp flip: length_greater_0_conv)
  have eq: "p1 = OverWriteDatabaseKey p ?k loc"
    "r1 = (InsertDatabaseKey_node r ?ck 0)\<lparr>left_child := GetBranch l ?h\<rparr>"
    "l1 = DeleteDatabaseKey_node l ?h"
    using assms(8) by (auto simp: rotate_right_def Let_def)
  have r0: "0 \<le> key_count r" using assms(2) by (simp add: buffer_ok_def)
  note ov = overwrite_entries [OF assms(1,4,5), of ?k] and de = delete_entries [OF assms(3) h(1,2)]
    and ins = insert_entries [OF assms(2) order.refl r0 assms(6), of ?ck]
  have last: "slot l ?h = last (entries l)"
    using slot_entries [of l ?h] h assms(3) by (simp add: last_conv_nth)
  have p1: "slot p1 loc = ?k"
    using slot_entries [of p1 loc] ov assms by (simp add: eq)
  have "take (nat ?h) (entries l) @ drop (Suc (nat ?h)) (entries l) = butlast (entries l)"
    using h by (simp add: butlast_conv_take)
  then have l1: "entries l1 = butlast (entries l)" using de by (simp add: eq)
  have r1: "entries r1 = ?ck # entries r" unfolding eq(2) entries_left_child using ins(1) by simp
  have "spliced l1 (slot p1 loc) r1 = butlast (entries l) @ [last (entries l)] @ ?ck # entries r"
    unfolding spliced_def l1 r1 p1 using h(1) by (simp add: eq(2) LoadKey_def GetBranch_def last)
  then have "spliced l1 (slot p1 loc) r1 = spliced l (slot p loc) r"
    using h(4) by (simp add: spliced_def LoadKey_def append_butlast_last_id [of "entries l", simplified]
        flip: append_assoc)
  then show ?thesis
    using ov de ins assms(4) p1 by (auto simp: eq GetBranch_def)
qed

text \<open>
  A left rotation moves the first key of the right child up and the parent's key down to the
  left child, with the same guarantees.
\<close>

theorem rotate_left_keeps_order:
  assumes "buffer_ok p" "buffer_ok r" "buffer_ok l" "0 \<le> loc" "loc < key_count p"
    and "\<not> IsFull l" "\<not> IsEmpty r"
    and "rotate_left p loc r l = (p1, r1, l1, ck1)"
  shows "spliced l1 (slot p1 loc) r1 = spliced l (slot p loc) r \<and>
         entries p1 = (entries p)[nat loc := slot p1 loc] \<and> GetBranch p1 loc = GetBranch p loc \<and>
         left_child l1 = left_child l \<and> left_child p1 = left_child p \<and>
         key_count l1 = key_count l + 1 \<and> key_count r1 = key_count r - 1"
proof -
  let ?ck = "(LoadKey p loc)\<lparr>right_child := left_child r\<rparr>" and ?r = "r\<lparr>left_child := GetBranch r 0\<rparr>"
  let ?k = "(LoadKey ?r 0)\<lparr>right_child := GetBranch p loc\<rparr>"
  have eq: "p1 = OverWriteDatabaseKey p ?k loc" "r1 = DeleteDatabaseKey_node ?r 0" "l1 = AppendDatabaseKey l ?ck"
    using assms(8) by (auto simp: rotate_left_def Let_def)
  have r0: "0 < key_count r" "0 < key_count ?r" "buffer_ok ?r" using assms(2,7) by (auto simp: IsEmpty_def)
  note ov = overwrite_entries [OF assms(1,4,5), of ?k] and de = delete_entries [OF r0(3) order.refl r0(2)]
    and ap = append_entries [OF assms(3,6), of ?ck]
  have sr: "slot ?r 0 = slot r 0" by (simp add: slot_def)
  have ne: "entries r \<noteq> []" using assms(2) r0 by (simp flip: length_greater_0_conv)
  have hd: "slot r 0 = hd (entries r)"
    using slot_entries [of r 0] assms(2) r0 ne by (simp add: hd_conv_nth)
  have p1: "slot p1 loc = ?k"
    using slot_entries [of p1 loc] ov assms by (simp add: eq)
  have r1: "entries r1 = tl (entries r)" using de by (simp add: eq drop_Suc)
  have l1: "entries l1 = entries l @ [?ck]" using ap by (simp add: eq)
  have lc: "left_child r1 = right_child (hd (entries r))" by (simp add: eq(2) GetBranch_def hd)
  have "spliced l1 (slot p1 loc) r1 = entries l @ [?ck] @ hd (entries r) # tl (entries r)"
    unfolding spliced_def l1 r1 p1 lc by (simp add: LoadKey_def sr hd)
  then have "spliced l1 (slot p1 loc) r1 = spliced l (slot p loc) r"
    using ne by (simp add: spliced_def LoadKey_def)
  then show ?thesis
    using ov de ap assms(4) p1 by (auto simp: eq GetBranch_def)
qed

text \<open>
  C11: a merge is only done when it fits: when one child is short of keys and the other has no more
  than the minimum, the merged node is not over its size and holds the sequence of both with the
  parent's key between them, and the parent loses just that key and the pointer to the right child.
\<close>

theorem merge_keeps_order:
  assumes "buffer_ok p" "buffer_ok r" "buffer_ok l" "0 \<le> loc" "loc < key_count p"
    and "node_order l = node_order r" "HasFew l \<and> \<not> HasMany r \<or> HasFew r \<and> \<not> HasMany l"
    and "merge_children p loc r l = (p1, l1, ck1)"
  shows "buffer_ok l1 \<and> buffer_ok p1 \<and> entries l1 = spliced l (slot p loc) r \<and>
         left_child l1 = left_child l \<and>
         entries p1 = take (nat loc) (entries p) @ drop (Suc (nat loc)) (entries p)"
proof -
  let ?ck = "(LoadKey p loc)\<lparr>right_child := left_child r\<rparr>"
  have eq: "p1 = DeleteDatabaseKey_node p loc" "l1 = MergeNode (AppendDatabaseKey l ?ck) r"
    using assms(8) by (auto simp: merge_children_def Let_def)
  have sum: "key_count l + 1 + key_count r \<le> node_order l"
    using assms(6,7) by (auto simp: HasFew_def HasMany_def)
  then have nf: "\<not> IsFull l" using assms(2) by (auto simp: IsFull_def buffer_ok_def)
  note ap = append_entries [OF assms(3) nf, of ?ck]
  note me = merge_entries [OF ap(2) assms(2)]
  show ?thesis
    using delete_entries [OF assms(1,4,5)] me ap sum by (simp add: eq spliced_def LoadKey_def)
qed

section \<open>Witnesses\<close>

text \<open>A node of order five with the keys 2, 4, 6 and 8 of one byte, and a full leaf of order five.\<close>

definition sample_node :: "byte list \<Rightarrow> BtreeNode" where
  "sample_node ks =
     \<lparr>node_order = 4, key_size = 24, node_address = 0, key_count = int (length ks), left_child = 1,
      key_entries = map (\<lambda>b. \<lparr>right_child = uint b + 2, db_key = b # replicate 15 0\<rparr>) ks @
        replicate (4 - length ks) (blank_slot 24)\<rparr>"

definition sample_key :: "byte \<Rightarrow> DatabaseKeyB" where
  "sample_key b = \<lparr>right_child = 0, db_key = b # replicate 15 0\<rparr>"

theorem FindKeyLocation_position_witness:
  "FindKeyLocation (rd_compare True) (sample_key 6) (sample_key 0) (sample_node [2, 4, 6, 8]) =
     (0, 2, slot (sample_node [2, 4, 6, 8]) 2)"
proof -
  have "node_ok (sample_node [2, 4, 6, 8])" "keys_sorted (rd_compare True) (entries (sample_node [2, 4, 6, 8]))"
    "key_location_of (rd_compare True) (db_key (sample_key 6)) (entries (sample_node [2, 4, 6, 8])) = (0, 2)"
    by code_simp+
  then show ?thesis
    using FindKeyLocation_position [of "sample_node [2, 4, 6, 8]" True "sample_key 6" "sample_key 0"] by auto
qed

theorem binary_search_is_linear_search_witness:
  "fst (FindKeyLocation_linear (rd_compare True) (sample_key 5) (sample_key 0) (sample_node [2, 4, 6, 8])) = 1"
proof -
  let ?F = "FindKeyLocation (rd_compare True) (sample_key 5) (sample_key 0) (sample_node [2, 4, 6, 8])"
  let ?L = "FindKeyLocation_linear (rd_compare True) (sample_key 5) (sample_key 0) (sample_node [2, 4, 6, 8])"
  obtain l2 c2 r2 where L: "?L = (r2, l2, c2)" by (metis prod_cases3)
  have F: "?F = (1, 1, slot (sample_node [2, 4, 6, 8]) 2)" by code_simp
  have "node_ok (sample_node [2, 4, 6, 8])" "keys_sorted (rd_compare True) (entries (sample_node [2, 4, 6, 8]))"
    by code_simp+
  then show ?thesis using binary_search_is_linear_search [OF _ _ F L] L by simp
qed

lemma sample_split:
  "split_insert 5 (sample_key 3) (sample_key 0) 1 (sample_node [2, 4, 6, 8]) (new_BtreeNode 24 5) =
     (fst (split_insert 5 (sample_key 3) (sample_key 0) 1 (sample_node [2, 4, 6, 8]) (new_BtreeNode 24 5)),
      fst (snd (split_insert 5 (sample_key 3) (sample_key 0) 1 (sample_node [2, 4, 6, 8]) (new_BtreeNode 24 5))),
      sample_key 3, sample_key 0)"
  "buffer_ok (sample_node [2, 4, 6, 8])" "buffer_ok (new_BtreeNode 24 5)"
  "node_order (new_BtreeNode 24 5) = node_order (sample_node [2, 4, 6, 8])" "IsFull (sample_node [2, 4, 6, 8])"
  by code_simp+

theorem split_insert_keeps_order_witness:
  "\<exists>l r. split_insert 5 (sample_key 3) (sample_key 0) 1 (sample_node [2, 4, 6, 8]) (new_BtreeNode 24 5) =
      (l, r, sample_key 3, sample_key 0) \<and> key_count l < node_order l"
  using split_insert_keeps_order [OF sample_split(2-5) _ _ _ _ sample_split(1)] sample_split(1)
  by (auto simp: sample_node_def)

theorem split_leaves_underfull_witness:
  "\<exists>l r. split_insert 5 (sample_key 3) (sample_key 0) 1 (sample_node [2, 4, 6, 8]) (new_BtreeNode 24 5) =
      (l, r, sample_key 3, sample_key 0) \<and> HasFew l"
  using split_leaves_underfull [OF sample_split(2-5) _ _ _ _ sample_split(1)] sample_split(1)
  by (auto simp: sample_node_def)

lemma sample_buffers:
  "buffer_ok (sample_node [5])" "buffer_ok (sample_node [7, 8])" "buffer_ok (sample_node [2, 3, 4])"
  "buffer_ok (sample_node [3])" "buffer_ok (sample_node [6, 7, 8])"
  by code_simp+

theorem rotate_right_keeps_order_witness:
  "\<exists>p1 r1 l1 ck1. rotate_right (sample_node [5]) 0 (sample_node [7, 8]) (sample_node [2, 3, 4]) = (p1, r1, l1, ck1)
     \<and> spliced l1 (slot p1 0) r1 = spliced (sample_node [2, 3, 4]) (slot (sample_node [5]) 0) (sample_node [7, 8])"
proof -
  obtain p1 r1 l1 ck1 where R:
    "rotate_right (sample_node [5]) 0 (sample_node [7, 8]) (sample_node [2, 3, 4]) = (p1, r1, l1, ck1)"
    by (metis prod_cases4)
  show ?thesis
    using rotate_right_keeps_order [OF sample_buffers(1-3) _ _ _ _ R] R
    by (simp add: sample_node_def IsFull_def IsEmpty_def)
qed

theorem rotate_left_keeps_order_witness:
  "\<exists>p1 r1 l1 ck1. rotate_left (sample_node [5]) 0 (sample_node [6, 7, 8]) (sample_node [3]) = (p1, r1, l1, ck1)
     \<and> spliced l1 (slot p1 0) r1 = spliced (sample_node [3]) (slot (sample_node [5]) 0) (sample_node [6, 7, 8])"
proof -
  obtain p1 r1 l1 ck1 where R:
    "rotate_left (sample_node [5]) 0 (sample_node [6, 7, 8]) (sample_node [3]) = (p1, r1, l1, ck1)"
    by (metis prod_cases4)
  show ?thesis
    using rotate_left_keeps_order [OF sample_buffers(1,5,4) _ _ _ _ R] R
    by (simp add: sample_node_def IsFull_def IsEmpty_def)
qed

theorem merge_keeps_order_witness:
  "\<exists>p1 l1 ck1. merge_children (sample_node [5]) 0 (sample_node [7, 8]) (sample_node [3]) = (p1, l1, ck1)
     \<and> entries l1 = spliced (sample_node [3]) (slot (sample_node [5]) 0) (sample_node [7, 8])"
proof -
  obtain p1 l1 ck1 where R:
    "merge_children (sample_node [5]) 0 (sample_node [7, 8]) (sample_node [3]) = (p1, l1, ck1)"
    by (metis prod_cases3)
  show ?thesis
    using merge_keeps_order [OF sample_buffers(1,2,4) _ _ _ _ R] R
    by (simp add: sample_node_def HasFew_def HasMany_def)
qed

end
