(* ===== verification/BtCodec.thy ===== *)
theory BtCodec
  imports BtNodeOps BtFile Layout
begin

text \<open>
  Nodes in the byte image: the encoding of a node, and what \<open>WriteNode\<close> and \<open>ReadNode\<close> do to an open
  file whose accesses succeed. \<open>holds\<close> says that a node with the given left child and entries is
  stored at an address.
\<close>

definition slots_ok :: "int \<Rightarrow> DatabaseKeyB list \<Rightarrow> bool" where
  "slots_ok sz es \<longleftrightarrow> (\<forall>e \<in> set es. length (db_key e) = nat sz - 8 \<and> in_s64 (right_child e))"

text \<open>A node in memory whose buffer has whole slots.\<close>

definition node_fit :: "BtreeNode \<Rightarrow> bool" where
  "node_fit n \<longleftrightarrow> buffer_ok n \<and> 8 \<le> key_size n \<and>
     (\<forall>e \<in> set (key_entries n). length (db_key e) = nat (key_size n) - 8)"

definition enc_node :: "int \<Rightarrow> DatabaseKeyB list \<Rightarrow> byte list" where
  "enc_node lc es =
     gxINT32_UnPackBits (int (length es)) @ gxINT64_UnPackBits lc @ enc_slots es"

definition node_bytes :: "int \<Rightarrow> DatabaseKeyB list \<Rightarrow> nat" where
  "node_bytes sz es = 12 + length es * nat sz"

definition holds :: "byte list \<Rightarrow> int \<Rightarrow> int \<Rightarrow> int \<Rightarrow> DatabaseKeyB list \<Rightarrow> bool" where
  "holds img a sz lc es \<longleftrightarrow>
     0 \<le> a \<and> 8 \<le> sz \<and> in_s64 lc \<and> slots_ok sz es \<and> in_u32 (int (length es)) \<and>
     nat a + node_bytes sz es \<le> length img \<and> bytes_at img (nat a) (node_bytes sz es) = enc_node lc es"

section \<open>The encoding of slots\<close>

lemma length_unpack [simp]:
  "length (gxINT32_UnPackBits v) = 4" "length (gxINT64_UnPackBits v) = 8"
  by (simp_all add: unpack32_le unpack64_le)

lemma length_enc_slots: "\<forall>e \<in> set es. length (db_key e) = nat sz - 8 \<Longrightarrow> 8 \<le> sz \<Longrightarrow>
   length (enc_slots es) = length es * nat sz"
  by (induction es) (auto simp: enc_slots_def enc_slot_def)

lemma length_enc_node: "slots_ok sz es \<Longrightarrow> 8 \<le> sz \<Longrightarrow> length (enc_node lc es) = node_bytes sz es"
  by (simp add: enc_node_def node_bytes_def length_enc_slots slots_ok_def)

lemma dec_enc_slot: "length (db_key e) = nat sz - 8 \<Longrightarrow> 8 \<le> sz \<Longrightarrow> in_s64 (right_child e) \<Longrightarrow>
   length pre = i * nat sz \<Longrightarrow> dec_slot sz (pre @ enc_slot e @ post) i = e"
  by (simp add: dec_slot_def enc_slot_def bytes_at_def s64.dec_enc)

lemma dec_enc_slots:
  assumes "slots_ok sz es" "8 \<le> sz"
  shows "dec_slots sz (enc_slots es) (length es) = es"
proof (rule nth_equalityI)
  fix i assume "i < length (dec_slots sz (enc_slots es) (length es))"
  then have i: "i < length es" by (simp add: dec_slots_def)
  have e: "enc_slots es = enc_slots (take i es) @ enc_slot (es ! i) @ enc_slots (drop (Suc i) es)"
    using i by (subst id_take_nth_drop [of i es]) (simp_all add: enc_slots_def)
  have "length (enc_slots (take i es)) = i * nat sz"
    using i assms by (subst length_enc_slots [where sz = sz]) (auto simp: slots_ok_def dest: in_set_takeD)
  then show "dec_slots sz (enc_slots es) (length es) ! i = es ! i"
    using i assms unfolding e by (simp add: dec_slots_def) (rule dec_enc_slot, auto simp: slots_ok_def)
qed (simp add: dec_slots_def)

section \<open>Reading a node\<close>

lemma slots_at_fit:
  assumes "node_fit n" "0 \<le> k" "k \<le> node_order n"
  shows "length (enc_slots (slots_at n 0 k)) = nat k * nat (key_size n)"
proof -
  have "length (slots_at n 0 k) = nat k"
    using assms by (auto simp: slots_at_def node_fit_def buffer_ok_def)
  then show ?thesis
    using assms length_enc_slots [of "slots_at n 0 k" "key_size n"]
    by (auto simp: slots_at_def node_fit_def dest: in_set_takeD)
qed

lemma holds_parts:
  assumes "holds img a sz lc es"
  shows "bytes_at img (nat a) 4 = gxINT32_UnPackBits (int (length es))"
    and "bytes_at img (nat a + 4) 8 = gxINT64_UnPackBits lc"
    and "bytes_at img (nat a + 12) (length es * nat sz) = enc_slots es"
proof -
  have l: "length (enc_slots es) = length es * nat sz"
    using assms length_enc_slots by (simp add: holds_def slots_ok_def)
  have b: "bytes_at img (nat a) (node_bytes sz es) = enc_node lc es" using assms by (simp add: holds_def)
  have "bytes_at img (nat a + k) m = bytes_at (enc_node lc es) k m" if "k + m \<le> node_bytes sz es" for k m
    using that by (simp add: bytes_at_sub flip: b)
  from this [of 0 4] this [of 4 8] this [of 12 "length es * nat sz"]
  show "bytes_at img (nat a) 4 = gxINT32_UnPackBits (int (length es))"
    and "bytes_at img (nat a + 4) 8 = gxINT64_UnPackBits lc"
    and "bytes_at img (nat a + 12) (length es * nat sz) = enc_slots es"
    using l by (simp_all add: node_bytes_def enc_node_def bytes_at_def)
qed

text \<open>Reading where a node is stored gives the node; the file is only positioned.\<close>

lemma ReadNode_holds:
  assumes f: "bt_f t = Some db" and rd: "readable db" and h: "holds (dbytes db) a (key_size n) lc es"
    and fit: "node_fit n" and few: "int (length es) \<le> node_order n"
  obtains n' p where
    "ReadNode n a t = ((gxDBASE_NO_ERROR, n'),
       t\<lparr>bt_f := Some (moved p gxDBASE_READ db), node_reads := to_u32 (node_reads t + 1)\<rparr>)"
    "entries n' = es" "left_child n' = lc" "key_count n' = int (length es)" "node_address n' = a"
    "node_order n' = node_order n" "key_size n' = key_size n" "node_fit n'"
proof -
  let ?img = "dbytes db" and ?sz = "key_size n"
  note hp = holds_parts [OF h]
  have a: "0 \<le> a" and sz: "8 \<le> ?sz" and u: "in_u32 (int (length es))" and lc: "in_s64 lc"
    and so: "slots_ok ?sz es" and len: "nat a + 12 + length es * nat ?sz \<le> length ?img"
    using h by (auto simp: holds_def node_bytes_def)
  let ?n1 = "n\<lparr>node_address := a, key_count := int (length es)\<rparr>" and ?n2 = "n\<lparr>node_address := a, key_count := int (length es), left_child := lc\<rparr>"
  have fit2: "node_fit ?n2" using fit few by (simp add: node_fit_def buffer_ok_def)
  have r1: "Read (gxINT32_UnPackBits (key_count n)) a db =
      (gxINT32_UnPackBits (int (length es)), moved (nat a + 4) gxDBASE_READ db)"
    using rd a len hp(1) by (simp add: engine_simps)
  have r2: "Read (gxINT64_UnPackBits (left_child ?n1)) gxCurrAddress (moved (nat a + 4) gxDBASE_READ db) =
      (gxINT64_UnPackBits lc, moved (nat a + 12) gxDBASE_READ db)"
    using rd len hp(2) by (simp add: engine_simps add.assoc)
  have l3: "length (enc_slots (slots_at ?n2 0 (int (length es)))) = length es * nat ?sz"
    using slots_at_fit [OF fit2, of "int (length es)"] few by simp
  have r3: "Read (enc_slots (slots_at ?n2 0 (int (length es)))) gxCurrAddress (moved (nat a + 12) gxDBASE_READ db) =
      (enc_slots es, moved (nat a + 12 + length es * nat ?sz) gxDBASE_READ db)"
    using rd len hp(3) l3 by (simp add: engine_simps)
  have d: "gxINT32_PackBits (gxINT32_UnPackBits (int (length es))) = int (length es)"
    "gxINT64_PackBits (gxINT64_UnPackBits lc) = lc"
    using s32.dec_enc [OF u] s64.dec_enc [OF lc] by auto
  have ds: "dec_slots ?sz (enc_slots es) (length es) = es" using dec_enc_slots [OF so sz] .
  show ?thesis
  proof (cases "es = []")
    case True
    have "ReadNode n a t = ((gxDBASE_NO_ERROR, ?n2),
       t\<lparr>bt_f := Some (moved (nat a + 12) gxDBASE_READ db), node_reads := to_u32 (node_reads t + 1)\<rparr>)"
      using f r1 r2 d few True by (simp add: ReadNode_def Let_def)
    then show ?thesis using fit2 True by (intro that [of ?n2]) (simp_all add: entries_def)
  next
    case False
    let ?n3 = "?n2\<lparr>key_entries := move_in (key_entries n) 0 es\<rparr>"
    have R: "ReadNode n a t = ((gxDBASE_NO_ERROR, ?n3),
       t\<lparr>bt_f := Some (moved (nat a + 12 + length es * nat ?sz) gxDBASE_READ db),
         node_reads := to_u32 (node_reads t + 1)\<rparr>)"
      using f r1 r2 r3 d ds few False by (simp add: ReadNode_def Let_def)
    have le: "length es \<le> length (key_entries n)" using fit few by (simp add: node_fit_def buffer_ok_def)
    have e: "entries ?n3 = es" using le by (simp add: entries_def move_in_def)
    have fit3: "node_fit ?n3"
      using fit2 le so by (auto simp: node_fit_def buffer_ok_def move_in_def slots_ok_def dest: in_set_dropD)
    show ?thesis using R e fit3 by (intro that [of ?n3]) simp_all
  qed
qed

section \<open>Writing a node\<close>

lemma put_at_append: "put_at (put_at f p d) (p + length d) e = put_at f p (d @ e)"
proof (cases "d = [] \<or> e = []")
  case False
  let ?P = "take p (f @ replicate (p - length f) 0)" and ?n = "p + length d"
  have P: "length ?P = p" by simp
  have F: "put_at f p d = (?P @ d) @ drop ?n f" using False by (simp add: put_at_def)
  have l: "length (?P @ d) = ?n" using P by simp
  have "take ?n (put_at f p d @ replicate (?n - length (put_at f p d)) 0) = ?P @ d"
    unfolding F append_assoc using l by (simp only: append_assoc [symmetric] take_append) simp
  moreover have "drop (?n + length e) (put_at f p d) = drop (?n + length e) f"
    unfolding F using l by (simp only: drop_append) (simp add: drop_drop add.commute)
  ultimately have "put_at (put_at f p d) ?n e = (?P @ d) @ e @ drop (?n + length e) f"
    using False by (simp add: put_at_def [of "put_at f p d"])
  then show ?thesis using False by (simp add: put_at_def [of f p "d @ e"] add.assoc)
qed auto

text \<open>The write hook, which is called once for each of the up to three writes, sees no difference.\<close>

lemma hook_fields [simp]:
  "dbytes (db\<lparr>hook_calls := h\<rparr>) = dbytes db" "dpos (db\<lparr>hook_calls := h\<rparr>) = dpos db"
  "readable (db\<lparr>hook_calls := h\<rparr>) = readable db" "writable n (db\<lparr>hook_calls := h\<rparr>) = writable n db"
  "BlockHeaderSize (db\<lparr>hook_calls := h\<rparr>) = BlockHeaderSize db"
  "FileHeaderSize (db\<lparr>hook_calls := h\<rparr>) = FileHeaderSize db" "IsOK (db\<lparr>hook_calls := h\<rparr>) = IsOK db"
  by (simp_all add: state_defs BlockHeaderSize_def FileHeaderSize_def Let_def)

lemma stored_stored:
  assumes "p' = p + length d"
  shows "moved q op (stored p' e ((moved r opr (stored p d db))\<lparr>hook_calls := k\<rparr>)) =
     (moved q op (stored p (d @ e) db))\<lparr>hook_calls := hook_calls (stored p' e (db\<lparr>hook_calls := k\<rparr>))\<rparr>"
  using put_at_append [of "dbytes db" p d e] assms
  by (cases db) (simp add: moved_def stored_def dbytes_def)

text \<open>
  Writing a node at the address \<open>p\<close>, or at the current position when this is \<open>p\<close>, stores its
  encoding there.
\<close>

lemma WriteNode_ok:
  assumes f: "bt_f t = Some db" and w: "writable (p + node_bytes (key_size n) (entries n)) db"
    and addr: "addr = int p \<or> addr = gxCurrAddress \<and> dpos db = p" and fit: "node_fit n"
  obtains h where "WriteNode n addr t = (gxDBASE_NO_ERROR,
     t\<lparr>bt_f := Some ((moved (p + node_bytes (key_size n) (entries n)) gxDBASE_WRITE
                     (stored p (enc_node (left_child n) (entries n)) db))\<lparr>hook_calls := h\<rparr>),
       node_writes := to_u32 (node_writes t + 1)\<rparr>)"
proof -
  let ?b1 = "gxINT32_UnPackBits (key_count n)" and ?b2 = "gxINT64_UnPackBits (left_child n)"
    and ?b3 = "enc_slots (entries n)"
  have bo: "buffer_ok n" using fit by (simp add: node_fit_def)
  have k: "0 \<le> key_count n" "int (length (entries n)) = key_count n" "slots_at n 0 (key_count n) = entries n"
    using bo slots_at_entries [OF bo, of 0] by (auto simp: buffer_ok_def)
  have l3: "length ?b3 = length (entries n) * nat (key_size n)"
    using fit by (intro length_enc_slots) (auto simp: node_fit_def entries_def dest: in_set_takeD)
  have w1: "writable (p + 4) db" "writable (p + 12) db" "writable (p + 12 + length ?b3) db"
    using w l3 by (auto simp: node_bytes_def elim!: writable_mono)
  have s1: "Write ?b1 addr db = moved (p + 4) gxDBASE_WRITE (stored p ?b1 db)"
    using addr w1(1) by (auto simp: engine_simps)
  let ?d1 = "(moved (p + 4) gxDBASE_WRITE (stored p ?b1 db))\<lparr>hook_calls := hook_calls (stored p ?b1 db)\<rparr>"
  have d1: "moved (p + 4) gxDBASE_WRITE (stored p ?b1 db) = ?d1" by simp
  have s1d: "Write ?b1 addr db = ?d1" using s1 d1 by (rule trans)
  have s2: "Write ?b2 gxCurrAddress ?d1 = moved (p + 12) gxDBASE_WRITE (stored (p + 4) ?b2 ?d1)"
    using w1(2) by (simp add: engine_simps add.assoc)
  obtain h where h: "moved (p + 12) gxDBASE_WRITE (stored (p + 4) ?b2 ?d1) =
      (moved (p + 12) gxDBASE_WRITE (stored p (?b1 @ ?b2) db))\<lparr>hook_calls := h\<rparr>"
    using stored_stored [of "p + 4" p ?b1] by simp
  let ?d2 = "(moved (p + 12) gxDBASE_WRITE (stored p (?b1 @ ?b2) db))\<lparr>hook_calls := h\<rparr>"
  have s2': "Write ?b2 gxCurrAddress ?d1 = ?d2" using s2 h by simp
  have e1: "gxd_error ?d1 = gxDBASE_NO_ERROR" "gxd_error ?d2 = gxDBASE_NO_ERROR" by simp_all
  show ?thesis
  proof (cases "entries n = []")
    case True
    then have "WriteNode n addr t =
      (gxDBASE_NO_ERROR, t\<lparr>bt_f := Some ?d2, node_writes := to_u32 (node_writes t + 1)\<rparr>)"
      using f s1d s2' k e1 by (simp add: WriteNode_def Let_def on_f_def f_error_def)
    then show ?thesis using True k(2) by (intro that [of h]) (simp add: node_bytes_def enc_node_def enc_slots_def)
  next
    case False
    let ?d3 = "moved (p + 12 + length ?b3) gxDBASE_WRITE (stored (p + 12) ?b3 ?d2)"
    have s3: "Write ?b3 gxCurrAddress ?d2 = ?d3" using w1(3) by (simp add: engine_simps)
    obtain h3 where h3:
      "?d3 = (moved (p + 12 + length ?b3) gxDBASE_WRITE (stored p ((?b1 @ ?b2) @ ?b3) db))\<lparr>hook_calls := h3\<rparr>"
      using stored_stored [of "p + 12" p "?b1 @ ?b2"] by simp
    have ne: "0 < key_count n" using False k(2) by (metis length_0_conv nat_int of_nat_0_less_iff neq0_conv)
    have "WriteNode n addr t =
      (gxDBASE_NO_ERROR, t\<lparr>bt_f := Some ?d3, node_writes := to_u32 (node_writes t + 1)\<rparr>)"
      using f s1d s2' s3 k(3) ne e1 by (simp add: WriteNode_def Let_def on_f_def f_error_def)
    then show ?thesis unfolding h3
      using k(2) l3 by (intro that [of h3]) (simp add: node_bytes_def enc_node_def add.assoc)
  qed
qed

lemma holds_written:
  assumes "8 \<le> sz" "in_s64 lc" "slots_ok sz es" "in_u32 (int (length es))"
  shows "holds (put_at img p (enc_node lc es)) (int p) sz lc es"
proof -
  have l: "length (enc_node lc es) = node_bytes sz es" using length_enc_node assms by simp
  moreover have "enc_node lc es \<noteq> []" using l by (auto simp: node_bytes_def)
  ultimately have "p + node_bytes sz es \<le> length (put_at img p (enc_node lc es))"
    by (simp add: length_put_at)
  then show ?thesis using assms l bytes_at_put_same_len [OF l] by (simp add: holds_def)
qed

lemma holds_disjoint:
  assumes "holds img a sz lc es" "nat a + node_bytes sz es \<le> p \<or> p + length d \<le> nat a"
  shows "holds (put_at img p d) a sz lc es"
  using assms length_put_at_mono [of img p d] bytes_at_put_disjoint [of "nat a" "node_bytes sz es" p d img]
  by (simp add: holds_def)

lemma holds_cong:
  assumes "holds img a sz lc es" "nat a + node_bytes sz es \<le> length img'"
    and "bytes_at img' (nat a) (node_bytes sz es) = bytes_at img (nat a) (node_bytes sz es)"
  shows "holds img' a sz lc es"
  using assms by (simp add: holds_def)

end
