(* ===== verification/BtTree.thy ===== *)
theory BtTree
  imports BtCodec BtSearch
begin

text \<open>
  A B-tree as it is stored in a file. A \<open>btree\<close> has the address of each node, its left child and its
  entries, each a key with the child to its right; its in-order list of keys is what the tree
  means. \<open>tree_at\<close> says that the nodes of the tree are stored in the byte image. The searches are
  proved against the in-order list.
\<close>

datatype btree = Tip | Br int btree "(byte list \<times> btree) list"

fun addr_of :: "btree \<Rightarrow> int" where
  "addr_of Tip = 0"
| "addr_of (Br a l es) = a"

definition slot_of :: "byte list \<times> btree \<Rightarrow> DatabaseKeyB" where
  "slot_of e = \<lparr>right_child = addr_of (snd e), db_key = fst e\<rparr>"

fun inorder :: "btree \<Rightarrow> byte list list" where
  "inorder Tip = []"
| "inorder (Br a l es) = inorder l @ concat (map (\<lambda>(k, t). k # inorder t) es)"

fun depth_of :: "btree \<Rightarrow> nat" where
  "depth_of Tip = 0"
| "depth_of (Br a l es) = Suc (foldr max (map (\<lambda>(k, t). depth_of t) es) (depth_of l))"

text \<open>
  The tree in the byte image: key size \<open>sz\<close>, at most \<open>m\<close> keys in a node.
\<close>

fun tree_at :: "byte list \<Rightarrow> int \<Rightarrow> int \<Rightarrow> btree \<Rightarrow> bool" where
  "tree_at img sz m Tip \<longleftrightarrow> True"
| "tree_at img sz m (Br a l es) \<longleftrightarrow>
     0 < a \<and> holds img a sz (addr_of l) (map slot_of es) \<and> int (length es) \<le> m \<and>
     tree_at img sz m l \<and> (\<forall>e \<in> set es. tree_at img sz m (snd e))"

definition sorted_keys :: "compare_fun \<Rightarrow> byte list list \<Rightarrow> bool" where
  "sorted_keys cmp ks \<longleftrightarrow> sorted_wrt (\<lambda>a b. cmp a b < 0) ks"

section \<open>Parts of a node\<close>

text \<open>The child left of the key number \<open>m\<close>, and what the tree holds before and behind that child.\<close>

definition child :: "btree \<Rightarrow> (byte list \<times> btree) list \<Rightarrow> nat \<Rightarrow> btree" where
  "child l es m = (if m = 0 then l else snd (es ! (m - 1)))"

definition items :: "(byte list \<times> btree) list \<Rightarrow> byte list list" where
  "items es = concat (map (\<lambda>(k, t). k # inorder t) es)"

definition before :: "btree \<Rightarrow> (byte list \<times> btree) list \<Rightarrow> nat \<Rightarrow> byte list list" where
  "before l es m = (if m = 0 then [] else inorder l @ items (take (m - 1) es) @ [fst (es ! (m - 1))])"

lemma items_simps [simp]:
  "items [] = []" "items ((k, t) # es) = k # inorder t @ items es" "items (es @ fs) = items es @ items fs"
  by (simp_all add: items_def)

lemma inorder_Br [simp]: "inorder (Br a l es) = inorder l @ items es"
  by (simp add: items_def)

declare inorder.simps(2) [simp del]

lemma inorder_child:
  assumes "m \<le> length es"
  shows "inorder (Br a l es) = before l es m @ inorder (child l es m) @ items (drop m es)"
proof (cases m)
  case (Suc i)
  then have "i < length es" using assms by simp
  then have "es = take i es @ es ! i # drop (Suc i) es" by (rule id_take_nth_drop)
  then have "items es = items (take i es @ es ! i # drop (Suc i) es)" by simp
  also have "\<dots> = items (take i es) @ fst (es ! i) # inorder (snd (es ! i)) @ items (drop (Suc i) es)"
    by (cases "es ! i") simp
  finally show ?thesis by (simp add: before_def child_def Suc)
qed (simp add: before_def child_def)

lemma child_mem: "m \<le> length es \<Longrightarrow> child l es m = l \<or> child l es m \<in> snd ` set es"
  by (cases m) (auto simp: child_def)

lemma tree_at_child: "tree_at img sz m (Br a l es) \<Longrightarrow> i \<le> length es \<Longrightarrow> tree_at img sz m (child l es i)"
  using child_mem [of i es l] by auto

lemma foldr_max: "y \<le> foldr max xs (y :: nat)" "x \<in> set xs \<Longrightarrow> x \<le> foldr max xs y"
  by (induction xs) (auto simp: le_max_iff_disj)

lemma depth_child: "i \<le> length es \<Longrightarrow> depth_of (child l es i) < depth_of (Br a l es)"
  using child_mem [of i es l] foldr_max(1) [of "depth_of l" "map (\<lambda>(k, t). depth_of t) es"]
    foldr_max(2) [of _ "map (\<lambda>(k, t). depth_of t) es" "depth_of l"]
  by (fastforce simp: less_Suc_eq_le)

lemma child_slots:
  assumes "node_ok n" "entries n = map slot_of es" "left_child n = addr_of l" "m \<le> length es"
    and "key_count n = int (length es)"
  shows "GetBranch n (int m - 1) = addr_of (child l es m)"
proof (cases m)
  case (Suc i)
  then have "slot n (int m - 1) = slot_of (es ! i)"
    using assms by (simp add: slot_entries)
  then show ?thesis using Suc assms(4) by (simp add: GetBranch_def child_def slot_of_def)
qed (use assms in \<open>simp add: GetBranch_def child_def\<close>)

section \<open>Sorted trees\<close>

lemma sorted_append:
  "sorted_keys cmp (xs @ ys) \<longleftrightarrow>
     sorted_keys cmp xs \<and> sorted_keys cmp ys \<and> (\<forall>x \<in> set xs. \<forall>y \<in> set ys. cmp x y < 0)"
  by (auto simp: sorted_keys_def sorted_wrt_append)

lemma items_keys: "set (map fst es) \<subseteq> set (items es)"
  by (auto simp: items_def)

lemma items_key: "i < length es \<Longrightarrow> fst (es ! i) \<in> set (items es)"
  using items_keys [of es] by (metis length_map nth_map nth_mem subsetD)

lemma sorted_slots: "sorted_keys cmp (items es) \<Longrightarrow> keys_sorted cmp (map slot_of es)"
proof (induction es)
  case (Cons e es)
  then show ?case
    using items_keys [of es]
    by (cases e) (auto simp: sorted_keys_def keys_sorted_def slot_of_def sorted_wrt_append image_subset_iff)
qed (simp add: keys_sorted_def)

lemma sorted_children:
  assumes "sorted_keys cmp (inorder (Br a l es))"
  shows "keys_sorted cmp (map slot_of es)" "i \<le> length es \<Longrightarrow> sorted_keys cmp (inorder (child l es i))"
proof -
  show "keys_sorted cmp (map slot_of es)" using assms by (intro sorted_slots) (simp add: sorted_append)
  assume "i \<le> length es"
  from inorder_child [OF this, of a l] show "sorted_keys cmp (inorder (child l es i))"
    using assms by (simp only: sorted_append)
qed

lemma before_last: "0 < m \<Longrightarrow> before l es m \<noteq> [] \<and> last (before l es m) = fst (es ! (m - 1))"
  by (simp add: before_def)

lemma drop_first: "m < length es \<Longrightarrow> items (drop m es) \<noteq> [] \<and> hd (items (drop m es)) = fst (es ! m)"
  by (cases "es ! m") (simp add: Cons_nth_drop_Suc [symmetric])

lemma set_butlast_last: "xs \<noteq> [] \<Longrightarrow> set xs = insert (last xs) (set (butlast xs))"
  by (induction xs) auto

context key_search
begin

text \<open>The keys before and behind the child that the search takes are less and greater than the key.\<close>

lemma location_splits:
  assumes "sorted_keys cmp (inorder (Br a l es))"
    and "key_location_of cmp k (map slot_of es) = (rv, loc)" and "rv \<noteq> 0"
  obtains m where "m \<le> length es" "loc = int m - 1" "rv < 0 \<longleftrightarrow> m = 0"
    "\<forall>x \<in> set (before l es m). 0 < cmp k x" "\<forall>x \<in> set (items (drop m es)). cmp k x < 0"
proof -
  let ?m = "keys_below cmp k (map slot_of es)"
  have m: "?m \<le> length es" using keys_below_le [of cmp k "map slot_of es"] by simp
  have key: "db_key (map slot_of es ! i) = fst (es ! i)" if "i < length es" for i
    using that by (simp add: slot_of_def)
  have srt: "sorted_keys cmp (before l es ?m)" "sorted_keys cmp (items (drop ?m es))"
    using assms(1) unfolding inorder_child [OF m] by (simp_all add: sorted_append)
  have lo: "\<forall>x \<in> set (before l es ?m). 0 < cmp k x"
  proof (cases "?m = 0")
    case False
    let ?b = "before l es ?m"
    have b: "?b \<noteq> []" "last ?b = fst (es ! (?m - 1))" using before_last False by auto
    have "\<forall>e \<in> set (takeWhile (\<lambda>e. cmp (db_key e) k < 0) (map slot_of es)). cmp (db_key e) k < 0"
      by (auto dest: set_takeWhileD)
    moreover have "map slot_of es ! (?m - 1) \<in> set (takeWhile (\<lambda>e. cmp (db_key e) k < 0) (map slot_of es))"
      using False takeWhile_nth [of "?m - 1" "\<lambda>e. cmp (db_key e) k < 0" "map slot_of es"]
      by (metis diff_less keys_below_def neq0_conv nth_mem zero_less_one)
    ultimately have last: "cmp (last ?b) k < 0" using b(2) key [of "?m - 1"] m False by (metis Suc_diff_1 Suc_le_lessD neq0_conv)
    have "sorted_keys cmp (butlast ?b @ [last ?b])" using srt(1) b(1) by simp
    then have "cmp x (last ?b) \<le> 0" if "x \<in> set ?b" for x
      using that unfolding sorted_append set_butlast_last [OF b(1)] by (auto intro: less_imp_le)
    then show ?thesis using last le_less_trans cmp_flip by blast
  qed (simp add: before_def)
  have hi: "\<forall>x \<in> set (items (drop ?m es)). cmp k x < 0"
  proof (cases "?m < length es")
    case True
    let ?d = "items (drop ?m es)"
    have d: "?d \<noteq> []" "hd ?d = fst (es ! ?m)" using drop_first [OF True] by auto
    have "\<not> cmp (db_key (map slot_of es ! ?m)) k < 0"
      using True nth_length_takeWhile [of "\<lambda>e. cmp (db_key e) k < 0" "map slot_of es"]
      by (simp add: keys_below_def)
    moreover have "cmp k (db_key (map slot_of es ! ?m)) \<noteq> 0"
      using assms(2,3) True by (auto simp: key_location_of_def Let_def split: if_splits)
    ultimately have hd: "cmp k (hd ?d) < 0"
      using d(2) key [OF True] cmp_flip zero_sym by (metis linorder_neqE_linordered_idom)
    have "sorted_keys cmp (hd ?d # tl ?d)" using srt(2) d(1) by simp
    then have "cmp (hd ?d) x \<le> 0" if "x \<in> set ?d" for x
      using that d(1) by (metis cmp_self less_imp_le list.exhaust_sel order_refl set_ConsD sorted_keys_def sorted_wrt.simps(2))
    then show ?thesis using hd less_le_trans by blast
  qed simp
  have "loc = int ?m - 1" "rv < 0 \<longleftrightarrow> ?m = 0"
    using assms(2,3) by (auto simp: key_location_of_def Let_def split: if_splits)
  then show ?thesis by (intro that [OF m _ _ lo hi])
qed

end

end
