(* ===== verification/BtFind.thy ===== *)
theory BtFind
  imports BtTree
begin

text \<open>
  The searches on a stored tree: \<open>find_walk\<close> and the walks to the ends of a subtree only position
  the file, and their results are those of a search in the in-order list of the keys.
\<close>

section \<open>Operations that only look at the file\<close>

definition looked :: "gxDatabase \<Rightarrow> gxDatabase \<Rightarrow> bool" where
  "looked db db' \<longleftrightarrow> (\<exists>p op e. db' = (moved p op db)\<lparr>gxd_error := e\<rparr>)"

lemma looked_moved [simp]: "looked db (moved p op db)" "looked db ((moved p op db)\<lparr>gxd_error := e\<rparr>)"
  by (auto simp: looked_def) (metis moved_no_error)

lemma moved_after_error [simp]: "moved p op (db\<lparr>gxd_error := e\<rparr>) = moved p op db"
  by (simp add: moved_def)

lemma lookedE:
  assumes "looked db db'"
  obtains p op e where "db' = (moved p op db)\<lparr>gxd_error := e\<rparr>"
  using assms unfolding looked_def by blast

lemma looked_trans: "looked db db1 \<Longrightarrow> looked db1 db2 \<Longrightarrow> looked db db2"
  by (elim lookedE) simp

lemma looked_error: "readable db \<Longrightarrow> looked db (SetDatabaseError e db)"
proof -
  assume "readable db"
  then have "SetDatabaseError e db = (moved (dpos db) (last_operation db) db)\<lparr>gxd_error := e\<rparr>"
    by (cases db) (auto simp: SetDatabaseError_def moved_def dpos_def readable_def)
  then show ?thesis by simp
qed

lemma looked_fields:
  assumes "looked db db'"
  shows "dbytes db' = dbytes db" "file_header db' = file_header db"
    "file_stats_header db' = file_stats_header db" "rev_letter db' = rev_letter db"
    "readable db \<Longrightarrow> readable db'" "writable n db \<Longrightarrow> writable n db'"
  using assms by (auto simp: looked_def)

text \<open>The same for a tree: its header is unchanged.\<close>

definition looked_tree :: "gxBtree \<Rightarrow> gxBtree \<Rightarrow> bool" where
  "looked_tree t t' \<longleftrightarrow>
     btree_header t' = btree_header t \<and> btree_header_address t' = btree_header_address t \<and>
     header_in_sync t' = header_in_sync t \<and>
     (\<exists>db db'. bt_f t = Some db \<and> bt_f t' = Some db' \<and> looked db db')"

lemma looked_tree_trans: "looked_tree t t1 \<Longrightarrow> looked_tree t1 t2 \<Longrightarrow> looked_tree t t2"
  unfolding looked_tree_def by (metis looked_trans option.inject)

lemma SetDatabaseError_fields [simp]: "gxd_error (SetDatabaseError e db) = e"
  by (simp add: SetDatabaseError_def)

text \<open>The file of a tree, and what \<open>ReadNodeChecked\<close> does where a node is stored.\<close>

definition tree_db :: "gxBtree \<Rightarrow> gxDatabase" where "tree_db t = the (bt_f t)"

definition tree_ready :: "gxBtree \<Rightarrow> bool" where
  "tree_ready t \<longleftrightarrow> bt_f t \<noteq> None \<and> readable (tree_db t)"

lemma looked_tree_fields:
  assumes "looked_tree t t'"
  shows "tree_ready t \<Longrightarrow> tree_ready t'" "dbytes (tree_db t') = dbytes (tree_db t)"
    "btree_header t' = btree_header t" "fresh_node t' = fresh_node t" "bt_f t' \<noteq> None"
    "looked (tree_db t) (tree_db t')"
  using assms looked_fields by (auto simp: looked_tree_def tree_ready_def tree_db_def fresh_node_def)

lemma looked_refl: "readable db \<Longrightarrow> looked db db"
  using looked_error [of db "gxd_error db"] by (simp add: SetDatabaseError_def)

lemma looked_tree_refl: "tree_ready t \<Longrightarrow> looked_tree t t"
  using looked_refl by (auto simp: looked_tree_def tree_ready_def tree_db_def)

lemma ReadNodeChecked_holds:
  assumes r: "tree_ready t" and h: "holds (dbytes (tree_db t)) a (key_size n) lc es"
    and fit: "node_fit n" and few: "int (length es) \<le> node_order n" and d: "d < gxBtreeMaxNodeReads"
  obtains n' t' where
    "ReadNodeChecked n a d t = ((gxDBASE_NO_ERROR, n'), t')" "looked_tree t t'" "f_error t' = gxDBASE_NO_ERROR"
    "entries n' = es" "left_child n' = lc" "key_count n' = int (length es)" "node_address n' = a"
    "node_order n' = node_order n" "key_size n' = key_size n" "node_fit n'"
proof -
  obtain db where db: "bt_f t = Some db" "tree_db t = db" "readable db"
    using r by (auto simp: tree_ready_def tree_db_def)
  obtain n' p where R: "ReadNode n a t = ((gxDBASE_NO_ERROR, n'),
       t\<lparr>bt_f := Some (moved p gxDBASE_READ db), node_reads := to_u32 (node_reads t + 1)\<rparr>)"
    "entries n' = es" "left_child n' = lc" "key_count n' = int (length es)" "node_address n' = a"
    "node_order n' = node_order n" "key_size n' = key_size n" "node_fit n'"
    using ReadNode_holds [OF db(1,3) h [unfolded db(2)] fit few] by blast
  show ?thesis
    using d R db by (intro that) (auto simp: ReadNodeChecked_def looked_tree_def f_error_def)
qed

section \<open>Find\<close>

definition fit_for :: "gxBtree \<Rightarrow> int \<Rightarrow> int \<Rightarrow> BtreeNode \<Rightarrow> bool" where
  "fit_for t sz m n \<longleftrightarrow> node_fit n \<and> key_size n = sz \<and> node_order n = m"

lemma read_tree_node:
  assumes "tree_ready t" "tree_at (dbytes (tree_db t)) sz m (Br a l es)" "fit_for t sz m cur"
    and "d < gxBtreeMaxNodeReads"
  obtains n t1 where "ReadNodeChecked cur a d t = ((gxDBASE_NO_ERROR, n), t1)"
    "looked_tree t t1" "f_error t1 = gxDBASE_NO_ERROR" "entries n = map slot_of es"
    "left_child n = addr_of l" "key_count n = int (length es)" "node_address n = a"
    "fit_for t1 sz m n" "node_ok n"
proof -
  have fit: "node_fit cur" "key_size cur = sz" "node_order cur = m" using assms(3) by (auto simp: fit_for_def)
  have T: "holds (dbytes (tree_db t)) a (key_size cur) (addr_of l) (map slot_of es)"
    "int (length (map slot_of es)) \<le> node_order cur"
    using assms(2) fit by auto
  show ?thesis
    by (rule ReadNodeChecked_holds [OF assms(1) T(1) fit(1) T(2) assms(4)])
      (rule that, auto simp: fit_for_def fit node_fit_def)
qed

context key_search
begin

text \<open>
  What the walk down from the root promises: it ends with the key of the tree that is equal to
  the one searched for, or says that there is none.
\<close>

lemma find_walk_tree:
  assumes "tree_ready t" "tree_at (dbytes (tree_db t)) sz m T" "fit_for t sz m cur"
    and "sorted_keys cmp (inorder T)" "d + depth_of T \<le> gxBtreeMaxNodeReads"
  shows "\<exists>rv key' ck' n' t'. find_walk cmp key ck cur (addr_of T) d t = ((rv, key', ck', n'), t') \<and>
    looked_tree t t' \<and> fit_for t' sz m n' \<and>
    (if \<exists>k \<in> set (inorder T). cmp (db_key key) k = 0
     then rv = 1 \<and> db_key key' \<in> set (inorder T) \<and> cmp (db_key key) (db_key key') = 0 \<and> 
       f_error t' = gxDBASE_NO_ERROR
     else rv = 0 \<and> key' = key \<and> f_error t' = gxDBASE_ENTRY_NOT_FOUND)"
  using assms
proof (induction "depth_of T" arbitrary: T cur d ck t rule: less_induct)
  case less
  show ?case
  proof (cases T)
    case Tip
    have "find_walk cmp key ck cur (addr_of T) d t = not_found key ck cur t"
      using Tip by (simp add: find_walk.simps)
    moreover obtain db where "bt_f t = Some db" using less.prems(1) by (auto simp: tree_ready_def)
    moreover have "looked_tree t (on_f (SetDatabaseError gxDBASE_ENTRY_NOT_FOUND) t)"
      using less.prems(1) looked_error by (auto simp: looked_tree_def on_f_def tree_ready_def tree_db_def)
    ultimately show ?thesis
      using Tip less.prems(3)
      by (simp add: not_found_def fail_with_def f_error_def on_f_def fit_for_def)
  next
    case (Br a l es)
    have d: "d < gxBtreeMaxNodeReads" using less.prems(5) Br by simp
    obtain n t1 where R: "ReadNodeChecked cur a d t = ((gxDBASE_NO_ERROR, n), t1)"
      and t1: "looked_tree t t1" "f_error t1 = gxDBASE_NO_ERROR"
      and n: "entries n = map slot_of es" "left_child n = addr_of l" "key_count n = int (length es)"
      and ft: "fit_for t1 sz m n" and ok: "node_ok n"
      using read_tree_node [OF less.prems(1) less.prems(2) [unfolded Br] less.prems(3) d] by metis
    have T: "0 < a" using less.prems(2) Br by simp
    note lk = looked_tree_fields [OF t1(1)]
    have srt: "sorted_keys cmp (inorder (Br a l es))" using less.prems(4) Br by simp
    obtain rv loc ck1 where F: "FindKeyLocation cmp key ck n = (rv, loc, ck1)" by (metis prod_cases3)
    have K: "key_location_of cmp (db_key key) (map slot_of es) = (rv, loc)"
      using FindKeyLocation_spec(1) [OF ok _ F] sorted_children(1) [OF srt] n(1) by simp
    have W: "find_walk cmp key ck cur (addr_of T) d t =
      (if rv = 0 then ((1, LoadKey n loc, ck1, n), t1)
       else find_walk cmp key ck1 n (GetBranch n loc) (d + 1) t1)"
      using Br T R F by (subst find_walk.simps) simp
    show ?thesis
    proof (cases "rv = 0")
      case True
      let ?i = "nat loc"
      have i: "loc = int ?i" "?i < length es" "cmp (db_key key) (fst (es ! ?i)) = 0"
        using K True by (auto simp: key_location_of_def Let_def slot_of_def split: if_splits)
      have "slot n loc = slot_of (es ! ?i)"
        using slot_entries [OF ok, of loc] i n(1,3) by simp
      then have key: "db_key (LoadKey n loc) = fst (es ! ?i)" by (simp add: LoadKey_def slot_of_def)
      have mem: "fst (es ! ?i) \<in> set (inorder T)"
        using items_key [OF i(2)] Br by simp
      have ex: "\<exists>k \<in> set (inorder T). cmp (db_key key) k = 0" using i(3) mem by blast
      show ?thesis
        unfolding W if_P [OF ex] if_P [OF True]
        using t1 ft mem i(3) by (auto simp: key)
    next
      case False
      obtain j where j: "j \<le> length es" "loc = int j - 1"
        "\<forall>x \<in> set (before l es j). 0 < cmp (db_key key) x" "\<forall>x \<in> set (items (drop j es)). cmp (db_key key) x < 0"
        using location_splits [OF srt K False] by metis
      let ?C = "child l es j"
      have b: "GetBranch n loc = addr_of ?C"
        using child_slots [OF ok n(1,2) j(1) n(3)] j(2) by simp
      have dep: "depth_of ?C < depth_of T" using depth_child [OF j(1)] Br by simp
      have "tree_at (dbytes (tree_db t1)) sz m ?C"
        using tree_at_child [OF less.prems(2) [unfolded Br] j(1)] lk(2) by simp
      note IH = less.hyps [OF dep lk(1) [OF less.prems(1)] this _ sorted_children(2) [OF srt j(1)], of n "d + 1" ck1]
      have dd: "d + 1 + depth_of ?C \<le> gxBtreeMaxNodeReads" using dep less.prems(5) by simp
      have set: "set (inorder T) = set (before l es j) \<union> set (inorder ?C) \<union> set (items (drop j es))"
        using inorder_child [OF j(1), of a l] Br by auto
      have ex: "(\<exists>k \<in> set (inorder T). cmp (db_key key) k = 0) \<longleftrightarrow> (\<exists>k \<in> set (inorder ?C). cmp (db_key key) k = 0)"
        unfolding set using j(3,4) by (auto; force)
      from IH [OF ft dd] obtain rv' key' ck' n' t' where
        "find_walk cmp key ck1 n (addr_of ?C) (d + 1) t1 = ((rv', key', ck', n'), t')" "looked_tree t1 t'"
        "fit_for t' sz m n'"
        "if \<exists>k \<in> set (inorder ?C). cmp (db_key key) k = 0
         then rv' = 1 \<and> db_key key' \<in> set (inorder ?C) \<and> cmp (db_key key) (db_key key') = 0 \<and>
           f_error t' = gxDBASE_NO_ERROR
         else rv' = 0 \<and> key' = key \<and> f_error t' = gxDBASE_ENTRY_NOT_FOUND"
        by blast
      then show ?thesis
        unfolding W ex b if_not_P [OF False]
        using looked_tree_trans [OF t1(1)] by (intro exI conjI) (auto simp: set split: if_splits)
    qed
  qed
qed

end

section \<open>The ends of a subtree\<close>

text \<open>Every node of the tree has a key.\<close>

fun no_empty :: "btree \<Rightarrow> bool" where
  "no_empty Tip \<longleftrightarrow> True"
| "no_empty (Br a l es) \<longleftrightarrow> es \<noteq> [] \<and> no_empty l \<and> (\<forall>e \<in> set es. no_empty (snd e))"

lemma no_empty_inorder: "no_empty T \<Longrightarrow> T \<noteq> Tip \<Longrightarrow> inorder T \<noteq> []"
  by (cases T) (auto simp: neq_Nil_conv)

lemma no_empty_child: "no_empty (Br a l es) \<Longrightarrow> i \<le> length es \<Longrightarrow> no_empty (child l es i)"
  using child_mem [of i es l] by auto

lemma addr_of_Tip: "tree_at img sz m T \<Longrightarrow> addr_of T = 0 \<longleftrightarrow> T = Tip"
  by (cases T) auto

lemma depth_left: "depth_of l < depth_of (Br a l es)"
  using depth_child [of 0 es l a] by (simp add: child_def)

lemma slot_key:
  "node_ok n \<Longrightarrow> entries n = map slot_of es \<Longrightarrow> key_count n = int (length es) \<Longrightarrow> i < length es \<Longrightarrow>
   slot n (int i) = slot_of (es ! i)"
  by (simp add: slot_entries)

lemma leftmost_tree:
  assumes "tree_ready t" "tree_at (dbytes (tree_db t)) sz m (Br a l es)" "fit_for t sz m n" "node_ok n"
    and "entries n = map slot_of es" "left_child n = addr_of l" "key_count n = int (length es)"
    and "no_empty (Br a l es)" "d + depth_of l \<le> gxBtreeMaxNodeReads"
  shows "\<exists>n' t'. leftmost n d t = ((gxDBASE_NO_ERROR, n'), t') \<and> looked_tree t t' \<and> fit_for t' sz m n' \<and>
    0 < key_count n' \<and> db_key (slot n' 0) = hd (inorder (Br a l es)) \<and> (f_error t = gxDBASE_NO_ERROR \<longrightarrow> f_error t' = gxDBASE_NO_ERROR)"
  using assms
proof (induction l arbitrary: a es n d t)
  case Tip
  then obtain e es' where es: "es = e # es'" by (cases es) auto
  have "slot n 0 = slot_of e" using Tip slot_key [of n es 0] es by simp
  moreover have "looked_tree t t" using looked_tree_refl [OF Tip.prems(1)] .
  ultimately show ?case
    using Tip es by (cases e) (simp add: leftmost.simps slot_of_def)
next
  case (Br b l' es2)
  let ?l = "Br b l' es2"
  have d: "d < gxBtreeMaxNodeReads" using Br.prems(9) by simp
  have at: "tree_at (dbytes (tree_db t)) sz m ?l" using Br.prems(2) by simp
  obtain n1 t1 where R: "ReadNodeChecked n b d t = ((gxDBASE_NO_ERROR, n1), t1)"
    "looked_tree t t1" "f_error t1 = gxDBASE_NO_ERROR" "entries n1 = map slot_of es2"
    "left_child n1 = addr_of l'" "key_count n1 = int (length es2)" "fit_for t1 sz m n1" "node_ok n1"
    using read_tree_node [OF Br.prems(1) at Br.prems(3) d] by metis
  note lk = looked_tree_fields [OF R(2)]
  have "leftmost n d t = leftmost n1 (d + 1) t1"
    using R(1) Br.prems(6) at by (subst leftmost.simps) simp
  moreover have ne: "inorder ?l \<noteq> []" using no_empty_inorder [of ?l] Br.prems(8) by simp
  have dd: "d + 1 + depth_of l' \<le> gxBtreeMaxNodeReads"
    using Br.prems(9) depth_left [of l' b es2] by simp
  have nel: "no_empty ?l" using Br.prems(8) by simp
  have at1: "tree_at (dbytes (tree_db t1)) sz m ?l" using at lk(2) by simp
  obtain n' t' where "leftmost n1 (d + 1) t1 = ((gxDBASE_NO_ERROR, n'), t')" "looked_tree t1 t'"
    "fit_for t' sz m n'" "0 < key_count n'" "db_key (slot n' 0) = hd (inorder ?l)" "f_error t' = gxDBASE_NO_ERROR"
    using Br.IH(1) [OF lk(1) [OF Br.prems(1)] at1 R(7,8,4-6) nel dd] R(3) by blast
  moreover have "hd (inorder (Br a ?l es)) = hd (inorder ?l)"
    by (simp only: inorder_Br [of a] hd_append2 [OF ne])
  ultimately show ?case using looked_tree_trans [OF R(2)] by auto
qed

lemma first_key_tree:
  assumes "tree_ready t" "tree_at (dbytes (tree_db t)) sz m T" "fit_for t sz m n"
    and "T \<noteq> Tip" "no_empty T" "d + depth_of T \<le> gxBtreeMaxNodeReads"
  shows "\<exists>key' n' t'. first_key key ck n (addr_of T) d t = ((1, key', ck, n'), t') \<and> looked_tree t t' \<and>
    db_key key' = hd (inorder T) \<and> f_error t' = gxDBASE_NO_ERROR"
proof -
  obtain a l es where T: "T = Br a l es" using assms(4) by (cases T) auto
  have d: "d < gxBtreeMaxNodeReads" "d + 1 + depth_of l \<le> gxBtreeMaxNodeReads"
    using assms(6) T depth_left [of l a es] by auto
  obtain n1 t1 where R: "ReadNodeChecked n a d t = ((gxDBASE_NO_ERROR, n1), t1)"
    "looked_tree t t1" "f_error t1 = gxDBASE_NO_ERROR" "entries n1 = map slot_of es"
    "left_child n1 = addr_of l" "key_count n1 = int (length es)" "fit_for t1 sz m n1" "node_ok n1"
    using read_tree_node [OF assms(1) assms(2) [unfolded T] assms(3) d(1)] by metis
  note lk = looked_tree_fields [OF R(2)]
  have at1: "tree_at (dbytes (tree_db t1)) sz m (Br a l es)" using assms(2) T lk(2) by simp
  obtain n' t' where L: "leftmost n1 (d + 1) t1 = ((gxDBASE_NO_ERROR, n'), t')" "looked_tree t1 t'"
    "0 < key_count n'" "db_key (slot n' 0) = hd (inorder T)" "f_error t' = gxDBASE_NO_ERROR"
    using leftmost_tree [OF lk(1) [OF assms(1)] at1 R(7,8,4-6) assms(5) [unfolded T] d(2)] R(3) T by blast
  then show ?thesis
    using R(1) T looked_tree_trans [OF R(2)] by (simp add: first_key_def LoadKey_def)
qed

section \<open>Next keys\<close>

text \<open>The first key that is greater than \<open>k\<close>, and the first that is not less.\<close>

definition next_above :: "compare_fun \<Rightarrow> byte list \<Rightarrow> byte list list \<Rightarrow> byte list option" where
  "next_above cmp k ks = List.find (\<lambda>x. cmp k x < 0) ks"

definition next_from :: "compare_fun \<Rightarrow> byte list \<Rightarrow> byte list list \<Rightarrow> byte list option" where
  "next_from cmp k ks = List.find (\<lambda>x. cmp k x \<le> 0) ks"

text \<open>
  What the walk remembers: the node from which it last went left of a key. \<open>rest\<close> is what follows
  the current subtree in the in-order list.
\<close>

definition parent_ctx :: "byte list \<Rightarrow> int \<Rightarrow> int \<Rightarrow> int \<Rightarrow> int \<Rightarrow> byte list list \<Rightarrow> bool" where
  "parent_ctx img sz m pa sav rest \<longleftrightarrow>
     (if pa = 0 then rest = []
      else \<exists>lc es. holds img pa sz lc es \<and> int (length es) \<le> m \<and> 0 \<le> sav + 1 \<and> sav + 1 < int (length es) \<and>
             rest \<noteq> [] \<and> hd rest = db_key (es ! nat (sav + 1)))"

lemma parent_key_tree:
  assumes "tree_ready t" "parent_ctx (dbytes (tree_db t)) sz m pa sav rest" "fit_for t sz m p"
    and "d < gxBtreeMaxNodeReads"
  shows "\<exists>rv key' t'. parent_key key ck cur p pa sav d t = ((rv, key', ck, cur), t') \<and> looked_tree t t' \<and>
    (if rest = [] then rv = 0 else rv = 1 \<and> db_key key' = hd rest)"
proof (cases "pa = 0")
  case True
  then show ?thesis
    using assms(2) looked_tree_refl [OF assms(1)] by (simp add: parent_key_def parent_ctx_def)
next
  case False
  then obtain lc es where h: "holds (dbytes (tree_db t)) pa sz lc es" "int (length es) \<le> m" "0 \<le> sav + 1"
    "sav + 1 < int (length es)" "rest \<noteq> []" "hd rest = db_key (es ! nat (sav + 1))"
    using assms(2) by (auto simp: parent_ctx_def)
  have fit: "node_fit p" "key_size p = sz" "node_order p = m" using assms(3) by (auto simp: fit_for_def)
  obtain n t1 where R: "ReadNodeChecked p pa d t = ((gxDBASE_NO_ERROR, n), t1)" "looked_tree t t1"
    "entries n = es" "key_count n = int (length es)" "node_fit n"
    by (rule ReadNodeChecked_holds [OF assms(1) _ fit(1) _ assms(4), of pa lc es]) (use h fit in auto)
  have "node_ok n" using R(5) by (simp add: node_fit_def)
  then have "slot n (sav + 1) = es ! nat (sav + 1)" using slot_entries [of n "sav + 1"] R h by simp
  moreover have "es \<noteq> []" using h(3,4) by auto
  ultimately show ?thesis using False R h by (simp add: parent_key_def LoadKey_def)
qed

lemma find_append_none: "(\<forall>x \<in> set xs. \<not> P x) \<Longrightarrow> List.find P (xs @ ys) = List.find P ys"
  by (induction xs) auto

lemma find_all: "\<forall>x \<in> set xs. P x \<Longrightarrow> List.find P xs = (if xs = [] then None else Some (hd xs))"
  by (cases xs) auto

text \<open>What follows the child number \<open>j\<close> of a node.\<close>

lemma parent_ctx_below:
  assumes "tree_at img sz m (Br a l es)" "j < length es"
  shows "parent_ctx img sz m a (int j - 1) (items (drop j es) @ rest)"
proof -
  have "hd (items (drop j es)) = fst (es ! j)" "items (drop j es) \<noteq> []" using drop_first [OF assms(2)] by auto
  then show ?thesis
    using assms
    by (auto simp: parent_ctx_def slot_of_def intro!: exI [of _ "addr_of l"] exI [of _ "map slot_of es"])
qed

context key_search
begin

lemma next_walk_tree:
  assumes "tree_ready t" "tree_at (dbytes (tree_db t)) sz m T" "fit_for t sz m cur" "fit_for t sz m (fresh_node t)"
    and "sorted_keys cmp (inorder T @ rest)" "no_empty T"
    and "parent_ctx (dbytes (tree_db t)) sz m pa sav rest" "d + depth_of T < gxBtreeMaxNodeReads"
  shows "\<exists>rv key' ck' n' t'. next_walk cmp key ck cur (addr_of T) pa sav d t = ((rv, key', ck', n'), t') \<and>
    looked_tree t t' \<and>
    (case (if \<exists>k \<in> set (inorder T). cmp (db_key key) k = 0 then next_above cmp (db_key key) (inorder T @ rest) else None) of
       None \<Rightarrow> rv = 0 | Some k \<Rightarrow> rv = 1 \<and> db_key key' = k)"
  using assms
proof (induction "depth_of T" arbitrary: T cur pa sav rest d ck t rule: less_induct)
  case less
  show ?case
  proof (cases T)
    case Tip
    have "looked_tree t (on_f (SetDatabaseError gxDBASE_ENTRY_NOT_FOUND) t)"
      using less.prems(1) looked_error by (auto simp: looked_tree_def on_f_def tree_ready_def tree_db_def)
    then show ?thesis using Tip by (subst next_walk.simps) (simp add: not_found_def fail_with_def)
  next
    case (Br a l es)
    have at: "tree_at (dbytes (tree_db t)) sz m (Br a l es)" using less.prems(2) Br by simp
    have d: "d < gxBtreeMaxNodeReads" using less.prems(8) by simp
    obtain n t1 where R: "ReadNodeChecked cur a d t = ((gxDBASE_NO_ERROR, n), t1)"
      and t1: "looked_tree t t1" "f_error t1 = gxDBASE_NO_ERROR"
      and n: "entries n = map slot_of es" "left_child n = addr_of l" "key_count n = int (length es)"
      and ft: "fit_for t1 sz m n" and ok: "node_ok n"
      using read_tree_node [OF less.prems(1) at less.prems(3) d] by metis
    note lk = looked_tree_fields [OF t1(1)]
    have a: "0 < a" using at by simp
    have srt: "sorted_keys cmp (inorder (Br a l es))" using less.prems(5) Br by (simp add: sorted_append)
    obtain rv loc ck1 where F: "FindKeyLocation cmp key ck n = (rv, loc, ck1)" by (metis prod_cases3)
    have K: "key_location_of cmp (db_key key) (map slot_of es) = (rv, loc)"
      using FindKeyLocation_spec(1) [OF ok _ F] sorted_children(1) [OF srt] n(1) by simp
    note W = next_walk.simps [of cmp key ck cur a pa sav d t]
    have rd1: "tree_ready t1" using lk(1) less.prems(1) by simp
    have f1: "fit_for t1 sz m (fresh_node t1)" using less.prems(4) lk(4) by (simp add: fit_for_def)
    show ?thesis
    proof (cases "rv = 0")
      case True
      let ?i = "nat loc"
      have i: "loc = int ?i" "?i < length es" "cmp (db_key key) (fst (es ! ?i)) = 0"
        using K True by (auto simp: key_location_of_def Let_def slot_of_def split: if_splits)
      let ?C = "child l es (Suc ?i)"
      have mem: "fst (es ! ?i) \<in> set (inorder T)" using items_key [OF i(2)] Br by simp
      have ex: "\<exists>k \<in> set (inorder T). cmp (db_key key) k = 0" using i(3) mem by blast
      have whole: "inorder T = before l es (Suc ?i) @ inorder ?C @ items (drop (Suc ?i) es)"
        using inorder_child [of "Suc ?i" es a l] i(2) Br by simp
      have lst: "last (before l es (Suc ?i)) = fst (es ! ?i)" "before l es (Suc ?i) \<noteq> []"
        using before_last [of "Suc ?i" l es] by auto
      have "sorted_keys cmp (before l es (Suc ?i) @ (inorder ?C @ items (drop (Suc ?i) es) @ rest))"
        using less.prems(5) whole by simp
      then have s: "sorted_keys cmp (before l es (Suc ?i))"
        "\<forall>x \<in> set (before l es (Suc ?i)). \<forall>y \<in> set (inorder ?C @ items (drop (Suc ?i) es) @ rest). cmp x y < 0"
        unfolding sorted_append by blast+
      have lo: "\<forall>x \<in> set (before l es (Suc ?i)). \<not> cmp (db_key key) x < 0"
      proof
        fix x assume "x \<in> set (before l es (Suc ?i))"
        then have "cmp x (fst (es ! ?i)) \<le> 0"
          using s(1) lst unfolding set_butlast_last [OF lst(2)]
          by (metis append_butlast_last_id cmp_self insert_iff less_imp_le order_refl sorted_append list.set_intros(1))
        then show "\<not> cmp (db_key key) x < 0"
          using i(3) zero_sym by (metis cmp_self less_le_trans less_zero not_both zero_less linorder_less_linear order_less_irrefl)
      qed
      have hi: "\<forall>y \<in> set (inorder ?C @ items (drop (Suc ?i) es) @ rest). cmp (db_key key) y < 0"
        using s(2) lst i(3) zero_less by (metis last_in_set)
      let ?R = "inorder ?C @ items (drop (Suc ?i) es) @ rest"
      have nx: "next_above cmp (db_key key) (inorder T @ rest) = (if ?R = [] then None else Some (hd ?R))"
        unfolding next_above_def whole append_assoc find_append_none [OF lo]
        by (rule find_all [OF hi])
      have b: "GetBranch n loc = addr_of ?C"
        using child_slots [OF ok n(1,2) _ n(3), of "Suc ?i"] i by simp
      have atC: "tree_at (dbytes (tree_db t1)) sz m ?C"
        using tree_at_child [OF at, of "Suc ?i"] i(2) lk(2) by simp
      show ?thesis
      proof (cases "?C = Tip")
        case False
        have dep: "d + 1 + depth_of ?C \<le> gxBtreeMaxNodeReads"
          using depth_child [of "Suc ?i" es l a] i(2) Br less.prems(8) by simp
        have ne: "no_empty ?C" using no_empty_child [of a l es "Suc ?i"] less.prems(6) Br i(2) by simp
        obtain key' n' t' where FK: "first_key key ck1 n (addr_of ?C) (d + 1) t1 = ((1, key', ck1, n'), t')"
          "looked_tree t1 t'" "db_key key' = hd (inorder ?C)"
          using first_key_tree [OF rd1 atC ft False ne dep, of key ck1] by blast
        have "next_walk cmp key ck cur a pa sav d t = ((1, key', ck1, n'), t')"
          using a R F True False b FK(1) addr_of_Tip [OF atC] unfolding W by simp
        then show ?thesis
          using ex nx FK no_empty_inorder [OF ne False] looked_tree_trans [OF t1(1)] Br by simp
      next
        case Tip: True
        show ?thesis
        proof (cases "Suc ?i < length es")
          case True
          have "slot n (loc + 1) = slot_of (es ! Suc ?i)"
            using slot_key [OF ok n(1,3) True] i(1) by (metis of_nat_Suc add.commute)
          moreover have "loc < key_count n - 1" using i(1) True n(3) by linarith
          ultimately have "next_walk cmp key ck cur a pa sav d t = ((1, slot_of (es ! Suc ?i), ck1, n), t1)"
            using a R F \<open>rv = 0\<close> b Tip unfolding W by (simp add: LoadKey_def)
          then show ?thesis
            using ex nx Tip drop_first [OF True] t1(1) Br by (simp add: slot_of_def)
        next
          case False
          have "parent_ctx (dbytes (tree_db t1)) sz m pa sav rest" using less.prems(7) lk(2) by simp
          moreover have "d + 1 < gxBtreeMaxNodeReads" using less.prems(8) Br by simp
          ultimately obtain rv' key' t' where
            "parent_key key ck1 n (fresh_node t1) pa sav (d + 1) t1 = ((rv', key', ck1, n), t')"
            "looked_tree t1 t'" "if rest = [] then rv' = 0 else rv' = 1 \<and> db_key key' = hd rest"
            using parent_key_tree [OF rd1 _ f1, of pa sav rest "d + 1" key ck1 n] by blast
          moreover have "\<not> loc < key_count n - 1" using i(1) False n(3) by linarith
          moreover from this have "next_walk cmp key ck cur a pa sav d t =
              parent_key key ck1 n (fresh_node t1) pa sav (d + 1) t1"
            using a R F \<open>rv = 0\<close> b Tip lk(4) unfolding W by simp
          ultimately show ?thesis
            using ex nx Tip False looked_tree_trans [OF t1(1)] Br by (simp split: if_splits)
        qed
      qed
    next
      case False
      obtain j where j: "j \<le> length es" "loc = int j - 1"
        "\<forall>x \<in> set (before l es j). 0 < cmp (db_key key) x" "\<forall>x \<in> set (items (drop j es)). cmp (db_key key) x < 0"
        using location_splits [OF srt K False] by metis
      let ?C = "child l es j" and ?R = "items (drop j es) @ rest"
      have b: "GetBranch n loc = addr_of ?C" using child_slots [OF ok n(1,2) j(1) n(3)] j(2) by simp
      have dep: "depth_of ?C < depth_of T" using depth_child [OF j(1)] Br by simp
      have atC: "tree_at (dbytes (tree_db t1)) sz m ?C" using tree_at_child [OF at j(1)] lk(2) by simp
      have ne: "no_empty ?C" using no_empty_child [of a l es j] less.prems(6) Br j(1) by simp
      have whole: "inorder T @ rest = before l es j @ inorder ?C @ ?R"
        using inorder_child [OF j(1), of a l] Br by simp
      have sC: "sorted_keys cmp (inorder ?C @ ?R)" using less.prems(5) unfolding whole by (simp add: sorted_append)
      have dd: "d + 1 + depth_of ?C < gxBtreeMaxNodeReads" using dep less.prems(8) by simp
      let ?pa = "if j < length es then a else pa" and ?sav = "if j < length es then loc else sav"
      have ctx: "parent_ctx (dbytes (tree_db t1)) sz m ?pa ?sav ?R"
        using parent_ctx_below [OF at, of j rest] less.prems(7) lk(2) j(1,2) by auto
      have ex: "(\<exists>k \<in> set (inorder T). cmp (db_key key) k = 0) \<longleftrightarrow> (\<exists>k \<in> set (inorder ?C). cmp (db_key key) k = 0)"
        using inorder_child [OF j(1), of a l] Br j(3,4) by (auto; force)
      have nx: "next_above cmp (db_key key) (inorder T @ rest) = next_above cmp (db_key key) (inorder ?C @ ?R)"
        unfolding next_above_def whole using j(3) by (intro find_append_none) auto
      obtain rv' key' ck' n' t' where
        "next_walk cmp key ck1 n (addr_of ?C) ?pa ?sav (d + 1) t1 = ((rv', key', ck', n'), t')" "looked_tree t1 t'"
        "case (if \<exists>k \<in> set (inorder ?C). cmp (db_key key) k = 0 then next_above cmp (db_key key) (inorder ?C @ ?R) else None) of
           None \<Rightarrow> rv' = 0 | Some k \<Rightarrow> rv' = 1 \<and> db_key key' = k"
        using less.hyps [OF dep rd1 atC ft f1 sC ne ctx dd, of ck1] by blast
      moreover have "next_walk cmp key ck cur a pa sav d t = next_walk cmp key ck1 n (addr_of ?C) ?pa ?sav (d + 1) t1"
        using a R F False b n(3) j unfolding W by auto
      ultimately show ?thesis
        unfolding ex nx using looked_tree_trans [OF t1(1)] Br by auto
    qed
  qed
qed

text \<open>The partial search ends with the least key that is not less than the one searched for.\<close>

lemma partial_walk_tree:
  assumes "tree_ready t" "tree_at (dbytes (tree_db t)) sz m T" "fit_for t sz m cur" "fit_for t sz m (fresh_node t)"
    and "sorted_keys cmp (inorder T)" "\<forall>x \<in> set rest. cmp (db_key key) x < 0"
    and "parent_ctx (dbytes (tree_db t)) sz m pa sav rest" "d + depth_of T < gxBtreeMaxNodeReads"
    and "T = Tip \<longrightarrow> GetBranch cur loc = 0 \<and>
      (loc < key_count cur - 1 \<longrightarrow> rest \<noteq> [] \<and> hd rest = db_key (slot cur (loc + 1)))"
  shows "\<exists>rv key' ck' n' t'. partial_walk cmp key ck cur loc (addr_of T) pa sav d t = ((rv, key', ck', n'), t') \<and>
    looked_tree t t' \<and>
    (case next_from cmp (db_key key) (inorder T @ rest) of
       None \<Rightarrow> rv = 0 | Some k \<Rightarrow> rv = 1 \<and> db_key key' = k)"
  using assms
proof (induction "depth_of T" arbitrary: T cur loc pa sav rest d ck t rule: less_induct)
  case less
  have nr: "next_from cmp (db_key key) rest = (if rest = [] then None else Some (hd rest))"
    unfolding next_from_def by (rule find_all) (use less.prems(6) in auto)
  show ?case
  proof (cases T)
    case Tip
    have W: "partial_walk cmp key ck cur loc (addr_of T) pa sav d t = partial_end key ck cur loc pa sav d t"
      using Tip by (subst partial_walk.simps) simp
    show ?thesis
    proof (cases "loc < key_count cur - 1")
      case True
      then show ?thesis
        using less.prems(9) Tip nr looked_tree_refl [OF less.prems(1)] unfolding W
        by (simp add: partial_end_def LoadKey_def)
    next
      case False
      have "d < gxBtreeMaxNodeReads" using less.prems(8) by simp
      then obtain rv' key' t' where
        "parent_key key ck cur (fresh_node t) pa sav d t = ((rv', key', ck, cur), t')"
        "looked_tree t t'" "if rest = [] then rv' = 0 else rv' = 1 \<and> db_key key' = hd rest"
        using parent_key_tree [OF less.prems(1,7,4), of d key ck cur] by blast
      then show ?thesis
        using False less.prems(9) Tip nr unfolding W by (simp add: partial_end_def split: if_splits)
    qed
  next
    case (Br a l es)
    have at: "tree_at (dbytes (tree_db t)) sz m (Br a l es)" using less.prems(2) Br by simp
    have d: "d < gxBtreeMaxNodeReads" using less.prems(8) by simp
    obtain n t1 where R: "ReadNodeChecked cur a d t = ((gxDBASE_NO_ERROR, n), t1)"
      and t1: "looked_tree t t1" "f_error t1 = gxDBASE_NO_ERROR"
      and n: "entries n = map slot_of es" "left_child n = addr_of l" "key_count n = int (length es)"
      and ft: "fit_for t1 sz m n" and ok: "node_ok n"
      using read_tree_node [OF less.prems(1) at less.prems(3) d] by metis
    note lk = looked_tree_fields [OF t1(1)]
    have a: "0 < a" using at by simp
    have srt: "sorted_keys cmp (inorder (Br a l es))" using less.prems(5) Br by simp
    obtain rv loc1 ck1 where F: "FindKeyLocation cmp key ck n = (rv, loc1, ck1)" by (metis prod_cases3)
    have K: "key_location_of cmp (db_key key) (map slot_of es) = (rv, loc1)"
      using FindKeyLocation_spec(1) [OF ok _ F] sorted_children(1) [OF srt] n(1) by simp
    note W = partial_walk.simps [of cmp key ck cur loc a pa sav d t]
    have rd1: "tree_ready t1" using lk(1) less.prems(1) by simp
    have f1: "fit_for t1 sz m (fresh_node t1)" using less.prems(4) lk(4) by (simp add: fit_for_def)
    show ?thesis
    proof (cases "rv = 0")
      case True
      let ?i = "nat loc1"
      have i: "loc1 = int ?i" "?i < length es" "cmp (db_key key) (fst (es ! ?i)) = 0"
        using K True by (auto simp: key_location_of_def Let_def slot_of_def split: if_splits)
      have whole: "inorder T = butlast (before l es (Suc ?i)) @ [fst (es ! ?i)] @
          inorder (child l es (Suc ?i)) @ items (drop (Suc ?i) es)"
        using inorder_child [of "Suc ?i" es a l] i(2) Br by (simp add: before_def butlast_append)
      have "\<forall>x \<in> set (butlast (before l es (Suc ?i))). cmp x (fst (es ! ?i)) < 0"
        using less.prems(5) unfolding whole by (simp add: sorted_append)
      then have lo: "\<forall>x \<in> set (butlast (before l es (Suc ?i))). \<not> cmp (db_key key) x \<le> 0"
        using i(3) by (metis cmp_flip less_zero linorder_not_less zero_sym)
      have "next_from cmp (db_key key) (inorder T @ rest) = Some (fst (es ! ?i))"
        unfolding next_from_def whole append_assoc find_append_none [OF lo] using i(3) by simp
      moreover have "slot n loc1 = slot_of (es ! ?i)" using slot_key [OF ok n(1,3) i(2)] i(1) by simp
      ultimately show ?thesis
        using a R F True t1(1) Br unfolding addr_of.simps by (simp add: W LoadKey_def slot_of_def)
    next
      case False
      obtain j where j: "j \<le> length es" "loc1 = int j - 1"
        "\<forall>x \<in> set (before l es j). 0 < cmp (db_key key) x" "\<forall>x \<in> set (items (drop j es)). cmp (db_key key) x < 0"
        using location_splits [OF srt K False] by metis
      let ?C = "child l es j" and ?R = "items (drop j es) @ rest"
      have b: "GetBranch n loc1 = addr_of ?C" using child_slots [OF ok n(1,2) j(1) n(3)] j(2) by simp
      have dep: "depth_of ?C < depth_of T" using depth_child [OF j(1)] Br by simp
      have atC: "tree_at (dbytes (tree_db t1)) sz m ?C" using tree_at_child [OF at j(1)] lk(2) by simp
      have sC: "sorted_keys cmp (inorder ?C)" by (rule sorted_children(2) [OF srt j(1)])
      have dd: "d + 1 + depth_of ?C < gxBtreeMaxNodeReads" using dep less.prems(8) by simp
      let ?pa = "if j < length es then a else pa" and ?sav = "if j < length es then loc1 else sav"
      have ctx: "parent_ctx (dbytes (tree_db t1)) sz m ?pa ?sav ?R"
        using parent_ctx_below [OF at, of j rest] less.prems(7) lk(2) j(1,2) by auto
      have hi: "\<forall>x \<in> set ?R. cmp (db_key key) x < 0" using j(4) less.prems(6) by auto
      have "slot n (loc1 + 1) = slot_of (es ! j)" if "j < length es"
        using slot_key [OF ok n(1,3) that] j(2) by simp
      then have tip: "?C = Tip \<longrightarrow> GetBranch n loc1 = 0 \<and>
          (loc1 < key_count n - 1 \<longrightarrow> ?R \<noteq> [] \<and> hd ?R = db_key (slot n (loc1 + 1)))"
        using b drop_first [of j es] j(2) n(3) by (auto simp: slot_of_def)
      have whole: "inorder T @ rest = before l es j @ inorder ?C @ ?R"
        using inorder_child [OF j(1), of a l] Br by simp
      have nx: "next_from cmp (db_key key) (inorder T @ rest) = next_from cmp (db_key key) (inorder ?C @ ?R)"
        unfolding next_from_def whole using j(3) by (intro find_append_none) auto
      obtain rv' key' ck' n' t' where
        "partial_walk cmp key ck1 n loc1 (addr_of ?C) ?pa ?sav (d + 1) t1 = ((rv', key', ck', n'), t')" "looked_tree t1 t'"
        "case next_from cmp (db_key key) (inorder ?C @ ?R) of None \<Rightarrow> rv' = 0 | Some k \<Rightarrow> rv' = 1 \<and> db_key key' = k"
        using less.hyps [OF dep rd1 atC ft f1 sC hi ctx dd tip, of ck1] by blast
      moreover have "partial_walk cmp key ck cur loc a pa sav d t =
          partial_walk cmp key ck1 n loc1 (addr_of ?C) ?pa ?sav (d + 1) t1"
        using a R F False b n(3) j unfolding W by auto
      ultimately show ?thesis
        unfolding nx using looked_tree_trans [OF t1(1)] Br by auto
    qed
  qed
qed

end

end
