(* ===== verification/BtSearchProps.thy ===== *)
theory BtSearchProps
  imports BtFind BtNodeProps
begin

text \<open>
  Properties of reading a B-tree: nodes are read back as they were written, a key count that does
  not fit a node is refused, no search reads more than \<open>gxBtreeMaxNodeReads\<close> nodes whatever is in the
  file, and on a stored tree each search gives the key it promises.
\<close>

section \<open>Nodes\<close>

text \<open>
  C7: a node written with \<open>WriteNode\<close>, at an address or at the current position, is read back by
  \<open>ReadNode\<close> with its left child and its entries, into a node of the same order and key size.
\<close>

theorem node_roundtrip:
  assumes "bt_f t = Some db" and "writable (p + node_bytes (key_size n) (entries n)) db"
    and "addr = int p \<or> addr = gxCurrAddress \<and> dpos db = p" and "node_fit n"
    and "slots_ok (key_size n) (entries n)" and "in_s64 (left_child n)"
    and "node_fit n0" and "key_size n0 = key_size n" and "node_order n0 = node_order n"
  shows "\<exists>t1 n' t2. WriteNode n addr t = (gxDBASE_NO_ERROR, t1) \<and>
    ReadNode n0 (int p) t1 = ((gxDBASE_NO_ERROR, n'), t2) \<and>
    entries n' = entries n \<and> left_child n' = left_child n \<and> key_count n' = key_count n"
proof -
  obtain h where W: "WriteNode n addr t = (gxDBASE_NO_ERROR,
     t\<lparr>bt_f := Some ((moved (p + node_bytes (key_size n) (entries n)) gxDBASE_WRITE
                     (stored p (enc_node (left_child n) (entries n)) db))\<lparr>hook_calls := h\<rparr>),
       node_writes := to_u32 (node_writes t + 1)\<rparr>)"
    by (rule WriteNode_ok [OF assms(1-4)])
  let ?db = "(moved (p + node_bytes (key_size n) (entries n)) gxDBASE_WRITE
      (stored p (enc_node (left_child n) (entries n)) db))\<lparr>hook_calls := h\<rparr>"
  let ?t = "t\<lparr>bt_f := Some ?db, node_writes := to_u32 (node_writes t + 1)\<rparr>"
  have k: "int (length (entries n)) = key_count n" "key_count n \<le> node_order n" "key_count n < 2 ^ 32"
    using assms(4) by (auto simp: node_fit_def buffer_ok_def)
  have h: "holds (dbytes ?db) (int p) (key_size n0) (left_child n) (entries n)"
    using holds_written [of "key_size n" "left_child n" "entries n" "dbytes db" p] assms k
    by (simp add: node_fit_def in_u32_def)
  have r: "readable ?db" using assms(2) by simp
  show ?thesis
    by (rule ReadNode_holds [of ?t ?db, OF _ r h assms(7)]) (use W k assms(8,9) in auto)
qed

text \<open>
  The key count in the file is checked before any slot is read: when the four bytes at the
  address of a node are a number over the node order, \<open>ReadNode\<close> fails with \<open>gxDBASE_BADBLOCK_ERROR\<close>,
  the node has no keys and its buffer is as it was.
\<close>

theorem ReadNode_rejects_count:
  assumes "bt_f t = Some db" and "readable db" and "0 \<le> a" and "nat a + 12 \<le> length (dbytes db)"
    and "node_order n < gxINT32_PackBits (bytes_at (dbytes db) (nat a) 4)"
  shows "\<exists>n' t'. ReadNode n a t = ((gxDBASE_BADBLOCK_ERROR, n'), t') \<and> f_error t' = gxDBASE_BADBLOCK_ERROR \<and>
    key_count n' = 0 \<and> key_entries n' = key_entries n"
proof -
  have r1: "Read (gxINT32_UnPackBits (key_count n)) a db = (bytes_at (dbytes db) (nat a) 4, moved (nat a + 4) gxDBASE_READ db)"
    using assms by (simp add: engine_simps)
  have r2: "Read (gxINT64_UnPackBits (left_child n)) gxCurrAddress (moved (nat a + 4) gxDBASE_READ db) =
      (bytes_at (dbytes db) (nat a + 4) 8, moved (nat a + 12) gxDBASE_READ db)"
    using assms by (simp add: engine_simps add.assoc)
  show ?thesis
    using assms r1 r2 by (simp add: ReadNode_def Let_def f_error_def)
qed

section \<open>The number of reads\<close>

lemma ReadNodeChecked_reads:
  assumes "ReadNodeChecked n a d t = ((e, n'), t')"
  shows "node_reads t' = node_reads t \<or> d < gxBtreeMaxNodeReads \<and> node_reads t' = to_u32 (node_reads t + 1)"
  using assms
  by (auto simp: ReadNodeChecked_def ReadNode_def Let_def on_f_def split: if_splits option.splits prod.splits)

lemma find_walk_reads:
  assumes "find_walk cmp key ck n a d t = (r, t')" "d \<le> gxBtreeMaxNodeReads"
    and "0 \<le> node_reads t" "node_reads t + int (gxBtreeMaxNodeReads - d) < 2 ^ 32"
  shows "node_reads t \<le> node_reads t' \<and> node_reads t' \<le> node_reads t + int (gxBtreeMaxNodeReads - d)"
  using assms
proof (induction cmp key ck n a d t arbitrary: r t' rule: find_walk.induct)
  case (1 cmp key ck cur a d t)
  obtain e n t1 where R: "ReadNodeChecked cur a d t = ((e, n), t1)" by (metis prod.exhaust)
  obtain rv loc ck1 where F: "FindKeyLocation cmp key ck n = (rv, loc, ck1)" by (metis prod_cases3)
  note rd = ReadNodeChecked_reads [OF R]
  have step: "node_reads t \<le> node_reads t1 \<and> node_reads t1 \<le> node_reads t + int (gxBtreeMaxNodeReads - d)"
    using rd "1.prems"(3,4) by auto
  consider "a = 0" | "a \<noteq> 0" "e \<noteq> gxDBASE_NO_ERROR \<or> rv = 0" | "a \<noteq> 0" "e = gxDBASE_NO_ERROR" "rv \<noteq> 0"
    by blast
  then show ?case
  proof cases
    case 1
    then show ?thesis
      using "1.prems" by (auto simp: find_walk.simps not_found_def fail_with_def on_f_def)
  next
    case 2
    then have "t' = t1" using "1.prems"(1) R F
      by (cases "e = gxDBASE_NO_ERROR") (simp_all add: find_walk.simps [of cmp key ck cur a])
    then show ?thesis using step by simp
  next
    case 3
    then have d: "d < gxBtreeMaxNodeReads" using R ReadNodeChecked_depth by blast
    have W: "find_walk cmp key ck1 n (GetBranch n loc) (d + 1) t1 = (r, t')"
      using "1.prems"(1) R F 3 by (simp add: find_walk.simps [of cmp key ck])
    have "node_reads t1 \<le> node_reads t + 1" using rd "1.prems"(3,4) d by auto
    then have "node_reads t1 \<le> node_reads t' \<and> node_reads t' \<le> node_reads t1 + int (gxBtreeMaxNodeReads - (d + 1))"
      using "1.IH" [OF 3(1) R [symmetric] refl _ F [symmetric] refl 3(3) W] 3(2) d step "1.prems"(3,4) by auto
    then show ?thesis using step d \<open>node_reads t1 \<le> node_reads t + 1\<close> by auto
  qed
qed

text \<open>
  C8: \<open>Find\<close> on any file whatsoever, also a damaged one whose nodes point back up the tree, ends and
  reads no more than \<open>gxBtreeMaxNodeReads\<close> nodes (as long as the 32-bit counter of the reads does
  not wrap around).
\<close>

theorem Find_reads_bounded:
  assumes "0 \<le> node_reads t" and "node_reads t + int gxBtreeMaxNodeReads < 2 ^ 32"
    and "Find cmp key ck False t = (r, t')"
  shows "node_reads t' \<le> node_reads t + int gxBtreeMaxNodeReads"
proof -
  have nr: "key_count (fresh_node t) = 0" by (simp add: fresh_node_def new_BtreeNode_def Let_def)
  show ?thesis
    using assms find_walk_reads [of cmp key ck "fresh_node t" "root (btree_header t)" 0 t r t']
    by (auto simp: Find_def Find_at_def nr sync_tree_def Let_def split: if_splits)
qed

section \<open>Searches on a stored tree\<close>

definition stored_btree :: "compare_fun \<Rightarrow> gxBtree \<Rightarrow> btree \<Rightarrow> bool" where
  "stored_btree cmp t T \<longleftrightarrow>
     tree_ready t \<and> node_fit (fresh_node t) \<and> addr_of T = root (btree_header t) \<and>
     tree_at (dbytes (tree_db t)) (key_size (fresh_node t)) (node_order (fresh_node t)) T \<and>
     sorted_keys cmp (inorder T) \<and> depth_of T < gxBtreeMaxNodeReads"

lemma stored_btree_parts:
  assumes "stored_btree cmp t T"
  shows "tree_ready t" "tree_at (dbytes (tree_db t)) (key_size (fresh_node t)) (node_order (fresh_node t)) T"
    "fit_for t (key_size (fresh_node t)) (node_order (fresh_node t)) (fresh_node t)"
    "sorted_keys cmp (inorder T)" "addr_of T = root (btree_header t)" "bt_f t \<noteq> None"
    "depth_of T \<le> gxBtreeMaxNodeReads" "0 + depth_of T < gxBtreeMaxNodeReads" "0 + depth_of T \<le> gxBtreeMaxNodeReads"
  using assms by (auto simp: stored_btree_def fit_for_def tree_ready_def)

lemma stored_btree_looked:
  assumes "stored_btree cmp t T" "looked_tree t t'"
  shows "stored_btree cmp t' T"
  using assms looked_tree_fields [OF assms(2)] by (simp add: stored_btree_def)

lemma fresh_node_start [simp]:
  "key_count (fresh_node t) = 0" "GetBranch (fresh_node t) 0 = 0"
  by (simp_all add: fresh_node_def new_BtreeNode_def Let_def GetBranch_def slot_def blank_slot_def)

text \<open>
  C1: on a stored B-tree \<open>Find\<close> is the lookup in its list of keys: it returns one and loads the
  key of the tree that compares equal when there is one, and otherwise returns zero with
  \<open>gxDBASE_ENTRY_NOT_FOUND\<close>; the tree and the file are unchanged.
\<close>

theorem Find_is_lookup:
  assumes "stored_btree (rd_compare dup) t T"
  shows "\<exists>rv key' ck' n' t'. Find (rd_compare dup) key ck False t = ((rv, key', ck', n'), t') \<and>
    stored_btree (rd_compare dup) t' T \<and> dbytes (tree_db t') = dbytes (tree_db t) \<and>
    (if \<exists>k \<in> set (inorder T). rd_compare dup (db_key key) k = 0
     then rv = 1 \<and> db_key key' \<in> set (inorder T) \<and> rd_compare dup (db_key key) (db_key key') = 0
     else rv = 0 \<and> key' = key \<and> f_error t' = gxDBASE_ENTRY_NOT_FOUND)"
proof -
  note p = stored_btree_parts [OF assms]
  have F: "Find (rd_compare dup) key ck False t =
      find_walk (rd_compare dup) key ck (fresh_node t) (addr_of T) 0 t"
    using p(5,6) by (cases "bt_f t") (simp_all add: Find_def Find_at_def sync_tree_def)
  obtain rv key' ck' n' t' where
    "find_walk (rd_compare dup) key ck (fresh_node t) (addr_of T) 0 t = ((rv, key', ck', n'), t')" "looked_tree t t'"
    "if \<exists>k \<in> set (inorder T). rd_compare dup (db_key key) k = 0
     then rv = 1 \<and> db_key key' \<in> set (inorder T) \<and> rd_compare dup (db_key key) (db_key key') = 0 \<and>
       f_error t' = gxDBASE_NO_ERROR
     else rv = 0 \<and> key' = key \<and> f_error t' = gxDBASE_ENTRY_NOT_FOUND"
    using rd_node.find_walk_tree [OF p(1-4,9), of key ck] by blast
  then show ?thesis
    unfolding F using stored_btree_looked [OF assms] looked_tree_fields(2) by (auto split: if_splits)
qed

text \<open>
  On a stored B-tree without empty nodes and with keys counted in the header, \<open>FindFirst\<close>
  loads the least key of the tree.
\<close>

theorem FindFirst_is_least:
  assumes "stored_btree (rd_compare dup) t T" and "no_empty T" and "T \<noteq> Tip"
    and "n_keys (btree_header t) \<noteq> 0"
  shows "\<exists>key' ck' n' t'. FindFirst key False t = ((1, key', ck', n'), t') \<and>
    stored_btree (rd_compare dup) t' T \<and> db_key key' = hd (inorder T)"
proof -
  note p = stored_btree_parts [OF assms(1)]
  have F: "FindFirst key False t = first_key key key (fresh_node t) (addr_of T) 0 t"
    using p(5,6) assms(4) by (cases "bt_f t") (simp_all add: FindFirst_def FindFirst_at_def sync_tree_def)
  show ?thesis
    unfolding F using first_key_tree [OF p(1-3) assms(3,2) p(9), of key key] stored_btree_looked [OF assms(1)]
    by blast
qed

text \<open>
  C5: on a stored B-tree without empty nodes, \<open>FindNext\<close> for a key of the tree loads the next
  greater key, from whatever node that is in, and returns zero when there is none or when the
  key itself is not in the tree.
\<close>

theorem FindNext_is_successor:
  assumes "stored_btree (rd_compare dup) t T" and "no_empty T"
  shows "\<exists>rv key' ck' n' t'. FindNext (rd_compare dup) key ck False t = ((rv, key', ck', n'), t') \<and>
    stored_btree (rd_compare dup) t' T \<and>
    (case (if \<exists>k \<in> set (inorder T). rd_compare dup (db_key key) k = 0
           then next_above (rd_compare dup) (db_key key) (inorder T) else None) of
       None \<Rightarrow> rv = 0 | Some k \<Rightarrow> rv = 1 \<and> db_key key' = k)"
proof -
  note p = stored_btree_parts [OF assms(1)]
  have F: "FindNext (rd_compare dup) key ck False t =
      next_walk (rd_compare dup) key ck (fresh_node t) (addr_of T) 0 0 0 t"
    using p(5,6) by (cases "bt_f t") (simp_all add: FindNext_def FindNext_at_def sync_tree_def Let_def)
  have c: "parent_ctx (dbytes (tree_db t)) (key_size (fresh_node t)) (node_order (fresh_node t)) 0 0 []"
    by (simp add: parent_ctx_def)
  show ?thesis
    unfolding F
    using rd_node.next_walk_tree [OF p(1-3) p(3) _ assms(2) c p(8), of dup key ck] p(4)
      stored_btree_looked [OF assms(1)] by (simp only: append_Nil2) blast
qed

text \<open>
  C6: on a stored B-tree \<open>PartialFind\<close> loads the least key that is equal to or greater than the one
  given, and returns zero when all keys are less.
\<close>

theorem PartialFind_is_lower_bound:
  assumes "stored_btree (rd_compare dup) t T"
  shows "\<exists>rv key' ck' n' t'. PartialFind (rd_compare dup) key ck False t = ((rv, key', ck', n'), t') \<and>
    stored_btree (rd_compare dup) t' T \<and>
    (case next_from (rd_compare dup) (db_key key) (inorder T) of
       None \<Rightarrow> rv = 0 | Some k \<Rightarrow> rv = 1 \<and> db_key key' = k)"
proof -
  note p = stored_btree_parts [OF assms]
  have F: "PartialFind (rd_compare dup) key ck False t =
      partial_walk (rd_compare dup) key ck (fresh_node t) 0 (addr_of T) 0 0 0 t"
    using p(5,6) by (cases "bt_f t") (simp_all add: PartialFind_def PartialFind_at_def sync_tree_def Let_def)
  have c: "parent_ctx (dbytes (tree_db t)) (key_size (fresh_node t)) (node_order (fresh_node t)) 0 0 []"
    by (simp add: parent_ctx_def)
  have tip: "T = Tip \<longrightarrow> GetBranch (fresh_node t) 0 = 0 \<and>
      (0 < key_count (fresh_node t) - 1 \<longrightarrow> [] \<noteq> [] \<and> hd [] = db_key (slot (fresh_node t) (0 + 1)))"
    by simp
  show ?thesis
    unfolding F
    using rd_node.partial_walk_tree [OF p(1-3) p(3,4) _ c p(8) tip, of key ck]
      stored_btree_looked [OF assms(1)] by (simp only: append_Nil2) auto
qed

section \<open>A sample tree\<close>

text \<open>
  A tree of height two with the keys 2, 4, 6, 8 and 9 in a file of raw nodes: the root at 100, its
  children at 200 and 300.
\<close>

definition bkey :: "byte \<Rightarrow> byte list" where "bkey b = b # replicate 15 0"

definition sample_leaf :: "byte list \<Rightarrow> DatabaseKeyB list" where
  "sample_leaf bs = map (\<lambda>b. \<lparr>right_child = 0, db_key = bkey b\<rparr>) bs"

definition sample_btree :: btree where
  "sample_btree =
     Br 100 (Br 200 Tip [(bkey 2, Tip), (bkey 4, Tip)]) [(bkey 6, Br 300 Tip [(bkey 8, Tip), (bkey 9, Tip)])]"

definition sample_tree_bytes :: "byte list" where
  "sample_tree_bytes =
     put_at (put_at (put_at (replicate 400 0) 100 (enc_node 200 [\<lparr>right_child = 300, db_key = bkey 6\<rparr>]))
       200 (enc_node 0 (sample_leaf [2, 4]))) 300 (enc_node 0 (sample_leaf [8, 9]))"

definition sample_tree :: gxBtree where
  "sample_tree =
     (new_gxBtree 16 5)
       \<lparr>bt_f := Some ((new_gxDatabase \<lparr>files = (\<lambda>_. None), denied = (\<lambda>_. False), capacity = 1000, flush_fails = False\<rparr>)
          \<lparr>fp := Some \<lparr>fname = ''a.btx'', fdata = sample_tree_bytes, fpos = 0, fwritable = True, fcap = 1000\<rparr>,
            is_ok := True, is_open := True, ready_for_reading := True, ready_for_writing := True\<rparr>),
        btree_header := (btree_header (new_gxBtree 16 5))\<lparr>root := 100, n_keys := 5, n_nodes := 3, btree_height := 2\<rparr>\<rparr>"

lemma sample_stored: "stored_btree (rd_compare True) sample_tree sample_btree"
  by code_simp

lemma sample_inorder: "inorder sample_btree = [bkey 2, bkey 4, bkey 6, bkey 8, bkey 9]"
  by code_simp

lemma sample_not_empty: "no_empty sample_btree" "sample_btree \<noteq> Tip" "n_keys (btree_header sample_tree) \<noteq> 0"
  by code_simp+

theorem Find_is_lookup_witness:
  "\<exists>ck' n' t'. \<exists>key'. Find (rd_compare True) (sample_key 8) (sample_key 0) False sample_tree = ((1, key', ck', n'), t')"
proof -
  have "\<exists>k \<in> set (inorder sample_btree). rd_compare True (db_key (sample_key 8)) k = 0"
    unfolding sample_inorder by code_simp
  then show ?thesis using Find_is_lookup [OF sample_stored, of "sample_key 8" "sample_key 0"] by auto
qed

theorem FindFirst_is_least_witness:
  "\<exists>key' ck' n' t'. FindFirst (sample_key 0) False sample_tree = ((1, key', ck', n'), t') \<and> db_key key' = bkey 2"
  using FindFirst_is_least [OF sample_stored sample_not_empty, of "sample_key 0"] by (auto simp: sample_inorder)

theorem FindNext_is_successor_witness:
  "\<exists>key' ck' n' t'. FindNext (rd_compare True) (sample_key 6) (sample_key 0) False sample_tree = ((1, key', ck', n'), t') \<and>
     db_key key' = bkey 8"
proof -
  have "\<exists>k \<in> set (inorder sample_btree). rd_compare True (db_key (sample_key 6)) k = 0"
    "next_above (rd_compare True) (db_key (sample_key 6)) (inorder sample_btree) = Some (bkey 8)"
    unfolding sample_inorder by code_simp+
  then show ?thesis
    using FindNext_is_successor [OF sample_stored sample_not_empty(1), of "sample_key 6" "sample_key 0"] by auto
qed

theorem PartialFind_is_lower_bound_witness:
  "\<exists>key' ck' n' t'. PartialFind (rd_compare True) (sample_key 5) (sample_key 0) False sample_tree =
     ((1, key', ck', n'), t') \<and> db_key key' = bkey 6"
proof -
  have "next_from (rd_compare True) (db_key (sample_key 5)) (inorder sample_btree) = Some (bkey 6)"
    unfolding sample_inorder by code_simp
  then show ?thesis
    using PartialFind_is_lower_bound [OF sample_stored, of "sample_key 5" "sample_key 0"] by auto
qed

theorem Find_reads_bounded_witness:
  "node_reads (snd (Find (rd_compare True) (sample_key 5) (sample_key 0) False sample_tree)) \<le> 4096"
proof -
  obtain r t' where F: "Find (rd_compare True) (sample_key 5) (sample_key 0) False sample_tree = (r, t')" by fastforce
  have "node_reads sample_tree = 0" by (simp add: sample_tree_def new_gxBtree_def)
  then show ?thesis using Find_reads_bounded [OF _ _ F] F by (simp add: gxBtreeMaxNodeReads_def)
qed

text \<open>A node of order five is asked for where the file holds the byte 200, the start of a key.\<close>

theorem ReadNode_rejects_count_witness:
  "\<exists>n' t'. ReadNode (new_BtreeNode 24 5) 104 sample_tree = ((gxDBASE_BADBLOCK_ERROR, n'), t')"
proof -
  have f: "bt_f sample_tree = Some (tree_db sample_tree)" by (simp add: sample_tree_def tree_db_def)
  have "readable (tree_db sample_tree)" "nat 104 + 12 \<le> length (dbytes (tree_db sample_tree))"
    "node_order (new_BtreeNode 24 5) < gxINT32_PackBits (bytes_at (dbytes (tree_db sample_tree)) (nat 104) 4)"
    by code_simp+
  then show ?thesis using ReadNode_rejects_count [OF f, of 104 "new_BtreeNode 24 5"] by auto
qed

theorem node_roundtrip_witness:
  "\<exists>t1 n' t2. WriteNode (sample_node [5, 7]) 200 sample_tree = (gxDBASE_NO_ERROR, t1) \<and>
    ReadNode (new_BtreeNode 24 5) 200 t1 = ((gxDBASE_NO_ERROR, n'), t2) \<and> key_count n' = 2"
proof -
  have f: "bt_f sample_tree = Some (tree_db sample_tree)" by (simp add: sample_tree_def tree_db_def)
  have c: "writable (200 + node_bytes (key_size (sample_node [5, 7])) (entries (sample_node [5, 7]))) (tree_db sample_tree)"
    "node_fit (sample_node [5, 7])" "slots_ok (key_size (sample_node [5, 7])) (entries (sample_node [5, 7]))"
    "in_s64 (left_child (sample_node [5, 7]))" "node_fit (new_BtreeNode 24 5)"
    "key_size (new_BtreeNode 24 5) = key_size (sample_node [5, 7])"
    "node_order (new_BtreeNode 24 5) = node_order (sample_node [5, 7])" "key_count (sample_node [5, 7]) = 2"
    by code_simp+
  have "(200 :: int) = int 200 \<or> (200 :: int) = gxCurrAddress \<and> dpos (tree_db sample_tree) = 200" by simp
  from node_roundtrip [OF f c(1) this c(2-7)] show ?thesis using c(8) by auto
qed

end
