(* ===== verification/BtCache.thy ===== *)
theory BtCache
  imports BtFile "HOL-Library.Monad_Syntax"
begin

text \<open>
  The B-tree node cache of \<open>src/btcache.cpp\<close> and \<open>src/include/btcache.h\<close>. A bucket is a node with a
  dirty flag and the links of a circular list; a pointer to a bucket is its index in the array of
  buckets, and the links are kept as the code has them. The cache is connected to the database of
  the tree it is used with (\<open>cache_on\<close>) or to none, so a member function takes the database pointer
  \<open>f\<close>, which is \<open>None\<close> when it is null, and gives it back. A result \<open>None\<close> is a call that does not
  return or that uses memory that is not there: an empty bucket array (\<open>DestroyCache\<close> leaves
  \<open>head\<close> pointing into the freed array), a null bucket. The statistic \<open>cache_size\<close> is left out.
\<close>

section \<open>Buckets\<close>

record BtreeBucket =
  bkt_node :: BtreeNode
  is_dirty :: bool
  bkt_prev :: nat
  bkt_next :: nat

definition bkt_address :: "BtreeBucket \<Rightarrow> int" where
  "bkt_address b = node_address (bkt_node b)"

definition on_node :: "(BtreeNode \<Rightarrow> BtreeNode) \<Rightarrow> BtreeBucket \<Rightarrow> BtreeBucket" where
  "on_node g b = b\<lparr>bkt_node := g (bkt_node b)\<rparr>"

definition ResetBucket :: "BtreeBucket \<Rightarrow> BtreeBucket" where
  "ResetBucket b = on_node (\<lambda>n. n\<lparr>node_address := 0, key_count := 0\<rparr>) (b\<lparr>is_dirty := False\<rparr>)"

definition BtreeBucket_ReadNode ::
  "BtreeBucket \<Rightarrow> gxDatabase \<Rightarrow> gxDatabaseError \<times> BtreeBucket \<times> gxDatabase" where
  "BtreeBucket_ReadNode b db =
     (let n = bkt_node b in
      case Read (gxINT32_UnPackBits (key_count n)) (node_address n) db of (b1, db1) \<Rightarrow>
        let n1 = n\<lparr>key_count := gxINT32_PackBits b1\<rparr>
        in if gxd_error db1 \<noteq> gxDBASE_NO_ERROR then (gxd_error db1, b\<lparr>bkt_node := n1\<rparr>, db1)
           else (case Read (gxINT64_UnPackBits (left_child n1)) gxCurrAddress db1 of (b2, db2) \<Rightarrow>
             let n2 = n1\<lparr>left_child := gxINT64_PackBits b2\<rparr>
             in if gxd_error db2 \<noteq> gxDBASE_NO_ERROR then (gxd_error db2, b\<lparr>bkt_node := n2\<rparr>, db2)
                else if key_count n2 < 0 \<or> key_count n2 > node_order n2 then
                  (gxDBASE_BADBLOCK_ERROR, b\<lparr>bkt_node := n2\<lparr>key_count := 0\<rparr>\<rparr>,
                   SetDatabaseError gxDBASE_BADBLOCK_ERROR db2)
                else if key_count n2 > 0 then
                  (case Read (enc_slots (slots_at n2 0 (key_count n2))) gxCurrAddress db2 of
                     (b3, db3) \<Rightarrow>
                       let n3 = n2\<lparr>key_entries := move_in (key_entries n2) 0
                                     (dec_slots (key_size n2) b3 (nat (key_count n2)))\<rparr>
                       in if gxd_error db3 \<noteq> gxDBASE_NO_ERROR
                          then (gxd_error db3, b\<lparr>bkt_node := n3\<rparr>, db3)
                          else (gxDBASE_NO_ERROR, b\<lparr>bkt_node := n3, is_dirty := False\<rparr>, db3))
                else (gxDBASE_NO_ERROR, b\<lparr>bkt_node := n2, is_dirty := False\<rparr>, db2)))"

definition BtreeBucket_WriteNode ::
  "BtreeBucket \<Rightarrow> gxDatabase \<Rightarrow> gxDatabaseError \<times> BtreeBucket \<times> gxDatabase" where
  "BtreeBucket_WriteNode b db =
     (let n = bkt_node b;
          db1 = Write (gxINT32_UnPackBits (key_count n)) (node_address n) db
      in if gxd_error db1 \<noteq> gxDBASE_NO_ERROR then (gxd_error db1, b, db1)
         else (let db2 = Write (gxINT64_UnPackBits (left_child n)) gxCurrAddress db1
               in if gxd_error db2 \<noteq> gxDBASE_NO_ERROR then (gxd_error db2, b, db2)
                  else if key_count n > 0 then
                    (let db3 = Write (enc_slots (slots_at n 0 (key_count n))) gxCurrAddress db2
                     in if gxd_error db3 \<noteq> gxDBASE_NO_ERROR then (gxd_error db3, b, db3)
                        else (gxDBASE_NO_ERROR, b\<lparr>is_dirty := False\<rparr>, db3))
                  else (gxDBASE_NO_ERROR, b\<lparr>is_dirty := False\<rparr>, db2)))"

definition BtreeBucket_Flush ::
  "BtreeBucket \<Rightarrow> gxDatabase \<Rightarrow> gxDatabaseError \<times> BtreeBucket \<times> gxDatabase" where
  "BtreeBucket_Flush b db =
     (if bkt_address b \<noteq> 0 \<and> is_dirty b then
        (case BtreeBucket_WriteNode b db of (e, b1, db1) \<Rightarrow>
           if e = gxDBASE_NO_ERROR then (e, ResetBucket b1, db1) else (e, b1, db1))
      else (gxDBASE_NO_ERROR, b, db))"

section \<open>The cache and its list\<close>

record BtreeCache =
  num_buckets :: nat
  cache_on :: bool
  cache_head :: nat
  cache_tail :: nat
  buckets :: "BtreeBucket list"
  uncached_reads :: int
  cached_reads :: int

definition cache_IsEmpty :: "BtreeCache \<Rightarrow> bool" where
  "cache_IsEmpty c \<longleftrightarrow> buckets c = []"

definition bucket :: "BtreeCache \<Rightarrow> nat \<Rightarrow> BtreeBucket" where
  "bucket c i = buckets c ! i"

definition set_bucket :: "nat \<Rightarrow> BtreeBucket \<Rightarrow> BtreeCache \<Rightarrow> BtreeCache" where
  "set_bucket i b c = c\<lparr>buckets := (buckets c)[i := b]\<rparr>"

definition set_next :: "nat \<Rightarrow> nat \<Rightarrow> BtreeCache \<Rightarrow> BtreeCache" where
  "set_next i v c = set_bucket i ((bucket c i)\<lparr>bkt_next := v\<rparr>) c"

definition set_prev :: "nat \<Rightarrow> nat \<Rightarrow> BtreeCache \<Rightarrow> BtreeCache" where
  "set_prev i v c = set_bucket i ((bucket c i)\<lparr>bkt_prev := v\<rparr>) c"

text \<open>
  The bucket array: the links of the first and the last bucket, which the loop sets to addresses
  outside the array, are set afterwards.
\<close>

definition InitCache :: "int \<Rightarrow> int \<Rightarrow> BtreeCache \<Rightarrow> BtreeCache" where
  "InitCache dbkey_size order0 c =
     (let order = (if order0 < 5 then 5 else order0); n = num_buckets c
      in c\<lparr>buckets := map (\<lambda>i.
             \<lparr>bkt_node = \<lparr>node_order = order - 1, key_size = dbkey_size, node_address = 0,
                         key_count = 0, left_child = 0,
                         key_entries = replicate (nat (order - 1)) (blank_slot dbkey_size)\<rparr>,
              is_dirty = False,
              bkt_prev = (if i = 0 then n - 1 else i - 1),
              bkt_next = (if i = n - 1 then 0 else i + 1)\<rparr>) [0..<n],
           cache_head := 0, cache_tail := n - 1\<rparr>)"

definition MIN_BTREECACHE_SEGMENTS :: nat where "MIN_BTREECACHE_SEGMENTS = 3"

text \<open>The array is made for a cache that has none, which is when the constructors call this.\<close>

definition ConstructCache :: "nat \<Rightarrow> int \<Rightarrow> int \<Rightarrow> BtreeCache \<Rightarrow> BtreeCache" where
  "ConstructCache num_bkts dbkey_size order c =
     (let n = (if num_bkts = 0 \<or> num_bkts < MIN_BTREECACHE_SEGMENTS
               then MIN_BTREECACHE_SEGMENTS else num_bkts)
      in (InitCache dbkey_size order (c\<lparr>num_buckets := n\<rparr>))\<lparr>uncached_reads := 0, cached_reads := 0\<rparr>)"

definition null_cache :: BtreeCache where
  "null_cache = \<lparr>num_buckets = 0, cache_on = False, cache_head = 0, cache_tail = 0, buckets = [],
                 uncached_reads = 0, cached_reads = 0\<rparr>"

definition new_BtreeCache :: "nat \<Rightarrow> int \<Rightarrow> int \<Rightarrow> BtreeCache" where
  "new_BtreeCache num_bkts dbkey_size order = ConstructCache num_bkts dbkey_size order null_cache"

definition new_BtreeCache_for :: "nat \<Rightarrow> gxBtree \<Rightarrow> BtreeCache" where
  "new_BtreeCache_for num_bkts btree =
     ConstructCache num_bkts (hdr_key_size (btree_header btree)) (hdr_node_order (btree_header btree))
       (null_cache\<lparr>cache_on := bt_f btree \<noteq> None\<rparr>)"

text \<open>To the end and to the front of the list, link by link.\<close>

definition DemoteBucket :: "nat \<Rightarrow> BtreeCache \<Rightarrow> BtreeCache" where
  "DemoteBucket b c =
     (if cache_IsEmpty c \<or> b = cache_tail c then c
      else (let c1 = (if b = cache_head c
                      then (let nx = bkt_next (bucket c b)
                            in (set_prev nx b c)\<lparr>cache_head := nx\<rparr>)
                      else (let pv = bkt_prev (bucket c b); c' = set_next pv (bkt_next (bucket c b)) c
                            in set_prev (bkt_next (bucket c' b)) (bkt_prev (bucket c' b)) c'));
                c2 = set_next b (cache_head c1) c1;
                c3 = set_prev b (cache_tail c2) c2;
                c4 = set_next (cache_tail c3) b c3
            in c4\<lparr>cache_tail := b\<rparr>))"

definition PromoteBucket :: "nat \<Rightarrow> BtreeCache \<Rightarrow> BtreeCache" where
  "PromoteBucket b c =
     (if cache_IsEmpty c \<or> b = cache_head c then c
      else if b = cache_tail c then
        (let c1 = c\<lparr>cache_tail := bkt_prev (bucket c b)\<rparr>;
             c2 = (set_prev (cache_head c1) b c1)\<lparr>cache_head := b\<rparr>
         in set_prev (cache_head c2) (cache_tail c2) c2)
      else
        (let c1 = set_next (bkt_prev (bucket c b)) (bkt_next (bucket c b)) c;
             c2 = set_prev (bkt_next (bucket c1 b)) (bkt_prev (bucket c1 b)) c1;
             c3 = set_next b (cache_head c2) c2;
             c4 = set_prev b (cache_tail c3) c3;
             c5 = set_next (cache_tail c4) b c4
         in (set_prev (cache_head c5) b c5)\<lparr>cache_head := b\<rparr>))"

partial_function (option) find_bucket_loop :: "nat \<Rightarrow> int \<Rightarrow> BtreeCache \<Rightarrow> nat option option" where
  "find_bucket_loop i addr c =
     (if bkt_address (bucket c i) = addr then Some (Some i)
      else if bkt_next (bucket c i) = cache_head c then Some None
      else find_bucket_loop (bkt_next (bucket c i)) addr c)"

definition FindBucket :: "int \<Rightarrow> BtreeCache \<Rightarrow> nat option option" where
  "FindBucket addr c = (if cache_IsEmpty c then None else find_bucket_loop (cache_head c) addr c)"

fun dirty_loop :: "nat \<Rightarrow> nat \<Rightarrow> BtreeCache \<Rightarrow> nat" where
  "dirty_loop 0 i c = 0"
| "dirty_loop (Suc k) i c =
     (if is_dirty (bucket c i) then 1 else 0) +
     (if bkt_next (bucket c i) = cache_head c then 0 else dirty_loop k (bkt_next (bucket c i)) c)"

text \<open>The walk goes round the list once, so at most over every bucket.\<close>

definition BucketsInUse :: "BtreeCache \<Rightarrow> nat" where
  "BucketsInUse c = (if cache_IsEmpty c then 0 else dirty_loop (length (buckets c)) (cache_head c) c)"

section \<open>Flushing and connecting\<close>

definition flush_one ::
  "nat \<Rightarrow> BtreeCache \<Rightarrow> gxDatabase \<Rightarrow> gxDatabaseError \<times> BtreeCache \<times> gxDatabase" where
  "flush_one i c db =
     (if ready_for_writing db then
        (case BtreeBucket_Flush (bucket c i) db of (e, b, db1) \<Rightarrow>
           (if e \<noteq> gxDBASE_NO_ERROR then gxd_error db1 else gxDBASE_NO_ERROR, set_bucket i b c, db1))
      else (gxDBASE_FILE_NOT_READY, c, SetDatabaseError gxDBASE_FILE_NOT_READY db))"

partial_function (option) flush_loop ::
  "nat \<Rightarrow> BtreeCache \<Rightarrow> gxDatabase \<Rightarrow> (gxDatabaseError \<times> BtreeCache \<times> gxDatabase) option" where
  "flush_loop i c db =
     (case flush_one i c db of (e, c1, db1) \<Rightarrow>
        if e \<noteq> gxDBASE_NO_ERROR then Some (e, c1, db1)
        else if bkt_next (bucket c1 i) = cache_head c1 then Some (gxDBASE_NO_ERROR, c1, db1)
        else flush_loop (bkt_next (bucket c1 i)) c1 db1)"

fun lru_flush_loop ::
  "nat \<Rightarrow> nat \<Rightarrow> BtreeCache \<Rightarrow> gxDatabase \<Rightarrow> gxDatabaseError \<times> BtreeCache \<times> gxDatabase" where
  "lru_flush_loop 0 i c db = (gxDBASE_NO_ERROR, c, db)"
| "lru_flush_loop (Suc k) i c db =
     (case flush_one i c db of (e, c1, db1) \<Rightarrow>
        if e \<noteq> gxDBASE_NO_ERROR then (e, c1, db1)
        else if bkt_prev (bucket c1 i) = cache_tail c1 then (gxDBASE_NO_ERROR, c1, db1)
        else lru_flush_loop k (bkt_prev (bucket c1 i)) c1 db1)"

type_synonym cached_db = "BtreeCache \<times> gxDatabase option"

definition Flush_cache :: "cached_db \<Rightarrow> (gxDatabaseError \<times> cached_db) option" where
  "Flush_cache s =
     (case s of (c, f) \<Rightarrow>
        case f of
          None \<Rightarrow> Some (gxDBASE_NULL_PTR, c, f)
        | Some db \<Rightarrow>
            if cache_IsEmpty c then Some (gxDBASE_NULL_PTR, c, f)
            else map_option (\<lambda>(e, c1, db1). (e, c1, Some db1)) (flush_loop (cache_head c) c db))"

definition LRUFlush :: "nat \<Rightarrow> cached_db \<Rightarrow> gxDatabaseError \<times> cached_db" where
  "LRUFlush num_to_flush s =
     (case s of (c, f) \<Rightarrow>
        case f of
          None \<Rightarrow> (gxDBASE_NULL_PTR, c, f)
        | Some db \<Rightarrow>
            if cache_IsEmpty c then (gxDBASE_NULL_PTR, c, f)
            else (case lru_flush_loop num_to_flush (cache_tail c) c db of
                    (e, c1, db1) \<Rightarrow> (e, c1, Some db1)))"

text \<open>
  \<open>Connect\<close> flushes to the database the cache was connected to, if any, and connects it to the
  one it is given; \<open>Disconnect\<close> leaves it without one. The new database of \<open>Connect\<close> is given as \<open>fptr\<close>.
\<close>

definition flush_connected :: "cached_db \<Rightarrow> (gxDatabaseError \<times> cached_db) option" where
  "flush_connected s =
     (case s of (c, f) \<Rightarrow>
        if f \<noteq> None \<and> \<not> cache_IsEmpty c then Flush_cache s else Some (gxDBASE_NO_ERROR, s))"

definition Connect_cache :: "gxDatabase option \<Rightarrow> cached_db \<Rightarrow> (gxDatabaseError \<times> cached_db) option" where
  "Connect_cache fptr s =
     (if fptr = None then Some (gxDBASE_NULL_PTR, s)
      else do {
        (e, c1, f1) \<leftarrow> flush_connected s;
        Some (if e \<noteq> gxDBASE_NO_ERROR then (e, c1, f1)
              else (gxDBASE_NO_ERROR, c1\<lparr>cache_on := True\<rparr>, fptr))
      })"

definition Disconnect_cache :: "cached_db \<Rightarrow> (gxDatabaseError \<times> cached_db) option" where
  "Disconnect_cache s = do {
     (e, c1, f1) \<leftarrow> flush_connected s;
     Some (if e \<noteq> gxDBASE_NO_ERROR then (e, c1, f1)
           else (gxDBASE_NO_ERROR, c1\<lparr>cache_on := False\<rparr>, f1))
   }"

definition DestroyCache :: "cached_db \<Rightarrow> cached_db option" where
  "DestroyCache s = do {
     (_, s1) \<leftarrow> (if snd s \<noteq> None then Flush_cache s else Some (gxDBASE_NO_ERROR, s));
     (_, c2, f2) \<leftarrow> Disconnect_cache s1;
     Some (c2\<lparr>buckets := []\<rparr>, f2)
   }"

section \<open>Reserving a bucket\<close>

definition set_f_error :: "gxDatabaseError \<Rightarrow> gxDatabase option \<Rightarrow> gxDatabase option" where
  "set_f_error e f = map_option (SetDatabaseError e) f"

text \<open>\<open>if(f->GetDatabaseError() == gxDBASE_NO_ERROR) f->SetDatabaseError(gxDBASE_CACHE_ERROR)\<close>.\<close>

definition note_cache_error :: "gxDatabase option \<Rightarrow> gxDatabase option" where
  "note_cache_error f =
     map_option (\<lambda>db. if gxd_error db = gxDBASE_NO_ERROR
                      then SetDatabaseError gxDBASE_CACHE_ERROR db else db) f"

definition FindEmptyBucket :: "cached_db \<Rightarrow> nat option \<times> cached_db" where
  "FindEmptyBucket s =
     (case s of (c, f) \<Rightarrow>
        if cache_IsEmpty c then (None, c, set_f_error gxDBASE_CACHE_ERROR f)
        else (let i = cache_tail c in
          case f of
            Some db \<Rightarrow>
              if ready_for_writing db then
                (case BtreeBucket_Flush (bucket c i) db of (e, b, db1) \<Rightarrow>
                   let c1 = set_bucket i b c
                   in if e \<noteq> gxDBASE_NO_ERROR then (None, c1, Some db1)
                      else (Some i, PromoteBucket i c1, Some db1))
              else if is_dirty (bucket c i)
              then (None, c, Some (SetDatabaseError gxDBASE_FILE_NOT_READY db))
              else (Some i, PromoteBucket i c, f)
          | None \<Rightarrow>
              if is_dirty (bucket c i) then (None, c, f) else (Some i, PromoteBucket i c, f)))"

text \<open>The bucket that was found gets the address, and the node is read into it.\<close>

definition claim_bucket :: "int \<Rightarrow> nat \<Rightarrow> BtreeCache \<Rightarrow> BtreeCache" where
  "claim_bucket addr i c =
     set_bucket i (on_node (\<lambda>n. n\<lparr>left_child := 0, node_address := addr\<rparr>) (ResetBucket (bucket c i))) c"

definition load_bucket :: "nat \<Rightarrow> cached_db \<Rightarrow> nat option \<times> cached_db" where
  "load_bucket i s =
     (case s of (c, f) \<Rightarrow>
        case f of
          None \<Rightarrow> (None, DemoteBucket i (set_bucket i (ResetBucket (bucket c i)) c), f)
        | Some db \<Rightarrow>
            (case BtreeBucket_ReadNode (bucket c i) db of (e, b, db1) \<Rightarrow>
               if e \<noteq> gxDBASE_NO_ERROR
               then (None, DemoteBucket i (set_bucket i (ResetBucket b) c), Some db1)
               else (Some i, set_bucket i b c, Some db1)))"

definition AllocBucket :: "int \<Rightarrow> bool \<Rightarrow> cached_db \<Rightarrow> (nat option \<times> cached_db) option" where
  "AllocBucket addr load s =
     (case s of (c, f) \<Rightarrow>
        if addr = 0 then Some (None, c, set_f_error gxDBASE_CACHE_ERROR f)
        else do {
          found \<leftarrow> FindBucket addr c;
          Some (case found of
              Some i \<Rightarrow>
                (Some i, (PromoteBucket i c)\<lparr>cached_reads := to_u32 (cached_reads c + 1)\<rparr>, f)
            | None \<Rightarrow>
                (case FindEmptyBucket (c\<lparr>uncached_reads := to_u32 (uncached_reads c + 1)\<rparr>, f) of
                   (None, c1, f1) \<Rightarrow> (None, c1, note_cache_error f1)
                 | (Some i, c1, f1) \<Rightarrow>
                     if load then load_bucket i (claim_bucket addr i c1, f1)
                     else (Some i, claim_bucket addr i c1, f1)))
        })"

section \<open>Cache nodes\<close>

text \<open>A cache node refers to a node by its address, and to the bucket that held it last.\<close>

record BtreeCacheNode =
  cn_address :: int
  cn_bucket :: "nat option"

definition new_BtreeCacheNode :: BtreeCacheNode where
  "new_BtreeCacheNode = \<lparr>cn_address = 0, cn_bucket = None\<rparr>"

text \<open>The copy refers to the same bucket, without an address.\<close>

definition copy_BtreeCacheNode :: "BtreeCacheNode \<Rightarrow> BtreeCacheNode" where
  "copy_BtreeCacheNode ob = \<lparr>cn_address = 0, cn_bucket = cn_bucket ob\<rparr>"

definition Bind :: "BtreeCacheNode \<Rightarrow> cached_db \<Rightarrow> (BtreeCacheNode \<times> cached_db) option" where
  "Bind cn s =
     (case cn_bucket cn of
        Some i \<Rightarrow>
          if bkt_address (bucket (fst s) i) = cn_address cn then Some (cn, s)
          else do { (b, c1, f1) \<leftarrow> AllocBucket (cn_address cn) True s;
                    Some (if b = None then (\<lparr>cn_address = 0, cn_bucket = None\<rparr>, c1, note_cache_error f1)
                          else (cn\<lparr>cn_bucket := b\<rparr>, c1, f1)) }
      | None \<Rightarrow>
          do { (b, c1, f1) \<leftarrow> AllocBucket (cn_address cn) True s;
               Some (if b = None then (\<lparr>cn_address = 0, cn_bucket = None\<rparr>, c1, note_cache_error f1)
                     else (cn\<lparr>cn_bucket := b\<rparr>, c1, f1)) })"

text \<open>\<open>cn = address\<close>.\<close>

definition assign :: "int \<Rightarrow> BtreeCacheNode \<Rightarrow> cached_db \<Rightarrow> (BtreeCacheNode \<times> cached_db) option" where
  "assign addr cn s = Bind (cn\<lparr>cn_address := addr\<rparr>) s"

text \<open>\<open>Alloc(node_size, address)\<close>: a bucket that is reserved and not loaded.\<close>

definition cn_Alloc ::
  "int \<Rightarrow> int \<Rightarrow> BtreeCacheNode \<Rightarrow> cached_db \<Rightarrow> (nat option \<times> BtreeCacheNode \<times> cached_db) option" where
  "cn_Alloc node_size address cn s =
     (case s of (c, f) \<Rightarrow> do {
        (addr, f1) \<leftarrow>
          (if address \<noteq> 0 then Some (address, f)
           else case f of None \<Rightarrow> Some (0, f)
                | Some db \<Rightarrow> map_option (\<lambda>(a, db1). (a, Some db1))
                               (Alloc node_size gxDBASE_RECLAIM_FIRSTFIT db));
        if addr = 0 then Some (None, cn, c, note_cache_error f1)
        else do {
          (b, c2, f2) \<leftarrow> AllocBucket addr False (c, f1);
          Some (if b = None then (None, \<lparr>cn_address = 0, cn_bucket = None\<rparr>, c2, note_cache_error f2)
                else (b, \<lparr>cn_address = addr, cn_bucket = b\<rparr>, c2, f2))
        }
      })"

definition cn_Alloc_node ::
  "BtreeNode \<Rightarrow> int \<Rightarrow> BtreeCacheNode \<Rightarrow> cached_db \<Rightarrow> (bool \<times> BtreeCacheNode \<times> cached_db) option" where
  "cn_Alloc_node node address cn s = do {
     (b, cn1, c, f) \<leftarrow> cn_Alloc (SizeOfBtreeNode node) address cn s;
     Some (case b of
         None \<Rightarrow> (False, cn1\<lparr>cn_bucket := None\<rparr>, c, note_cache_error f)
       | Some i \<Rightarrow>
           (True, cn1,
            set_bucket i ((on_node (\<lambda>n. n\<lparr>key_count := key_count node, left_child := left_child node,
                key_entries := move_in (key_entries n) 0 (slots_at node 0 (key_count node))\<rparr>)
              (bucket c i))\<lparr>is_dirty := True\<rparr>) c, f))
   }"

definition cn_Delete :: "BtreeCacheNode \<Rightarrow> cached_db \<Rightarrow> bool \<times> BtreeCacheNode \<times> cached_db" where
  "cn_Delete cn s =
     (case s of (c, f) \<Rightarrow>
        if f = None then (False, cn, s)
        else (case cn_bucket cn of
          None \<Rightarrow> (False, cn, c, set_f_error gxDBASE_CACHE_ERROR f)
        | Some i \<Rightarrow>
            if bkt_address (bucket c i) = cn_address cn
            then (True, cn\<lparr>cn_address := 0\<rparr>,
                  DemoteBucket i (set_bucket i (ResetBucket (bucket c i)) c), f)
            else (False, cn, c, note_cache_error f)))"

end
