(* ===== verification/BtCacheList.thy ===== *)
theory BtCacheList
  imports BtCache
begin

text \<open>
  The bucket list of the node cache as a list of bucket numbers: \<open>ring c xs\<close> says that the links
  \<open>next\<close> go round \<open>xs\<close> from \<open>head\<close> to \<open>tail\<close>, \<open>back_links c xs\<close> that the links \<open>prev\<close> go back from \<open>tail\<close> to
  \<open>head\<close>. \<open>PromoteBucket\<close> and \<open>DemoteBucket\<close> move a bucket to an end of this list, and the walks of
  the cache are walks along it.
\<close>

definition nxt :: "BtreeCache \<Rightarrow> nat \<Rightarrow> nat" where "nxt c i = bkt_next (bucket c i)"

definition prv :: "BtreeCache \<Rightarrow> nat \<Rightarrow> nat" where "prv c i = bkt_prev (bucket c i)"

fun path :: "(nat \<Rightarrow> nat) \<Rightarrow> nat list \<Rightarrow> bool" where
  "path f [] \<longleftrightarrow> True"
| "path f [a] \<longleftrightarrow> True"
| "path f (a # b # xs) \<longleftrightarrow> f a = b \<and> path f (b # xs)"

definition ring :: "BtreeCache \<Rightarrow> nat list \<Rightarrow> bool" where
  "ring c xs \<longleftrightarrow> xs \<noteq> [] \<and> distinct xs \<and> set xs = {..<length (buckets c)} \<and>
     cache_head c = hd xs \<and> cache_tail c = last xs \<and> path (nxt c) xs \<and> nxt c (last xs) = hd xs"

definition back_links :: "BtreeCache \<Rightarrow> nat list \<Rightarrow> bool" where
  "back_links c xs \<longleftrightarrow> path (prv c) (rev xs)"

text \<open>The list is closed in both directions: the head's link back goes to the tail.\<close>

definition circular :: "BtreeCache \<Rightarrow> nat list \<Rightarrow> bool" where
  "circular c xs \<longleftrightarrow> ring c xs \<and> back_links c xs \<and> prv c (hd xs) = last xs"

section \<open>Paths\<close>

lemma path_Cons: "path f (a # xs) \<longleftrightarrow> (xs = [] \<or> f a = hd xs) \<and> path f xs"
  by (cases xs) auto

lemma path_append:
  "path f (xs @ ys) \<longleftrightarrow> path f xs \<and> path f ys \<and> (xs = [] \<or> ys = [] \<or> f (last xs) = hd ys)"
proof (induction xs)
  case (Cons a xs)
  then show ?case by (cases xs) (auto simp: path_Cons)
qed simp

lemma path_upd: "x \<notin> set (butlast xs) \<Longrightarrow> path (f(x := v)) xs = path f xs"
proof (induction xs)
  case (Cons a xs)
  then show ?case by (cases xs) (auto simp: path_Cons)
qed simp

lemma last_notin_butlast: "distinct xs \<Longrightarrow> last xs \<notin> set (butlast xs)"
  by (induction xs) (auto dest: in_set_butlastD)

lemma hd_notin_tl: "distinct xs \<Longrightarrow> hd xs \<notin> set (tl xs)"
  by (cases xs) auto

lemma notin_tl: "x \<notin> set xs \<Longrightarrow> x \<notin> set (tl xs)"
  by (cases xs) auto

lemma notin_butlast: "x \<notin> set xs \<Longrightarrow> x \<notin> set (butlast xs)"
  by (auto dest: in_set_butlastD)

section \<open>Setting links\<close>

lemma bucket_set_bucket:
  "i < length (buckets c) \<Longrightarrow> bucket (set_bucket i b c) j = (if j = i then b else bucket c j)"
  by (simp add: bucket_def set_bucket_def)

lemma set_link_fields [simp]:
  "length (buckets (set_bucket i b c)) = length (buckets c)"
  "cache_head (set_bucket i b c) = cache_head c" "cache_tail (set_bucket i b c) = cache_tail c"
  "length (buckets (set_next i v c)) = length (buckets c)"
  "cache_head (set_next i v c) = cache_head c" "cache_tail (set_next i v c) = cache_tail c"
  "length (buckets (set_prev i v c)) = length (buckets c)"
  "cache_head (set_prev i v c) = cache_head c" "cache_tail (set_prev i v c) = cache_tail c"
  by (simp_all add: set_bucket_def set_next_def set_prev_def)

lemma links_head_tail [simp]:
  "nxt (c\<lparr>cache_head := h\<rparr>) = nxt c" "nxt (c\<lparr>cache_tail := h\<rparr>) = nxt c"
  "prv (c\<lparr>cache_head := h\<rparr>) = prv c" "prv (c\<lparr>cache_tail := h\<rparr>) = prv c"
  by (auto simp: nxt_def prv_def bucket_def)

lemma links_set:
  assumes "i < length (buckets c)"
  shows "nxt (set_next i v c) = (nxt c)(i := v)" "prv (set_next i v c) = prv c"
    "nxt (set_prev i v c) = nxt c" "prv (set_prev i v c) = (prv c)(i := v)"
  using assms by (auto simp: nxt_def prv_def set_next_def set_prev_def bucket_set_bucket)

lemma links_set_node:
  "i < length (buckets c) \<Longrightarrow> bkt_next b = nxt c i \<Longrightarrow> nxt (set_bucket i b c) = nxt c"
  "i < length (buckets c) \<Longrightarrow> bkt_prev b = prv c i \<Longrightarrow> prv (set_bucket i b c) = prv c"
  by (auto simp: nxt_def prv_def bucket_set_bucket)

text \<open>The nodes and dirty flags do not change with the links.\<close>

definition same_contents :: "BtreeCache \<Rightarrow> BtreeCache \<Rightarrow> bool" where
  "same_contents c c' \<longleftrightarrow> length (buckets c') = length (buckets c) \<and> cache_on c' = cache_on c \<and>
     (\<forall>i. bkt_node (bucket c' i) = bkt_node (bucket c i) \<and> is_dirty (bucket c' i) = is_dirty (bucket c i))"

lemma same_contents_refl [simp]: "same_contents c c"
  by (simp add: same_contents_def)

lemma same_contents_trans: "same_contents c d \<Longrightarrow> same_contents d e \<Longrightarrow> same_contents c e"
  by (simp add: same_contents_def)

lemma same_contents_step [simp]:
  "same_contents c (c'\<lparr>cache_head := h\<rparr>) = same_contents c c'"
  "same_contents c (c'\<lparr>cache_tail := h\<rparr>) = same_contents c c'"
  by (simp_all add: same_contents_def bucket_def)

lemma set_link_contents [simp]:
  "i < length (buckets c) \<Longrightarrow> bkt_node (bucket (set_next i v c) j) = bkt_node (bucket c j)"
  "i < length (buckets c) \<Longrightarrow> bkt_node (bucket (set_prev i v c) j) = bkt_node (bucket c j)"
  "i < length (buckets c) \<Longrightarrow> is_dirty (bucket (set_next i v c) j) = is_dirty (bucket c j)"
  "i < length (buckets c) \<Longrightarrow> is_dirty (bucket (set_prev i v c) j) = is_dirty (bucket c j)"
  by (simp_all add: set_next_def set_prev_def bucket_set_bucket)

lemma set_link_on [simp]:
  "cache_on (set_next i v c) = cache_on c" "cache_on (set_prev i v c) = cache_on c"
  by (simp_all add: set_next_def set_prev_def set_bucket_def)

lemma same_contents_set:
  "i < length (buckets c') \<Longrightarrow> same_contents c (set_next i v c') = same_contents c c'"
  "i < length (buckets c') \<Longrightarrow> same_contents c (set_prev i v c') = same_contents c c'"
  by (simp_all add: same_contents_def)

section \<open>Moving a bucket\<close>

lemma ring_member: "ring c xs \<Longrightarrow> b \<in> set xs \<longleftrightarrow> b < length (buckets c)"
  by (simp add: ring_def)

lemma ring_not_empty: "ring c xs \<Longrightarrow> \<not> cache_IsEmpty c"
  unfolding ring_def cache_IsEmpty_def by (metis lessThan_0 list.size(3) set_empty)

lemma remove1_middle: "b \<notin> set us \<Longrightarrow> remove1 b (us @ b # vs) = us @ vs"
  by (simp add: remove1_append)

lemma Promote_list:
  assumes r: "ring c xs" and bk: "back_links c xs" and b: "b \<in> set xs"
  shows "ring (PromoteBucket b c) (b # remove1 b xs)" "back_links (PromoteBucket b c) (b # remove1 b xs)"
    "same_contents c (PromoteBucket b c)"
    "b \<noteq> hd xs \<Longrightarrow> prv (PromoteBucket b c) b = last (b # remove1 b xs)"
proof -
  obtain us vs where xs: "xs = us @ b # vs" "b \<notin> set us" using b split_list_first by fast
  have ne: "\<not> cache_IsEmpty c" using ring_not_empty [OF r] .
  have dist: "distinct us" "distinct vs" "b \<notin> set vs" "set us \<inter> set vs = {}"
    using r xs(1) by (auto simp: ring_def)
  have rm: "remove1 b xs = us @ vs" using xs by (simp add: remove1_middle)
  have lt: "x < length (buckets c)" if "x \<in> set us \<or> x \<in> set vs \<or> x = b" for x
    using that r xs(1) by (auto simp: ring_def)
  have ht: "cache_head c = hd (us @ [b])" "cache_tail c = last (b # vs)"
    using r xs(1) by (auto simp: ring_def hd_append)
  have n: "path (nxt c) (us @ b # vs)" "nxt c (last (b # vs)) = hd (us @ [b])"
    using r xs(1) by (auto simp: ring_def hd_append)
  have p: "path (prv c) (rev vs @ b # rev us)"
    using bk xs(1) by (simp add: back_links_def)
  have members: "set (b # us @ vs) = {..<length (buckets c)}" using r xs(1) by (auto simp: ring_def)
  consider (front) "us = []" | (tail) "us \<noteq> []" "vs = []" | (mid) "us \<noteq> []" "vs \<noteq> []" by blast
  then have "ring (PromoteBucket b c) (b # us @ vs) \<and> back_links (PromoteBucket b c) (b # us @ vs) \<and>
    same_contents c (PromoteBucket b c) \<and> (b \<noteq> hd xs \<longrightarrow> prv (PromoteBucket b c) b = last (b # us @ vs))"
  proof cases
    case front
    then have "PromoteBucket b c = c" using ht by (simp add: PromoteBucket_def)
    then show ?thesis using r bk xs front by simp
  next
    case tail
    note l = lt [of b] lt [of "hd us"]
    have pv: "prv c b = last us" using p tail by (simp add: path_Cons hd_rev)
    have P: "PromoteBucket b c =
      set_prev b (last us) ((set_prev (hd us) b (c\<lparr>cache_tail := last us\<rparr>))\<lparr>cache_head := b\<rparr>)"
      using tail ne ht pv xs(2) by (auto simp: PromoteBucket_def Let_def prv_def [symmetric])
    have "hd us \<in> set us" using tail by simp
    then have "hd us \<noteq> b" using xs(2) by metis
    moreover have "path ((prv c)(hd us := b, b := last us)) (rev us)"
      using p tail dist xs(2)
      by (simp add: path_Cons path_upd hd_notin_tl notin_tl)
    ultimately show ?thesis
      using n p l members tail dist xs
      by (simp add: P ring_def back_links_def links_set path_append path_Cons last_rev
          same_contents_set hd_append)
  next
    case mid
    have pv: "prv c b = last us" "nxt c b = hd vs"
      using p n mid by (simp_all add: path_Cons path_append hd_rev)
    have mem: "hd us \<in> set us" "last us \<in> set us" "hd vs \<in> set vs" "last vs \<in> set vs"
      using mid by simp_all
    then have diff: "b \<noteq> hd us" "b \<noteq> last us" "b \<noteq> hd vs" "b \<noteq> last vs"
        "hd us \<noteq> hd vs" "hd us \<noteq> last vs" "last us \<noteq> hd vs" "last us \<noteq> last vs"
      using dist xs(2) by auto
    have lts: "b < length (buckets c)" "hd us < length (buckets c)" "last us < length (buckets c)"
        "hd vs < length (buckets c)" "last vs < length (buckets c)"
      using mem lt by auto
    have P: "PromoteBucket b c =
      (set_prev (hd us) b (set_next (last vs) b (set_prev b (last vs) (set_next b (hd us)
        (set_prev (hd vs) (last us) (set_next (last us) (hd vs) c))))))\<lparr>cache_head := b\<rparr>"
      using mid ne ht pv diff lts
      by (auto simp: PromoteBucket_def Let_def prv_def [symmetric] nxt_def [symmetric] links_set)
    have nn: "nxt (PromoteBucket b c) = ((nxt c)(last us := hd vs, b := hd us, last vs := b))"
      using lts by (simp add: P links_set)
    have pp: "prv (PromoteBucket b c) = ((prv c)(hd vs := last us, b := last vs, hd us := b))"
      using lts by (simp add: P links_set)
    have fields: "cache_head (PromoteBucket b c) = b" "cache_tail (PromoteBucket b c) = last vs"
        "length (buckets (PromoteBucket b c)) = length (buckets c)" "same_contents c (PromoteBucket b c)"
      using mid ht lts by (simp_all add: P same_contents_set)
    have "path ((nxt c)(last us := hd vs, b := hd us, last vs := b)) (b # us @ vs)"
    proof -
      have "path (nxt c) us" "path (nxt c) vs" using n by (simp_all add: path_append path_Cons)
      moreover have "last vs \<notin> set us" "last us \<notin> set vs" using mem dist by auto
      ultimately show ?thesis
        using mid diff dist xs(2)
        by (simp add: path_Cons path_append path_upd last_notin_butlast notin_butlast)
    qed
    moreover have "path ((prv c)(hd vs := last us, b := last vs, hd us := b)) (rev vs @ rev us @ [b])"
    proof -
      have "path (prv c) (rev us)" "path (prv c) (rev vs)" using p by (simp_all add: path_append path_Cons)
      moreover have "hd us \<notin> set vs" "hd vs \<notin> set us"
        using mem dist by auto
      ultimately show ?thesis
        using mid diff dist xs(2)
        by (simp add: path_append path_upd hd_notin_tl notin_tl last_rev hd_rev)
    qed
    ultimately show ?thesis
      using mid mem diff dist xs members fields unfolding ring_def back_links_def nn pp
      by (auto simp: hd_append)
  qed
  then show "ring (PromoteBucket b c) (b # remove1 b xs)" "back_links (PromoteBucket b c) (b # remove1 b xs)"
    "same_contents c (PromoteBucket b c)"
    "b \<noteq> hd xs \<Longrightarrow> prv (PromoteBucket b c) b = last (b # remove1 b xs)"
    by (simp_all add: rm)
qed

lemma Demote_list:
  assumes r: "ring c xs" and bk: "back_links c xs" and b: "b \<in> set xs"
  shows "ring (DemoteBucket b c) (remove1 b xs @ [b])" "back_links (DemoteBucket b c) (remove1 b xs @ [b])"
    "same_contents c (DemoteBucket b c)"
    "b \<noteq> hd xs \<Longrightarrow> b \<noteq> last xs \<Longrightarrow> prv (DemoteBucket b c) (hd xs) = prv c (hd xs)"
    "b = hd xs \<Longrightarrow> b \<noteq> last xs \<Longrightarrow> prv (DemoteBucket b c) (hd (remove1 b xs)) = b"
proof -
  obtain us vs where xs: "xs = us @ b # vs" "b \<notin> set us" using b split_list_first by fast
  have ne: "\<not> cache_IsEmpty c" using ring_not_empty [OF r] .
  have dist: "distinct us" "distinct vs" "b \<notin> set vs" "set us \<inter> set vs = {}"
    using r xs(1) by (auto simp: ring_def)
  have rm: "remove1 b xs = us @ vs" using xs by (simp add: remove1_middle)
  have lt: "x < length (buckets c)" if "x \<in> set us \<or> x \<in> set vs \<or> x = b" for x
    using that r xs(1) by (auto simp: ring_def)
  have ht: "cache_head c = hd (us @ [b])" "cache_tail c = last (b # vs)"
    using r xs(1) by (auto simp: ring_def hd_append)
  have n: "path (nxt c) (us @ b # vs)" "nxt c (last (b # vs)) = hd (us @ [b])"
    using r xs(1) by (auto simp: ring_def hd_append)
  have p: "path (prv c) (rev vs @ b # rev us)"
    using bk xs(1) by (simp add: back_links_def)
  have members: "set (b # us @ vs) = {..<length (buckets c)}" using r xs(1) by (auto simp: ring_def)
  consider (rear) "vs = []" | (front) "us = []" "vs \<noteq> []" | (mid) "us \<noteq> []" "vs \<noteq> []" by blast
  then have "ring (DemoteBucket b c) (us @ vs @ [b]) \<and> back_links (DemoteBucket b c) (us @ vs @ [b]) \<and>
    same_contents c (DemoteBucket b c) \<and>
    (b \<noteq> hd xs \<longrightarrow> b \<noteq> last xs \<longrightarrow> prv (DemoteBucket b c) (hd xs) = prv c (hd xs)) \<and>
    (b = hd xs \<longrightarrow> b \<noteq> last xs \<longrightarrow> prv (DemoteBucket b c) (hd (us @ vs)) = b)"
  proof cases
    case rear
    then have "DemoteBucket b c = c" using ht by (simp add: DemoteBucket_def)
    then show ?thesis using r bk xs rear by simp
  next
    case front
    have mem: "hd vs \<in> set vs" "last vs \<in> set vs" using front by simp_all
    then have diff: "b \<noteq> hd vs" "b \<noteq> last vs" using dist by metis+
    have lts: "b < length (buckets c)" "hd vs < length (buckets c)" "last vs < length (buckets c)"
      using mem lt by auto
    have nx: "nxt c b = hd vs" using n front by (simp add: path_Cons)
    have D: "DemoteBucket b c =
      (set_next (last vs) b (set_prev b (last vs) (set_next b (hd vs)
        ((set_prev (hd vs) b c)\<lparr>cache_head := hd vs\<rparr>))))\<lparr>cache_tail := b\<rparr>"
      using front ne ht nx diff by (auto simp: DemoteBucket_def Let_def nxt_def [symmetric])
    have "path (prv c) (rev vs)" "path (nxt c) vs" using n p front by (simp_all add: path_append path_Cons)
    then show ?thesis
      using front diff dist lts members xs
      by (simp add: D ring_def back_links_def links_set path_append path_Cons path_upd
          last_notin_butlast hd_notin_tl notin_butlast notin_tl last_rev hd_rev same_contents_set hd_append)
  next
    case mid
    have pv: "prv c b = last us" "nxt c b = hd vs"
      using p n mid by (simp_all add: path_Cons path_append hd_rev)
    have mem: "hd us \<in> set us" "last us \<in> set us" "hd vs \<in> set vs" "last vs \<in> set vs"
      using mid by simp_all
    then have diff: "b \<noteq> hd us" "b \<noteq> last us" "b \<noteq> hd vs" "b \<noteq> last vs"
        "hd us \<noteq> hd vs" "hd us \<noteq> last vs" "last us \<noteq> hd vs" "last us \<noteq> last vs"
      using dist xs(2) by auto
    have lts: "b < length (buckets c)" "hd us < length (buckets c)" "last us < length (buckets c)"
        "hd vs < length (buckets c)" "last vs < length (buckets c)"
      using mem lt by auto
    have D: "DemoteBucket b c =
      (set_next (last vs) b (set_prev b (last vs) (set_next b (hd us)
        (set_prev (hd vs) (last us) (set_next (last us) (hd vs) c)))))\<lparr>cache_tail := b\<rparr>"
      using mid ne ht pv diff lts
      by (auto simp: DemoteBucket_def Let_def prv_def [symmetric] nxt_def [symmetric] links_set)
    have nn: "nxt (DemoteBucket b c) = ((nxt c)(last us := hd vs, b := hd us, last vs := b))"
      using lts by (simp add: D links_set)
    have pp: "prv (DemoteBucket b c) = ((prv c)(hd vs := last us, b := last vs))"
      using lts by (simp add: D links_set)
    have fields: "cache_head (DemoteBucket b c) = hd us" "cache_tail (DemoteBucket b c) = b"
        "length (buckets (DemoteBucket b c)) = length (buckets c)" "same_contents c (DemoteBucket b c)"
      using mid ht lts by (simp_all add: D same_contents_set)
    have out: "last vs \<notin> set us" "last us \<notin> set vs" "hd vs \<notin> set us" using mem dist by auto
    have parts: "path (nxt c) us" "path (nxt c) vs" "path (prv c) (rev us)" "path (prv c) (rev vs)"
      using n p by (simp_all add: path_append path_Cons)
    have "path ((nxt c)(last us := hd vs, b := hd us, last vs := b)) (us @ vs @ [b])"
      using parts mid diff dist xs(2) out
      by (simp add: path_Cons path_append path_upd last_notin_butlast notin_butlast hd_append)
    moreover have "path ((prv c)(hd vs := last us, b := last vs)) (b # rev vs @ rev us)"
      using parts mid diff dist xs(2) out
      by (simp add: path_Cons path_append path_upd hd_notin_tl notin_tl last_rev hd_rev hd_append)
    ultimately show ?thesis
      using mid mem diff dist xs members fields unfolding ring_def back_links_def nn pp
      by (auto simp: hd_append)
  qed
  then show "ring (DemoteBucket b c) (remove1 b xs @ [b])" "back_links (DemoteBucket b c) (remove1 b xs @ [b])"
    "same_contents c (DemoteBucket b c)"
    "b \<noteq> hd xs \<Longrightarrow> b \<noteq> last xs \<Longrightarrow> prv (DemoteBucket b c) (hd xs) = prv c (hd xs)"
    "b = hd xs \<Longrightarrow> b \<noteq> last xs \<Longrightarrow> prv (DemoteBucket b c) (hd (remove1 b xs)) = b"
    unfolding rm by simp_all
qed

lemma Promote_circular:
  assumes r: "ring c xs" and bk: "back_links c xs" and b: "b \<in> set xs"
  shows "circular (PromoteBucket b c) (b # remove1 b xs) \<longleftrightarrow> b \<noteq> hd xs \<or> circular c xs"
proof (cases "b = hd xs")
  case True
  then have "PromoteBucket b c = c" using r by (simp add: PromoteBucket_def ring_def)
  moreover have "b # remove1 b xs = xs" using True b by (cases xs) auto
  ultimately show ?thesis using True by simp
qed (use Promote_list [OF r bk b] in \<open>simp add: circular_def\<close>)

lemma Demote_circular:
  assumes c: "circular c xs" and b: "b \<in> set xs"
  shows "circular (DemoteBucket b c) (remove1 b xs @ [b]) \<longleftrightarrow> b = hd xs \<or> b = last xs"
proof -
  have r: "ring c xs" "back_links c xs" "prv c (hd xs) = last xs" using c by (simp_all add: circular_def)
  note D = Demote_list [OF r(1,2) b]
  have d: "xs \<noteq> []" "distinct xs" using r(1) by (simp_all add: ring_def)
  consider (tail) "b = last xs" | (front) "b = hd xs" "b \<noteq> last xs" | (mid) "b \<noteq> hd xs" "b \<noteq> last xs" by blast
  then show ?thesis
  proof cases
    case tail
    then have "DemoteBucket b c = c" using r(1) by (simp add: DemoteBucket_def ring_def)
    moreover have "remove1 b (butlast xs @ [last xs]) @ [b] = butlast xs @ [last xs]"
      using tail last_notin_butlast [OF d(2)] by (simp add: remove1_append)
    ultimately show ?thesis using c tail d(1) by simp
  next
    case front
    obtain ys where xs: "xs = b # ys" using front d(1) by (cases xs) auto
    then have "ys \<noteq> []" "remove1 b xs = ys" using front(2) by auto
    then show ?thesis using D(1,2) D(5) [OF front] front(1) by (simp add: circular_def)
  next
    case mid
    obtain y ys where xs: "xs = y # ys" using d(1) by (cases xs) auto
    then show ?thesis using D(4) [OF mid] r(3) mid by (auto simp: circular_def)
  qed
qed

section \<open>Walking along the list\<close>

lemma find_bucket_from:
  assumes "ring c xs" "xs = us @ i # vs"
  shows "find_bucket_loop i addr c = Some (find (\<lambda>j. bkt_address (bucket c j) = addr) (i # vs))"
  using assms(2)
proof (induction vs arbitrary: us i)
  case Nil
  have "bkt_next (bucket c i) = cache_head c"
    using assms(1) Nil by (simp add: ring_def nxt_def [symmetric])
  then show ?case by (subst find_bucket_loop.simps) simp
next
  case (Cons j vs)
  have n: "bkt_next (bucket c i) = j"
    using assms(1) Cons.prems by (simp add: ring_def nxt_def [symmetric] path_append path_Cons)
  have "j \<noteq> cache_head c"
    using assms(1) Cons.prems by (cases us) (auto simp: ring_def)
  with n Cons.IH [of "us @ [i]" j] Cons.prems show ?case
    by (subst find_bucket_loop.simps) simp
qed

text \<open>The search for an address ends and gives the first bucket of the list that has it.\<close>

lemma FindBucket_list:
  assumes "ring c xs"
  shows "FindBucket addr c = Some (find (\<lambda>j. bkt_address (bucket c j) = addr) xs)"
proof -
  obtain y ys where xs: "xs = y # ys" using assms by (cases xs) (auto simp: ring_def)
  from find_bucket_from [OF assms, of "[]" y ys addr] show ?thesis
    using assms ring_not_empty [OF assms] xs by (simp add: FindBucket_def ring_def)
qed

text \<open>A new cache.\<close>

lemma path_upt: "(\<And>i. i < n - 1 \<Longrightarrow> f i = Suc i) \<Longrightarrow> path f [0..<n]"
proof (induction n)
  case (Suc n)
  then have "path f [0..<n]" by simp
  then show ?case using Suc.prems [of "n - 1"] by (cases n) (simp_all add: path_append)
qed simp

lemma path_rev_upt: "(\<And>i. 0 < i \<Longrightarrow> i < n \<Longrightarrow> f i = i - 1) \<Longrightarrow> path f (rev [0..<n])"
proof (induction n)
  case (Suc n)
  then have "path f (rev [0..<n])" by simp
  then show ?case using Suc.prems [of n] by (cases n) (simp_all add: path_Cons)
qed simp

lemma InitCache_list:
  assumes "0 < num_buckets c"
  shows "ring (InitCache sz order c) [0..<num_buckets c]"
    "back_links (InitCache sz order c) [0..<num_buckets c]"
    "prv (InitCache sz order c) 0 = num_buckets c - 1"
proof -
  let ?c = "InitCache sz order c" and ?n = "num_buckets c"
  have b: "bkt_next (bucket ?c i) = (if i = ?n - 1 then 0 else i + 1)"
    "bkt_prev (bucket ?c i) = (if i = 0 then ?n - 1 else i - 1)" if "i < ?n" for i
    using that by (simp_all add: bucket_def InitCache_def Let_def)
  have f: "length (buckets ?c) = ?n" "cache_head ?c = 0" "cache_tail ?c = ?n - 1"
    by (simp_all add: InitCache_def Let_def)
  show "ring ?c [0..<?n]"
    using assms b f by (auto simp: ring_def nxt_def path_upt)
  show "back_links ?c [0..<?n]"
    using b by (auto simp: back_links_def prv_def intro!: path_rev_upt)
  show "prv ?c 0 = ?n - 1" using assms b by (simp add: prv_def)
qed

lemma ConstructCache_list:
  assumes "n = (if num < MIN_BTREECACHE_SEGMENTS then MIN_BTREECACHE_SEGMENTS else num)"
  shows "ring (ConstructCache num sz order c) [0..<n]" "back_links (ConstructCache num sz order c) [0..<n]"
    "prv (ConstructCache num sz order c) 0 = n - 1" "3 \<le> n"
proof -
  have n: "0 < num_buckets (c\<lparr>num_buckets := n\<rparr>)" "3 \<le> n"
    using assms by (auto simp: MIN_BTREECACHE_SEGMENTS_def)
  have stats: "nxt (d\<lparr>uncached_reads := i, cached_reads := j\<rparr>) = nxt d"
    "prv (d\<lparr>uncached_reads := i, cached_reads := j\<rparr>) = prv d" for d i j
    by (auto simp: nxt_def prv_def bucket_def)
  have "ConstructCache num sz order c =
      (InitCache sz order (c\<lparr>num_buckets := n\<rparr>))\<lparr>uncached_reads := 0, cached_reads := 0\<rparr>"
    using assms by (simp add: ConstructCache_def Let_def MIN_BTREECACHE_SEGMENTS_def)
  then show "ring (ConstructCache num sz order c) [0..<n]"
    "back_links (ConstructCache num sz order c) [0..<n]"
    "prv (ConstructCache num sz order c) 0 = n - 1" "3 \<le> n"
    using InitCache_list [OF n(1), of sz order] n(2) by (simp_all add: ring_def back_links_def stats)
qed

end
