(* ===== verification/BtCached.thy ===== *)
theory BtCached
  imports BtCache BtDelete
begin

text \<open>
  The searches of \<open>src/gxbtree.cpp\<close> that go through a node cache. The state is the tree with the
  cache; they share the database of the tree when the cache is connected. A cache node is passed
  along with the state because every use of \<open>->\<close> binds it again: \<open>look\<close> gives the node it refers
  to, \<open>edit\<close> changes that node in its bucket and \<open>go\<close> assigns an address. \<open>None\<close> is a null
  bucket that is dereferenced or a call that does not return. The walks count down the
  \<open>gxBtreeMaxNodeReads\<close> rounds they may make.
\<close>

type_synonym cached_tree = "gxBtree \<times> BtreeCache"

definition via_cache ::
  "(cached_db \<Rightarrow> ('a \<times> cached_db) option) \<Rightarrow> cached_tree \<Rightarrow> ('a \<times> cached_tree) option" where
  "via_cache op s =
     (case s of (t, c) \<Rightarrow>
        map_option (\<lambda>(r, c1, f1). (r, if cache_on c then t\<lparr>bt_f := f1\<rparr> else t, c1))
          (op (c, if cache_on c then bt_f t else None)))"

definition go :: "int \<Rightarrow> BtreeCacheNode \<Rightarrow> cached_tree \<Rightarrow> (BtreeCacheNode \<times> cached_tree) option" where
  "go addr cn s = via_cache (assign addr cn) s"

definition look ::
  "BtreeCacheNode \<Rightarrow> cached_tree \<Rightarrow> (BtreeNode \<times> BtreeCacheNode \<times> cached_tree) option" where
  "look cn s = do {
     (cn1, t, c) \<leftarrow> via_cache (Bind cn) s;
     i \<leftarrow> cn_bucket cn1;
     Some (bkt_node (bucket c i), cn1, t, c)
   }"

definition edit ::
  "(BtreeNode \<Rightarrow> BtreeNode) \<Rightarrow> BtreeCacheNode \<Rightarrow> cached_tree \<Rightarrow> (BtreeCacheNode \<times> cached_tree) option"
where
  "edit g cn s = do {
     (cn1, t, c) \<leftarrow> via_cache (Bind cn) s;
     i \<leftarrow> cn_bucket cn1;
     Some (cn1, t, set_bucket i (on_node g (bucket c i)) c)
   }"

definition SetDirty :: "BtreeCacheNode \<Rightarrow> cached_tree \<Rightarrow> (BtreeCacheNode \<times> cached_tree) option" where
  "SetDirty cn s = do {
     (cn1, t, c) \<leftarrow> via_cache (Bind cn) s;
     i \<leftarrow> cn_bucket cn1;
     Some (cn1, t, set_bucket i ((bucket c i)\<lparr>is_dirty := True\<rparr>) c)
   }"

definition set_error :: "gxDatabaseError \<Rightarrow> cached_tree \<Rightarrow> cached_tree" where
  "set_error e s = (on_f (SetDatabaseError e) (fst s), snd s)"

definition tree_root :: "cached_tree \<Rightarrow> int" where
  "tree_root s = root (btree_header (fst s))"

type_synonym cfound = "(int \<times> DatabaseKeyB \<times> DatabaseKeyB \<times> BtreeCacheNode) \<times> cached_tree"

text \<open>A search that fails with an error set in the database.\<close>

definition cfail ::
  "gxDatabaseError \<Rightarrow> DatabaseKeyB \<Rightarrow> DatabaseKeyB \<Rightarrow> BtreeCacheNode \<Rightarrow> cached_tree \<Rightarrow> cfound option"
where
  "cfail e key ck cn s = Some ((0, key, ck, cn), set_error e s)"

section \<open>Find\<close>

fun cfind_walk ::
  "compare_fun \<Rightarrow> nat \<Rightarrow> DatabaseKeyB \<Rightarrow> DatabaseKeyB \<Rightarrow> BtreeCacheNode \<Rightarrow> cached_tree \<Rightarrow> cfound option"
where
  "cfind_walk cmp 0 key ck cn s =
     (if cn_address cn = 0 then cfail gxDBASE_ENTRY_NOT_FOUND key ck cn s
      else cfail gxDBASE_BADBLOCK_ERROR key ck cn s)"
| "cfind_walk cmp (Suc k) key ck cn s =
     (if cn_address cn = 0 then cfail gxDBASE_ENTRY_NOT_FOUND key ck cn s
      else do {
        (n, cn1, s1) \<leftarrow> look cn s;
        case FindKeyLocation cmp key ck n of (rv, loc, ck1) \<Rightarrow>
          if rv = 0 then Some ((1, LoadKey n loc, ck1, cn1), s1)
          else do {
            (cn2, s2) \<leftarrow> go (GetBranch n loc) cn1 s1;
            cfind_walk cmp k key ck1 cn2 s2
          }
      })"

text \<open>
  \<open>Find(key, compare_key, curr_node)\<close>. The caller's node is searched first; when it has a child
  at the location and the key is not greater than the entry there the search starts from it,
  otherwise from the root.
\<close>

definition Find_cn ::
  "compare_fun \<Rightarrow> DatabaseKeyB \<Rightarrow> DatabaseKeyB \<Rightarrow> BtreeCacheNode \<Rightarrow> cached_tree \<Rightarrow> cfound option" where
  "Find_cn cmp key ck cn s =
     (if bt_f (fst s) = None then Some ((0, key, ck, cn), s)
      else do {
        (cn0, s0) \<leftarrow> (if cn_address cn = 0 then go (tree_root s) cn s else Some (cn, s));
        if cn_address cn0 = 0 then cfail gxDBASE_CACHE_ERROR key ck cn0 s0
        else do {
          (n, cn1, s1) \<leftarrow> look cn0 s0;
          if key_count n > 0 then
            (case FindKeyLocation cmp key ck n of (rv, loc, ck1) \<Rightarrow>
               if rv = 0 then Some ((1, LoadKey n loc, ck1, cn1), s1)
               else do {
                 (ck2, cn2, s2) \<leftarrow>
                   (if GetBranch n loc \<noteq> 0 \<and> loc \<ge> 0 then
                      (let ck2 = LoadKey n loc
                       in if cmp (db_key key) (db_key ck2) > 0
                          then map_option (Pair ck2) (go (tree_root s1) cn1 s1)
                          else Some (ck2, cn1, s1))
                    else map_option (Pair ck1) (go (tree_root s1) cn1 s1));
                 if cn_address cn2 = 0 then cfail gxDBASE_CACHE_ERROR key ck2 cn2 s2
                 else cfind_walk cmp gxBtreeMaxNodeReads key ck2 cn2 s2
               })
          else do {
            (cn2, s2) \<leftarrow> go (tree_root s1) cn1 s1;
            if cn_address cn2 = 0 then cfail gxDBASE_CACHE_ERROR key ck cn2 s2
            else cfind_walk cmp gxBtreeMaxNodeReads key ck cn2 s2
          }
        }
      })"

definition Find_c ::
  "compare_fun \<Rightarrow> DatabaseKeyB \<Rightarrow> DatabaseKeyB \<Rightarrow> cached_tree \<Rightarrow> cfound option" where
  "Find_c cmp key ck s = Find_cn cmp key ck new_BtreeCacheNode s"

section \<open>Ends of a subtree\<close>

text \<open>Down the left children to the first key; the caller has assigned the cache node.\<close>

fun cleftmost ::
  "nat \<Rightarrow> DatabaseKeyB \<Rightarrow> DatabaseKeyB \<Rightarrow> BtreeCacheNode \<Rightarrow> cached_tree \<Rightarrow> cfound option" where
  "cleftmost k key ck cn s = do {
     (n, cn1, s1) \<leftarrow> look cn s;
     if left_child n = 0 then
       (if key_count n \<le> 0 then cfail gxDBASE_ENTRY_NOT_FOUND key ck cn1 s1
        else Some ((1, LoadKey n 0, ck, cn1), s1))
     else (case k of
         0 \<Rightarrow> cfail gxDBASE_BADBLOCK_ERROR key ck cn1 s1
       | Suc k' \<Rightarrow> do {
           (cn2, s2) \<leftarrow> go (left_child n) cn1 s1;
           if cn_address cn2 = 0 then cfail gxDBASE_CACHE_ERROR key ck cn2 s2
           else cleftmost k' key ck cn2 s2
         })
   }"

declare cleftmost.simps [simp del]

definition cfirst_key ::
  "DatabaseKeyB \<Rightarrow> DatabaseKeyB \<Rightarrow> int \<Rightarrow> BtreeCacheNode \<Rightarrow> cached_tree \<Rightarrow> cfound option" where
  "cfirst_key key ck addr cn s = do {
     (cn1, s1) \<leftarrow> go addr cn s;
     if cn_address cn1 = 0 then cfail gxDBASE_CACHE_ERROR key ck cn1 s1
     else cleftmost gxBtreeMaxNodeReads key ck cn1 s1
   }"

text \<open>Down the branches at \<open>loc\<close>, which is the last location of every node below the first.\<close>

fun crightmost ::
  "nat \<Rightarrow> DatabaseKeyB \<Rightarrow> DatabaseKeyB \<Rightarrow> int \<Rightarrow> BtreeCacheNode \<Rightarrow> cached_tree \<Rightarrow> cfound option" where
  "crightmost k key ck loc cn s = do {
     (n, cn1, s1) \<leftarrow> look cn s;
     if GetBranch n loc = 0 then Some ((1, LoadKey n loc, ck, cn1), s1)
     else (case k of
         0 \<Rightarrow> cfail gxDBASE_BADBLOCK_ERROR key ck cn1 s1
       | Suc k' \<Rightarrow> do {
           (cn2, s2) \<leftarrow> go (GetBranch n loc) cn1 s1;
           if cn_address cn2 = 0 then cfail gxDBASE_CACHE_ERROR key ck cn2 s2
           else do {
             (n3, cn3, s3) \<leftarrow> look cn2 s2;
             crightmost k' key ck (key_count n3 - 1) cn3 s3
           }
         })
   }"

declare crightmost.simps [simp del]

definition FindFirst_cn :: "DatabaseKeyB \<Rightarrow> BtreeCacheNode \<Rightarrow> cached_tree \<Rightarrow> cfound option" where
  "FindFirst_cn key cn s =
     (if n_keys (btree_header (fst s)) = 0 then Some ((0, key, key, cn), s)
      else if bt_f (fst s) = None then Some ((0, key, key, cn), s)
      else cfirst_key key key (tree_root s) cn s)"

definition FindFirst_c :: "DatabaseKeyB \<Rightarrow> cached_tree \<Rightarrow> cfound option" where
  "FindFirst_c key s = FindFirst_cn key new_BtreeCacheNode s"

fun clast_walk :: "nat \<Rightarrow> DatabaseKeyB \<Rightarrow> BtreeCacheNode \<Rightarrow> cached_tree \<Rightarrow> cfound option" where
  "clast_walk k key cn s = do {
     (n, cn1, s1) \<leftarrow> look cn s;
     if GetBranch n (key_count n - 1) = 0 then
       Some (if key_count n \<le> 0 then ((0, key, key, cn1), s1)
             else ((1, LoadKey n (key_count n - 1), key, cn1), s1))
     else (case k of
         0 \<Rightarrow> cfail gxDBASE_BADBLOCK_ERROR key key cn1 s1
       | Suc k' \<Rightarrow> do {
           (cn2, s2) \<leftarrow> go (GetBranch n (key_count n - 1)) cn1 s1;
           if cn_address cn2 = 0 then cfail gxDBASE_CACHE_ERROR key key cn2 s2
           else clast_walk k' key cn2 s2
         })
   }"

declare clast_walk.simps [simp del]

definition FindLast_cn :: "DatabaseKeyB \<Rightarrow> BtreeCacheNode \<Rightarrow> cached_tree \<Rightarrow> cfound option" where
  "FindLast_cn key cn s =
     (if bt_f (fst s) = None then Some ((0, key, key, cn), s)
      else if n_keys (btree_header (fst s)) = 0 then Some ((0, key, key, cn), s)
      else do {
        (cn1, s1) \<leftarrow> go (tree_root s) cn s;
        if cn_address cn1 = 0 then cfail gxDBASE_CACHE_ERROR key key cn1 s1
        else clast_walk gxBtreeMaxNodeReads key cn1 s1
      })"

definition FindLast_c :: "DatabaseKeyB \<Rightarrow> cached_tree \<Rightarrow> cfound option" where
  "FindLast_c key s = FindLast_cn key new_BtreeCacheNode s"

section \<open>Next\<close>

definition cparent_key ::
  "DatabaseKeyB \<Rightarrow> DatabaseKeyB \<Rightarrow> BtreeCacheNode \<Rightarrow> BtreeCacheNode \<Rightarrow> int \<Rightarrow> cached_tree \<Rightarrow> cfound option"
where
  "cparent_key key ck cn parent sav_location s = do {
     (p, _, s1) \<leftarrow> look parent s;
     if key_count p \<le> 0 then cfail gxDBASE_ENTRY_NOT_FOUND key ck cn s1
     else if sav_location + 1 \<ge> key_count p then cfail gxDBASE_ENTRY_NOT_FOUND key ck cn s1
     else Some ((1, LoadKey p (sav_location + 1), ck, cn), s1)
   }"

fun cnext_walk ::
  "compare_fun \<Rightarrow> nat \<Rightarrow> DatabaseKeyB \<Rightarrow> DatabaseKeyB \<Rightarrow> BtreeCacheNode \<Rightarrow> BtreeCacheNode \<Rightarrow> int \<Rightarrow>
   cached_tree \<Rightarrow> cfound option" where
  "cnext_walk cmp 0 key ck cn parent sav_location s =
     (if cn_address cn = 0 then cfail gxDBASE_ENTRY_NOT_FOUND key ck cn s
      else cfail gxDBASE_BADBLOCK_ERROR key ck cn s)"
| "cnext_walk cmp (Suc k) key ck cn parent sav_location s =
     (if cn_address cn = 0 then cfail gxDBASE_ENTRY_NOT_FOUND key ck cn s
      else do {
        (n, cn1, s1) \<leftarrow> look cn s;
        case FindKeyLocation cmp key ck n of (rv, loc, ck1) \<Rightarrow>
          if rv = 0 then
            (if GetBranch n loc \<noteq> 0 then cfirst_key key ck1 (GetBranch n loc) cn1 s1
             else if loc < key_count n - 1 then Some ((1, LoadKey n (loc + 1), ck1, cn1), s1)
             else if cn_address parent \<noteq> 0 then cparent_key key ck1 cn1 parent sav_location s1
             else Some ((0, key, ck1, cn1), s1))
          else do {
            (parent1, sav1, s2) \<leftarrow>
              (if loc < key_count n - 1
               then map_option (\<lambda>(p, s'). (p, loc, s')) (go (cn_address cn1) parent s1)
               else Some (parent, sav_location, s1));
            if loc < key_count n - 1 \<and> cn_address parent1 = 0
            then cfail gxDBASE_CACHE_ERROR key ck1 cn1 s2
            else do {
              (n3, cn3, s3) \<leftarrow> look cn1 s2;
              (cn4, s4) \<leftarrow> go (GetBranch n3 loc) cn3 s3;
              cnext_walk cmp k key ck1 cn4 parent1 sav1 s4
            }
          }
      })"

definition cnext_from_root ::
  "compare_fun \<Rightarrow> DatabaseKeyB \<Rightarrow> DatabaseKeyB \<Rightarrow> BtreeCacheNode \<Rightarrow> cached_tree \<Rightarrow> cfound option" where
  "cnext_from_root cmp key ck cn s = do {
     (cn1, s1) \<leftarrow> go (tree_root s) cn s;
     if cn_address cn1 = 0 then cfail gxDBASE_CACHE_ERROR key ck cn1 s1
     else cnext_walk cmp gxBtreeMaxNodeReads key ck cn1 (copy_BtreeCacheNode cn1) 0 s1
   }"

definition FindNext_cn ::
  "compare_fun \<Rightarrow> DatabaseKeyB \<Rightarrow> DatabaseKeyB \<Rightarrow> BtreeCacheNode \<Rightarrow> cached_tree \<Rightarrow> cfound option" where
  "FindNext_cn cmp key ck cn s =
     (if bt_f (fst s) = None then Some ((0, key, ck, cn), s)
      else do {
        (cn0, s0) \<leftarrow> (if cn_address cn = 0 then go (tree_root s) cn s else Some (cn, s));
        if cn_address cn0 = 0 then cfail gxDBASE_CACHE_ERROR key ck cn0 s0
        else do {
          (n, cn1, s1) \<leftarrow> look cn0 s0;
          if key_count n > 0 then
            (case FindKeyLocation cmp key ck n of (rv, loc, ck1) \<Rightarrow>
               if rv = 0 \<and> GetBranch n loc \<noteq> 0 then cfirst_key key ck1 (GetBranch n loc) cn1 s1
               else if rv = 0 \<and> loc < key_count n - 1
               then Some ((1, LoadKey n (loc + 1), ck1, cn1), s1)
               else cnext_from_root cmp key ck1 cn1 s1)
          else cnext_from_root cmp key ck cn1 s1
        }
      })"

definition FindNext_c ::
  "compare_fun \<Rightarrow> DatabaseKeyB \<Rightarrow> DatabaseKeyB \<Rightarrow> cached_tree \<Rightarrow> cfound option" where
  "FindNext_c cmp key ck s = FindNext_cn cmp key ck new_BtreeCacheNode s"

section \<open>Previous\<close>

text \<open>The key before the location \<open>loc\<close> of a node that holds the key, in the node or below it.\<close>

definition cprev_in_node ::
  "DatabaseKeyB \<Rightarrow> DatabaseKeyB \<Rightarrow> BtreeNode \<Rightarrow> int \<Rightarrow> BtreeCacheNode \<Rightarrow> cached_tree \<Rightarrow>
   cfound option option" where
  "cprev_in_node key ck n loc cn s =
     (if loc - 1 \<ge> 0 then Some (crightmost gxBtreeMaxNodeReads key ck (loc - 1) cn s)
      else if left_child n \<noteq> 0 then
        Some (do {
          (cn1, s1) \<leftarrow> go (left_child n) cn s;
          if cn_address cn1 = 0 then cfail gxDBASE_CACHE_ERROR key ck cn1 s1
          else do {
            (n2, cn2, s2) \<leftarrow> look cn1 s1;
            crightmost gxBtreeMaxNodeReads key ck (key_count n2 - 1) cn2 s2
          }
        })
      else None)"

fun cprev_walk ::
  "compare_fun \<Rightarrow> nat \<Rightarrow> DatabaseKeyB \<Rightarrow> DatabaseKeyB \<Rightarrow> BtreeCacheNode \<Rightarrow> BtreeCacheNode \<Rightarrow> int \<Rightarrow>
   cached_tree \<Rightarrow> cfound option" where
  "cprev_walk cmp 0 key ck cn parent sav_location s =
     (if cn_address cn = 0 then cfail gxDBASE_ENTRY_NOT_FOUND key ck cn s
      else cfail gxDBASE_BADBLOCK_ERROR key ck cn s)"
| "cprev_walk cmp (Suc k) key ck cn parent sav_location s =
     (if cn_address cn = 0 then cfail gxDBASE_ENTRY_NOT_FOUND key ck cn s
      else do {
        (n, cn1, s1) \<leftarrow> look cn s;
        case FindKeyLocation cmp key ck n of (rv, loc, ck1) \<Rightarrow>
          if rv = 0 then
            (case cprev_in_node key ck1 n loc cn1 s1 of
               Some r \<Rightarrow> r
             | None \<Rightarrow>
                 if cn_address parent \<noteq> 0 then do {
                   (p, _, s2) \<leftarrow> look parent s1;
                   Some ((1, LoadKey p sav_location, ck1, cn1), s2)
                 }
                 else cfail gxDBASE_ENTRY_NOT_FOUND key ck1 cn1 s1)
          else do {
            (parent1, sav1, s2) \<leftarrow>
              (if rv > 0 then map_option (\<lambda>(p, s'). (p, loc, s')) (go (cn_address cn1) parent s1)
               else Some (parent, sav_location, s1));
            if rv > 0 \<and> cn_address parent1 = 0 then cfail gxDBASE_CACHE_ERROR key ck1 cn1 s2
            else do {
              (n3, cn3, s3) \<leftarrow> look cn1 s2;
              (cn4, s4) \<leftarrow> go (GetBranch n3 loc) cn3 s3;
              cprev_walk cmp k key ck1 cn4 parent1 sav1 s4
            }
          }
      })"

definition cprev_from_root ::
  "compare_fun \<Rightarrow> DatabaseKeyB \<Rightarrow> DatabaseKeyB \<Rightarrow> BtreeCacheNode \<Rightarrow> cached_tree \<Rightarrow> cfound option" where
  "cprev_from_root cmp key ck cn s = do {
     (cn1, s1) \<leftarrow> go (tree_root s) cn s;
     if cn_address cn1 = 0 then cfail gxDBASE_CACHE_ERROR key ck cn1 s1
     else cprev_walk cmp gxBtreeMaxNodeReads key ck cn1 (copy_BtreeCacheNode cn1) (-1) s1
   }"

definition FindPrev_cn ::
  "compare_fun \<Rightarrow> DatabaseKeyB \<Rightarrow> DatabaseKeyB \<Rightarrow> BtreeCacheNode \<Rightarrow> cached_tree \<Rightarrow> cfound option" where
  "FindPrev_cn cmp key ck cn s =
     (if bt_f (fst s) = None then Some ((0, key, ck, cn), s)
      else do {
        (cn0, s0) \<leftarrow> (if cn_address cn = 0 then go (tree_root s) cn s else Some (cn, s));
        if cn_address cn0 = 0 then cfail gxDBASE_CACHE_ERROR key ck cn0 s0
        else do {
          (n, cn1, s1) \<leftarrow> look cn0 s0;
          if key_count n > 0 then
            (case FindKeyLocation cmp key ck n of (rv, loc, ck1) \<Rightarrow>
               case (if rv = 0 then cprev_in_node key ck1 n loc cn1 s1 else None) of
                 Some r \<Rightarrow> r
               | None \<Rightarrow> cprev_from_root cmp key ck1 cn1 s1)
          else cprev_from_root cmp key ck cn1 s1
        }
      })"

definition FindPrev_c ::
  "compare_fun \<Rightarrow> DatabaseKeyB \<Rightarrow> DatabaseKeyB \<Rightarrow> cached_tree \<Rightarrow> cfound option" where
  "FindPrev_c cmp key ck s = FindPrev_cn cmp key ck new_BtreeCacheNode s"

section \<open>Partial matches\<close>

text \<open>
  After the walk: the search node is bound to the address where it failed. The result keeps the
  cache node of the walk, which no longer refers to a node.
\<close>

definition keep_cn :: "BtreeCacheNode \<Rightarrow> cfound option \<Rightarrow> cfound option" where
  "keep_cn cn r = map_option (\<lambda>((rv, key, ck, _), s). ((rv, key, ck, cn), s)) r"

definition cpartial_end ::
  "DatabaseKeyB \<Rightarrow> DatabaseKeyB \<Rightarrow> BtreeCacheNode \<Rightarrow> BtreeCacheNode \<Rightarrow> BtreeCacheNode \<Rightarrow> int \<Rightarrow> int \<Rightarrow> int \<Rightarrow>
   int \<Rightarrow> cached_tree \<Rightarrow> cfound option" where
  "cpartial_end key ck cn search parent search_address loc parent_address sav_location s = do {
     (sn, s1) \<leftarrow> go search_address search s;
     if cn_address sn = 0 then cfail gxDBASE_CACHE_ERROR key ck cn s1
     else do {
       (n, sn1, s2) \<leftarrow> look sn s1;
       if GetBranch n loc \<noteq> 0 then keep_cn cn (cfirst_key key ck (GetBranch n loc) sn1 s2)
       else if loc < key_count n - 1 then Some ((1, LoadKey n (loc + 1), ck, cn), s2)
       else if parent_address \<noteq> 0 then do {
         (pn, s3) \<leftarrow> go parent_address parent s2;
         if cn_address pn = 0 then cfail gxDBASE_CACHE_ERROR key ck cn s3
         else cparent_key key ck cn pn sav_location s3
       }
       else cfail gxDBASE_ENTRY_NOT_FOUND key ck cn s2
     }
   }"

fun cpartial_walk ::
  "compare_fun \<Rightarrow> nat \<Rightarrow> DatabaseKeyB \<Rightarrow> DatabaseKeyB \<Rightarrow> BtreeCacheNode \<Rightarrow> BtreeCacheNode \<Rightarrow> int \<Rightarrow> int \<Rightarrow>
   int \<Rightarrow> int \<Rightarrow> cached_tree \<Rightarrow> cfound option" where
  "cpartial_walk cmp k key ck cn copy search_address loc parent_address sav_location s =
     (if cn_address cn = 0
      then cpartial_end key ck cn copy copy search_address loc parent_address sav_location s
      else (case k of
          0 \<Rightarrow> cfail gxDBASE_BADBLOCK_ERROR key ck cn s
        | Suc k' \<Rightarrow> do {
            (n, cn1, s1) \<leftarrow> look cn s;
            case FindKeyLocation cmp key ck n of (rv, loc1, ck1) \<Rightarrow>
              if rv = 0 then Some ((1, LoadKey n loc1, ck1, cn1), s1)
              else do {
                (cn2, s2) \<leftarrow> go (GetBranch n loc1) cn1 s1;
                if loc1 < key_count n - 1
                then cpartial_walk cmp k' key ck1 cn2 copy (cn_address cn1) loc1 (cn_address cn1) loc1 s2
                else cpartial_walk cmp k' key ck1 cn2 copy (cn_address cn1) loc1
                       parent_address sav_location s2
              }
          }))"

declare cpartial_walk.simps [simp del]

definition PartialFind_cn ::
  "compare_fun \<Rightarrow> DatabaseKeyB \<Rightarrow> DatabaseKeyB \<Rightarrow> BtreeCacheNode \<Rightarrow> cached_tree \<Rightarrow> cfound option" where
  "PartialFind_cn cmp key ck cn s =
     (if bt_f (fst s) = None then Some ((0, key, ck, cn), s)
      else do {
        (cn1, s1) \<leftarrow> go (tree_root s) cn s;
        if cn_address cn1 = 0 then cfail gxDBASE_CACHE_ERROR key ck cn1 s1
        else cpartial_walk cmp gxBtreeMaxNodeReads key ck cn1 (copy_BtreeCacheNode cn1) 0 0 0 0 s1
      })"

definition PartialFind_c ::
  "compare_fun \<Rightarrow> DatabaseKeyB \<Rightarrow> DatabaseKeyB \<Rightarrow> cached_tree \<Rightarrow> cfound option" where
  "PartialFind_c cmp key ck s = PartialFind_cn cmp key ck new_BtreeCacheNode s"

end
