(* ===== verification/BtCacheFind.thy ===== *)
theory BtCacheFind
  imports BtCacheList BtCached BtFind
begin

text \<open>
  What a program sees through the node cache. A node address is seen with the content of its bucket,
  or, when no bucket has it, with the content of the file. In a coherent state the buckets that are
  not dirty agree with the file, no two buckets have the same address and the nodes do not overlap;
  reserving a bucket, with the writes that this causes, keeps coherence and what is seen.
\<close>

section \<open>Buckets read and write like the tree\<close>

definition probe :: "gxDatabase \<Rightarrow> gxBtree" where
  "probe db = (new_gxBtree 0 0)\<lparr>bt_f := Some db\<rparr>"

lemma BtreeBucket_WriteNode_eq:
  "BtreeBucket_WriteNode b db =
     (case WriteNode (bkt_node b) (bkt_address b) (probe db) of (e, t) \<Rightarrow>
        (e, if e = gxDBASE_NO_ERROR then b\<lparr>is_dirty := False\<rparr> else b, the (bt_f t)))"
  by (simp add: BtreeBucket_WriteNode_def WriteNode_def Let_def probe_def on_f_def f_error_def
      bkt_address_def)

lemma BtreeBucket_ReadNode_eq:
  "BtreeBucket_ReadNode b db =
     (case ReadNode (bkt_node b) (bkt_address b) (probe db) of ((e, n), t) \<Rightarrow>
        (e, if e = gxDBASE_NO_ERROR then b\<lparr>bkt_node := n, is_dirty := False\<rparr> else b\<lparr>bkt_node := n\<rparr>,
         the (bt_f t)))"
  by (simp add: BtreeBucket_ReadNode_def ReadNode_def Let_def probe_def bkt_address_def
      split: prod.splits)

section \<open>Coherence\<close>

definition node_cap :: "int \<Rightarrow> int \<Rightarrow> nat" where
  "node_cap sz m = 12 + nat m * nat sz"

definition apart :: "nat \<Rightarrow> int set \<Rightarrow> nat \<Rightarrow> bool" where
  "apart k A len \<longleftrightarrow> (\<forall>a \<in> A. 0 < a \<and> nat a + k \<le> len) \<and>
     (\<forall>a \<in> A. \<forall>b \<in> A. a \<noteq> b \<longrightarrow> nat a + k \<le> nat b \<or> nat b + k \<le> nat a)"

definition bucket_at :: "BtreeCache \<Rightarrow> int \<Rightarrow> nat \<Rightarrow> bool" where
  "bucket_at c a i \<longleftrightarrow> i < length (buckets c) \<and> bkt_address (bucket c i) = a"

definition node_for :: "int \<Rightarrow> int \<Rightarrow> BtreeNode \<Rightarrow> bool" where
  "node_for sz m n \<longleftrightarrow> node_fit n \<and> key_size n = sz \<and> node_order n = m"

text \<open>A bucket that holds a node: it can be written, and agrees with the file if it is clean.\<close>

definition bucket_ok :: "int \<Rightarrow> int set \<Rightarrow> byte list \<Rightarrow> BtreeBucket \<Rightarrow> bool" where
  "bucket_ok sz A img b \<longleftrightarrow>
     (let n = bkt_node b in
        node_address n \<in> A \<and> in_s64 (left_child n) \<and> slots_ok sz (entries n) \<and>
        (\<not> is_dirty b \<longrightarrow> holds img (node_address n) sz (left_child n) (entries n)))"

definition coherent :: "int \<Rightarrow> int \<Rightarrow> int set \<Rightarrow> nat list \<Rightarrow> BtreeCache \<Rightarrow> gxDatabase \<Rightarrow> bool" where
  "coherent sz m A xs c db \<longleftrightarrow>
     ring c xs \<and> back_links c xs \<and> writable (length (dbytes db)) db \<and>
     apart (node_cap sz m) A (length (dbytes db)) \<and> 8 \<le> sz \<and>
     (\<forall>i < length (buckets c). node_for sz m (bkt_node (bucket c i)) \<and>
        (bkt_address (bucket c i) = 0 \<or> bucket_ok sz A (dbytes db) (bucket c i))) \<and>
     (\<forall>i j a. bucket_at c a i \<longrightarrow> bucket_at c a j \<longrightarrow> a \<noteq> 0 \<longrightarrow> i = j)"

definition seen ::
  "int \<Rightarrow> int \<Rightarrow> BtreeCache \<Rightarrow> byte list \<Rightarrow> int \<Rightarrow> int \<Rightarrow> DatabaseKeyB list \<Rightarrow> bool" where
  "seen sz m c img a lc es \<longleftrightarrow>
     (\<exists>i. bucket_at c a i \<and> left_child (bkt_node (bucket c i)) = lc \<and> entries (bkt_node (bucket c i)) = es) \<or>
     (\<nexists>i. bucket_at c a i) \<and> holds img a sz lc es \<and> int (length es) \<le> m"

definition view_kept ::
  "int \<Rightarrow> int \<Rightarrow> int set \<Rightarrow> BtreeCache \<Rightarrow> gxDatabase \<Rightarrow> BtreeCache \<Rightarrow> gxDatabase \<Rightarrow> bool" where
  "view_kept sz m A c db c' db' \<longleftrightarrow>
     (\<forall>a \<in> A. \<forall>lc es. seen sz m c (dbytes db) a lc es \<longrightarrow> seen sz m c' (dbytes db') a lc es)"

lemma view_kept_refl [simp]: "view_kept sz m A c db c db"
  by (simp add: view_kept_def)

lemma view_kept_trans:
  "view_kept sz m A c db c1 db1 \<Longrightarrow> view_kept sz m A c1 db1 c2 db2 \<Longrightarrow> view_kept sz m A c db c2 db2"
  by (simp add: view_kept_def)

lemma entries_few: "node_for sz m n \<Longrightarrow> int (length (entries n)) \<le> m \<and> in_u32 (int (length (entries n)))"
  by (auto simp: node_for_def node_fit_def buffer_ok_def in_u32_def entries_def)

lemma node_bytes_cap: "int (length es) \<le> m \<Longrightarrow> node_bytes sz es \<le> node_cap sz m"
  using mult_le_mono1 [of "length es" "nat m" "nat sz"] nat_mono [of "int (length es)" m]
  by (simp add: node_bytes_def node_cap_def)

lemma bucket_at_same: "same_contents c c' \<Longrightarrow> bucket_at c' a i = bucket_at c a i"
  by (simp add: same_contents_def bucket_at_def bkt_address_def)

lemma seen_same: "same_contents c c' \<Longrightarrow> seen sz m c' img a lc es = seen sz m c img a lc es"
  by (simp add: seen_def bucket_at_same) (simp add: same_contents_def)

text \<open>Changing the order of the list changes nothing else.\<close>

lemma coherent_same:
  assumes "coherent sz m A xs c db" "same_contents c c'" "ring c' ys" "back_links c' ys"
  shows "coherent sz m A ys c' db"
proof -
  have "length (buckets c') = length (buckets c)" "bkt_node (bucket c' i) = bkt_node (bucket c i)"
    "is_dirty (bucket c' i) = is_dirty (bucket c i)" for i
    using assms(2) by (simp_all add: same_contents_def)
  then show ?thesis
    using assms unfolding coherent_def
    by (simp add: bucket_at_same bucket_ok_def bkt_address_def Let_def)
qed

lemma bucket_ok_other_write:
  assumes "apart (node_cap sz m) A len" "a \<in> A" "length d \<le> node_cap sz m" "node_for sz m (bkt_node b)"
    and "bucket_ok sz A img b" "bkt_address b \<noteq> a"
  shows "bucket_ok sz A (put_at img (nat a) d) b"
proof -
  let ?n = "bkt_node b"
  have "node_bytes sz (entries ?n) \<le> node_cap sz m"
    using entries_few [OF assms(4)] node_bytes_cap by blast
  moreover have "nat (node_address ?n) + node_cap sz m \<le> nat a \<or> nat a + node_cap sz m \<le> nat (node_address ?n)"
    using assms by (auto simp: apart_def bucket_ok_def bkt_address_def Let_def)
  ultimately show ?thesis
    using assms(3,5) holds_disjoint [of img "node_address ?n" sz "left_child ?n" "entries ?n" "nat a" d]
    by (auto simp: bucket_ok_def Let_def)
qed

lemma seen_other_write:
  assumes "apart (node_cap sz m) A len" "a \<in> A" "b \<in> A" "a \<noteq> b" "length d \<le> node_cap sz m"
    and "seen sz m c img b lc es"
  shows "seen sz m c (put_at img (nat a) d) b lc es"
proof -
  have "nat b + node_cap sz m \<le> nat a \<or> nat a + node_cap sz m \<le> nat b"
    using assms(1-4) by (auto simp: apart_def)
  then have "holds (put_at img (nat a) d) b sz lc es" if "holds img b sz lc es" "int (length es) \<le> m"
    using holds_disjoint [OF that(1), of "nat a" d] node_bytes_cap [OF that(2)] assms(5) by (meson order_trans add_left_mono)
  then show ?thesis using assms(6) by (auto simp: seen_def)
qed

section \<open>Flushing a bucket\<close>

lemma WriteNode_bucket:
  assumes "coherent sz m A xs c db" "bucket_at c a i" "a \<noteq> 0"
  defines "n \<equiv> bkt_node (bucket c i)"
  obtains db' where
    "BtreeBucket_WriteNode (bucket c i) db = (gxDBASE_NO_ERROR, (bucket c i)\<lparr>is_dirty := False\<rparr>, db')"
    "dbytes db' = put_at (dbytes db) (nat a) (enc_node (left_child n) (entries n))"
    "length (dbytes db') = length (dbytes db)" "writable (length (dbytes db)) db'"
    "length (enc_node (left_child n) (entries n)) \<le> node_cap sz m"
proof -
  have nf: "node_for sz m n" and ok: "bucket_ok sz A (dbytes db) (bucket c i)" and a: "a = node_address n"
    and ap: "apart (node_cap sz m) A (length (dbytes db))" and w: "writable (length (dbytes db)) db"
    and sz: "8 \<le> sz"
    using assms by (auto simp: coherent_def bucket_at_def bkt_address_def)
  have A: "a \<in> A" using ok a by (simp add: bucket_ok_def Let_def n_def)
  then have pos: "0 < a" "nat a + node_cap sz m \<le> length (dbytes db)" using ap by (auto simp: apart_def)
  have fit: "node_fit n" "key_size n = sz" using nf by (auto simp: node_for_def)
  have nb: "node_bytes sz (entries n) \<le> node_cap sz m"
    using entries_few [OF nf] node_bytes_cap by blast
  have le: "length (enc_node (left_child n) (entries n)) = node_bytes sz (entries n)"
    using ok sz by (intro length_enc_node) (auto simp: bucket_ok_def Let_def n_def)
  have w': "writable (nat a + node_bytes (key_size n) (entries n)) db"
    using w pos nb fit(2) by (elim writable_mono) simp
  obtain h where W: "WriteNode n a (probe db) = (gxDBASE_NO_ERROR, (probe db)
     \<lparr>bt_f := Some ((moved (nat a + node_bytes (key_size n) (entries n)) gxDBASE_WRITE
            (stored (nat a) (enc_node (left_child n) (entries n)) db))\<lparr>hook_calls := h\<rparr>),
      node_writes := to_u32 (node_writes (probe db) + 1)\<rparr>)"
    using WriteNode_ok [of "probe db" db "nat a" n a] w' fit(1) pos(1) by (auto simp: probe_def)
  show ?thesis
  proof (rule that)
    show "BtreeBucket_WriteNode (bucket c i) db = (gxDBASE_NO_ERROR, (bucket c i)\<lparr>is_dirty := False\<rparr>,
      (moved (nat a + node_bytes (key_size n) (entries n)) gxDBASE_WRITE
        (stored (nat a) (enc_node (left_child n) (entries n)) db))\<lparr>hook_calls := h\<rparr>)"
      using W assms(2) by (simp add: BtreeBucket_WriteNode_eq bucket_at_def flip: n_def)
  qed (use pos nb le w in \<open>simp_all add: length_put_at_inside\<close>)
qed

text \<open>The bucket of the list's tail is written if it is dirty; the cache stays coherent.\<close>

lemma Flush_bucket:
  assumes co: "coherent sz m A xs c db" and i: "i < length (buckets c)"
  obtains b db' where "BtreeBucket_Flush (bucket c i) db = (gxDBASE_NO_ERROR, b, db')"
    "coherent sz m A xs (set_bucket i b c) db'" "bkt_address b = 0 \<or> \<not> is_dirty b"
    "view_kept sz m A c db (set_bucket i b c) db'"
proof (cases "bkt_address (bucket c i) \<noteq> 0 \<and> is_dirty (bucket c i)")
  case False
  have "set_bucket i (bucket c i) c = c" by (simp add: set_bucket_def bucket_def)
  then show ?thesis using False co by (intro that [of "bucket c i" db]) (auto simp: BtreeBucket_Flush_def)
next
  case True
  let ?n = "bkt_node (bucket c i)" and ?a = "bkt_address (bucket c i)"
  let ?d = "enc_node (left_child ?n) (entries ?n)"
  have at: "bucket_at c ?a i" using i by (simp add: bucket_at_def)
  obtain db' where W:
    "BtreeBucket_WriteNode (bucket c i) db = (gxDBASE_NO_ERROR, (bucket c i)\<lparr>is_dirty := False\<rparr>, db')"
    "dbytes db' = put_at (dbytes db) (nat ?a) ?d" "length (dbytes db') = length (dbytes db)"
    "writable (length (dbytes db)) db'" "length ?d \<le> node_cap sz m"
    using WriteNode_bucket [OF co at] True by metis
  let ?b = "ResetBucket ((bucket c i)\<lparr>is_dirty := False\<rparr>)"
  let ?c = "set_bucket i ?b c"
  have F: "BtreeBucket_Flush (bucket c i) db = (gxDBASE_NO_ERROR, ?b, db')"
    using True W(1) by (simp add: BtreeBucket_Flush_def)
  have ba: "bkt_address ?b = 0" "\<not> is_dirty ?b" by (simp_all add: ResetBucket_def bkt_address_def on_node_def)
  have at': "bucket_at ?c x j \<longleftrightarrow> (if j = i then x = 0 \<and> i < length (buckets c) else bucket_at c x j)" for x j
    using i ba by (auto simp: bucket_at_def bucket_set_bucket)
  have links: "nxt ?c = nxt c" "prv ?c = prv c"
    using i by (auto intro!: links_set_node simp: nxt_def prv_def ResetBucket_def on_node_def)
  have nf: "node_for sz m (bkt_node (bucket c j))"
    and bo: "bkt_address (bucket c j) = 0 \<or> bucket_ok sz A (dbytes db) (bucket c j)"
    if "j < length (buckets c)" for j
    using that co by (auto simp: coherent_def)
  have ap: "apart (node_cap sz m) A (length (dbytes db))" and uniq: "\<And>x j. bucket_at c x j \<Longrightarrow> x = ?a \<Longrightarrow> j = i"
    using co at True by (auto simp: coherent_def)
  have bi: "bucket_ok sz A (dbytes db) (bucket c i)" using bo [OF i] True by simp
  have A: "?a \<in> A" using bi by (simp add: bucket_ok_def Let_def bkt_address_def)
  have fitb: "node_for sz m (bkt_node ?b)"
    using nf [OF i] by (auto simp: ResetBucket_def on_node_def node_for_def node_fit_def buffer_ok_def)
  have others: "bkt_address (bucket c j) = 0 \<or> bucket_ok sz A (dbytes db') (bucket c j)"
    if "j < length (buckets c)" "j \<noteq> i" for j
    using bo [OF that(1)] bucket_ok_other_write [OF ap A W(5) nf [OF that(1)]] uniq [of "bkt_address (bucket c j)" j]
      that W(2) by (auto simp: bucket_at_def)
  have co': "coherent sz m A xs ?c db'"
    using co links others nf fitb ba(1) i at' W(3,4)
    unfolding coherent_def ring_def back_links_def
    by (auto simp: bucket_set_bucket split: if_splits)
  have h: "holds (dbytes db') ?a sz (left_child ?n) (entries ?n)"
    using bi holds_written [of sz "left_child ?n" "entries ?n" "dbytes db" "nat ?a"] co entries_few [OF nf [OF i]]
      W(2) A ap
    by (auto simp: bucket_ok_def Let_def coherent_def bkt_address_def apart_def)
  have "view_kept sz m A c db ?c db'"
    unfolding view_kept_def
  proof (intro ballI allI impI)
    fix x lc es assume x: "x \<in> A" and s: "seen sz m c (dbytes db) x lc es"
    show "seen sz m ?c (dbytes db') x lc es"
    proof (cases "x = ?a")
      case True
      have "lc = left_child ?n" "es = entries ?n"
        using s at uniq True by (auto simp: seen_def)
      moreover have "\<nexists>j. bucket_at ?c x j"
        using at' uniq True \<open>?a \<noteq> 0 \<and> _\<close> by (metis (full_types))
      ultimately show ?thesis using h True entries_few [OF nf [OF i]] by (simp add: seen_def)
    next
      case False
      have "seen sz m c (dbytes db') x lc es"
        using seen_other_write [OF ap A x _ W(5) s] False W(2) by auto
      moreover have "0 < x" using ap x by (auto simp: apart_def)
      then have "bucket_at ?c x j = bucket_at c x j" for j
        using at' [of x j] False by (auto simp: bucket_at_def)
      moreover have "bucket_at c x j \<Longrightarrow> bucket ?c j = bucket c j" for j
        using False i by (auto simp: bucket_at_def bucket_set_bucket)
      ultimately show ?thesis unfolding seen_def by auto
    qed
  qed
  with F co' ba show ?thesis by (intro that [of ?b db']) auto
qed

section \<open>Reading a node into a bucket\<close>

lemma holds_unique:
  assumes "holds img a sz lc es" "holds img a sz lc' es'"
  shows "lc = lc' \<and> es = es'"
proof -
  note p = holds_parts [OF assms(1)] and q = holds_parts [OF assms(2)]
  have u: "in_u32 (int (length es))" "in_u32 (int (length es'))" "in_s64 lc" "in_s64 lc'"
    "slots_ok sz es" "slots_ok sz es'" "8 \<le> sz"
    using assms by (auto simp: holds_def)
  have "int (length es) = int (length es')"
    using p(1) q(1) by (intro s32.enc_inj u) simp
  moreover have "lc = lc'" using p(2) q(2) by (intro s64.enc_inj u) simp
  ultimately show ?thesis
    using p(3) q(3) dec_enc_slots [OF u(5,7)] dec_enc_slots [OF u(6,7)] by simp
qed

lemma set_bucket_twice [simp]: "set_bucket i b (set_bucket i b' c) = set_bucket i b c"
  by (simp add: set_bucket_def)

lemma claim_load:
  assumes co: "coherent sz m A xs c db" and i: "i < length (buckets c)"
    and clean: "bkt_address (bucket c i) = 0 \<or> \<not> is_dirty (bucket c i)"
    and a: "a \<in> A" and no: "\<nexists>j. bucket_at c a j"
    and h: "holds (dbytes db) a sz lc es" and few: "int (length es) \<le> m"
  obtains c' db' where "load_bucket i (claim_bucket a i c, Some db) = (Some i, c', Some db')"
    "coherent sz m A xs c' db'" "view_kept sz m A c db c' db'" "bucket_at c' a i"
proof -
  let ?b0 = "on_node (\<lambda>n. n\<lparr>left_child := 0, node_address := a\<rparr>) (ResetBucket (bucket c i))"
  let ?n0 = "bkt_node ?b0" and ?o = "bkt_address (bucket c i)"
  have nf: "node_for sz m (bkt_node (bucket c j))"
    and bo: "bkt_address (bucket c j) = 0 \<or> bucket_ok sz A (dbytes db) (bucket c j)"
    if "j < length (buckets c)" for j
    using that co by (auto simp: coherent_def)
  have uniq: "\<And>x j k. bucket_at c x j \<Longrightarrow> bucket_at c x k \<Longrightarrow> x \<noteq> 0 \<Longrightarrow> j = k"
    and rd: "readable db" and ap: "apart (node_cap sz m) A (length (dbytes db))"
    using co by (auto simp: coherent_def)
  have a0: "0 < a" using ap a by (auto simp: apart_def)
  have n0: "node_fit ?n0" "key_size ?n0 = sz" "node_order ?n0 = m" "node_address ?n0 = a"
    using nf [OF i] by (auto simp: node_for_def node_fit_def buffer_ok_def on_node_def ResetBucket_def)
  have ld: "bucket (claim_bucket a i c) i = ?b0"
    using i by (simp add: claim_bucket_def bucket_set_bucket)
  have pf: "bt_f (probe db) = Some db" by (simp add: probe_def)
  have h0: "holds (dbytes db) a (key_size ?n0) lc es" and few0: "int (length es) \<le> node_order ?n0"
    using h few n0(2,3) by simp_all
  obtain n' p where R: "ReadNode ?n0 a (probe db) = ((gxDBASE_NO_ERROR, n'),
       (probe db)\<lparr>bt_f := Some (moved p gxDBASE_READ db), node_reads := to_u32 (node_reads (probe db) + 1)\<rparr>)"
    and n': "entries n' = es" "left_child n' = lc" "node_address n' = a" "node_fit n'"
      "node_order n' = m" "key_size n' = sz"
    using ReadNode_holds [OF pf rd h0 n0(1) few0] n0(2,3) by metis
  let ?b = "?b0\<lparr>bkt_node := n', is_dirty := False\<rparr>" and ?db = "moved p gxDBASE_READ db"
  let ?c = "set_bucket i ?b c"
  have L: "load_bucket i (claim_bucket a i c, Some db) = (Some i, ?c, Some ?db)"
    using R n0(4) by (simp add: load_bucket_def ld BtreeBucket_ReadNode_eq bkt_address_def)
      (simp add: claim_bucket_def)
  have at': "bucket_at ?c x j \<longleftrightarrow> (if j = i then x = a else bucket_at c x j)" for x j
    using i n'(3) by (auto simp: bucket_at_def bucket_set_bucket bkt_address_def)
  have links: "nxt ?c = nxt c" "prv ?c = prv c"
    using i by (auto intro!: links_set_node simp: nxt_def prv_def ResetBucket_def on_node_def)
  have ok: "bucket_ok sz A (dbytes db) ?b"
    using n' a h by (simp add: bucket_ok_def Let_def) (simp add: holds_def)
  have co': "coherent sz m A xs ?c ?db"
    using co links nf bo ok i at' no uniq n'
    unfolding coherent_def ring_def back_links_def
    by (auto simp: bucket_set_bucket node_for_def split: if_splits)
  have "view_kept sz m A c db ?c ?db"
    unfolding view_kept_def
  proof (intro ballI allI impI)
    fix x lc' es' assume x: "x \<in> A" and s: "seen sz m c (dbytes db) x lc' es'"
    have x0: "x \<noteq> 0" using ap x by (auto simp: apart_def)
    consider (new) "x = a" | (old) "x = ?o" "x \<noteq> a" | (other) "x \<noteq> a" "x \<noteq> ?o" by blast
    then show "seen sz m ?c (dbytes ?db) x lc' es'"
    proof cases
      case new
      then have "lc' = lc \<and> es' = es"
        using s no h holds_unique by (auto simp: seen_def)
      moreover have "bucket_at ?c x i" using at' [of x i] new by simp
      ultimately show ?thesis using n'(1,2) i by (auto simp: seen_def bucket_set_bucket)
    next
      case old
      have at: "bucket_at c x i" using old i by (simp add: bucket_at_def)
      then have c: "lc' = left_child (bkt_node (bucket c i))" "es' = entries (bkt_node (bucket c i))"
        using s uniq x0 by (auto simp: seen_def)
      have "\<nexists>j. bucket_at ?c x j" using at' at uniq x0 old by metis
      moreover have "holds (dbytes db) x sz lc' es'"
        using bo [OF i] clean x0 old(1) c by (simp add: bucket_ok_def Let_def bkt_address_def)
      ultimately show ?thesis using entries_few [OF nf [OF i]] c by (simp add: seen_def)
    next
      case other
      then have "bucket_at ?c x j = bucket_at c x j" for j
        using at' [of x j] by (auto simp: bucket_at_def)
      moreover have "bucket_at c x j \<Longrightarrow> bucket ?c j = bucket c j" for j
        using other i by (auto simp: bucket_at_def bucket_set_bucket)
      ultimately show ?thesis using s unfolding seen_def by auto
    qed
  qed
  then show ?thesis using L co' at' [of a i] by (intro that) auto
qed

section \<open>Reserving a bucket\<close>

lemma counter_fields [simp]:
  "bucket (c\<lparr>uncached_reads := u\<rparr>) = bucket c" "bucket (c\<lparr>cached_reads := u\<rparr>) = bucket c"
  "nxt (c\<lparr>uncached_reads := u\<rparr>) = nxt c" "nxt (c\<lparr>cached_reads := u\<rparr>) = nxt c"
  "prv (c\<lparr>uncached_reads := u\<rparr>) = prv c" "prv (c\<lparr>cached_reads := u\<rparr>) = prv c"
  "bucket_at (c\<lparr>uncached_reads := u\<rparr>) = bucket_at c" "bucket_at (c\<lparr>cached_reads := u\<rparr>) = bucket_at c"
  by (simp_all add: fun_eq_iff bucket_def nxt_def prv_def bucket_at_def)

lemma coherent_counters [simp]:
  "coherent sz m A xs (c\<lparr>uncached_reads := u\<rparr>) db = coherent sz m A xs c db"
  "coherent sz m A xs (c\<lparr>cached_reads := u\<rparr>) db = coherent sz m A xs c db"
  "seen sz m (c\<lparr>uncached_reads := u\<rparr>) = seen sz m c" "seen sz m (c\<lparr>cached_reads := u\<rparr>) = seen sz m c"
  by (simp_all add: fun_eq_iff coherent_def seen_def ring_def back_links_def)

lemma coherent_Promote:
  assumes "coherent sz m A xs c db" "i \<in> set xs"
  shows "coherent sz m A (i # remove1 i xs) (PromoteBucket i c) db"
    "view_kept sz m A c db (PromoteBucket i c) db" "bucket_at (PromoteBucket i c) = bucket_at c"
    "is_dirty (bucket (PromoteBucket i c) j) = is_dirty (bucket c j)"
    "bkt_node (bucket (PromoteBucket i c) j) = bkt_node (bucket c j)"
proof -
  have r: "ring c xs" "back_links c xs" using assms(1) by (auto simp: coherent_def)
  note P = Promote_list [OF r assms(2)]
  show "coherent sz m A (i # remove1 i xs) (PromoteBucket i c) db"
    by (rule coherent_same [OF assms(1) P(3,1,2)])
  show "view_kept sz m A c db (PromoteBucket i c) db"
    by (simp add: view_kept_def seen_same [OF P(3)])
  show "bucket_at (PromoteBucket i c) = bucket_at c"
    using bucket_at_same [OF P(3)] by (simp add: fun_eq_iff)
  show "is_dirty (bucket (PromoteBucket i c) j) = is_dirty (bucket c j)"
    "bkt_node (bucket (PromoteBucket i c) j) = bkt_node (bucket c j)"
    using P(3) by (simp_all add: same_contents_def)
qed

text \<open>A bucket for a node that is seen holds what is seen.\<close>

lemma bucket_of_seen:
  assumes "coherent sz m A xs c db" "bucket_at c a i" "a \<noteq> 0" "seen sz m c (dbytes db) a lc es"
  shows "left_child (bkt_node (bucket c i)) = lc" "entries (bkt_node (bucket c i)) = es"
    "node_address (bkt_node (bucket c i)) = a" "node_for sz m (bkt_node (bucket c i))"
  using assms by (auto simp: coherent_def seen_def bucket_at_def bkt_address_def)

lemma AllocBucket_coherent:
  assumes co: "coherent sz m A xs c db" and a: "a \<in> A" and s: "seen sz m c (dbytes db) a lc es"
  obtains i ys c' db' where "AllocBucket a True (c, Some db) = Some (Some i, c', Some db')"
    "coherent sz m A ys c' db'" "view_kept sz m A c db c' db'" "bucket_at c' a i" "cache_on c' = cache_on c"
proof -
  have r: "ring c xs" and a0: "a \<noteq> 0" using co a by (auto simp: coherent_def apart_def)
  have fb: "FindBucket a c = Some (find (\<lambda>j. bkt_address (bucket c j) = a) xs)" by (rule FindBucket_list [OF r])
  show ?thesis
  proof (cases "find (\<lambda>j. bkt_address (bucket c j) = a) xs")
    case (Some i)
    then have i: "i \<in> set xs" "bkt_address (bucket c i) = a" by (auto simp: find_Some_iff)
    note P = coherent_Promote [OF co i(1)]
    have "bucket_at c a i" using i r by (auto simp: bucket_at_def ring_def)
    moreover have "cache_on (PromoteBucket i c) = cache_on c"
      using Promote_list(3) [of c xs i] co i by (auto simp: coherent_def same_contents_def)
    ultimately show ?thesis
      using fb Some a0 P
      by (intro that [of i "(PromoteBucket i c)\<lparr>cached_reads := to_u32 (cached_reads c + 1)\<rparr>" db "i # remove1 i xs"])
        (simp_all add: AllocBucket_def view_kept_def)
  next
    case None
    let ?c1 = "c\<lparr>uncached_reads := to_u32 (uncached_reads c + 1)\<rparr>" and ?i = "cache_tail c"
    have tl: "?i = last xs" "xs \<noteq> []" "set xs = {..<length (buckets c)}" using r by (simp_all add: ring_def)
    have i: "?i \<in> set xs" unfolding tl(1) using tl(2) by simp
    then have i2: "?i < length (buckets c)" unfolding tl(3) by simp
    have co1: "coherent sz m A xs ?c1 db" using co by simp
    have i1: "?i < length (buckets ?c1)" using i2 by simp
    obtain b db1 where F: "BtreeBucket_Flush (bucket ?c1 ?i) db = (gxDBASE_NO_ERROR, b, db1)"
      and co2: "coherent sz m A xs (set_bucket ?i b ?c1) db1"
      and cl: "bkt_address b = 0 \<or> \<not> is_dirty b"
      and v: "view_kept sz m A ?c1 db (set_bucket ?i b ?c1) db1"
      by (rule Flush_bucket [OF co1 i1])
    let ?c2 = "set_bucket ?i b ?c1" and ?c3 = "PromoteBucket ?i (set_bucket ?i b ?c1)"
    note P = coherent_Promote [OF co2 i]
    have on: "cache_on ?c3 = cache_on c"
      using Promote_list(3) [of ?c2 xs ?i] co2 i by (auto simp: coherent_def same_contents_def set_bucket_def)
    have w: "ready_for_writing db" using co by (auto simp: coherent_def)
    have E: "FindEmptyBucket (?c1, Some db) = (Some ?i, ?c3, Some db1)"
      using w F ring_not_empty [OF r] by (simp add: FindEmptyBucket_def cache_IsEmpty_def Let_def)
    have bi: "bucket ?c2 ?i = b" using i2 by (simp add: bucket_set_bucket)
    have no1: "\<nexists>j. bucket_at ?c1 a j"
      using None r by (auto simp: find_None_iff bucket_at_def ring_def)
    have "bkt_address b = 0 \<or> b = bucket ?c1 ?i"
      using F by (auto simp: BtreeBucket_Flush_def ResetBucket_def on_node_def bkt_address_def split: if_splits prod.splits)
    then have "\<nexists>j. bucket_at ?c2 a j"
      using no1 a0 i2 by (auto simp: bucket_at_def bucket_set_bucket split: if_splits)
    then have no3: "\<nexists>j. bucket_at ?c3 a j" by (simp add: P(3))
    have i3: "?i < length (buckets ?c3)" using Promote_list(3) [of ?c2 xs ?i] co2 i i2
      by (auto simp: coherent_def same_contents_def set_bucket_def)
    have cl3: "bkt_address (bucket ?c3 ?i) = 0 \<or> \<not> is_dirty (bucket ?c3 ?i)"
      using cl bi by (simp add: P(4) bkt_address_def P(5))
    have "seen sz m ?c3 (dbytes db1) a lc es"
      using s a v P(2) by (simp add: view_kept_def)
    then have h: "holds (dbytes db1) a sz lc es" "int (length es) \<le> m" using no3 by (auto simp: seen_def)
    obtain c' db' where "load_bucket ?i (claim_bucket a ?i ?c3, Some db1) = (Some ?i, c', Some db')"
      "coherent sz m A (?i # remove1 ?i xs) c' db'" "view_kept sz m A ?c3 db1 c' db'" "bucket_at c' a ?i"
      by (rule claim_load [OF P(1) i3 cl3 a no3 h])
    moreover from this have "cache_on c' = cache_on ?c3"
      by (auto simp: load_bucket_def claim_bucket_def set_bucket_def split: prod.splits if_splits)
    moreover have "view_kept sz m A c db ?c3 db1"
      using v P(2) by (auto simp: view_kept_def)
    ultimately show ?thesis
      using fb None a0 E on
      by (intro that [of ?i c' db' "?i # remove1 ?i xs"]) (auto simp: AllocBucket_def elim: view_kept_trans)
  qed
qed


text \<open>
  The cached \<open>Find\<close> on a tree that is seen through a coherent cache: whatever part of the tree is in
  buckets, changed or not, the walk gives the result of a lookup in the in-order list of the keys.
\<close>

section \<open>The tree with its cache\<close>

definition cached_ready :: "int \<Rightarrow> int \<Rightarrow> int set \<Rightarrow> cached_tree \<Rightarrow> bool" where
  "cached_ready sz m A s \<longleftrightarrow> cache_on (snd s) \<and> bt_f (fst s) \<noteq> None \<and>
     (\<exists>xs. coherent sz m A xs (snd s) (tree_db (fst s)))"

definition seen_at :: "int \<Rightarrow> int \<Rightarrow> cached_tree \<Rightarrow> int \<Rightarrow> int \<Rightarrow> DatabaseKeyB list \<Rightarrow> bool" where
  "seen_at sz m s a lc es \<longleftrightarrow> seen sz m (snd s) (dbytes (tree_db (fst s))) a lc es"

definition kept_tree :: "int \<Rightarrow> int \<Rightarrow> int set \<Rightarrow> cached_tree \<Rightarrow> cached_tree \<Rightarrow> bool" where
  "kept_tree sz m A s s' \<longleftrightarrow> btree_header (fst s') = btree_header (fst s) \<and>
     (\<forall>a \<in> A. \<forall>lc es. seen_at sz m s a lc es \<longrightarrow> seen_at sz m s' a lc es)"

lemma kept_tree_refl [simp]: "kept_tree sz m A s s"
  by (simp add: kept_tree_def)

lemma kept_tree_trans: "kept_tree sz m A s s1 \<Longrightarrow> kept_tree sz m A s1 s2 \<Longrightarrow> kept_tree sz m A s s2"
  by (simp add: kept_tree_def)

text \<open>A cache node that refers to a node in its bucket.\<close>

definition bound :: "cached_tree \<Rightarrow> BtreeCacheNode \<Rightarrow> bool" where
  "bound s cn \<longleftrightarrow> cn_address cn \<noteq> 0 \<and> (\<exists>i. cn_bucket cn = Some i \<and> bucket_at (snd s) (cn_address cn) i)"

text \<open>The bucket of a cache node is one of the cache.\<close>

definition cn_ok :: "cached_tree \<Rightarrow> BtreeCacheNode \<Rightarrow> bool" where
  "cn_ok s cn \<longleftrightarrow> (\<forall>i. cn_bucket cn = Some i \<longrightarrow> i < length (buckets (snd s)))"

lemma bound_ok: "bound s cn \<Longrightarrow> cn_ok s cn"
  by (auto simp: bound_def cn_ok_def bucket_at_def)

lemma go_node:
  assumes r: "cached_ready sz m A s" and a: "a \<in> A" and s: "seen_at sz m s a lc es" and ok: "cn_ok s cn"
  obtains cn' s' where "go a cn s = Some (cn', s')" "cn_address cn' = a" "bound s' cn'"
    "cached_ready sz m A s'" "kept_tree sz m A s s'"
proof -
  obtain t c db xs where st: "s = (t, c)" "bt_f t = Some db" "cache_on c" "coherent sz m A xs c db"
    "tree_db t = db"
    using r by (cases s) (auto simp: cached_ready_def tree_db_def)
  have a0: "a \<noteq> 0" using st(4) a by (auto simp: coherent_def apart_def)
  note out = that
  have A: thesis if H: "cn_bucket cn = None \<or>
      (\<exists>i. cn_bucket cn = Some i \<and> bkt_address (bucket c i) \<noteq> a)"
  proof -
    have sc: "seen sz m c (dbytes db) a lc es" using s st by (simp add: seen_at_def)
    obtain i ys c' db' where B: "AllocBucket a True (c, Some db) = Some (Some i, c', Some db')"
      "coherent sz m A ys c' db'" "view_kept sz m A c db c' db'" "bucket_at c' a i" "cache_on c' = cache_on c"
      by (rule AllocBucket_coherent [OF st(4) a sc])
    have "Bind (cn\<lparr>cn_address := a\<rparr>) (c, Some db) =
      Some (cn\<lparr>cn_address := a, cn_bucket := Some i\<rparr>, c', Some db')"
      using H B(1) by (auto simp: Bind_def)
    then have "go a cn s = Some (cn\<lparr>cn_address := a, cn_bucket := Some i\<rparr>, t\<lparr>bt_f := Some db'\<rparr>, c')"
      using st by (simp add: go_def via_cache_def assign_def)
    then show thesis
      using B st a0
      by (intro out) (auto simp: bound_def cached_ready_def tree_db_def kept_tree_def seen_at_def view_kept_def)
  qed
  show thesis
  proof (cases "cn_bucket cn")
    case None
    then show thesis using A by simp
  next
    case (Some i)
    show thesis
    proof (cases "bkt_address (bucket c i) = a")
      case True
      then have "Bind (cn\<lparr>cn_address := a\<rparr>) (c, Some db) = Some (cn\<lparr>cn_address := a\<rparr>, c, Some db)"
        using Some by (simp add: Bind_def)
      then have "go a cn s = Some (cn\<lparr>cn_address := a\<rparr>, s)"
        using st by (simp add: go_def via_cache_def assign_def)
      then show thesis
        using True Some ok r a0 st(1) by (intro that) (auto simp: bound_def bucket_at_def cn_ok_def)
    qed (use A Some in blast)
  qed
qed

text \<open>Assigning the null address: the cache node does not refer to a node afterwards.\<close>

lemma go_null:
  assumes r: "cached_ready sz m A s"
  obtains cn' s' where "go 0 cn s = Some (cn', s')" "cn_address cn' = 0" "cached_ready sz m A s'"
    "kept_tree sz m A s s'"
proof -
  obtain t c db xs where st: "s = (t, c)" "bt_f t = Some db" "cache_on c" "coherent sz m A xs c db"
    "tree_db t = db"
    using r by (cases s) (auto simp: cached_ready_def tree_db_def)
  have e: "coherent sz m A xs c (SetDatabaseError e db)" "dbytes (SetDatabaseError e db) = dbytes db" for e
    using st(4) by (auto simp: coherent_def SetDatabaseError_def)
  have ex: "\<exists>xs. coherent sz m A xs c (SetDatabaseError e db)" for e using e(1) by blast
  consider (same) i where "cn_bucket cn = Some i" "bkt_address (bucket c i) = 0"
    | (alloc) "cn_bucket cn = None \<or> (\<exists>i. cn_bucket cn = Some i \<and> bkt_address (bucket c i) \<noteq> 0)"
    by (cases "cn_bucket cn") auto
  then show thesis
  proof cases
    case same
    then have "go 0 cn s = Some (cn\<lparr>cn_address := 0\<rparr>, s)"
      using st by (simp add: go_def via_cache_def assign_def Bind_def)
    then show thesis using r by (intro that) auto
  next
    case alloc
    let ?db = "SetDatabaseError gxDBASE_CACHE_ERROR db"
    have ne: "gxDBASE_CACHE_ERROR \<noteq> gxDBASE_NO_ERROR" by simp
    have "Bind (cn\<lparr>cn_address := 0\<rparr>) (c, Some db) = Some (\<lparr>cn_address = 0, cn_bucket = None\<rparr>, c, Some ?db)"
      using alloc by (auto simp: Bind_def AllocBucket_def set_f_error_def note_cache_error_def)
    then have "go 0 cn s = Some (\<lparr>cn_address = 0, cn_bucket = None\<rparr>, t\<lparr>bt_f := Some ?db\<rparr>, c)"
      using st by (simp add: go_def via_cache_def assign_def)
    then show thesis
      using e(2) ex st by (intro that) (auto simp: cached_ready_def tree_db_def kept_tree_def seen_at_def)
  qed
qed

lemma look_bound:
  assumes r: "cached_ready sz m A s" and b: "bound s cn" and s: "seen_at sz m s (cn_address cn) lc es"
  obtains n where "look cn s = Some (n, cn, s)" "left_child n = lc" "entries n = es" "node_fit n"
    "key_count n = int (length es)" "node_ok n"
proof -
  obtain t c db xs where st: "s = (t, c)" "bt_f t = Some db" "cache_on c" "coherent sz m A xs c db"
    "tree_db t = db"
    using r by (cases s) (auto simp: cached_ready_def tree_db_def)
  obtain i where i: "cn_bucket cn = Some i" "bucket_at c (cn_address cn) i" "cn_address cn \<noteq> 0"
    using b st(1) by (auto simp: bound_def)
  have "Bind cn (c, Some db) = Some (cn, c, Some db)"
    using i by (simp add: Bind_def bucket_at_def)
  then have L: "look cn s = Some (bkt_node (bucket c i), cn, s)"
    using st i(1) by (simp add: look_def via_cache_def)
  let ?n = "bkt_node (bucket c i)"
  have n: "left_child ?n = lc" "entries ?n = es" "node_for sz m ?n"
    using bucket_of_seen [OF st(4) i(2,3)] s st by (auto simp: seen_at_def)
  then have "node_fit ?n" "buffer_ok ?n" by (auto simp: node_for_def node_fit_def)
  moreover from this have "key_count ?n = int (length es)"
    using n(2) length_entries [of ?n] by (auto simp: buffer_ok_def)
  ultimately show thesis using L n by (intro that) auto
qed

section \<open>Trees\<close>

fun tree_seen :: "int \<Rightarrow> int \<Rightarrow> int set \<Rightarrow> cached_tree \<Rightarrow> btree \<Rightarrow> bool" where
  "tree_seen sz m A s Tip \<longleftrightarrow> True"
| "tree_seen sz m A s (Br a l es) \<longleftrightarrow>
     a \<in> A \<and> seen_at sz m s a (addr_of l) (map slot_of es) \<and>
     tree_seen sz m A s l \<and> (\<forall>e \<in> set es. tree_seen sz m A s (snd e))"

lemma tree_seen_kept:
  "tree_seen sz m A s T \<Longrightarrow> kept_tree sz m A s s' \<Longrightarrow> tree_seen sz m A s' T"
  by (induction T) (auto simp: kept_tree_def)

lemma tree_seen_child: "tree_seen sz m A s (Br a l es) \<Longrightarrow> i \<le> length es \<Longrightarrow> tree_seen sz m A s (child l es i)"
  using child_mem [of i es l] by auto

text \<open>Assigning the address of a subtree.\<close>

lemma go_tree:
  assumes "cached_ready sz m A s" "tree_seen sz m A s T" "cn_ok s cn"
  obtains cn' s' where "go (addr_of T) cn s = Some (cn', s')" "cn_address cn' = addr_of T"
    "T \<noteq> Tip \<longrightarrow> bound s' cn'" "cached_ready sz m A s'" "kept_tree sz m A s s'"
proof (cases T)
  case Tip
  then show thesis using go_null [OF assms(1), of cn] that by auto
next
  case (Br a l es)
  then have "a \<in> A" "seen_at sz m s a (addr_of l) (map slot_of es)" using assms(2) by auto
  then show thesis using go_node [OF assms(1) _ _ assms(3)] that Br by (metis addr_of.simps(2))
qed

lemma set_error_kept:
  assumes "cached_ready sz m A s"
  shows "cached_ready sz m A (set_error e s)" "kept_tree sz m A s (set_error e s)"
    "f_error (fst (set_error e s)) = e"
  using assms
  by (auto simp: cached_ready_def set_error_def on_f_def tree_db_def coherent_def SetDatabaseError_def
      kept_tree_def seen_at_def f_error_def)

context key_search
begin

lemma cfind_walk_tree:
  assumes "cached_ready sz m A s" "tree_seen sz m A s T" "cn_address cn = addr_of T"
    and "T \<noteq> Tip \<longrightarrow> bound s cn" "sorted_keys cmp (inorder T)" "depth_of T \<le> k"
  shows "\<exists>rv key' ck' cn' s'. cfind_walk cmp k key ck cn s = Some ((rv, key', ck', cn'), s') \<and>
    cached_ready sz m A s' \<and> kept_tree sz m A s s' \<and>
    (if \<exists>k \<in> set (inorder T). cmp (db_key key) k = 0
     then rv = 1 \<and> db_key key' \<in> set (inorder T) \<and> cmp (db_key key) (db_key key') = 0
     else rv = 0 \<and> key' = key \<and> f_error (fst s') = gxDBASE_ENTRY_NOT_FOUND)"
  using assms
proof (induction k arbitrary: T cn ck s)
  case 0
  then have T: "T = Tip" by (cases T) auto
  then show ?case using 0 set_error_kept [OF 0(1)] by (auto simp: cfail_def)
next
  case (Suc k)
  show ?case
  proof (cases T)
    case Tip
    then show ?thesis using Suc.prems set_error_kept [OF Suc.prems(1)] by (auto simp: cfail_def)
  next
    case (Br a l es)
    have b: "bound s cn" and a: "cn_address cn = a" using Suc.prems(3,4) Br by auto
    then have a0: "a \<noteq> 0" by (auto simp: bound_def)
    have se: "seen_at sz m s (cn_address cn) (addr_of l) (map slot_of es)"
      using Suc.prems(2) Br a by simp
    obtain n where L: "look cn s = Some (n, cn, s)" and n: "left_child n = addr_of l" "entries n = map slot_of es"
      "key_count n = int (length es)" and ok: "node_ok n"
      by (rule look_bound [OF Suc.prems(1) b se]) simp
    have srt: "sorted_keys cmp (inorder (Br a l es))" using Suc.prems(5) Br by simp
    obtain rv loc ck1 where F: "FindKeyLocation cmp key ck n = (rv, loc, ck1)" by (metis prod_cases3)
    have K: "key_location_of cmp (db_key key) (map slot_of es) = (rv, loc)"
      using FindKeyLocation_spec(1) [OF ok _ F] sorted_children(1) [OF srt] n(2) by simp
    have W: "cfind_walk cmp (Suc k) key ck cn s =
      (if rv = 0 then Some ((1, LoadKey n loc, ck1, cn), s)
       else Option.bind (go (GetBranch n loc) cn s) (\<lambda>(cn2, s2). cfind_walk cmp k key ck1 cn2 s2))"
      using a a0 L F by simp
    show ?thesis
    proof (cases "rv = 0")
      case True
      let ?i = "nat loc"
      have i: "loc = int ?i" "?i < length es" "cmp (db_key key) (fst (es ! ?i)) = 0"
        using K True by (auto simp: key_location_of_def Let_def slot_of_def split: if_splits)
      have "slot n loc = slot_of (es ! ?i)"
        using slot_entries [OF ok, of loc] i n(2,3) by simp
      then have key: "db_key (LoadKey n loc) = fst (es ! ?i)" by (simp add: LoadKey_def slot_of_def)
      have mem: "fst (es ! ?i) \<in> set (inorder T)"
        using items_key [OF i(2)] Br by simp
      have ex: "\<exists>k \<in> set (inorder T). cmp (db_key key) k = 0" using i(3) mem by blast
      show ?thesis
        unfolding W if_P [OF ex] if_P [OF True]
        using Suc.prems(1) mem i(3) by (auto simp: key)
    next
      case False
      obtain j where j: "j \<le> length es" "loc = int j - 1"
        "\<forall>x \<in> set (before l es j). 0 < cmp (db_key key) x" "\<forall>x \<in> set (items (drop j es)). cmp (db_key key) x < 0"
        using location_splits [OF srt K False] by metis
      let ?C = "child l es j"
      have gb: "GetBranch n loc = addr_of ?C"
        using child_slots [OF ok n(2,1) j(1) n(3)] j(2) by simp
      have dep: "depth_of ?C \<le> k" using depth_child [OF j(1), of l a] Br Suc.prems(6) by simp
      have tc: "tree_seen sz m A s ?C" using tree_seen_child [OF _ j(1)] Suc.prems(2) Br by blast
      obtain cn2 s2 where G: "go (addr_of ?C) cn s = Some (cn2, s2)" "cn_address cn2 = addr_of ?C"
        "?C \<noteq> Tip \<longrightarrow> bound s2 cn2" "cached_ready sz m A s2" "kept_tree sz m A s s2"
        using go_tree [OF Suc.prems(1) tc bound_ok [OF b]] by metis
      have set: "set (inorder T) = set (before l es j) \<union> set (inorder ?C) \<union> set (items (drop j es))"
        using inorder_child [OF j(1), of a l] Br by auto
      have ex: "(\<exists>k \<in> set (inorder T). cmp (db_key key) k = 0) \<longleftrightarrow> (\<exists>k \<in> set (inorder ?C). cmp (db_key key) k = 0)"
        unfolding set using j(3,4) by (auto; force)
      note IH = Suc.IH [OF G(4) tree_seen_kept [OF tc G(5)] G(2,3) sorted_children(2) [OF srt j(1)] dep, of ck1]
      from IH obtain rv' key' ck' cn' s' where
        "cfind_walk cmp k key ck1 cn2 s2 = Some ((rv', key', ck', cn'), s')" "cached_ready sz m A s'"
        "kept_tree sz m A s2 s'"
        "if \<exists>k \<in> set (inorder ?C). cmp (db_key key) k = 0
         then rv' = 1 \<and> db_key key' \<in> set (inorder ?C) \<and> cmp (db_key key) (db_key key') = 0
         else rv' = 0 \<and> key' = key \<and> f_error (fst s') = gxDBASE_ENTRY_NOT_FOUND"
        by blast
      then show ?thesis
        unfolding W ex gb if_not_P [OF False] G(1)
        using kept_tree_trans [OF G(5)] by (intro exI conjI) (auto simp: set split: if_splits)
    qed
  qed
qed

end

end
