(* ===== verification/BtCachedUpdate.thy ===== *)
theory BtCachedUpdate
  imports BtCached
begin

text \<open>
  The operations of \<open>src/gxbtree.cpp\<close> that change a tree through a node cache: insertion, the balanced
  and the fast deletion, the collapse of the root and the change of a key. The pure part of a split,
  a rotation or a merge is the function of the uncached operation; here its nodes are those of
  buckets, which are marked dirty and written when they are flushed or reused. A node that is
  merged away or collapsed is dropped from the cache (\<open>cn_Delete\<close>); its block in the file is not
  released.
\<close>

type_synonym cupdated = "(gxDatabaseError \<times> DatabaseKeyB \<times> DatabaseKeyB) \<times> cached_tree"

definition on_tree :: "(gxBtree \<Rightarrow> gxBtree) \<Rightarrow> cached_tree \<Rightarrow> cached_tree" where
  "on_tree g s = (g (fst s), snd s)"

definition tree_error :: "cached_tree \<Rightarrow> gxDatabaseError" where
  "tree_error s = f_error (fst s)"

text \<open>\<open>f->SetDatabaseError(e)\<close> and the return of the error.\<close>

definition ufail :: "gxDatabaseError \<Rightarrow> DatabaseKeyB \<Rightarrow> DatabaseKeyB \<Rightarrow> cached_tree \<Rightarrow> cupdated" where
  "ufail e key ck s = ((e, key, ck), set_error e s)"

text \<open>A changed node is marked dirty.\<close>

definition put ::
  "(BtreeNode \<Rightarrow> BtreeNode) \<Rightarrow> BtreeCacheNode \<Rightarrow> cached_tree \<Rightarrow> (BtreeCacheNode \<times> cached_tree) option"
where
  "put g cn s = do { (cn1, s1) \<leftarrow> edit g cn s; SetDirty cn1 s1 }"

definition alloc_cn ::
  "int \<Rightarrow> BtreeCacheNode \<Rightarrow> cached_tree \<Rightarrow> ((bool \<times> BtreeCacheNode) \<times> cached_tree) option" where
  "alloc_cn node_size cn s =
     via_cache (\<lambda>cs. map_option (\<lambda>(b, cn1, cs1). ((b \<noteq> None, cn1), cs1)) (cn_Alloc node_size 0 cn cs)) s"

definition delete_cn :: "BtreeCacheNode \<Rightarrow> cached_tree \<Rightarrow> ((bool \<times> BtreeCacheNode) \<times> cached_tree) option" where
  "delete_cn cn s =
     via_cache (\<lambda>cs. Some (case cn_Delete cn cs of (b, cn1, cs1) \<Rightarrow> ((b, cn1), cs1))) s"

section \<open>Insertion\<close>

fun cinsert_walk ::
  "compare_fun \<Rightarrow> nat \<Rightarrow> DatabaseKeyB \<Rightarrow> DatabaseKeyB \<Rightarrow> int \<Rightarrow> BtreeStack \<Rightarrow> BtreeCacheNode \<Rightarrow>
   cached_tree \<Rightarrow>
   ((gxDatabaseError \<times> BtreeStack \<times> int \<times> DatabaseKeyB \<times> BtreeCacheNode) \<times> cached_tree) option" where
  "cinsert_walk cmp k key ck loc0 stack cn s =
     (if cn_address cn = 0 then Some ((gxDBASE_NO_ERROR, stack, loc0, ck, cn), s)
      else (case k of
          0 \<Rightarrow> Some ((gxDBASE_BADBLOCK_ERROR, stack, loc0, ck, cn), set_error gxDBASE_BADBLOCK_ERROR s)
        | Suc k' \<Rightarrow> do {
            (n, cn1, s1) \<leftarrow> look cn s;
            case FindKeyLocation cmp key ck n of (rv, loc, ck1) \<Rightarrow>
              if rv = 0 then
                Some ((gxDBASE_DUPLICATE_ENTRY, [], loc, ck1, cn1), set_error gxDBASE_DUPLICATE_ENTRY s1)
              else do {
                (cn2, s2) \<leftarrow> go (GetBranch n loc) cn1 s1;
                cinsert_walk cmp k' key ck1 loc (Push (cn_address cn) stack) cn2 s2
              }
          }))"

declare cinsert_walk.simps [simp del]

definition cgrow_root ::
  "DatabaseKeyB \<Rightarrow> DatabaseKeyB \<Rightarrow> BtreeCacheNode \<Rightarrow> cached_tree \<Rightarrow> cupdated option" where
  "cgrow_root key ck cn s = do {
     let old_root = tree_root s;
     (n, cn1, s1) \<leftarrow> look cn s;
     ((ok, rn), s2) \<leftarrow> alloc_cn (SizeOfBtreeNode n) new_BtreeCacheNode s1;
     if \<not> ok then Some ((tree_error s2, key, ck), s2)
     else do {
       (rn1, s3) \<leftarrow> put (\<lambda>r. InsertDatabaseKey_node (r\<lparr>left_child := old_root\<rparr>) key 0) rn
         (on_tree (upd_header (\<lambda>h. h\<lparr>n_nodes := to_u32 (n_nodes h + 1),
              btree_height := to_u32 (btree_height h + 1), root := cn_address rn\<rparr>)) s2);
       Some ((gxDBASE_NO_ERROR, key, ck), on_tree (upd_header (add_keys 1)) s3)
     }
   }"

fun cinsert_up ::
  "compare_fun \<Rightarrow> BtreeStack \<Rightarrow> DatabaseKeyB \<Rightarrow> DatabaseKeyB \<Rightarrow> int \<Rightarrow> bool \<Rightarrow> BtreeCacheNode \<Rightarrow>
   cached_tree \<Rightarrow> cupdated option" where
  "cinsert_up cmp [] key ck loc0 splits cn s = Some (ufail gxDBASE_INSERTION_ERROR key ck s)"
| "cinsert_up cmp (a # stack) key ck0 loc0 splits cn0 s0 = do {
     (cn, s) \<leftarrow> go a cn0 s0;
     if cn_address cn = 0 then Some (ufail gxDBASE_CACHE_ERROR key ck0 s)
     else do {
       (n, cn1, s1) \<leftarrow> look cn s;
       case (if splits then FindKeyLocation cmp key ck0 n else (0, loc0, ck0)) of (_, loc, ck) \<Rightarrow>
         let key_location = loc + 1
         in if \<not> IsFull n then do {
              (cn2, s2) \<leftarrow> put (\<lambda>n. InsertDatabaseKey_node n key key_location) cn1 s1;
              Some ((gxDBASE_NO_ERROR, key, ck), on_tree (upd_header (add_keys 1)) s2)
            }
            else do {
              ((ok, rn), s2) \<leftarrow> alloc_cn (SizeOfBtreeNode n) new_BtreeCacheNode s1;
              if \<not> ok then Some ((tree_error s2, key, ck), s2)
              else do {
                let s3 = on_tree (upd_header (add_nodes 1)) s2;
                (n1, cn3, s4) \<leftarrow> look cn1 s3;
                (r, rn1, s5) \<leftarrow> look rn s4;
                case split_insert (hdr_node_order (btree_header (fst s5))) key ck key_location n1 r of
                  (l, r1, key1, ck1) \<Rightarrow> do {
                    (cn4, s6) \<leftarrow> put (\<lambda>_. l) cn3 s5;
                    (rn2, s7) \<leftarrow> put (\<lambda>_. r1\<lparr>left_child := right_child key1\<rparr>) rn1 s6;
                    let key2 = key1\<lparr>right_child := cn_address rn2\<rparr>;
                    if cn_address cn4 = tree_root s7 then cgrow_root key2 ck1 cn4 s7
                    else cinsert_up cmp stack key2 ck1 key_location True cn4 s7
                  }
              }
            }
     }
   }"

definition InsertDatabaseKey_c ::
  "compare_fun \<Rightarrow> DatabaseKeyB \<Rightarrow> DatabaseKeyB \<Rightarrow> cached_tree \<Rightarrow> cupdated option" where
  "InsertDatabaseKey_c cmp key0 ck s =
     (if bt_f (fst s) = None then Some ((gxDBASE_NULL_PTR, key0, ck), s)
      else do {
        let key = key0\<lparr>right_child := 0\<rparr>;
        (cn, s1) \<leftarrow> go (tree_root s) new_BtreeCacheNode s;
        if cn_address cn = 0 then Some (ufail gxDBASE_CACHE_ERROR key ck s1)
        else do {
          ((e, stack, loc, ck1, cn1), s2) \<leftarrow>
            cinsert_walk cmp gxBtreeMaxNodeReads key ck 0 [] cn s1;
          if e \<noteq> gxDBASE_NO_ERROR then Some ((e, key, ck1), s2)
          else cinsert_up cmp stack key ck1 loc False cn1 s2
        }
      })"

text \<open>The public functions: one when there was no error.\<close>

definition finish_c :: "cupdated \<Rightarrow> (int \<times> DatabaseKeyB \<times> DatabaseKeyB) \<times> cached_tree" where
  "finish_c r = (case r of ((e, key, ck), s) \<Rightarrow> ((if e \<noteq> gxDBASE_NO_ERROR then 0 else 1, key, ck), s))"

definition Insert_c ::
  "compare_fun \<Rightarrow> DatabaseKeyB \<Rightarrow> DatabaseKeyB \<Rightarrow> cached_tree \<Rightarrow>
   ((int \<times> DatabaseKeyB \<times> DatabaseKeyB) \<times> cached_tree) option" where
  "Insert_c cmp key ck s = map_option finish_c (InsertDatabaseKey_c cmp key ck s)"

section \<open>The root\<close>

definition CollapseRoot_cn ::
  "BtreeCacheNode \<Rightarrow> cached_tree \<Rightarrow> ((gxDatabaseError \<times> BtreeCacheNode) \<times> cached_tree) option" where
  "CollapseRoot_cn cn s = do {
     (n, cn1, s1) \<leftarrow> look cn s;
     if IsEmpty n \<and> btree_height (btree_header (fst s1)) > 1 then do {
       ((ok, cn2), s2) \<leftarrow> delete_cn cn1
         (on_tree (upd_header (\<lambda>h. h\<lparr>root := left_child n, n_nodes := to_u32 (n_nodes h - 1),
            btree_height := to_u32 (btree_height h - 1)\<rparr>)) s1);
       Some ((if ok then gxDBASE_NO_ERROR else tree_error s2, cn2), s2)
     }
     else Some ((gxDBASE_NO_ERROR, cn1), s1)
   }"

definition CollapseRoot_c :: "cached_tree \<Rightarrow> (gxDatabaseError \<times> cached_tree) option" where
  "CollapseRoot_c s =
     (if bt_f (fst s) = None then Some (gxDBASE_NULL_PTR, s)
      else do {
        (cn, s1) \<leftarrow> go (tree_root s) new_BtreeCacheNode s;
        if cn_address cn = 0
        then Some (gxDBASE_CACHE_ERROR, set_error gxDBASE_CACHE_ERROR s1)
        else do { ((e, _), s2) \<leftarrow> CollapseRoot_cn cn s1; Some (e, s2) }
      })"

section \<open>Rotations and the merge\<close>

type_synonym cbalanced = "(gxDatabaseError \<times> BtreeCacheNode \<times> DatabaseKeyB) \<times> cached_tree"

text \<open>
  The right and the left child at a location, then the three nodes. A missing child is a cache error
  and leaves \<open>None\<close> in the place of the nodes.
\<close>

definition cread_children ::
  "BtreeCacheNode \<Rightarrow> int \<Rightarrow> cached_tree \<Rightarrow>
   (((BtreeNode \<times> BtreeNode \<times> BtreeNode) option \<times>
     BtreeCacheNode \<times> BtreeCacheNode \<times> BtreeCacheNode) \<times> cached_tree) option" where
  "cread_children parent key_location s = do {
     (p, pn, s1) \<leftarrow> look parent s;
     (rn, s2) \<leftarrow> go (GetBranch p key_location) new_BtreeCacheNode s1;
     if cn_address rn = 0
     then Some ((None, pn, rn, new_BtreeCacheNode), set_error gxDBASE_CACHE_ERROR s2)
     else do {
       (p2, pn2, s3) \<leftarrow> look pn s2;
       (ln, s4) \<leftarrow> go (GetBranch p2 (key_location - 1)) new_BtreeCacheNode s3;
       if cn_address ln = 0
       then Some ((None, pn2, rn, ln), set_error gxDBASE_CACHE_ERROR s4)
       else do {
         (p3, pn3, s5) \<leftarrow> look pn2 s4;
         (r, rn1, s6) \<leftarrow> look rn s5;
         (l, ln1, s7) \<leftarrow> look ln s6;
         Some ((Some (p3, r, l), pn3, rn1, ln1), s7)
       }
     }
   }"

definition crotate ::
  "(BtreeNode \<Rightarrow> int \<Rightarrow> BtreeNode \<Rightarrow> BtreeNode \<Rightarrow> BtreeNode \<times> BtreeNode \<times> BtreeNode \<times> DatabaseKeyB) \<Rightarrow>
   BtreeCacheNode \<Rightarrow> int \<Rightarrow> DatabaseKeyB \<Rightarrow> cached_tree \<Rightarrow> cbalanced option" where
  "crotate rot parent key_location ck s =
     (if bt_f (fst s) = None then Some ((gxDBASE_NULL_PTR, parent, ck), s)
      else do {
        ((nodes, pn, rn, ln), s1) \<leftarrow> cread_children parent key_location s;
        case nodes of
          None \<Rightarrow> Some ((gxDBASE_CACHE_ERROR, pn, ck), s1)
        | Some (p, r, l) \<Rightarrow>
            (case rot p key_location r l of (p1, r1, l1, ck1) \<Rightarrow> do {
               (pn1, s2) \<leftarrow> put (\<lambda>_. p1) pn s1;
               (rn1, s3) \<leftarrow> put (\<lambda>_. r1) rn s2;
               (ln1, s4) \<leftarrow> put (\<lambda>_. l1) ln s3;
               Some ((gxDBASE_NO_ERROR, pn1, ck1), s4)
             })
      })"

definition InsertRightRotation_c ::
  "BtreeCacheNode \<Rightarrow> int \<Rightarrow> DatabaseKeyB \<Rightarrow> cached_tree \<Rightarrow> cbalanced option" where
  "InsertRightRotation_c parent key_location ck s = crotate rotate_right parent key_location ck s"

definition InsertLeftRotation_c ::
  "BtreeCacheNode \<Rightarrow> int \<Rightarrow> DatabaseKeyB \<Rightarrow> cached_tree \<Rightarrow> cbalanced option" where
  "InsertLeftRotation_c parent key_location ck s = crotate rotate_left parent key_location ck s"

definition Merge_c ::
  "BtreeCacheNode \<Rightarrow> int \<Rightarrow> DatabaseKeyB \<Rightarrow> cached_tree \<Rightarrow> cbalanced option" where
  "Merge_c parent key_location ck s =
     (if bt_f (fst s) = None then Some ((gxDBASE_NULL_PTR, parent, ck), s)
      else do {
        ((nodes, pn, rn, ln), s1) \<leftarrow> cread_children parent key_location s;
        case nodes of
          None \<Rightarrow> Some ((gxDBASE_CACHE_ERROR, pn, ck), s1)
        | Some (p, r, l) \<Rightarrow>
            (case merge_children p key_location r l of (p1, l1, ck1) \<Rightarrow> do {
               (ln1, s2) \<leftarrow> edit (\<lambda>_. l1) ln s1;
               (pn1, s3) \<leftarrow> edit (\<lambda>_. p1) pn s2;
               ((ok, _), s4) \<leftarrow> delete_cn rn s3;
               if \<not> ok then Some ((tree_error s4, pn1, ck1), s4)
               else do {
                 (pn2, s5) \<leftarrow> SetDirty pn1 (on_tree (upd_header (add_nodes (-1))) s4);
                 (ln2, s6) \<leftarrow> SetDirty ln1 s5;
                 Some ((gxDBASE_NO_ERROR, pn2, ck1), s6)
               }
             })
      })"

text \<open>What a balancing step returns: the error of the step is that of the database.\<close>

definition cvia_f :: "cbalanced option \<Rightarrow> cbalanced option" where
  "cvia_f r = map_option (\<lambda>((e, p, ck), s).
     ((if e \<noteq> gxDBASE_NO_ERROR then tree_error s else gxDBASE_NO_ERROR, p, ck), s)) r"

definition InsertBalance_c ::
  "BtreeCacheNode \<Rightarrow> int \<Rightarrow> DatabaseKeyB \<Rightarrow> cached_tree \<Rightarrow> cbalanced option" where
  "InsertBalance_c parent key_location ck s =
     (if bt_f (fst s) = None then Some ((gxDBASE_NULL_PTR, parent, ck), s)
      else do {
        (p, pn, s1) \<leftarrow> look parent s;
        if key_location = -1 then do {
          (rn, s2) \<leftarrow> go (GetBranch p 0) new_BtreeCacheNode s1;
          if cn_address rn = 0
          then Some ((gxDBASE_CACHE_ERROR, pn, ck), set_error gxDBASE_CACHE_ERROR s2)
          else do {
            (r, _, s3) \<leftarrow> look rn s2;
            cvia_f (if HasMany r then InsertLeftRotation_c pn 0 ck s3 else Merge_c pn 0 ck s3)
          }
        }
        else do {
          (ln, s2) \<leftarrow> go (GetBranch p (key_location - 1)) new_BtreeCacheNode s1;
          if cn_address ln = 0
          then Some ((gxDBASE_CACHE_ERROR, pn, ck), set_error gxDBASE_CACHE_ERROR s2)
          else do {
            (l, _, s3) \<leftarrow> look ln s2;
            if HasMany l then cvia_f (InsertRightRotation_c pn key_location ck s3)
            else if key_location = HighestKey p then cvia_f (Merge_c pn key_location ck s3)
            else do {
              (p4, pn4, s4) \<leftarrow> look pn s3;
              (rn, s5) \<leftarrow> go (GetBranch p4 (key_location + 1)) new_BtreeCacheNode s4;
              if cn_address rn = 0
              then Some ((gxDBASE_CACHE_ERROR, pn4, ck), set_error gxDBASE_CACHE_ERROR s5)
              else do {
                (r, _, s6) \<leftarrow> look rn s5;
                cvia_f (if HasMany r then InsertLeftRotation_c pn4 (key_location + 1) ck s6
                        else Merge_c pn4 key_location ck s6)
              }
            }
          }
        }
      })"

section \<open>Deletion\<close>

text \<open>The search: on success the node, the location and the stack of addresses above the node.\<close>

fun cdelete_walk ::
  "compare_fun \<Rightarrow> nat \<Rightarrow> DatabaseKeyB \<Rightarrow> DatabaseKeyB \<Rightarrow> BtreeStack \<Rightarrow> BtreeCacheNode \<Rightarrow> cached_tree \<Rightarrow>
   ((gxDatabaseError \<times> BtreeNode \<times> int \<times> DatabaseKeyB \<times> BtreeStack \<times> BtreeCacheNode) \<times> cached_tree) option"
where
  "cdelete_walk cmp k key ck stack cn s =
     (if cn_address cn = 0
      then Some ((gxDBASE_ENTRY_NOT_FOUND, fresh_node (fst s), 0, ck, stack, cn),
                 set_error gxDBASE_ENTRY_NOT_FOUND s)
      else (case k of
          0 \<Rightarrow> Some ((gxDBASE_BADBLOCK_ERROR, fresh_node (fst s), 0, ck, stack, cn),
                     set_error gxDBASE_BADBLOCK_ERROR s)
        | Suc k' \<Rightarrow> do {
            (n, cn1, s1) \<leftarrow> look cn s;
            case FindKeyLocation cmp key ck n of (rv, loc, ck1) \<Rightarrow>
              if rv = 0 then Some ((gxDBASE_NO_ERROR, n, loc, ck1, stack, cn1), s1)
              else do {
                (cn2, s2) \<leftarrow> go (GetBranch n loc) cn1 s1;
                cdelete_walk cmp k' key ck1 (Push (cn_address cn1) stack) cn2 s2
              }
          }))"

text \<open>Down to the leftmost node below the sibling; a child that cannot be read is not noticed.\<close>

fun csibling_walk ::
  "nat \<Rightarrow> BtreeStack \<Rightarrow> BtreeCacheNode \<Rightarrow> cached_tree \<Rightarrow>
   ((gxDatabaseError \<times> BtreeStack \<times> BtreeCacheNode) \<times> cached_tree) option" where
  "csibling_walk k stack cn s = do {
     (n, cn1, s1) \<leftarrow> look cn s;
     if left_child n = 0 then Some ((gxDBASE_NO_ERROR, stack, cn1), s1)
     else (case k of
         0 \<Rightarrow> Some ((gxDBASE_BADBLOCK_ERROR, stack, cn1), set_error gxDBASE_BADBLOCK_ERROR s1)
       | Suc k' \<Rightarrow> do {
           (cn2, s2) \<leftarrow> go (left_child n) cn1 s1;
           csibling_walk k' (Push (cn_address cn1) stack) cn2 s2
         })
   }"

declare cdelete_walk.simps [simp del] csibling_walk.simps [simp del]

text \<open>The grandparents, until one has enough keys or is the root.\<close>

fun cbalance_up ::
  "compare_fun \<Rightarrow> DatabaseKeyB \<Rightarrow> DatabaseKeyB \<Rightarrow> BtreeStack \<Rightarrow> cached_tree \<Rightarrow> cupdated option" where
  "cbalance_up cmp key ck [] s = Some ((gxDBASE_NO_ERROR, key, ck), s)"
| "cbalance_up cmp key ck (a # stack) s = do {
     (gn, s1) \<leftarrow> go a new_BtreeCacheNode s;
     if cn_address gn = 0 then Some (ufail gxDBASE_CACHE_ERROR key ck s1)
     else do {
       (g, gn1, s2) \<leftarrow> look gn s1;
       case FindKeyLocation cmp key ck g of (_, loc, ck1) \<Rightarrow> do {
         ((e, gn2, ck2), s3) \<leftarrow> InsertBalance_c gn1 loc ck1 s2;
         if e \<noteq> gxDBASE_NO_ERROR then Some ((tree_error s3, key, ck2), s3)
         else do {
           (g1, _, s4) \<leftarrow> look gn2 s3;
           if HasFew g1 \<and> node_address g1 \<noteq> tree_root s4 then cbalance_up cmp key ck2 stack s4
           else Some ((gxDBASE_NO_ERROR, key, ck2), s4)
         }
       }
     }
   }"

definition cbalance_leaf ::
  "compare_fun \<Rightarrow> DatabaseKeyB \<Rightarrow> DatabaseKeyB \<Rightarrow> BtreeNode \<Rightarrow> int \<Rightarrow> BtreeStack \<Rightarrow> cached_tree \<Rightarrow>
   cupdated option" where
  "cbalance_leaf cmp key ck leaf leaf_address stack0 s =
     (case Pop stack0 of (parent_address, stack) \<Rightarrow>
        if HasFew leaf \<and> leaf_address \<noteq> tree_root s then do {
          (pn, s1) \<leftarrow> go parent_address new_BtreeCacheNode s;
          if cn_address pn = 0 then Some (ufail gxDBASE_CACHE_ERROR key ck s1)
          else do {
            (p, pn1, s2) \<leftarrow> look pn s1;
            case FindKeyLocation cmp key ck p of (_, loc, ck1) \<Rightarrow> do {
              ((e, pn2, ck2), s3) \<leftarrow> InsertBalance_c pn1 loc ck1 s2;
              if e \<noteq> gxDBASE_NO_ERROR then Some ((tree_error s3, key, ck2), s3)
              else do {
                (p1, _, s4) \<leftarrow> look pn2 s3;
                if HasFew p1 \<and> parent_address \<noteq> tree_root s4 then cbalance_up cmp key ck2 stack s4
                else Some ((gxDBASE_NO_ERROR, key, ck2), s4)
              }
            }
          }
        }
        else Some ((gxDBASE_NO_ERROR, key, ck), s))"

definition cfinish_delete :: "cupdated \<Rightarrow> cupdated option" where
  "cfinish_delete r =
     (case r of ((e, key, ck), s) \<Rightarrow>
        if e \<noteq> gxDBASE_NO_ERROR then Some r
        else do {
          (e1, s1) \<leftarrow> CollapseRoot_c s;
          Some ((if e1 \<noteq> gxDBASE_NO_ERROR then tree_error s1 else gxDBASE_NO_ERROR, key, ck), s1)
        })"

definition DeleteDatabaseKey_c ::
  "compare_fun \<Rightarrow> DatabaseKeyB \<Rightarrow> DatabaseKeyB \<Rightarrow> cached_tree \<Rightarrow> cupdated option" where
  "DeleteDatabaseKey_c cmp key0 ck0 s0 =
     (if bt_f (fst s0) = None then Some ((gxDBASE_NULL_PTR, key0, ck0), s0)
      else do {
        let key = key0\<lparr>right_child := 0\<rparr>;
        (cn0, s1) \<leftarrow> go (tree_root s0) new_BtreeCacheNode s0;
        if cn_address cn0 = 0 then Some (ufail gxDBASE_CACHE_ERROR key ck0 s1)
        else do {
          ((e, n, loc, ck, stack, cn), s2) \<leftarrow>
            cdelete_walk cmp gxBtreeMaxNodeReads key ck0 (Push (tree_root s1) []) cn0 s1;
          if e \<noteq> gxDBASE_NO_ERROR then Some ((e, key, ck), s2)
          else do {
            (sn, s3) \<leftarrow> go (GetBranch n loc) new_BtreeCacheNode s2;
            if cn_address sn \<noteq> 0 then do {
              ((e4, stack4, sn4), s4) \<leftarrow>
                csibling_walk gxBtreeMaxNodeReads (Push (cn_address cn) stack) sn s3;
              if e4 \<noteq> gxDBASE_NO_ERROR then Some ((e4, key, ck), s4)
              else do {
                (sib, sn5, s5) \<leftarrow> look sn4 s4;
                let key1 = (LoadKey sib 0)\<lparr>right_child := right_child ck\<rparr>;
                (sn6, s6) \<leftarrow> edit (\<lambda>n. DeleteDatabaseKey_node n 0) sn5 s5;
                (cn7, s7) \<leftarrow> put (\<lambda>n. OverWriteDatabaseKey n key1 loc) cn s6;
                (sn8, s8) \<leftarrow> SetDirty sn6 s7;
                (leaf, sn9, s9) \<leftarrow> look sn8 s8;
                r \<leftarrow> cbalance_leaf cmp key1 ck leaf (cn_address sn9) stack4
                       (on_tree (upd_header (add_keys (-1))) s9);
                cfinish_delete r
              }
            }
            else do {
              (cn4, s4) \<leftarrow> put (\<lambda>n. DeleteDatabaseKey_node n loc) cn s3;
              (leaf, cn5, s5) \<leftarrow> look cn4 s4;
              r \<leftarrow> cbalance_leaf cmp key ck leaf (cn_address cn5) stack
                     (on_tree (upd_header (add_keys (-1))) s5);
              cfinish_delete r
            }
          }
        }
      })"

definition Delete_c ::
  "compare_fun \<Rightarrow> DatabaseKeyB \<Rightarrow> DatabaseKeyB \<Rightarrow> cached_tree \<Rightarrow>
   ((int \<times> DatabaseKeyB \<times> DatabaseKeyB) \<times> cached_tree) option" where
  "Delete_c cmp key ck s = map_option finish_c (DeleteDatabaseKey_c cmp key ck s)"

section \<open>Fast deletion\<close>

text \<open>Down the left children, with the address of every node that was reached.\<close>

fun cfast_walk ::
  "nat \<Rightarrow> BtreeStack \<Rightarrow> BtreeCacheNode \<Rightarrow> cached_tree \<Rightarrow>
   ((gxDatabaseError \<times> BtreeStack \<times> BtreeCacheNode) \<times> cached_tree) option" where
  "cfast_walk k stack cn s = do {
     (n, cn1, s1) \<leftarrow> look cn s;
     if left_child n = 0 then Some ((gxDBASE_NO_ERROR, stack, cn1), s1)
     else (case k of
         0 \<Rightarrow> Some ((gxDBASE_BADBLOCK_ERROR, stack, cn1), set_error gxDBASE_BADBLOCK_ERROR s1)
       | Suc k' \<Rightarrow> do {
           (cn2, s2) \<leftarrow> go (left_child n) cn1 s1;
           if cn_address cn2 = 0
           then Some ((gxDBASE_CACHE_ERROR, [], cn2), set_error gxDBASE_CACHE_ERROR s2)
           else cfast_walk k' (Push (cn_address cn2) stack) cn2 s2
         })
   }"

declare cfast_walk.simps [simp del]

text \<open>The empty nodes above the one that was dropped: how many nodes are left, and the last one.\<close>

fun cremove_empty ::
  "BtreeStack \<Rightarrow> int \<Rightarrow> BtreeCacheNode \<Rightarrow> cached_tree \<Rightarrow>
   ((gxDatabaseError \<times> int \<times> BtreeCacheNode) \<times> cached_tree) option" where
  "cremove_empty [] num cn s = Some ((gxDBASE_NO_ERROR, num, cn), s)"
| "cremove_empty (a # stack) num cn s = do {
     (cn1, s1) \<leftarrow> go a cn s;
     if cn_address cn1 = 0
     then Some ((gxDBASE_CACHE_ERROR, num, cn1), set_error gxDBASE_CACHE_ERROR s1)
     else do {
       (n, cn2, s2) \<leftarrow> look cn1 s1;
       if \<not> IsEmpty n then Some ((gxDBASE_NO_ERROR, num, cn2), s2)
       else do {
         ((ok, cn3), s3) \<leftarrow> delete_cn cn2 s2;
         if \<not> ok then Some ((tree_error s3, num, cn3), s3)
         else cremove_empty stack (num - 1) cn3 (on_tree (upd_header (add_nodes (-1))) s3)
       }
     }
   }"

definition cpromote_fast ::
  "DatabaseKeyB \<Rightarrow> BtreeCacheNode \<Rightarrow> int \<Rightarrow> BtreeCacheNode \<Rightarrow> cached_tree \<Rightarrow> cupdated option" where
  "cpromote_fast ck parent key_location sibling s = do {
     (sib, sn1, s1) \<leftarrow> look sibling s;
     let k = LoadKey sib 0;
     let key = k\<lparr>right_child := right_child ck\<rparr>;
     (sn2, s2) \<leftarrow> edit (\<lambda>n. DeleteDatabaseKey_node (n\<lparr>left_child := right_child k\<rparr>) 0) sn1 s1;
     (pn1, s3) \<leftarrow> edit (\<lambda>n. OverWriteDatabaseKey n key key_location) parent s2;
     (sn3, s4) \<leftarrow> SetDirty sn2 s3;
     (pn2, s5) \<leftarrow> SetDirty pn1 s4;
     Some ((gxDBASE_NO_ERROR, key, ck), on_tree (upd_header (add_keys (-1))) s5)
   }"

definition cfast_unused ::
  "DatabaseKeyB \<Rightarrow> DatabaseKeyB \<Rightarrow> BtreeCacheNode \<Rightarrow> int \<Rightarrow> cached_tree \<Rightarrow> cupdated option" where
  "cfast_unused key ck parent key_location s = do {
     (pn, s1) \<leftarrow> put (\<lambda>n. DeleteDatabaseKey_node n key_location) parent s;
     (p, pn1, s2) \<leftarrow> look pn (on_tree (upd_header (add_keys (-1))) s1);
     if IsEmpty p \<and> cn_address pn1 = tree_root s2 then do {
       ((e, _), s3) \<leftarrow> CollapseRoot_cn pn1 s2;
       Some ((if e \<noteq> gxDBASE_NO_ERROR then tree_error s3 else gxDBASE_NO_ERROR, key, ck), s3)
     }
     else Some ((gxDBASE_NO_ERROR, key, ck), s2)
   }"

definition cfast_leaf ::
  "DatabaseKeyB \<Rightarrow> DatabaseKeyB \<Rightarrow> BtreeCacheNode \<Rightarrow> int \<Rightarrow> cached_tree \<Rightarrow> cupdated option" where
  "cfast_leaf key ck parent key_location s = do {
     (_, s1) \<leftarrow> put (\<lambda>n. DeleteDatabaseKey_node n key_location) parent s;
     cfinish_delete ((gxDBASE_NO_ERROR, key, ck), on_tree (upd_header (add_keys (-1))) s1)
   }"

definition FastDeleteDatabaseKey_c ::
  "compare_fun \<Rightarrow> DatabaseKeyB \<Rightarrow> DatabaseKeyB \<Rightarrow> cached_tree \<Rightarrow> cupdated option" where
  "FastDeleteDatabaseKey_c cmp key0 ck0 s0 =
     (if bt_f (fst s0) = None then Some ((gxDBASE_NULL_PTR, key0, ck0), s0)
      else do {
        let key = key0\<lparr>right_child := 0\<rparr>;
        (pn0, s1) \<leftarrow> go (tree_root s0) new_BtreeCacheNode s0;
        if cn_address pn0 = 0 then Some (ufail gxDBASE_CACHE_ERROR key ck0 s1)
        else do {
          ((e, n, loc, ck, _, pn), s2) \<leftarrow> cdelete_walk cmp gxBtreeMaxNodeReads key ck0 [] pn0 s1;
          if e \<noteq> gxDBASE_NO_ERROR then Some ((e, key, ck), s2)
          else do {
            (sn, s3) \<leftarrow> go (GetBranch n loc) new_BtreeCacheNode s2;
            if cn_address sn = 0 then cfast_leaf key ck pn loc s3
            else do {
              (sn4, s4) \<leftarrow> go (cn_address sn) sn s3;
              if cn_address sn4 = 0 then Some (ufail gxDBASE_CACHE_ERROR key ck s4)
              else do {
                ((e5, stack, sn5), s5) \<leftarrow>
                  cfast_walk gxBtreeMaxNodeReads (Push (cn_address sn) []) sn4 s4;
                if e5 \<noteq> gxDBASE_NO_ERROR then Some ((e5, key, ck), s5)
                else case Pop stack of (last_address, stack1) \<Rightarrow> do {
                  (an, s6) \<leftarrow> go last_address new_BtreeCacheNode s5;
                  (sib, sn7, s7) \<leftarrow> look sn5 s6;
                  if \<not> IsEmpty sib then cpromote_fast ck pn loc sn7 s7
                  else do {
                    ((ok, _), s8) \<leftarrow> delete_cn an s7;
                    if \<not> ok then Some ((tree_error s8, key, ck), s8)
                    else do {
                      ((e9, num, sn9), s9) \<leftarrow>
                        cremove_empty stack1 (int (length stack) - 1) sn7
                          (on_tree (upd_header (add_nodes (-1))) s8);
                      if e9 \<noteq> gxDBASE_NO_ERROR then Some ((e9, key, ck), s9)
                      else if num = 0 then cfast_unused key ck pn loc s9
                      else cpromote_fast ck pn loc sn9 s9
                    }
                  }
                }
              }
            }
          }
        }
      })"

definition FastDelete_c ::
  "compare_fun \<Rightarrow> DatabaseKeyB \<Rightarrow> DatabaseKeyB \<Rightarrow> cached_tree \<Rightarrow>
   ((int \<times> DatabaseKeyB \<times> DatabaseKeyB) \<times> cached_tree) option" where
  "FastDelete_c cmp key ck s = map_option finish_c (FastDeleteDatabaseKey_c cmp key ck s)"

section \<open>Changing a key\<close>

text \<open>
  The key is found through the cache node and overwritten in place with new values of the same
  order. \<open>ChangeOrAddKey\<close> inserts the old key when it is not found.
\<close>

definition change_found_c ::
  "compare_fun \<Rightarrow> DatabaseKeyB \<Rightarrow> cfound \<Rightarrow> cfound option" where
  "change_found_c cmp new_key_vals r =
     (case r of ((_, key, ck, cn), s) \<Rightarrow> do {
        (n, cn1, s1) \<leftarrow> look cn s;
        case FindKeyLocation cmp key ck n of (rv, loc, ck1) \<Rightarrow>
          if rv = 0 then do {
            (cn2, s2) \<leftarrow> put (\<lambda>n. OverWriteDatabaseKey n new_key_vals loc) cn1 s1;
            Some ((1, key, ck1, cn2), s2)
          }
          else Some ((0, key, ck1, cn1), s1)
      })"

definition ChangeKey_cn ::
  "compare_fun \<Rightarrow> DatabaseKeyB \<Rightarrow> DatabaseKeyB \<Rightarrow> DatabaseKeyB \<Rightarrow> BtreeCacheNode \<Rightarrow> cached_tree \<Rightarrow>
   cfound option" where
  "ChangeKey_cn cmp key new_key_vals ck cn s = do {
     r \<leftarrow> Find_cn cmp key ck cn s;
     if fst (fst r) = 0 then Some r else change_found_c cmp new_key_vals r
   }"

definition ChangeKey_c ::
  "compare_fun \<Rightarrow> DatabaseKeyB \<Rightarrow> DatabaseKeyB \<Rightarrow> DatabaseKeyB \<Rightarrow> cached_tree \<Rightarrow> cfound option" where
  "ChangeKey_c cmp key new_key_vals ck s = ChangeKey_cn cmp key new_key_vals ck new_BtreeCacheNode s"

definition ChangeOrAddKey_cn ::
  "compare_fun \<Rightarrow> DatabaseKeyB \<Rightarrow> DatabaseKeyB \<Rightarrow> DatabaseKeyB \<Rightarrow> BtreeCacheNode \<Rightarrow> cached_tree \<Rightarrow>
   cfound option" where
  "ChangeOrAddKey_cn cmp key new_key_vals ck cn s = do {
     ((rv, key1, ck1, cn1), s1) \<leftarrow> Find_cn cmp key ck cn s;
     if rv = 0 then do {
       ((rv2, key2, ck2), s2) \<leftarrow> Insert_c cmp key1 ck1 s1;
       Some ((rv2, key2, ck2, cn1), s2)
     }
     else change_found_c cmp new_key_vals ((rv, key1, ck1, cn1), s1)
   }"

definition ChangeOrAddKey_c ::
  "compare_fun \<Rightarrow> DatabaseKeyB \<Rightarrow> DatabaseKeyB \<Rightarrow> DatabaseKeyB \<Rightarrow> cached_tree \<Rightarrow> cfound option" where
  "ChangeOrAddKey_c cmp key new_key_vals ck s =
     ChangeOrAddKey_cn cmp key new_key_vals ck new_BtreeCacheNode s"

end
