(* ===== verification/BtCacheProps.thy ===== *)
theory BtCacheProps
  imports BtCacheFind BtCachedUpdate BtSearchProps
begin

text \<open>
  The properties of the node cache: the list operations, the search and the flush of a tree that is
  seen through a coherent cache, and two defects, the link that \<open>DemoteBucket\<close> leaves and the nodes
  that a flush leaves in the cache.
\<close>

section \<open>The bucket list\<close>

text \<open>
  C20: \<open>PromoteBucket\<close> moves a bucket to the front and \<open>DemoteBucket\<close> to the end of the list that the links of the
  buckets form, whatever its place, and they leave every node and dirty flag alone. The list is meant to be circular in
  both directions. A promotion makes it so, or leaves it as it is when the bucket is the first already. A demotion keeps it
  so just for the first and the last bucket: for one from the middle the head's link back is left at the old tail.
\<close>

theorem bucket_moves:
  assumes "ring c xs" "back_links c xs" "b \<in> set xs"
  shows "ring (PromoteBucket b c) (b # remove1 b xs) \<and> back_links (PromoteBucket b c) (b # remove1 b xs)
     \<and> (circular (PromoteBucket b c) (b # remove1 b xs) \<longleftrightarrow> b \<noteq> hd xs \<or> circular c xs)
     \<and> ring (DemoteBucket b c) (remove1 b xs @ [b]) \<and> back_links (DemoteBucket b c) (remove1 b xs @ [b])
     \<and> (circular c xs \<longrightarrow> (circular (DemoteBucket b c) (remove1 b xs @ [b]) \<longleftrightarrow> b = hd xs \<or> b = last xs))
     \<and> same_contents c (PromoteBucket b c) \<and> same_contents c (DemoteBucket b c)"
  using Promote_list [OF assms] Demote_list [OF assms] Promote_circular [OF assms] Demote_circular [OF _ assms(3)] by blast

theorem bucket_moves_witness:
  "circular (PromoteBucket 2 (new_BtreeCache 4 24 5)) [2, 0, 1, 3] \<and>
   ring (DemoteBucket 2 (new_BtreeCache 4 24 5)) [0, 1, 3, 2] \<and>
   \<not> circular (DemoteBucket 2 (new_BtreeCache 4 24 5)) [0, 1, 3, 2]"
proof -
  let ?c = "new_BtreeCache 4 24 5"
  have c: "circular ?c [0..<4]"
    using ConstructCache_list(1,2,3) [of 4 4 24 5 null_cache]
    by (auto simp: circular_def new_BtreeCache_def MIN_BTREECACHE_SEGMENTS_def)
  then have r: "ring ?c [0..<4]" "back_links ?c [0..<4]" "2 \<in> set [0..<4]" by (simp_all add: circular_def)
  have l: "2 # remove1 2 [0..<4] = [2, 0, 1, 3 :: nat]" "remove1 2 [0..<4] @ [2] = [0, 1, 3, 2 :: nat]"
    "hd [0..<4] = (0 :: nat)" "last [0..<4] = (3 :: nat)"
    by code_simp+
  show ?thesis using bucket_moves [OF r] c unfolding l by simp
qed

text \<open>
  So after a bucket from the middle of the list was demoted, a walk backwards from the tail goes on at the old tail and
  does not come round to the new one.
\<close>

lemma Demote_leaves_head_link:
  assumes "ring c xs" "back_links c xs" "b \<in> set xs" "b \<noteq> hd xs" "b \<noteq> last xs" "prv c (hd xs) = last xs"
  shows "cache_tail (DemoteBucket b c) = b \<and>
    prv (DemoteBucket b c) (cache_head (DemoteBucket b c)) = last xs"
proof -
  note D = Demote_list [OF assms(1-3)]
  obtain y ys where xs: "xs = y # ys" using assms(3) by (cases xs) auto
  then show ?thesis using D(1,4) assms(4-6) by (auto simp: ring_def)
qed

section \<open>A tree seen through the cache\<close>

definition cached_btree :: "compare_fun \<Rightarrow> int set \<Rightarrow> cached_tree \<Rightarrow> btree \<Rightarrow> bool" where
  "cached_btree cmp A s T \<longleftrightarrow>
     (let n = fresh_node (fst s) in
        cached_ready (key_size n) (node_order n) A s \<and> tree_seen (key_size n) (node_order n) A s T \<and>
        node_fit n \<and> addr_of T = tree_root s \<and> sorted_keys cmp (inorder T) \<and>
        depth_of T < gxBtreeMaxNodeReads \<and> T \<noteq> Tip)"

lemma cached_btree_kept:
  assumes "cached_btree cmp A s T" "cached_ready sz m A s'" "kept_tree sz m A s s'"
    and "sz = key_size (fresh_node (fst s))" "m = node_order (fresh_node (fst s))"
  shows "cached_btree cmp A s' T"
proof -
  have h: "btree_header (fst s') = btree_header (fst s)" using assms(3) by (simp add: kept_tree_def)
  then have f: "fresh_node (fst s') = fresh_node (fst s)" by (simp add: fresh_node_def)
  have "tree_seen sz m A s T" using assms(1,4,5) by (simp add: cached_btree_def Let_def)
  then have "tree_seen sz m A s' T" by (rule tree_seen_kept [OF _ assms(3)])
  then show ?thesis
    using assms(1,2,4,5) f h by (simp add: cached_btree_def Let_def tree_root_def)
qed

context key_search
begin

lemma Find_c_tree:
  assumes c: "cached_btree cmp A s T"
  shows "\<exists>rv key' ck' cn' s'. Find_c cmp key ck s = Some ((rv, key', ck', cn'), s') \<and>
    cached_btree cmp A s' T \<and>
    (if \<exists>k \<in> set (inorder T). cmp (db_key key) k = 0
     then rv = 1 \<and> db_key key' \<in> set (inorder T) \<and> cmp (db_key key) (db_key key') = 0
     else rv = 0 \<and> key' = key \<and> f_error (fst s') = gxDBASE_ENTRY_NOT_FOUND)"
proof -
  define sz m where z: "sz = key_size (fresh_node (fst s))" "m = node_order (fresh_node (fst s))"
  have r: "cached_ready sz m A s" and ts: "tree_seen sz m A s T" and root: "addr_of T = tree_root s"
    and srt: "sorted_keys cmp (inorder T)" and dep: "depth_of T \<le> gxBtreeMaxNodeReads" and ne: "T \<noteq> Tip"
    using c by (auto simp: cached_btree_def Let_def z)
  obtain a l es where T: "T = Br a l es" using ne by (cases T) auto
  have new: "cn_ok s new_BtreeCacheNode" by (simp add: cn_ok_def new_BtreeCacheNode_def)
  obtain cn1 s1 where G: "go (addr_of T) new_BtreeCacheNode s = Some (cn1, s1)" "cn_address cn1 = addr_of T"
    "bound s1 cn1" "cached_ready sz m A s1" "kept_tree sz m A s s1"
    using go_tree [OF r ts new] ne by metis
  have root1: "tree_root s1 = addr_of T" using G(5) root by (simp add: kept_tree_def tree_root_def)
  have ts1: "tree_seen sz m A s1 T" by (rule tree_seen_kept [OF ts G(5)])
  have se: "seen_at sz m s1 (cn_address cn1) (addr_of l) (map slot_of es)" using ts1 T G(2) by simp
  obtain n where L: "look cn1 s1 = Some (n, cn1, s1)" and n: "left_child n = addr_of l"
    "entries n = map slot_of es" "key_count n = int (length es)" and ok: "node_ok n"
    by (rule look_bound [OF G(4,3) se]) simp
  have a0: "addr_of T \<noteq> 0" using G(2,3) by (simp add: bound_def)
  obtain rv loc ck1 where F: "FindKeyLocation cmp key ck n = (rv, loc, ck1)" by (metis prod_cases3)
  have same: "go (addr_of T) cn1 s1 = Some (cn1, s1)"
  proof -
    have "cn1\<lparr>cn_address := addr_of T\<rparr> = cn1" by (simp flip: G(2))
    moreover have "Bind cn1 (snd s1, f) = Some (cn1, snd s1, f)" for f
      using G(3) by (auto simp: Bind_def bound_def bucket_at_def)
    ultimately have "Bind (cn1\<lparr>cn_address := addr_of T\<rparr>) (snd s1, f) = Some (cn1, snd s1, f)" for f
      by simp
    moreover have "(fst s1)\<lparr>bt_f := bt_f (fst s1)\<rparr> = fst s1" by simp
    ultimately show ?thesis
      using G(2) by (cases s1) (simp add: go_def via_cache_def assign_def)
  qed
  have f: "bt_f (fst s) \<noteq> None" using r by (simp add: cached_ready_def)
  have W: "\<exists>ck2. Find_c cmp key ck s =
      (if key_count n > 0 \<and> rv = 0 then Some ((1, LoadKey n loc, ck1, cn1), s1)
       else cfind_walk cmp gxBtreeMaxNodeReads key ck2 cn1 s1)"
    using f G(1,2) root root1 L F same a0
    by (auto simp: Find_c_def Find_cn_def new_BtreeCacheNode_def Let_def split: if_splits)
  then obtain ck2 where W: "Find_c cmp key ck s =
      (if key_count n > 0 \<and> rv = 0 then Some ((1, LoadKey n loc, ck1, cn1), s1)
       else cfind_walk cmp gxBtreeMaxNodeReads key ck2 cn1 s1)" by blast
  show ?thesis
  proof (cases "key_count n > 0 \<and> rv = 0")
    case True
    let ?i = "nat loc"
    have srt': "sorted_keys cmp (inorder (Br a l es))" using srt T by simp
    have K: "key_location_of cmp (db_key key) (map slot_of es) = (rv, loc)"
      using FindKeyLocation_spec(1) [OF ok _ F] sorted_children(1) [OF srt'] n(2) by simp
    have i: "loc = int ?i" "?i < length es" "cmp (db_key key) (fst (es ! ?i)) = 0"
      using K True by (auto simp: key_location_of_def Let_def slot_of_def split: if_splits)
    have "slot n loc = slot_of (es ! ?i)"
      using slot_entries [OF ok, of loc] i n(2,3) by simp
    then have key: "db_key (LoadKey n loc) = fst (es ! ?i)" by (simp add: LoadKey_def slot_of_def)
    have mem: "fst (es ! ?i) \<in> set (inorder T)" using items_key [OF i(2)] T by simp
    then have ex: "\<exists>k \<in> set (inorder T). cmp (db_key key) k = 0" using i(3) by blast
    show ?thesis
      unfolding W if_P [OF ex] if_P [OF True]
      using mem i(3) cached_btree_kept [OF c G(4,5) z] by (auto simp: key)
  next
    case False
    have "T \<noteq> Tip \<longrightarrow> bound s1 cn1" using G(3) by simp
    from cfind_walk_tree [OF G(4) ts1 G(2) this srt dep, of key ck2]
    obtain rv' key' ck' cn' s' where
      "cfind_walk cmp gxBtreeMaxNodeReads key ck2 cn1 s1 = Some ((rv', key', ck', cn'), s')"
      "cached_ready sz m A s'" "kept_tree sz m A s1 s'"
      "if \<exists>k \<in> set (inorder T). cmp (db_key key) k = 0
       then rv' = 1 \<and> db_key key' \<in> set (inorder T) \<and> cmp (db_key key) (db_key key') = 0
       else rv' = 0 \<and> key' = key \<and> f_error (fst s') = gxDBASE_ENTRY_NOT_FOUND" by blast
    then show ?thesis
      unfolding W if_not_P [OF False]
      using cached_btree_kept [OF c _ _ z] kept_tree_trans [OF G(5)] by (intro exI conjI) auto
  qed
qed

end

text \<open>C18: \<open>Find\<close> through a node cache is the lookup in the list of keys that the cache and the file
  together stand for, also when nodes are changed in the cache and not yet written: it loads the key
  that compares equal when there is one and says so when there is none. Evicted nodes are
  written back, so that the same tree is seen afterwards.\<close>

theorem cached_Find_is_lookup:
  assumes "cached_btree (rd_compare dup) A s T"
  shows "\<exists>rv key' ck' cn' s'. Find_c (rd_compare dup) key ck s = Some ((rv, key', ck', cn'), s') \<and>
    cached_btree (rd_compare dup) A s' T \<and>
    (if \<exists>k \<in> set (inorder T). rd_compare dup (db_key key) k = 0
     then rv = 1 \<and> db_key key' \<in> set (inorder T) \<and> rd_compare dup (db_key key) (db_key key') = 0
     else rv = 0 \<and> key' = key \<and> f_error (fst s') = gxDBASE_ENTRY_NOT_FOUND)"
  by (rule rd_node.Find_c_tree [OF assms])

section \<open>Flushing\<close>

definition all_clean :: "BtreeCache \<Rightarrow> nat list \<Rightarrow> bool" where
  "all_clean c us \<longleftrightarrow> (\<forall>j \<in> set us. bkt_address (bucket c j) = 0 \<or> \<not> is_dirty (bucket c j))"

lemma flush_from:
  assumes "coherent sz m A xs c db" "xs = us @ i # vs" "all_clean c us"
  shows "\<exists>c' db'. flush_loop i c db = Some (gxDBASE_NO_ERROR, c', db') \<and> coherent sz m A xs c' db' \<and>
    view_kept sz m A c db c' db' \<and> all_clean c' xs \<and> cache_on c' = cache_on c"
  using assms
proof (induction vs arbitrary: us i c db)
  case (Nil us i c db)
  have i: "i < length (buckets c)" using Nil by (auto simp: coherent_def ring_def)
  obtain b db' where F: "BtreeBucket_Flush (bucket c i) db = (gxDBASE_NO_ERROR, b, db')"
    "coherent sz m A xs (set_bucket i b c) db'" "bkt_address b = 0 \<or> \<not> is_dirty b"
    "view_kept sz m A c db (set_bucket i b c) db'"
    by (rule Flush_bucket [OF Nil(1) i])
  have w: "ready_for_writing db" using Nil(1) by (auto simp: coherent_def)
  have "nxt (set_bucket i b c) i = cache_head (set_bucket i b c)"
    using F(2) Nil(2) by (auto simp: coherent_def ring_def)
  then have "flush_loop i c db = Some (gxDBASE_NO_ERROR, set_bucket i b c, db')"
    using F(1) w by (subst flush_loop.simps) (simp add: flush_one_def nxt_def)
  moreover have "i \<notin> set us" using Nil by (auto simp: coherent_def ring_def)
  then have "all_clean (set_bucket i b c) xs"
    using Nil(2,3) F(3) i by (auto simp: all_clean_def bucket_set_bucket)
  ultimately show ?case using F by (auto simp: set_bucket_def)
next
  case (Cons v vs us i c db)
  have i: "i < length (buckets c)" using Cons.prems by (auto simp: coherent_def ring_def)
  obtain b db' where F: "BtreeBucket_Flush (bucket c i) db = (gxDBASE_NO_ERROR, b, db')"
    "coherent sz m A xs (set_bucket i b c) db'" "bkt_address b = 0 \<or> \<not> is_dirty b"
    "view_kept sz m A c db (set_bucket i b c) db'"
    by (rule Flush_bucket [OF Cons.prems(1) i])
  let ?c = "set_bucket i b c"
  have w: "ready_for_writing db" using Cons.prems(1) by (auto simp: coherent_def)
  have r: "ring ?c xs" using F(2) by (simp add: coherent_def)
  have "nxt ?c i = v" using r Cons.prems(2) by (simp add: ring_def path_append path_Cons)
  moreover have "v \<noteq> cache_head ?c" using r Cons.prems(2) by (cases us) (auto simp: ring_def)
  ultimately have E: "flush_loop i c db = flush_loop v ?c db'"
    using F(1) w by (subst flush_loop.simps) (simp add: flush_one_def nxt_def)
  have "i \<notin> set us" using Cons.prems by (auto simp: coherent_def ring_def)
  then have "all_clean ?c (us @ [i])"
    using Cons.prems(3) F(3) i by (auto simp: all_clean_def bucket_set_bucket)
  from Cons.IH [OF F(2) _ this] obtain c' db'' where
    "flush_loop v ?c db' = Some (gxDBASE_NO_ERROR, c', db'')" "coherent sz m A xs c' db''"
    "view_kept sz m A ?c db' c' db''" "all_clean c' xs" "cache_on c' = cache_on ?c"
    using Cons.prems(2) by auto
  then show ?case unfolding E using view_kept_trans [OF F(4)] by (auto simp: set_bucket_def)
qed

lemma clean_seen_holds:
  assumes "coherent sz m A xs c db" "all_clean c xs" "a \<noteq> 0" "seen sz m c (dbytes db) a lc es"
  shows "holds (dbytes db) a sz lc es \<and> int (length es) \<le> m"
proof (cases "\<exists>i. bucket_at c a i")
  case True
  then obtain i where i: "bucket_at c a i" by blast
  note b = bucket_of_seen [OF assms(1) i assms(3,4)]
  have "i \<in> set xs" using assms(1) i by (simp add: coherent_def ring_def bucket_at_def)
  then have "\<not> is_dirty (bucket c i)" using assms(2,3) i by (auto simp: all_clean_def bucket_at_def)
  moreover have "bucket_ok sz A (dbytes db) (bucket c i)"
    using assms(1,3) i by (auto simp: coherent_def bucket_at_def)
  ultimately show ?thesis using b entries_few [OF b(4)] by (auto simp: bucket_ok_def Let_def)
qed (use assms(4) in \<open>auto simp: seen_def\<close>)

lemma seen_tree_at:
  assumes "tree_seen sz m A s T" "coherent sz m A xs (snd s) (tree_db (fst s))" "all_clean (snd s) xs"
  shows "tree_at (dbytes (tree_db (fst s))) sz m T"
  using assms(1)
proof (induction T)
  case (Br a l es)
  have "0 < a" using Br.prems assms(2) by (auto simp: coherent_def apart_def)
  then have "holds (dbytes (tree_db (fst s))) a sz (addr_of l) (map slot_of es) \<and> int (length es) \<le> m"
    using clean_seen_holds [OF assms(2,3), of a "addr_of l" "map slot_of es"] Br.prems
    by (simp add: seen_at_def)
  with \<open>0 < a\<close> Br show ?case by (auto simp: snds.simps)
qed simp

text \<open>C19: flushing a coherent cache ends without an error and writes the tree that was seen through it
  to the file, where the functions that do not use the cache find it.\<close>

theorem cache_Flush_stores_tree:
  assumes "cached_btree cmp A s T"
  shows "\<exists>s'. via_cache Flush_cache s = Some (gxDBASE_NO_ERROR, s') \<and>
    stored_btree cmp (fst s') T \<and> cached_btree cmp A s' T"
proof -
  define sz m where z: "sz = key_size (fresh_node (fst s))" "m = node_order (fresh_node (fst s))"
  have r: "cached_ready sz m A s" and ts: "tree_seen sz m A s T"
    using assms by (auto simp: cached_btree_def Let_def z)
  obtain t c db xs where st: "s = (t, c)" "bt_f t = Some db" "cache_on c" "coherent sz m A xs c db"
    "tree_db t = db"
    using r by (cases s) (auto simp: cached_ready_def tree_db_def)
  have rg: "ring c xs" using st(4) by (simp add: coherent_def)
  obtain y ys where xs: "xs = y # ys" using rg by (cases xs) (auto simp: ring_def)
  obtain c' db' where F: "flush_loop y c db = Some (gxDBASE_NO_ERROR, c', db')" "coherent sz m A xs c' db'"
    "view_kept sz m A c db c' db'" "all_clean c' xs" "cache_on c' = cache_on c"
    using flush_from [OF st(4), of "[]" y ys] xs by (auto simp: all_clean_def)
  let ?s = "(t\<lparr>bt_f := Some db'\<rparr>, c')"
  have "cache_head c = y" using rg xs by (simp add: ring_def)
  then have V: "via_cache Flush_cache s = Some (gxDBASE_NO_ERROR, ?s)"
    using st F(1) ring_not_empty [OF rg] by (simp add: via_cache_def Flush_cache_def)
  have db: "tree_db (fst ?s) = db'" by (simp add: tree_db_def)
  have r': "cached_ready sz m A ?s" using F(2,5) st(3) by (auto simp: cached_ready_def tree_db_def)
  have k: "kept_tree sz m A s ?s" using F(3) st db by (auto simp: kept_tree_def seen_at_def view_kept_def)
  have cb: "cached_btree cmp A ?s T" by (rule cached_btree_kept [OF assms r' k z])
  have "tree_at (dbytes db') sz m T"
    using seen_tree_at [OF tree_seen_kept [OF ts k]] F(2,4) db by simp
  moreover have "fresh_node (t\<lparr>bt_f := Some db'\<rparr>) = fresh_node t" by (simp add: fresh_node_def)
  moreover have "readable db'" using F(2) by (auto simp: coherent_def)
  ultimately have "stored_btree cmp (fst ?s) T"
    using cb z st by (auto simp: stored_btree_def cached_btree_def Let_def tree_ready_def tree_db_def tree_root_def)
  with V cb show ?thesis by blast
qed

section \<open>A stored tree and a new cache\<close>

text \<open>A new cache holds nothing, so that a stored tree is seen through it as it is in the file.\<close>

fun nodes_of :: "btree \<Rightarrow> int list" where
  "nodes_of Tip = []"
| "nodes_of (Br a l es) = a # nodes_of l @ concat (map (\<lambda>e. nodes_of (snd e)) es)"

lemma ConstructCache_buckets:
  assumes "i < length (buckets (ConstructCache num sz order c))"
  shows "bkt_address (bucket (ConstructCache num sz order c) i) = 0"
    "8 \<le> sz \<Longrightarrow> order < 2 ^ 32 \<Longrightarrow> node_for sz (node_order (new_BtreeNode sz order)) (bkt_node (bucket (ConstructCache num sz order c) i))"
  using assms
  by (auto simp: ConstructCache_def InitCache_def Let_def bucket_def bkt_address_def node_for_def
      node_fit_def buffer_ok_def new_BtreeNode_def blank_slot_def nat_diff_distrib split: if_splits)

lemma tree_seen_new:
  assumes "tree_at (dbytes (tree_db t)) sz m T" "set (nodes_of T) \<subseteq> A" "\<And>a i. a \<in> A \<Longrightarrow> \<not> bucket_at c a i"
  shows "tree_seen sz m A (t, c) T"
  using assms(1,2)
proof (induction T)
  case (Br a l es)
  have "\<nexists>i. bucket_at c a i" using assms(3) Br.prems(2) by simp
  with Br.prems(1) have "seen_at sz m (t, c) a (addr_of l) (map slot_of es)"
    by (simp add: seen_at_def seen_def)
  moreover have "tree_seen sz m A (t, c) (snd e)" if "e \<in> set es" for e
  proof -
    have "set (nodes_of (snd e)) \<subseteq> A" using Br.prems(2) that by auto
    then show ?thesis using Br.IH(2) [of e "snd e"] Br.prems(1) that by (auto simp: snds.simps)
  qed
  ultimately show ?case using Br.IH(1) Br.prems by simp
qed simp

lemma new_cache_sees:
  assumes T: "stored_btree cmp t T" "T \<noteq> Tip" and A: "set (nodes_of T) \<subseteq> A"
    and ap: "apart (node_cap (key_size (fresh_node t)) (node_order (fresh_node t))) A (length (dbytes (tree_db t)))"
    and w: "writable (length (dbytes (tree_db t))) (tree_db t)" and o: "hdr_node_order (btree_header t) < 2 ^ 32"
  shows "cached_btree cmp A (t, new_BtreeCache_for n t) T"
proof -
  let ?sz = "key_size (fresh_node t)" and ?m = "node_order (fresh_node t)" and ?c = "new_BtreeCache_for n t"
  let ?n = "if n < MIN_BTREECACHE_SEGMENTS then MIN_BTREECACHE_SEGMENTS else n"
  have r: "ring ?c [0..<?n]" "back_links ?c [0..<?n]"
    using ConstructCache_list(1,2) [of ?n n] by (simp_all add: new_BtreeCache_for_def)
  have fit: "node_fit (fresh_node t)" "bt_f t \<noteq> None" using T stored_btree_parts(6) by (auto simp: stored_btree_def)
  have sz: "?sz = hdr_key_size (btree_header t)" "?m = node_order (new_BtreeNode ?sz (hdr_node_order (btree_header t)))"
    by (simp_all add: fresh_node_def new_BtreeNode_def Let_def)
  have sz8: "8 \<le> ?sz" using fit(1) by (simp add: node_fit_def)
  have b0: "bkt_address (bucket ?c i) = 0" if "i < length (buckets ?c)" for i
    using that ConstructCache_buckets(1) by (simp add: new_BtreeCache_for_def)
  have nf: "node_for ?sz ?m (bkt_node (bucket ?c i))" if "i < length (buckets ?c)" for i
    using that ConstructCache_buckets(2) [OF _ sz8 o] unfolding sz(2) by (simp add: new_BtreeCache_for_def sz(1))
  have no: "\<not> bucket_at ?c a i" if "a \<noteq> 0" for a i
    using that b0 by (auto simp: bucket_at_def)
  have "coherent ?sz ?m A [0..<?n] ?c (tree_db t)"
    unfolding coherent_def using r w ap sz8 nf b0 no by blast
  moreover have "cache_on ?c"
    using fit(2) by (simp add: new_BtreeCache_for_def ConstructCache_def InitCache_def null_cache_def Let_def)
  ultimately have "cached_ready ?sz ?m A (t, ?c)" using fit(2) by (auto simp: cached_ready_def)
  moreover have "tree_seen ?sz ?m A (t, ?c) T"
  proof (rule tree_seen_new [OF _ A])
    show "tree_at (dbytes (tree_db t)) ?sz ?m T" by (rule stored_btree_parts(2) [OF T(1)])
    show "\<not> bucket_at ?c a i" if "a \<in> A" for a i
      using ap that no by (force simp: apart_def)
  qed
  ultimately show ?thesis
    using T fit(1) by (auto simp: cached_btree_def stored_btree_def Let_def tree_root_def)
qed

text \<open>The sample tree with its nodes further apart, with a cache of three buckets.\<close>

definition wide_btree :: btree where
  "wide_btree =
     Br 10 (Br 120 Tip [(bkey 2, Tip), (bkey 4, Tip)]) [(bkey 6, Br 230 Tip [(bkey 8, Tip), (bkey 9, Tip)])]"

definition wide_bytes :: "byte list" where
  "wide_bytes = put_at (put_at (put_at (replicate 338 0) 10 (enc_node 120 [\<lparr>right_child = 230, db_key = bkey 6\<rparr>]))
     120 (enc_node 0 (sample_leaf [2, 4]))) 230 (enc_node 0 (sample_leaf [8, 9]))"

definition wide_tree :: gxBtree where
  "wide_tree = upd_header (\<lambda>h. h\<lparr>root := 10\<rparr>)
     (on_f (\<lambda>db. db\<lparr>fp := Some ((the (fp db))\<lparr>fdata := wide_bytes\<rparr>)\<rparr>) sample_tree)"

lemma wide_stored: "stored_btree (rd_compare True) wide_tree wide_btree"
  by code_simp

lemma wide_cached:
  "cached_btree (rd_compare True) {10, 120, 230} (wide_tree, new_BtreeCache_for 3 wide_tree) wide_btree"
proof (rule new_cache_sees [OF wide_stored])
  show "wide_btree \<noteq> Tip" by code_simp
  show "set (nodes_of wide_btree) \<subseteq> {10, 120, 230}" by (simp add: wide_btree_def)
  have "node_cap (key_size (fresh_node wide_tree)) (node_order (fresh_node wide_tree)) = 108" by code_simp
  moreover have "length (dbytes (tree_db wide_tree)) = 338" by code_simp
  ultimately show "apart (node_cap (key_size (fresh_node wide_tree)) (node_order (fresh_node wide_tree))) {10, 120, 230}
     (length (dbytes (tree_db wide_tree)))"
    by (simp add: apart_def)
  show "writable (length (dbytes (tree_db wide_tree))) (tree_db wide_tree)" by code_simp
  show "hdr_node_order (btree_header wide_tree) < 2 ^ 32" by code_simp
qed

theorem cached_Find_is_lookup_witness:
  "\<exists>key' ck' cn' s'. Find_c (rd_compare True) (sample_key 8) (sample_key 0) (wide_tree, new_BtreeCache_for 3 wide_tree) =
     Some ((1, key', ck', cn'), s')"
proof -
  have "inorder wide_btree = [bkey 2, bkey 4, bkey 6, bkey 8, bkey 9]" by code_simp
  then have "\<exists>k \<in> set (inorder wide_btree). rd_compare True (db_key (sample_key 8)) k = 0"
    by simp code_simp
  then show ?thesis
    using cached_Find_is_lookup [OF wide_cached, of "sample_key 8" "sample_key 0"] by auto
qed

theorem cache_Flush_stores_tree_witness:
  "\<exists>s'. via_cache Flush_cache (wide_tree, new_BtreeCache_for 3 wide_tree) = Some (gxDBASE_NO_ERROR, s') \<and>
     stored_btree (rd_compare True) (fst s') wide_btree"
  using cache_Flush_stores_tree [OF wide_cached] by blast

end
