(* ===== verification/StrUtil.thy ===== *)
theory StrUtil
  imports IntOps
begin

text \<open>
  The string helpers of \<open>src/include/strutil.h\<close>. A \<open>std::string\<close> is a \<open>string\<close>, whose characters are
  the 256 values of \<open>unsigned char\<close>; a position is a \<open>nat option\<close> with \<open>None\<close> for \<open>npos\<close>. The searches of
  \<open>std::string\<close>, the first and the last place of a pattern, come first. A function that edits its
  argument gives the new string, beside the value that it returns where that is used.
\<close>

section \<open>Searching\<close>

fun find_sub :: "'a list \<Rightarrow> 'a list \<Rightarrow> nat option" where
  "find_sub p [] = (if p = [] then Some 0 else None)"
| "find_sub p (c # cs) =
     (if List.take (length p) (c # cs) = p then Some 0 else map_option Suc (find_sub p cs))"

fun rfind_sub :: "'a list \<Rightarrow> 'a list \<Rightarrow> nat option" where
  "rfind_sub p [] = (if p = [] then Some 0 else None)"
| "rfind_sub p (c # cs) =
     (case rfind_sub p cs of
        Some i \<Rightarrow> Some (Suc i)
      | None \<Rightarrow> if List.take (length p) (c # cs) = p then Some 0 else None)"

section \<open>Characters\<close>

definition code_of :: "char \<Rightarrow> nat" where
  "code_of c = of_char c"

definition to_upper_char :: "char \<Rightarrow> char" where
  "to_upper_char c = (if 97 \<le> code_of c \<and> code_of c \<le> 122 then char_of (code_of c - 97 + 65) else c)"

definition to_lower_char :: "char \<Rightarrow> char" where
  "to_lower_char c = (if 65 \<le> code_of c \<and> code_of c \<le> 90 then char_of (code_of c - 65 + 97) else c)"

definition to_upper :: "string \<Rightarrow> string" where
  "to_upper s = map to_upper_char s"

definition to_lower :: "string \<Rightarrow> string" where
  "to_lower s = map to_lower_char s"

section \<open>Trimming and comparing\<close>

definition trim_left :: "string \<Rightarrow> string" where
  "trim_left s = dropWhile is_space s"

definition trim_right :: "string \<Rightarrow> string" where
  "trim_right s = rev (dropWhile is_space (rev s))"

definition trim :: "string \<Rightarrow> string" where
  "trim s = trim_right (trim_left s)"

definition iequals :: "string \<Rightarrow> string \<Rightarrow> bool" where
  "iequals a b \<longleftrightarrow> list_all2 (\<lambda>c d. to_lower_char c = to_lower_char d) a b"

text \<open>The search from a position, as the loop does it.\<close>

function ifind_loop :: "string \<Rightarrow> string \<Rightarrow> nat \<Rightarrow> nat option" where
  "ifind_loop s p i =
     (if i + length p \<le> length s then
        (if iequals (List.take (length p) (drop i s)) p then Some i else ifind_loop s p (Suc i))
      else None)"
  by pat_completeness auto
termination by (relation "measure (\<lambda>(s, p, i). Suc (length s) - i)") auto

definition ifind :: "string \<Rightarrow> string \<Rightarrow> nat \<Rightarrow> nat option" where
  "ifind s p pos =
     (if p = [] then (if pos \<le> length s then Some pos else None)
      else if length p > length s then None
      else ifind_loop s p pos)"

definition starts_with :: "string \<Rightarrow> string \<Rightarrow> bool" where
  "starts_with s p \<longleftrightarrow> length s \<ge> length p \<and> List.take (length p) s = p"

definition ends_with :: "string \<Rightarrow> string \<Rightarrow> bool" where
  "ends_with s p \<longleftrightarrow> length s \<ge> length p \<and> drop (length s - length p) s = p"

definition istarts_with :: "string \<Rightarrow> string \<Rightarrow> bool" where
  "istarts_with s p \<longleftrightarrow> length s \<ge> length p \<and> iequals (List.take (length p) s) p"

section \<open>Replacing and splitting\<close>

text \<open>\<open>replace_rest\<close> goes on behind the text that was put in.\<close>

function replace_rest :: "string \<Rightarrow> string \<Rightarrow> string \<Rightarrow> nat \<times> string" where
  "replace_rest s pat to =
     (case find_sub pat s of
        None \<Rightarrow> (0, s)
      | Some i \<Rightarrow>
          if pat = [] then (0, s)
          else (case replace_rest (drop (i + length pat) s) pat to of
                  (n, r) \<Rightarrow> (Suc n, List.take i s @ to @ r)))"
  by pat_completeness auto
termination
proof (relation "measure (\<lambda>(s, p, r). length s)")
  fix s pat to :: string and i
  assume "find_sub pat s = Some i" "pat \<noteq> []"
  then show "((drop (i + length pat) s, pat, to), s, pat, to) \<in> measure (\<lambda>(s, p, r). length s)"
    by (cases s) (auto split: if_splits)
qed simp

definition replace_all :: "string \<Rightarrow> string \<Rightarrow> string \<Rightarrow> nat \<times> string" where
  "replace_all s pat to = (if pat = [] then (0, s) else replace_rest s pat to)"

definition erase_char :: "string \<Rightarrow> char \<Rightarrow> string" where
  "erase_char s c = filter (\<lambda>ch. ch \<noteq> c) s"

function split :: "string \<Rightarrow> char \<Rightarrow> bool \<Rightarrow> string list" where
  "split s sep skip_empty =
     (let field = takeWhile (\<lambda>c. c \<noteq> sep) s;
          out = (if \<not> skip_empty \<or> field \<noteq> [] then [field] else [])
      in case dropWhile (\<lambda>c. c \<noteq> sep) s of
           [] \<Rightarrow> out
         | _ # rest \<Rightarrow> out @ split rest sep skip_empty)"
  by pat_completeness auto
termination
proof (relation "measure (\<lambda>(s, sep, skip). length s)")
  fix s :: string and sep c rest and skip_empty :: bool and field out
  assume "dropWhile (\<lambda>c. c \<noteq> sep) s = c # rest"
  then have "length (c # rest) \<le> length s" by (metis length_dropWhile_le)
  then show "((rest, sep, skip_empty), s, sep, skip_empty) \<in> measure (\<lambda>(s, sep, skip). length s)" by simp
qed simp

declare ifind_loop.simps [simp del] replace_rest.simps [simp del] split.simps [simp del]

definition parse_fields :: "string \<Rightarrow> char \<Rightarrow> string list" where
  "parse_fields s sep =
     (let s1 = trim_left s
      in if s1 = [] then []
         else let out = split s1 sep False
              in if out \<noteq> [] \<and> last out = [] then butlast out else out)"

section \<open>Numbers and buffers\<close>

text \<open>
  \<open>atoi\<close> converts to \<open>long\<close> and cuts the value to an \<open>int\<close>. The others saturate as \<open>strtoll\<close> and
  \<open>strtoull\<close> do.
\<close>

definition to_s32 :: "int \<Rightarrow> int" where
  "to_s32 x = (x + 2 ^ 31) mod 2 ^ 32 - 2 ^ 31"

definition to_int :: "string \<Rightarrow> int" where
  "to_int s = to_s32 (strtoll (takeWhile (\<lambda>c. c \<noteq> CHR 0x00) s))"

definition to_long :: "string \<Rightarrow> int" where
  "to_long s = strtoll (takeWhile (\<lambda>c. c \<noteq> CHR 0x00) s)"

definition to_ullong :: "string \<Rightarrow> int" where
  "to_ullong s = strtoull (takeWhile (\<lambda>c. c \<noteq> CHR 0x00) s)"

text \<open>
  \<open>copy_to\<close> leaves what is behind the null byte in the buffer; \<open>bounded_length\<close> is the length of the
  text in a buffer.
\<close>

definition copy_to :: "string \<Rightarrow> string \<Rightarrow> nat \<times> string" where
  "copy_to dest s =
     (if dest = [] then (0, dest)
      else let n = (if length s < length dest - 1 then length s else length dest - 1)
           in (n, List.take n s @ CHR 0x00 # drop (Suc n) dest))"

definition bounded_length :: "string \<Rightarrow> nat" where
  "bounded_length s = length (takeWhile (\<lambda>c. c \<noteq> CHR 0x00) s)"

section \<open>Editing in place\<close>

definition delete_before :: "string \<Rightarrow> string \<Rightarrow> string" where
  "delete_before s p = (case find_sub p s of None \<Rightarrow> s | Some i \<Rightarrow> drop i s)"

definition delete_before_including :: "string \<Rightarrow> string \<Rightarrow> string" where
  "delete_before_including s p = (case find_sub p s of None \<Rightarrow> s | Some i \<Rightarrow> drop (i + length p) s)"

definition delete_before_last :: "string \<Rightarrow> string \<Rightarrow> string" where
  "delete_before_last s p = (case rfind_sub p s of None \<Rightarrow> s | Some i \<Rightarrow> drop i s)"

definition delete_before_last_including :: "string \<Rightarrow> string \<Rightarrow> string" where
  "delete_before_last_including s p =
     (case rfind_sub p s of None \<Rightarrow> s | Some i \<Rightarrow> drop (i + length p) s)"

definition delete_after :: "string \<Rightarrow> string \<Rightarrow> string" where
  "delete_after s p = (case find_sub p s of None \<Rightarrow> s | Some i \<Rightarrow> List.take (i + length p) s)"

definition delete_after_including :: "string \<Rightarrow> string \<Rightarrow> string" where
  "delete_after_including s p = (case find_sub p s of None \<Rightarrow> s | Some i \<Rightarrow> List.take i s)"

definition delete_after_last :: "string \<Rightarrow> string \<Rightarrow> string" where
  "delete_after_last s p = (case rfind_sub p s of None \<Rightarrow> s | Some i \<Rightarrow> List.take (i + length p) s)"

definition delete_after_last_including :: "string \<Rightarrow> string \<Rightarrow> string" where
  "delete_after_last_including s p = (case rfind_sub p s of None \<Rightarrow> s | Some i \<Rightarrow> List.take i s)"

definition hexval :: "char \<Rightarrow> int" where
  "hexval c =
     (let n = int (code_of c)
      in if 48 \<le> n \<and> n \<le> 57 then n - 48
         else if 97 \<le> n \<and> n \<le> 102 then n - 97 + 10
         else if 65 \<le> n \<and> n \<le> 70 then n - 65 + 10
         else - 1)"

text \<open>The hexadecimal digits behind an escape character: their value and number.\<close>

fun hex_octets :: "nat \<Rightarrow> string \<Rightarrow> int \<Rightarrow> nat \<Rightarrow> int \<times> nat" where
  "hex_octets (Suc k) (c # cs) val n =
     (if hexval c < 0 then (val, n) else hex_octets k cs (val * 16 + hexval c) (Suc n))"
| "hex_octets _ _ val n = (val, n)"

function escape_loop :: "char \<Rightarrow> nat \<Rightarrow> string \<Rightarrow> nat \<times> string" where
  "escape_loop esc num_octets s =
     (case s of
        [] \<Rightarrow> (0, [])
      | c # cs \<Rightarrow>
          if c \<noteq> esc then (case escape_loop esc num_octets cs of (n, r) \<Rightarrow> (n, c # r))
          else (case cs of
                  d # ds \<Rightarrow>
                    if d = esc then (case escape_loop esc num_octets ds of (n, r) \<Rightarrow> (n, esc # r))
                    else (case hex_octets num_octets cs 0 0 of (val, k) \<Rightarrow>
                            if k = 0 then (case escape_loop esc num_octets cs of (n, r) \<Rightarrow> (n, c # r))
                            else (case escape_loop esc num_octets (drop k cs) of
                                    (n, r) \<Rightarrow> (Suc n, char_of (nat (val mod 256)) # r)))
                | [] \<Rightarrow> (0, [c])))"
  by pat_completeness auto
termination by (relation "measure (\<lambda>(e, k, s). length s)") auto

declare escape_loop.simps [simp del]

definition convert_escape_seq :: "string \<Rightarrow> char \<Rightarrow> nat \<Rightarrow> nat \<times> string" where
  "convert_escape_seq s esc num_octets = escape_loop esc num_octets s"

section \<open>Three-way comparisons\<close>

text \<open>\<open>std::string::compare\<close> and the order of byte vectors: unsigned characters, then the length.\<close>

fun lex_compare :: "nat list \<Rightarrow> nat list \<Rightarrow> int" where
  "lex_compare [] [] = 0"
| "lex_compare [] (_ # _) = - 1"
| "lex_compare (_ # _) [] = 1"
| "lex_compare (a # as) (b # bs) = (if a < b then - 1 else if a > b then 1 else lex_compare as bs)"

definition compare3 :: "string \<Rightarrow> string \<Rightarrow> int" where
  "compare3 a b = lex_compare (map code_of a) (map code_of b)"

definition is_zero :: "char \<Rightarrow> bool" where
  "is_zero c \<longleftrightarrow> c = CHR ''0''"

function natural_compare :: "string \<Rightarrow> string \<Rightarrow> bool \<Rightarrow> int" where
  "natural_compare a b check_case =
     (case (a, b) of
        (ca # as, cb # bs) \<Rightarrow>
          if is_digit ca \<and> is_digit cb then
            (let sa = dropWhile is_zero a; sb = dropWhile is_zero b;
                 da = takeWhile is_digit sa; db = takeWhile is_digit sb
             in if length da \<noteq> length db then (if length da < length db then - 1 else 1)
                else let r = compare3 da db
                     in if r \<noteq> 0 then (if r < 0 then - 1 else 1)
                        else natural_compare (dropWhile is_digit sa) (dropWhile is_digit sb) check_case)
          else (let x = (if check_case then ca else to_upper_char ca);
                    y = (if check_case then cb else to_upper_char cb)
                in if x \<noteq> y then (if code_of x < code_of y then - 1 else 1)
                   else natural_compare as bs check_case)
      | (_ # _, []) \<Rightarrow> 1
      | ([], _ # _) \<Rightarrow> - 1
      | ([], []) \<Rightarrow> 0)"
  by pat_completeness auto
termination
proof (relation "measure (\<lambda>(a, b, c). length a)", goal_cases)
  case (2 a b check_case x y ca as)
  then have "length (dropWhile is_digit (dropWhile is_zero a)) < length a"
    using length_dropWhile_le [of is_digit "dropWhile is_zero as"] length_dropWhile_le [of is_zero as]
      length_dropWhile_le [of is_digit as]
    by auto
  then show ?case using 2 by simp
qed auto

declare natural_compare.simps [simp del]

definition byte_nats :: "byte list \<Rightarrow> nat list" where
  "byte_nats b = map unat b"

definition buffer_compare :: "byte list \<Rightarrow> byte list \<Rightarrow> int" where
  "buffer_compare a b = lex_compare (byte_nats a) (byte_nats b)"

definition buffer_find :: "byte list \<Rightarrow> byte list \<Rightarrow> nat option" where
  "buffer_find haystack needle =
     (if needle = [] then Some 0
      else if length needle > length haystack then None
      else find_sub needle haystack)"


text \<open>Lemmas on the string helpers that the theories on texts share: trimming.\<close>

lemma trim_id: "s \<noteq> [] \<Longrightarrow> \<not> is_space (hd s) \<Longrightarrow> \<not> is_space (last s) \<Longrightarrow> trim s = s"
proof -
  assume a: "s \<noteq> []" "\<not> is_space (hd s)" "\<not> is_space (last s)"
  then have "trim_left s = s" by (cases s) (simp_all add: trim_left_def)
  moreover have "dropWhile is_space (rev s) = rev s" using a by (cases s rule: rev_cases) simp_all
  ultimately show ?thesis by (simp add: trim_def trim_right_def)
qed

lemma trim_ends: "trim s = s \<Longrightarrow> s \<noteq> [] \<Longrightarrow> \<not> is_space (hd s) \<and> \<not> is_space (last s)"
proof -
  assume s: "trim s = s" "s \<noteq> []"
  then have r: "rev s = dropWhile is_space (rev (trim_left s))" by (metis rev_rev_ident trim_def trim_right_def)
  have "dropWhile is_space (rev (trim_left s)) \<noteq> []" by (metis r rev_is_Nil_conv s(2))
  from hd_dropWhile [OF this] have l: "\<not> is_space (last s)" by (simp add: hd_rev flip: r)
  have "length s \<le> length (trim_left s)"
    using length_dropWhile_le [of is_space "rev (trim_left s)"] by (simp flip: r)
  moreover have "takeWhile is_space s @ trim_left s = s" by (simp add: trim_left_def)
  then have "length (takeWhile is_space s) + length (trim_left s) = length s" by (metis length_append)
  ultimately have "length (takeWhile is_space s) = 0" by linarith
  then have "takeWhile is_space s = []" by simp
  then have "\<not> is_space (hd s)" using s(2) by (cases s) (auto split: if_splits)
  with l show ?thesis by simp
qed

end
