(* ===== verification/Dates.thy ===== *)
theory Dates
  imports StrUtil IntProps
begin

text \<open>
  The date class \<open>CDate\<close> of \<open>src/src/cdate.cpp\<close> and \<open>src/include/cdate.h\<close>: the month and the day in a
  byte each and the year in a \<open>gxUINT16\<close>, four bytes in a date field of a record.
\<close>

record CDate =
  cd_Month :: int
  cd_Day :: int
  cd_Year :: int

definition new_CDate :: CDate where
  "new_CDate = \<lparr>cd_Month = 0, cd_Day = 0, cd_Year = 0\<rparr>"

definition CDate_of :: "int \<Rightarrow> int \<Rightarrow> int \<Rightarrow> CDate" where
  "CDate_of month day year = \<lparr>cd_Month = month, cd_Day = day, cd_Year = year\<rparr>"

definition enc_CDate :: "CDate \<Rightarrow> byte list" where
  "enc_CDate d = [word_of_int (cd_Month d), word_of_int (cd_Day d)] @ gxUINT16_UnPackBits (cd_Year d)"

definition dec_CDate :: "byte list \<Rightarrow> CDate" where
  "dec_CDate bs = CDate_of (uint (bs ! 0)) (uint (bs ! 1)) (gxUINT16_PackBits (bytes_at bs 2 2))"

definition sizeof_CDate :: nat where "sizeof_CDate = 4"

definition ok_CDate :: "CDate \<Rightarrow> bool" where
  "ok_CDate d \<longleftrightarrow> 0 \<le> cd_Month d \<and> cd_Month d < 256 \<and> 0 \<le> cd_Day d \<and> cd_Day d < 256 \<and>
     0 \<le> cd_Year d \<and> cd_Year d < 2 ^ 16"

interpretation date: codec enc_CDate dec_CDate 4 ok_CDate
  by unfold_locales
    (auto simp: enc_CDate_def dec_CDate_def CDate_of_def ok_CDate_def uint_byte_of_int u16.len u16.dec_enc
      bytes_at_def)

section \<open>Strings\<close>

definition month_str :: "CDate \<Rightarrow> string" where "month_str d = to_string (cd_Month d)"

definition day_str :: "CDate \<Rightarrow> string" where "day_str d = to_string (cd_Day d)"

definition year_str :: "CDate \<Rightarrow> string" where "year_str d = to_string (cd_Year d)"

definition CDate_str :: "CDate \<Rightarrow> string" where
  "CDate_str d = to_string (cd_Month d) @ ''/'' @ to_string (cd_Day d) @ ''/'' @ to_string (cd_Year d)"

definition CDate_insert :: "string \<Rightarrow> CDate \<Rightarrow> string" where
  "CDate_insert os d = os @ CDate_str d"

text \<open>The loop over the characters: the fields read so far, the field and the digits in it.\<close>

fun date_fields :: "char \<Rightarrow> string \<Rightarrow> int list \<Rightarrow> nat \<Rightarrow> nat \<Rightarrow> (int list \<times> nat \<times> nat) option" where
  "date_fields delimiter [] fs field digits = Some (fs, field, digits)"
| "date_fields delimiter (c # cs) fs field digits =
     (if c = delimiter then
        (if digits = 0 \<or> field + 1 > 2 then None else date_fields delimiter cs fs (field + 1) 0)
      else if \<not> is_digit c then None
      else if digits + 1 > 4 then None
      else date_fields delimiter cs
             (fs[field := fs ! field * 10 + (int (code_of c) - 48)]) field (digits + 1))"

definition SetDate :: "string \<Rightarrow> char \<Rightarrow> bool \<times> CDate" where
  "SetDate date delimiter =
     (case date_fields delimiter date [0, 0, 0] 0 0 of
        None \<Rightarrow> (False, new_CDate)
      | Some (fs, field, digits) \<Rightarrow>
          if field \<noteq> 2 \<or> digits = 0 then (False, new_CDate)
          else if fs ! 0 > 12 \<or> fs ! 1 > 31 then (False, new_CDate)
          else (True, CDate_of (fs ! 0) (fs ! 1) (fs ! 2)))"

definition CDate_assign :: "string \<Rightarrow> CDate" where
  "CDate_assign date = snd (SetDate date CHR ''/'')"

section \<open>Order\<close>

definition CDate_equal :: "CDate \<Rightarrow> CDate \<Rightarrow> bool" where
  "CDate_equal a b \<longleftrightarrow> cd_Year a = cd_Year b \<and> cd_Month a = cd_Month b \<and> cd_Day a = cd_Day b"

definition CDate_not_equal :: "CDate \<Rightarrow> CDate \<Rightarrow> bool" where
  "CDate_not_equal a b \<longleftrightarrow> \<not> CDate_equal a b"

definition CDate_less :: "CDate \<Rightarrow> CDate \<Rightarrow> bool" where
  "CDate_less a b \<longleftrightarrow>
     (if cd_Year a \<noteq> cd_Year b then cd_Year a < cd_Year b
      else if cd_Month a \<noteq> cd_Month b then cd_Month a < cd_Month b
      else cd_Day a < cd_Day b)"

definition CDate_greater :: "CDate \<Rightarrow> CDate \<Rightarrow> bool" where
  "CDate_greater a b \<longleftrightarrow> CDate_less b a"


text \<open>
  The text form of a date: which dates \<open>SetDate\<close> reads back from \<open>str\<close>.
\<close>

lemma length_dec_digits: "length (dec_digits n) \<le> Suc k \<longleftrightarrow> n < 10 ^ Suc k"
proof (induction n arbitrary: k rule: dec_digits.induct)
  case (1 n)
  show ?case
  proof (cases "n < 10")
    case True
    then show ?thesis by (subst dec_digits.simps) (simp add: less_le_trans)
  next
    case False
    show ?thesis
    proof (cases k)
      case 0
      then show ?thesis using False dec_digits_ne [of "n div 10"] by (subst dec_digits.simps) simp
    next
      case (Suc j)
      have "n div 10 < 10 ^ Suc j \<longleftrightarrow> n < 10 ^ Suc k"
        unfolding Suc by (simp add: div_less_iff_less_mult mult.commute)
      then show ?thesis using 1 [of j] False Suc by (subst dec_digits.simps) simp
    qed
  qed
qed

definition digits_from :: "int \<Rightarrow> string \<Rightarrow> int" where
  "digits_from v w = foldl (\<lambda>n c. n * 10 + (int (code_of c) - 48)) v w"

lemma digits_from_Cons [simp]:
  "digits_from v [] = v" "digits_from v (c # cs) = digits_from (v * 10 + (int (code_of c) - 48)) cs"
  by (simp_all add: digits_from_def)

lemma digits_from_value:
  "\<forall>c \<in> set w. is_digit c \<Longrightarrow> digits_from (int n) w = int (foldl (\<lambda>n c. 10 * n + (of_char c - 48)) n w)"
proof (induction w arbitrary: n)
  case (Cons c w)
  have "int n * 10 + (int (code_of c) - 48) = int (10 * n + (of_char c - 48))"
    using Cons.prems by (simp add: code_of_def is_digit_def of_nat_diff)
  then show ?case using Cons.IH [of "10 * n + (of_char c - 48)"] Cons.prems by (simp add: mult.commute)
qed simp

lemma digits_from_dec: "digits_from 0 (dec_digits n) = int n"
  using digits_from_value [of "dec_digits n" 0] dec_digits_digits [of n] digits_value_dec_digits [of n]
  by (simp add: digits_value_def)

lemma date_fields_word:
  assumes "\<not> is_digit d" "\<forall>c \<in> set w. is_digit c" "f < length fs" "k \<le> 4"
  shows "date_fields d (w @ rest) fs f k =
    (if k + length w \<le> 4 then date_fields d rest (fs[f := digits_from (fs ! f) w]) f (k + length w) else None)"
  using assms
proof (induction w arbitrary: fs k)
  case (Cons c w)
  have "c \<noteq> d" "is_digit c" using Cons.prems by auto
  then show ?case using Cons by (auto simp: Suc_le_eq)
qed (simp add: list_update_id)

lemma date_fields_number:
  assumes "f < length fs" "fs ! f = 0"
  shows "date_fields CHR ''/'' (dec_digits n @ rest) fs f 0 =
    (if n \<le> 9999 then date_fields CHR ''/'' rest (fs[f := int n]) f (length (dec_digits n)) else None)"
proof -
  have "\<not> is_digit CHR ''/''" by code_simp
  moreover have "length (dec_digits n) \<le> 4 \<longleftrightarrow> n \<le> 9999"
    using length_dec_digits [of n 3] by auto
  ultimately show ?thesis
    using date_fields_word [OF _ dec_digits_digits assms(1)] assms(2) digits_from_dec by simp
qed

text \<open>
  C40: the text form of a date is read back exactly. \<open>SetDate\<close> accepts what \<open>str\<close> writes when the month is
  at most 12, the day at most 31 and the year has at most four digits, and then gives the same date; any
  other date that the class can hold is refused and leaves 0/0/0. That is all that is checked: the function is said to
  return false for a text that is not a valid date, but 0/0/0 and 2/31/2024 are accepted.
\<close>

theorem SetDate_str:
  assumes "ok_CDate d"
  shows "SetDate (CDate_str d) CHR ''/'' =
    (if cd_Month d \<le> 12 \<and> cd_Day d \<le> 31 \<and> cd_Year d \<le> 9999 then (True, d) else (False, new_CDate))"
proof -
  obtain m day y where d: "d = CDate_of (int m) (int day) (int y)"
    using assms that [of "nat (cd_Month d)" "nat (cd_Day d)" "nat (cd_Year d)"]
    by (cases d) (simp add: ok_CDate_def CDate_of_def)
  have b: "m \<le> 9999" "day \<le> 9999"
    using assms by (auto simp: d ok_CDate_def CDate_of_def)
  have str: "CDate_str d = dec_digits m @ CHR ''/'' # dec_digits day @ CHR ''/'' # dec_digits y @ []"
    by (simp add: d CDate_str_def CDate_of_def to_string_def)
  have "date_fields CHR ''/'' (CDate_str d) [0, 0, 0] 0 0 =
    (if y \<le> 9999 then Some ([int m, int day, int y], 2, length (dec_digits y)) else None)"
    unfolding str using b by (simp add: date_fields_number dec_digits_ne del: append_Nil2)
  then show ?thesis
    using dec_digits_ne [of y] by (auto simp: SetDate_def d CDate_of_def)
qed

theorem SetDate_str_witness:
  "SetDate ''2/29/2024'' CHR ''/'' = (True, CDate_of 2 29 2024)"
proof -
  have "CDate_str (CDate_of 2 29 2024) = ''2/29/2024''" by code_simp
  then show ?thesis using SetDate_str [of "CDate_of 2 29 2024"] by (simp add: ok_CDate_def CDate_of_def)
qed

text \<open>Texts that are accepted and are no dates of the calendar.\<close>

lemma SetDate_accepts_no_dates:
  "SetDate ''0/0/0'' CHR ''/'' = (True, new_CDate)"
  "SetDate ''2/31/2024'' CHR ''/'' = (True, CDate_of 2 31 2024)"
  by code_simp+

end
