(* ===== verification/Base64.thy ===== *)
theory Base64
  imports StrUtil Headers
begin

text \<open>
  Base 64 and the basic authentication of HTTP, \<open>src/src/gxs_b64.cpp\<close>. Data are bytes, their encoding a
  text. An \<open>unsigned\<close> has 32 bits, and the accumulator of the decoder, which is never cleared, wraps around.
\<close>

unbundle bit_operations_syntax

section \<open>Encoding\<close>

definition gxsBase64Chars :: string where
  "gxsBase64Chars = ''ABCDEFGHIJKLMNOPQRSTUVWXYZabcdefghijklmnopqrstuvwxyz0123456789+/''"

definition b64_char :: "32 word \<Rightarrow> char" where
  "b64_char v = gxsBase64Chars ! unat (v AND 0x3F)"

definition b64_word :: "byte \<Rightarrow> byte \<Rightarrow> byte \<Rightarrow> 32 word" where
  "b64_word a b c = push_bit 16 (ucast a) OR push_bit 8 (ucast b) OR ucast c"

fun gxsBase64Encode :: "byte list \<Rightarrow> string" where
  "gxsBase64Encode (a # b # c # p) =
     (let v = b64_word a b c
      in [b64_char (drop_bit 18 v), b64_char (drop_bit 12 v), b64_char (drop_bit 6 v), b64_char v] @
         gxsBase64Encode p)"
| "gxsBase64Encode [a, b] =
     (let v = b64_word a b 0
      in [b64_char (drop_bit 18 v), b64_char (drop_bit 12 v), b64_char (drop_bit 6 v), CHR ''='']) "
| "gxsBase64Encode [a] =
     (let v = b64_word a 0 0 in [b64_char (drop_bit 18 v), b64_char (drop_bit 12 v), CHR ''='', CHR ''=''])"
| "gxsBase64Encode [] = []"

section \<open>Decoding\<close>

definition gxsBase64Value :: "char \<Rightarrow> int" where
  "gxsBase64Value c =
     (let n = int (code_of c)
      in if 65 \<le> n \<and> n \<le> 90 then n - 65
         else if 97 \<le> n \<and> n \<le> 122 then n - 97 + 26
         else if 48 \<le> n \<and> n \<le> 57 then n - 48 + 52
         else if c = CHR ''+'' then 62
         else if c = CHR ''/'' then 63
         else - 1)"

definition b64_space :: "char \<Rightarrow> bool" where
  "b64_space c \<longleftrightarrow> c = CHR '' '' \<or> c = CHR 0x09 \<or> c = CHR 0x0D \<or> c = CHR 0x0A"

fun b64_loop :: "string \<Rightarrow> 32 word \<Rightarrow> nat \<Rightarrow> nat \<Rightarrow> byte list \<Rightarrow> bool \<times> byte list" where
  "b64_loop [] v bits pad out = (pad \<le> 2, out)"
| "b64_loop (c # s) v bits pad out =
     (if b64_space c then b64_loop s v bits pad out
      else if c = CHR ''='' then b64_loop s v bits (pad + 1) out
      else if pad \<noteq> 0 then (False, out)
      else let d = gxsBase64Value c
           in if d < 0 then (False, out)
              else let v1 = push_bit 6 v OR word_of_int d
                   in if bits + 6 \<ge> 8
                      then b64_loop s v1 (bits + 6 - 8) pad (out @ [ucast (drop_bit (bits + 6 - 8) v1 AND 0xFF)])
                      else b64_loop s v1 (bits + 6) pad out)"

definition gxsBase64Decode :: "string \<Rightarrow> bool \<times> byte list" where
  "gxsBase64Decode s = b64_loop s 0 0 0 []"

section \<open>Basic authentication\<close>

definition gxsBasicAuthenticationEncode :: "string \<Rightarrow> string \<Rightarrow> string" where
  "gxsBasicAuthenticationEncode user passwd =
     ''Basic '' @ gxsBase64Encode (map byte_of_char (user @ CHR '':'' # passwd))"

text \<open>The user and the password beside the result.\<close>

definition gxsBasicAuthenticationDecode :: "string \<Rightarrow> bool \<times> string \<times> string" where
  "gxsBasicAuthenticationDecode value =
     (let val = dropWhile (\<lambda>c. c = CHR '' '' \<or> c = CHR 0x09) value
      in if length val < 6 then (False, [], [])
         else if \<not> list_all2 (\<lambda>c b. code_of c OR 0x20 = code_of b) (List.take 5 val) ''basic'' then (False, [], [])
         else if val ! 5 \<noteq> CHR '' '' then (False, [], [])
         else case gxsBase64Decode (drop 6 val) of (ok, creds) \<Rightarrow>
           if \<not> ok then (False, [], [])
           else let s = map char_of_byte creds
                in case find_sub [CHR '':''] s of
                     None \<Rightarrow> (False, [], [])
                   | Some colon \<Rightarrow> (True, List.take colon s, drop (colon + 1) s))"

section \<open>What is encoded is decoded\<close>

lemma b64_values: "map gxsBase64Value gxsBase64Chars = map int [0..<64]"
  by (simp add: gxsBase64Value_def gxsBase64Chars_def code_of_def upt_rec)

lemma b64_plain: "list_all (\<lambda>c. \<not> b64_space c \<and> c \<noteq> CHR ''='') gxsBase64Chars"
  by (simp add: b64_space_def gxsBase64Chars_def)

lemma b64_char_ok [simp]:
  "gxsBase64Value (b64_char v) = uint (v AND 0x3F)" "\<not> b64_space (b64_char v)" "b64_char v \<noteq> CHR ''=''"
proof -
  have "v AND 0x3F \<le> (0x3F :: 32 word)" by (rule word_and_le1)
  then have i: "unat (v AND 0x3F) < length gxsBase64Chars" "length gxsBase64Chars = 64"
    by (simp_all add: word_le_nat_alt gxsBase64Chars_def)
  then have "gxsBase64Value (gxsBase64Chars ! unat (v AND 0x3F)) = map int [0..<64] ! unat (v AND 0x3F)"
    by (metis b64_values nth_map)
  also have "\<dots> = uint (v AND 0x3F)" using i by simp
  finally show "gxsBase64Value (b64_char v) = uint (v AND 0x3F)" by (simp add: b64_char_def)
  show "\<not> b64_space (b64_char v)" "b64_char v \<noteq> CHR ''=''"
    using b64_plain i(1) by (auto simp: list_all_length b64_char_def)
qed

lemma b64_loop_spaces: "b64_loop (filter (\<lambda>c. \<not> b64_space c) s) v bits pad out = b64_loop s v bits pad out"
  by (induction s v bits pad out rule: b64_loop.induct) (auto simp: Let_def)

text \<open>The three bytes of a group, whatever the accumulator held before.\<close>

lemma b64_group:
  fixes v :: "32 word" and a b c :: byte
  defines "x \<equiv> b64_word a b c"
  defines "v1 \<equiv> push_bit 6 v OR (drop_bit 18 x AND 0x3F)"
  defines "v2 \<equiv> push_bit 6 v1 OR (drop_bit 12 x AND 0x3F)"
  defines "v3 \<equiv> push_bit 6 v2 OR (drop_bit 6 x AND 0x3F)"
  defines "v4 \<equiv> push_bit 6 v3 OR (x AND 0x3F)"
  shows "ucast (drop_bit 4 v2 AND 0xFF) = a" "ucast (drop_bit 2 v3 AND 0xFF) = b" "ucast (v4 AND 0xFF) = c"
proof -
  have below_eight: "n < LENGTH(8) \<Longrightarrow> n = 0 \<or> n = 1 \<or> n = 2 \<or> n = 3 \<or> n = 4 \<or> n = 5 \<or> n = 6 \<or> n = 7" for n
    by auto
  have high: "8 \<le> n \<Longrightarrow> \<not> bit y n" for y :: byte and n using bit_imp_le_length [of y n] by auto
  have m: "(0x3F :: 32 word) = mask 6" "(0xFF :: 32 word) = mask 8" by (simp_all add: mask_eq_exp_minus_1)
  show "ucast (drop_bit 4 v2 AND 0xFF) = a" "ucast (drop_bit 2 v3 AND 0xFF) = b" "ucast (v4 AND 0xFF) = c"
    unfolding x_def v1_def v2_def v3_def v4_def b64_word_def m
    by (rule bit_word_eqI, drule below_eight, elim disjE; simp add: bit_simps high)+
qed

lemma b64_loop_encoded: "b64_loop (gxsBase64Encode x) v 0 0 out = (True, out @ x)"
proof (induction x arbitrary: v out rule: gxsBase64Encode.induct)
  case (1 a b c p)
  then show ?case using b64_group [of v a b c] by (simp add: Let_def)
next
  case (2 a b)
  then show ?case using b64_group [of v a b 0] by (simp add: Let_def)
next
  case (3 a)
  then show ?case using b64_group [of v a 0 0] by (simp add: Let_def)
qed simp

text \<open>
  C39: what \<open>gxsBase64Encode\<close> makes of any bytes, with white space put in at any places, is decoded to these bytes.
  The encoding has four characters for each three bytes, begun or full.
\<close>

theorem base64_roundtrip:
  "(filter (\<lambda>c. \<not> b64_space c) s = gxsBase64Encode x \<longrightarrow> gxsBase64Decode s = (True, x)) \<and>
   length (gxsBase64Encode x) = (length x + 2) div 3 * 4"
proof
  show "filter (\<lambda>c. \<not> b64_space c) s = gxsBase64Encode x \<longrightarrow> gxsBase64Decode s = (True, x)"
    by (metis append_Nil b64_loop_encoded b64_loop_spaces gxsBase64Decode_def)
  show "length (gxsBase64Encode x) = (length x + 2) div 3 * 4"
  proof (induction x rule: gxsBase64Encode.induct)
    case (1 a b c p)
    have "(length (a # b # c # p) + 2) div 3 = (length p + 2) div 3 + 1" by simp
    with 1 show ?case by (simp add: Let_def)
  qed (simp_all add: Let_def)
qed

theorem base64_roundtrip_witness:
  "gxsBase64Decode ''Z m9v\<newline>Yg=='' = (True, [0x66, 0x6F, 0x6F, 0x62])"
proof -
  have "filter (\<lambda>c. \<not> b64_space c) ''Z m9v\<newline>Yg=='' = gxsBase64Encode [0x66, 0x6F, 0x6F, 0x62]" by code_simp
  then show ?thesis using base64_roundtrip [of "''Z m9v\<newline>Yg==''"] by blast
qed

text \<open>A password is recovered with its user when the user has no colon.\<close>

lemma basic_authentication_roundtrip:
  assumes "CHR '':'' \<notin> set user"
  shows "gxsBasicAuthenticationDecode (gxsBasicAuthenticationEncode user passwd) = (True, user, passwd)"
proof -
  have f: "find_sub [CHR '':''] (user @ CHR '':'' # passwd) = Some (length user)"
    using assms by (induction user) auto
  have c: "map char_of_byte (map byte_of_char xs) = xs" for xs by (induction xs) simp_all
  have b: "list_all2 (\<lambda>c b. code_of c OR 0x20 = code_of b) ''Basic'' ''basic''" by code_simp
  let ?e = "gxsBase64Encode (map byte_of_char (user @ CHR '':'' # passwd))"
  have d: "gxsBase64Decode ?e = (True, map byte_of_char (user @ CHR '':'' # passwd))"
    by (simp add: gxsBase64Decode_def b64_loop_encoded)
  show ?thesis
    unfolding gxsBasicAuthenticationDecode_def gxsBasicAuthenticationEncode_def Let_def
    using b d f c by (simp del: list_all2_Cons1)
qed

text \<open>The decoder also takes text that no encoding gives: a single character stands for no byte.\<close>

lemma base64_truncated: "gxsBase64Decode ''A'' = (True, [])" "gxsBase64Decode ''='' = (True, [])"
  by code_simp+

end
