(* ===== verification/Url.thy ===== *)
theory Url
  imports StrUtil IntProps
begin

text \<open>
  Uniform resource locators, \<open>src/src/gxsurl.cpp\<close>: the parts of a URL, the parser, and percent encoding. A
  \<open>string_view\<close> is the string that it shows; \<open>cut_at\<close> and \<open>cut_last\<close> stand for \<open>find\<close> and \<open>rfind\<close> of a character with
  the two \<open>substr\<close> around it.
\<close>

section \<open>The parts of a URL\<close>

record gxsURLInfo =
  scheme :: string
  url_user :: string
  url_passwd :: string
  url_host :: string
  url_port :: int
  port_given :: bool
  url_path :: string
  url_query :: string
  fragment :: string

definition cleared_URLInfo :: gxsURLInfo where
  "cleared_URLInfo = \<lparr>scheme = [], url_user = [], url_passwd = [], url_host = [], url_port = 0, port_given = False,
     url_path = [], url_query = [], fragment = []\<rparr>"

definition DefaultPort :: "string \<Rightarrow> int" where
  "DefaultPort sch =
     (let s = to_lower sch
      in if s = ''https'' \<or> s = ''wss'' then 443
         else if s = ''http'' \<or> s = ''ws'' then 80
         else if s = ''ftps'' then 990
         else if s = ''ftp'' then 21
         else if s = ''smtps'' then 465
         else if s = ''smtp'' then 25
         else if s = ''pop3s'' then 995
         else if s = ''pop3'' then 110
         else if s = ''imaps'' then 993
         else if s = ''telnet'' then 23
         else 0)"

definition IsSecure :: "gxsURLInfo \<Rightarrow> bool" where
  "IsSecure u \<longleftrightarrow> scheme u = ''https'' \<or> scheme u = ''ftps'' \<or> scheme u = ''wss'' \<or>
     scheme u = ''smtps'' \<or> scheme u = ''pop3s'' \<or> scheme u = ''imaps''"

section \<open>Percent encoding\<close>

definition unreserved :: "char \<Rightarrow> bool" where
  "unreserved c \<longleftrightarrow>
     (let n = code_of c
      in (65 \<le> n \<and> n \<le> 90) \<or> (97 \<le> n \<and> n \<le> 122) \<or> (48 \<le> n \<and> n \<le> 57) \<or>
         c = CHR ''-'' \<or> c = CHR ''.'' \<or> c = CHR ''_'' \<or> c = CHR ''~'')"

definition hex_char :: "nat \<Rightarrow> char" where
  "hex_char n = ''0123456789ABCDEF'' ! n"

fun Encode :: "string \<Rightarrow> string" where
  "Encode [] = []"
| "Encode (c # s) =
     (if unreserved c then c # Encode s
      else CHR ''%'' # hex_char (code_of c div 16) # hex_char (code_of c mod 16) # Encode s)"

definition plus_char :: "bool \<Rightarrow> char \<Rightarrow> char" where
  "plus_char plus_is_space c = (if plus_is_space \<and> c = CHR ''+'' then CHR '' '' else c)"

fun Decode :: "string \<Rightarrow> bool \<Rightarrow> string" where
  "Decode (c # a # b # s) plus_is_space =
     (if c = CHR ''%'' \<and> hexval a \<ge> 0 \<and> hexval b \<ge> 0
      then char_of (nat (hexval a * 16 + hexval b)) # Decode s plus_is_space
      else plus_char plus_is_space c # Decode (a # b # s) plus_is_space)"
| "Decode (c # s) plus_is_space = plus_char plus_is_space c # Decode s plus_is_space"
| "Decode [] plus_is_space = []"

section \<open>Writing a URL\<close>

definition PathAndQuery :: "gxsURLInfo \<Rightarrow> string" where
  "PathAndQuery u =
     (if url_path u = [] then ''/'' else url_path u) @ (if url_query u \<noteq> [] then CHR ''?'' # url_query u else [])"

definition HostAndPort :: "gxsURLInfo \<Rightarrow> string" where
  "HostAndPort u =
     (if CHR '':'' \<in> set (url_host u) then ''['' @ url_host u @ '']'' else url_host u) @
     (if port_given u \<and> url_port u \<noteq> DefaultPort (scheme u) then CHR '':'' # to_string (url_port u) else [])"

definition ToString :: "gxsURLInfo \<Rightarrow> string" where
  "ToString u =
     scheme u @ ''://'' @
     (if url_user u \<noteq> []
      then Encode (url_user u) @ (if url_passwd u \<noteq> [] then CHR '':'' # Encode (url_passwd u) else []) @ ''@''
      else []) @
     HostAndPort u @ PathAndQuery u"

section \<open>Parsing\<close>

text \<open>The text before a character, and the text behind it if it is there.\<close>

definition cut_at :: "char \<Rightarrow> string \<Rightarrow> string \<times> string option" where
  "cut_at c s =
     (takeWhile (\<lambda>x. x \<noteq> c) s, case dropWhile (\<lambda>x. x \<noteq> c) s of [] \<Rightarrow> None | _ # r \<Rightarrow> Some r)"

text \<open>The same at the last place of the character: without one there is no second part.\<close>

definition cut_last :: "char \<Rightarrow> string \<Rightarrow> string \<times> string option" where
  "cut_last c s =
     (case cut_at c (rev s) of
        (_, None) \<Rightarrow> (s, None)
      | (b, Some a) \<Rightarrow> (rev a, Some (rev b)))"

definition scheme_char :: "char \<Rightarrow> bool" where
  "scheme_char c \<longleftrightarrow>
     (let n = code_of c
      in (97 \<le> n \<and> n \<le> 122) \<or> (48 \<le> n \<and> n \<le> 57) \<or> c = CHR ''+'' \<or> c = CHR ''-'' \<or> c = CHR ''.'')"

fun port_value :: "string \<Rightarrow> int \<Rightarrow> int option" where
  "port_value [] port = Some port"
| "port_value (c # s) port =
     (if \<not> is_digit c then None
      else let p = port * 10 + (int (code_of c) - 48)
           in if p > 65535 then None else port_value s p)"

text \<open>From the host on: an empty host and a bad port end the parser with what it has so far.\<close>

definition parse_port :: "string \<Rightarrow> gxsURLInfo \<Rightarrow> bool \<times> gxsURLInfo" where
  "parse_port port_part u =
     (if url_host u = [] then (False, u)
      else let u1 = u\<lparr>url_host := to_lower (url_host u)\<rparr>
           in if port_part \<noteq> [] then
                (case port_value port_part 0 of
                   None \<Rightarrow> (False, u1)
                 | Some port \<Rightarrow>
                     if port = 0 then (False, u1) else (True, u1\<lparr>url_port := port, port_given := True\<rparr>))
              else (True, u1\<lparr>url_port := DefaultPort (scheme u1)\<rparr>))"

definition parse_host :: "string \<Rightarrow> gxsURLInfo \<Rightarrow> bool \<times> gxsURLInfo" where
  "parse_host authority u =
     (if authority \<noteq> [] \<and> hd authority = CHR ''['' then
        (case cut_at (CHR '']'') authority of
           (_, None) \<Rightarrow> (False, u)
         | (b, Some after) \<Rightarrow>
             let u1 = u\<lparr>url_host := tl b\<rparr>
             in if after = [] then parse_port [] u1
                else if hd after \<noteq> CHR '':'' then (False, u1)
                else parse_port (tl after) u1)
      else (case cut_last (CHR '':'') authority of
              (h, p) \<Rightarrow> parse_port (case p of None \<Rightarrow> [] | Some x \<Rightarrow> x) (u\<lparr>url_host := h\<rparr>)))"

definition parse_userinfo :: "string \<Rightarrow> gxsURLInfo \<Rightarrow> gxsURLInfo" where
  "parse_userinfo userinfo u =
     (case cut_at (CHR '':'') userinfo of
        (n, None) \<Rightarrow> u\<lparr>url_user := Decode n False\<rparr>
      | (n, Some w) \<Rightarrow> u\<lparr>url_user := Decode n False, url_passwd := Decode w False\<rparr>)"

definition Parse :: "string \<Rightarrow> bool \<times> gxsURLInfo" where
  "Parse s =
     (let url = trim s
      in case find_sub ''://'' url of
           None \<Rightarrow> (False, cleared_URLInfo)
         | Some p \<Rightarrow>
             if p = 0 then (False, cleared_URLInfo)
             else let u = cleared_URLInfo\<lparr>scheme := to_lower (List.take p url)\<rparr>
                  in if \<not> list_all scheme_char (scheme u) then (False, u)
                     else (case cut_at (CHR ''#'') (drop (p + 3) url) of (rest, frag) \<Rightarrow>
                           case cut_at (CHR ''?'') rest of (before_query, query) \<Rightarrow>
                           let u1 = u\<lparr>fragment := (case frag of None \<Rightarrow> [] | Some f \<Rightarrow> f),
                                     url_query := (case query of None \<Rightarrow> [] | Some q \<Rightarrow> q),
                                     url_path := dropWhile (\<lambda>c. c \<noteq> CHR ''/'') before_query\<rparr>;
                               authority = takeWhile (\<lambda>c. c \<noteq> CHR ''/'') before_query
                           in case cut_last (CHR ''@'') authority of
                                (h, None) \<Rightarrow> parse_host h u1
                              | (userinfo, Some h) \<Rightarrow> parse_host h (parse_userinfo userinfo u1)))"

section \<open>Relative locations\<close>

definition Resolve :: "gxsURLInfo \<Rightarrow> string \<Rightarrow> string" where
  "Resolve base location =
     (let loc = trim location
      in if find_sub ''://'' loc \<noteq> None then loc
         else let prefix = scheme base @ ''://'' @ HostAndPort base
              in if starts_with loc ''//'' then scheme base @ '':'' @ loc
                 else if starts_with loc ''/'' then prefix @ loc
                 else let dir = (if url_path base = [] then ''/'' else url_path base);
                          dir1 = (case rfind_sub ''/'' dir of None \<Rightarrow> [] | Some i \<Rightarrow> List.take (i + 1) dir)
                      in prefix @ dir1 @ loc)"

section \<open>What is written is parsed\<close>

lemma cut_at_simps [simp]:
  "c \<notin> set a \<Longrightarrow> cut_at c (a @ c # b) = (a, Some b)" "c \<notin> set a \<Longrightarrow> cut_at c a = (a, None)"
proof -
  assume c: "c \<notin> set a"
  then have "\<forall>x \<in> set a. x \<noteq> c" by auto
  then show "cut_at c (a @ c # b) = (a, Some b)" "cut_at c a = (a, None)"
    by (simp_all add: cut_at_def takeWhile_append2 dropWhile_append2 takeWhile_eq_all_conv [THEN iffD2]
        dropWhile_eq_Nil_conv [THEN iffD2])
qed

lemma cut_last_simps [simp]:
  "c \<notin> set b \<Longrightarrow> cut_last c (a @ c # b) = (a, Some b)" "c \<notin> set a \<Longrightarrow> cut_last c a = (a, None)"
  by (simp_all add: cut_last_def)

lemma hexval_hex_char: "n < 16 \<Longrightarrow> hexval (hex_char n) = int n"
proof -
  have "\<forall>n \<in> set [0..<16]. hexval (hex_char n) = int n"
    by (simp add: upt_rec hexval_def hex_char_def code_of_def)
  then show "n < 16 \<Longrightarrow> hexval (hex_char n) = int n" by simp
qed

lemma hex_char_unreserved: "n < 16 \<Longrightarrow> unreserved (hex_char n)"
proof -
  have "\<forall>n \<in> set [0..<16]. unreserved (hex_char n)"
    by (simp add: upt_rec unreserved_def hex_char_def code_of_def)
  then show "n < 16 \<Longrightarrow> unreserved (hex_char n)" by simp
qed

lemma code_of_less: "code_of c < 256"
  unfolding code_of_def by (rule nat_of_char_less_256)

lemma Decode_plain:
  assumes "c \<noteq> CHR ''%''"
  shows "Decode (c # s) False = c # Decode s False"
proof (cases s)
  case (Cons a r)
  then show ?thesis using assms by (cases r) (simp_all add: plus_char_def)
qed (simp add: plus_char_def)

lemma Decode_Encode: "Decode (Encode s) False = s"
proof (induction s)
  case (Cons c s)
  show ?case
  proof (cases "unreserved c")
    case True
    then have "c \<noteq> CHR ''%''" by (auto simp: unreserved_def code_of_def)
    with True Cons show ?thesis by (simp add: Decode_plain)
  next
    case False
    define n where "n = code_of c"
    have "n div 16 < 16" using code_of_less [of c] by (simp add: n_def)
    moreover have "nat (int (n div 16) * 16 + int (n mod 16)) = n" using div_mult_mod_eq [of n 16] by linarith
    moreover have "char_of n = c" by (simp add: n_def code_of_def)
    ultimately show ?thesis using False Cons by (simp add: hexval_hex_char flip: n_def)
  qed
qed simp

lemma Encode_chars: "x \<in> set (Encode s) \<Longrightarrow> unreserved x \<or> x = CHR ''%''"
proof (induction s)
  case (Cons c s)
  have "code_of c div 16 < 16" using code_of_less [of c] by simp
  moreover have "code_of c mod 16 < 16" by simp
  ultimately show ?case using Cons hex_char_unreserved by (auto split: if_splits)
qed simp

lemma Encode_not [simp]:
  "CHR ''@'' \<notin> set (Encode s)" "CHR '':'' \<notin> set (Encode s)" "CHR ''/'' \<notin> set (Encode s)"
  "CHR ''?'' \<notin> set (Encode s)" "CHR ''#'' \<notin> set (Encode s)"
  by (auto dest!: Encode_chars simp: unreserved_def code_of_def)

lemma port_value_bound: "port_value s p = Some q \<Longrightarrow> 0 \<le> p \<Longrightarrow> p \<le> q"
proof (induction s arbitrary: p)
  case (Cons c s)
  then have "p * 10 + (int (code_of c) - 48) \<le> q" "int (code_of c) \<ge> 48"
    by (auto simp: is_digit_def code_of_def Let_def split: if_splits)
  with Cons.prems(2) show ?case by simp
qed simp

lemma port_value_append: "port_value (a @ b) p = Option.bind (port_value a p) (port_value b)"
  by (induction a arbitrary: p) (auto simp: Let_def)

lemma port_value_digits: "n \<le> 65535 \<Longrightarrow> port_value (dec_digits n) 0 = Some (int n)"
proof (induction n rule: dec_digits.induct)
  case (1 n)
  have d: "m < 10 \<Longrightarrow> is_digit (char_of (48 + m)) \<and> code_of (char_of (48 + m)) = 48 + m" for m :: nat
    using is_digit_char [of m] of_char_digit [of m] by (simp add: code_of_def)
  show ?case
  proof (cases "n < 10")
    case True
    then show ?thesis using d [of n] by (subst dec_digits.simps) (simp add: Let_def)
  next
    case False
    then have "port_value (dec_digits (n div 10)) 0 = Some (int (n div 10))" using 1 by simp
    moreover have "int (n div 10) * 10 + int (n mod 10) = int n" using div_mult_mod_eq [of n 10] by linarith
    ultimately show ?thesis
      using False 1(2) d [of "n mod 10"] by (subst dec_digits.simps) (simp add: port_value_append Let_def)
  qed
qed

lemma find_sub_scheme: "CHR '':'' \<notin> set a \<Longrightarrow> find_sub ''://'' (a @ ''://'' @ b) = Some (length a)"
  by (induction a) auto

text \<open>The parts that can be written: no character that ends a part is in it, as it would be in a parsed URL.\<close>

definition url_ok :: "gxsURLInfo \<Rightarrow> bool" where
  "url_ok u \<longleftrightarrow>
     scheme u \<noteq> [] \<and> list_all scheme_char (scheme u) \<and>
     url_host u \<noteq> [] \<and> to_lower (url_host u) = url_host u \<and>
     list_all (\<lambda>c. c \<notin> {CHR ''/'', CHR ''?'', CHR ''#'', CHR ''@'', CHR ''['', CHR '']''}) (url_host u) \<and>
     (if port_given u then 0 < url_port u \<and> url_port u \<le> 65535 else url_port u = DefaultPort (scheme u)) \<and>
     (url_path u = [] \<or> hd (url_path u) = CHR ''/'') \<and>
     CHR ''?'' \<notin> set (url_path u) \<and> CHR ''#'' \<notin> set (url_path u) \<and> CHR ''#'' \<notin> set (url_query u) \<and>
     (url_user u = [] \<longrightarrow> url_passwd u = []) \<and> \<not> is_space (last (PathAndQuery u))"

lemma scheme_chars:
  assumes "list_all scheme_char s"
  shows "CHR '':'' \<notin> set s" "to_lower s = s" "s \<noteq> [] \<Longrightarrow> \<not> is_space (hd s)"
proof -
  have c: "scheme_char c \<Longrightarrow> c \<noteq> CHR '':'' \<and> to_lower_char c = c \<and> \<not> is_space c" for c
    by (auto simp: scheme_char_def to_lower_char_def is_space_def code_of_def Let_def)
  show "CHR '':'' \<notin> set s" using assms c by (auto simp: list_all_iff)
  show "to_lower s = s" using assms c by (auto simp: list_all_iff to_lower_def intro: map_idI)
  show "s \<noteq> [] \<Longrightarrow> \<not> is_space (hd s)" using assms c by (auto simp: list_all_iff)
qed

definition port_shown :: "gxsURLInfo \<Rightarrow> bool" where
  "port_shown u \<longleftrightarrow> port_given u \<and> url_port u \<noteq> DefaultPort (scheme u)"

lemma port_parsed:
  assumes ok: "url_ok u" and v: "scheme v = scheme u" "url_host v = url_host u"
  shows "parse_port (if port_shown u then to_string (url_port u) else []) v =
    (True, if port_shown u then v\<lparr>url_port := url_port u, port_given := True\<rparr> else v\<lparr>url_port := url_port u\<rparr>)"
proof -
  have h: "url_host u \<noteq> []" "v\<lparr>url_host := to_lower (url_host v)\<rparr> = v" using ok v by (simp_all add: url_ok_def)
  show ?thesis
  proof (cases "port_shown u")
    case True
    then have "0 < url_port u" "url_port u \<le> 65535" using ok by (auto simp: url_ok_def port_shown_def)
    then have "port_value (to_string (url_port u)) 0 = Some (url_port u)" "url_port u \<noteq> 0"
      using port_value_digits [of "nat (url_port u)"] by (simp_all add: to_string_def)
    then show ?thesis using True h v by (simp add: parse_port_def Let_def to_string_ne)
  next
    case False
    then have "DefaultPort (scheme u) = url_port u" using ok by (auto simp: url_ok_def port_shown_def split: if_splits)
    then show ?thesis using False h v by (simp add: parse_port_def Let_def)
  qed
qed

lemma to_string_chars: "c \<in> set (to_string v) \<Longrightarrow> is_digit c \<or> c = CHR ''-''"
  using dec_digits_digits by (auto simp: to_string_def split: if_splits)

lemma to_string_not [simp]:
  "CHR '':'' \<notin> set (to_string v)" "CHR ''/'' \<notin> set (to_string v)" "CHR ''?'' \<notin> set (to_string v)"
  "CHR ''#'' \<notin> set (to_string v)" "CHR ''@'' \<notin> set (to_string v)"
  by (auto dest!: to_string_chars simp: is_digit_def)

lemma host_parsed:
  assumes ok: "url_ok u" and v: "scheme v = scheme u"
  shows "parse_host (HostAndPort u) v =
    parse_port (if port_shown u then to_string (url_port u) else []) (v\<lparr>url_host := url_host u\<rparr>)"
proof -
  have h: "CHR '']'' \<notin> set (url_host u)" "CHR ''['' \<notin> set (url_host u)" "url_host u \<noteq> []"
    using ok by (auto simp: url_ok_def list_all_iff)
  let ?p = "if port_shown u then CHR '':'' # to_string (url_port u) else []"
  have H: "HostAndPort u = (if CHR '':'' \<in> set (url_host u) then ''['' @ url_host u @ '']'' else url_host u) @ ?p"
    by (simp add: HostAndPort_def port_shown_def)
  show ?thesis
  proof (cases "CHR '':'' \<in> set (url_host u)")
    case True
    then have "HostAndPort u = (CHR ''['' # url_host u) @ CHR '']'' # ?p" by (simp add: H)
    moreover have "cut_at (CHR '']'') ((CHR ''['' # url_host u) @ CHR '']'' # ?p) = (CHR ''['' # url_host u, Some ?p)"
      by (rule cut_at_simps) (simp add: h)
    ultimately show ?thesis by (simp add: parse_host_def)
  next
    case False
    have "hd (url_host u @ x) \<noteq> CHR ''[''" for x using h(2,3) by (cases "url_host u") auto
    moreover have "cut_last (CHR '':'') (url_host u @ ?p) =
        (url_host u, if port_shown u then Some (to_string (url_port u)) else None)"
      using False by simp
    ultimately show ?thesis using False h(3) by (simp add: parse_host_def H)
  qed
qed

text \<open>
  C38: a URL that is written from its parts is parsed into these parts: the user and the password with any
  characters, hosts that are IPv6 addresses, the path and the query. The fragment is not written, an
  empty path becomes a slash, and a port that is the default of the scheme is not seen as given.
\<close>

theorem url_roundtrip:
  assumes "url_ok u"
  shows "Parse (ToString u) = (True, u\<lparr>fragment := [], url_path := (if url_path u = [] then ''/'' else url_path u),
    port_given := port_given u \<and> url_port u \<noteq> DefaultPort (scheme u)\<rparr>)"
proof -
  let ?path = "if url_path u = [] then ''/'' else url_path u"
  let ?info = "if url_user u \<noteq> []
      then Encode (url_user u) @ (if url_passwd u \<noteq> [] then CHR '':'' # Encode (url_passwd u) else []) @ ''@'' else []"
  let ?auth = "?info @ HostAndPort u"
  have sch: "scheme u \<noteq> []" "list_all scheme_char (scheme u)" using assms by (auto simp: url_ok_def)
  note sc = scheme_chars [OF sch(2)]
  have T: "ToString u = scheme u @ ''://'' @ ?auth @ PathAndQuery u" by (simp add: ToString_def)
  have pq: "PathAndQuery u \<noteq> []" by (auto simp: PathAndQuery_def)
  have tr: "trim (ToString u) = ToString u"
    by (rule trim_id) (use sch sc(3) pq assms in \<open>auto simp: T url_ok_def\<close>)
  have h: "x \<notin> set (url_host u)" if "x \<in> {CHR ''/'', CHR ''?'', CHR ''#'', CHR ''@''}" for x
    using that assms by (auto simp: url_ok_def list_all_iff)
  have n: "CHR ''/'' \<notin> set (HostAndPort u)" "CHR ''?'' \<notin> set (HostAndPort u)"
    "CHR ''#'' \<notin> set (HostAndPort u)" "CHR ''@'' \<notin> set (HostAndPort u)"
    by (simp_all add: HostAndPort_def h)
  then have a: "CHR ''/'' \<notin> set ?auth" "CHR ''?'' \<notin> set ?auth" "CHR ''#'' \<notin> set ?auth" by simp_all
  have p: "CHR ''?'' \<notin> set ?path" "CHR ''#'' \<notin> set ?path" "CHR ''#'' \<notin> set (PathAndQuery u)" "hd ?path = CHR ''/''"
    "?path \<noteq> []" "PathAndQuery u = ?path @ (if url_query u \<noteq> [] then CHR ''?'' # url_query u else [])"
    using assms by (auto simp: url_ok_def PathAndQuery_def)
  have f: "find_sub ''://'' (ToString u) = Some (length (scheme u))"
    unfolding T by (rule find_sub_scheme [OF sc(1)])
  have d: "drop (length (scheme u) + 3) (ToString u) = ?auth @ PathAndQuery u" by (simp add: T)
  have c1: "cut_at (CHR ''#'') (?auth @ PathAndQuery u) = (?auth @ PathAndQuery u, None)"
    by (rule cut_at_simps) (use a(3) p(3) in auto)
  have c2: "cut_at (CHR ''?'') (?auth @ PathAndQuery u) =
      (?auth @ ?path, if url_query u \<noteq> [] then Some (url_query u) else None)"
    using cut_at_simps [of "CHR ''?''" "?auth @ ?path"] a(2) p(1) by (simp add: p(6))
  obtain r where r: "?path = CHR ''/'' # r" using p(4,5) by (cases "?path") auto
  have w: "takeWhile (\<lambda>c. c \<noteq> CHR ''/'') (?auth @ ?path) = ?auth" "dropWhile (\<lambda>c. c \<noteq> CHR ''/'') (?auth @ ?path) = ?path"
    unfolding r by (subst takeWhile_append2 dropWhile_append2; use a(1) in auto)+
  define auth where "auth = ?auth"
  define path where "path = ?path"
  let ?u = "cleared_URLInfo\<lparr>scheme := scheme u, fragment := [], url_query := url_query u, url_path := path\<rparr>"
  have q: "(case (if url_query u \<noteq> [] then Some (url_query u) else None) of None \<Rightarrow> [] | Some q \<Rightarrow> q) = url_query u"
    by simp
  have P: "Parse (ToString u) = (case cut_last (CHR ''@'') auth of (h, None) \<Rightarrow> parse_host h ?u
      | (userinfo, Some h) \<Rightarrow> parse_host h (parse_userinfo userinfo ?u))"
    unfolding Parse_def Let_def tr f option.case d c1 prod.case c2 w q
    unfolding T using sch(2) by (simp add: sch(1) sc(2) flip: auth_def path_def)
  let ?w = "?u\<lparr>url_user := url_user u, url_passwd := url_passwd u\<rparr>"
  have "Parse (ToString u) = parse_host (HostAndPort u) ?w"
  proof (cases "url_user u = []")
    case True
    then have "url_passwd u = []" "auth = HostAndPort u" using assms by (auto simp: url_ok_def auth_def)
    with True show ?thesis by (simp add: P n(4)) (simp add: cleared_URLInfo_def)
  next
    case False
    let ?i = "Encode (url_user u) @ (if url_passwd u \<noteq> [] then CHR '':'' # Encode (url_passwd u) else [])"
    have "auth = ?i @ CHR ''@'' # HostAndPort u" using False by (simp add: auth_def)
    then have "cut_last (CHR ''@'') auth = (?i, Some (HostAndPort u))" by (simp only: cut_last_simps n(4) not_False_eq_True)
    moreover have "parse_userinfo ?i ?u = ?w"
      by (simp add: parse_userinfo_def Decode_Encode cleared_URLInfo_def)
    ultimately show ?thesis by (simp only: P prod.case option.case)
  qed
  also have "\<dots> = (True, if port_shown u then ?w\<lparr>url_host := url_host u, url_port := url_port u, port_given := True\<rparr>
      else ?w\<lparr>url_host := url_host u, url_port := url_port u\<rparr>)"
    by (subst host_parsed [OF assms]; simp add: port_parsed [OF assms])
  finally show ?thesis by (auto simp: path_def port_shown_def cleared_URLInfo_def)
qed

definition sample_url :: gxsURLInfo where
  "sample_url = cleared_URLInfo\<lparr>scheme := ''https'', url_user := ''a@b'', url_passwd := ''c:'', url_host := ''::1'',
     url_port := 8443, port_given := True, url_path := ''/x'', url_query := ''y=1''\<rparr>"

theorem url_roundtrip_witness:
  "ToString sample_url = ''https://a%40b:c%3A@[::1]:8443/x?y=1'' \<and>
   Parse ''https://a%40b:c%3A@[::1]:8443/x?y=1'' = (True, sample_url)"
proof -
  have ok: "url_ok sample_url"
    by (simp add: url_ok_def sample_url_def cleared_URLInfo_def PathAndQuery_def scheme_char_def is_space_def
        to_lower_def to_lower_char_def code_of_def)
  have s: "ToString sample_url = ''https://a%40b:c%3A@[::1]:8443/x?y=1''"
    by (simp add: ToString_def sample_url_def cleared_URLInfo_def HostAndPort_def PathAndQuery_def DefaultPort_def
        to_lower_def to_lower_char_def code_of_def unreserved_def hex_char_def to_string_def dec_digits.simps char_of_def bit_0 bit_simps)
  have d: "DefaultPort (scheme sample_url) = 443"
    by (simp add: sample_url_def DefaultPort_def to_lower_def to_lower_char_def code_of_def)
  show ?thesis using url_roundtrip [OF ok] unfolding s d by (simp add: sample_url_def cleared_URLInfo_def)
qed

end
