(* ===== verification/Config.thy ===== *)
theory Config
  imports StrUtil FilePtr Headers
begin

text \<open>
  The configuration manager, \<open>src/src/gxconfig.cpp\<close>: parameters in a text file, one in a line. The streams of the
  C++ library work on the files of \<open>filesys\<close>; what is written to an output stream is buffered and
  reaches the file when the stream is closed, as far as the device has room for it, and an
  error at that point is not seen by the program.
\<close>

section \<open>The configuration object\<close>

record gxConfig =
  FileName :: string
  parm_ID :: string
  comment_char :: char
  filter_comments :: bool
  cfg_entries :: "(string \<times> string) list"

definition new_gxConfig :: "string \<Rightarrow> string \<Rightarrow> gxConfig" where
  "new_gxConfig n p_id =
     \<lparr>FileName = n, parm_ID = p_id, comment_char = CHR ''#'', filter_comments = True, cfg_entries = []\<rparr>"

section \<open>Text files\<close>

definition read_text :: "string \<Rightarrow> filesys \<Rightarrow> string option" where
  "read_text n fs = (if denied fs n then None else map_option (map char_of_byte) (files fs n))"

definition write_text :: "string \<Rightarrow> string \<Rightarrow> filesys \<Rightarrow> filesys" where
  "write_text n s fs =
     (if flush_fails fs then fs\<lparr>files := (files fs)(n \<mapsto> [])\<rparr>
      else fs\<lparr>files := (files fs)(n \<mapsto> List.take (capacity fs) (map byte_of_char s))\<rparr>)"

text \<open>\<open>std::getline\<close> until the stream has no more characters.\<close>

fun getlines_from :: "string \<Rightarrow> string \<Rightarrow> string list" where
  "getlines_from line [] = (if line = [] then [] else [line])"
| "getlines_from line (c # s) =
     (if c = CHR 0x0A then line # getlines_from [] s else getlines_from (line @ [c]) s)"

definition getlines :: "string \<Rightarrow> string list" where
  "getlines s = getlines_from [] s"

section \<open>Loading\<close>

definition StoreCfgData :: "string \<Rightarrow> gxConfig \<Rightarrow> gxConfig" where
  "StoreCfgData cfg_line g =
     (let buf = trim cfg_line
      in if buf = [] then g
         else if filter_comments g \<and> hd buf = comment_char g then g
         else if parm_ID g = [] then g
         else case find_sub (parm_ID g) buf of
                None \<Rightarrow> g
              | Some offset \<Rightarrow>
                  let name = trim (List.take offset buf);
                      value = trim_left (drop (offset + length (parm_ID g)) buf);
                      value1 = (if filter_comments g
                                then (case find_sub [CHR '' '', comment_char g] value of
                                        None \<Rightarrow> value
                                      | Some c \<Rightarrow> List.take c value)
                                else value)
                  in g\<lparr>cfg_entries := cfg_entries g @ [(name, trim value1)]\<rparr>)"

definition load_line :: "string \<Rightarrow> gxConfig \<Rightarrow> gxConfig" where
  "load_line line g =
     StoreCfgData (if line \<noteq> [] \<and> last line = CHR 0x0D then butlast line else line) g"

definition Load :: "filesys \<Rightarrow> gxConfig \<Rightarrow> bool \<times> gxConfig" where
  "Load fs g =
     (case read_text (FileName g) fs of
        None \<Rightarrow> (False, g)
      | Some s \<Rightarrow> (True, fold load_line (getlines s) g))"

definition Load_name :: "string \<Rightarrow> filesys \<Rightarrow> gxConfig \<Rightarrow> bool \<times> gxConfig" where
  "Load_name n fs g = Load fs (g\<lparr>FileName := n\<rparr>)"

definition UnLoad :: "gxConfig \<Rightarrow> gxConfig" where
  "UnLoad g = g\<lparr>cfg_entries := []\<rparr>"

definition ReLoad :: "filesys \<Rightarrow> gxConfig \<Rightarrow> bool \<times> gxConfig" where
  "ReLoad fs g = Load fs (UnLoad g)"

definition ReLoad_name :: "string \<Rightarrow> filesys \<Rightarrow> gxConfig \<Rightarrow> bool \<times> gxConfig" where
  "ReLoad_name n fs g = Load_name n fs (UnLoad g)"

section \<open>Reading values\<close>

fun find_value :: "(string \<times> string) list \<Rightarrow> string \<Rightarrow> bool \<Rightarrow> string option" where
  "find_value [] name full_name = None"
| "find_value (e # es) name full_name =
     (if (if full_name then fst e = name else find_sub name (fst e) \<noteq> None) then Some (snd e)
      else find_value es name full_name)"

definition FindValue :: "gxConfig \<Rightarrow> string \<Rightarrow> bool \<Rightarrow> string option" where
  "FindValue g name full_name = find_value (cfg_entries g) name full_name"

definition GetStrValue :: "gxConfig \<Rightarrow> string \<Rightarrow> bool \<Rightarrow> string option" where
  "GetStrValue g name full_name = map_option (takeWhile (\<lambda>c. c \<noteq> CHR 0x00)) (FindValue g name full_name)"

definition HasValue :: "gxConfig \<Rightarrow> string \<Rightarrow> bool \<Rightarrow> bool" where
  "HasValue g name full_name \<longleftrightarrow> GetStrValue g name full_name \<noteq> None"

definition GetString :: "gxConfig \<Rightarrow> string \<Rightarrow> string \<Rightarrow> bool \<Rightarrow> string" where
  "GetString g name default_value full_name =
     (case FindValue g name full_name of None \<Rightarrow> default_value | Some s \<Rightarrow> s)"

definition GetIntValue :: "gxConfig \<Rightarrow> string \<Rightarrow> bool \<Rightarrow> int" where
  "GetIntValue g name full_name = (case FindValue g name full_name of None \<Rightarrow> 0 | Some s \<Rightarrow> to_int s)"

definition GetLongValue :: "gxConfig \<Rightarrow> string \<Rightarrow> bool \<Rightarrow> int" where
  "GetLongValue g name full_name = (case FindValue g name full_name of None \<Rightarrow> 0 | Some s \<Rightarrow> to_long s)"

section \<open>Writing\<close>

definition AppendToFile :: "string \<Rightarrow> gxConfig \<Rightarrow> filesys \<Rightarrow> bool \<times> filesys" where
  "AppendToFile text g fs =
     (if denied fs (FileName g) then (False, fs)
      else (True, if flush_fails fs then fs\<lparr>files := (files fs)(FileName g \<mapsto>
                      (case files fs (FileName g) of None \<Rightarrow> [] | Some d \<Rightarrow> d))\<rparr>
                  else write_text (FileName g)
                    ((case files fs (FileName g) of None \<Rightarrow> [] | Some d \<Rightarrow> map char_of_byte d) @ text) fs))"

definition WriteLine_cfg :: "string \<Rightarrow> gxConfig \<Rightarrow> filesys \<Rightarrow> bool \<times> filesys" where
  "WriteLine_cfg s g = AppendToFile (s @ [CHR 0x0A]) g"

definition WriteConfigLine :: "string \<Rightarrow> string \<Rightarrow> gxConfig \<Rightarrow> filesys \<Rightarrow> bool \<times> filesys" where
  "WriteConfigLine parm value g = AppendToFile (parm @ parm_ID g @ value @ [CHR 0x0A]) g"

definition WriteCommentLine :: "string \<Rightarrow> gxConfig \<Rightarrow> filesys \<Rightarrow> bool \<times> filesys" where
  "WriteCommentLine s g = AppendToFile (comment_char g # CHR '' '' # s @ [CHR 0x0A]) g"

text \<open>One line of the file that is changed: the line, and whether the parameter was in it.\<close>

definition change_line :: "string \<Rightarrow> string \<Rightarrow> bool \<Rightarrow> gxConfig \<Rightarrow> string \<Rightarrow> string \<times> bool" where
  "change_line old new check_case g line =
     (case (if check_case then find_sub old line else ifind line old 0) of
        None \<Rightarrow> (line, False)
      | Some i \<Rightarrow>
          if find_sub (parm_ID g) line = None then (line, False)
          else let offset = i + length old
               in if offset < length line \<and>
                     (line ! offset = CHR '' '' \<or> List.take (length (parm_ID g)) (drop offset line) = parm_ID g)
                  then (List.take offset line @ parm_ID g @ new, True)
                  else (line, False))"

definition strip_eol :: "string \<Rightarrow> string" where
  "strip_eol raw = rev (dropWhile (\<lambda>c. c = CHR 0x0D \<or> c = CHR 0x0A) (rev raw))"

fun change_lines ::
  "string \<Rightarrow> string \<Rightarrow> bool \<Rightarrow> bool \<Rightarrow> gxConfig \<Rightarrow> string \<Rightarrow> string list \<Rightarrow> string list \<times> nat"
where
  "change_lines old new check_case append_lines g pending [] = (if pending = [] then [] else [pending], 0)"
| "change_lines old new check_case append_lines g pending (r # rs) =
     (let raw = strip_eol r
      in if append_lines \<and> raw \<noteq> [] \<and> last raw = CHR 0x5C
         then change_lines old new check_case append_lines g (pending @ raw @ [CHR 0x0A]) rs
         else (case change_line old new check_case g (pending @ raw) of (line, changed) \<Rightarrow>
               case change_lines old new check_case append_lines g [] rs of (ls, n) \<Rightarrow>
                 (line # ls, if changed then n + 1 else n)))"

definition ChangeConfigLine ::
  "string \<Rightarrow> string \<Rightarrow> bool \<Rightarrow> bool \<Rightarrow> gxConfig \<times> filesys \<Rightarrow> nat \<times> gxConfig \<times> filesys"
where
  "ChangeConfigLine old new check_case append_lines st =
     (case st of (g, fs) \<Rightarrow>
        case read_text (FileName g) fs of
          None \<Rightarrow> (0, g, fs)
        | Some s \<Rightarrow>
            (case change_lines old new check_case append_lines g [] (getlines s) of (ls, n) \<Rightarrow>
               if n = 0 then (0, g, fs)
               else if denied fs (FileName g) then (0, g, fs)
               else let fs1 = write_text (FileName g) (concat (map (\<lambda>l. l @ [CHR 0x0A]) ls)) fs
                    in (n, snd (ReLoad fs1 g), fs1)))"

definition ChangeConfigValue :: "string \<Rightarrow> string \<Rightarrow> gxConfig \<times> filesys \<Rightarrow> nat \<times> gxConfig \<times> filesys" where
  "ChangeConfigValue parm value st =
     (case ChangeConfigLine parm value True True st of (rv, g, fs) \<Rightarrow>
        if rv \<noteq> 0 then (rv, g, fs)
        else (case WriteConfigLine parm value g fs of (ok, fs1) \<Rightarrow>
                if \<not> ok then (0, g, fs1)
                else (1, g\<lparr>cfg_entries := cfg_entries g @ [(parm, value)]\<rparr>, fs1)))"

section \<open>What is written is loaded\<close>

text \<open>A parameter and a value that a line can hold.\<close>

definition parm_ok :: "gxConfig \<Rightarrow> string \<Rightarrow> string \<Rightarrow> bool" where
  "parm_ok g parm value \<longleftrightarrow>
     parm \<noteq> [] \<and> parm_ID g \<noteq> [] \<and> trim parm = parm \<and> trim value = value \<and> value \<noteq> [] \<and>
     (filter_comments g \<longrightarrow> hd parm \<noteq> comment_char g \<and> find_sub [CHR '' '', comment_char g] value = None) \<and>
     find_sub (parm_ID g) (parm @ parm_ID g @ value) = Some (length parm) \<and>
     CHR 0x0A \<notin> set (parm @ parm_ID g @ value)"

lemma getlines_from_append:
  "CHR 0x0A \<notin> set x \<Longrightarrow> getlines_from line (x @ [CHR 0x0A]) = [line @ x]"
  by (induction x arbitrary: line) auto

lemma getlines_from_line:
  "s = [] \<and> line = [] \<or> s \<noteq> [] \<and> last s = CHR 0x0A \<Longrightarrow> CHR 0x0A \<notin> set x \<Longrightarrow>
     getlines_from line (s @ x @ [CHR 0x0A]) = getlines_from line s @ [x]"
proof (induction s arbitrary: line)
  case Nil
  then show ?case using getlines_from_append [of x "[]"] by simp
next
  case (Cons c s)
  show ?case
  proof (cases "s = []")
    case True
    then show ?thesis using Cons.prems getlines_from_append [of x "[]"] by simp
  next
    case False
    then show ?thesis using Cons by simp
  qed
qed

lemma StoreCfgData_ok:
  assumes "parm_ok g parm value"
  shows "load_line (parm @ parm_ID g @ value) g = g\<lparr>cfg_entries := cfg_entries g @ [(parm, value)]\<rparr>"
proof -
  let ?b = "parm @ parm_ID g @ value"
  have e: "\<not> is_space (hd parm)" "\<not> is_space (hd value)" "\<not> is_space (last value)" "parm \<noteq> []" "value \<noteq> []"
    using assms trim_ends [of parm] trim_ends [of "value"] by (auto simp: parm_ok_def)
  then have t: "trim ?b = ?b" by (intro trim_id) auto
  have tl: "trim_left value = value" using e by (cases "value") (auto simp: trim_left_def)
  have r: "last ?b \<noteq> CHR 0x0D" using e by (auto simp: is_space_def)
  then have n: "(if ?b \<noteq> [] \<and> last ?b = CHR 0x0D then butlast ?b else ?b) = ?b" by simp
  have h: "hd ?b = hd parm" using e by simp
  show ?thesis
    using assms unfolding load_line_def n StoreCfgData_def Let_def t h
    by (simp add: parm_ok_def tl)
qed

text \<open>
  A parameter that \<open>WriteConfigLine\<close> writes to a file that is empty or ends with a full line is found by a
  \<open>ReLoad\<close>, behind all entries that the file had before and with just this value: a parameter that was not
  in the file is read as it was written.
\<close>

theorem config_line_roundtrip:
  assumes "parm_ok g parm value" and "\<not> denied fs (FileName g)" and "\<not> flush_fails fs"
    and "read_text (FileName g) fs = Some s" and "s = [] \<or> last s = CHR 0x0A"
    and "length (s @ parm @ parm_ID g @ value) < capacity fs"
  shows "\<exists>fs'. WriteConfigLine parm value g fs = (True, fs') \<and>
    ReLoad fs' g = (True, (snd (ReLoad fs g))\<lparr>cfg_entries := cfg_entries (snd (ReLoad fs g)) @ [(parm, value)]\<rparr>) \<and>
    (FindValue (snd (ReLoad fs g)) parm True = None \<longrightarrow> GetString (snd (ReLoad fs' g)) parm d True = value)"
proof -
  let ?x = "parm @ parm_ID g @ value"
  have c: "map char_of_byte (map byte_of_char xs) = xs" for xs by (induction xs) simp_all
  have l: "getlines (s @ ?x @ [CHR 0x0A]) = getlines s @ [?x]"
    using getlines_from_line [of s "[]" ?x] assms(1,5) by (cases "s = []") (auto simp: getlines_def parm_ok_def)
  obtain fs' where W: "WriteConfigLine parm value g fs = (True, fs')" by (simp add: WriteConfigLine_def AppendToFile_def assms(2))
  have old: "files fs (FileName g) = Some d \<Longrightarrow> map char_of_byte d = s" for d
    using assms(2,4) by (simp add: read_text_def)
  then have R: "read_text (FileName g) fs' = Some (s @ ?x @ [CHR 0x0A])"
    using W assms(2-4,6) c by (auto simp: WriteConfigLine_def AppendToFile_def write_text_def read_text_def)
  define g1 where "g1 = fold load_line (getlines s) (UnLoad g)"
  have f: "parm_ID (load_line y h) = parm_ID h \<and> filter_comments (load_line y h) = filter_comments h \<and>
      comment_char (load_line y h) = comment_char h" for y h
    by (simp add: load_line_def StoreCfgData_def Let_def split: option.splits)
  have "parm_ID (fold load_line ys h) = parm_ID h \<and> filter_comments (fold load_line ys h) = filter_comments h \<and>
      comment_char (fold load_line ys h) = comment_char h" for ys h
    by (induction ys arbitrary: h) (simp_all add: f)
  then have p: "parm_ID g1 = parm_ID g" "parm_ok g1 parm value"
    using assms(1) by (simp_all add: g1_def UnLoad_def parm_ok_def)
  have "fold load_line (getlines (s @ ?x @ [CHR 0x0A])) (UnLoad g) = g1\<lparr>cfg_entries := cfg_entries g1 @ [(parm, value)]\<rparr>"
    unfolding l using StoreCfgData_ok [OF p(2)] by (simp add: p(1) flip: g1_def)
  moreover have "FileName (UnLoad g) = FileName g" by (simp add: UnLoad_def)
  ultimately have L: "ReLoad fs g = (True, g1)"
    "ReLoad fs' g = (True, g1\<lparr>cfg_entries := cfg_entries g1 @ [(parm, value)]\<rparr>)"
    using assms(4) R by (simp_all only: ReLoad_def Load_def option.case g1_def)
  have "find_value es parm True = None \<Longrightarrow> find_value (es @ [(parm, value)]) parm True = Some value" for es
    by (induction es) (auto split: if_splits)
  then show ?thesis using W L by (auto simp: FindValue_def GetString_def)
qed

definition sample_config_fs :: filesys where
  "sample_config_fs = \<lparr>files = (\<lambda>n. if n = ''c'' then Some [97, 61, 49, 10] else None), denied = (\<lambda>_. False),
     capacity = 100, flush_fails = False\<rparr>"

theorem config_line_roundtrip_witness:
  "\<exists>fs'. WriteConfigLine ''b'' ''x y'' (new_gxConfig ''c'' ''='') sample_config_fs = (True, fs') \<and>
     cfg_entries (snd (ReLoad fs' (new_gxConfig ''c'' ''=''))) = [(''a'', ''1''), (''b'', ''x y'')]"
proof -
  let ?g = "new_gxConfig ''c'' ''=''"
  have p: "parm_ok ?g ''b'' ''x y''"
    by (simp add: parm_ok_def new_gxConfig_def trim_def trim_left_def trim_right_def is_space_def)
  have s: "read_text (FileName ?g) sample_config_fs = Some ''a=1\<newline>''" by code_simp
  have r: "cfg_entries (snd (ReLoad sample_config_fs ?g)) = [(''a'', ''1'')]" by code_simp
  have d: "\<not> denied sample_config_fs (FileName ?g)" "\<not> flush_fails sample_config_fs"
    "length (''a=1\<newline>'' @ ''b'' @ parm_ID ?g @ ''x y'') < capacity sample_config_fs"
    by (simp_all add: sample_config_fs_def new_gxConfig_def)
  show ?thesis using config_line_roundtrip [OF p d(1,2) s _ d(3), of "[]"] r by auto
qed

text \<open>
  \<open>ChangeConfigValue\<close> takes the name of a longer parameter that ends with its own for this parameter, and a
  line of comment for the parameter that it names.
\<close>

lemma change_line_suffix:
  "change_line ''Port'' ''1'' True (new_gxConfig n ''='') ''MyPort = 7'' = (''MyPort=1'', True)"
  "change_line ''Port'' ''1'' True (new_gxConfig n ''='') ''# Port = 7'' = (''# Port=1'', True)"
  by (simp_all add: change_line_def new_gxConfig_def Let_def)


text \<open>
  The definition files of the relational database, \<open>src/src/gxrdbdef.cpp\<close>: the lines from one with a tag on
  to one with the end mark, trimmed, without blank lines and comments, and of these the text between
  the braces. The messages have the time of the call, \<open>now k\<close> for the \<open>k\<close>th message, and the reason that the
  C library gives for a file that cannot be opened.
\<close>

section \<open>The lines of a definition\<close>

definition gxrdFormatMessage :: "string \<Rightarrow> string \<Rightarrow> string \<Rightarrow> string" where
  "gxrdFormatMessage now process_name mesg = now @ '' '' @ process_name @ '': '' @ mesg"

definition skipped_line :: "string \<Rightarrow> bool" where
  "skipped_line sbuf \<longleftrightarrow> (sbuf \<noteq> [] \<and> hd sbuf = CHR ''#'') \<or> sbuf = [] \<or> sbuf = '' ''"

text \<open>The marks that were found, start and end, and the text.\<close>

fun read_def_lines :: "string \<Rightarrow> string list \<Rightarrow> bool \<Rightarrow> string \<Rightarrow> bool \<times> bool \<times> string" where
  "read_def_lines TAG [] started def = (started, False, def)"
| "read_def_lines TAG (line # ls) started def =
     (let sbuf = trim line
      in if skipped_line sbuf then read_def_lines TAG ls started def
         else let started1 = (started \<or> ifind sbuf TAG 0 \<noteq> None)
              in if \<not> started1 then read_def_lines TAG ls False def
                 else if ifind sbuf ''};'' 0 \<noteq> None then (True, True, def @ sbuf)
                 else read_def_lines TAG ls True (def @ sbuf))"

section \<open>Reading a definition\<close>

definition def_error ::
  "(nat \<Rightarrow> string) \<Rightarrow> nat \<Rightarrow> string \<Rightarrow> string \<Rightarrow> string \<Rightarrow> string"
where
  "def_error now k process_name mesg reason =
     gxrdFormatMessage (now k) process_name mesg @ [CHR 0x0A] @ gxrdFormatMessage (now (k + 1)) process_name reason"

text \<open>
  The result, the definition, and the message. A missing mark leaves a message, and the result is true; the
  message of the end mark takes the place of that of the start mark.
\<close>

definition gxrdReadDefFile ::
  "(nat \<Rightarrow> string) \<Rightarrow> string \<Rightarrow> string \<Rightarrow> string \<Rightarrow> string \<Rightarrow> filesys \<Rightarrow> bool \<times> string \<times> string"
where
  "gxrdReadDefFile now reason filename process_name TAG fs =
     (case read_text filename fs of
        None \<Rightarrow> (False, [], def_error now 0 process_name (''Cannot open def file: '' @ filename) reason)
      | Some s \<Rightarrow>
          (case read_def_lines TAG (getlines s) False [] of (found_start_tag, found_end_tag, def) \<Rightarrow>
             let syntax_error = ''Syntax error in def file: '' @ filename;
                 e1 = (if found_start_tag then []
                       else def_error now 0 process_name syntax_error (TAG @ '' missing start tag in def file: '' @ filename));
                 e2 = (if found_end_tag then e1
                       else def_error now (if found_start_tag then 0 else 2) process_name syntax_error
                              (TAG @ '' missing end tag in def file: '' @ filename))
             in (True, delete_after_including (delete_before_including def ''{'') ''};'', e2)))"

section \<open>The kinds of definitions\<close>

definition gxrdReadTableDef ::
  "(nat \<Rightarrow> string) \<Rightarrow> string \<Rightarrow> string \<Rightarrow> string \<Rightarrow> filesys \<Rightarrow> bool \<times> string \<times> string"
where
  "gxrdReadTableDef now reason filename process_name fs = gxrdReadDefFile now reason filename process_name ''DEFINE TABLE'' fs"

definition gxrdReadKeyDef ::
  "(nat \<Rightarrow> string) \<Rightarrow> string \<Rightarrow> string \<Rightarrow> string \<Rightarrow> filesys \<Rightarrow> bool \<times> string \<times> string"
where
  "gxrdReadKeyDef now reason filename process_name fs = gxrdReadDefFile now reason filename process_name ''DEFINE KEYS'' fs"

definition gxrdReadFormDef ::
  "(nat \<Rightarrow> string) \<Rightarrow> string \<Rightarrow> string \<Rightarrow> string \<Rightarrow> filesys \<Rightarrow> bool \<times> string \<times> string"
where
  "gxrdReadFormDef now reason filename process_name fs = gxrdReadDefFile now reason filename process_name ''DEFINE FORM'' fs"

definition gxrdReadFKeyDef ::
  "(nat \<Rightarrow> string) \<Rightarrow> string \<Rightarrow> string \<Rightarrow> string \<Rightarrow> filesys \<Rightarrow> bool \<times> string \<times> string"
where
  "gxrdReadFKeyDef now reason filename process_name fs = gxrdReadDefFile now reason filename process_name ''DEFINE FKEYS'' fs"

definition gxrdReadUserDef ::
  "(nat \<Rightarrow> string) \<Rightarrow> string \<Rightarrow> string \<Rightarrow> string \<Rightarrow> filesys \<Rightarrow> bool \<times> string \<times> string"
where
  "gxrdReadUserDef now reason filename process_name fs = gxrdReadDefFile now reason filename process_name ''DEFINE USER ACCESS'' fs"

definition gxrdReadGroupDef ::
  "(nat \<Rightarrow> string) \<Rightarrow> string \<Rightarrow> string \<Rightarrow> string \<Rightarrow> filesys \<Rightarrow> bool \<times> string \<times> string"
where
  "gxrdReadGroupDef now reason filename process_name fs = gxrdReadDefFile now reason filename process_name ''DEFINE GROUP ACCESS'' fs"

section \<open>Several definitions of a file\<close>

text \<open>
  One after the other until one fails; the definitions that were read and the last message. The texts of
  those that were not reached stay what they were, and a definition that fails is empty. Each call has its own times.
\<close>

fun read_defs ::
  "(string \<Rightarrow> string \<Rightarrow> filesys \<Rightarrow> bool \<times> string \<times> string) list \<Rightarrow> string \<Rightarrow> string \<Rightarrow> filesys \<Rightarrow>
   string list \<Rightarrow> string \<Rightarrow> bool \<times> string list \<times> string"
where
  "read_defs (rd # rds) filename process_name fs (d # ds) e =
     (case rd filename process_name fs of (ok, def, e1) \<Rightarrow>
        if \<not> ok then (False, def # ds, e1)
        else (case read_defs rds filename process_name fs ds e1 of (ok2, defs, e2) \<Rightarrow> (ok2, def # defs, e2)))"
| "read_defs _ filename process_name fs ds e = (True, ds, e)"

definition gxrdReadDefFile_two ::
  "(nat \<Rightarrow> nat \<Rightarrow> string) \<Rightarrow> (nat \<Rightarrow> string) \<Rightarrow> string \<Rightarrow> string \<Rightarrow> filesys \<Rightarrow> string list \<Rightarrow> bool \<times> string list \<times> string"
where
  "gxrdReadDefFile_two now reason filename process_name fs ds =
     read_defs [gxrdReadTableDef (now 0) (reason 0), gxrdReadKeyDef (now 1) (reason 1)] filename process_name fs ds []"

definition gxrdReadDefFile_four ::
  "(nat \<Rightarrow> nat \<Rightarrow> string) \<Rightarrow> (nat \<Rightarrow> string) \<Rightarrow> string \<Rightarrow> string \<Rightarrow> filesys \<Rightarrow> string list \<Rightarrow> bool \<times> string list \<times> string"
where
  "gxrdReadDefFile_four now reason filename process_name fs ds =
     read_defs [gxrdReadTableDef (now 0) (reason 0), gxrdReadKeyDef (now 1) (reason 1),
       gxrdReadFormDef (now 2) (reason 2), gxrdReadFKeyDef (now 3) (reason 3)] filename process_name fs ds []"

definition gxrdReadDefFile_six ::
  "(nat \<Rightarrow> nat \<Rightarrow> string) \<Rightarrow> (nat \<Rightarrow> string) \<Rightarrow> string \<Rightarrow> string \<Rightarrow> filesys \<Rightarrow> string list \<Rightarrow> bool \<times> string list \<times> string"
where
  "gxrdReadDefFile_six now reason filename process_name fs ds =
     read_defs [gxrdReadTableDef (now 0) (reason 0), gxrdReadKeyDef (now 1) (reason 1),
       gxrdReadFormDef (now 2) (reason 2), gxrdReadFKeyDef (now 3) (reason 3),
       gxrdReadUserDef (now 4) (reason 4), gxrdReadGroupDef (now 5) (reason 5)] filename process_name fs ds []"

end
