(* ===== verification/RdTable.thy ===== *)
theory RdTable
  imports Dates Crc32 Headers
begin

text \<open>
  The persistent headers of the relational database, \<open>src/include/gxrdbhdr.h\<close> and the first part of
  \<open>src/src/gxrdbhdr.cpp\<close>: the header of a database, of a record and of a table with its fields, and the
  list of fields that are excluded from a record. A fixed character buffer is a \<open>string\<close> of its
  length, the application space a list of bytes; a pointer to an array is \<open>None\<close> when it is null. A
  \<open>char\<close> that is used as a number is signed. \<open>None\<close> as a result is a read outside an array.
\<close>

section \<open>Field types\<close>

datatype gxrdFIELD_TYPES =
    gxrdINVALID_TYPE | gxrdCHAR | gxrdINT16 | gxrdINT32 | gxrdINT64 | gxrdFLOAT | gxrdBOOL
  | gxrdVCHAR | gxrdBINARY | gxrdBLOB | gxrdCURRENCY | gxrdDATE

definition field_types :: "gxrdFIELD_TYPES list" where
  "field_types = [gxrdINVALID_TYPE, gxrdCHAR, gxrdINT16, gxrdINT32, gxrdINT64, gxrdFLOAT, gxrdBOOL,
     gxrdVCHAR, gxrdBINARY, gxrdBLOB, gxrdCURRENCY, gxrdDATE]"

definition gxrdFIELD_TYPES_STRINGS :: "string list" where
  "gxrdFIELD_TYPES_STRINGS = [''Invalid type'', ''CHAR'', ''INT16'', ''INT32'', ''INT64'', ''FLOAT'',
     ''BOOL'', ''VCHAR'', ''BINARY'', ''BLOB'', ''CURRENCY'', ''DATE'']"

definition gxrdNUM_FIELD_TYPES :: nat where "gxrdNUM_FIELD_TYPES = 12"

text \<open>The number of a type, and the type with a number, which a stored number need not have.\<close>

fun type_id :: "gxrdFIELD_TYPES \<Rightarrow> int" where
  "type_id gxrdINVALID_TYPE = 0" | "type_id gxrdCHAR = 1" | "type_id gxrdINT16 = 2"
| "type_id gxrdINT32 = 3" | "type_id gxrdINT64 = 4" | "type_id gxrdFLOAT = 5" | "type_id gxrdBOOL = 6"
| "type_id gxrdVCHAR = 7" | "type_id gxrdBINARY = 8" | "type_id gxrdBLOB = 9"
| "type_id gxrdCURRENCY = 10" | "type_id gxrdDATE = 11"

definition type_of_id :: "int \<Rightarrow> gxrdFIELD_TYPES option" where
  "type_of_id i = (if 0 \<le> i \<and> i < int gxrdNUM_FIELD_TYPES then Some (field_types ! nat i) else None)"

lemma type_of_type_id [simp]: "type_of_id (type_id t) = Some t"
  by (cases t) (simp_all add: type_of_id_def field_types_def gxrdNUM_FIELD_TYPES_def)

definition gxrdFieldTypeString :: "int \<Rightarrow> string option" where
  "gxrdFieldTypeString t =
     (let error = (if t > int gxrdNUM_FIELD_TYPES - 1 then 0 else t)
      in if error < 0 then None else Some (gxrdFIELD_TYPES_STRINGS ! nat error))"

definition tableFIELD_NAME_LEN :: nat where "tableFIELD_NAME_LEN = 255"
definition tableNAME_LEN :: nat where "tableNAME_LEN = 255"
definition tableDEF_LEN :: nat where "tableDEF_LEN = 2048"
definition tableAPPLICATION_SPACE :: nat where "tableAPPLICATION_SPACE = 64 * 255"
definition tableMIN_FIELDS :: int where "tableMIN_FIELDS = 1"
definition tableMAX_FIELDS :: int where "tableMAX_FIELDS = 255"

abbreviation nul :: char where "nul \<equiv> CHR 0x00"

definition zeros :: "nat \<Rightarrow> string" where "zeros n = replicate n nul"

text \<open>What \<open>memset\<close> and \<open>copy_to\<close> put in a buffer of \<open>n\<close> characters, and the text in a buffer.\<close>

definition set_text :: "nat \<Rightarrow> string \<Rightarrow> string" where
  "set_text n s = snd (copy_to (zeros n) s)"

definition text_of :: "string \<Rightarrow> string" where
  "text_of b = List.take (bounded_length b) b"

section \<open>The database header\<close>

record gxRDBMSHeader =
  file_id :: string
  file_version :: int

definition gxrdFILE_ID_STR_LEN :: nat where "gxrdFILE_ID_STR_LEN = 8"

definition new_gxRDBMSHeader :: gxRDBMSHeader where
  "new_gxRDBMSHeader = \<lparr>file_id = ''GXRDBMS'' @ [nul], file_version = 1027\<rparr>"

definition TestFileID :: "gxRDBMSHeader \<Rightarrow> gxRDBMSHeader \<Rightarrow> bool" where
  "TestFileID h ob \<longleftrightarrow>
     List.take (gxrdFILE_ID_STR_LEN - 1) (file_id h) = List.take (gxrdFILE_ID_STR_LEN - 1) (file_id ob)"

definition TestVersion :: "gxRDBMSHeader \<Rightarrow> gxRDBMSHeader \<Rightarrow> bool" where
  "TestVersion h ob \<longleftrightarrow> file_version h = file_version ob"

definition TestRevLetter :: "gxRDBMSHeader \<Rightarrow> gxRDBMSHeader \<Rightarrow> bool" where
  "TestRevLetter h ob \<longleftrightarrow>
     file_id h ! (gxrdFILE_ID_STR_LEN - 1) = file_id ob ! (gxrdFILE_ID_STR_LEN - 1)"

definition TestHeader :: "gxRDBMSHeader \<Rightarrow> gxRDBMSHeader \<Rightarrow> bool" where
  "TestHeader h ob \<longleftrightarrow>
     List.take gxrdFILE_ID_STR_LEN (file_id h) = List.take gxrdFILE_ID_STR_LEN (file_id ob) \<and>
     file_version h = file_version ob"

definition Clear_RDBMSHeader :: "gxRDBMSHeader \<Rightarrow> gxRDBMSHeader" where
  "Clear_RDBMSHeader h = h\<lparr>file_id := zeros gxrdFILE_ID_STR_LEN, file_version := 0\<rparr>"

section \<open>The record header\<close>

record gxrdRecordHeader =
  rh_table_id :: int
  rh_num_fields :: int

definition name_bytes :: "string \<Rightarrow> byte list" where
  "name_bytes s = map byte_of_char s"

definition GetCRC :: "string \<Rightarrow> int" where
  "GetCRC table_name = (if table_name = [] then 0 else calcCRC32 (name_bytes table_name))"

definition SetTableID :: "string \<Rightarrow> gxrdRecordHeader \<Rightarrow> gxrdRecordHeader" where
  "SetTableID table_name rh =
     (if table_name = [] then rh\<lparr>rh_table_id := 0\<rparr>
      else rh\<lparr>rh_table_id := calcCRC32 (name_bytes table_name)\<rparr>)"

definition new_gxrdRecordHeader :: gxrdRecordHeader where
  "new_gxrdRecordHeader = \<lparr>rh_table_id = 0, rh_num_fields = 0\<rparr>"

definition gxrdRecordHeader_for :: "string \<Rightarrow> int \<Rightarrow> gxrdRecordHeader" where
  "gxrdRecordHeader_for table_name nfields =
     (SetTableID table_name new_gxrdRecordHeader)\<lparr>rh_num_fields := to_u32 nfields\<rparr>"

definition TestTableID :: "string \<Rightarrow> gxrdRecordHeader \<Rightarrow> bool" where
  "TestTableID table_name rh \<longleftrightarrow> rh_table_id rh = GetCRC table_name"

definition sizeof_gxrdRecordHeader :: nat where "sizeof_gxrdRecordHeader = 8"

definition enc_gxrdRecordHeader :: "gxrdRecordHeader \<Rightarrow> byte list" where
  "enc_gxrdRecordHeader rh = gxUINT32_UnPackBits (rh_table_id rh) @ gxUINT32_UnPackBits (rh_num_fields rh)"

definition dec_gxrdRecordHeader :: "byte list \<Rightarrow> gxrdRecordHeader" where
  "dec_gxrdRecordHeader bs =
     \<lparr>rh_table_id = gxUINT32_PackBits (bytes_at bs 0 4), rh_num_fields = gxUINT32_PackBits (bytes_at bs 4 4)\<rparr>"

interpretation record_header: codec enc_gxrdRecordHeader dec_gxrdRecordHeader 8
  "\<lambda>rh. in_u32 (rh_table_id rh) \<and> in_u32 (rh_num_fields rh)"
  by unfold_locales
    (auto simp: enc_gxrdRecordHeader_def dec_gxrdRecordHeader_def u32.len u32.dec_enc bytes_at_def)

section \<open>The header of a table field\<close>

record gxrdTableHeaderField =
  field_type_id :: int
  format_specifier :: int
  column_length :: int
  array_length :: int
  field_name :: string

definition new_gxrdTableHeaderField :: gxrdTableHeaderField where
  "new_gxrdTableHeaderField = \<lparr>field_type_id = 0, format_specifier = 0, column_length = 0,
     array_length = 0, field_name = zeros tableFIELD_NAME_LEN\<rparr>"

definition Clear_field :: "gxrdTableHeaderField \<Rightarrow> gxrdTableHeaderField" where
  "Clear_field fh = fh\<lparr>field_type_id := 0, format_specifier := 0, column_length := 0,
     array_length := 0, field_name := zeros tableFIELD_NAME_LEN\<rparr>"

definition SizeOf_field_header :: int where
  "SizeOf_field_header = 1 + 1 + 4 + 4 + int tableFIELD_NAME_LEN"

definition VerifyFieldType :: "gxrdTableHeaderField \<Rightarrow> bool" where
  "VerifyFieldType fh =
     (case type_of_id (field_type_id fh) of
        None \<Rightarrow> False
      | Some t \<Rightarrow> (case t of
          gxrdCHAR \<Rightarrow> True | gxrdVCHAR \<Rightarrow> True | gxrdBOOL \<Rightarrow> True
        | gxrdINT16 \<Rightarrow> True | gxrdINT32 \<Rightarrow> True | gxrdINT64 \<Rightarrow> True
        | gxrdFLOAT \<Rightarrow> True | gxrdCURRENCY \<Rightarrow> True
        | gxrdBINARY \<Rightarrow> True | gxrdBLOB \<Rightarrow> True | gxrdDATE \<Rightarrow> True
        | gxrdINVALID_TYPE \<Rightarrow> False))"

text \<open>Whether a value of the other field's type can be stored in this field.\<close>

definition TestFieldType :: "gxrdTableHeaderField \<Rightarrow> gxrdTableHeaderField \<Rightarrow> bool \<Rightarrow> bool" where
  "TestFieldType fh ob strict_test =
     (if strict_test then field_type_id fh = field_type_id ob
      else if field_type_id fh = field_type_id ob then True
      else (let type2 = type_of_id (field_type_id ob)
            in case type_of_id (field_type_id fh) of
                 None \<Rightarrow> False
               | Some t \<Rightarrow> (case t of
                   gxrdBLOB \<Rightarrow> type2 = Some gxrdBLOB
                 | gxrdBOOL \<Rightarrow> type2 \<noteq> Some gxrdBLOB
                 | gxrdCHAR \<Rightarrow> type2 = Some gxrdCHAR \<or> type2 = Some gxrdVCHAR
                 | gxrdVCHAR \<Rightarrow> type2 = Some gxrdCHAR \<or> type2 = Some gxrdVCHAR
                 | gxrdINT16 \<Rightarrow> type2 = Some gxrdINT16
                 | gxrdINT32 \<Rightarrow> type2 = Some gxrdINT16 \<or> type2 = Some gxrdINT32
                 | gxrdINT64 \<Rightarrow> type2 = Some gxrdINT16 \<or> type2 = Some gxrdINT32 \<or> type2 = Some gxrdINT64
                 | gxrdFLOAT \<Rightarrow> type2 = Some gxrdFLOAT \<or> type2 = Some gxrdCURRENCY
                 | gxrdCURRENCY \<Rightarrow> type2 = Some gxrdFLOAT \<or> type2 = Some gxrdCURRENCY
                 | gxrdBINARY \<Rightarrow> type2 = Some gxrdBINARY
                 | gxrdDATE \<Rightarrow> type2 = Some gxrdDATE
                 | gxrdINVALID_TYPE \<Rightarrow> False)))"

definition TestFieldVars :: "gxrdTableHeaderField \<Rightarrow> gxrdTableHeaderField \<Rightarrow> bool" where
  "TestFieldVars fh ob \<longleftrightarrow>
     format_specifier fh = format_specifier ob \<and> array_length fh = array_length ob \<and>
     column_length fh = column_length ob \<and> text_of (field_name fh) = text_of (field_name ob)"


text \<open>
  Tables: the persistent table header with its array of fields, its text as a definition
  (\<open>TableDef\<close>), and \<open>CreateTable\<close>, which parses a definition such as
  \<open>people,name{20}VCHAR[30],age{3}INT16\<close> (\<open>src/src/gxrdbhdr.cpp\<close>). An array that \<open>new\<close> allocates is there;
  memory allocation does not fail.
\<close>

section \<open>The table header\<close>

record gxrdTableHeader =
  th_table_name :: string
  th_key_def :: string
  th_form_def :: string
  th_fkey_def :: string
  th_num_fields :: nat
  th_fields :: "gxrdTableHeaderField list option"
  th_app_space :: "byte list"

definition Clear_TableHeader :: "gxrdTableHeader \<Rightarrow> gxrdTableHeader" where
  "Clear_TableHeader h =
     (let h1 = h\<lparr>th_table_name := zeros tableNAME_LEN, th_key_def := zeros tableDEF_LEN,
                 th_form_def := zeros tableDEF_LEN, th_fkey_def := zeros tableDEF_LEN,
                 th_app_space := replicate tableAPPLICATION_SPACE 0\<rparr>
      in case th_fields h of
           None \<Rightarrow> h1\<lparr>th_num_fields := 0\<rparr>
         | Some fs \<Rightarrow> h1\<lparr>th_fields := Some (map Clear_field (List.take (th_num_fields h) fs) @ drop (th_num_fields h) fs)\<rparr>)"

definition new_gxrdTableHeader :: gxrdTableHeader where
  "new_gxrdTableHeader = Clear_TableHeader
     \<lparr>th_table_name = [], th_key_def = [], th_form_def = [], th_fkey_def = [], th_num_fields = 0,
      th_fields = None, th_app_space = []\<rparr>"

definition DestroyHeader :: "gxrdTableHeader \<Rightarrow> gxrdTableHeader" where
  "DestroyHeader h = h\<lparr>th_fields := None, th_num_fields := 0\<rparr>"

definition AllocHeader :: "int \<Rightarrow> gxrdTableHeader \<Rightarrow> gxrdTableHeader" where
  "AllocHeader nfields h =
     (let n1 = (if nfields \<le> 0 then tableMIN_FIELDS else nfields);
          n2 = (if n1 > tableMAX_FIELDS then tableMAX_FIELDS else n1)
      in (DestroyHeader h)\<lparr>th_num_fields := nat n2,
           th_fields := Some (replicate (nat n2) new_gxrdTableHeaderField),
           th_app_space := replicate tableAPPLICATION_SPACE 0\<rparr>)"

definition gxrdTableHeader_of :: "int \<Rightarrow> gxrdTableHeader" where
  "gxrdTableHeader_of nfields = AllocHeader nfields new_gxrdTableHeader"

definition Copy_TableHeader :: "gxrdTableHeader \<Rightarrow> gxrdTableHeader \<Rightarrow> gxrdTableHeader" where
  "Copy_TableHeader ob h =
     (let h1 = DestroyHeader (h\<lparr>th_table_name := th_table_name ob, th_key_def := th_key_def ob,
                 th_form_def := th_form_def ob, th_fkey_def := th_fkey_def ob\<rparr>)
      in case th_fields ob of
           None \<Rightarrow> h1\<lparr>th_app_space := th_app_space ob\<rparr>
         | Some fs \<Rightarrow>
             if th_num_fields ob = 0 then h1\<lparr>th_app_space := th_app_space ob\<rparr>
             else (let h2 = AllocHeader (int (th_num_fields ob)) h1
                   in h2\<lparr>th_app_space := th_app_space ob,
                         th_fields := Some (List.take (th_num_fields h2) fs)\<rparr>))"

definition SetTableName :: "string \<Rightarrow> gxrdTableHeader \<Rightarrow> gxrdTableHeader" where
  "SetTableName s h = h\<lparr>th_table_name := set_text tableNAME_LEN s\<rparr>"

definition SetKeyDef :: "string \<Rightarrow> gxrdTableHeader \<Rightarrow> gxrdTableHeader" where
  "SetKeyDef s h = h\<lparr>th_key_def := set_text tableDEF_LEN s\<rparr>"

definition SetFormDef :: "string \<Rightarrow> gxrdTableHeader \<Rightarrow> gxrdTableHeader" where
  "SetFormDef s h = h\<lparr>th_form_def := set_text tableDEF_LEN s\<rparr>"

definition SetFKeyDef :: "string \<Rightarrow> gxrdTableHeader \<Rightarrow> gxrdTableHeader" where
  "SetFKeyDef s h = h\<lparr>th_fkey_def := set_text tableDEF_LEN s\<rparr>"

definition VerifyFieldTypes :: "gxrdTableHeader \<Rightarrow> bool" where
  "VerifyFieldTypes h =
     (if th_num_fields h = 0 then False
      else case th_fields h of None \<Rightarrow> False | Some fs \<Rightarrow> list_all VerifyFieldType (List.take (th_num_fields h) fs))"

text \<open>The fields of two headers side by side.\<close>

definition test_fields ::
  "(gxrdTableHeaderField \<Rightarrow> gxrdTableHeaderField \<Rightarrow> bool) \<Rightarrow> gxrdTableHeader \<Rightarrow> gxrdTableHeader \<Rightarrow> bool" where
  "test_fields test h ob =
     (if th_num_fields h \<noteq> th_num_fields ob then False
      else case (th_fields h, th_fields ob) of
             (Some fs, Some gs) \<Rightarrow>
               list_all (\<lambda>(a, b). test a b) (List.take (th_num_fields h) (zip fs gs))
           | (None, None) \<Rightarrow> True
           | _ \<Rightarrow> False)"

definition TestFieldTypes_header :: "gxrdTableHeader \<Rightarrow> gxrdTableHeader \<Rightarrow> bool" where
  "TestFieldTypes_header h ob = test_fields (\<lambda>a b. TestFieldType a b False) h ob"

definition TestFieldVars_header :: "gxrdTableHeader \<Rightarrow> gxrdTableHeader \<Rightarrow> bool" where
  "TestFieldVars_header h ob = test_fields TestFieldVars h ob"

definition TestTableName :: "gxrdTableHeader \<Rightarrow> gxrdTableHeader \<Rightarrow> bool" where
  "TestTableName h ob \<longleftrightarrow> text_of (th_table_name h) = text_of (th_table_name ob)"

definition TestKeyDef :: "gxrdTableHeader \<Rightarrow> gxrdTableHeader \<Rightarrow> bool" where
  "TestKeyDef h ob \<longleftrightarrow> text_of (th_key_def h) = text_of (th_key_def ob)"

definition TestFormDef :: "gxrdTableHeader \<Rightarrow> gxrdTableHeader \<Rightarrow> bool" where
  "TestFormDef h ob \<longleftrightarrow> text_of (th_form_def h) = text_of (th_form_def ob)"

definition TestFKeyDef :: "gxrdTableHeader \<Rightarrow> gxrdTableHeader \<Rightarrow> bool" where
  "TestFKeyDef h ob \<longleftrightarrow> text_of (th_fkey_def h) = text_of (th_fkey_def ob)"

text \<open>The bound on the field number is an unsigned subtraction, which wraps for a header without fields.\<close>

definition beyond :: "int \<Rightarrow> nat \<Rightarrow> bool" where
  "beyond i n \<longleftrightarrow> i > to_u64 (int n - 1)"

definition GetField_header :: "int \<Rightarrow> gxrdTableHeader \<Rightarrow> gxrdTableHeaderField option" where
  "GetField_header nfield h =
     (case th_fields h of
        None \<Rightarrow> None
      | Some fs \<Rightarrow>
          if beyond nfield (th_num_fields h) then None
          else (let f = fs ! nat nfield; t = takeWhile (\<lambda>c. c \<noteq> nul) (field_name f)
                in Some (f\<lparr>field_name :=
                     List.take (tableFIELD_NAME_LEN - 1) (t @ zeros (tableFIELD_NAME_LEN - length t)) @ [nul]\<rparr>)))"

definition SetField_header ::
  "int \<Rightarrow> int \<Rightarrow> string \<Rightarrow> int \<Rightarrow> int \<Rightarrow> int \<Rightarrow> gxrdTableHeader \<Rightarrow> bool \<times> gxrdTableHeader" where
  "SetField_header type_id0 format name col_len arr_len nfield h =
     (case th_fields h of
        None \<Rightarrow> (False, h)
      | Some fs \<Rightarrow>
          if beyond nfield (th_num_fields h) then (False, h)
          else (True, h\<lparr>th_fields := Some (fs[nat nfield :=
                 \<lparr>field_type_id = type_id0, format_specifier = format, column_length = to_u32 col_len,
                  array_length = to_u32 arr_len, field_name = set_text tableFIELD_NAME_LEN name\<rparr>])\<rparr>))"

definition SizeOf_header :: "gxrdTableHeader \<Rightarrow> int" where
  "SizeOf_header h = int tableNAME_LEN + 3 * int tableDEF_LEN + 4 +
     int (th_num_fields h) * SizeOf_field_header + int tableAPPLICATION_SPACE"

section \<open>The definition of a table as text\<close>

definition is_alpha :: "char \<Rightarrow> bool" where
  "is_alpha c \<longleftrightarrow> 65 \<le> code_of c \<and> code_of c \<le> 90 \<or> 97 \<le> code_of c \<and> code_of c \<le> 122"

definition format_text :: "int \<Rightarrow> string" where
  "format_text fmt =
     (if fmt = 0 then []
      else let c = char_of (nat (fmt mod 256)) in if is_alpha c then ''.'' @ [c] else ''.'' @ to_string fmt)"

definition field_def :: "gxrdTableHeaderField \<Rightarrow> string option" where
  "field_def f = map_option (\<lambda>t.
     text_of (field_name f) @ ''{'' @ to_string (column_length f) @ ''}'' @ t @
     (if array_length f > 0 then ''['' @ to_string (array_length f) @ '']'' else []) @
     format_text (format_specifier f)) (gxrdFieldTypeString (field_type_id f))"

fun field_defs :: "gxrdTableHeaderField list \<Rightarrow> string option" where
  "field_defs [] = Some []"
| "field_defs [f] = field_def f"
| "field_defs (f # fs) =
     (case field_def f of
        None \<Rightarrow> None
      | Some d \<Rightarrow> map_option (\<lambda>r. d @ '','' @ r) (field_defs fs))"

definition TableDef :: "gxrdTableHeader \<Rightarrow> string option" where
  "TableDef h =
     (case th_fields h of
        None \<Rightarrow> Some []
      | Some fs \<Rightarrow>
          if th_num_fields h = 0 then Some []
          else map_option (\<lambda>d. text_of (th_table_name h) @ '','' @ d)
                 (field_defs (List.take (th_num_fields h) fs)))"

section \<open>Creating a table\<close>

record gxrdDatabaseTable =
  tb_table_name :: string
  tb_record_def :: string
  tb_table_def :: string
  tb_table_header :: gxrdTableHeader

definition new_gxrdDatabaseTable :: gxrdDatabaseTable where
  "new_gxrdDatabaseTable = \<lparr>tb_table_name = [], tb_record_def = [], tb_table_def = [],
     tb_table_header = new_gxrdTableHeader\<rparr>"

definition Copy_table :: "gxrdDatabaseTable \<Rightarrow> gxrdDatabaseTable \<Rightarrow> gxrdDatabaseTable" where
  "Copy_table ob t = t\<lparr>tb_table_name := tb_table_name ob, tb_record_def := tb_record_def ob,
     tb_table_def := tb_table_def ob, tb_table_header := Copy_TableHeader (tb_table_header ob) (tb_table_header t)\<rparr>"

definition SizeOf_table :: "gxrdDatabaseTable \<Rightarrow> int" where
  "SizeOf_table t = int (length (tb_table_name t) + length (tb_record_def t) + length (tb_table_def t)) +
     SizeOf_header (tb_table_header t)"

definition Clear_table :: "gxrdDatabaseTable \<Rightarrow> gxrdDatabaseTable" where
  "Clear_table t = t\<lparr>tb_table_name := [], tb_record_def := [], tb_table_def := [],
     tb_table_header := Clear_TableHeader (tb_table_header t)\<rparr>"

definition illegal_char :: "char \<Rightarrow> bool" where
  "illegal_char c \<longleftrightarrow> c \<in> {CHR ''/'', CHR 0x5C, CHR ''*'', CHR ''|'', CHR '':'', CHR 0x22, CHR ''<'', CHR ''>'', CHR ''?''}"

fun position_of :: "'a \<Rightarrow> 'a list \<Rightarrow> nat option" where
  "position_of x [] = None"
| "position_of x (y # ys) = (if x = y then Some 0 else map_option Suc (position_of x ys))"

definition field_type_index :: "string \<Rightarrow> nat option" where
  "field_type_index t = position_of t gxrdFIELD_TYPES_STRINGS"

text \<open>The text of a field type with an array length: the type and, when there is a bracket, what is in it.\<close>

definition split_array :: "string \<Rightarrow> string \<Rightarrow> string \<times> string" where
  "split_array source field_type =
     (if find_sub ''['' field_type = None then (field_type, [])
      else (trim_right (delete_after_including field_type ''[''),
            trim (delete_after_including (delete_before_including source ''['') '']'')))"

text \<open>One field of a table definition: name, column length, type, format and the text of the array length.\<close>

definition to_char :: "int \<Rightarrow> int" where
  "to_char v = (v + 128) mod 256 - 128"

definition parse_field ::
  "string \<Rightarrow> gxDatabaseError + (string \<times> int \<times> nat \<times> int \<times> string \<times> string)" where
  "parse_field word =
     (let sbuf = trim word
      in if find_sub ''{'' sbuf = None \<or> find_sub ''}'' sbuf = None then Inl gxDBASE_BAD_COL_LENGTH
         else
           (let name1 = delete_after_last sbuf ''}'';
                intbuf = trim (delete_after_including (delete_before_including name1 ''{'') ''}'');
                name = trim (delete_after_including name1 ''{'');
                col = to_u32 (to_int intbuf);
                ftype = delete_before_including sbuf ''}'';
                has_format = find_sub ''.'' ftype \<noteq> None;
                attrib = trim (delete_before_including ftype ''.'');
                format = (if has_format \<and> attrib \<noteq> []
                          then (let k = to_char (to_int attrib)
                                in if k = 0 then to_char (int (code_of (attrib ! 0))) else k)
                          else 0);
                ftype1 = trim (if has_format then delete_after_including ftype ''.'' else ftype);
                (ftype2, array_len) = split_array ftype1 ftype1
            in case field_type_index ftype2 of
                 None \<Rightarrow> Inl gxDBASE_BAD_FIELD_TYPE
               | Some j \<Rightarrow> Inr (name, col, j, format, ftype2, array_len)))"

text \<open>The loop over the fields: what it adds to the record definition and stores in the header.\<close>

fun create_fields ::
  "string list \<Rightarrow> int \<Rightarrow> string \<Rightarrow> gxrdTableHeader \<Rightarrow> (gxDatabaseError \<times> string \<times> gxrdTableHeader)" where
  "create_fields [] i record_def h = (gxDBASE_NO_ERROR, record_def, h)"
| "create_fields (w # ws) i record_def h =
     (if w = [] then (gxDBASE_BAD_FIELD_TYPE, record_def, h)
      else case parse_field w of
             Inl e \<Rightarrow> (e, record_def, h)
           | Inr (name, col, j, format, ftype, array_len) \<Rightarrow>
               (let alen = (if array_len = [] then 0 else to_u64 (to_int array_len));
                    r1 = record_def @ ftype @
                         (if array_len \<noteq> [] \<and> alen > 0 then ''['' @ to_string alen @ '']'' else []) @
                         (if ws \<noteq> [] then '','' else [])
                in create_fields ws (i + 1) r1 (snd (SetField_header (int j) format name col alen i h))))"

definition CreateTable :: "string \<Rightarrow> gxrdDatabaseTable \<Rightarrow> gxDatabaseError \<times> gxrdDatabaseTable" where
  "CreateTable tdef t =
     (case parse_fields tdef CHR '','' of
        w # ws \<Rightarrow>
          if length (w # ws) > nat tableMAX_FIELDS + 1 \<or> ws = [] \<or> w = [] then (gxDBASE_BAD_TABLE_DEF, t)
          else
            (let name = trim (erase_char (snd (convert_escape_seq w CHR ''%'' 2)) CHR 0x09)
             in if list_ex illegal_char name then (gxDBASE_ILLEGAL_CHAR, t\<lparr>tb_table_name := name\<rparr>)
                else
                  (let h = AllocHeader (int (length ws))
                             (SetTableName (takeWhile (\<lambda>c. c \<noteq> nul) name) (tb_table_header t))
                   in case create_fields ws 0 (name @ '','') h of
                        (e, r, h1) \<Rightarrow>
                          (e, t\<lparr>tb_table_name := name, tb_record_def := r, tb_table_header := h1,
                                tb_table_def := (if e = gxDBASE_NO_ERROR then tdef else tb_table_def t)\<rparr>)))
      | [] \<Rightarrow> (gxDBASE_BAD_TABLE_DEF, t))"

section \<open>Excluded fields\<close>

record gxrdExcludeFields =
  exc_num_fields :: nat
  exc_fields :: "int list option"

definition no_exclude_fields :: gxrdExcludeFields where
  "no_exclude_fields = \<lparr>exc_num_fields = 0, exc_fields = None\<rparr>"

definition Exclude :: "int \<Rightarrow> gxrdExcludeFields \<Rightarrow> bool" where
  "Exclude field e =
     (case exc_fields e of
        None \<Rightarrow> False
      | Some fs \<Rightarrow> list_ex (\<lambda>x. x = field) (List.take (exc_num_fields e) fs))"

definition SetNumFields :: "int \<Rightarrow> gxrdExcludeFields \<Rightarrow> gxrdExcludeFields" where
  "SetNumFields nfields e =
     (let n1 = (if nfields < tableMIN_FIELDS then tableMIN_FIELDS else nfields);
          n2 = (if n1 > tableMAX_FIELDS then tableMAX_FIELDS else n1)
      in e\<lparr>exc_num_fields := nat n2, exc_fields := Some (replicate (nat n2) 0xffffffff)\<rparr>)"

definition Clear_exclude :: "gxrdExcludeFields \<Rightarrow> gxrdExcludeFields" where
  "Clear_exclude e = e\<lparr>exc_fields := None, exc_num_fields := 0\<rparr>"

definition SizeOf_exclude :: "gxrdExcludeFields \<Rightarrow> int" where
  "SizeOf_exclude e = 4 + 4 * int (exc_num_fields e)"

definition Copy_exclude :: "gxrdExcludeFields \<Rightarrow> gxrdExcludeFields \<Rightarrow> gxrdExcludeFields" where
  "Copy_exclude ob e =
     (case exc_fields ob of
        Some fs \<Rightarrow>
          if exc_num_fields ob > 0
          then e\<lparr>exc_num_fields := exc_num_fields ob, exc_fields := Some (List.take (exc_num_fields ob) fs)\<rparr>
          else e\<lparr>exc_fields := None, exc_num_fields := 0\<rparr>
      | None \<Rightarrow> e\<lparr>exc_fields := None, exc_num_fields := 0\<rparr>)"

end
