(* ===== verification/RdRecord.thy ===== *)
theory RdRecord
  imports RdTable IntOps "HOL-Library.Monad_Syntax"
begin

text \<open>
  Records in memory and on disk, the class \<open>gxrdDatabaseRecord\<close> of \<open>src/src/gxrdbhdr.cpp\<close>. A field is a
  byte vector: the type in one byte, the number of bytes of the data in a \<open>gxUINT32\<close>, and the data.
  The array of fields may be longer than \<open>num_flds\<close>, because it is reused. Reading or writing outside
  a vector is undefined: the result is \<open>None\<close>.
\<close>

section \<open>Vectors\<close>

definition read_buf :: "byte list \<Rightarrow> nat \<Rightarrow> nat \<Rightarrow> byte list option" where
  "read_buf buf p n = (if p + n \<le> length buf then Some (bytes_at buf p n) else None)"

definition write_buf :: "byte list \<Rightarrow> nat \<Rightarrow> byte list \<Rightarrow> byte list option" where
  "write_buf buf p d = (if p + length d \<le> length buf then Some (put_at buf p d) else None)"

definition resize :: "byte list \<Rightarrow> nat \<Rightarrow> byte list" where
  "resize buf n = List.take n buf @ replicate (n - length buf) 0"

section \<open>The record\<close>

record gxrdDatabaseRecord =
  rec_table_name :: string
  rec_def :: string
  num_flds :: nat
  compare_field :: int
  compare_case :: int
  compare_alpha :: int
  db_record :: "byte list list"
  exclude_fields :: gxrdExcludeFields

definition Clear_record :: "gxrdDatabaseRecord \<Rightarrow> gxrdDatabaseRecord" where
  "Clear_record r = r\<lparr>rec_table_name := [], rec_def := [], compare_field := -1, compare_case := 1,
     compare_alpha := 0\<rparr>"

definition empty_record :: gxrdDatabaseRecord where
  "empty_record = \<lparr>rec_table_name = [], rec_def = [], num_flds = 0, compare_field = -1, compare_case = 1,
     compare_alpha = 0, db_record = [], exclude_fields = no_exclude_fields\<rparr>"

definition field_buf :: "gxrdDatabaseRecord \<Rightarrow> nat \<Rightarrow> byte list option" where
  "field_buf r i = (if i < length (db_record r) then Some (db_record r ! i) else None)"

text \<open>The type, as a signed number, and the byte count of a field.\<close>

definition field_type_at :: "byte list \<Rightarrow> int option" where
  "field_type_at buf = map_option (\<lambda>b. sint (b ! 0)) (read_buf buf 0 1)"

definition num_bytes_at :: "byte list \<Rightarrow> int option" where
  "num_bytes_at buf = map_option gxUINT32_PackBits (read_buf buf 1 4)"

fun sum_sizes :: "gxrdDatabaseRecord \<Rightarrow> nat \<Rightarrow> int option" where
  "sum_sizes r 0 = Some 0"
| "sum_sizes r (Suc i) = do {
     total \<leftarrow> sum_sizes r i;
     buf \<leftarrow> field_buf r i;
     n \<leftarrow> num_bytes_at buf;
     Some (total + 5 + n)
   }"

definition SizeOf_record :: "gxrdDatabaseRecord \<Rightarrow> int option" where
  "SizeOf_record r = (if db_record r = [] \<or> num_flds r = 0 then Some 0 else sum_sizes r (num_flds r))"

definition SizeOfBuffer :: "gxrdDatabaseRecord \<Rightarrow> nat option" where
  "SizeOfBuffer r =
     (if db_record r = [] \<or> num_flds r = 0 then Some 0
      else if num_flds r > length (db_record r) then None
      else Some (sum_list (map length (List.take (num_flds r) (db_record r)))))"

definition SizeOfField :: "int \<Rightarrow> gxrdDatabaseRecord \<Rightarrow> int option" where
  "SizeOfField col r =
     (if db_record r = [] then Some 0
      else if beyond col (num_flds r) then Some 0
      else do { buf \<leftarrow> field_buf r (nat col); n \<leftarrow> num_bytes_at buf; Some (5 + n) })"

text \<open>
  \<open>FieldData\<close> gives the type, the byte count and a pointer to the data, here the rest of the vector, or
  a null pointer, here \<open>None\<close>, and then leaves its two output arguments alone: the count is zero by its
  constructor, the type of the caller is not initialised.
\<close>

definition FieldData :: "int \<Rightarrow> gxrdDatabaseRecord \<Rightarrow> (int \<times> int \<times> byte list) option option" where
  "FieldData col r =
     (if db_record r = [] then Some None
      else if beyond col (num_flds r) then Some None
      else do {
        buf \<leftarrow> field_buf r (nat col);
        t \<leftarrow> field_type_at buf;
        n \<leftarrow> num_bytes_at buf;
        Some (Some (t, n, drop 5 buf))
      })"

definition FieldLength :: "int \<Rightarrow> gxrdDatabaseRecord \<Rightarrow> int option" where
  "FieldLength col r = map_option (\<lambda>d. case d of None \<Rightarrow> 0 | Some (t, n, p) \<Rightarrow> n) (FieldData col r)"

definition FieldType :: "int \<Rightarrow> gxrdDatabaseRecord \<Rightarrow> int option" where
  "FieldType col r = do {
     d \<leftarrow> FieldData col r;
     case d of None \<Rightarrow> None | Some (t, n, p) \<Rightarrow> Some t
   }"

text \<open>The place of the first null among \<open>n\<close> bytes, one when it is the first byte, zero when there is none.\<close>

definition null_place :: "byte list \<Rightarrow> nat \<Rightarrow> nat option" where
  "null_place p n =
     (case position_of 0 (List.take n p) of
        Some i \<Rightarrow> Some (if i = 0 then 1 else i)
      | None \<Rightarrow> if n > length p then None else Some 0)"

definition FieldHasNull :: "int \<Rightarrow> gxrdDatabaseRecord \<Rightarrow> bool option" where
  "FieldHasNull col r = do {
     d \<leftarrow> FieldData col r;
     case d of None \<Rightarrow> Some False
     | Some (t, n, p) \<Rightarrow> map_option (\<lambda>npos. npos \<noteq> 0) (null_place p (nat n))
   }"

definition FieldDiskOffset :: "int \<Rightarrow> gxrdDatabaseRecord \<Rightarrow> (gxDatabaseError + int) option" where
  "FieldDiskOffset col r =
     (if db_record r = [] then Some (Inl gxDBASE_NULL_PTR)
      else if beyond col (num_flds r) then Some (Inl gxDBASE_BUFFER_OVERFLOW)
      else map_option Inr (sum_sizes r (nat col)))"

definition FieldDataDiskOffset :: "int \<Rightarrow> gxrdDatabaseRecord \<Rightarrow> (gxDatabaseError + int) option" where
  "FieldDataDiskOffset col r = map_option (map_sum id (\<lambda>offset. offset + 1 + 4)) (FieldDiskOffset col r)"

definition GetField :: "nat \<Rightarrow> int \<Rightarrow> gxrdDatabaseRecord \<Rightarrow> (gxDatabaseError + byte list) option" where
  "GetField bytes col r =
     (if db_record r = [] then Some (Inl gxDBASE_NULL_PTR)
      else if beyond col (num_flds r) then Some (Inl gxDBASE_BUFFER_OVERFLOW)
      else do {
        buf \<leftarrow> field_buf r (nat col);
        n \<leftarrow> num_bytes_at buf;
        if int bytes > n then Some (Inl gxDBASE_BAD_FIELD_LENGTH)
        else map_option Inr (read_buf buf 5 bytes)
      })"

text \<open>The variants that give a pointer: the pointer, the length and the error, which success does not set.\<close>

definition GetField_ptr ::
  "int \<Rightarrow> gxDatabaseError \<Rightarrow> gxrdDatabaseRecord \<Rightarrow> ((byte list \<times> int) option \<times> gxDatabaseError) option" where
  "GetField_ptr col err r =
     (if db_record r = [] then Some (None, gxDBASE_NULL_PTR)
      else if beyond col (num_flds r) then Some (None, gxDBASE_BUFFER_OVERFLOW)
      else do {
        buf \<leftarrow> field_buf r (nat col);
        n \<leftarrow> num_bytes_at buf;
        Some (Some (drop 5 buf, n), err)
      })"

definition set_buf :: "nat \<Rightarrow> byte list \<Rightarrow> gxrdDatabaseRecord \<Rightarrow> gxrdDatabaseRecord" where
  "set_buf i buf r = r\<lparr>db_record := (db_record r)[i := buf]\<rparr>"

definition SetField :: "byte list \<Rightarrow> int \<Rightarrow> gxrdDatabaseRecord \<Rightarrow> (gxDatabaseError \<times> gxrdDatabaseRecord) option" where
  "SetField data col r =
     (if db_record r = [] then Some (gxDBASE_NULL_PTR, r)
      else if beyond col (num_flds r) then Some (gxDBASE_BUFFER_OVERFLOW, r)
      else do {
        let bytes = int (length data);
        buf \<leftarrow> field_buf r (nat col);
        n \<leftarrow> num_bytes_at buf;
        buf1 \<leftarrow> (if n \<noteq> bytes then
                   map_option (\<lambda>b. if n < bytes then resize b (length data + 5) else b)
                     (write_buf buf 1 (gxUINT32_UnPackBits bytes))
                 else Some buf);
        buf2 \<leftarrow> write_buf buf1 5 data;
        Some (gxDBASE_NO_ERROR, set_buf (nat col) buf2 r)
      })"

section \<open>Creating a record from its definition\<close>

text \<open>The size of one element of a type; the overhead of a field is five bytes for every type.\<close>

definition GetRecordTypeSize :: "nat \<Rightarrow> nat" where
  "GetRecordTypeSize j =
     (case type_of_id (int j) of
        None \<Rightarrow> 1
      | Some t \<Rightarrow> (case t of
          gxrdINT16 \<Rightarrow> 2 | gxrdINT32 \<Rightarrow> 4 | gxrdINT64 \<Rightarrow> 8 | gxrdFLOAT \<Rightarrow> 8 | gxrdCURRENCY \<Rightarrow> 8
        | gxrdDATE \<Rightarrow> sizeof_CDate
        | _ \<Rightarrow> 1))"

definition field_data_size :: "nat \<Rightarrow> string \<Rightarrow> int" where
  "field_data_size elem_size array_len =
     (if array_len = [] then int elem_size
      else let n = to_u32 (int elem_size * to_int array_len) in if n < int elem_size then int elem_size else n)"

definition AllocArray :: "int \<Rightarrow> gxrdDatabaseRecord \<Rightarrow> gxrdDatabaseRecord" where
  "AllocArray nfields r =
     (let n1 = (if nfields \<le> 0 then tableMIN_FIELDS else nfields);
          n = nat (if n1 > tableMAX_FIELDS then tableMAX_FIELDS else n1)
      in r\<lparr>db_record := db_record r @ replicate (n - length (db_record r)) [], num_flds := n\<rparr>)"

definition DeleteArray :: "gxrdDatabaseRecord \<Rightarrow> gxrdDatabaseRecord" where
  "DeleteArray r = r\<lparr>db_record := [], num_flds := 0\<rparr>"

definition record_field_type :: "string \<Rightarrow> string \<times> string" where
  "record_field_type word = split_array (trim word) (trim word)"

definition fresh_field :: "nat \<Rightarrow> string \<Rightarrow> byte list" where
  "fresh_field j array_len =
     (let n = field_data_size (GetRecordTypeSize j) array_len
      in put_at (put_at (replicate (nat n + 5) 0) 0 [word_of_int (int j)]) 1 (gxUINT32_UnPackBits n))"

fun init_fields :: "string list \<Rightarrow> nat \<Rightarrow> gxrdDatabaseRecord \<Rightarrow> gxDatabaseError \<times> gxrdDatabaseRecord" where
  "init_fields [] i r = (gxDBASE_NO_ERROR, r)"
| "init_fields (w # ws) i r =
     (if w = [] then (gxDBASE_BAD_FIELD_TYPE, r)
      else case record_field_type w of (ftype, array_len) \<Rightarrow>
        case field_type_index ftype of
          None \<Rightarrow> (gxDBASE_BAD_FIELD_TYPE, Clear_record r)
        | Some j \<Rightarrow>
            if length (db_record r) < i + 1 then (gxDBASE_NULL_PTR, r)
            else init_fields ws (i + 1) (set_buf i (fresh_field j array_len) r))"

definition InitRecord :: "string \<Rightarrow> gxrdDatabaseRecord \<Rightarrow> gxDatabaseError \<times> gxrdDatabaseRecord" where
  "InitRecord def r =
     (let words = parse_fields def CHR '',''
      in if int (length words) > tableMAX_FIELDS + 1 then (gxDBASE_BAD_RECORD_DEF, r)
         else init_fields (tl words) 0 r)"

definition bad_record_field :: "string \<Rightarrow> bool" where
  "bad_record_field w \<longleftrightarrow> w = [] \<or> field_type_index (fst (record_field_type w)) = None"

definition CreateRecord :: "string \<Rightarrow> bool \<Rightarrow> gxrdDatabaseRecord \<Rightarrow> gxDatabaseError \<times> gxrdDatabaseRecord" where
  "CreateRecord def clear_rec r0 =
     (let fail = (\<lambda>e r. (e, if clear_rec then Clear_record r else r));
          r = (if clear_rec then Clear_record r0 else r0)
      in case parse_fields def CHR '','' of
           w # ws \<Rightarrow>
             if int (length (w # ws)) > tableMAX_FIELDS + 1 then fail gxDBASE_BAD_RECORD_DEF r
             else if ws = [] \<or> w = [] then fail gxDBASE_BAD_RECORD_DEF r
             else (let r1 = r\<lparr>rec_table_name := w\<rparr>
                   in if list_ex bad_record_field ws then fail gxDBASE_BAD_FIELD_TYPE r1
                      else case InitRecord def (AllocArray (int (length ws)) r1) of (e, r2) \<Rightarrow>
                        if e \<noteq> gxDBASE_NO_ERROR then fail e r2
                        else (gxDBASE_NO_ERROR, r2\<lparr>rec_def := def\<rparr>))
         | [] \<Rightarrow> fail gxDBASE_BAD_RECORD_DEF r)"

definition CreateRecord_with ::
  "string \<Rightarrow> int \<Rightarrow> int \<Rightarrow> int \<Rightarrow> gxrdDatabaseRecord \<Rightarrow> gxDatabaseError \<times> gxrdDatabaseRecord" where
  "CreateRecord_with def cmp_field case_cmp alpha_cmp r =
     CreateRecord def False ((Clear_record r)\<lparr>compare_field := to_s32 cmp_field,
       compare_case := case_cmp, compare_alpha := alpha_cmp\<rparr>)"

definition new_gxrdDatabaseRecord :: "int \<Rightarrow> int \<Rightarrow> int \<Rightarrow> gxrdDatabaseRecord" where
  "new_gxrdDatabaseRecord cmp_field case_cmp alpha_cmp =
     empty_record\<lparr>compare_field := to_s32 cmp_field, compare_case := case_cmp, compare_alpha := alpha_cmp\<rparr>"

definition Copy_record :: "gxrdDatabaseRecord \<Rightarrow> gxrdDatabaseRecord \<Rightarrow> gxrdDatabaseRecord option" where
  "Copy_record ob r =
     (let r1 = r\<lparr>rec_table_name := rec_table_name ob, rec_def := rec_def ob, compare_field := compare_field ob,
                 compare_case := compare_case ob, compare_alpha := compare_alpha ob,
                 exclude_fields := Copy_exclude (exclude_fields ob) (exclude_fields r)\<rparr>
      in if db_record ob = [] then Some (DeleteArray r1)
         else (let r2 = AllocArray (int (num_flds ob)) r1; n = num_flds r2
               in if n > length (db_record ob) then None
                  else Some (r2\<lparr>db_record := List.take n (db_record ob) @ drop n (db_record r2)\<rparr>)))"

text \<open>The settings that the comparison operators use.\<close>

definition SetCompareField :: "int \<Rightarrow> gxrdDatabaseRecord \<Rightarrow> gxrdDatabaseRecord" where
  "SetCompareField cmp_field r = r\<lparr>compare_field := cmp_field\<rparr>"

definition ResetCompareField :: "gxrdDatabaseRecord \<Rightarrow> gxrdDatabaseRecord" where
  "ResetCompareField r = r\<lparr>compare_field := -1\<rparr>"

definition SetCaseCompare :: "gxrdDatabaseRecord \<Rightarrow> gxrdDatabaseRecord" where
  "SetCaseCompare r = r\<lparr>compare_case := 1\<rparr>"

definition ResetCaseCompare :: "gxrdDatabaseRecord \<Rightarrow> gxrdDatabaseRecord" where
  "ResetCaseCompare r = r\<lparr>compare_case := 0\<rparr>"

definition SetAlphaCompare :: "gxrdDatabaseRecord \<Rightarrow> gxrdDatabaseRecord" where
  "SetAlphaCompare r = r\<lparr>compare_alpha := 1\<rparr>"

definition ResetAlphaCompare :: "gxrdDatabaseRecord \<Rightarrow> gxrdDatabaseRecord" where
  "ResetAlphaCompare r = r\<lparr>compare_alpha := 0\<rparr>"

definition TestRecord :: "gxrdDatabaseRecord \<Rightarrow> gxrdDatabaseRecord \<Rightarrow> bool" where
  "TestRecord r ob \<longleftrightarrow> rec_def r = rec_def ob"


text \<open>
  The disk format of a record, \<open>CreateDiskRecord\<close> and \<open>LoadDiskRecord\<close> of \<open>src/src/gxrdbhdr.cpp\<close>: the record
  header, then for each field its type, byte count and data. An excluded field is written and
  loaded with a count of zero.
\<close>

fun disk_fields ::
  "gxrdDatabaseRecord \<Rightarrow> nat \<Rightarrow> nat \<Rightarrow> nat \<Rightarrow> nat \<Rightarrow> byte list \<Rightarrow> byte list option" where
  "disk_fields r 0 i buf_offset field_len disk = Some disk"
| "disk_fields r (Suc k) i buf_offset field_len disk = do {
     buf \<leftarrow> field_buf r i;
     t \<leftarrow> read_buf buf 0 1;
     c \<leftarrow> read_buf buf 1 4;
     disk1 \<leftarrow> write_buf disk buf_offset t;
     let n = (if Exclude (int i) (exclude_fields r) then 0 else gxUINT32_PackBits c);
     disk2 \<leftarrow> write_buf disk1 (buf_offset + 1) (gxUINT32_UnPackBits n);
     if n = 0 then disk_fields r k (i + 1) (buf_offset + 5) field_len disk2
     else do {
       let len = field_len + 5 + nat n;
       let disk3 = (if length disk2 < len then resize disk2 len else disk2);
       d \<leftarrow> read_buf buf 5 (nat n);
       disk4 \<leftarrow> write_buf disk3 (buf_offset + 5) d;
       disk_fields r k (i + 1) (buf_offset + 5 + nat n) len disk4
     }
   }"

definition CreateDiskRecord :: "gxrdDatabaseRecord \<Rightarrow> (gxDatabaseError + byte list) option" where
  "CreateDiskRecord r =
     (if db_record r = [] then Some (Inl gxDBASE_NULL_PTR)
      else do {
        let rh = gxrdRecordHeader_for (rec_table_name r) (int (num_flds r));
        total \<leftarrow> SizeOf_record r;
        let disk0 = replicate (nat total + sizeof_gxrdRecordHeader) 0;
        disk1 \<leftarrow> write_buf disk0 0 (enc_gxrdRecordHeader rh);
        map_option Inr (disk_fields r (num_flds r) 0 sizeof_gxrdRecordHeader 0 disk1)
      })"

fun load_fields ::
  "byte list \<Rightarrow> nat \<Rightarrow> nat \<Rightarrow> nat \<Rightarrow> nat \<Rightarrow> gxrdDatabaseRecord \<Rightarrow> (gxDatabaseError \<times> gxrdDatabaseRecord) option"
where
  "load_fields disk 0 i byte_count buf_offset r = Some (gxDBASE_NO_ERROR, r)"
| "load_fields disk (Suc k) i byte_count buf_offset r =
     (if byte_count + 1 > length disk then Some (gxDBASE_BAD_RECORD, r)
      else do {
        t \<leftarrow> read_buf disk buf_offset 1;
        if byte_count + 5 > length disk then Some (gxDBASE_BAD_RECORD, r)
        else do {
          c \<leftarrow> read_buf disk (buf_offset + 1) 4;
          buf \<leftarrow> field_buf r i;
          let buf1 = (if length buf < 5 then resize buf 5 else buf);
          buf2 \<leftarrow> write_buf buf1 0 t;
          let n = (if Exclude (int i) (exclude_fields r) then 0 else gxUINT32_PackBits c);
          buf3 \<leftarrow> write_buf buf2 1 (gxUINT32_UnPackBits n);
          if byte_count + 5 + nat n > length disk then Some (gxDBASE_BAD_RECORD, set_buf i buf3 r)
          else if n = 0 then load_fields disk k (i + 1) (byte_count + 5) (buf_offset + 5) (set_buf i buf3 r)
          else do {
            let buf4 = (if length buf3 < 5 + nat n then resize buf3 (5 + nat n) else buf3);
            d \<leftarrow> read_buf disk (buf_offset + 5) (nat n);
            buf5 \<leftarrow> write_buf buf4 5 d;
            load_fields disk k (i + 1) (byte_count + 5 + nat n) (buf_offset + 5 + nat n) (set_buf i buf5 r)
          }
        }
      })"

definition LoadDiskRecord :: "byte list \<Rightarrow> gxrdDatabaseRecord \<Rightarrow> (gxDatabaseError \<times> gxrdDatabaseRecord) option" where
  "LoadDiskRecord disk r =
     (if db_record r = [] then Some (gxDBASE_NULL_PTR, r)
      else do {
        h \<leftarrow> read_buf disk 0 sizeof_gxrdRecordHeader;
        let rh = dec_gxrdRecordHeader h;
        if \<not> TestTableID (rec_table_name r) rh then Some (gxDBASE_BAD_TABLE_ID, r)
        else if rh_num_fields rh > int (num_flds r) then Some (gxDBASE_BAD_RECORD, r)
        else load_fields disk (nat (rh_num_fields rh)) 0 sizeof_gxrdRecordHeader sizeof_gxrdRecordHeader r
      })"

end
