(* ===== verification/RdRecordProps.thy ===== *)
theory RdRecordProps
  imports RdRecord
begin

text \<open>
  What the record operations keep and compute. A field is well formed when its vector holds the type,
  the count and as many bytes as the count says; a record is well formed when its fields are. Its
  abstract value is the list of the types and the list of the data.
\<close>

section \<open>Well-formed records and their value\<close>

definition count_of :: "byte list \<Rightarrow> nat" where
  "count_of buf = nat (gxUINT32_PackBits (bytes_at buf 1 4))"

definition field_ok :: "byte list \<Rightarrow> bool" where
  "field_ok buf \<longleftrightarrow> 5 \<le> length buf \<and> 5 + count_of buf \<le> length buf"

definition field_type :: "byte list \<Rightarrow> int" where
  "field_type buf = sint (buf ! 0)"

definition field_data :: "byte list \<Rightarrow> byte list" where
  "field_data buf = bytes_at buf 5 (count_of buf)"

definition live_fields :: "gxrdDatabaseRecord \<Rightarrow> byte list list" where
  "live_fields r = List.take (num_flds r) (db_record r)"

definition record_ok :: "gxrdDatabaseRecord \<Rightarrow> bool" where
  "record_ok r \<longleftrightarrow> 0 < num_flds r \<and> int (num_flds r) \<le> tableMAX_FIELDS \<and>
     num_flds r \<le> length (db_record r) \<and> list_all field_ok (live_fields r)"

definition record_types :: "gxrdDatabaseRecord \<Rightarrow> int list" where
  "record_types r = map field_type (live_fields r)"

definition record_data :: "gxrdDatabaseRecord \<Rightarrow> byte list list" where
  "record_data r = map field_data (live_fields r)"

lemma count_bounds: "length buf \<ge> 5 \<Longrightarrow> in_u32 (int (count_of buf))"
  using in_u32_PackBits [of "bytes_at buf 1 4"] by (auto simp: count_of_def in_u32_def)

lemma num_bytes_ok [simp]: "field_ok buf \<Longrightarrow> num_bytes_at buf = Some (int (count_of buf))"
  using in_u32_PackBits [of "bytes_at buf 1 4"]
  by (auto simp: num_bytes_at_def read_buf_def field_ok_def count_of_def in_u32_def)

lemma bytes_at_one: "p < length buf \<Longrightarrow> bytes_at buf p 1 = [buf ! p]"
  by (simp add: bytes_at_def List.take_Suc_conv_app_nth [of 0 "drop p buf", simplified])

lemma field_type_ok [simp]: "field_ok buf \<Longrightarrow> field_type_at buf = Some (field_type buf)"
  using bytes_at_one [of 0 buf]
  by (cases buf) (simp_all add: field_type_at_def read_buf_def field_ok_def field_type_def)

lemma live_length [simp]: "num_flds r \<le> length (db_record r) \<Longrightarrow> length (live_fields r) = num_flds r"
  by (simp add: live_fields_def)

lemma live_nth: "i < num_flds r \<Longrightarrow> live_fields r ! i = db_record r ! i"
  by (simp add: live_fields_def)

lemma record_ok_field:
  assumes "record_ok r" "i < num_flds r"
  shows "field_buf r i = Some (db_record r ! i)" "field_ok (db_record r ! i)" "db_record r \<noteq> []"
  using assms by (auto simp: record_ok_def field_buf_def list_all_length live_nth)

lemma record_beyond:
  assumes "record_ok r" shows "beyond (int i) (num_flds r) \<longleftrightarrow> \<not> i < num_flds r"
proof -
  have "to_u64 (int (num_flds r) - 1) = int (num_flds r) - 1"
    using assms by (intro to_u64_id) (auto simp: record_ok_def tableMAX_FIELDS_def)
  then show ?thesis by (auto simp: beyond_def)
qed

section \<open>Creating a record\<close>

lemma position_of_bound: "position_of x xs = Some i \<Longrightarrow> i < length xs"
  by (induction xs arbitrary: i) (auto split: if_splits)

lemma field_type_index_bound: "field_type_index t = Some j \<Longrightarrow> j < 12"
  using position_of_bound [of t gxrdFIELD_TYPES_STRINGS j]
  by (simp add: field_type_index_def gxrdFIELD_TYPES_STRINGS_def)

definition word_type :: "string \<Rightarrow> nat" where
  "word_type w = the (field_type_index (fst (record_field_type w)))"

definition word_field :: "string \<Rightarrow> byte list" where
  "word_field w = fresh_field (word_type w) (snd (record_field_type w))"

lemma init_fields_eq:
  assumes "\<not> list_ex bad_record_field ws" "i + length ws \<le> length (db_record r)"
  shows "init_fields ws i r = (gxDBASE_NO_ERROR,
    r\<lparr>db_record := List.take i (db_record r) @ map word_field ws @ drop (i + length ws) (db_record r)\<rparr>)"
  using assms
proof (induction ws arbitrary: i r)
  case (Cons w ws)
  let ?d = "db_record r" and ?b = "word_field w"
  have i: "i < length ?d" using Cons.prems by simp
  have step: "init_fields (w # ws) i r = init_fields ws (i + 1) (set_buf i ?b r)"
    using Cons.prems i by (auto simp: bad_record_field_def word_field_def word_type_def split: prod.splits)
  have list: "List.take (Suc i) (?d[i := ?b]) = List.take i ?d @ [?b]"
    using i by (simp add: take_Suc_conv_app_nth)
  have "init_fields ws (i + 1) (set_buf i ?b r) = (gxDBASE_NO_ERROR,
    (set_buf i ?b r)\<lparr>db_record := List.take (Suc i) (?d[i := ?b]) @ map word_field ws @
       drop (i + 1 + length ws) (?d[i := ?b])\<rparr>)"
    using Cons.prems by (subst Cons.IH) (auto simp: set_buf_def)
  then show ?case
    using step list by (simp add: set_buf_def)
qed simp

lemma field_data_size_bounds:
  assumes "0 < k" "int k < 2 ^ 32" shows "in_u32 (field_data_size k s)"
  using assms by (auto simp: field_data_size_def in_u32_def Let_def to_u32_def)

lemma GetRecordTypeSize_bounds: "0 < GetRecordTypeSize j" "GetRecordTypeSize j \<le> 8"
  by (auto simp: GetRecordTypeSize_def sizeof_CDate_def split: option.split gxrdFIELD_TYPES.split)

lemma put_at_nth: "p < length f \<Longrightarrow> p + length d \<le> length f \<Longrightarrow> q < p \<Longrightarrow> put_at f p d ! q = f ! q"
  by (cases "d = []") (auto simp: put_at_def nth_append)

lemma fresh_field_ok:
  assumes "j < 12"
  shows "field_ok (fresh_field j s)" "field_type (fresh_field j s) = int j"
    "int (count_of (fresh_field j s)) = field_data_size (GetRecordTypeSize j) s"
proof -
  let ?n = "field_data_size (GetRecordTypeSize j) s" and ?z = "\<lambda>n. put_at (replicate (nat n + 5) 0) 0 [word_of_int (int j)]"
  have n: "in_u32 ?n"
    using GetRecordTypeSize_bounds [of j] by (intro field_data_size_bounds) auto
  then have l: "length (fresh_field j s) = nat ?n + 5"
    by (simp add: fresh_field_def Let_def u32.len length_put_at)
  have "bytes_at (fresh_field j s) 1 4 = gxUINT32_UnPackBits ?n"
    by (simp add: fresh_field_def Let_def bytes_at_put_same_len u32.len)
  then have c: "gxUINT32_PackBits (bytes_at (fresh_field j s) 1 4) = ?n"
    using n by (simp add: u32.dec_enc)
  show "int (count_of (fresh_field j s)) = ?n" using c n by (simp add: count_of_def in_u32_def)
  show "field_ok (fresh_field j s)" using c l by (simp add: field_ok_def count_of_def)
  have "fresh_field j s ! 0 = ?z ?n ! 0"
    by (simp add: fresh_field_def Let_def put_at_nth length_put_at u32.len)
  also have "\<dots> = word_of_int (int j)" by (simp add: put_at_def)
  finally have z: "fresh_field j s ! 0 = word_of_int (int j)" .
  show "field_type (fresh_field j s) = int j"
    unfolding field_type_def z by (subst int_word_sint) (use assms in simp)
qed

lemma CreateRecord_ok:
  assumes "CreateRecord def clear r0 = (gxDBASE_NO_ERROR, r)"
  obtains w ws where "parse_fields def CHR '','' = w # ws" "ws \<noteq> []" "int (length ws) \<le> tableMAX_FIELDS"
    "list_all (\<lambda>v. \<not> bad_record_field v) ws" "num_flds r = length ws" "live_fields r = map word_field ws"
    "length ws \<le> length (db_record r)" "rec_table_name r = w" "rec_def r = def"
proof -
  obtain w ws where p: "parse_fields def CHR '','' = w # ws"
    using assms by (cases "parse_fields def CHR '',''") (auto simp: CreateRecord_def Let_def)
  let ?c = "if clear then Clear_record r0 else r0"
  have ne: "gxDBASE_BAD_RECORD_DEF \<noteq> gxDBASE_NO_ERROR" "gxDBASE_BAD_FIELD_TYPE \<noteq> gxDBASE_NO_ERROR" by simp_all
  have c: "int (length ws) \<le> tableMAX_FIELDS" "ws \<noteq> []" "\<not> list_ex bad_record_field ws"
    using assms p by (auto simp: CreateRecord_def Let_def tableMAX_FIELDS_def split: if_splits)
  let ?r1 = "AllocArray (int (length ws)) (?c\<lparr>rec_table_name := w\<rparr>)"
  have a: "num_flds ?r1 = length ws" "length ws \<le> length (db_record ?r1)" "rec_table_name ?r1 = w"
    using c by (auto simp: AllocArray_def Let_def tableMAX_FIELDS_def)
  have i: "InitRecord def ?r1 = (gxDBASE_NO_ERROR,
      ?r1\<lparr>db_record := map word_field ws @ drop (length ws) (db_record ?r1)\<rparr>)"
    using init_fields_eq [of ws 0 ?r1] c a p by (simp add: InitRecord_def Let_def tableMAX_FIELDS_def)
  have "r = ?r1\<lparr>db_record := map word_field ws @ drop (length ws) (db_record ?r1), rec_def := def\<rparr>"
    using assms p c i by (simp add: CreateRecord_def Let_def tableMAX_FIELDS_def split: if_splits)
  then have "num_flds r = length ws" "rec_table_name r = w" "rec_def r = def"
    "db_record r = map word_field ws @ drop (length ws) (db_record ?r1)"
    using a by simp_all
  then show thesis
    using that [OF p c(2,1)] c(3) by (simp add: live_fields_def list_all_iff list_ex_iff)
qed

lemma word_field_ok:
  assumes "\<not> bad_record_field w"
  shows "field_ok (word_field w)" "Some (field_type (word_field w)) = map_option int (field_type_index (fst (record_field_type w)))"
    "int (count_of (word_field w)) = field_data_size (GetRecordTypeSize (word_type w)) (snd (record_field_type w))"
proof -
  obtain j where j: "field_type_index (fst (record_field_type w)) = Some j" "j < 12"
    using assms field_type_index_bound by (auto simp: bad_record_field_def)
  then show "field_ok (word_field w)" "int (count_of (word_field w)) = field_data_size (GetRecordTypeSize (word_type w)) (snd (record_field_type w))"
    "Some (field_type (word_field w)) = map_option int (field_type_index (fst (record_field_type w)))"
    using fresh_field_ok [of j] by (simp_all add: word_field_def word_type_def)
qed

lemma field_data_length: "field_ok buf \<Longrightarrow> length (field_data buf) = count_of buf"
  by (auto simp: field_data_def field_ok_def min_def)

text \<open>
  C31: a record that \<open>CreateRecord\<close> makes without an error is well typed by its definition: it is well
  formed, has one field for each word behind the table name, each of the type that the word names, and
  each with the number of bytes that the type and the array length ask for.
\<close>

theorem CreateRecord_typed:
  assumes "CreateRecord def clear_rec r0 = (gxDBASE_NO_ERROR, r)"
  shows "record_ok r \<and> rec_def r = def \<and>
    (\<exists>ws. parse_fields def CHR '','' = rec_table_name r # ws \<and>
      map Some (record_types r) = map (\<lambda>w. map_option int (field_type_index (fst (record_field_type w)))) ws \<and>
      map (\<lambda>d. int (length d)) (record_data r) =
        map (\<lambda>w. field_data_size (GetRecordTypeSize (the (field_type_index (fst (record_field_type w)))))
                  (snd (record_field_type w))) ws)"
proof -
  obtain w ws where ws: "parse_fields def CHR '','' = w # ws" "ws \<noteq> []" "int (length ws) \<le> tableMAX_FIELDS"
      "list_all (\<lambda>v. \<not> bad_record_field v) ws"
    and r: "num_flds r = length ws" "live_fields r = map word_field ws" "length ws \<le> length (db_record r)"
      "rec_table_name r = w" "rec_def r = def"
    using CreateRecord_ok [OF assms] by metis
  have good: "\<not> bad_record_field v" if "v \<in> set ws" for v
    using that ws(4) by (simp add: list_all_iff)
  have "map Some (record_types r) = map (\<lambda>w. map_option int (field_type_index (fst (record_field_type w)))) ws"
    using good word_field_ok(2) by (simp add: record_types_def r)
  moreover have "map (\<lambda>d. int (length d)) (record_data r) =
      map (\<lambda>w. field_data_size (GetRecordTypeSize (the (field_type_index (fst (record_field_type w)))))
                (snd (record_field_type w))) ws"
    using good word_field_ok(1,3) by (simp add: record_data_def r field_data_length word_type_def)
  moreover have "record_ok r"
    using ws r good word_field_ok(1) by (simp add: record_ok_def list_all_iff)
  ultimately show ?thesis using ws(1) r by auto
qed

definition sample_def :: string where
  "sample_def = ''tab,CHAR[4],INT16''"

definition sample_record :: gxrdDatabaseRecord where
  "sample_record = empty_record\<lparr>rec_table_name := ''tab'', rec_def := sample_def, num_flds := 2,
     db_record := [[1, 4, 0, 0, 0, 0, 0, 0, 0], [2, 2, 0, 0, 0, 0, 0]]\<rparr>"

lemma create_sample: "CreateRecord sample_def True empty_record = (gxDBASE_NO_ERROR, sample_record)"
  by code_simp

theorem CreateRecord_typed_witness:
  "record_ok sample_record \<and> record_types sample_record = [1, 2] \<and>
   map length (record_data sample_record) = [4, 2]"
proof -
  have "record_ok sample_record"
    using CreateRecord_typed [OF create_sample] by blast
  moreover have "record_types sample_record = [1, 2]" "map length (record_data sample_record) = [4, 2]"
    by code_simp+
  ultimately show ?thesis by simp
qed

section \<open>Reading and setting a field\<close>

definition set_field_buf :: "byte list \<Rightarrow> byte list \<Rightarrow> byte list" where
  "set_field_buf buf data =
     (let b = put_at buf 1 (gxUINT32_UnPackBits (int (length data)))
      in put_at (if count_of buf < length data then resize b (length data + 5) else b) 5 data)"

lemma put_at_bytes_at: "p + n \<le> length f \<Longrightarrow> put_at f p (bytes_at f p n) = f"
proof (cases "n = 0 \<or> length f = p")
  case False
  assume l: "p + n \<le> length f"
  have "put_at f p (bytes_at f p n) = List.take p f @ List.take n (drop p f) @ drop n (drop p f)"
    using l False by (simp add: put_at_def bytes_at_def min_absorb2 add.commute)
  then show ?thesis by (simp only: append_take_drop_id)
qed (auto simp: bytes_at_def)

lemma put_count_id: "5 \<le> length buf \<Longrightarrow> put_at buf 1 (gxUINT32_UnPackBits (int (count_of buf))) = buf"
  using gxUINT32_bytes [of "bytes_at buf 1 4"] in_u32_PackBits [of "bytes_at buf 1 4"]
    put_at_bytes_at [of 1 4 buf]
  by (simp add: count_of_def in_u32_def)

lemma resize_length [simp]: "length (resize buf n) = n"
  by (simp add: resize_def)

lemma bytes_at_append_left: "p + k \<le> length xs \<Longrightarrow> bytes_at (xs @ ys) p k = bytes_at xs p k"
  by (simp add: bytes_at_def)

lemma bytes_at_take: "p + k \<le> n \<Longrightarrow> bytes_at (List.take n buf) p k = bytes_at buf p k"
  by (simp add: bytes_at_def drop_take min_absorb1)

lemma resize_bytes:
  assumes "p + k \<le> n" "p + k \<le> length buf" shows "bytes_at (resize buf n) p k = bytes_at buf p k"
  unfolding resize_def using assms by (subst bytes_at_append_left) (simp_all add: bytes_at_take)

lemma bytes_one_nth: "p < length buf \<Longrightarrow> buf ! p = hd (bytes_at buf p 1)"
  by (simp add: bytes_at_one del: One_nat_def)

lemma set_field_buf:
  assumes "field_ok buf" "length data < 2 ^ 32"
  defines "b \<equiv> set_field_buf buf data"
  shows "length b \<ge> 5 + length data" "count_of b = length data" "field_type b = field_type buf"
    "field_data b = data" "field_ok b"
proof -
  let ?c = "gxUINT32_UnPackBits (int (length data))"
  define b1 where "b1 = put_at buf 1 ?c"
  define b2 where "b2 = (if count_of buf < length data then resize b1 (length data + 5) else b1)"
  have b: "b = put_at b2 5 data" by (simp add: b_def set_field_buf_def b1_def b2_def Let_def)
  have l1: "length b1 = length buf" using assms(1) by (simp add: b1_def u32.len field_ok_def)
  then have l2: "length b2 \<ge> 5 + length data" using assms(1) by (auto simp: b2_def field_ok_def)
  then show len: "length b \<ge> 5 + length data" by (simp add: b)
  have keep: "bytes_at b p k = bytes_at b1 p k" if "p + k \<le> 5" for p k
  proof -
    have "bytes_at b p k = bytes_at b2 p k"
      unfolding b using that l2 by (intro bytes_at_put_below) auto
    also have "\<dots> = bytes_at b1 p k"
      using that l1 assms(1) by (simp add: b2_def field_ok_def resize_bytes)
    finally show ?thesis .
  qed
  have "bytes_at b 1 4 = ?c" using keep by (simp add: b1_def bytes_at_put_same_len u32.len)
  then show cnt: "count_of b = length data"
    using assms(2) by (simp add: count_of_def u32.dec_enc in_u32_def)
  have "bytes_at b 0 1 = bytes_at buf 0 1"
    using keep [of 0 1] assms(1) by (simp add: b1_def bytes_at_put_below field_ok_def del: One_nat_def)
  moreover have "b \<noteq> []" "buf \<noteq> []" using len assms(1) by (auto simp: field_ok_def)
  ultimately show "field_type b = field_type buf"
    using bytes_one_nth [of 0 b] bytes_one_nth [of 0 buf] len assms(1)
    by (simp add: field_type_def field_ok_def del: One_nat_def)
  have "field_data b = bytes_at b 5 (length data)" by (simp add: field_data_def cnt)
  also have "\<dots> = data" unfolding b by (rule bytes_at_put_same)
  finally show "field_data b = data" .
  show "field_ok b" using len cnt by (simp add: field_ok_def)
qed

lemma SetField_eq:
  assumes "record_ok r" "i < num_flds r" "length data < 2 ^ 32"
  shows "SetField data (int i) r =
    Some (gxDBASE_NO_ERROR, set_buf i (set_field_buf (db_record r ! i) data) r)"
proof -
  let ?buf = "db_record r ! i" and ?c = "gxUINT32_UnPackBits (int (length data))"
  note f = record_ok_field [OF assms(1,2)]
  have len: "5 \<le> length ?buf" using f(2) by (simp add: field_ok_def)
  have wc: "write_buf ?buf 1 ?c = Some (put_at ?buf 1 ?c)"
    using len by (simp add: write_buf_def u32.len)
  define b1 where "b1 = (if count_of ?buf < length data then resize (put_at ?buf 1 ?c) (length data + 5) else put_at ?buf 1 ?c)"
  have same: "b1 = ?buf" if "count_of ?buf = length data"
    using that put_count_id [OF len] by (simp add: b1_def)
  have "5 + length data \<le> length b1" using f(2) len by (auto simp: b1_def field_ok_def u32.len)
  then have wd: "write_buf b1 5 data = Some (set_field_buf ?buf data)"
    by (simp add: write_buf_def set_field_buf_def b1_def Let_def)
  show ?thesis
  proof (cases "count_of ?buf = length data")
    case True
    then show ?thesis
      using f record_beyond [OF assms(1)] assms(2) wd same by (simp add: SetField_def Let_def)
  next
    case False
    then have "int (count_of ?buf) \<noteq> int (length data)" by simp
    then show ?thesis
      using f record_beyond [OF assms(1)] assms(2) wd wc
      by (cases "count_of ?buf < length data") (simp_all add: SetField_def Let_def b1_def)
  qed
qed

lemma live_set_buf: "live_fields (set_buf i b r) = (live_fields r)[i := b]"
  by (simp add: live_fields_def set_buf_def take_update_swap)

lemma set_buf_sel [simp]: "num_flds (set_buf i b r) = num_flds r" "rec_table_name (set_buf i b r) = rec_table_name r"
  "rec_def (set_buf i b r) = rec_def r" "length (db_record (set_buf i b r)) = length (db_record r)"
  "exclude_fields (set_buf i b r) = exclude_fields r" "db_record (set_buf i b r) = (db_record r)[i := b]"
  by (simp_all add: set_buf_def)

lemma record_ok_set_buf:
  assumes "record_ok r" "field_ok b" shows "record_ok (set_buf i b r)"
  using assms set_update_subset_insert [of "live_fields r" i b]
  by (auto simp: record_ok_def live_set_buf list_all_iff)

lemma GetField_eq:
  assumes "record_ok r"
  shows "GetField n (int i) r = Some
    (if i < num_flds r
     then (if n > length (record_data r ! i) then Inl gxDBASE_BAD_FIELD_LENGTH
           else Inr (List.take n (record_data r ! i)))
     else Inl gxDBASE_BUFFER_OVERFLOW)"
proof (cases "i < num_flds r")
  case True
  let ?buf = "db_record r ! i"
  note f = record_ok_field [OF assms True]
  have d: "record_data r ! i = field_data ?buf"
    using assms True by (simp add: record_data_def record_ok_def live_nth)
  have "read_buf ?buf 5 n = Some (List.take n (field_data ?buf))" if "n \<le> count_of ?buf"
    using that f(2) by (auto simp: read_buf_def field_data_def field_ok_def bytes_at_def min_absorb1)
  then show ?thesis
    using f True record_beyond [OF assms] by (simp add: GetField_def d field_data_length not_less)
next
  case False
  have "db_record r \<noteq> []" using assms by (auto simp: record_ok_def)
  then show ?thesis using False record_beyond [OF assms] by (simp add: GetField_def)
qed

lemma SetField_array:
  assumes "record_ok r" "length data < 2 ^ 32"
  shows "(i < num_flds r \<longrightarrow> (\<exists>r'. SetField data (int i) r = Some (gxDBASE_NO_ERROR, r') \<and> record_ok r' \<and>
       record_types r' = record_types r \<and> record_data r' = (record_data r)[i := data] \<and>
       GetField (length data) (int i) r' = Some (Inr data) \<and>
       (\<forall>j n. j \<noteq> i \<longrightarrow> GetField n (int j) r' = GetField n (int j) r))) \<and>
    (\<not> i < num_flds r \<longrightarrow> SetField data (int i) r = Some (gxDBASE_BUFFER_OVERFLOW, r))"
proof (cases "i < num_flds r")
  case True
  let ?b = "set_field_buf (db_record r ! i) data"
  let ?r = "set_buf i ?b r"
  note b = set_field_buf [OF record_ok_field(2) [OF assms(1) True] assms(2)]
  have n: "num_flds r \<le> length (db_record r)" using assms(1) by (simp add: record_ok_def)
  have ok: "record_ok ?r" using assms(1) b by (simp add: record_ok_set_buf)
  have "field_type ?b = map field_type (live_fields r) ! i"
    using b True n by (simp add: live_nth)
  then have t: "record_types ?r = record_types r"
    by (simp add: record_types_def live_set_buf map_update list_update_same_conv True n)
  have d: "record_data ?r = (record_data r)[i := data]"
    by (simp add: record_data_def live_set_buf map_update b)
  have l: "length (record_data r) = num_flds r" by (simp add: record_data_def n)
  have "GetField n (int j) ?r = GetField n (int j) r" if "j \<noteq> i" for j n
    using that by (simp add: GetField_eq [OF ok] GetField_eq [OF assms(1)] d)
  moreover have "GetField (length data) (int i) ?r = Some (Inr data)"
    using True n l by (simp add: GetField_eq [OF ok] d)
  ultimately show ?thesis
    using True SetField_eq [OF assms(1) True assms(2)] ok t d by auto
next
  case False
  have "db_record r \<noteq> []" using assms(1) by (auto simp: record_ok_def)
  then show ?thesis using False record_beyond [OF assms(1)] by (simp add: SetField_def)
qed

text \<open>
  C32: reading and setting a field refine a typed array of byte strings. On a well-formed record
  \<open>GetField\<close> gives the first bytes of the data of a valid column, as many as are asked for; it refuses to give
  more than the column has, and a column past the end. A valid column is always set, whatever the old length was: the record stays well formed, no type changes, and
  the data of that column and of no other becomes the new data, which is what \<open>GetField\<close> then gives. A
  column past the end is refused and leaves the record unchanged.
\<close>

theorem SetField_refines:
  assumes "record_ok r" "length data < 2 ^ 32"
  shows "(\<forall>n j. GetField n (int j) r = Some
      (if j < num_flds r
       then (if n \<le> length (record_data r ! j) then Inr (List.take n (record_data r ! j)) else Inl gxDBASE_BAD_FIELD_LENGTH)
       else Inl gxDBASE_BUFFER_OVERFLOW)) \<and>
    (i < num_flds r \<longrightarrow> (\<exists>r'. SetField data (int i) r = Some (gxDBASE_NO_ERROR, r') \<and> record_ok r' \<and>
       record_types r' = record_types r \<and> record_data r' = (record_data r)[i := data] \<and>
       GetField (length data) (int i) r' = Some (Inr data) \<and>
       (\<forall>j n. j \<noteq> i \<longrightarrow> GetField n (int j) r' = GetField n (int j) r))) \<and>
    (\<not> i < num_flds r \<longrightarrow> SetField data (int i) r = Some (gxDBASE_BUFFER_OVERFLOW, r))"
  using SetField_array [OF assms, of i] GetField_eq [OF assms(1)] by (simp add: not_le)

lemma sample_ok: "record_ok sample_record"
  by code_simp

theorem SetField_refines_witness:
  "\<exists>r'. SetField [97, 98, 99, 100, 101, 102] (int 0) sample_record = Some (gxDBASE_NO_ERROR, r') \<and>
     record_data r' = [[97, 98, 99, 100, 101, 102], [0, 0]]"
proof -
  have "record_data sample_record = [[0, 0, 0, 0], [0, 0]]" "num_flds sample_record = 2" by code_simp+
  then show ?thesis
    using SetField_refines [OF sample_ok, of "[97, 98, 99, 100, 101, 102]" 0] by auto
qed

end
