(* ===== verification/RdDiskProps.thy ===== *)
theory RdDiskProps
  imports RdRecordProps
begin

text \<open>
  The disk format of a record: what \<open>CreateDiskRecord\<close> writes is the header and the image of each field,
  and \<open>LoadDiskRecord\<close> reads it back.
\<close>

section \<open>Images\<close>

definition field_image :: "byte \<Rightarrow> byte list \<Rightarrow> byte list" where
  "field_image t d = t # gxUINT32_UnPackBits (int (length d)) @ d"

definition stored_data :: "gxrdDatabaseRecord \<Rightarrow> nat \<Rightarrow> byte list" where
  "stored_data r i = (if Exclude (int i) (exclude_fields r) then [] else field_data (db_record r ! i))"

definition stored_field :: "gxrdDatabaseRecord \<Rightarrow> nat \<Rightarrow> byte list" where
  "stored_field r i = field_image (db_record r ! i ! 0) (stored_data r i)"

lemma field_image_length: "length (field_image t d) = 5 + length d"
  by (simp add: field_image_def u32.len)

lemma put_at_end: "length d \<le> length rest \<Longrightarrow> put_at (pre @ rest) (length pre) d = pre @ d @ drop (length d) rest"
  by (simp add: put_at_def)

lemma write_buf_end:
  "length d \<le> length rest \<Longrightarrow> p = length pre \<Longrightarrow>
   write_buf (pre @ rest) p d = Some ((pre @ d) @ drop (length d) rest)"
  by (simp add: write_buf_def put_at_end)

section \<open>Writing\<close>

lemma disk_fields_eq:
  assumes "record_ok r" "i + k \<le> num_flds r" "length pre = off" "flen \<le> off"
    "length (concat (map (stored_field r) [i..<i + k])) \<le> length rest"
  shows "disk_fields r k i off flen (pre @ rest) =
    Some (pre @ concat (map (stored_field r) [i..<i + k]) @
          drop (length (concat (map (stored_field r) [i..<i + k]))) rest)"
  using assms(2-)
proof (induction k arbitrary: i off flen pre rest)
  case (Suc k)
  let ?buf = "db_record r ! i" and ?d = "stored_data r i"
  let ?t = "db_record r ! i ! 0" and ?c = "gxUINT32_UnPackBits (int (length (stored_data r i)))"
  define more where "more = concat (map (stored_field r) [Suc i..<Suc i + k])"
  have i: "i < num_flds r" using Suc.prems by simp
  note f = record_ok_field [OF assms(1) i]
  have len: "5 \<le> length ?buf" using f(2) by (simp add: field_ok_def)
  have image: "stored_field r i = ?t # ?c @ ?d" by (simp add: stored_field_def field_image_def)
  have up: "concat (map (stored_field r) [i..<i + Suc k]) = ?t # ?c @ ?d @ more"
    by (simp add: upt_conv_Cons more_def image del: upt_Suc)
  have room: "5 + length ?d + length more \<le> length rest"
    using Suc.prems(4) unfolding up by (simp add: u32.len)
  have rt: "read_buf ?buf 0 1 = Some [?t]"
    using len bytes_at_one [of 0 ?buf] by (cases "?buf = []") (simp_all add: read_buf_def del: One_nat_def)
  have rc: "read_buf ?buf 1 4 = Some (bytes_at ?buf 1 4)" using len by (simp add: read_buf_def)
  have n: "gxUINT32_PackBits (bytes_at ?buf (Suc 0) 4) = int (length ?d)" if "\<not> Exclude (int i) (exclude_fields r)"
    using in_u32_PackBits [of "bytes_at ?buf 1 4"] len f(2) that
    by (simp add: stored_data_def field_data_length count_of_def in_u32_def)
  have e: "?d = []" if "Exclude (int i) (exclude_fields r)"
    using that by (simp add: stored_data_def)
  have w1: "write_buf (pre @ rest) off [?t] = Some ((pre @ [?t]) @ drop 1 rest)"
    using write_buf_end [of "[?t]" rest off pre] room Suc.prems(2) by simp
  have w2: "write_buf ((pre @ [?t]) @ drop 1 rest) (off + 1) ?c = Some ((pre @ [?t] @ ?c) @ drop 5 rest)"
    using write_buf_end [of ?c "drop 1 rest" "off + 1" "pre @ [?t]"] room Suc.prems(2) by (simp add: u32.len)
  show ?case
  proof (cases "?d = []")
    case True
    have "disk_fields r (Suc k) i off flen (pre @ rest) =
        disk_fields r k (Suc i) (off + 5) flen ((pre @ [?t] @ ?c) @ drop 5 rest)"
      using f(1) rt rc n w1 w2 True by (cases "Exclude (int i) (exclude_fields r)") (simp_all add: Let_def)
    also have "\<dots> = Some ((pre @ [?t] @ ?c) @ more @ drop (length more) (drop 5 rest))"
      unfolding more_def using Suc.prems room True
      by (intro Suc.IH) (auto simp: u32.len more_def simp del: upt_Suc)
    finally show ?thesis unfolding up using True by (simp add: u32.len add.commute)
  next
    case False
    have rd: "read_buf ?buf 5 (length ?d) = Some ?d"
      using False f(2) by (auto simp: stored_data_def field_data_length read_buf_def field_data_def field_ok_def)
    have w3: "write_buf ((pre @ [?t] @ ?c) @ drop 5 rest) (off + 5) ?d =
        Some ((pre @ [?t] @ ?c @ ?d) @ drop (5 + length ?d) rest)"
      using write_buf_end [of ?d "drop 5 rest" "off + 5" "pre @ [?t] @ ?c"] room Suc.prems(2)
      by (simp add: u32.len add.commute)
    have big: "\<not> length ((pre @ [?t] @ ?c) @ drop 5 rest) < flen + 5 + length ?d"
      using room Suc.prems(2,3) by (simp add: u32.len)
    have "disk_fields r (Suc k) i off flen (pre @ rest) =
        disk_fields r k (Suc i) (off + 5 + length ?d) (flen + 5 + length ?d)
          ((pre @ [?t] @ ?c @ ?d) @ drop (5 + length ?d) rest)"
      using f(1) rt rc n e w1 w2 w3 rd big False
      by (cases "Exclude (int i) (exclude_fields r)") (simp_all add: Let_def)
    also have "\<dots> = Some ((pre @ [?t] @ ?c @ ?d) @ more @ drop (length more) (drop (5 + length ?d) rest))"
      unfolding more_def using Suc.prems room
      by (intro Suc.IH) (auto simp: u32.len more_def simp del: upt_Suc)
    finally show ?thesis unfolding up by (simp add: u32.len add.commute add.left_commute)
  qed
qed simp

lemma sum_sizes_ok:
  assumes "record_ok r" "i \<le> num_flds r"
  shows "sum_sizes r i = Some (int (sum_list (map (\<lambda>j. 5 + count_of (db_record r ! j)) [0..<i])))"
  using assms(2) by (induction i) (simp_all add: record_ok_field [OF assms(1)])

lemma stored_field_length:
  assumes "record_ok r" "i < num_flds r"
  shows "length (stored_field r i) \<le> 5 + count_of (db_record r ! i)"
  using record_ok_field(2) [OF assms]
  by (simp add: stored_field_def field_image_length stored_data_def field_data_length)

definition record_image :: "gxrdDatabaseRecord \<Rightarrow> byte list" where
  "record_image r = enc_gxrdRecordHeader (gxrdRecordHeader_for (rec_table_name r) (int (num_flds r))) @
     concat (map (stored_field r) [0..<num_flds r])"

lemma CreateDiskRecord_eq:
  assumes "record_ok r"
  obtains pad where "CreateDiskRecord r = Some (Inr (record_image r @ pad))" "SizeOf_record r = Some (int (length (record_image r @ pad)) - 8)"
proof -
  let ?n = "num_flds r" and ?s = "\<lambda>j. 5 + count_of (db_record r ! j)"
  let ?h = "enc_gxrdRecordHeader (gxrdRecordHeader_for (rec_table_name r) (int ?n))"
  let ?c = "concat (map (stored_field r) [0..<?n])"
  let ?total = "sum_list (map ?s [0..<?n])"
  have size: "SizeOf_record r = Some (int ?total)"
    using assms sum_sizes_ok [OF assms, of ?n] record_ok_field(3) [OF assms, of 0]
    by (simp add: SizeOf_record_def record_ok_def)
  have fits: "length ?c \<le> ?total"
    unfolding length_concat map_map comp_def
    by (rule sum_list_mono) (simp add: stored_field_length [OF assms])
  have l: "length ?h = 8" by (rule record_header.len)
  have "disk_fields r ?n 0 8 0 (?h @ replicate ?total 0) = Some (?h @ ?c @ drop (length ?c) (replicate ?total 0))"
    using disk_fields_eq [OF assms, of 0 ?n ?h 8 0 "replicate ?total 0"] fits l by simp
  moreover have "write_buf (replicate (?total + 8) 0) 0 ?h = Some (?h @ replicate ?total 0)"
    using write_buf_end [of ?h "replicate (?total + 8) 0" 0 "[]"] l by simp
  ultimately have "CreateDiskRecord r = Some (Inr (record_image r @ drop (length ?c) (replicate ?total 0)))"
    using size record_ok_field(3) [OF assms, of 0] assms
    by (simp add: CreateDiskRecord_def Let_def sizeof_gxrdRecordHeader_def record_image_def record_ok_def)
  then show thesis using fits size l by (intro that) (auto simp: record_image_def)
qed

section \<open>Loading\<close>

definition loaded :: "byte list \<Rightarrow> byte \<Rightarrow> byte list \<Rightarrow> bool" where
  "loaded buf t d \<longleftrightarrow> field_ok buf \<and> buf ! 0 = t \<and> field_data buf = d"

definition load_buf :: "byte list \<Rightarrow> byte \<Rightarrow> byte list \<Rightarrow> byte list" where
  "load_buf buf t d =
     (let b1 = (if length buf < 5 then resize buf 5 else buf);
          b3 = put_at (put_at b1 0 [t]) 1 (gxUINT32_UnPackBits (int (length d)));
          b4 = (if length b3 < 5 + length d then resize b3 (5 + length d) else b3)
      in put_at b4 5 d)"

lemma loaded_load_buf:
  assumes "length d < 2 ^ 32" shows "loaded (load_buf buf t d) t d"
proof -
  let ?c = "gxUINT32_UnPackBits (int (length d))"
  define b1 where "b1 = (if length buf < 5 then resize buf 5 else buf)"
  define b3 where "b3 = put_at (put_at b1 0 [t]) 1 ?c"
  define b4 where "b4 = (if length b3 < 5 + length d then resize b3 (5 + length d) else b3)"
  define b where "b = put_at b4 5 d"
  have b: "load_buf buf t d = b" by (simp add: load_buf_def b_def b4_def b3_def b1_def Let_def)
  have l3: "5 \<le> length b3" by (auto simp: b3_def b1_def length_put_at u32.len)
  then have l4: "5 + length d \<le> length b4" by (simp add: b4_def)
  then have l: "5 + length d \<le> length b" by (simp add: b_def)
  have keep: "bytes_at b p k = bytes_at b3 p k" if "p + k \<le> 5" for p k
  proof -
    have "bytes_at b p k = bytes_at b4 p k"
      unfolding b_def using that l4 by (intro bytes_at_put_below) auto
    also have "\<dots> = bytes_at b3 p k" using that l3 by (simp add: b4_def resize_bytes)
    finally show ?thesis .
  qed
  have "bytes_at b 1 4 = ?c" using keep by (simp add: b3_def bytes_at_put_same_len u32.len)
  then have cnt: "count_of b = length d" using assms by (simp add: count_of_def u32.dec_enc in_u32_def)
  have "bytes_at b 0 1 = bytes_at (put_at b1 0 [t]) 0 1"
    using keep [of 0 1] by (simp add: b3_def bytes_at_put_below length_put_at)
  also have "\<dots> = [t]" by (simp add: bytes_at_put_same_len)
  finally have "b ! 0 = t"
    using bytes_at_one [of 0 b] l by (cases "b = []") (auto simp del: One_nat_def)
  moreover have "field_data b = d"
  proof -
    have "field_data b = bytes_at b 5 (length d)" by (simp add: field_data_def cnt)
    also have "\<dots> = d" unfolding b_def by (rule bytes_at_put_same)
    finally show ?thesis .
  qed
  moreover have "field_ok b" using l cnt by (simp add: field_ok_def)
  ultimately show ?thesis by (simp add: b loaded_def)
qed

lemma read_buf_part:
  "p = length pre \<Longrightarrow> n = length d \<Longrightarrow> read_buf (pre @ d @ post) p n = Some d"
  by (simp add: read_buf_def bytes_at_def)

text \<open>One round of the loop over an image.\<close>

lemma load_field:
  assumes "disk = pre @ field_image t d @ post" "off = length pre" "length d < 2 ^ 32"
    "i < length (db_record r)" "\<not> Exclude (int i) (exclude_fields r)"
  shows "load_fields disk (Suc k) i off off r =
    load_fields disk k (i + 1) (off + 5 + length d) (off + 5 + length d) (set_buf i (load_buf (db_record r ! i) t d) r)"
proof -
  let ?c = "gxUINT32_UnPackBits (int (length d))"
  have disk: "disk = pre @ [t] @ ?c @ d @ post" using assms(1) by (simp add: field_image_def)
  have r1: "read_buf disk off 1 = Some [t]"
    unfolding disk by (rule read_buf_part) (simp_all add: assms)
  have r2: "read_buf disk (off + 1) 4 = Some ?c"
    using read_buf_part [of "off + 1" "pre @ [t]" 4 ?c "d @ post"] by (simp add: disk assms u32.len)
  have r3: "read_buf disk (off + 5) (length d) = Some d"
    using read_buf_part [of "off + 5" "pre @ [t] @ ?c" "length d" d post] by (simp add: disk assms u32.len)
  have n: "gxUINT32_PackBits ?c = int (length d)" using assms(3) by (simp add: u32.dec_enc in_u32_def)
  have l: "off + 5 + length d \<le> length disk" by (simp add: disk assms u32.len)
  let ?buf = "db_record r ! i"
  define b1 where "b1 = (if length ?buf < 5 then resize ?buf 5 else ?buf)"
  define b3 where "b3 = put_at (put_at b1 0 [t]) 1 ?c"
  have l1: "5 \<le> length b1" "length b3 = length b1"
    by (auto simp: b1_def b3_def length_put_at u32.len)
  have w1: "write_buf b1 0 [t] = Some (put_at b1 0 [t])" using l1 by (simp add: write_buf_def)
  have w2: "write_buf (put_at b1 0 [t]) (Suc 0) ?c = Some b3"
    using l1 by (simp add: write_buf_def b3_def u32.len length_put_at)
  have b: "load_buf ?buf t d = put_at (if length b3 < 5 + length d then resize b3 (5 + length d) else b3) 5 d"
    by (simp add: load_buf_def b1_def b3_def Let_def)
  show ?thesis
  proof (cases "d = []")
    case True
    then have "load_buf ?buf t d = b3" using l1 b by simp
    then show ?thesis
      using True assms(4,5) l n r1 r2 w1 w2 by (simp add: Let_def field_buf_def flip: b1_def)
  next
    case False
    have "write_buf (if length b3 < 5 + length d then resize b3 (5 + length d) else b3) 5 d = Some (load_buf ?buf t d)"
      by (simp add: write_buf_def b)
    then show ?thesis
      using False assms(4,5) l n r1 r2 r3 w1 w2
      by (cases "length b3 < 5 + length d") (simp_all add: Let_def field_buf_def flip: b1_def)
  qed
qed

lemma load_fields_eq:
  assumes "\<And>j. j < k \<Longrightarrow> length (snd (items ! j)) < 2 ^ 32" "length items = k"
    "disk = pre @ concat (map (\<lambda>(t, d). field_image t d) items) @ post" "off = length pre"
    "i + k \<le> length (db_record r)" "\<And>j. i \<le> j \<Longrightarrow> j < i + k \<Longrightarrow> \<not> Exclude (int j) (exclude_fields r)"
  obtains r' where "load_fields disk k i off off r = Some (gxDBASE_NO_ERROR, r')"
    "r' = r\<lparr>db_record := db_record r'\<rparr>" "length (db_record r') = length (db_record r)"
    "\<And>j. j < i \<or> i + k \<le> j \<Longrightarrow> db_record r' ! j = db_record r ! j"
    "\<And>j. j < k \<Longrightarrow> loaded (db_record r' ! (i + j)) (fst (items ! j)) (snd (items ! j))"
  using assms
proof (induction k arbitrary: thesis i off pre items r)
  case (Suc k)
  obtain t d rest where it: "items = (t, d) # rest" using Suc.prems(3) by (cases items) auto
  let ?b = "load_buf (db_record r ! i) t d"
  have d: "length d < 2 ^ 32" using Suc.prems(2) [of 0] by (simp add: it)
  have disk: "disk = pre @ field_image t d @ concat (map (\<lambda>(t, d). field_image t d) rest) @ post"
    using Suc.prems(4) by (simp add: it)
  have step: "load_fields disk (Suc k) i off off r =
      load_fields disk k (i + 1) (off + 5 + length d) (off + 5 + length d) (set_buf i ?b r)"
    using Suc.prems(5-7) d by (intro load_field [OF disk]) auto
  obtain r' where r': "load_fields disk k (i + 1) (off + 5 + length d) (off + 5 + length d) (set_buf i ?b r) = Some (gxDBASE_NO_ERROR, r')"
    "r' = (set_buf i ?b r)\<lparr>db_record := db_record r'\<rparr>" "length (db_record r') = length (db_record (set_buf i ?b r))"
    "\<And>j. j < i + 1 \<or> i + 1 + k \<le> j \<Longrightarrow> db_record r' ! j = db_record (set_buf i ?b r) ! j"
    "\<And>j. j < k \<Longrightarrow> loaded (db_record r' ! (i + 1 + j)) (fst (rest ! j)) (snd (rest ! j))"
  proof (rule Suc.IH [where items = rest and pre = "pre @ field_image t d" and off = "off + 5 + length d" and i = "i + 1" and r = "set_buf i ?b r"])
    show "length (snd (rest ! j)) < 2 ^ 32" if "j < k" for j using Suc.prems(2) [of "Suc j"] that by (simp add: it)
  qed (use Suc.prems(3,5-7) in \<open>auto simp: it disk field_image_length\<close>)
  show thesis
  proof (rule Suc.prems(1))
    show "load_fields disk (Suc k) i off off r = Some (gxDBASE_NO_ERROR, r')" using step r'(1) by simp
    show "r' = r\<lparr>db_record := db_record r'\<rparr>" using r'(2) by (simp add: set_buf_def)
    show "length (db_record r') = length (db_record r)" using r'(3) by simp
    show "db_record r' ! j = db_record r ! j" if "j < i \<or> i + Suc k \<le> j" for j
      using that r'(4) [of j] by auto
    show "loaded (db_record r' ! (i + j)) (fst (items ! j)) (snd (items ! j))" if "j < Suc k" for j
      using that r'(4) [of i] r'(5) [of "j - 1"] loaded_load_buf [OF d] Suc.prems(6) by (cases j) (auto simp: it)
  qed
qed simp

section \<open>The round trip\<close>

lemma record_header_image:
  assumes "int n \<le> tableMAX_FIELDS"
  shows "dec_gxrdRecordHeader (enc_gxrdRecordHeader (gxrdRecordHeader_for name (int n))) = gxrdRecordHeader_for name (int n)"
    "rh_num_fields (gxrdRecordHeader_for name (int n)) = int n"
    "TestTableID name (gxrdRecordHeader_for name (int n))"
proof -
  have b: "in_u32 (calcCRC32 bs)" for bs
    using calcCRC32_range [of bs] by (simp add: in_u32_def)
  have n: "int n < 2 ^ 32" using assms by (simp add: tableMAX_FIELDS_def)
  then show "rh_num_fields (gxrdRecordHeader_for name (int n)) = int n"
    by (simp add: gxrdRecordHeader_for_def)
  then show "dec_gxrdRecordHeader (enc_gxrdRecordHeader (gxrdRecordHeader_for name (int n))) = gxrdRecordHeader_for name (int n)"
    using n b by (intro record_header.dec_enc)
      (auto simp: gxrdRecordHeader_for_def SetTableID_def new_gxrdRecordHeader_def in_u32_def)
  show "TestTableID name (gxrdRecordHeader_for name (int n))"
    by (simp add: TestTableID_def GetCRC_def gxrdRecordHeader_for_def SetTableID_def)
qed

lemma stored_data_bound:
  assumes "record_ok r" "i < num_flds r" shows "length (stored_data r i) < 2 ^ 32"
  using record_ok_field(2) [OF assms] count_bounds [of "db_record r ! i"]
  by (auto simp: stored_data_def field_data_length field_ok_def in_u32_def)

text \<open>
  C33: a record that \<open>CreateDiskRecord\<close> writes is read back by \<open>LoadDiskRecord\<close>. The reader is any record
  of the same table with at least as many fields, whatever its buffers hold, that excludes none of
  the stored fields: it gets the types and the data of the written record, an excluded field of
  the writer as an empty one, and keeps its other fields.
\<close>

theorem disk_record_roundtrip:
  assumes "record_ok r" "num_flds r \<le> num_flds s" "num_flds s \<le> length (db_record s)"
    "rec_table_name s = rec_table_name r" "\<forall>i < num_flds r. \<not> Exclude (int i) (exclude_fields s)"
  shows "\<exists>disk s'. CreateDiskRecord r = Some (Inr disk) \<and>
    LoadDiskRecord disk s = Some (gxDBASE_NO_ERROR, s') \<and>
    List.take (num_flds r) (record_types s') = record_types r \<and>
    List.take (num_flds r) (record_data s') =
      map (\<lambda>i. if Exclude (int i) (exclude_fields r) then [] else record_data r ! i) [0..<num_flds r] \<and>
    list_all field_ok (List.take (num_flds r) (live_fields s')) \<and>
    drop (num_flds r) (db_record s') = drop (num_flds r) (db_record s) \<and> num_flds s' = num_flds s"
proof -
  let ?n = "num_flds r"
  let ?items = "map (\<lambda>i. (db_record r ! i ! 0, stored_data r i)) [0..<?n]"
  let ?h = "enc_gxrdRecordHeader (gxrdRecordHeader_for (rec_table_name r) (int ?n))"
  have n: "0 < ?n" "int ?n \<le> tableMAX_FIELDS" "?n \<le> length (db_record r)"
    using assms(1) by (auto simp: record_ok_def)
  note h = record_header_image [OF n(2), of "rec_table_name r"]
  have hl: "length ?h = 8" by (rule record_header.len)
  obtain pad where disk: "CreateDiskRecord r = Some (Inr (record_image r @ pad))"
    using CreateDiskRecord_eq [OF assms(1)] by metis
  have image: "record_image r @ pad = ?h @ concat (map (\<lambda>(t, d). field_image t d) ?items) @ pad"
    by (simp add: record_image_def stored_field_def [abs_def] comp_def)
  obtain s' where s': "load_fields (record_image r @ pad) ?n 0 8 8 s = Some (gxDBASE_NO_ERROR, s')"
    "s' = s\<lparr>db_record := db_record s'\<rparr>" "length (db_record s') = length (db_record s)"
    "\<And>j. ?n \<le> j \<Longrightarrow> db_record s' ! j = db_record s ! j"
    "\<And>j. j < ?n \<Longrightarrow> loaded (db_record s' ! j) (db_record r ! j ! 0) (stored_data r j)"
  proof (rule load_fields_eq [where items = ?items and i = 0 and r = s and k = ?n and off = 8, OF _ _ image])
    show "length (snd (?items ! j)) < 2 ^ 32" if "j < ?n" for j
      using that stored_data_bound [OF assms(1)] by simp
  qed (use hl assms in auto)
  have "read_buf (record_image r @ pad) 0 8 = Some ?h"
    by (simp add: read_buf_def bytes_at_def record_image_def hl)
  moreover have "db_record s \<noteq> []" using n assms by auto
  ultimately have load: "LoadDiskRecord (record_image r @ pad) s = Some (gxDBASE_NO_ERROR, s')"
    using h s'(1) assms(2,4) by (simp add: LoadDiskRecord_def sizeof_gxrdRecordHeader_def Let_def)
  have ns: "num_flds s' = num_flds s" by (subst s'(2)) simp
  have live: "List.take ?n (live_fields s') = List.take ?n (db_record s')"
    using assms(2) by (simp add: live_fields_def ns min_absorb1)
  have len: "?n \<le> length (db_record s')" using s'(3) assms by simp
  have types: "List.take ?n (record_types s') = record_types r"
    unfolding record_types_def take_map live using len n s'(5)
    by (intro nth_equalityI) (auto simp: live_nth field_type_def loaded_def)
  have data: "List.take ?n (record_data s') =
      map (\<lambda>i. if Exclude (int i) (exclude_fields r) then [] else record_data r ! i) [0..<?n]"
    unfolding record_data_def take_map live using len n s'(5)
    by (intro nth_equalityI) (auto simp: live_nth loaded_def stored_data_def)
  have ok: "list_all field_ok (List.take ?n (live_fields s'))"
    unfolding live using len s'(5) by (auto simp: list_all_length loaded_def)
  have rest: "drop ?n (db_record s') = drop ?n (db_record s)"
    using s'(3,4) by (intro nth_equalityI) auto
  show ?thesis using disk load types data ok rest ns by blast
qed

definition sample_exclude :: gxrdDatabaseRecord where
  "sample_exclude = sample_record\<lparr>db_record := [[1, 6, 0, 0, 0, 97, 98, 99, 100, 101, 102], [2, 2, 0, 0, 0, 7, 8]],
     exclude_fields := \<lparr>exc_num_fields = 1, exc_fields = Some [1]\<rparr>\<rparr>"

theorem disk_record_roundtrip_witness:
  "\<exists>disk s'. CreateDiskRecord sample_exclude = Some (Inr disk) \<and>
     LoadDiskRecord disk sample_record = Some (gxDBASE_NO_ERROR, s') \<and>
     List.take 2 (record_data s') = [[97, 98, 99, 100, 101, 102], []]"
proof -
  have p: "record_ok sample_exclude" "num_flds sample_exclude = 2" "num_flds sample_record = 2"
    "length (db_record sample_record) = 2" "rec_table_name sample_record = rec_table_name sample_exclude"
    "record_data sample_exclude = [[97, 98, 99, 100, 101, 102], [7, 8]]"
    "Exclude 0 (exclude_fields sample_exclude) = False" "Exclude 1 (exclude_fields sample_exclude) = True"
    by code_simp+
  have e: "\<not> Exclude i (exclude_fields sample_record)" for i
    by (simp add: Exclude_def sample_record_def empty_record_def no_exclude_fields_def)
  have u: "[0..<2] = [0, 1 :: nat]" by (simp add: upt_rec)
  obtain disk s' where "CreateDiskRecord sample_exclude = Some (Inr disk)"
    "LoadDiskRecord disk sample_record = Some (gxDBASE_NO_ERROR, s')"
    "List.take 2 (record_data s') = map (\<lambda>i. if Exclude (int i) (exclude_fields sample_exclude) then []
       else record_data sample_exclude ! i) [0..<2]"
    using disk_record_roundtrip [of sample_exclude sample_record] p(1-5) e by auto
  then show ?thesis using p(6-8) by (simp add: u)
qed

end
