(* ===== verification/RdCompare.thy ===== *)
theory RdCompare
  imports RdRecord
begin

text \<open>
  Comparing records and making keys of them, \<open>Compare\<close> and \<open>CreateKey\<close> of \<open>src/src/gxrdbhdr.cpp\<close>. A switch
  over the type of a field either returns at once (\<open>Inl\<close>) or sets the result that the loop goes on
  with (\<open>Inr\<close>); as in the code, a comparison of floating point numbers that are not ordered leaves
  the result as it was.
\<close>

section \<open>Data of a field\<close>

text \<open>The string in \<open>n\<close> bytes, which ends at its first null.\<close>

definition string_at :: "byte list \<Rightarrow> nat \<Rightarrow> string option" where
  "string_at p n =
     (let t = takeWhile (\<lambda>b. b \<noteq> 0) (List.take n p)
      in if length t < n \<and> length t = length p then None else Some (map char_of_byte t))"

definition three_way :: "bool \<Rightarrow> bool \<Rightarrow> bool \<Rightarrow> int \<Rightarrow> int" where
  "three_way eq lt gt result = (if gt then 1 else if lt then -1 else if eq then 0 else result)"

definition compare_strings :: "bool \<Rightarrow> bool \<Rightarrow> bool \<Rightarrow> string \<Rightarrow> string \<Rightarrow> int" where
  "compare_strings case_cmp alpha_cmp find_match a b =
     (let x = (if case_cmp then a else to_upper a); y = (if case_cmp then b else to_upper b)
      in if find_match \<and> find_sub y x \<noteq> None then 0
         else if \<not> alpha_cmp then compare3 x y
         else natural_compare x y True)"

text \<open>A value of a fixed size: too few bytes return, a match of the bytes is zero, else the values decide.\<close>

definition compare_fixed ::
  "nat \<Rightarrow> bool \<Rightarrow> (byte list \<Rightarrow> byte list \<Rightarrow> int) \<Rightarrow> int \<Rightarrow> int \<Rightarrow> byte list \<Rightarrow> byte list \<Rightarrow> (int + int) option" where
  "compare_fixed k find_match cmp n1 n2 p1 p2 =
     (if n1 < int k \<or> n2 < int k then Some (Inl (-1))
      else do {
        a \<leftarrow> read_buf p1 0 k;
        b \<leftarrow> read_buf p2 0 k;
        Some (Inr (if find_match \<and> buffer_find a b \<noteq> None then 0 else cmp a b))
      })"

definition compare_ints :: "(byte list \<Rightarrow> int) \<Rightarrow> int \<Rightarrow> byte list \<Rightarrow> byte list \<Rightarrow> int" where
  "compare_ints value_of result a b =
     three_way (value_of a = value_of b) (value_of a < value_of b) (value_of a > value_of b) result"

definition compare_doubles :: "int \<Rightarrow> byte list \<Rightarrow> byte list \<Rightarrow> int" where
  "compare_doubles result a b =
     three_way (gxFLOAT64_equal (FObj a) (FObj b)) (gxFLOAT64_less (FObj a) (FObj b))
       (gxFLOAT64_greater (FObj a) (FObj b)) result"

definition compare_dates :: "int \<Rightarrow> byte list \<Rightarrow> byte list \<Rightarrow> int" where
  "compare_dates result a b =
     (let x = dec_CDate a; y = dec_CDate b
      in three_way (CDate_equal x y) (CDate_less x y) (CDate_greater x y) result)"

text \<open>The switch; \<open>p1\<close> and \<open>p2\<close> are the vectors behind the type and the count.\<close>

definition compare_data ::
  "gxrdFIELD_TYPES \<Rightarrow> bool \<Rightarrow> bool \<Rightarrow> bool \<Rightarrow> bool \<Rightarrow> int \<Rightarrow> int \<Rightarrow> int \<Rightarrow> byte list \<Rightarrow> byte list \<Rightarrow> (int + int) option"
where
  "compare_data type compare_all case_cmp alpha_cmp find_match result n1 n2 p1 p2 =
     (let text_case =
            (if n1 < 1 \<or> n2 < 1 then Some (Inl (-1))
             else do {
               a \<leftarrow> string_at p1 (nat n1);
               b \<leftarrow> string_at p2 (nat n2);
               Some (Inr (compare_strings case_cmp alpha_cmp find_match a b))
             });
          double_case = compare_fixed 8 find_match (compare_doubles result) n1 n2 p1 p2
      in case type of
           gxrdBOOL \<Rightarrow> compare_fixed 1 False (compare_ints (\<lambda>b. sint (b ! 0)) result) n1 n2 p1 p2
         | gxrdCHAR \<Rightarrow> text_case
         | gxrdVCHAR \<Rightarrow> text_case
         | gxrdBLOB \<Rightarrow> Some (Inr (if compare_all then 0 else -1))
         | gxrdBINARY \<Rightarrow>
             if n1 < 1 \<or> n2 < 1 then Some (Inl (-1))
             else do {
               a \<leftarrow> read_buf p1 0 (nat n1);
               b \<leftarrow> read_buf p2 0 (nat n2);
               Some (Inr (if find_match \<and> buffer_find a b \<noteq> None then 0 else buffer_compare a b))
             }
         | gxrdINT16 \<Rightarrow> compare_fixed 2 find_match (compare_ints gxINT16_PackBits result) n1 n2 p1 p2
         | gxrdINT32 \<Rightarrow> compare_fixed 4 find_match (compare_ints gxINT32_PackBits result) n1 n2 p1 p2
         | gxrdINT64 \<Rightarrow> compare_fixed 8 find_match (compare_ints gxINT64_PackBits result) n1 n2 p1 p2
         | gxrdFLOAT \<Rightarrow> double_case
         | gxrdCURRENCY \<Rightarrow> double_case
         | gxrdDATE \<Rightarrow> compare_fixed sizeof_CDate find_match (compare_dates result) n1 n2 p1 p2
         | gxrdINVALID_TYPE \<Rightarrow> Some (Inl (-1)))"

section \<open>Comparing records\<close>

fun compare_loop ::
  "gxrdDatabaseRecord \<Rightarrow> gxrdDatabaseRecord \<Rightarrow> bool \<Rightarrow> bool \<Rightarrow> bool \<Rightarrow> bool \<Rightarrow> nat \<Rightarrow> nat \<Rightarrow> int \<Rightarrow> int option" where
  "compare_loop r ob compare_all case_cmp alpha_cmp find_match 0 i result = Some 0"
| "compare_loop r ob compare_all case_cmp alpha_cmp find_match (Suc k) i result = do {
     buf1 \<leftarrow> field_buf r i; t1 \<leftarrow> field_type_at buf1; n1 \<leftarrow> num_bytes_at buf1;
     buf2 \<leftarrow> field_buf ob i; t2 \<leftarrow> field_type_at buf2; n2 \<leftarrow> num_bytes_at buf2;
     if t1 \<noteq> t2 then Some (-1)
     else case type_of_id t1 of
       None \<Rightarrow> Some (-1)
     | Some type \<Rightarrow> do {
         res \<leftarrow> compare_data type compare_all case_cmp alpha_cmp find_match result n1 n2 (drop 5 buf1) (drop 5 buf2);
         case res of
           Inl v \<Rightarrow> Some v
         | Inr v \<Rightarrow>
             if \<not> compare_all \<or> v \<noteq> 0 then Some v
             else compare_loop r ob compare_all case_cmp alpha_cmp find_match k (i + 1) v
       }
   }"

definition Compare ::
  "gxrdDatabaseRecord \<Rightarrow> gxrdDatabaseRecord \<Rightarrow> int \<Rightarrow> int \<Rightarrow> int \<Rightarrow> int \<Rightarrow> int option" where
  "Compare r ob field case_cmp alpha_cmp find_match =
     (if db_record r = [] \<or> db_record ob = [] then Some (-1)
      else if rec_table_name r \<noteq> rec_table_name ob then Some (-1)
      else if rec_def r \<noteq> rec_def ob then Some (-1)
      else if num_flds r \<noteq> num_flds ob then Some (-1)
      else (let compare_all = (field = 2 ^ 64 - 1 \<or> field \<ge> int (num_flds r) \<or> field \<ge> int (num_flds ob));
                i = (if compare_all then 0 else nat field)
            in compare_loop r ob compare_all (case_cmp \<noteq> 0) (alpha_cmp \<noteq> 0) (find_match \<noteq> 0)
                 (num_flds r - i) i (-1)))"

text \<open>The operators use the settings of their left operand.\<close>

definition Compare_operator :: "gxrdDatabaseRecord \<Rightarrow> gxrdDatabaseRecord \<Rightarrow> int option" where
  "Compare_operator a b = Compare a b (to_u64 (compare_field a)) (compare_case a) (compare_alpha a) 0"

definition record_equal :: "gxrdDatabaseRecord \<Rightarrow> gxrdDatabaseRecord \<Rightarrow> bool option" where
  "record_equal a b = map_option (\<lambda>v. v = 0) (Compare_operator a b)"

definition record_not_equal :: "gxrdDatabaseRecord \<Rightarrow> gxrdDatabaseRecord \<Rightarrow> bool option" where
  "record_not_equal a b = map_option (\<lambda>v. v \<noteq> 0) (Compare_operator a b)"

definition record_less :: "gxrdDatabaseRecord \<Rightarrow> gxrdDatabaseRecord \<Rightarrow> bool option" where
  "record_less a b = map_option (\<lambda>v. v < 0) (Compare_operator a b)"

definition record_greater :: "gxrdDatabaseRecord \<Rightarrow> gxrdDatabaseRecord \<Rightarrow> bool option" where
  "record_greater a b = map_option (\<lambda>v. v > 0) (Compare_operator a b)"

section \<open>Keys\<close>

text \<open>What a field adds to the buffer that is checked; \<open>Inl\<close> returns the key zero.\<close>

definition key_fixed :: "nat \<Rightarrow> int \<Rightarrow> byte list \<Rightarrow> (unit + byte list) option" where
  "key_fixed k n p = (if n < int k then Some (Inl ()) else map_option Inr (read_buf p 0 k))"

definition key_data :: "gxrdFIELD_TYPES \<Rightarrow> bool \<Rightarrow> int \<Rightarrow> byte list \<Rightarrow> (unit + byte list) option" where
  "key_data type case_cmp n p =
     (let text_case =
            (if n < 1 then Some (Inl ())
             else map_option (\<lambda>s. Inr (name_bytes (if case_cmp then s else to_upper s))) (string_at p (nat n)))
      in case type of
           gxrdBOOL \<Rightarrow> key_fixed 1 n p
         | gxrdCHAR \<Rightarrow> text_case
         | gxrdVCHAR \<Rightarrow> text_case
         | gxrdBLOB \<Rightarrow> Some (if n < 1 then Inl () else Inr [])
         | gxrdBINARY \<Rightarrow> if n < 1 then Some (Inl ()) else map_option Inr (read_buf p 0 (nat n))
         | gxrdINT16 \<Rightarrow> key_fixed 2 n p
         | gxrdINT32 \<Rightarrow> key_fixed 4 n p
         | gxrdINT64 \<Rightarrow> key_fixed 8 n p
         | gxrdFLOAT \<Rightarrow> key_fixed 8 n p
         | gxrdCURRENCY \<Rightarrow> key_fixed 8 n p
         | gxrdDATE \<Rightarrow> key_fixed sizeof_CDate n p
         | gxrdINVALID_TYPE \<Rightarrow> Some (Inl ()))"

fun key_loop :: "gxrdDatabaseRecord \<Rightarrow> bool \<Rightarrow> bool \<Rightarrow> nat \<Rightarrow> nat \<Rightarrow> byte list \<Rightarrow> int option" where
  "key_loop r compare_all case_cmp 0 i out = Some (calcCRC32 out)"
| "key_loop r compare_all case_cmp (Suc k) i out = do {
     buf \<leftarrow> field_buf r i; t \<leftarrow> field_type_at buf; n \<leftarrow> num_bytes_at buf;
     case type_of_id t of
       None \<Rightarrow> Some 0
     | Some type \<Rightarrow> do {
         d \<leftarrow> key_data type case_cmp n (drop 5 buf);
         case d of
           Inl _ \<Rightarrow> Some 0
         | Inr bs \<Rightarrow>
             if \<not> compare_all then Some (calcCRC32 (out @ bs))
             else key_loop r compare_all case_cmp k (i + 1) (out @ bs)
       }
   }"

definition CreateKey :: "int \<Rightarrow> int \<Rightarrow> gxrdDatabaseRecord \<Rightarrow> int option" where
  "CreateKey field case_cmp r =
     (if db_record r = [] then Some 0
      else (let compare_all = (field = 2 ^ 64 - 1 \<or> field \<ge> int (num_flds r));
                i = (if compare_all then 0 else nat field)
            in do {
              _ \<leftarrow> SizeOf_record r;
              key_loop r compare_all (case_cmp \<noteq> 0) (num_flds r - i) i []
            }))"

end
