(* ===== verification/StrProps.thy ===== *)
theory StrProps
  imports StrUtil RdKey "HOL-Library.List_Lexorder" "HOL-Library.Product_Lexorder"
begin

text \<open>
  What the string helpers and the date class compute: the searches give the first place of a pattern,
  the three-way comparisons are orders, and \<open>natural_compare\<close> orders strings as lists of tokens, a
  token being a number or a character.
\<close>

section \<open>Three-way comparisons of an ordered type\<close>

definition cmp_of :: "'a :: linorder \<Rightarrow> 'a \<Rightarrow> int" where
  "cmp_of x y = (if x < y then - 1 else if x > y then 1 else 0)"

lemma cmp_of_simps [simp]:
  "cmp_of x y < 0 \<longleftrightarrow> x < y" "0 < cmp_of x y \<longleftrightarrow> y < x" "cmp_of x y = 0 \<longleftrightarrow> x = y"
  "cmp_of x y \<le> 0 \<longleftrightarrow> x \<le> y" "cmp_of x x = 0"
  by (auto simp: cmp_of_def)

interpretation linear: key_order "cmp_of :: 'a :: linorder \<Rightarrow> 'a \<Rightarrow> int"
  by unfold_locales auto

lemma lex_compare_cmp: "lex_compare xs ys = cmp_of xs ys"
  by (induction xs ys rule: lex_compare.induct) (auto simp: cmp_of_def)

lemma code_of_inj [simp]: "code_of c = code_of d \<longleftrightarrow> c = d"
  by (simp add: code_of_def)

lemma compare3_cmp: "compare3 a b = cmp_of (map code_of a) (map code_of b)"
  by (simp add: compare3_def lex_compare_cmp)

lemma compare3_zero [simp]: "compare3 a b = 0 \<longleftrightarrow> a = b"
  by (simp add: compare3_cmp inj_map_eq_map inj_def)

lemma buffer_compare_cmp: "buffer_compare a b = cmp_of (byte_nats a) (byte_nats b)"
  by (simp add: buffer_compare_def lex_compare_cmp)

interpretation text_order: key_order compare3
  by unfold_locales (auto simp: compare3_cmp)

interpretation buffer_order: key_order buffer_compare
  by unfold_locales (auto simp: buffer_compare_cmp)

section \<open>Natural order\<close>

text \<open>A number stands where the digits stand among the characters.\<close>

definition char_key :: "bool \<Rightarrow> char \<Rightarrow> nat" where
  "char_key check_case c = code_of (if check_case then c else to_upper_char c)"

definition number_token :: "string \<Rightarrow> nat \<times> nat \<times> nat list" where
  "number_token d = (48, length d, map code_of d)"

lemma digits_shorter:
  "is_digit c \<Longrightarrow> length (dropWhile is_digit (dropWhile is_zero (c # cs))) < length (c # cs)"
  using length_dropWhile_le [of is_digit "dropWhile is_zero cs"] length_dropWhile_le [of is_zero cs]
    length_dropWhile_le [of is_digit cs] by auto

function tokens :: "bool \<Rightarrow> string \<Rightarrow> (nat \<times> nat \<times> nat list) list" where
  "tokens cc [] = []"
| "tokens cc (c # cs) =
     (if is_digit c
      then (let s = dropWhile is_zero (c # cs)
            in number_token (takeWhile is_digit s) # tokens cc (dropWhile is_digit s))
      else (char_key cc c, 0, []) # tokens cc cs)"
  by pat_completeness auto

termination
  by (relation "measure (\<lambda>(cc, s). length s)") (use digits_shorter in auto)

declare tokens.simps [simp del]

lemma char_key_nondigit: "\<not> is_digit c \<Longrightarrow> char_key cc c < 48 \<or> 57 < char_key cc c"
  by (auto simp: char_key_def is_digit_def code_of_def to_upper_char_def)

lemma digit_code: "is_digit c \<longleftrightarrow> 48 \<le> code_of c \<and> code_of c \<le> 57"
  by (simp add: is_digit_def code_of_def)

lemma char_key_digit: "is_digit c \<Longrightarrow> char_key cc c = code_of c"
  by (simp add: char_key_def to_upper_char_def digit_code)

lemma char_key_eq: "char_key cc c = char_key cc d \<longleftrightarrow>
  (if cc then c else to_upper_char c) = (if cc then d else to_upper_char d)"
  by (simp add: char_key_def)

lemma cmp_of_pair: "cmp_of (a, b) (c, d) = (if a = c then cmp_of b d else cmp_of a c)"
  by (auto simp: cmp_of_def)

lemma number_token_cmp:
  "cmp_of (number_token d) (number_token e) =
     (if length d \<noteq> length e then (if length d < length e then - 1 else 1) else compare3 d e)"
  by (simp add: number_token_def cmp_of_pair compare3_cmp) (simp add: cmp_of_def)

lemma compare3_sign: "(if compare3 a b < 0 then - 1 else 1) = compare3 a b" if "compare3 a b \<noteq> 0"
  using that by (auto simp: compare3_cmp cmp_of_def)

lemma natural_compare_digits:
  assumes "is_digit ca" "is_digit cb"
  shows "natural_compare (ca # as) (cb # bs) cc =
    (let sa = dropWhile is_zero (ca # as); sb = dropWhile is_zero (cb # bs);
         v = cmp_of (number_token (takeWhile is_digit sa)) (number_token (takeWhile is_digit sb))
     in if v \<noteq> 0 then v else natural_compare (dropWhile is_digit sa) (dropWhile is_digit sb) cc)"
proof -
  define sa where "sa = dropWhile is_zero (ca # as)"
  define sb where "sb = dropWhile is_zero (cb # bs)"
  have "natural_compare (ca # as) (cb # bs) cc =
    (let da = takeWhile is_digit sa; db = takeWhile is_digit sb
     in if length da \<noteq> length db then (if length da < length db then - 1 else 1)
        else let r = compare3 da db
             in if r \<noteq> 0 then (if r < 0 then - 1 else 1)
                else natural_compare (dropWhile is_digit sa) (dropWhile is_digit sb) cc)"
    using assms by (subst natural_compare.simps) (simp add: sa_def sb_def Let_def)
  then show ?thesis
    using compare3_sign unfolding sa_def [symmetric] sb_def [symmetric]
    by (simp add: Let_def number_token_cmp)
qed

lemma natural_compare_chars:
  assumes "\<not> (is_digit ca \<and> is_digit cb)"
  shows "natural_compare (ca # as) (cb # bs) cc =
    (if char_key cc ca \<noteq> char_key cc cb then cmp_of (char_key cc ca) (char_key cc cb)
     else natural_compare as bs cc)"
proof -
  have "natural_compare (ca # as) (cb # bs) cc =
    (let x = (if cc then ca else to_upper_char ca); y = (if cc then cb else to_upper_char cb)
     in if x \<noteq> y then (if code_of x < code_of y then - 1 else 1) else natural_compare as bs cc)"
    using assms by (subst natural_compare.simps) (simp add: Let_def)
  then show ?thesis by (simp add: Let_def char_key_def cmp_of_def)
qed

lemma tokens_digit:
  "is_digit c \<Longrightarrow> tokens cc (c # cs) =
    number_token (takeWhile is_digit (dropWhile is_zero (c # cs))) # tokens cc (dropWhile is_digit (dropWhile is_zero (c # cs)))"
  by (subst tokens.simps) (simp add: Let_def)

lemma cmp_of_Cons: "cmp_of (x # xs) (y # ys) = (if cmp_of x y \<noteq> 0 then cmp_of x y else cmp_of xs ys)"
  by (auto simp: cmp_of_def)

lemma cmp_of_heads: "fst t \<noteq> fst u \<Longrightarrow> cmp_of (t # ts) (u # us) = cmp_of (fst t) (fst u)"
  by (cases t; cases u) (simp add: cmp_of_Cons cmp_of_pair)

lemma token_head:
  "\<exists>t ts. tokens cc (c # cs) = t # ts \<and> fst t = (if is_digit c then 48 else char_key cc c)"
  by (simp add: tokens.simps Let_def number_token_def)

lemma tokens_digits:
  assumes "is_digit ca" "is_digit cb"
  shows "cmp_of (tokens cc (ca # as)) (tokens cc (cb # bs)) =
    (let sa = dropWhile is_zero (ca # as); sb = dropWhile is_zero (cb # bs);
         v = cmp_of (number_token (takeWhile is_digit sa)) (number_token (takeWhile is_digit sb))
     in if v \<noteq> 0 then v else cmp_of (tokens cc (dropWhile is_digit sa)) (tokens cc (dropWhile is_digit sb)))"
  using assms by (simp add: tokens_digit cmp_of_Cons Let_def)

lemma tokens_chars:
  assumes "\<not> (is_digit ca \<and> is_digit cb)"
  shows "cmp_of (tokens cc (ca # as)) (tokens cc (cb # bs)) =
    (if char_key cc ca \<noteq> char_key cc cb then cmp_of (char_key cc ca) (char_key cc cb)
     else cmp_of (tokens cc as) (tokens cc bs))"
proof -
  let ?h = "\<lambda>c. if is_digit c then 48 else char_key cc c"
  note keys = char_key_digit [of ca cc] char_key_digit [of cb cc] char_key_nondigit [of ca cc]
    char_key_nondigit [of cb cc]
  have h: "cmp_of (?h ca) (?h cb) = cmp_of (char_key cc ca) (char_key cc cb) \<and> ?h ca \<noteq> ?h cb"
    if "char_key cc ca \<noteq> char_key cc cb"
    using assms that keys unfolding cmp_of_def digit_code by (auto split: if_splits)
  obtain t ts u us where t: "tokens cc (ca # as) = t # ts" "fst t = ?h ca"
    "tokens cc (cb # bs) = u # us" "fst u = ?h cb"
    using token_head [of cc ca as] token_head [of cc cb bs] by metis
  have same: "char_key cc ca = char_key cc cb \<Longrightarrow> \<not> is_digit ca \<and> \<not> is_digit cb"
    using assms keys by (auto simp: digit_code)
  show ?thesis
  proof (cases "char_key cc ca = char_key cc cb")
    case True
    then show ?thesis using same by (simp add: tokens.simps cmp_of_Cons)
  next
    case False
    then have "cmp_of (t # ts) (u # us) = cmp_of (char_key cc ca) (char_key cc cb)"
      using t(2,4) h by (simp add: cmp_of_heads)
    then show ?thesis using False unfolding t by simp
  qed
qed

text \<open>
  C37: \<open>natural_compare\<close> is the order of token lists, a run of digits counting as the number that it
  writes whatever its leading zeros are; so it is a total order up to leading zeros (and case, when
  that is not checked), although the loop compares a digit with a character by their codes.
\<close>

theorem natural_compare_tokens:
  "natural_compare a b cc = cmp_of (tokens cc a) (tokens cc b)"
proof (induction "length a" arbitrary: a b rule: less_induct)
  case (less a b)
  show ?case
  proof (cases "a = [] \<or> b = []")
    case True
    then show ?thesis
      by (cases a; cases b) (auto simp: natural_compare.simps tokens.simps cmp_of_def Let_def)
  next
    case False
    then obtain ca as cb bs where ab: "a = ca # as" "b = cb # bs" by (meson neq_Nil_conv)
    show ?thesis
    proof (cases "is_digit ca \<and> is_digit cb")
      case True
      let ?sa = "dropWhile is_zero (ca # as)" and ?sb = "dropWhile is_zero (cb # bs)"
      have "natural_compare (dropWhile is_digit ?sa) (dropWhile is_digit ?sb) cc =
          cmp_of (tokens cc (dropWhile is_digit ?sa)) (tokens cc (dropWhile is_digit ?sb))"
        using True digits_shorter [of ca as] by (intro less) (simp add: ab)
      then show ?thesis
        using True unfolding ab by (simp add: natural_compare_digits tokens_digits Let_def)
    next
      case False
      have "natural_compare as bs cc = cmp_of (tokens cc as) (tokens cc bs)"
        by (intro less) (simp add: ab)
      then show ?thesis unfolding ab by (simp add: natural_compare_chars [OF False] tokens_chars [OF False])
    qed
  qed
qed

end
