(* ===== verification/RdOrder.thy ===== *)
theory RdOrder
  imports RdCompare RdRecordProps StrProps
begin

text \<open>
  The order that \<open>Compare\<close> gives the records of a table. A field has a key in an ordered type, which
  depends on its type and on the two settings; \<open>Compare\<close> without \<open>find_match\<close> compares the keys, of one
  field or of all fields in turn.
\<close>

section \<open>Keys of fields\<close>

type_synonym order_key = "int list \<times> (nat \<times> nat \<times> nat list) list"

definition text_of_field :: "byte list \<Rightarrow> string" where
  "text_of_field buf = map char_of_byte (takeWhile (\<lambda>b. b \<noteq> 0) (field_data buf))"

definition text_key :: "bool \<Rightarrow> bool \<Rightarrow> string \<Rightarrow> order_key" where
  "text_key case_cmp alpha_cmp s =
     (let x = (if case_cmp then s else to_upper s)
      in if alpha_cmp then ([], tokens True x) else (map (\<lambda>c. int (code_of c)) x, []))"

definition date_key :: "CDate \<Rightarrow> int list" where
  "date_key d = [cd_Year d, cd_Month d, cd_Day d]"

definition field_key :: "bool \<Rightarrow> bool \<Rightarrow> byte list \<Rightarrow> order_key" where
  "field_key case_cmp alpha_cmp buf =
     (let p = drop 5 buf
      in case type_of_id (field_type buf) of
           None \<Rightarrow> ([], [])
         | Some type \<Rightarrow> (case type of
             gxrdBOOL \<Rightarrow> ([sint (bytes_at p 0 1 ! 0)], [])
           | gxrdCHAR \<Rightarrow> text_key case_cmp alpha_cmp (text_of_field buf)
           | gxrdVCHAR \<Rightarrow> text_key case_cmp alpha_cmp (text_of_field buf)
           | gxrdBINARY \<Rightarrow> (map uint (field_data buf), [])
           | gxrdINT16 \<Rightarrow> ([gxINT16_PackBits (bytes_at p 0 2)], [])
           | gxrdINT32 \<Rightarrow> ([gxINT32_PackBits (bytes_at p 0 4)], [])
           | gxrdINT64 \<Rightarrow> ([gxINT64_PackBits (bytes_at p 0 8)], [])
           | gxrdFLOAT \<Rightarrow> ([dbl_rank (gxFLOAT64_PackBits (bytes_at p 0 8))], [])
           | gxrdCURRENCY \<Rightarrow> ([dbl_rank (gxFLOAT64_PackBits (bytes_at p 0 8))], [])
           | gxrdDATE \<Rightarrow> (date_key (dec_CDate (bytes_at p 0 4)), [])
           | gxrdBLOB \<Rightarrow> ([], [])
           | gxrdINVALID_TYPE \<Rightarrow> ([], [])))"

text \<open>A field that has a key: enough bytes for its type and, for a floating point type, a number.\<close>

definition type_bytes :: "gxrdFIELD_TYPES \<Rightarrow> nat" where
  "type_bytes type =
     (case type of
        gxrdINT16 \<Rightarrow> 2 | gxrdINT32 \<Rightarrow> 4 | gxrdINT64 \<Rightarrow> 8 | gxrdFLOAT \<Rightarrow> 8 | gxrdCURRENCY \<Rightarrow> 8
      | gxrdDATE \<Rightarrow> 4 | gxrdBLOB \<Rightarrow> 0 | _ \<Rightarrow> 1)"

definition sortable_field :: "byte list \<Rightarrow> bool" where
  "sortable_field buf \<longleftrightarrow> field_ok buf \<and>
     (case type_of_id (field_type buf) of
        None \<Rightarrow> False
      | Some type \<Rightarrow> type \<noteq> gxrdINVALID_TYPE \<and> type_bytes type \<le> count_of buf \<and>
          (type = gxrdFLOAT \<or> type = gxrdCURRENCY \<longrightarrow>
             \<not> dbl_is_nan (gxFLOAT64_PackBits (bytes_at (drop 5 buf) 0 8))))"

definition sortable :: "gxrdDatabaseRecord \<Rightarrow> bool" where
  "sortable r \<longleftrightarrow> record_ok r \<and> list_all sortable_field (live_fields r)"

section \<open>Fields\<close>

lemma three_way_cmp: "three_way (x = y) (x < y) (x > y) result = cmp_of (x :: 'a :: linorder) y"
  by (auto simp: three_way_def cmp_of_def)

lemma compare_doubles_cmp:
  assumes "\<not> dbl_is_nan (gxFLOAT64_PackBits a)" "\<not> dbl_is_nan (gxFLOAT64_PackBits b)"
  shows "compare_doubles result a b = cmp_of (dbl_rank (gxFLOAT64_PackBits a)) (dbl_rank (gxFLOAT64_PackBits b))"
  using assms three_way_cmp [of "dbl_rank (gxFLOAT64_PackBits a)" "dbl_rank (gxFLOAT64_PackBits b)" result]
  by (simp add: compare_doubles_def gxFLOAT64_equal_def gxFLOAT64_less_def gxFLOAT64_greater_def
      dbl_equal_def dbl_less_def)

lemma compare_dates_cmp: "compare_dates result a b = cmp_of (date_key (dec_CDate a)) (date_key (dec_CDate b))"
  by (auto simp: compare_dates_def Let_def three_way_def cmp_of_def date_key_def CDate_equal_def CDate_less_def
      CDate_greater_def)

lemma cmp_of_mono: "(\<And>x y. f x < f y \<longleftrightarrow> x < y) \<Longrightarrow> cmp_of (f x) (f y) = cmp_of x y"
  by (simp add: cmp_of_def)

lemma map_less: "(\<And>x y. f x < f y \<longleftrightarrow> x < y) \<Longrightarrow> (map f xs < map f ys) = (xs < ys)"
  for f :: "'a :: linorder \<Rightarrow> 'b :: linorder"
proof (induction xs arbitrary: ys)
  case Nil
  then show ?case by (cases ys) simp_all
next
  case (Cons x xs)
  have "f x = f y \<longleftrightarrow> x = y" for y
    using Cons.prems [of x y] Cons.prems [of y x] by (metis antisym_conv3 less_irrefl)
  then show ?case using Cons by (cases ys) simp_all
qed

lemma cmp_of_map: "(\<And>x y. f x < f y \<longleftrightarrow> x < y) \<Longrightarrow> cmp_of (map f xs) (map f ys) = cmp_of xs ys"
  for f :: "'a :: linorder \<Rightarrow> 'b :: linorder"
  by (simp add: cmp_of_def map_less)

lemma cmp_of_left [simp]: "cmp_of (x, z) (y, z) = cmp_of x y" "cmp_of (z, x) (z, y) = cmp_of x y"
  "cmp_of [a] [b] = cmp_of a b"
  by (auto simp: cmp_of_def)

lemma compare_strings_cmp:
  "compare_strings cc ac False a b = cmp_of (text_key cc ac a) (text_key cc ac b)"
proof -
  have c: "compare3 x y = cmp_of (map (\<lambda>c. int (code_of c)) x) (map (\<lambda>c. int (code_of c)) y)" for x y
    using cmp_of_map [of int "map code_of x" "map code_of y"] by (simp add: compare3_cmp comp_def)
  show ?thesis by (simp add: compare_strings_def text_key_def Let_def natural_compare_tokens c)
qed

lemma buffer_compare_ints: "buffer_compare a b = cmp_of (map uint a) (map uint b)"
proof -
  have "map uint x = map int (byte_nats x)" for x :: "byte list" by (simp add: byte_nats_def)
  then show ?thesis using cmp_of_map [of int "byte_nats a" "byte_nats b"] by (simp add: buffer_compare_cmp)
qed

lemma field_read:
  assumes "field_ok buf"
  shows "k \<le> count_of buf \<Longrightarrow> read_buf (drop 5 buf) 0 k = Some (bytes_at (drop 5 buf) 0 k)"
    "bytes_at (drop 5 buf) 0 (count_of buf) = field_data buf"
    "string_at (drop 5 buf) (count_of buf) = Some (text_of_field buf)"
proof -
  have l: "5 + count_of buf \<le> length buf" using assms by (simp add: field_ok_def)
  then show "k \<le> count_of buf \<Longrightarrow> read_buf (drop 5 buf) 0 k = Some (bytes_at (drop 5 buf) 0 k)"
    by (simp add: read_buf_def)
  show d: "bytes_at (drop 5 buf) 0 (count_of buf) = field_data buf"
    by (simp add: field_data_def bytes_at_def)
  have t: "List.take (count_of buf) (drop 5 buf) = field_data buf"
    by (simp add: field_data_def bytes_at_def)
  have "length (takeWhile (\<lambda>b. b \<noteq> 0) (field_data buf)) \<le> count_of buf"
    using length_takeWhile_le [of "\<lambda>b. b \<noteq> 0" "field_data buf"] field_data_length [OF assms] by simp
  then show "string_at (drop 5 buf) (count_of buf) = Some (text_of_field buf)"
    using l by (auto simp: string_at_def t text_of_field_def Let_def)
qed

lemma compare_fixed_ok:
  assumes "field_ok b1" "field_ok b2" "k \<le> count_of b1" "k \<le> count_of b2"
  shows "compare_fixed k False cmp (int (count_of b1)) (int (count_of b2)) (drop 5 b1) (drop 5 b2) =
    Some (Inr (cmp (bytes_at (drop 5 b1) 0 k) (bytes_at (drop 5 b2) 0 k)))"
  using assms by (simp add: compare_fixed_def field_read(1))

lemma compare_data_key:
  assumes "sortable_field b1" "sortable_field b2" "field_type b1 = field_type b2"
    "type_of_id (field_type b1) = Some type" "type = gxrdBLOB \<longrightarrow> compare_all"
  shows "compare_data type compare_all cc ac False result (int (count_of b1)) (int (count_of b2)) (drop 5 b1) (drop 5 b2) =
    Some (Inr (cmp_of (field_key cc ac b1) (field_key cc ac b2)))"
proof -
  have ok: "field_ok b1" "field_ok b2" "type \<noteq> gxrdINVALID_TYPE" "type_bytes type \<le> count_of b1"
    "type_bytes type \<le> count_of b2" "type_of_id (field_type b2) = Some type"
    using assms by (auto simp: sortable_field_def)
  have nan: "\<not> dbl_is_nan (gxFLOAT64_PackBits (bytes_at (drop 5 b1) 0 8))"
    "\<not> dbl_is_nan (gxFLOAT64_PackBits (bytes_at (drop 5 b2) 0 8))" if "type = gxrdFLOAT \<or> type = gxrdCURRENCY"
    using assms that by (auto simp: sortable_field_def)
  note fixed = compare_fixed_ok [OF ok(1,2)]
  note key = field_key_def assms(4) ok(6) Let_def compare_data_def type_bytes_def
  show ?thesis
  proof (cases type)
    case gxrdBLOB
    then show ?thesis using assms(5) by (simp add: key)
  next
    case gxrdBINARY
    then show ?thesis using ok by (simp add: key field_read buffer_compare_ints)
  qed (use ok nan in \<open>simp_all add: key fixed field_read compare_ints_def three_way_cmp compare_doubles_cmp
      compare_dates_cmp compare_strings_cmp sizeof_CDate_def\<close>)
qed

section \<open>Records\<close>

definition record_key :: "int \<Rightarrow> bool \<Rightarrow> bool \<Rightarrow> gxrdDatabaseRecord \<Rightarrow> order_key list" where
  "record_key field case_cmp alpha_cmp r =
     (if field \<ge> int (num_flds r) then map (field_key case_cmp alpha_cmp) (live_fields r)
      else [field_key case_cmp alpha_cmp (live_fields r ! nat field)])"

definition same_shape :: "gxrdDatabaseRecord \<Rightarrow> gxrdDatabaseRecord \<Rightarrow> bool" where
  "same_shape r ob \<longleftrightarrow> rec_table_name r = rec_table_name ob \<and> rec_def r = rec_def ob \<and>
     num_flds r = num_flds ob \<and> record_types r = record_types ob"

lemma shape_fields:
  assumes "sortable r" "sortable ob" "same_shape r ob" "i < num_flds r"
  shows "field_type (db_record r ! i) = field_type (db_record ob ! i)"
    "sortable_field (db_record r ! i)" "sortable_field (db_record ob ! i)"
    "\<exists>type. type_of_id (field_type (db_record r ! i)) = Some type"
proof -
  have n: "num_flds r \<le> length (db_record r)" "num_flds ob \<le> length (db_record ob)" "num_flds ob = num_flds r"
    using assms by (auto simp: sortable_def record_ok_def same_shape_def)
  have "map field_type (live_fields r) ! i = map field_type (live_fields ob) ! i"
    using assms(3) by (simp add: same_shape_def record_types_def)
  then show "field_type (db_record r ! i) = field_type (db_record ob ! i)"
    using n assms(4) by (simp add: live_nth)
  show s: "sortable_field (db_record r ! i)" "sortable_field (db_record ob ! i)"
    using assms n by (auto simp: sortable_def list_all_length live_nth)
  then show "\<exists>type. type_of_id (field_type (db_record r ! i)) = Some type"
    by (auto simp: sortable_field_def split: option.splits)
qed

lemma compare_loop_step:
  assumes "sortable r" "sortable ob" "same_shape r ob" "i < num_flds r"
    "compare_all \<or> type_of_id (field_type (db_record r ! i)) \<noteq> Some gxrdBLOB"
  shows "compare_loop r ob compare_all cc ac False (Suc k) i result =
    (let v = cmp_of (field_key cc ac (db_record r ! i)) (field_key cc ac (db_record ob ! i))
     in if \<not> compare_all \<or> v \<noteq> 0 then Some v else compare_loop r ob compare_all cc ac False k (i + 1) v)"
proof -
  note f = shape_fields [OF assms(1-4)]
  obtain type where t: "type_of_id (field_type (db_record r ! i)) = Some type" using f(4) by blast
  have b: "type = gxrdBLOB \<longrightarrow> compare_all" using assms(5) t by auto
  have r: "record_ok r" "record_ok ob" "i < num_flds ob"
    using assms by (auto simp: sortable_def same_shape_def)
  note f1 = record_ok_field [OF r(1) assms(4)] and f2 = record_ok_field [OF r(2,3)]
  show ?thesis
    using f1 f2 t f(1) compare_data_key [OF f(2,3,1) t b] by (simp add: Let_def)
qed

lemma compare_loop_all:
  assumes "sortable r" "sortable ob" "same_shape r ob" "i + k = num_flds r"
  shows "compare_loop r ob True cc ac False k i result =
    Some (cmp_of (map (field_key cc ac) (drop i (live_fields r))) (map (field_key cc ac) (drop i (live_fields ob))))"
  using assms(4)
proof (induction k arbitrary: i result)
  case 0
  have "num_flds ob = num_flds r" using assms(3) by (simp add: same_shape_def)
  then show ?case using 0 by (simp add: live_fields_def)
next
  case (Suc k)
  have n: "i < num_flds r" "i < num_flds ob" "num_flds r \<le> length (db_record r)" "num_flds ob \<le> length (db_record ob)"
    using assms(1-3) Suc.prems by (auto simp: sortable_def record_ok_def same_shape_def)
  have d: "drop i (live_fields r) = db_record r ! i # drop (Suc i) (live_fields r)"
    "drop i (live_fields ob) = db_record ob ! i # drop (Suc i) (live_fields ob)"
    using n by (simp_all add: Cons_nth_drop_Suc [symmetric] live_nth)
  show ?case
    unfolding d using Suc.IH [of "Suc i"] Suc.prems compare_loop_step [OF assms(1-3) n(1), of True]
    by (simp add: cmp_of_Cons Let_def)
qed

text \<open>
  C36: \<open>Compare\<close> orders the records of a table. For well-formed records of one definition whose
  floating point fields are numbers it is the order of their keys, one field's or all fields' in turn:
  a total order up to equal keys, so in particular antisymmetric and transitive as an index needs.
  Only comparing a \<open>BLOB\<close> field alone is excluded, which always answers -1.
\<close>

theorem Compare_is_key_order:
  assumes "sortable r" "sortable ob" "same_shape r ob" "0 \<le> field"
    "field < int (num_flds r) \<longrightarrow> type_of_id (record_types r ! nat field) \<noteq> Some gxrdBLOB"
  shows "Compare r ob field case_cmp alpha_cmp 0 =
    Some (cmp_of (record_key field (case_cmp \<noteq> 0) (alpha_cmp \<noteq> 0) r)
                 (record_key field (case_cmp \<noteq> 0) (alpha_cmp \<noteq> 0) ob))"
proof -
  have ok: "record_ok r" "record_ok ob" "num_flds ob = num_flds r" "int (num_flds r) \<le> 255" "0 < num_flds r"
    using assms by (auto simp: sortable_def same_shape_def record_ok_def tableMAX_FIELDS_def)
  have len: "num_flds r \<le> length (db_record r)" "num_flds r \<le> length (db_record ob)"
    using ok by (simp_all add: record_ok_def)
  have ne: "db_record r \<noteq> []" "db_record ob \<noteq> []" using len ok(5) by auto
  show ?thesis
  proof (cases "field \<ge> int (num_flds r)")
    case True
    then show ?thesis
      using compare_loop_all [OF assms(1-3), of 0 "num_flds r" "case_cmp \<noteq> 0" "alpha_cmp \<noteq> 0"] ok ne assms(3)
      by (simp add: Compare_def record_key_def same_shape_def)
  next
    case False
    then obtain i where i: "field = int i" "i < num_flds r" using assms(4) by (metis int_nat_eq nat_less_iff not_le zero_le_imp_eq_int)
    have k: "num_flds r - i = Suc (num_flds r - Suc i)" using i by simp
    have "type_of_id (field_type (db_record r ! i)) \<noteq> Some gxrdBLOB"
      using assms(5) i len by (simp add: record_types_def live_nth)
    then have "compare_loop r ob False (case_cmp \<noteq> 0) (alpha_cmp \<noteq> 0) False (num_flds r - i) i (- 1) =
      Some (cmp_of (field_key (case_cmp \<noteq> 0) (alpha_cmp \<noteq> 0) (db_record r ! i))
                   (field_key (case_cmp \<noteq> 0) (alpha_cmp \<noteq> 0) (db_record ob ! i)))"
      unfolding k using compare_loop_step [OF assms(1-3) i(2), of False] by (simp add: Let_def)
    then show ?thesis
      using i ok ne assms(3) by (simp add: Compare_def record_key_def same_shape_def live_nth)
  qed
qed

definition sample_smaller :: gxrdDatabaseRecord where
  "sample_smaller = sample_record\<lparr>db_record := [[1, 4, 0, 0, 0, 98, 48, 57, 0], [2, 2, 0, 0, 0, 9, 0]]\<rparr>"

definition sample_larger :: gxrdDatabaseRecord where
  "sample_larger = sample_record\<lparr>db_record := [[1, 4, 0, 0, 0, 98, 49, 48, 0], [2, 2, 0, 0, 0, 7, 0]]\<rparr>"

theorem Compare_is_key_order_witness:
  "Compare sample_smaller sample_larger 0 1 1 0 = Some (- 1)"
proof -
  have s: "sortable sample_smaller" "sortable sample_larger" "same_shape sample_smaller sample_larger"
    "num_flds sample_smaller = 2" "type_of_id (record_types sample_smaller ! 0) = Some gxrdCHAR"
    by code_simp+
  have k: "record_key 0 True True sample_smaller < record_key 0 True True sample_larger"
    by code_simp
  then show ?thesis
    using Compare_is_key_order [OF s(1-3), of 0 1 1] s(4,5) by (simp add: cmp_of_def)
qed

end
