(* ===== verification/DbCache.thy ===== *)
theory DbCache
  imports FilePtr Files "HOL-Library.Monad_Syntax"
begin

text \<open>
  The block cache of \<open>src/src/dbfcache.cpp\<close> and \<open>src/include/dbfcache.h\<close>: segments of raw file data of any
  length, in a circular list that orders them by their last use. A pointer to a segment is its index in
  the array of segments, and the links are kept as the code has them. The cache shares the stream \<open>f\<close>
  with its owner, so a member function takes it, null as \<open>None\<close>, and gives it back. A result \<open>None\<close>
  is a call that does not return or follows a pointer into a freed array (\<open>DestroyCache\<close> leaves \<open>head\<close>
  and \<open>tail\<close> there). The statistic \<open>CacheSize\<close>, a sum of the capacities of the vectors, is left out.
\<close>

section \<open>Segments\<close>

record gxDatabaseSegment =
  seg_dirty :: bool
  seg_prev :: nat
  seg_next :: nat
  ds_address :: int
  ds :: "byte list"

definition ResetSegment :: "gxDatabaseSegment \<Rightarrow> gxDatabaseSegment" where
  "ResetSegment g = g\<lparr>seg_dirty := False, ds_address := -1, ds := []\<rparr>"

definition seg_SetDirty :: "gxDatabaseSegment \<Rightarrow> gxDatabaseSegment" where
  "seg_SetDirty g = g\<lparr>seg_dirty := True\<rparr>"

definition seg_IsNull :: "gxDatabaseSegment \<Rightarrow> bool" where
  "seg_IsNull g \<longleftrightarrow> ds g = []"

text \<open>\<open>std::vector::resize\<close>, which keeps the elements that remain and adds zeros.\<close>

definition resized :: "nat \<Rightarrow> byte list \<Rightarrow> byte list" where
  "resized n xs = take n xs @ replicate (n - length xs) 0"

definition Segment_Read ::
  "nat \<Rightarrow> gxDatabaseSegment \<Rightarrow> gxdFPTR option \<Rightarrow> gxDatabaseError \<times> gxDatabaseSegment \<times> gxdFPTR option" where
  "Segment_Read bytes g f =
     (if f = None then (gxDBASE_NULL_PTR, g, f)
      else (let g1 = g\<lparr>ds := resized bytes (ds g)\<rparr> in
        case gxdFPTRSeek f (ds_address g1) gxDBASE_SEEK_BEG of (r, f1) \<Rightarrow>
          if r = -1 then (gxDBASE_FILE_SEEK_ERROR, g1, f1)
          else (case gxdFPTRRead f1 bytes of (d, f2) \<Rightarrow>
            let g2 = g1\<lparr>ds := d @ drop (length d) (ds g1)\<rparr>
            in if length d \<noteq> bytes then (gxDBASE_FILE_READ_ERROR, g2, f2)
               else (gxDBASE_NO_ERROR, g2\<lparr>seg_dirty := False\<rparr>, f2))))"

definition Segment_Write ::
  "gxDatabaseSegment \<Rightarrow> gxdFPTR option \<Rightarrow> gxDatabaseError \<times> gxDatabaseSegment \<times> gxdFPTR option" where
  "Segment_Write g f =
     (if f = None then (gxDBASE_NULL_PTR, g, f)
      else if ds g = [] then (gxDBASE_NO_ERROR, g, f)
      else (case gxdFPTRSeek f (ds_address g) gxDBASE_SEEK_BEG of (r, f1) \<Rightarrow>
        if r = -1 then (gxDBASE_FILE_SEEK_ERROR, g, f1)
        else (case gxdFPTRWrite f1 (ds g) of (n, f2) \<Rightarrow>
          if n \<noteq> length (ds g) then (gxDBASE_FILE_WRITE_ERROR, g, f2)
          else (gxDBASE_NO_ERROR, g\<lparr>seg_dirty := False\<rparr>, f2))))"

text \<open>A segment that was written loses its address and keeps its data.\<close>

definition Segment_Flush ::
  "gxDatabaseSegment \<Rightarrow> gxdFPTR option \<Rightarrow> gxDatabaseError \<times> gxDatabaseSegment \<times> gxdFPTR option" where
  "Segment_Flush g f =
     (if f = None then (gxDBASE_NULL_PTR, g, f)
      else if \<not> seg_dirty g then (gxDBASE_NO_ERROR, g, f)
      else if ds_address g \<noteq> -1 then
        (case Segment_Write g f of (e, g1, f1) \<Rightarrow>
           if e = gxDBASE_NO_ERROR then (e, g1\<lparr>ds_address := -1, seg_dirty := False\<rparr>, f1) else (e, g1, f1))
      else (gxDBASE_NO_ERROR, g, f))"

section \<open>The cache and its list\<close>

record gxDatabaseCache =
  num_segments :: nat
  seg_head :: "nat option"
  seg_tail :: "nat option"
  segments :: "gxDatabaseSegment list"
  ds_uncached_reads :: int
  ds_cached_reads :: int

definition ds_IsEmpty :: "gxDatabaseCache \<Rightarrow> bool" where
  "ds_IsEmpty c \<longleftrightarrow> segments c = []"

definition segment_at :: "gxDatabaseCache \<Rightarrow> nat \<Rightarrow> gxDatabaseSegment" where
  "segment_at c i = segments c ! i"

definition set_segment :: "nat \<Rightarrow> gxDatabaseSegment \<Rightarrow> gxDatabaseCache \<Rightarrow> gxDatabaseCache" where
  "set_segment i g c = c\<lparr>segments := (segments c)[i := g]\<rparr>"

definition set_seg_next :: "nat \<Rightarrow> nat \<Rightarrow> gxDatabaseCache \<Rightarrow> gxDatabaseCache" where
  "set_seg_next i v c = set_segment i ((segment_at c i)\<lparr>seg_next := v\<rparr>) c"

definition set_seg_prev :: "nat \<Rightarrow> nat \<Rightarrow> gxDatabaseCache \<Rightarrow> gxDatabaseCache" where
  "set_seg_prev i v c = set_segment i ((segment_at c i)\<lparr>seg_prev := v\<rparr>) c"

text \<open>
  A link that is followed while the array is there; the constructors set \<open>head\<close> and \<open>tail\<close>, and only
  \<open>ReleaseSegments\<close> makes them null.
\<close>

definition ds_head :: "gxDatabaseCache \<Rightarrow> nat" where "ds_head c = the (seg_head c)"
definition ds_tail :: "gxDatabaseCache \<Rightarrow> nat" where "ds_tail c = the (seg_tail c)"

definition InitCache_ds :: "gxDatabaseCache \<Rightarrow> gxDatabaseCache" where
  "InitCache_ds c =
     (let n = num_segments c
      in c\<lparr>segments := map (\<lambda>i.
             \<lparr>seg_dirty = False,
              seg_prev = (if i = 0 then n - 1 else i - 1),
              seg_next = (if i = n - 1 then 0 else i + 1),
              ds_address = -1, ds = []\<rparr>) [0..<n],
           seg_head := Some 0, seg_tail := Some (n - 1)\<rparr>)"

definition MIN_DATABASE_SEGMENTS :: nat where "MIN_DATABASE_SEGMENTS = 3"

definition ResetStats_ds :: "gxDatabaseCache \<Rightarrow> gxDatabaseCache" where
  "ResetStats_ds c = c\<lparr>ds_uncached_reads := 0, ds_cached_reads := 0\<rparr>"

definition null_segments :: gxDatabaseCache where
  "null_segments = \<lparr>num_segments = 0, seg_head = None, seg_tail = None, segments = [],
     ds_uncached_reads = 0, ds_cached_reads = 0\<rparr>"

text \<open>To the end and to the front of the list, link by link.\<close>

definition DemoteSegment :: "nat \<Rightarrow> gxDatabaseCache \<Rightarrow> gxDatabaseCache" where
  "DemoteSegment b c =
     (if ds_IsEmpty c \<or> b = ds_tail c then c
      else (let c1 = (if b = ds_head c
                      then (let nx = seg_next (segment_at c b)
                            in (set_seg_prev nx b c)\<lparr>seg_head := Some nx\<rparr>)
                      else (let pv = seg_prev (segment_at c b); c' = set_seg_next pv (seg_next (segment_at c b)) c
                            in set_seg_prev (seg_next (segment_at c' b)) (seg_prev (segment_at c' b)) c'));
                c2 = set_seg_next b (ds_head c1) c1;
                c3 = set_seg_prev b (ds_tail c2) c2;
                c4 = set_seg_next (ds_tail c3) b c3
            in c4\<lparr>seg_tail := Some b\<rparr>))"

definition PromoteSegment :: "nat \<Rightarrow> gxDatabaseCache \<Rightarrow> gxDatabaseCache" where
  "PromoteSegment b c =
     (if ds_IsEmpty c \<or> b = ds_head c then c
      else if b = ds_tail c then
        (let c1 = c\<lparr>seg_tail := Some (seg_prev (segment_at c b))\<rparr>;
             c2 = (set_seg_prev (ds_head c1) b c1)\<lparr>seg_head := Some b\<rparr>
         in set_seg_prev (ds_head c2) (ds_tail c2) c2)
      else
        (let c1 = set_seg_next (seg_prev (segment_at c b)) (seg_next (segment_at c b)) c;
             c2 = set_seg_prev (seg_next (segment_at c1 b)) (seg_prev (segment_at c1 b)) c1;
             c3 = set_seg_next b (ds_head c2) c2;
             c4 = set_seg_prev b (ds_tail c3) c3;
             c5 = set_seg_next (ds_tail c4) b c4
         in (set_seg_prev (ds_head c5) b c5)\<lparr>seg_head := Some b\<rparr>))"

section \<open>Walks\<close>

partial_function (option) find_segment_loop :: "nat \<Rightarrow> int \<Rightarrow> gxDatabaseCache \<Rightarrow> nat option option" where
  "find_segment_loop i addr c =
     (if ds_address (segment_at c i) = addr then Some (Some i)
      else if seg_next (segment_at c i) = ds_head c then Some None
      else find_segment_loop (seg_next (segment_at c i)) addr c)"

text \<open>\<open>FindSegment\<close> tests \<open>head\<close>, and not whether there is an array.\<close>

definition FindSegment :: "int \<Rightarrow> gxDatabaseCache \<Rightarrow> nat option option" where
  "FindSegment addr c =
     (case seg_head c of None \<Rightarrow> Some None
      | Some h \<Rightarrow> if ds_IsEmpty c then None else find_segment_loop h addr c)"

partial_function (option) in_use_loop :: "nat \<Rightarrow> nat \<Rightarrow> gxDatabaseCache \<Rightarrow> nat option" where
  "in_use_loop n i c =
     (let m = (if seg_dirty (segment_at c i) then n + 1 else n)
      in if seg_next (segment_at c i) = ds_head c then Some m else in_use_loop m (seg_next (segment_at c i)) c)"

definition SegmentsInUse :: "gxDatabaseCache \<Rightarrow> nat option" where
  "SegmentsInUse c =
     (if ds_IsEmpty c then Some 0
      else case seg_head c of None \<Rightarrow> Some 0 | Some h \<Rightarrow> in_use_loop 0 h c)"

section \<open>Flushing and connecting\<close>

type_synonym segment_cache = "gxDatabaseCache \<times> gxdFPTR option"

definition flush_segment :: "nat \<Rightarrow> segment_cache \<Rightarrow> gxDatabaseError \<times> segment_cache" where
  "flush_segment i s =
     (case s of (c, f) \<Rightarrow>
        if seg_dirty (segment_at c i)
        then (case Segment_Flush (segment_at c i) f of (e, g, f1) \<Rightarrow> (e, set_segment i g c, f1))
        else (gxDBASE_NO_ERROR, c, f))"

partial_function (option) flush_segments :: "nat \<Rightarrow> segment_cache \<Rightarrow> (gxDatabaseError \<times> segment_cache) option" where
  "flush_segments i s =
     (case flush_segment i s of (e, s1) \<Rightarrow>
        if e \<noteq> gxDBASE_NO_ERROR then Some (e, s1)
        else if seg_next (segment_at (fst s1) i) = ds_head (fst s1) then Some (gxDBASE_NO_ERROR, s1)
        else flush_segments (seg_next (segment_at (fst s1) i)) s1)"

definition Flush_ds :: "segment_cache \<Rightarrow> (gxDatabaseError \<times> segment_cache) option" where
  "Flush_ds s =
     (if snd s = None \<or> ds_IsEmpty (fst s) then Some (gxDBASE_NULL_PTR, s)
      else case seg_head (fst s) of None \<Rightarrow> Some (gxDBASE_NULL_PTR, s) | Some h \<Rightarrow> flush_segments h s)"

text \<open>Every segment that is passed counts as flushed, a clean one too.\<close>

fun lru_segments :: "nat \<Rightarrow> nat \<Rightarrow> segment_cache \<Rightarrow> gxDatabaseError \<times> segment_cache" where
  "lru_segments 0 i s = (gxDBASE_NO_ERROR, s)"
| "lru_segments (Suc k) i s =
     (case flush_segment i s of (e, s1) \<Rightarrow>
        if e \<noteq> gxDBASE_NO_ERROR then (e, s1)
        else if seg_prev (segment_at (fst s1) i) = ds_tail (fst s1) then (gxDBASE_NO_ERROR, s1)
        else lru_segments k (seg_prev (segment_at (fst s1) i)) s1)"

definition LRUFlush_ds :: "nat \<Rightarrow> segment_cache \<Rightarrow> gxDatabaseError \<times> segment_cache" where
  "LRUFlush_ds num_to_flush s =
     (if snd s = None \<or> ds_IsEmpty (fst s) then (gxDBASE_NULL_PTR, s)
      else case seg_tail (fst s) of None \<Rightarrow> (gxDBASE_NULL_PTR, s) | Some t \<Rightarrow> lru_segments num_to_flush t s)"

definition flush_if_connected :: "segment_cache \<Rightarrow> (gxDatabaseError \<times> segment_cache) option" where
  "flush_if_connected s =
     (if snd s \<noteq> None \<and> \<not> ds_IsEmpty (fst s) then Flush_ds s else Some (gxDBASE_NO_ERROR, s))"

text \<open>
  The stream a cache is disconnected from stays with its owner: the result gives it back beside the
  cache, which is then without one.
\<close>

definition Connect_ds ::
  "gxdFPTR option \<Rightarrow> segment_cache \<Rightarrow> (gxDatabaseError \<times> segment_cache \<times> gxdFPTR option) option" where
  "Connect_ds fptr s =
     (if fptr = None then Some (gxDBASE_NULL_PTR, s, None)
      else do {
        (e, c1, f1) \<leftarrow> flush_if_connected s;
        Some (if e \<noteq> gxDBASE_NO_ERROR then (e, (c1, f1), fptr) else (gxDBASE_NO_ERROR, (c1, fptr), f1))
      })"

definition Disconnect_ds ::
  "segment_cache \<Rightarrow> (gxDatabaseError \<times> segment_cache \<times> gxdFPTR option) option" where
  "Disconnect_ds s = do {
     (e, c1, f1) \<leftarrow> flush_if_connected s;
     Some (if e \<noteq> gxDBASE_NO_ERROR then (e, (c1, f1), None) else (gxDBASE_NO_ERROR, (c1, None), f1))
   }"

definition DestroyCache_ds :: "segment_cache \<Rightarrow> (segment_cache \<times> gxdFPTR option) option" where
  "DestroyCache_ds s = do {
     (_, s1) \<leftarrow> (if snd s \<noteq> None then Flush_ds s else Some (gxDBASE_NO_ERROR, s));
     (_, (c2, f2), f) \<leftarrow> Disconnect_ds s1;
     Some ((c2\<lparr>segments := []\<rparr>, f2), f)
   }"

definition ConstructCache_ds :: "nat \<Rightarrow> segment_cache \<Rightarrow> segment_cache option" where
  "ConstructCache_ds num_segs s = do {
     (c, f) \<leftarrow> (if \<not> ds_IsEmpty (fst s) then map_option fst (DestroyCache_ds s) else Some s);
     let n = (if num_segs = 0 \<or> num_segs < MIN_DATABASE_SEGMENTS then MIN_DATABASE_SEGMENTS else num_segs);
     Some (ResetStats_ds (InitCache_ds (c\<lparr>num_segments := n\<rparr>)), f)
   }"

definition new_gxDatabaseCache :: "nat \<Rightarrow> gxdFPTR option \<Rightarrow> segment_cache option" where
  "new_gxDatabaseCache num_segs fptr = ConstructCache_ds num_segs (null_segments, fptr)"

text \<open>The array that is released goes to the caller; dirty segments are not written.\<close>

definition ReleaseSegments :: "gxDatabaseCache \<Rightarrow> gxDatabaseSegment list \<times> gxDatabaseCache" where
  "ReleaseSegments c =
     (segments c, c\<lparr>segments := [], seg_head := None, seg_tail := None, num_segments := 0\<rparr>)"

definition ReleaseFile :: "segment_cache \<Rightarrow> segment_cache" where
  "ReleaseFile s = (fst s, None)"

section \<open>Reserving a segment\<close>

text \<open>The last segment that is not dirty, searched from the tail, or else the tail after it is written.\<close>

partial_function (option) empty_loop :: "nat \<Rightarrow> segment_cache \<Rightarrow> (nat option \<times> segment_cache) option" where
  "empty_loop i s =
     (case s of (c, f) \<Rightarrow>
        if \<not> seg_dirty (segment_at c i) then Some (Some i, PromoteSegment i c, f)
        else (let i1 = seg_prev (segment_at c i)
              in if i1 = ds_tail c then
                   (case Segment_Flush (segment_at c i1) f of (e, g, f1) \<Rightarrow>
                      let c1 = set_segment i1 g c
                      in Some (if e \<noteq> gxDBASE_NO_ERROR then (None, c1, f1)
                               else (Some i1, PromoteSegment i1 c1, f1)))
                 else empty_loop i1 s))"

definition FindEmptySegment :: "segment_cache \<Rightarrow> (nat option \<times> segment_cache) option" where
  "FindEmptySegment s =
     (if ds_IsEmpty (fst s) then Some (None, s)
      else case seg_tail (fst s) of None \<Rightarrow> Some (None, s) | Some t \<Rightarrow> empty_loop t s)"

definition load_segment :: "int \<Rightarrow> nat \<Rightarrow> nat \<Rightarrow> segment_cache \<Rightarrow> nat option \<times> segment_cache" where
  "load_segment addr bytes i s =
     (case s of (c, f) \<Rightarrow>
        let g = (ResetSegment (segment_at c i))\<lparr>ds_address := addr\<rparr>
        in if bytes > 0 \<and> addr \<noteq> -1 then
             (if f = None then (None, DemoteSegment i (set_segment i (ResetSegment g) c), f)
              else (case Segment_Read bytes g f of (e, g1, f1) \<Rightarrow>
                if e \<noteq> gxDBASE_NO_ERROR
                then (None, DemoteSegment i (set_segment i (ResetSegment g1) c), f1)
                else (Some i, set_segment i g1 c, f1)))
           else (Some i, set_segment i g c, f))"

definition AllocSegment :: "int \<Rightarrow> nat \<Rightarrow> segment_cache \<Rightarrow> (nat option \<times> segment_cache) option" where
  "AllocSegment addr bytes s =
     (if addr = -1 then Some (None, s)
      else case s of (c, f) \<Rightarrow> do {
        found \<leftarrow> FindSegment addr c;
        case found of
          Some i \<Rightarrow>
            Some (Some i, (PromoteSegment i c)\<lparr>ds_cached_reads := to_u32 (ds_cached_reads c + 1)\<rparr>, f)
        | None \<Rightarrow> do {
            (e, s1) \<leftarrow> FindEmptySegment (c\<lparr>ds_uncached_reads := to_u32 (ds_uncached_reads c + 1)\<rparr>, f);
            Some (case e of None \<Rightarrow> (None, s1) | Some i \<Rightarrow> load_segment addr bytes i s1)
          }
      })"

section \<open>Cache nodes\<close>

text \<open>
  A cache node refers to file data by address and length, and to the segment that held it last; a
  segment outside the array is one of an array that was freed.
\<close>

record gxDBCacheNode =
  dn_address :: int
  dn_length :: nat
  dn_segment :: "nat option"

definition new_gxDBCacheNode :: "int \<Rightarrow> gxDBCacheNode" where
  "new_gxDBCacheNode address = \<lparr>dn_address = address, dn_length = 0, dn_segment = None\<rparr>"

definition copy_gxDBCacheNode :: "gxDBCacheNode \<Rightarrow> gxDBCacheNode" where
  "copy_gxDBCacheNode ob = ob\<lparr>dn_address := -1\<rparr>"

definition CachedWrite ::
  "byte list \<Rightarrow> int \<Rightarrow> gxDBCacheNode \<Rightarrow> segment_cache \<Rightarrow> (nat option \<times> gxDBCacheNode \<times> segment_cache) option" where
  "CachedWrite buf address cn s = do {
     (g, c, f) \<leftarrow> AllocSegment address 0 s;
     Some (case g of
         None \<Rightarrow> (None, cn\<lparr>dn_segment := None, dn_address := -1\<rparr>, c, f)
       | Some i \<Rightarrow>
           (Some i, cn\<lparr>dn_segment := Some i, dn_address := address, dn_length := length buf\<rparr>,
            set_segment i (seg_SetDirty ((segment_at c i)\<lparr>ds := buf\<rparr>)) c, f))
   }"

definition CachedRead ::
  "int \<Rightarrow> nat \<Rightarrow> gxDBCacheNode \<Rightarrow> segment_cache \<Rightarrow> (nat option \<times> gxDBCacheNode \<times> segment_cache) option" where
  "CachedRead address bytes cn s = do {
     (g, s1) \<leftarrow> AllocSegment address bytes s;
     Some (case g of
         None \<Rightarrow> (None, cn\<lparr>dn_segment := None, dn_address := -1\<rparr>, s1)
       | Some i \<Rightarrow>
           (Some i, cn\<lparr>dn_segment := Some i, dn_address := address,
                       dn_length := (if bytes > 0 then bytes else dn_length cn)\<rparr>, s1))
   }"

definition Delete_ds ::
  "gxDBCacheNode \<Rightarrow> segment_cache \<Rightarrow> (bool \<times> gxDBCacheNode \<times> segment_cache) option" where
  "Delete_ds cn s =
     (case s of (c, f) \<Rightarrow>
        case dn_segment cn of
          None \<Rightarrow> Some (False, cn, s)
        | Some i \<Rightarrow>
            if f = None then Some (False, cn, s)
            else if i \<ge> length (segments c) then None
            else if ds_address (segment_at c i) = dn_address cn
            then Some (True, cn\<lparr>dn_address := -1\<rparr>,
                   DemoteSegment i (set_segment i (ResetSegment (segment_at c i)) c), f)
            else Some (False, cn, s))"

text \<open>Without a length only a segment that is in the cache can be bound.\<close>

definition Bind_ds :: "gxDBCacheNode \<Rightarrow> segment_cache \<Rightarrow> (nat option \<times> gxDBCacheNode \<times> segment_cache) option" where
  "Bind_ds cn s =
     (case s of (c, f) \<Rightarrow>
        if (case dn_segment cn of None \<Rightarrow> False | Some i \<Rightarrow> i \<ge> length (segments c)) then None
        else if (case dn_segment cn of None \<Rightarrow> False | Some i \<Rightarrow> ds_address (segment_at c i) = dn_address cn)
        then Some (dn_segment cn, cn, s)
        else if dn_length cn = 0 then
          (if dn_address cn \<noteq> -1 then do {
             g \<leftarrow> FindSegment (dn_address cn) c;
             Some (g, cn\<lparr>dn_segment := g\<rparr>,
               (case g of None \<Rightarrow> c
                | Some i \<Rightarrow> (PromoteSegment i c)\<lparr>ds_cached_reads := to_u32 (ds_cached_reads c + 1)\<rparr>), f)
           }
           else Some (None, cn\<lparr>dn_segment := None\<rparr>, s))
        else do {
          (g, s1) \<leftarrow> AllocSegment (dn_address cn) (dn_length cn) s;
          Some (g, (if g = None then cn\<lparr>dn_segment := None, dn_address := -1\<rparr> else cn\<lparr>dn_segment := g\<rparr>), s1)
        })"

definition Bind_bytes ::
  "nat \<Rightarrow> gxDBCacheNode \<Rightarrow> segment_cache \<Rightarrow> (nat option \<times> gxDBCacheNode \<times> segment_cache) option" where
  "Bind_bytes bytes cn s = Bind_ds (cn\<lparr>dn_length := bytes\<rparr>) s"

definition assign_ds ::
  "int \<Rightarrow> gxDBCacheNode \<Rightarrow> segment_cache \<Rightarrow> (gxDBCacheNode \<times> segment_cache) option" where
  "assign_ds address cn s = map_option snd (Bind_ds (cn\<lparr>dn_address := address\<rparr>) s)"

end
