(* ===== verification/DbCacheProps.thy ===== *)
theory DbCacheProps
  imports DbCache BtCacheList Layout
begin

text \<open>
  Properties of the block cache. The links of the segments are those of the buckets of a node cache, so
  the lemmas on that list carry over. A cache over a file of disjoint regions is a memory of
  these regions: writing and reading a region through the cache are writing and reading this memory, whatever
  is dirty or evicted, and flushing makes the file the memory.
\<close>

section \<open>The list of segments\<close>

definition link_bucket :: "gxDatabaseSegment \<Rightarrow> BtreeBucket" where
  "link_bucket g =
     \<lparr>bkt_node = \<lparr>node_order = 0, key_size = 0, node_address = 0, key_count = 0, left_child = 0, key_entries = []\<rparr>,
      is_dirty = False, bkt_prev = seg_prev g, bkt_next = seg_next g\<rparr>"

definition as_buckets :: "gxDatabaseCache \<Rightarrow> BtreeCache" where
  "as_buckets c = \<lparr>num_buckets = 0, cache_on = False, cache_head = ds_head c, cache_tail = ds_tail c,
     buckets = map link_bucket (segments c), uncached_reads = 0, cached_reads = 0\<rparr>"

lemma as_buckets_bucket: "i < length (segments c) \<Longrightarrow> bucket (as_buckets c) i = link_bucket (segment_at c i)"
  by (simp add: as_buckets_def bucket_def segment_at_def)

lemma as_buckets_links:
  "i < length (segments c) \<Longrightarrow> nxt (as_buckets c) i = seg_next (segment_at c i)"
  "i < length (segments c) \<Longrightarrow> prv (as_buckets c) i = seg_prev (segment_at c i)"
  by (simp_all add: nxt_def prv_def as_buckets_bucket link_bucket_def)

lemma as_buckets_fields [simp]:
  "length (buckets (as_buckets c)) = length (segments c)" "cache_IsEmpty (as_buckets c) = ds_IsEmpty c"
  "cache_head (as_buckets c) = ds_head c" "cache_tail (as_buckets c) = ds_tail c"
  by (simp_all add: as_buckets_def cache_IsEmpty_def ds_IsEmpty_def)

lemma as_buckets_set_segment: "as_buckets (set_segment i g c) = set_bucket i (link_bucket g) (as_buckets c)"
  by (simp add: as_buckets_def set_bucket_def set_segment_def ds_head_def ds_tail_def map_update)

lemma as_buckets_set [simp]:
  "as_buckets (set_seg_next i v c) = set_next i v (as_buckets c)"
  "as_buckets (set_seg_prev i v c) = set_prev i v (as_buckets c)"
proof -
  have "as_buckets (set_seg_next i v c) = set_next i v (as_buckets c) \<and>
    as_buckets (set_seg_prev i v c) = set_prev i v (as_buckets c)"
  proof (cases "i < length (segments c)")
    case True
    then show ?thesis
      by (simp add: set_seg_next_def set_seg_prev_def set_next_def set_prev_def as_buckets_set_segment
          as_buckets_bucket) (simp add: link_bucket_def)
  next
    case False
    then have "set_segment i g c = c" "set_bucket i b (as_buckets c) = as_buckets c" for g b
      by (simp_all add: set_segment_def set_bucket_def as_buckets_def list_update_beyond)
    then show ?thesis by (simp add: set_seg_next_def set_seg_prev_def set_next_def set_prev_def)
  qed
  then show "as_buckets (set_seg_next i v c) = set_next i v (as_buckets c)"
    "as_buckets (set_seg_prev i v c) = set_prev i v (as_buckets c)" by simp_all
qed

lemma as_buckets_ends [simp]:
  "as_buckets (c\<lparr>seg_head := Some h\<rparr>) = (as_buckets c)\<lparr>cache_head := h\<rparr>"
  "as_buckets (c\<lparr>seg_tail := Some h\<rparr>) = (as_buckets c)\<lparr>cache_tail := h\<rparr>"
  by (simp_all add: as_buckets_def ds_head_def ds_tail_def)

lemma as_buckets_stats [simp]:
  "as_buckets (c\<lparr>ds_uncached_reads := r\<rparr>) = as_buckets c" "as_buckets (c\<lparr>ds_cached_reads := r\<rparr>) = as_buckets c"
  by (simp_all add: as_buckets_def ds_head_def ds_tail_def)

lemma set_seg_fields [simp]:
  "length (segments (set_segment i g c)) = length (segments c)"
  "length (segments (set_seg_next i v c)) = length (segments c)"
  "length (segments (set_seg_prev i v c)) = length (segments c)"
  "ds_IsEmpty (set_segment i g c) = ds_IsEmpty c"
  "seg_head (set_segment i g c) = seg_head c" "seg_tail (set_segment i g c) = seg_tail c"
  "seg_head (set_seg_next i v c) = seg_head c" "seg_tail (set_seg_next i v c) = seg_tail c"
  "seg_head (set_seg_prev i v c) = seg_head c" "seg_tail (set_seg_prev i v c) = seg_tail c"
  by (simp_all add: set_segment_def set_seg_next_def set_seg_prev_def ds_IsEmpty_def)

lemma as_buckets_next:
  "b < length (segments c) \<Longrightarrow> bkt_next (bucket (as_buckets c) b) = seg_next (segment_at c b)"
  "b < length (segments c) \<Longrightarrow> bkt_prev (bucket (as_buckets c) b) = seg_prev (segment_at c b)"
  by (simp_all add: as_buckets_bucket link_bucket_def)

lemma ends_of_as_buckets: "ds_head c = cache_head (as_buckets c)" "ds_tail c = cache_tail (as_buckets c)"
  by simp_all

lemma as_buckets_Promote:
  assumes "b < length (segments c)"
  shows "as_buckets (PromoteSegment b c) = PromoteBucket b (as_buckets c)"
  using assms unfolding PromoteSegment_def PromoteBucket_def Let_def
  by (simp add: as_buckets_next [symmetric] ends_of_as_buckets del: as_buckets_fields(3,4))

lemma as_buckets_Demote:
  assumes "b < length (segments c)"
  shows "as_buckets (DemoteSegment b c) = DemoteBucket b (as_buckets c)"
  using assms unfolding DemoteSegment_def DemoteBucket_def Let_def
  by (simp add: as_buckets_next [symmetric] ends_of_as_buckets if_distrib [of as_buckets] del: as_buckets_fields(3,4))

section \<open>The contents of the segments\<close>

text \<open>Address, data and dirty flag of every segment, whatever the links.\<close>

type_synonym seg_data = "int \<times> byte list \<times> bool"

definition cont :: "gxDatabaseSegment \<Rightarrow> seg_data" where
  "cont g = (ds_address g, ds g, seg_dirty g)"

definition contents :: "gxDatabaseCache \<Rightarrow> seg_data list" where
  "contents c = map cont (segments c)"

lemma length_contents [simp]: "length (contents c) = length (segments c)"
  by (simp add: contents_def)

lemma contents_nth: "i < length (segments c) \<Longrightarrow> contents c ! i = cont (segment_at c i)"
  by (simp add: contents_def segment_at_def)

lemma contents_set_segment: "contents (set_segment i g c) = (contents c)[i := cont g]"
  by (simp add: contents_def set_segment_def map_update)

lemma contents_same:
  assumes "cont g = cont (segment_at c i)"
  shows "contents (set_segment i g c) = contents c"
proof (cases "i < length (segments c)")
  case True
  then show ?thesis using assms by (simp add: contents_set_segment contents_nth [symmetric])
next
  case False
  then show ?thesis by (simp add: set_segment_def list_update_beyond)
qed

lemma contents_set [simp]:
  "contents (set_seg_next i v c) = contents c" "contents (set_seg_prev i v c) = contents c"
  unfolding set_seg_next_def set_seg_prev_def by (rule contents_same, simp add: cont_def)+

lemma contents_fields [simp]:
  "contents (c\<lparr>seg_head := h\<rparr>) = contents c" "contents (c\<lparr>seg_tail := h\<rparr>) = contents c"
  "contents (c\<lparr>ds_uncached_reads := r\<rparr>) = contents c" "contents (c\<lparr>ds_cached_reads := r\<rparr>) = contents c"
  by (simp_all add: contents_def)

lemma contents_Promote [simp]: "contents (PromoteSegment b c) = contents c"
  by (simp add: PromoteSegment_def Let_def)

lemma contents_Demote [simp]: "contents (DemoteSegment b c) = contents c"
  by (simp add: DemoteSegment_def Let_def)

section \<open>Moving and walking\<close>

definition seg_ring :: "gxDatabaseCache \<Rightarrow> nat list \<Rightarrow> bool" where
  "seg_ring c xs \<longleftrightarrow> ring (as_buckets c) xs \<and> back_links (as_buckets c) xs \<and> seg_head c \<noteq> None \<and> seg_tail c \<noteq> None"

text \<open>The walk backwards ends at the tail, or finds the tail clean.\<close>

definition closed_back :: "gxDatabaseCache \<Rightarrow> nat list \<Rightarrow> bool" where
  "closed_back c xs \<longleftrightarrow> prv (as_buckets c) (hd xs) = last xs \<or> \<not> seg_dirty (segment_at c (last xs))"

lemma seg_ring_facts:
  assumes "seg_ring c xs"
  shows "xs \<noteq> []" "distinct xs" "set xs = {..<length (segments c)}" "\<not> ds_IsEmpty c"
    "seg_head c = Some (hd xs)" "seg_tail c = Some (last xs)" "ds_head c = hd xs" "ds_tail c = last xs"
proof -
  have r: "ring (as_buckets c) xs" "seg_head c \<noteq> None" "seg_tail c \<noteq> None"
    using assms by (simp_all add: seg_ring_def)
  show e: "ds_head c = hd xs" "ds_tail c = last xs" using r(1) by (simp_all add: ring_def)
  show "xs \<noteq> []" "distinct xs" "set xs = {..<length (segments c)}" using r(1) by (simp_all add: ring_def)
  show "seg_head c = Some (hd xs)" "seg_tail c = Some (last xs)"
    using r(2,3) unfolding e [symmetric] by (simp_all add: ds_head_def ds_tail_def)
  show "\<not> ds_IsEmpty c" using ring_not_empty [OF r(1)] by simp
qed

lemma as_buckets_same:
  assumes "seg_next g = seg_next (segment_at c i)" "seg_prev g = seg_prev (segment_at c i)"
  shows "as_buckets (set_segment i g c) = as_buckets c"
proof (cases "i < length (segments c)")
  case True
  have "link_bucket g = buckets (as_buckets c) ! i"
    using True assms as_buckets_bucket [OF True] by (simp add: link_bucket_def bucket_def)
  then show ?thesis by (simp add: as_buckets_set_segment set_bucket_def)
next
  case False
  then show ?thesis by (simp add: set_segment_def list_update_beyond)
qed

lemma seg_ring_same:
  "seg_next g = seg_next (segment_at c i) \<Longrightarrow> seg_prev g = seg_prev (segment_at c i) \<Longrightarrow>
   seg_ring (set_segment i g c) xs = seg_ring c xs"
  by (simp add: seg_ring_def as_buckets_same)

lemma seg_ring_stats [simp]:
  "seg_ring (c\<lparr>ds_uncached_reads := r\<rparr>) xs = seg_ring c xs" "seg_ring (c\<lparr>ds_cached_reads := r\<rparr>) xs = seg_ring c xs"
  by (simp_all add: seg_ring_def)

lemma segment_at_set [simp]:
  "i < length (segments c) \<Longrightarrow> segment_at (set_segment i g c) j = (if j = i then g else segment_at c j)"
  by (simp add: segment_at_def set_segment_def)

lemma dirty_contents: "i < length (segments c) \<Longrightarrow> seg_dirty (segment_at c i) = snd (snd (contents c ! i))"
  by (simp add: contents_nth cont_def)

lemma Promote_ring:
  assumes "seg_ring c xs" "b \<in> set xs" and k: "closed_back c xs"
  shows "seg_ring (PromoteSegment b c) (b # remove1 b xs)" "closed_back (PromoteSegment b c) (b # remove1 b xs)"
proof -
  have b: "b < length (segments c)" using assms seg_ring_facts(3) by blast
  have r: "ring (as_buckets c) xs" "back_links (as_buckets c) xs" using assms by (auto simp: seg_ring_def)
  note p = Promote_list [OF r assms(2), folded as_buckets_Promote [OF b]]
  have h: "seg_head (PromoteSegment b c) \<noteq> None \<and> seg_tail (PromoteSegment b c) \<noteq> None"
    using seg_ring_facts(5,6) [OF assms(1)] by (simp add: PromoteSegment_def Let_def)
  show r': "seg_ring (PromoteSegment b c) (b # remove1 b xs)"
    using p(1,2) h by (simp add: seg_ring_def)
  show "closed_back (PromoteSegment b c) (b # remove1 b xs)"
  proof (cases "b = hd xs")
    case True
    then have "b # remove1 b xs = xs" using seg_ring_facts(1) [OF assms(1)] by (cases xs) auto
    moreover have "PromoteSegment b c = c"
      using True seg_ring_facts(7) [OF assms(1)] by (simp add: PromoteSegment_def)
    ultimately show ?thesis using k by simp
  next
    case False
    then show ?thesis using p(4) by (simp add: closed_back_def)
  qed
qed

lemma Demote_ring:
  assumes "seg_ring c xs" "b \<in> set xs" "\<not> seg_dirty (segment_at c b)"
  shows "seg_ring (DemoteSegment b c) (remove1 b xs @ [b])" "closed_back (DemoteSegment b c) (remove1 b xs @ [b])"
proof -
  have b: "b < length (segments c)" using assms seg_ring_facts(3) by blast
  have r: "ring (as_buckets c) xs" "back_links (as_buckets c) xs" using assms by (auto simp: seg_ring_def)
  note p = Demote_list [OF r assms(2), folded as_buckets_Demote [OF b]]
  have h: "seg_head (DemoteSegment b c) \<noteq> None \<and> seg_tail (DemoteSegment b c) \<noteq> None"
    using seg_ring_facts(5,6) [OF assms(1)] by (simp add: DemoteSegment_def Let_def)
  show r': "seg_ring (DemoteSegment b c) (remove1 b xs @ [b])"
    using p(1,2) h by (simp add: seg_ring_def)
  have "length (segments (DemoteSegment b c)) = length (segments c)"
    by (metis contents_Demote length_contents)
  then have "\<not> seg_dirty (segment_at (DemoteSegment b c) b)"
    using assms(3) b dirty_contents [of b "DemoteSegment b c"] dirty_contents [of b c] by simp
  then show "closed_back (DemoteSegment b c) (remove1 b xs @ [b])" by (simp add: closed_back_def)
qed

section \<open>The memory a cached file is\<close>

text \<open>
  \<open>A\<close> is a set of addresses and \<open>M\<close> the length of the region at each. The regions do not overlap and lie
  in the file, which the stream can write.
\<close>

definition file_ok :: "int set \<Rightarrow> (int \<Rightarrow> nat) \<Rightarrow> gxdFPTR \<Rightarrow> bool" where
  "file_ok A M s \<longleftrightarrow>
     fwritable s \<and> length (fdata s) \<le> fcap s \<and>
     (\<forall>a \<in> A. 0 \<le> a \<and> 0 < M a \<and> nat a + M a \<le> length (fdata s)) \<and>
     (\<forall>a \<in> A. \<forall>b \<in> A. a \<noteq> b \<longrightarrow> nat a + M a \<le> nat b \<or> nat b + M b \<le> nat a)"

text \<open>A segment is free, or holds a region, as it is in the file when the segment is clean.\<close>

definition seg_ok :: "int set \<Rightarrow> (int \<Rightarrow> nat) \<Rightarrow> byte list \<Rightarrow> seg_data \<Rightarrow> bool" where
  "seg_ok A M d x \<longleftrightarrow>
     (case x of (a, b, dirty) \<Rightarrow>
        if a = -1 then \<not> dirty
        else a \<in> A \<and> length b = M a \<and> (dirty \<or> b = bytes_at d (nat a) (M a)))"

definition unique_address :: "seg_data list \<Rightarrow> bool" where
  "unique_address cs \<longleftrightarrow>
     (\<forall>i < length cs. \<forall>j < length cs. fst (cs ! i) = fst (cs ! j) \<longrightarrow> fst (cs ! i) = -1 \<or> i = j)"

definition segs_ok :: "int set \<Rightarrow> (int \<Rightarrow> nat) \<Rightarrow> byte list \<Rightarrow> seg_data list \<Rightarrow> bool" where
  "segs_ok A M d cs \<longleftrightarrow> (\<forall>x \<in> set cs. seg_ok A M d x) \<and> unique_address cs"

text \<open>What a region holds, seen through the cache.\<close>

definition seen_region :: "(int \<Rightarrow> nat) \<Rightarrow> byte list \<Rightarrow> seg_data list \<Rightarrow> int \<Rightarrow> byte list" where
  "seen_region M d cs a =
     (case find (\<lambda>x. fst x = a) cs of Some x \<Rightarrow> fst (snd x) | None \<Rightarrow> bytes_at d (nat a) (M a))"

lemma seen_in:
  assumes "unique_address cs" "i < length cs" "fst (cs ! i) = a" "a \<noteq> -1"
  shows "seen_region M d cs a = fst (snd (cs ! i))"
proof -
  have "cs ! i \<in> set cs" using assms(2) by simp
  then have "find (\<lambda>x. fst x = a) cs \<noteq> None" using assms(3) unfolding find_None_iff by blast
  then obtain x where x: "find (\<lambda>x. fst x = a) cs = Some x" by blast
  then obtain j where j: "find (\<lambda>x. fst x = a) cs = Some (cs ! j)" "j < length cs" "fst (cs ! j) = a"
    unfolding find_Some_iff by blast
  then have "j = i" using assms by (auto simp: unique_address_def)
  with j show ?thesis by (simp add: seen_region_def)
qed

lemma seen_out: "(\<And>i. i < length cs \<Longrightarrow> fst (cs ! i) \<noteq> a) \<Longrightarrow> seen_region M d cs a = bytes_at d (nat a) (M a)"
proof -
  assume "\<And>i. i < length cs \<Longrightarrow> fst (cs ! i) \<noteq> a"
  then have "find (\<lambda>x. fst x = a) cs = None" unfolding find_None_iff in_set_conv_nth by blast
  then show ?thesis by (simp add: seen_region_def)
qed

lemma seen_cases:
  assumes "unique_address cs" "a \<noteq> -1"
  obtains i where "i < length cs" "fst (cs ! i) = a" "seen_region M d cs a = fst (snd (cs ! i))"
  | "\<And>i. i < length cs \<Longrightarrow> fst (cs ! i) \<noteq> a" "seen_region M d cs a = bytes_at d (nat a) (M a)"
  using seen_in [OF assms(1) _ _ assms(2)] seen_out by metis

lemma unique_update:
  assumes "unique_address cs" "\<And>j. j < length cs \<Longrightarrow> fst (cs ! j) = fst x \<Longrightarrow> fst x = -1 \<or> j = i"
  shows "unique_address (cs[i := x])"
proof (cases "i < length cs")
  case True
  show ?thesis unfolding unique_address_def
  proof (intro allI impI)
    fix j k
    assume jk: "j < length (cs[i := x])" "k < length (cs[i := x])" "fst (cs[i := x] ! j) = fst (cs[i := x] ! k)"
    then show "fst (cs[i := x] ! j) = -1 \<or> j = k"
      using assms True unfolding unique_address_def
      by (cases "j = i"; cases "k = i") (force simp: nth_list_update)+
  qed
next
  case False
  with assms(1) show ?thesis by (simp add: list_update_beyond)
qed

text \<open>A segment that is free or clean may be given to another region with the data of the file, or freed.\<close>

lemma segs_ok_reuse:
  assumes ok: "segs_ok A M d cs" and A: "-1 \<notin> A" and i: "i < length cs" and clean: "\<not> snd (snd (cs ! i))"
    and x: "seg_ok A M d (a, b, False)" and free: "\<And>j. j < length cs \<Longrightarrow> fst (cs ! j) = a \<Longrightarrow> a = -1"
  shows "segs_ok A M d (cs[i := (a, b, False)])"
    and "e \<in> A \<Longrightarrow> seen_region M d (cs[i := (a, b, False)]) e = seen_region M d cs e"
proof -
  let ?cs = "cs[i := (a, b, False)]"
  have u: "unique_address ?cs"
    using ok free by (intro unique_update) (auto simp: segs_ok_def)
  show o: "segs_ok A M d ?cs"
    using ok x u by (auto simp: segs_ok_def dest!: set_update_subset_insert [THEN subsetD])
  assume e: "e \<in> A"
  then have ne: "e \<noteq> -1" using A by blast
  have same: "fst (snd y) = bytes_at d (nat e) (M e)" if "y \<in> set zs" "segs_ok A M d zs" "fst y = e" "\<not> snd (snd y)" for y zs
    using that ne by (auto simp: segs_ok_def seg_ok_def)
  have uc: "unique_address cs" using ok by (simp add: segs_ok_def)
  show "seen_region M d ?cs e = seen_region M d cs e"
  proof (cases "\<exists>j < length cs. j \<noteq> i \<and> fst (cs ! j) = e")
    case True
    then obtain j where "j < length cs" "j \<noteq> i" "fst (cs ! j) = e" by blast
    then show ?thesis using seen_in [OF u, of j e] seen_in [OF uc, of j e] ne by simp
  next
    case False
    have "seen_region M d zs e = bytes_at d (nat e) (M e)"
      if "zs = cs \<or> zs = ?cs" for zs
    proof -
      have z: "unique_address zs" "length zs = length cs" "segs_ok A M d zs" "\<not> snd (snd (zs ! i))"
        "\<And>j. j < length cs \<Longrightarrow> j \<noteq> i \<Longrightarrow> fst (zs ! j) \<noteq> e"
        using that u uc ok o clean i False by auto
      show ?thesis
        using seen_cases [OF z(1) ne, of M d] z same [of "zs ! i" zs] i
        by (metis nth_mem)
    qed
    then show ?thesis by simp
  qed
qed

lemma in_update: "x \<in> set (cs[i := y]) \<Longrightarrow> x = y \<or> x \<in> set cs"
  using set_update_subset_insert [of cs i y] by blast

text \<open>Writing a dirty segment and freeing it.\<close>

lemma segs_ok_flush:
  assumes ok: "segs_ok A M (fdata s) cs" and f: "file_ok A M s" and i: "i < length cs"
    and x: "cs ! i = (a, b, True)"
  shows "segs_ok A M (put_at (fdata s) (nat a) b) (cs[i := (-1, b, False)])"
    and "e \<in> A \<Longrightarrow> seen_region M (put_at (fdata s) (nat a) b) (cs[i := (-1, b, False)]) e = seen_region M (fdata s) cs e"
    and "a \<in> A" "length b = M a"
proof -
  let ?d = "put_at (fdata s) (nat a) b" and ?cs = "cs[i := (-1, b, False)]"
  have "seg_ok A M (fdata s) (cs ! i)" using ok i by (simp add: segs_ok_def)
  then show a: "a \<in> A" and len: "length b = M a" by (auto simp: x seg_ok_def split: if_splits)
  have ne: "a \<noteq> -1" "e \<in> A \<Longrightarrow> e \<noteq> -1" using a f by (auto simp: file_ok_def)
  have other: "bytes_at ?d (nat q) (M q) = bytes_at (fdata s) (nat q) (M q)" if "q \<in> A" "q \<noteq> a" for q
    using that a f len by (intro bytes_at_put_disjoint) (auto simp: file_ok_def)
  have u: "unique_address cs" using ok by (simp add: segs_ok_def)
  then have u': "unique_address ?cs" by (intro unique_update) auto
  have only: "j = i" if "j < length cs" "fst (cs ! j) = a" for j
    using that u i x ne by (auto simp: unique_address_def)
  have "seg_ok A M ?d y" if y: "y \<in> set ?cs" for y
  proof (cases "y = (-1, b, False)")
    case False
    then have m: "y \<in> set cs" using in_update [OF y] by blast
    obtain j where j: "j < length ?cs" "?cs ! j = y" using y unfolding in_set_conv_nth by blast
    obtain q c t where q: "y = (q, c, t)" by (cases y)
    have ji: "j \<noteq> i" using j(2) False i by fastforce
    then have "cs ! j = (q, c, t)" using j(2) q by simp
    with only [of j] j(1) ji have "q \<noteq> a" by fastforce
    moreover have "seg_ok A M (fdata s) (q, c, t)" using ok m q by (simp add: segs_ok_def)
    ultimately show ?thesis using other [of q] by (simp add: seg_ok_def q split: if_splits)
  qed (simp add: seg_ok_def)
  then show "segs_ok A M ?d ?cs" using u' by (simp add: segs_ok_def)
  assume e: "e \<in> A"
  show "seen_region M ?d ?cs e = seen_region M (fdata s) cs e"
  proof (cases "e = a")
    case True
    have "fst (?cs ! j) \<noteq> a" if "j < length ?cs" for j
      using only [of j] that ne(1) i by (cases "j = i") auto
    then have "seen_region M ?d ?cs a = bytes_at ?d (nat a) (M a)" by (rule seen_out)
    then show ?thesis
      using True seen_in [OF u i, of a M "fdata s"] x ne len by (simp add: bytes_at_put_same_len)
  next
    case False
    show ?thesis
    proof (rule seen_cases [OF u ne(2) [OF e], of M "fdata s"])
      fix j assume j: "j < length cs" "fst (cs ! j) = e" "seen_region M (fdata s) cs e = fst (snd (cs ! j))"
      then have "j \<noteq> i" using x False by auto
      then show ?thesis using j seen_in [OF u', of j e M ?d] ne(2) [OF e] by simp
    next
      assume n: "\<And>j. j < length cs \<Longrightarrow> fst (cs ! j) \<noteq> e" "seen_region M (fdata s) cs e = bytes_at (fdata s) (nat e) (M e)"
      have "fst (?cs ! j) \<noteq> e" if "j < length ?cs" for j
        using n(1) [of j] that ne(2) [OF e] i by (cases "j = i") auto
      then have "seen_region M ?d ?cs e = bytes_at ?d (nat e) (M e)" by (rule seen_out)
      then show ?thesis using n other [OF e False] by simp
    qed
  qed
qed

text \<open>New data for a segment that holds the region.\<close>

lemma segs_ok_write:
  assumes ok: "segs_ok A M d cs'" and i: "i < length cs'" and A: "-1 \<notin> A" "a \<in> A" and len: "length buf = M a"
    and cs: "fst (cs' ! i) = a"
  shows "segs_ok A M d (cs'[i := (a, buf, True)])"
    and "e \<in> A \<Longrightarrow> seen_region M d (cs'[i := (a, buf, True)]) e = (if e = a then buf else seen_region M d cs' e)"
proof -
  let ?cs = "cs'[i := (a, buf, True)]"
  have ne: "a \<noteq> -1" "e \<in> A \<Longrightarrow> e \<noteq> -1" using A by auto
  have u: "unique_address cs'" using ok by (simp add: segs_ok_def)
  then have only: "j = i" if "j < length cs'" "fst (cs' ! j) = a" for j
    using that i cs ne by (auto simp: unique_address_def)
  have u': "unique_address ?cs" using u only by (intro unique_update) auto
  show "segs_ok A M d ?cs"
    using ok u' A len ne by (auto simp: segs_ok_def seg_ok_def dest!: in_update)
  assume e: "e \<in> A"
  show "seen_region M d ?cs e = (if e = a then buf else seen_region M d cs' e)"
  proof (cases "e = a")
    case True
    then show ?thesis using seen_in [OF u', of i a] i ne by simp
  next
    case False
    show ?thesis
    proof (rule seen_cases [OF u ne(2) [OF e], of M d])
      fix j assume j: "j < length cs'" "fst (cs' ! j) = e" "seen_region M d cs' e = fst (snd (cs' ! j))"
      then have "j \<noteq> i" using cs False by auto
      then show ?thesis using j False seen_in [OF u', of j e M d] ne(2) [OF e] by simp
    next
      assume n: "\<And>j. j < length cs' \<Longrightarrow> fst (cs' ! j) \<noteq> e" "seen_region M d cs' e = bytes_at d (nat e) (M e)"
      have "fst (?cs ! j) \<noteq> e" if "j < length ?cs" for j
        using n(1) [of j] that False i by (cases "j = i") auto
      then have "seen_region M d ?cs e = bytes_at d (nat e) (M e)" by (rule seen_out)
      then show ?thesis using n False by simp
    qed
  qed
qed

section \<open>Operations on a cached file\<close>

definition cache_ok :: "int set \<Rightarrow> (int \<Rightarrow> nat) \<Rightarrow> nat list \<Rightarrow> segment_cache \<Rightarrow> bool" where
  "cache_ok A M xs st \<longleftrightarrow>
     (case snd st of None \<Rightarrow> False
      | Some s \<Rightarrow> seg_ring (fst st) xs \<and> closed_back (fst st) xs \<and> file_ok A M s \<and>
                 segs_ok A M (fdata s) (contents (fst st)) \<and> 2 \<le> length (contents (fst st)))"

definition region :: "(int \<Rightarrow> nat) \<Rightarrow> segment_cache \<Rightarrow> int \<Rightarrow> byte list" where
  "region M st a = (case snd st of None \<Rightarrow> [] | Some s \<Rightarrow> seen_region M (fdata s) (contents (fst st)) a)"

definition same_regions :: "int set \<Rightarrow> (int \<Rightarrow> nat) \<Rightarrow> segment_cache \<Rightarrow> segment_cache \<Rightarrow> bool" where
  "same_regions A M st st' \<longleftrightarrow> (\<forall>a \<in> A. region M st' a = region M st a)"

lemma same_regions_refl [simp]: "same_regions A M st st"
  by (simp add: same_regions_def)

lemma same_regions_trans: "same_regions A M s t \<Longrightarrow> same_regions A M t u \<Longrightarrow> same_regions A M s u"
  by (simp add: same_regions_def)

text \<open>No segment holds a region that no segment held.\<close>

definition no_new :: "segment_cache \<Rightarrow> segment_cache \<Rightarrow> bool" where
  "no_new st st' \<longleftrightarrow> fst ` set (contents (fst st')) \<subseteq> insert (-1) (fst ` set (contents (fst st)))"

lemma no_new_refl [simp]: "no_new st st"
  by (auto simp: no_new_def)

lemma no_minus_one: "file_ok A M s \<Longrightarrow> -1 \<notin> A"
  by (auto simp: file_ok_def)

lemma Segment_Flush_writes:
  assumes "fwritable s" "0 \<le> ds_address g" "nat (ds_address g) + length (ds g) \<le> length (fdata s)"
    "length (fdata s) \<le> fcap s" "seg_dirty g" "ds g \<noteq> []"
  shows "Segment_Flush g (Some s) =
    (gxDBASE_NO_ERROR, g\<lparr>ds_address := -1, seg_dirty := False\<rparr>,
     Some (s\<lparr>fdata := put_at (fdata s) (nat (ds_address g)) (ds g), fpos := nat (ds_address g) + length (ds g)\<rparr>))"
proof -
  let ?s = "s\<lparr>fpos := nat (ds_address g)\<rparr>"
  have "gxdFPTRSeek (Some s) (ds_address g) gxDBASE_SEEK_BEG = (0, Some ?s)"
    using assms(2) by (simp add: gxdFPTRSeek_def fseek_to_def)
  moreover have "gxdFPTRWrite (Some ?s) (ds g) =
      (length (ds g), Some (?s\<lparr>fdata := put_at (fdata ?s) (fpos ?s) (ds g), fpos := fpos ?s + length (ds g)\<rparr>))"
    using assms by (intro fptr_write_fits) auto
  ultimately show ?thesis using assms by (simp add: Segment_Flush_def Segment_Write_def)
qed

lemma Segment_Read_reads:
  assumes "0 \<le> ds_address g" "nat (ds_address g) + n \<le> length (fdata s)"
  shows "Segment_Read n g (Some s) =
    (gxDBASE_NO_ERROR, g\<lparr>ds := bytes_at (fdata s) (nat (ds_address g)) n, seg_dirty := False\<rparr>,
     Some (s\<lparr>fpos := nat (ds_address g) + n\<rparr>))"
proof -
  let ?s = "s\<lparr>fpos := nat (ds_address g)\<rparr>"
  have "gxdFPTRSeek (Some s) (ds_address g) gxDBASE_SEEK_BEG = (0, Some ?s)"
    using assms(1) by (simp add: gxdFPTRSeek_def fseek_to_def)
  moreover have "gxdFPTRRead (Some ?s) n = (bytes_at (fdata s) (nat (ds_address g)) n, Some (?s\<lparr>fpos := fpos ?s + n\<rparr>))"
    using assms fptr_read_inside [of ?s n] by simp
  moreover have "length (bytes_at (fdata s) (nat (ds_address g)) n) = n" using assms(2) by simp
  ultimately show ?thesis by (simp add: Segment_Read_def Let_def resized_def)
qed

text \<open>A segment of a good cache, and its place in the contents.\<close>

lemma contents_place:
  assumes "i < length (segments c)" "segs_ok A M d (contents c)"
  shows "seg_ok A M d (ds_address (segment_at c i), ds (segment_at c i), seg_dirty (segment_at c i))"
proof -
  have "contents c ! i \<in> set (contents c)" using assms(1) by simp
  then show ?thesis using assms by (auto simp: segs_ok_def contents_nth cont_def)
qed

lemma flush_segment_ok:
  assumes ok: "cache_ok A M xs st" and i: "i \<in> set xs"
  shows "\<exists>c' s'. flush_segment i st = (gxDBASE_NO_ERROR, c', Some s') \<and> cache_ok A M xs (c', Some s') \<and>
    same_regions A M st (c', Some s') \<and> no_new st (c', Some s') \<and>
    \<not> seg_dirty (segment_at c' i) \<and> (\<forall>j. \<not> seg_dirty (segment_at (fst st) j) \<longrightarrow> \<not> seg_dirty (segment_at c' j))"
proof -
  obtain c s where st: "st = (c, Some s)" using ok by (cases st) (auto simp: cache_ok_def split: option.splits)
  let ?g = "segment_at c i"
  have c: "seg_ring c xs" "closed_back c xs" "file_ok A M s" "segs_ok A M (fdata s) (contents c)"
    "2 \<le> length (contents c)"
    using ok by (simp_all add: cache_ok_def st)
  have lt: "i < length (segments c)" using seg_ring_facts(3) [OF c(1)] i by auto
  show ?thesis
  proof (cases "seg_dirty ?g")
    case False
    then show ?thesis using ok by (simp add: flush_segment_def st)
  next
    case True
    let ?g' = "?g\<lparr>ds_address := -1, seg_dirty := False\<rparr>" and ?d = "put_at (fdata s) (nat (ds_address ?g)) (ds ?g)"
    let ?c = "set_segment i ?g' c" and ?s = "s\<lparr>fdata := ?d, fpos := nat (ds_address ?g) + length (ds ?g)\<rparr>"
    have x: "contents c ! i = (ds_address ?g, ds ?g, True)" using lt True by (simp add: contents_nth cont_def)
    note fl = segs_ok_flush [OF c(4) c(3) _ x]
    have r: "ds_address ?g \<in> A" "length (ds ?g) = M (ds_address ?g)" using fl(3,4) lt by auto
    then have b: "0 \<le> ds_address ?g" "nat (ds_address ?g) + length (ds ?g) \<le> length (fdata s)" "ds ?g \<noteq> []"
      using c(3) by (auto simp: file_ok_def)
    have F: "flush_segment i st = (gxDBASE_NO_ERROR, ?c, Some ?s)"
      using True b c(3) Segment_Flush_writes [of s ?g] by (simp add: flush_segment_def st file_ok_def)
    have cs: "contents ?c = (contents c)[i := (-1, ds ?g, False)]" by (simp add: contents_set_segment cont_def)
    have B: "as_buckets ?c = as_buckets c" by (rule as_buckets_same) simp_all
    have "file_ok A M ?s" using c(3) b by (simp add: file_ok_def)
    moreover have "closed_back ?c xs" using c(2) lt seg_ring_facts(1) [OF c(1)] by (simp add: closed_back_def B)
    moreover have "seg_ring ?c xs" using c(1) by (simp add: seg_ring_same)
    ultimately have "cache_ok A M xs (?c, Some ?s)" using fl(1) lt cs c(5) by (simp add: cache_ok_def)
    moreover have "same_regions A M st (?c, Some ?s)"
      using fl(2) lt cs by (simp add: same_regions_def region_def st)
    moreover have "no_new st (?c, Some ?s)" by (auto simp: no_new_def st cs dest!: in_update)
    ultimately show ?thesis using F lt by (auto simp: st)
  qed
qed

lemma next_in_ring:
  assumes "seg_ring c xs" "xs = us @ i # vs"
  shows "seg_next (segment_at c i) = hd (vs @ [hd xs])" "vs \<noteq> [] \<Longrightarrow> hd vs \<noteq> ds_head c"
proof -
  have "i < length (segments c)" using assms seg_ring_facts(3) [OF assms(1)] by auto
  then have n: "seg_next (segment_at c i) = nxt (as_buckets c) i" by (simp add: as_buckets_links)
  have p: "path (nxt (as_buckets c)) (us @ i # vs)" "nxt (as_buckets c) (last (us @ i # vs)) = hd xs"
    using assms by (auto simp: seg_ring_def ring_def)
  then show "seg_next (segment_at c i) = hd (vs @ [hd xs])"
    unfolding n by (cases vs) (auto simp: path_append path_Cons)
  show "vs \<noteq> [] \<Longrightarrow> hd vs \<noteq> ds_head c"
    using assms(2) seg_ring_facts(2,7) [OF assms(1)] by (cases us; cases vs) auto
qed

definition cleaned :: "nat set \<Rightarrow> segment_cache \<Rightarrow> segment_cache \<Rightarrow> bool" where
  "cleaned S st st' \<longleftrightarrow>
     (\<forall>j. j \<in> S \<or> \<not> seg_dirty (segment_at (fst st) j) \<longrightarrow> \<not> seg_dirty (segment_at (fst st') j))"

lemma cleaned_trans: "cleaned S s t \<Longrightarrow> cleaned T t u \<Longrightarrow> cleaned (S \<union> T) s u"
  by (auto simp: cleaned_def)

lemma flush_segments_ok:
  assumes "cache_ok A M xs st" "xs = us @ i # vs"
  shows "\<exists>st'. flush_segments i st = Some (gxDBASE_NO_ERROR, st') \<and> cache_ok A M xs st' \<and> same_regions A M st st' \<and>
    cleaned (set (i # vs)) st st'"
  using assms
proof (induction vs arbitrary: us i st)
  case Nil
  obtain c' s' where f: "flush_segment i st = (gxDBASE_NO_ERROR, c', Some s')" "cache_ok A M xs (c', Some s')"
    "same_regions A M st (c', Some s')" "cleaned {i} st (c', Some s')"
    using flush_segment_ok [OF Nil(1), of i] Nil(2) by (auto simp: cleaned_def)
  have r: "seg_ring c' xs" using f(2) by (simp add: cache_ok_def)
  have "seg_next (segment_at c' i) = ds_head c'"
    using next_in_ring(1) [OF r Nil(2)] seg_ring_facts(7) [OF r] by simp
  then have "flush_segments i st = Some (gxDBASE_NO_ERROR, c', Some s')"
    using f(1) by (subst flush_segments.simps) simp
  then show ?case using f by auto
next
  case (Cons k vs)
  obtain c' s' where f: "flush_segment i st = (gxDBASE_NO_ERROR, c', Some s')" "cache_ok A M xs (c', Some s')"
    "same_regions A M st (c', Some s')" "cleaned {i} st (c', Some s')"
    using flush_segment_ok [OF Cons(2), of i] Cons(3) by (auto simp: cleaned_def)
  have r: "seg_ring c' xs" using f(2) by (simp add: cache_ok_def)
  have n: "seg_next (segment_at c' i) = k" "k \<noteq> ds_head c'"
    using next_in_ring [OF r Cons(3)] by auto
  obtain st' where t: "flush_segments k (c', Some s') = Some (gxDBASE_NO_ERROR, st')" "cache_ok A M xs st'"
    "same_regions A M (c', Some s') st'" "cleaned (set (k # vs)) (c', Some s') st'"
    using Cons(1) [OF f(2), of "us @ [i]" k] Cons(3) by auto
  have "flush_segments i st = flush_segments k (c', Some s')"
    using f(1) n by (subst flush_segments.simps) simp
  then show ?case using t f same_regions_trans [OF f(3) t(3)] cleaned_trans [OF f(4) t(4)] by (auto simp: insert_commute)
qed

lemma all_clean:
  assumes "cache_ok A M xs (c, Some s)" "\<And>j. j \<in> set xs \<Longrightarrow> \<not> seg_dirty (segment_at c j)" "a \<in> A"
  shows "region M (c, Some s) a = bytes_at (fdata s) (nat a) (M a)"
proof -
  have c: "seg_ring c xs" "file_ok A M s" "segs_ok A M (fdata s) (contents c)"
    using assms by (simp_all add: cache_ok_def)
  have ne: "a \<noteq> -1" using no_minus_one [OF c(2)] assms(3) by blast
  have u: "unique_address (contents c)" using c(3) by (simp add: segs_ok_def)
  show ?thesis
  proof (rule seen_cases [OF u ne, of M "fdata s"])
    fix i assume i: "i < length (contents c)" "fst (contents c ! i) = a"
      "seen_region M (fdata s) (contents c) a = fst (snd (contents c ! i))"
    then have lt: "i < length (segments c)" by simp
    have "\<not> seg_dirty (segment_at c i)" using assms(2) seg_ring_facts(3) [OF c(1)] lt by auto
    then show ?thesis
      using contents_place [OF lt c(3)] i ne lt by (simp add: region_def contents_nth cont_def seg_ok_def)
  qed (simp add: region_def)
qed

lemma Flush_ds_ok:
  assumes ok: "cache_ok A M xs st"
  shows "\<exists>c' s'. Flush_ds st = Some (gxDBASE_NO_ERROR, c', Some s') \<and> cache_ok A M xs (c', Some s') \<and>
    same_regions A M st (c', Some s') \<and> (\<forall>a \<in> A. bytes_at (fdata s') (nat a) (M a) = region M st a)"
proof -
  obtain c s where st: "st = (c, Some s)" using ok by (cases st) (auto simp: cache_ok_def split: option.splits)
  have r: "seg_ring c xs" using ok by (simp add: cache_ok_def st)
  obtain h vs where xs: "xs = h # vs" using seg_ring_facts(1) [OF r] by (cases xs) auto
  obtain st' where t: "flush_segments h st = Some (gxDBASE_NO_ERROR, st')" "cache_ok A M xs st'"
    "same_regions A M st st'" "cleaned (set xs) st st'"
    using flush_segments_ok [OF ok, of "[]" h vs] xs by auto
  obtain c' s' where st': "st' = (c', Some s')" using t(2) by (cases st') (auto simp: cache_ok_def split: option.splits)
  have "Flush_ds st = Some (gxDBASE_NO_ERROR, c', Some s')"
    using t(1) seg_ring_facts(4,5) [OF r] xs by (simp add: Flush_ds_def st st')
  moreover have "bytes_at (fdata s') (nat a) (M a) = region M st a" if a: "a \<in> A" for a
    using all_clean [of A M xs c' s' a] t a by (simp add: st' same_regions_def cleaned_def)
  ultimately show ?thesis using t st' by blast
qed

text \<open>A segment that comes to the front.\<close>

definition front_of :: "nat \<Rightarrow> int set \<Rightarrow> (int \<Rightarrow> nat) \<Rightarrow> segment_cache \<Rightarrow> segment_cache \<Rightarrow> bool" where
  "front_of i A M st st' \<longleftrightarrow> same_regions A M st st' \<and> (\<exists>ys. cache_ok A M (i # ys) st')"

lemma Promote_ok:
  assumes "cache_ok A M xs (c, f)" "i \<in> set xs"
  shows "front_of i A M (c, f) (PromoteSegment i c, f)"
proof -
  have "cache_ok A M (i # remove1 i xs) (PromoteSegment i c, f)"
    using assms Promote_ring [of c xs i] by (auto simp: cache_ok_def split: option.splits)
  moreover have "same_regions A M (c, f) (PromoteSegment i c, f)"
    by (simp add: same_regions_def region_def split: option.splits)
  ultimately show ?thesis by (auto simp: front_of_def)
qed

lemma Promote_clean: "b < length (segments c) \<Longrightarrow> seg_dirty (segment_at (PromoteSegment i c) b) = seg_dirty (segment_at c b)"
  using dirty_contents [of b c] dirty_contents [of b "PromoteSegment i c"]
  by (metis contents_Promote length_contents)

lemma prev_in_ring:
  assumes "seg_ring c xs" "xs = us @ i # vs"
  shows "us \<noteq> [] \<Longrightarrow> seg_prev (segment_at c i) = last us" "us \<noteq> [] \<Longrightarrow> last us \<noteq> ds_tail c"
    "us = [] \<Longrightarrow> seg_prev (segment_at c i) = prv (as_buckets c) (hd xs)"
proof -
  have "i < length (segments c)" using assms seg_ring_facts(3) [OF assms(1)] by auto
  then have n: "seg_prev (segment_at c i) = prv (as_buckets c) i" by (simp add: as_buckets_links)
  have p: "path (prv (as_buckets c)) (rev vs @ i # rev us)"
    using assms by (auto simp: seg_ring_def back_links_def)
  then show "us \<noteq> [] \<Longrightarrow> seg_prev (segment_at c i) = last us"
    unfolding n by (simp add: path_append path_Cons hd_rev)
  show "us \<noteq> [] \<Longrightarrow> last us \<noteq> ds_tail c"
  proof -
    assume us: "us \<noteq> []"
    then have "last us \<in> set us" by simp
    moreover have "last (i # vs) \<notin> set us" using assms(2) seg_ring_facts(2) [OF assms(1)]
      by (metis Int_iff distinct_append empty_iff last_in_set list.distinct(1))
    ultimately show ?thesis using assms(2) seg_ring_facts(8) [OF assms(1)] by auto
  qed
  show "us = [] \<Longrightarrow> seg_prev (segment_at c i) = prv (as_buckets c) (hd xs)"
    using assms(2) n by simp
qed

lemma empty_loop_ok:
  assumes ok: "cache_ok A M xs st"
  shows "xs = us @ i # vs \<Longrightarrow> \<forall>j \<in> set vs. seg_dirty (segment_at (fst st) j) \<Longrightarrow>
    \<exists>k c' s'. empty_loop i st = Some (Some k, c', Some s') \<and> front_of k A M st (c', Some s') \<and>
      no_new st (c', Some s') \<and> \<not> seg_dirty (segment_at c' k)"
proof (induction us arbitrary: i vs rule: rev_induct)
  obtain c s where st: "st = (c, Some s)" using ok by (cases st) (auto simp: cache_ok_def split: option.splits)
  have r: "seg_ring c xs" "closed_back c xs" using ok by (simp_all add: cache_ok_def st)
  have found: "\<exists>k c' s'. empty_loop i st = Some (Some k, c', Some s') \<and> front_of k A M st (c', Some s') \<and>
      no_new st (c', Some s') \<and> \<not> seg_dirty (segment_at c' k)" if "\<not> seg_dirty (segment_at c i)" "i \<in> set xs" for i
  proof -
    have "empty_loop i st = Some (Some i, PromoteSegment i c, Some s)"
      using that by (subst empty_loop.simps) (simp add: st)
    moreover have "i < length (segments c)" using that seg_ring_facts(3) [OF r(1)] by auto
    ultimately show ?thesis
      using Promote_ok [of A M xs c "Some s" i] ok that by (simp add: st Promote_clean no_new_def subset_insertI)
  qed
  {
    case Nil
    show ?case
    proof (cases "seg_dirty (segment_at c i)")
      case False
      then show ?thesis using found Nil(1) by simp
    next
      case True
      have t: "last xs \<in> set xs" "ds_tail c = last xs" using seg_ring_facts(1,8) [OF r(1)] by simp_all
      have "seg_dirty (segment_at c (last xs))"
        using Nil True by (cases vs rule: rev_cases) (auto simp: st)
      then have pv: "seg_prev (segment_at c i) = last xs" "seg_dirty (segment_at c (last xs))"
        using r(2) prev_in_ring(3) [OF r(1) Nil(1)] by (simp_all add: closed_back_def)
      obtain c' s' where f: "flush_segment (last xs) st = (gxDBASE_NO_ERROR, c', Some s')"
        "cache_ok A M xs (c', Some s')" "same_regions A M st (c', Some s')" "\<not> seg_dirty (segment_at c' (last xs))"
        "no_new st (c', Some s')"
        using flush_segment_ok [OF ok t(1)] by blast
      have "empty_loop i st = Some (Some (last xs), PromoteSegment (last xs) c', Some s')"
        using True pv f(1) t(2)
        by (subst empty_loop.simps) (auto simp: st flush_segment_def Let_def split: prod.splits)
      moreover have "front_of (last xs) A M st (PromoteSegment (last xs) c', Some s')"
        using Promote_ok [OF f(2) t(1)] f(3) by (auto simp: front_of_def intro: same_regions_trans)
      moreover have "last xs < length (segments c')"
        using f(2) t(1) seg_ring_facts(3) [of c' xs] by (auto simp: cache_ok_def)
      moreover have "no_new st (PromoteSegment (last xs) c', Some s')" using f(5) by (simp add: no_new_def)
      ultimately show ?thesis using f(4) Promote_clean by blast
    qed
  next
    case (snoc k us)
    show ?case
    proof (cases "seg_dirty (segment_at c i)")
      case False
      then show ?thesis using found snoc(2) by simp
    next
      case True
      have p: "seg_prev (segment_at c i) = k" "k \<noteq> ds_tail c"
        using prev_in_ring(1,2) [OF r(1) snoc(2)] by simp_all
      have "empty_loop i st = empty_loop k st"
        using True p by (subst empty_loop.simps) (simp add: st Let_def)
      then show ?thesis using snoc(1) [of k "i # vs"] snoc(2,3) True by (simp add: st)
    qed
  }
qed

lemma FindEmptySegment_ok:
  assumes ok: "cache_ok A M xs st"
  shows "\<exists>k c' s'. FindEmptySegment st = Some (Some k, c', Some s') \<and> front_of k A M st (c', Some s') \<and>
      no_new st (c', Some s') \<and> \<not> seg_dirty (segment_at c' k)"
proof -
  obtain c s where st: "st = (c, Some s)" using ok by (cases st) (auto simp: cache_ok_def split: option.splits)
  have r: "seg_ring c xs" using ok by (simp add: cache_ok_def st)
  have "xs = butlast xs @ [last xs]" using seg_ring_facts(1) [OF r] by simp
  from empty_loop_ok [OF ok this] show ?thesis
    using seg_ring_facts(4,6) [OF r] by (simp add: FindEmptySegment_def st)
qed

section \<open>Reading and writing a region\<close>

lemma find_segment_from:
  assumes "seg_ring c xs" "xs = us @ i # vs"
  shows "find_segment_loop i addr c = Some (find (\<lambda>j. ds_address (segment_at c j) = addr) (i # vs))"
  using assms(2)
proof (induction vs arbitrary: us i)
  case Nil
  have "seg_next (segment_at c i) = ds_head c"
    using next_in_ring(1) [OF assms(1) Nil] seg_ring_facts(7) [OF assms(1)] by simp
  then show ?case by (subst find_segment_loop.simps) simp
next
  case (Cons j vs)
  have "seg_next (segment_at c i) = j" "j \<noteq> ds_head c"
    using next_in_ring [OF assms(1) Cons.prems] by simp_all
  with Cons.IH [of "us @ [i]" j] Cons.prems show ?case
    by (subst find_segment_loop.simps) simp
qed

lemma FindSegment_list:
  assumes "seg_ring c xs"
  shows "FindSegment addr c = Some (find (\<lambda>j. ds_address (segment_at c j) = addr) xs)"
proof -
  obtain y ys where xs: "xs = y # ys" using seg_ring_facts(1) [OF assms] by (cases xs) auto
  from find_segment_from [OF assms, of "[]" y ys addr] show ?thesis
    using seg_ring_facts(4,5) [OF assms] xs by (simp add: FindSegment_def)
qed

lemma cache_ok_stats [simp]:
  "cache_ok A M xs (c\<lparr>ds_uncached_reads := r\<rparr>, f) = cache_ok A M xs (c, f)"
  "cache_ok A M xs (c\<lparr>ds_cached_reads := r\<rparr>, f) = cache_ok A M xs (c, f)"
  by (simp_all add: cache_ok_def closed_back_def segment_at_def split: option.splits)

lemma region_stats [simp]:
  "region M (c\<lparr>ds_uncached_reads := r\<rparr>, f) a = region M (c, f) a"
  "region M (c\<lparr>ds_cached_reads := r\<rparr>, f) a = region M (c, f) a"
  by (cases f; simp add: region_def)+

lemma front_of_stats [simp]:
  "front_of i A M st (c\<lparr>ds_cached_reads := r\<rparr>, f) = front_of i A M st (c, f)"
  "front_of i A M (c\<lparr>ds_uncached_reads := r\<rparr>, f) st' = front_of i A M (c, f) st'"
  by (simp_all add: front_of_def same_regions_def)

text \<open>A segment that holds a region is found, or the region is in no segment.\<close>

lemma FindSegment_cases:
  assumes ok: "cache_ok A M xs (c, Some s)" and a: "a \<in> A"
  obtains i where "FindSegment a c = Some (Some i)" "i \<in> set xs" "ds_address (segment_at c i) = a"
    "ds (segment_at c i) = region M (c, Some s) a"
  | "FindSegment a c = Some None" "\<And>i. i < length (segments c) \<Longrightarrow> ds_address (segment_at c i) \<noteq> a"
    "region M (c, Some s) a = bytes_at (fdata s) (nat a) (M a)"
proof -
  have r: "seg_ring c xs" "file_ok A M s" "segs_ok A M (fdata s) (contents c)" using ok by (simp_all add: cache_ok_def)
  have u: "unique_address (contents c)" "a \<noteq> -1" using r(3) a no_minus_one [OF r(2)] by (auto simp: segs_ok_def)
  note F = FindSegment_list [OF r(1), of a]
  show thesis
  proof (cases "find (\<lambda>j. ds_address (segment_at c j) = a) xs")
    case None
    then have n: "ds_address (segment_at c i) \<noteq> a" if "i < length (segments c)" for i
      using that seg_ring_facts(3) [OF r(1)] unfolding find_None_iff by auto
    then have "seen_region M (fdata s) (contents c) a = bytes_at (fdata s) (nat a) (M a)"
      by (intro seen_out) (simp add: contents_nth cont_def)
    then show thesis using that(2) F None n by (simp add: region_def)
  next
    case (Some i)
    then have i: "i \<in> set xs" "ds_address (segment_at c i) = a" by (auto simp: find_Some_iff)
    then have lt: "i < length (segments c)" using seg_ring_facts(3) [OF r(1)] by auto
    then have "seen_region M (fdata s) (contents c) a = ds (segment_at c i)"
      using seen_in [OF u(1), of i a M "fdata s"] u(2) i by (simp add: contents_nth cont_def)
    then show thesis using that(1) F Some i by (simp add: region_def)
  qed
qed

text \<open>
  A region that is in no segment: some segment is made free and comes to the front, and the region is
  still in no segment.
\<close>

lemma make_free:
  assumes ok: "cache_ok A M xs (c, Some s)" and a: "a \<in> A"
    and out: "\<And>i. i < length (segments c) \<Longrightarrow> ds_address (segment_at c i) \<noteq> a"
  obtains k c' s' ys where
    "FindEmptySegment (c\<lparr>ds_uncached_reads := r\<rparr>, Some s) = Some (Some k, c', Some s')"
    "cache_ok A M (k # ys) (c', Some s')" "same_regions A M (c, Some s) (c', Some s')"
    "\<not> seg_dirty (segment_at c' k)" "k < length (segments c')"
    "\<And>j. j < length (contents c') \<Longrightarrow> fst (contents c' ! j) \<noteq> a"
proof -
  have ok': "cache_ok A M xs (c\<lparr>ds_uncached_reads := r\<rparr>, Some s)" using ok by simp
  obtain k c' s' where k: "FindEmptySegment (c\<lparr>ds_uncached_reads := r\<rparr>, Some s) = Some (Some k, c', Some s')"
    "front_of k A M (c\<lparr>ds_uncached_reads := r\<rparr>, Some s) (c', Some s')"
    "no_new (c\<lparr>ds_uncached_reads := r\<rparr>, Some s) (c', Some s')" "\<not> seg_dirty (segment_at c' k)"
    using FindEmptySegment_ok [OF ok'] by blast
  obtain ys where ys: "cache_ok A M (k # ys) (c', Some s')" "same_regions A M (c, Some s) (c', Some s')"
    using k(2) by (auto simp: front_of_def same_regions_def)
  have lt: "k < length (segments c')" using ys(1) seg_ring_facts(3) [of c' "k # ys"] by (auto simp: cache_ok_def)
  have "a \<noteq> -1" using a ok no_minus_one [of A M s] by (auto simp: cache_ok_def)
  moreover have "a \<notin> fst ` set (contents c)"
    using out by (auto simp: in_set_conv_nth contents_nth cont_def)
  ultimately have "a \<notin> fst ` set (contents c')" using k(3) by (auto simp: no_new_def)
  then have "fst (contents c' ! j) \<noteq> a" if "j < length (contents c')" for j
    using that by (metis image_eqI nth_mem)
  with k ys lt show thesis using that by blast
qed

lemma reuse_segment:
  assumes ok: "cache_ok A M (k # ys) (c, Some s)" and k: "k < length (segments c)" "\<not> seg_dirty (segment_at c k)"
    and a: "a \<in> A" and out: "\<And>j. j < length (contents c) \<Longrightarrow> fst (contents c ! j) \<noteq> a"
    and g: "cont g = (a, bytes_at (fdata s) (nat a) (M a), False)"
      "seg_next g = seg_next (segment_at c k)" "seg_prev g = seg_prev (segment_at c k)"
    and t: "fdata t = fdata s" "fwritable t = fwritable s" "fcap t = fcap s"
  shows "cache_ok A M (k # ys) (set_segment k g c, Some t)"
    "same_regions A M (c, Some s) (set_segment k g c, Some t)"
proof -
  have c: "seg_ring c (k # ys)" "closed_back c (k # ys)" "file_ok A M s" "segs_ok A M (fdata s) (contents c)"
    "2 \<le> length (segments c)"
    using ok by (simp_all add: cache_ok_def)
  have A: "-1 \<notin> A" using no_minus_one [OF c(3)] .
  have x: "seg_ok A M (fdata s) (a, bytes_at (fdata s) (nat a) (M a), False)"
    using a c(3) A by (auto simp: seg_ok_def file_ok_def)
  note re = segs_ok_reuse [OF c(4) A _ _ x]
  have cl: "\<not> snd (snd (contents c ! k))" using k by (simp add: contents_nth cont_def)
  have B: "as_buckets (set_segment k g c) = as_buckets c" by (rule as_buckets_same [OF g(2,3)])
  have ft: "file_ok A M t" using c(3) t by (simp add: file_ok_def)
  have "\<not> seg_dirty g" using g(1) by (simp add: cont_def)
  then have "closed_back (set_segment k g c) (k # ys)"
    using c(2) k(1) by (auto simp: closed_back_def B)
  then show "cache_ok A M (k # ys) (set_segment k g c, Some t)"
    using c(1,5) g re(1) [OF _ cl] k(1) out ft t by (simp add: cache_ok_def seg_ring_same contents_set_segment)
  show "same_regions A M (c, Some s) (set_segment k g c, Some t)"
    using re(2) [OF _ cl] k(1) out g t by (simp add: same_regions_def region_def contents_set_segment)
qed

lemma front_not_last:
  assumes "cache_ok A M (k # ys) (c, Some s)"
  shows "k < length (segments c)" "k \<noteq> last (k # ys)"
proof -
  have r: "seg_ring c (k # ys)" "2 \<le> length (segments c)" using assms by (simp_all add: cache_ok_def)
  note f = seg_ring_facts(2,3) [OF r(1)]
  show "k < length (segments c)" using f(2) by auto
  have "card (set (k # ys)) = length (segments c)" unfolding f(2) by simp
  then have "ys \<noteq> []" using r(2) by auto
  then show "k \<noteq> last (k # ys)" using f(1) by auto
qed

lemma write_segment:
  assumes ok: "cache_ok A M (k # ys) (c, Some s)"
    and a: "a \<in> A" "ds_address (segment_at c k) = a" and len: "length buf = M a"
    and g: "cont g = (a, buf, True)"
      "seg_next g = seg_next (segment_at c k)" "seg_prev g = seg_prev (segment_at c k)"
  shows "cache_ok A M (k # ys) (set_segment k g c, Some s)"
    "e \<in> A \<Longrightarrow> region M (set_segment k g c, Some s) e = (if e = a then buf else region M (c, Some s) e)"
proof -
  have c: "seg_ring c (k # ys)" "closed_back c (k # ys)" "file_ok A M s" "segs_ok A M (fdata s) (contents c)"
    "2 \<le> length (segments c)"
    using ok by (simp_all add: cache_ok_def)
  note k = front_not_last [OF ok]
  have fa: "fst (contents c ! k) = a" using k a by (simp add: contents_nth cont_def)
  note w = segs_ok_write [OF c(4) _ no_minus_one [OF c(3)] a(1) len fa]
  have B: "as_buckets (set_segment k g c) = as_buckets c" by (rule as_buckets_same [OF g(2,3)])
  have "closed_back (set_segment k g c) (k # ys)"
    using c(2) k by (auto simp: closed_back_def B)
  then show "cache_ok A M (k # ys) (set_segment k g c, Some s)"
    using c w(1) k(1) g by (simp add: cache_ok_def seg_ring_same contents_set_segment)
  show "e \<in> A \<Longrightarrow> region M (set_segment k g c, Some s) e = (if e = a then buf else region M (c, Some s) e)"
    using w(2) k(1) g by (simp add: region_def contents_set_segment)
qed

lemma CachedRead_ok:
  assumes ok: "cache_ok A M xs st" and a: "a \<in> A"
  shows "\<exists>i cn' c' s'. CachedRead a (M a) cn st = Some (Some i, cn', c', Some s') \<and>
    (\<exists>ys. cache_ok A M ys (c', Some s')) \<and> same_regions A M st (c', Some s') \<and>
    ds_address (segment_at c' i) = a \<and> ds (segment_at c' i) = region M st a"
proof -
  obtain c s where st: "st = (c, Some s)" using ok by (cases st) (auto simp: cache_ok_def split: option.splits)
  have f: "file_ok A M s" using ok by (simp add: cache_ok_def st)
  have a1: "a \<noteq> -1" "0 < M a" using no_minus_one [OF f] a f by (auto simp: file_ok_def)
  show ?thesis
  proof (rule FindSegment_cases [OF ok [unfolded st] a])
    fix i assume i: "FindSegment a c = Some (Some i)" "i \<in> set xs" "ds_address (segment_at c i) = a"
      "ds (segment_at c i) = region M (c, Some s) a"
    let ?c = "(PromoteSegment i c)\<lparr>ds_cached_reads := to_u32 (ds_cached_reads c + 1)\<rparr>"
    have "front_of i A M st (?c, Some s)" using Promote_ok [OF ok [unfolded st] i(2)] by (simp add: st)
    moreover have "i < length (segments c)"
      using i(2) ok seg_ring_facts(3) [of c xs] by (auto simp: cache_ok_def st)
    then have "cont (segment_at ?c i) = cont (segment_at c i)"
      using contents_Promote [of i c] contents_nth [of i c] contents_nth [of i "PromoteSegment i c"]
      by (metis contents_fields(4) contents_nth length_contents)
    moreover have "AllocSegment a (M a) st = Some (Some i, ?c, Some s)"
      using i(1) a1 by (simp add: AllocSegment_def st)
    ultimately show ?thesis
      using i(3,4) by (auto simp: CachedRead_def front_of_def cont_def st)
  next
    assume n: "FindSegment a c = Some None" "\<And>i. i < length (segments c) \<Longrightarrow> ds_address (segment_at c i) \<noteq> a"
      "region M (c, Some s) a = bytes_at (fdata s) (nat a) (M a)"
    obtain k c' s' ys where k: "FindEmptySegment (c\<lparr>ds_uncached_reads := to_u32 (ds_uncached_reads c + 1)\<rparr>, Some s) = Some (Some k, c', Some s')"
      "cache_ok A M (k # ys) (c', Some s')" "same_regions A M (c, Some s) (c', Some s')"
      "\<not> seg_dirty (segment_at c' k)" "k < length (segments c')"
      "\<And>j. j < length (contents c') \<Longrightarrow> fst (contents c' ! j) \<noteq> a"
      using make_free [OF ok [unfolded st] a n(2)] by blast
    let ?g = "(ResetSegment (segment_at c' k))\<lparr>ds_address := a\<rparr>" and ?b = "bytes_at (fdata s') (nat a) (M a)"
    let ?g' = "?g\<lparr>ds := ?b, seg_dirty := False\<rparr>" and ?s = "s'\<lparr>fpos := nat a + M a\<rparr>"
    have f': "file_ok A M s'" using k(2) by (simp add: cache_ok_def)
    have R: "Segment_Read (M a) ?g (Some s') = (gxDBASE_NO_ERROR, ?g', Some ?s)"
      using Segment_Read_reads [of ?g "M a" s'] a f' by (simp add: file_ok_def)
    note re = reuse_segment [OF k(2) k(5,4) a k(6), of ?g' ?s]
    have "region M (c', Some s') a = ?b"
      using seen_out [OF k(6)] by (simp add: region_def)
    then have "?b = region M st a" using k(3) a by (simp add: same_regions_def st)
    moreover have "AllocSegment a (M a) st = Some (Some k, set_segment k ?g' c', Some ?s)"
      using n(1) a1 k(1) R by (simp add: AllocSegment_def st load_segment_def Let_def)
    ultimately show ?thesis
      using re same_regions_trans [OF k(3)] k(5)
      by (auto simp: CachedRead_def st cont_def ResetSegment_def)
  qed
qed

lemma CachedWrite_ok:
  assumes ok: "cache_ok A M xs st" and a: "a \<in> A" and len: "length buf = M a"
  shows "\<exists>i cn' c' s'. CachedWrite buf a cn st = Some (Some i, cn', c', Some s') \<and>
    (\<exists>ys. cache_ok A M ys (c', Some s')) \<and>
    (\<forall>e \<in> A. region M (c', Some s') e = (if e = a then buf else region M st e))"
proof -
  obtain c s where st: "st = (c, Some s)" using ok by (cases st) (auto simp: cache_ok_def split: option.splits)
  have f: "file_ok A M s" using ok by (simp add: cache_ok_def st)
  have a1: "a \<noteq> -1" using no_minus_one [OF f] a by blast
  show ?thesis
  proof (rule FindSegment_cases [OF ok [unfolded st] a])
    fix i assume i: "FindSegment a c = Some (Some i)" "i \<in> set xs" "ds_address (segment_at c i) = a"
    let ?c = "(PromoteSegment i c)\<lparr>ds_cached_reads := to_u32 (ds_cached_reads c + 1)\<rparr>"
    let ?g = "seg_SetDirty ((segment_at ?c i)\<lparr>ds := buf\<rparr>)"
    obtain ys where ys: "cache_ok A M (i # ys) (?c, Some s)" "same_regions A M st (?c, Some s)"
      using Promote_ok [OF ok [unfolded st] i(2)] by (auto simp: st front_of_def same_regions_def)
    have "i < length (segments c)"
      using i(2) ok seg_ring_facts(3) [of c xs] by (auto simp: cache_ok_def st)
    then have "cont (segment_at ?c i) = cont (segment_at c i)"
      by (metis contents_Promote contents_fields(4) contents_nth length_contents)
    then have ad: "ds_address (segment_at ?c i) = a" using i(3) by (simp add: cont_def)
    have "AllocSegment a 0 st = Some (Some i, ?c, Some s)"
      using i(1) a1 by (simp add: AllocSegment_def st)
    moreover note write_segment [OF ys(1) a ad len, of ?g]
    ultimately show ?thesis
      using ys(2) ad by (auto simp: CachedWrite_def seg_SetDirty_def cont_def same_regions_def)
  next
    assume n: "FindSegment a c = Some None" "\<And>i. i < length (segments c) \<Longrightarrow> ds_address (segment_at c i) \<noteq> a"
    obtain k c' s' ys where k: "FindEmptySegment (c\<lparr>ds_uncached_reads := to_u32 (ds_uncached_reads c + 1)\<rparr>, Some s) = Some (Some k, c', Some s')"
      "cache_ok A M (k # ys) (c', Some s')" "same_regions A M (c, Some s) (c', Some s')"
      "\<not> seg_dirty (segment_at c' k)" "k < length (segments c')"
      "\<And>j. j < length (contents c') \<Longrightarrow> fst (contents c' ! j) \<noteq> a"
      using make_free [OF ok [unfolded st] a n(2)] by blast
    let ?g = "(ResetSegment (segment_at c' k))\<lparr>ds_address := a\<rparr>" and ?b = "bytes_at (fdata s') (nat a) (M a)"
    let ?r = "set_segment k (?g\<lparr>ds := ?b\<rparr>) c'" and ?w = "seg_SetDirty (?g\<lparr>ds := buf\<rparr>)"
    have ok': "cache_ok A M (k # ys) (?r, Some s')" and sm: "same_regions A M (c', Some s') (?r, Some s')"
      using reuse_segment [OF k(2) k(5,4) a k(6), of "?g\<lparr>ds := ?b\<rparr>" s'] by (simp_all add: cont_def ResetSegment_def)
    have "AllocSegment a 0 st = Some (Some k, set_segment k ?g c', Some s')"
      using n(1) a1 k(1) by (simp add: AllocSegment_def st load_segment_def)
    moreover have "set_segment k ?w (set_segment k ?g c') = set_segment k ?w ?r"
      by (simp add: set_segment_def)
    moreover note write_segment [OF ok' a _ len, of ?w]
    ultimately show ?thesis
      using k(5) same_regions_trans [OF k(3) sm]
      by (auto simp: CachedWrite_def seg_SetDirty_def cont_def same_regions_def ResetSegment_def st)
  qed
qed

section \<open>A new cache\<close>

lemma new_cache_ok:
  assumes f: "file_ok A M s"
  shows "\<exists>c xs. new_gxDatabaseCache num (Some s) = Some (c, Some s) \<and> cache_ok A M xs (c, Some s) \<and>
    (\<forall>a \<in> A. region M (c, Some s) a = bytes_at (fdata s) (nat a) (M a))"
proof -
  define n where "n = (if num = 0 \<or> num < MIN_DATABASE_SEGMENTS then MIN_DATABASE_SEGMENTS else num)"
  have n: "3 \<le> n" by (simp add: n_def MIN_DATABASE_SEGMENTS_def)
  define c where "c = ResetStats_ds (InitCache_ds (null_segments\<lparr>num_segments := n\<rparr>))"
  have new: "new_gxDatabaseCache num (Some s) = Some (c, Some s)"
    by (simp add: new_gxDatabaseCache_def ConstructCache_ds_def Let_def n_def [symmetric] c_def
        null_segments_def ds_IsEmpty_def)
  have segs: "segments c = map (\<lambda>i. \<lparr>seg_dirty = False, seg_prev = (if i = 0 then n - 1 else i - 1),
      seg_next = (if i = n - 1 then 0 else i + 1), ds_address = -1, ds = []\<rparr>) [0..<n]"
    and ends: "seg_head c = Some 0" "seg_tail c = Some (n - 1)"
    by (simp_all add: c_def ResetStats_ds_def InitCache_ds_def Let_def null_segments_def)
  have len: "length (segments c) = n" by (simp add: segs)
  have at: "segment_at c i = \<lparr>seg_dirty = False, seg_prev = (if i = 0 then n - 1 else i - 1),
      seg_next = (if i = n - 1 then 0 else i + 1), ds_address = -1, ds = []\<rparr>" if "i < n" for i
    using that by (simp add: segment_at_def segs)
  have nx: "nxt (as_buckets c) i = (if i = n - 1 then 0 else i + 1)" if "i < n" for i
    using that as_buckets_links(1) [of i c] at [OF that] len by simp
  have pv: "prv (as_buckets c) i = (if i = 0 then n - 1 else i - 1)" if "i < n" for i
    using that as_buckets_links(2) [of i c] at [OF that] len by simp
  have hl: "ds_head c = 0" "ds_tail c = n - 1" using ends by (simp_all add: ds_head_def ds_tail_def)
  have "ring (as_buckets c) [0..<n]"
    using n nx hl len by (auto simp: ring_def path_upt last_upt hd_upt)
  moreover have "back_links (as_buckets c) [0..<n]"
    using pv by (auto simp: back_links_def intro!: path_rev_upt)
  ultimately have r: "seg_ring c [0..<n]" using ends by (simp add: seg_ring_def)
  have cs: "contents c = replicate n (-1, [], False)"
    by (simp add: contents_def segs comp_def cont_def map_replicate_const)
  have "closed_back c [0..<n]" using n pv [of 0] by (simp add: closed_back_def hd_upt last_upt)
  moreover have "segs_ok A M (fdata s) (contents c)"
    by (auto simp: segs_ok_def cs seg_ok_def unique_address_def)
  ultimately have ok: "cache_ok A M [0..<n] (c, Some s)" using r f n cs by (simp add: cache_ok_def)
  have "region M (c, Some s) a = bytes_at (fdata s) (nat a) (M a)" if "a \<in> A" for a
    using all_clean [OF ok _ that] at by simp
  with new ok show ?thesis by blast
qed

section \<open>The cached file is a memory\<close>

datatype region_op = Put int "byte list" | Get int | Sync

text \<open>The operations through a cache node, and on a memory of regions.\<close>

fun cached_ops :: "(int \<Rightarrow> nat) \<Rightarrow> region_op list \<Rightarrow> segment_cache \<Rightarrow> (byte list list \<times> segment_cache) option" where
  "cached_ops M [] st = Some ([], st)"
| "cached_ops M (Put a b # ops) st = do {
     (g, _, st1) \<leftarrow> CachedWrite b a (new_gxDBCacheNode (-1)) st;
     if g = None then None else cached_ops M ops st1
   }"
| "cached_ops M (Get a # ops) st = do {
     (g, _, st1) \<leftarrow> CachedRead a (M a) (new_gxDBCacheNode (-1)) st;
     i \<leftarrow> g;
     (outs, st2) \<leftarrow> cached_ops M ops st1;
     Some (ds (segment_at (fst st1) i) # outs, st2)
   }"
| "cached_ops M (Sync # ops) st = do {
     (e, st1) \<leftarrow> Flush_ds st;
     if e \<noteq> gxDBASE_NO_ERROR then None else cached_ops M ops st1
   }"

fun memory_ops :: "region_op list \<Rightarrow> (int \<Rightarrow> byte list) \<Rightarrow> byte list list \<times> (int \<Rightarrow> byte list)" where
  "memory_ops [] m = ([], m)"
| "memory_ops (Put a b # ops) m = memory_ops ops (m(a := b))"
| "memory_ops (Get a # ops) m = (case memory_ops ops m of (outs, m1) \<Rightarrow> (m a # outs, m1))"
| "memory_ops (Sync # ops) m = memory_ops ops m"

fun op_ok :: "int set \<Rightarrow> (int \<Rightarrow> nat) \<Rightarrow> region_op \<Rightarrow> bool" where
  "op_ok A M (Put a b) \<longleftrightarrow> a \<in> A \<and> length b = M a"
| "op_ok A M (Get a) \<longleftrightarrow> a \<in> A"
| "op_ok A M Sync \<longleftrightarrow> True"

lemma cached_ops_ok:
  assumes "cache_ok A M xs st" "\<forall>p \<in> set ops. op_ok A M p" "\<forall>a \<in> A. region M st a = m a"
  shows "\<exists>c' s' ys. cached_ops M ops st = Some (fst (memory_ops ops m), c', Some s') \<and>
    cache_ok A M ys (c', Some s') \<and> (\<forall>a \<in> A. region M (c', Some s') a = snd (memory_ops ops m) a)"
  using assms
proof (induction ops arbitrary: st xs m)
  case Nil
  then show ?case by (cases st) (auto simp: cache_ok_def split: option.splits)
next
  case (Cons p ops)
  show ?case
  proof (cases p)
    case (Put a b)
    then obtain i cn c s ys where w: "CachedWrite b a (new_gxDBCacheNode (-1)) st = Some (Some i, cn, c, Some s)"
      "cache_ok A M ys (c, Some s)" "\<forall>e \<in> A. region M (c, Some s) e = (if e = a then b else region M st e)"
      using CachedWrite_ok [OF Cons.prems(1), of a b "new_gxDBCacheNode (-1)"] Cons.prems(2) by auto
    from Cons.IH [OF w(2), of "m(a := b)"] show ?thesis
      using Cons.prems w Put by (auto simp: fun_upd_def)
  next
    case (Get a)
    then obtain i cn c s ys where w: "CachedRead a (M a) (new_gxDBCacheNode (-1)) st = Some (Some i, cn, c, Some s)"
      "cache_ok A M ys (c, Some s)" "same_regions A M st (c, Some s)" "ds (segment_at c i) = region M st a"
      using CachedRead_ok [OF Cons.prems(1), of a "new_gxDBCacheNode (-1)"] Cons.prems(2) by auto
    from Cons.IH [OF w(2), of m] show ?thesis
      using Cons.prems w Get by (auto simp: same_regions_def split: prod.splits)
  next
    case Sync
    obtain c s where w: "Flush_ds st = Some (gxDBASE_NO_ERROR, c, Some s)"
      "cache_ok A M xs (c, Some s)" "same_regions A M st (c, Some s)"
      using Flush_ds_ok [OF Cons.prems(1)] by blast
    from Cons.IH [OF w(2), of m] show ?thesis
      using Cons.prems w Sync by (auto simp: same_regions_def)
  qed
qed

text \<open>
  C21: over a file that can be written and a set of disjoint regions in it, a new cache of any size
  with any sequence of cached writes, cached reads and flushes gives for every read what a
  memory of the regions gives, never fails and never runs for ever, and after a final flush each region
  of the file is the memory's.
\<close>
theorem cached_file_is_memory:
  assumes "file_ok A M s" "\<forall>p \<in> set ops. op_ok A M p"
    and "memory_ops ops (\<lambda>a. bytes_at (fdata s) (nat a) (M a)) = (outs, m)"
  shows "\<exists>st c1 s1 c2 s2. new_gxDatabaseCache num (Some s) = Some st \<and>
    cached_ops M ops st = Some (outs, c1, Some s1) \<and>
    Flush_ds (c1, Some s1) = Some (gxDBASE_NO_ERROR, c2, Some s2) \<and>
    (\<forall>a \<in> A. bytes_at (fdata s2) (nat a) (M a) = m a)"
proof -
  obtain c xs where c: "new_gxDatabaseCache num (Some s) = Some (c, Some s)" "cache_ok A M xs (c, Some s)"
    "\<forall>a \<in> A. region M (c, Some s) a = bytes_at (fdata s) (nat a) (M a)"
    using new_cache_ok [OF assms(1)] by blast
  obtain c1 s1 ys where r: "cached_ops M ops (c, Some s) = Some (outs, c1, Some s1)"
    "cache_ok A M ys (c1, Some s1)" "\<forall>a \<in> A. region M (c1, Some s1) a = m a"
    using cached_ops_ok [OF c(2) assms(2) c(3)] assms(3) by auto
  then show ?thesis using c(1) Flush_ds_ok [OF r(2)] by fastforce
qed

definition small_file :: gxdFPTR where
  "small_file = \<lparr>fname = ''a.dat'', fdata = replicate 12 7, fpos = 0, fwritable = True, fcap = 100\<rparr>"

lemma small_file_ok: "file_ok {0, 4, 8} (\<lambda>_. 4) small_file"
  by (auto simp: file_ok_def small_file_def)

theorem cached_file_is_memory_witness:
  "\<exists>st c1 s1 c2 s2. new_gxDatabaseCache 3 (Some small_file) = Some st \<and>
    cached_ops (\<lambda>_. 4) [Put 4 [1, 2, 3, 4], Get 0, Get 4] st = Some ([[7, 7, 7, 7], [1, 2, 3, 4]], c1, Some s1) \<and>
    Flush_ds (c1, Some s1) = Some (gxDBASE_NO_ERROR, c2, Some s2) \<and>
    (\<forall>a \<in> {0, 4, 8}. bytes_at (fdata s2) (nat a) 4 = ((\<lambda>a. bytes_at (fdata small_file) (nat a) 4)(4 := [1, 2, 3, 4])) a)"
proof (rule cached_file_is_memory [OF small_file_ok])
  have "bytes_at (fdata small_file) 0 4 = [7, 7, 7, 7]" by code_simp
  then show "memory_ops [Put 4 [1, 2, 3, 4], Get 0, Get 4] (\<lambda>a. bytes_at (fdata small_file) (nat a) 4) =
    ([[7, 7, 7, 7], [1, 2, 3, 4]], (\<lambda>a. bytes_at (fdata small_file) (nat a) 4)(4 := [1, 2, 3, 4]))"
    by simp
qed simp

section \<open>A dirty segment must not be demoted\<close>

text \<open>
  Three dirty segments, of which the middle one is demoted: \<open>prev\<close> of the head still leads to the old
  tail, so the search for an empty segment goes round the other two for ever.
\<close>

definition dirty_three :: gxDatabaseCache where
  "dirty_three = null_segments\<lparr>num_segments := 3, seg_head := Some 0, seg_tail := Some 2, segments :=
     [\<lparr>seg_dirty = True, seg_prev = 2, seg_next = 1, ds_address = 0, ds = [1]\<rparr>,
      \<lparr>seg_dirty = True, seg_prev = 0, seg_next = 2, ds_address = 1, ds = [2]\<rparr>,
      \<lparr>seg_dirty = True, seg_prev = 1, seg_next = 0, ds_address = 2, ds = [3]\<rparr>]\<rparr>"

lemma demoted_links:
  "seg_prev (segment_at (DemoteSegment 1 dirty_three) 0) = 2" "seg_prev (segment_at (DemoteSegment 1 dirty_three) 1) = 2"
  "seg_prev (segment_at (DemoteSegment 1 dirty_three) 2) = 0" "ds_tail (DemoteSegment 1 dirty_three) = 1"
  "seg_dirty (segment_at (DemoteSegment 1 dirty_three) 0)" "seg_dirty (segment_at (DemoteSegment 1 dirty_three) 1)"
  "seg_dirty (segment_at (DemoteSegment 1 dirty_three) 2)" "seg_tail (DemoteSegment 1 dirty_three) = Some 1"
  "\<not> ds_IsEmpty (DemoteSegment 1 dirty_three)"
  by code_simp+

abbreviation demoted_three :: gxDatabaseCache where "demoted_three \<equiv> DemoteSegment 1 dirty_three"

lemma empty_loop_runs_on:
  assumes "empty_loop i (demoted_three, f) = Some r" "i \<in> {0, 1, 2}"
  shows False
proof -
  let ?P = "\<lambda>i st (r::nat option \<times> segment_cache). st = (demoted_three, f) \<longrightarrow> i \<notin> {0, 1, 2}"
  have "?P i (demoted_three, f) r"
  proof (rule empty_loop.raw_induct [of ?P, OF _ assms(1)], intro impI notI)
    fix loop i st r
    assume IH: "\<And>i st r. loop i st = Some r \<Longrightarrow> ?P i st r"
      and run: "(case st of (c, f) \<Rightarrow>
        if \<not> seg_dirty (segment_at c i) then Some (Some i, PromoteSegment i c, f)
        else (let i1 = seg_prev (segment_at c i)
              in if i1 = ds_tail c then
                   (case Segment_Flush (segment_at c i1) f of (e, g, f1) \<Rightarrow>
                      let c1 = set_segment i1 g c
                      in Some (if e \<noteq> gxDBASE_NO_ERROR then (None, c1, f1)
                               else (Some i1, PromoteSegment i1 c1, f1)))
                 else loop i1 st)) = Some r"
      and st: "st = (demoted_three, f)" and i: "i \<in> {0, 1, 2}"
    consider "i = 0" | "i = 1" | "i = 2" using i by blast
    then have "loop 0 st = Some r \<or> loop 2 st = Some r"
      using run demoted_links unfolding st by cases (simp_all only: Let_def prod.case not_True_eq_False if_False, simp_all)
    then show False using IH st by blast
  qed
  then show False using assms(2) by blast
qed

theorem demoted_dirty_segment_hangs: "FindEmptySegment (demoted_three, f) = None"
proof -
  have "empty_loop 1 (demoted_three, f) = None"
    using empty_loop_runs_on [of 1 f] by (cases "empty_loop 1 (demoted_three, f)") auto
  then show ?thesis unfolding FindEmptySegment_def fst_conv demoted_links(8) using demoted_links(9) by simp
qed

end
