(* ===== verification/Pod.thy ===== *)
theory Pod
  imports BtFile "HOL-Library.Monad_Syntax"
begin

text \<open>
  The manager of persistent object databases, \<open>src/src/pod.cpp\<close> and \<open>src/include/pod.h\<close>: one data file and
  an array of index files. Every file object is reached with the files as they are now (\<open>pod_fs\<close>),
  and gives them back. A null pointer is \<open>None\<close>. A result \<open>None\<close> is undefined in the code, an index
  outside the array of 255 pointers or a null pointer that is followed, or a call that never returns.
\<close>

section \<open>File objects over shared files\<close>

definition db_with :: "filesys \<Rightarrow> gxDatabase \<Rightarrow> gxDatabase" where
  "db_with fs db = db\<lparr>db_fs := fs\<rparr>"

definition tree_with :: "filesys \<Rightarrow> gxBtree \<Rightarrow> gxBtree" where
  "tree_with fs t = on_f (db_with fs) t"

definition tree_fs :: "filesys \<Rightarrow> gxBtree \<Rightarrow> filesys" where
  "tree_fs fs t = (case bt_f t of None \<Rightarrow> fs | Some db \<Rightarrow> db_fs db)"

definition file_exists :: "string option \<Rightarrow> filesys \<Rightarrow> bool" where
  "file_exists n fs = (case n of None \<Rightarrow> False | Some s \<Rightarrow> Exists s fs)"

text \<open>\<open>f->GetDatabaseError()\<close>, which follows the pointer.\<close>

definition tree_error_of :: "gxBtree \<Rightarrow> gxDatabaseError option" where
  "tree_error_of t = map_option gxd_error (bt_f t)"

section \<open>Index files\<close>

definition POD_MAX_INDEX :: nat where "POD_MAX_INDEX = 255"
definition POD_DEFAULT_ORDER :: int where "POD_DEFAULT_ORDER = 29"
definition POD_DEFAULT_KEY_SIZE :: int where "POD_DEFAULT_KEY_SIZE = 64"

record PODIndexFile_t =
  ix_btree :: "gxBtree option"
  ix_key_size :: int
  ix_order :: int
  use_index :: int
  rebuild_index :: int

record PODIndexFile =
  index_file :: "PODIndexFile_t option list"
  n_indexes :: nat
  curr_index :: nat

definition new_PODIndexFile_t :: PODIndexFile_t where
  "new_PODIndexFile_t = \<lparr>ix_btree = None, ix_key_size = POD_DEFAULT_KEY_SIZE, ix_order = POD_DEFAULT_ORDER,
     use_index = 0, rebuild_index = 0\<rparr>"

definition new_PODIndexFile :: "nat \<Rightarrow> PODIndexFile" where
  "new_PODIndexFile num =
     (let n = (if num > POD_MAX_INDEX then POD_MAX_INDEX else num)
      in \<lparr>index_file = replicate n (Some new_PODIndexFile_t) @ replicate (POD_MAX_INDEX - n) None,
          n_indexes = n, curr_index = 0\<rparr>)"

text \<open>\<open>index_file[i]->...\<close>\<close>

definition index_entry :: "nat \<Rightarrow> PODIndexFile \<Rightarrow> PODIndexFile_t option" where
  "index_entry i ix = (if i < length (index_file ix) then index_file ix ! i else None)"

definition set_entry :: "nat \<Rightarrow> PODIndexFile_t \<Rightarrow> PODIndexFile \<Rightarrow> PODIndexFile" where
  "set_entry i e ix = ix\<lparr>index_file := (index_file ix)[i := Some e]\<rparr>"

definition set_tree :: "nat \<Rightarrow> gxBtree option \<Rightarrow> PODIndexFile \<Rightarrow> PODIndexFile option" where
  "set_tree i t ix = do { e \<leftarrow> index_entry i ix; Some (set_entry i (e\<lparr>ix_btree := t\<rparr>) ix) }"

text \<open>The member functions of the index files, used before they are given to a \<open>POD\<close>.\<close>

definition PODIndex_Open ::
  "string \<Rightarrow> nat \<Rightarrow> nat \<Rightarrow> int \<Rightarrow> gxDatabaseAccessMode \<Rightarrow> int \<Rightarrow> char \<Rightarrow> filesys \<Rightarrow> PODIndexFile \<Rightarrow>
   (gxDatabaseError \<times> filesys \<times> PODIndexFile) option"
where
  "PODIndex_Open ifname i KeySize order mode trees letter fs ix = do {
     _ \<leftarrow> index_entry i ix;
     let t = new_gxBtree KeySize order;
     (e, t1) \<leftarrow> (if Exists ifname fs then Open_tree (Some ifname) mode fs t
                else Create_tree (Some ifname) trees letter fs t);
     ix1 \<leftarrow> set_tree i (Some t1) ix;
     Some (e, tree_fs fs t1, ix1\<lparr>curr_index := i\<rparr>)
   }"

definition PODIndex_Close ::
  "nat \<Rightarrow> filesys \<Rightarrow> PODIndexFile \<Rightarrow> (gxDatabaseError \<times> filesys \<times> PODIndexFile) option" where
  "PODIndex_Close i fs ix = do {
     entry \<leftarrow> index_entry i ix;
     case ix_btree entry of
       None \<Rightarrow> Some (gxDBASE_NO_ERROR, fs, ix)
     | Some t \<Rightarrow>
         (case Close_tree fs (tree_with fs t) of ((e, t1), fs1) \<Rightarrow>
            if e \<noteq> gxDBASE_NO_ERROR then do {
              err \<leftarrow> tree_error_of t1; ix1 \<leftarrow> set_tree i (Some t1) ix; Some (err, tree_fs fs1 t1, ix1)
            }
            else do { ix1 \<leftarrow> set_tree i None ix; Some (gxDBASE_NO_ERROR, fs1, ix1) })
   }"

section \<open>The manager\<close>

record POD =
  pod_fs :: filesys
  opendatafile :: "gxDatabase option"
  openindexfile :: "PODIndexFile option"
  pod_exists :: int
  using_index :: int

definition new_POD :: "filesys \<Rightarrow> POD" where
  "new_POD fs = \<lparr>pod_fs = fs, opendatafile = None, openindexfile = None, pod_exists = 0, using_index = 0\<rparr>"

definition Release_pod :: "POD \<Rightarrow> POD" where
  "Release_pod p = p\<lparr>opendatafile := None, openindexfile := None\<rparr>"

definition ReleaseDataFile :: "POD \<Rightarrow> POD" where
  "ReleaseDataFile p = p\<lparr>opendatafile := None\<rparr>"

definition ReleaseIndexFile :: "POD \<Rightarrow> POD" where
  "ReleaseIndexFile p = p\<lparr>openindexfile := None\<rparr>"

definition DisableIndex :: "POD \<Rightarrow> POD" where
  "DisableIndex p = p\<lparr>using_index := 0\<rparr>"

definition EnableIndex :: "POD \<Rightarrow> POD" where
  "EnableIndex p = p\<lparr>using_index := 1\<rparr>"

definition UsingIndex :: "POD \<Rightarrow> bool" where
  "UsingIndex p \<longleftrightarrow> using_index p = 1"

definition Exists_pod :: "POD \<Rightarrow> bool" where
  "Exists_pod p \<longleftrightarrow> pod_exists p = 1"

definition RebuildIndex :: "nat \<Rightarrow> POD \<Rightarrow> bool option" where
  "RebuildIndex i p = do { ix \<leftarrow> openindexfile p; e \<leftarrow> index_entry i ix; Some (rebuild_index e = 1) }"

text \<open>
  \<open>Index\<close>: the outer \<open>None\<close> is an index inside \<open>n_indexes\<close> that is outside the array, the inner one a
  null pointer.
\<close>

definition Index :: "nat \<Rightarrow> POD \<Rightarrow> gxBtree option option" where
  "Index i p =
     (case openindexfile p of
        None \<Rightarrow> Some None
      | Some ix \<Rightarrow>
          if i \<ge> n_indexes ix then Some None
          else if i \<ge> length (index_file ix) then None
          else (case index_file ix ! i of None \<Rightarrow> Some None | Some e \<Rightarrow> Some (ix_btree e)))"

definition put_tree :: "nat \<Rightarrow> gxBtree \<Rightarrow> POD \<Rightarrow> POD option" where
  "put_tree i t p = do {
     ix \<leftarrow> openindexfile p; ix1 \<leftarrow> set_tree i (Some t) ix;
     Some (p\<lparr>openindexfile := Some ix1, pod_fs := tree_fs (pod_fs p) t\<rparr>)
   }"

definition IndexDBPtr :: "nat \<Rightarrow> POD \<Rightarrow> gxDatabase option option" where
  "IndexDBPtr i p = do { b \<leftarrow> Index i p; Some (case b of None \<Rightarrow> None | Some t \<Rightarrow> bt_f t) }"

section \<open>Errors\<close>

definition GetDataFileError :: "POD \<Rightarrow> gxDatabaseError" where
  "GetDataFileError p = (case opendatafile p of None \<Rightarrow> gxDBASE_NO_DATABASE_OPEN | Some db \<Rightarrow> gxd_error db)"

definition SetDataFileError :: "gxDatabaseError \<Rightarrow> POD \<Rightarrow> gxDatabaseError \<times> POD" where
  "SetDataFileError err p =
     (case opendatafile p of
        None \<Rightarrow> (gxDBASE_NO_DATABASE_OPEN, p)
      | Some db \<Rightarrow> (err, p\<lparr>opendatafile := Some (SetDatabaseError err db)\<rparr>))"

definition GetIndexFileError :: "nat \<Rightarrow> POD \<Rightarrow> gxDatabaseError option" where
  "GetIndexFileError i p = do {
     b \<leftarrow> Index i p;
     case b of None \<Rightarrow> Some gxDBASE_NO_DATABASE_OPEN | Some t \<Rightarrow> tree_error_of t
   }"

definition SetIndexFileError :: "gxDatabaseError \<Rightarrow> nat \<Rightarrow> POD \<Rightarrow> (gxDatabaseError \<times> POD) option" where
  "SetIndexFileError err i p = do {
     b \<leftarrow> Index i p;
     case b of
       None \<Rightarrow> Some (gxDBASE_NO_DATABASE_OPEN, p)
     | Some t \<Rightarrow> do {
         _ \<leftarrow> bt_f t;
         p1 \<leftarrow> put_tree i (on_f (SetDatabaseError err) (tree_with (pod_fs p) t)) p;
         Some (err, p1)
       }
   }"

section \<open>Closing\<close>

definition CloseDataFile :: "POD \<Rightarrow> gxDatabaseError \<times> POD" where
  "CloseDataFile p =
     (case opendatafile p of
        None \<Rightarrow> (gxDBASE_NO_ERROR, p)
      | Some db \<Rightarrow>
          (let db1 = Close (db_with (pod_fs p) db); p1 = p\<lparr>pod_fs := db_fs db1\<rparr>
           in if gxd_error db1 \<noteq> gxDBASE_NO_ERROR then (gxd_error db1, p1\<lparr>opendatafile := Some db1\<rparr>)
              else (gxDBASE_NO_ERROR, p1\<lparr>opendatafile := None\<rparr>)))"

definition CloseIndex :: "nat \<Rightarrow> POD \<Rightarrow> (gxDatabaseError \<times> POD) option" where
  "CloseIndex i p =
     (case openindexfile p of
        None \<Rightarrow> Some (gxDBASE_NO_ERROR, p)
      | Some ix \<Rightarrow>
          if i \<ge> n_indexes ix then Some (gxDBASE_NO_ERROR, p)
          else if i \<ge> length (index_file ix) then None
          else (case index_file ix ! i of
            None \<Rightarrow> Some (gxDBASE_NO_ERROR, p)
          | Some entry \<Rightarrow>
              (case ix_btree entry of
                 None \<Rightarrow> Some (gxDBASE_NO_ERROR, p)
               | Some t \<Rightarrow>
                   (case Close_tree (pod_fs p) (tree_with (pod_fs p) t) of ((e, t1), fs1) \<Rightarrow>
                      if e \<noteq> gxDBASE_NO_ERROR then do {
                        p1 \<leftarrow> put_tree i t1 p; err \<leftarrow> GetIndexFileError i p1; Some (err, p1)
                      }
                      else Some (gxDBASE_NO_ERROR,
                        p\<lparr>pod_fs := fs1,
                          openindexfile := Some (set_entry i (entry\<lparr>ix_btree := None, use_index := 0\<rparr>) ix)\<rparr>)))))"

fun close_indexes :: "nat \<Rightarrow> nat \<Rightarrow> POD \<Rightarrow> (gxDatabaseError \<times> POD) option" where
  "close_indexes 0 i p = Some (gxDBASE_NO_ERROR, p)"
| "close_indexes (Suc k) i p = do {
     (e, p1) \<leftarrow> CloseIndex i p;
     if e \<noteq> gxDBASE_NO_ERROR then do {
       let p2 = p1\<lparr>openindexfile := map_option (\<lambda>ix. ix\<lparr>curr_index := i\<rparr>) (openindexfile p1)\<rparr>;
       err \<leftarrow> GetIndexFileError i p2;
       Some (err, p2)
     }
     else close_indexes k (i + 1) p1
   }"

text \<open>The loop over the index files and the deletion of their array.\<close>

definition drop_indexes :: "POD \<Rightarrow> (gxDatabaseError \<times> POD) option" where
  "drop_indexes p =
     (case openindexfile p of
        None \<Rightarrow> Some (gxDBASE_NO_ERROR, p)
      | Some ix \<Rightarrow> do {
          (e, p1) \<leftarrow> close_indexes (n_indexes ix) 0 p;
          Some (if e \<noteq> gxDBASE_NO_ERROR then (e, p1) else (gxDBASE_NO_ERROR, p1\<lparr>openindexfile := None\<rparr>))
        })"

definition Close_pod :: "POD \<Rightarrow> (gxDatabaseError \<times> POD) option" where
  "Close_pod p =
     (case CloseDataFile p of (e, p1) \<Rightarrow>
        if e \<noteq> gxDBASE_NO_ERROR then Some (GetDataFileError p1, p1) else drop_indexes p1)"

section \<open>Creating and opening files\<close>

text \<open>A new file object takes the place of the one that was closed, also when it cannot be opened.\<close>

definition put_data :: "gxDatabase \<Rightarrow> POD \<Rightarrow> gxDatabaseError \<times> POD" where
  "put_data db p = (gxd_error db, p\<lparr>opendatafile := Some db, pod_fs := db_fs db\<rparr>)"

definition CreateDataFile :: "string option \<Rightarrow> int \<Rightarrow> char \<Rightarrow> POD \<Rightarrow> gxDatabaseError \<times> POD" where
  "CreateDataFile filename static_size letter p =
     (case CloseDataFile p of (e, p1) \<Rightarrow>
        if e \<noteq> gxDBASE_NO_ERROR then (GetDataFileError p1, p1)
        else put_data (Create filename static_size letter (new_gxDatabase (pod_fs p1))) p1)"

definition OpenDataFile :: "string option \<Rightarrow> gxDatabaseAccessMode \<Rightarrow> POD \<Rightarrow> gxDatabaseError \<times> POD" where
  "OpenDataFile filename mode p =
     (case CloseDataFile p of (e, p1) \<Rightarrow>
        if e \<noteq> gxDBASE_NO_ERROR then (GetDataFileError p1, p1)
        else put_data (Open filename mode (new_gxDatabase (pod_fs p1))) p1)"

text \<open>Without index files \<open>CreateIndex\<close> still creates the file, and loses the tree.\<close>

definition CreateIndex ::
  "string option \<Rightarrow> nat \<Rightarrow> nat \<Rightarrow> int \<Rightarrow> int \<Rightarrow> char \<Rightarrow> POD \<Rightarrow> (gxDatabaseError \<times> POD) option"
where
  "CreateIndex filename i KeySize order trees letter p = do {
     let n = (if trees \<le> 0 then 1 else trees);
     (e, p1) \<leftarrow> CloseIndex i p;
     if e \<noteq> gxDBASE_NO_ERROR then do { err \<leftarrow> GetIndexFileError i p1; Some (err, p1) }
     else do {
       (e2, t) \<leftarrow> Create_tree filename n letter (pod_fs p1) (new_gxBtree KeySize order);
       case openindexfile p1 of
         None \<Rightarrow> Some (e2, p1\<lparr>pod_fs := tree_fs (pod_fs p1) t\<rparr>)
       | Some _ \<Rightarrow> do { p2 \<leftarrow> put_tree i t p1; Some (e2, p2) }
     }
   }"

definition OpenIndex ::
  "string option \<Rightarrow> nat \<Rightarrow> nat \<Rightarrow> int \<Rightarrow> gxDatabaseAccessMode \<Rightarrow> POD \<Rightarrow> (gxDatabaseError \<times> POD) option"
where
  "OpenIndex filename i KeySize order mode p = do {
     (e, p1) \<leftarrow> CloseIndex i p;
     if e \<noteq> gxDBASE_NO_ERROR then do { err \<leftarrow> GetIndexFileError i p1; Some (err, p1) }
     else case openindexfile p1 of
       None \<Rightarrow> Some (gxDBASE_NULL_PTR, p1)
     | Some ix \<Rightarrow>
         if i \<ge> n_indexes ix then Some (gxDBASE_NULL_PTR, p1)
         else if i \<ge> length (index_file ix) then None
         else if index_file ix ! i = None then Some (gxDBASE_NULL_PTR, p1)
         else do {
           (e2, t) \<leftarrow> Open_tree filename mode (pod_fs p1) (new_gxBtree KeySize order);
           p2 \<leftarrow> put_tree i t p1;
           Some (e2, p2)
         }
   }"

section \<open>Opening a database\<close>

text \<open>
  \<open>Exists\<close> on a name asks the file system. The error of an index file is taken from index 0 at
  every place of the three functions.
\<close>

definition index_failed :: "POD \<Rightarrow> (gxDatabaseError \<times> POD) option" where
  "index_failed p = do { err \<leftarrow> GetIndexFileError 0 p; Some (err, p) }"

definition mark_rebuild :: "nat \<Rightarrow> POD \<Rightarrow> POD option" where
  "mark_rebuild i p = do {
     ix \<leftarrow> openindexfile p;
     e \<leftarrow> index_entry i ix;
     Some (p\<lparr>openindexfile := Some (set_entry i (e\<lparr>rebuild_index := 1\<rparr>) ix)\<rparr>)
   }"

definition used_index :: "nat \<Rightarrow> int \<Rightarrow> nat \<Rightarrow> PODIndexFile \<Rightarrow> PODIndexFile option" where
  "used_index KeySize order i ix = do {
     e \<leftarrow> index_entry i ix;
     Some (set_entry i (e\<lparr>ix_key_size := SizeOfDatabaseKey KeySize, ix_order := order, use_index := 1\<rparr>) ix)
   }"

text \<open>An index file that is there is opened, another one is created and marked to be rebuilt.\<close>

definition open_or_rebuild ::
  "string option \<Rightarrow> nat \<Rightarrow> nat \<Rightarrow> int \<Rightarrow> gxDatabaseAccessMode \<Rightarrow> int \<Rightarrow> char \<Rightarrow> POD \<Rightarrow> (gxDatabaseError \<times> POD) option"
where
  "open_or_rebuild ifname i KeySize order mode trees letter p =
     (if file_exists ifname (pod_fs p) then OpenIndex ifname i KeySize order mode p
      else do { p1 \<leftarrow> mark_rebuild i p; CreateIndex ifname i KeySize order trees letter p1 })"

definition init_index :: "nat \<Rightarrow> int \<Rightarrow> int \<Rightarrow> POD \<Rightarrow> POD option" where
  "init_index KeySize order use_ix p =
     (if use_ix \<noteq> 0 then do {
        ix \<leftarrow> used_index KeySize order 0 ((new_PODIndexFile 1)\<lparr>n_indexes := 1, curr_index := 0\<rparr>);
        Some (p\<lparr>openindexfile := Some ix, using_index := use_ix\<rparr>)
      } else Some p)"

definition or_index_failed :: "(gxDatabaseError \<times> POD) option \<Rightarrow> (gxDatabaseError \<times> POD) option" where
  "or_index_failed r = do {
     (e, p) \<leftarrow> r;
     if e \<noteq> gxDBASE_NO_ERROR then index_failed p else Some (gxDBASE_NO_ERROR, p)
   }"

definition create_files ::
  "string option \<Rightarrow> string option \<Rightarrow> nat \<Rightarrow> int \<Rightarrow> int \<Rightarrow> int \<Rightarrow> char \<Rightarrow> char \<Rightarrow> POD \<Rightarrow> (gxDatabaseError \<times> POD) option"
where
  "create_files dfname ifname KeySize order static_size trees df_rev if_rev p =
     (case CreateDataFile dfname static_size df_rev p of (e, p1) \<Rightarrow>
        if e \<noteq> gxDBASE_NO_ERROR then Some (GetDataFileError p1, p1)
        else (let p2 = p1\<lparr>pod_exists := 0\<rparr>
              in if using_index p2 \<noteq> 0
                 then or_index_failed (CreateIndex ifname 0 KeySize order trees if_rev p2)
                 else Some (gxDBASE_NO_ERROR, p2)))"

definition open_files ::
  "string option \<Rightarrow> string option \<Rightarrow> nat \<Rightarrow> int \<Rightarrow> gxDatabaseAccessMode \<Rightarrow> int \<Rightarrow> char \<Rightarrow> POD \<Rightarrow>
   (gxDatabaseError \<times> POD) option"
where
  "open_files dfname ifname KeySize order mode trees if_rev p =
     (case OpenDataFile dfname mode p of (e, p1) \<Rightarrow>
        if e \<noteq> gxDBASE_NO_ERROR then Some (GetDataFileError p1, p1)
        else (let p2 = p1\<lparr>pod_exists := 1\<rparr>
              in if using_index p2 \<noteq> 0
                 then or_index_failed
                   (if file_exists ifname (pod_fs p2) then OpenIndex ifname 0 KeySize order mode p2
                    else do {
                      p3 \<leftarrow> (if openindexfile p2 = None then Some p2 else mark_rebuild 0 p2);
                      CreateIndex ifname 0 KeySize order trees if_rev p3
                    })
                 else Some (gxDBASE_NO_ERROR, p2)))"

definition Open_pod ::
  "string option \<Rightarrow> string option \<Rightarrow> nat \<Rightarrow> int \<Rightarrow> gxDatabaseAccessMode \<Rightarrow> int \<Rightarrow> int \<Rightarrow> int \<Rightarrow> char \<Rightarrow> char \<Rightarrow>
   POD \<Rightarrow> (gxDatabaseError \<times> POD) option"
where
  "Open_pod dfname ifname KeySize order mode use_ix static_size trees df_rev if_rev p = do {
     (e, p1) \<leftarrow> Close_pod p;
     if e \<noteq> gxDBASE_NO_ERROR then Some (e, p1)
     else do {
       p2 \<leftarrow> init_index KeySize order use_ix p1;
       if \<not> file_exists dfname (pod_fs p2)
       then create_files dfname ifname KeySize order static_size trees df_rev if_rev p2
       else open_files dfname ifname KeySize order mode trees if_rev p2
     }
   }"

text \<open>With index files that the caller opened.\<close>

definition Open_pod_with ::
  "string option \<Rightarrow> PODIndexFile option \<Rightarrow> gxDatabaseAccessMode \<Rightarrow> int \<Rightarrow> char \<Rightarrow> POD \<Rightarrow> (gxDatabaseError \<times> POD) option"
where
  "Open_pod_with dfname ix_ptr mode static_size df_rev p = do {
     (e, p1) \<leftarrow> Close_pod p;
     if e \<noteq> gxDBASE_NO_ERROR then Some (e, p1)
     else (let there = file_exists dfname (pod_fs p1)
           in case (if there then OpenDataFile dfname mode p1
                    else CreateDataFile dfname static_size df_rev p1) of (e2, p2) \<Rightarrow>
                if e2 \<noteq> gxDBASE_NO_ERROR then Some (GetDataFileError p2, p2)
                else do {
                  (e3, p3) \<leftarrow> drop_indexes (p2\<lparr>pod_exists := (if there then 1 else 0), using_index := 1\<rparr>);
                  if e3 \<noteq> gxDBASE_NO_ERROR then Some (e3, p3)
                  else Some (gxDBASE_NO_ERROR, p3\<lparr>openindexfile := ix_ptr\<rparr>)
                })
   }"

text \<open>With several index files; the array \<open>ifname\<close> holds at least \<open>num\<close> names.\<close>

fun use_indexes :: "nat \<Rightarrow> nat \<Rightarrow> nat \<Rightarrow> int \<Rightarrow> PODIndexFile \<Rightarrow> PODIndexFile option" where
  "use_indexes 0 i KeySize order ix = Some ix"
| "use_indexes (Suc k) i KeySize order ix = do {
     ix1 \<leftarrow> used_index KeySize order i ix;
     use_indexes k (i + 1) KeySize order ix1
   }"

fun each_index :: "(nat \<Rightarrow> POD \<Rightarrow> (gxDatabaseError \<times> POD) option) \<Rightarrow> nat \<Rightarrow> nat \<Rightarrow> POD \<Rightarrow> (gxDatabaseError \<times> POD) option" where
  "each_index step 0 i p = Some (gxDBASE_NO_ERROR, p)"
| "each_index step (Suc k) i p = do {
     (e, p1) \<leftarrow> step i p;
     if e \<noteq> gxDBASE_NO_ERROR then index_failed p1 else each_index step k (i + 1) p1
   }"

definition Open_pod_multi ::
  "string option \<Rightarrow> string option list \<Rightarrow> nat \<Rightarrow> nat \<Rightarrow> int \<Rightarrow> gxDatabaseAccessMode \<Rightarrow> int \<Rightarrow> int \<Rightarrow> char \<Rightarrow> char \<Rightarrow>
   POD \<Rightarrow> (gxDatabaseError \<times> POD) option"
where
  "Open_pod_multi dfname ifname num KeySize order mode static_size trees df_rev if_rev p = do {
     (e, p1) \<leftarrow> Close_pod p;
     if e \<noteq> gxDBASE_NO_ERROR then Some (e, p1)
     else do {
       (e2, p2) \<leftarrow> drop_indexes p1;
       if e2 \<noteq> gxDBASE_NO_ERROR then Some (e2, p2)
       else do {
         ix \<leftarrow> use_indexes num 0 KeySize order ((new_PODIndexFile num)\<lparr>n_indexes := num, curr_index := 0\<rparr>);
         let p3 = p2\<lparr>openindexfile := Some ix, using_index := 1\<rparr>;
         if \<not> file_exists dfname (pod_fs p3) then
           (case CreateDataFile dfname static_size df_rev p3 of (e4, p4) \<Rightarrow>
              if e4 \<noteq> gxDBASE_NO_ERROR then Some (GetDataFileError p4, p4)
              else each_index (\<lambda>i. CreateIndex (ifname ! i) i KeySize order trees if_rev) num 0 (p4\<lparr>pod_exists := 0\<rparr>))
         else
           (case OpenDataFile dfname mode p3 of (e4, p4) \<Rightarrow>
              if e4 \<noteq> gxDBASE_NO_ERROR then Some (GetDataFileError p4, p4)
              else each_index (\<lambda>i. open_or_rebuild (ifname ! i) i KeySize order mode trees if_rev) num 0
                     (p4\<lparr>pod_exists := 1\<rparr>))
       }
     }
   }"

section \<open>Flushing and testing\<close>

definition FlushDataFile :: "POD \<Rightarrow> gxDatabaseError \<times> POD" where
  "FlushDataFile p =
     (case opendatafile p of
        None \<Rightarrow> (gxDBASE_NO_ERROR, p)
      | Some db \<Rightarrow> put_data (Flush (db_with (pod_fs p) db)) p)"

definition FlushIndexFile :: "nat \<Rightarrow> POD \<Rightarrow> (gxDatabaseError \<times> POD) option" where
  "FlushIndexFile i p = do {
     b \<leftarrow> Index i p;
     case b of
       None \<Rightarrow> Some (gxDBASE_NO_ERROR, p)
     | Some t \<Rightarrow>
         (case Flush_tree True (tree_with (pod_fs p) t) of (e, t1) \<Rightarrow>
            do { p1 \<leftarrow> put_tree i t1 p; Some (e, p1) })
   }"

fun flush_indexes :: "nat \<Rightarrow> nat \<Rightarrow> gxDatabaseError \<Rightarrow> POD \<Rightarrow> (gxDatabaseError \<times> POD) option" where
  "flush_indexes 0 i err p = Some (err, p)"
| "flush_indexes (Suc k) i err p = do {
     (e, p1) \<leftarrow> FlushIndexFile i p;
     flush_indexes k (i + 1) e p1
   }"

text \<open>The error of each file overwrites the one before.\<close>

definition Flush_pod :: "POD \<Rightarrow> (gxDatabaseError \<times> POD) option" where
  "Flush_pod p =
     (case FlushDataFile p of (e, p1) \<Rightarrow>
        case openindexfile p1 of
          None \<Rightarrow> Some (e, p1)
        | Some ix \<Rightarrow> flush_indexes (n_indexes ix) 0 e p1)"

definition TestDataFile :: "POD \<Rightarrow> int \<times> POD" where
  "TestDataFile p =
     (case opendatafile p of
        None \<Rightarrow> (0, p)
      | Some db \<Rightarrow> (case TestFileHeader (db_with (pod_fs p) db) of (n, db1) \<Rightarrow> (int n, snd (put_data db1 p))))"

definition TestIndexFile :: "nat \<Rightarrow> POD \<Rightarrow> (int \<times> POD) option" where
  "TestIndexFile i p = do {
     b \<leftarrow> Index i p;
     case b of
       None \<Rightarrow> Some (0, p)
     | Some t \<Rightarrow>
         (case TestTree (btree_header_address t) True (tree_with (pod_fs p) t) of (n, t1) \<Rightarrow>
            do { p1 \<leftarrow> put_tree i t1 p; Some (n, p1) })
   }"

fun test_indexes :: "nat \<Rightarrow> nat \<Rightarrow> int \<Rightarrow> POD \<Rightarrow> (int \<times> POD) option" where
  "test_indexes 0 i err p = Some (err, p)"
| "test_indexes (Suc k) i err p = do {
     (e, p1) \<leftarrow> TestIndexFile i p;
     test_indexes k (i + 1) e p1
   }"

definition TestDatabase :: "POD \<Rightarrow> (int \<times> POD) option" where
  "TestDatabase p =
     (case TestDataFile p of (e, p1) \<Rightarrow>
        case openindexfile p1 of
          None \<Rightarrow> Some (e, p1)
        | Some ix \<Rightarrow> test_indexes (n_indexes ix) 0 e p1)"

end
