(* ===== verification/PodProps.thy ===== *)
theory PodProps
  imports Pod Samples
begin

text \<open>
  Properties of the manager of persistent object databases: the array of index files stays well formed,
  a closed manager holds no file, and what a successful \<open>Open\<close> leaves open.
\<close>

section \<open>The array of index files\<close>

definition index_file_ok :: "PODIndexFile \<Rightarrow> bool" where
  "index_file_ok ix \<longleftrightarrow>
     length (index_file ix) = POD_MAX_INDEX \<and> n_indexes ix \<le> POD_MAX_INDEX \<and>
     (\<forall>i < n_indexes ix. index_file ix ! i \<noteq> None)"

definition pod_ok :: "POD \<Rightarrow> bool" where
  "pod_ok p \<longleftrightarrow> (case openindexfile p of None \<Rightarrow> True | Some ix \<Rightarrow> index_file_ok ix)"

text \<open>The number of index files does not change while the array is there.\<close>

definition same_indexes :: "POD \<Rightarrow> POD \<Rightarrow> bool" where
  "same_indexes p p' \<longleftrightarrow>
     map_option n_indexes (openindexfile p) = map_option n_indexes (openindexfile p') \<and> (pod_ok p \<longrightarrow> pod_ok p')"

lemma same_indexes_refl [simp]: "same_indexes p p"
  by (simp add: same_indexes_def)

lemma same_indexes_trans [trans]: "same_indexes p q \<Longrightarrow> same_indexes q r \<Longrightarrow> same_indexes p r"
  by (simp add: same_indexes_def)

lemma same_indexes_ok: "same_indexes p q \<Longrightarrow> pod_ok p \<Longrightarrow> pod_ok q"
  by (simp add: same_indexes_def)

lemma same_indexes_update [simp]:
  "same_indexes p (p\<lparr>pod_fs := fs\<rparr>)" "same_indexes p (p\<lparr>opendatafile := d\<rparr>)"
  "same_indexes p (p\<lparr>pod_exists := x\<rparr>)" "same_indexes p (p\<lparr>using_index := x\<rparr>)"
  by (simp_all add: same_indexes_def pod_ok_def)

lemma set_entry_ok:
  assumes ok: "index_file_ok ix"
  shows "index_file_ok (set_entry i e ix)"
proof -
  have "(index_file ix)[i := Some e] ! j \<noteq> None" if "j < n_indexes ix" for j
    using ok that by (cases "j = i") (simp_all add: index_file_ok_def)
  with ok show ?thesis by (simp add: index_file_ok_def set_entry_def)
qed

lemma n_indexes_set_entry [simp]: "n_indexes (set_entry i e ix) = n_indexes ix"
  by (simp add: set_entry_def)

lemma same_indexes_entry:
  "openindexfile p = Some ix \<Longrightarrow> same_indexes p (p\<lparr>openindexfile := Some (set_entry i e ix)\<rparr>)"
  by (simp add: same_indexes_def pod_ok_def set_entry_ok)

lemma new_index_file_ok:
  "num \<le> POD_MAX_INDEX \<Longrightarrow> index_file_ok ((new_PODIndexFile num)\<lparr>n_indexes := num, curr_index := c\<rparr>)"
  by (auto simp: index_file_ok_def new_PODIndexFile_def Let_def nth_append)

lemma put_tree_same: "put_tree i t p = Some p' \<Longrightarrow> same_indexes p p'"
  unfolding put_tree_def set_tree_def
  by (auto simp: same_indexes_def pod_ok_def set_entry_ok split: bind_splits)

lemma mark_rebuild_same: "mark_rebuild i p = Some p' \<Longrightarrow> same_indexes p p'"
  unfolding mark_rebuild_def by (auto simp: same_indexes_def pod_ok_def set_entry_ok split: bind_splits)

section \<open>Every operation keeps it\<close>

lemma CloseDataFile_same: "CloseDataFile p = (e, p') \<Longrightarrow> same_indexes p p'"
  unfolding CloseDataFile_def
  by (auto simp: same_indexes_def pod_ok_def Let_def split: option.splits if_splits)

lemma put_data_same: "put_data db p = (e, p') \<Longrightarrow> same_indexes p p'"
  by (auto simp: put_data_def same_indexes_def pod_ok_def)

lemma CloseIndex_same: "CloseIndex i p = Some (e, p') \<Longrightarrow> same_indexes p p'"
  unfolding CloseIndex_def
  by (auto split: option.splits if_splits prod.splits bind_splits dest: put_tree_same
      simp: same_indexes_def pod_ok_def set_entry_ok)

lemma close_indexes_same: "close_indexes k i p = Some (e, p') \<Longrightarrow> same_indexes p p'"
proof (induction k i p rule: close_indexes.induct)
  case (2 k i p)
  obtain e1 p1 where c: "CloseIndex i p = Some (e1, p1)"
    using "2.prems" by (auto split: bind_splits)
  have s: "same_indexes p p1" by (rule CloseIndex_same [OF c])
  show ?case
  proof (cases "e1 = gxDBASE_NO_ERROR")
    case True
    then show ?thesis using "2.IH" [OF c refl] "2.prems" c s by (auto intro: same_indexes_trans)
  next
    case False
    with "2.prems" c have "p' = p1\<lparr>openindexfile := map_option (\<lambda>ix. ix\<lparr>curr_index := i\<rparr>) (openindexfile p1)\<rparr>"
      by (auto simp: Let_def split: bind_splits)
    then have "same_indexes p1 p'"
      by (auto simp: same_indexes_def pod_ok_def index_file_ok_def option.map_comp comp_def split: option.splits)
    with s show ?thesis by (rule same_indexes_trans)
  qed
qed simp

lemma drop_indexes_ok: "drop_indexes p = Some (e, p') \<Longrightarrow> pod_ok p \<Longrightarrow> pod_ok p'"
  unfolding drop_indexes_def
  by (auto simp: pod_ok_def [where p = "_\<lparr>openindexfile := None\<rparr>"] split: option.splits bind_splits if_splits
      dest!: close_indexes_same intro: same_indexes_ok)

lemma Close_pod_ok: "Close_pod p = Some (e, p') \<Longrightarrow> pod_ok p \<Longrightarrow> pod_ok p'"
  unfolding Close_pod_def
  by (auto split: prod.splits if_splits dest!: CloseDataFile_same dest: same_indexes_ok drop_indexes_ok)

lemma CreateDataFile_same: "CreateDataFile nm n letter p = (e, p') \<Longrightarrow> same_indexes p p'"
  unfolding CreateDataFile_def
  by (auto split: prod.splits if_splits dest!: CloseDataFile_same put_data_same intro: same_indexes_trans)

lemma OpenDataFile_same: "OpenDataFile nm mode p = (e, p') \<Longrightarrow> same_indexes p p'"
  unfolding OpenDataFile_def
  by (auto split: prod.splits if_splits dest!: CloseDataFile_same put_data_same intro: same_indexes_trans)

lemma CreateIndex_same:
  assumes "CreateIndex nm i KeySize m trees letter p = Some (e, p')"
  shows "same_indexes p p'"
proof -
  obtain e1 p1 where c: "CloseIndex i p = Some (e1, p1)"
    using assms by (auto simp: CreateIndex_def split: bind_splits)
  have "same_indexes p1 p'"
    using assms c unfolding CreateIndex_def
    by (auto split: bind_splits if_splits option.splits dest: put_tree_same)
  with CloseIndex_same [OF c] show ?thesis by (rule same_indexes_trans)
qed

lemma OpenIndex_same:
  assumes "OpenIndex nm i KeySize m mode p = Some (e, p')"
  shows "same_indexes p p'"
proof -
  obtain e1 p1 where c: "CloseIndex i p = Some (e1, p1)"
    using assms by (auto simp: OpenIndex_def split: bind_splits)
  have "same_indexes p1 p'"
    using assms c unfolding OpenIndex_def
    by (auto split: bind_splits if_splits option.splits dest: put_tree_same)
  with CloseIndex_same [OF c] show ?thesis by (rule same_indexes_trans)
qed

lemma index_failed_same: "index_failed p = Some (e, p') \<Longrightarrow> p' = p"
  by (auto simp: index_failed_def split: bind_splits)

lemma open_or_rebuild_same:
  "open_or_rebuild nm i KeySize m mode trees letter p = Some (e, p') \<Longrightarrow> same_indexes p p'"
  unfolding open_or_rebuild_def
  by (auto split: if_splits bind_splits dest!: mark_rebuild_same CreateIndex_same OpenIndex_same
      intro: same_indexes_trans)

lemma each_index_same:
  assumes step: "\<And>i q e q'. step i q = Some (e, q') \<Longrightarrow> same_indexes q q'"
  shows "each_index step k i p = Some (e, p') \<Longrightarrow> same_indexes p p'"
proof (induction k arbitrary: i p)
  case (Suc k)
  obtain e1 p1 where c: "step i p = Some (e1, p1)"
    using Suc.prems by (auto split: bind_splits)
  have "same_indexes p1 p'"
    using Suc c by (auto split: if_splits dest: index_failed_same)
  with step [OF c] show ?case by (rule same_indexes_trans)
qed simp

lemma used_index_ok: "used_index KeySize m i ix = Some ix' \<Longrightarrow> index_file_ok ix \<Longrightarrow> index_file_ok ix'"
  by (auto simp: used_index_def set_entry_ok split: bind_splits)

lemma use_indexes_ok: "use_indexes k i KeySize m ix = Some ix' \<Longrightarrow> index_file_ok ix \<Longrightarrow> index_file_ok ix'"
  by (induction k i KeySize m ix rule: use_indexes.induct) (auto split: bind_splits dest: used_index_ok)

lemma pod_ok_with_index: "pod_ok (p\<lparr>openindexfile := Some ix, using_index := u\<rparr>) \<longleftrightarrow> index_file_ok ix"
  by (simp add: pod_ok_def)

lemma init_index_ok: "init_index KeySize m u p = Some p' \<Longrightarrow> pod_ok p \<Longrightarrow> pod_ok p'"
  by (auto simp: init_index_def pod_ok_with_index POD_MAX_INDEX_def split: if_splits bind_splits
      dest!: used_index_ok intro!: new_index_file_ok)

lemma or_index_failed_same:
  "or_index_failed r = Some (e, p') \<Longrightarrow> (\<And>e1 p1. r = Some (e1, p1) \<Longrightarrow> same_indexes p p1) \<Longrightarrow> same_indexes p p'"
  by (auto simp: or_index_failed_def split: bind_splits if_splits dest!: index_failed_same)

lemma create_files_same:
  assumes "create_files dn xn KeySize m static_size trees dl il p = Some (e, p')"
  shows "same_indexes p p'"
proof -
  obtain e1 p1 where c: "CreateDataFile dn static_size dl p = (e1, p1)" by fastforce
  have "same_indexes p1 p'"
    using assms c unfolding create_files_def
    by (auto simp: Let_def split: if_splits elim!: or_index_failed_same
        dest!: CreateIndex_same intro: same_indexes_trans [of p1 "p1\<lparr>pod_exists := 0\<rparr>"])
  with CreateDataFile_same [OF c] show ?thesis by (rule same_indexes_trans)
qed

lemma open_files_same:
  assumes "open_files dn xn KeySize m mode trees il p = Some (e, p')"
  shows "same_indexes p p'"
proof -
  obtain e1 p1 where c: "OpenDataFile dn mode p = (e1, p1)" by fastforce
  let ?p = "p1\<lparr>pod_exists := 1\<rparr>"
  have "same_indexes ?p q'" if "(do { q \<leftarrow> (if openindexfile ?p = None then Some ?p else mark_rebuild 0 ?p);
      CreateIndex xn 0 KeySize m trees il q }) = Some (e', q')" for e' q'
    using that by (auto split: if_splits bind_splits dest!: CreateIndex_same mark_rebuild_same
        intro: same_indexes_trans)
  then have "e1 = gxDBASE_NO_ERROR \<Longrightarrow> same_indexes ?p p'"
    using assms c unfolding open_files_def
    by (auto simp: Let_def split: if_splits elim!: or_index_failed_same dest!: OpenIndex_same)
  moreover have "e1 \<noteq> gxDBASE_NO_ERROR \<Longrightarrow> same_indexes p1 p'"
    using assms c by (simp add: open_files_def)
  ultimately have "same_indexes p1 p'" using same_indexes_update(3) same_indexes_trans by blast
  with OpenDataFile_same [OF c] show ?thesis by (rule same_indexes_trans)
qed

lemma Open_pod_ok:
  assumes o: "Open_pod dn xn KeySize m mode use_ix static_size trees dl il p = Some (e, p')" and ok: "pod_ok p"
  shows "pod_ok p'"
  using o ok unfolding Open_pod_def
  by (auto split: bind_splits if_splits dest!: Close_pod_ok init_index_ok create_files_same open_files_same
      intro: same_indexes_ok)

lemma data_file_ok:
  "OpenDataFile dn mode p = (e, p') \<Longrightarrow> pod_ok p \<Longrightarrow> pod_ok p'"
  "CreateDataFile dn n letter p = (e, p') \<Longrightarrow> pod_ok p \<Longrightarrow> pod_ok p'"
  by (auto dest: OpenDataFile_same CreateDataFile_same same_indexes_ok)

lemma pod_ok_flags [simp]: "pod_ok (p\<lparr>pod_exists := x, using_index := y\<rparr>) = pod_ok p"
  by (simp add: pod_ok_def)

lemma Open_pod_with_ok:
  assumes o: "Open_pod_with dn ix mode n letter p = Some (e, p')" and ok: "pod_ok p"
    and ix: "\<And>x. ix = Some x \<Longrightarrow> index_file_ok x"
  shows "pod_ok p'"
proof -
  have last: "pod_ok (q\<lparr>openindexfile := ix\<rparr>)" for q
    using ix by (auto simp: pod_ok_def split: option.splits)
  show ?thesis
    using o ok last unfolding Open_pod_with_def
    by (auto simp: Let_def split: bind_splits if_splits prod.splits
        dest!: Close_pod_ok data_file_ok drop_indexes_ok)
qed

lemma Open_pod_multi_ok:
  assumes o: "Open_pod_multi dn xn num KeySize m mode n trees dl il p = Some (e, p')" and ok: "pod_ok p"
    and num: "num \<le> POD_MAX_INDEX"
  shows "pod_ok p'"
proof -
  have each: "pod_ok q'" if e: "each_index step k 0 (q\<lparr>pod_exists := x\<rparr>) = Some (e', q')" and q: "pod_ok q"
    and step: "\<And>i q e q'. step i q = Some (e, q') \<Longrightarrow> same_indexes q q'" for step k q x e' q'
  proof -
    have "same_indexes (q\<lparr>pod_exists := x\<rparr>) q'" by (rule each_index_same [OF step e])
    moreover have "pod_ok (q\<lparr>pod_exists := x\<rparr>)" using q by (simp add: pod_ok_def)
    ultimately show ?thesis by (rule same_indexes_ok)
  qed
  have fresh: "pod_ok (q\<lparr>openindexfile := Some ix, using_index := u\<rparr>)"
    if "use_indexes num 0 KeySize m ((new_PODIndexFile num)\<lparr>n_indexes := num, curr_index := 0\<rparr>) = Some ix" for q ix u
    using use_indexes_ok [OF that new_index_file_ok [OF num]] by (simp add: pod_ok_with_index)
  show ?thesis
    using o ok unfolding Open_pod_multi_def
    by (auto simp: Let_def split: bind_splits if_splits prod.splits
        dest!: Close_pod_ok drop_indexes_ok data_file_ok [OF _ fresh]
        elim!: each dest: CreateIndex_same open_or_rebuild_same)
qed

lemma FlushIndexFile_same: "FlushIndexFile i p = Some (e, p') \<Longrightarrow> same_indexes p p'"
  by (auto simp: FlushIndexFile_def split: bind_splits option.splits prod.splits dest: put_tree_same)

lemma TestIndexFile_same: "TestIndexFile i p = Some (e, p') \<Longrightarrow> same_indexes p p'"
  by (auto simp: TestIndexFile_def split: bind_splits option.splits prod.splits dest: put_tree_same)

lemma flush_indexes_same: "flush_indexes k i e p = Some (e', p') \<Longrightarrow> same_indexes p p'"
  by (induction k i e p rule: flush_indexes.induct)
    (auto split: bind_splits dest!: FlushIndexFile_same intro: same_indexes_trans)

lemma test_indexes_same: "test_indexes k i e p = Some (e', p') \<Longrightarrow> same_indexes p p'"
  by (induction k i e p rule: test_indexes.induct)
    (auto split: bind_splits dest!: TestIndexFile_same intro: same_indexes_trans)

lemma FlushDataFile_same: "FlushDataFile p = (e, p') \<Longrightarrow> same_indexes p p'"
  by (auto simp: FlushDataFile_def split: option.splits dest: put_data_same)

lemma TestDataFile_same: "TestDataFile p = (e, p') \<Longrightarrow> same_indexes p p'"
  by (auto simp: TestDataFile_def put_data_def same_indexes_def pod_ok_def split: option.splits prod.splits)

lemma Flush_pod_same: "Flush_pod p = Some (e, p') \<Longrightarrow> same_indexes p p'"
  by (auto simp: Flush_pod_def split: prod.splits option.splits dest!: FlushDataFile_same flush_indexes_same
      intro: same_indexes_trans)

lemma TestDatabase_same: "TestDatabase p = Some (e, p') \<Longrightarrow> same_indexes p p'"
  by (auto simp: TestDatabase_def split: prod.splits option.splits dest!: TestDataFile_same test_indexes_same
      intro: same_indexes_trans)

text \<open>The index numbers below \<open>n_indexes\<close> are inside the array.\<close>

lemma Index_defined: "pod_ok p \<Longrightarrow> Index i p \<noteq> None"
  by (auto simp: Index_def pod_ok_def index_file_ok_def split: option.splits)

section \<open>Reachable managers\<close>

inductive pod_reachable :: "POD \<Rightarrow> bool" where
  start: "pod_reachable (new_POD fs)"
| open_one: "pod_reachable p \<Longrightarrow>
    Open_pod dn xn KeySize m mode use_ix static_size trees dl il p = Some (e, p') \<Longrightarrow> pod_reachable p'"
| open_multi: "pod_reachable p \<Longrightarrow> num \<le> POD_MAX_INDEX \<Longrightarrow>
    Open_pod_multi dn xns num KeySize m mode static_size trees dl il p = Some (e, p') \<Longrightarrow> pod_reachable p'"
| close: "pod_reachable p \<Longrightarrow> Close_pod p = Some (e, p') \<Longrightarrow> pod_reachable p'"
| close_index: "pod_reachable p \<Longrightarrow> CloseIndex i p = Some (e, p') \<Longrightarrow> pod_reachable p'"
| create_index: "pod_reachable p \<Longrightarrow>
    CreateIndex xn i KeySize m trees il p = Some (e, p') \<Longrightarrow> pod_reachable p'"
| open_index: "pod_reachable p \<Longrightarrow> OpenIndex xn i KeySize m mode p = Some (e, p') \<Longrightarrow> pod_reachable p'"
| flush: "pod_reachable p \<Longrightarrow> Flush_pod p = Some (e, p') \<Longrightarrow> pod_reachable p'"
| test: "pod_reachable p \<Longrightarrow> TestDatabase p = Some (n, p') \<Longrightarrow> pod_reachable p'"
| release: "pod_reachable p \<Longrightarrow> pod_reachable (Release_pod p)"

lemma pod_reachable_ok: "pod_reachable p \<Longrightarrow> pod_ok p"
proof (induction rule: pod_reachable.induct)
  case (start fs)
  show ?case by (simp add: pod_ok_def new_POD_def)
next
  case (release p)
  show ?case by (simp add: pod_ok_def Release_pod_def)
qed (blast intro: Open_pod_ok Open_pod_multi_ok Close_pod_ok same_indexes_ok CloseIndex_same CreateIndex_same
    OpenIndex_same Flush_pod_same TestDatabase_same)+

text \<open>
  C22: whatever sequence of opening (with at most 255 index files), closing, creating, flushing, testing and
  releasing made the manager, failed calls included, its number of index files stays inside the array of 255
  pointers and every one of them has its entry, so \<open>Index\<close> is defined for every number, and below the number
  of index files the mark to be rebuilt is there to be read.
\<close>
theorem pod_index_array_ok:
  assumes "pod_reachable p"
  shows "Index i p \<noteq> None \<and>
    (case openindexfile p of None \<Rightarrow> True
     | Some ix \<Rightarrow> n_indexes ix \<le> POD_MAX_INDEX \<and> (i < n_indexes ix \<longrightarrow> RebuildIndex i p \<noteq> None))"
proof -
  have ok: "pod_ok p" by (rule pod_reachable_ok [OF assms])
  then show ?thesis
    using Index_defined [OF ok, of i]
    by (auto simp: pod_ok_def index_file_ok_def RebuildIndex_def index_entry_def split: option.splits)
qed

section \<open>A concrete database\<close>

definition sample_open :: "(gxDatabaseError \<times> POD) option" where
  "sample_open =
     Open_pod (Some ''a.pod'') (Some ''a.pix'') 4 5 gxDBASE_READWRITE 1 0 1 CHR ''A'' CHR ''A''
       (new_POD (sample_fs\<lparr>capacity := 2000\<rparr>))"

lemma sample_open_ok: "map_option fst sample_open = Some gxDBASE_NO_ERROR"
  by code_simp

definition sample_pod :: POD where "sample_pod = snd (the sample_open)"

lemma sample_open_eq: "sample_open = Some (gxDBASE_NO_ERROR, sample_pod)"
proof -
  obtain e p where o: "sample_open = Some (e, p)" using sample_open_ok by (cases sample_open) auto
  have "map_option fst (Some (e, p)) = Some gxDBASE_NO_ERROR" using sample_open_ok unfolding o .
  then have "e = gxDBASE_NO_ERROR" by simp
  then have "sample_open = Some (gxDBASE_NO_ERROR, p)" using o by blast
  then show ?thesis unfolding sample_pod_def by (rule ssubst) simp
qed

lemma sample_reachable: "pod_reachable sample_pod"
  by (rule pod_reachable.open_one [OF pod_reachable.start sample_open_eq [unfolded sample_open_def]])

theorem pod_index_array_ok_witness:
  "Index 0 sample_pod \<noteq> None \<and>
    (case openindexfile sample_pod of None \<Rightarrow> True
     | Some ix \<Rightarrow> n_indexes ix \<le> POD_MAX_INDEX \<and> (0 < n_indexes ix \<longrightarrow> RebuildIndex 0 sample_pod \<noteq> None))"
  by (rule pod_index_array_ok [OF sample_reachable])

section \<open>What is open after a call\<close>

lemma CloseDataFile_none: "CloseDataFile p = (gxDBASE_NO_ERROR, p') \<Longrightarrow> opendatafile p' = None"
  by (auto simp: CloseDataFile_def Let_def split: option.splits if_splits)

lemma CloseIndex_data: "CloseIndex i p = Some (e, p') \<Longrightarrow> opendatafile p' = opendatafile p"
  by (auto simp: CloseIndex_def put_tree_def split: option.splits if_splits prod.splits bind_splits)

lemma close_indexes_data: "close_indexes k i p = Some (e, p') \<Longrightarrow> opendatafile p' = opendatafile p"
  by (induction k i p rule: close_indexes.induct)
    (auto simp: Let_def split: bind_splits if_splits dest!: CloseIndex_data)

lemma drop_indexes_none:
  "drop_indexes p = Some (gxDBASE_NO_ERROR, p') \<Longrightarrow> openindexfile p' = None \<and> opendatafile p' = opendatafile p"
  using close_indexes_data
  by (fastforce simp: drop_indexes_def split: option.splits bind_splits if_splits)

lemma CloseDataFile_error:
  "CloseDataFile p = (e, p') \<Longrightarrow> e \<noteq> gxDBASE_NO_ERROR \<Longrightarrow> GetDataFileError p' = e"
  by (auto simp: CloseDataFile_def GetDataFileError_def Let_def split: option.splits if_splits)

lemma Close_pod_none:
  "Close_pod p = Some (gxDBASE_NO_ERROR, p') \<Longrightarrow> opendatafile p' = None \<and> openindexfile p' = None"
  by (auto simp: Close_pod_def split: prod.splits if_splits
      dest: CloseDataFile_error dest!: CloseDataFile_none drop_indexes_none)

lemma CreateDataFile_error: "CreateDataFile nm n letter p = (e, p') \<Longrightarrow> GetDataFileError p' = e"
  unfolding CreateDataFile_def
  by (auto simp: put_data_def GetDataFileError_def split: prod.splits if_splits)

lemma OpenDataFile_error: "OpenDataFile nm mode p = (e, p') \<Longrightarrow> GetDataFileError p' = e"
  unfolding OpenDataFile_def
  by (auto simp: put_data_def GetDataFileError_def split: prod.splits if_splits)

text \<open>What an operation on an index file leaves alone.\<close>

definition index_only :: "POD \<Rightarrow> POD \<Rightarrow> bool" where
  "index_only p p' \<longleftrightarrow>
     opendatafile p' = opendatafile p \<and> pod_exists p' = pod_exists p \<and> using_index p' = using_index p \<and>
     same_indexes p p'"

lemma index_only_trans [trans]: "index_only p q \<Longrightarrow> index_only q r \<Longrightarrow> index_only p r"
  by (auto simp: index_only_def intro: same_indexes_trans)

lemma put_tree_only: "put_tree i t p = Some p' \<Longrightarrow> index_only p p'"
  using put_tree_same [of i t p p'] by (auto simp: index_only_def put_tree_def split: bind_splits)

lemma CloseIndex_only: "CloseIndex i p = Some (e, p') \<Longrightarrow> index_only p p'"
  using CloseIndex_same [of i p e p']
  by (auto simp: index_only_def CloseIndex_def put_tree_def split: option.splits if_splits prod.splits bind_splits)

lemma mark_rebuild_only: "mark_rebuild i p = Some p' \<Longrightarrow> index_only p p'"
  using mark_rebuild_same [of i p p'] by (auto simp: index_only_def mark_rebuild_def split: bind_splits)

lemma put_tree_opens:
  assumes "put_tree i t p = Some p'" "openindexfile p = Some ix" "i < n_indexes ix"
  shows "\<exists>t. Index i p' = Some (Some t)"
  using assms by (auto simp: put_tree_def set_tree_def set_entry_def index_entry_def Index_def split: bind_splits if_splits)

text \<open>An index file that is in use and not open.\<close>

definition fresh_index :: "nat \<Rightarrow> POD \<Rightarrow> bool" where
  "fresh_index i p \<longleftrightarrow>
     (case openindexfile p of None \<Rightarrow> False
      | Some ix \<Rightarrow> i < n_indexes ix \<and> map_option ix_btree (index_entry i ix) = Some None)"

lemma fresh_index_ix: "fresh_index i p \<Longrightarrow> \<exists>ix. openindexfile p = Some ix \<and> i < n_indexes ix"
  by (auto simp: fresh_index_def split: option.splits)

lemma CloseIndex_fresh: "fresh_index i p \<Longrightarrow> CloseIndex i p = Some (gxDBASE_NO_ERROR, p)"
  by (auto simp: fresh_index_def CloseIndex_def index_entry_def split: option.splits if_splits)

lemma fresh_index_flags [simp]:
  "fresh_index i (p\<lparr>pod_exists := x\<rparr>) = fresh_index i p" "fresh_index i (p\<lparr>pod_fs := fs\<rparr>) = fresh_index i p"
  "fresh_index i (p\<lparr>opendatafile := d\<rparr>) = fresh_index i p"
  by (simp_all add: fresh_index_def)

lemma mark_rebuild_fresh: "mark_rebuild i p = Some p' \<Longrightarrow> fresh_index i p \<Longrightarrow> fresh_index i p'"
  by (auto simp: mark_rebuild_def fresh_index_def set_entry_def index_entry_def split: bind_splits if_splits)

lemma put_data_fresh: "put_data db p = (e, p') \<Longrightarrow> (fresh_index i p', using_index p') = (fresh_index i p, using_index p)"
  by (auto simp: put_data_def fresh_index_def)

lemma CloseDataFile_fresh:
  "CloseDataFile p = (e, p') \<Longrightarrow> (fresh_index i p', using_index p') = (fresh_index i p, using_index p)"
  by (auto simp: CloseDataFile_def Let_def fresh_index_def split: option.splits if_splits)

lemma data_file_fresh:
  "CreateDataFile nm n letter p = (e, p') \<Longrightarrow> (fresh_index i p', using_index p') = (fresh_index i p, using_index p)"
  "OpenDataFile nm mode p = (e, p') \<Longrightarrow> (fresh_index i p', using_index p') = (fresh_index i p, using_index p)"
  unfolding CreateDataFile_def OpenDataFile_def
  by (auto split: prod.splits if_splits dest!: CloseDataFile_fresh [where i = i] put_data_fresh [where i = i])

lemma CreateIndex_opens:
  assumes c: "CreateIndex xn i KeySize m trees letter p = Some (e, p')" and fr: "fresh_index i p"
  shows "index_only p p' \<and> (\<exists>t. Index i p' = Some (Some t))"
proof -
  obtain ix where ix: "openindexfile p = Some ix" "i < n_indexes ix" using fresh_index_ix [OF fr] by blast
  obtain t where "put_tree i t p = Some p'"
    using c ix CloseIndex_fresh [OF fr] by (auto simp: CreateIndex_def split: bind_splits)
  then show ?thesis using put_tree_only put_tree_opens [OF _ ix] by blast
qed

lemma OpenIndex_opens:
  assumes c: "OpenIndex xn i KeySize m mode p = Some (e, p')" and fr: "fresh_index i p"
  shows "index_only p p' \<and> (\<exists>t. Index i p' = Some (Some t))"
proof -
  obtain ix where ix: "openindexfile p = Some ix" "i < n_indexes ix" using fresh_index_ix [OF fr] by blast
  have "i < length (index_file ix)" "index_file ix ! i \<noteq> None"
    using fr ix by (auto simp: fresh_index_def index_entry_def split: if_splits)
  then obtain t where "put_tree i t p = Some p'"
    using c ix CloseIndex_fresh [OF fr] by (auto simp: OpenIndex_def split: bind_splits if_splits)
  then show ?thesis using put_tree_only put_tree_opens [OF _ ix] by blast
qed

lemma or_index_failed_ok: "or_index_failed r = Some (gxDBASE_NO_ERROR, p') \<Longrightarrow> \<exists>e. r = Some (e, p')"
  by (auto simp: or_index_failed_def index_failed_def split: bind_splits if_splits)

lemma init_index_fresh:
  assumes "init_index KeySize m u p = Some p'" "u \<noteq> 0"
  shows "fresh_index 0 p' \<and> using_index p' = u"
  using assms by (auto simp: init_index_def used_index_def fresh_index_def set_entry_def index_entry_def
      new_PODIndexFile_def new_PODIndexFile_t_def POD_MAX_INDEX_def Let_def split: bind_splits if_splits)

lemma index_only_flags:
  assumes "index_only (q\<lparr>pod_exists := x\<rparr>) p'"
  shows "GetDataFileError p' = GetDataFileError q \<and> using_index p' = using_index q \<and> pod_exists p' = x"
  using assms by (simp_all add: index_only_def GetDataFileError_def)

lemma create_files_opens:
  assumes "create_files dn xn KeySize m static_size trees dl il p = Some (gxDBASE_NO_ERROR, p')"
    and "fresh_index 0 p" "using_index p \<noteq> 0"
  shows "GetDataFileError p' = gxDBASE_NO_ERROR \<and> (\<exists>t. Index 0 p' = Some (Some t)) \<and>
    using_index p' = using_index p \<and> pod_exists p' = 0"
proof -
  obtain e1 p1 where d: "CreateDataFile dn static_size dl p = (e1, p1)" by fastforce
  show ?thesis
    using assms d data_file_fresh(1) [OF d, of 0] CreateDataFile_error [OF d]
    by (auto simp: create_files_def Let_def split: if_splits
        dest!: or_index_failed_ok CreateIndex_opens index_only_flags)
qed

lemma open_files_opens:
  assumes "open_files dn xn KeySize m mode trees il p = Some (gxDBASE_NO_ERROR, p')"
    and "fresh_index 0 p" "using_index p \<noteq> 0"
  shows "GetDataFileError p' = gxDBASE_NO_ERROR \<and> (\<exists>t. Index 0 p' = Some (Some t)) \<and>
    using_index p' = using_index p \<and> pod_exists p' = 1"
proof -
  obtain e1 p1 where d: "OpenDataFile dn mode p = (e1, p1)" by fastforce
  let ?p = "p1\<lparr>pod_exists := 1\<rparr>"
  have fr: "fresh_index 0 ?p" "using_index ?p = using_index p" "openindexfile ?p \<noteq> None"
    using assms data_file_fresh(2) [OF d, of 0] fresh_index_ix [of 0 p1] by auto
  have made: "index_only ?p q' \<and> (\<exists>t. Index 0 q' = Some (Some t))"
    if m: "(do { q \<leftarrow> mark_rebuild 0 ?p; CreateIndex xn 0 KeySize m trees il q }) = Some (e', q')" for e' q'
  proof -
    obtain q where q: "mark_rebuild 0 ?p = Some q" "CreateIndex xn 0 KeySize m trees il q = Some (e', q')"
      using m by (auto split: bind_splits)
    show ?thesis
      using CreateIndex_opens [OF q(2) mark_rebuild_fresh [OF q(1) fr(1)]] mark_rebuild_only [OF q(1)]
      by (blast intro: index_only_trans)
  qed
  have opened: "index_only ?p q' \<and> (\<exists>t. Index 0 q' = Some (Some t))"
    if "OpenIndex xn 0 KeySize m mode ?p = Some (e', q')" for e' q'
    using OpenIndex_opens [OF that fr(1)] .
  have "index_only ?p p' \<and> (\<exists>t. Index 0 p' = Some (Some t)) \<and> e1 = gxDBASE_NO_ERROR"
    using assms fr d OpenDataFile_error [OF d] unfolding open_files_def
    by (auto simp: Let_def split: if_splits dest!: or_index_failed_ok made opened)
  then show ?thesis
    using index_only_flags [of 1 p1 p'] fr OpenDataFile_error [OF d] by auto
qed

text \<open>
  An \<open>Open\<close> with an index that reports no error leaves a data file without error, its index file attached
  as index 0, the indexing subsystem on, and says with \<open>Exists\<close> whether the data file was there.
\<close>
theorem Open_pod_opens:
  assumes o: "Open_pod dn xn KeySize m mode use_ix static_size trees dl il p = Some (gxDBASE_NO_ERROR, p')"
    and u: "use_ix \<noteq> 0" and c: "Close_pod p = Some (gxDBASE_NO_ERROR, p1)"
  shows "GetDataFileError p' = gxDBASE_NO_ERROR \<and> (\<exists>t. Index 0 p' = Some (Some t)) \<and> using_index p' = use_ix \<and>
    (Exists_pod p' \<longleftrightarrow> file_exists dn (pod_fs p1))"
proof -
  obtain p2 where i: "init_index KeySize m use_ix p1 = Some p2"
    using o c by (auto simp: Open_pod_def split: bind_splits)
  have fs: "pod_fs p2 = pod_fs p1" using i by (auto simp: init_index_def split: if_splits bind_splits)
  have fr: "fresh_index 0 p2" "using_index p2 = use_ix" using init_index_fresh [OF i u] by auto
  show ?thesis
    using o c i fs fr u unfolding Open_pod_def
    by (auto simp: Exists_pod_def split: if_splits dest!: create_files_opens open_files_opens)
qed

theorem Open_pod_opens_witness:
  "GetDataFileError sample_pod = gxDBASE_NO_ERROR \<and> (\<exists>t. Index 0 sample_pod = Some (Some t)) \<and> using_index sample_pod = 1 \<and>
    (Exists_pod sample_pod \<longleftrightarrow> file_exists (Some ''a.pod'') (pod_fs (new_POD (sample_fs\<lparr>capacity := 2000\<rparr>))))"
proof (rule Open_pod_opens [OF sample_open_eq [unfolded sample_open_def]])
  show "Close_pod (new_POD (sample_fs\<lparr>capacity := 2000\<rparr>)) =
      Some (gxDBASE_NO_ERROR, new_POD (sample_fs\<lparr>capacity := 2000\<rparr>))"
    by (simp add: Close_pod_def CloseDataFile_def drop_indexes_def new_POD_def)
qed simp

end
