(* ===== verification/Persist.thy ===== *)
theory Persist
  imports Pod BtDelete Navigate RdKey
begin

text \<open>
  The base class of persistent objects, \<open>src/src/gpersist.cpp\<close> and \<open>src/include/gpersist.h\<close>. An object has its
  address in the data file and a pointer to the manager of the database; the manager itself is shared, so a
  member function takes it and gives it back. A result \<open>None\<close> is undefined in the code, a null or
  uninitialised pointer that is followed, or a call that never returns. The virtual functions \<open>Read\<close>,
  \<open>Write\<close>, \<open>Find\<close> are the application's and are arguments. A C string is the list of its bytes without the
  closing zero.
\<close>

section \<open>Through the manager\<close>

text \<open>\<open>pod->OpenDataFile()->...\<close> and \<open>pod->Index(i)->...\<close>.\<close>

definition on_data :: "(gxDatabase \<Rightarrow> 'a \<times> gxDatabase) \<Rightarrow> POD \<Rightarrow> ('a \<times> POD) option" where
  "on_data g p = do {
     db \<leftarrow> opendatafile p;
     let (r, db1) = g (db_with (pod_fs p) db);
     Some (r, p\<lparr>opendatafile := Some db1, pod_fs := db_fs db1\<rparr>)
   }"

definition on_data_opt :: "(gxDatabase \<Rightarrow> ('a \<times> gxDatabase) option) \<Rightarrow> POD \<Rightarrow> ('a \<times> POD) option" where
  "on_data_opt g p = do {
     db \<leftarrow> opendatafile p;
     (r, db1) \<leftarrow> g (db_with (pod_fs p) db);
     Some (r, p\<lparr>opendatafile := Some db1, pod_fs := db_fs db1\<rparr>)
   }"

definition on_index :: "nat \<Rightarrow> (gxBtree \<Rightarrow> ('a \<times> gxBtree) option) \<Rightarrow> POD \<Rightarrow> ('a \<times> POD) option" where
  "on_index i g p = do {
     b \<leftarrow> Index i p;
     t \<leftarrow> b;
     (r, t1) \<leftarrow> g (tree_with (pod_fs p) t);
     p1 \<leftarrow> put_tree i t1 p;
     Some (r, p1)
   }"

definition data_Write :: "byte list \<Rightarrow> int \<Rightarrow> POD \<Rightarrow> (gxDatabaseError \<times> POD) option" where
  "data_Write buf addr = on_data (\<lambda>db. let db1 = Write buf addr db in (gxd_error db1, db1))"

definition data_Read :: "byte list \<Rightarrow> int \<Rightarrow> POD \<Rightarrow> ((gxDatabaseError \<times> byte list) \<times> POD) option" where
  "data_Read buf addr = on_data (\<lambda>db. case Read buf addr db of (b, db1) \<Rightarrow> ((gxd_error db1, b), db1))"

definition data_SeekTo :: "int \<Rightarrow> POD \<Rightarrow> (gxDatabaseError \<times> POD) option" where
  "data_SeekTo addr p = do {
     (_, p1) \<leftarrow> on_data (SeekTo addr) p;
     Some (GetDataFileError p1, p1)
   }"

section \<open>Persistent objects\<close>

record gxObjectHeader =
  oh_ClassID :: int
  oh_ObjectID :: int

definition sizeof_gxObjectHeader :: int where "sizeof_gxObjectHeader = 16"

definition enc_gxObjectHeader :: "gxObjectHeader \<Rightarrow> byte list" where
  "enc_gxObjectHeader oh = gxINT64_UnPackBits (oh_ClassID oh) @ gxINT64_UnPackBits (oh_ObjectID oh)"

definition dec_gxObjectHeader :: "byte list \<Rightarrow> gxObjectHeader" where
  "dec_gxObjectHeader b =
     \<lparr>oh_ClassID = gxINT64_PackBits (bytes_at b 0 8), oh_ObjectID = gxINT64_PackBits (bytes_at b 8 8)\<rparr>"

definition new_gxObjectHeader :: gxObjectHeader where
  "new_gxObjectHeader = \<lparr>oh_ClassID = 0, oh_ObjectID = 0\<rparr>"

record gxPersistent =
  gp_pod :: bool
  objectaddress :: int

definition new_gxPersistent :: gxPersistent where
  "new_gxPersistent = \<lparr>gp_pod = False, objectaddress = 0\<rparr>"

definition Connect_persistent ::
  "POD \<Rightarrow> 'a gxPersistent_scheme \<Rightarrow> gxDatabaseError \<times> 'a gxPersistent_scheme" where
  "Connect_persistent DB ob =
     (if opendatafile DB = None then (gxDBASE_NO_DATABASE_OPEN, ob)
      else (gxDBASE_NO_ERROR, ob\<lparr>gp_pod := True\<rparr>))"

text \<open>The constructor with a manager ignores the error, and leaves the pointer as memory has it.\<close>

definition gxPersistent_of :: "POD \<Rightarrow> gxPersistent" where
  "gxPersistent_of DB = (snd (Connect_persistent DB new_gxPersistent))\<lparr>objectaddress := 0\<rparr>"

definition the_pod :: "'a gxPersistent_scheme \<Rightarrow> POD \<Rightarrow> POD option" where
  "the_pod ob p = (if gp_pod ob then Some p else None)"

definition WriteObjectHeader :: "gxObjectHeader \<Rightarrow> int \<Rightarrow> POD \<Rightarrow> (gxDatabaseError \<times> POD) option" where
  "WriteObjectHeader oh object_address p = data_Write (enc_gxObjectHeader oh) object_address p"

definition ReadObjectHeader ::
  "gxObjectHeader \<Rightarrow> int \<Rightarrow> POD \<Rightarrow> ((gxDatabaseError \<times> gxObjectHeader) \<times> POD) option" where
  "ReadObjectHeader oh object_address p = do {
     ((e, b), p1) \<leftarrow> data_Read (enc_gxObjectHeader oh) object_address p;
     Some ((e, dec_gxObjectHeader b), p1)
   }"

section \<open>Strings\<close>

text \<open>The result has 16 bits.\<close>

definition StringFileLength :: "byte list option \<Rightarrow> int" where
  "StringFileLength s =
     ((case s of Some b \<Rightarrow> int (length b) mod 2 ^ 16 | None \<Rightarrow> 1) + 4) mod 2 ^ 16"

definition WriteString :: "byte list option \<Rightarrow> int \<Rightarrow> POD \<Rightarrow> (gxDatabaseError \<times> POD) option" where
  "WriteString s file_address p = do {
     let n = to_u32 (case s of Some b \<Rightarrow> int (length b) | None \<Rightarrow> 1);
     (e, p1) \<leftarrow> data_Write (gxUINT32_UnPackBits n) file_address p;
     if e \<noteq> gxDBASE_NO_ERROR then Some (GetDataFileError p1, p1)
     else do {
       (e2, p2) \<leftarrow> data_Write (case s of Some b \<Rightarrow> take (nat n) b | None \<Rightarrow> [0]) gxCurrAddress p1;
       if e2 \<noteq> gxDBASE_NO_ERROR then Some (GetDataFileError p2, p2) else Some (gxDBASE_NO_ERROR, p2)
     }
   }"

definition ReadString :: "int \<Rightarrow> POD \<Rightarrow> (byte list option \<times> POD) option" where
  "ReadString file_address p = do {
     ((e, b), p1) \<leftarrow> data_Read (replicate 4 0) file_address p;
     if e \<noteq> gxDBASE_NO_ERROR then Some (None, p1)
     else do {
       let n = gxUINT32_PackBits b;
       (pos, p2) \<leftarrow> on_data FilePosition p1;
       (eof, p3) \<leftarrow> on_data GetEOF p2;
       if pos < 0 \<or> pos > eof \<or> n > eof - pos
       then Some (None, snd (SetDataFileError gxDBASE_BAD_OBJECT_ADDRESS p3))
       else do {
         ((e4, s), p4) \<leftarrow> data_Read (replicate (nat n) 0) gxCurrAddress p3;
         if e4 \<noteq> gxDBASE_NO_ERROR then Some (None, p4) else Some (Some s, p4)
       }
     }
   }"

text \<open>The bytes up to the first zero are the C string.\<close>

definition c_string :: "byte list \<Rightarrow> byte list" where
  "c_string b = takeWhile (\<lambda>x. x \<noteq> 0) b"

section \<open>Objects and keys\<close>

type_synonym 'a member_fun = "'a \<times> POD \<Rightarrow> (gxDatabaseError \<times> 'a \<times> POD) option"

definition WriteObject ::
  "('a \<times> POD \<Rightarrow> (bool \<times> 'a \<times> POD) option) \<Rightarrow> 'a member_fun \<Rightarrow> bool \<Rightarrow> 'a \<times> POD \<Rightarrow> (bool \<times> 'a \<times> POD) option" where
  "WriteObject virtual_Find virtual_Write find_first s =
     (if find_first then do {
        (found, s1) \<leftarrow> virtual_Find s;
        if found then Some (True, s1)
        else do { (e, s2) \<leftarrow> virtual_Write s1; Some (e = gxDBASE_NO_ERROR, s2) }
      }
      else do { (e, s1) \<leftarrow> virtual_Write s; Some (e = gxDBASE_NO_ERROR, s1) })"

definition ReadObject_at ::
  "(int \<Rightarrow> 'a gxPersistent_scheme member_fun) \<Rightarrow> int \<Rightarrow> 'a gxPersistent_scheme \<times> POD \<Rightarrow>
   (bool \<times> 'a gxPersistent_scheme \<times> POD) option" where
  "ReadObject_at virtual_Read object_address s = do {
     (e, ob, p) \<leftarrow> virtual_Read object_address s;
     Some (if e \<noteq> gxDBASE_NO_ERROR then (False, ob, p) else (True, ob\<lparr>objectaddress := object_address\<rparr>, p))
   }"

definition ReadObject ::
  "(int \<Rightarrow> 'a gxPersistent_scheme member_fun) \<Rightarrow> 'a gxPersistent_scheme \<times> POD \<Rightarrow>
   (bool \<times> 'a gxPersistent_scheme \<times> POD) option" where
  "ReadObject virtual_Read s = do {
     (e, s1) \<leftarrow> virtual_Read (objectaddress (fst s)) s;
     Some (e = gxDBASE_NO_ERROR, s1)
   }"

text \<open>\<open>gxDatabase::Delete\<close> gives true when the object was deleted.\<close>

definition DeleteObject :: "int \<Rightarrow> POD \<Rightarrow> (bool \<times> POD) option" where
  "DeleteObject object_address p = on_data (Delete object_address) p"

definition AddKey ::
  "compare_fun \<Rightarrow> DatabaseKeyB \<Rightarrow> DatabaseKeyB \<Rightarrow> nat \<Rightarrow> bool \<Rightarrow> POD \<Rightarrow>
   ((int \<times> DatabaseKeyB \<times> DatabaseKeyB) \<times> POD) option" where
  "AddKey cmp key ck i flushdb p = on_index i (Insert cmp key ck flushdb) p"

definition FindKey ::
  "compare_fun \<Rightarrow> DatabaseKeyB \<Rightarrow> DatabaseKeyB \<Rightarrow> nat \<Rightarrow> bool \<Rightarrow> POD \<Rightarrow>
   ((int \<times> DatabaseKeyB \<times> DatabaseKeyB) \<times> POD) option" where
  "FindKey cmp key ck i test_tree p =
     on_index i (\<lambda>t. case Find cmp key ck test_tree t of ((r, k, c, _), t1) \<Rightarrow> Some ((r, k, c), t1)) p"

definition DeleteKey ::
  "compare_fun \<Rightarrow> DatabaseKeyB \<Rightarrow> DatabaseKeyB \<Rightarrow> nat \<Rightarrow> bool \<Rightarrow> POD \<Rightarrow>
   ((int \<times> DatabaseKeyB \<times> DatabaseKeyB) \<times> POD) option" where
  "DeleteKey cmp key ck i flushdb p = on_index i (\<lambda>t. Some (Delete_key cmp key ck flushdb t)) p"

definition persistent_Flush :: "'a gxPersistent_scheme \<Rightarrow> POD \<Rightarrow> POD option" where
  "persistent_Flush ob p = (if gp_pod ob then map_option snd (Flush_pod p) else Some p)"

definition persistent_TestDatabase :: "'a gxPersistent_scheme \<Rightarrow> POD \<Rightarrow> (int \<times> POD) option" where
  "persistent_TestDatabase ob p = do { q \<leftarrow> the_pod ob p; TestDatabase q }"

definition persistent_UsingIndex :: "'a gxPersistent_scheme \<Rightarrow> POD \<Rightarrow> bool option" where
  "persistent_UsingIndex ob p = map_option UsingIndex (the_pod ob p)"


text \<open>
  The template of persistent objects, \<open>src/include/infohog.h\<close>: an object is an array of byte vectors, of
  which the first holds its name, a value of the template parameter \<open>TYPE\<close>. \<open>hog_type\<close> stands for that
  parameter: its size and its operators on its bytes. As in \<open>Persist\<close> the manager of the database is
  passed along, and a result \<open>None\<close> is undefined in the code or never comes.
\<close>

section \<open>Names and keys\<close>

record hog_type =
  type_size :: nat
  type_eq :: "byte list \<Rightarrow> byte list \<Rightarrow> bool"
  type_gt :: "byte list \<Rightarrow> byte list \<Rightarrow> bool"

definition InfoHogMinMembers :: nat where "InfoHogMinMembers = 1"
definition InfoHogDefMembers :: nat where "InfoHogDefMembers = 9"
definition InfoHogMaxMembers :: nat where "InfoHogMaxMembers = 255"
definition ClassInfoHogID :: int where "ClassInfoHogID = -1"

definition ih_bytes :: "byte list \<Rightarrow> int \<Rightarrow> int \<Rightarrow> byte list" where
  "ih_bytes name oid cid = name @ gxINT64_UnPackBits oid @ gxINT64_UnPackBits cid"

definition dec_ih :: "hog_type \<Rightarrow> byte list \<Rightarrow> byte list InfoHogKey_t" where
  "dec_ih T b = \<lparr>object_name = bytes_at b 0 (type_size T),
     object_id = gxINT64_PackBits (bytes_at b (type_size T) 8),
     class_id = gxINT64_PackBits (bytes_at b (type_size T + 8) 8)\<rparr>"

definition ih_compare :: "hog_type \<Rightarrow> compare_fun" where
  "ih_compare T x y = ih_CompareKey (type_gt T) (type_eq T) False (dec_ih T x) (dec_ih T y)"

definition ih_key :: "byte list \<Rightarrow> int \<Rightarrow> int \<Rightarrow> DatabaseKeyB" where
  "ih_key name oid cid = new_DatabaseKeyB (ih_bytes name oid cid)"

definition ih_blank :: "hog_type \<Rightarrow> DatabaseKeyB" where
  "ih_blank T = ih_key (replicate (type_size T) 0) 0 0"

section \<open>Objects\<close>

record InfoHog = gxPersistent +
  hog_class :: int
  hog_num :: nat
  ih_members :: "byte list list"

type_synonym hog_state = "InfoHog \<times> POD"

definition AllocMembers :: "nat \<Rightarrow> InfoHog \<Rightarrow> InfoHog" where
  "AllocMembers num h =
     (let n1 = (if num = 0 then InfoHogMinMembers else num);
          n = (if n1 > InfoHogMaxMembers then InfoHogMaxMembers else n1)
      in if ih_members h \<noteq> [] \<and> hog_num h \<ge> n then h\<lparr>hog_num := n\<rparr>
         else h\<lparr>ih_members := replicate n [], hog_num := n\<rparr>)"

definition DeleteMembers :: "InfoHog \<Rightarrow> InfoHog" where
  "DeleteMembers h = h\<lparr>ih_members := [], hog_num := 0\<rparr>"

definition new_InfoHog :: InfoHog where
  "new_InfoHog = \<lparr>gp_pod = False, objectaddress = 0, hog_class = ClassInfoHogID, hog_num = 0, ih_members = []\<rparr>"

definition InfoHog_of :: "POD \<Rightarrow> nat \<Rightarrow> InfoHog" where
  "InfoHog_of DB num = AllocMembers num (snd (Connect_persistent DB new_InfoHog))"

definition GetMember :: "nat \<Rightarrow> InfoHog \<Rightarrow> byte list option" where
  "GetMember i h = (if i \<ge> hog_num h then None else if ih_members h = [] then None else Some (ih_members h ! i))"

definition GetMemberLen :: "nat \<Rightarrow> InfoHog \<Rightarrow> nat" where
  "GetMemberLen i h =
     (if i \<ge> hog_num h then 0 else if ih_members h = [] then 0 else length (ih_members h ! i))"

definition SetMember :: "byte list \<Rightarrow> nat \<Rightarrow> InfoHog \<Rightarrow> bool \<times> InfoHog" where
  "SetMember ob i h =
     (if ih_members h = [] then (False, h)
      else if i \<ge> hog_num h then (False, h)
      else (True, h\<lparr>ih_members := (ih_members h)[i := ob]\<rparr>))"

definition InfoHog_keyed :: "POD \<Rightarrow> byte list \<Rightarrow> nat \<Rightarrow> InfoHog" where
  "InfoHog_keyed DB key num = snd (SetMember key 0 (InfoHog_of DB num))"

text \<open>\<open>ih_members[i]\<close>, and the name, \<open>*(TYPE *)ih_members[0].data()\<close>.\<close>

definition member_at :: "nat \<Rightarrow> InfoHog \<Rightarrow> byte list option" where
  "member_at i h = (if i < length (ih_members h) then Some (ih_members h ! i) else None)"

definition key_name :: "hog_type \<Rightarrow> InfoHog \<Rightarrow> byte list option" where
  "key_name T h = do {
     m \<leftarrow> member_at 0 h;
     if length m < type_size T then None else Some (take (type_size T) m)
   }"

text \<open>The length has 16 bits.\<close>

definition hog_ObjectLength :: "InfoHog \<Rightarrow> int" where
  "hog_ObjectLength h = (4 + 4 * int (hog_num h) + (\<Sum>m\<leftarrow>take (hog_num h) (ih_members h). int (length m))) mod 2 ^ 16"

definition Copy_hog :: "InfoHog \<Rightarrow> bool \<Rightarrow> InfoHog \<Rightarrow> InfoHog option" where
  "Copy_hog ob copy_pod_vars h =
     (let h1 = AllocMembers (hog_num ob) h; n = hog_num h1
      in if n > length (ih_members ob) then None
         else (let h2 = h1\<lparr>ih_members := take n (ih_members ob) @ drop n (ih_members h1)\<rparr>
               in Some (if copy_pod_vars
                        then h2\<lparr>hog_class := hog_class ob, gp_pod := gp_pod ob, objectaddress := objectaddress ob\<rparr>
                        else h2)))"

definition hog_equal :: "InfoHog \<Rightarrow> InfoHog \<Rightarrow> bool" where
  "hog_equal a b \<longleftrightarrow>
     hog_num a = hog_num b \<and> take (hog_num a) (ih_members a) = take (hog_num a) (ih_members b)"

definition hog_not_equal :: "InfoHog \<Rightarrow> InfoHog \<Rightarrow> bool" where
  "hog_not_equal a b \<longleftrightarrow>
     hog_num a \<noteq> hog_num b \<or> take (hog_num a) (ih_members a) \<noteq> take (hog_num a) (ih_members b)"

text \<open>The order of vectors of unsigned bytes.\<close>

fun bytes_less :: "byte list \<Rightarrow> byte list \<Rightarrow> bool" where
  "bytes_less xs [] = False"
| "bytes_less [] (y # ys) = True"
| "bytes_less (x # xs) (y # ys) = (if x < y then True else if y < x then False else bytes_less xs ys)"

definition hog_greater :: "InfoHog \<Rightarrow> InfoHog \<Rightarrow> bool option" where
  "hog_greater a b = do { x \<leftarrow> member_at 0 a; y \<leftarrow> member_at 0 b; Some (bytes_less y x) }"

definition hog_less :: "InfoHog \<Rightarrow> InfoHog \<Rightarrow> bool option" where
  "hog_less a b = do { x \<leftarrow> member_at 0 a; y \<leftarrow> member_at 0 b; Some (bytes_less x y) }"

section \<open>Writing and reading\<close>

definition data_failed :: "InfoHog \<Rightarrow> POD \<Rightarrow> (gxDatabaseError \<times> hog_state) option" where
  "data_failed h p = Some (GetDataFileError p, h, p)"

fun write_members :: "byte list list \<Rightarrow> POD \<Rightarrow> (gxDatabaseError \<times> POD) option" where
  "write_members [] p = Some (gxDBASE_NO_ERROR, p)"
| "write_members (m # ms) p = do {
     let n = to_u32 (int (length m));
     (e, p1) \<leftarrow> data_Write (gxUINT32_UnPackBits n) gxCurrAddress p;
     if e \<noteq> gxDBASE_NO_ERROR then Some (GetDataFileError p1, p1)
     else do {
       (e2, p2) \<leftarrow> (if n > 0 then data_Write (take (nat n) m) gxCurrAddress p1 else Some (gxDBASE_NO_ERROR, p1));
       if e2 \<noteq> gxDBASE_NO_ERROR then Some (GetDataFileError p2, p2) else write_members ms p2
     }
   }"

text \<open>The object at the current place of the file, which is that of the block just reserved.\<close>

definition write_object :: "InfoHog \<Rightarrow> int \<Rightarrow> POD \<Rightarrow> (gxDatabaseError \<times> POD) option" where
  "write_object h a p1 = do {
     (e2, p2) \<leftarrow> WriteObjectHeader \<lparr>oh_ClassID = hog_class h, oh_ObjectID = a\<rparr> gxCurrAddress p1;
     if e2 \<noteq> gxDBASE_NO_ERROR then Some (GetDataFileError p2, p2)
     else do {
       (e3, p3) \<leftarrow> data_Write (gxUINT32_UnPackBits (to_u32 (int (hog_num h)))) gxCurrAddress p2;
       if e3 \<noteq> gxDBASE_NO_ERROR then Some (GetDataFileError p3, p3)
       else write_members (take (hog_num h) (ih_members h)) p3
     }
   }"

definition hog_Write :: "hog_type \<Rightarrow> hog_state \<Rightarrow> (gxDatabaseError \<times> hog_state) option" where
  "hog_Write T s = (case s of (h, p0) \<Rightarrow> do {
     p \<leftarrow> the_pod h p0;
     (a, p1) \<leftarrow> on_data_opt (Alloc (sizeof_gxObjectHeader + hog_ObjectLength h) gxDBASE_RECLAIM_FIRSTFIT) p;
     let h1 = h\<lparr>objectaddress := a\<rparr>;
     if a = 0 then data_failed h1 p1
     else do {
       (e4, p4) \<leftarrow> write_object h a p1;
       if e4 \<noteq> gxDBASE_NO_ERROR then Some (e4, h1, p4)
       else if UsingIndex p4 then do {
         name \<leftarrow> key_name T h;
         ((r, _, _), p5) \<leftarrow> AddKey (ih_compare T) (ih_key name a (hog_class h)) (ih_blank T) 0 False p4;
         if r = 0 then do { err \<leftarrow> GetIndexFileError 0 p5; Some (err, h1, p5) }
         else Some (gxDBASE_NO_ERROR, h1, p5)
       }
       else Some (gxDBASE_NO_ERROR, h1, p4)
     }
   })"

text \<open>An object address that is refused, \<open>return pod->SetDataFileError(err)\<close>.\<close>

definition refuse :: "gxDatabaseError \<Rightarrow> InfoHog \<Rightarrow> POD \<Rightarrow> gxDatabaseError \<times> hog_state" where
  "refuse err h p = (case SetDataFileError err p of (e, p1) \<Rightarrow> (e, h, p1))"

text \<open>A member of length zero is left as it is.\<close>

fun read_members :: "int \<Rightarrow> nat \<Rightarrow> nat \<Rightarrow> hog_state \<Rightarrow> (gxDatabaseError \<times> hog_state) option" where
  "read_members file_eof 0 i s = Some (gxDBASE_NO_ERROR, s)"
| "read_members file_eof (Suc k) i s = (case s of (h, p) \<Rightarrow> do {
     ((e, b), p1) \<leftarrow> data_Read (replicate 4 0) gxCurrAddress p;
     if e \<noteq> gxDBASE_NO_ERROR then data_failed h p1
     else (let n = gxUINT32_PackBits b in
       if file_eof < 0 \<or> n > file_eof then Some (refuse gxDBASE_BAD_OBJECT_ADDRESS h p1)
       else if n > 0 then do {
         old \<leftarrow> member_at i h;
         ((e2, d), p2) \<leftarrow> data_Read (take (nat n) old @ replicate (nat n - length old) 0) gxCurrAddress p1;
         let h2 = h\<lparr>ih_members := (ih_members h)[i := d]\<rparr>;
         if e2 \<noteq> gxDBASE_NO_ERROR then data_failed h2 p2 else read_members file_eof k (i + 1) (h2, p2)
       }
       else read_members file_eof k (i + 1) (h, p1))
   })"

definition hog_Read :: "hog_type \<Rightarrow> int \<Rightarrow> hog_state \<Rightarrow> (gxDatabaseError \<times> hog_state) option" where
  "hog_Read T object_address s = (case s of (h, p0) \<Rightarrow> do {
     p \<leftarrow> the_pod h p0;
     (file_eof, p1) \<leftarrow> on_data GetEOF p;
     (e2, p2) \<leftarrow> data_SeekTo object_address p1;
     if e2 \<noteq> gxDBASE_NO_ERROR then data_failed h p2
     else do {
       ((e3, oh), p3) \<leftarrow> ReadObjectHeader new_gxObjectHeader object_address p2;
       if e3 \<noteq> gxDBASE_NO_ERROR then data_failed h p3
       else if oh_ClassID oh \<noteq> hog_class h then Some (refuse gxDBASE_BAD_CLASS_ID h p3)
       else do {
         ((e4, b), p4) \<leftarrow> data_Read (replicate 4 0) gxCurrAddress p3;
         if e4 \<noteq> gxDBASE_NO_ERROR then data_failed h p4
         else (let num = gxUINT32_PackBits b in
           if num = 0 \<or> num > int InfoHogMaxMembers then Some (refuse gxDBASE_BAD_OBJECT_ADDRESS h p4)
           else do {
             let h1 = AllocMembers (nat num) h;
             (e5, h5, p5) \<leftarrow> read_members file_eof (hog_num h1) 0 (h1, p4);
             if e5 \<noteq> gxDBASE_NO_ERROR then Some (e5, h5, p5)
             else do {
               m \<leftarrow> member_at 0 h5;
               if length m \<noteq> type_size T then Some (refuse gxDBASE_BAD_OBJECT_ADDRESS h5 p5)
               else Some (gxDBASE_NO_ERROR, h5\<lparr>objectaddress := object_address\<rparr>, p5)
             }
           })
       }
     }
   })"


text \<open>
  The operations of the template \<open>InfoHog\<close> that search and change the database (\<open>src/include/infohog.h\<close>):
  finding and deleting an object by its name, the comparison and the rebuilding of an index, and the changes
  of members in place.
\<close>

section \<open>Finding an object\<close>

definition read_block :: "gxBlockHeader \<Rightarrow> int \<Rightarrow> POD \<Rightarrow> ((gxDatabaseError \<times> gxBlockHeader) \<times> POD) option" where
  "read_block blk addr p =
     on_data (\<lambda>db. case Read_hdr blk addr db of (h, db1) \<Rightarrow> ((gxd_error db1, h), db1)) p"

definition header_size :: "POD \<Rightarrow> int option" where
  "header_size p = map_option BlockHeaderSize (opendatafile p)"

text \<open>A damaged length moves on by one byte.\<close>

definition next_addr :: "int \<Rightarrow> gxBlockHeader \<Rightarrow> int \<Rightarrow> int" where
  "next_addr bsize blk addr = (if block_length blk < bsize then addr + 1 else addr + block_length blk)"

text \<open>The object at \<open>oa\<close>: found, a failed read (which ends the search), or another one.\<close>

datatype probe_result = Found | Broken | Other

definition probe_object :: "hog_type \<Rightarrow> byte list \<Rightarrow> int \<Rightarrow> hog_state \<Rightarrow> (probe_result \<times> hog_state) option" where
  "probe_object T name oa s = (case s of (h, p) \<Rightarrow> do {
     ((e, oh), p1) \<leftarrow> ReadObjectHeader new_gxObjectHeader oa p;
     if e \<noteq> gxDBASE_NO_ERROR then Some (Broken, h, p1)
     else if oh_ClassID oh \<noteq> hog_class h then Some (Other, h, p1)
     else do {
       (e2, h2, p2) \<leftarrow> hog_Read T oa (h, p1);
       if e2 \<noteq> gxDBASE_NO_ERROR then Some (Broken, h2, p2)
       else do {
         m \<leftarrow> member_at 0 h2;
         Some (if m = name then (Found, h2\<lparr>objectaddress := oa\<rparr>, p2) else (Other, h2, p2))
       }
     }
   })"

partial_function (option) find_object ::
  "hog_type \<Rightarrow> byte list \<Rightarrow> int \<Rightarrow> int \<Rightarrow> gxBlockHeader \<Rightarrow> hog_state \<Rightarrow> (probe_result \<times> hog_state) option" where
  "find_object T name eof addr blk s = (case s of (h, p) \<Rightarrow> do {
     bsize \<leftarrow> header_size p;
     if addr + bsize \<ge> eof then Some (Other, h, p)
     else do {
       (x, p1) \<leftarrow> read_block blk addr p;
       let blk1 = snd x;
       if fst x \<noteq> gxDBASE_NO_ERROR then Some (Broken, h, p1)
       else if block_check_word blk1 = gxCheckWord then do {
         (r, s2) \<leftarrow> (if block_state blk1 = gxNormalBlock then probe_object T name (addr + bsize) (h, p1)
                   else Some (Other, h, p1));
         if r \<noteq> Other then Some (r, s2) else find_object T name eof (next_addr bsize blk1 addr) blk1 s2
       }
       else find_object T name eof (addr + 1) blk1 (h, p1)
     }
   })"

definition hog_Find :: "hog_type \<Rightarrow> hog_state \<Rightarrow> (bool \<times> hog_state) option" where
  "hog_Find T s = (case s of (h, p0) \<Rightarrow> do {
     p \<leftarrow> the_pod h p0;
     if UsingIndex p then do {
       name \<leftarrow> key_name T h;
       ((r, key, _), p1) \<leftarrow> FindKey (ih_compare T) (ih_key name 0 0) (ih_blank T) 0 False p;
       Some (if r = 0 then (False, h, p1)
             else (True, h\<lparr>objectaddress := object_id (dec_ih T (db_key key))\<rparr>, p1))
     }
     else do {
       (eof, p1) \<leftarrow> on_data GetEOF p;
       (addr, p2) \<leftarrow> on_data_opt (FindFirstBlock 0) p1;
       if addr = 0 then Some (False, h, p2)
       else do {
         temp \<leftarrow> Copy_hog h False new_InfoHog;
         name \<leftarrow> member_at 0 temp;
         (r, h3, p3) \<leftarrow> find_object T name eof addr new_gxBlockHeader (h, p2);
         if r = Found then Some (True, h3, p3)
         else if r = Broken then Some (False, h3, p3)
         else do { h4 \<leftarrow> Copy_hog temp False h3; Some (False, h4, p3) }
       }
     }
   })"

section \<open>Deleting an object\<close>

text \<open>
  The two branches read the result of \<open>DeleteObject\<close> in opposite ways; it is true when the object was
  deleted.
\<close>

definition hog_Delete :: "hog_type \<Rightarrow> hog_state \<Rightarrow> (bool \<times> hog_state) option" where
  "hog_Delete T s = (case s of (h, p0) \<Rightarrow> do {
     p \<leftarrow> the_pod h p0;
     if UsingIndex p then do {
       name \<leftarrow> key_name T h;
       ((r, key, ck), p1) \<leftarrow> FindKey (ih_compare T) (ih_key name 0 0) (ih_blank T) 0 False p;
       if r = 0 then Some (False, h, p1)
       else do {
         let h1 = h\<lparr>objectaddress := object_id (dec_ih T (db_key key))\<rparr>;
         (ok, p2) \<leftarrow> DeleteObject (objectaddress h1) p1;
         if \<not> ok then Some (False, h1, p2)
         else do {
           ((r3, _, _), p3) \<leftarrow> DeleteKey (ih_compare T) key ck 0 False p2;
           Some (r3 \<noteq> 0, h1, p3)
         }
       }
     }
     else do {
       (found, h1, p1) \<leftarrow> hog_Find T s;
       if \<not> found then Some (False, h1, p1)
       else do {
         (ok, p2) \<leftarrow> DeleteObject (objectaddress h1) p1;
         Some (\<not> ok, h1, p2)
       }
     }
   })"

definition hog_WriteObject :: "hog_type \<Rightarrow> bool \<Rightarrow> hog_state \<Rightarrow> (bool \<times> hog_state) option" where
  "hog_WriteObject T = WriteObject (hog_Find T) (hog_Write T)"

definition hog_ReadObject :: "hog_type \<Rightarrow> hog_state \<Rightarrow> (bool \<times> hog_state) option" where
  "hog_ReadObject T = ReadObject (hog_Read T)"

section \<open>Comparing and rebuilding an index\<close>

text \<open>
  The walk over the blocks is the same in both: \<open>visit\<close> is what is done with an object that was read, and
  ends the walk with \<open>False\<close>. The block and object headers keep their values when a read fails, and the
  objects are read into one of the default class.
\<close>

type_synonym 'a visitor = "int \<Rightarrow> gxObjectHeader \<Rightarrow> InfoHog \<Rightarrow> 'a \<times> POD \<Rightarrow> (bool \<times> 'a \<times> POD) option"

definition visit_block ::
  "hog_type \<Rightarrow> 'a visitor \<Rightarrow> int \<Rightarrow> int \<Rightarrow> gxObjectHeader \<Rightarrow> InfoHog \<Rightarrow> 'a \<times> POD \<Rightarrow>
   (bool \<times> gxObjectHeader \<times> InfoHog \<times> 'a \<times> POD) option" where
  "visit_block T visit cls oa oh ih s = (case s of (a, p) \<Rightarrow> do {
     ((_, oh1), p1) \<leftarrow> ReadObjectHeader oh oa p;
     if oh_ClassID oh1 \<noteq> cls then Some (True, oh1, ih, a, p1)
     else do {
       (e, ih1, p2) \<leftarrow> hog_Read T oa (ih, p1);
       if e \<noteq> gxDBASE_NO_ERROR then Some (True, oh1, ih1, a, p2)
       else do {
         (go, s3) \<leftarrow> visit oa oh1 ih1 (a, p2);
         Some (go, oh1, ih1, s3)
       }
     }
   })"

partial_function (option) walk_objects ::
  "hog_type \<Rightarrow> 'a visitor \<Rightarrow> int \<Rightarrow> int \<Rightarrow> int \<Rightarrow> gxBlockHeader \<Rightarrow> gxObjectHeader \<Rightarrow> InfoHog \<Rightarrow> 'a \<times> POD \<Rightarrow>
   (bool \<times> 'a \<times> POD) option" where
  "walk_objects T visit cls eof addr blk oh ih s = do {
     bsize \<leftarrow> header_size (snd s);
     if addr + bsize \<ge> eof then Some (True, s)
     else do {
       (x, p1) \<leftarrow> read_block blk addr (snd s);
       let blk1 = snd x;
       if block_check_word blk1 = gxCheckWord then do {
         (go, oh2, ih2, s2) \<leftarrow>
           (if block_state blk1 = gxNormalBlock then visit_block T visit cls (addr + bsize) oh ih (fst s, p1)
            else Some (True, oh, ih, fst s, p1));
         if \<not> go then Some (False, s2)
         else walk_objects T visit cls eof (next_addr bsize blk1 addr) blk1 oh2 ih2 s2
       }
       else walk_objects T visit cls eof (addr + 1) blk1 oh ih (fst s, p1)
     }
   }"

definition set_key :: "byte list \<Rightarrow> int \<Rightarrow> int \<Rightarrow> DatabaseKeyB \<Rightarrow> DatabaseKeyB" where
  "set_key name oid cid k = k\<lparr>db_key := ih_bytes name oid cid\<rparr>"

text \<open>The counts of objects and matches, the key and the compare key.\<close>

type_synonym tally = "int \<times> int \<times> DatabaseKeyB \<times> DatabaseKeyB"

definition compare_visit :: "hog_type \<Rightarrow> nat \<Rightarrow> tally visitor" where
  "compare_visit T i oa oh ih s = (case s of ((objects, matches, key, ck), p) \<Rightarrow> do {
     name \<leftarrow> key_name T ih;
     ((r, key1, ck1), p1) \<leftarrow> FindKey (ih_compare T) (set_key name oa (oh_ClassID oh) key) ck i False p;
     Some (True, (objects + 1, if r \<noteq> 0 then matches + 1 else matches, key1, ck1), p1)
   })"

definition CompareIndex :: "hog_type \<Rightarrow> nat \<Rightarrow> hog_state \<Rightarrow> (bool \<times> POD) option" where
  "CompareIndex T i s = (case s of (h, p0) \<Rightarrow> do {
     p \<leftarrow> the_pod h p0;
     if \<not> UsingIndex p then Some (False, p)
     else do {
       (_, p1) \<leftarrow> on_index i (\<lambda>t. Some (TestTree (btree_header_address t) True t)) p;
       let ih = InfoHog_of p1 InfoHogDefMembers;
       (eof, p2) \<leftarrow> on_data GetEOF p1;
       (addr, p3) \<leftarrow> on_data_opt (FindFirstBlock 0) p2;
       if addr = 0 then Some (False, p3)
       else do {
         (_, (objects, matches, _, _), p4) \<leftarrow>
           walk_objects T (compare_visit T i) (hog_class h) eof addr new_gxBlockHeader new_gxObjectHeader ih
             ((0, 0, ih_blank T, ih_blank T), p3);
         Some (objects = matches, p4)
       }
     }
   })"

text \<open>The new tree is closed when the function returns.\<close>

definition rebuild_visit :: "hog_type \<Rightarrow> (tally \<times> gxBtree) visitor" where
  "rebuild_visit T oa oh ih s = (case s of (((objects, inserts, key, ck), btx), p) \<Rightarrow> do {
     name \<leftarrow> key_name T ih;
     ((r, key1, ck1), btx1) \<leftarrow>
       Insert (ih_compare T) (set_key name oa (oh_ClassID oh) key) ck False (tree_with (pod_fs p) btx);
     let p1 = p\<lparr>pod_fs := tree_fs (pod_fs p) btx1\<rparr>;
     Some (if r = 0 then (False, ((objects + 1, inserts, key1, ck1), btx1), p1)
           else (True, ((objects + 1, inserts + 1, key1, ck1), btx1), p1))
   })"

definition close_rebuilt :: "gxBtree \<Rightarrow> POD \<Rightarrow> POD" where
  "close_rebuilt btx p = p\<lparr>pod_fs := snd (Close_tree (pod_fs p) (tree_with (pod_fs p) btx))\<rparr>"

definition RebuildIndexFile :: "hog_type \<Rightarrow> string option \<Rightarrow> int \<Rightarrow> int \<Rightarrow> hog_state \<Rightarrow> (bool \<times> POD) option" where
  "RebuildIndexFile T filename trees order s = (case s of (h, p0) \<Rightarrow> do {
     p \<leftarrow> the_pod h p0;
     if \<not> UsingIndex p then Some (False, p)
     else do {
       (e, btx) \<leftarrow> Create_tree filename trees gxDatabaseRevisionLetter (pod_fs p)
                  (new_gxBtree (type_size T + 16) order);
       let p1 = p\<lparr>pod_fs := tree_fs (pod_fs p) btx\<rparr>;
       if e \<noteq> gxDBASE_NO_ERROR then Some (False, close_rebuilt btx p1)
       else do {
         let ih = InfoHog_of p1 InfoHogDefMembers;
         (eof, p2) \<leftarrow> on_data GetEOF p1;
         (addr, p3) \<leftarrow> on_data_opt (FindFirstBlock 0) p2;
         if addr = 0 then Some (False, close_rebuilt btx p3)
         else do {
           (go, ((objects, inserts, _, _), btx1), p4) \<leftarrow>
             walk_objects T (rebuild_visit T) (hog_class h) eof addr new_gxBlockHeader new_gxObjectHeader ih
               (((0, 0, ih_blank T, ih_blank T), btx), p3);
           Some (go \<and> objects = inserts, close_rebuilt btx1 p4)
         }
       }
     }
   })"

section \<open>Changing an object in place\<close>

fun over_write :: "nat \<Rightarrow> nat \<Rightarrow> int \<Rightarrow> hog_state \<Rightarrow> (bool \<times> POD) option" where
  "over_write 0 i member_address s = Some (True, snd s)"
| "over_write (Suc k) i member_address s = (case s of (h, p) \<Rightarrow> do {
     let a = member_address + 4;
     (e, p1) \<leftarrow> data_SeekTo a p;
     if e \<noteq> gxDBASE_NO_ERROR then Some (False, p1)
     else do {
       m \<leftarrow> member_at i h;
       let n = to_u32 (int (length m));
       if n > 0 then do {
         (e2, p2) \<leftarrow> data_Write (take (nat n) m) gxCurrAddress p1;
         if e2 \<noteq> gxDBASE_NO_ERROR then Some (False, p2) else over_write k (i + 1) (a + n) (h, p2)
       }
       else over_write k (i + 1) a (h, p1)
     }
   })"

text \<open>
  The loop runs over the members from 1 to \<open>num_members - 2\<close>; without members there is none to follow.
\<close>

definition OverWriteObject :: "int \<Rightarrow> hog_state \<Rightarrow> (bool \<times> POD) option" where
  "OverWriteObject object_address s = (case s of (h, p0) \<Rightarrow> do {
     m0 \<leftarrow> member_at 0 h;
     p \<leftarrow> the_pod h p0;
     let a = object_address + sizeof_gxObjectHeader + 8 + int (length m0);
     (e, p1) \<leftarrow> data_SeekTo a p;
     if e \<noteq> gxDBASE_NO_ERROR then Some (False, p1)
     else if hog_num h = 0 then None
     else over_write (hog_num h - 2) 1 a (h, p1)
   })"

definition find_and_read :: "hog_type \<Rightarrow> bool \<Rightarrow> hog_state \<Rightarrow> (bool \<times> hog_state) option" where
  "find_and_read T find_obj s =
     (if find_obj then do {
        (found, s1) \<leftarrow> hog_Find T s;
        if \<not> found then Some (False, s1) else hog_ReadObject T s1
      } else Some (True, s))"

definition write_at :: "int \<Rightarrow> byte list \<Rightarrow> POD \<Rightarrow> (bool \<times> POD) option" where
  "write_at a m p = do {
     (e, p1) \<leftarrow> data_SeekTo a p;
     if e \<noteq> gxDBASE_NO_ERROR then Some (False, p1)
     else do {
       let n = to_u32 (int (length m));
       if n > 0 then do {
         (e2, p2) \<leftarrow> data_Write (take (nat n) m) gxCurrAddress p1;
         Some (e2 = gxDBASE_NO_ERROR, p2)
       }
       else Some (True, p1)
     }
   }"

definition ChangeKeyMember :: "hog_type \<Rightarrow> byte list \<Rightarrow> bool \<Rightarrow> hog_state \<Rightarrow> (bool \<times> hog_state) option" where
  "ChangeKeyMember T k find_obj s = do {
     (ok, h, p) \<leftarrow> find_and_read T find_obj s;
     if \<not> ok then Some (False, h, p)
     else do {
       indexed \<leftarrow> persistent_UsingIndex h p;
       (ok1, p1) \<leftarrow>
         (if indexed then do {
            old \<leftarrow> key_name T h;
            ((r, _, ck), q1) \<leftarrow> DeleteKey (ih_compare T) (ih_key old (objectaddress h) (hog_class h)) (ih_blank T) 0 False p;
            if r = 0 then Some (False, q1)
            else do {
              ((r2, _, _), q2) \<leftarrow> AddKey (ih_compare T) (ih_key k (objectaddress h) (hog_class h)) ck 0 False q1;
              Some (r2 \<noteq> 0, q2)
            }
          } else Some (True, p));
       if \<not> ok1 then Some (False, h, p1)
       else do {
         let h1 = snd (SetMember k 0 h);
         m \<leftarrow> member_at 0 h1;
         (ok2, p2) \<leftarrow> write_at (objectaddress h1 + sizeof_gxObjectHeader + 8) m p1;
         Some (ok2, h1, p2)
       }
     }
   }"

definition ChangeMember :: "hog_type \<Rightarrow> byte list \<Rightarrow> nat \<Rightarrow> bool \<Rightarrow> hog_state \<Rightarrow> (bool \<times> hog_state) option" where
  "ChangeMember T ob i find_obj s =
     (if i = 0 then
        (if length ob < type_size T then None else ChangeKeyMember T (take (type_size T) ob) find_obj s)
      else do {
        (ok, h, p) \<leftarrow> find_and_read T find_obj s;
        if \<not> ok then Some (False, h, p)
        else do {
          m \<leftarrow> member_at i h;
          if length ob \<noteq> length m then do {
            (ok1, h1, p1) \<leftarrow> hog_Delete T (h, p);
            if \<not> ok1 then Some (False, h1, p1)
            else hog_WriteObject T True (snd (SetMember ob i h1), p1)
          }
          else do {
            _ \<leftarrow> the_pod h p;
            let a = objectaddress h + sizeof_gxObjectHeader + 4 +
                    (\<Sum>x\<leftarrow>take i (ih_members h). 4 + int (length x));
            (e, p1) \<leftarrow> data_SeekTo a p;
            if e \<noteq> gxDBASE_NO_ERROR then Some (False, h, p1)
            else do {
              let h1 = snd (SetMember ob i h);
              m1 \<leftarrow> member_at i h1;
              (ok2, p2) \<leftarrow> write_at (a + 4) (take (length ob) m1) p1;
              Some (ok2, h1, p2)
            }
          }
        }
      })"

text \<open>The address moves over a member only when the member was written.\<close>

fun change_members :: "InfoHog \<Rightarrow> nat \<Rightarrow> nat \<Rightarrow> int \<Rightarrow> hog_state \<Rightarrow> (bool \<times> hog_state) option" where
  "change_members ob 0 i member_address s = Some (True, s)"
| "change_members ob (Suc k) i member_address s = (case s of (h, p) \<Rightarrow> do {
     let a = member_address + 4;
     (e, p1) \<leftarrow> data_SeekTo a p;
     if e \<noteq> gxDBASE_NO_ERROR then Some (False, h, p1)
     else do {
       new \<leftarrow> member_at i ob;
       old \<leftarrow> member_at i h;
       let n = to_u32 (int (length new));
       if n > 0 \<and> old \<noteq> new then do {
         let h1 = snd (SetMember (take (nat n) new) i h);
         m \<leftarrow> member_at i h1;
         (e2, p2) \<leftarrow> data_Write (take (nat n) m) gxCurrAddress p1;
         if e2 \<noteq> gxDBASE_NO_ERROR then Some (False, h1, p2)
         else change_members ob k (i + 1) (a + n) (h1, p2)
       }
       else change_members ob k (i + 1) a (h, p1)
     }
   })"

definition ChangeObject :: "hog_type \<Rightarrow> InfoHog \<Rightarrow> bool \<Rightarrow> hog_state \<Rightarrow> (bool \<times> hog_state) option" where
  "ChangeObject T ob find_obj s = do {
     (ok, h, p) \<leftarrow> find_and_read T find_obj s;
     if \<not> ok then Some (False, h, p)
     else if hog_equal h ob then Some (True, h, p)
     else if hog_ObjectLength h \<noteq> hog_ObjectLength ob \<or> hog_num h \<noteq> hog_num ob then do {
       (ok1, h1, p1) \<leftarrow> hog_Delete T (h, p);
       if \<not> ok1 then Some (False, h1, p1)
       else do {
         h2 \<leftarrow> Copy_hog ob True h1;
         hog_WriteObject T True (h2, p1)
       }
     }
     else do {
       m0 \<leftarrow> member_at 0 h;
       n0 \<leftarrow> member_at 0 ob;
       (ok1, h1, p1) \<leftarrow> (if m0 \<noteq> n0 then ChangeMember T n0 0 True (h, p) else Some (True, h, p));
       if \<not> ok1 then Some (False, h1, p1)
       else do {
         m1 \<leftarrow> member_at 0 h1;
         let a = objectaddress h1 + sizeof_gxObjectHeader + 8 + int (length m1);
         (e, p2) \<leftarrow> data_SeekTo a p1;
         if e \<noteq> gxDBASE_NO_ERROR then Some (False, h1, p2)
         else change_members ob (hog_num h1 - 1) 1 a (h1, p2)
       }
     }
   }"

end
