(* ===== verification/PersistProps.thy ===== *)
theory PersistProps
  imports Persist BtCodec Samples
begin

text \<open>
  Properties of persistent objects: an object written to the data file is read back from there; a
  string written by \<open>WriteString\<close> is in the file, but \<open>ReadString\<close> does not read it.
\<close>

section \<open>The data file of a manager\<close>

definition with_data :: "gxDatabase \<Rightarrow> POD \<Rightarrow> POD" where
  "with_data db p = p\<lparr>opendatafile := Some db, pod_fs := db_fs db\<rparr>"

lemma on_data_with [simp]:
  "on_data g (with_data db p) = (case g db of (r, db1) \<Rightarrow> Some (r, with_data db1 p))"
  by (simp add: on_data_def with_data_def db_with_def split: prod.splits)

text \<open>The data file sees the file system as it is now.\<close>

lemma on_data_now:
  assumes "opendatafile p = Some d"
  shows "on_data g p = on_data g (with_data (db_with (pod_fs p) d) p)"
  by (simp add: on_data_def with_data_def assms db_with_def split: prod.splits)

lemma put_tree_data: "put_tree i t p = Some p1 \<Longrightarrow> opendatafile p1 = opendatafile p"
  by (auto simp: put_tree_def split: Option.bind_splits)

lemma on_index_data: "on_index i g p = Some (r, p1) \<Longrightarrow> opendatafile p1 = opendatafile p"
  by (auto simp: on_index_def put_tree_data split: Option.bind_splits)

lemma GetDataFileError_with [simp]: "GetDataFileError (with_data db p) = gxd_error db"
  by (simp add: GetDataFileError_def with_data_def)

lemma UsingIndex_with [simp]: "UsingIndex (with_data db p) = UsingIndex p"
  by (simp add: UsingIndex_def with_data_def)

text \<open>\<open>x\<close> was written at the current place, or read from there.\<close>

definition same_db :: "gxDatabase \<Rightarrow> gxDatabase \<Rightarrow> bool" where
  "same_db db db' \<longleftrightarrow> file_header db' = file_header db \<and> file_stats_header db' = file_stats_header db \<and>
     rev_letter db' = rev_letter db \<and> (readable db \<longrightarrow> readable db') \<and> (\<forall>n. writable n db \<longrightarrow> writable n db')"

definition written :: "gxDatabase \<Rightarrow> byte list \<Rightarrow> gxDatabase \<Rightarrow> bool" where
  "written db x db' \<longleftrightarrow> same_db db db' \<and> gxd_error db' = gxDBASE_NO_ERROR \<and>
     dbytes db' = put_at (dbytes db) (dpos db) x \<and> dpos db' = dpos db + length x"

definition passed :: "gxDatabase \<Rightarrow> nat \<Rightarrow> gxDatabase \<Rightarrow> bool" where
  "passed db n db' \<longleftrightarrow> same_db db db' \<and> gxd_error db' = gxDBASE_NO_ERROR \<and>
     dbytes db' = dbytes db \<and> dpos db' = dpos db + n"

lemma same_db_refl [simp]: "same_db db db"
  by (simp add: same_db_def)

lemma same_db_trans: "same_db a b \<Longrightarrow> same_db b c \<Longrightarrow> same_db a c"
  by (simp add: same_db_def)

lemma same_db_moved [simp]: "same_db db db' \<Longrightarrow> same_db db (moved p op db')"
  "same_db db db' \<Longrightarrow> same_db db (stored q d db')"
  by (auto simp: same_db_def)

lemma written_trans: "written a x b \<Longrightarrow> written b y c \<Longrightarrow> written a (x @ y) c"
  by (auto simp: written_def put_at_append intro: same_db_trans)

lemma passed_trans: "passed a m b \<Longrightarrow> passed b n c \<Longrightarrow> passed a (m + n) c"
  by (auto simp: passed_def intro: same_db_trans)

lemma data_Write_cur:
  assumes "writable (dpos db + length x) db"
  shows "\<exists>db'. data_Write x gxCurrAddress (with_data db p) = Some (gxDBASE_NO_ERROR, with_data db' p) \<and> written db x db'"
  using assms
  by (intro exI [of _ "moved (dpos db + length x) gxDBASE_WRITE (stored (dpos db) x db)"])
    (simp add: data_Write_def engine_simps written_def)

lemma data_Read_cur:
  assumes "readable db" "dpos db + length x \<le> length (dbytes db)"
  shows "\<exists>db'. data_Read x gxCurrAddress (with_data db p) =
      Some ((gxDBASE_NO_ERROR, bytes_at (dbytes db) (dpos db) (length x)), with_data db' p) \<and> passed db (length x) db'"
  using assms
  by (intro exI [of _ "moved (dpos db + length x) gxDBASE_READ db"])
    (simp add: data_Read_def engine_simps passed_def)

section \<open>The members of an object\<close>

definition enc_member :: "byte list \<Rightarrow> byte list" where
  "enc_member m = gxUINT32_UnPackBits (int (length m)) @ m"

definition enc_members :: "byte list list \<Rightarrow> byte list" where
  "enc_members ms = concat (map enc_member ms)"

definition hog_image :: "InfoHog \<Rightarrow> int \<Rightarrow> byte list" where
  "hog_image h a = enc_gxObjectHeader \<lparr>oh_ClassID = hog_class h, oh_ObjectID = a\<rparr> @
     gxUINT32_UnPackBits (int (hog_num h)) @ enc_members (take (hog_num h) (ih_members h))"

lemma enc_members_simps [simp]:
  "enc_members [] = []" "enc_members (m # ms) = enc_member m @ enc_members ms"
  by (simp_all add: enc_members_def)

lemma write_members_ok:
  assumes "writable (dpos db + length (enc_members ms)) db" "\<forall>m \<in> set ms. in_u32 (int (length m))"
  shows "\<exists>db'. write_members ms (with_data db p) = Some (gxDBASE_NO_ERROR, with_data db' p) \<and>
    (ms = [] \<and> db' = db \<or> written db (enc_members ms) db')"
  using assms
proof (induction ms arbitrary: db)
  case (Cons m ms)
  let ?n = "gxUINT32_UnPackBits (int (length m))"
  have n: "to_u32 (int (length m)) = int (length m)" using Cons.prems(2) by (simp add: in_u32_def)
  have w: "writable (dpos db + length ?n) db" "writable (dpos db + length (enc_member m)) db"
    using Cons.prems(1) by (auto simp: enc_member_def elim!: writable_mono)
  obtain d1 where d1: "data_Write ?n gxCurrAddress (with_data db p) = Some (gxDBASE_NO_ERROR, with_data d1 p)"
    "written db ?n d1" using data_Write_cur [OF w(1)] by blast
  obtain d2 where d2: "(if m \<noteq> [] then data_Write m gxCurrAddress (with_data d1 p)
      else Some (gxDBASE_NO_ERROR, with_data d1 p)) = Some (gxDBASE_NO_ERROR, with_data d2 p)"
    "written db (enc_member m) d2"
  proof (cases "m = []")
    case True
    then show ?thesis using that [of d1] d1(2) by (simp add: enc_member_def)
  next
    case False
    have "writable (dpos d1 + length m) d1"
      using w(2) d1(2) by (auto simp: written_def same_db_def enc_member_def add.assoc)
    from data_Write_cur [OF this, of p] show ?thesis
      using that False written_trans [OF d1(2)] by (auto simp: enc_member_def)
  qed
  have "writable (dpos d2 + length (enc_members ms)) d2"
    using Cons.prems(1) d2(2) by (auto simp: written_def same_db_def add.assoc)
  with Cons.IH [of d2] Cons.prems(2) obtain d3 where
    d3: "write_members ms (with_data d2 p) = Some (gxDBASE_NO_ERROR, with_data d3 p)"
      "ms = [] \<and> d3 = d2 \<or> written d2 (enc_members ms) d3" by auto
  have "write_members (m # ms) (with_data db p) = Some (gxDBASE_NO_ERROR, with_data d3 p)"
    using d1(1) d2(1) d3(1) n by (cases "m = []") (simp_all add: Let_def)
  then show ?case using d3(2) d2(2) written_trans [OF d2(2)] by auto
qed (auto intro: exI)

text \<open>The members \<open>ms\<close> that are read over the members \<open>old\<close>: one of length zero leaves what there was.\<close>

definition overlay :: "byte list list \<Rightarrow> byte list list \<Rightarrow> byte list list" where
  "overlay old ms = map2 (\<lambda>x m. if m = [] then x else m) old ms"

lemma overlay_nth:
  "length ms \<le> length old \<Longrightarrow> i < length ms \<Longrightarrow> overlay old ms ! i = (if ms ! i = [] then old ! i else ms ! i)"
  by (simp add: overlay_def)

lemma read_members_ok:
  assumes "readable db" "dpos db + length (enc_members ms) \<le> length (dbytes db)"
    "bytes_at (dbytes db) (dpos db) (length (enc_members ms)) = enc_members ms"
    "\<forall>m \<in> set ms. in_u32 (int (length m)) \<and> int (length m) \<le> eof"
    "0 \<le> eof" "i + length ms \<le> length (ih_members h)"
  shows "\<exists>db'. read_members eof (length ms) i (h, with_data db p) =
    Some (gxDBASE_NO_ERROR,
      h\<lparr>ih_members := take i (ih_members h) @ overlay (drop i (ih_members h)) ms @ drop (i + length ms) (ih_members h)\<rparr>,
      with_data db' p)"
  using assms
proof (induction ms arbitrary: i h db)
  case (Cons m ms)
  let ?x = "enc_member m" and ?l = "length (enc_member m)" and ?old = "ih_members h ! i"
  let ?h = "h\<lparr>ih_members := (ih_members h)[i := if m = [] then ?old else m]\<rparr>"
  have le: "dpos db + ?l + length (enc_members ms) \<le> length (dbytes db)" using Cons.prems(2) by simp
  have both: "bytes_at (dbytes db) (dpos db) (?l + length (enc_members ms)) = ?x @ enc_members ms"
    using Cons.prems(3) by simp
  have x: "bytes_at (dbytes db) (dpos db) ?l = ?x" "bytes_at (dbytes db) (dpos db + ?l) (length (enc_members ms)) = enc_members ms"
    using both le unfolding bytes_at_append by (auto simp: append_eq_append_conv)
  have n4: "length (gxUINT32_UnPackBits (int (length m))) = 4" by simp
  have y: "bytes_at (dbytes db) (dpos db) 4 = gxUINT32_UnPackBits (int (length m))"
    "bytes_at (dbytes db) (dpos db + 4) (length m) = m"
    using x(1) le n4 unfolding enc_member_def length_append n4 bytes_at_append
    by (auto simp: append_eq_append_conv)
  obtain d1 where d1: "data_Read (replicate 4 0) gxCurrAddress (with_data db p) =
      Some ((gxDBASE_NO_ERROR, gxUINT32_UnPackBits (int (length m))), with_data d1 p)" "passed db 4 d1"
    using data_Read_cur [of db "replicate 4 0" p] Cons.prems(1) le y(1) by (auto simp: enc_member_def)
  have k: "gxUINT32_PackBits (gxUINT32_UnPackBits (int (length m))) = int (length m)"
    using Cons.prems(4) by (simp add: gxUINT32_wraps in_u32_def)
  have i: "i < length (ih_members h)" using Cons.prems(6) by simp
  then have old: "member_at i h = Some ?old" by (simp add: member_at_def)
  obtain d2 where d2: "read_members eof (Suc (length ms)) i (h, with_data db p) =
      read_members eof (length ms) (i + 1) (?h, with_data d2 p)" "passed db ?l d2"
  proof (cases "m = []")
    case True
    then have "?h = h" by simp
    then show ?thesis using that [of d1] d1 k Cons.prems(5) True by (simp add: enc_member_def Let_def)
  next
    case False
    let ?buf = "take (length m) ?old @ replicate (length m - length ?old) 0"
    have l: "length ?buf = length m" by simp
    have r: "readable d1" "dpos d1 + length ?buf \<le> length (dbytes d1)" "dbytes d1 = dbytes db" "dpos d1 = dpos db + 4"
      unfolding l using d1(2) Cons.prems(1) le by (auto simp: passed_def same_db_def enc_member_def)
    obtain d2 where "data_Read ?buf gxCurrAddress (with_data d1 p) = Some ((gxDBASE_NO_ERROR, m), with_data d2 p)"
        "passed d1 (length m) d2"
      using data_Read_cur [OF r(1,2), of p] r(3,4) y(2) unfolding l by auto
    then show ?thesis
      using that [of d2] d1 k Cons.prems(4,5) False old passed_trans [OF d1(2)]
      by (auto simp: enc_member_def Let_def)
  qed
  have ih: "\<exists>db'. read_members eof (length ms) (i + 1) (?h, with_data d2 p) =
    Some (gxDBASE_NO_ERROR,
      ?h\<lparr>ih_members := take (i + 1) (ih_members ?h) @ overlay (drop (i + 1) (ih_members ?h)) ms @
        drop (i + 1 + length ms) (ih_members ?h)\<rparr>, with_data db' p)"
    using d2(2) Cons.prems le x(2) by (intro Cons.IH) (auto simp: passed_def same_db_def add.assoc)
  have eq: "take (i + 1) (ih_members ?h) @ overlay (drop (i + 1) (ih_members ?h)) ms @
        drop (i + 1 + length ms) (ih_members ?h) =
      take i (ih_members h) @ overlay (drop i (ih_members h)) (m # ms) @ drop (i + length (m # ms)) (ih_members h)"
  proof -
    have "drop i (ih_members h) = ?old # drop (i + 1) (ih_members h)" using i by (simp add: Cons_nth_drop_Suc)
    then show ?thesis using i by (simp add: take_Suc_conv_app_nth overlay_def)
  qed
  show ?case using ih unfolding eq d2(1) [symmetric] by simp
qed (auto simp: overlay_def intro: exI)

section \<open>An object in its block\<close>

text \<open>
  An object that can be written: its name is a value of the template parameter, and its length has 16 bits. The array
  may be longer than the number of members that are used.
\<close>

definition hog_fit :: "hog_type \<Rightarrow> InfoHog \<Rightarrow> bool" where
  "hog_fit T h \<longleftrightarrow>
     0 < hog_num h \<and> hog_num h \<le> InfoHogMaxMembers \<and> hog_num h \<le> length (ih_members h) \<and>
     0 < type_size T \<and> length (ih_members h ! 0) = type_size T \<and> in_s64 (hog_class h) \<and>
     4 + 4 * int (hog_num h) + (\<Sum>m\<leftarrow>take (hog_num h) (ih_members h). int (length m)) < 2 ^ 16"

lemma length_enc_members: "int (length (enc_members ms)) = 4 * int (length ms) + (\<Sum>m\<leftarrow>ms. int (length m))"
  by (induction ms) (simp_all add: enc_member_def)

lemma length_enc_gxObjectHeader [simp]: "length (enc_gxObjectHeader oh) = 16"
  by (simp add: enc_gxObjectHeader_def)

lemma dec_enc_gxObjectHeader:
  assumes "in_s64 (oh_ClassID oh)" "in_s64 (oh_ObjectID oh)"
  shows "dec_gxObjectHeader (enc_gxObjectHeader oh) = oh"
  using assms by (simp add: dec_gxObjectHeader_def enc_gxObjectHeader_def bytes_at_def s64.dec_enc)

lemma hog_image_length:
  assumes "hog_fit T h"
  shows "int (length (hog_image h a)) = sizeof_gxObjectHeader + hog_ObjectLength h"
    and "m \<in> set (take (hog_num h) (ih_members h)) \<Longrightarrow> length m \<le> length (hog_image h a) \<and> in_u32 (int (length m))"
proof -
  have l: "int (length (hog_image h a)) =
      16 + (4 + 4 * int (hog_num h) + (\<Sum>m\<leftarrow>take (hog_num h) (ih_members h). int (length m)))"
    using assms by (simp add: hog_fit_def hog_image_def length_enc_members)
  have sum: "(\<Sum>m\<leftarrow>ms. int (length m)) = int (sum_list (map length ms))" for ms :: "byte list list"
    by (induction ms) simp_all
  have nn: "0 \<le> (\<Sum>m\<leftarrow>take (hog_num h) (ih_members h). int (length m))" unfolding sum by simp
  show "int (length (hog_image h a)) = sizeof_gxObjectHeader + hog_ObjectLength h"
    unfolding l using assms nn by (simp add: hog_fit_def hog_ObjectLength_def sizeof_gxObjectHeader_def)
  assume "m \<in> set (take (hog_num h) (ih_members h))"
  then have "int (length m) \<le> (\<Sum>m\<leftarrow>take (hog_num h) (ih_members h). int (length m))"
    unfolding sum by (simp add: member_le_sum_list)
  then show "length m \<le> length (hog_image h a) \<and> in_u32 (int (length m))"
    using l assms by (auto simp: hog_fit_def in_u32_def)
qed

lemma write_object_ok:
  assumes fit: "hog_fit T h" and w: "writable (dpos db + length (hog_image h a)) db"
  shows "\<exists>db'. write_object h a (with_data db p) = Some (gxDBASE_NO_ERROR, with_data db' p) \<and>
    written db (hog_image h a) db'"
proof -
  let ?oh = "enc_gxObjectHeader \<lparr>oh_ClassID = hog_class h, oh_ObjectID = a\<rparr>"
  let ?n = "gxUINT32_UnPackBits (int (hog_num h))" and ?ms = "take (hog_num h) (ih_members h)"
  have im: "hog_image h a = (?oh @ ?n) @ enc_members ?ms" by (simp add: hog_image_def)
  have n: "to_u32 (int (hog_num h)) = int (hog_num h)" using fit by (simp add: hog_fit_def InfoHogMaxMembers_def)
  have "writable (dpos db + length ?oh) db" using w by (rule writable_mono) (simp add: im)
  from data_Write_cur [OF this, of p] obtain d1 where
    d1: "data_Write ?oh gxCurrAddress (with_data db p) = Some (gxDBASE_NO_ERROR, with_data d1 p)" "written db ?oh d1"
    by blast
  have "writable (dpos d1 + length ?n) d1"
    using writable_mono [OF w, of "dpos db + length ?oh + length ?n"] d1(2)
    by (auto simp: im written_def same_db_def)
  from data_Write_cur [OF this, of p] obtain d2 where
    d2: "data_Write ?n gxCurrAddress (with_data d1 p) = Some (gxDBASE_NO_ERROR, with_data d2 p)" "written d1 ?n d2"
    by blast
  have w2: "written db (?oh @ ?n) d2" using written_trans [OF d1(2) d2(2)] .
  have "writable (dpos d2 + length (enc_members ?ms)) d2"
    using w w2 by (auto simp: im written_def same_db_def add.assoc)
  then obtain d3 where d3: "write_members ?ms (with_data d2 p) = Some (gxDBASE_NO_ERROR, with_data d3 p)"
    "?ms = [] \<and> d3 = d2 \<or> written d2 (enc_members ?ms) d3"
    using write_members_ok [of d2 ?ms p] hog_image_length(2) [OF fit] by blast
  have "?ms \<noteq> []" using fit by (auto simp: hog_fit_def)
  then have "written db (hog_image h a) d3" using d3(2) written_trans [OF w2] by (simp add: im)
  then show ?thesis
    using d1(1) d2(1) d3(1) by (auto simp: write_object_def WriteObjectHeader_def n)
qed

lemma data_Read_at:
  assumes "readable db" "0 \<le> a" "nat a + length x \<le> length (dbytes db)"
  shows "data_Read x a (with_data db p) = Some ((gxDBASE_NO_ERROR, bytes_at (dbytes db) (nat a) (length x)),
    with_data (moved (nat a + length x) gxDBASE_READ db) p)"
  using assms by (simp add: data_Read_def engine_simps)

text \<open>The members of an object are never fewer than the number it uses, whatever was done with it.\<close>

definition hog_array_ok :: "InfoHog \<Rightarrow> bool" where
  "hog_array_ok h \<longleftrightarrow> hog_num h \<le> length (ih_members h)"

lemma hog_array_ok_ops [simp]:
  "hog_array_ok new_InfoHog" "hog_array_ok h \<Longrightarrow> hog_array_ok (AllocMembers n h)" "hog_array_ok (DeleteMembers h)"
  "hog_array_ok (InfoHog_of DB n)" "hog_array_ok h \<Longrightarrow> hog_array_ok (snd (SetMember ob i h))" "hog_array_ok (InfoHog_keyed DB k n)"
  by (auto simp: hog_array_ok_def new_InfoHog_def AllocMembers_def DeleteMembers_def InfoHog_of_def SetMember_def
      InfoHog_keyed_def Connect_persistent_def Let_def InfoHogMinMembers_def)

text \<open>
  \<open>g\<close> after an object with the members of \<open>h\<close> was read into it: the array is kept when it is there and long
  enough, and then a member that is empty in the file keeps what it had.
\<close>

definition hog_read_into :: "InfoHog \<Rightarrow> InfoHog \<Rightarrow> int \<Rightarrow> InfoHog" where
  "hog_read_into g h a =
     (let k = AllocMembers (hog_num h) g; ms = take (hog_num h) (ih_members h)
      in k\<lparr>ih_members := overlay (ih_members k) ms @ drop (hog_num h) (ih_members k), objectaddress := a\<rparr>)"

lemma AllocMembers_for:
  assumes "0 < n" "n \<le> InfoHogMaxMembers" "hog_array_ok g"
  shows "hog_num (AllocMembers n g) = n" "n \<le> length (ih_members (AllocMembers n g))"
    "hog_class (AllocMembers n g) = hog_class g" "gp_pod (AllocMembers n g) = gp_pod g"
    "ih_members (AllocMembers n g) = (if ih_members g \<noteq> [] \<and> n \<le> hog_num g then ih_members g else replicate n [])"
  using assms by (auto simp: AllocMembers_def hog_array_ok_def Let_def)

lemma hog_read_into_members:
  assumes "hog_fit T h" "hog_array_ok g"
  shows "hog_num (hog_read_into g h a) = hog_num h" "objectaddress (hog_read_into g h a) = a"
    "i < hog_num h \<Longrightarrow> ih_members (hog_read_into g h a) ! i =
      (if ih_members h ! i = [] \<and> ih_members g \<noteq> [] \<and> hog_num h \<le> hog_num g then ih_members g ! i else ih_members h ! i)"
proof -
  have h: "0 < hog_num h" "hog_num h \<le> InfoHogMaxMembers" "hog_num h \<le> length (ih_members h)"
    using assms(1) by (simp_all add: hog_fit_def)
  note A = AllocMembers_for [OF h(1,2) assms(2)]
  show "hog_num (hog_read_into g h a) = hog_num h" "objectaddress (hog_read_into g h a) = a"
    by (simp_all add: hog_read_into_def Let_def A(1))
  assume i: "i < hog_num h"
  let ?k = "ih_members (AllocMembers (hog_num h) g)" and ?ms = "take (hog_num h) (ih_members h)"
  have l: "length ?ms = hog_num h" "length (overlay ?k ?ms) = hog_num h" using h(3) A(2) by (simp_all add: overlay_def)
  then have "ih_members (hog_read_into g h a) ! i = overlay ?k ?ms ! i"
    using i by (simp add: hog_read_into_def Let_def nth_append)
  also have "\<dots> = (if ?ms ! i = [] then ?k ! i else ?ms ! i)" using A(2) l(1) i by (intro overlay_nth) auto
  also have "\<dots> = (if ih_members h ! i = [] \<and> ih_members g \<noteq> [] \<and> hog_num h \<le> hog_num g then ih_members g ! i
      else ih_members h ! i)"
    using i by (simp add: A(5))
  finally show "ih_members (hog_read_into g h a) ! i =
      (if ih_members h ! i = [] \<and> ih_members g \<noteq> [] \<and> hog_num h \<le> hog_num g then ih_members g ! i else ih_members h ! i)" .
qed

lemma hog_Read_ok:
  assumes db: "readable db" "synced db" "header_ok db" and a: "0 \<le> a" "in_s64 a"
    and fit: "hog_fit T h" and g: "gp_pod g" "hog_class g = hog_class h" "hog_array_ok g"
    and im: "nat a + length (hog_image h a) \<le> length (dbytes db)"
      "bytes_at (dbytes db) (nat a) (length (hog_image h a)) = hog_image h a"
    and e: "int (length (hog_image h a)) \<le> gxd_eof (file_header db)"
  shows "\<exists>db'. hog_Read T a (g, with_data db p) = Some (gxDBASE_NO_ERROR, hog_read_into g h a, with_data db' p)"
proof -
  let ?oh = "\<lparr>oh_ClassID = hog_class h, oh_ObjectID = a\<rparr>" and ?eof = "gxd_eof (file_header db)"
  let ?n = "gxUINT32_UnPackBits (int (hog_num h))" and ?ms = "take (hog_num h) (ih_members h)"
  let ?g = "AllocMembers (hog_num h) g"
  have num: "0 < hog_num h" "hog_num h \<le> 255" "length ?ms = hog_num h" and cls: "in_s64 (hog_class h)"
    and nm: "length (ih_members h ! 0) = type_size T" "0 < type_size T"
    using fit by (auto simp: hog_fit_def InfoHogMaxMembers_def)
  have A: "hog_num ?g = hog_num h" "hog_num h \<le> length (ih_members ?g)"
    using AllocMembers_for(1,2) [of "hog_num h" g] num g(3) by (simp_all add: InfoHogMaxMembers_def)
  have im3: "hog_image h a = enc_gxObjectHeader ?oh @ ?n @ enc_members ?ms" by (simp add: hog_image_def)
  have n4: "length ?n = 4" by simp
  have parts: "bytes_at (dbytes db) (nat a) 16 = enc_gxObjectHeader ?oh"
    "bytes_at (dbytes db) (nat a + 16) 4 = ?n"
    "bytes_at (dbytes db) (nat a + 20) (length (enc_members ?ms)) = enc_members ?ms"
  proof -
    have "bytes_at (dbytes db) (nat a) (16 + (4 + length (enc_members ?ms))) =
        enc_gxObjectHeader ?oh @ ?n @ enc_members ?ms" using im(2) by (simp add: im3)
    then show "bytes_at (dbytes db) (nat a) 16 = enc_gxObjectHeader ?oh"
      "bytes_at (dbytes db) (nat a + 16) 4 = ?n"
      "bytes_at (dbytes db) (nat a + 20) (length (enc_members ?ms)) = enc_members ?ms"
      using im(1) unfolding bytes_at_append by (auto simp: im3 append_eq_append_conv add.commute)
  qed
  define d1 where "d1 = moved (nat a) gxDBASE_SEEK (moved 50 gxDBASE_READ db)"
  define d2 where "d2 = moved (nat a + 16) gxDBASE_READ d1"
  have d: "readable d1" "dbytes d1 = dbytes db" "readable d2" "dbytes d2 = dbytes db" "dpos d2 = nat a + 16"
    using db(1) by (simp_all add: d1_def d2_def)
  have r1: "on_data GetEOF (with_data db p) = Some (?eof, with_data (moved 50 gxDBASE_READ db) p)"
    using db by (simp add: engine_simps)
  have r2: "data_SeekTo a (with_data (moved 50 gxDBASE_READ db) p) = Some (gxDBASE_NO_ERROR, with_data d1 p)"
    using db(1) a(1) by (simp add: data_SeekTo_def d1_def engine_simps)
  have r3: "ReadObjectHeader new_gxObjectHeader a (with_data d1 p) = Some ((gxDBASE_NO_ERROR, ?oh), with_data d2 p)"
    using data_Read_at [OF d(1) a(1), of "enc_gxObjectHeader new_gxObjectHeader" p] im(1) parts(1) d cls a(2)
    by (simp add: ReadObjectHeader_def im3 d2_def dec_enc_gxObjectHeader)
  obtain d3 where r4: "data_Read (replicate 4 0) gxCurrAddress (with_data d2 p) =
      Some ((gxDBASE_NO_ERROR, ?n), with_data d3 p)" "passed d2 4 d3"
    using data_Read_cur [OF d(3), of "replicate 4 0" p] d im(1) parts(2) by (auto simp: im3)
  have k: "gxUINT32_PackBits ?n = int (hog_num h)" using num by (simp add: gxUINT32_wraps)
  have small: "int (length m) \<le> ?eof" "in_u32 (int (length m))" if "m \<in> set ?ms" for m
    using hog_image_length(2) [OF fit that, of a] e by auto
  have "\<exists>db'. read_members ?eof (length ?ms) 0 (?g, with_data d3 p) = Some (gxDBASE_NO_ERROR,
      ?g\<lparr>ih_members := take 0 (ih_members ?g) @ overlay (drop 0 (ih_members ?g)) ?ms @ drop (0 + length ?ms) (ih_members ?g)\<rparr>,
      with_data db' p)"
    using r4(2) d parts(3) im(1) num(3) small e A(2)
    by (intro read_members_ok) (auto simp: passed_def same_db_def im3 add.commute)
  then obtain d4 where r5: "read_members ?eof (hog_num ?g) 0 (?g, with_data d3 p) =
      Some (gxDBASE_NO_ERROR, ?g\<lparr>ih_members := overlay (ih_members ?g) ?ms @ drop (hog_num h) (ih_members ?g)\<rparr>, with_data d4 p)"
    using num(3) A(1) by auto
  let ?r = "?g\<lparr>ih_members := overlay (ih_members ?g) ?ms @ drop (hog_num h) (ih_members ?g)\<rparr>"
  have ne: "ih_members h ! 0 \<noteq> []" using nm by auto
  have "0 < length (overlay (ih_members ?g) ?ms)" "overlay (ih_members ?g) ?ms ! 0 = ih_members h ! 0"
    using num A(2) ne overlay_nth [of ?ms "ih_members ?g" 0] by (simp_all add: overlay_def)
  then have m0: "member_at 0 ?r = Some (ih_members h ! 0)" by (simp add: member_at_def nth_append)
  have res: "?r\<lparr>objectaddress := a\<rparr> = hog_read_into g h a" by (simp add: hog_read_into_def Let_def)
  show ?thesis
    using g(1,2) r1 r2 r3 r4(1) k r5 m0 nm num
    by (simp add: hog_Read_def the_pod_def InfoHogMaxMembers_def Let_def res [symmetric]) blast
qed

text \<open>A write to the data of a block keeps the heap, the other blocks and their data.\<close>

lemma payload_write_keeps:
  assumes ok: "heap_ok db bs fl" and x: "x \<in> set bs" and p: "x + 20 \<le> int p"
    "int p + int (length d) \<le> x + block_length (blk (dbytes db) x)"
    and s: "same_db db db'" "dbytes db' = put_at (dbytes db) p d"
  shows "heap_ok db' bs fl" and "stats_ok db bs \<Longrightarrow> stats_ok db' bs"
    and "y \<in> set bs \<Longrightarrow> blk (dbytes db') y = blk (dbytes db) y"
    and "y \<in> set bs \<Longrightarrow> y \<noteq> x \<Longrightarrow> data_at db' y = data_at db y"
proof -
  let ?f = "blk (dbytes db)"
  have m: "heap_meta db" and l: "heap_lists db ?f bs fl" and sy: "synced db" using ok by (auto simp: heap_ok_def)
  have t: "tiles db ?f bs" using l by (rule heap_tiles)
  note sp = tiles_spaced [OF m t x]
  have sz: "BlockHeaderSize db' = BlockHeaderSize db" "hdr_end db' = hdr_end db" "FileHeaderSize db' = FileHeaderSize db"
    using s(1) by (simp_all add: same_db_def BlockHeaderSize_def hdr_end_def FileHeaderSize_def Let_def)
  have len: "length (dbytes db) \<le> length (dbytes db')" by (simp add: s(2) length_put_at_mono)
  have blks: "blk (dbytes db') y = ?f y" if "y \<in> set bs" for y
  proof (cases "y = x")
    case True
    then show ?thesis using sp p(1) unfolding s(2) by (intro blk_put_other) auto
  next
    case False
    then show ?thesis using p tiles_write_inside(1) [OF m t x that] by (simp add: s(2))
  qed
  have m': "heap_meta db'" using m s(1) sz len by (auto simp: heap_meta_def same_db_def header_ok_def)
  have "0 + 50 \<le> p" "50 \<le> hdr_end db" "0 + 50 \<le> length (dbytes db)"
    using p(1) sp(2) sy by (auto simp: hdr_end_def synced_def split: if_splits)
  then have sy': "synced db'" using sy s(1) sz len bytes_at_put_below [of 0 50 p "dbytes db" d]
    unfolding synced_def s(2) by (simp add: same_db_def)
  have l': "heap_lists db' ?f bs fl" using l s(1) sz by (simp add: heap_lists_def same_db_def)
  have sh: "shows_map db' ?f (set bs)" using blks by (simp add: shows_map_def)
  show "heap_ok db' bs fl" using m' sy' l' sh by (rule heap_okI)
  show "stats_ok db bs \<Longrightarrow> stats_ok db' bs"
    using s(1) sh by (intro stats_okI [where f = ?f]) (auto simp: stats_ok_def stats_for_def same_db_def)
  show "y \<in> set bs \<Longrightarrow> blk (dbytes db') y = ?f y" by (rule blks)
  assume y: "y \<in> set bs" "y \<noteq> x"
  have "payload (dbytes db') y (block_length (?f y)) = payload (dbytes db) y (block_length (?f y))"
    unfolding s(2) using p by (intro tiles_write_inside(2) [OF m t x y]) auto
  then show "data_at db' y = data_at db y" using blks [OF y(1)] by (simp add: data_at_def)
qed

lemma on_data_opt_with [simp]:
  "on_data_opt g (with_data db p) =
    (case g db of None \<Rightarrow> None | Some (r, db1) \<Rightarrow> Some (r, with_data db1 p))"
  by (simp add: on_data_opt_def with_data_def db_with_def split: option.splits prod.splits)

lemma hog_Read_now:
  assumes "opendatafile p = Some d" "gp_pod g"
  shows "hog_Read T a (g, p) = hog_Read T a (g, with_data (db_with (pod_fs p) d) p)"
  using on_data_now [OF assms(1), of GetEOF] assms(2)
  by (simp add: hog_Read_def the_pod_def del: on_data_with)

text \<open>The key of an object that was written goes to the index, when one is used; the data file stays as it is.\<close>

lemma hog_Write_cases:
  assumes fit: "hog_fit T h" and "gp_pod h" and a: "a \<noteq> 0"
    and A: "Alloc (sizeof_gxObjectHeader + hog_ObjectLength h) gxDBASE_RECLAIM_FIRSTFIT db = Some (a, db1)"
    and W: "write_object h a (with_data db1 p) = Some (gxDBASE_NO_ERROR, with_data db2 p)"
  shows "\<not> UsingIndex p \<Longrightarrow>
      hog_Write T (h, with_data db p) = Some (gxDBASE_NO_ERROR, h\<lparr>objectaddress := a\<rparr>, with_data db2 p)"
    and "hog_Write T (h, with_data db p) = Some (e, h', p') \<Longrightarrow>
      h' = h\<lparr>objectaddress := a\<rparr> \<and> opendatafile p' = Some db2"
proof -
  have o: "opendatafile (with_data db2 p) = Some db2" by (simp add: with_data_def)
  show "\<not> UsingIndex p \<Longrightarrow>
      hog_Write T (h, with_data db p) = Some (gxDBASE_NO_ERROR, h\<lparr>objectaddress := a\<rparr>, with_data db2 p)"
    using assms by (simp add: hog_Write_def the_pod_def)
  show "hog_Write T (h, with_data db p) = Some (e, h', p') \<Longrightarrow>
      h' = h\<lparr>objectaddress := a\<rparr> \<and> opendatafile p' = Some db2"
    using assms o
    by (auto simp: hog_Write_def the_pod_def AddKey_def Let_def split: if_splits Option.bind_splits dest!: on_index_data)
qed

text \<open>
  C23: a persistent object whose length fits in 16 bits is written, always when the database has no index; with an
  index the call may also fail in the index, but whenever it returns, the object has a block of its own in
  the data file: the heap stays well-formed, and every block in use keeps its header and data. Reading
  the address that the object was given succeeds, into any object of the same class: that object then has as
  many members, and they are those that were written. A member of length zero is the exception: when
  the reading object had as many members before, it keeps its old one.
\<close>

theorem written_object_reads_back:
  assumes "heap_ok db bs fl" and "hog_fit T h" and "alloc_room (sizeof_gxObjectHeader + hog_ObjectLength h) db"
    and "gp_pod h" and "gp_pod g" and "hog_class g = hog_class h" and "hog_array_ok g"
  shows "(\<not> UsingIndex p \<longrightarrow> (\<exists>h' p'. hog_Write T (h, with_data db p) = Some (gxDBASE_NO_ERROR, h', p'))) \<and>
    (\<forall>e h' p'. hog_Write T (h, with_data db p) = Some (e, h', p') \<longrightarrow>
      (\<exists>a db' bs' fl' g' p''. h' = h\<lparr>objectaddress := a\<rparr> \<and> opendatafile p' = Some db' \<and> heap_ok db' bs' fl' \<and>
        (\<forall>y \<in> set bs. \<not> is_free (blk (dbytes db) y) \<longrightarrow>
           y \<in> set bs' \<and> blk (dbytes db') y = blk (dbytes db) y \<and> data_at db' y = data_at db y) \<and>
        hog_Read T a (g, p') = Some (gxDBASE_NO_ERROR, g', p'') \<and>
        hog_num g' = hog_num h \<and> objectaddress g' = a \<and>
        (\<forall>i < hog_num h. ih_members g' ! i =
           (if ih_members h ! i = [] \<and> ih_members g \<noteq> [] \<and> hog_num h \<le> hog_num g then ih_members g ! i
            else ih_members h ! i))))"
proof -
  let ?n = "sizeof_gxObjectHeader + hog_ObjectLength h"
  obtain x db1 bs' fl' where A: "Alloc ?n gxDBASE_RECLAIM_FIRSTFIT db = Some (x + BlockHeaderSize db, db1)"
    and res: "alloc_result db bs (with_overhead ?n db) x db1 bs' fl'"
    by (rule Alloc_refines [OF assms(1,3)])
  define a where "a = x + BlockHeaderSize db"
  have ok1: "heap_ok db1 bs' fl'" and xb: "x \<in> set bs'" and bx: "blk (dbytes db1) x = fresh_block (with_overhead ?n db)"
    and pos: "dpos db1 = nat a" "writable (length (dbytes db1)) db1"
    and old: "\<forall>y \<in> set bs. \<not> is_free (blk (dbytes db) y) \<longrightarrow>
      y \<in> set bs' \<and> y \<noteq> x \<and> blk (dbytes db1) y = blk (dbytes db) y \<and> data_at db1 y = data_at db y"
    using res by (auto simp: alloc_result_def a_def)
  note sp = tiles_spaced [OF _ heap_tiles, of db1 "blk (dbytes db1)" bs' fl' x]
  have m1: "heap_meta db1" and l1: "heap_lists db1 (blk (dbytes db1)) bs' fl'" using ok1 by (auto simp: heap_ok_def)
  have il: "int (length (hog_image h a)) = ?n" by (rule hog_image_length(1) [OF assms(2)])
  have bl: "block_length (blk (dbytes db1) x) = with_overhead ?n db"
    unfolding bx by (rule fresh_block_ok(3) [OF alloc_room_bytes(1) [OF assms(3)]])
  have big: "BlockHeaderSize db + ?n \<le> with_overhead ?n db"
    using with_overhead_eq [of ?n db] assms(3) il by (auto simp: alloc_room_def)
  have ax: "x + 20 \<le> a" "0 < a" using rev_sizes(4) [of db] sp(2) [OF m1 l1 xb] by (auto simp: a_def)
  have fits: "a + ?n \<le> x + block_length (blk (dbytes db1) x)" using big by (simp add: bl a_def)
  have inside: "a + ?n \<le> int (length (dbytes db1))" "a + ?n \<le> eof_of db1"
    using fits sp(3,9) [OF m1 l1 xb] by linarith+
  have "writable (dpos db1 + length (hog_image h a)) db1"
    using pos(2) by (rule writable_mono) (use pos(1) inside(1) il ax(2) in linarith)
  from write_object_ok [OF assms(2) this, of p] obtain db2 where
    W: "write_object h a (with_data db1 p) = Some (gxDBASE_NO_ERROR, with_data db2 p)"
      "written db1 (hog_image h a) db2" by blast
  have w2: "same_db db1 db2" "dbytes db2 = put_at (dbytes db1) (nat a) (hog_image h a)"
    using W(2) pos(1) by (auto simp: written_def)
  have pk: "x + 20 \<le> int (nat a)" "int (nat a) + int (length (hog_image h a)) \<le> x + block_length (blk (dbytes db1) x)"
    using ax fits il by auto
  note keep = payload_write_keeps [OF ok1 xb pk w2]
  have others: "\<forall>y \<in> set bs. \<not> is_free (blk (dbytes db) y) \<longrightarrow>
      y \<in> set bs' \<and> blk (dbytes db2) y = blk (dbytes db) y \<and> data_at db2 y = data_at db y"
    using old keep(3,4) by auto
  have a64: "in_s64 a" using ax(2) heap_bounds [OF m1 l1] inside(2) il by (intro in_s64_small) auto
  have rd: "\<exists>p''. hog_Read T a (g, p') = Some (gxDBASE_NO_ERROR, hog_read_into g h a, p'')"
    if "opendatafile p' = Some db2" for p'
  proof -
    let ?d = "db_with (pod_fs p') db2"
    have "heap_ok db2 bs' fl'" by (rule keep(1))
    then have "readable ?d" "synced ?d" "header_ok ?d"
      by (auto simp: heap_ok_def heap_meta_def db_with_def readable_def synced_def header_ok_def state_defs hdr_end_def
          FileHeaderSize_def Let_def)
    moreover have "dbytes ?d = dbytes db2" "file_header ?d = file_header db2" by (simp_all add: db_with_def state_defs)
    moreover have "nat a + length (hog_image h a) \<le> length (dbytes db2)" "int (length (hog_image h a)) \<le> eof_of db2"
      using inside il ax(2) w2 length_put_at_mono [of "dbytes db1" "nat a" "hog_image h a"] by (auto simp: same_db_def)
    moreover have "bytes_at (dbytes db2) (nat a) (length (hog_image h a)) = hog_image h a" by (simp add: w2(2))
    ultimately have "\<exists>db'. hog_Read T a (g, with_data ?d p') = Some (gxDBASE_NO_ERROR, hog_read_into g h a, with_data db' p')"
      using ax(2) by (intro hog_Read_ok [OF _ _ _ _ a64 assms(2,5-7)]) simp_all
    then show ?thesis unfolding hog_Read_now [OF that assms(5)] by blast
  qed
  note hw = hog_Write_cases [OF assms(2,4) _ A [folded a_def] W(1)] and gm = hog_read_into_members [OF assms(2,7)]
  show ?thesis
  proof (intro conjI impI allI)
    show "\<exists>h' p'. hog_Write T (h, with_data db p) = Some (gxDBASE_NO_ERROR, h', p')" if "\<not> UsingIndex p"
      using hw(1) [OF _ that] ax(2) by blast
    fix e h' p' assume "hog_Write T (h, with_data db p) = Some (e, h', p')"
    then have h: "h' = h\<lparr>objectaddress := a\<rparr>" "opendatafile p' = Some db2" using hw(2) ax(2) by auto
    then obtain p'' where r: "hog_Read T a (g, p') = Some (gxDBASE_NO_ERROR, hog_read_into g h a, p'')" using rd by blast
    show "\<exists>a db' bs' fl' g' p''. h' = h\<lparr>objectaddress := a\<rparr> \<and> opendatafile p' = Some db' \<and> heap_ok db' bs' fl' \<and>
        (\<forall>y \<in> set bs. \<not> is_free (blk (dbytes db) y) \<longrightarrow>
           y \<in> set bs' \<and> blk (dbytes db') y = blk (dbytes db) y \<and> data_at db' y = data_at db y) \<and>
        hog_Read T a (g, p') = Some (gxDBASE_NO_ERROR, g', p'') \<and>
        hog_num g' = hog_num h \<and> objectaddress g' = a \<and>
        (\<forall>i < hog_num h. ih_members g' ! i =
           (if ih_members h ! i = [] \<and> ih_members g \<noteq> [] \<and> hog_num h \<le> hog_num g then ih_members g ! i
            else ih_members h ! i))"
      by (intro exI conjI) (rule h(1), rule h(2), rule keep(1), rule others, rule r, use gm in \<open>auto\<close>)
  qed
qed

definition sample_type :: hog_type where
  "sample_type = \<lparr>type_size = 2, type_eq = (=), type_gt = (\<lambda>x y. bytes_less y x)\<rparr>"

text \<open>An object of three members with a name, made by its constructor, and one that has old members.\<close>

definition sample_pod :: POD where "sample_pod = with_data sample_db (new_POD sample_fs)"

definition sample_hog :: InfoHog where
  "sample_hog = snd (SetMember [1, 2, 3] 2 (InfoHog_keyed sample_pod [65, 0] 3))"

definition sample_reader :: InfoHog where
  "sample_reader = snd (SetMember [9] 1 (InfoHog_keyed sample_pod [66, 0] 9))"

theorem written_object_reads_back_witness:
  "\<exists>h' p' g' p''. hog_Write sample_type (sample_hog, sample_pod) = Some (gxDBASE_NO_ERROR, h', p') \<and>
    hog_Read sample_type (objectaddress h') (sample_reader, p') = Some (gxDBASE_NO_ERROR, g', p'') \<and>
    hog_num g' = 3 \<and> ih_members g' ! 0 = [65, 0] \<and> ih_members g' ! 1 = [9] \<and> ih_members g' ! 2 = [1, 2, 3]"
proof -
  have h: "hog_fit sample_type sample_hog" by code_simp
  have r: "alloc_room (sizeof_gxObjectHeader + hog_ObjectLength sample_hog) sample_db" by code_simp
  have u: "\<not> UsingIndex (new_POD sample_fs)" by code_simp
  have f: "gp_pod sample_hog" "gp_pod sample_reader" "hog_class sample_reader = hog_class sample_hog"
    "hog_array_ok sample_reader" by code_simp+
  have m: "hog_num sample_hog = 3" "hog_num sample_reader = 9" "ih_members sample_reader \<noteq> []"
    "ih_members sample_hog = [[65, 0], [], [1, 2, 3]]" "ih_members sample_reader ! 1 = [9]" by code_simp+
  note w = written_object_reads_back [OF sample_heap_ok h r f(1,2,3,4), of "new_POD sample_fs", folded sample_pod_def]
  obtain h' p' where W: "hog_Write sample_type (sample_hog, sample_pod) = Some (gxDBASE_NO_ERROR, h', p')"
    using w u by blast
  then obtain a g' p'' where R: "h' = sample_hog\<lparr>objectaddress := a\<rparr>"
      "hog_Read sample_type a (sample_reader, p') = Some (gxDBASE_NO_ERROR, g', p'')" "hog_num g' = 3"
      "\<forall>i < 3. ih_members g' ! i = (if ih_members sample_hog ! i = [] \<and> ih_members sample_reader \<noteq> [] \<and> 3 \<le> hog_num sample_reader
        then ih_members sample_reader ! i else ih_members sample_hog ! i)"
    using w unfolding m(1) by blast
  have "ih_members g' ! 0 = [65, 0]" "ih_members g' ! 1 = [9]" "ih_members g' ! 2 = [1, 2, 3]"
    using R(4) m by simp_all
  moreover have "objectaddress h' = a" using R(1) by simp
  ultimately show ?thesis using W R(2,3) by blast
qed

section \<open>Strings\<close>

text \<open>
  C24: a string written by \<open>WriteString\<close> is in the file, but \<open>ReadString\<close> does not read it back: after
  the length it calls \<open>GetEOF\<close>, which reads the file header and leaves the file position behind it, so
  that the string returned is what the file had at byte 50 before, whatever was written.
\<close>

theorem ReadString_reads_file_header:
  assumes "heap_ok db bs fl" and "0 \<le> a" and "50 + int (length s) \<le> a" and "in_u32 (int (length s))"
    and "writable (nat a + 4 + length s) db" and "a + 4 + int (length s) \<le> eof_of db"
  shows "\<exists>p1 p2. WriteString (Some s) a (with_data db p) = Some (gxDBASE_NO_ERROR, p1) \<and>
    bytes_at (dbytes (the (opendatafile p1))) (nat a + 4) (length s) = s \<and>
    ReadString a p1 = Some (Some (bytes_at (dbytes db) 50 (length s)), p2)"
proof -
  let ?n = "gxUINT32_UnPackBits (int (length s))"
  have m: "heap_meta db" and sy: "synced db" using assms(1) by (auto simp: heap_ok_def)
  have rd: "readable db" "header_ok db" "eof_of db \<le> int (length (dbytes db))" using m by (auto simp: heap_meta_def)
  have n: "to_u32 (int (length s)) = int (length s)" "gxUINT32_PackBits ?n = int (length s)"
    using assms(4) by (simp_all add: in_u32_def gxUINT32_wraps)
  have e50: "50 \<le> hdr_end db" by (simp add: hdr_end_def)
  have w4: "writable (nat a + length ?n) db" using assms(5) by (rule writable_mono) simp
  define d1 where "d1 = moved (nat a + 4) gxDBASE_WRITE (stored (nat a) ?n db)"
  have s1: "data_Write ?n a (with_data db p) = Some (gxDBASE_NO_ERROR, with_data d1 p)"
    using w4 assms(2) by (simp add: data_Write_def engine_simps d1_def)
  have "writable (dpos d1 + length s) d1" using assms(5) by (simp add: d1_def)
  from data_Write_cur [OF this, of p] obtain d2 where
    s2: "data_Write s gxCurrAddress (with_data d1 p) = Some (gxDBASE_NO_ERROR, with_data d2 p)" "written d1 s d2" by blast
  have img: "dbytes d2 = put_at (dbytes db) (nat a) (?n @ s)"
    using s2(2) put_at_append [of "dbytes db" "nat a" ?n s] by (simp add: written_def d1_def)
  have len: "length (dbytes d2) = length (dbytes db)"
    unfolding img using assms(2,6) rd(3) by (intro length_put_at_inside) simp
  have b: "bytes_at (dbytes d2) (nat a) (4 + length s) = ?n @ s"
    unfolding img using bytes_at_put_same [of "dbytes db" "nat a" "?n @ s"] by simp
  then have b4: "bytes_at (dbytes d2) (nat a) 4 = ?n" "bytes_at (dbytes d2) (nat a + 4) (length s) = s"
    using len assms(2,6) rd(3) unfolding bytes_at_append by (auto simp: append_eq_append_conv)
  have h2: "file_header d2 = file_header db" "readable d2"
    using s2(2) rd(1) by (auto simp: written_def same_db_def d1_def)
  have ok2: "header_ok d2" "synced d2"
  proof -
    show "header_ok d2" using rd(2) s2(2) by (simp add: header_ok_def written_def same_db_def d1_def)
    have "0 + 50 \<le> nat a" "0 + 50 \<le> length (dbytes db)" using assms(3) e50 sy by (auto simp: synced_def)
    then show "synced d2" using sy s2(2) len bytes_at_put_below [of 0 50 "nat a" "dbytes db" "?n @ s"]
      by (simp add: synced_def img h2(1) hdr_end_def written_def same_db_def d1_def)
  qed
  have r1: "data_Read (replicate 4 0) a (with_data d2 p) =
      Some ((gxDBASE_NO_ERROR, ?n), with_data (moved (nat a + 4) gxDBASE_READ d2) p)"
    using data_Read_at [OF h2(2) assms(2), of "replicate 4 0" p] len assms(2,6) rd(3) b4(1) by simp
  have r2: "data_Read (replicate (length s) 0) gxCurrAddress (with_data (moved 50 gxDBASE_READ d2) p) =
      Some ((gxDBASE_NO_ERROR, bytes_at (dbytes d2) 50 (length s)),
        with_data (moved (50 + length s) gxDBASE_READ d2) p)"
    using h2(2) len assms(2,3,6) rd(3) e50 by (simp add: data_Read_def engine_simps)
  have W: "WriteString (Some s) a (with_data db p) = Some (gxDBASE_NO_ERROR, with_data d2 p)"
    using s1 s2(1) n(1) by (simp add: WriteString_def)
  have low: "bytes_at (dbytes d2) 50 (length s) = bytes_at (dbytes db) 50 (length s)"
    unfolding img using assms(2,3,6) rd(3) by (intro bytes_at_put_below) linarith+
  have R: "ReadString a (with_data d2 p) = Some (Some (bytes_at (dbytes db) 50 (length s)),
      with_data (moved (50 + length s) gxDBASE_READ d2) p)"
    using r1 r2 h2 ok2 n(2) assms(2,6) low by (simp add: ReadString_def engine_simps)
  have o: "opendatafile (with_data d2 p) = Some d2" by (simp add: with_data_def)
  show ?thesis
    by (rule exI [of _ "with_data d2 p"], rule exI, intro conjI, rule W, simp add: o b4(2), rule R)
qed

theorem ReadString_reads_file_header_witness:
  "\<exists>p1 p2. WriteString (Some [72, 105]) 106 (with_data sample_db (new_POD sample_fs)) = Some (gxDBASE_NO_ERROR, p1) \<and>
    ReadString 106 p1 = Some (Some [0, 0], p2)"
proof -
  have "50 + int (length [72, 105 :: byte]) \<le> 106" "in_u32 (int (length [72, 105 :: byte]))"
    "writable (nat 106 + 4 + length [72, 105 :: byte]) sample_db"
    "106 + 4 + int (length [72, 105 :: byte]) \<le> eof_of sample_db" by code_simp+
  moreover have "bytes_at (dbytes sample_db) 50 (length [72, 105 :: byte]) = [0, 0]" by code_simp
  ultimately show ?thesis
    using ReadString_reads_file_header [OF sample_heap_ok, of 106 "[72, 105]" "new_POD sample_fs"] by auto
qed

end
