(* ===== verification/RdbState.thy ===== *)
theory RdbState
  imports RdRecord RdCompare Persist
begin

text \<open>
  The relational database manager \<open>gxRDBMS\<close> of \<open>src/src/gxrdbms.cpp\<close> and \<open>src/include/gxrdbms.h\<close>: the object, its key
  definition, the names of its files, and the comparison of keys. As in the other managers a result
  \<open>None\<close> is undefined in the code, an exception, or never comes. A null pointer is \<open>None\<close> in the state.
\<close>

section \<open>The manager\<close>

record gxRDBMS =
  rb_fs :: filesys
  rb_pod :: "POD option"
  rb_table :: gxrdDatabaseTable
  rb_dir :: string
  rb_key_def :: string
  rb_form_def :: string
  rb_fkey_def :: string
  rb_num_trees :: int
  rb_num_sec :: int
  rb_sec_fields :: "int list option"
  rb_primary :: int
  rb_case :: int
  rb_alpha :: int
  rb_dup :: int
  rb_datafile :: string
  rb_indexfiles :: "string list option"
  rb_mode :: gxDatabaseAccessMode
  rb_order :: int
  rb_df_rev :: char
  rb_if_rev :: char
  rb_datafile_ext :: string
  rb_indexfile_ext :: string
  rb_method :: gxDatabaseReclaimMethod

definition gxrdDEFAULT_ORDER :: int where "gxrdDEFAULT_ORDER = 64"

text \<open>The files are those of the manager of the database when there is one.\<close>

definition new_gxRDBMS :: "filesys \<Rightarrow> gxRDBMS" where
  "new_gxRDBMS fs =
     \<lparr>rb_fs = fs, rb_pod = None, rb_table = new_gxrdDatabaseTable, rb_dir = [],
      rb_key_def = ''PRI: COL 1,ATTRIB: NOCASE, ATTRIB: ANCOMPARE'', rb_form_def = [], rb_fkey_def = [],
      rb_num_trees = 1, rb_num_sec = 0, rb_sec_fields = None, rb_primary = -1, rb_case = 1, rb_alpha = 0,
      rb_dup = 0, rb_datafile = [], rb_indexfiles = None, rb_mode = gxDBASE_READWRITE,
      rb_order = gxrdDEFAULT_ORDER, rb_df_rev = CHR ''D'', rb_if_rev = CHR ''E'', rb_datafile_ext = ''.gxd'',
      rb_indexfile_ext = ''.gix'', rb_method = gxDBASE_RECLAIM_FIRSTFIT\<rparr>"

definition IsClosed :: "gxRDBMS \<Rightarrow> bool" where
  "IsClosed rb \<longleftrightarrow> rb_pod rb = None"

definition rdb_fs :: "gxRDBMS \<Rightarrow> filesys" where
  "rdb_fs rb = (case rb_pod rb of None \<Rightarrow> rb_fs rb | Some p \<Rightarrow> pod_fs p)"

text \<open>\<open>CaseCompare()\<close>, as the argument of \<open>CreateKey\<close>.\<close>

definition CaseCompare :: "gxRDBMS \<Rightarrow> int" where
  "CaseCompare rb = (if rb_case rb = 1 then 1 else 0)"

text \<open>\<open>pod->...\<close>\<close>

definition on_pod :: "(POD \<Rightarrow> ('a \<times> POD) option) \<Rightarrow> gxRDBMS \<Rightarrow> ('a \<times> gxRDBMS) option" where
  "on_pod g rb = do { p \<leftarrow> rb_pod rb; (x, p1) \<leftarrow> g p; Some (x, rb\<lparr>rb_pod := Some p1\<rparr>) }"

definition data_error :: "gxRDBMS \<Rightarrow> gxDatabaseError option" where
  "data_error rb = map_option GetDataFileError (rb_pod rb)"

definition set_data_error :: "gxDatabaseError \<Rightarrow> gxRDBMS \<Rightarrow> (gxDatabaseError \<times> gxRDBMS) option" where
  "set_data_error err = on_pod (\<lambda>p. Some (SetDataFileError err p))"

definition index_error :: "nat \<Rightarrow> gxRDBMS \<Rightarrow> gxDatabaseError option" where
  "index_error i rb = do { p \<leftarrow> rb_pod rb; GetIndexFileError i p }"

definition set_index_error :: "gxDatabaseError \<Rightarrow> nat \<Rightarrow> gxRDBMS \<Rightarrow> (gxDatabaseError \<times> gxRDBMS) option" where
  "set_index_error err i = on_pod (SetIndexFileError err i)"

definition using_index_rdb :: "gxRDBMS \<Rightarrow> bool option" where
  "using_index_rdb rb = map_option UsingIndex (rb_pod rb)"

text \<open>The destructor of the manager of the database closes its files.\<close>

definition delete_pod :: "gxRDBMS \<Rightarrow> gxRDBMS option" where
  "delete_pod rb =
     (case rb_pod rb of
        None \<Rightarrow> Some rb
      | Some p \<Rightarrow> do { (_, p1) \<leftarrow> Close_pod p; Some (rb\<lparr>rb_pod := None, rb_fs := pod_fs p1\<rparr>) })"

definition Close_rdb :: "gxRDBMS \<Rightarrow> (gxDatabaseError \<times> gxRDBMS) option" where
  "Close_rdb rb =
     (case rb_pod rb of
        None \<Rightarrow> Some (gxDBASE_NO_ERROR, rb)
      | Some p \<Rightarrow> do {
          (err, p1) \<leftarrow> Close_pod p;
          let rb1 = rb\<lparr>rb_pod := Some p1\<rparr>;
          if err \<noteq> gxDBASE_NO_ERROR then Some (err, rb1)
          else do { rb2 \<leftarrow> delete_pod rb1; Some (err, rb2) }
        })"

definition Release_rdb :: "gxRDBMS \<Rightarrow> gxRDBMS" where
  "Release_rdb rb = rb\<lparr>rb_fs := rdb_fs rb, rb_pod := None, rb_sec_fields := None, rb_indexfiles := None\<rparr>"

definition Flush_rdb :: "gxRDBMS \<Rightarrow> gxRDBMS option" where
  "Flush_rdb rb = (if IsClosed rb then Some rb else map_option snd (on_pod Flush_pod rb))"

definition NumRecords :: "gxRDBMS \<Rightarrow> (int \<times> gxRDBMS) option" where
  "NumRecords = on_pod (on_data_opt NormalBlocks)"

definition IsEmpty_rdb :: "gxRDBMS \<Rightarrow> (bool \<times> gxRDBMS) option" where
  "IsEmpty_rdb rb = do { (n, rb1) \<leftarrow> NumRecords rb; Some (n = 0, rb1) }"

section \<open>Key fields\<close>

text \<open>The field number -1 of all fields is unsigned, \<open>2 ^ 64 - 1\<close>.\<close>

definition all_fields :: int where "all_fields = 2 ^ 64 - 1"

fun sec_index :: "int \<Rightarrow> int list \<Rightarrow> nat \<Rightarrow> nat \<Rightarrow> int \<Rightarrow> int option" where
  "sec_index field fs 0 i trees = Some (-1)"
| "sec_index field fs (Suc k) i trees =
     (if int i + 1 \<ge> trees then Some (-1)
      else if i \<ge> length fs then None
      else if field = to_u64 (fs ! i - 1) then Some (int i + 1)
      else sec_index field fs k (i + 1) trees)"

definition gxrd_field_index :: "int \<Rightarrow> int \<Rightarrow> int \<Rightarrow> int list option \<Rightarrow> int \<Rightarrow> int option" where
  "gxrd_field_index field primary num_sec sec_fields trees =
     (if primary = -1 then Some (if field = all_fields then 0 else -1)
      else if field = all_fields then Some (-1)
      else if field = to_u64 (primary - 1) then Some 0
      else case sec_fields of
             None \<Rightarrow> Some (-1)
           | Some fs \<Rightarrow>
               if num_sec > 0 \<and> trees > 1 then sec_index field fs (nat num_sec) 0 trees else Some (-1))"

text \<open>The data of a key field: what \<open>CreateKey\<close> reads of it.\<close>

definition key_bytes_match :: "nat \<Rightarrow> int \<Rightarrow> int \<Rightarrow> byte list \<Rightarrow> byte list \<Rightarrow> bool option" where
  "key_bytes_match k n1 n2 p1 p2 =
     (if n1 < int k \<or> n2 < int k then Some False
      else do { a \<leftarrow> read_buf p1 0 k; b \<leftarrow> read_buf p2 0 k; Some (a = b) })"

definition key_data_match :: "gxrdFIELD_TYPES \<Rightarrow> int \<Rightarrow> int \<Rightarrow> int \<Rightarrow> byte list \<Rightarrow> byte list \<Rightarrow> bool option" where
  "key_data_match type case_cmp n1 n2 p1 p2 =
     (let text_case = do {
            a \<leftarrow> string_at p1 (nat n1);
            b \<leftarrow> string_at p2 (nat n2);
            Some (if case_cmp = 0 then to_upper a = to_upper b else a = b)
          }
      in case type of
           gxrdBLOB \<Rightarrow> Some True
         | gxrdCHAR \<Rightarrow> text_case
         | gxrdVCHAR \<Rightarrow> text_case
         | gxrdBINARY \<Rightarrow> if n1 \<noteq> n2 then Some False else key_bytes_match (nat n1) n1 n2 p1 p2
         | gxrdBOOL \<Rightarrow> key_bytes_match 1 n1 n2 p1 p2
         | gxrdINT16 \<Rightarrow> key_bytes_match 2 n1 n2 p1 p2
         | gxrdINT32 \<Rightarrow> key_bytes_match 4 n1 n2 p1 p2
         | gxrdINT64 \<Rightarrow> key_bytes_match 8 n1 n2 p1 p2
         | gxrdFLOAT \<Rightarrow> key_bytes_match 8 n1 n2 p1 p2
         | gxrdCURRENCY \<Rightarrow> key_bytes_match 8 n1 n2 p1 p2
         | gxrdDATE \<Rightarrow> key_bytes_match sizeof_CDate n1 n2 p1 p2
         | gxrdINVALID_TYPE \<Rightarrow> Some False)"

definition gxrd_key_field_match :: "gxrdDatabaseRecord \<Rightarrow> gxrdDatabaseRecord \<Rightarrow> int \<Rightarrow> int \<Rightarrow> bool option" where
  "gxrd_key_field_match a b col case_cmp = do {
     da \<leftarrow> FieldData col a;
     d' \<leftarrow> FieldData col b;
     case (da, d') of
       (Some (t1, n1, p1), Some (t2, n2, p2)) \<Rightarrow>
         if t1 \<noteq> t2 then Some False
         else (case type_of_id t1 of
                 None \<Rightarrow> Some False
               | Some type \<Rightarrow> key_data_match type case_cmp n1 n2 p1 p2)
     | _ \<Rightarrow> Some False
   }"

fun all_key_fields_match :: "gxrdDatabaseRecord \<Rightarrow> gxrdDatabaseRecord \<Rightarrow> nat \<Rightarrow> nat \<Rightarrow> int \<Rightarrow> bool option" where
  "all_key_fields_match a b 0 i case_cmp = Some True"
| "all_key_fields_match a b (Suc k) i case_cmp = do {
     m \<leftarrow> gxrd_key_field_match a b (int i) case_cmp;
     if \<not> m then Some False else all_key_fields_match a b k (i + 1) case_cmp
   }"

definition gxrd_key_fields_match :: "gxrdDatabaseRecord \<Rightarrow> gxrdDatabaseRecord \<Rightarrow> int \<Rightarrow> int \<Rightarrow> bool option" where
  "gxrd_key_fields_match a b field case_cmp =
     (if num_flds a \<noteq> num_flds b then Some False
      else if field \<noteq> all_fields then
        (if field \<ge> int (num_flds a) then Some False else gxrd_key_field_match a b field case_cmp)
      else all_key_fields_match a b (num_flds a) 0 case_cmp)"

definition primary_field :: "gxRDBMS \<Rightarrow> int" where
  "primary_field rb = to_u64 (if rb_primary rb = -1 then -1 else rb_primary rb - 1)"

text \<open>One key of two records: 1 different, 0 the same, -1 no key.\<close>

definition one_key_differs :: "gxrdDatabaseRecord \<Rightarrow> gxrdDatabaseRecord \<Rightarrow> int \<Rightarrow> int \<Rightarrow> int option" where
  "one_key_differs a b field case_cmp = do {
     ka \<leftarrow> CreateKey field case_cmp a;
     kb \<leftarrow> CreateKey field case_cmp b;
     Some (if ka = 0 \<or> kb = 0 then -1 else if ka \<noteq> kb then 1 else 0)
   }"

fun sec_keys_differ :: "gxrdDatabaseRecord \<Rightarrow> gxrdDatabaseRecord \<Rightarrow> int list \<Rightarrow> nat \<Rightarrow> nat \<Rightarrow> int \<Rightarrow> int option" where
  "sec_keys_differ a b fs 0 i case_cmp = Some 0"
| "sec_keys_differ a b fs (Suc k) i case_cmp =
     (if i \<ge> length fs then None
      else do {
        d \<leftarrow> one_key_differs a b (to_u64 (fs ! i - 1)) case_cmp;
        if d \<noteq> 0 then Some d else sec_keys_differ a b fs k (i + 1) case_cmp
      })"

definition gxrd_keys_differ ::
  "gxrdDatabaseRecord \<Rightarrow> gxrdDatabaseRecord \<Rightarrow> int \<Rightarrow> int \<Rightarrow> int list option \<Rightarrow> int \<Rightarrow> int \<Rightarrow> int option" where
  "gxrd_keys_differ a b primary num_sec sec_fields trees case_cmp = do {
     d \<leftarrow> one_key_differs a b (to_u64 (if primary = -1 then -1 else primary - 1)) case_cmp;
     if d \<noteq> 0 then Some d
     else case sec_fields of
       None \<Rightarrow> Some 0
     | Some fs \<Rightarrow> if num_sec > 0 \<and> trees > 1 then sec_keys_differ a b fs (nat num_sec) 0 case_cmp else Some 0
   }"


text \<open>
  The key definition of a table, such as \<open>PRI: COL 1,SEC: COL 3,ATTRIB: NOCASE\<close>, and the names of the files,
  in \<open>src/src/gxrdbms.cpp\<close>.
\<close>

section \<open>Key definitions\<close>

text \<open>A definition that is refused: the array of secondary fields is deleted.\<close>

definition bad_key_def :: "gxRDBMS \<Rightarrow> gxDatabaseError \<times> gxRDBMS" where
  "bad_key_def rb = (gxDBASE_BAD_KEY_DEF, rb\<lparr>rb_sec_fields := None\<rparr>)"

text \<open>
  The three parts of the loop for one word. Each works on the text that the one before has left, and
  gives the state of a refused definition (\<open>Inl\<close>) or what the next goes on with.
\<close>

definition has_word :: "string \<Rightarrow> string \<Rightarrow> bool" where
  "has_word s w \<longleftrightarrow> ifind s w 0 \<noteq> None"

definition define_primary :: "string \<Rightarrow> nat \<Rightarrow> gxRDBMS \<Rightarrow> gxRDBMS + (string \<times> nat \<times> gxRDBMS)" where
  "define_primary sbuf num_pri rb =
     (if \<not> has_word sbuf ''PRI'' then Inr (sbuf, num_pri, rb)
      else if \<not> has_word sbuf ''COL'' then Inl rb
      else if num_pri \<ge> 1 then Inl rb
      else (let s = trim (delete_before_including sbuf ''COL'')
            in if has_word s ''NONE'' then Inr (s, num_pri + 1, rb\<lparr>rb_primary := -1\<rparr>)
               else if to_int s = 0 then Inl rb
               else Inr (s, num_pri + 1, rb\<lparr>rb_primary := to_int s\<rparr>)))"

definition define_secondary :: "nat \<Rightarrow> string \<Rightarrow> gxRDBMS \<Rightarrow> gxRDBMS + (string \<times> gxRDBMS)" where
  "define_secondary nfields sbuf rb =
     (if \<not> has_word sbuf ''SEC'' then Inr (sbuf, rb)
      else if \<not> has_word sbuf ''COL'' then Inl rb
      else (let s = trim (delete_before_including sbuf ''COL'')
            in if to_int s = 0 then Inl rb
               else if rb_num_sec rb \<ge> int nfields then Inl rb
               else Inr (s, rb\<lparr>rb_sec_fields :=
                        map_option (\<lambda>fs. fs[nat (rb_num_sec rb) := to_int s]) (rb_sec_fields rb),
                      rb_num_sec := rb_num_sec rb + 1\<rparr>)))"

definition define_attrib :: "string \<Rightarrow> gxRDBMS \<Rightarrow> gxRDBMS + gxRDBMS" where
  "define_attrib sbuf rb =
     (let value = trim (delete_before_including sbuf ''='')
      in if \<not> has_word sbuf ''ATTRIB'' then Inr rb
         else if has_word sbuf ''NOCASE'' then Inr (rb\<lparr>rb_case := 0\<rparr>)
         else if has_word sbuf ''ANCOMPARE'' then Inr (rb\<lparr>rb_alpha := 1\<rparr>)
         else if has_word sbuf ''ALLOWDUP'' then Inr (rb\<lparr>rb_dup := 1\<rparr>)
         else if has_word sbuf ''ORDER'' then
           (if to_int value = 0 then Inl rb else Inr (rb\<lparr>rb_order := to_int value\<rparr>))
         else if has_word sbuf ''RECLAIM'' then
           (if value = ''NONE'' \<or> value = ''none'' then Inr (rb\<lparr>rb_method := gxDBASE_RECLAIM_NONE\<rparr>)
            else if value = ''BEST'' \<or> value = ''best'' then Inr (rb\<lparr>rb_method := gxDBASE_RECLAIM_BESTFIT\<rparr>)
            else if value = ''FIRST'' \<or> value = ''first'' then Inr (rb\<lparr>rb_method := gxDBASE_RECLAIM_FIRSTFIT\<rparr>)
            else Inl rb)
         else Inl rb)"

fun define_words :: "nat \<Rightarrow> string list \<Rightarrow> nat \<Rightarrow> gxRDBMS \<Rightarrow> gxDatabaseError \<times> gxRDBMS" where
  "define_words nfields [] num_pri rb = (gxDBASE_NO_ERROR, rb)"
| "define_words nfields (w # ws) num_pri rb =
     (if w = [] then define_words nfields ws num_pri rb
      else case define_primary (to_upper (trim w)) num_pri rb of
        Inl rb1 \<Rightarrow> bad_key_def rb1
      | Inr (s1, num_pri1, rb1) \<Rightarrow>
          (case define_secondary nfields s1 rb1 of
             Inl rb2 \<Rightarrow> bad_key_def rb2
           | Inr (s2, rb2) \<Rightarrow>
               (case define_attrib s2 rb2 of
                  Inl rb3 \<Rightarrow> bad_key_def rb3
                | Inr rb3 \<Rightarrow> define_words nfields ws num_pri1 rb3)))"

definition reset_keys :: "nat \<Rightarrow> gxRDBMS \<Rightarrow> gxRDBMS" where
  "reset_keys nfields rb = rb\<lparr>rb_num_sec := 0, rb_primary := -1, rb_case := 1, rb_alpha := 0, rb_dup := 0,
     rb_sec_fields := Some (replicate nfields 0)\<rparr>"

definition DefineKeys :: "string \<Rightarrow> gxRDBMS \<Rightarrow> gxDatabaseError \<times> gxRDBMS" where
  "DefineKeys kdef rb0 =
     (let rb = rb0\<lparr>rb_key_def := []\<rparr>
      in case CreateRecord (tb_record_def (rb_table rb)) True empty_record of (e, rec) \<Rightarrow>
        if e \<noteq> gxDBASE_NO_ERROR then (e, rb)
        else if \<not> has_word kdef ''PRI'' then (gxDBASE_BAD_KEY_DEF, rb)
        else (let words = parse_fields kdef CHR '','' in
          if words = [] then (gxDBASE_BAD_KEY_DEF, rb)
          else case define_words (num_flds rec) words 0 (reset_keys (num_flds rec) rb) of (e1, rb1) \<Rightarrow>
            if e1 \<noteq> gxDBASE_NO_ERROR then (e1, rb1) else (gxDBASE_NO_ERROR, rb1\<lparr>rb_key_def := kdef\<rparr>)))"

definition DefineTable :: "string \<Rightarrow> gxRDBMS \<Rightarrow> gxDatabaseError \<times> gxRDBMS" where
  "DefineTable tdef rb = (case CreateTable tdef (rb_table rb) of (e, t) \<Rightarrow> (e, rb\<lparr>rb_table := t\<rparr>))"

definition DefineTable_keys :: "string \<Rightarrow> string \<Rightarrow> gxRDBMS \<Rightarrow> gxDatabaseError \<times> gxRDBMS" where
  "DefineTable_keys tdef kdef rb =
     (case DefineTable tdef rb of (e, rb1) \<Rightarrow> if e \<noteq> gxDBASE_NO_ERROR then (e, rb1) else DefineKeys kdef rb1)"

section \<open>File names\<close>

definition c_str :: "string \<Rightarrow> string" where
  "c_str s = takeWhile (\<lambda>c. c \<noteq> nul) s"

definition unix_dir :: "string \<Rightarrow> string" where
  "unix_dir d = map (\<lambda>c. if c = CHR 0x5C then CHR ''/'' else c) d"

definition dir_prefix :: "string \<Rightarrow> string" where
  "dir_prefix d = (if d = [] then [] else if last d \<noteq> CHR ''/'' then d @ ''/'' else d)"

definition gen_file_names :: "gxRDBMS \<Rightarrow> gxDatabaseError \<times> gxRDBMS" where
  "gen_file_names rb =
     (let trees = (if rb_primary rb = -1 then 1 else 1 + rb_num_sec rb);
          d = unix_dir (rb_dir rb);
          stem = dir_prefix d @ c_str (tb_table_name (rb_table rb));
          index_file = stem @ rb_indexfile_ext rb;
          names = (if rb_num_sec rb > 0 \<and> trees > 1
                   then map (\<lambda>i. index_file @ to_string (int i + 1)) [0..<nat trees]
                   else [index_file])
      in (gxDBASE_NO_ERROR,
          rb\<lparr>rb_num_trees := trees, rb_dir := d, rb_datafile := stem @ rb_datafile_ext rb,
             rb_indexfiles := Some names\<rparr>))"

definition GenFileNames :: "string \<Rightarrow> string \<Rightarrow> gxRDBMS \<Rightarrow> gxDatabaseError \<times> gxRDBMS" where
  "GenFileNames tdef kdef rb =
     (case DefineTable_keys tdef kdef rb of (e, rb1) \<Rightarrow> if e \<noteq> gxDBASE_NO_ERROR then (e, rb1) else gen_file_names rb1)"

definition set_forms :: "string \<Rightarrow> string \<Rightarrow> gxRDBMS \<Rightarrow> gxRDBMS" where
  "set_forms fdef fkdef rb = rb\<lparr>rb_form_def := fdef, rb_fkey_def := fkdef\<rparr>"

definition GenFileNames_dir :: "string \<Rightarrow> string \<Rightarrow> string \<Rightarrow> gxRDBMS \<Rightarrow> gxDatabaseError \<times> gxRDBMS" where
  "GenFileNames_dir tdef kdef dir rb = GenFileNames tdef kdef (rb\<lparr>rb_dir := dir\<rparr>)"

definition GenFileNames_forms ::
  "string \<Rightarrow> string \<Rightarrow> string \<Rightarrow> string \<Rightarrow> gxRDBMS \<Rightarrow> gxDatabaseError \<times> gxRDBMS" where
  "GenFileNames_forms tdef kdef fdef fkdef rb = GenFileNames tdef kdef (set_forms fdef fkdef rb)"

definition GenFileNames_forms_dir ::
  "string \<Rightarrow> string \<Rightarrow> string \<Rightarrow> string \<Rightarrow> string \<Rightarrow> gxRDBMS \<Rightarrow> gxDatabaseError \<times> gxRDBMS" where
  "GenFileNames_forms_dir tdef kdef fdef fkdef dir rb =
     GenFileNames tdef kdef ((set_forms fdef fkdef rb)\<lparr>rb_dir := dir\<rparr>)"

section \<open>The table header in memory\<close>

definition init_table_header :: "gxRDBMS \<Rightarrow> gxDatabaseError \<times> gxRDBMS" where
  "init_table_header rb =
     (let t = rb_table rb
      in case CreateTable (tb_table_def t) (t\<lparr>tb_table_header := Clear_TableHeader (tb_table_header t)\<rparr>) of (e, t1) \<Rightarrow>
        if e \<noteq> gxDBASE_NO_ERROR then (e, rb\<lparr>rb_table := t1\<rparr>)
        else (let h1 = SetKeyDef (c_str (rb_key_def rb)) (tb_table_header t1);
                  h2 = (if rb_form_def rb \<noteq> [] then SetFormDef (c_str (rb_form_def rb)) h1 else h1);
                  h3 = (if rb_fkey_def rb \<noteq> [] then SetFKeyDef (c_str (rb_fkey_def rb)) h2 else h2)
              in (gxDBASE_NO_ERROR, rb\<lparr>rb_table := t1\<lparr>tb_table_header := h3\<rparr>\<rparr>)))"

definition SizeOf_RDBMSHeader :: int where "SizeOf_RDBMSHeader = 12"

definition HeaderSize :: "gxRDBMS \<Rightarrow> int" where
  "HeaderSize rb = SizeOf_header (tb_table_header (rb_table rb)) + SizeOf_RDBMSHeader"

section \<open>Settings of records\<close>

definition set_record_parms :: "int \<Rightarrow> int \<Rightarrow> int \<Rightarrow> gxrdDatabaseRecord \<Rightarrow> gxrdDatabaseRecord" where
  "set_record_parms field case_cmp alpha_cmp r =
     (let r1 = SetCompareField (to_s32 field) r;
          r2 = (if case_cmp = 0 then ResetCaseCompare r1 else SetCaseCompare r1)
      in if alpha_cmp = 0 then ResetAlphaCompare r2 else SetAlphaCompare r2)"

fun same_types :: "gxrdDatabaseRecord \<Rightarrow> gxrdDatabaseRecord \<Rightarrow> nat \<Rightarrow> nat \<Rightarrow> bool option" where
  "same_types a b 0 i = Some True"
| "same_types a b (Suc k) i = do {
     t1 \<leftarrow> FieldType (int i) a;
     t2 \<leftarrow> FieldType (int i) b;
     if t1 \<noteq> t2 then Some False else same_types a b k (i + 1)
   }"

definition verify_record :: "gxrdDatabaseRecord \<Rightarrow> gxrdDatabaseRecord \<Rightarrow> bool option" where
  "verify_record a b = do {
     eq \<leftarrow> record_equal a b;
     if eq then Some True
     else if rec_def a \<noteq> rec_def b then Some False
     else if rec_table_name a \<noteq> rec_table_name b then Some False
     else if num_flds a \<noteq> num_flds b then Some False
     else same_types a b (num_flds a) 0
   }"

end
