(* ===== verification/RdbRecords.thy ===== *)
theory RdbRecords
  imports RdbState
begin

text \<open>
  Records in the files of the relational database manager (\<open>src/src/gxrdbms.cpp\<close>): reading and writing
  them, their keys, and the search for a record. Every member function first tests the manager and the
  pointer to the record; \<open>with_record\<close> is that prologue, and a function \<open>..._body\<close> or a loop is what follows
  it. Inside the class, where the manager is open and the record is there, the body is called. A record
  that a function changes is given back.
\<close>

section \<open>The prologue\<close>

definition with_record ::
  "'b \<Rightarrow> (gxDatabaseError \<Rightarrow> 'b) \<Rightarrow> (gxrdDatabaseRecord \<Rightarrow> gxRDBMS \<Rightarrow> (('b \<times> gxrdDatabaseRecord) \<times> gxRDBMS) option) \<Rightarrow>
   gxrdDatabaseRecord option \<Rightarrow> gxRDBMS \<Rightarrow> (('b \<times> gxrdDatabaseRecord option) \<times> gxRDBMS) option"
where
  "with_record closed failed body r rb =
     (if IsClosed rb then Some ((closed, r), rb)
      else case r of
        None \<Rightarrow> do { (e, rb1) \<leftarrow> set_data_error gxDBASE_NULL_PTR rb; Some ((failed e, None), rb1) }
      | Some x \<Rightarrow> do { ((v, x1), rb1) \<leftarrow> body x rb; Some ((v, Some x1), rb1) })"

text \<open>A step on the data file, and the error of the data file after it.\<close>

definition data_try :: "(gxDatabase \<Rightarrow> 'a \<times> gxDatabase) \<Rightarrow> gxRDBMS \<Rightarrow> ((gxDatabaseError \<times> 'a) \<times> gxRDBMS) option" where
  "data_try g rb = do {
     (x, rb1) \<leftarrow> on_pod (on_data g) rb;
     e \<leftarrow> data_error rb1;
     Some ((e, x), rb1)
   }"

definition data_file :: "gxRDBMS \<Rightarrow> gxDatabase option" where
  "data_file rb = Option.bind (rb_pod rb) opendatafile"

definition rdb_block_header_size :: "gxRDBMS \<Rightarrow> int option" where
  "rdb_block_header_size rb = map_option BlockHeaderSize (data_file rb)"

text \<open>Sets the error, and gives it with the other results of the function.\<close>

definition failing :: "gxDatabaseError \<Rightarrow> 'a \<Rightarrow> gxRDBMS \<Rightarrow> ((gxDatabaseError \<times> 'a) \<times> gxRDBMS) option" where
  "failing err x rb = do { (e, rb1) \<leftarrow> set_data_error err rb; Some ((e, x), rb1) }"

definition with_data_error :: "'a \<Rightarrow> gxRDBMS \<Rightarrow> ((gxDatabaseError \<times> 'a) \<times> gxRDBMS) option" where
  "with_data_error x rb = do { e \<leftarrow> data_error rb; Some ((e, x), rb) }"

section \<open>Keys in the index files\<close>

definition rdb_key :: "int \<Rightarrow> int \<Rightarrow> int \<Rightarrow> DatabaseKeyB" where
  "rdb_key k kid tid = new_DatabaseKeyB (enc_gxrdDatabaseKey_t \<lparr>rd_k = k, rd_tid = tid, rd_kid = kid\<rparr>)"

definition no_rdb_key :: DatabaseKeyB where "no_rdb_key = rdb_key 0 0 0"

definition KeyCode :: "DatabaseKeyB \<Rightarrow> int" where
  "KeyCode key = rd_k (dec_gxrdDatabaseKey_t (db_key key))"

definition KeyID :: "DatabaseKeyB \<Rightarrow> int" where
  "KeyID key = rd_kid (dec_gxrdDatabaseKey_t (db_key key))"

definition change_key :: "(gxrdDatabaseKey_t \<Rightarrow> gxrdDatabaseKey_t) \<Rightarrow> DatabaseKeyB \<Rightarrow> DatabaseKeyB" where
  "change_key g key = key\<lparr>db_key := enc_gxrdDatabaseKey_t (g (dec_gxrdDatabaseKey_t (db_key key)))\<rparr>"

definition key_cmp :: "gxRDBMS \<Rightarrow> compare_fun" where
  "key_cmp rb = rd_compare (rb_dup rb \<noteq> 0)"

definition rdb_table_id :: "gxrdDatabaseRecord \<Rightarrow> gxRDBMS \<Rightarrow> int" where
  "rdb_table_id r rb = rh_table_id (gxrdRecordHeader_for (tb_table_name (rb_table rb)) (int (num_flds r)))"

type_synonym key_result = "(int \<times> DatabaseKeyB \<times> DatabaseKeyB) \<times> gxRDBMS"

definition if_indexed ::
  "int \<Rightarrow> (POD \<Rightarrow> ((int \<times> DatabaseKeyB \<times> DatabaseKeyB) \<times> POD) option) \<Rightarrow> DatabaseKeyB \<Rightarrow> DatabaseKeyB \<Rightarrow> gxRDBMS \<Rightarrow>
   key_result option"
where
  "if_indexed otherwise g key ck rb =
     (if IsClosed rb then Some ((0, key, ck), rb)
      else do {
        u \<leftarrow> using_index_rdb rb;
        if u then on_pod g rb else Some ((otherwise, key, ck), rb)
      })"

definition AddKey_rdb :: "DatabaseKeyB \<Rightarrow> DatabaseKeyB \<Rightarrow> nat \<Rightarrow> bool \<Rightarrow> gxRDBMS \<Rightarrow> key_result option" where
  "AddKey_rdb key ck index_number flushdb rb =
     if_indexed 1 (AddKey (key_cmp rb) key ck index_number flushdb) key ck rb"

definition FindKey_rdb :: "DatabaseKeyB \<Rightarrow> DatabaseKeyB \<Rightarrow> nat \<Rightarrow> bool \<Rightarrow> gxRDBMS \<Rightarrow> key_result option" where
  "FindKey_rdb key ck index_number test_tree rb =
     if_indexed 0 (FindKey (key_cmp rb) key ck index_number test_tree) key ck rb"

definition DeleteKey_rdb :: "DatabaseKeyB \<Rightarrow> DatabaseKeyB \<Rightarrow> nat \<Rightarrow> bool \<Rightarrow> gxRDBMS \<Rightarrow> key_result option" where
  "DeleteKey_rdb key ck index_number flushdb rb =
     if_indexed 0 (DeleteKey (key_cmp rb) key ck index_number flushdb) key ck rb"

section \<open>Deleting the keys of a record\<close>

text \<open>
  The keys of the secondary fields from the \<open>i\<close>-th on; a key that cannot be deleted is passed over. The
  address is that of the last key that was found.
\<close>

fun delete_sec_keys ::
  "gxrdDatabaseRecord \<Rightarrow> bool \<Rightarrow> bool \<Rightarrow> nat \<Rightarrow> nat \<Rightarrow> DatabaseKeyB \<Rightarrow> DatabaseKeyB \<Rightarrow> int \<Rightarrow> gxRDBMS \<Rightarrow>
   ((gxDatabaseError \<times> int) \<times> gxRDBMS) option"
where
  "delete_sec_keys r flushdb test_tree 0 i key ck block_address rb = Some ((gxDBASE_NO_ERROR, block_address), rb)"
| "delete_sec_keys r flushdb test_tree (Suc n) i key ck block_address rb =
     (case rb_sec_fields rb of
        None \<Rightarrow> do { (e, rb1) \<leftarrow> set_index_error gxDBASE_NULL_PTR (i + 1) rb; Some ((e, block_address), rb1) }
      | Some fs \<Rightarrow>
          if i \<ge> length fs then None
          else do {
            k \<leftarrow> CreateKey (to_u64 (fs ! i - 1)) (CaseCompare rb) r;
            if k = 0 then do {
              (e, rb1) \<leftarrow> set_index_error gxDBASE_BAD_KEY (i + 1) rb;
              Some ((e, block_address), rb1)
            }
            else do {
              ((found, key1, ck1), rb1) \<leftarrow> FindKey_rdb (change_key (\<lambda>x. x\<lparr>rd_k := k\<rparr>) key) ck (i + 1) test_tree rb;
              if found = 0 then delete_sec_keys r flushdb test_tree n (i + 1) key1 ck1 block_address rb1
              else do {
                ((_, key2, ck2), rb2) \<leftarrow> DeleteKey_rdb key1 ck1 (i + 1) flushdb rb1;
                delete_sec_keys r flushdb test_tree n (i + 1) key2 ck2 (KeyID key1) rb2
              }
            }
          })"

text \<open>The primary key: the error that ends the function, if any, and whether the key was found.\<close>

definition delete_primary_key ::
  "bool \<Rightarrow> bool \<Rightarrow> DatabaseKeyB \<Rightarrow> int \<Rightarrow> gxRDBMS \<Rightarrow>
   ((gxDatabaseError option \<times> bool \<times> DatabaseKeyB \<times> DatabaseKeyB \<times> int) \<times> gxRDBMS) option"
where
  "delete_primary_key flushdb test_tree key block_address rb = do {
     ((found, key1, ck1), rb1) \<leftarrow> FindKey_rdb key no_rdb_key 0 test_tree rb;
     if found = 0 then Some ((None, False, key1, ck1, block_address), rb1)
     else do {
       ((ok, key2, ck2), rb2) \<leftarrow> DeleteKey_rdb key1 ck1 0 flushdb rb1;
       if ok = 0 then do { e \<leftarrow> index_error 0 rb2; Some ((Some e, True, key2, ck2, KeyID key1), rb2) }
       else Some ((None, True, key2, ck2, KeyID key1), rb2)
     }
   }"

definition DeleteKey_body ::
  "gxrdDatabaseRecord \<Rightarrow> int \<Rightarrow> bool \<Rightarrow> bool \<Rightarrow> gxRDBMS \<Rightarrow> ((gxDatabaseError \<times> int) \<times> gxRDBMS) option" where
  "DeleteKey_body r block_address flushdb test_tree rb = do {
     u \<leftarrow> using_index_rdb rb;
     if \<not> u then Some ((gxDBASE_NO_ERROR, block_address), rb)
     else do {
       k \<leftarrow> CreateKey (primary_field rb) (CaseCompare rb) r;
       if k = 0 then failing gxDBASE_BAD_KEY block_address rb
       else do {
         ((stop, found_primary, key, ck, ba), rb1) \<leftarrow>
           delete_primary_key flushdb test_tree (rdb_key k block_address (rdb_table_id r rb)) block_address rb;
         case stop of
           Some e \<Rightarrow> Some ((e, ba), rb1)
         | None \<Rightarrow>
             if rb_num_trees rb1 = 1 then
               (if found_primary then Some ((gxDBASE_NO_ERROR, ba), rb1)
                else do { (e, rb2) \<leftarrow> set_index_error gxDBASE_RECORD_NOT_FOUND 0 rb1; Some ((e, ba), rb2) })
             else if rb_num_sec rb1 > 0 \<and> rb_num_trees rb1 > 1
             then delete_sec_keys r flushdb test_tree (nat (rb_num_sec rb1)) 0 key ck ba rb1
             else Some ((gxDBASE_NO_ERROR, ba), rb1)
       }
     }
   }"

definition DeleteKey_record ::
  "gxrdDatabaseRecord option \<Rightarrow> int \<Rightarrow> bool \<Rightarrow> bool \<Rightarrow> gxRDBMS \<Rightarrow>
   (((gxDatabaseError \<times> int) \<times> gxrdDatabaseRecord option) \<times> gxRDBMS) option" where
  "DeleteKey_record r block_address flushdb test_tree rb =
     with_record (gxDBASE_FILE_NOT_OPEN_ERROR, block_address) (\<lambda>e. (e, block_address))
       (\<lambda>x rb. do { (v, rb1) \<leftarrow> DeleteKey_body x block_address flushdb test_tree rb; Some ((v, x), rb1) }) r rb"

section \<open>Adding the keys of a record\<close>

text \<open>When a secondary key cannot be added, all the keys are deleted again.\<close>

fun add_sec_keys ::
  "gxrdDatabaseRecord \<Rightarrow> int \<Rightarrow> bool \<Rightarrow> bool \<Rightarrow> nat \<Rightarrow> nat \<Rightarrow> DatabaseKeyB \<Rightarrow> DatabaseKeyB \<Rightarrow> gxRDBMS \<Rightarrow>
   (gxDatabaseError \<times> gxRDBMS) option"
where
  "add_sec_keys r block_address flushdb test_tree 0 i key ck rb = Some (gxDBASE_NO_ERROR, rb)"
| "add_sec_keys r block_address flushdb test_tree (Suc n) i key ck rb =
     (case rb_sec_fields rb of
        None \<Rightarrow> set_index_error gxDBASE_NULL_PTR (i + 1) rb
      | Some fs \<Rightarrow>
          if i \<ge> length fs then None
          else do {
            k \<leftarrow> CreateKey (to_u64 (fs ! i - 1)) (CaseCompare rb) r;
            if k = 0 then set_index_error gxDBASE_BAD_KEY (i + 1) rb
            else do {
              ((added, key1, ck1), rb1) \<leftarrow> AddKey_rdb
                 (change_key (\<lambda>_. \<lparr>rd_k = k, rd_tid = rdb_table_id r rb, rd_kid = block_address\<rparr>) key) ck (i + 1) flushdb rb;
              if added = 0 then do {
                err \<leftarrow> index_error (i + 1) rb1;
                (_, rb2) \<leftarrow> DeleteKey_body r block_address flushdb test_tree rb1;
                Some (err, rb2)
              }
              else add_sec_keys r block_address flushdb test_tree n (i + 1) key1 ck1 rb1
            }
          })"

definition AddKey_record ::
  "gxrdDatabaseRecord \<Rightarrow> int \<Rightarrow> bool \<Rightarrow> bool \<Rightarrow> gxRDBMS \<Rightarrow> (gxDatabaseError \<times> gxRDBMS) option" where
  "AddKey_record r block_address flushdb test_tree rb =
     (if IsClosed rb then Some (gxDBASE_FILE_NOT_OPEN_ERROR, rb)
      else do {
        u \<leftarrow> using_index_rdb rb;
        if \<not> u then Some (gxDBASE_NO_ERROR, rb)
        else do {
          k \<leftarrow> CreateKey (primary_field rb) (CaseCompare rb) r;
          if k = 0 then set_index_error gxDBASE_BAD_KEY 0 rb
          else do {
            ((added, key, ck), rb1) \<leftarrow> AddKey_rdb (rdb_key k block_address (rdb_table_id r rb)) no_rdb_key 0 flushdb rb;
            if added = 0 then do { e \<leftarrow> index_error 0 rb1; Some (e, rb1) }
            else if rb_num_sec rb1 > 0 \<and> rb_num_trees rb1 > 1
            then add_sec_keys r block_address flushdb test_tree (nat (rb_num_sec rb1)) 0 key ck rb1
            else Some (gxDBASE_NO_ERROR, rb1)
          }
        }
      })"

section \<open>Writing and reading a record\<close>

definition write_disk_record :: "byte list \<Rightarrow> bool \<Rightarrow> gxRDBMS \<Rightarrow> (gxDatabaseError \<times> gxRDBMS) option" where
  "write_disk_record disk flushdb =
     on_pod (on_data (\<lambda>db. let db1 = Write_opt disk gxCurrAddress flushdb False db in (gxd_error db1, db1)))"

text \<open>A record whose keys cannot be added is deleted from the data file.\<close>

definition index_record ::
  "gxrdDatabaseRecord \<Rightarrow> int \<Rightarrow> int \<Rightarrow> bool \<Rightarrow> bool \<Rightarrow> gxRDBMS \<Rightarrow> ((gxDatabaseError \<times> int) \<times> gxRDBMS) option" where
  "index_record r record_address block_address flushdb test_tree rb = do {
     u \<leftarrow> using_index_rdb rb;
     (e, rb1) \<leftarrow> (if u then AddKey_record r block_address flushdb test_tree rb else Some (gxDBASE_NO_ERROR, rb));
     if e \<noteq> gxDBASE_NO_ERROR then do {
       (_, rb2) \<leftarrow> on_pod (on_data (Delete record_address)) rb1;
       Some ((e, block_address), rb2)
     }
     else failing gxDBASE_NO_ERROR block_address rb1
   }"

definition Write_body ::
  "int \<Rightarrow> bool \<Rightarrow> bool \<Rightarrow> gxrdDatabaseRecord \<Rightarrow> gxRDBMS \<Rightarrow> ((gxDatabaseError \<times> int) \<times> gxRDBMS) option" where
  "Write_body block_address flushdb test_tree r rb =
     (if tb_record_def (rb_table rb) \<noteq> rec_def r then failing gxDBASE_BAD_RECORD block_address rb
      else do {
        d \<leftarrow> CreateDiskRecord r;
        case d of
          Inl e \<Rightarrow> failing e block_address rb
        | Inr disk \<Rightarrow> do {
            (record_address, rb1) \<leftarrow> on_pod (on_data_opt (Alloc (int (length disk)) (rb_method rb))) rb;
            if record_address = 0 then with_data_error block_address rb1
            else do {
              hsize \<leftarrow> rdb_block_header_size rb1;
              (e, rb2) \<leftarrow> write_disk_record disk flushdb rb1;
              if e \<noteq> gxDBASE_NO_ERROR then with_data_error (record_address - hsize) rb2
              else index_record r record_address (record_address - hsize) flushdb test_tree rb2
            }
          }
      })"

definition Write_rdb ::
  "gxrdDatabaseRecord option \<Rightarrow> int \<Rightarrow> bool \<Rightarrow> bool \<Rightarrow> gxRDBMS \<Rightarrow>
   (((gxDatabaseError \<times> int) \<times> gxrdDatabaseRecord option) \<times> gxRDBMS) option" where
  "Write_rdb r block_address flushdb test_tree rb =
     with_record (gxDBASE_FILE_NOT_OPEN_ERROR, block_address) (\<lambda>e. (e, block_address))
       (\<lambda>x rb. do { (v, rb1) \<leftarrow> Write_body block_address flushdb test_tree x rb; Some ((v, x), rb1) }) r rb"

text \<open>\<open>ReadBlockHeader\<close> leaves the position behind the header and the record lock.\<close>

definition seek_past_lock :: "int \<Rightarrow> int \<Rightarrow> gxBlockHeader \<Rightarrow> gxRDBMS \<Rightarrow> ((gxDatabaseError \<times> gxBlockHeader) \<times> gxRDBMS) option" where
  "seek_past_lock block_address curr_address h rb = do {
     ((e1, pos), rb1) \<leftarrow> (if block_address \<noteq> gxCurrAddress then data_try FilePosition rb
                         else Some ((gxDBASE_NO_ERROR, curr_address), rb));
     if e1 \<noteq> gxDBASE_NO_ERROR then Some ((e1, h), rb1)
     else do {
       ((e2, _), rb2) \<leftarrow> data_try (SeekTo (pos + int sizeof_gxRecordLockHeader)) rb1;
       if e2 \<noteq> gxDBASE_NO_ERROR then Some ((e2, h), rb2) else failing gxDBASE_NO_ERROR h rb2
     }
   }"

definition ReadBlockHeader ::
  "gxBlockHeader \<Rightarrow> int \<Rightarrow> gxRDBMS \<Rightarrow> ((gxDatabaseError \<times> gxBlockHeader) \<times> gxRDBMS) option" where
  "ReadBlockHeader blk block_address rb =
     (if IsClosed rb then Some ((gxDBASE_FILE_NOT_OPEN_ERROR, blk), rb)
      else do {
        ((e1, h), rb1) \<leftarrow> data_try (ReadBlockHdr blk block_address) rb;
        if e1 \<noteq> gxDBASE_NO_ERROR then Some ((e1, h), rb1)
        else do {
          ((e2, curr_address), rb2) \<leftarrow> data_try FilePosition rb1;
          if e2 \<noteq> gxDBASE_NO_ERROR then Some ((e2, h), rb2)
          else do {
            db \<leftarrow> data_file rb2;
            if rev_C_or_D (rev_letter db) then seek_past_lock block_address curr_address h rb2
            else failing gxDBASE_NO_ERROR h rb2
          }
        }
      })"

text \<open>The bytes for the record in a block, unsigned.\<close>

definition record_space :: "gxBlockHeader \<Rightarrow> gxDatabase \<Rightarrow> int" where
  "record_space blk db =
     (if rev_zero_or_E (rev_letter db) then to_u64 (block_length blk - BlockHeaderSize db)
      else to_u64 (block_length blk - (BlockHeaderSize db + int sizeof_gxChecksum)))"

text \<open>A vector of half the address space and more cannot be made.\<close>

definition load_block ::
  "gxBlockHeader \<Rightarrow> gxrdDatabaseRecord \<Rightarrow> gxRDBMS \<Rightarrow> ((gxDatabaseError \<times> gxrdDatabaseRecord) \<times> gxRDBMS) option" where
  "load_block blk r rb = do {
     db \<leftarrow> data_file rb;
     let len = record_space blk db;
     if len \<ge> 2 ^ 63 then None
     else do {
       ((e, disk), rb1) \<leftarrow> on_pod (data_Read (replicate (nat len) 0) gxCurrAddress) rb;
       if e \<noteq> gxDBASE_NO_ERROR then with_data_error r rb1
       else do {
         (e1, r1) \<leftarrow> LoadDiskRecord disk r;
         failing e1 r1 rb1
       }
     }
   }"

definition Read_block_body ::
  "gxBlockHeader \<Rightarrow> int \<Rightarrow> gxrdDatabaseRecord \<Rightarrow> gxRDBMS \<Rightarrow> ((gxDatabaseError \<times> gxrdDatabaseRecord) \<times> gxRDBMS) option" where
  "Read_block_body blk block_address r rb =
     (let rdef = tb_record_def (rb_table rb)
      in case (if rdef \<noteq> rec_def r then CreateRecord rdef True r else (gxDBASE_NO_ERROR, r)) of (e, r1) \<Rightarrow>
        if e \<noteq> gxDBASE_NO_ERROR then failing e r1 rb
        else if block_address \<noteq> gxCurrAddress then do {
          hsize \<leftarrow> rdb_block_header_size rb;
          ((e1, _), rb1) \<leftarrow> data_try (SeekTo (block_address + hsize)) rb;
          if e1 \<noteq> gxDBASE_NO_ERROR then Some ((e1, r1), rb1) else load_block blk r1 rb1
        }
        else load_block blk r1 rb)"

definition Read_block_rdb ::
  "gxrdDatabaseRecord option \<Rightarrow> gxBlockHeader \<Rightarrow> int \<Rightarrow> gxRDBMS \<Rightarrow>
   ((gxDatabaseError \<times> gxrdDatabaseRecord option) \<times> gxRDBMS) option" where
  "Read_block_rdb r blk block_address rb =
     with_record gxDBASE_FILE_NOT_OPEN_ERROR id (Read_block_body blk block_address) r rb"

definition Read_body ::
  "int \<Rightarrow> gxrdDatabaseRecord \<Rightarrow> gxRDBMS \<Rightarrow> ((gxDatabaseError \<times> gxrdDatabaseRecord) \<times> gxRDBMS) option" where
  "Read_body block_address r rb = do {
     ((e, h), rb1) \<leftarrow> ReadBlockHeader new_gxBlockHeader block_address rb;
     if e \<noteq> gxDBASE_NO_ERROR then with_data_error r rb1 else Read_block_body h gxCurrAddress r rb1
   }"

definition Read_rdb ::
  "gxrdDatabaseRecord option \<Rightarrow> int \<Rightarrow> gxRDBMS \<Rightarrow> ((gxDatabaseError \<times> gxrdDatabaseRecord option) \<times> gxRDBMS) option" where
  "Read_rdb r block_address rb = with_record gxDBASE_FILE_NOT_OPEN_ERROR id (Read_body block_address) r rb"

end
