(* ===== verification/RdbFiles.thy ===== *)
theory RdbFiles
  imports RdbRecords
begin

text \<open>
  The files of a table (\<open>src/src/gxrdbms.cpp\<close>): the table header at the start of the static area of the data
  file, the space of the application in it, and creating or opening the data file and the index files.
\<close>

section \<open>Disk format of the table header\<close>

definition enc_gxRDBMSHeader :: "gxRDBMSHeader \<Rightarrow> byte list" where
  "enc_gxRDBMSHeader h = name_bytes (file_id h) @ gxUINT32_UnPackBits (file_version h)"

definition dec_gxRDBMSHeader :: "byte list \<Rightarrow> gxRDBMSHeader" where
  "dec_gxRDBMSHeader b =
     \<lparr>file_id = map char_of_byte (bytes_at b 0 gxrdFILE_ID_STR_LEN),
      file_version = gxUINT32_PackBits (bytes_at b gxrdFILE_ID_STR_LEN 4)\<rparr>"

definition enc_gxrdTableHeaderField :: "gxrdTableHeaderField \<Rightarrow> byte list" where
  "enc_gxrdTableHeaderField fh =
     [word_of_int (field_type_id fh), word_of_int (format_specifier fh)] @
     gxUINT32_UnPackBits (column_length fh) @ gxUINT32_UnPackBits (array_length fh) @ name_bytes (field_name fh)"

definition dec_gxrdTableHeaderField :: "byte list \<Rightarrow> gxrdTableHeaderField" where
  "dec_gxrdTableHeaderField b =
     \<lparr>field_type_id = sint (b ! 0), format_specifier = sint (b ! 1),
      column_length = gxUINT32_PackBits (bytes_at b 2 4), array_length = gxUINT32_PackBits (bytes_at b 6 4),
      field_name = map char_of_byte (bytes_at b 10 tableFIELD_NAME_LEN)\<rparr>"

text \<open>The fields that a header writes; \<open>None\<close> when its array has less.\<close>

definition header_fields :: "gxrdTableHeader \<Rightarrow> gxrdTableHeaderField list option" where
  "header_fields th =
     (let n = th_num_fields th
      in case th_fields th of
           None \<Rightarrow> if n = 0 then Some [] else None
         | Some fs \<Rightarrow> if n \<le> length fs then Some (List.take n fs) else None)"

section \<open>Writing the table header\<close>

fun write_parts :: "byte list list \<Rightarrow> gxDatabase \<Rightarrow> gxDatabase" where
  "write_parts [] db = db"
| "write_parts (b # bs) db =
     (let db1 = Write b gxCurrAddress db
      in if gxd_error db1 \<noteq> gxDBASE_NO_ERROR then db1 else write_parts bs db1)"

definition table_header_parts :: "gxrdTableHeader \<Rightarrow> byte list list option" where
  "table_header_parts th = do {
     fs \<leftarrow> header_fields th;
     Some ([name_bytes (th_table_name th), name_bytes (th_key_def th), name_bytes (th_form_def th),
            name_bytes (th_fkey_def th), gxUINT32_UnPackBits (int (th_num_fields th))] @
           map enc_gxrdTableHeaderField fs @ [th_app_space th])
   }"

definition WriteTableHeader_file ::
  "gxrdTableHeader \<Rightarrow> bool \<Rightarrow> gxDatabase \<Rightarrow> (gxDatabaseError \<times> gxDatabase) option" where
  "WriteTableHeader_file th flushdb db = do {
     let db1 = Write (enc_gxRDBMSHeader new_gxRDBMSHeader) (FileHeaderSize db) db;
     if gxd_error db1 \<noteq> gxDBASE_NO_ERROR then Some (gxd_error db1, db1)
     else do {
       parts \<leftarrow> table_header_parts th;
       let db2 = write_parts parts db1;
       if gxd_error db2 \<noteq> gxDBASE_NO_ERROR then Some (gxd_error db2, db2)
       else Some (gxDBASE_NO_ERROR, if flushdb then Flush db2 else db2)
     }
   }"

text \<open>On the data file of the manager; a null pointer \<open>f\<close> is an error.\<close>

definition on_data_file ::
  "'a \<Rightarrow> (gxDatabase \<Rightarrow> ((gxDatabaseError \<times> 'a) \<times> gxDatabase) option) \<Rightarrow> gxRDBMS \<Rightarrow>
   ((gxDatabaseError \<times> 'a) \<times> gxRDBMS) option" where
  "on_data_file x g rb =
     (case rb_pod rb of
        None \<Rightarrow> Some ((gxDBASE_NULL_PTR, x), rb)
      | Some p \<Rightarrow> if opendatafile p = None then Some ((gxDBASE_NULL_PTR, x), rb) else on_pod (on_data_opt g) rb)"

definition WriteTableHeader_of :: "gxrdTableHeader \<Rightarrow> bool \<Rightarrow> gxRDBMS \<Rightarrow> (gxDatabaseError \<times> gxRDBMS) option" where
  "WriteTableHeader_of th flushdb rb = do {
     ((e, _), rb1) \<leftarrow> on_data_file ()
       (\<lambda>db. map_option (\<lambda>(e, db1). ((e, ()), db1)) (WriteTableHeader_file th flushdb db)) rb;
     Some (e, rb1)
   }"

definition WriteTableHeader :: "bool \<Rightarrow> bool \<Rightarrow> gxRDBMS \<Rightarrow> (gxDatabaseError \<times> gxRDBMS) option" where
  "WriteTableHeader init flushdb rb =
     (if rb_pod rb = None then Some (gxDBASE_NULL_PTR, rb)
      else case (if init then init_table_header rb else (gxDBASE_NO_ERROR, rb)) of (e, rb1) \<Rightarrow>
        if e \<noteq> gxDBASE_NO_ERROR then set_data_error e rb1
        else WriteTableHeader_of (tb_table_header (rb_table rb1)) flushdb rb1)"

section \<open>Reading the table header\<close>

definition read_part :: "byte list \<Rightarrow> gxDatabase \<Rightarrow> (gxDatabaseError \<times> byte list) \<times> gxDatabase" where
  "read_part old db = (case Read old gxCurrAddress db of (b, db1) \<Rightarrow> ((gxd_error db1, b), db1))"

text \<open>The four texts, each with what reads and what changes it in the header.\<close>

type_synonym text_part = "(gxrdTableHeader \<Rightarrow> string) \<times> ((string \<Rightarrow> string) \<Rightarrow> gxrdTableHeader \<Rightarrow> gxrdTableHeader)"

fun read_texts ::
  "text_part list \<Rightarrow> gxrdTableHeader \<Rightarrow> gxDatabase \<Rightarrow> (gxDatabaseError \<times> gxrdTableHeader) \<times> gxDatabase" where
  "read_texts [] th db = ((gxDBASE_NO_ERROR, th), db)"
| "read_texts ((get, upd) # parts) th db =
     (case read_part (name_bytes (get th)) db of ((e, b), db1) \<Rightarrow>
        let th1 = upd (\<lambda>_. map char_of_byte b) th
        in if e \<noteq> gxDBASE_NO_ERROR then ((e, th1), db1) else read_texts parts th1 db1)"

definition header_texts :: "text_part list" where
  "header_texts =
     [(th_table_name, th_table_name_update), (th_key_def, th_key_def_update), (th_form_def, th_form_def_update),
      (th_fkey_def, th_fkey_def_update)]"

fun read_fields ::
  "gxrdTableHeaderField list \<Rightarrow> gxDatabase \<Rightarrow> (gxDatabaseError \<times> gxrdTableHeaderField list) \<times> gxDatabase" where
  "read_fields [] db = ((gxDBASE_NO_ERROR, []), db)"
| "read_fields (f # fs) db =
     (case read_part (enc_gxrdTableHeaderField f) db of ((e, b), db1) \<Rightarrow>
        let g = dec_gxrdTableHeaderField b
        in if e \<noteq> gxDBASE_NO_ERROR then ((e, g # fs), db1)
           else (case read_fields fs db1 of ((e2, gs), db2) \<Rightarrow> ((e2, g # gs), db2)))"

definition read_header_fields ::
  "gxrdTableHeader \<Rightarrow> gxDatabase \<Rightarrow> (gxDatabaseError \<times> gxrdTableHeader) \<times> gxDatabase" where
  "read_header_fields th db =
     (case read_part (replicate 4 0) db of ((e, b), db1) \<Rightarrow>
        if e \<noteq> gxDBASE_NO_ERROR then ((e, th), db1)
        else (let num = gxINT32_PackBits b
              in if num < tableMIN_FIELDS \<or> num > tableMAX_FIELDS
                 then ((gxDBASE_BAD_TABLE_HEADER, th), SetDatabaseError gxDBASE_BAD_TABLE_HEADER db1)
                 else (let th1 = AllocHeader num th
                       in case read_fields (case th_fields th1 of None \<Rightarrow> [] | Some fs0 \<Rightarrow> fs0) db1 of ((e2, fs), db2) \<Rightarrow>
                            let th2 = th1\<lparr>th_fields := Some fs\<rparr>
                            in if e2 \<noteq> gxDBASE_NO_ERROR then ((e2, th2), db2)
                               else (case read_part (th_app_space th2) db2 of ((e3, s), db3) \<Rightarrow>
                                 ((e3, th2\<lparr>th_app_space := s\<rparr>), db3)))))"

definition ReadTableHeader_file ::
  "bool \<Rightarrow> gxrdTableHeader \<Rightarrow> gxRDBMSHeader \<Rightarrow> gxDatabase \<Rightarrow>
   (gxDatabaseError \<times> gxrdTableHeader \<times> gxRDBMSHeader) \<times> gxDatabase" where
  "ReadTableHeader_file test_db th fid db0 =
     (let db = (if test_db then snd (TestFileHeader db0) else db0)
      in case Read (enc_gxRDBMSHeader (Clear_RDBMSHeader fid)) (FileHeaderSize db) db of (b, db1) \<Rightarrow>
        let fid1 = dec_gxRDBMSHeader b
        in if gxd_error db1 \<noteq> gxDBASE_NO_ERROR then ((gxd_error db1, th, fid1), db1)
           else if \<not> TestFileID fid1 new_gxRDBMSHeader
           then ((gxDBASE_BAD_TABLE_HEADER, th, fid1), SetDatabaseError gxDBASE_BAD_TABLE_HEADER db1)
           else (case read_texts header_texts th db1 of ((e, th1), db2) \<Rightarrow>
             if e \<noteq> gxDBASE_NO_ERROR then ((e, th1, fid1), db2)
             else (case read_header_fields th1 db2 of ((e2, th2), db3) \<Rightarrow> ((e2, th2, fid1), db3))))"

definition ReadTableHeader_into ::
  "bool \<Rightarrow> gxrdTableHeader \<Rightarrow> gxRDBMSHeader \<Rightarrow> gxRDBMS \<Rightarrow>
   ((gxDatabaseError \<times> gxrdTableHeader \<times> gxRDBMSHeader) \<times> gxRDBMS) option" where
  "ReadTableHeader_into test_db th fid rb =
     on_data_file (th, fid) (\<lambda>db. Some (ReadTableHeader_file test_db th fid db)) rb"

definition ReadTableHeader :: "bool \<Rightarrow> gxRDBMS \<Rightarrow> (gxDatabaseError \<times> gxRDBMS) option" where
  "ReadTableHeader test_db rb = do {
     ((e, th, _), rb1) \<leftarrow> ReadTableHeader_into test_db (tb_table_header (rb_table rb)) new_gxRDBMSHeader rb;
     Some (e, rb1\<lparr>rb_table := (rb_table rb1)\<lparr>tb_table_header := th\<rparr>\<rparr>)
   }"

section \<open>The space of the application\<close>

definition app_space_offset :: "gxrdTableHeader \<Rightarrow> gxDatabase \<Rightarrow> int" where
  "app_space_offset th db =
     FileHeaderSize db + SizeOf_RDBMSHeader + int tableNAME_LEN + int tableDEF_LEN + int tableDEF_LEN +
     int tableDEF_LEN + 4 + int (th_num_fields th) * SizeOf_field_header"

text \<open>The tests that both functions make; \<open>own\<close> is the header of the table of the manager.\<close>

definition app_space_error :: "gxrdTableHeader \<Rightarrow> gxrdTableHeader \<Rightarrow> nat \<Rightarrow> gxDatabaseError option" where
  "app_space_error own th n =
     (if n > tableAPPLICATION_SPACE then Some gxDBASE_BUFFER_OVERFLOW
      else if th_num_fields th = 0 \<or> th_fields th = None then Some gxDBASE_BAD_TABLE_HEADER
      else if th_num_fields th \<noteq> th_num_fields own then Some gxDBASE_BAD_TABLE_HEADER
      else None)"

definition WriteAppSpace_file ::
  "gxrdTableHeader \<Rightarrow> gxrdTableHeader \<Rightarrow> byte list \<Rightarrow> bool \<Rightarrow> gxDatabase \<Rightarrow>
   (gxDatabaseError \<times> gxrdTableHeader) \<times> gxDatabase" where
  "WriteAppSpace_file own th buf flushdb db =
     (case app_space_error own th (length buf) of
        Some e \<Rightarrow> ((e, th), SetDatabaseError e db)
      | None \<Rightarrow>
          (let db1 = Write_opt buf (app_space_offset th db) flushdb False db
           in ((gxd_error db1, th\<lparr>th_app_space := put_at (th_app_space th) 0 buf\<rparr>), db1)))"

definition WriteAppSpace :: "byte list \<Rightarrow> bool \<Rightarrow> gxRDBMS \<Rightarrow> (gxDatabaseError \<times> gxRDBMS) option" where
  "WriteAppSpace buf flushdb rb =
     (if IsClosed rb then Some (gxDBASE_FILE_NOT_OPEN_ERROR, rb)
      else (let th = tb_table_header (rb_table rb) in do {
        ((e, th1), rb1) \<leftarrow> on_data_file th (\<lambda>db. Some (WriteAppSpace_file th th buf flushdb db)) rb;
        Some (e, rb1\<lparr>rb_table := (rb_table rb1)\<lparr>tb_table_header := th1\<rparr>\<rparr>)
      }))"

definition ReadAppSpace_file ::
  "gxrdTableHeader \<Rightarrow> gxrdTableHeader \<Rightarrow> byte list \<Rightarrow> bool \<Rightarrow> gxDatabase \<Rightarrow> (gxDatabaseError \<times> byte list) \<times> gxDatabase" where
  "ReadAppSpace_file own th buf test_db db0 =
     (let db = (if test_db then snd (TestFileHeader db0) else db0)
      in case app_space_error own th (length buf) of
           Some e \<Rightarrow> ((e, buf), SetDatabaseError e db)
         | None \<Rightarrow> (case Read buf (app_space_offset th db) db of (b, db1) \<Rightarrow> ((gxd_error db1, b), db1)))"

definition ReadAppSpace :: "byte list \<Rightarrow> bool \<Rightarrow> gxRDBMS \<Rightarrow> ((gxDatabaseError \<times> byte list) \<times> gxRDBMS) option" where
  "ReadAppSpace buf test_db rb =
     (if IsClosed rb then Some ((gxDBASE_FILE_NOT_OPEN_ERROR, buf), rb)
      else (let th = tb_table_header (rb_table rb)
            in on_data_file buf (\<lambda>db. Some (ReadAppSpace_file th th buf test_db db)) rb))"


text \<open>
  Creating and opening the files of a table, \<open>create_or_open\<close> and \<open>CreateTable\<close> of \<open>src/src/gxrdbms.cpp\<close>.
\<close>

section \<open>Index files\<close>

text \<open>A file that cannot be opened cannot be removed; the code ignores whether a file was removed.\<close>

definition file_remove :: "string \<Rightarrow> filesys \<Rightarrow> int \<times> filesys" where
  "file_remove n fs =
     (if files fs n = None \<or> denied fs n then (-1, fs) else (0, fs\<lparr>files := (files fs)(n := None)\<rparr>))"

definition remove_files :: "string list \<Rightarrow> filesys \<Rightarrow> filesys" where
  "remove_files ns fs = fold (\<lambda>n fs. if Exists n fs then snd (file_remove n fs) else fs) ns fs"

text \<open>The number of index files that are there, and whether one is missing after one that is there.\<close>

definition count_index :: "filesys \<Rightarrow> string \<Rightarrow> nat \<times> bool \<Rightarrow> nat \<times> bool" where
  "count_index fs n s =
     (case s of (num_indexs, delete_all) \<Rightarrow>
        if Exists n fs then (num_indexs + 1, delete_all)
        else (num_indexs, delete_all \<or> num_indexs > 0))"

definition missing_index :: "string list \<Rightarrow> filesys \<Rightarrow> bool" where
  "missing_index ns fs = (case fold (count_index fs) ns (0, False) of (num, del) \<Rightarrow> num > 0 \<and> del)"

definition clean_indexes :: "string \<Rightarrow> string list \<Rightarrow> filesys \<Rightarrow> filesys" where
  "clean_indexes datafile ns fs0 =
     (let fs = (if \<not> Exists datafile fs0 then remove_files ns fs0 else fs0)
      in if missing_index ns fs then remove_files ns fs else fs)"

fun open_each ::
  "gxRDBMS \<Rightarrow> string list \<Rightarrow> nat \<Rightarrow> filesys \<Rightarrow> PODIndexFile \<Rightarrow> (gxDatabaseError \<times> filesys \<times> PODIndexFile) option" where
  "open_each rb [] i fs ix = Some (gxDBASE_NO_ERROR, fs, ix)"
| "open_each rb (n # ns) i fs ix = do {
     (e, fs1, ix1) \<leftarrow>
       PODIndex_Open (c_str n) i rd_KeySize (rb_order rb) (rb_mode rb) (rb_num_trees rb) (rb_if_rev rb) fs ix;
     if e \<noteq> gxDBASE_NO_ERROR then Some (e, fs1, ix1) else open_each rb ns (i + 1) fs1 ix1
   }"

text \<open>With several index files they are opened first, and given to the manager with the data file.\<close>

definition open_with_indexes :: "int \<Rightarrow> string list \<Rightarrow> gxRDBMS \<Rightarrow> (gxDatabaseError \<times> gxRDBMS) option" where
  "open_with_indexes static_size ns rb = do {
     p \<leftarrow> rb_pod rb;
     (e, fs, ix) \<leftarrow> open_each rb ns 0 (clean_indexes (rb_datafile rb) ns (pod_fs p))
                      (new_PODIndexFile (nat (rb_num_trees rb)));
     let rb1 = rb\<lparr>rb_pod := Some (p\<lparr>pod_fs := fs\<rparr>)\<rparr>;
     if e \<noteq> gxDBASE_NO_ERROR then Some (e, rb1)
     else on_pod (Open_pod_with (Some (c_str (rb_datafile rb))) (Some ix) (rb_mode rb) static_size (rb_df_rev rb)) rb1
   }"

definition open_table_files :: "int \<Rightarrow> string list \<Rightarrow> gxRDBMS \<Rightarrow> (gxDatabaseError \<times> gxRDBMS) option" where
  "open_table_files static_size ns rb =
     (if rb_num_sec rb > 0 \<and> rb_num_trees rb > 1 then open_with_indexes static_size ns rb
      else on_pod (Open_pod (Some (c_str (rb_datafile rb))) (Some (c_str (hd ns))) rd_KeySize (rb_order rb)
             (rb_mode rb) 1 static_size (rb_num_trees rb) (rb_df_rev rb) (rb_if_rev rb)) rb)"

section \<open>Opening a table\<close>

text \<open>The header of a file that was there is taken when its fields are those of the table.\<close>

definition load_header :: "gxRDBMS \<Rightarrow> (gxDatabaseError \<times> gxRDBMS) option" where
  "load_header rb = do {
     ((e, th, _), rb1) \<leftarrow> ReadTableHeader_into False new_gxrdTableHeader new_gxRDBMSHeader rb;
     let own = tb_table_header (rb_table rb1);
     if e \<noteq> gxDBASE_NO_ERROR then Some (e, rb1)
     else if \<not> TestFieldVars_header th own then WriteTableHeader True True rb1
     else Some (gxDBASE_NO_ERROR, rb1\<lparr>rb_table := (rb_table rb1)\<lparr>tb_table_header := Copy_TableHeader th own\<rparr>\<rparr>)
   }"

definition create_or_open :: "bool \<Rightarrow> gxRDBMS \<Rightarrow> (gxDatabaseError \<times> gxRDBMS) option" where
  "create_or_open rewrite_header rb0 =
     (case CreateRecord (tb_record_def (rb_table rb0)) True empty_record of (e0, _) \<Rightarrow>
        if e0 \<noteq> gxDBASE_NO_ERROR then Some (e0, rb0)
        else (case gen_file_names rb0 of (e1, rb1) \<Rightarrow>
          if e1 \<noteq> gxDBASE_NO_ERROR then Some (e1, rb1)
          else do {
            rb2 \<leftarrow> delete_pod rb1;
            let rb3 = rb2\<lparr>rb_pod := Some (new_POD (rb_fs rb2))\<rparr>;
            case rb_indexfiles rb3 of
              None \<Rightarrow> Some (gxDBASE_NULL_PTR, rb3)
            | Some ns \<Rightarrow> do {
                (e4, rb4) \<leftarrow> open_table_files (HeaderSize rb1) ns rb3;
                p \<leftarrow> rb_pod rb4;
                if e4 \<noteq> gxDBASE_NO_ERROR then Some (e4, rb4)
                else if \<not> Exists_pod p then WriteTableHeader True True rb4
                else if rewrite_header then WriteTableHeader True True rb4
                else load_header rb4
              }
          }))"

definition Create_table :: "string \<Rightarrow> gxRDBMS \<Rightarrow> (gxDatabaseError \<times> gxRDBMS) option" where
  "Create_table tdef rb =
     (case DefineTable tdef rb of (e, rb1) \<Rightarrow>
        if e \<noteq> gxDBASE_NO_ERROR then Some (e, rb1) else create_or_open False rb1)"

definition Create_table_dir :: "string \<Rightarrow> string \<Rightarrow> gxRDBMS \<Rightarrow> (gxDatabaseError \<times> gxRDBMS) option" where
  "Create_table_dir tdef dir rb = Create_table tdef (rb\<lparr>rb_dir := dir\<rparr>)"

definition CreateTable_rdb :: "string \<Rightarrow> string \<Rightarrow> gxRDBMS \<Rightarrow> (gxDatabaseError \<times> gxRDBMS) option" where
  "CreateTable_rdb tdef kdef rb =
     (case DefineTable tdef rb of (e, rb1) \<Rightarrow>
        if e \<noteq> gxDBASE_NO_ERROR then Some (e, rb1)
        else (case DefineKeys kdef rb1 of (e2, rb2) \<Rightarrow>
          if e2 \<noteq> gxDBASE_NO_ERROR then Some (e2, rb2) else create_or_open False rb2))"

definition CreateTable_dir :: "string \<Rightarrow> string \<Rightarrow> string \<Rightarrow> gxRDBMS \<Rightarrow> (gxDatabaseError \<times> gxRDBMS) option" where
  "CreateTable_dir tdef kdef dir rb = CreateTable_rdb tdef kdef (rb\<lparr>rb_dir := dir\<rparr>)"

definition CreateTable_forms ::
  "string \<Rightarrow> string \<Rightarrow> string \<Rightarrow> string \<Rightarrow> gxRDBMS \<Rightarrow> (gxDatabaseError \<times> gxRDBMS) option" where
  "CreateTable_forms tdef kdef fdef fkdef rb = CreateTable_rdb tdef kdef (set_forms fdef fkdef rb)"

definition CreateTable_forms_dir ::
  "string \<Rightarrow> string \<Rightarrow> string \<Rightarrow> string \<Rightarrow> string \<Rightarrow> gxRDBMS \<Rightarrow> (gxDatabaseError \<times> gxRDBMS) option" where
  "CreateTable_forms_dir tdef kdef fdef fkdef dir rb =
     CreateTable_rdb tdef kdef ((set_forms fdef fkdef rb)\<lparr>rb_dir := dir\<rparr>)"

end
