(* ===== verification/RdbFind.thy ===== *)
theory RdbFind
  imports RdbRecords
begin

text \<open>
  The search for a record, and the operations on records that rest on it (\<open>src/src/gxrdbms.cpp\<close>).
\<close>

section \<open>Finding by key\<close>

text \<open>A record of the table that a function makes for itself.\<close>

definition table_record :: "gxRDBMS \<Rightarrow> gxrdDatabaseRecord" where
  "table_record rb = snd (CreateRecord_with (tb_record_def (rb_table rb)) (2 ^ 64 - 1) 1 0 empty_record)"

definition tree_step ::
  "nat \<Rightarrow> (gxBtree \<Rightarrow> found) \<Rightarrow> gxRDBMS \<Rightarrow> ((int \<times> DatabaseKeyB \<times> DatabaseKeyB) \<times> gxRDBMS) option" where
  "tree_step i g = on_pod (on_index i (\<lambda>t. case g t of ((n, key, ck, _), t1) \<Rightarrow> Some ((n, key, ck), t1)))"

text \<open>Sets the error of the data file, and gives a block address.\<close>

definition found_at :: "gxDatabaseError \<Rightarrow> int \<Rightarrow> gxRDBMS \<Rightarrow> (int \<times> gxRDBMS) option" where
  "found_at err addr rb = do { (_, rb1) \<leftarrow> set_data_error err rb; Some (addr, rb1) }"

text \<open>With duplicate keys: each record with the same code, until one matches.\<close>

partial_function (option) find_dup_loop ::
  "nat \<Rightarrow> int \<Rightarrow> int \<Rightarrow> gxrdDatabaseRecord \<Rightarrow> int \<Rightarrow> DatabaseKeyB \<Rightarrow> DatabaseKeyB \<Rightarrow> gxrdDatabaseRecord \<Rightarrow> gxRDBMS \<Rightarrow>
   (int \<times> gxRDBMS) option"
where
  "find_dup_loop i field k r n key ck found_record rb =
     (if n = 0 \<or> KeyCode key \<noteq> k then found_at gxDBASE_RECORD_NOT_FOUND 0 rb
      else do {
        ((e, fr), rb1) \<leftarrow> Read_body (KeyID key) found_record rb;
        if e \<noteq> gxDBASE_NO_ERROR then Some (0, rb1)
        else do {
          same \<leftarrow> gxrd_key_fields_match fr r field (CaseCompare rb1);
          if same then found_at gxDBASE_NO_ERROR (KeyID key) rb1
          else do {
            ((n1, key1, ck1), rb2) \<leftarrow> tree_step i (FindNext (key_cmp rb1) key ck False) rb1;
            find_dup_loop i field k r n1 key1 ck1 fr rb2
          }
        }
      })"

definition find_dup ::
  "nat \<Rightarrow> int \<Rightarrow> int \<Rightarrow> gxrdDatabaseRecord \<Rightarrow> DatabaseKeyB \<Rightarrow> bool \<Rightarrow> gxRDBMS \<Rightarrow> (int \<times> gxRDBMS) option" where
  "find_dup i field k r key test_tree rb = do {
     p \<leftarrow> rb_pod rb;
     tree \<leftarrow> Index i p;
     if tree = None then Some (0, rb)
     else do {
       ((n, key1, ck1), rb1) \<leftarrow> tree_step i (PartialFind (key_cmp rb) key no_rdb_key test_tree) rb;
       find_dup_loop i field k r n key1 ck1 (table_record rb1) rb1
     }
   }"

definition find_unique ::
  "nat \<Rightarrow> int \<Rightarrow> gxrdDatabaseRecord \<Rightarrow> DatabaseKeyB \<Rightarrow> bool \<Rightarrow> gxRDBMS \<Rightarrow> (int \<times> gxRDBMS) option" where
  "find_unique i field r key test_tree rb = do {
     ((found, key1, _), rb1) \<leftarrow> FindKey_rdb key no_rdb_key i test_tree rb;
     if found = 0 then Some (0, rb1)
     else do {
       ((e, fr), rb2) \<leftarrow> Read_body (KeyID key1) (table_record rb1) rb1;
       if e \<noteq> gxDBASE_NO_ERROR then Some (0, rb2)
       else do {
         same \<leftarrow> gxrd_key_fields_match fr r field (CaseCompare rb2);
         if same then found_at gxDBASE_NO_ERROR (KeyID key1) rb2 else found_at gxDBASE_RECORD_NOT_FOUND 0 rb2
       }
     }
   }"

definition find_by_key :: "nat \<Rightarrow> int \<Rightarrow> gxrdDatabaseRecord \<Rightarrow> bool \<Rightarrow> gxRDBMS \<Rightarrow> (int \<times> gxRDBMS) option" where
  "find_by_key i field r test_tree rb = do {
     k \<leftarrow> CreateKey field (CaseCompare rb) r;
     if k = 0 then found_at gxDBASE_BAD_KEY 0 rb
     else (let key = rdb_key k 0 (rdb_table_id r rb)
           in if rb_dup rb \<noteq> 0 then find_dup i field k r key test_tree rb
              else find_unique i field r key test_tree rb)
   }"

section \<open>Finding in the data file\<close>

text \<open>
  A block with a record: \<open>Some\<close> is the address that ends the search. A record of another table leaves
  \<open>rec\<close>, which is compared all the same, as it was.
\<close>

definition probe_block ::
  "gxrdDatabaseRecord \<Rightarrow> int \<Rightarrow> int \<Rightarrow> int \<Rightarrow> int \<Rightarrow> gxBlockHeader \<Rightarrow> gxrdDatabaseRecord \<Rightarrow> gxRDBMS \<Rightarrow>
   ((int option \<times> gxrdDatabaseRecord \<times> gxrdDatabaseRecord) \<times> gxRDBMS) option"
where
  "probe_block r field case_cmp alpha_cmp block_address blk rec rb = do {
     ((_, rec1), rb1) \<leftarrow> Read_block_body blk gxCurrAddress rec rb;
     e \<leftarrow> data_error rb1;
     if e \<noteq> gxDBASE_NO_ERROR \<and> e \<noteq> gxDBASE_BAD_TABLE_ID then Some ((Some 0, r, rec1), rb1)
     else do {
       c \<leftarrow> Compare rec1 r field case_cmp alpha_cmp 0;
       if c \<noteq> 0 then Some ((None, r, rec1), rb1)
       else if field = all_fields then Some ((Some block_address, r, rec1), rb1)
       else do { r1 \<leftarrow> Copy_record rec1 r; Some ((Some block_address, r1, rec1), rb1) }
     }
   }"

partial_function (option) find_file_walk ::
  "gxrdDatabaseRecord \<Rightarrow> int \<Rightarrow> int \<Rightarrow> int \<Rightarrow> int \<Rightarrow> int \<Rightarrow> gxBlockHeader \<Rightarrow> gxrdDatabaseRecord \<Rightarrow> gxRDBMS \<Rightarrow>
   ((int \<times> gxrdDatabaseRecord) \<times> gxRDBMS) option"
where
  "find_file_walk r field case_cmp alpha_cmp eof block_address blk rec rb = do {
     hsize \<leftarrow> rdb_block_header_size rb;
     if block_address + hsize \<ge> eof then Some ((0, r), rb)
     else do {
       ((e, h), rb1) \<leftarrow> ReadBlockHeader blk block_address rb;
       if e \<noteq> gxDBASE_NO_ERROR then Some ((0, r), rb1)
       else if \<not> TestBlockHeader h then find_file_walk r field case_cmp alpha_cmp eof (block_address + 1) h rec rb1
       else do {
         ((res, r1, rec1), rb2) \<leftarrow>
           (if block_state h = gxNormalBlock then probe_block r field case_cmp alpha_cmp block_address h rec rb1
            else Some ((None, r, rec), rb1));
         case res of
           Some addr \<Rightarrow> Some ((addr, r1), rb2)
         | None \<Rightarrow> find_file_walk r1 field case_cmp alpha_cmp eof (block_address + block_length h) h rec1 rb2
       }
     }
   }"

definition find_in_file ::
  "gxrdDatabaseRecord \<Rightarrow> int \<Rightarrow> int \<Rightarrow> int \<Rightarrow> bool \<Rightarrow> gxRDBMS \<Rightarrow> ((int \<times> gxrdDatabaseRecord) \<times> gxRDBMS) option" where
  "find_in_file r field case_cmp alpha_cmp test_tree rb = do {
     (_, rb1) \<leftarrow> (if test_tree then on_pod TestDatabase rb else Some (0, rb));
     (eof, rb2) \<leftarrow> on_pod (on_data GetEOF) rb1;
     (addr, rb3) \<leftarrow> on_pod (on_data_opt (FindFirstBlock 0)) rb2;
     if addr = 0 then Some ((0, r), rb3)
     else find_file_walk r field case_cmp alpha_cmp eof addr new_gxBlockHeader (table_record rb1) rb3
   }"

section \<open>Find\<close>

definition Find_body ::
  "int \<Rightarrow> int \<Rightarrow> int \<Rightarrow> bool \<Rightarrow> gxrdDatabaseRecord \<Rightarrow> gxRDBMS \<Rightarrow> ((int \<times> gxrdDatabaseRecord) \<times> gxRDBMS) option" where
  "Find_body field case_cmp alpha_cmp test_tree r rb =
     (let rdef = tb_record_def (rb_table rb)
      in case (if rdef \<noteq> rec_def r then CreateRecord rdef True r else (gxDBASE_NO_ERROR, r)) of (e, r1) \<Rightarrow>
        if e \<noteq> gxDBASE_NO_ERROR then map_option (\<lambda>(a, rb1). ((a, r1), rb1)) (found_at e 0 rb)
        else do {
          i \<leftarrow> gxrd_field_index field (rb_primary rb) (rb_num_sec rb) (rb_sec_fields rb) (rb_num_trees rb);
          u \<leftarrow> using_index_rdb rb;
          if u \<and> i \<ge> 0 then map_option (\<lambda>(a, rb1). ((a, r1), rb1)) (find_by_key (nat i) field r1 test_tree rb)
          else find_in_file r1 field case_cmp alpha_cmp test_tree rb
        })"

definition Find_rdb ::
  "gxrdDatabaseRecord option \<Rightarrow> int \<Rightarrow> int \<Rightarrow> int \<Rightarrow> bool \<Rightarrow> gxRDBMS \<Rightarrow>
   ((int \<times> gxrdDatabaseRecord option) \<times> gxRDBMS) option" where
  "Find_rdb r field case_cmp alpha_cmp test_tree rb =
     with_record 0 (\<lambda>_. 0) (Find_body field case_cmp alpha_cmp test_tree) r rb"

text \<open>The primary key, then each secondary key.\<close>

fun find_sec_keys ::
  "bool \<Rightarrow> nat \<Rightarrow> nat \<Rightarrow> gxrdDatabaseRecord \<Rightarrow> gxRDBMS \<Rightarrow> ((int \<times> gxrdDatabaseRecord) \<times> gxRDBMS) option" where
  "find_sec_keys test_tree 0 i r rb = Some ((0, r), rb)"
| "find_sec_keys test_tree (Suc n) i r rb =
     (case rb_sec_fields rb of
        None \<Rightarrow> do { (_, rb1) \<leftarrow> set_index_error gxDBASE_NULL_PTR (i + 1) rb; Some ((0, r), rb1) }
      | Some fs \<Rightarrow> do {
          (_, rb1) \<leftarrow> set_index_error gxDBASE_NO_ERROR i rb;
          if i \<ge> length fs then None
          else do {
            ((addr, r1), rb2) \<leftarrow> Find_body (to_u64 (fs ! i - 1)) (rb_case rb1) (rb_alpha rb1) test_tree r rb1;
            if addr \<noteq> 0 then Some ((addr, r1), rb2) else find_sec_keys test_tree n (i + 1) r1 rb2
          }
        })"

definition FindKey_body ::
  "bool \<Rightarrow> gxrdDatabaseRecord \<Rightarrow> gxRDBMS \<Rightarrow> ((int \<times> gxrdDatabaseRecord) \<times> gxRDBMS) option" where
  "FindKey_body test_tree r rb = do {
     ((addr, r1), rb1) \<leftarrow> Find_body (primary_field rb) (rb_case rb) (rb_alpha rb) test_tree r rb;
     if addr \<noteq> 0 then Some ((addr, r1), rb1)
     else if rb_num_sec rb1 > 0 \<and> rb_num_trees rb1 > 1
     then find_sec_keys test_tree (nat (rb_num_sec rb1)) 0 r1 rb1
     else Some ((0, r1), rb1)
   }"

definition FindKey_record ::
  "gxrdDatabaseRecord option \<Rightarrow> bool \<Rightarrow> gxRDBMS \<Rightarrow> ((int \<times> gxrdDatabaseRecord option) \<times> gxRDBMS) option" where
  "FindKey_record r test_tree rb = with_record 0 (\<lambda>_. 0) (FindKey_body test_tree) r rb"

section \<open>Operations on records\<close>

definition AddRecord_body ::
  "bool \<Rightarrow> bool \<Rightarrow> gxrdDatabaseRecord \<Rightarrow> gxRDBMS \<Rightarrow> ((bool \<times> gxrdDatabaseRecord) \<times> gxRDBMS) option" where
  "AddRecord_body flushdb test_tree r rb = do {
     ((addr, r1), rb1) \<leftarrow> (if rb_dup rb = 0 then FindKey_body test_tree r rb else Some ((0, r), rb));
     if addr \<noteq> 0 then do {
       (_, rb2) \<leftarrow> set_data_error gxDBASE_RECORD_EXISTS rb1;
       Some ((False, r1), rb2)
     }
     else do {
       ((e, _), rb2) \<leftarrow> Write_body 0 flushdb test_tree r1 rb1;
       Some ((e = gxDBASE_NO_ERROR, r1), rb2)
     }
   }"

definition AddRecord ::
  "gxrdDatabaseRecord option \<Rightarrow> bool \<Rightarrow> bool \<Rightarrow> gxRDBMS \<Rightarrow> ((bool \<times> gxrdDatabaseRecord option) \<times> gxRDBMS) option" where
  "AddRecord r flushdb test_tree rb = with_record False (\<lambda>_. False) (AddRecord_body flushdb test_tree) r rb"

definition ReadRecord_body ::
  "int \<Rightarrow> gxrdDatabaseRecord \<Rightarrow> gxRDBMS \<Rightarrow> ((bool \<times> gxrdDatabaseRecord) \<times> gxRDBMS) option" where
  "ReadRecord_body block_address r rb = do {
     ((e, r1), rb1) \<leftarrow> Read_body block_address r rb;
     Some ((e = gxDBASE_NO_ERROR, r1), rb1)
   }"

definition ReadRecord ::
  "gxrdDatabaseRecord option \<Rightarrow> int \<Rightarrow> gxRDBMS \<Rightarrow> ((bool \<times> gxrdDatabaseRecord option) \<times> gxRDBMS) option" where
  "ReadRecord r block_address rb = with_record False (\<lambda>_. False) (ReadRecord_body block_address) r rb"

text \<open>The results of \<open>FindRecord\<close>: found or not, and the address of the block.\<close>

definition FindRecord_body ::
  "bool \<Rightarrow> bool \<Rightarrow> gxrdDatabaseRecord \<Rightarrow> gxRDBMS \<Rightarrow> (((bool \<times> int) \<times> gxrdDatabaseRecord) \<times> gxRDBMS) option" where
  "FindRecord_body load_record test_tree r rb = do {
     ((addr, r1), rb1) \<leftarrow> FindKey_body test_tree r rb;
     if addr = 0 then do {
       (_, rb2) \<leftarrow> set_data_error gxDBASE_RECORD_NOT_FOUND rb1;
       Some (((False, 0), r1), rb2)
     }
     else if load_record then do {
       ((_, r2), rb2) \<leftarrow> ReadRecord_body addr r1 rb1;
       Some (((True, addr), r2), rb2)
     }
     else Some (((True, addr), r1), rb1)
   }"

definition FindRecord ::
  "gxrdDatabaseRecord option \<Rightarrow> bool \<Rightarrow> bool \<Rightarrow> gxRDBMS \<Rightarrow>
   (((bool \<times> int) \<times> gxrdDatabaseRecord option) \<times> gxRDBMS) option" where
  "FindRecord r load_record test_tree rb =
     with_record (False, 0) (\<lambda>_. (False, 0)) (FindRecord_body load_record test_tree) r rb"

text \<open>\<open>f->Delete(block_address + f->BlockHeaderSize())\<close>\<close>

definition delete_block :: "int \<Rightarrow> gxRDBMS \<Rightarrow> (bool \<times> gxRDBMS) option" where
  "delete_block block_address rb = do {
     hsize \<leftarrow> rdb_block_header_size rb;
     on_pod (on_data (Delete (block_address + hsize))) rb
   }"

definition DeleteRecord_body ::
  "bool \<Rightarrow> bool \<Rightarrow> gxrdDatabaseRecord \<Rightarrow> gxRDBMS \<Rightarrow> ((bool \<times> gxrdDatabaseRecord) \<times> gxRDBMS) option" where
  "DeleteRecord_body flushdb test_tree r rb =
     (if tb_record_def (rb_table rb) \<noteq> rec_def r
      then do { (_, rb1) \<leftarrow> set_data_error gxDBASE_BAD_RECORD rb; Some ((False, r), rb1) }
      else do {
        u \<leftarrow> using_index_rdb rb;
        if u then do {
          ((addr, r1), rb1) \<leftarrow> FindKey_body test_tree r rb;
          if addr = 0 then do {
            (_, rb2) \<leftarrow> set_data_error gxDBASE_RECORD_NOT_FOUND rb1;
            Some ((False, r1), rb2)
          }
          else do {
            ((e, r2), rb2) \<leftarrow> Read_body addr r1 rb1;
            if e \<noteq> gxDBASE_NO_ERROR then Some ((False, r2), rb2)
            else do {
              ((e3, addr3), rb3) \<leftarrow> DeleteKey_body r2 addr flushdb test_tree rb2;
              if e3 \<noteq> gxDBASE_NO_ERROR then Some ((False, r2), rb3)
              else do { (ok, rb4) \<leftarrow> delete_block addr3 rb3; Some ((ok, r2), rb4) }
            }
          }
        }
        else do {
          ((addr, r1), rb1) \<leftarrow> Find_body (primary_field rb) (rb_case rb) (rb_alpha rb) test_tree r rb;
          if addr = 0 then Some ((False, r1), rb1)
          else do { (ok, rb2) \<leftarrow> delete_block addr rb1; Some ((ok, r1), rb2) }
        }
      })"

definition DeleteRecord ::
  "gxrdDatabaseRecord option \<Rightarrow> bool \<Rightarrow> bool \<Rightarrow> gxRDBMS \<Rightarrow> ((bool \<times> gxrdDatabaseRecord option) \<times> gxRDBMS) option" where
  "DeleteRecord r flushdb test_tree rb = with_record False (\<lambda>_. False) (DeleteRecord_body flushdb test_tree) r rb"

end
