(* ===== verification/RdbSearch.thy ===== *)
theory RdbSearch
  imports RdbFind Dates
begin

text \<open>
  The sorted list and the search over an index, \<open>SortOrderList\<close> and \<open>Search\<close> of \<open>src/src/gxrdbms.cpp\<close>. The
  virtual list, a \<open>std::set\<close> of records, is the list of its elements in their order; a comparison that is
  undefined gives \<open>None\<close>. The keys of these functions are made without \<open>dup\<close>, so the tree compares them
  without the address.
\<close>

section \<open>The virtual list\<close>

fun set_insert :: "gxrdDatabaseRecord \<Rightarrow> gxrdDatabaseRecord list \<Rightarrow> gxrdDatabaseRecord list option" where
  "set_insert x [] = Some [x]"
| "set_insert x (y # ys) = do {
     before \<leftarrow> record_less y x;
     if before then map_option ((#) y) (set_insert x ys)
     else do { smaller \<leftarrow> record_less x y; Some (if smaller then x # y # ys else y # ys) }
   }"

text \<open>A record is put in the list with the settings of the primary key, and goes on with those of the field.\<close>

definition keep_record ::
  "int \<Rightarrow> int \<Rightarrow> int \<Rightarrow> gxRDBMS \<Rightarrow> gxrdDatabaseRecord \<Rightarrow> gxrdDatabaseRecord list \<Rightarrow>
   (gxrdDatabaseRecord list \<times> gxrdDatabaseRecord) option"
where
  "keep_record field case_cmp alpha_cmp rb rec virtual_list = do {
     let r1 = set_record_parms (primary_field rb) (rb_case rb) (rb_alpha rb) rec;
     v \<leftarrow> set_insert r1 virtual_list;
     Some (v, set_record_parms field case_cmp alpha_cmp r1)
   }"

type_synonym list_result = "(gxDatabaseError \<times> gxrdDatabaseRecord list) \<times> gxRDBMS"

text \<open>A record that cannot be read: the error of the data file, else that of the index.\<close>

definition list_read_failed :: "nat \<Rightarrow> gxrdDatabaseRecord list \<Rightarrow> gxRDBMS \<Rightarrow> list_result option" where
  "list_read_failed i v rb = do {
     e \<leftarrow> data_error rb;
     if e \<noteq> gxDBASE_NO_ERROR then Some ((e, v), rb)
     else do { e2 \<leftarrow> index_error i rb; Some ((e2, v), rb) }
   }"

text \<open>The field of a key number, which counts from one; -1 stands for all fields.\<close>

definition field_of_key :: "int \<Rightarrow> int" where
  "field_of_key key_number = (if key_number = all_fields then all_fields else to_u64 (key_number - 1))"

definition bad_index_number :: "int \<Rightarrow> gxRDBMS \<Rightarrow> bool" where
  "bad_index_number index_number rb \<longleftrightarrow> index_number > to_u64 (rb_num_trees rb - 1)"

section \<open>The sorted list\<close>

partial_function (option) sort_walk ::
  "nat \<Rightarrow> (gxrdDatabaseRecord \<Rightarrow> gxrdDatabaseRecord list \<Rightarrow> (gxrdDatabaseRecord list \<times> gxrdDatabaseRecord) option) \<Rightarrow>
   int \<Rightarrow> int \<Rightarrow> int \<Rightarrow> DatabaseKeyB \<Rightarrow> DatabaseKeyB \<Rightarrow> gxrdDatabaseRecord \<Rightarrow> gxrdDatabaseRecord list \<Rightarrow> int \<Rightarrow> int \<Rightarrow>
   gxRDBMS \<Rightarrow> list_result option"
where
  "sort_walk i keep list_limit list_start list_end key ck rec v record_count nkeys rb = do {
     ((n, key1, ck1), rb1) \<leftarrow> tree_step i (FindNext (rd_compare False) key ck False) rb;
     if n = 0 \<or> record_count \<ge> list_end - list_start + 1 \<or> record_count \<ge> list_limit \<or> record_count \<ge> list_end
     then failing gxDBASE_NO_ERROR v rb1
     else if nkeys \<ge> list_start then do {
       ((ok, rec1), rb2) \<leftarrow> ReadRecord_body (KeyID key1) rec rb1;
       if \<not> ok then list_read_failed i v rb2
       else do {
         (v1, rec2) \<leftarrow> keep rec1 v;
         sort_walk i keep list_limit list_start list_end key1 ck1 rec2 v1 (record_count + 1) (nkeys + 1) rb2
       }
     }
     else sort_walk i keep list_limit list_start list_end key1 ck1 rec v record_count (nkeys + 1) rb1
   }"

definition sort_from_first ::
  "nat \<Rightarrow> (gxrdDatabaseRecord \<Rightarrow> gxrdDatabaseRecord list \<Rightarrow> (gxrdDatabaseRecord list \<times> gxrdDatabaseRecord) option) \<Rightarrow>
   int \<Rightarrow> int \<Rightarrow> int \<Rightarrow> gxrdDatabaseRecord \<Rightarrow> gxRDBMS \<Rightarrow> list_result option"
where
  "sort_from_first i keep list_limit list_start list_end rec rb = do {
     ((n, key, _), rb1) \<leftarrow> tree_step i (FindFirst no_rdb_key False) rb;
     if n = 0 then failing gxDBASE_NO_ERROR [] rb1
     else if list_start = 0 \<or> list_start = 1 then do {
       ((ok, rec1), rb2) \<leftarrow> ReadRecord_body (KeyID key) rec rb1;
       if \<not> ok then list_read_failed i [] rb2
       else do {
         (v1, rec2) \<leftarrow> keep rec1 [];
         sort_walk i keep list_limit list_start list_end key no_rdb_key rec2 v1 1 1 rb2
       }
     }
     else sort_walk i keep list_limit list_start list_end key no_rdb_key rec [] 0 1 rb1
   }"

definition SortOrderList ::
  "int \<Rightarrow> int \<Rightarrow> int \<Rightarrow> int \<Rightarrow> int \<Rightarrow> int \<Rightarrow> int \<Rightarrow> gxRDBMS \<Rightarrow> list_result option" where
  "SortOrderList index_number key_number case_cmp alpha_cmp list_limit list_start list_end rb =
     (if IsClosed rb then Some ((gxDBASE_NO_DATABASE_OPEN, []), rb)
      else if bad_index_number index_number rb then failing gxDBASE_BAD_INDEX_NUMBER [] rb
      else do {
        (num_records, rb1) \<leftarrow> NumRecords rb;
        if num_records = 0 then Some ((gxDBASE_NO_ERROR, []), rb1)
        else if list_start > num_records \<or> list_end > num_records \<or> list_end < list_start \<or>
                list_end - list_start > num_records
        then failing gxDBASE_BAD_RANGE_LIMIT [] rb1
        else (let field = field_of_key key_number
              in case CreateRecord (tb_record_def (rb_table rb1)) True empty_record of (e, rec) \<Rightarrow>
                if e \<noteq> gxDBASE_NO_ERROR then failing e [] rb1
                else if key_number \<noteq> all_fields \<and> key_number > int (num_flds rec)
                then failing gxDBASE_BUFFER_OVERFLOW [] rb1
                else sort_from_first (nat index_number) (keep_record field case_cmp alpha_cmp rb1)
                       list_limit list_start list_end (set_record_parms field case_cmp alpha_cmp rec) rb1)
      })"

text \<open>The number of the primary key, \<open>(__ULWORD__)primary_key\<close>.\<close>

definition primary_number :: "gxRDBMS \<Rightarrow> int" where
  "primary_number rb = to_u64 (rb_primary rb)"

definition SortOrderList_primary :: "int \<Rightarrow> int \<Rightarrow> int \<Rightarrow> gxRDBMS \<Rightarrow> list_result option" where
  "SortOrderList_primary list_limit list_start list_end rb =
     SortOrderList 0 (primary_number rb) (rb_case rb) (rb_alpha rb) list_limit list_start list_end rb"

section \<open>Searching\<close>

definition search_test ::
  "gxrdDatabaseRecord \<Rightarrow> int \<Rightarrow> int \<Rightarrow> int \<Rightarrow> int \<Rightarrow> gxRDBMS \<Rightarrow> gxrdDatabaseRecord \<Rightarrow> gxrdDatabaseRecord list \<Rightarrow>
   (gxrdDatabaseRecord list \<times> gxrdDatabaseRecord) option"
where
  "search_test cmp_rec field case_cmp alpha_cmp find_all rb rec v = do {
     c \<leftarrow> Compare rec cmp_rec field case_cmp alpha_cmp find_all;
     if c = 0 then keep_record field case_cmp alpha_cmp rb rec v else Some (v, rec)
   }"

partial_function (option) search_walk ::
  "nat \<Rightarrow> (gxrdDatabaseRecord \<Rightarrow> gxrdDatabaseRecord list \<Rightarrow> (gxrdDatabaseRecord list \<times> gxrdDatabaseRecord) option) \<Rightarrow>
   int \<Rightarrow> DatabaseKeyB \<Rightarrow> DatabaseKeyB \<Rightarrow> gxrdDatabaseRecord \<Rightarrow> gxrdDatabaseRecord list \<Rightarrow> int \<Rightarrow> gxRDBMS \<Rightarrow>
   list_result option"
where
  "search_walk i test list_limit key ck rec v record_count rb = do {
     ((n, key1, ck1), rb1) \<leftarrow> tree_step i (FindNext (rd_compare False) key ck False) rb;
     if n = 0 \<or> record_count \<ge> list_limit then failing gxDBASE_NO_ERROR v rb1
     else do {
       ((ok, rec1), rb2) \<leftarrow> ReadRecord_body (KeyID key1) rec rb1;
       if \<not> ok then list_read_failed i v rb2
       else do {
         (v1, rec2) \<leftarrow> test rec1 v;
         search_walk i test list_limit key1 ck1 rec2 v1 (record_count + 1) rb2
       }
     }
   }"

definition search_from_first ::
  "nat \<Rightarrow> (gxrdDatabaseRecord \<Rightarrow> gxrdDatabaseRecord list \<Rightarrow> (gxrdDatabaseRecord list \<times> gxrdDatabaseRecord) option) \<Rightarrow>
   int \<Rightarrow> gxrdDatabaseRecord \<Rightarrow> gxRDBMS \<Rightarrow> list_result option"
where
  "search_from_first i test list_limit rec rb = do {
     ((n, key, _), rb1) \<leftarrow> tree_step i (FindFirst no_rdb_key False) rb;
     if n = 0 then failing gxDBASE_NO_ERROR [] rb1
     else do {
       ((ok, rec1), rb2) \<leftarrow> ReadRecord_body (KeyID key) rec rb1;
       if \<not> ok then list_read_failed i [] rb2
       else do {
         (v1, rec2) \<leftarrow> test rec1 [];
         search_walk i test list_limit key no_rdb_key rec2 v1 1 rb2
       }
     }
   }"

definition Search ::
  "gxrdDatabaseRecord \<Rightarrow> int \<Rightarrow> int \<Rightarrow> int \<Rightarrow> int \<Rightarrow> int \<Rightarrow> int \<Rightarrow> gxRDBMS \<Rightarrow> list_result option" where
  "Search cmp_rec index_number search_field case_cmp alpha_cmp find_all list_limit rb =
     (if IsClosed rb then Some ((gxDBASE_NO_DATABASE_OPEN, []), rb)
      else if bad_index_number index_number rb then failing gxDBASE_BAD_INDEX_NUMBER [] rb
      else do {
        (num_records, rb1) \<leftarrow> NumRecords rb;
        if num_records = 0 then Some ((gxDBASE_NO_ERROR, []), rb1)
        else if list_limit > num_records then failing gxDBASE_BAD_RANGE_LIMIT [] rb1
        else (let field = field_of_key search_field
              in case CreateRecord (tb_record_def (rb_table rb1)) True empty_record of (e, rec) \<Rightarrow>
                if e \<noteq> gxDBASE_NO_ERROR then failing e [] rb1
                else if search_field \<noteq> all_fields \<and> search_field > int (num_flds rec)
                then Some ((gxDBASE_BUFFER_OVERFLOW, []), rb1)
                else (let cmp1 = set_record_parms field case_cmp alpha_cmp cmp_rec
                      in search_from_first (nat index_number) (search_test cmp1 field case_cmp alpha_cmp find_all rb1)
                           list_limit (set_record_parms field case_cmp alpha_cmp rec) rb1))
      })"

definition Search_primary :: "gxrdDatabaseRecord \<Rightarrow> int \<Rightarrow> int \<Rightarrow> gxRDBMS \<Rightarrow> list_result option" where
  "Search_primary cmp_rec find_all list_limit rb =
     Search cmp_rec 0 (primary_number rb) (rb_case rb) (rb_alpha rb) find_all list_limit rb"

section \<open>Searching for a text\<close>

definition yes_text :: "string \<Rightarrow> bool" where
  "yes_text s \<longleftrightarrow> to_upper s \<in> set [''Y'', ''YES'', ''TRUE'', ''1'', ''CHECKED'']"

text \<open>
  The bytes of a text in a field of a type. The double of a text, \<open>atof\<close> of the C library, is an argument
  that gives its bytes.
\<close>

definition text_field ::
  "(string \<Rightarrow> byte list) \<Rightarrow> gxrdFIELD_TYPES \<Rightarrow> nat \<Rightarrow> string \<Rightarrow> byte list option" where
  "text_field atof type field_length s =
     (case type of
        gxrdBOOL \<Rightarrow> Some [if yes_text s then 1 else 0]
      | gxrdCHAR \<Rightarrow> Some (List.take field_length (name_bytes s))
      | gxrdVCHAR \<Rightarrow> Some (name_bytes s)
      | gxrdBINARY \<Rightarrow> Some (name_bytes s)
      | gxrdBLOB \<Rightarrow> Some (name_bytes s)
      | gxrdINT16 \<Rightarrow> Some (gxINT16_UnPackBits (to_s16 (to_int s)))
      | gxrdINT32 \<Rightarrow> Some (gxINT32_UnPackBits (to_s32 (to_long s)))
      | gxrdINT64 \<Rightarrow> Some (gxINT64_UnPackBits (to_long s))
      | gxrdFLOAT \<Rightarrow> Some (atof s)
      | gxrdCURRENCY \<Rightarrow> Some (atof s)
      | gxrdDATE \<Rightarrow> Some (enc_CDate (CDate_assign (c_str s)))
      | gxrdINVALID_TYPE \<Rightarrow> None)"

definition set_text_field ::
  "(string \<Rightarrow> byte list) \<Rightarrow> string \<Rightarrow> int \<Rightarrow> gxrdDatabaseRecord \<Rightarrow> gxrdDatabaseRecord option" where
  "set_text_field atof s field r = do {
     t \<leftarrow> FieldType field r;
     n \<leftarrow> FieldLength field r;
     case Option.bind (type_of_id t) (\<lambda>type. text_field atof type (nat n) s) of
       None \<Rightarrow> Some r
     | Some d \<Rightarrow> map_option snd (SetField d field r)
   }"

definition Search_text ::
  "(string \<Rightarrow> byte list) \<Rightarrow> string \<Rightarrow> int \<Rightarrow> int \<Rightarrow> int \<Rightarrow> int \<Rightarrow> int \<Rightarrow> int \<Rightarrow> gxRDBMS \<Rightarrow> list_result option" where
  "Search_text atof search_string index_number search_field case_cmp alpha_cmp find_all list_limit rb =
     (if IsClosed rb then Some ((gxDBASE_NO_DATABASE_OPEN, []), rb)
      else if bad_index_number index_number rb then failing gxDBASE_BAD_INDEX_NUMBER [] rb
      else if search_field = all_fields then failing gxDBASE_BUFFER_OVERFLOW [] rb
      else (let field = to_u64 (search_field - 1)
            in case CreateRecord (tb_record_def (rb_table rb)) True empty_record of (e, rec) \<Rightarrow>
              if e \<noteq> gxDBASE_NO_ERROR then failing e [] rb
              else if search_field > int (num_flds rec) then failing gxDBASE_BUFFER_OVERFLOW [] rb
              else do {
                r1 \<leftarrow> set_text_field atof search_string field (set_record_parms field case_cmp alpha_cmp rec);
                Search r1 index_number search_field case_cmp alpha_cmp find_all list_limit rb
              }))"

definition Search_text_primary ::
  "(string \<Rightarrow> byte list) \<Rightarrow> string \<Rightarrow> int \<Rightarrow> int \<Rightarrow> gxRDBMS \<Rightarrow> list_result option" where
  "Search_text_primary atof search_string find_all list_limit rb =
     Search_text atof search_string 0 (primary_number rb) (rb_case rb) (rb_alpha rb) find_all list_limit rb"

end
