(* ===== verification/RdbCheck.thy ===== *)
theory RdbCheck
  imports RdbFiles RdbSearch
begin

text \<open>
  Checking and rebuilding (\<open>src/src/gxrdbms.cpp\<close>): the walk over the data file that verifies its records,
  the comparison of an index with the data file, and the rebuilding of an index. \<open>VerifyDataFile\<close> is
  here for an open manager; without one it calls \<open>CheckDataFile\<close>, which works with the debug manager.
\<close>

section \<open>Verifying the data file\<close>

datatype verify_step = Goes_on | Deleted_block | Bad_file

text \<open>
  One block with a record: what the walk does next, and whether the flags are reset and the error is
  set before it fails.
\<close>

definition delete_or_fail ::
  "int \<Rightarrow> bool \<Rightarrow> gxrdDatabaseRecord \<Rightarrow> gxRDBMS \<Rightarrow> ((verify_step \<times> gxrdDatabaseRecord) \<times> gxRDBMS) option" where
  "delete_or_fail block_address auto_fix rec rb =
     (if \<not> auto_fix then do {
        (_, rb1) \<leftarrow> set_data_error gxDBASE_BAD_DATAFILE rb;
        Some ((Bad_file, rec), rb1)
      }
      else do {
        (ok, rb1) \<leftarrow> delete_block block_address rb;
        Some ((if ok then Deleted_block else Bad_file, rec), rb1)
      })"

text \<open>The result of the walk: true or false, the number of records, and the two flags.\<close>

record verify_state =
  vs_records :: int
  vs_rebuild_df :: int
  vs_rebuild_ix :: int

definition reset_flags :: "verify_state \<Rightarrow> verify_state" where
  "reset_flags s = s\<lparr>vs_rebuild_df := 0, vs_rebuild_ix := 0\<rparr>"

partial_function (option) verify_walk ::
  "bool \<Rightarrow> gxrdDatabaseRecord \<Rightarrow> int \<Rightarrow> int \<Rightarrow> gxBlockHeader \<Rightarrow> gxrdDatabaseRecord \<Rightarrow> verify_state \<Rightarrow> gxRDBMS \<Rightarrow>
   ((bool \<times> verify_state) \<times> gxRDBMS) option"
where
  "verify_walk auto_fix cmp_rec eof block_address blk rec s rb = do {
     hsize \<leftarrow> rdb_block_header_size rb;
     if block_address + hsize \<ge> eof then Some ((True, s), rb)
     else do {
       ((e, h), rb1) \<leftarrow> ReadBlockHeader blk block_address rb;
       let next = block_address + block_length h;
       if e \<noteq> gxDBASE_NO_ERROR then Some ((False, s), rb1)
       else if \<not> TestBlockHeader h then do {
         (_, rb2) \<leftarrow> set_data_error gxDBASE_BAD_DATAFILE rb1;
         Some ((False, reset_flags s), rb2)
       }
       else if block_state h \<noteq> gxNormalBlock then verify_walk auto_fix cmp_rec eof next h rec s rb1
       else do {
         ((e2, rec2), rb2) \<leftarrow> Read_block_body h gxCurrAddress rec rb1;
         err \<leftarrow> data_error rb2;
         if e2 \<noteq> gxDBASE_NO_ERROR \<and> err = gxDBASE_BAD_TABLE_ID
         then verify_walk auto_fix cmp_rec eof next h rec2 s rb2
         else if e2 \<noteq> gxDBASE_NO_ERROR \<and> err \<noteq> gxDBASE_BAD_RECORD then Some ((False, s), rb2)
         else do {
           ok \<leftarrow> (if e2 \<noteq> gxDBASE_NO_ERROR then Some False else verify_record rec2 cmp_rec);
           ((st, rec3), rb3) \<leftarrow> (if ok then Some ((Goes_on, rec2), rb2)
                             else delete_or_fail block_address auto_fix rec2 rb2);
           if st = Bad_file then Some ((False, reset_flags s), rb3)
           else verify_walk auto_fix cmp_rec eof next h rec3
                  (if st = Goes_on then s\<lparr>vs_records := vs_records s + 1\<rparr> else s\<lparr>vs_rebuild_ix := 1\<rparr>) rb3
         }
       }
     }
   }"

definition TestDataFile_rdb :: "gxRDBMS \<Rightarrow> (int \<times> gxRDBMS) option" where
  "TestDataFile_rdb = on_pod (\<lambda>p. Some (TestDataFile p))"

definition VerifyDataFile_open :: "bool \<Rightarrow> gxRDBMS \<Rightarrow> ((bool \<times> verify_state) \<times> gxRDBMS) option" where
  "VerifyDataFile_open auto_fix rb0 = do {
     let s = \<lparr>vs_records = 0, vs_rebuild_df = 0, vs_rebuild_ix = 0\<rparr>;
     (_, rb) \<leftarrow> TestDataFile_rdb rb0;
     if \<not> Exists (rb_datafile rb) (rdb_fs rb) then do {
       (e, rb1) \<leftarrow> create_or_open False rb;
       Some ((e = gxDBASE_NO_ERROR, s), rb1)
     }
     else do {
       (eof, rb1) \<leftarrow> on_pod (on_data GetEOF) rb;
       (addr, rb2) \<leftarrow> on_pod (on_data_opt (FindFirstBlock 0)) rb1;
       if addr = 0 then do {
         (n, rb3) \<leftarrow> NumRecords rb2;
         (_, rb4) \<leftarrow> set_data_error (if n = 0 then gxDBASE_DATAFILE_EMPTY else gxDBASE_BAD_DATAFILE) rb3;
         Some ((n = 0, s), rb4)
       }
       else verify_walk auto_fix (table_record rb) eof addr new_gxBlockHeader (table_record rb) s rb2
     }
   }"

section \<open>Verifying an index\<close>

definition verify_read :: "gxrdDatabaseRecord \<Rightarrow> int \<Rightarrow> gxrdDatabaseRecord \<Rightarrow> gxRDBMS \<Rightarrow> ((bool \<times> gxrdDatabaseRecord) \<times> gxRDBMS) option" where
  "verify_read cmp_rec addr rec rb = do {
     ((ok, rec1), rb1) \<leftarrow> ReadRecord_body addr rec rb;
     if \<not> ok then Some ((False, rec1), rb1)
     else do {
       good \<leftarrow> verify_record rec1 cmp_rec;
       if good then Some ((True, rec1), rb1)
       else do { (_, rb2) \<leftarrow> set_data_error gxDBASE_BAD_DATAFILE rb1; Some ((True, rec1), rb2) }
     }
   }"

text \<open>The node of \<open>FindNext\<close> is that of the caller and goes from one call to the next.\<close>

partial_function (option) verify_keys ::
  "nat \<Rightarrow> gxrdDatabaseRecord \<Rightarrow> DatabaseKeyB \<Rightarrow> DatabaseKeyB \<Rightarrow> BtreeNode \<Rightarrow> gxrdDatabaseRecord \<Rightarrow> int \<Rightarrow> gxRDBMS \<Rightarrow>
   ((bool \<times> int) \<times> gxRDBMS) option"
where
  "verify_keys i cmp_rec key ck node rec nkeys rb = do {
     ((n, key1, ck1, node1), rb1) \<leftarrow>
       on_pod (on_index i (\<lambda>t. Some (FindNext_at (rd_compare False) key ck node False t))) rb;
     if n = 0 then do {
       (blocks, rb2) \<leftarrow> NumRecords rb1;
       Some ((nkeys = blocks, nkeys), rb2)
     }
     else do {
       ((ok, rec1), rb2) \<leftarrow> verify_read cmp_rec (KeyID key1) rec rb1;
       if \<not> ok then Some ((False, nkeys), rb2)
       else verify_keys i cmp_rec key1 ck1 node1 rec1 (nkeys + 1) rb2
     }
   }"

definition no_keys_found :: "nat \<Rightarrow> gxRDBMS \<Rightarrow> (bool \<times> gxRDBMS) option" where
  "no_keys_found i rb = do {
     (count, rb1) \<leftarrow> on_pod (on_index i (\<lambda>t. Some (n_keys (btree_header t), t))) rb;
     if count = 0 then do {
       (blocks, rb2) \<leftarrow> NumRecords rb1;
       if blocks = 0 then do {
         (_, rb3) \<leftarrow> set_data_error gxDBASE_DATAFILE_EMPTY rb2;
         (_, rb4) \<leftarrow> set_index_error gxDBASE_INDEX_EMPTY i rb3;
         Some (True, rb4)
       }
       else do { (_, rb3) \<leftarrow> set_index_error gxDBASE_BAD_INDEX_FILE i rb2; Some (False, rb3) }
     }
     else do {
       (_, rb2) \<leftarrow> set_index_error gxDBASE_BAD_INDEX_FILE i rb1;
       (blocks, rb3) \<leftarrow> NumRecords rb2;
       (_, rb4) \<leftarrow> (if blocks = 0 then set_data_error gxDBASE_BAD_DATAFILE rb3 else Some (gxDBASE_NO_ERROR, rb3));
       Some (False, rb4)
     }
   }"

definition VerifyIndex :: "int \<Rightarrow> int \<Rightarrow> gxRDBMS \<Rightarrow> ((bool \<times> int) \<times> gxRDBMS) option" where
  "VerifyIndex index_number nkeys rb =
     (if IsClosed rb then Some ((False, nkeys), rb)
      else if bad_index_number index_number rb then do {
        (_, rb1) \<leftarrow> set_data_error gxDBASE_BAD_INDEX_NUMBER rb;
        Some ((False, nkeys), rb1)
      }
      else (let i = nat index_number in do {
        (_, rb1) \<leftarrow> on_pod (TestIndexFile i) rb;
        (_, rb2) \<leftarrow> TestDataFile_rdb rb1;
        (node, rb3) \<leftarrow> on_pod (on_index i (\<lambda>t. Some (fresh_node t, t))) rb2;
        ((n, key, _), rb4) \<leftarrow> tree_step i (FindFirst no_rdb_key False) rb3;
        if n = 0 then do { (ok, rb5) \<leftarrow> no_keys_found i rb4; Some ((ok, 0), rb5) }
        else do {
          ((ok, rec), rb5) \<leftarrow> verify_read (table_record rb) (KeyID key) (table_record rb) rb4;
          if \<not> ok then Some ((False, 0), rb5)
          else verify_keys i (table_record rb) key no_rdb_key node rec 1 rb5
        }
      }))"

section \<open>Rebuilding an index\<close>

text \<open>The field of an index: \<open>Inl\<close> when there is none, \<open>None\<close> outside the array.\<close>

definition index_field :: "int \<Rightarrow> gxRDBMS \<Rightarrow> (unit + int) option" where
  "index_field index_number rb =
     (if rb_primary rb = -1 then Some (Inr (to_u64 (-1)))
      else if index_number = 0 then Some (Inr (to_u64 (rb_primary rb - 1)))
      else case rb_sec_fields rb of
             None \<Rightarrow> Some (Inl ())
           | Some fs \<Rightarrow>
               if index_number > to_u64 (rb_num_sec rb) then Some (Inl ())
               else if nat (index_number - 1) < length fs
               then Some (Inr (to_u64 (fs ! nat (index_number - 1) - 1)))
               else None)"

definition insert_key :: "gxrdDatabaseRecord \<Rightarrow> int \<Rightarrow> int \<Rightarrow> gxRDBMS \<Rightarrow> (gxDatabaseError \<times> gxRDBMS) option" where
  "insert_key r block_address index_number rb =
     (if rb_pod rb = None then Some (gxDBASE_NULL_PTR, rb)
      else do {
        f \<leftarrow> index_field index_number rb;
        case f of
          Inl _ \<Rightarrow> set_index_error gxDBASE_BAD_INDEX_NUMBER (nat index_number) rb
        | Inr field \<Rightarrow> do {
            k \<leftarrow> CreateKey field (CaseCompare rb) r;
            if k = 0 then set_index_error gxDBASE_BAD_KEY 0 rb
            else do {
              ((added, _, _), rb1) \<leftarrow> on_pod (AddKey (key_cmp rb) (rdb_key k block_address (rdb_table_id r rb))
                 no_rdb_key (nat index_number) False) rb;
              if added = 0 then do { e \<leftarrow> index_error 0 rb1; Some (e, rb1) } else Some (gxDBASE_NO_ERROR, rb1)
            }
          }
      })"

partial_function (option) rebuild_walk ::
  "int \<Rightarrow> int \<Rightarrow> int \<Rightarrow> gxBlockHeader \<Rightarrow> gxrdDatabaseRecord \<Rightarrow> int \<Rightarrow> int \<Rightarrow> gxRDBMS \<Rightarrow>
   ((int \<times> int \<times> int) \<times> gxRDBMS) option"
where
  "rebuild_walk index_number eof block_address blk rec records nkeys rb = do {
     hsize \<leftarrow> rdb_block_header_size rb;
     if block_address + hsize \<ge> eof then Some ((1, records, nkeys), rb)
     else do {
       ((e, h), rb1) \<leftarrow> ReadBlockHeader blk block_address rb;
       let next = block_address + block_length h;
       if e \<noteq> gxDBASE_NO_ERROR then Some ((0, records, nkeys), rb1)
       else if \<not> TestBlockHeader h then do {
         (_, rb2) \<leftarrow> set_data_error gxDBASE_BAD_DATAFILE rb1;
         Some ((-6, records, nkeys), rb2)
       }
       else if block_state h \<noteq> gxNormalBlock then rebuild_walk index_number eof next h rec records nkeys rb1
       else do {
         ((e2, rec2), rb2) \<leftarrow> Read_block_body h gxCurrAddress rec rb1;
         err \<leftarrow> data_error rb2;
         if e2 \<noteq> gxDBASE_NO_ERROR \<and> err \<noteq> gxDBASE_BAD_TABLE_ID then Some ((-4, records, nkeys), rb2)
         else if e2 \<noteq> gxDBASE_NO_ERROR then rebuild_walk index_number eof next h rec2 records nkeys rb2
         else do {
           (e3, rb3) \<leftarrow> insert_key rec2 block_address index_number rb2;
           if e3 \<noteq> gxDBASE_NO_ERROR then Some ((-5, records + 1, nkeys), rb3)
           else rebuild_walk index_number eof next h rec2 (records + 1) (nkeys + 1) rb3
         }
       }
     }
   }"

text \<open>After the walk the index is flushed and enabled.\<close>

definition finish_rebuild :: "int \<Rightarrow> (int \<times> int \<times> int) \<Rightarrow> gxRDBMS \<Rightarrow> ((int \<times> int \<times> int) \<times> gxRDBMS) option" where
  "finish_rebuild index_number res rb =
     (if fst res \<noteq> 1 then Some (res, rb)
      else do {
        (_, rb1) \<leftarrow> on_pod (FlushIndexFile (nat index_number)) rb;
        (_, rb2) \<leftarrow> on_pod (\<lambda>p. Some ((), EnableIndex p)) rb1;
        Some (res, rb2)
      })"

definition rebuild_from_file ::
  "int \<Rightarrow> gxRDBMS \<Rightarrow> ((int \<times> int \<times> int) \<times> gxRDBMS) option" where
  "rebuild_from_file index_number rb = do {
     (_, rb1) \<leftarrow> TestDataFile_rdb rb;
     (eof, rb2) \<leftarrow> on_pod (on_data GetEOF) rb1;
     (addr, rb3) \<leftarrow> on_pod (on_data_opt (FindFirstBlock 0)) rb2;
     if addr = 0 then do {
       (n, rb4) \<leftarrow> NumRecords rb3;
       if n = 0 then do {
         (_, rb5) \<leftarrow> set_data_error gxDBASE_DATAFILE_EMPTY rb4;
         (_, rb6) \<leftarrow> set_index_error gxDBASE_INDEX_EMPTY (nat index_number) rb5;
         Some ((1, 0, 0), rb6)
       }
       else do { (_, rb5) \<leftarrow> set_data_error gxDBASE_BAD_DATAFILE rb4; Some ((-3, 0, 0), rb5) }
     }
     else do {
       (res, rb4) \<leftarrow> rebuild_walk index_number eof addr new_gxBlockHeader (table_record rb) 0 0 rb3;
       finish_rebuild index_number res rb4
     }
   }"

definition rebuild_index_rdb ::
  "int \<Rightarrow> int \<Rightarrow> int \<Rightarrow> char \<Rightarrow> int \<Rightarrow> int \<Rightarrow> gxRDBMS \<Rightarrow> ((int \<times> int \<times> int) \<times> gxRDBMS) option" where
  "rebuild_index_rdb index_number no ntrees letter records nkeys rb =
     (if IsClosed rb then Some ((0, records, nkeys), rb)
      else if bad_index_number index_number rb then do {
        (_, rb1) \<leftarrow> set_data_error gxDBASE_BAD_INDEX_NUMBER rb;
        Some ((0, records, nkeys), rb1)
      }
      else case rb_indexfiles rb of
        None \<Rightarrow> do {
          (_, rb1) \<leftarrow> set_data_error gxDBASE_BAD_INDEX_NAME rb;
          Some ((0, records, nkeys), rb1)
        }
      | Some names \<Rightarrow>
          if nat index_number \<ge> length names then None
          else do {
            (_, rb1) \<leftarrow> on_pod (\<lambda>p. Some ((), DisableIndex p)) rb;
            (e, rb2) \<leftarrow> on_pod (CloseIndex (nat index_number)) rb1;
            if e \<noteq> gxDBASE_NO_ERROR then Some ((-1, records, nkeys), rb2)
            else do {
              (e2, rb3) \<leftarrow> on_pod (CreateIndex (Some (c_str (names ! nat index_number))) (nat index_number) rd_KeySize
                 no ntrees letter) rb2;
              if e2 \<noteq> gxDBASE_NO_ERROR then Some ((-2, records, nkeys), rb3) else rebuild_from_file index_number rb3
            }
          })"

text \<open>After every failure but that of closing the index the files are opened again.\<close>

definition RebuildIndex_with ::
  "int \<Rightarrow> int \<Rightarrow> int \<Rightarrow> char \<Rightarrow> int \<Rightarrow> int \<Rightarrow> gxRDBMS \<Rightarrow> ((bool \<times> int \<times> int) \<times> gxRDBMS) option" where
  "RebuildIndex_with index_number no ntrees letter records nkeys rb = do {
     ((rv, r, k), rb1) \<leftarrow> rebuild_index_rdb index_number no ntrees letter records nkeys rb;
     if rv \<in> {0, -2, -3, -4, -5, -6} then do {
       (_, rb2) \<leftarrow> create_or_open False rb1;
       Some ((False, r, k), rb2)
     }
     else Some ((rv = 1, r, k), rb1)
   }"

definition RebuildIndex_rdb :: "int \<Rightarrow> int \<Rightarrow> int \<Rightarrow> gxRDBMS \<Rightarrow> ((bool \<times> int \<times> int) \<times> gxRDBMS) option" where
  "RebuildIndex_rdb index_number records nkeys rb =
     RebuildIndex_with index_number (rb_order rb) (rb_num_trees rb) (rb_if_rev rb) records nkeys rb"

section \<open>The file of the process\<close>

definition PID_name :: "string option \<Rightarrow> string" where
  "PID_name pid_file_name = (case pid_file_name of None \<Rightarrow> ''gxRDBMS.pid'' | Some s \<Rightarrow> s)"

definition gxrdWritePID :: "string option \<Rightarrow> filesys \<Rightarrow> bool \<times> filesys" where
  "gxrdWritePID n fs = (case fopen_w (PID_name n) fs of (f, fs1) \<Rightarrow> (f \<noteq> None, fs1))"

definition gxrdHasPIDFile :: "string option \<Rightarrow> filesys \<Rightarrow> bool" where
  "gxrdHasPIDFile n fs = Exists (PID_name n) fs"

definition gxrdRemovePID :: "string option \<Rightarrow> filesys \<Rightarrow> bool \<times> filesys" where
  "gxrdRemovePID n fs =
     (if Exists (PID_name n) fs then (case file_remove (PID_name n) fs of (r, fs1) \<Rightarrow> (r = 0, fs1)) else (True, fs))"

end
