(* ===== verification/RdbKeyProps.thy ===== *)
theory RdbKeyProps
  imports RdbCheck
begin

text \<open>
  Properties of the key definition of a table: what a definition that is accepted gives, that the index in
  which \<open>Find\<close> looks for a field is filled with keys of this field, and when a missing index file is noticed.
\<close>

section \<open>Key definitions\<close>

text \<open>
  The keys of a table: the array of secondary fields has an entry for each field of the record, the
  first \<open>rb_num_sec\<close> of them are set, and no key is column zero.
\<close>

definition keys_ok :: "nat \<Rightarrow> gxRDBMS \<Rightarrow> bool" where
  "keys_ok nfields rb \<longleftrightarrow>
     0 \<le> rb_num_sec rb \<and> rb_num_sec rb \<le> int nfields \<and> rb_primary rb \<noteq> 0 \<and>
     (\<exists>fs. rb_sec_fields rb = Some fs \<and> length fs = nfields \<and> (\<forall>i < nat (rb_num_sec rb). fs ! i \<noteq> 0)) \<and>
     rb_case rb \<in> {0, 1} \<and> rb_alpha rb \<in> {0, 1} \<and> rb_dup rb \<in> {0, 1}"

lemma keys_ok_reset: "keys_ok n (reset_keys n rb)"
  by (simp add: keys_ok_def reset_keys_def)

lemma keys_ok_primary: "keys_ok n rb \<Longrightarrow> define_primary s p rb = Inr (s1, p1, rb1) \<Longrightarrow> keys_ok n rb1"
  by (auto simp: define_primary_def keys_ok_def Let_def split: if_splits)

lemma keys_ok_secondary: "keys_ok n rb \<Longrightarrow> define_secondary n s rb = Inr (s1, rb1) \<Longrightarrow> keys_ok n rb1"
  by (auto simp: define_secondary_def keys_ok_def Let_def nth_list_update less_Suc_eq nat_add_distrib
      split: if_splits)

text \<open>An attribute sets one of five settings.\<close>

lemma define_attrib_sets:
  "define_attrib s rb = Inr rb1 \<Longrightarrow> rb1 = rb \<or> rb1 = rb\<lparr>rb_case := 0\<rparr> \<or> rb1 = rb\<lparr>rb_alpha := 1\<rparr> \<or>
    rb1 = rb\<lparr>rb_dup := 1\<rparr> \<or> (\<exists>k. rb1 = rb\<lparr>rb_order := k\<rparr>) \<or> (\<exists>m. rb1 = rb\<lparr>rb_method := m\<rparr>)"
  unfolding define_attrib_def Let_def
  by (simp only: sum.inject sum.distinct simp_thms split: if_split_asm) blast+

lemma keys_ok_attrib: "keys_ok n rb \<Longrightarrow> define_attrib s rb = Inr rb1 \<Longrightarrow> keys_ok n rb1"
  by (drule define_attrib_sets) (auto simp: keys_ok_def)

text \<open>Everything but the keys, the order and the method stays.\<close>

lemma define_words_ok:
  "keys_ok n rb \<Longrightarrow> define_words n ws p rb = (gxDBASE_NO_ERROR, rb') \<Longrightarrow> keys_ok n rb'"
proof (induction ws arbitrary: p rb)
  case (Cons w ws)
  show ?case
  proof (cases "w = []")
    case False
    with Cons.prems(2) obtain s1 p1 rb1 s2 rb2 rb3 where
      "define_primary (to_upper (trim w)) p rb = Inr (s1, p1, rb1)" "define_secondary n s1 rb1 = Inr (s2, rb2)"
      "define_attrib s2 rb2 = Inr rb3" "define_words n ws p1 rb3 = (gxDBASE_NO_ERROR, rb')"
      by (auto simp: bad_key_def_def split: sum.splits)
    then show ?thesis
      using Cons.IH keys_ok_attrib keys_ok_secondary keys_ok_primary Cons.prems(1) by blast
  qed (use Cons in auto)
qed simp

lemma define_words_key_def: "rb_key_def (snd (define_words n ws p rb)) = rb_key_def rb"
proof (induction ws arbitrary: p rb)
  case (Cons w ws)
  have pl: "rb_key_def rb1 = rb_key_def rb" if "define_primary s p rb = Inl rb1" for s p and rb rb1 :: gxRDBMS
    using that by (auto simp: define_primary_def Let_def split: if_splits)
  have pr: "rb_key_def rb1 = rb_key_def rb" if "define_primary s p rb = Inr (s1, p1, rb1)"
    for s p s1 p1 and rb rb1 :: gxRDBMS
    using that by (auto simp: define_primary_def Let_def split: if_splits)
  have ql: "rb_key_def rb1 = rb_key_def rb" if "define_secondary n s rb = Inl rb1" for s and rb rb1 :: gxRDBMS
    using that by (auto simp: define_secondary_def Let_def split: if_splits)
  have qr: "rb_key_def rb1 = rb_key_def rb" if "define_secondary n s rb = Inr (s1, rb1)" for s s1 and rb rb1 :: gxRDBMS
    using that by (auto simp: define_secondary_def Let_def split: if_splits)
  have ar: "rb_key_def rb1 = rb_key_def rb" if "define_attrib s rb = Inr rb1" for s and rb rb1 :: gxRDBMS
    using define_attrib_sets [OF that] by auto
  have al: "rb1 = rb" if "define_attrib s rb = Inl rb1" for s and rb rb1 :: gxRDBMS
    using that unfolding define_attrib_def Let_def
    by (simp only: sum.inject sum.distinct simp_thms split: if_split_asm)
  show ?case
    using Cons.IH by (auto simp: bad_key_def_def split: sum.splits dest!: pl pr ql qr al ar)
qed simp

text \<open>
  C35: a key definition that \<open>DefineKeys\<close> accepts is stored as it is and gives keys that fit the record: never
  more secondary keys than fields, so the array is not written beyond its end, and no key for a
  column zero. A refused one leaves no key definition.
\<close>

theorem DefineKeys_fits:
  "case DefineKeys kdef rb of (e, rb') \<Rightarrow>
     if e = gxDBASE_NO_ERROR
     then rb_key_def rb' = kdef \<and>
       keys_ok (num_flds (snd (CreateRecord (tb_record_def (rb_table rb)) True empty_record))) rb'
     else rb_key_def rb' = []"
proof -
  let ?rb = "rb\<lparr>rb_key_def := []\<rparr>" and ?rec = "snd (CreateRecord (tb_record_def (rb_table rb)) True empty_record)"
  let ?w = "define_words (num_flds ?rec) (parse_fields kdef CHR '','') 0 (reset_keys (num_flds ?rec) ?rb)"
  have kd: "rb_key_def (snd ?w) = []" by (simp add: define_words_key_def reset_keys_def)
  obtain e rb' where D: "DefineKeys kdef rb = (e, rb')" by (cases "DefineKeys kdef rb")
  have "(e, rb') = (gxDBASE_NO_ERROR, (snd ?w)\<lparr>rb_key_def := kdef\<rparr>) \<and> fst ?w = gxDBASE_NO_ERROR \<or>
      e \<noteq> gxDBASE_NO_ERROR \<and> (rb' = ?rb \<or> rb' = snd ?w)"
    using D by (auto simp: DefineKeys_def Let_def split: prod.splits if_split_asm)
  moreover have "keys_ok n r \<Longrightarrow> keys_ok n (r\<lparr>rb_key_def := k\<rparr>)" for n r k by (simp add: keys_ok_def)
  moreover have "fst ?w = gxDBASE_NO_ERROR \<Longrightarrow> keys_ok (num_flds ?rec) (snd ?w)"
    by (rule define_words_ok [OF keys_ok_reset]) (simp add: prod_eq_iff)
  ultimately show ?thesis using kd D by auto
qed

section \<open>The index of a field\<close>

lemma sec_index_field:
  assumes "sec_index field fs n i trees = Some j" "0 \<le> j"
  shows "int i < j \<and> j \<le> int (i + n) \<and> j < trees \<and> nat (j - 1) < length fs \<and> field = to_u64 (fs ! nat (j - 1) - 1)"
  using assms
proof (induction n arbitrary: i)
  case (Suc n)
  then show ?case by (fastforce split: if_splits)
qed simp

text \<open>
  The index that \<open>Find\<close> searches for a field holds the keys of just this field: \<open>insert_key\<close>, which fills
  an index that is rebuilt, makes its keys of the same field, and the index is one of those of the table.
\<close>

theorem field_index_consistent:
  assumes "gxrd_field_index field (rb_primary rb) (rb_num_sec rb) (rb_sec_fields rb) (rb_num_trees rb) = Some i"
    and "0 \<le> i" and "rb_num_sec rb < 2 ^ 31"
  shows "index_field i rb = Some (Inr field) \<and> (i = 0 \<or> i < rb_num_trees rb)"
proof (cases "i = 0")
  case True
  then show ?thesis
    using assms(1) by (auto simp: gxrd_field_index_def index_field_def all_fields_def to_u64_def
        split: if_splits option.splits dest: sec_index_field)
next
  case False
  then obtain fs where fs: "rb_sec_fields rb = Some fs" "rb_primary rb \<noteq> -1" "rb_num_sec rb > 0"
      "sec_index field fs (nat (rb_num_sec rb)) 0 (rb_num_trees rb) = Some i"
    using assms(1,2) by (auto simp: gxrd_field_index_def split: if_splits option.splits)
  have "\<not> i > to_u64 (rb_num_sec rb)"
    using sec_index_field [OF fs(4) assms(2)] fs(3) assms(3) by (simp add: to_u64_def)
  then show ?thesis
    using sec_index_field [OF fs(4) assms(2)] fs False by (simp add: index_field_def)
qed

definition sample_keys :: gxRDBMS where
  "sample_keys = (new_gxRDBMS \<lparr>files = (\<lambda>_. None), denied = (\<lambda>_. False), capacity = 1000, flush_fails = False\<rparr>)
     \<lparr>rb_primary := 1, rb_num_sec := 2, rb_sec_fields := Some [3, 2, 0], rb_num_trees := 3\<rparr>"

theorem field_index_consistent_witness:
  "gxrd_field_index 1 (rb_primary sample_keys) (rb_num_sec sample_keys) (rb_sec_fields sample_keys)
     (rb_num_trees sample_keys) = Some 2 \<and> index_field 2 sample_keys = Some (Inr 1)"
proof -
  have g: "gxrd_field_index 1 (rb_primary sample_keys) (rb_num_sec sample_keys) (rb_sec_fields sample_keys)
     (rb_num_trees sample_keys) = Some 2" and n: "rb_num_sec sample_keys < 2 ^ 31"
    by (simp_all add: sample_keys_def new_gxRDBMS_def gxrd_field_index_def all_fields_def to_u64_def numeral_2_eq_2)
  show ?thesis using field_index_consistent [OF g _ n] g by simp
qed

section \<open>Missing index files\<close>

lemma count_index_step:
  "count_index fs x (k, d) = (if Exists x fs then (k + 1, d) else (k, d \<or> k > 0))"
  by (simp add: count_index_def)

lemma count_index_fold:
  "fold (count_index fs) ns (k, d) = (n, e) \<Longrightarrow>
     (n > 0 \<longleftrightarrow> k > 0 \<or> (\<exists>x \<in> set ns. Exists x fs)) \<and>
     (e \<longleftrightarrow> d \<or> (\<exists>ys x zs. ns = ys @ x # zs \<and> \<not> Exists x fs \<and> (k > 0 \<or> (\<exists>y \<in> set ys. Exists y fs))))"
proof (induction ns arbitrary: k d)
  case (Cons x xs)
  have c: "(\<exists>ys y zs. x # xs = ys @ y # zs \<and> P ys y) \<longleftrightarrow> P [] x \<or> (\<exists>ys y zs. xs = ys @ y # zs \<and> P (x # ys) y)"
    for P by (auto simp: Cons_eq_append_conv)
  have f: "fold (count_index fs) xs (if Exists x fs then (k + 1, d) else (k, d \<or> k > 0)) = (n, e)"
    using Cons.prems by (simp add: count_index_step split: if_splits)
  show ?case
  proof (cases "Exists x fs")
    case True
    with f have "fold (count_index fs) xs (k + 1, d) = (n, e)" by simp
    from Cons.IH [OF this] show ?thesis unfolding c using True by simp
  next
    case False
    with f have "fold (count_index fs) xs (k, d \<or> k > 0) = (n, e)" by simp
    from Cons.IH [OF this] show ?thesis unfolding c using False by auto
  qed
qed auto

text \<open>
  The index files are deleted and made anew when one of them is missing behind one that is there. So a
  missing first file is not noticed when all others are there: it is created empty beside indexes
  that are not.
\<close>

lemma missing_index_order:
  "missing_index ns fs \<longleftrightarrow> (\<exists>ys x zs y. ns = ys @ x # zs \<and> y \<in> set ys \<and> Exists y fs \<and> \<not> Exists x fs)"
proof -
  obtain n e where "fold (count_index fs) ns (0, False) = (n, e)" by (cases "fold (count_index fs) ns (0, False)")
  with count_index_fold [OF this] show ?thesis by (auto simp: missing_index_def)
qed

end
