(* ===== verification/RdbChange.thy ===== *)
theory RdbChange
  imports RdbFind
begin

text \<open>
  Changing records in place (\<open>src/src/gxrdbms.cpp\<close>). When the size of a record changes it is deleted with
  its keys and written anew; otherwise its block is overwritten, and its keys are changed when they
  differ.
\<close>

section \<open>Deleting a block\<close>

definition delete_record :: "int \<Rightarrow> bool \<Rightarrow> bool \<Rightarrow> gxRDBMS \<Rightarrow> (bool \<times> gxRDBMS) option" where
  "delete_record block_address flushdb test_tree rb =
     (if IsClosed rb then Some (False, rb)
      else if block_address = 0 then do {
        (_, rb1) \<leftarrow> set_data_error gxDBASE_BAD_OBJECT_ADDRESS rb;
        Some (False, rb1)
      }
      else delete_block block_address rb)"

text \<open>
  The keys of \<open>prev\<close> and its block are deleted and \<open>r\<close> is written. The result is true and the address of
  the new block, or false.
\<close>

definition replace_record ::
  "gxrdDatabaseRecord \<Rightarrow> gxrdDatabaseRecord \<Rightarrow> int \<Rightarrow> bool \<Rightarrow> bool \<Rightarrow> gxRDBMS \<Rightarrow> ((bool \<times> int) \<times> gxRDBMS) option" where
  "replace_record prev r block_address flushdb test_tree rb = do {
     ((e, _), rb1) \<leftarrow> DeleteKey_body prev block_address flushdb test_tree rb;
     if e \<noteq> gxDBASE_NO_ERROR then Some ((False, block_address), rb1)
     else do {
       (ok, rb2) \<leftarrow> delete_record block_address flushdb test_tree rb1;
       if \<not> ok then Some ((False, block_address), rb2)
       else do {
         ((e3, addr), rb3) \<leftarrow> Write_body block_address flushdb test_tree r rb2;
         Some ((e3 = gxDBASE_NO_ERROR, addr), rb3)
       }
     }
   }"

section \<open>Overwriting a record\<close>

definition data_fails :: "gxDatabaseError \<Rightarrow> int \<Rightarrow> gxRDBMS \<Rightarrow> ((bool \<times> int) \<times> gxRDBMS) option" where
  "data_fails err addr rb = do { (_, rb1) \<leftarrow> set_data_error err rb; Some ((False, addr), rb1) }"

definition overwrite_block ::
  "gxrdDatabaseRecord \<Rightarrow> int \<Rightarrow> bool \<Rightarrow> gxRDBMS \<Rightarrow> ((bool \<times> int) \<times> gxRDBMS) option" where
  "overwrite_block r block_address flushdb rb = do {
     d \<leftarrow> CreateDiskRecord r;
     case d of
       Inl e \<Rightarrow> data_fails e block_address rb
     | Inr disk \<Rightarrow> do {
         (e, rb1) \<leftarrow> write_disk_record disk flushdb rb;
         Some ((e = gxDBASE_NO_ERROR, block_address), rb1)
       }
   }"

definition OverWriteRecord_body ::
  "int \<Rightarrow> bool \<Rightarrow> bool \<Rightarrow> gxrdDatabaseRecord \<Rightarrow> gxRDBMS \<Rightarrow> ((bool \<times> int) \<times> gxRDBMS) option" where
  "OverWriteRecord_body block_address flushdb test_tree r rb =
     (if tb_record_def (rb_table rb) \<noteq> rec_def r then data_fails gxDBASE_BAD_RECORD block_address rb
      else do {
        ((e, blk), rb1) \<leftarrow> ReadBlockHeader new_gxBlockHeader block_address rb;
        if e \<noteq> gxDBASE_NO_ERROR then Some ((False, block_address), rb1)
        else do {
          db \<leftarrow> data_file rb1;
          n \<leftarrow> SizeOf_record r;
          if n \<noteq> to_u64 (record_space blk db - int sizeof_gxrdRecordHeader) then do {
            ((e2, prev), rb2) \<leftarrow> Read_block_body blk block_address empty_record rb1;
            if e2 \<noteq> gxDBASE_NO_ERROR then Some ((False, block_address), rb2)
            else replace_record prev r block_address flushdb test_tree rb2
          }
          else overwrite_block r block_address flushdb rb1
        }
      })"

definition OverWriteRecord ::
  "gxrdDatabaseRecord option \<Rightarrow> int \<Rightarrow> bool \<Rightarrow> bool \<Rightarrow> gxRDBMS \<Rightarrow>
   (((bool \<times> int) \<times> gxrdDatabaseRecord option) \<times> gxRDBMS) option" where
  "OverWriteRecord r block_address flushdb test_tree rb =
     with_record (False, block_address) (\<lambda>_. (False, block_address))
       (\<lambda>x rb. do { (v, rb1) \<leftarrow> OverWriteRecord_body block_address flushdb test_tree x rb; Some ((v, x), rb1) }) r rb"

section \<open>Changing a record\<close>

text \<open>The keys of the overwritten record, when they differ from those of the old one.\<close>

definition rdb_keys_differ :: "gxrdDatabaseRecord \<Rightarrow> gxrdDatabaseRecord \<Rightarrow> gxRDBMS \<Rightarrow> int option" where
  "rdb_keys_differ a b rb =
     gxrd_keys_differ a b (rb_primary rb) (rb_num_sec rb) (rb_sec_fields rb) (rb_num_trees rb) (CaseCompare rb)"

definition change_keys ::
  "gxrdDatabaseRecord \<Rightarrow> gxrdDatabaseRecord \<Rightarrow> int \<Rightarrow> bool \<Rightarrow> bool \<Rightarrow> gxRDBMS \<Rightarrow> ((gxDatabaseError \<times> int) \<times> gxRDBMS) option"
where
  "change_keys from to block_address flushdb test_tree rb = do {
     u \<leftarrow> using_index_rdb rb;
     if \<not> u then failing gxDBASE_NO_ERROR block_address rb
     else do {
       differ \<leftarrow> rdb_keys_differ from to rb;
       if differ < 0 then failing gxDBASE_BAD_KEY block_address rb
       else if differ = 0 then failing gxDBASE_NO_ERROR block_address rb
       else do {
         ((e, _), rb1) \<leftarrow> DeleteKey_body from block_address flushdb test_tree rb;
         if e \<noteq> gxDBASE_NO_ERROR then with_data_error block_address rb1
         else do {
           (e2, rb2) \<leftarrow> AddKey_record to block_address flushdb test_tree rb1;
           Some ((e2, block_address), rb2)
         }
       }
     }
   }"

text \<open>The record \<open>from\<close> is at \<open>block_address\<close>.\<close>

definition change_at ::
  "gxrdDatabaseRecord \<Rightarrow> gxrdDatabaseRecord \<Rightarrow> int \<Rightarrow> bool \<Rightarrow> bool \<Rightarrow> gxRDBMS \<Rightarrow> ((gxDatabaseError \<times> int) \<times> gxRDBMS) option"
where
  "change_at from to block_address flushdb test_tree rb = do {
     n \<leftarrow> SizeOf_record from;
     m \<leftarrow> SizeOf_record to;
     if n \<noteq> m then do {
       ((ok, addr), rb1) \<leftarrow> replace_record from to block_address flushdb test_tree rb;
       if ok then failing gxDBASE_NO_ERROR addr rb1 else with_data_error addr rb1
     }
     else do {
       ((ok, addr), rb1) \<leftarrow> OverWriteRecord_body block_address flushdb test_tree to rb;
       if \<not> ok then with_data_error addr rb1
       else if block_address \<noteq> addr then failing gxDBASE_NO_ERROR addr rb1
       else change_keys from to addr flushdb test_tree rb1
     }
   }"

text \<open>The current position stands for the address of the block.\<close>

definition change_current ::
  "gxrdDatabaseRecord \<Rightarrow> gxrdDatabaseRecord \<Rightarrow> int \<Rightarrow> bool \<Rightarrow> bool \<Rightarrow> gxRDBMS \<Rightarrow> ((gxDatabaseError \<times> int) \<times> gxRDBMS) option"
where
  "change_current from to block_address flushdb test_tree rb =
     (if block_address = gxCurrAddress then do {
        ((e, pos), rb1) \<leftarrow> data_try FilePosition rb;
        if e \<noteq> gxDBASE_NO_ERROR then Some ((e, pos), rb1)
        else change_at from to pos flushdb test_tree rb1
      }
      else change_at from to block_address flushdb test_tree rb)"

text \<open>The record \<open>from\<close> is loaded when it is found, and given back.\<close>

definition change_body ::
  "bool \<Rightarrow> int \<Rightarrow> bool \<Rightarrow> bool \<Rightarrow> gxrdDatabaseRecord \<Rightarrow> gxrdDatabaseRecord \<Rightarrow> gxRDBMS \<Rightarrow>
   (((gxDatabaseError \<times> int) \<times> gxrdDatabaseRecord) \<times> gxRDBMS) option"
where
  "change_body add block_address flushdb test_tree from to rb =
     (let tdef = tb_record_def (rb_table rb)
      in if tdef \<noteq> rec_def from \<or> tdef \<noteq> rec_def to
         then map_option (\<lambda>(v, rb1). ((v, from), rb1)) (failing gxDBASE_BAD_RECORD block_address rb)
         else if block_address = 0 then do {
           (((found, addr), from1), rb1) \<leftarrow> FindRecord_body True test_tree from rb;
           if found then map_option (\<lambda>(v, rb2). ((v, from1), rb2)) (change_current from1 to addr flushdb test_tree rb1)
           else if add then map_option (\<lambda>(v, rb2). ((v, from1), rb2)) (Write_body addr flushdb test_tree to rb1)
           else map_option (\<lambda>(v, rb2). ((v, from1), rb2)) (failing gxDBASE_RECORD_NOT_FOUND addr rb1)
         }
         else map_option (\<lambda>(v, rb1). ((v, from), rb1)) (change_current from to block_address flushdb test_tree rb))"

definition change_or_add_record ::
  "gxrdDatabaseRecord option \<Rightarrow> gxrdDatabaseRecord option \<Rightarrow> bool \<Rightarrow> int \<Rightarrow> bool \<Rightarrow> bool \<Rightarrow> gxRDBMS \<Rightarrow>
   (((gxDatabaseError \<times> int) \<times> gxrdDatabaseRecord option) \<times> gxRDBMS) option"
where
  "change_or_add_record from to add block_address flushdb test_tree rb =
     (if IsClosed rb then Some (((gxDBASE_FILE_NOT_OPEN_ERROR, block_address), from), rb)
      else case (from, to) of
        (Some a, Some b) \<Rightarrow> map_option (\<lambda>((v, a1), rb1). ((v, Some a1), rb1))
          (change_body add block_address flushdb test_tree a b rb)
      | _ \<Rightarrow> map_option (\<lambda>(v, rb1). ((v, from), rb1)) (failing gxDBASE_NULL_PTR block_address rb))"

definition ChangeRecord_at ::
  "gxrdDatabaseRecord option \<Rightarrow> gxrdDatabaseRecord option \<Rightarrow> int \<Rightarrow> bool \<Rightarrow> bool \<Rightarrow> gxRDBMS \<Rightarrow>
   (((bool \<times> int) \<times> gxrdDatabaseRecord option) \<times> gxRDBMS) option"
where
  "ChangeRecord_at from to block_address flushdb test_tree rb = do {
     (((e, addr), from1), rb1) \<leftarrow> change_or_add_record from to False block_address flushdb test_tree rb;
     Some (((e = gxDBASE_NO_ERROR, addr), from1), rb1)
   }"

definition ChangeRecord ::
  "gxrdDatabaseRecord option \<Rightarrow> gxrdDatabaseRecord option \<Rightarrow> bool \<Rightarrow> bool \<Rightarrow> gxRDBMS \<Rightarrow>
   ((bool \<times> gxrdDatabaseRecord option) \<times> gxRDBMS) option"
where
  "ChangeRecord from to flushdb test_tree rb = do {
     (((e, _), from1), rb1) \<leftarrow> change_or_add_record from to False 0 flushdb test_tree rb;
     Some ((e = gxDBASE_NO_ERROR, from1), rb1)
   }"

definition ChangeOrAdd_at ::
  "gxrdDatabaseRecord option \<Rightarrow> gxrdDatabaseRecord option \<Rightarrow> int \<Rightarrow> bool \<Rightarrow> bool \<Rightarrow> gxRDBMS \<Rightarrow>
   (((bool \<times> int) \<times> gxrdDatabaseRecord option) \<times> gxRDBMS) option"
where
  "ChangeOrAdd_at from to block_address flushdb test_tree rb = do {
     (((e, addr), from1), rb1) \<leftarrow> change_or_add_record from to True block_address flushdb test_tree rb;
     Some (((e = gxDBASE_NO_ERROR, addr), from1), rb1)
   }"

definition ChangeOrAdd ::
  "gxrdDatabaseRecord option \<Rightarrow> gxrdDatabaseRecord option \<Rightarrow> bool \<Rightarrow> bool \<Rightarrow> gxRDBMS \<Rightarrow>
   ((bool \<times> gxrdDatabaseRecord option) \<times> gxRDBMS) option"
where
  "ChangeOrAdd from to flushdb test_tree rb = do {
     (((e, _), from1), rb1) \<leftarrow> change_or_add_record from to True 0 flushdb test_tree rb;
     Some ((e = gxDBASE_NO_ERROR, from1), rb1)
   }"

section \<open>Changing a field\<close>

definition change_field_keys ::
  "gxrdDatabaseRecord \<Rightarrow> gxrdDatabaseRecord \<Rightarrow> int \<Rightarrow> bool \<Rightarrow> bool \<Rightarrow> gxRDBMS \<Rightarrow> ((bool \<times> int) \<times> gxRDBMS) option" where
  "change_field_keys r prev block_address flushdb test_tree rb = do {
     u \<leftarrow> using_index_rdb rb;
     if \<not> u then Some ((True, block_address), rb)
     else do {
       differ \<leftarrow> rdb_keys_differ r prev rb;
       if differ < 0 then data_fails gxDBASE_BAD_KEY block_address rb
       else if differ = 0 then do {
         (_, rb1) \<leftarrow> set_data_error gxDBASE_NO_ERROR rb;
         Some ((True, block_address), rb1)
       }
       else do {
         ((e, _), rb1) \<leftarrow> DeleteKey_body prev block_address flushdb test_tree rb;
         if e \<noteq> gxDBASE_NO_ERROR then Some ((False, block_address), rb1)
         else do {
           (e2, rb2) \<leftarrow> AddKey_record r block_address flushdb test_tree rb1;
           Some ((e2 = gxDBASE_NO_ERROR, block_address), rb2)
         }
       }
     }
   }"

definition write_field ::
  "byte list \<Rightarrow> int \<Rightarrow> gxrdDatabaseRecord \<Rightarrow> gxrdDatabaseRecord \<Rightarrow> int \<Rightarrow> bool \<Rightarrow> bool \<Rightarrow> gxRDBMS \<Rightarrow>
   ((bool \<times> int) \<times> gxRDBMS) option"
where
  "write_field data col r prev block_address flushdb test_tree rb = do {
     hsize \<leftarrow> rdb_block_header_size rb;
     off \<leftarrow> FieldDataDiskOffset col r;
     case off of
       Inl e \<Rightarrow> data_fails e block_address rb
     | Inr offset \<Rightarrow> do {
         (e, rb1) \<leftarrow> on_pod (on_data (\<lambda>db.
            let db1 = Write_opt data (block_address + hsize + int sizeof_gxrdRecordHeader + offset) flushdb False db
            in (gxd_error db1, db1))) rb;
         if e \<noteq> gxDBASE_NO_ERROR then Some ((False, block_address), rb1)
         else change_field_keys r prev block_address flushdb test_tree rb1
       }
   }"

definition change_field_at ::
  "byte list \<Rightarrow> int \<Rightarrow> gxrdDatabaseRecord \<Rightarrow> gxrdDatabaseRecord \<Rightarrow> int \<Rightarrow> bool \<Rightarrow> bool \<Rightarrow> gxRDBMS \<Rightarrow>
   ((bool \<times> int) \<times> gxRDBMS) option"
where
  "change_field_at data col r prev block_address flushdb test_tree rb = do {
     n \<leftarrow> SizeOf_record r;
     m \<leftarrow> SizeOf_record prev;
     if n \<noteq> m then replace_record prev r block_address flushdb test_tree rb
     else write_field data col r prev block_address flushdb test_tree rb
   }"

text \<open>After the record was read the current position is behind it.\<close>

definition change_loaded_field ::
  "byte list \<Rightarrow> int \<Rightarrow> gxrdDatabaseRecord \<Rightarrow> int \<Rightarrow> bool \<Rightarrow> bool \<Rightarrow> gxRDBMS \<Rightarrow> ((bool \<times> int) \<times> gxRDBMS) option" where
  "change_loaded_field data col r block_address flushdb test_tree rb = do {
     prev \<leftarrow> Copy_record r empty_record;
     (e, r1) \<leftarrow> SetField data col r;
     if e \<noteq> gxDBASE_NO_ERROR then data_fails e block_address rb
     else if block_address = gxCurrAddress then do {
       ((e1, pos), rb1) \<leftarrow> data_try FilePosition rb;
       if e1 \<noteq> gxDBASE_NO_ERROR then Some ((False, pos), rb1)
       else change_field_at data col r1 prev pos flushdb test_tree rb1
     }
     else change_field_at data col r1 prev block_address flushdb test_tree rb
   }"

definition ChangeRecordField ::
  "byte list option \<Rightarrow> int \<Rightarrow> int \<Rightarrow> bool \<Rightarrow> bool \<Rightarrow> gxRDBMS \<Rightarrow> ((bool \<times> int) \<times> gxRDBMS) option" where
  "ChangeRecordField data_ptr col_number block_address flushdb test_tree rb =
     (if IsClosed rb then Some ((False, block_address), rb)
      else case data_ptr of
        None \<Rightarrow> data_fails gxDBASE_NULL_PTR block_address rb
      | Some data \<Rightarrow>
          if block_address = 0 then data_fails gxDBASE_RECORD_NOT_FOUND block_address rb
          else (case CreateRecord (tb_record_def (rb_table rb)) True empty_record of (e, r) \<Rightarrow>
            if e \<noteq> gxDBASE_NO_ERROR then data_fails e block_address rb
            else do {
              ((e1, r1), rb1) \<leftarrow> Read_body block_address r rb;
              if e1 \<noteq> gxDBASE_NO_ERROR then Some ((False, block_address), rb1)
              else change_loaded_field data col_number r1 block_address flushdb test_tree rb1
            }))"

end
