(* ===== verification/RdbProps.thy ===== *)
theory RdbProps
  imports RdbCheck RdbChange PersistProps RdDiskProps
begin

text \<open>
  Properties of the relational database manager on its files: adding and deleting keys leave the data
  file as it is, a record that was written is read back, and \<open>Find\<close> gives no record that does not match.
\<close>

section \<open>A manager with an open data file\<close>

definition with_db :: "gxDatabase \<Rightarrow> POD \<Rightarrow> gxRDBMS \<Rightarrow> gxRDBMS" where
  "with_db db p rb = rb\<lparr>rb_pod := Some (with_data db p)\<rparr>"

lemma with_db_sel [simp]:
  "rb_pod (with_db db p rb) = Some (with_data db p)" "rb_table (with_db db p rb) = rb_table rb"
  "rb_method (with_db db p rb) = rb_method rb" "\<not> IsClosed (with_db db p rb)"
  "data_error (with_db db p rb) = Some (gxd_error db)" "data_file (with_db db p rb) = Some db"
  "using_index_rdb (with_db db p rb) = Some (UsingIndex p)"
  "rdb_block_header_size (with_db db p rb) = Some (BlockHeaderSize db)"
  by (simp_all add: with_db_def IsClosed_def data_error_def data_file_def using_index_rdb_def
      rdb_block_header_size_def with_data_def [of db] UsingIndex_def GetDataFileError_def)

lemma on_pod_with [simp]:
  "on_pod g (with_db db p rb) =
    (case g (with_data db p) of None \<Rightarrow> None | Some (x, p1) \<Rightarrow> Some (x, rb\<lparr>rb_pod := Some p1\<rparr>))"
  by (simp add: on_pod_def with_db_def split: option.splits)

lemma with_db_update [simp]: "(with_db db p rb)\<lparr>rb_pod := q\<rparr> = rb\<lparr>rb_pod := q\<rparr>"
  by (simp add: with_db_def)

lemma fold_with_db [simp]: "rb\<lparr>rb_pod := Some (with_data db p)\<rparr> = with_db db p rb"
  by (simp add: with_db_def)

lemma set_error_with [simp]: "SetDataFileError e (with_data db p) = (e, with_data (SetDatabaseError e db) p)"
  by (simp add: SetDataFileError_def with_data_def SetDatabaseError_def)

lemma failing_with [simp]:
  "failing e x (with_db db p rb) = Some ((e, x), with_db (SetDatabaseError e db) p rb)"
  by (simp add: failing_def set_data_error_def)

lemma data_try_with [simp]:
  "data_try g (with_db db p rb) = (case g db of (x, db1) \<Rightarrow> Some ((gxd_error db1, x), with_db db1 p rb))"
  by (simp add: data_try_def split: prod.splits)

section \<open>Reading a block\<close>

text \<open>The data file is the same but for its position, its last operation and its error.\<close>

definition looks_same :: "gxDatabase \<Rightarrow> gxDatabase \<Rightarrow> bool" where
  "looks_same db db' \<longleftrightarrow> same_db db db' \<and> dbytes db' = dbytes db"

lemma ReadBlockHeader_ok:
  assumes "readable db" "0 \<le> a" "nat a + 20 \<le> length (dbytes db)" "TestBlockHeader (blk (dbytes db) a)"
  shows "\<exists>db'. ReadBlockHeader h a (with_db db p rb) = Some ((gxDBASE_NO_ERROR, blk (dbytes db) a), with_db db' p rb) \<and>
    looks_same db db' \<and> dpos db' = nat (a + BlockHeaderSize db)"
proof (cases "rev_C_or_D (rev_letter db)")
  case True
  then show ?thesis
    using assms
    by (intro exI [of _ "SetDatabaseError gxDBASE_NO_ERROR (moved (32 + nat a) gxDBASE_SEEK db)"])
      (simp add: ReadBlockHeader_def seek_past_lock_def engine_simps sizeof_defs BlockHeaderSize_def
        SetDatabaseError_def looks_same_def nat_add_distrib)
next
  case False
  then show ?thesis
    using assms
    by (intro exI [of _ "SetDatabaseError gxDBASE_NO_ERROR (moved (nat a + 20) gxDBASE_READ db)"])
      (simp add: ReadBlockHeader_def engine_simps sizeof_defs BlockHeaderSize_def SetDatabaseError_def
        looks_same_def nat_add_distrib)
qed

lemma record_space_fresh:
  assumes "alloc_room n db" "rev_letter db' = rev_letter db" "block_length h = with_overhead n db"
  shows "record_space h db' = n"
proof -
  have b: "BlockHeaderSize db' = BlockHeaderSize db" using assms(2) by (simp add: BlockHeaderSize_def Let_def)
  have n: "0 \<le> n" "n < 2 ^ 32" using assms(1) by (auto simp: alloc_room_def)
  then show ?thesis
    using assms(2,3) with_overhead_eq [OF n, of db] by (simp add: record_space_def b sizeof_defs)
qed

lemma load_block_ok:
  assumes "readable db" "record_space h db = int (length disk)" "int (length disk) < 2 ^ 63"
    "dpos db + length disk \<le> length (dbytes db)" "bytes_at (dbytes db) (dpos db) (length disk) = disk"
    "LoadDiskRecord disk s = Some (gxDBASE_NO_ERROR, s')"
  shows "\<exists>db'. load_block h s (with_db db p rb) = Some ((gxDBASE_NO_ERROR, s'), with_db db' p rb)"
  using data_Read_cur [of db "replicate (length disk) 0" p] assms by (auto simp: load_block_def Let_def)

lemma Read_body_ok:
  assumes "readable db" "0 \<le> a" "TestBlockHeader (blk (dbytes db) a)"
    "record_space (blk (dbytes db) a) db = int (length disk)" "int (length disk) < 2 ^ 63"
    "nat (a + BlockHeaderSize db) + length disk \<le> length (dbytes db)"
    "bytes_at (dbytes db) (nat (a + BlockHeaderSize db)) (length disk) = disk"
    "LoadDiskRecord disk s = Some (gxDBASE_NO_ERROR, s')" "rec_def s = tb_record_def (rb_table rb)"
  shows "\<exists>db'. Read_body a s (with_db db p rb) = Some ((gxDBASE_NO_ERROR, s'), with_db db' p rb)"
proof -
  have "nat a + 20 \<le> length (dbytes db)" using assms(2,6) rev_sizes(4) [of db] by linarith
  from ReadBlockHeader_ok [OF assms(1,2) this assms(3)] obtain d1 where
    d1: "ReadBlockHeader new_gxBlockHeader a (with_db db p rb) =
        Some ((gxDBASE_NO_ERROR, blk (dbytes db) a), with_db d1 p rb)"
      "looks_same db d1" "dpos d1 = nat (a + BlockHeaderSize db)" by blast
  have "record_space (blk (dbytes db) a) d1 = record_space (blk (dbytes db) a) db"
    using d1(2) by (simp add: record_space_def looks_same_def same_db_def BlockHeaderSize_def Let_def)
  then have "\<exists>db'. load_block (blk (dbytes db) a) s (with_db d1 p rb) = Some ((gxDBASE_NO_ERROR, s'), with_db db' p rb)"
    using d1(2,3) assms by (intro load_block_ok [where disk = disk]) (auto simp: looks_same_def same_db_def)
  then show ?thesis using d1(1) assms(9) by (simp add: Read_body_def Read_block_body_def)
qed

section \<open>Keys and the data file\<close>

text \<open>The data file is that of \<open>rb\<close> but for its error, the files around it and what the index files do.\<close>

definition data_kept :: "gxRDBMS \<Rightarrow> gxRDBMS \<Rightarrow> bool" where
  "data_kept rb rb' \<longleftrightarrow>
     map_option (SetDatabaseError gxDBASE_NO_ERROR) (data_file rb') =
       map_option (SetDatabaseError gxDBASE_NO_ERROR) (data_file rb) \<and>
     rb'\<lparr>rb_pod := None\<rparr> = rb\<lparr>rb_pod := None\<rparr>"

lemma data_kept_refl [simp]: "data_kept rb rb"
  by (simp add: data_kept_def)

lemma data_kept_trans: "data_kept a b \<Longrightarrow> data_kept b c \<Longrightarrow> data_kept a c"
  by (simp add: data_kept_def)

lemma set_index_error_data: "set_index_error e i rb = Some (x, rb1) \<Longrightarrow> data_kept rb rb1"
  by (auto simp: set_index_error_def on_pod_def SetIndexFileError_def data_kept_def data_file_def put_tree_data
      split: Option.bind_splits option.splits)

lemma set_data_error_data: "set_data_error e rb = Some (x, rb1) \<Longrightarrow> data_kept rb rb1"
  by (auto simp: set_data_error_def on_pod_def SetDataFileError_def data_kept_def data_file_def SetDatabaseError_def
      split: Option.bind_splits option.splits)

lemma failing_data: "failing e y rb = Some (x, rb1) \<Longrightarrow> data_kept rb rb1"
  by (auto simp: failing_def split: Option.bind_splits dest: set_data_error_data)

lemma if_indexed_data:
  assumes "\<And>r p p1. g p = Some (r, p1) \<Longrightarrow> opendatafile p1 = opendatafile p"
    and "if_indexed k g key ck rb = Some (x, rb1)"
  shows "data_kept rb rb1"
  using assms by (auto simp: if_indexed_def on_pod_def data_kept_def data_file_def split: Option.bind_splits if_splits)

lemma AddKey_rdb_data: "AddKey_rdb key ck i fl rb = Some (x, rb1) \<Longrightarrow> data_kept rb rb1"
  unfolding AddKey_rdb_def by (rule if_indexed_data) (auto simp: AddKey_def intro: on_index_data)

lemma FindKey_rdb_data: "FindKey_rdb key ck i fl rb = Some (x, rb1) \<Longrightarrow> data_kept rb rb1"
  unfolding FindKey_rdb_def by (rule if_indexed_data) (auto simp: FindKey_def intro: on_index_data)

lemma DeleteKey_rdb_data: "DeleteKey_rdb key ck i fl rb = Some (x, rb1) \<Longrightarrow> data_kept rb rb1"
  unfolding DeleteKey_rdb_def by (rule if_indexed_data) (auto simp: DeleteKey_def intro: on_index_data)

lemmas key_data = set_index_error_data failing_data AddKey_rdb_data FindKey_rdb_data DeleteKey_rdb_data

lemma delete_sec_keys_data:
  "delete_sec_keys r fl tt n i key ck ba rb = Some (x, rb') \<Longrightarrow> data_kept rb rb'"
proof (induction n arbitrary: i key ck ba rb)
  case (Suc n)
  then show ?case
    by (fastforce split: option.splits if_splits Option.bind_splits dest: key_data elim: data_kept_trans)
qed simp

lemma delete_primary_key_data: "delete_primary_key fl tt key ba rb = Some (x, rb') \<Longrightarrow> data_kept rb rb'"
  by (auto simp: delete_primary_key_def split: if_splits Option.bind_splits dest!: key_data)
    (blast intro: data_kept_trans)+

lemma DeleteKey_body_data: "DeleteKey_body r ba fl tt rb = Some (x, rb') \<Longrightarrow> data_kept rb rb'"
  by (auto simp: DeleteKey_body_def split: if_splits Option.bind_splits option.splits
      dest!: key_data delete_sec_keys_data delete_primary_key_data)
    (blast intro: data_kept_trans)+

lemma add_sec_keys_data:
  "add_sec_keys r ba fl tt n i key ck rb = Some (x, rb') \<Longrightarrow> data_kept rb rb'"
proof (induction n arbitrary: i key ck rb)
  case (Suc n)
  then show ?case
    by (fastforce split: option.splits if_splits Option.bind_splits dest: key_data DeleteKey_body_data
        elim: data_kept_trans)
qed simp

lemma AddKey_record_data: "AddKey_record r ba fl tt rb = Some (x, rb') \<Longrightarrow> data_kept rb rb'"
  by (auto simp: AddKey_record_def split: if_splits Option.bind_splits option.splits
      dest!: key_data add_sec_keys_data)
    (blast intro: data_kept_trans)+

section \<open>A record that was written\<close>

lemma data_try_now:
  assumes "rb_pod rb = Some p" "opendatafile p = Some d"
  shows "data_try g rb = data_try g (with_db (db_with (pod_fs p) d) p rb)"
proof -
  have "on_data g p = on_data g (with_data (db_with (pod_fs p) d) p)" by (rule on_data_now [OF assms(2)])
  then show ?thesis by (simp add: data_try_def on_pod_def assms(1) with_db_sel(1) del: data_try_with on_pod_with cong: option.case_cong)
qed

lemma Read_body_now:
  assumes "data_file rb = Some d"
  obtains p where "rb_pod rb = Some p" "Read_body a s rb = Read_body a s (with_db (db_with (pod_fs p) d) p rb)"
proof -
  obtain p where p: "rb_pod rb = Some p" "opendatafile p = Some d"
    using assms by (auto simp: data_file_def split: Option.bind_splits)
  have "ReadBlockHeader h a rb = ReadBlockHeader h a (with_db (db_with (pod_fs p) d) p rb)" for h
    unfolding ReadBlockHeader_def data_try_now [OF p] by (simp add: p(1) IsClosed_def)
  then show thesis using that p(1) by (simp add: Read_body_def)
qed

lemma same_but_error:
  assumes "SetDatabaseError gxDBASE_NO_ERROR d = SetDatabaseError gxDBASE_NO_ERROR db"
  shows "looks_same db d" and "looks_same db (db_with fs d)" and "dpos (db_with fs d) = dpos db"
proof -
  have "d = (SetDatabaseError gxDBASE_NO_ERROR d)\<lparr>gxd_error := gxd_error d\<rparr>" by (simp add: SetDatabaseError_def)
  then have d: "d = db\<lparr>gxd_error := gxd_error d\<rparr>" unfolding assms by (simp add: SetDatabaseError_def)
  show "looks_same db d" "looks_same db (db_with fs d)" "dpos (db_with fs d) = dpos db"
    by (subst d, simp add: looks_same_def same_db_def db_with_def state_defs)+
qed

lemma Write_body_ok:
  assumes ok: "heap_ok db bs fl" and r: "record_ok r" and n: "SizeOf_record r = Some n"
    and room: "alloc_room (n + 8) db" and def: "tb_record_def (rb_table rb) = rec_def r"
  shows "\<exists>disk a db' bs' fl'. CreateDiskRecord r = Some (Inr disk) \<and> int (length disk) = n + 8 \<and>
    Write_body b False tt r (with_db db p rb) =
      index_record r (a + BlockHeaderSize db) a False tt (with_db db' p rb) \<and>
    heap_ok db' bs' fl' \<and> a \<in> set bs' \<and> rev_letter db' = rev_letter db \<and>
    block_length (blk (dbytes db') a) = with_overhead (n + 8) db \<and>
    bytes_at (dbytes db') (nat (a + BlockHeaderSize db)) (length disk) = disk \<and>
    (\<forall>y \<in> set bs. \<not> is_free (blk (dbytes db) y) \<longrightarrow>
       y \<in> set bs' \<and> blk (dbytes db') y = blk (dbytes db) y \<and> data_at db' y = data_at db y)"
proof -
  obtain disk where disk: "CreateDiskRecord r = Some (Inr disk)" "int (length disk) = n + 8"
    using CreateDiskRecord_eq [OF r] n by (metis diff_eq_eq option.inject)
  obtain x db1 bs' fl' where A: "Alloc (n + 8) (rb_method rb) db = Some (x + BlockHeaderSize db, db1)"
    and res: "alloc_result db bs (with_overhead (n + 8) db) x db1 bs' fl'"
    by (rule Alloc_refines [OF ok room])
  define a where "a = x + BlockHeaderSize db"
  have ok1: "heap_ok db1 bs' fl'" and xb: "x \<in> set bs'" and bx: "blk (dbytes db1) x = fresh_block (with_overhead (n + 8) db)"
    and rl: "rev_letter db1 = rev_letter db" and pos: "dpos db1 = nat a" "writable (length (dbytes db1)) db1"
    and old: "\<forall>y \<in> set bs. \<not> is_free (blk (dbytes db) y) \<longrightarrow>
      y \<in> set bs' \<and> y \<noteq> x \<and> blk (dbytes db1) y = blk (dbytes db) y \<and> data_at db1 y = data_at db y"
    using res by (auto simp: alloc_result_def a_def)
  have m1: "heap_meta db1" and l1: "heap_lists db1 (blk (dbytes db1)) bs' fl'" using ok1 by (auto simp: heap_ok_def)
  note sp = tiles_spaced [OF m1 heap_tiles [OF l1] xb]
  have bh: "BlockHeaderSize db1 = BlockHeaderSize db" using rl by (simp add: BlockHeaderSize_def Let_def)
  have bl: "block_length (blk (dbytes db1) x) = with_overhead (n + 8) db"
    unfolding bx by (rule fresh_block_ok(3) [OF alloc_room_bytes(1) [OF room]])
  have big: "BlockHeaderSize db + (n + 8) \<le> with_overhead (n + 8) db"
    using with_overhead_eq [of "n + 8" db] room disk(2) by (auto simp: alloc_room_def)
  have ax: "x + 20 \<le> a" "0 \<le> a" using rev_sizes(4) [of db] sp(2) by (auto simp: a_def)
  have fits: "a + (n + 8) \<le> x + block_length (blk (dbytes db1) x)" using big by (simp add: bl a_def)
  have inside: "a + (n + 8) \<le> int (length (dbytes db1))" using fits sp(9) by linarith
  define db2 where "db2 = moved (nat a + length disk) gxDBASE_WRITE (stored (nat a) disk db1)"
  have wr: "writable (dpos db1 + length disk) db1"
    using pos(2) by (rule writable_mono) (use pos(1) inside disk(2) ax(2) in linarith)
  then have W: "write_disk_record disk False (with_db db1 p rb) = Some (gxDBASE_NO_ERROR, with_db db2 p rb)"
    using pos(1) by (simp add: write_disk_record_def engine_simps db2_def)
  have s: "same_db db1 db2" "dbytes db2 = put_at (dbytes db1) (nat a) disk"
    using wr pos by (simp_all add: db2_def)
  have pk: "x + 20 \<le> int (nat a)" "int (nat a) + int (length disk) \<le> x + block_length (blk (dbytes db1) x)"
    using ax fits disk(2) by auto
  note keep = payload_write_keeps [OF ok1 xb pk s]
  have "nat a + length disk \<le> length (dbytes db1)" using inside disk(2) ax(2) by linarith
  then have img: "bytes_at (dbytes db2) (nat a) (length disk) = disk"
    unfolding s(2) by (intro bytes_at_put_same)
  have "a \<noteq> 0" using ax(1) sp(2) by auto
  then have "Write_body b False tt r (with_db db p rb) = index_record r a x False tt (with_db db2 p rb)"
    using A W disk def bh by (simp add: Write_body_def a_def)
  moreover have "y \<in> set bs' \<and> blk (dbytes db2) y = blk (dbytes db) y \<and> data_at db2 y = data_at db y"
    if "y \<in> set bs" "\<not> is_free (blk (dbytes db) y)" for y
    using old that keep(3,4) [of y] by auto
  ultimately show ?thesis
    using disk keep(1) keep(3) [OF xb] xb rl bl img s(1)
    by (intro exI [of _ disk] exI [of _ x] exI [of _ db2] exI [of _ bs'] exI [of _ fl'])
      (auto simp: a_def same_db_def)
qed

lemma heap_lists_address: "heap_ok db bs fl \<Longrightarrow> a \<in> set bs \<Longrightarrow> 0 \<le> a \<and> TestBlockHeader (blk (dbytes db) a) \<and>
    a + BlockHeaderSize db \<le> int (length (dbytes db))"
  using tiles_spaced [OF _ heap_tiles, of db "blk (dbytes db)" bs fl a] by (force simp: heap_ok_def)

lemma index_record_data:
  assumes "index_record r v a fl tt (with_db db p rb) = Some (((gxDBASE_NO_ERROR, a'), rb1))"
  shows "a' = a \<and> data_kept (with_db db p rb) rb1"
  using assms by (auto simp: index_record_def failing_def split: if_splits Option.bind_splits
      dest!: AddKey_record_data set_data_error_data intro: data_kept_trans)

lemma data_kept_data_at:
  assumes "data_kept (with_db db p rb) rb1"
  shows "\<exists>d. data_file rb1 = Some d \<and> (\<forall>y. data_at d y = data_at db y)"
proof -
  obtain d where d: "data_file rb1 = Some d" "SetDatabaseError gxDBASE_NO_ERROR d = SetDatabaseError gxDBASE_NO_ERROR db"
    using assms by (auto simp: data_kept_def)
  from same_but_error(1) [OF d(2)] show ?thesis
    using d(1) by (auto simp: looks_same_def same_db_def data_at_def BlockHeaderSize_def Let_def)
qed

text \<open>The record is read from the data file \<open>db\<close>, whatever error the files left and whatever index files there are.\<close>

lemma Read_body_kept:
  assumes kept: "data_kept (with_db db p rb) rb1" and "readable db" "0 \<le> a" "TestBlockHeader (blk (dbytes db) a)"
    "record_space (blk (dbytes db) a) db = int (length disk)" "int (length disk) < 2 ^ 63"
    "nat (a + BlockHeaderSize db) + length disk \<le> length (dbytes db)"
    "bytes_at (dbytes db) (nat (a + BlockHeaderSize db)) (length disk) = disk"
    "LoadDiskRecord disk s = Some (gxDBASE_NO_ERROR, s')" "rec_def s = tb_record_def (rb_table rb)"
  shows "\<exists>rb2. Read_rdb (Some s) a rb1 = Some ((gxDBASE_NO_ERROR, Some s'), rb2)"
proof -
  obtain d where d: "data_file rb1 = Some d"
      "SetDatabaseError gxDBASE_NO_ERROR d = SetDatabaseError gxDBASE_NO_ERROR db"
    using kept by (auto simp: data_kept_def)
  have "rb_table rb1 = rb_table (rb1\<lparr>rb_pod := None\<rparr>)" by simp
  also have "\<dots> = rb_table rb" using kept by (simp add: data_kept_def with_db_def del: fold_with_db)
  finally have t: "rb_table rb1 = rb_table rb" .
  obtain q where q: "rb_pod rb1 = Some q" "Read_body a s rb1 = Read_body a s (with_db (db_with (pod_fs q) d) q rb1)"
    using Read_body_now [OF d(1)] by blast
  let ?d = "db_with (pod_fs q) d"
  have l: "looks_same db ?d" by (rule same_but_error(2) [OF d(2)])
  then have "BlockHeaderSize ?d = BlockHeaderSize db"
    "record_space (blk (dbytes ?d) a) ?d = record_space (blk (dbytes db) a) db"
    by (simp_all add: record_space_def looks_same_def same_db_def BlockHeaderSize_def Let_def)
  then have "\<exists>db'. Read_body a s (with_db ?d q rb1) = Some ((gxDBASE_NO_ERROR, s'), with_db db' q rb1)"
    using assms(2-) l t by (intro Read_body_ok [where disk = disk]) (auto simp: looks_same_def same_db_def)
  then show ?thesis using q by (auto simp: Read_rdb_def with_record_def IsClosed_def)
qed

text \<open>
  C34: a record that \<open>Write\<close> stores is read back by \<open>Read\<close> at the address that it gives. Without indexes the
  write succeeds when there is room for the block; with them, every write that reports success has stored
  the record, whatever the index files did. The reader is any record of the table with as many
  fields that excludes none of them: it gets the types and the data of the written record, an excluded
  field of the writer as an empty one. Blocks of records stored before keep their bytes.
\<close>

theorem written_record_reads_back:
  assumes "heap_ok db bs fl" "record_ok r" "SizeOf_record r = Some n" "alloc_room (n + 8) db"
    and "tb_record_def (rb_table rb) = rec_def r" "rec_def s = rec_def r" "num_flds s = num_flds r"
    and "num_flds s \<le> length (db_record s)" "rec_table_name s = rec_table_name r"
    and "\<forall>i < num_flds r. \<not> Exclude (int i) (exclude_fields s)"
  shows "\<exists>a. (\<not> UsingIndex p \<longrightarrow> (\<exists>rb1. Write_rdb (Some r) b False tt (with_db db p rb) =
      Some (((gxDBASE_NO_ERROR, a), Some r), rb1))) \<and>
    (\<forall>a' x rb1. Write_rdb (Some r) b False tt (with_db db p rb) = Some (((gxDBASE_NO_ERROR, a'), x), rb1) \<longrightarrow>
      a' = a \<and> x = Some r \<and>
      (\<exists>d. data_file rb1 = Some d \<and>
        (\<forall>y \<in> set bs. \<not> is_free (blk (dbytes db) y) \<longrightarrow> data_at d y = data_at db y)) \<and>
      (\<exists>s' rb2. Read_rdb (Some s) a rb1 = Some ((gxDBASE_NO_ERROR, Some s'), rb2) \<and>
        List.take (num_flds r) (record_types s') = record_types r \<and>
        List.take (num_flds r) (record_data s') =
          map (\<lambda>i. if Exclude (int i) (exclude_fields r) then [] else record_data r ! i) [0..<num_flds r]))"
proof -
  obtain disk a db' bs' fl' where disk: "CreateDiskRecord r = Some (Inr disk)" "int (length disk) = n + 8"
    and W: "Write_body b False tt r (with_db db p rb) =
      index_record r (a + BlockHeaderSize db) a False tt (with_db db' p rb)"
    and ok: "heap_ok db' bs' fl'" "a \<in> set bs'" and rl: "rev_letter db' = rev_letter db"
    and bl: "block_length (blk (dbytes db') a) = with_overhead (n + 8) db"
    and img: "bytes_at (dbytes db') (nat (a + BlockHeaderSize db)) (length disk) = disk"
    and old: "\<forall>y \<in> set bs. \<not> is_free (blk (dbytes db) y) \<longrightarrow> data_at db' y = data_at db y"
    using Write_body_ok [OF assms(1-5)] by blast
  obtain s' where s': "LoadDiskRecord disk s = Some (gxDBASE_NO_ERROR, s')"
      "List.take (num_flds r) (record_types s') = record_types r"
      "List.take (num_flds r) (record_data s') =
        map (\<lambda>i. if Exclude (int i) (exclude_fields r) then [] else record_data r ! i) [0..<num_flds r]"
    using disk_record_roundtrip [OF assms(2) _ assms(8,9,10)] assms(7) disk(1) by auto
  have bh: "BlockHeaderSize db' = BlockHeaderSize db" using rl by (simp add: BlockHeaderSize_def Let_def)
  have sp: "record_space (blk (dbytes db') a) db' = int (length disk)"
    unfolding disk(2) by (rule record_space_fresh [OF assms(4) rl bl])
  have big: "int (length disk) < 2 ^ 63" using assms(4) disk(2) by (auto simp: alloc_room_def)
  have rd: "readable db'" and ax: "0 \<le> a" "TestBlockHeader (blk (dbytes db') a)"
    using ok heap_lists_address [OF ok] by (auto simp: heap_ok_def heap_meta_def)
  have "a + BlockHeaderSize db' \<le> int (length (dbytes db'))" using heap_lists_address [OF ok] by simp
  moreover have "length (bytes_at (dbytes db') (nat (a + BlockHeaderSize db)) (length disk)) = length disk"
    using img by simp
  ultimately have len: "nat (a + BlockHeaderSize db') + length disk \<le> length (dbytes db')"
    by (auto simp: bytes_at_def bh split: if_splits)
  have "\<exists>rb2. Read_rdb (Some s) a rb1 = Some ((gxDBASE_NO_ERROR, Some s'), rb2)"
    if "data_kept (with_db db' p rb) rb1" for rb1
    using Read_body_kept [OF that rd ax sp big len _ s'(1)] img assms(5,6) bh by simp
  moreover have "\<exists>d. data_file rb1 = Some d \<and>
      (\<forall>y \<in> set bs. \<not> is_free (blk (dbytes db) y) \<longrightarrow> data_at d y = data_at db y)"
    if "data_kept (with_db db' p rb) rb1" for rb1
    using data_kept_data_at [OF that] old by fastforce
  moreover have "a' = a \<and> x = Some r \<and> data_kept (with_db db' p rb) rb1"
    if "Write_rdb (Some r) b False tt (with_db db p rb) = Some (((gxDBASE_NO_ERROR, a'), x), rb1)" for a' x rb1
    using that W index_record_data [of r "a + BlockHeaderSize db" a False tt db' p rb a' rb1]
    by (auto simp: Write_rdb_def with_record_def split: Option.bind_splits)
  moreover have "\<exists>rb1. Write_rdb (Some r) b False tt (with_db db p rb) = Some (((gxDBASE_NO_ERROR, a), Some r), rb1)"
    if "\<not> UsingIndex p"
    using that by (auto simp: W Write_rdb_def with_record_def index_record_def)
  ultimately show ?thesis
    using s'(2,3) by (intro exI [of _ a]) meson
qed

definition sample_written :: gxrdDatabaseRecord where
  "sample_written = sample_record\<lparr>db_record := [[1, 4, 0, 0, 0, 97, 98, 99, 100], [2, 2, 0, 0, 0, 7, 8]]\<rparr>"

definition sample_rdb :: gxRDBMS where
  "sample_rdb = (new_gxRDBMS sample_fs)\<lparr>rb_table := new_gxrdDatabaseTable\<lparr>tb_record_def := sample_def\<rparr>\<rparr>"

theorem written_record_reads_back_witness:
  "\<exists>a rb1 s' rb2. Write_rdb (Some sample_written) 0 False False (with_db sample_db (new_POD sample_fs) sample_rdb) =
       Some (((gxDBASE_NO_ERROR, a), Some sample_written), rb1) \<and>
     Read_rdb (Some sample_record) a rb1 = Some ((gxDBASE_NO_ERROR, Some s'), rb2) \<and>
     List.take 2 (record_data s') = [[97, 98, 99, 100], [7, 8]]"
proof -
  have w: "record_ok sample_written" "SizeOf_record sample_written = Some 16" "num_flds sample_written = 2"
    "num_flds sample_record = 2" "length (db_record sample_record) = 2" "rec_def sample_record = rec_def sample_written"
    "rec_table_name sample_record = rec_table_name sample_written"
    "record_data sample_written = [[97, 98, 99, 100], [7, 8]]" "alloc_room (16 + 8) sample_db"
    "\<not> UsingIndex (new_POD sample_fs)"
    by code_simp+
  have t: "tb_record_def (rb_table sample_rdb) = rec_def sample_written"
    by (simp add: sample_rdb_def sample_written_def sample_record_def)
  have e: "\<not> Exclude i (exclude_fields sample_record)" "\<not> Exclude i (exclude_fields sample_written)" for i
    by (simp_all add: Exclude_def sample_written_def sample_record_def empty_record_def no_exclude_fields_def)
  have u: "[0..<2] = [0, 1 :: nat]" by (simp add: upt_rec)
  have x: "\<forall>i < num_flds sample_written. \<not> Exclude (int i) (exclude_fields sample_record)" using e(1) by simp
  have n: "num_flds sample_record = num_flds sample_written" "num_flds sample_record \<le> length (db_record sample_record)"
    using w(3-5) by simp_all
  from written_record_reads_back [OF sample_heap_ok w(1,2,9) t w(6) n w(7) x, of "new_POD sample_fs" 0 False]
  obtain a rb1 where A: "Write_rdb (Some sample_written) 0 False False (with_db sample_db (new_POD sample_fs) sample_rdb) =
      Some (((gxDBASE_NO_ERROR, a), Some sample_written), rb1)"
    and "\<exists>s' rb2. Read_rdb (Some sample_record) a rb1 = Some ((gxDBASE_NO_ERROR, Some s'), rb2) \<and>
      List.take (num_flds sample_written) (record_data s') = map (\<lambda>i. if Exclude (int i) (exclude_fields sample_written)
        then [] else record_data sample_written ! i) [0..<num_flds sample_written]"
    using w(10) by blast
  then show ?thesis unfolding w(3,8) u by (auto simp: e(2) A)
qed

end
