(* ===== verification/DebugMgr.thy ===== *)
theory DebugMgr
  imports Blocks StrUtil Headers
begin

text \<open>
  The texts of the error codes and of the status codes, \<open>src/src/gxderror.cpp\<close>. A code beyond the table has
  the text of the code for an invalid one.
\<close>

definition gxdMaxExceptionMessages :: int where "gxdMaxExceptionMessages = 90"

definition gxdExceptionMessages :: "string list" where
  "gxdExceptionMessages = [
     ''Database exception: No exception reported'',
     ''Database exception: Invalid error code reported'',
     ''Database exception: Accessing a deleted block'',
     ''Database exception: Access Violation'',
     ''Database exception: Assertion failed'',
     ''Database exception: Wrong object type'',
     ''Database exception: Bad index key'',
     ''Database exception: Bad object address'',
     ''Database exception: Bad reference'',
     ''Database exception: Block allocation error'',
     ''Database exception: Buffer overflow error'',
     ''Database exception: Error acquiring or loading cache bucket'',
     ''Database exception: Cache full'',
     ''Database exception: Checksum error'',
     ''Database exception: Divide by zero error'',
     ''Database exception: Duplicate entry error'',
     ''Database exception: Specified entry was not found'',
     ''Database exception: Unexpected end of file was reached'',
     ''Database exception: Error closing file'',
     ''Database exception: File is corrupt'',
     ''Database exception: Error creating file'',
     ''Database exception: File already exists'',
     ''Database exception: Trying to use a closed file'',
     ''Database exception: File not ready for reading/writing'',
     ''Database exception: Could not write to file'',
     ''Database exception: Error opening file'',
     ''Database exception: Cannot obtain a file position'',
     ''Database exception: Error reading from file'',
     ''Database exception: Error seeking in file'',
     ''Database exception: Error writing to file'',
     ''Database exception: Error inserting database entry'',
     ''Database exception: Memory allocation error'',
     ''Database exception: No database open'',
     ''Database exception: No such file exists'',
     ''Database exception: No objects exist database empty'',
     ''Database exception: Accessing a null pointer'',
     ''Database exception: Object already exists'',
     ''Database exception: No such object exists'',
     ''Database exception: Another object is referencing this file'',
     ''Database exception: Math overflow error'',
     ''Database exception: Parse error'',
     ''Database exception: Invalid path'',
     ''Database exception: Trying to write to a read-only file'',
     ''Database exception: Stack empty'',
     ''Database exception: Stack full'',
     ''Database exception: Synchronization Error'',
     ''Database exception: Math under-flow error'',
     ''Database exception: Wrong file type'',
     ''Database exception: Invalid lock type specified'',
     ''Database exception: Cannot access the file lock header'',
     ''Database exception: Cannot lock the file'',
     ''Database exception: Cannot access the record lock header'',
     ''Database exception: Cannot lock the specified record'',
     ''Database exception: File header is damaged or does not exist'',
     ''Database exception: The file revision letters do not match'',
     ''Database exception: The file version numbers do not match'',
     ''Database exception: DB actual file length is longer than recorded length'',
     ''Database exception: Bad heap start value in database file'',
     ''Database exception: Bad free space value in database file'',
     ''Database exception: Bad highest block value in database file'',
     ''Database exception: No database blocks found in database file'',
     ''Database exception: Encountered bad database block(s) during block search'',
     ''Database exception: Not a valid gxDatabase file'',
     ''Database exception: Bad RDBMS table'',
     ''Database exception: Bad RDBMS table definition'',
     ''Database exception: Bad RDBMS table field type'',
     ''Database exception: Bad RDBMS table header'',
     ''Database exception: Bad RDBMS table ID'',
     ''Database exception: Bad RDBMS record'',
     ''Database exception: Bad RDBMS record definition'',
     ''Database exception: Bad RDBMS field type'',
     ''Database exception: Bad RDBMS field length'',
     ''Database exception: Bad RDBMS column length'',
     ''Database exception: RDBMS record already exists'',
     ''Database exception: No such RDBMS record exists'',
     ''Database exception: Bad RDBMS key definition'',
     ''Database exception: Bad family definition'',
     ''Database exception: Bad foreign definition'',
     ''Database exception: Error building virtual list'',
     ''Database exception: Bad range limit specified'',
     ''Database exception: Illegal table or field name character'',
     ''Database exception: Data file is empty'',
     ''Database exception: Bad data file'',
     ''Database exception: Bad data file name'',
     ''Database exception: Index file is empty'',
     ''Database exception: Bad index file'',
     ''Database exception: Bad index file number'',
     ''Database exception: Bad index file name'',
     ''Database exception: Error renaming file'',
     ''Database exception: Error deleting file'']"

definition gxdMaxStatusMessages :: int where "gxdMaxStatusMessages = 14"

definition gxdStatusMessages :: "string list" where
  "gxdStatusMessages = [
     ''Database Status: No status available'',
     ''Database Status: Invalid status code'',
     ''Database Status: Open for read/write access'',
     ''Database Status: Open for read only access'',
     ''Database Status: Unavailable to all users'',
     ''Database Status: Locked by another process'',
     ''Database Status: Insufficient user privileges'',
     ''Database Status: Insufficient group privileges'',
     ''Database Status: Access forbidden'',
     ''Database Status: Undergoing consistency checks'',
     ''Database Status: No such database exists'',
     ''Database Status: Not open for user access'',
     ''Database Status: Rebuilding data file'',
     ''Database Status: Rebuilding indexes'']"

definition error_code :: "gxDatabaseError \<Rightarrow> nat" where
  "error_code e = (case e of gxDatabaseErrorCode n \<Rightarrow> n)"

definition gxDatabaseExceptionMessage :: "gxDatabaseError \<Rightarrow> string" where
  "gxDatabaseExceptionMessage err =
     (let e = error_code err
      in gxdExceptionMessages ! (if int e > gxdMaxExceptionMessages - 1 then 1 else e))"

definition gxDatabaseStatusMessage :: "nat \<Rightarrow> string" where
  "gxDatabaseStatusMessage s =
     gxdStatusMessages ! (if int s > gxdMaxStatusMessages - 1 then 1 else s)"

text \<open>The tables have as many texts as their sizes say.\<close>

lemma message_counts:
  "int (length gxdExceptionMessages) = gxdMaxExceptionMessages" "int (length gxdStatusMessages) = gxdMaxStatusMessages"
  by (simp_all add: gxdExceptionMessages_def gxdMaxExceptionMessages_def gxdStatusMessages_def gxdMaxStatusMessages_def)


text \<open>
  The debug manager of damaged database files, \<open>src/src/dbugmgr.cpp\<close>: opening a file without a check of its type,
  the search for blocks and the analysis of the file header. The static data of \<open>gxDatabase\<close>, the
  signature, the version and the check word, which the manager changes for the formats of old
  versions, are kept beside its file; the messages go to \<open>status_message\<close>.
\<close>

section \<open>The manager\<close>

record lib_version =
  lib_sig :: "byte list"
  lib_ver :: int
  lib_check_word :: int

definition library_version :: lib_version where
  "library_version = \<lparr>lib_sig = gxSignature, lib_ver = gxDatabaseVersionNumber, lib_check_word = gxCheckWord\<rparr>"

record gxDatabaseDebugManager =
  dm_db :: gxDatabase
  status_message :: string
  dm_lib :: lib_version

definition new_gxDatabaseDebugManager :: "filesys \<Rightarrow> lib_version \<Rightarrow> gxDatabaseDebugManager" where
  "new_gxDatabaseDebugManager fs l = \<lparr>dm_db = new_gxDatabase fs, status_message = [], dm_lib = l\<rparr>"

definition say :: "string \<Rightarrow> gxDatabaseDebugManager \<Rightarrow> gxDatabaseDebugManager" where
  "say s m = m\<lparr>status_message := status_message m @ s\<rparr>"

definition say_lines :: "string list \<Rightarrow> gxDatabaseDebugManager \<Rightarrow> gxDatabaseDebugManager" where
  "say_lines ls m = fold (\<lambda>l. say (l @ [CHR 0x0A])) ls m"

definition dm_error :: "gxDatabaseDebugManager \<Rightarrow> gxDatabaseError" where
  "dm_error m = gxd_error (dm_db m)"

definition set_dm_error :: "gxDatabaseError \<Rightarrow> gxDatabaseDebugManager \<Rightarrow> gxDatabaseDebugManager" where
  "set_dm_error e m = m\<lparr>dm_db := SetDatabaseError e (dm_db m)\<rparr>"

definition DatabaseExceptionMessage :: "gxDatabase \<Rightarrow> string" where
  "DatabaseExceptionMessage db = gxDatabaseExceptionMessage (gxd_error db)"

definition SetLastKnownRev :: "char \<Rightarrow> gxDatabaseDebugManager \<Rightarrow> gxDatabaseDebugManager" where
  "SetLastKnownRev r m = m\<lparr>dm_db := (dm_db m)\<lparr>rev_letter := r\<rparr>\<rparr>"

text \<open>The size of the file that is open, as the manager asks for it.\<close>

definition StaticEOF :: "gxDatabaseDebugManager \<Rightarrow> int" where
  "StaticEOF m = FileSize (file_name (dm_db m)) (db_fs (dm_db m))"

section \<open>Tests\<close>

definition CheckFileSize :: "string \<Rightarrow> filesys \<Rightarrow> bool" where
  "CheckFileSize n fs \<longleftrightarrow> \<not> gxdFPTRFileSize n fs < int sizeof_gxFileHeader"

definition VerifyBlockHeader :: "int \<Rightarrow> gxBlockHeader \<Rightarrow> bool" where
  "VerifyBlockHeader check_word hdr =
     (if block_check_word hdr \<noteq> check_word then False
      else (let unused_1 = drop_bit 24 (block_status hdr AND 0xFF000000);
                unused_2 = drop_bit 16 (block_status hdr AND 0xFF0000)
            in if unused_1 \<noteq> 0 \<or> unused_2 \<noteq> 0 then False
               else (let control = drop_bit 8 (block_status hdr AND 0xFF00);
                         status = block_status hdr AND 0xff
                     in if status \<notin> {gxBadBlock, gxDeletedBlock, gxNormalBlock, gxRemovedBlock,
                                       gxRemoteDeviceBlock} then False
                        else if status = gxRemoteDeviceBlock then
                          control \<in> {gxAddRemoteBlock, gxChangeRemoteBlock, gxDeleteRemoteBlock,
                             gxRequestFailed, gxCloseConnection, gxKillServer, gxRequestBlock,
                             gxSendBlock, gxAcknowledgeBlock}
                        else control = 0)))"

text \<open>\<open>TestBlockHeader\<close> of the engine, with the check word that is set.\<close>

definition tests_as :: "int \<Rightarrow> gxBlockHeader \<Rightarrow> bool" where
  "tests_as check_word h \<longleftrightarrow>
     block_check_word h = check_word \<and> TestBlockHeader (h\<lparr>block_check_word := gxCheckWord\<rparr>)"

definition VerifyRevLetter :: "char \<Rightarrow> bool" where
  "VerifyRevLetter r \<longleftrightarrow>
     r \<in> {CHR 0x00, CHR '' '', CHR ''a'', CHR ''A'', CHR ''b'', CHR ''B'', CHR ''c'', CHR ''C'',
          CHR ''d'', CHR ''D'', CHR ''e'', CHR ''E''}"

definition VerifyVersion :: "int \<Rightarrow> bool" where
  "VerifyVersion ver \<longleftrightarrow> \<not> ver < 1024 \<and> \<not> ver > gxDatabaseVersionNumber"

definition VerifyFileHeader :: "lib_version \<Rightarrow> gxFileHeader \<Rightarrow> bool" where
  "VerifyFileHeader l fh \<longleftrightarrow>
     List.take 9 (gxd_sig fh) = List.take 9 (lib_sig l) \<and> VerifyRevLetter (char_of_byte (gxd_sig fh ! 9)) \<and>
     VerifyVersion (gxd_ver fh) \<and> \<not> gxd_eof fh < 0 \<and> \<not> gxd_hs_fptr fh < 0 \<and> \<not> gxd_hb_fptr fh < 0"

definition ResetFileHeader :: "lib_version \<Rightarrow> gxDatabase \<Rightarrow> gxFileHeader \<Rightarrow> gxFileHeader" where
  "ResetFileHeader l db fh =
     (let hs = (if gxd_hs_fptr fh < FileHeaderSize db then FileHeaderSize db else gxd_hs_fptr fh)
      in fh\<lparr>gxd_hs_fptr := hs, gxd_fs_fptr := 0, gxd_eof := hs, gxd_hb_fptr := 0,
            gxd_sig := List.take 9 (lib_sig l) @ [byte_of_char (rev_letter db)], gxd_ver := lib_ver l\<rparr>)"

section \<open>Opening without a check\<close>

text \<open>The formats of the versions 1 to 3: the static data of the library are set to those of the file.\<close>

definition compatibility_mode :: "int \<Rightarrow> gxDatabaseDebugManager \<Rightarrow> gxDatabaseDebugManager" where
  "compatibility_mode check_word m =
     (let fh = file_header (dm_db m);
          sig = List.take 9 (gxd_sig fh)
      in m\<lparr>dm_lib := \<lparr>lib_sig = sig @ drop 9 (lib_sig (dm_lib m)), lib_ver = gxd_ver fh, lib_check_word = check_word\<rparr>,
           dm_db := (dm_db m)\<lparr>rev_letter := char_of_byte (gxd_sig fh ! 9)\<rparr>,
           status_message := ''Detected version '' @ to_string (to_s32 (gxd_ver fh)) @ [CHR 0x0A] @ ''Signature '' @
             map char_of_byte sig @ [CHR 0x0A]\<rparr>)"

definition finish_open :: "gxDatabaseDebugManager \<Rightarrow> gxDatabaseDebugManager" where
  "finish_open m =
     (let v = to_s32 (gxd_ver (file_header (dm_db m)))
      in set_dm_error gxDBASE_NO_ERROR
           (if v < 2000 then compatibility_mode 0x0000fefe m
            else if v < 4000 then compatibility_mode 0xfefefefe m
            else m))"

definition BlindOpen :: "string \<Rightarrow> char \<Rightarrow> gxDatabaseDebugManager \<Rightarrow> gxDatabaseDebugManager" where
  "BlindOpen n last_rev m0 =
     (let m = m0\<lparr>status_message := [], dm_db := (dm_db m0)\<lparr>rev_letter := last_rev\<rparr>\<rparr>
      in if \<not> CheckFileSize n (db_fs (dm_db m)) then set_dm_error gxDBASE_INVALID_FILE m
         else if length n \<ge> gxMaxNameLength then set_dm_error gxDBASE_FILE_OPEN_ERROR m
         else let db1 = Close (dm_db m)
              in if gxd_error db1 \<noteq> gxDBASE_NO_ERROR then m\<lparr>dm_db := db1\<rparr>
                 else (case gxdFPTROpen n gxDBASE_READONLY (db_fs db1) of
                         None \<Rightarrow> set_dm_error gxDBASE_FILE_OPEN_ERROR (m\<lparr>dm_db := db1\<lparr>fp := None\<rparr>\<rparr>)
                       | Some s \<Rightarrow>
                           let db2 = db1\<lparr>fp := Some s, ready_for_reading := True, ready_for_writing := False,
                                         is_open := True, is_ok := True, file_name := n,
                                         last_operation := gxDBASE_WRITE\<rparr>
                           in if FileSize n (db_fs db2) < int sizeof_gxFileHeader
                              then set_dm_error gxDBASE_INVALID_FILE (m\<lparr>dm_db := db2\<rparr>)
                              else (case read_fresh_hdr db2 of (fh, db3) \<Rightarrow>
                                if gxd_error db3 \<noteq> gxDBASE_NO_ERROR \<or> \<not> VerifyFileHeader (dm_lib m) fh
                                then finish_open (m\<lparr>dm_db := db3\<lparr>file_header :=
                                                     ResetFileHeader (dm_lib m) db3 (file_header db3)\<rparr>\<rparr>)
                                else let db4 = ReadFileHdr db3
                                     in if gxd_error db4 \<noteq> gxDBASE_NO_ERROR then m\<lparr>dm_db := db4\<rparr>
                                        else finish_open (m\<lparr>dm_db := db4\<lparr>rev_letter :=
                                                char_of_byte (gxd_sig (file_header db4) ! 9)\<rparr>\<rparr>))))"

section \<open>The search for blocks\<close>

function block_search :: "int \<Rightarrow> int \<Rightarrow> int \<Rightarrow> gxDatabase \<Rightarrow> int \<times> gxDatabase" where
  "block_search check_word eof file_address db =
     (if file_address + int sizeof_gxBlockHeader \<ge> eof then (0, db)
      else (case Read_hdr new_gxBlockHeader file_address db of (blk, db1) \<Rightarrow>
              if gxd_error db1 \<noteq> gxDBASE_NO_ERROR then (0, db1)
              else if \<not> tests_as check_word blk then block_search check_word eof (file_address + 1) db1
              else (file_address, db1)))"
  by pat_completeness auto
termination by (relation "measure (\<lambda>(w, eof, a, db). nat (eof - a))") auto

declare block_search.simps [simp del]

definition BlockSearch :: "int \<Rightarrow> gxDatabaseDebugManager \<Rightarrow> int \<times> gxDatabaseDebugManager" where
  "BlockSearch offset m =
     (if offset \<ge> StaticEOF m then (0, m)
      else (case block_search (lib_check_word (dm_lib m)) (StaticEOF m) offset (dm_db m) of
              (a, db) \<Rightarrow> (a, m\<lparr>dm_db := db\<rparr>)))"

section \<open>The analysis of the file header\<close>

text \<open>The manager, the first error of the header, and the number of errors.\<close>

type_synonym analysis = "gxDatabaseDebugManager \<times> gxDatabaseError \<times> nat"

definition tell :: "string list \<Rightarrow> analysis \<Rightarrow> analysis" where
  "tell ls an = (case an of (m, e, n) \<Rightarrow> (say_lines ls m, e, n))"

definition flaw :: "gxDatabaseError \<Rightarrow> string list \<Rightarrow> analysis \<Rightarrow> analysis" where
  "flaw err ls an =
     (case an of (m, e, n) \<Rightarrow>
        (say_lines ls (set_dm_error err m), if e = gxDBASE_NO_ERROR then err else e, n + 1))"

text \<open>The texts name the value, what is said when it is past the end, and the read.\<close>

definition check_block ::
  "int \<Rightarrow> gxDatabaseError \<Rightarrow> string \<Rightarrow> string \<Rightarrow> string \<Rightarrow> int \<Rightarrow> analysis \<Rightarrow> analysis"
where
  "check_block eof err bad past reading addr an =
     (case an of (m, e, n) \<Rightarrow>
        let name = bad @ file_name (dm_db m)
        in if addr + int sizeof_gxBlockHeader > eof then flaw err [name, past] an
           else (case Read_hdr new_gxBlockHeader addr (dm_db m) of (blk, db1) \<Rightarrow>
                   let m1 = m\<lparr>dm_db := db1\<rparr>
                   in if gxd_error db1 \<noteq> gxDBASE_NO_ERROR
                      then flaw (gxd_error db1) [reading, DatabaseExceptionMessage db1] (m1, e, n)
                      else if \<not> VerifyBlockHeader (lib_check_word (dm_lib m1)) blk
                      then flaw err [name, ''No database block found at file address: '' @ to_string addr] (m1, e, n)
                      else (m1, e, n)))"

definition check_eof :: "int \<Rightarrow> gxFileHeader \<Rightarrow> analysis \<Rightarrow> analysis" where
  "check_eof eof fh an0 =
     (let an = tell [''Checking for End of File errors''] an0;
          name = file_name (dm_db (fst an))
      in if gxd_eof fh < 0 then flaw gxDBASE_DBEOF_ERROR [''Bad end of file mark in file: '' @ name] an
         else if eof > gxd_eof fh
         then flaw gxDBASE_DBEOF_ERROR [''End of file error in file: '' @ name,
                ''The actual length is longer then the allocated length!''] an
         else an)"

definition check_heap_start :: "int \<Rightarrow> gxFileHeader \<Rightarrow> analysis \<Rightarrow> analysis" where
  "check_heap_start eof fh an0 =
     (let an = tell [''Checking the heap start value''] an0;
          db = dm_db (fst an); bad = ''Bad heap start value in file: ''
      in if gxd_hs_fptr fh < FileHeaderSize db \<or> gxd_hs_fptr fh > eof
         then flaw gxDBASE_HEAPSTART_ERROR [bad @ file_name db] an
         else if gxd_hb_fptr fh = 0 then tell [''No database blocks allocated''] an
         else check_block eof gxDBASE_HEAPSTART_ERROR bad ''The heap start is past the end of file''
                ''Error reading block header at heap start'' (gxd_hs_fptr fh) an)"

definition check_free_space :: "int \<Rightarrow> gxFileHeader \<Rightarrow> analysis \<Rightarrow> analysis" where
  "check_free_space eof fh an0 =
     (let an = tell [''Checking the free space value''] an0;
          name = file_name (dm_db (fst an)); bad = ''Bad free space value in file: ''
      in if gxd_fs_fptr fh = 0 then tell [''Free space list is empty''] an
         else if gxd_fs_fptr fh = gxCurrAddress
         then flaw gxDBASE_FREESPACE_ERROR [''Bad free space list in file: '' @ name] an
         else if gxd_fs_fptr fh < 0 then flaw gxDBASE_FREESPACE_ERROR [bad @ name] an
         else check_block eof gxDBASE_FREESPACE_ERROR bad ''Free space is past the end of file''
                ''Error reading block header at free space start'' (gxd_fs_fptr fh) an)"

definition check_highest_block :: "int \<Rightarrow> gxFileHeader \<Rightarrow> analysis \<Rightarrow> analysis" where
  "check_highest_block eof fh an0 =
     (let an = tell [''Checking the highest block value''] an0;
          bad = ''Bad highest block value in file: ''
      in if gxd_hb_fptr fh < 0
         then flaw gxDBASE_HIGHBLOCK_ERROR [bad @ file_name (dm_db (fst an))] an
         else if gxd_hb_fptr fh = 0 then tell [''No database blocks allocated''] an
         else check_block eof gxDBASE_HIGHBLOCK_ERROR bad ''The highest block is past the end of file''
                ''Error reading block header at highest block address'' (gxd_hb_fptr fh) an)"

definition finish_analysis :: "gxDatabaseError \<Rightarrow> analysis \<Rightarrow> gxDatabaseDebugManager" where
  "finish_analysis warning an =
     (case an of (m, e, n) \<Rightarrow>
        if n > 0 then set_dm_error e (say_lines [''Database file header has errors!''] m)
        else set_dm_error warning (say_lines [''Database file header checks good.''] m))"

text \<open>The warnings: a revision letter and a version other than those that are expected.\<close>

definition rev_text :: "string \<Rightarrow> char \<Rightarrow> string" where
  "rev_text s r = s @ (if r = CHR 0x00 then ''Zero'' else [r])"

definition warn_rev :: "char \<Rightarrow> char \<Rightarrow> bool \<Rightarrow> gxDatabaseDebugManager \<times> gxDatabaseError \<Rightarrow> gxDatabaseDebugManager \<times> gxDatabaseError" where
  "warn_rev rv cur test_rev w =
     (if rv \<noteq> cur \<and> test_rev
      then (say_lines [''NOTE: The database file revision letters do not match.'',
              rev_text ''Current database library revision = '' cur, rev_text ''File revision = '' rv,
              ''Backward compatibility rules will be enforced.''] (set_dm_error gxDBASE_REV_MISMATCH (fst w)),
            gxDBASE_REV_MISMATCH)
      else w)"

definition warn_ver :: "int \<Rightarrow> int \<Rightarrow> bool \<Rightarrow> gxDatabaseDebugManager \<times> gxDatabaseError \<Rightarrow> gxDatabaseDebugManager \<times> gxDatabaseError" where
  "warn_ver fver ver test_ver w =
     (if fver \<noteq> ver \<and> test_ver
      then (say_lines [''NOTE: The version numbers do not match.'',
              ''Current database File Version = '' @ to_string ver, ''The file reads: '' @ to_string fver,
              ''Backward compatibility rules will be enforced.''] (set_dm_error gxDBASE_VER_MISMATCH (fst w)),
            gxDBASE_VER_MISMATCH)
      else w)"

definition AnalyzeHeader_sig ::
  "byte list option \<Rightarrow> int \<Rightarrow> int \<Rightarrow> bool \<Rightarrow> bool \<Rightarrow> gxDatabaseDebugManager \<Rightarrow> gxDatabaseDebugManager"
where
  "AnalyzeHeader_sig sig_ptr sig_len0 ver test_ver test_rev m0 =
     (let sig_len = (if sig_len0 > 10 then 10 else sig_len0)
      in if sig_ptr = None \<or> sig_len < 1 then set_dm_error gxDBASE_BAD_HEADER m0
         else let sig = the sig_ptr; n = nat (sig_len - 1); eof = StaticEOF m0;
                  m = say_lines [''Analyzing database file header''] (m0\<lparr>status_message := []\<rparr>)
              in case read_fresh_hdr (dm_db m) of (fh, db1) \<Rightarrow>
                   let m1 = m\<lparr>dm_db := db1\<rparr>
                   in if gxd_error db1 \<noteq> gxDBASE_NO_ERROR
                      then say_lines [''Cannot read gxDatabase file header'', DatabaseExceptionMessage db1] m1
                      else let m2 = say_lines [''Checking database signature''] m1
                      in if List.take n (gxd_sig fh) \<noteq> List.take n sig
                         then set_dm_error gxDBASE_BAD_HEADER
                                (say_lines [''Database file header is damaged or does not exist''] m2)
                         else let m3 = say_lines [''Checking the revision letter''] m2;
                                  rv = char_of_byte (gxd_sig fh ! n)
                         in if \<not> VerifyRevLetter rv
                            then set_dm_error gxDBASE_BAD_HEADER
                                   (say_lines [''Bad revision letter file header is not valid''] m3)
                            else (case warn_rev rv (char_of_byte (sig ! n)) test_rev (m3, gxDBASE_NO_ERROR) of (m4, w4) \<Rightarrow>
                              let m5 = say_lines [''Checking the database version number''] m4
                              in if \<not> VerifyVersion (gxd_ver fh)
                                 then set_dm_error gxDBASE_BAD_HEADER
                                        (say_lines [''Bad version number file header is not valid''] m5)
                                 else (case warn_ver (gxd_ver fh) ver test_ver (m5, w4) of (m6, w6) \<Rightarrow>
                                   finish_analysis w6
                                     (check_highest_block eof fh
                                       (check_free_space eof fh
                                         (check_heap_start eof fh
                                           (check_eof eof fh (m6, gxDBASE_NO_ERROR, 0))))))))"

definition AnalyzeHeader :: "bool \<Rightarrow> bool \<Rightarrow> gxDatabaseDebugManager \<Rightarrow> gxDatabaseDebugManager" where
  "AnalyzeHeader test_ver test_rev m =
     AnalyzeHeader_sig (Some (lib_sig (dm_lib m))) 10 (lib_ver (dm_lib m)) test_ver test_rev m"

end
