(* ===== verification/DebugRebuild.thy ===== *)
theory DebugRebuild
  imports DebugMgr
begin

text \<open>
  \<open>Rebuild\<close> of the debug manager (\<open>src/src/dbugmgr.cpp\<close>): the good blocks of a file, damaged or not, are copied into a
  new one. The new file is written in the format of the library; one with another signature, version or
  check word is not modelled (\<open>None\<close>), and neither is a new file under the name of the old one.
\<close>

section \<open>The two files\<close>

definition with_fs :: "filesys \<Rightarrow> gxDatabaseDebugManager \<Rightarrow> gxDatabaseDebugManager" where
  "with_fs fs m = m\<lparr>dm_db := (dm_db m)\<lparr>db_fs := fs\<rparr>\<rparr>"

text \<open>The check of the old header: the header that was read, and whether there were errors.\<close>

definition rebuild_header ::
  "int \<Rightarrow> gxDatabaseDebugManager \<Rightarrow> (gxFileHeader \<times> nat) \<times> gxDatabaseDebugManager"
where
  "rebuild_header eof m =
     (case read_fresh_hdr (dm_db m) of (fh, db1) \<Rightarrow>
        let m1 = m\<lparr>dm_db := db1\<rparr>; bad = ''Database has a bad heap start value''
        in if gxd_error db1 \<noteq> gxDBASE_NO_ERROR
           then ((fh, 1), say_lines [''Error reading database file header'', DatabaseExceptionMessage db1] m1)
           else if List.take 9 (gxd_sig fh) \<noteq> List.take 9 (lib_sig (dm_lib m))
           then ((fh, 1), say_lines [''Database file header is damaged or does not exist'']
                            (set_dm_error gxDBASE_BAD_HEADER m1))
           else if gxd_hs_fptr fh < FileHeaderSize db1 \<or> gxd_hs_fptr fh > eof
           then ((fh, 1), say_lines [bad] (set_dm_error gxDBASE_HEAPSTART_ERROR m1))
           else if gxd_hb_fptr fh = 0 then ((fh, 0), m1)
           else if gxd_hs_fptr fh + int sizeof_gxBlockHeader > eof
           then ((fh, 1), say_lines [bad, ''The heap start is past the end of file'']
                            (set_dm_error gxDBASE_HEAPSTART_ERROR m1))
           else (case Read_hdr new_gxBlockHeader (gxd_hs_fptr fh) db1 of (blk, db2) \<Rightarrow>
                   let m2 = m1\<lparr>dm_db := db2\<rparr>
                   in if gxd_error db2 \<noteq> gxDBASE_NO_ERROR then ((fh, 1), say_lines [bad] m2)
                      else if \<not> VerifyBlockHeader (lib_check_word (dm_lib m2)) blk then ((fh, 1), say_lines [bad] m2)
                      else ((fh, 0), m2)))"

text \<open>
  The static area: its size after the copy, whether the data were copied, and the errors. A size whose
  allocation fails is one that has no value as a signed word.
\<close>

definition copy_static ::
  "int \<Rightarrow> int \<Rightarrow> gxDatabaseDebugManager \<Rightarrow> gxDatabase \<Rightarrow> (int \<times> bool \<times> nat) \<times> gxDatabaseDebugManager \<times> gxDatabase"
where
  "copy_static eof static_area m new =
     (let err = ''Error copying static data area''; none = ''No static data copied''; fhs = FileHeaderSize (dm_db m)
      in if static_area < 0
         then (let m1 = set_dm_error gxDBASE_MEM_ALLOC_ERROR m
               in ((0, True, 1), say_lines [err, DatabaseExceptionMessage (dm_db m1), none] m1, new))
         else if static_area + fhs > eof
         then ((0, True, 1), say_lines [err, ''Static data area is past the end of file'', none] m, new)
         else (case Read (replicate (nat static_area) 0) fhs (dm_db m) of (v, db1) \<Rightarrow>
                 let m1 = m\<lparr>dm_db := db1\<rparr>
                 in if gxd_error db1 \<noteq> gxDBASE_NO_ERROR
                    then ((0, True, 1), say_lines [err, DatabaseExceptionMessage db1, none] m1, new)
                    else let new1 = Write v (FileHeaderSize new) new
                         in if gxd_error new1 \<noteq> gxDBASE_NO_ERROR
                            then ((static_area, False, 1),
                                  set_dm_error (gxd_error new1) (say_lines [err, DatabaseExceptionMessage new1, none] m1), new1)
                            else ((static_area, True, 0), m1, new1)))"

section \<open>One block\<close>

record rebuild_state =
  rs_m :: gxDatabaseDebugManager
  rs_new :: gxDatabase
  rs_curr :: int
  rs_count :: int
  rs_bad :: int
  rs_errors :: nat

definition rs_say :: "string list \<Rightarrow> rebuild_state \<Rightarrow> rebuild_state" where
  "rs_say ls s = s\<lparr>rs_m := say_lines ls (rs_m s)\<rparr>"

definition rs_db :: "gxDatabase \<Rightarrow> rebuild_state \<Rightarrow> rebuild_state" where
  "rs_db db s = s\<lparr>rs_m := (rs_m s)\<lparr>dm_db := db\<rparr>\<rparr>"

definition eof_text :: string where
  "eof_text = ''Reached the end of file mark rebuild stopped''"

text \<open>A bad block is counted, and the search goes on behind what was read of it.\<close>

definition search_next :: "rebuild_state \<Rightarrow> int option \<times> rebuild_state" where
  "search_next s =
     (case BlockSearch (rs_curr s) (rs_m s) of (a, m) \<Rightarrow>
        (if a = 0 then None else Some a, s\<lparr>rs_bad := rs_bad s + 1, rs_m := m\<rparr>))"

definition rs_exception :: "string \<Rightarrow> rebuild_state \<Rightarrow> rebuild_state" where
  "rs_exception l s = rs_say [l, DatabaseExceptionMessage (dm_db (rs_m s))] s"

text \<open>
  The data of a block go to a new object of the new file. \<open>Write\<close> is called with what \<open>Alloc\<close> returned, also
  when that is 0.
\<close>

definition store_object :: "byte list \<Rightarrow> gxDatabase \<Rightarrow> gxDatabase option" where
  "store_object v new =
     (case Alloc (int (length v)) gxDBASE_RECLAIM_FIRSTFIT new of
        None \<Rightarrow> None
      | Some (a, new1) \<Rightarrow> Some (Write v a new1))"

definition has_checksum :: "char \<Rightarrow> bool" where
  "has_checksum rv \<longleftrightarrow>
     rv \<in> {CHR ''a'', CHR ''A'', CHR ''b'', CHR ''B'', CHR ''c'', CHR ''C'', CHR ''d'', CHR ''D''}"

definition store_checksum :: "char \<Rightarrow> byte list \<Rightarrow> rebuild_state \<Rightarrow> rebuild_state" where
  "store_checksum rv v s =
     (if \<not> has_checksum rv then s
      else let new1 = Write (gxUINT32_UnPackBits (calcCRC32 v)) gxCurrAddress (rs_new s);
               s1 = s\<lparr>rs_new := new1\<rparr>
           in if gxd_error new1 \<noteq> gxDBASE_NO_ERROR
              then s1\<lparr>rs_m := set_dm_error (gxd_error new1) (say_lines [''Error writing persistent checksum value'',
                         DatabaseExceptionMessage new1] (rs_m s1)), rs_errors := rs_errors s1 + 1\<rparr>
              else s1)"

text \<open>Reading the object, at the position behind the header and the lock of its block, and storing it.\<close>

definition copy_object ::
  "int \<Rightarrow> char \<Rightarrow> int \<Rightarrow> int \<Rightarrow> rebuild_state \<Rightarrow> (int option \<times> rebuild_state) option"
where
  "copy_object eof rv object_length next_addr s0 =
     (let s = s0\<lparr>rs_curr := rs_curr s0 + object_length\<rparr>
      in if rs_curr s > eof then Some (None, rs_say [eof_text] s)
         else (case Read (replicate (nat object_length) 0) gxCurrAddress (dm_db (rs_m s)) of (v, db1) \<Rightarrow>
                 let s1 = rs_db db1 s
                 in if gxd_error db1 \<noteq> gxDBASE_NO_ERROR
                    then Some (search_next (rs_exception ''Error reading database block'' s1))
                    else let s2 = (if rev_zero_or_E (rev_letter db1) then s1
                                   else s1\<lparr>rs_curr := rs_curr s1 + int sizeof_gxChecksum\<rparr>)
                         in case store_object v (rs_new s2) of
                              None \<Rightarrow> None
                            | Some new1 \<Rightarrow>
                                if gxd_error new1 \<noteq> gxDBASE_NO_ERROR
                                then Some (search_next (s2\<lparr>rs_new := new1,
                                       rs_m := set_dm_error (gxd_error new1)
                                         (say_lines [''Error writing block to specified database file'',
                                            DatabaseExceptionMessage new1] (rs_m s2))\<rparr>))
                                else let s3 = store_checksum rv v (s2\<lparr>rs_new := new1\<rparr>)
                                     in Some (Some next_addr, s3\<lparr>rs_count := rs_count s3 + 1\<rparr>)))"

definition copy_block ::
  "int \<Rightarrow> char \<Rightarrow> int \<Rightarrow> gxBlockHeader \<Rightarrow> rebuild_state \<Rightarrow> (int option \<times> rebuild_state) option"
where
  "copy_block eof rv addr blk s =
     (let db = dm_db (rs_m s);
          object_length = to_s64 (if rev_zero_or_E (rev_letter db) then block_length blk - BlockHeaderSize db
                                  else block_length blk - (BlockHeaderSize db + int sizeof_gxChecksum));
          next_addr = addr + block_length blk
      in if object_length < 0
         then Some (search_next (rs_say [''Bad block length found at file address: '' @ to_string addr] s))
         else if rev_C_or_D (rev_letter db) then
           (let s1 = s\<lparr>rs_curr := rs_curr s + int sizeof_gxRecordLockHeader\<rparr>
            in if rs_curr s1 \<ge> eof then Some (None, rs_say [eof_text] s1)
               else (case SeekTo (rs_curr s1) db of (_, db1) \<Rightarrow>
                       let s2 = rs_db db1 s1
                       in if gxd_error db1 \<noteq> gxDBASE_NO_ERROR
                          then Some (search_next (rs_exception ''Error seeking in file'' s2))
                          else copy_object eof rv object_length next_addr s2))
         else copy_object eof rv object_length next_addr s)"

text \<open>One round of the loop: the address of the next block, or the end.\<close>

definition rebuild_step ::
  "int \<Rightarrow> char \<Rightarrow> int \<Rightarrow> rebuild_state \<Rightarrow> (int option \<times> rebuild_state) option"
where
  "rebuild_step eof rv addr s =
     (let db = dm_db (rs_m s); w = lib_check_word (dm_lib (rs_m s))
      in if addr + BlockHeaderSize db \<ge> eof
         then Some (None, if rs_curr s \<noteq> eof then rs_say [eof_text] s else s)
         else (case Read_hdr new_gxBlockHeader addr db of (blk, db1) \<Rightarrow>
                 let s1 = (rs_db db1 s)\<lparr>rs_curr := addr + int sizeof_gxBlockHeader\<rparr>
                 in if gxd_error db1 \<noteq> gxDBASE_NO_ERROR
                    then Some (search_next (rs_exception ''Error reading database block header'' s1))
                    else if tests_as w blk \<and> (block_length blk < BlockHeaderSize db1 \<or> addr + block_length blk > eof)
                    then Some (search_next (rs_say [''Bad block length found at file address: '' @ to_string addr] s1))
                    else if tests_as w blk then
                      (if block_status blk = gxNormalBlock then copy_block eof rv addr blk s1
                       else Some (Some (addr + block_length blk), s1))
                    else Some (search_next s1)))"

section \<open>The loop\<close>

text \<open>Each round goes forward in the file.\<close>

lemma block_search_forward: "block_search w eof a db = (b, db') \<Longrightarrow> b = 0 \<or> a \<le> b"
proof (induction w eof a db rule: block_search.induct)
  case (1 w eof a db)
  then show ?case
    by (subst (asm) block_search.simps) (fastforce split: if_splits prod.splits)
qed

lemma search_next_forward: "search_next s = (Some a, s') \<Longrightarrow> rs_curr s \<le> a"
  by (auto simp: search_next_def BlockSearch_def split: if_splits prod.splits dest: block_search_forward)

lemma copy_object_forward:
  "copy_object eof rv n nxt s = Some (Some a, s') \<Longrightarrow> 0 \<le> n \<Longrightarrow> rs_curr s \<le> a \<or> a = nxt"
  by (fastforce simp: copy_object_def Let_def rs_say_def rs_db_def rs_exception_def sizeof_defs
      split: if_splits prod.splits option.splits dest: search_next_forward)

lemma copy_block_forward:
  "copy_block eof rv addr blk s = Some (Some a, s') \<Longrightarrow> rs_curr s \<le> a \<or> a = addr + block_length blk"
  by (fastforce simp: copy_block_def Let_def rs_say_def rs_db_def rs_exception_def sizeof_defs
      split: if_splits prod.splits option.splits dest: search_next_forward copy_object_forward)

lemma rebuild_step_forward:
  assumes "rebuild_step eof rv addr s = Some (Some a, s')"
  shows "addr < a \<and> addr < eof"
proof -
  obtain blk db1 where R: "Read_hdr new_gxBlockHeader addr (dm_db (rs_m s)) = (blk, db1)" by fastforce
  define s1 where "s1 = (rs_db db1 s)\<lparr>rs_curr := addr + int sizeof_gxBlockHeader\<rparr>"
  have c: "rs_curr s1 = addr + 20" "\<And>ls. rs_curr (rs_say ls s1) = addr + 20" "\<And>l. rs_curr (rs_exception l s1) = addr + 20"
    by (simp_all add: s1_def rs_say_def rs_exception_def sizeof_defs)
  have b: "20 \<le> BlockHeaderSize db" for db by (simp add: BlockHeaderSize_def Let_def sizeof_defs)
  have "addr < eof" using assms b [of "dm_db (rs_m s)"] by (auto simp: rebuild_step_def Let_def split: if_splits)
  moreover have "addr < a"
    using assms c b [of db1]
    unfolding rebuild_step_def Let_def R prod.case s1_def [symmetric]
    by (auto split: if_splits dest!: search_next_forward copy_block_forward)
  ultimately show ?thesis by simp
qed

function rebuild_loop :: "int \<Rightarrow> char \<Rightarrow> int \<Rightarrow> rebuild_state \<Rightarrow> rebuild_state option" where
  "rebuild_loop eof rv addr s =
     (case rebuild_step eof rv addr s of
        None \<Rightarrow> None
      | Some (None, s1) \<Rightarrow> Some s1
      | Some (Some a, s1) \<Rightarrow> rebuild_loop eof rv a s1)"
  by pat_completeness auto
termination
  by (relation "measure (\<lambda>(eof, rv, addr, s). nat (eof - addr))") (auto dest: rebuild_step_forward)

declare rebuild_loop.simps [simp del]

section \<open>Rebuild\<close>

definition lib_after :: "byte list option \<Rightarrow> int \<Rightarrow> int \<Rightarrow> int \<Rightarrow> lib_version \<Rightarrow> lib_version" where
  "lib_after sig_ptr sig_len ver check_word l =
     (let n = nat (min sig_len 10)
      in \<lparr>lib_sig = (case sig_ptr of None \<Rightarrow> lib_sig l | Some sig \<Rightarrow> List.take n sig @ drop n (lib_sig l)),
         lib_ver = ver, lib_check_word = check_word\<rparr>)"

text \<open>Without a block the new file is empty.\<close>

definition rebuild_empty ::
  "string \<Rightarrow> int \<Rightarrow> char \<Rightarrow> nat \<Rightarrow> gxDatabaseDebugManager \<Rightarrow> bool \<times> gxDatabaseDebugManager"
where
  "rebuild_empty n static_area rv errors m0 =
     (let name = file_name (dm_db m0);
          m = set_dm_error gxDBASE_NOBLOCK_ERROR (say_lines [''No database blocks found in file: '' @ name] m0);
          new = Create (Some n) static_area rv (new_gxDatabase (db_fs (dm_db m)));
          m1 = with_fs (db_fs (Close new)) m
      in if gxd_error new \<noteq> gxDBASE_NO_ERROR
         then (False, set_dm_error (gxd_error new)
                        (say_lines [''Error creating new database file'', DatabaseExceptionMessage new] m1))
         else if errors > 0 then (False, say_lines [name @ '' file header is damaged!''] m1)
         else (True, m1))"

text \<open>What is said and set at the end.\<close>

definition rebuild_results ::
  "int \<Rightarrow> bool \<Rightarrow> nat \<Rightarrow> rebuild_state \<Rightarrow> gxDatabaseDebugManager"
where
  "rebuild_results static_area copy_static_data errors s =
     (let nname = file_name (rs_new s); name = file_name (dm_db (rs_m s));
          m1 = say_lines [''Wrote '' @ to_string (rs_count s) @ '' good database blocks to file: '' @ nname] (rs_m s);
          m2 = (if static_area \<noteq> 0 \<and> copy_static_data
                then say_lines [''Wrote '' @ to_string static_area @ '' bytes of Static area data.''] m1 else m1);
          m3 = (if rs_errors s > 0
                then say_lines [''Found '' @ to_string (int (rs_errors s)) @ '' errors during the rebuild''] m2 else m2);
          m4 = (if rs_bad s \<noteq> 0
                then say_lines [''Did not write '' @ to_string (rs_bad s) @ '' bad blocks found in file: '' @ name]
                       (set_dm_error gxDBASE_BADBLOCK_ERROR m3) else m3)
      in if errors > 0
         then say_lines [name @ '' file header is damaged!'', ''No header information was copied to '' @ nname]
                (set_dm_error gxDBASE_BAD_HEADER m4)
         else m4)"

definition rebuild_blocks ::
  "string \<Rightarrow> char \<Rightarrow> int \<Rightarrow> int \<Rightarrow> bool \<Rightarrow> nat \<Rightarrow> int \<Rightarrow> gxDatabaseDebugManager \<Rightarrow>
   ((bool \<times> int) \<times> gxDatabaseDebugManager) option"
where
  "rebuild_blocks n rv eof static_area copy_static_data errors addr m =
     (let new = Create (Some n) static_area rv (new_gxDatabase (db_fs (dm_db m)));
          m1 = with_fs (db_fs new) m
      in if gxd_error new \<noteq> gxDBASE_NO_ERROR
         then Some ((False, 0), set_dm_error (gxd_error new)
                     (say_lines [''Error creating new database file'', DatabaseExceptionMessage new]
                       (with_fs (db_fs (Close new)) m)))
         else (case (if static_area \<noteq> 0 \<and> copy_static_data then copy_static eof static_area m1 new
                     else ((static_area, copy_static_data, 0), m1, new)) of
                 ((sa, copied, re), m2, new1) \<Rightarrow>
                   (case rebuild_loop eof rv addr
                       \<lparr>rs_m = m2, rs_new = new1, rs_curr = addr, rs_count = 0, rs_bad = 0, rs_errors = re\<rparr> of
                      None \<Rightarrow> None
                    | Some s \<Rightarrow>
                        Some ((\<not> (errors > 0 \<or> rs_bad s \<noteq> 0 \<or> rs_errors s > 0), rs_count s),
                          with_fs (db_fs (Close (rs_new s))) (rebuild_results sa copied errors s)))))"

text \<open>The result, the number of objects, and the manager.\<close>

definition Rebuild_sig ::
  "string \<Rightarrow> byte list option \<Rightarrow> int \<Rightarrow> int \<Rightarrow> char \<Rightarrow> int \<Rightarrow> int \<Rightarrow> bool \<Rightarrow> gxDatabaseDebugManager \<Rightarrow>
   ((bool \<times> int) \<times> gxDatabaseDebugManager) option"
where
  "Rebuild_sig n sig_ptr sig_len ver rv check_word static_area copy_static_data m0 =
     (if lib_after sig_ptr sig_len ver check_word (dm_lib m0) \<noteq> library_version then None
      else let eof = StaticEOF m0;
               m = say_lines [''Rebuild results for: '' @ n,
                     (if rv = CHR 0x00 \<or> rv = CHR '' '' then ''Database revision: Zero'' else ''Database revision: '' @ [rv]),
                     ''Database version: '' @ to_string ver] (m0\<lparr>status_message := []\<rparr>)
           in case rebuild_header eof m of ((fh, errors), m1) \<Rightarrow>
              let sa = (if errors = 0 \<and> static_area = 0 then gxd_hs_fptr fh - FileHeaderSize (dm_db m1) else static_area)
              in case BlockSearch 0 m1 of (addr, m2) \<Rightarrow>
                   if addr = 0
                   then (case rebuild_empty n sa rv errors m2 of (ok, m3) \<Rightarrow> Some ((ok, 0), m3))
                   else rebuild_blocks n rv eof sa copy_static_data errors addr m2)"

definition Rebuild_ver ::
  "string \<Rightarrow> int \<Rightarrow> char \<Rightarrow> int \<Rightarrow> bool \<Rightarrow> gxDatabaseDebugManager \<Rightarrow>
   ((bool \<times> int) \<times> gxDatabaseDebugManager) option"
where
  "Rebuild_ver n ver rv static_area copy_static_data m =
     Rebuild_sig n (Some (lib_sig (dm_lib m))) 10 ver rv (lib_check_word (dm_lib m)) static_area copy_static_data m"

definition Rebuild ::
  "string \<Rightarrow> bool \<Rightarrow> gxDatabaseDebugManager \<Rightarrow> ((bool \<times> int) \<times> gxDatabaseDebugManager) option"
where
  "Rebuild n update_ver m =
     Rebuild_ver n (if update_ver then gxDatabaseVersionNumber else lib_ver (dm_lib m))
       (if update_ver then gxDatabaseRevisionLetter else rev_letter (dm_db m)) 0 True m"

end
