(* ===== verification/RdbRepair.thy ===== *)
theory RdbRepair
  imports RdbCheck DebugRebuild
begin

text \<open>
  The functions of the relational database manager that work with the debug manager (\<open>src/src/gxrdbms.cpp\<close>):
  checking the data file and an index file before they are opened, and rebuilding the data file. A file
  in the format of an old version, for which the debug manager changes the static data of the library, is
  not modelled (\<open>None\<close>). A message is \<open>None\<close> when the caller wants none.
\<close>

section \<open>The file of the debug manager\<close>

definition blind_open :: "string \<Rightarrow> char \<Rightarrow> gxRDBMS \<Rightarrow> gxDatabaseDebugManager option" where
  "blind_open n rv rb =
     (let f = BlindOpen (c_str n) rv (new_gxDatabaseDebugManager (rdb_fs rb) library_version)
      in if dm_lib f = library_version then Some f else None)"

definition mesg_add :: "string list \<Rightarrow> string option \<Rightarrow> string option" where
  "mesg_add ls mesg = map_option (\<lambda>s. s @ concat (map (\<lambda>l. l @ [CHR 0x0A]) ls)) mesg"

text \<open>\<open>if(pod) pod->SetDataFileError(e)\<close>\<close>

definition pod_error :: "gxDatabaseError \<Rightarrow> gxRDBMS \<Rightarrow> gxRDBMS" where
  "pod_error e rb =
     (case rb_pod rb of None \<Rightarrow> rb | Some p \<Rightarrow> rb\<lparr>rb_pod := Some (snd (SetDataFileError e p))\<rparr>)"

definition set_rdb_fs :: "filesys \<Rightarrow> gxRDBMS \<Rightarrow> gxRDBMS" where
  "set_rdb_fs fs rb =
     (case rb_pod rb of None \<Rightarrow> rb\<lparr>rb_fs := fs\<rparr> | Some p \<Rightarrow> rb\<lparr>rb_pod := Some (p\<lparr>pod_fs := fs\<rparr>)\<rparr>)"

text \<open>
  The analysis of the header, with warnings ignored: the error that ends the check, if any, and the file.
\<close>

definition analyze_file ::
  "gxDatabaseDebugManager \<Rightarrow> gxRDBMS \<Rightarrow> gxDatabaseError option \<times> gxDatabaseDebugManager \<times> gxRDBMS"
where
  "analyze_file f rb =
     (let f1 = AnalyzeHeader False False f; err = dm_error f1
      in if err = gxDBASE_NO_ERROR then (None, f1, rb)
         else if err = gxDBASE_REV_MISMATCH \<or> err = gxDBASE_VER_MISMATCH
         then (None, f1, pod_error gxDBASE_NO_ERROR rb)
         else (Some err, f1, pod_error err rb))"

section \<open>Checking the data file\<close>

text \<open>The result is the error, the two flags and the message.\<close>

type_synonym check_result = "gxDatabaseError \<times> int \<times> int \<times> string option"

text \<open>The comparison of the header of the file with the definitions of the table.\<close>

definition check_table_header ::
  "gxrdTableHeader \<Rightarrow> string option \<Rightarrow> gxRDBMS \<Rightarrow> (check_result \<times> gxRDBMS) option"
where
  "check_table_header th mesg0 rb0 =
     (if tb_table_def (rb_table rb0) = [] then Some ((gxDBASE_BAD_TABLE_DEF, 0, 0, mesg0), pod_error gxDBASE_BAD_TABLE_DEF rb0)
      else if rb_key_def rb0 = [] then Some ((gxDBASE_BAD_KEY_DEF, 0, 0, mesg0), pod_error gxDBASE_BAD_KEY_DEF rb0)
      else case init_table_header rb0 of (e, rb) \<Rightarrow>
        if e \<noteq> gxDBASE_NO_ERROR then Some ((e, 0, 0, mesg0), pod_error e rb)
        else let own = tb_table_header (rb_table rb)
        in if \<not> VerifyFieldTypes th
           then Some ((gxDBASE_BAD_TABLE, 1, 1, mesg_add [''Bad gxRDBMS table header'',
                        ''The table header read from file is not valid''] mesg0), pod_error gxDBASE_BAD_TABLE rb)
           else if \<not> TestFieldTypes_header th own
           then Some ((gxDBASE_BAD_TABLE_FIELD, 0, 0, mesg_add [''Bad gxRDBMS field type'',
                        ''The table header read from file does not match DEF''] mesg0),
                      pod_error gxDBASE_BAD_TABLE_FIELD rb)
           else let must = ''The indexing subsystem must be rebuilt'';
                    k = TestKeyDef th own; fk = TestFKeyDef th own;
                    rb1 = (if k then rb else pod_error gxDBASE_BAD_KEY_DEF rb);
                    rb2 = (if fk then rb1 else pod_error gxDBASE_BAD_FKEY_DEF rb1);
                    m1 = (if k then mesg0 else mesg_add [''The key DEF has changed'', must] mesg0);
                    m2 = (if fk then m1 else mesg_add [''The foreign key DEF has changed'', must] m1);
                    m3 = mesg_add [''Database file header checks good.'', ''gxRDBMS table header checks good.''] m2;
                    ix = (if k \<and> fk then 0 else 1)
                in if rb_pod rb2 = None then do {
                     (e2, rb3) \<leftarrow> create_or_open False rb2;
                     Some ((e2, 0, ix, m3), rb3)
                   }
                   else Some ((gxDBASE_NO_ERROR, 0, ix, m3), rb2))"

definition check_file_id ::
  "gxDatabaseDebugManager \<Rightarrow> string option \<Rightarrow> gxRDBMS \<Rightarrow> (check_result \<times> gxRDBMS) option"
where
  "check_file_id f mesg0 rb =
     (let mesg = mesg_add [''Analyzing gxRDBMS table header''] mesg0; own = new_gxRDBMSHeader
      in case StaticArea (dm_db f) of (area, db1) \<Rightarrow>
        if area \<noteq> HeaderSize rb
        then Some ((gxDBASE_BAD_TABLE_HEADER, 1, 1, mesg_add [''Static data area size mismatch'',
                     ''Cannot read table header from file''] mesg), rb)
        else case Read (enc_gxRDBMSHeader (Clear_RDBMSHeader own)) (FileHeaderSize db1) db1 of (b, db2) \<Rightarrow>
          let fid = dec_gxRDBMSHeader b; e = gxd_error db2
          in if e \<noteq> gxDBASE_NO_ERROR
             then Some ((e, 0, 0, mesg_add [''Error reading gxRDBMS file ID string'', DatabaseExceptionMessage db2] mesg), pod_error e rb)
             else if \<not> TestHeader fid own
             then (let m1 = mesg_add [''Bad gxRDBMS table header''] mesg;
                       m2 = (if TestFileID fid own then m1 else mesg_add [''Bad gxRDBMS file identification string''] m1);
                       m3 = (if TestRevLetter fid own then m2 else mesg_add [''Revision letter mismatch''] m2);
                       m4 = (if TestVersion fid own then m3 else mesg_add [''Version number mismatch''] m3)
                   in Some ((gxDBASE_BAD_TABLE_HEADER, 1, 1, m4), pod_error gxDBASE_BAD_TABLE_HEADER rb))
             else (case ReadTableHeader_file False new_gxrdTableHeader fid db2 of ((e2, th, _), db3) \<Rightarrow>
               if e2 \<noteq> gxDBASE_NO_ERROR
               then Some ((e2, 0, 0, mesg_add [''Error reading gxRDBMS table header'', DatabaseExceptionMessage db3] mesg),
                          pod_error e2 rb)
               else check_table_header th mesg rb))"

definition CheckDataFile :: "bool \<Rightarrow> gxRDBMS \<Rightarrow> (check_result \<times> gxRDBMS) option" where
  "CheckDataFile wants_message rb0 =
     (let mesg = (if wants_message then Some [] else None)
      in if \<not> Exists (rb_datafile rb0) (rdb_fs rb0) then do {
           (e, rb) \<leftarrow> create_or_open False rb0;
           Some ((e, 0, 0, mesg_add [tb_table_name (rb_table rb0) @ '' data file does not exist'',
                   ''Warning: all associated index files will be recreated''] mesg), rb)
         }
         else do {
           rb \<leftarrow> (if rb_pod rb0 = None then Some rb0 else map_option snd (TestDataFile_rdb rb0));
           f \<leftarrow> blind_open (rb_datafile rb) (rb_df_rev rb) rb;
           if dm_error f \<noteq> gxDBASE_NO_ERROR
           then Some ((dm_error f, 0, 0, map_option (\<lambda>s. s @ status_message f) mesg), pod_error (dm_error f) rb)
           else (case analyze_file f rb of
                   (Some err, f1, rb1) \<Rightarrow> Some ((err, 1, 1, map_option (\<lambda>s. s @ status_message f1) mesg), rb1)
                 | (None, f1, rb1) \<Rightarrow> check_file_id f1 mesg rb1)
         })"

text \<open>\<open>VerifyDataFile\<close> with or without an open manager.\<close>

definition VerifyDataFile_full :: "bool \<Rightarrow> gxRDBMS \<Rightarrow> ((bool \<times> verify_state) \<times> gxRDBMS) option" where
  "VerifyDataFile_full auto_fix rb0 =
     (if rb_pod rb0 \<noteq> None then VerifyDataFile_open auto_fix rb0
      else do {
        ((e, df, ix, _), rb1) \<leftarrow> CheckDataFile False rb0;
        let s = \<lparr>vs_records = 0, vs_rebuild_df = df, vs_rebuild_ix = ix\<rparr>;
        if e \<noteq> gxDBASE_NO_ERROR then Some ((False, s), rb1)
        else if rb_pod rb1 = None then Some ((False, s), rb1)
        else VerifyDataFile_open auto_fix rb1
      })"

definition VerifyDataFile :: "gxRDBMS \<Rightarrow> ((bool \<times> int) \<times> gxRDBMS) option" where
  "VerifyDataFile rb = do {
     ((ok, s), rb1) \<leftarrow> VerifyDataFile_full True rb;
     Some ((ok, vs_records s), rb1)
   }"

section \<open>Checking an index\<close>

text \<open>The number of keys of the index against the number of records.\<close>

definition check_key_count ::
  "nat \<Rightarrow> string option \<Rightarrow> gxRDBMS \<Rightarrow> ((gxDatabaseError \<times> int \<times> string option) \<times> gxRDBMS) option"
where
  "check_key_count i mesg0 rb = do {
     let mesg = mesg_add [''Checking index file consistency''] mesg0;
     let bad = mesg_add [''Index file failed consistency check''] mesg;
     (keys, rb1) \<leftarrow> on_pod (on_index i (\<lambda>t. Some (n_keys (btree_header t), t))) rb;
     (blocks, rb2) \<leftarrow> NumRecords rb1;
     if keys = 0 \<and> blocks = 0 then Some ((gxDBASE_NO_ERROR, 0, mesg_add [''Database is empty''] mesg), rb2)
     else if keys = 0 \<or> blocks \<noteq> keys then do {
       (e, rb3) \<leftarrow> set_data_error gxDBASE_BAD_INDEX_FILE rb2;
       Some ((e, 1, bad), rb3)
     }
     else Some ((gxDBASE_NO_ERROR, 0, mesg), rb2)
   }"

definition check_index_header ::
  "nat \<Rightarrow> gxDatabaseDebugManager \<Rightarrow> string option \<Rightarrow> gxRDBMS \<Rightarrow>
   ((gxDatabaseError \<times> int \<times> string option) \<times> gxRDBMS) option"
where
  "check_index_header i f mesg0 rb =
     (let mesg = mesg_add [''Analyzing index file header''] mesg0
      in case StaticArea (dm_db f) of (area, db1) \<Rightarrow>
        if area < int sizeof_gxBtreeHeader
        then Some ((gxDBASE_BAD_INDEX_FILE, 1, mesg_add [''Static data area size mismatch'',
                     ''Cannot read table header from file''] mesg), rb)
        else case Read (replicate sizeof_gxBtreeHeader 0) (FileHeaderSize db1) db1 of (b, db2) \<Rightarrow>
          let e = gxd_error db2
          in if e \<noteq> gxDBASE_NO_ERROR
             then Some ((e, 0, mesg_add [''Error reading index file header'', DatabaseExceptionMessage db2] mesg), pod_error e rb)
             else if num_trees (dec_gxBtreeHeader b) > rb_num_trees rb
             then Some ((gxDBASE_BAD_INDEX_FILE, 1, mesg_add [''Bad index file header''] mesg), pod_error gxDBASE_BAD_INDEX_FILE rb)
             else let m = mesg_add [''Database file header checks good.'', ''Index file header checks good.''] mesg
                  in if rb_pod rb \<noteq> None then check_key_count i m rb
                     else do {
                       (e2, rb1) \<leftarrow> create_or_open False rb;
                       let m1 = mesg_add [''Checking index file consistency''] m;
                       if e2 \<noteq> gxDBASE_NO_ERROR then Some ((e2, 0, m1), rb1)
                       else if rb_pod rb1 = None then Some ((gxDBASE_NULL_PTR, 0, m1), rb1)
                       else check_key_count i m rb1
                     })"

definition CheckIndex ::
  "int \<Rightarrow> bool \<Rightarrow> gxRDBMS \<Rightarrow> ((gxDatabaseError \<times> int \<times> string option) \<times> gxRDBMS) option"
where
  "CheckIndex index_number wants_message rb0 =
     (let mesg = (if wants_message then Some [] else None); i = nat index_number
      in if index_number > to_u64 (rb_num_trees rb0 - 1)
         then Some ((gxDBASE_BAD_INDEX_NUMBER, 0, mesg_add [''Specified index number is out of range''] mesg),
                    pod_error gxDBASE_BAD_INDEX_NUMBER rb0)
         else case rb_indexfiles rb0 of
           None \<Rightarrow> Some ((gxDBASE_BAD_INDEX_NAME, 0, mesg_add [''No index files names were generated''] mesg),
                        pod_error gxDBASE_BAD_INDEX_NAME rb0)
         | Some ns \<Rightarrow>
             if i \<ge> length ns then None
             else do {
               rb \<leftarrow> (if rb_pod rb0 = None then Some rb0 else map_option snd (on_pod (TestIndexFile i) rb0));
               f \<leftarrow> blind_open (ns ! i) (rb_if_rev rb) rb;
               if dm_error f \<noteq> gxDBASE_NO_ERROR
               then Some ((dm_error f, 0, map_option (\<lambda>s. s @ status_message f) mesg), pod_error (dm_error f) rb)
               else (case analyze_file f rb of
                       (Some err, f1, rb1) \<Rightarrow> Some ((err, 1, map_option (\<lambda>s. s @ status_message f1) mesg), rb1)
                     | (None, f1, rb1) \<Rightarrow> check_index_header i f1 mesg rb1)
             })"

section \<open>Rebuilding the data file\<close>

definition file_rename :: "string \<Rightarrow> string \<Rightarrow> filesys \<Rightarrow> int \<times> filesys" where
  "file_rename old_name new_name fs =
     (case files fs old_name of
        None \<Rightarrow> (-1, fs)
      | Some d \<Rightarrow>
          if denied fs old_name \<or> denied fs new_name then (-1, fs)
          else (0, fs\<lparr>files := (files fs)(old_name := None, new_name := Some d)\<rparr>))"

definition temp_name :: "gxRDBMS \<Rightarrow> int \<Rightarrow> string" where
  "temp_name rb ext =
     rb_datafile rb @ ''_rebuild_temp_file'' @ rb_datafile_ext rb @ ''.00'' @ to_string ext"

partial_function (option) unused_temp :: "gxRDBMS \<Rightarrow> int \<Rightarrow> string option" where
  "unused_temp rb ext =
     (if Exists (temp_name rb ext) (rdb_fs rb) then unused_temp rb (ext + 1) else Some (temp_name rb ext))"

text \<open>The first old temporary file among ten names, and the removal of those that follow it.\<close>

fun first_temp :: "gxRDBMS \<Rightarrow> nat \<Rightarrow> int \<Rightarrow> string \<Rightarrow> string \<times> int" where
  "first_temp rb 0 ext n = (n, ext)"
| "first_temp rb (Suc k) ext n =
     (let m = temp_name rb ext
      in if Exists m (rdb_fs rb) then (m, ext) else first_temp rb k (ext + 1) m)"

partial_function (option) remove_temps :: "string \<Rightarrow> int \<Rightarrow> gxRDBMS \<Rightarrow> gxRDBMS option" where
  "remove_temps n ext rb =
     (if \<not> Exists n (rdb_fs rb) then Some rb
      else (case file_remove n (rdb_fs rb) of (r, fs) \<Rightarrow>
              if r \<noteq> 0 then Some rb
              else remove_temps (temp_name rb (ext + 1)) (ext + 1) (set_rdb_fs fs rb)))"

text \<open>The application space is taken over from the header that was copied with the static data.\<close>

definition keep_app_space :: "gxRDBMS \<Rightarrow> gxRDBMS option" where
  "keep_app_space rb = do {
     ((e, th, _), rb1) \<leftarrow> ReadTableHeader_into False new_gxrdTableHeader new_gxRDBMSHeader rb;
     let t = rb_table rb1;
     let rb2 = (if e = gxDBASE_NO_ERROR
                then rb1\<lparr>rb_table := t\<lparr>tb_table_header := (tb_table_header t)\<lparr>th_app_space := th_app_space th\<rparr>\<rparr>\<rparr> else rb1);
     Some (pod_error gxDBASE_NO_ERROR rb2)
   }"

text \<open>From the opening of the rebuilt file on; the codes of the failures are those of the source.\<close>

definition reopen_rebuilt :: "bool \<Rightarrow> bool \<Rightarrow> gxRDBMS \<Rightarrow> (int \<times> gxRDBMS) option" where
  "reopen_rebuilt has_pod copy_static_data rb0 = do {
     let rb = (if rb_pod rb0 = None then rb0\<lparr>rb_pod := Some (new_POD (rb_fs rb0))\<rparr> else rb0);
     (e, rb1) \<leftarrow> on_pod (\<lambda>p. Some (OpenDataFile (Some (c_str (rb_datafile rb))) gxDBASE_READWRITE p)) rb;
     if e \<noteq> gxDBASE_NO_ERROR then Some (- 7, rb1)
     else (case init_table_header rb1 of (e2, rb2) \<Rightarrow>
       if e2 \<noteq> gxDBASE_NO_ERROR then Some (- 8, pod_error e2 rb2)
       else do {
         rb3 \<leftarrow> (if copy_static_data then keep_app_space rb2 else Some rb2);
         (e4, rb4) \<leftarrow> WriteTableHeader_of (tb_table_header (rb_table rb3)) True rb3;
         if e4 \<noteq> gxDBASE_NO_ERROR then Some (- 9, pod_error e4 rb4)
         else do {
           (e5, rb5) \<leftarrow> (if has_pod then Some (gxDBASE_NO_ERROR, rb4) else create_or_open False rb4);
           if e5 \<noteq> gxDBASE_NO_ERROR then Some (- 10, pod_error e5 rb5)
           else (case first_temp rb5 10 1 [] of (n, ext) \<Rightarrow> do {
             rb6 \<leftarrow> remove_temps n ext rb5;
             Some (1, rb6)
           })
         }
       })
   }"

definition replace_data_file :: "string \<Rightarrow> bool \<Rightarrow> bool \<Rightarrow> gxRDBMS \<Rightarrow> (int \<times> gxRDBMS) option" where
  "replace_data_file n has_pod copy_static_data rb =
     (case file_remove (rb_datafile rb) (rdb_fs rb) of (r, fs) \<Rightarrow>
        let rb1 = set_rdb_fs fs rb
        in if r \<noteq> 0 then Some (- 4, pod_error gxDBASE_FILE_DELETE_ERROR rb1)
           else (case file_rename n (rb_datafile rb1) (rdb_fs rb1) of (r2, fs2) \<Rightarrow>
             let rb2 = set_rdb_fs fs2 rb1
             in if r2 \<noteq> 0 then Some (- 5, pod_error gxDBASE_FILE_RENAME_ERROR rb2)
                else reopen_rebuilt has_pod copy_static_data rb2))"

definition rebuild_data_file ::
  "char \<Rightarrow> int \<Rightarrow> bool \<Rightarrow> string option \<Rightarrow> gxRDBMS \<Rightarrow> ((int \<times> int) \<times> gxRDBMS) option"
where
  "rebuild_data_file rv static_area copy_static_data tempfile rb0 = do {
     let has_pod = (rb_pod rb0 \<noteq> None);
     n \<leftarrow> (case tempfile of None \<Rightarrow> unused_temp rb0 1 | Some t \<Rightarrow> Some t);
     (e, rb) \<leftarrow> (if has_pod then on_pod (\<lambda>p. Some (CloseDataFile p)) rb0 else Some (gxDBASE_NO_ERROR, rb0));
     if e \<noteq> gxDBASE_NO_ERROR then Some ((- 1, 0), rb)
     else do {
       f \<leftarrow> blind_open (rb_datafile rb) (rb_df_rev rb) rb;
       if dm_error f \<noteq> gxDBASE_NO_ERROR then Some ((- 2, 0), pod_error (dm_error f) rb)
       else do {
         ((ok, records), f1) \<leftarrow> Rebuild_ver (c_str n) (lib_ver (dm_lib f)) rv static_area copy_static_data f;
         let rb1 = set_rdb_fs (db_fs (dm_db f1)) rb;
         let rb2 = (if dm_error f1 \<noteq> gxDBASE_NO_ERROR then pod_error (dm_error f1) rb1 else rb1);
         if \<not> ok then Some ((- 3, records), rb2)
         else do {
           (r, rb3) \<leftarrow> replace_data_file n has_pod copy_static_data rb2;
           Some ((r, records), rb3)
         }
       }
     }
   }"

text \<open>The result and the number of records; \<open>0\<close> when the walk did not get to them.\<close>

definition RebuildDataFile_rev ::
  "char \<Rightarrow> int \<Rightarrow> bool \<Rightarrow> string option \<Rightarrow> gxRDBMS \<Rightarrow> ((bool \<times> int) \<times> gxRDBMS) option"
where
  "RebuildDataFile_rev rv0 static_area copy_static_data tempfile rb = do {
     ((rv, records), rb1) \<leftarrow> rebuild_data_file rv0 static_area copy_static_data tempfile rb;
     if rv \<in> {- 6, - 7, - 8, - 9} then do {
       (e, rb2) \<leftarrow> create_or_open True rb1;
       Some ((e = gxDBASE_NO_ERROR, records), rb2)
     }
     else if rv \<in> {- 2, - 3, - 4, - 5, - 10} then do {
       (_, rb2) \<leftarrow> create_or_open False rb1;
       Some ((False, records), rb2)
     }
     else Some ((rv = 1, records), rb1)
   }"

definition RebuildDataFile :: "string option \<Rightarrow> gxRDBMS \<Rightarrow> ((bool \<times> int) \<times> gxRDBMS) option" where
  "RebuildDataFile tempfile rb = RebuildDataFile_rev (rb_df_rev rb) (HeaderSize rb) False tempfile rb"

definition RebuildDataFile_copy :: "bool \<Rightarrow> string option \<Rightarrow> gxRDBMS \<Rightarrow> ((bool \<times> int) \<times> gxRDBMS) option" where
  "RebuildDataFile_copy copy_static_data tempfile rb =
     RebuildDataFile_rev (rb_df_rev rb) (HeaderSize rb) copy_static_data tempfile rb"

end
