(* ===== verification/DebugProps.thy ===== *)
theory DebugProps
  imports DebugRebuild PersistProps
begin

text \<open>
  The properties of the debug manager: the search for blocks finds the next header that tests good, and
  rebuilding a file whose heap is well-formed copies the data of the blocks in use, and nothing else,
  to a new file whose heap is well-formed.
\<close>

section \<open>The test of a block and the search\<close>

text \<open>The manager's own test of a block header is the one of the engine.\<close>

lemma VerifyBlockHeader_tests: "VerifyBlockHeader w h = tests_as w h"
  by (simp add: VerifyBlockHeader_def tests_as_def TestBlockHeader_def Let_def)

lemma tests_as_library [simp]: "tests_as gxCheckWord h = TestBlockHeader h"
  by (auto simp: tests_as_def TestBlockHeader_def)

lemma upto_find_Cons: "a \<le> b \<Longrightarrow> List.find P [a..b] = (if P a then Some a else List.find P [a + 1..b])"
  by (simp add: upto.simps)

lemma block_search_finds:
  assumes "readable db" "0 \<le> a" "eof \<le> int (length (dbytes db))"
  shows "\<exists>db'. block_search w eof a db =
      ((case List.find (\<lambda>x. tests_as w (blk (dbytes db) x)) [a..eof - 21] of Some x \<Rightarrow> x | None \<Rightarrow> 0), db') \<and>
    (db' = db \<or> (\<exists>p op. db' = moved p op db))"
  using assms
proof (induction "nat (eof - a)" arbitrary: a db rule: less_induct)
  case less
  show ?case
  proof (cases "a + 20 \<ge> eof")
    case True
    then show ?thesis by (subst block_search.simps) (simp add: sizeof_defs)
  next
    case False
    let ?db = "moved (nat a + 20) gxDBASE_READ db"
    have R: "Read_hdr new_gxBlockHeader a db = (blk (dbytes db) a, ?db)"
      using less.prems False by (intro Read_hdr_ok) auto
    have F: "a + int sizeof_gxBlockHeader < eof" using False by (simp add: sizeof_defs)
    show ?thesis
    proof (cases "tests_as w (blk (dbytes db) a)")
      case True
      then show ?thesis using F False by (subst block_search.simps) (auto simp: R upto_find_Cons)
    next
      case no: False
      have ex: "\<exists>db'. block_search w eof (a + 1) ?db =
          ((case List.find (\<lambda>x. tests_as w (blk (dbytes ?db) x)) [a + 1..eof - 21] of Some x \<Rightarrow> x | None \<Rightarrow> 0), db') \<and>
        (db' = ?db \<or> (\<exists>p op. db' = moved p op ?db))"
        by (rule less.hyps) (use less.prems False in auto)
      have "block_search w eof a db = block_search w eof (a + 1) ?db"
        using F no by (subst block_search.simps) (simp add: R)
      moreover have "moved p op ?db = moved p op db" for p op by (simp add: moved_def)
      ultimately show ?thesis using ex no False by (auto simp: upto_find_Cons)
    qed
  qed
qed

text \<open>
  In a file that is open for reading the search from an address on returns the least address, not below
  it, with the bytes of a block header that tests good and at least a byte behind it, and zero when
  there is none; it changes nothing but the position in the file.
\<close>

lemma BlockSearch_is_first:
  assumes "readable (dm_db m)" and "0 \<le> offset" and "StaticEOF m \<le> int (length (dbytes (dm_db m)))"
  shows "\<exists>db'. BlockSearch offset m =
      ((case List.find (\<lambda>x. tests_as (lib_check_word (dm_lib m)) (blk (dbytes (dm_db m)) x))
          [offset..StaticEOF m - 21] of Some x \<Rightarrow> x | None \<Rightarrow> 0), m\<lparr>dm_db := db'\<rparr>) \<and>
    (db' = dm_db m \<or> (\<exists>p op. db' = moved p op (dm_db m)))"
proof (cases "offset \<ge> StaticEOF m")
  case True
  then show ?thesis by (intro exI [of _ "dm_db m"]) (simp add: BlockSearch_def)
next
  case False
  obtain db' where "block_search (lib_check_word (dm_lib m)) (StaticEOF m) offset (dm_db m) =
      ((case List.find (\<lambda>x. tests_as (lib_check_word (dm_lib m)) (blk (dbytes (dm_db m)) x))
          [offset..StaticEOF m - 21] of Some x \<Rightarrow> x | None \<Rightarrow> 0), db')"
    "db' = dm_db m \<or> (\<exists>p op. db' = moved p op (dm_db m))"
    using block_search_finds [OF assms, of "lib_check_word (dm_lib m)"] by blast
  then show ?thesis using False by (intro exI [of _ db']) (simp add: BlockSearch_def)
qed

section \<open>What the writes leave\<close>

text \<open>Where a database is: its file system, and the file of its stream.\<close>

definition place :: "gxDatabase \<Rightarrow> filesys \<times> string \<times> (string \<times> bool \<times> nat) option" where
  "place db = (db_fs db, file_name db, map_option (\<lambda>s. (fname s, fwritable s, fcap s)) (fp db))"

lemma place_fields [simp]:
  "place (db\<lparr>file_header := h\<rparr>) = place db" "place (db\<lparr>file_stats_header := st\<rparr>) = place db"
  "place (db\<lparr>gxd_error := e\<rparr>) = place db" "place (db\<lparr>last_operation := op\<rparr>) = place db"
  "place (db\<lparr>hook_calls := n\<rparr>) = place db"
  by (simp_all add: place_def)

lemma place_moved [simp]:
  "readable db \<Longrightarrow> place (moved p op db) = place db" "readable db \<Longrightarrow> place (stored p d db) = place db"
  by (auto simp: place_def moved_def stored_def readable_def)

lemma place_Write [simp]: "place (Write d a db) = place db"
proof -
  have s: "place (Seek o' md db) = place db" for o' md db
    by (auto simp: Seek_def place_def fptr_defs split: option.splits gxDatabaseSeekMode.splits prod.splits if_splits)
  have p: "pre_seek x a db = (g, db1) \<Longrightarrow> place db1 = place db" for x a g db1 db
    by (auto simp: pre_seek_def Let_def s split: if_splits)
  have w: "gxdFPTRWrite (fp db) d = (k, q) \<Longrightarrow> place (db\<lparr>fp := q\<rparr>) = place db" for db d k q
    by (cases "fp db") (auto simp: place_def fptr_defs Let_def split: if_splits dest!: sym [of "Some _"])
  show ?thesis
    by (auto simp: Write_opt_def finish_write_def split: prod.splits dest!: p w)
qed

lemma place_SeekTo: "SeekTo a db = (r, db') \<Longrightarrow> place db' = place db"
  by (auto simp: SeekTo_def FilePosition_def Seek_def place_def fptr_defs
      split: option.splits gxDatabaseSeekMode.splits prod.splits if_splits)

lemma place_WriteFileHdr [simp]: "place (WriteFileHdr db) = place db"
  by (simp add: WriteFileHdr_def WriteFileStatsHdr_def Let_def)

lemma place_WriteBlockHdr [simp]: "place (WriteBlockHdr h a db) = place db"
  by (simp add: WriteBlockHdr_def Let_def)

lemma place_init_block: "init_block n a db = (r, db') \<Longrightarrow> place db' = place db"
  by (auto simp: init_block_def Let_def split: if_splits dest!: place_SeekTo)

lemma place_extend_file: "extend_file n db = (r, db') \<Longrightarrow> place db' = place db"
  by (auto simp: extend_file_def Let_def upd_stats_def split: if_splits)

lemma place_Alloc:
  assumes "Alloc n how db = Some (a, db')" "fs_of db = 0"
  shows "place db' = place db"
  using assms by (auto simp: Alloc_def Let_def split: if_splits prod.splits dest!: place_init_block place_extend_file)

section \<open>The object of a block\<close>

definition overhead :: "gxDatabase \<Rightarrow> int" where
  "overhead db = BlockHeaderSize db + (if rev_zero_or_E (rev_letter db) then 0 else 4)"

definition object_size :: "gxDatabase \<Rightarrow> int \<Rightarrow> int" where
  "object_size db x = block_length (blk (dbytes db) x) - overhead db"

text \<open>The bytes between the headers and the checksum of a block.\<close>

definition object_at :: "gxDatabase \<Rightarrow> int \<Rightarrow> byte list" where
  "object_at db x = bytes_at (dbytes db) (nat x + nat (BlockHeaderSize db)) (nat (object_size db x))"

lemma overhead_bounds: "20 \<le> overhead db" "overhead db \<le> 36" "BlockHeaderSize db \<le> overhead db"
  using rev_sizes(4,5) [of db] by (auto simp: overhead_def)

lemma object_at_data:
  "object_at db x = bytes_at (data_at db x) (nat (BlockHeaderSize db) - 20) (nat (object_size db x))"
proof -
  note r = rev_sizes(4,5) [of db] and o = overhead_bounds [of db]
  have "nat (BlockHeaderSize db) - 20 + nat (object_size db x) \<le> nat (block_length (blk (dbytes db) x)) - 20 \<or>
      nat (object_size db x) = 0"
    using r o unfolding object_size_def by linarith
  moreover have "nat x + 20 + (nat (BlockHeaderSize db) - 20) = nat x + nat (BlockHeaderSize db)" using r by linarith
  ultimately show ?thesis
    by (auto simp: object_at_def data_at_def payload_def bytes_at_sub)
qed

lemma object_at_cong:
  assumes "data_at db' x = data_at db x" "blk (dbytes db') x = blk (dbytes db) x" "rev_letter db' = rev_letter db"
  shows "object_at db' x = object_at db x" "object_size db' x = object_size db x"
  using assms by (simp_all add: object_at_data object_size_def overhead_def BlockHeaderSize_def Let_def)

section \<open>Storing an object\<close>

text \<open>A new block behind all others, with the object in it.\<close>

definition stored_object :: "gxDatabase \<Rightarrow> int list \<Rightarrow> byte list \<Rightarrow> int \<Rightarrow> gxDatabase \<Rightarrow> bool" where
  "stored_object db bs v a db' \<longleftrightarrow>
     heap_ok db' (bs @ [a]) [] \<and> gxd_error db' = gxDBASE_NO_ERROR \<and> rev_letter db' = rev_letter db \<and>
     place db' = place db \<and> writable (length (dbytes db')) db' \<and> a \<notin> set bs \<and>
     blk (dbytes db') a = fresh_block (overhead db + int (length v)) \<and> object_at db' a = v \<and>
     object_size db' a = int (length v) \<and> eof_of db' = eof_of db + overhead db + int (length v) \<and>
     (\<forall>y \<in> set bs. blk (dbytes db') y = blk (dbytes db) y \<and> object_at db' y = object_at db y)"

lemma payload_object:
  assumes "nat a + nat (BlockHeaderSize db) = p" "object_size db a = int (length v)" "bytes_at (dbytes db) p (length v) = v"
  shows "object_at db a = v"
  using assms by (simp add: object_at_def)

lemma store_object_ok:
  assumes ok: "heap_ok db bs []" and room: "alloc_room (int (length v)) db"
  obtains a db' where "store_object v db = Some db'" "stored_object db bs v a db'"
    "dpos db' = nat a + nat (BlockHeaderSize db) + length v"
proof -
  let ?n = "int (length v)"
  have rc: "reclaim_choice gxDBASE_RECLAIM_FIRSTFIT (with_overhead ?n db) db [] = None" by (simp add: reclaim_choice_def)
  obtain a db1 bs' fl' where A: "Alloc ?n gxDBASE_RECLAIM_FIRSTFIT db = Some (a + BlockHeaderSize db, db1)"
    and res: "alloc_result db bs (with_overhead ?n db) a db1 bs' fl'" and bs': "bs' = bs @ [a]" "fl' = []"
    and ae: "a = eof_of db"
    using Alloc_refines [where how = gxDBASE_RECLAIM_FIRSTFIT, OF ok room] rc by (metis option.simps(4))
  have wo: "with_overhead ?n db = overhead db + ?n"
    using with_overhead_eq [of ?n db] room by (simp add: alloc_room_def overhead_def)
  have fs: "fs_of db = 0" using ok by (simp add: heap_ok_def heap_lists_def)
  have free: "\<forall>y \<in> set bs. \<not> is_free (blk (dbytes db) y)" using ok by (auto simp: heap_ok_def heap_lists_def)
  have r: "heap_ok db1 (bs @ [a]) []" "blk (dbytes db1) a = fresh_block (overhead db + ?n)"
    "gxd_error db1 = gxDBASE_NO_ERROR" "rev_letter db1 = rev_letter db" "dpos db1 = nat (a + BlockHeaderSize db)"
    "writable (length (dbytes db1)) db1"
    "\<forall>y \<in> set bs. y \<noteq> a \<and> blk (dbytes db1) y = blk (dbytes db) y \<and> data_at db1 y = data_at db y"
    using res free by (auto simp: alloc_result_def bs' wo)
  have bh: "BlockHeaderSize db1 = BlockHeaderSize db" "overhead db1 = overhead db"
    using r(4) by (simp_all add: overhead_def BlockHeaderSize_def Let_def)
  have m1: "heap_meta db1" and l1: "heap_lists db1 (blk (dbytes db1)) (bs @ [a]) []" using r(1) by (auto simp: heap_ok_def)
  have ain: "a \<in> set (bs @ [a])" by simp
  note sp = tiles_spaced [OF m1 heap_tiles [OF l1] ain] and h = rev_sizes(4,5) [of db] and o = overhead_bounds [of db]
  have len: "block_length (blk (dbytes db1) a) = overhead db + ?n"
    unfolding r(2) by (rule fresh_block_ok(3)) (use alloc_room_bytes(1) [OF room] wo in simp)
  let ?p = "nat (a + BlockHeaderSize db)"
  have p: "int ?p = a + BlockHeaderSize db" "0 \<le> a" "?p = nat a + nat (BlockHeaderSize db)" using sp(2) h by auto
  have inside: "a + 20 \<le> int ?p" "int ?p + ?n \<le> a + block_length (blk (dbytes db1) a)" using p h o len by auto
  have lim: "?p + length v \<le> length (dbytes db1)" using inside(2) sp(9) by linarith
  have w: "writable (nat (a + BlockHeaderSize db) + length v) db1" using r(6) by (rule writable_mono) (use lim in simp)
  define db2 where "db2 = moved (?p + length v) gxDBASE_WRITE (stored ?p v db1)"
  have W: "Write v (a + BlockHeaderSize db) db1 = db2"
    unfolding db2_def by (rule Write_ok [OF w]) (use p(2) h in linarith)
  have s: "same_db db1 db2" "dbytes db2 = put_at (dbytes db1) ?p v" by (simp_all add: db2_def)
  note keep = payload_write_keeps [OF r(1) ain inside s]
  have rl: "rev_letter db2 = rev_letter db1" using s(1) by (simp add: same_db_def)
  have obj: "object_at db2 y = object_at db y" if "y \<in> set bs" for y
    using object_at_cong(1) [of db2 y db1] object_at_cong(1) [of db1 y db] keep(3,4) [of y] r(4,7) rl that by simp
  have b2: "BlockHeaderSize db2 = BlockHeaderSize db" "overhead db2 = overhead db"
    using r(4) rl by (simp_all add: overhead_def BlockHeaderSize_def Let_def)
  have ka: "blk (dbytes db2) a = fresh_block (overhead db + ?n)" using keep(3) [OF ain] r(2) by simp
  have sz: "object_size db2 a = ?n" using len r(2) by (simp add: object_size_def ka b2)
  have "object_at db2 a = v"
  proof (rule payload_object)
    show "nat a + nat (BlockHeaderSize db2) = ?p" using p(3) b2 by simp
    show "object_size db2 a = ?n" by (rule sz)
    show "bytes_at (dbytes db2) ?p (length v) = v" by (simp add: s(2))
  qed
  moreover have "place db2 = place db" using place_Write place_Alloc [OF A fs] W by metis
  moreover have "writable (length (dbytes db2)) db2"
  proof -
    have "length (dbytes db2) = length (dbytes db1)" using lim by (simp add: s(2) length_put_at)
    then show ?thesis using r(6) by (simp add: db2_def)
  qed
  moreover have "eof_of db2 = eof_of db + overhead db + ?n"
  proof -
    have "tiles db1 (blk (dbytes db1)) (bs @ [a])" by (rule heap_tiles [OF l1])
    then have "a + block_length (blk (dbytes db1) a) = eof_of db1" by (auto simp: tiling_append)
    then show ?thesis using s(1) len ae by (simp add: same_db_def)
  qed
  moreover have "gxd_error db2 = gxDBASE_NO_ERROR" by (simp add: db2_def)
  ultimately have "stored_object db bs v a db2"
    using keep(1) rl r(4,7) ka obj keep(3) sz by (auto simp: stored_object_def)
  moreover have "dpos db2 = nat a + nat (BlockHeaderSize db) + length v" using p(3) by (simp add: db2_def)
  moreover have "store_object v db = Some db2" by (simp add: store_object_def A W)
  ultimately show thesis using that by blast
qed

text \<open>The checksum goes behind the object, into the last bytes of the block.\<close>

lemma store_checksum_ok:
  assumes st: "stored_object db bs v a (rs_new s)" and pos: "dpos (rs_new s) = nat a + nat (BlockHeaderSize db) + length v"
    and room: "has_checksum rv \<Longrightarrow> \<not> rev_zero_or_E (rev_letter db)" and n: "overhead db + int (length v) < 2 ^ 32"
  obtains db' where "store_checksum rv v s = s\<lparr>rs_new := db'\<rparr>" "stored_object db bs v a db'"
proof (cases "has_checksum rv")
  case False
  then show thesis using that [of "rs_new s"] st by (simp add: store_checksum_def)
next
  case True
  let ?d = "rs_new s" and ?c = "gxUINT32_UnPackBits (calcCRC32 v)"
  let ?p = "nat a + nat (BlockHeaderSize db) + length v"
  have ok: "heap_ok ?d (bs @ [a]) []" and rl: "rev_letter ?d = rev_letter db"
    and fb: "blk (dbytes ?d) a = fresh_block (overhead db + int (length v))" and w: "writable (length (dbytes ?d)) ?d"
    using st by (auto simp: stored_object_def)
  have c4: "length ?c = 4" by (simp add: u32.len)
  have b: "BlockHeaderSize ?d = BlockHeaderSize db" using rl by (simp add: BlockHeaderSize_def Let_def)
  note h = rev_sizes(4,5) [of db] and o = overhead_bounds [of db]
  have ov: "overhead db = BlockHeaderSize db + 4" using room [OF True] by (simp add: overhead_def)
  have len: "block_length (blk (dbytes ?d) a) = overhead db + int (length v)"
    unfolding fb by (rule fresh_block_ok(3)) (use n o in \<open>simp add: in_u32_def\<close>)
  have m: "heap_meta ?d" and l: "heap_lists ?d (blk (dbytes ?d)) (bs @ [a]) []" using ok by (auto simp: heap_ok_def)
  have ain: "a \<in> set (bs @ [a])" by simp
  note sp = tiles_spaced [OF m heap_tiles [OF l] ain]
  have inside: "a + 20 \<le> int ?p" "int ?p + int (length ?c) \<le> a + block_length (blk (dbytes ?d) a)"
    using h len ov c4 sp(2) by auto
  have lim: "?p + length ?c \<le> length (dbytes ?d)" using inside(2) sp(9) by linarith
  define db2 where "db2 = moved (?p + length ?c) gxDBASE_WRITE (stored ?p ?c ?d)"
  have W: "Write ?c gxCurrAddress ?d = db2"
    unfolding db2_def using Write_cur_ok [of ?d ?c] writable_mono [OF w lim] pos by simp
  have s: "same_db ?d db2" "dbytes db2 = put_at (dbytes ?d) ?p ?c" by (simp_all add: db2_def)
  note keep = payload_write_keeps [OF ok ain inside s]
  have rl2: "rev_letter db2 = rev_letter ?d" using s(1) by (simp add: same_db_def)
  have sz: "object_size db2 y = object_size ?d y" if "y \<in> set (bs @ [a])" for y
    using keep(3) [OF that] rl2 by (simp add: object_size_def overhead_def BlockHeaderSize_def Let_def)
  have oy: "object_at db2 y = object_at ?d y" if "y \<in> set bs" "y \<noteq> a" for y
    using object_at_cong(1) [of db2 y ?d] keep(3,4) [of y] rl2 that by simp
  have "?p \<le> length (dbytes ?d)" using lim by simp
  then have "bytes_at (dbytes db2) (nat a + nat (BlockHeaderSize db)) (length v) =
      bytes_at (dbytes ?d) (nat a + nat (BlockHeaderSize db)) (length v)"
    unfolding s(2) by (intro bytes_at_put_below) auto
  moreover have "object_size ?d a = int (length v)" using st by (simp add: stored_object_def)
  ultimately have oa: "object_at db2 a = v"
    using st sz [OF ain] rl2 b
    by (simp add: object_at_def stored_object_def) (simp add: BlockHeaderSize_def Let_def)
  have "length (dbytes db2) = length (dbytes ?d)" using lim by (simp add: s(2) length_put_at)
  then have "writable (length (dbytes db2)) db2" using w by (simp add: db2_def)
  moreover have "place db2 = place ?d" using place_Write W by metis
  moreover have "gxd_error db2 = gxDBASE_NO_ERROR" by (simp add: db2_def)
  moreover have "eof_of db2 = eof_of ?d" using s(1) by (simp add: same_db_def)
  ultimately have "stored_object db bs v a db2"
    using st keep(1,3) oa oy sz rl2 by (auto simp: stored_object_def)
  moreover have "store_checksum rv v s = s\<lparr>rs_new := db2\<rparr>"
    using True W by (simp add: store_checksum_def db2_def)
  ultimately show thesis using that by blast
qed

section \<open>One block of the old file\<close>

text \<open>The database is where it was, whatever was read.\<close>

definition at_file :: "gxDatabase \<Rightarrow> gxDatabase \<Rightarrow> bool" where
  "at_file db d \<longleftrightarrow> d = db \<or> (\<exists>p op. d = moved p op db)"

lemma at_file_moved [simp]: "at_file db d \<Longrightarrow> at_file db (moved p op d)"
  unfolding at_file_def by (metis moved_moved)

lemma at_file_fields:
  assumes "at_file db d"
  shows "dbytes d = dbytes db" "readable db \<Longrightarrow> readable d" "rev_letter d = rev_letter db"
    "BlockHeaderSize d = BlockHeaderSize db" "file_name d = file_name db" "db_fs d = db_fs db"
    "FileHeaderSize d = FileHeaderSize db"
  using assms by (auto simp: at_file_def moved_def readable_def state_defs BlockHeaderSize_def FileHeaderSize_def Let_def)

text \<open>A file whose blocks can all be copied: every block has bytes behind its headers, one in use an object.\<close>

definition in_use :: "gxDatabase \<Rightarrow> int list \<Rightarrow> int list" where
  "in_use db bs = filter (\<lambda>x. block_status (blk (dbytes db) x) = gxNormalBlock) bs"

definition copyable :: "gxDatabase \<Rightarrow> int list \<Rightarrow> bool" where
  "copyable db bs \<longleftrightarrow>
     bs \<noteq> [] \<and> eof_of db = int (length (dbytes db)) \<and>
     list_all (\<lambda>x. BlockHeaderSize db < block_length (blk (dbytes db) x)) bs \<and>
     list_all (\<lambda>x. 0 \<le> object_size db x \<and> object_size db x + 36 < 2 ^ 32) (in_use db bs)"

definition room_for :: "gxDatabase \<Rightarrow> int \<Rightarrow> int list \<Rightarrow> int" where
  "room_for db ov bs = sum_list (map (\<lambda>x. ov + object_size db x) (in_use db bs))"

text \<open>The state of the rebuild when the blocks \<open>us\<close> have been gone through.\<close>

definition copies :: "gxDatabase \<Rightarrow> gxDatabase \<Rightarrow> int list \<Rightarrow> rebuild_state \<Rightarrow> bool" where
  "copies db new us s \<longleftrightarrow>
     (\<exists>bs'. at_file db (dm_db (rs_m s)) \<and> dm_lib (rs_m s) = library_version \<and> rs_bad s = 0 \<and> rs_errors s = 0 \<and>
        rs_count s = int (length bs') \<and> heap_ok (rs_new s) bs' [] \<and>
        map (object_at (rs_new s)) bs' = map (object_at db) (in_use db us) \<and>
        rev_letter (rs_new s) = rev_letter new \<and> place (rs_new s) = place new \<and>
        writable (length (dbytes (rs_new s))) (rs_new s) \<and>
        eof_of (rs_new s) = eof_of new + room_for db (overhead new) us)"

lemma copies_cong:
  assumes "copies db new us s" "rs_new t = rs_new s" "rs_count t = rs_count s" "rs_bad t = rs_bad s" "rs_errors t = rs_errors s"
    "at_file db (dm_db (rs_m t))" "dm_lib (rs_m t) = dm_lib (rs_m s)"
  shows "copies db new us t"
  using assms by (auto simp: copies_def)

lemma say_lines_fields [simp]:
  "dm_db (say_lines ls m) = dm_db m" "dm_lib (say_lines ls m) = dm_lib m"
proof -
  have "dm_db (fold (\<lambda>l. say (l @ [CHR 0x0A])) ls m) = dm_db m \<and> dm_lib (fold (\<lambda>l. say (l @ [CHR 0x0A])) ls m) = dm_lib m"
    by (induction ls arbitrary: m) (simp_all add: say_def)
  then show "dm_db (say_lines ls m) = dm_db m" "dm_lib (say_lines ls m) = dm_lib m" by (simp_all add: say_lines_def)
qed

lemma room_for_nonneg: "list_all (\<lambda>x. 0 \<le> object_size db x) (in_use db bs) \<Longrightarrow> 0 \<le> ov \<Longrightarrow> 0 \<le> room_for db ov bs"
  by (auto simp: room_for_def list_all_iff intro!: sum_list_nonneg)

lemma room_for_append [simp]: "room_for db ov (us @ vs) = room_for db ov us + room_for db ov vs"
  by (simp add: room_for_def in_use_def)

lemma writable_at:
  assumes "writable m d" "place d = place new" "writable n new"
  shows "writable n d"
  using assms by (auto simp: writable_def readable_def place_def)

text \<open>A block in use: its object is read and stored.\<close>

lemma copy_object_ok:
  assumes c: "copies db new us s" and d: "dm_db (rs_m s) = moved (nat x + nat (BlockHeaderSize db)) op d" "at_file db d"
    and cur: "rs_curr s = x + BlockHeaderSize db" and db: "readable db" "0 \<le> x"
    and sz: "0 \<le> object_size db x" "object_size db x + 36 < 2 ^ 32"
      "x + BlockHeaderSize db + object_size db x \<le> eof" "eof = int (length (dbytes db))"
    and use: "block_status (blk (dbytes db) x) = gxNormalBlock"
    and rv: "has_checksum rv \<Longrightarrow> \<not> rev_zero_or_E (rev_letter new)"
    and room: "eof_of new + room_for db (overhead new) (us @ [x]) < 2 ^ 63"
      "writable (nat (eof_of new + room_for db (overhead new) (us @ [x]))) new"
  shows "\<exists>s'. copy_object eof rv (object_size db x) nxt s = Some (Some nxt, s') \<and> copies db new (us @ [x]) s'"
proof -
  obtain bs' where n: "dm_lib (rs_m s) = library_version" "rs_bad s = 0" "rs_errors s = 0"
      "rs_count s = int (length bs')" "heap_ok (rs_new s) bs' []"
      "map (object_at (rs_new s)) bs' = map (object_at db) (in_use db us)"
      "rev_letter (rs_new s) = rev_letter new" "place (rs_new s) = place new"
      "writable (length (dbytes (rs_new s))) (rs_new s)" "eof_of (rs_new s) = eof_of new + room_for db (overhead new) us"
    using c by (auto simp: copies_def)
  let ?n = "object_size db x" and ?v = "object_at db x"
  note h = rev_sizes(4,5) [of db] and f = at_file_fields [OF d(2)]
  have lim: "nat x + nat (BlockHeaderSize db) + nat ?n \<le> length (dbytes db)" using sz db(2) h by linarith
  then have vl: "int (length ?v) = ?n" using sz(1) by (simp add: object_at_def)
  define d1 where "d1 = moved (nat x + nat (BlockHeaderSize db) + nat ?n) gxDBASE_READ (moved (nat x + nat (BlockHeaderSize db)) op d)"
  have R: "Read (replicate (nat ?n) 0) gxCurrAddress (dm_db (rs_m s)) = (?v, d1)"
    using Read_cur_ok [of "dm_db (rs_m s)" "replicate (nat ?n) 0"] lim db f d(1)
    by (simp add: d1_def object_at_def)
  have d1: "at_file db d1" "gxd_error d1 = gxDBASE_NO_ERROR" "rev_letter d1 = rev_letter db"
    using d(2) f by (simp_all add: d1_def)
  have ov: "overhead (rs_new s) = overhead new" using n(7) by (simp add: overhead_def BlockHeaderSize_def Let_def)
  note o = overhead_bounds [of new]
  have rf: "room_for db (overhead new) (us @ [x]) = room_for db (overhead new) us + (overhead new + ?n)"
    using use by (simp add: room_for_def in_use_def)
  have wo: "with_overhead ?n (rs_new s) = overhead new + ?n"
    using with_overhead_eq [of ?n "rs_new s"] sz(1,2) ov by (simp add: overhead_def)
  have room': "alloc_room (int (length ?v)) (rs_new s)"
    unfolding alloc_room_def vl wo
  proof (intro conjI)
    show "0 \<le> ?n" "overhead new + ?n < 2 ^ 32" "?n < 2 ^ 32" using sz o by linarith+
    show "eof_of (rs_new s) + (overhead new + ?n) < 2 ^ 63" using room(1) n(10) rf by linarith
    have "writable (nat (eof_of (rs_new s) + (overhead new + ?n))) (rs_new s)"
      using writable_at [OF n(9,8) room(2)] n(10) rf by (simp add: add.assoc)
    then show "writable (max (length (dbytes (rs_new s))) (nat (eof_of (rs_new s) + (overhead new + ?n)))) (rs_new s)"
      using n(9) by (simp add: max_def)
  qed
  define s2 where "s2 = (if rev_zero_or_E (rev_letter db) then rs_db d1 (s\<lparr>rs_curr := rs_curr s + ?n\<rparr>)
      else (rs_db d1 (s\<lparr>rs_curr := rs_curr s + ?n\<rparr>))\<lparr>rs_curr := rs_curr s + ?n + int sizeof_gxChecksum\<rparr>)"
  have s2: "rs_new s2 = rs_new s" "rs_count s2 = rs_count s" "rs_bad s2 = 0" "rs_errors s2 = 0" "dm_db (rs_m s2) = d1"
    "dm_lib (rs_m s2) = library_version"
    using n by (simp_all add: s2_def rs_db_def)
  obtain a new1 where S: "store_object ?v (rs_new s) = Some new1" "stored_object (rs_new s) bs' ?v a new1"
      "dpos new1 = nat a + nat (BlockHeaderSize (rs_new s)) + length ?v"
    by (rule store_object_ok [OF n(5) room'])
  have rvn: "has_checksum rv \<Longrightarrow> \<not> rev_zero_or_E (rev_letter (rs_new s))" using rv n(7) by simp
  have lt: "overhead (rs_new s) + int (length ?v) < 2 ^ 32" using sz o vl ov by linarith
  have S': "stored_object (rs_new s) bs' ?v a (rs_new (s2\<lparr>rs_new := new1\<rparr>))"
      "dpos (rs_new (s2\<lparr>rs_new := new1\<rparr>)) = nat a + nat (BlockHeaderSize (rs_new s)) + length ?v"
    using S by simp_all
  obtain new2 where C: "store_checksum rv ?v (s2\<lparr>rs_new := new1\<rparr>) = (s2\<lparr>rs_new := new1\<rparr>)\<lparr>rs_new := new2\<rparr>"
      "stored_object (rs_new s) bs' ?v a new2"
    by (rule store_checksum_ok [OF S' rvn lt])
  define s3 where "s3 = s2\<lparr>rs_new := new2, rs_count := rs_count s2 + 1\<rparr>"
  have e1: "gxd_error new1 = gxDBASE_NO_ERROR" using S(2) by (simp add: stored_object_def)
  have le: "rs_curr s + ?n \<le> eof" using cur sz by simp
  have "copy_object eof rv ?n nxt s = Some (Some nxt, s3)"
    using le R d1(2,3) S(1) e1 C(1)
    by (cases "rev_zero_or_E (rev_letter db)") (simp_all add: copy_object_def Let_def rs_db_def s2_def s3_def)
  moreover have "copies db new (us @ [x]) s3"
  proof -
    have "map (object_at new2) (bs' @ [a]) = map (object_at db) (in_use db (us @ [x]))"
    proof -
      have "map (object_at new2) bs' = map (object_at (rs_new s)) bs'" using C(2) by (simp add: stored_object_def)
      then show ?thesis using C(2) n(6) use by (simp add: stored_object_def in_use_def)
    qed
    moreover have "eof_of new2 = eof_of new + room_for db (overhead new) (us @ [x])"
      using C(2) n(10) vl ov rf by (simp add: stored_object_def)
    ultimately show ?thesis
      using C(2) n s2 d1(1) unfolding copies_def s3_def
      by (intro exI [of _ "bs' @ [a]"]) (simp add: stored_object_def)
  qed
  ultimately show ?thesis by blast
qed

section \<open>The loop\<close>

text \<open>What a rebuild into \<open>new\<close> asks for: a good heap, all of whose blocks fit.\<close>

definition rebuild_fits :: "gxDatabase \<Rightarrow> int list \<Rightarrow> gxDatabase \<Rightarrow> char \<Rightarrow> bool" where
  "rebuild_fits db bs new rv \<longleftrightarrow>
     copyable db bs \<and> (has_checksum rv \<longrightarrow> \<not> rev_zero_or_E (rev_letter new)) \<and>
     eof_of new + room_for db (overhead new) bs < 2 ^ 63 \<and> writable (nat (eof_of new + room_for db (overhead new) bs)) new"

lemma rebuild_step_ok:
  assumes ok: "heap_ok db bs fl" and bs: "bs = us @ x # vs" and fit: "rebuild_fits db bs new rv"
    and c: "copies db new us s" and eof: "eof = int (length (dbytes db))"
  shows "\<exists>s'. rebuild_step eof rv x s = Some (Some (x + block_length (blk (dbytes db) x)), s') \<and> copies db new (us @ [x]) s'"
proof -
  let ?b = "blk (dbytes db) x"
  let ?d = "dm_db (rs_m s)" and ?d1 = "moved (nat x + 20) gxDBASE_READ (dm_db (rs_m s))"
  have m: "heap_meta db" and l: "heap_lists db (blk (dbytes db)) bs fl" using ok by (auto simp: heap_ok_def)
  have xin: "x \<in> set bs" by (simp add: bs)
  note sp = tiles_spaced [OF m heap_tiles [OF l] xin] and h = rev_sizes(4,5) [of db]
  have at: "at_file db ?d" and lib: "dm_lib (rs_m s) = library_version" using c by (auto simp: copies_def)
  note f = at_file_fields [OF at]
  have rd: "readable db" using m by (simp add: heap_meta_def)
  have cp: "BlockHeaderSize db < block_length ?b" "eof = eof_of db"
    using fit xin eof by (auto simp: rebuild_fits_def copyable_def list_all_iff)
  have inside: "x + block_length ?b \<le> eof" using sp(3) cp(2) by simp
  have R: "Read_hdr new_gxBlockHeader x ?d = (?b, ?d1)"
    using f rd sp(2,6) by (simp add: Read_hdr_ok)
  define s1 where "s1 = (rs_db ?d1 s)\<lparr>rs_curr := x + int sizeof_gxBlockHeader\<rparr>"
  have s1: "dm_db (rs_m s1) = ?d1" "rs_curr s1 = x + 20" "copies db new us s1" "rev_letter ?d1 = rev_letter db"
      "BlockHeaderSize ?d1 = BlockHeaderSize db"
    using f at by (auto simp: s1_def rs_db_def sizeof_defs intro!: copies_cong [OF c])
  have step: "rebuild_step eof rv x s =
      (if block_status ?b = gxNormalBlock then copy_block eof rv x ?b s1 else Some (Some (x + block_length ?b), s1))"
    using cp(1) inside sp(4,5) f lib R
    by (simp add: rebuild_step_def Let_def s1_def [symmetric] library_version_def)
  show ?thesis
  proof (cases "block_status ?b = gxNormalBlock")
    case False
    then have "copies db new (us @ [x]) s1" using s1(3) by (simp add: copies_def in_use_def room_for_def)
    then show ?thesis using step False by simp
  next
    case True
    let ?n = "object_size db x"
    have u: "x \<in> set (in_use db bs)" using True xin by (simp add: in_use_def)
    then have sz: "0 \<le> ?n" "?n + 36 < 2 ^ 32" using fit by (auto simp: rebuild_fits_def copyable_def list_all_iff)
    have ol: "to_s64 (if rev_zero_or_E (rev_letter db) then block_length ?b - BlockHeaderSize db
        else block_length ?b - (BlockHeaderSize db + int sizeof_gxChecksum)) = ?n"
    proof -
      have "(if rev_zero_or_E (rev_letter db) then block_length ?b - BlockHeaderSize db
        else block_length ?b - (BlockHeaderSize db + int sizeof_gxChecksum)) = ?n"
        by (simp add: object_size_def overhead_def sizeof_defs)
      moreover have "to_s64 ?n = ?n" using sz by simp
      ultimately show ?thesis by simp
    qed
    have ol1: "to_s64 (if rev_zero_or_E (rev_letter (dm_db (rs_m s1))) then block_length ?b - BlockHeaderSize (dm_db (rs_m s1))
        else block_length ?b - (BlockHeaderSize (dm_db (rs_m s1)) + int sizeof_gxChecksum)) = ?n"
      by (simp only: s1(1,4,5) ol)
    have ri: "x + BlockHeaderSize db + ?n \<le> eof" using inside by (simp add: object_size_def overhead_def split: if_splits)
    have le: "room_for db (overhead new) (us @ [x]) \<le> room_for db (overhead new) bs"
    proof -
      have "list_all (\<lambda>x. 0 \<le> object_size db x) (in_use db vs)"
        using fit by (auto simp: rebuild_fits_def copyable_def bs in_use_def list_all_iff)
      from room_for_nonneg [OF this, of "overhead new"] show ?thesis
        using overhead_bounds(1) [of new] room_for_append [of db "overhead new" "us @ [x]" vs] by (simp add: bs)
    qed
    have room: "eof_of new + room_for db (overhead new) (us @ [x]) < 2 ^ 63"
      "writable (nat (eof_of new + room_for db (overhead new) (us @ [x]))) new"
      using fit le unfolding rebuild_fits_def by (linarith, elim conjE, elim writable_mono, linarith)
    have rv: "has_checksum rv \<Longrightarrow> \<not> rev_zero_or_E (rev_letter new)" using fit by (simp add: rebuild_fits_def)
    let ?lock = "s1\<lparr>rs_curr := rs_curr s1 + int sizeof_gxRecordLockHeader\<rparr>"
    let ?s2 = "if rev_C_or_D (rev_letter db) then rs_db (moved (nat (x + 32)) gxDBASE_SEEK ?d1) ?lock else s1"
    have bh: "BlockHeaderSize db = (if rev_C_or_D (rev_letter db) then 32 else 20)"
      by (simp add: BlockHeaderSize_def Let_def sizeof_defs)
    have x0: "0 \<le> x" using sp(2) by simp
    have sk: "SeekTo (x + 32) ?d1 = (x + 32, moved (nat (x + 32)) gxDBASE_SEEK ?d1)" if "rev_C_or_D (rev_letter db)"
      by (rule SeekTo_ok) (use f rd x0 in simp_all)
    have lt: "rev_C_or_D (rev_letter db) \<Longrightarrow> \<not> x + 32 \<ge> eof" using cp(1) inside bh by simp
    have cb: "copy_block eof rv x ?b s1 = copy_object eof rv ?n (x + block_length ?b) ?s2"
      unfolding copy_block_def Let_def ol1 using sk lt sz(1) s1 by (simp add: rs_db_def sizeof_defs add.assoc)
    have "\<exists>s'. copy_object eof rv ?n (x + block_length ?b) ?s2 = Some (Some (x + block_length ?b), s') \<and>
        copies db new (us @ [x]) s'"
    proof (rule copy_object_ok [where op = "if rev_C_or_D (rev_letter db) then gxDBASE_SEEK else gxDBASE_READ" and d = ?d])
      show "copies db new us ?s2"
        using s1 at by (auto simp: rs_db_def intro!: copies_cong [OF s1(3)])
      show "dm_db (rs_m ?s2) = moved (nat x + nat (BlockHeaderSize db))
          (if rev_C_or_D (rev_letter db) then gxDBASE_SEEK else gxDBASE_READ) ?d"
        using s1(1) x0 by (simp add: rs_db_def bh nat_add_distrib)
      show "rs_curr ?s2 = x + BlockHeaderSize db" using s1(2) by (simp add: rs_db_def bh sizeof_defs)
    qed (use at rd x0 sz ri eof True rv room in auto)
    then show ?thesis using step True cb by simp
  qed
qed

lemma rebuild_loop_ok:
  assumes ok: "heap_ok db bs fl" and fit: "rebuild_fits db bs new rv" and eof: "eof = int (length (dbytes db))"
  shows "bs = us @ vs \<Longrightarrow> tiling (BlockHeaderSize db) (blk (dbytes db)) vs a (eof_of db) \<Longrightarrow> copies db new us s \<Longrightarrow>
    \<exists>s'. rebuild_loop eof rv a s = Some s' \<and> copies db new bs s'"
proof (induction vs arbitrary: us a s)
  case Nil
  have e: "a = eof" "0 \<le> BlockHeaderSize (dm_db (rs_m s))"
    using Nil(2) fit eof rev_sizes(4) [of "dm_db (rs_m s)"] by (auto simp: rebuild_fits_def copyable_def)
  let ?s = "if rs_curr s \<noteq> eof then rs_say [eof_text] s else s"
  have "rebuild_step eof rv a s = Some (None, ?s)" using e by (simp add: rebuild_step_def Let_def)
  then have "rebuild_loop eof rv a s = Some ?s" by (subst rebuild_loop.simps) simp
  moreover have "copies db new bs ?s" using Nil(1,3) by (auto simp: rs_say_def copies_def)
  ultimately show ?case by blast
next
  case (Cons x vs)
  have x: "x = a" and t: "tiling (BlockHeaderSize db) (blk (dbytes db)) vs (x + block_length (blk (dbytes db) x)) (eof_of db)"
    using Cons.prems(2) by auto
  obtain s1 where s1: "rebuild_step eof rv x s = Some (Some (x + block_length (blk (dbytes db) x)), s1)"
      "copies db new (us @ [x]) s1"
    using rebuild_step_ok [OF ok Cons.prems(1) fit Cons.prems(3) eof] by blast
  have "rebuild_loop eof rv a s = rebuild_loop eof rv (x + block_length (blk (dbytes db) x)) s1"
    using s1(1) x by (subst rebuild_loop.simps) simp
  then show ?case using Cons.IH [OF _ t s1(2)] Cons.prems(1) by simp
qed

section \<open>The new file\<close>

lemma synced_beyond: "synced db \<Longrightarrow> 50 \<le> p \<Longrightarrow> synced (stored p d db)"
  using length_put_at_mono [of "dbytes db" p d]
  by (auto simp: synced_def hdr_end_def bytes_at_put_below split: if_splits)

lemma heap_ok_empty:
  "heap_ok db [] [] \<longleftrightarrow> heap_meta db \<and> synced db \<and> hs_of db = eof_of db \<and> fs_of db = 0"
  by (auto simp: heap_ok_def heap_lists_def)

text \<open>The header of a new file whose heap starts at \<open>hs\<close>.\<close>

definition fresh_header :: "int \<Rightarrow> char \<Rightarrow> gxFileHeader \<Rightarrow> gxFileHeader" where
  "fresh_header hs r fh =
     fh\<lparr>gxd_hs_fptr := hs, gxd_fs_fptr := 0, gxd_eof := hs, gxd_hb_fptr := 0,
        gxd_sig := List.take 9 gxSignature @ [byte_of_char r], gxd_ver := gxDatabaseVersionNumber\<rparr>"

lemma fresh_header_here:
  "fresh_header (gxd_hs_fptr fh) r fh =
     fh\<lparr>gxd_fs_fptr := 0, gxd_eof := gxd_hs_fptr fh, gxd_hb_fptr := 0,
        gxd_sig := List.take 9 gxSignature @ [byte_of_char r], gxd_ver := gxDatabaseVersionNumber\<rparr>"
  by (simp add: fresh_header_def)

lemma fresh_header_ok: "in_s64 hs \<Longrightarrow> ok_gxFileHeader (fresh_header hs r fh)"
  by (simp add: fresh_header_def ok_defs gxDatabaseVersionNumber_def gxSignature_def in_s64_def)

lemma InitFileHdr_ok:
  assumes w: "writable (nat (max 86 (hs_of db))) db" and hs: "FileHeaderSize db \<le> hs_of db" "hs_of db < 2 ^ 63"
  shows "heap_ok (InitFileHdr db) [] []" "gxd_error (InitFileHdr db) = gxDBASE_NO_ERROR"
    "rev_letter (InitFileHdr db) = rev_letter db" "place (InitFileHdr db) = place db"
    "hs_of (InitFileHdr db) = hs_of db"
    "writable (length (dbytes (InitFileHdr db))) (InitFileHdr db) \<or> length (dbytes db) \<noteq> 0"
proof -
  let ?d1 = "db\<lparr>file_header := fresh_header (hs_of db) (rev_letter db) (file_header db), file_stats_header := InitFileStatsHdr\<rparr>"
  let ?e = "enc_gxFileLockHeader InitFileLockHdr" and ?hs = "hs_of db"
  note r = rev_sizes [of db]
  have hs0: "0 \<le> ?hs" "50 \<le> ?hs" using hs r by linarith+
  have w1: "writable n ?d1" if "n \<le> nat (max 86 ?hs)" for n using writable_mono [OF w that] by simp
  have he: "hdr_end ?d1 = hdr_end db" "hdr_end db \<le> 86" by (simp_all add: hdr_end_def)
  define d2 where "d2 = moved (hdr_end db) gxDBASE_WRITE (headed ?d1)"
  have W2: "WriteFileHdr ?d1 = d2" unfolding d2_def he(1) [symmetric] by (rule WriteFileHdr_ok) (use w1 he in simp)
  define d3 where "d3 = (if has_file_lock (rev_letter db) then moved 62 gxDBASE_WRITE (stored 50 ?e d2) else d2)"
  have w2: "writable n d2" if "n \<le> nat (max 86 ?hs)" for n using w1 [OF that] by (simp add: d2_def)
  have W3: "WriteFileLockHdr InitFileLockHdr d2 = d3"
    using w2 [of 62] Write_ok [of 50 ?e d2] by (auto simp: WriteFileLockHdr_def d3_def d2_def sizeof_defs moved_def)
  have w3: "writable n d3" if "n \<le> nat (max 86 ?hs)" for n using w2 [OF that] by (simp add: d3_def)
  define d4 where "d4 = (if ?hs > FileHeaderSize db then moved (nat ?hs) gxDBASE_WRITE (stored (nat (?hs - 1)) [0] d3) else d3)"
  have W4: "?hs > FileHeaderSize db \<Longrightarrow> Write [0] (?hs - 1) d3 = moved (nat ?hs) gxDBASE_WRITE (stored (nat (?hs - 1)) [0] d3)"
    using Write_ok [of "?hs - 1" "[0]" d3] w3 [of "nat ?hs"] hs0 by (simp add: nat_diff_distrib Suc_nat_eq_nat_zadd1)
  have f3: "file_header d3 = file_header ?d1" "rev_letter d3 = rev_letter db" "FileHeaderSize d3 = FileHeaderSize db"
      "gxd_error d3 = gxDBASE_NO_ERROR" "synced d3" "readable d3" "header_ok d3 = header_ok ?d1" "file_stats_header d3 = file_stats_header ?d1"
    using w3 [of 0] synced_beyond [of d2 50 ?e] synced_headed [of ?d1] by (auto simp: d3_def d2_def FileHeaderSize_def Let_def)
  have d4: "file_header d4 = file_header ?d1" "rev_letter d4 = rev_letter db" "FileHeaderSize d4 = FileHeaderSize db"
      "gxd_error d4 = gxDBASE_NO_ERROR" "synced d4" "readable d4" "header_ok d4 = header_ok ?d1"
    using f3 hs0 r by (auto simp: d4_def intro: synced_beyond)
  have I: "InitFileHdr db = d4"
  proof -
    have "gxd_error d2 = gxDBASE_NO_ERROR" "gxd_hs_fptr (fresh_header ?hs (rev_letter db) (file_header db)) = ?hs"
      by (simp_all add: d2_def fresh_header_def)
    then show ?thesis using W2 W3 W4 f3 by (simp add: InitFileHdr_def Let_def fresh_header_here [symmetric] d4_def)
  qed
  have ho: "header_ok ?d1"
    using fresh_header_ok [of ?hs] hs(2) hs0
    by (simp add: header_ok_def in_s64_def) (simp add: fresh_header_def ok_defs InitFileStatsHdr_def in_s64_def gxSignature_def)
  have len: "?hs \<le> int (length (dbytes d4))"
  proof (cases "?hs > FileHeaderSize db")
    case True
    then show ?thesis using hs0 by (simp add: d4_def length_put_at)
  next
    case False
    then have "?hs = FileHeaderSize db" using hs by simp
    moreover have "int (length (dbytes d3)) \<ge> FileHeaderSize db"
      by (auto simp: d3_def d2_def length_put_at hdr_end_def FileHeaderSize_def sizeof_defs Let_def has_file_lock_def rev_defs)
    ultimately show ?thesis using False by (simp add: d4_def)
  qed
  show "heap_ok (InitFileHdr db) [] []"
    unfolding I heap_ok_empty heap_meta_def using d4 ho len hs by (simp add: fresh_header_def)
  show "gxd_error (InitFileHdr db) = gxDBASE_NO_ERROR" "rev_letter (InitFileHdr db) = rev_letter db"
    "hs_of (InitFileHdr db) = hs_of db" unfolding I using d4 by (simp_all add: fresh_header_def)
  show "place (InitFileHdr db) = place db"
    by (simp add: InitFileHdr_def Let_def WriteFileLockHdr_def)
  show "writable (length (dbytes (InitFileHdr db))) (InitFileHdr db) \<or> length (dbytes db) \<noteq> 0"
  proof (cases "dbytes db")
    case Nil
    then have "length (dbytes d4) \<le> nat (max 86 ?hs)"
      using hs0 by (auto simp: d4_def d3_def d2_def length_put_at hdr_end_def has_file_lock_def nat_le_iff)
    then have "writable (length (dbytes d4)) d4" using w3 by (auto simp: d4_def)
    then show ?thesis by (simp add: I)
  qed simp
qed

text \<open>A new file with a static area of \<open>n\<close> bytes.\<close>

definition new_rev :: "char \<Rightarrow> char" where
  "new_rev r =
     (if r = CHR 0x00 \<or> r = CHR '' '' then CHR 0x00 else if r = CHR ''A'' \<or> r = CHR ''a'' then CHR ''A''
      else if r = CHR ''B'' \<or> r = CHR ''b'' then CHR ''B'' else if r = CHR ''C'' \<or> r = CHR ''c'' then CHR ''C''
      else if r = CHR ''D'' \<or> r = CHR ''d'' then CHR ''D'' else CHR ''E'')"

definition new_file :: "filesys \<Rightarrow> string \<Rightarrow> int \<Rightarrow> char \<Rightarrow> gxDatabase \<Rightarrow> bool" where
  "new_file fs nm n rv db \<longleftrightarrow>
     heap_ok db [] [] \<and> gxd_error db = gxDBASE_NO_ERROR \<and> rev_letter db = new_rev rv \<and>
     place db = (fs\<lparr>files := (files fs)(nm \<mapsto> [])\<rparr>, nm, Some (nm, True, capacity fs)) \<and>
     hs_of db = n + FileHeaderSize db \<and> writable (length (dbytes db)) db"

lemma Create_ok:
  assumes "\<not> denied fs nm" "length nm < gxMaxNameLength" "0 \<le> n" "n + 86 < 2 ^ 63" "nat (n + 86) \<le> capacity fs"
  shows "new_file fs nm n rv (Create (Some nm) n rv (new_gxDatabase fs))"
proof -
  let ?d0 = "new_gxDatabase fs"
  let ?s = "\<lparr>fname = nm, fdata = [], fpos = 0, fwritable = True, fcap = capacity fs\<rparr>"
  let ?fs = "fs\<lparr>files := (files fs)(nm \<mapsto> [])\<rparr>"
  define d2 where "d2 = SetRevisionLetter rv ((Close ?d0)\<lparr>db_fs := ?fs, fp := Some ?s, is_open := True, is_ok := True,
      ready_for_writing := True, ready_for_reading := True, file_name := nm\<rparr>)"
  define d3 where "d3 = d2\<lparr>file_header := (file_header d2)\<lparr>gxd_hs_fptr := to_s64 (n + FileHeaderSize d2)\<rparr>, last_operation := gxDBASE_READ\<rparr>"
  have c: "Close ?d0 = reset_status ?d0" by (simp add: Close_def IsOK_def new_gxDatabase_def)
  have rl: "rev_letter d3 = new_rev rv" by (simp add: d3_def d2_def new_rev_def SetRevisionLetter_def gxDatabaseRevisionLetter_def)
  have fh: "FileHeaderSize d3 = FileHeaderSize d2" by (simp add: d3_def FileHeaderSize_def Let_def)
  note r = rev_sizes(3,6,7) [of d2]
  have hs: "hs_of d3 = n + FileHeaderSize d2"
    using r assms(3,4) by (simp add: d3_def)
  have st: "fp d3 = Some ?s" "IsOK d3" "ready_for_reading d3" "ready_for_writing d3" "db_fs d3 = ?fs" "file_name d3 = nm"
    by (simp_all add: d3_def d2_def SetRevisionLetter_def IsOK_def)
  have w: "writable (nat (max 86 (hs_of d3))) d3"
    using st assms(3,5) r hs by (auto simp: writable_def readable_def)
  have h: "FileHeaderSize d3 \<le> hs_of d3" "hs_of d3 < 2 ^ 63" using hs fh assms(3,4) r by linarith+
  note I = InitFileHdr_ok [OF w h]
  have C: "Create (Some nm) n rv ?d0 = (InitFileHdr d3)\<lparr>gxd_error := gxDBASE_NO_ERROR\<rparr>"
    using assms(1,2) c I(2)
    by (simp add: Create_def Let_def bad_name_def gxdFPTRCreate_def fopen_w_def d3_def d2_def reset_status_def new_gxDatabase_def)
  have e: "(InitFileHdr d3)\<lparr>gxd_error := gxDBASE_NO_ERROR\<rparr> = InitFileHdr d3" using I(2) by simp
  have "FileHeaderSize (InitFileHdr d3) = FileHeaderSize d3" using I(3) by (simp add: FileHeaderSize_def Let_def)
  moreover have "place d3 = (?fs, nm, Some (nm, True, capacity fs))" using st by (simp add: place_def)
  moreover have "dbytes d3 = []" using st by (simp add: dbytes_def)
  ultimately show ?thesis using I rl hs fh by (simp add: new_file_def C e)
qed

text \<open>The static area goes behind the header of the new file.\<close>

lemma write_static_ok:
  assumes "new_file fs nm n rv db" "length v = nat n" "0 \<le> n"
  shows "new_file fs nm n rv (Write v (FileHeaderSize db) db)"
proof -
  note r = rev_sizes [of db]
  have ok: "heap_ok db [] []" and hs: "hs_of db = n + FileHeaderSize db" and w: "writable (length (dbytes db)) db"
    using assms(1) by (auto simp: new_file_def)
  have lim: "n + FileHeaderSize db \<le> int (length (dbytes db))"
    using ok hs by (auto simp: heap_ok_empty heap_meta_def)
  let ?p = "nat (FileHeaderSize db)"
  have le: "?p + length v \<le> length (dbytes db)" using lim assms(2,3) r by linarith
  let ?d = "moved (?p + length v) gxDBASE_WRITE (stored ?p v db)"
  have W: "Write v (FileHeaderSize db) db = ?d" using Write_ok writable_mono [OF w le] r by simp
  have "50 \<le> ?p" using r by linarith
  then have "heap_ok ?d [] []"
    using ok le by (auto simp: heap_ok_empty synced_beyond)
  moreover have "length (dbytes ?d) = length (dbytes db)" using le by (simp add: length_put_at)
  moreover have "place ?d = place db" using place_Write W by metis
  ultimately show ?thesis using assms(1) w unfolding W new_file_def by simp
qed

section \<open>Rebuilding\<close>

lemma view_cong:
  assumes "dbytes d = dbytes db" "rev_letter d = rev_letter db" "file_header d = file_header db"
  shows "BlockHeaderSize d = BlockHeaderSize db" "object_size d = object_size db" "object_at d = object_at db"
    "in_use d = in_use db" "copyable d = copyable db" "room_for d = room_for db" "FileHeaderSize d = FileHeaderSize db"
proof -
  show b: "BlockHeaderSize d = BlockHeaderSize db" "FileHeaderSize d = FileHeaderSize db"
    using assms by (simp_all add: BlockHeaderSize_def FileHeaderSize_def Let_def)
  show o: "object_size d = object_size db" using assms b by (simp add: fun_eq_iff object_size_def overhead_def)
  show "object_at d = object_at db" using assms b o by (simp add: fun_eq_iff object_at_def)
  show u: "in_use d = in_use db" using assms by (simp add: fun_eq_iff in_use_def)
  show "copyable d = copyable db" using assms b o u by (simp add: fun_eq_iff copyable_def)
  show "room_for d = room_for db" using o u by (simp add: fun_eq_iff room_for_def)
qed

lemma heap_ok_db_fs [simp]: "heap_ok (db\<lparr>db_fs := f\<rparr>) bs fl = heap_ok db bs fl"
proof -
  have "FileHeaderSize (db\<lparr>db_fs := f\<rparr>) = FileHeaderSize db" "BlockHeaderSize (db\<lparr>db_fs := f\<rparr>) = BlockHeaderSize db"
    by (simp_all add: FileHeaderSize_def BlockHeaderSize_def Let_def)
  then show ?thesis
    by (simp add: heap_ok_def heap_meta_def heap_lists_def synced_def header_ok_def hdr_end_def)
qed

lemma heap_start:
  assumes ok: "heap_ok db bs fl" and c: "copyable db bs"
  shows "hs_of db \<in> set bs" "TestBlockHeader (blk (dbytes db) (hs_of db))" "hs_of db + 20 < int (length (dbytes db))"
    "50 \<le> hs_of db"
proof -
  have m: "heap_meta db" and l: "heap_lists db (blk (dbytes db)) bs fl" using ok by (auto simp: heap_ok_def)
  obtain x xs where bs: "bs = x # xs" using c by (cases bs) (auto simp: copyable_def)
  then have x: "x = hs_of db" using heap_tiles [OF l] by simp
  then show xin: "hs_of db \<in> set bs" using bs by simp
  note sp = tiles_spaced [OF m heap_tiles [OF l] xin] and h = rev_sizes(4) [of db]
  have "BlockHeaderSize db < block_length (blk (dbytes db) (hs_of db))"
    using c xin by (auto simp: copyable_def list_all_iff)
  then show "hs_of db + 20 < int (length (dbytes db))" using sp(9) h by linarith
  show "TestBlockHeader (blk (dbytes db) (hs_of db))" "50 \<le> hs_of db" by (rule sp(5), rule sp(2))
qed

lemma rebuild_header_ok:
  assumes ok: "heap_ok db bs fl" and c: "copyable db bs" and lib: "dm_lib m = library_version" and db: "dm_db m = db"
    and sig: "List.take 9 (gxd_sig (file_header db)) = List.take 9 gxSignature" and eof: "eof = int (length (dbytes db))"
  shows "\<exists>d. rebuild_header eof m = ((file_header db, 0), m\<lparr>dm_db := d\<rparr>) \<and> at_file db d"
proof -
  have m: "heap_meta db" "readable db" "header_ok db" "synced db" using ok by (auto simp: heap_ok_def heap_meta_def)
  note hs = heap_start [OF ok c]
  have r: "read_fresh_hdr db = (file_header db, moved 50 gxDBASE_READ db)" by (rule read_fresh_synced) (use m in auto)
  have R: "Read_hdr new_gxBlockHeader (hs_of db) (moved 50 gxDBASE_READ db) =
      (blk (dbytes db) (hs_of db), moved (nat (hs_of db) + 20) gxDBASE_READ db)"
    using Read_hdr_ok [of "moved 50 gxDBASE_READ db" "hs_of db" new_gxBlockHeader] m hs by simp
  have "FileHeaderSize db \<le> hs_of db" using m by (simp add: heap_meta_def)
  then have "rebuild_header eof m = ((file_header db, 0),
      m\<lparr>dm_db := if gxd_hb_fptr (file_header db) = 0 then moved 50 gxDBASE_READ db
                else moved (nat (hs_of db) + 20) gxDBASE_READ db\<rparr>)"
    using r R sig lib db hs eof
    by (simp add: rebuild_header_def Let_def library_version_def VerifyBlockHeader_tests sizeof_defs)
  then show ?thesis by (auto simp: at_file_def)
qed

lemma find_first: "0 \<le> h \<Longrightarrow> h \<le> b \<Longrightarrow> P h \<Longrightarrow> \<forall>x \<in> {0..<h}. \<not> P x \<Longrightarrow> List.find P [0..b] = Some (h :: int)"
proof -
  assume h: "0 \<le> h" "h \<le> b" "P h" "\<forall>x \<in> {0..<h}. \<not> P x"
  have "List.find P (xs @ h # ys) = Some h" if "\<forall>x \<in> set xs. \<not> P x" for xs ys
    using that h(3) by (induction xs) auto
  moreover have "[0..b] = [0..h - 1] @ h # [h + 1..b]" by (rule upto_split3) (use h in auto)
  ultimately show ?thesis using h(4) by simp
qed

text \<open>Closing writes the header.\<close>

lemma close_writes:
  assumes ok: "heap_ok d bs []" and w: "writable (length (dbytes d)) d" and p: "place d = (fs, nm, Some (nm, True, cap))"
    and f: "\<not> flush_fails fs"
  shows "\<exists>d'. heap_ok d' bs [] \<and> rev_letter d' = rev_letter d \<and> map (object_at d') bs = map (object_at d) bs \<and>
    files (db_fs (Close d)) nm = Some (dbytes d')"
proof -
  have m: "heap_meta d" and l: "heap_lists d (blk (dbytes d)) bs []" and h: "hdr_end d \<le> length (dbytes d)"
    using ok by (auto simp: heap_ok_def synced_def)
  let ?d = "moved (hdr_end d) gxDBASE_WRITE (headed d)"
  have W: "WriteFileHdr d = ?d" using writable_mono [OF w h] by (rule WriteFileHdr_ok)
  have sh: "shows_map (headed d) (blk (dbytes d)) (set bs)" by (rule shows_headed [OF m l shows_self])
  have k: "kept d (headed d) (blk (dbytes d)) bs" by (rule kept_headed [OF m heap_tiles [OF l] h])
  have rl: "rev_letter ?d = rev_letter d" by simp
  have "heap_ok (headed d) bs []"
    by (rule heap_okI [where f = "blk (dbytes d)"]) (use m l sh in auto)
  then have "heap_ok ?d bs []" by simp
  moreover have "object_at ?d y = object_at d y" if "y \<in> set bs" for y
  proof (rule object_at_cong(1))
    show b: "blk (dbytes ?d) y = blk (dbytes d) y" using sh that by (simp add: shows_map_def)
    show "data_at ?d y = data_at d y" using k b that by (simp add: data_at_def kept_def)
  qed (rule rl)
  moreover have "files (db_fs (Close d)) nm = Some (dbytes ?d)"
  proof -
    have "place ?d = place d" using place_WriteFileHdr W by metis
    then obtain s where s: "fp ?d = Some s" "fname s = nm" "fwritable s" "db_fs ?d = fs" using p by (auto simp: place_def)
    have "IsOK d" "ready_for_writing d" using w by simp_all
    then show ?thesis
      using s f W by (simp add: Close_def Let_def gxdFPTRClose_def sync_file_def reset_status_def dbytes_def)
  qed
  ultimately show ?thesis using rl by (intro exI [of _ ?d]) simp
qed

lemma rebuild_blocks_ok:
  assumes ok: "heap_ok db bs fl" and c: "copyable db bs" and at: "at_file db (dm_db m)" and lib: "dm_lib m = library_version"
    and nm: "\<not> denied (db_fs db) nm" "length nm < gxMaxNameLength" "\<not> flush_fails (db_fs db)"
    and room: "hs_of db + 36 + room_for db 36 bs < 2 ^ 63" "hs_of db + 36 + room_for db 36 bs \<le> int (capacity (db_fs db))"
    and st: "st = hs_of db - FileHeaderSize db" and eof: "eof = int (length (dbytes db))"
  shows "\<exists>m' d bs'. rebuild_blocks nm rv eof st copy 0 (hs_of db) m = Some ((True, int (length (in_use db bs))), m') \<and>
    heap_ok d bs' [] \<and> rev_letter d = new_rev rv \<and> map (object_at d) bs' = map (object_at db) (in_use db bs) \<and>
    files (db_fs (dm_db m')) nm = Some (dbytes d)"
proof -
  let ?fs = "db_fs db"
  let ?new = "Create (Some nm) st rv (new_gxDatabase ?fs)"
  have m: "heap_meta db" and l: "heap_lists db (blk (dbytes db)) bs fl" using ok by (auto simp: heap_ok_def)
  note r = rev_sizes [of db] and hs = heap_start [OF ok c]
  have fit: "list_all (\<lambda>x. 0 \<le> object_size db x) (in_use db bs)" using c by (auto simp: copyable_def list_all_iff)
  have rn: "0 \<le> room_for db 36 bs" by (rule room_for_nonneg [OF fit]) simp
  have st0: "0 \<le> st" "st + 86 \<le> hs_of db + 36" using m st r by (auto simp: heap_meta_def)
  have N: "new_file ?fs nm st rv ?new"
    by (rule Create_ok [OF nm(1,2)]) (use st0 room rn in linarith)+
  define m1 where "m1 = with_fs (db_fs ?new) m"
  define db1 where "db1 = dm_db m1"
  have d1: "db1 = (dm_db m)\<lparr>db_fs := db_fs ?new\<rparr>" by (simp add: db1_def m1_def with_fs_def)
  note f = at_file_fields [OF at]
  have v: "dbytes db1 = dbytes db" "rev_letter db1 = rev_letter db" "file_header db1 = file_header db"
    using f at by (auto simp: d1 at_file_def)
  note vc = view_cong [OF v]
  have ok1: "heap_ok db1 bs fl" using ok at by (auto simp: d1 at_file_def)
  have rd1: "readable db1" using ok1 by (simp add: heap_ok_def heap_meta_def)
  define go where "go = (st \<noteq> 0 \<and> copy)"
  have "\<exists>m2 new1. (if go then copy_static eof st m1 ?new else ((st, copy, 0), m1, ?new)) = ((st, copy, 0), m2, new1) \<and>
      at_file db1 (dm_db m2) \<and> dm_lib m2 = library_version \<and> new_file ?fs nm st rv new1"
  proof (cases go)
    case False
    then show ?thesis using N lib by (auto simp: at_file_def db1_def m1_def with_fs_def)
  next
    case True
    let ?v = "bytes_at (dbytes db1) (nat (FileHeaderSize db)) (nat st)"
    have le: "nat (FileHeaderSize db) + nat st \<le> length (dbytes db)" using st hs(3) st0 r by linarith
    have R: "Read (replicate (nat st) 0) (FileHeaderSize db) db1 =
        (?v, moved (nat (FileHeaderSize db) + nat st) gxDBASE_READ db1)"
      using Read_ok [OF rd1 r(3)] le v(1) by simp
    have vl: "length ?v = nat st" using le v(1) by simp
    have W: "new_file ?fs nm st rv (Write ?v (FileHeaderSize ?new) ?new)" by (rule write_static_ok [OF N vl st0(1)])
    have e: "gxd_error (Write ?v (FileHeaderSize ?new) ?new) = gxDBASE_NO_ERROR" using W by (simp add: new_file_def)
    have t: "\<not> st < 0" "\<not> st + FileHeaderSize db > eof" using st0 st hs(3) eof by linarith+
    have "copy_static eof st m1 ?new = ((st, True, 0), m1\<lparr>dm_db := moved (nat (FileHeaderSize db) + nat st) gxDBASE_READ db1\<rparr>,
        Write ?v (FileHeaderSize ?new) ?new)"
      using R e t vc(7) by (simp add: copy_static_def Let_def db1_def [symmetric])
    then show ?thesis using True W lib by (auto simp: go_def at_file_def m1_def with_fs_def)
  qed
  then obtain m2 new1 where S: "(if go then copy_static eof st m1 ?new else ((st, copy, 0), m1, ?new)) = ((st, copy, 0), m2, new1)"
      "at_file db1 (dm_db m2)" "dm_lib m2 = library_version" "new_file ?fs nm st rv new1" by blast
  have n1: "heap_ok new1 [] []" "rev_letter new1 = new_rev rv" "writable (length (dbytes new1)) new1"
      "place new1 = (?fs\<lparr>files := (files ?fs)(nm \<mapsto> [])\<rparr>, nm, Some (nm, True, capacity ?fs))"
      "eof_of new1 = st + FileHeaderSize new1"
    using S(4) by (auto simp: new_file_def heap_ok_empty)
  let ?s0 = "\<lparr>rs_m = m2, rs_new = new1, rs_curr = hs_of db, rs_count = 0, rs_bad = 0, rs_errors = 0\<rparr>"
  have c0: "copies db1 new1 [] ?s0"
    using S(2,3) n1 by (simp add: copies_def in_use_def room_for_def)
  have ovl: "room_for db (overhead new1) bs \<le> room_for db 36 bs"
    using overhead_bounds(2) [of new1] by (auto simp: room_for_def intro!: sum_list_mono)
  have tot: "eof_of new1 + room_for db (overhead new1) bs \<le> hs_of db + 36 + room_for db 36 bs"
    using n1(5) ovl st r(7) rev_sizes(6) [of new1] by linarith
  have "writable (nat (eof_of new1 + room_for db (overhead new1) bs)) new1"
  proof -
    obtain t where t: "fp new1 = Some t" "fwritable t" "fcap t = capacity ?fs" using n1(4) by (auto simp: place_def)
    have "nat (eof_of new1 + room_for db (overhead new1) bs) \<le> capacity ?fs"
      unfolding nat_le_iff by (rule order_trans [OF tot room(2)])
    moreover note writable_readable [OF n1(3)] writable_ready [OF n1(3)]
    ultimately show ?thesis unfolding writable_def t option.sel using t(2) by simp
  qed
  moreover have "has_checksum rv \<longrightarrow> \<not> rev_zero_or_E (rev_letter new1)"
    by (auto simp: n1(2) has_checksum_def new_rev_def rev_zero_or_E_def)
  ultimately have fits: "rebuild_fits db1 bs new1 rv" using c tot room(1) vc by (simp add: rebuild_fits_def)
  have tl: "tiling (BlockHeaderSize db1) (blk (dbytes db1)) bs (hs_of db) (eof_of db1)"
    using heap_tiles [OF l] v vc by simp
  obtain s where L: "rebuild_loop eof rv (hs_of db) ?s0 = Some s" "copies db1 new1 bs s"
    using rebuild_loop_ok [OF ok1 fits _ _ tl c0] eof v(1) by (metis append_Nil)
  obtain bs' where b: "rs_bad s = 0" "rs_errors s = 0" "rs_count s = int (length bs')" "heap_ok (rs_new s) bs' []"
      "map (object_at (rs_new s)) bs' = map (object_at db) (in_use db bs)" "rev_letter (rs_new s) = new_rev rv"
      "place (rs_new s) = (?fs\<lparr>files := (files ?fs)(nm \<mapsto> [])\<rparr>, nm, Some (nm, True, capacity ?fs))"
      "writable (length (dbytes (rs_new s))) (rs_new s)"
    using L(2) n1(2,4) vc by (auto simp: copies_def)
  have ff: "\<not> flush_fails (?fs\<lparr>files := (files ?fs)(nm \<mapsto> [])\<rparr>)" using nm(3) by simp
  obtain d where d: "heap_ok d bs' []" "rev_letter d = new_rev rv" "map (object_at d) bs' = map (object_at db) (in_use db bs)"
      "files (db_fs (Close (rs_new s))) nm = Some (dbytes d)"
    using close_writes [OF b(4,8,7) ff] b(5,6) by auto
  have e0: "gxd_error ?new = gxDBASE_NO_ERROR" using N by (simp add: new_file_def)
  have len: "length bs' = length (in_use db bs)" using b(5) by (metis length_map)
  have X: "rebuild_blocks nm rv eof st copy 0 (hs_of db) m =
      Some ((True, int (length (in_use db bs))), with_fs (db_fs (Close (rs_new s))) (rebuild_results st copy 0 s))"
    unfolding rebuild_blocks_def Let_def f(6) m1_def [symmetric] go_def [symmetric] S(1) prod.case L(1) option.case
    using e0 b(1-3) len by simp
  show ?thesis
    by (intro exI conjI) (rule X, rule d(1), rule d(2), rule d(3), use d(4) in \<open>simp add: with_fs_def\<close>)
qed

text \<open>
  C13: a damaged or a good file is rebuilt: when its heap is well-formed, its header is that of the library, nothing
  below the heap looks like the header of a block, every block has bytes behind its headers and there is room, then
  \<open>Rebuild\<close> returns true with the number of the blocks in use, and the new file has a well-formed heap, in the
  format of the file or of the library as asked for, whose objects are those of the blocks in use, in
  their order and without those of the deleted and the removed blocks.
\<close>

theorem Rebuild_copies_objects:
  assumes "heap_ok db bs fl" and "copyable db bs" and "dm_db m = db" and "dm_lib m = library_version"
    and "List.take 9 (gxd_sig (file_header db)) = List.take 9 gxSignature"
    and "list_all (\<lambda>a. \<not> TestBlockHeader (blk (dbytes db) a)) [0..hs_of db - 1]"
    and "files (db_fs db) (file_name db) = Some (dbytes db)" and "nm \<noteq> file_name db"
    and "\<not> denied (db_fs db) nm" and "length nm < gxMaxNameLength" and "\<not> flush_fails (db_fs db)"
    and "hs_of db + 36 + room_for db 36 bs < 2 ^ 63" and "hs_of db + 36 + room_for db 36 bs \<le> int (capacity (db_fs db))"
  shows "\<exists>m' d bs'. Rebuild nm upd m = Some ((True, int (length (in_use db bs))), m') \<and> heap_ok d bs' [] \<and>
    rev_letter d = new_rev (if upd then gxDatabaseRevisionLetter else rev_letter db) \<and>
    map (object_at d) bs' = map (object_at db) (in_use db bs) \<and> files (db_fs (dm_db m')) nm = Some (dbytes d)"
proof -
  let ?eof = "int (length (dbytes db))"
  define rv where "rv = (if upd then gxDatabaseRevisionLetter else rev_letter db)"
  define m0 where "m0 = say_lines [''Rebuild results for: '' @ nm,
      (if rv = CHR 0x00 \<or> rv = CHR '' '' then ''Database revision: Zero'' else ''Database revision: '' @ [rv]),
      ''Database version: '' @ to_string gxDatabaseVersionNumber] (m\<lparr>status_message := []\<rparr>)"
  have m0: "dm_db m0 = db" "dm_lib m0 = library_version" using assms(3,4) by (simp_all add: m0_def)
  have eof: "StaticEOF m = ?eof" using assms(3,7) by (simp add: StaticEOF_def FileSize_def gxdFPTRFileSize_def)
  obtain d where H: "rebuild_header ?eof m0 = ((file_header db, 0), m0\<lparr>dm_db := d\<rparr>)" "at_file db d"
    using rebuild_header_ok [OF assms(1,2) m0(2,1) assms(5)] by blast
  note f = at_file_fields [OF H(2)] and hs = heap_start [OF assms(1,2)]
  have rd: "readable db" using assms(1) by (simp add: heap_ok_def heap_meta_def)
  have eof1: "StaticEOF (m0\<lparr>dm_db := d\<rparr>) = ?eof"
    using f assms(7) by (simp add: StaticEOF_def FileSize_def gxdFPTRFileSize_def)
  have fnd: "List.find (\<lambda>x. TestBlockHeader (blk (dbytes db) x)) [0..?eof - 21] = Some (hs_of db)"
    using assms(6) hs by (intro find_first) (auto simp: list_all_iff)
  obtain d2 where B: "BlockSearch 0 (m0\<lparr>dm_db := d\<rparr>) = (hs_of db, m0\<lparr>dm_db := d2\<rparr>)" "d2 = d \<or> (\<exists>p op. d2 = moved p op d)"
    using BlockSearch_is_first [of "m0\<lparr>dm_db := d\<rparr>" 0] f rd eof1 fnd m0(2) by (auto simp: library_version_def)
  have at2: "at_file db d2" using B(2) H(2) by auto
  have h0: "hs_of db \<noteq> 0" using hs(4) by simp
  have lv: "lib_ver (dm_lib m) = gxDatabaseVersionNumber" using assms(4) by (simp add: library_version_def)
  have la: "lib_after (Some (lib_sig (dm_lib m))) 10 gxDatabaseVersionNumber (lib_check_word (dm_lib m)) (dm_lib m) = library_version"
    using assms(4) by (simp add: lib_after_def library_version_def)
  have "Rebuild nm upd m =
      Rebuild_sig nm (Some (lib_sig (dm_lib m))) 10 gxDatabaseVersionNumber rv (lib_check_word (dm_lib m)) 0 True m"
    by (simp add: Rebuild_def Rebuild_ver_def lv rv_def assms(3))
  also have "\<dots> = rebuild_blocks nm rv ?eof (hs_of db - FileHeaderSize db) True 0 (hs_of db) (m0\<lparr>dm_db := d2\<rparr>)"
    unfolding Rebuild_sig_def Let_def la eof m0_def [symmetric] H(1) prod.case using B(1) h0 f by simp
  finally have R: "Rebuild nm upd m = rebuild_blocks nm rv ?eof (hs_of db - FileHeaderSize db) True 0 (hs_of db) (m0\<lparr>dm_db := d2\<rparr>)" .
  have "at_file db (dm_db (m0\<lparr>dm_db := d2\<rparr>))" "dm_lib (m0\<lparr>dm_db := d2\<rparr>) = library_version" using at2 m0 by simp_all
  from rebuild_blocks_ok [OF assms(1,2) this assms(9-13) refl refl] show ?thesis unfolding R rv_def [symmetric] by blast
qed

text \<open>The sample file with its three blocks, on the disk, rebuilt in the format of the library and in its own.\<close>

definition debug_sample_db :: gxDatabase where
  "debug_sample_db = sample_db\<lparr>db_fs := sample_fs\<lparr>files := (\<lambda>n. if n = ''a.gxd'' then Some sample_bytes else None)\<rparr>\<rparr>"

definition debug_sample :: gxDatabaseDebugManager where
  "debug_sample = \<lparr>dm_db = debug_sample_db, status_message = [], dm_lib = library_version\<rparr>"

theorem Rebuild_copies_objects_witness:
  "\<exists>m' d bs'. Rebuild ''b.gxd'' False debug_sample = Some ((True, 1), m') \<and> heap_ok d bs' [] \<and>
     map (object_at d) bs' = [replicate 10 7] \<and> files (db_fs (dm_db m')) ''b.gxd'' = Some (dbytes d)"
proof -
  have ok: "heap_ok debug_sample_db [86, 116, 156] [156, 116]"
    unfolding debug_sample_db_def heap_ok_db_fs by (rule sample_heap_ok)
  have c: "copyable debug_sample_db [86, 116, 156]" by code_simp
  have sig: "List.take 9 (gxd_sig (file_header debug_sample_db)) = List.take 9 gxSignature" by code_simp
  have none: "list_all (\<lambda>a. \<not> TestBlockHeader (blk (dbytes debug_sample_db) a)) [0..hs_of debug_sample_db - 1]" by code_simp
  have fl: "files (db_fs debug_sample_db) (file_name debug_sample_db) = Some (dbytes debug_sample_db)"
    by (simp add: debug_sample_db_def sample_db_def dbytes_def new_gxDatabase_def)
  have nm: "''b.gxd'' \<noteq> file_name debug_sample_db" "\<not> denied (db_fs debug_sample_db) ''b.gxd''"
    "length ''b.gxd'' < gxMaxNameLength" "\<not> flush_fails (db_fs debug_sample_db)"
    by code_simp+
  have room: "hs_of debug_sample_db + 36 + room_for debug_sample_db 36 [86, 116, 156] < 2 ^ 63"
    "hs_of debug_sample_db + 36 + room_for debug_sample_db 36 [86, 116, 156] \<le> int (capacity (db_fs debug_sample_db))"
    by code_simp+
  have u: "in_use debug_sample_db [86, 116, 156] = [86]" "object_at debug_sample_db 86 = replicate 10 7" by code_simp+
  have m: "dm_db debug_sample = debug_sample_db" "dm_lib debug_sample = library_version" by (simp_all add: debug_sample_def)
  have os: "map (object_at debug_sample_db) (in_use debug_sample_db [86, 116, 156]) = [replicate 10 7]"
    unfolding u(1) by (simp only: list.map u(2))
  have n: "int (length (in_use debug_sample_db [86, 116, 156])) = 1" unfolding u(1) by simp
  from Rebuild_copies_objects [OF ok c m sig none fl nm room, of False] obtain m' d bs' where
    r: "Rebuild ''b.gxd'' False debug_sample = Some ((True, 1), m')" "heap_ok d bs' []"
      "map (object_at d) bs' = [replicate 10 7]" "files (db_fs (dm_db m')) ''b.gxd'' = Some (dbytes d)"
    unfolding os n by (elim exE conjE) 
  show ?thesis by (intro exI conjI) (rule r)+
qed

end
