(* ===== verification/NetConn.thy ===== *)
theory NetConn
  imports StrUtil
begin

text \<open>
  The connections of the network protocols: the transfer functions of \<open>gxSocket\<close> (\<open>src/src/gxsocket.cpp\<close>) and the class
  \<open>gxsTLSConnection\<close> (\<open>src/src/gxstls.cpp\<close>). The operating system, the TLS library and the host at the other end
  are a script: what each \<open>send\<close>, each wait and \<open>recv\<close> and each handshake of a connection finds. What was sent is
  kept in two logs, one for the bytes that went to the network as they are, and one for those that
  went through TLS.
\<close>

section \<open>What a connection finds\<close>

text \<open>The codes that the operations of the model give.\<close>

datatype gxSocketError =
    gxSOCKET_NO_ERROR | gxSOCKET_CONNECT_ERROR | gxSOCKET_HOSTNAME_ERROR | gxSOCKET_INIT_ERROR
  | gxSOCKET_DISCONNECTED_ERROR | gxSOCKET_RECEIVE_ERROR | gxSOCKET_REQUEST_TIMEOUT
  | gxSOCKET_TRANSMIT_ERROR | gxSOCKET_BUFOVER_ERROR
  | gxSOCKET_BLOCKACK_ERROR | gxSOCKET_BLOCKHEADER_ERROR | gxSOCKET_BLOCKSIZE_ERROR | gxSOCKET_BLOCKSYNC_ERROR

definition SocketExceptionMessage :: "gxSocketError \<Rightarrow> string" where
  "SocketExceptionMessage e =
     (case e of
        gxSOCKET_NO_ERROR \<Rightarrow> ''Socket exception: No exception reported''
      | gxSOCKET_BUFOVER_ERROR \<Rightarrow> ''Socket exception: Buffer overflow error''
      | gxSOCKET_CONNECT_ERROR \<Rightarrow> ''Socket exception: Could not connect socket''
      | gxSOCKET_DISCONNECTED_ERROR \<Rightarrow> ''Socket exception: Socket has been disconnected''
      | gxSOCKET_HOSTNAME_ERROR \<Rightarrow> ''Socket exception: Could not resolve hostname''
      | gxSOCKET_INIT_ERROR \<Rightarrow> ''Socket exception: Initialization error''
      | gxSOCKET_RECEIVE_ERROR \<Rightarrow> ''Socket exception: Receive error''
      | gxSOCKET_REQUEST_TIMEOUT \<Rightarrow> ''Socket exception: Request timed out''
      | gxSOCKET_TRANSMIT_ERROR \<Rightarrow> ''Socket exception: Transmit error''
      | gxSOCKET_BLOCKACK_ERROR \<Rightarrow> ''Socket exception: Database block acknowledgment error''
      | gxSOCKET_BLOCKHEADER_ERROR \<Rightarrow> ''Socket exception: Bad database block header''
      | gxSOCKET_BLOCKSIZE_ERROR \<Rightarrow> ''Socket exception: Bad database block size''
      | gxSOCKET_BLOCKSYNC_ERROR \<Rightarrow> ''Socket exception: Database block synchronization error'')"

text \<open>
  A \<open>recv\<close> that finds bytes takes as many of them as it has room for. At the end of the list of arrivals nothing more
  comes, which is a timeout; at the end of the list of writes the system takes what it is given.
\<close>

datatype arrival = Timeout | Broken | Closed | Arrived string

datatype write_result = Accepts nat | Interrupted | Refused

text \<open>
  The end of a handshake: the library cannot be set up, the handshake fails, or a certificate that is bad or good. The
  close of the session after a bad one shuts the socket for writing when the other side has not closed it.
\<close>

datatype tls_outcome = No_context string | No_handshake string | Bad_certificate string bool | Handshake_done

record link =
  link_error :: gxSocketError
  link_reads :: "arrival list"
  link_writes :: "write_result list"
  link_handshakes :: "tls_outcome list"
  link_tls_reads :: "arrival list"
  link_tls_writes :: "bool list"
  link_tls_message :: string

section \<open>Sockets\<close>

record gxSocket =
  sock_open :: bool
  sock_shut :: bool
  socket_error :: gxSocketError
  is_connected :: bool
  reads :: "arrival list"
  writes :: "write_result list"
  sent :: string

definition new_gxSocket :: gxSocket where
  "new_gxSocket =
     \<lparr>sock_open = False, sock_shut = False, socket_error = gxSOCKET_NO_ERROR, is_connected = False, reads = [], writes = [], sent = []\<rparr>"

definition set_socket_error :: "gxSocketError \<Rightarrow> gxSocket \<Rightarrow> gxSocket" where
  "set_socket_error e s = s\<lparr>socket_error := e\<rparr>"

definition Close_socket :: "gxSocket \<Rightarrow> gxSocket" where
  "Close_socket s = s\<lparr>sock_open := False, is_connected := False\<rparr>"

text \<open>The attempts to connect are one step, with the error that is left at their end.\<close>

definition Connect_socket :: "link \<Rightarrow> gxSocket \<Rightarrow> gxSocket" where
  "Connect_socket l s0 =
     (let s = Close_socket s0
      in if link_error l \<noteq> gxSOCKET_NO_ERROR then set_socket_error (link_error l) s
         else set_socket_error gxSOCKET_NO_ERROR
                (s\<lparr>sock_open := True, sock_shut := False, is_connected := True, reads := link_reads l, writes := link_writes l, sent := []\<rparr>))"

text \<open>The number of bytes that were taken, or \<open>-1\<close> and whether the call was interrupted.\<close>

definition RawWrite :: "string \<Rightarrow> gxSocket \<Rightarrow> (int \<times> bool) \<times> gxSocket" where
  "RawWrite buf s =
     (if \<not> sock_open s \<or> sock_shut s then ((-1, False), set_socket_error gxSOCKET_TRANSMIT_ERROR s)
      else (case writes s of
              [] \<Rightarrow> ((int (length buf), False), set_socket_error gxSOCKET_NO_ERROR (s\<lparr>sent := sent s @ buf\<rparr>))
            | Accepts n # ws \<Rightarrow>
                ((int (length (List.take n buf)), False),
                 set_socket_error gxSOCKET_NO_ERROR (s\<lparr>sent := sent s @ List.take n buf, writes := ws\<rparr>))
            | Interrupted # ws \<Rightarrow> ((-1, True), set_socket_error gxSOCKET_TRANSMIT_ERROR (s\<lparr>writes := ws\<rparr>))
            | Refused # ws \<Rightarrow> ((-1, False), set_socket_error gxSOCKET_TRANSMIT_ERROR (s\<lparr>writes := ws\<rparr>))))"

lemma RawWrite_less:
  assumes "RawWrite buf s = ((rv, intr), s')" "buf \<noteq> []" "0 \<le> rv \<or> intr"
  shows "length (writes s') + length (drop (nat rv) buf) < length (writes s) + length buf"
  using assms by (auto simp: RawWrite_def set_socket_error_def split: if_splits list.splits write_result.splits)

function Send_loop :: "int \<Rightarrow> string \<Rightarrow> gxSocket \<Rightarrow> int \<times> gxSocket" where
  "Send_loop done buf s =
     (if buf = [] then (done, s)
      else (case RawWrite buf s of ((rv, intr), s1) \<Rightarrow>
              if rv < 0 then (if intr then Send_loop done buf s1 else (-1, s1))
              else Send_loop (done + rv) (drop (nat rv) buf) s1))"
  by pat_completeness auto
termination
  by (relation "measure (\<lambda>(d, buf, s). length (writes s) + length buf)")
    (auto dest!: RawWrite_less [OF sym])

declare Send_loop.simps [simp del]

definition Send_socket :: "string \<Rightarrow> gxSocket \<Rightarrow> int \<times> gxSocket" where
  "Send_socket buf s = Send_loop 0 buf s"

text \<open>What the next \<open>recv\<close> of \<open>n\<close> bytes finds after a wait: a failure, or bytes, none when the connection was closed.\<close>

definition next_arrival :: "nat \<Rightarrow> arrival list \<Rightarrow> (gxSocketError + string) \<times> arrival list" where
  "next_arrival n as =
     (case as of
        [] \<Rightarrow> (Inl gxSOCKET_REQUEST_TIMEOUT, [])
      | Timeout # r \<Rightarrow> (Inl gxSOCKET_REQUEST_TIMEOUT, r)
      | Broken # r \<Rightarrow> (Inl gxSOCKET_RECEIVE_ERROR, r)
      | Closed # r \<Rightarrow> (Inr [], as)
      | Arrived x # r \<Rightarrow> (Inr (List.take n x), if length x \<le> n then r else Arrived (drop n x) # r))"

definition RecvSome :: "nat \<Rightarrow> gxSocket \<Rightarrow> (int \<times> string) \<times> gxSocket" where
  "RecvSome n s =
     (if \<not> sock_open s then ((-1, []), set_socket_error gxSOCKET_RECEIVE_ERROR s)
      else (case next_arrival n (reads s) of
              (Inl e, r) \<Rightarrow> ((-1, []), set_socket_error e (s\<lparr>reads := r\<rparr>))
            | (Inr x, r) \<Rightarrow>
                if x = [] then ((0, []), set_socket_error gxSOCKET_DISCONNECTED_ERROR (s\<lparr>reads := r, is_connected := False\<rparr>))
                else ((int (length x), x), set_socket_error gxSOCKET_NO_ERROR (s\<lparr>reads := r\<rparr>))))"

text \<open>The bytes that are still to come.\<close>

fun coming :: "arrival list \<Rightarrow> string" where
  "coming (Arrived x # r) = (if x = [] then [] else x @ coming r)"
| "coming _ = []"

fun weight :: "arrival list \<Rightarrow> nat" where
  "weight [] = 0"
| "weight (a # r) = Suc (case a of Arrived x \<Rightarrow> length x | _ \<Rightarrow> 0) + weight r"

lemma next_arrival_less: "next_arrival n as = (Inr x, r) \<Longrightarrow> x \<noteq> [] \<Longrightarrow> weight r < weight as"
  by (cases as) (auto simp: next_arrival_def split: arrival.splits if_splits)

lemma next_arrival_weight:
  "next_arrival n as = (Inr x, r) \<Longrightarrow> weight r + length x \<le> weight as"
  "next_arrival n as = (Inl e, r) \<Longrightarrow> weight r \<le> weight as"
  by (cases as; auto simp: next_arrival_def split: arrival.splits if_splits)+

lemma next_arrival_coming:
  assumes "coming as \<noteq> []" "0 < n"
  shows "\<exists>x r. next_arrival n as = (Inr x, r) \<and> x \<noteq> [] \<and> coming as = x @ coming r"
  using assms by (cases as) (auto simp: next_arrival_def split: arrival.splits if_splits)

section \<open>TLS connections\<close>

record gxsTLSConnection =
  sock :: gxSocket
  secure :: bool
  verify_peer :: bool
  host_name :: string
  rbuf :: string
  conn_error :: string
  handshakes :: "tls_outcome list"
  tls_reads :: "arrival list"
  tls_writes :: "bool list"
  tls_message :: string
  tls_sent :: string

definition new_gxsTLSConnection :: "bool \<Rightarrow> gxsTLSConnection" where
  "new_gxsTLSConnection verify =
     \<lparr>sock = new_gxSocket, secure = False, verify_peer = verify, host_name = [], rbuf = [], conn_error = [],
      handshakes = [], tls_reads = [], tls_writes = [], tls_message = [], tls_sent = []\<rparr>"

definition conn_fail :: "string \<Rightarrow> gxsTLSConnection \<Rightarrow> int \<times> gxsTLSConnection" where
  "conn_fail msg c = (-1, c\<lparr>conn_error := msg\<rparr>)"

definition Close_conn :: "gxsTLSConnection \<Rightarrow> gxsTLSConnection" where
  "Close_conn c = c\<lparr>secure := False, sock := Close_socket (sock c), rbuf := []\<rparr>"

definition not_open :: string where
  "not_open = ''TLS exception: The connection is not open''"

definition tls_handshake_client :: "gxsTLSConnection \<Rightarrow> int \<times> gxsTLSConnection" where
  "tls_handshake_client c =
     (case handshakes c of
        [] \<Rightarrow> conn_fail (tls_message c) c
      | No_context m # hs \<Rightarrow> conn_fail m (c\<lparr>handshakes := hs\<rparr>)
      | No_handshake m # hs \<Rightarrow> conn_fail m (c\<lparr>handshakes := hs\<rparr>)
      | Bad_certificate m half # hs \<Rightarrow>
          if verify_peer c
          then conn_fail (m @ '' for '' @ host_name c) (c\<lparr>handshakes := hs, sock := (sock c)\<lparr>sock_shut := half\<rparr>\<rparr>)
          else (0, c\<lparr>handshakes := hs, secure := True\<rparr>)
      | Handshake_done # hs \<Rightarrow> (0, c\<lparr>handshakes := hs, secure := True\<rparr>))"

definition StartTLS :: "gxsTLSConnection \<Rightarrow> int \<times> gxsTLSConnection" where
  "StartTLS c =
     (if \<not> sock_open (sock c) then conn_fail not_open c
      else if secure c then (0, c)
      else tls_handshake_client (c\<lparr>rbuf := []\<rparr>))"

definition set_link :: "link \<Rightarrow> gxsTLSConnection \<Rightarrow> gxsTLSConnection" where
  "set_link l c =
     c\<lparr>handshakes := link_handshakes l, tls_reads := link_tls_reads l, tls_writes := link_tls_writes l,
       tls_message := link_tls_message l, tls_sent := []\<rparr>"

definition Connect_conn :: "string \<Rightarrow> int \<Rightarrow> bool \<Rightarrow> link \<Rightarrow> gxsTLSConnection \<Rightarrow> int \<times> gxsTLSConnection" where
  "Connect_conn host port implicit_tls l c0 =
     (let s = Connect_socket l (sock (Close_conn c0));
          c = set_link l ((Close_conn c0)\<lparr>conn_error := [], host_name := host, sock := s\<rparr>)
      in if socket_error s \<noteq> gxSOCKET_NO_ERROR
         then conn_fail (SocketExceptionMessage (socket_error s) @ '': '' @ host @ '' port '' @ to_string port) c
         else if implicit_tls then StartTLS c
         else (0, c))"

text \<open>A connection that takes its TLS session from another one, whose certificate was checked.\<close>

definition AttachClient :: "gxSocket \<Rightarrow> string \<Rightarrow> link \<Rightarrow> bool \<Rightarrow> gxsTLSConnection \<Rightarrow> int \<times> gxsTLSConnection" where
  "AttachClient s host l session_secure c0 =
     (let c = set_link l ((Close_conn c0)\<lparr>conn_error := [], sock := s, host_name := host\<rparr>)
      in if \<not> session_secure then StartTLS c
         else (case handshakes c of
                 [] \<Rightarrow> conn_fail (tls_message c) c
               | No_context m # hs \<Rightarrow> conn_fail m (c\<lparr>handshakes := hs\<rparr>)
               | No_handshake m # hs \<Rightarrow> conn_fail m (c\<lparr>handshakes := hs\<rparr>)
               | _ # hs \<Rightarrow> (0, c\<lparr>handshakes := hs, secure := True\<rparr>)))"

section \<open>Transfers\<close>

definition SendSSLSocket :: "string \<Rightarrow> gxsTLSConnection \<Rightarrow> int \<times> gxsTLSConnection" where
  "SendSSLSocket buf c =
     (case tls_writes c of
        False # ws \<Rightarrow> (-1, c\<lparr>tls_writes := ws\<rparr>)
      | ws \<Rightarrow> (int (length buf), c\<lparr>tls_writes := tl ws, tls_sent := tls_sent c @ buf\<rparr>))"

definition Send :: "string \<Rightarrow> gxsTLSConnection \<Rightarrow> int \<times> gxsTLSConnection" where
  "Send buf c =
     (if \<not> sock_open (sock c) then conn_fail not_open c
      else if secure c then
        (case SendSSLSocket buf c of (rv, c1) \<Rightarrow>
           if rv \<noteq> int (length buf) then conn_fail (tls_message c1) c1 else (rv, c1))
      else (case Send_socket buf (sock c) of (rv, s) \<Rightarrow>
              if rv \<noteq> int (length buf) then conn_fail (SocketExceptionMessage (socket_error s)) (c\<lparr>sock := s\<rparr>)
              else (rv, c\<lparr>sock := s\<rparr>)))"

definition SendLine :: "string \<Rightarrow> gxsTLSConnection \<Rightarrow> int \<times> gxsTLSConnection" where
  "SendLine s c = Send (s @ [CHR 0x0D, CHR 0x0A]) c"

definition fill_size :: nat where "fill_size = 16384"

definition fill :: "gxsTLSConnection \<Rightarrow> int \<times> gxsTLSConnection" where
  "fill c =
     (if secure c then
        (case next_arrival fill_size (tls_reads c) of
           (Inl e, r) \<Rightarrow> conn_fail (tls_message c) (c\<lparr>tls_reads := r\<rparr>)
         | (Inr x, r) \<Rightarrow> (int (length x), c\<lparr>tls_reads := r, rbuf := rbuf c @ x\<rparr>))
      else (case RecvSome fill_size (sock c) of ((rv, x), s) \<Rightarrow>
              if rv < 0 then (-1, c\<lparr>sock := s, conn_error := SocketExceptionMessage (socket_error s)\<rparr>)
              else (rv, c\<lparr>sock := s, rbuf := rbuf c @ x\<rparr>)))"

definition pending :: "gxsTLSConnection \<Rightarrow> arrival list" where
  "pending c = (if secure c then tls_reads c else reads (sock c))"

text \<open>What the connection holds: a bound of what can still be read.\<close>

definition amount :: "gxsTLSConnection \<Rightarrow> nat" where
  "amount c = weight (pending c) + length (rbuf c)"

lemma fill_less: "fill c = (rv, c1) \<Longrightarrow> 0 < rv \<Longrightarrow> weight (pending c1) < weight (pending c)"
  by (auto simp: fill_def conn_fail_def pending_def RecvSome_def set_socket_error_def next_arrival_less
      split: if_splits prod.splits sum.splits)

lemma fill_amount: "fill c = (rv, c1) \<Longrightarrow> amount c1 \<le> amount c"
  by (auto simp: fill_def conn_fail_def amount_def pending_def RecvSome_def set_socket_error_def
      split: if_splits prod.splits sum.splits dest!: next_arrival_weight)

definition ReadSome :: "nat \<Rightarrow> gxsTLSConnection \<Rightarrow> (int \<times> string) \<times> gxsTLSConnection" where
  "ReadSome n c =
     (if n = 0 then ((0, []), c)
      else (case (if rbuf c = [] then fill c else (1, c)) of (rv, c1) \<Rightarrow>
              if rv \<le> 0 then ((rv, []), c1)
              else ((int (length (List.take n (rbuf c1))), List.take n (rbuf c1)), c1\<lparr>rbuf := drop n (rbuf c1)\<rparr>)))"

lemma fill_rbuf: "fill c = (rv, c1) \<Longrightarrow> 0 < rv \<Longrightarrow> rbuf c1 \<noteq> []"
  by (auto simp: fill_def conn_fail_def RecvSome_def split: if_splits prod.splits sum.splits)

lemma ReadSome_less: "ReadSome n c = ((rv, x), c1) \<Longrightarrow> 0 < rv \<Longrightarrow> amount c1 < amount c"
proof -
  assume r: "ReadSome n c = ((rv, x), c1)" "0 < rv"
  have less: "amount (c2\<lparr>rbuf := drop n (rbuf c2)\<rparr>) < amount c2" if "0 < n" "rbuf c2 \<noteq> []" for c2
    using that by (simp add: amount_def pending_def)
  show "amount c1 < amount c"
  proof (cases "rbuf c = []")
    case False
    then show ?thesis using r less [of c] by (auto simp: ReadSome_def split: if_splits)
  next
    case True
    obtain k c2 where f: "fill c = (k, c2)" by fastforce
    show ?thesis
      using r True fill_amount [OF f] fill_rbuf [OF f] less [of c2] by (auto simp: ReadSome_def f split: if_splits)
  qed
qed

function fill_to :: "nat \<Rightarrow> gxsTLSConnection \<Rightarrow> gxsTLSConnection" where
  "fill_to n c =
     (if length (rbuf c) < n then (case fill c of (rv, c1) \<Rightarrow> if rv \<le> 0 then c1 else fill_to n c1)
      else c)"
  by pat_completeness auto
termination by (relation "measure (\<lambda>(n, c). weight (pending c))") (auto dest!: fill_less [OF sym])

declare fill_to.simps [simp del]

definition Read_conn :: "nat \<Rightarrow> gxsTLSConnection \<Rightarrow> string \<times> gxsTLSConnection" where
  "Read_conn n c = (let c1 = fill_to n c in (List.take n (rbuf c1), c1\<lparr>rbuf := drop n (rbuf c1)\<rparr>))"

definition too_long :: string where
  "too_long = ''TLS exception: Line is too long''"

text \<open>True when the buffer has a line.\<close>

function fill_line :: "nat \<Rightarrow> gxsTLSConnection \<Rightarrow> bool \<times> gxsTLSConnection" where
  "fill_line max_len c =
     (if CHR 0x0A \<in> set (rbuf c) then (True, c)
      else if length (rbuf c) > max_len then (False, snd (conn_fail too_long c))
      else (case fill c of (rv, c1) \<Rightarrow> if rv \<le> 0 then (False, c1) else fill_line max_len c1))"
  by pat_completeness auto
termination by (relation "measure (\<lambda>(n, c). weight (pending c))") (auto dest!: fill_less [OF sym])

declare fill_line.simps [simp del]

definition drop_cr :: "string \<Rightarrow> string" where
  "drop_cr l = (if l \<noteq> [] \<and> last l = CHR 0x0D then butlast l else l)"

definition ReadLine :: "nat \<Rightarrow> gxsTLSConnection \<Rightarrow> string option \<times> gxsTLSConnection" where
  "ReadLine max_len c =
     (case fill_line max_len c of
        (False, c1) \<Rightarrow> (None, c1)
      | (True, c1) \<Rightarrow>
          let l = takeWhile (\<lambda>x. x \<noteq> CHR 0x0A) (rbuf c1)
          in if length l > max_len then (None, snd (conn_fail too_long c1))
             else (Some (drop_cr l), c1\<lparr>rbuf := drop (Suc (length l)) (rbuf c1)\<rparr>))"

text \<open>All that comes until the other side closes.\<close>

function ReadAll :: "nat option \<Rightarrow> gxsTLSConnection \<Rightarrow> string option \<times> gxsTLSConnection" where
  "ReadAll max_len c =
     (if (case max_len of None \<Rightarrow> False | Some n \<Rightarrow> length (rbuf c) > n)
      then (None, snd (conn_fail ''TLS exception: Response is too large'' c))
      else (case fill c of (rv, c1) \<Rightarrow>
              if rv = 0 then (Some (rbuf c1), c1\<lparr>rbuf := []\<rparr>)
              else if rv < 0 then (None, c1)
              else ReadAll max_len c1))"
  by pat_completeness auto
termination by (relation "measure (\<lambda>(n, c). weight (pending c))") (auto dest!: fill_less [OF sym])

declare ReadAll.simps [simp del]

section \<open>Reading takes from what the connection holds\<close>

lemma amount_fields [simp]:
  "amount (c\<lparr>conn_error := e\<rparr>) = amount c" "pending (c\<lparr>conn_error := e\<rparr>) = pending c"
  "pending (c\<lparr>rbuf := b\<rparr>) = pending c"
  by (simp_all add: amount_def pending_def)

lemma fill_line_amount: "fill_line n c = (b, c1) \<Longrightarrow> amount c1 \<le> amount c \<and> (b \<longrightarrow> CHR 0x0A \<in> set (rbuf c1))"
proof (induction n c arbitrary: b c1 rule: fill_line.induct)
  case (1 n c)
  obtain rv c2 where f: "fill c = (rv, c2)" by fastforce
  consider "CHR 0x0A \<in> set (rbuf c) \<or> length (rbuf c) > n" | "CHR 0x0A \<notin> set (rbuf c)" "\<not> length (rbuf c) > n" "rv \<le> 0"
    | "CHR 0x0A \<notin> set (rbuf c)" "\<not> length (rbuf c) > n" "\<not> rv \<le> 0" by fastforce
  then show ?case
  proof cases
    case 1
    then show ?thesis using "1.prems" by (subst (asm) fill_line.simps) (auto simp: conn_fail_def split: if_splits)
  next
    case 2
    then have "(False, c2) = (b, c1)" using "1.prems" f by (subst (asm) fill_line.simps) simp
    then show ?thesis using fill_amount [OF f] by simp
  next
    case 3
    then have "fill_line n c2 = (b, c1)" using "1.prems" f by (subst (asm) fill_line.simps) simp
    from "1.IH" [OF 3(1,2) f [symmetric] 3(3) this] show ?thesis using fill_amount [OF f] by simp
  qed
qed

lemma ReadLine_less:
  assumes "ReadLine n c = (Some l, c1)"
  shows "amount c1 < amount c"
proof -
  obtain c2 where f: "fill_line n c = (True, c2)"
    and c1: "c1 = c2\<lparr>rbuf := drop (Suc (length (takeWhile (\<lambda>x. x \<noteq> CHR 0x0A) (rbuf c2)))) (rbuf c2)\<rparr>"
    using assms by (auto simp: ReadLine_def Let_def split: prod.splits bool.splits if_splits)
  have a: "amount c2 \<le> amount c" "rbuf c2 \<noteq> []" using fill_line_amount [OF f] by auto
  then have "amount c1 < amount c2" by (simp add: c1 amount_def)
  with a show ?thesis by simp
qed

lemma fill_to_amount: "amount (fill_to n c) \<le> amount c"
proof (induction n c rule: fill_to.induct)
  case (1 n c)
  obtain rv c2 where f: "fill c = (rv, c2)" by fastforce
  show ?case
  proof (cases "length (rbuf c) < n \<and> \<not> rv \<le> 0")
    case True
    then have "fill_to n c = fill_to n c2" by (subst fill_to.simps) (simp add: f)
    then show ?thesis using 1 [OF _ f [symmetric]] True fill_amount [OF f] by simp
  next
    case False
    then have "fill_to n c = c \<or> fill_to n c = c2" by (subst (1 2) fill_to.simps) (auto simp: f)
    then show ?thesis using fill_amount [OF f] by auto
  qed
qed

lemma Read_conn_amount: "Read_conn n c = (x, c1) \<Longrightarrow> amount c1 \<le> amount c"
  using fill_to_amount [of n c] by (auto simp: Read_conn_def Let_def amount_def)

section \<open>Reading from a stream of bytes\<close>

text \<open>What a connection that can be read still gives: the buffer, then what comes.\<close>

definition alive :: "gxsTLSConnection \<Rightarrow> bool" where
  "alive c \<longleftrightarrow> secure c \<or> sock_open (sock c)"

definition stream :: "gxsTLSConnection \<Rightarrow> string" where
  "stream c = rbuf c @ coming (pending c)"

text \<open>What a read leaves alone.\<close>

definition same_side :: "gxsTLSConnection \<Rightarrow> gxsTLSConnection \<Rightarrow> bool" where
  "same_side c c1 \<longleftrightarrow> secure c1 = secure c \<and> sock_open (sock c1) = sock_open (sock c) \<and>
     sent (sock c1) = sent (sock c) \<and> tls_sent c1 = tls_sent c"

lemma same_side_refl [simp]: "same_side c c"
  by (simp add: same_side_def)

lemma same_side_trans: "same_side a b \<Longrightarrow> same_side b c \<Longrightarrow> same_side a c"
  by (simp add: same_side_def)

lemma same_side_alive: "same_side c c1 \<Longrightarrow> alive c1 = alive c"
  by (simp add: same_side_def alive_def)

lemma RecvSome_frame:
  assumes "RecvSome n s = (r, s1)"
  shows "sock_open s1 = sock_open s \<and> sent s1 = sent s"
  using assms by (auto simp: RecvSome_def set_socket_error_def split: if_splits prod.splits sum.splits)

lemma fill_same: "fill c = (rv, c1) \<Longrightarrow> same_side c c1"
  by (auto simp: fill_def conn_fail_def same_side_def dest!: RecvSome_frame split: if_splits prod.splits sum.splits)

lemma fill_stream:
  assumes "fill c = (rv, c1)" "alive c" "coming (pending c) \<noteq> []"
  shows "0 < rv" "stream c1 = stream c"
proof -
  note n = next_arrival_coming [of "pending c" fill_size, OF assms(3)]
  obtain x r where x: "next_arrival fill_size (pending c) = (Inr x, r)" "x \<noteq> []" "coming (pending c) = x @ coming r"
    using n by (auto simp: fill_size_def)
  show "0 < rv" "stream c1 = stream c"
    using assms x
    by (auto simp: fill_def pending_def stream_def alive_def RecvSome_def set_socket_error_def split: if_splits prod.splits)
qed

lemma fill_line_stream:
  assumes "alive c" "stream c = l @ CHR 0x0A # rest" "CHR 0x0A \<notin> set l" "length l \<le> n"
  shows "\<exists>c1. fill_line n c = (True, c1) \<and> stream c1 = stream c \<and> same_side c c1 \<and> CHR 0x0A \<in> set (rbuf c1)"
  using assms
proof (induction n c rule: fill_line.induct)
  case (1 n c)
  show ?case
  proof (cases "CHR 0x0A \<in> set (rbuf c)")
    case True
    then show ?thesis by (subst fill_line.simps) simp
  next
    case False
    have s: "rbuf c @ coming (pending c) = l @ CHR 0x0A # rest" using 1(3) by (simp add: stream_def)
    have len: "length (rbuf c) \<le> length l"
    proof (rule ccontr)
      assume "\<not> length (rbuf c) \<le> length l"
      then have "(rbuf c @ coming (pending c)) ! length l = rbuf c ! length l" by (simp add: nth_append)
      then have "rbuf c ! length l = CHR 0x0A" by (simp add: s nth_append)
      then show False using False \<open>\<not> length (rbuf c) \<le> length l\<close> by (metis not_le nth_mem)
    qed
    have ne: "coming (pending c) \<noteq> []" using s False by auto
    obtain rv c1 where f: "fill c = (rv, c1)" by fastforce
    note fs = fill_stream [OF f 1(2) ne] and sm = fill_same [OF f]
    have le: "\<not> n < length (rbuf c)" and rv: "\<not> rv \<le> 0" and al: "alive c1" and st: "stream c1 = l @ CHR 0x0A # rest"
      using len 1(2,3,5) fs same_side_alive [OF sm] by simp_all
    obtain c2 where c2: "fill_line n c1 = (True, c2)" "stream c2 = stream c1" "same_side c1 c2" "CHR 0x0A \<in> set (rbuf c2)"
      using 1(1) [OF False le f [symmetric] rv al st 1(4,5)] by blast
    have "fill_line n c = (True, c2)" using False le rv c2(1) by (subst fill_line.simps) (simp add: f)
    then show ?thesis using c2 fs(2) same_side_trans [OF sm c2(3)] by auto
  qed
qed

lemma ReadLine_stream:
  assumes "alive c" "stream c = l @ CHR 0x0A # rest" "CHR 0x0A \<notin> set l" "length l \<le> n"
  shows "\<exists>c1. ReadLine n c = (Some (drop_cr l), c1) \<and> stream c1 = rest \<and> same_side c c1"
proof -
  obtain c1 where c1: "fill_line n c = (True, c1)" "stream c1 = stream c" "same_side c c1" "CHR 0x0A \<in> set (rbuf c1)"
    using fill_line_stream [OF assms] by blast
  obtain a b where ab: "rbuf c1 = a @ CHR 0x0A # b" "CHR 0x0A \<notin> set a" using c1(4) split_list_first by metis
  have eq: "a @ CHR 0x0A # (b @ coming (pending c1)) = l @ CHR 0x0A # rest"
    using c1(2) assms(2) ab(1) by (simp add: stream_def)
  have tw: "takeWhile (\<lambda>x. x \<noteq> CHR 0x0A) (u @ CHR 0x0A # v) = u" if "CHR 0x0A \<notin> set u" for u v
    using that by (induction u) auto
  have l: "a = l" using tw [OF ab(2)] tw [OF assms(3)] eq by metis
  have r: "b @ coming (pending c1) = rest" using eq l by simp
  have tl: "takeWhile (\<lambda>x. x \<noteq> CHR 0x0A) (rbuf c1) = l" using tw [OF ab(2)] ab(1) l by simp
  show ?thesis
    using c1 tl assms(4) ab l r
    by (auto simp: ReadLine_def Let_def stream_def pending_def same_side_def)
qed

lemma fill_to_stream:
  assumes "alive c" "n \<le> length (stream c)"
  shows "stream (fill_to n c) = stream c \<and> same_side c (fill_to n c) \<and> n \<le> length (rbuf (fill_to n c))"
  using assms
proof (induction n c rule: fill_to.induct)
  case (1 n c)
  show ?case
  proof (cases "length (rbuf c) < n")
    case False
    then show ?thesis by (subst (1 2 3) fill_to.simps) simp
  next
    case True
    obtain rv c1 where f: "fill c = (rv, c1)" by fastforce
    have ne: "coming (pending c) \<noteq> []" using True 1(3) by (auto simp: stream_def)
    note fs = fill_stream [OF f 1(2) ne] and sm = fill_same [OF f]
    have "stream (fill_to n c1) = stream c1 \<and> same_side c1 (fill_to n c1) \<and> n \<le> length (rbuf (fill_to n c1))"
      using 1(1) [OF True f [symmetric]] fs 1(2,3) sm same_side_alive by fastforce
    moreover have "fill_to n c = fill_to n c1" using True fs by (subst fill_to.simps) (simp add: f)
    ultimately show ?thesis using fs sm by (auto dest: same_side_trans)
  qed
qed

lemma Read_conn_stream:
  assumes "alive c" "n \<le> length (stream c)"
  shows "\<exists>c1. Read_conn n c = (List.take n (stream c), c1) \<and> stream c1 = drop n (stream c) \<and> same_side c c1"
proof -
  note f = fill_to_stream [OF assms]
  let ?d = "fill_to n c"
  have "stream c = rbuf ?d @ coming (pending ?d)" using f by (simp add: stream_def)
  then show ?thesis using f by (simp add: Read_conn_def Let_def stream_def pending_def same_side_def)
qed

end
