(* ===== verification/NetClients.thy ===== *)
theory NetClients
  imports NetConn Base64 Config
begin

text \<open>
  The mail and file transfer clients over a connection: \<open>gxsSMTPClient\<close> (\<open>src/src/gxsmtp.cpp\<close>), \<open>gxsPOP3Client\<close>
  (\<open>src/src/gxspop3.cpp\<close>) and \<open>gxsFTPClient\<close> (\<open>src/src/gxsftp.cpp\<close>), and the stream of database blocks
  \<open>gxStream\<close> (\<open>src/src/gxstream.cpp\<close>). Of the clients for mail and files an operation returns 0 or \<open>-1\<close>. The name of this
  host, the time and the random number of a message are arguments.
\<close>

datatype gxsMailSecurity = gxsMAIL_IMPLICIT_TLS | gxsMAIL_STARTTLS

definition has_line_break :: "string \<Rightarrow> bool" where
  "has_line_break s \<longleftrightarrow> CHR 0x0D \<in> set s \<or> CHR 0x0A \<in> set s"

definition with_error :: "string \<Rightarrow> gxsTLSConnection \<Rightarrow> string" where
  "with_error msg c = msg @ (if conn_error c = [] then [] else '': '' @ conn_error c)"

definition atoi :: "string \<Rightarrow> int" where
  "atoi s = to_int s"

section \<open>SMTP\<close>

record gxsSMTPClient =
  smtp_conn :: gxsTLSConnection
  client_name :: string
  extensions :: "string list"
  last_code :: int
  last_reply :: string
  smtp_error :: string

definition new_gxsSMTPClient :: "bool \<Rightarrow> string \<Rightarrow> gxsSMTPClient" where
  "new_gxsSMTPClient verify name =
     \<lparr>smtp_conn = new_gxsTLSConnection verify, client_name = name, extensions = [], last_code = 0, last_reply = [],
      smtp_error = []\<rparr>"

definition smtp_fail :: "string \<Rightarrow> gxsSMTPClient \<Rightarrow> int \<times> gxsSMTPClient" where
  "smtp_fail msg c = (-1, c\<lparr>smtp_error := msg\<rparr>)"

fun smtp_reply_loop :: "nat \<Rightarrow> gxsSMTPClient \<Rightarrow> int \<times> gxsSMTPClient" where
  "smtp_reply_loop 0 c = smtp_fail ''SMTP exception: Reply is too long'' c"
| "smtp_reply_loop (Suc k) c0 =
     (case ReadLine 4096 (smtp_conn c0) of (r, cn) \<Rightarrow>
        let c = c0\<lparr>smtp_conn := cn\<rparr>
        in case r of
             None \<Rightarrow> smtp_fail (with_error ''SMTP exception: No reply from server'' cn) c
           | Some line \<Rightarrow>
               if length line < 3 then smtp_fail (''SMTP exception: Bad reply: '' @ line) c
               else let c1 = c\<lparr>last_reply := (if last_reply c \<noteq> [] then last_reply c @ [CHR 0x0A] else []) @ line\<rparr>
                    in if length line = 3 \<or> line ! 3 \<noteq> CHR ''-''
                       then (atoi (List.take 3 line), c1\<lparr>last_code := atoi (List.take 3 line)\<rparr>)
                       else smtp_reply_loop k c1)"

definition smtp_read_reply :: "gxsSMTPClient \<Rightarrow> int \<times> gxsSMTPClient" where
  "smtp_read_reply c = smtp_reply_loop 1000 (c\<lparr>last_reply := [], last_code := 0\<rparr>)"

definition smtp_Command :: "string \<Rightarrow> string \<Rightarrow> gxsSMTPClient \<Rightarrow> int \<times> gxsSMTPClient" where
  "smtp_Command cmd expect c =
     (if has_line_break cmd then smtp_fail ''SMTP exception: Command contains a line break'' c
      else (case SendLine cmd (smtp_conn c) of (rv, cn) \<Rightarrow>
              let c1 = c\<lparr>smtp_conn := cn\<rparr>
              in if rv < 0 then smtp_fail (''SMTP exception: '' @ conn_error cn) c1
                 else (case smtp_read_reply c1 of (code, c2) \<Rightarrow>
                         if code < 0 then (-1, c2)
                         else if \<not> starts_with (to_string (last_code c2)) expect
                         then smtp_fail (''SMTP exception: '' @ last_reply c2) c2
                         else (0, c2))))"

text \<open>The next operation when the one before returned 0.\<close>

definition and_then :: "int \<times> 'c \<Rightarrow> ('c \<Rightarrow> int \<times> 'c) \<Rightarrow> int \<times> 'c" where
  "and_then r f = (case r of (rv, c) \<Rightarrow> if rv \<noteq> 0 then (-1, c) else f c)"

definition ehlo_name :: "string \<Rightarrow> gxsSMTPClient \<Rightarrow> string" where
  "ehlo_name hostname c =
     (let n = (if client_name c = [] then hostname else client_name c) in if n = [] then ''localhost'' else n)"

definition ehlo :: "string \<Rightarrow> gxsSMTPClient \<Rightarrow> int \<times> gxsSMTPClient" where
  "ehlo hostname c =
     and_then (smtp_Command (''EHLO '' @ ehlo_name hostname c) ''250'' c) (\<lambda>c1.
       (0, c1\<lparr>extensions := map (\<lambda>l. to_upper (drop 4 l))
                (filter (\<lambda>l. length l > 4) (tl (split (last_reply c1) (CHR 0x0A) False)))\<rparr>))"

definition HasExtension :: "string \<Rightarrow> gxsSMTPClient \<Rightarrow> bool" where
  "HasExtension name c =
     (let n = to_upper name in list_ex (\<lambda>e. e = n \<or> starts_with e (n @ '' '')) (extensions c))"

definition smtp_Connect ::
  "string \<Rightarrow> string \<Rightarrow> int \<Rightarrow> gxsMailSecurity \<Rightarrow> link \<Rightarrow> gxsSMTPClient \<Rightarrow> int \<times> gxsSMTPClient"
where
  "smtp_Connect hostname host port security l c0 =
     (case Connect_conn host port (security = gxsMAIL_IMPLICIT_TLS) l (smtp_conn c0) of (rv, cn) \<Rightarrow>
        let c = c0\<lparr>smtp_error := [], smtp_conn := cn\<rparr>
        in if rv \<noteq> 0 then smtp_fail (conn_error cn) c
           else (case smtp_read_reply c of (code, c1) \<Rightarrow>
             if code < 0 then (-1, c1)
             else if last_code c1 \<noteq> 220 then smtp_fail (''SMTP exception: '' @ last_reply c1) c1
             else and_then (ehlo hostname c1) (\<lambda>c2.
               if security \<noteq> gxsMAIL_STARTTLS then (0, c2)
               else if \<not> HasExtension ''STARTTLS'' c2
               then smtp_fail (''SMTP exception: '' @ host @ '' does not offer STARTTLS'')
                      (c2\<lparr>smtp_conn := Close_conn (smtp_conn c2)\<rparr>)
               else and_then (smtp_Command ''STARTTLS'' ''220'' c2) (\<lambda>c3.
                 (case StartTLS (smtp_conn c3) of (rv3, cn3) \<Rightarrow>
                    let c4 = c3\<lparr>smtp_conn := cn3\<rparr>
                    in if rv3 \<noteq> 0 then smtp_fail (conn_error cn3) c4 else ehlo hostname c4)))))"

definition encode_text :: "string \<Rightarrow> string" where
  "encode_text s = gxsBase64Encode (map byte_of_char s)"

definition auth_line :: "gxsSMTPClient \<Rightarrow> string" where
  "auth_line c = fold (\<lambda>e a. if starts_with e ''AUTH '' then e else a) (extensions c) []"

definition smtp_Login :: "string \<Rightarrow> string \<Rightarrow> gxsSMTPClient \<Rightarrow> int \<times> gxsSMTPClient" where
  "smtp_Login user passwd c =
     (let auth = auth_line c
      in if find_sub '' PLAIN'' auth \<noteq> None \<or> auth = []
         then smtp_Command (''AUTH PLAIN '' @ encode_text ([CHR 0x00] @ user @ [CHR 0x00] @ passwd)) ''235'' c
         else and_then (smtp_Command ''AUTH LOGIN'' ''334'' c) (\<lambda>c1.
                and_then (smtp_Command (encode_text user) ''334'' c1) (smtp_Command (encode_text passwd) ''235'')))"

definition angle :: "string \<Rightarrow> string" where
  "angle address =
     (let a = trim address
      in if a \<noteq> [] \<and> hd a = CHR ''<'' then a
         else (case find_sub ''<'' a of Some lt \<Rightarrow> drop lt a | None \<Rightarrow> ''<'' @ a @ ''>''))"

definition MailFrom :: "string \<Rightarrow> gxsSMTPClient \<Rightarrow> int \<times> gxsSMTPClient" where
  "MailFrom address c = smtp_Command (''MAIL FROM:'' @ angle address) ''250'' c"

definition RcptTo :: "string \<Rightarrow> gxsSMTPClient \<Rightarrow> int \<times> gxsSMTPClient" where
  "RcptTo address c = smtp_Command (''RCPT TO:'' @ angle address) ''25'' c"

text \<open>Line ends become CR LF, and a dot at the start of a line is doubled; whether the end is at the start of a line.\<close>

fun data_loop :: "bool \<Rightarrow> string \<Rightarrow> string \<times> bool" where
  "data_loop line_start [] = ([], line_start)"
| "data_loop line_start (c # cs) =
     (if c = CHR 0x0D \<and> cs \<noteq> [] \<and> hd cs = CHR 0x0A then data_loop line_start cs
      else if c = CHR 0x0D \<or> c = CHR 0x0A
      then (case data_loop True cs of (out, e) \<Rightarrow> (CHR 0x0D # CHR 0x0A # out, e))
      else (case data_loop False cs of (out, e) \<Rightarrow>
              ((if line_start \<and> c = CHR ''.'' then [CHR ''.''] else []) @ c # out, e)))"

definition data_text :: "string \<Rightarrow> string" where
  "data_text message =
     (case data_loop True message of (out, line_start) \<Rightarrow>
        out @ (if line_start then [] else [CHR 0x0D, CHR 0x0A]) @ [CHR ''.'', CHR 0x0D, CHR 0x0A])"

definition Data :: "string \<Rightarrow> gxsSMTPClient \<Rightarrow> int \<times> gxsSMTPClient" where
  "Data message c =
     and_then (smtp_Command ''DATA'' ''354'' c) (\<lambda>c1.
       (case Send (data_text message) (smtp_conn c1) of (rv, cn) \<Rightarrow>
          let c2 = c1\<lparr>smtp_conn := cn\<rparr>
          in if rv < 0 then smtp_fail (''SMTP exception: '' @ conn_error cn) c2
             else (case smtp_read_reply c2 of (code, c3) \<Rightarrow>
                     if code < 0 then (-1, c3)
                     else if last_code c3 \<noteq> 250 then smtp_fail (''SMTP exception: '' @ last_reply c3) c3
                     else (0, c3))))"

definition smtp_Reset :: "gxsSMTPClient \<Rightarrow> int \<times> gxsSMTPClient" where
  "smtp_Reset c = smtp_Command ''RSET'' ''250'' c"

definition smtp_Quit :: "gxsSMTPClient \<Rightarrow> int \<times> gxsSMTPClient" where
  "smtp_Quit c = (case smtp_Command ''QUIT'' ''221'' c of (rv, c1) \<Rightarrow> (rv, c1\<lparr>smtp_conn := Close_conn (smtp_conn c1)\<rparr>))"

fun rcpt_loop :: "string list \<Rightarrow> string \<Rightarrow> gxsSMTPClient \<Rightarrow> (int \<times> string) \<times> gxsSMTPClient" where
  "rcpt_loop [] to_header c = ((0, to_header), c)"
| "rcpt_loop (t # ts) to_header c =
     (if has_line_break t then (case smtp_fail ''SMTP exception: Header contains a line break'' c of (rv, c1) \<Rightarrow> ((rv, to_header), c1))
      else (case RcptTo t c of (rv, c1) \<Rightarrow>
              if rv \<noteq> 0 then ((-1, to_header), c1)
              else rcpt_loop ts ((if to_header \<noteq> [] then to_header @ '', '' else []) @ t) c1))"

definition from_domain :: "string \<Rightarrow> string" where
  "from_domain from =
     (case rfind_sub ''@'' from of
        None \<Rightarrow> ''localhost''
      | Some i \<Rightarrow> takeWhile (\<lambda>x. x \<noteq> CHR ''>'') (drop (i + 1) from))"

definition crlf :: string where "crlf = [CHR 0x0D, CHR 0x0A]"

definition message_text :: "string \<Rightarrow> string \<Rightarrow> string \<Rightarrow> string \<Rightarrow> string \<Rightarrow> string \<Rightarrow> string" where
  "message_text now ident from to_header subject body =
     ''Date: '' @ now @ crlf @ ''From: '' @ from @ crlf @ ''To: '' @ to_header @ crlf @ ''Subject: '' @ subject @ crlf @
     ''Message-ID: <'' @ ident @ ''@'' @ from_domain from @ ''>'' @ crlf @ ''MIME-Version: 1.0'' @ crlf @
     ''Content-Type: text/plain; charset=utf-8'' @ crlf @ ''Content-Transfer-Encoding: 8bit'' @ crlf @ crlf @ body"

definition SendMessage ::
  "string \<Rightarrow> string \<Rightarrow> string \<Rightarrow> string list \<Rightarrow> string \<Rightarrow> string \<Rightarrow> gxsSMTPClient \<Rightarrow> int \<times> gxsSMTPClient"
where
  "SendMessage now ident from to_list subject body c =
     (if to_list = [] then smtp_fail ''SMTP exception: No recipients'' c
      else if has_line_break from \<or> has_line_break subject
      then smtp_fail ''SMTP exception: Header contains a line break'' c
      else and_then (MailFrom from c) (\<lambda>c1.
        (case rcpt_loop to_list [] c1 of ((rv, to_header), c2) \<Rightarrow>
           if rv \<noteq> 0 then (-1, c2) else Data (message_text now ident from to_header subject body) c2)))"

section \<open>POP3\<close>

record gxsPOP3Client =
  pop_conn :: gxsTLSConnection
  pop_reply :: string
  pop_error :: string

definition new_gxsPOP3Client :: "bool \<Rightarrow> gxsPOP3Client" where
  "new_gxsPOP3Client verify = \<lparr>pop_conn = new_gxsTLSConnection verify, pop_reply = [], pop_error = []\<rparr>"

definition pop_fail :: "string \<Rightarrow> gxsPOP3Client \<Rightarrow> int \<times> gxsPOP3Client" where
  "pop_fail msg c = (-1, c\<lparr>pop_error := msg\<rparr>)"

text \<open>\<open>ReadLine\<close> clears the line that it is given, also when it fails.\<close>

definition read_status :: "gxsPOP3Client \<Rightarrow> int \<times> gxsPOP3Client" where
  "read_status c =
     (case ReadLine 4096 (pop_conn c) of
        (None, cn) \<Rightarrow> pop_fail (with_error ''POP3 exception: No reply from server'' cn) (c\<lparr>pop_conn := cn, pop_reply := []\<rparr>)
      | (Some line, cn) \<Rightarrow>
          let c1 = c\<lparr>pop_conn := cn, pop_reply := line\<rparr>
          in if \<not> starts_with line ''+OK'' then pop_fail (''POP3 exception: '' @ line) c1 else (0, c1))"

definition multiline_limit :: nat where "multiline_limit = 1048576"

text \<open>The lines up to one with a single dot; a line that starts with a dot loses it.\<close>

function multiline_loop :: "string \<Rightarrow> gxsPOP3Client \<Rightarrow> (int \<times> string) \<times> gxsPOP3Client" where
  "multiline_loop data c0 =
     (case ReadLine multiline_limit (pop_conn c0) of
        (None, cn) \<Rightarrow>
          (case pop_fail (with_error ''POP3 exception: Incomplete reply'' cn) (c0\<lparr>pop_conn := cn\<rparr>) of (rv, c) \<Rightarrow> ((rv, data), c))
      | (Some line, cn) \<Rightarrow>
          if line = ''.'' then ((0, data), c0\<lparr>pop_conn := cn\<rparr>)
          else multiline_loop (data @ (if line \<noteq> [] \<and> hd line = CHR ''.'' then tl line else line) @ crlf) (c0\<lparr>pop_conn := cn\<rparr>))"
  by pat_completeness auto
termination
  by (relation "measure (\<lambda>(d, c). amount (pop_conn c))") (auto dest!: ReadLine_less [OF sym])

declare multiline_loop.simps [simp del]

definition read_multiline :: "gxsPOP3Client \<Rightarrow> (int \<times> string) \<times> gxsPOP3Client" where
  "read_multiline c = multiline_loop [] c"

definition pop_Command :: "string \<Rightarrow> gxsPOP3Client \<Rightarrow> int \<times> gxsPOP3Client" where
  "pop_Command cmd c =
     (if has_line_break cmd then pop_fail ''POP3 exception: Command contains a line break'' c
      else (case SendLine cmd (pop_conn c) of (rv, cn) \<Rightarrow>
              let c1 = c\<lparr>pop_conn := cn\<rparr>
              in if rv < 0 then pop_fail (''POP3 exception: '' @ conn_error cn) c1 else read_status c1))"

definition pop_Connect :: "string \<Rightarrow> int \<Rightarrow> gxsMailSecurity \<Rightarrow> link \<Rightarrow> gxsPOP3Client \<Rightarrow> int \<times> gxsPOP3Client" where
  "pop_Connect host port security l c0 =
     (case Connect_conn host port (security = gxsMAIL_IMPLICIT_TLS) l (pop_conn c0) of (rv, cn) \<Rightarrow>
        let c = c0\<lparr>pop_error := [], pop_conn := cn\<rparr>
        in if rv \<noteq> 0 then pop_fail (conn_error cn) c
           else and_then (read_status c) (\<lambda>c1.
             if security \<noteq> gxsMAIL_STARTTLS then (0, c1)
             else (case pop_Command ''STLS'' c1 of (rv2, c2) \<Rightarrow>
               if rv2 \<noteq> 0
               then pop_fail (''POP3 exception: '' @ host @ '' does not accept STLS'') (c2\<lparr>pop_conn := Close_conn (pop_conn c2)\<rparr>)
               else (case StartTLS (pop_conn c2) of (rv3, cn3) \<Rightarrow>
                       let c3 = c2\<lparr>pop_conn := cn3\<rparr>
                       in if rv3 \<noteq> 0 then pop_fail (conn_error cn3) c3 else (0, c3)))))"

definition pop_Login :: "string \<Rightarrow> string \<Rightarrow> gxsPOP3Client \<Rightarrow> int \<times> gxsPOP3Client" where
  "pop_Login user passwd c = and_then (pop_Command (''USER '' @ user) c) (pop_Command (''PASS '' @ passwd))"

definition Stat :: "gxsPOP3Client \<Rightarrow> (int \<times> int \<times> int) \<times> gxsPOP3Client" where
  "Stat c =
     (case pop_Command ''STAT'' c of (rv, c1) \<Rightarrow>
        if rv \<noteq> 0 then ((-1, 0, 0), c1)
        else let f = split (pop_reply c1) (CHR '' '') True
             in if length f < 3 then (case pop_fail (''POP3 exception: Bad STAT reply: '' @ pop_reply c1) c1 of (rv2, c2) \<Rightarrow> ((rv2, 0, 0), c2))
                else ((0, atoi (f ! 1), to_long (f ! 2)), c1))"

definition multiline_command :: "string \<Rightarrow> string \<Rightarrow> gxsPOP3Client \<Rightarrow> (int \<times> string) \<times> gxsPOP3Client" where
  "multiline_command cmd old c =
     (case pop_Command cmd c of (rv, c1) \<Rightarrow> if rv \<noteq> 0 then ((-1, old), c1) else read_multiline c1)"

definition pop_List :: "string \<Rightarrow> gxsPOP3Client \<Rightarrow> (int \<times> string) \<times> gxsPOP3Client" where
  "pop_List listing c = multiline_command ''LIST'' listing c"

definition Retr :: "int \<Rightarrow> string \<Rightarrow> gxsPOP3Client \<Rightarrow> (int \<times> string) \<times> gxsPOP3Client" where
  "Retr message_number message c = multiline_command (''RETR '' @ to_string message_number) message c"

definition Top :: "int \<Rightarrow> int \<Rightarrow> string \<Rightarrow> gxsPOP3Client \<Rightarrow> (int \<times> string) \<times> gxsPOP3Client" where
  "Top message_number lines message c =
     multiline_command (''TOP '' @ to_string message_number @ '' '' @ to_string lines) message c"

definition pop_Delete :: "int \<Rightarrow> gxsPOP3Client \<Rightarrow> int \<times> gxsPOP3Client" where
  "pop_Delete message_number c = pop_Command (''DELE '' @ to_string message_number) c"

definition pop_Reset :: "gxsPOP3Client \<Rightarrow> int \<times> gxsPOP3Client" where
  "pop_Reset c = pop_Command ''RSET'' c"

definition pop_Quit :: "gxsPOP3Client \<Rightarrow> int \<times> gxsPOP3Client" where
  "pop_Quit c = (case pop_Command ''QUIT'' c of (rv, c1) \<Rightarrow> (rv, c1\<lparr>pop_conn := Close_conn (pop_conn c1)\<rparr>))"

section \<open>FTP\<close>

text \<open>
  The transfer of files over TLS. The state has the address of the server, which the socket knows, and the list of the
  addresses and ports that data connections were opened to. What a data connection finds is the argument \<open>l\<close> of the
  operation that opens it.
\<close>

record gxsFTPClient =
  ftp_conn :: gxsTLSConnection
  ftp_host :: string
  ftp_code :: int
  ftp_reply :: string
  ftp_error :: string
  peer_address :: string
  dialed :: "(string \<times> int) list"

definition new_gxsFTPClient :: "bool \<Rightarrow> gxsFTPClient" where
  "new_gxsFTPClient verify =
     \<lparr>ftp_conn = new_gxsTLSConnection verify, ftp_host = [], ftp_code = 0, ftp_reply = [], ftp_error = [],
      peer_address = [], dialed = []\<rparr>"

definition ftp_fail :: "string \<Rightarrow> gxsFTPClient \<Rightarrow> int \<times> gxsFTPClient" where
  "ftp_fail msg c = (-1, c\<lparr>ftp_error := msg\<rparr>)"

text \<open>The lines of a reply after its first one, up to one with the same code and a blank; \<open>k\<close> more may be read.\<close>

fun ftp_more_lines :: "nat \<Rightarrow> string \<Rightarrow> gxsFTPClient \<Rightarrow> bool \<times> gxsFTPClient" where
  "ftp_more_lines 0 code c = (False, c)"
| "ftp_more_lines (Suc k) code c =
     (case ReadLine 8192 (ftp_conn c) of
        (None, cn) \<Rightarrow> (False, c\<lparr>ftp_conn := cn\<rparr>)
      | (Some line, cn) \<Rightarrow>
          let c1 = c\<lparr>ftp_conn := cn, ftp_reply := ftp_reply c @ [CHR 0x0A] @ line\<rparr>
          in if length line \<ge> 4 \<and> List.take 3 line = code \<and> line ! 3 = CHR '' '' then (True, c1)
             else ftp_more_lines k code c1)"

definition ftp_read_reply :: "gxsFTPClient \<Rightarrow> int \<times> gxsFTPClient" where
  "ftp_read_reply c =
     (case ReadLine 8192 (ftp_conn c) of
        (None, cn) \<Rightarrow>
          ftp_fail (with_error ''FTP exception: No reply from server'' cn) (c\<lparr>ftp_conn := cn, ftp_reply := [], ftp_code := 0\<rparr>)
      | (Some line, cn) \<Rightarrow>
          let c1 = c\<lparr>ftp_conn := cn, ftp_reply := line, ftp_code := 0\<rparr>; code = List.take 3 line
          in if length line < 3 then ftp_fail (''FTP exception: Bad reply: '' @ line) c1
             else (case (if length line > 3 \<and> line ! 3 = CHR ''-'' then ftp_more_lines 10001 code c1 else (True, c1)) of
                     (False, c2) \<Rightarrow> ftp_fail ''FTP exception: Incomplete reply'' c2
                   | (True, c2) \<Rightarrow> (atoi code, c2\<lparr>ftp_code := atoi code\<rparr>)))"

definition ftp_Command :: "string \<Rightarrow> string \<Rightarrow> gxsFTPClient \<Rightarrow> int \<times> gxsFTPClient" where
  "ftp_Command cmd expect c =
     (if has_line_break cmd then ftp_fail ''FTP exception: Command contains a line break'' c
      else (case SendLine cmd (ftp_conn c) of (rv, cn) \<Rightarrow>
              let c1 = c\<lparr>ftp_conn := cn\<rparr>
              in if rv < 0 then ftp_fail (''FTP exception: '' @ conn_error cn) c1
                 else (case ftp_read_reply c1 of (code, c2) \<Rightarrow>
                         if code < 0 then (-1, c2)
                         else if \<not> starts_with (to_string (ftp_code c2)) expect
                         then ftp_fail (''FTP exception: '' @ ftp_reply c2) c2
                         else (0, c2))))"

definition ftp_Connect ::
  "string \<Rightarrow> string \<Rightarrow> int \<Rightarrow> gxsMailSecurity \<Rightarrow> link \<Rightarrow> gxsFTPClient \<Rightarrow> int \<times> gxsFTPClient"
where
  "ftp_Connect address host port security l c0 =
     (case Connect_conn host port (security = gxsMAIL_IMPLICIT_TLS) l (ftp_conn c0) of (rv, cn) \<Rightarrow>
        let c = c0\<lparr>ftp_error := [], ftp_host := host, ftp_conn := cn, peer_address := address\<rparr>
        in if rv \<noteq> 0 then ftp_fail (conn_error cn) c
           else (case ftp_read_reply c of (code, c1) \<Rightarrow>
             if code < 0 then (-1, c1)
             else if ftp_code c1 \<noteq> 220 then ftp_fail (''FTP exception: '' @ ftp_reply c1) c1
             else if security \<noteq> gxsMAIL_STARTTLS then (0, c1)
             else (case ftp_Command ''AUTH TLS'' ''234'' c1 of (rv2, c2) \<Rightarrow>
               if rv2 \<noteq> 0
               then ftp_fail (''FTP exception: '' @ host @ '' does not accept AUTH TLS'') (c2\<lparr>ftp_conn := Close_conn (ftp_conn c2)\<rparr>)
               else (case StartTLS (ftp_conn c2) of (rv3, cn3) \<Rightarrow>
                       let c3 = c2\<lparr>ftp_conn := cn3\<rparr>
                       in if rv3 \<noteq> 0 then ftp_fail (conn_error cn3) c3 else (0, c3)))))"

definition ftp_Type :: "char \<Rightarrow> gxsFTPClient \<Rightarrow> int \<times> gxsFTPClient" where
  "ftp_Type t c = ftp_Command (''TYPE '' @ [t]) ''2'' c"

definition ftp_Login :: "string \<Rightarrow> string \<Rightarrow> gxsFTPClient \<Rightarrow> int \<times> gxsFTPClient" where
  "ftp_Login user passwd c =
     and_then (ftp_Command (''USER '' @ user) [] c) (\<lambda>c1.
       and_then (if ftp_code c1 = 331 then ftp_Command (''PASS '' @ passwd) ''2'' c1
                 else if ftp_code c1 div 100 \<noteq> 2 then ftp_fail (''FTP exception: '' @ ftp_reply c1) c1
                 else (0, c1)) (\<lambda>c2.
         and_then (ftp_Command ''PBSZ 0'' ''2'' c2) (\<lambda>c3.
           and_then (ftp_Command ''PROT P'' ''2'' c3) (ftp_Type (CHR ''I'')))))"

text \<open>The port of the reply to \<open>EPSV\<close>, or 0, and that of the reply to \<open>PASV\<close>.\<close>

definition epsv_port :: "string \<Rightarrow> int" where
  "epsv_port reply = (case find_sub ''(|||'' reply of None \<Rightarrow> 0 | Some a \<Rightarrow> atoi (drop (a + 4) reply))"

definition pasv_port :: "string \<Rightarrow> int option" where
  "pasv_port reply =
     (case find_sub ''('' reply of
        None \<Rightarrow> None
      | Some a \<Rightarrow>
          (case find_sub '')'' (drop a reply) of
             None \<Rightarrow> None
           | Some b \<Rightarrow>
               let f = split (List.take (b - 1) (drop (a + 1) reply)) (CHR '','') False
               in if length f \<noteq> 6 then None else Some (to_s32 (atoi (f ! 4) * 256 + atoi (f ! 5)))))"

definition data_port :: "gxsFTPClient \<Rightarrow> (int \<times> int) \<times> gxsFTPClient" where
  "data_port c =
     (case ftp_Command ''EPSV'' ''229'' c of (rv, c1) \<Rightarrow>
        let port = (if rv = 0 then epsv_port (ftp_reply c1) else 0)
        in if port > 0 then ((0, port), c1)
           else (case ftp_Command ''PASV'' ''227'' c1 of (rv2, c2) \<Rightarrow>
                   if rv2 \<noteq> 0 then ((-1, 0), c2)
                   else (case pasv_port (ftp_reply c2) of
                           None \<Rightarrow> (case ftp_fail (''FTP exception: Bad PASV reply: '' @ ftp_reply c2) c2 of (r, c3) \<Rightarrow> ((r, 0), c3))
                         | Some p \<Rightarrow> ((0, p), c2))))"

text \<open>The result, the data connection, and the client.\<close>

definition open_data ::
  "link \<Rightarrow> string \<Rightarrow> gxsFTPClient \<Rightarrow> (int \<times> gxsTLSConnection) \<times> gxsFTPClient"
where
  "open_data l cmd c =
     (let data0 = new_gxsTLSConnection True
      in case data_port c of ((rv, port), c1) \<Rightarrow>
        if rv \<noteq> 0 then ((-1, data0), c1)
        else if port \<le> 0 \<or> port > 65535 then (case ftp_fail ''FTP exception: Bad data port'' c1 of (r, c2) \<Rightarrow> ((r, data0), c2))
        else let s = Connect_socket l new_gxSocket; c2 = c1\<lparr>dialed := dialed c1 @ [(peer_address c1, port)]\<rparr>
             in if socket_error s \<noteq> gxSOCKET_NO_ERROR
                then (case ftp_fail (''FTP exception: Data connection: '' @ SocketExceptionMessage (socket_error s)) c2 of
                        (r, c3) \<Rightarrow> ((r, data0), c3))
                else (case ftp_Command cmd ''1'' c2 of (rv2, c3) \<Rightarrow>
                  if rv2 \<noteq> 0 then ((-1, data0), c3)
                  else (case AttachClient s (ftp_host c3) l (secure (ftp_conn c3)) data0 of (rv3, data) \<Rightarrow>
                          if rv3 \<noteq> 0
                          then (case ftp_fail (''FTP exception: Data connection TLS: '' @ conn_error data) c3 of
                                  (r, c4) \<Rightarrow> ((r, data), c4))
                          else ((0, data), c3))))"

definition finish_data :: "gxsFTPClient \<Rightarrow> int \<times> gxsFTPClient" where
  "finish_data c =
     (case ftp_read_reply c of (code, c1) \<Rightarrow>
        if code < 0 then (-1, c1)
        else if ftp_code c1 div 100 \<noteq> 2 then ftp_fail (''FTP exception: '' @ ftp_reply c1) c1
        else (0, c1))"

text \<open>The end of a transfer that failed: the reply is read and not looked at.\<close>

definition broken_off :: "string \<Rightarrow> gxsFTPClient \<Rightarrow> int \<times> gxsFTPClient" where
  "broken_off msg c = ftp_fail msg (snd (ftp_read_reply c))"

definition ftp_List :: "link \<Rightarrow> string \<Rightarrow> bool \<Rightarrow> gxsFTPClient \<Rightarrow> (int \<times> string) \<times> gxsFTPClient" where
  "ftp_List l path full c =
     (let cmd = (if full then ''LIST'' else ''NLST'') @ (if path \<noteq> [] then '' '' @ path else [])
      in case open_data l cmd c of ((rv, data), c1) \<Rightarrow>
        if rv \<noteq> 0 then ((-1, []), c1)
        else (case ReadAll None data of
                (None, d) \<Rightarrow> (case broken_off (''FTP exception: Listing failed: '' @ conn_error d) c1 of (r, c2) \<Rightarrow> ((r, []), c2))
              | (Some s, d) \<Rightarrow> (case finish_data c1 of (r, c2) \<Rightarrow> ((r, s), c2))))"

definition GetString_ftp :: "link \<Rightarrow> string \<Rightarrow> gxsFTPClient \<Rightarrow> (int \<times> string) \<times> gxsFTPClient" where
  "GetString_ftp l remote c =
     (case open_data l (''RETR '' @ remote) c of ((rv, data), c1) \<Rightarrow>
        if rv \<noteq> 0 then ((-1, []), c1)
        else (case ReadAll None data of
                (None, d) \<Rightarrow> (case broken_off (''FTP exception: Download failed: '' @ conn_error d) c1 of (r, c2) \<Rightarrow> ((r, []), c2))
              | (Some s, d) \<Rightarrow> (case finish_data c1 of (r, c2) \<Rightarrow> ((r, s), c2))))"

definition PutString :: "link \<Rightarrow> string \<Rightarrow> string \<Rightarrow> gxsFTPClient \<Rightarrow> (int \<times> gxsTLSConnection) \<times> gxsFTPClient" where
  "PutString l s remote c =
     (case open_data l (''STOR '' @ remote) c of ((rv, data), c1) \<Rightarrow>
        if rv \<noteq> 0 then ((-1, data), c1)
        else (case Send s data of (n, d) \<Rightarrow>
                case (if n < 0 then broken_off (''FTP exception: Upload failed: '' @ conn_error d) c1 else finish_data c1) of
                  (r, c2) \<Rightarrow> ((r, d), c2)))"

text \<open>
  Files. A stream that is opened for output empties the file. Whether each write to it succeeds is a list; at the
  end of the list they do. A file that can be opened is read without errors.
\<close>

definition open_out :: "string \<Rightarrow> filesys \<Rightarrow> filesys option" where
  "open_out n fs = (if denied fs n then None else Some (fs\<lparr>files := (files fs)(n \<mapsto> [])\<rparr>))"

definition write_out :: "string \<Rightarrow> string \<Rightarrow> filesys \<Rightarrow> filesys" where
  "write_out n s fs =
     fs\<lparr>files := (files fs)(n \<mapsto> (case files fs n of None \<Rightarrow> [] | Some d \<Rightarrow> d) @ map byte_of_char s)\<rparr>"

definition transfer_size :: nat where "transfer_size = 65536"

function get_loop ::
  "bool list \<Rightarrow> string \<Rightarrow> int \<Rightarrow> gxsTLSConnection \<Rightarrow> gxsFTPClient \<Rightarrow> filesys \<Rightarrow> (int \<times> int) \<times> gxsFTPClient \<times> filesys"
where
  "get_loop ws local_file bytes data c fs =
     (case ReadSome transfer_size data of ((n, x), d) \<Rightarrow>
        if n = 0 then (case finish_data c of (r, c1) \<Rightarrow> ((r, bytes), c1, fs))
        else if n < 0
        then (case broken_off (''FTP exception: Download failed: '' @ conn_error d) c of (r, c1) \<Rightarrow> ((r, bytes), c1, fs))
        else if ws \<noteq> [] \<and> \<not> hd ws
        then (case broken_off (''FTP exception: Cannot write '' @ local_file) c of (r, c1) \<Rightarrow> ((r, bytes), c1, fs))
        else get_loop (tl ws) local_file (bytes + n) d c (write_out local_file x fs))"
  by pat_completeness auto
termination
  by (relation "measure (\<lambda>(ws, n, b, d, c, fs). amount d)") (auto dest!: ReadSome_less [OF sym])

declare get_loop.simps [simp del]

definition Get ::
  "link \<Rightarrow> bool list \<Rightarrow> string \<Rightarrow> string \<Rightarrow> gxsFTPClient \<Rightarrow> filesys \<Rightarrow> (int \<times> int) \<times> gxsFTPClient \<times> filesys"
where
  "Get l ws remote local_file c fs =
     (case open_out local_file fs of
        None \<Rightarrow> (case ftp_fail (''FTP exception: Cannot create '' @ local_file) c of (r, c1) \<Rightarrow> ((r, 0), c1, fs))
      | Some fs1 \<Rightarrow>
          (case open_data l (''RETR '' @ remote) c of ((rv, data), c1) \<Rightarrow>
             if rv \<noteq> 0 then ((-1, 0), c1, fs1) else get_loop ws local_file 0 data c1 fs1))"

function put_loop :: "string \<Rightarrow> int \<Rightarrow> gxsTLSConnection \<Rightarrow> gxsFTPClient \<Rightarrow> (int \<times> int \<times> gxsTLSConnection) \<times> gxsFTPClient" where
  "put_loop s bytes data c =
     (if s = [] then (case finish_data c of (r, c1) \<Rightarrow> ((r, bytes, data), c1))
      else (case Send (List.take transfer_size s) data of (n, d) \<Rightarrow>
              if n < 0
              then (case broken_off (''FTP exception: Upload failed: '' @ conn_error d) c of (r, c1) \<Rightarrow> ((r, bytes, d), c1))
              else put_loop (drop transfer_size s) (bytes + int (length (List.take transfer_size s))) d c))"
  by pat_completeness auto
termination
  by (relation "measure (\<lambda>(s, b, d, c). length s)") (auto simp: transfer_size_def)

declare put_loop.simps [simp del]

definition Put ::
  "link \<Rightarrow> string \<Rightarrow> string \<Rightarrow> filesys \<Rightarrow> gxsFTPClient \<Rightarrow> (int \<times> int \<times> gxsTLSConnection) \<times> gxsFTPClient"
where
  "Put l local_file remote fs c =
     (case read_text local_file fs of
        None \<Rightarrow> (case ftp_fail (''FTP exception: Cannot open '' @ local_file) c of (r, c1) \<Rightarrow> ((r, 0, new_gxsTLSConnection True), c1))
      | Some s \<Rightarrow>
          (case open_data l (''STOR '' @ remote) c of ((rv, data), c1) \<Rightarrow>
             if rv \<noteq> 0 then ((-1, 0, data), c1) else put_loop s 0 data c1))"

definition ChDir :: "string \<Rightarrow> gxsFTPClient \<Rightarrow> int \<times> gxsFTPClient" where
  "ChDir dir c = ftp_Command (''CWD '' @ dir) ''2'' c"

definition MkDir :: "string \<Rightarrow> gxsFTPClient \<Rightarrow> int \<times> gxsFTPClient" where
  "MkDir dir c = ftp_Command (''MKD '' @ dir) ''2'' c"

definition RmDir :: "string \<Rightarrow> gxsFTPClient \<Rightarrow> int \<times> gxsFTPClient" where
  "RmDir dir c = ftp_Command (''RMD '' @ dir) ''2'' c"

text \<open>A name in quotes, in which a quote is doubled.\<close>

fun quoted_name :: "string \<Rightarrow> string" where
  "quoted_name [] = []"
| "quoted_name (x # xs) =
     (if x \<noteq> CHR 0x22 then x # quoted_name xs
      else (case xs of y # ys \<Rightarrow> if y = CHR 0x22 then CHR 0x22 # quoted_name ys else [] | [] \<Rightarrow> []))"

definition PWD :: "gxsFTPClient \<Rightarrow> (int \<times> string) \<times> gxsFTPClient" where
  "PWD c =
     (case ftp_Command ''PWD'' ''257'' c of (rv, c1) \<Rightarrow>
        if rv \<noteq> 0 then ((-1, []), c1)
        else ((0, case find_sub [CHR 0x22] (ftp_reply c1) of None \<Rightarrow> [] | Some a \<Rightarrow> quoted_name (drop (a + 1) (ftp_reply c1))), c1))"

text \<open>The size is read behind the code and one more character; behind the end of a reply of three characters is no string.\<close>

definition ftp_Size :: "string \<Rightarrow> gxsFTPClient \<Rightarrow> (int \<times> int option) \<times> gxsFTPClient" where
  "ftp_Size path c =
     (case ftp_Command (''SIZE '' @ path) ''213'' c of (rv, c1) \<Rightarrow>
        if rv \<noteq> 0 then ((-1, Some (-1)), c1)
        else ((0, if length (ftp_reply c1) < 4 then None else Some (to_long (drop 4 (ftp_reply c1)))), c1))"

definition ftp_Delete :: "string \<Rightarrow> gxsFTPClient \<Rightarrow> int \<times> gxsFTPClient" where
  "ftp_Delete path c = ftp_Command (''DELE '' @ path) ''2'' c"

definition ftp_Rename :: "string \<Rightarrow> string \<Rightarrow> gxsFTPClient \<Rightarrow> int \<times> gxsFTPClient" where
  "ftp_Rename old_name new_name c =
     and_then (ftp_Command (''RNFR '' @ old_name) ''350'' c) (ftp_Command (''RNTO '' @ new_name) ''2'')"

definition ftp_Quit :: "gxsFTPClient \<Rightarrow> int \<times> gxsFTPClient" where
  "ftp_Quit c = (case ftp_Command ''QUIT'' ''2'' c of (rv, c1) \<Rightarrow> (rv, c1\<lparr>ftp_conn := Close_conn (ftp_conn c1)\<rparr>))"

section \<open>The block stream\<close>

text \<open>
  \<open>src/src/gxstream.cpp\<close>: database blocks over TLS, each a block header and as many bytes as it says. The status of a
  header has the network command in its second byte and the kind of the block in its first. A buffer is the memory
  that its address stands for, as far as it may be read: an operation that reads behind it is \<open>None\<close>.
\<close>

definition gxRestartServer :: int where "gxRestartServer = 0x54"

record gxStream =
  stream_conn :: gxsTLSConnection
  max_block :: int
  stream_error :: gxSocketError

definition new_gxStream :: "bool \<Rightarrow> gxStream" where
  "new_gxStream verify =
     \<lparr>stream_conn = new_gxsTLSConnection verify, max_block = 64 * 1024 * 1024, stream_error = gxSOCKET_NO_ERROR\<rparr>"

definition set_stream_error :: "gxSocketError \<Rightarrow> gxStream \<Rightarrow> gxSocketError \<times> gxStream" where
  "set_stream_error e s = (e, s\<lparr>stream_error := e\<rparr>)"

definition stream_Connect :: "string \<Rightarrow> int \<Rightarrow> link \<Rightarrow> gxStream \<Rightarrow> gxSocketError \<times> gxStream" where
  "stream_Connect host port l s =
     (case Connect_conn host port True l (stream_conn s) of (rv, c) \<Rightarrow>
        set_stream_error (if rv \<noteq> 0 then gxSOCKET_CONNECT_ERROR else gxSOCKET_NO_ERROR) (s\<lparr>stream_conn := c\<rparr>))"

definition SetBlockStatus :: "int \<Rightarrow> int \<Rightarrow> gxBlockHeader \<Rightarrow> gxBlockHeader" where
  "SetBlockStatus net_status file_status gx =
     gx\<lparr>block_status := net_status mod 256 * 256 + file_status mod 256, block_check_word := gxCheckWord, block_nd_fptr := 0\<rparr>"

definition BlockStatus :: "gxBlockHeader \<Rightarrow> int" where
  "BlockStatus gx = (block_status gx div 256 mod 256 + 128) mod 256 - 128"

definition WriteHeader :: "gxBlockHeader \<Rightarrow> gxStream \<Rightarrow> gxSocketError \<times> gxStream" where
  "WriteHeader gx s =
     (case Send (map char_of_byte (enc_gxBlockHeader gx)) (stream_conn s) of (rv, c) \<Rightarrow>
        set_stream_error (if rv \<noteq> int sizeof_gxBlockHeader then gxSOCKET_BLOCKHEADER_ERROR else gxSOCKET_NO_ERROR)
          (s\<lparr>stream_conn := c\<rparr>))"

text \<open>The length is an \<open>int\<close> here: one that does not fit in 31 bits is negative, and no bytes are sent.\<close>

definition WriteBlock :: "string \<Rightarrow> gxBlockHeader \<Rightarrow> gxStream \<Rightarrow> (gxSocketError \<times> gxStream) option" where
  "WriteBlock buf gx s =
     (case WriteHeader gx s of (e, s1) \<Rightarrow>
        if e \<noteq> gxSOCKET_NO_ERROR then Some (stream_error s1, s1)
        else let len = to_s32 (block_length gx)
             in if len \<le> 0 then Some (set_stream_error gxSOCKET_NO_ERROR s1)
                else if int (length buf) < len then None
                else (case Send (List.take (nat len) buf) (stream_conn s1) of (rv, c) \<Rightarrow>
                        Some (set_stream_error (if rv \<noteq> len then gxSOCKET_BLOCKSIZE_ERROR else gxSOCKET_NO_ERROR)
                          (s1\<lparr>stream_conn := c\<rparr>))))"

definition WriteBlock_bytes :: "string \<Rightarrow> int \<Rightarrow> gxStream \<Rightarrow> (gxSocketError \<times> gxStream) option" where
  "WriteBlock_bytes buf bytes s =
     WriteBlock buf ((SetBlockStatus gxSendBlock gxRemoteDeviceBlock new_gxBlockHeader)\<lparr>block_length := to_u32 bytes\<rparr>) s"

definition ReadHeader :: "gxBlockHeader \<Rightarrow> gxStream \<Rightarrow> (gxSocketError \<times> gxBlockHeader) \<times> gxStream" where
  "ReadHeader gx s =
     (let (b, c) = Read_conn sizeof_gxBlockHeader (stream_conn s);
          s1 = s\<lparr>stream_conn := c\<rparr>;
          gx1 = (if length b \<noteq> sizeof_gxBlockHeader then gx else dec_gxBlockHeader (map byte_of_char b));
          (e, s2) = set_stream_error
            (if length b \<noteq> sizeof_gxBlockHeader
             then if sock_open (sock c) then gxSOCKET_BLOCKHEADER_ERROR else gxSOCKET_DISCONNECTED_ERROR
             else if block_check_word gx1 \<noteq> gxCheckWord then gxSOCKET_BLOCKSYNC_ERROR
             else if block_length gx1 > max_block s then gxSOCKET_BLOCKSIZE_ERROR
             else gxSOCKET_NO_ERROR) s1
      in ((e, gx1), s2))"

definition ReadBlock :: "gxBlockHeader \<Rightarrow> gxStream \<Rightarrow> (gxSocketError \<times> string) \<times> gxStream" where
  "ReadBlock gx s =
     (let len = block_length gx
      in if len > max_block s then case set_stream_error gxSOCKET_BLOCKSIZE_ERROR s of (e, s1) \<Rightarrow> ((e, []), s1)
         else if len = 0 then case set_stream_error gxSOCKET_NO_ERROR s of (e, s1) \<Rightarrow> ((e, []), s1)
         else let (b, c) = Read_conn (nat len) (stream_conn s);
                  s1 = s\<lparr>stream_conn := c\<rparr>
              in if int (length b) \<noteq> len then case set_stream_error gxSOCKET_BLOCKSIZE_ERROR s1 of (e, s2) \<Rightarrow> ((e, []), s2)
                 else case set_stream_error gxSOCKET_NO_ERROR s1 of (e, s2) \<Rightarrow> ((e, b), s2))"

text \<open>The results are the error, the headers that the operation changes and the block that was received.\<close>

definition RequestBlock ::
  "string \<Rightarrow> gxBlockHeader \<Rightarrow> gxBlockHeader \<Rightarrow> gxStream \<Rightarrow>
   ((gxSocketError \<times> gxBlockHeader \<times> gxBlockHeader \<times> string) \<times> gxStream) option"
where
  "RequestBlock request request_header reply_header s =
     (let q = SetBlockStatus gxRequestBlock gxRemoteDeviceBlock request_header
      in case WriteBlock request q s of
           None \<Rightarrow> None
         | Some (e, s1) \<Rightarrow>
             if e \<noteq> gxSOCKET_NO_ERROR then Some ((stream_error s1, q, reply_header, []), s1)
             else (case ReadHeader reply_header s1 of ((e2, a), s2) \<Rightarrow>
                     if e2 \<noteq> gxSOCKET_NO_ERROR then Some ((stream_error s2, q, a, []), s2)
                     else (case ReadBlock a s2 of ((e3, b), s3) \<Rightarrow> Some ((e3, q, a, b), s3))))"

definition AddBlock :: "string \<Rightarrow> gxBlockHeader \<Rightarrow> gxStream \<Rightarrow> ((gxSocketError \<times> gxBlockHeader) \<times> gxStream) option" where
  "AddBlock block block_header s =
     (let gx = SetBlockStatus gxAddRemoteBlock gxRemoteDeviceBlock block_header
      in map_option (\<lambda>(e, s1). ((e, gx), s1)) (WriteBlock block gx s))"

definition ChangeBlock ::
  "string \<Rightarrow> string \<Rightarrow> gxBlockHeader \<Rightarrow> gxBlockHeader \<Rightarrow> gxStream \<Rightarrow>
   ((gxSocketError \<times> gxBlockHeader \<times> gxBlockHeader) \<times> gxStream) option"
where
  "ChangeBlock request block request_header block_header s =
     (let q = SetBlockStatus gxChangeRemoteBlock gxRemoteDeviceBlock request_header
      in case WriteBlock request q s of
           None \<Rightarrow> None
         | Some (e, s1) \<Rightarrow>
             if e \<noteq> gxSOCKET_NO_ERROR then Some ((stream_error s1, q, block_header), s1)
             else let gx = SetBlockStatus gxSendBlock gxRemoteDeviceBlock block_header
                  in map_option (\<lambda>(e, s2). ((e, q, gx), s2)) (WriteBlock block gx s1))"

definition DeleteBlock :: "string \<Rightarrow> gxBlockHeader \<Rightarrow> gxStream \<Rightarrow> ((gxSocketError \<times> gxBlockHeader) \<times> gxStream) option" where
  "DeleteBlock request request_header s =
     (let q = SetBlockStatus gxDeleteRemoteBlock gxRemoteDeviceBlock request_header
      in map_option (\<lambda>(e, s1). ((e, q), s1)) (WriteBlock request q s))"

text \<open>Blocks without data: acknowledgments, a result in the header, and the commands to the server.\<close>

definition write_ack :: "int \<Rightarrow> gxStream \<Rightarrow> gxSocketError \<times> gxStream" where
  "write_ack result s =
     (case WriteHeader ((SetBlockStatus gxAcknowledgeBlock gxRemoteDeviceBlock new_gxBlockHeader)\<lparr>block_nd_fptr := result\<rparr>) s of
        (e, s1) \<Rightarrow> set_stream_error (if e \<noteq> gxSOCKET_NO_ERROR then gxSOCKET_BLOCKACK_ERROR else gxSOCKET_NO_ERROR) s1)"

definition WriteAckBlock :: "gxStream \<Rightarrow> gxSocketError \<times> gxStream" where
  "WriteAckBlock s = write_ack 0 s"

definition WriteResultBlock :: "int \<Rightarrow> gxStream \<Rightarrow> gxSocketError \<times> gxStream" where
  "WriteResultBlock result_code s = write_ack result_code s"

definition read_ack :: "gxStream \<Rightarrow> (gxSocketError \<times> gxBlockHeader) \<times> gxStream" where
  "read_ack s =
     (case ReadHeader new_gxBlockHeader s of ((e, ack), s1) \<Rightarrow>
        case set_stream_error
          (if e \<noteq> gxSOCKET_NO_ERROR \<or> BlockStatus ack \<noteq> gxAcknowledgeBlock then gxSOCKET_BLOCKACK_ERROR else gxSOCKET_NO_ERROR) s1
        of (e1, s2) \<Rightarrow> ((e1, ack), s2))"

definition ReadAckBlock :: "gxStream \<Rightarrow> gxSocketError \<times> gxStream" where
  "ReadAckBlock s = (case read_ack s of ((e, ack), s1) \<Rightarrow> (e, s1))"

definition ReadResultBlock :: "int \<Rightarrow> gxStream \<Rightarrow> (gxSocketError \<times> int) \<times> gxStream" where
  "ReadResultBlock result_code s =
     (case read_ack s of ((e, ack), s1) \<Rightarrow> ((e, if e = gxSOCKET_NO_ERROR then to_s32 (block_nd_fptr ack) else result_code), s1))"

definition stream_command :: "int \<Rightarrow> gxStream \<Rightarrow> gxSocketError \<times> gxStream" where
  "stream_command net_status s = WriteHeader (SetBlockStatus net_status gxRemoteDeviceBlock new_gxBlockHeader) s"

definition TerminateConnection :: "gxStream \<Rightarrow> gxSocketError \<times> gxStream" where
  "TerminateConnection = stream_command gxKillServer"

definition RestartConnection :: "gxStream \<Rightarrow> gxSocketError \<times> gxStream" where
  "RestartConnection = stream_command gxRestartServer"

definition CloseConnection :: "gxStream \<Rightarrow> gxSocketError \<times> gxStream" where
  "CloseConnection = stream_command gxCloseConnection"

end
