(* ===== verification/Http.thy ===== *)
theory Http
  imports NetClients Url
begin

text \<open>
  HTTP messages, \<open>src/src/gxshttp.cpp\<close>, and the HTTPS client, \<open>src/src/gxshttpc.cpp\<close>. The host at the other end of each
  connection that the client opens is a \<open>link\<close> of the list that the operations are given. The
  result of an operation is 0 or \<open>-1\<close>.
\<close>

section \<open>Messages\<close>

type_synonym header = "string \<times> string"

record gxsHTTPMessage =
  http_method :: string
  http_target :: string
  http_status :: int
  http_reason :: string
  http_version :: string
  http_headers :: "header list"
  http_body :: string

definition Clear :: gxsHTTPMessage where
  "Clear =
     \<lparr>http_method = [], http_target = [], http_status = 0, http_reason = [], http_version = ''HTTP/1.1'',
      http_headers = [], http_body = []\<rparr>"

definition Header :: "string \<Rightarrow> gxsHTTPMessage \<Rightarrow> string" where
  "Header name m = (case List.find (\<lambda>h. iequals (fst h) name) (http_headers m) of None \<Rightarrow> [] | Some h \<Rightarrow> snd h)"

definition HasHeader :: "string \<Rightarrow> gxsHTTPMessage \<Rightarrow> bool" where
  "HasHeader name m = list_ex (\<lambda>h. iequals (fst h) name) (http_headers m)"

definition AddHeader :: "string \<Rightarrow> string \<Rightarrow> gxsHTTPMessage \<Rightarrow> gxsHTTPMessage" where
  "AddHeader name v m = m\<lparr>http_headers := http_headers m @ [(name, v)]\<rparr>"

definition RemoveHeader :: "string \<Rightarrow> gxsHTTPMessage \<Rightarrow> gxsHTTPMessage" where
  "RemoveHeader name m = m\<lparr>http_headers := filter (\<lambda>h. \<not> iequals (fst h) name) (http_headers m)\<rparr>"

definition SetHeader :: "string \<Rightarrow> string \<Rightarrow> gxsHTTPMessage \<Rightarrow> gxsHTTPMessage" where
  "SetHeader name v m = AddHeader name v (RemoveHeader name m)"

definition gxsHTTPStatusCodeMessage :: "int \<Rightarrow> string" where
  "gxsHTTPStatusCodeMessage status =
     (case map_of
        [(100, ''Continue''), (101, ''Switching Protocols''), (200, ''OK''), (201, ''Created''), (202, ''Accepted''),
         (204, ''No Content''), (206, ''Partial Content''), (301, ''Moved Permanently''), (302, ''Found''),
         (303, ''See Other''), (304, ''Not Modified''), (307, ''Temporary Redirect''), (308, ''Permanent Redirect''),
         (400, ''Bad Request''), (401, ''Unauthorized''), (403, ''Forbidden''), (404, ''Not Found''),
         (405, ''Method Not Allowed''), (408, ''Request Timeout''), (409, ''Conflict''), (411, ''Length Required''),
         (413, ''Content Too Large''), (414, ''URI Too Long''), (415, ''Unsupported Media Type''),
         (429, ''Too Many Requests''), (500, ''Internal Server Error''), (501, ''Not Implemented''),
         (502, ''Bad Gateway''), (503, ''Service Unavailable''), (504, ''Gateway Timeout''),
         (505, ''HTTP Version Not Supported'')] status of
        None \<Rightarrow> ''Unknown''
      | Some s \<Rightarrow> s)"

section \<open>Writing\<close>

definition header_lines :: "header list \<Rightarrow> string" where
  "header_lines hs = concat (map (\<lambda>h. fst h @ '': '' @ snd h @ crlf) hs)"

definition with_length :: "gxsHTTPMessage \<Rightarrow> gxsHTTPMessage" where
  "with_length m =
     (if \<not> HasHeader ''Transfer-Encoding'' m \<and> \<not> (http_body m = [] \<and> HasHeader ''Content-Length'' m)
      then SetHeader ''Content-Length'' (to_string (int (length (http_body m)))) m else m)"

text \<open>The result, the message, which may have got a length, and the connection.\<close>

definition write_message ::
  "string \<Rightarrow> gxsTLSConnection \<Rightarrow> gxsHTTPMessage \<Rightarrow> int \<times> gxsHTTPMessage \<times> gxsTLSConnection"
where
  "write_message start_line c m0 =
     (let m = with_length m0
      in if list_ex (\<lambda>h. has_line_break (fst h) \<or> has_line_break (snd h)) (http_headers m) then (-1, m, c)
         else (case Send (start_line @ crlf @ header_lines (http_headers m) @ crlf @ http_body m) c of
                 (rv, c1) \<Rightarrow> (if rv < 0 then -1 else 0, m, c1)))"

definition gxsHTTPWriteRequest ::
  "gxsTLSConnection \<Rightarrow> gxsHTTPMessage \<Rightarrow> int \<times> gxsHTTPMessage \<times> gxsTLSConnection"
where
  "gxsHTTPWriteRequest c m =
     (if has_line_break (http_method m) \<or> has_line_break (http_target m) then (-1, m, c)
      else let target = (if http_target m = [] then ''/'' else http_target m)
           in write_message (http_method m @ '' '' @ target @ '' '' @ http_version m) c m)"

definition gxsHTTPWriteResponse ::
  "gxsTLSConnection \<Rightarrow> gxsHTTPMessage \<Rightarrow> int \<times> gxsHTTPMessage \<times> gxsTLSConnection"
where
  "gxsHTTPWriteResponse c m =
     (let reason = (if http_reason m = [] then gxsHTTPStatusCodeMessage (http_status m) else http_reason m)
      in if has_line_break reason then (-1, m, c)
         else write_message (http_version m @ '' '' @ to_string (http_status m) @ '' '' @ reason) c m)"

section \<open>Reading\<close>

definition max_headers_size :: nat where "max_headers_size = 262144"

function read_headers_loop ::
  "nat \<Rightarrow> gxsHTTPMessage \<Rightarrow> gxsTLSConnection \<Rightarrow> int \<times> gxsHTTPMessage \<times> gxsTLSConnection"
where
  "read_headers_loop read0 m c =
     (case ReadLine 16384 c of
        (None, c1) \<Rightarrow> (-1, m, c1)
      | (Some line, c1) \<Rightarrow>
          if line = [] then (0, m, c1)
          else let read1 = read0 + length line
               in if read1 > max_headers_size \<or> length (http_headers m) > 200 then (-1, m, c1)
                  else if hd line = CHR '' '' \<or> hd line = CHR 0x09 then
                    (case rev (http_headers m) of
                       [] \<Rightarrow> (-1, m, c1)
                     | (n, v) # hs \<Rightarrow>
                         read_headers_loop read1 (m\<lparr>http_headers := rev hs @ [(n, v @ '' '' @ trim line)]\<rparr>) c1)
                  else (case cut_at (CHR '':'') line of
                          (n, None) \<Rightarrow> (-1, m, c1)
                        | (n, Some v) \<Rightarrow>
                            if n = [] then (-1, m, c1)
                            else read_headers_loop read1 (AddHeader (trim n) (trim v) m) c1))"
  by pat_completeness auto
termination
  by (relation "measure (\<lambda>(t, m, c). amount c)") (auto dest!: ReadLine_less [OF sym])

declare read_headers_loop.simps [simp del]

text \<open>\<open>strtoull\<close> to its end, in base 16 and 10: \<open>None\<close> when there is text behind the number.\<close>

definition hex_value :: "string \<Rightarrow> nat" where
  "hex_value ds = foldl (\<lambda>n d. 16 * n + nat (hexval d)) 0 ds"

definition strip_hex :: "string \<Rightarrow> string" where
  "strip_hex s =
     (if length s > 2 \<and> hd s = CHR ''0'' \<and> (s ! 1 = CHR ''x'' \<or> s ! 1 = CHR ''X'') \<and> hexval (s ! 2) \<ge> 0 then drop 2 s else s)"

definition to_ull :: "bool \<Rightarrow> nat \<Rightarrow> int" where
  "to_ull neg n = (if int n \<ge> 2 ^ 64 then 2 ^ 64 - 1 else if neg then to_u64 (- int n) else int n)"

definition sign_cut :: "string \<Rightarrow> bool \<times> string" where
  "sign_cut s =
     (let t = trim_left s
      in if t \<noteq> [] \<and> hd t = CHR ''-'' then (True, tl t) else if t \<noteq> [] \<and> hd t = CHR ''+'' then (False, tl t) else (False, t))"

definition whole_hex :: "string \<Rightarrow> int option" where
  "whole_hex s0 =
     (let s = takeWhile (\<lambda>c. c \<noteq> CHR 0x00) s0
      in case sign_cut s of (neg, t) \<Rightarrow>
           let d = strip_hex t
           in if s = [] then Some 0
              else if d \<noteq> [] \<and> list_all (\<lambda>c. hexval c \<ge> 0) d then Some (to_ull neg (hex_value d)) else None)"

definition whole_decimal :: "string \<Rightarrow> int option" where
  "whole_decimal s0 =
     (let s = takeWhile (\<lambda>c. c \<noteq> CHR 0x00) s0
      in case sign_cut s of (neg, t) \<Rightarrow>
           if s = [] then Some 0
           else if t \<noteq> [] \<and> list_all is_digit t then Some (to_ull neg (digits_value t)) else None)"

function skip_trailers :: "gxsTLSConnection \<Rightarrow> int \<times> gxsTLSConnection" where
  "skip_trailers c =
     (case ReadLine 16384 c of
        (None, c1) \<Rightarrow> (-1, c1)
      | (Some line, c1) \<Rightarrow> if line = [] then (0, c1) else skip_trailers c1)"
  by pat_completeness auto
termination by (relation "measure (\<lambda>c. amount c)") (auto dest!: ReadLine_less [OF sym])

declare skip_trailers.simps [simp del]

text \<open>
  The chunks: the body so far, the message is given it in the end. A size of zero ends them. The sum of the lengths is
  one of unsigned 64-bit numbers, but a size is not above the limit when it is taken.
\<close>

function read_chunks :: "int \<Rightarrow> string \<Rightarrow> gxsTLSConnection \<Rightarrow> int \<times> string \<times> gxsTLSConnection" where
  "read_chunks max_body body c =
     (case ReadLine 1024 c of
        (None, c1) \<Rightarrow> (-1, body, c1)
      | (Some line, c1) \<Rightarrow>
          let size_str = trim (takeWhile (\<lambda>x. x \<noteq> CHR '';'') line)
          in if size_str = [] then (-1, body, c1)
             else (case whole_hex size_str of
                     None \<Rightarrow> (-1, body, c1)
                   | Some n \<Rightarrow>
                       if n = 0 then (case skip_trailers c1 of (rv, c2) \<Rightarrow> (rv, body, c2))
                       else if n > max_body \<or> int (length body) + n > max_body then (-1, body, c1)
                       else (case Read_conn (nat n) c1 of (chunk, c2) \<Rightarrow>
                               if to_s32 (int (length chunk)) \<noteq> to_s32 n then (-1, body, c2)
                               else (case ReadLine 2 c2 of
                                       (None, c3) \<Rightarrow> (-1, body @ chunk, c3)
                                     | (Some l, c3) \<Rightarrow>
                                         if l \<noteq> [] then (-1, body @ chunk, c3)
                                         else read_chunks max_body (body @ chunk) c3))))"
  by pat_completeness auto
termination
  by (relation "measure (\<lambda>(n, b, c). amount c)")
    (auto dest!: ReadLine_less [OF sym] Read_conn_amount [OF sym])

declare read_chunks.simps [simp del]

text \<open>The headers are read with \<open>msg.Header\<close>, an empty text when there is none.\<close>

definition read_body ::
  "int \<Rightarrow> bool \<Rightarrow> gxsHTTPMessage \<Rightarrow> gxsTLSConnection \<Rightarrow> int \<times> gxsHTTPMessage \<times> gxsTLSConnection"
where
  "read_body max_body read_to_close m0 c =
     (let m = m0\<lparr>http_body := []\<rparr>
      in if ifind (Header ''Transfer-Encoding'' m) ''chunked'' 0 \<noteq> None
         then (case read_chunks max_body [] c of (rv, b, c1) \<Rightarrow> (rv, m\<lparr>http_body := b\<rparr>, c1))
         else let len = Header ''Content-Length'' m
              in if len \<noteq> [] then
                   (case whole_decimal len of
                      None \<Rightarrow> (-1, m, c)
                    | Some n \<Rightarrow>
                        if n > max_body then (-1, m, c)
                        else (case Read_conn (nat n) c of (b, c1) \<Rightarrow>
                                (if to_s32 (int (length b)) \<noteq> to_s32 n then -1 else 0, m\<lparr>http_body := b\<rparr>, c1)))
                 else if read_to_close then
                   (case ReadAll (Some (nat max_body)) c of
                      (None, c1) \<Rightarrow> (-1, m, c1)
                    | (Some b, c1) \<Rightarrow> (0, m\<lparr>http_body := b\<rparr>, c1))
                 else (0, m, c))"

text \<open>The first line that is not empty.\<close>

function request_line :: "gxsTLSConnection \<Rightarrow> string option \<times> gxsTLSConnection" where
  "request_line c =
     (case ReadLine 16384 c of
        (None, c1) \<Rightarrow> (None, c1)
      | (Some line, c1) \<Rightarrow> if line = [] then request_line c1 else (Some line, c1))"
  by pat_completeness auto
termination by (relation "measure (\<lambda>c. amount c)") (auto dest!: ReadLine_less [OF sym])

declare request_line.simps [simp del]

definition headers_and_body ::
  "int \<Rightarrow> bool \<Rightarrow> gxsHTTPMessage \<Rightarrow> gxsTLSConnection \<Rightarrow> int \<times> gxsHTTPMessage \<times> gxsTLSConnection"
where
  "headers_and_body max_body read_to_close m c =
     (case read_headers_loop 0 m c of (rv, m1, c1) \<Rightarrow>
        if rv \<noteq> 0 then (-1, m1, c1) else read_body max_body read_to_close m1 c1)"

definition gxsHTTPReadRequest :: "int \<Rightarrow> gxsTLSConnection \<Rightarrow> int \<times> gxsHTTPMessage \<times> gxsTLSConnection" where
  "gxsHTTPReadRequest max_body c =
     (case request_line c of
        (None, c1) \<Rightarrow> (-1, Clear, c1)
      | (Some line, c1) \<Rightarrow>
          (case split line (CHR '' '') True of
             [a, b, v] \<Rightarrow>
               if \<not> starts_with v ''HTTP/'' then (-1, Clear, c1)
               else headers_and_body max_body False (Clear\<lparr>http_method := a, http_target := b, http_version := v\<rparr>) c1
           | _ \<Rightarrow> (-1, Clear, c1)))"

lemma read_headers_weight: "read_headers_loop t m c = (0, m1, c1) \<Longrightarrow> amount c1 < amount c"
proof (induction t m c rule: read_headers_loop.induct)
  case (1 t m c)
  obtain r c2 where R: "ReadLine 16384 c = (r, c2)" by fastforce
  note e = "1.prems" [unfolded read_headers_loop.simps [of t m c] R prod.case]
  obtain line where r: "r = Some line" using e by (cases r) auto
  have l: "amount c2 < amount c" using R r by (simp add: ReadLine_less)
  show ?case
  proof (cases "line = []")
    case True
    then show ?thesis using e l r by simp
  next
    case False
    then have "amount c1 < amount c2"
      using e r "1.IH" [OF R [symmetric] r False refl]
      by (auto simp: Let_def dest: sym split: if_splits list.splits option.splits prod.splits)
    then show ?thesis using l by simp
  qed
qed

text \<open>Interim responses are read over.\<close>

function gxsHTTPReadResponse ::
  "bool \<Rightarrow> int \<Rightarrow> gxsTLSConnection \<Rightarrow> int \<times> gxsHTTPMessage \<times> gxsTLSConnection"
where
  "gxsHTTPReadResponse head_request max_body c =
     (case ReadLine 16384 c of
        (None, c1) \<Rightarrow> (-1, Clear, c1)
      | (Some line, c1) \<Rightarrow>
          if \<not> starts_with line ''HTTP/'' then (-1, Clear, c1)
          else (case cut_at (CHR '' '') line of
                  (v, None) \<Rightarrow> (-1, Clear, c1)
                | (v, Some r) \<Rightarrow>
                    let m = Clear\<lparr>http_version := v, http_status := atoi r,
                                  http_reason := (case cut_at (CHR '' '') r of (_, None) \<Rightarrow> [] | (_, Some x) \<Rightarrow> x)\<rparr>
                    in if http_status m < 100 \<or> http_status m > 999 then (-1, m, c1)
                       else (case read_headers_loop 0 m c1 of (rv, m1, c2) \<Rightarrow>
                               if rv \<noteq> 0 then (-1, m1, c2)
                               else if http_status m < 200 then gxsHTTPReadResponse head_request max_body c2
                               else if head_request \<or> http_status m = 204 \<or> http_status m = 304 then (0, m1, c2)
                               else read_body max_body True m1 c2)))"
  by pat_completeness auto
termination
  by (relation "measure (\<lambda>(h, n, c). amount c)")
    (auto dest!: ReadLine_less [OF sym] read_headers_weight [OF sym])

declare gxsHTTPReadResponse.simps [simp del]

section \<open>The client\<close>

record gxsHTTPClient =
  hc_verify :: bool
  max_redirects :: int
  max_body :: int
  user_agent :: string
  auth_user :: string
  auth_passwd :: string
  auth_host :: string
  extra_headers :: "header list"
  hc_error :: string
  final_url :: string

definition new_gxsHTTPClient :: gxsHTTPClient where
  "new_gxsHTTPClient =
     \<lparr>hc_verify = True, max_redirects = 5, max_body = 1073741824, user_agent = ''DataReel/7'', auth_user = [],
      auth_passwd = [], auth_host = [], extra_headers = [], hc_error = [], final_url = []\<rparr>"

definition hc_fail :: "string \<Rightarrow> gxsHTTPClient \<Rightarrow> int \<times> gxsHTTPClient" where
  "hc_fail msg h = (-1, h\<lparr>hc_error := msg\<rparr>)"

text \<open>The user and the password that go to the host of a URL; the user is empty for another host than the first.\<close>

definition credentials :: "gxsURLInfo \<Rightarrow> gxsHTTPClient \<Rightarrow> string \<times> string" where
  "credentials u h =
     (let user = (if url_user u \<noteq> [] then url_user u else auth_user h);
          pass = (if url_user u \<noteq> [] then url_passwd u else auth_passwd h)
      in (if auth_host h \<noteq> [] \<and> url_host u \<noteq> auth_host h then [] else user, pass))"

definition build_request ::
  "string \<Rightarrow> gxsURLInfo \<Rightarrow> string \<Rightarrow> string \<Rightarrow> gxsHTTPClient \<Rightarrow> gxsHTTPMessage"
where
  "build_request meth u body content_type h =
     (let r0 = Clear\<lparr>http_method := meth, http_target := PathAndQuery u\<rparr>;
          r1 = SetHeader ''Connection'' ''close'' (SetHeader ''Accept'' ''*/*''
                 (SetHeader ''User-Agent'' (user_agent h) (SetHeader ''Host'' (HostAndPort u) r0)));
          (user, pass) = credentials u h;
          r2 = (if user \<noteq> [] then SetHeader ''Authorization'' (gxsBasicAuthenticationEncode user pass) r1 else r1);
          r3 = fold (\<lambda>e. SetHeader (fst e) (snd e)) (extra_headers h) r2
      in if body \<noteq> [] \<or> meth = ''POST'' \<or> meth = ''PUT''
         then (if content_type \<noteq> [] then SetHeader ''Content-Type'' content_type r3 else r3)\<lparr>http_body := body\<rparr>
         else r3)"

text \<open>
  One request over the connection \<open>l\<close>. Also what went out: in plain text and through TLS. The connection is closed at the
  end. The response is only changed when the request was written.
\<close>

type_synonym traffic = "string \<times> string"

definition send_one ::
  "string \<Rightarrow> gxsURLInfo \<Rightarrow> string \<Rightarrow> string \<Rightarrow> link \<Rightarrow> gxsHTTPMessage \<Rightarrow> gxsHTTPClient \<Rightarrow>
   (int \<times> gxsHTTPMessage \<times> traffic) \<times> gxsHTTPClient"
where
  "send_one meth u body content_type l response h =
     (case Connect_conn (url_host u) (url_port u) True l (new_gxsTLSConnection (hc_verify h)) of (rv, c) \<Rightarrow>
        let traffic = (\<lambda>c. (sent (sock c), tls_sent c));
            failed = (\<lambda>msg m c. case hc_fail msg h of (r, h1) \<Rightarrow> ((r, m, traffic c), h1))
        in if rv \<noteq> 0 then failed (conn_error c) response c
           else (case gxsHTTPWriteRequest c (build_request meth u body content_type h) of (rv1, _, c1) \<Rightarrow>
             if rv1 \<noteq> 0
             then failed (if conn_error c1 = [] then ''HTTP exception: Bad request header'' else conn_error c1) response c1
             else (case gxsHTTPReadResponse (meth = ''HEAD'') (max_body h) c1 of (rv2, m, c2) \<Rightarrow>
               if rv2 \<noteq> 0
               then failed (with_error (''HTTP exception: Bad or incomplete response from '' @ url_host u) c2) m c2
               else ((0, m, traffic c2), h))))"

text \<open>
  The requests of a chain of redirects, the \<open>k\<close>th of them over the \<open>k\<close>th connection. At the end of the list of
  connections the next one cannot be opened. \<open>left\<close> is the number of redirects that are left.
\<close>

definition no_link :: link where
  "no_link =
     \<lparr>link_error = gxSOCKET_CONNECT_ERROR, link_reads = [], link_writes = [], link_handshakes = [], link_tls_reads = [],
      link_tls_writes = [], link_tls_message = []\<rparr>"

definition is_redirect :: "int \<Rightarrow> bool" where
  "is_redirect s \<longleftrightarrow> s = 301 \<or> s = 302 \<or> s = 303 \<or> s = 307 \<or> s = 308"

definition next_request :: "int \<Rightarrow> string \<Rightarrow> string \<Rightarrow> string \<times> string" where
  "next_request s meth body =
     (if s = 303 \<or> ((s = 301 \<or> s = 302) \<and> meth = ''POST'') then (''GET'', []) else (meth, body))"

type_synonym exchange = "gxsURLInfo \<times> traffic"

fun request_loop ::
  "nat \<Rightarrow> string \<Rightarrow> string \<Rightarrow> string \<Rightarrow> string \<Rightarrow> link list \<Rightarrow> gxsHTTPMessage \<Rightarrow> gxsHTTPClient \<Rightarrow>
   (int \<times> gxsHTTPMessage \<times> exchange list) \<times> gxsHTTPClient"
where
  "request_loop left meth url body content_type ls response h0 =
     (case Parse url of (ok, u) \<Rightarrow>
        if \<not> ok then (case hc_fail (''HTTP exception: Bad URL '' @ url) h0 of (r, h) \<Rightarrow> ((r, response, []), h))
        else if scheme u \<noteq> ''https''
        then (case hc_fail (''HTTP exception: Only https:// URLs are supported: '' @ url) h0 of (r, h) \<Rightarrow> ((r, response, []), h))
        else let h1 = h0\<lparr>final_url := url, auth_host := (if auth_host h0 = [] then url_host u else auth_host h0)\<rparr>
             in case send_one meth u body content_type (if ls = [] then no_link else hd ls) response h1 of
                  ((rv, m, t), h2) \<Rightarrow>
                    if rv \<noteq> 0 then ((-1, m, [(u, t)]), h2)
                    else let location = Header ''Location'' m
                         in if \<not> is_redirect (http_status m) \<or> location = [] \<or> max_redirects h2 \<le> 0
                            then ((0, m, [(u, t)]), h2)
                            else (case left of
                              0 \<Rightarrow> (case hc_fail ''HTTP exception: Too many redirects'' h2 of (r, h) \<Rightarrow> ((r, m, [(u, t)]), h))
                            | Suc k \<Rightarrow>
                                (case next_request (http_status m) meth body of (meth1, body1) \<Rightarrow>
                                   (case request_loop k meth1 (Resolve u location) body1 content_type (tl ls) m h2 of
                                      ((rv3, m3, ts), h3) \<Rightarrow> ((rv3, m3, (u, t) # ts), h3)))))"

declare request_loop.simps [simp del]

definition Request ::
  "string \<Rightarrow> string \<Rightarrow> string \<Rightarrow> string \<Rightarrow> link list \<Rightarrow> gxsHTTPMessage \<Rightarrow> gxsHTTPClient \<Rightarrow>
   (int \<times> gxsHTTPMessage \<times> exchange list) \<times> gxsHTTPClient"
where
  "Request meth url body content_type ls response h =
     request_loop (nat (max_redirects h)) meth url body content_type ls response (h\<lparr>hc_error := [], auth_host := []\<rparr>)"

definition http_Get ::
  "string \<Rightarrow> link list \<Rightarrow> gxsHTTPMessage \<Rightarrow> gxsHTTPClient \<Rightarrow> (int \<times> gxsHTTPMessage \<times> exchange list) \<times> gxsHTTPClient"
where
  "http_Get url ls response h = Request ''GET'' url [] [] ls response h"

definition http_Head ::
  "string \<Rightarrow> link list \<Rightarrow> gxsHTTPMessage \<Rightarrow> gxsHTTPClient \<Rightarrow> (int \<times> gxsHTTPMessage \<times> exchange list) \<times> gxsHTTPClient"
where
  "http_Head url ls response h = Request ''HEAD'' url [] [] ls response h"

definition http_Post ::
  "string \<Rightarrow> string \<Rightarrow> string \<Rightarrow> link list \<Rightarrow> gxsHTTPMessage \<Rightarrow> gxsHTTPClient \<Rightarrow>
   (int \<times> gxsHTTPMessage \<times> exchange list) \<times> gxsHTTPClient"
where
  "http_Post url body content_type ls response h = Request ''POST'' url body content_type ls response h"

text \<open>The body of a response goes to a file, which is emptied first; \<open>ws\<close> is whether the write succeeds.\<close>

definition Download ::
  "string \<Rightarrow> string \<Rightarrow> bool list \<Rightarrow> link list \<Rightarrow> gxsHTTPMessage \<Rightarrow> gxsHTTPClient \<Rightarrow> filesys \<Rightarrow>
   (int \<times> gxsHTTPMessage \<times> exchange list) \<times> gxsHTTPClient \<times> filesys"
where
  "Download url local_file ws ls response h0 fs =
     (case http_Get url ls response h0 of ((rv, m, ts), h) \<Rightarrow>
        let failed = (\<lambda>msg fs1. case hc_fail msg h of (r, h1) \<Rightarrow> ((r, m, ts), h1, fs1))
        in if rv \<noteq> 0 then ((-1, m, ts), h, fs)
           else if http_status m < 200 \<or> http_status m > 299
           then failed (''HTTP exception: '' @ to_string (http_status m) @ '' '' @ http_reason m) fs
           else (case open_out local_file fs of
                   None \<Rightarrow> failed (''HTTP exception: Cannot create '' @ local_file) fs
                 | Some fs1 \<Rightarrow>
                     if ws \<noteq> [] \<and> \<not> hd ws then failed (''HTTP exception: Cannot write '' @ local_file) fs1
                     else ((0, m, ts), h, write_out local_file (http_body m) fs1)))"

end
