(* ===== verification/NetProps.thy ===== *)
theory NetProps
  imports Http IntProps "HOL-Library.Code_Target_Nat"
begin

text \<open>
  Properties of the network clients: mails are read as they were sent, a mail session is secure, HTTP requests are read as
  they were written, and the HTTP client sends nothing in plain text.
\<close>

section \<open>Mail\<close>

text \<open>The lines of a message: a line ends at CR LF, a CR or an LF.\<close>

definition breaks :: "char \<Rightarrow> bool" where
  "breaks x \<longleftrightarrow> x = CHR 0x0D \<or> x = CHR 0x0A"

fun after_break :: "string \<Rightarrow> string" where
  "after_break [] = []"
| "after_break (x # r) = (if x = CHR 0x0D \<and> r \<noteq> [] \<and> hd r = CHR 0x0A then tl r else r)"

lemma after_break_less: "length (after_break s) \<le> length s" "s \<noteq> [] \<Longrightarrow> length (after_break s) < length s"
  by (cases s; auto)+

function lines_of :: "string \<Rightarrow> string list" where
  "lines_of s =
     (if s = [] then []
      else takeWhile (\<lambda>x. \<not> breaks x) s # lines_of (after_break (dropWhile (\<lambda>x. \<not> breaks x) s)))"
  by pat_completeness auto
termination
proof (relation "measure length", goal_cases)
  case (2 s)
  show ?case
  proof (cases "dropWhile (\<lambda>x. \<not> breaks x) s = []")
    case True
    show ?thesis using 2 by (simp only: True in_measure after_break.simps list.size length_greater_0_conv not_False_eq_True)
  next
    case False
    then show ?thesis
      using after_break_less(2) [OF False] length_dropWhile_le [of "\<lambda>x. \<not> breaks x" s] by simp
  qed
qed simp

declare lines_of.simps [simp del]

definition stuffed :: "string \<Rightarrow> string" where
  "stuffed l = (if l \<noteq> [] \<and> hd l = CHR ''.'' then CHR ''.'' # l else l)"

definition stuffed_text :: "string list \<Rightarrow> string" where
  "stuffed_text ls = concat (map (\<lambda>l. stuffed l @ crlf) ls)"

definition plain_text :: "string list \<Rightarrow> string" where
  "plain_text ls = concat (map (\<lambda>l. l @ crlf) ls)"

lemma lines_of_no_break: "l \<in> set (lines_of s) \<Longrightarrow> x \<in> set l \<Longrightarrow> \<not> breaks x"
proof (induction s rule: lines_of.induct)
  case (1 s)
  then show ?case by (subst (asm) (2) lines_of.simps) (auto split: if_splits dest: set_takeWhileD)
qed

lemma data_loop_lines:
  "(case data_loop b m of (out, e) \<Rightarrow> out @ (if e then [] else crlf)) =
     (if b then stuffed_text (lines_of m)
      else takeWhile (\<lambda>x. \<not> breaks x) m @ crlf @ stuffed_text (lines_of (after_break (dropWhile (\<lambda>x. \<not> breaks x) m))))"
proof (induction b m rule: data_loop.induct)
  case (1 b)
  then show ?case by (simp add: lines_of.simps [of "[]"] stuffed_text_def)
next
  case (2 b c cs)
  have l: "lines_of (c # cs) = takeWhile (\<lambda>x. \<not> breaks x) (c # cs) #
      lines_of (after_break (dropWhile (\<lambda>x. \<not> breaks x) (c # cs)))"
    by (subst lines_of.simps) simp
  show ?case
  proof (cases "c = CHR 0x0D \<and> cs \<noteq> [] \<and> hd cs = CHR 0x0A")
    case True
    then obtain ds where cs: "cs = CHR 0x0A # ds" by (cases cs) auto
    have l2: "lines_of (CHR 0x0A # ds) = [] # lines_of ds"
      by (subst lines_of.simps) (simp add: breaks_def)
    show ?thesis using "2.IH"(1) True l by (simp add: cs breaks_def l2 stuffed_text_def stuffed_def)
  next
    case nf: False
    show ?thesis
    proof (cases "breaks c")
      case True
      then have c: "c = CHR 0x0D \<or> c = CHR 0x0A" by (simp add: breaks_def)
      obtain out e where d: "data_loop True cs = (out, e)" by fastforce
      have ab: "after_break (c # cs) = cs" using nf by auto
      have e: "data_loop b (c # cs) = (CHR 0x0D # CHR 0x0A # out, e)"
        by (simp only: data_loop.simps if_not_P [OF nf] if_P [OF c] d prod.case)
      show ?thesis using "2.IH"(2) [OF nf c] True
        by (simp add: l d e ab stuffed_text_def stuffed_def crlf_def del: after_break.simps data_loop.simps)
    next
      case False
      obtain out e where d: "data_loop False cs = (out, e)" by fastforce
      show ?thesis using "2.IH"(3) [OF nf] nf False
        by (auto simp: l d stuffed_text_def stuffed_def breaks_def)
    qed
  qed
qed

lemma data_text_lines: "data_text m = stuffed_text (lines_of m) @ ''.'' @ crlf"
  using data_loop_lines [of True m] by (auto simp: data_text_def crlf_def split: prod.splits)

lemma multiline_loop_stream:
  assumes "alive (pop_conn c)" "stream (pop_conn c) = stuffed_text ls @ ''.'' @ crlf @ rest"
    and "\<forall>l\<in>set ls. (\<forall>x\<in>set l. \<not> breaks x) \<and> length l + 2 \<le> multiline_limit"
  shows "\<exists>c1. multiline_loop data c = ((0, data @ plain_text ls), c1) \<and> stream (pop_conn c1) = rest"
  using assms
proof (induction ls arbitrary: data c)
  case Nil
  have "stream (pop_conn c) = (''.'' @ [CHR 0x0D]) @ CHR 0x0A # rest" using Nil by (simp add: stuffed_text_def crlf_def)
  from ReadLine_stream [OF Nil(1) this, of multiline_limit] obtain cn where
    r: "ReadLine multiline_limit (pop_conn c) = (Some ''.'', cn)" "stream cn = rest"
    by (auto simp: drop_cr_def multiline_limit_def)
  show ?case by (subst multiline_loop.simps) (simp add: r plain_text_def)
next
  case (Cons l ls)
  have s: "stream (pop_conn c) = (stuffed l @ [CHR 0x0D]) @ CHR 0x0A # stuffed_text ls @ ''.'' @ crlf @ rest"
    using Cons.prems by (simp add: stuffed_text_def crlf_def)
  have n: "CHR 0x0A \<notin> set (stuffed l @ [CHR 0x0D])" "length (stuffed l @ [CHR 0x0D]) \<le> multiline_limit"
    using Cons.prems(3) by (auto simp: stuffed_def breaks_def)
  obtain cn where r: "ReadLine multiline_limit (pop_conn c) = (Some (stuffed l), cn)"
      "stream cn = stuffed_text ls @ ''.'' @ crlf @ rest" "alive cn"
    using ReadLine_stream [OF Cons.prems(1) s n] Cons.prems(1) same_side_alive by (auto simp: drop_cr_def)
  let ?c = "c\<lparr>pop_conn := cn\<rparr>"
  have ne: "stuffed l \<noteq> ''.''" by (auto simp: stuffed_def)
  have u: "(if stuffed l \<noteq> [] \<and> hd (stuffed l) = CHR ''.'' then tl (stuffed l) else stuffed l) = l"
    by (simp add: stuffed_def)
  have e: "multiline_loop data c = multiline_loop (data @ l @ crlf) ?c"
    by (subst multiline_loop.simps) (simp add: r ne u)
  have "\<exists>c1. multiline_loop (data @ l @ crlf) ?c = ((0, (data @ l @ crlf) @ plain_text ls), c1) \<and> stream (pop_conn c1) = rest"
    by (rule Cons.IH) (use r Cons.prems(3) in auto)
  then show ?case by (simp add: e plain_text_def)
qed

text \<open>
  C28: A mail that the SMTP client sends with \<open>Data\<close> is what the POP3 client returns when it reads these bytes
  as a reply: all its lines, also those that start with a dot or are a single dot, each ended by CR LF
  whatever ended it, and nothing of what follows is read.
\<close>

theorem mail_roundtrip:
  assumes "alive (pop_conn c)" and "stream (pop_conn c) = data_text m @ rest"
    and "\<forall>l\<in>set (lines_of m). length l + 2 \<le> multiline_limit"
  shows "\<exists>c1. read_multiline c = ((0, plain_text (lines_of m)), c1) \<and> stream (pop_conn c1) = rest"
proof -
  have "stream (pop_conn c) = stuffed_text (lines_of m) @ ''.'' @ crlf @ rest"
    using assms(2) by (simp add: data_text_lines)
  from multiline_loop_stream [OF assms(1) this, of "[]"] show ?thesis
    using assms(3) lines_of_no_break by (auto simp: read_multiline_def)
qed

definition sample_pop :: gxsPOP3Client where
  "sample_pop =
     (new_gxsPOP3Client True)\<lparr>pop_conn := (new_gxsTLSConnection True)\<lparr>secure := True,
        tls_reads := [Arrived ''Hi'', Arrived ([CHR 0x0D, CHR 0x0A] @ ''..'' @ [CHR 0x0D]),
          Arrived ([CHR 0x0A] @ ''.'' @ crlf @ ''+OK'')]\<rparr>\<rparr>"

theorem mail_roundtrip_witness:
  "\<exists>c1. read_multiline sample_pop = ((0, ''Hi'' @ crlf @ ''.'' @ crlf), c1) \<and> stream (pop_conn c1) = ''+OK''"
proof -
  have l: "lines_of (''Hi'' @ [CHR 0x0A] @ ''.'') = [''Hi'', ''.'']" by code_simp
  have "alive (pop_conn sample_pop)" by code_simp
  moreover have "stream (pop_conn sample_pop) = data_text (''Hi'' @ [CHR 0x0A] @ ''.'') @ ''+OK''" by code_simp
  moreover have "\<forall>x\<in>set (lines_of (''Hi'' @ [CHR 0x0A] @ ''.'')). length x + 2 \<le> multiline_limit"
    unfolding l by (simp add: multiline_limit_def)
  ultimately have "\<exists>c1. read_multiline sample_pop = ((0, plain_text (lines_of (''Hi'' @ [CHR 0x0A] @ ''.''))), c1) \<and>
      stream (pop_conn c1) = ''+OK''"
    by (rule mail_roundtrip)
  then show ?thesis unfolding l by (simp add: plain_text_def)
qed

section \<open>What goes over the network in plain text\<close>

lemma fill_line_same: "fill_line n c = (b, c1) \<Longrightarrow> same_side c c1"
proof (induction n c rule: fill_line.induct)
  case (1 n c)
  obtain rv c2 where f: "fill c = (rv, c2)" by fastforce
  note e = "1.prems" [unfolded fill_line.simps [of n c] f prod.case]
  show ?case using e "1.IH" [OF _ _ f [symmetric]] fill_same [OF f]
    by (auto simp: conn_fail_def same_side_def split: if_splits)
qed

lemma ReadLine_same: "ReadLine n c = (l, c1) \<Longrightarrow> same_side c c1"
  by (auto simp: ReadLine_def Let_def conn_fail_def same_side_def dest!: fill_line_same split: prod.splits bool.splits if_splits)

text \<open>A connection that sends nothing in plain text: it is secure or closed.\<close>

definition guarded :: "gxsTLSConnection \<Rightarrow> bool" where
  "guarded c \<longleftrightarrow> secure c \<or> \<not> sock_open (sock c)"

definition quiet :: "gxsTLSConnection \<Rightarrow> gxsTLSConnection \<Rightarrow> bool" where
  "quiet c c1 \<longleftrightarrow> (guarded c \<longrightarrow> guarded c1 \<and> sent (sock c1) = sent (sock c))"

lemma quiet_refl [simp]: "quiet c c"
  by (simp add: quiet_def)

lemma quiet_trans: "quiet a b \<Longrightarrow> quiet b c \<Longrightarrow> quiet a c"
  by (simp add: quiet_def)

lemma same_side_quiet: "same_side c c1 \<Longrightarrow> quiet c c1"
  by (simp add: same_side_def quiet_def guarded_def)

lemma quiet_same: "quiet a b \<Longrightarrow> same_side b c \<Longrightarrow> quiet a c"
  by (simp add: same_side_def quiet_def guarded_def)

lemma Send_quiet: "Send b c = (rv, c1) \<Longrightarrow> quiet c c1"
  by (auto simp: Send_def SendSSLSocket_def conn_fail_def quiet_def guarded_def split: if_splits prod.splits list.splits bool.splits)

lemma Close_quiet: "quiet c (Close_conn c)"
  by (simp add: quiet_def guarded_def Close_conn_def Close_socket_def)

lemma smtp_reply_loop_same:
  "smtp_reply_loop k c = (rv, c1) \<Longrightarrow> same_side (smtp_conn c) (smtp_conn c1) \<and> extensions c1 = extensions c \<and> client_name c1 = client_name c"
proof (induction k c arbitrary: rv rule: smtp_reply_loop.induct)
  case (1 c)
  then show ?case by (auto simp: smtp_fail_def)
next
  case (2 k c0)
  obtain r cn where r: "ReadLine 4096 (smtp_conn c0) = (r, cn)" by fastforce
  note s = ReadLine_same [OF r]
  show ?case
  proof (cases r)
    case None
    then show ?thesis using "2.prems" s by (auto simp: r smtp_fail_def)
  next
    case (Some line)
    show ?thesis
      using "2.prems" "2.IH" [OF r [symmetric] refl Some _ refl] s
      by (auto simp: r Some smtp_fail_def Let_def dest: same_side_trans split: if_splits)
  qed
qed

lemma smtp_read_reply_same:
  "smtp_read_reply c = (rv, c1) \<Longrightarrow> same_side (smtp_conn c) (smtp_conn c1) \<and> extensions c1 = extensions c \<and> client_name c1 = client_name c"
  by (auto simp: smtp_read_reply_def dest: smtp_reply_loop_same)

lemma smtp_Command_quiet: "smtp_Command cmd e c = (rv, c1) \<Longrightarrow> quiet (smtp_conn c) (smtp_conn c1)"
  by (auto simp: smtp_Command_def smtp_fail_def Let_def SendLine_def split: if_splits prod.splits
      dest!: Send_quiet smtp_read_reply_same elim: quiet_same)

definition quiet_op :: "(gxsSMTPClient \<Rightarrow> int \<times> gxsSMTPClient) \<Rightarrow> bool" where
  "quiet_op f \<longleftrightarrow> (\<forall>c. quiet (smtp_conn c) (smtp_conn (snd (f c))))"

lemma quiet_Command [intro]: "quiet_op (smtp_Command cmd e)"
  using smtp_Command_quiet [OF prod.collapse [symmetric]] by (simp add: quiet_op_def)

lemma quiet_and_then: "quiet (smtp_conn c) (smtp_conn (snd r)) \<Longrightarrow> quiet_op f \<Longrightarrow> quiet (smtp_conn c) (smtp_conn (snd (and_then r f)))"
  by (auto simp: and_then_def quiet_op_def split: prod.splits dest: quiet_trans)

lemma quiet_op_then [intro]: "quiet_op f \<Longrightarrow> quiet_op g \<Longrightarrow> quiet_op (\<lambda>c. and_then (f c) g)"
  by (simp add: quiet_op_def quiet_and_then [unfolded quiet_op_def])

lemma quiet_Login: "quiet_op (smtp_Login user passwd)"
proof -
  have "quiet_op (\<lambda>c. and_then (smtp_Command ''AUTH LOGIN'' ''334'' c) (\<lambda>c1.
      and_then (smtp_Command (encode_text user) ''334'' c1) (smtp_Command (encode_text passwd) ''235'')))"
    by (intro quiet_op_then quiet_Command)
  then show ?thesis using quiet_Command by (simp add: quiet_op_def smtp_Login_def Let_def)
qed

lemma quiet_ehlo: "quiet_op (ehlo h)"
  unfolding quiet_op_def ehlo_def
proof (intro allI quiet_and_then)
  fix c show "quiet (smtp_conn c) (smtp_conn (snd (smtp_Command (''EHLO '' @ ehlo_name h c) ''250'' c)))"
    using quiet_Command by (simp add: quiet_op_def)
qed (simp add: quiet_op_def)

lemma quiet_Data: "quiet_op (Data m)"
  unfolding quiet_op_def Data_def
proof (intro allI quiet_and_then)
  fix c show "quiet (smtp_conn c) (smtp_conn (snd (smtp_Command ''DATA'' ''354'' c)))"
    using quiet_Command by (simp add: quiet_op_def)
next
  show "quiet_op (\<lambda>c1. case Send (data_text m) (smtp_conn c1) of (rv, cn) \<Rightarrow>
      let c2 = c1\<lparr>smtp_conn := cn\<rparr>
      in if rv < 0 then smtp_fail (''SMTP exception: '' @ conn_error cn) c2
         else case smtp_read_reply c2 of (code, c3) \<Rightarrow>
           if code < 0 then (-1, c3)
           else if last_code c3 \<noteq> 250 then smtp_fail (''SMTP exception: '' @ last_reply c3) c3 else (0, c3))"
    by (auto simp: quiet_op_def smtp_fail_def Let_def split: prod.splits if_splits
        dest!: Send_quiet smtp_read_reply_same elim: quiet_same)
qed

lemma quiet_rcpt: "quiet (smtp_conn c) (smtp_conn (snd (rcpt_loop ts h c)))"
proof (induction ts h c rule: rcpt_loop.induct)
  case (2 t ts h c)
  obtain rv c1 where r: "RcptTo t c = (rv, c1)" by fastforce
  have "quiet (smtp_conn c) (smtp_conn c1)" using r smtp_Command_quiet by (auto simp: RcptTo_def)
  then show ?case using "2.IH"(1) [OF _ r [symmetric]] r by (auto simp: smtp_fail_def dest: quiet_trans)
qed simp

lemma quiet_SendMessage: "quiet_op (SendMessage t i sender to s b)"
proof -
  have rest: "quiet_op (\<lambda>c1. case rcpt_loop to [] c1 of ((rv, h), c2) \<Rightarrow>
      if rv \<noteq> 0 then (-1, c2) else Data (message_text t i sender h s b) c2)"
    unfolding quiet_op_def
  proof
    fix c
    obtain rv h c2 where r: "rcpt_loop to [] c = ((rv, h), c2)" by (metis prod.collapse)
    have "quiet (smtp_conn c) (smtp_conn c2)" using quiet_rcpt [of c to "[]"] by (simp add: r)
    moreover have "quiet (smtp_conn c2) (smtp_conn (snd (Data m c2)))" for m using quiet_Data by (simp add: quiet_op_def)
    ultimately show "quiet (smtp_conn c) (smtp_conn (snd (case rcpt_loop to [] c of ((rv, h), c2) \<Rightarrow>
        if rv \<noteq> 0 then (-1, c2) else Data (message_text t i sender h s b) c2)))"
      using quiet_trans by (auto simp: r)
  qed
  have "quiet (smtp_conn c) (smtp_conn (snd (and_then (MailFrom sender c) (\<lambda>c1. case rcpt_loop to [] c1 of ((rv, h), c2) \<Rightarrow>
      if rv \<noteq> 0 then (-1, c2) else Data (message_text t i sender h s b) c2))))" for c
    by (rule quiet_and_then [OF _ rest]) (use quiet_Command in \<open>simp add: quiet_op_def MailFrom_def\<close>)
  then show ?thesis by (simp add: quiet_op_def SendMessage_def smtp_fail_def)
qed

lemma quiet_Quit: "quiet_op smtp_Quit"
proof -
  have "quiet (smtp_conn c) (Close_conn (smtp_conn (snd (smtp_Command m e c))))" for c m e
    using quiet_Command quiet_trans [OF _ Close_quiet] by (simp add: quiet_op_def)
  then show ?thesis by (auto simp: quiet_op_def smtp_Quit_def split: prod.splits) (metis snd_conv)
qed

subsection \<open>A session\<close>

datatype smtp_op =
    Command_op string string | Login_op string string | From_op string | Rcpt_op string | Data_op string | Reset_op
  | Quit_op | Message_op string string string "string list" string string

fun run_smtp :: "smtp_op \<Rightarrow> gxsSMTPClient \<Rightarrow> int \<times> gxsSMTPClient" where
  "run_smtp (Command_op cmd e) = smtp_Command cmd e"
| "run_smtp (Login_op user passwd) = smtp_Login user passwd"
| "run_smtp (From_op a) = MailFrom a"
| "run_smtp (Rcpt_op a) = RcptTo a"
| "run_smtp (Data_op m) = Data m"
| "run_smtp Reset_op = smtp_Reset"
| "run_smtp Quit_op = smtp_Quit"
| "run_smtp (Message_op t i sender to s b) = SendMessage t i sender to s b"

definition smtp_session :: "smtp_op list \<Rightarrow> gxsSMTPClient \<Rightarrow> gxsSMTPClient" where
  "smtp_session ops c = fold (\<lambda>op c. snd (run_smtp op c)) ops c"

lemma quiet_run: "quiet_op (run_smtp op)"
proof (cases op)
  case (From_op a)
  have "run_smtp op = smtp_Command (''MAIL FROM:'' @ angle a) ''250''" using From_op by (simp add: fun_eq_iff MailFrom_def)
  then show ?thesis using quiet_Command by simp
next
  case (Rcpt_op a)
  have "run_smtp op = smtp_Command (''RCPT TO:'' @ angle a) ''25''" using Rcpt_op by (simp add: fun_eq_iff RcptTo_def)
  then show ?thesis using quiet_Command by simp
next
  case Reset_op
  have "run_smtp op = smtp_Command ''RSET'' ''250''" using Reset_op by (simp add: fun_eq_iff smtp_Reset_def)
  then show ?thesis using quiet_Command by simp
qed (use quiet_Command quiet_Login quiet_Data quiet_Quit quiet_SendMessage in auto)

lemma quiet_session: "quiet (smtp_conn c) (smtp_conn (smtp_session ops c))"
proof (induction ops arbitrary: c)
  case (Cons op ops)
  have "quiet (smtp_conn c) (smtp_conn (snd (run_smtp op c)))" using quiet_run by (simp add: quiet_op_def)
  then show ?case using Cons quiet_trans by (simp add: smtp_session_def)
qed (simp add: smtp_session_def)

lemma Send_loop_sent:
  "Send_loop k buf s = (r, s1) \<Longrightarrow> 0 \<le> k \<Longrightarrow> 0 \<le> r \<Longrightarrow> sent s1 = sent s @ buf \<and> sock_open s1 = sock_open s"
proof (induction k buf s rule: Send_loop.induct)
  case (1 k buf s)
  obtain rv intr s2 where w: "RawWrite buf s = ((rv, intr), s2)" by (metis prod.collapse)
  note e = "1.prems" [unfolded Send_loop.simps [of k buf s] w prod.case]
  have t: "List.take (min (length buf) n) buf = List.take n buf" for n by (simp add: min_def)
  have r: "sock_open s2 = sock_open s" "rv < 0 \<Longrightarrow> sent s2 = sent s"
      "0 \<le> rv \<Longrightarrow> sent s2 = sent s @ List.take (nat rv) buf"
    using w t by (auto simp: RawWrite_def set_socket_error_def split: if_splits list.splits write_result.splits)
  show ?case
    using e r "1.IH"(1) [OF _ w [symmetric] refl] "1.IH"(2) [OF _ w [symmetric] refl]
    by (auto split: if_splits simp: append_take_drop_id)
qed

lemma Send_plain:
  assumes "Send b c = (rv, c1)" "\<not> secure c" "0 \<le> rv"
  shows "sent (sock c1) = sent (sock c) @ b \<and> \<not> secure c1"
  using assms Send_loop_sent [of 0 b "sock c"]
  by (auto simp: Send_def Send_socket_def conn_fail_def split: if_splits prod.splits)

lemma smtp_Command_plain:
  assumes "smtp_Command cmd e c = (0, c1)" "\<not> secure (smtp_conn c)"
  shows "sent (sock (smtp_conn c1)) = sent (sock (smtp_conn c)) @ cmd @ crlf \<and> \<not> secure (smtp_conn c1) \<and>
    client_name c1 = client_name c"
  using assms
  by (auto simp: smtp_Command_def smtp_fail_def Let_def SendLine_def same_side_def crlf_def split: if_splits prod.splits
      dest!: Send_plain smtp_read_reply_same)

lemma StartTLS_ok:
  assumes "StartTLS c = (0, c1)"
  shows "secure c1" "sent (sock c1) = sent (sock c)"
  using assms
  by (auto simp: StartTLS_def tls_handshake_client_def conn_fail_def split: if_splits list.splits tls_outcome.splits)

lemma Connect_ok:
  assumes "Connect_conn host port tls l c = (0, c1)"
  shows "secure c1 = tls" "sent (sock c1) = []"
  using assms StartTLS_ok
  by (auto simp: Connect_conn_def Connect_socket_def Let_def conn_fail_def set_socket_error_def set_link_def Close_conn_def
      split: if_splits)

lemma ehlo_plain:
  assumes "ehlo h c = (0, c1)" "\<not> secure (smtp_conn c)"
  shows "sent (sock (smtp_conn c1)) = sent (sock (smtp_conn c)) @ ''EHLO '' @ ehlo_name h c @ crlf \<and>
    \<not> secure (smtp_conn c1) \<and> client_name c1 = client_name c"
  using assms by (auto simp: ehlo_def and_then_def split: prod.splits if_splits dest!: smtp_Command_plain)

lemma Send_secure: "Send b c = (rv, c1) \<Longrightarrow> secure c1 = secure c"
  by (auto simp: Send_def SendSSLSocket_def conn_fail_def split: if_splits prod.splits list.splits bool.splits)

lemma smtp_Command_secure: "smtp_Command cmd e c = (rv, c1) \<Longrightarrow> secure (smtp_conn c1) = secure (smtp_conn c)"
  by (auto simp: smtp_Command_def smtp_fail_def Let_def SendLine_def same_side_def split: if_splits prod.splits
      dest!: Send_secure smtp_read_reply_same)

lemma ehlo_secure: "ehlo h c = (rv, c1) \<Longrightarrow> secure (smtp_conn c1) = secure (smtp_conn c)"
  by (auto simp: ehlo_def and_then_def split: prod.splits if_splits dest!: smtp_Command_secure)

lemma ehlo_quiet: "ehlo h c = (rv, c1) \<Longrightarrow> quiet (smtp_conn c) (smtp_conn c1)"
  using quiet_ehlo [of h] by (auto simp: quiet_op_def dest: spec [of _ c])

lemma and_then_0: "and_then r f = (0, c) \<Longrightarrow> \<exists>c1. r = (0, c1) \<and> f c1 = (0, c)"
  by (auto simp: and_then_def split: prod.splits if_splits)

lemma smtp_Connect_steps:
  assumes "smtp_Connect hostname host port security l c0 = (0, c)"
  obtains cn code c1 c2 where
    "Connect_conn host port (security = gxsMAIL_IMPLICIT_TLS) l (smtp_conn c0) = (0, cn)"
    "smtp_read_reply (c0\<lparr>smtp_error := [], smtp_conn := cn\<rparr>) = (code, c1)" "ehlo hostname c1 = (0, c2)"
    "if security = gxsMAIL_STARTTLS
     then \<exists>c3 cn3. smtp_Command ''STARTTLS'' ''220'' c2 = (0, c3) \<and> StartTLS (smtp_conn c3) = (0, cn3) \<and>
       ehlo hostname (c3\<lparr>smtp_conn := cn3\<rparr>) = (0, c)
     else c = c2"
proof -
  obtain rv cn where k: "Connect_conn host port (security = gxsMAIL_IMPLICIT_TLS) l (smtp_conn c0) = (rv, cn)" by fastforce
  obtain code c1 where r: "smtp_read_reply (c0\<lparr>smtp_error := [], smtp_conn := cn\<rparr>) = (code, c1)" by fastforce
  note e = assms [unfolded smtp_Connect_def k prod.case Let_def r]
  have z: "rv = 0" "\<not> code < 0" "last_code c1 = 220" using e by (auto simp: smtp_fail_def split: if_splits)
  obtain c2 where c2: "ehlo hostname c1 = (0, c2)" and
    f: "(if security \<noteq> gxsMAIL_STARTTLS then (0, c2)
         else if \<not> HasExtension ''STARTTLS'' c2
         then smtp_fail (''SMTP exception: '' @ host @ '' does not offer STARTTLS'')
                (c2\<lparr>smtp_conn := Close_conn (smtp_conn c2)\<rparr>)
         else and_then (smtp_Command ''STARTTLS'' ''220'' c2) (\<lambda>c3.
           case StartTLS (smtp_conn c3) of (rv3, cn3) \<Rightarrow>
             if rv3 \<noteq> 0 then smtp_fail (conn_error cn3) (c3\<lparr>smtp_conn := cn3\<rparr>) else ehlo hostname (c3\<lparr>smtp_conn := cn3\<rparr>))) = (0, c)"
    using e z and_then_0 by (auto simp del: append.append_Cons dest!: and_then_0)
  show ?thesis
  proof (rule that [OF k [unfolded z] r c2])
    show "if security = gxsMAIL_STARTTLS
      then \<exists>c3 cn3. smtp_Command ''STARTTLS'' ''220'' c2 = (0, c3) \<and> StartTLS (smtp_conn c3) = (0, cn3) \<and>
        ehlo hostname (c3\<lparr>smtp_conn := cn3\<rparr>) = (0, c)
      else c = c2"
      using f by (auto simp: smtp_fail_def split: if_splits prod.splits dest!: and_then_0)
  qed
qed

text \<open>
  C25: After a \<open>Connect\<close> that succeeds, the connection is secure, and all that ever goes over the network in plain text,
  whatever is done in the session, is the greeting by name and the request for TLS: with TLS from the start,
  nothing. The credentials, the mails and their addresses are among what is done.
\<close>

theorem smtp_session_secure:
  assumes "smtp_Connect hostname host port security l c0 = (0, c)"
  shows "secure (smtp_conn c) \<and> sent (sock (smtp_conn (smtp_session ops c))) =
    (if security = gxsMAIL_STARTTLS then ''EHLO '' @ ehlo_name hostname c0 @ crlf @ ''STARTTLS'' @ crlf else [])"
proof -
  have "secure (smtp_conn c) \<and> sent (sock (smtp_conn c)) =
    (if security = gxsMAIL_STARTTLS then ''EHLO '' @ ehlo_name hostname c0 @ crlf @ ''STARTTLS'' @ crlf else [])"
  proof -
    obtain cn code c1 c2 where st:
      "Connect_conn host port (security = gxsMAIL_IMPLICIT_TLS) l (smtp_conn c0) = (0, cn)"
      "smtp_read_reply (c0\<lparr>smtp_error := [], smtp_conn := cn\<rparr>) = (code, c1)" "ehlo hostname c1 = (0, c2)"
      "if security = gxsMAIL_STARTTLS
       then \<exists>c3 cn3. smtp_Command ''STARTTLS'' ''220'' c2 = (0, c3) \<and> StartTLS (smtp_conn c3) = (0, cn3) \<and>
         ehlo hostname (c3\<lparr>smtp_conn := cn3\<rparr>) = (0, c)
       else c = c2"
      using smtp_Connect_steps [OF assms] by metis
    have cn: "secure cn = (security = gxsMAIL_IMPLICIT_TLS)" "sent (sock cn) = []" using Connect_ok [OF st(1)] by simp_all
    have c1: "secure (smtp_conn c1) = (security = gxsMAIL_IMPLICIT_TLS)" "sent (sock (smtp_conn c1)) = []"
        "client_name c1 = client_name c0"
      using smtp_read_reply_same [OF st(2)] cn by (simp_all add: same_side_def)
    show ?thesis
    proof (cases security)
      case gxsMAIL_IMPLICIT_TLS
      then show ?thesis
        using st(4) c1 ehlo_secure [OF st(3)] ehlo_quiet [OF st(3)] by (simp add: quiet_def guarded_def)
    next
      case gxsMAIL_STARTTLS
      then obtain c3 cn3 where s3: "smtp_Command ''STARTTLS'' ''220'' c2 = (0, c3)" "StartTLS (smtp_conn c3) = (0, cn3)"
          "ehlo hostname (c3\<lparr>smtp_conn := cn3\<rparr>) = (0, c)"
        using st(4) by auto
      have ns: "\<not> secure (smtp_conn c1)" using c1 gxsMAIL_STARTTLS by simp
      note e2 = ehlo_plain [OF st(3) ns]
      note e3 = smtp_Command_plain [OF s3(1) conjunct1 [OF conjunct2 [OF e2]]]
      have "ehlo_name hostname c1 = ehlo_name hostname c0" using c1(3) by (simp add: ehlo_name_def)
      then show ?thesis
        using gxsMAIL_STARTTLS e2 e3 c1(2) StartTLS_ok [OF s3(2)] ehlo_secure [OF s3(3)] ehlo_quiet [OF s3(3)]
        by (simp add: quiet_def guarded_def)
    qed
  qed
  moreover have "quiet (smtp_conn c) (smtp_conn (smtp_session ops c))" by (rule quiet_session)
  ultimately show ?thesis by (simp add: quiet_def guarded_def)
qed

definition sample_link :: "tls_outcome \<Rightarrow> link" where
  "sample_link handshake =
     \<lparr>link_error = gxSOCKET_NO_ERROR,
      link_reads = [Arrived (''220'' @ crlf), Arrived (''250-'' @ crlf @ ''250 STARTTLS'' @ crlf), Arrived (''220'' @ crlf)],
      link_writes = [], link_handshakes = [handshake], link_tls_reads = [Arrived (''250'' @ crlf)],
      link_tls_writes = [], link_tls_message = []\<rparr>"

definition sample_mail :: "tls_outcome \<Rightarrow> int \<times> gxsSMTPClient" where
  "sample_mail handshake =
     smtp_Connect ''me'' ''mail'' 587 gxsMAIL_STARTTLS (sample_link handshake) (new_gxsSMTPClient True [])"

theorem smtp_session_secure_witness:
  "secure (smtp_conn (snd (sample_mail Handshake_done))) \<and>
   sent (sock (smtp_conn (smtp_session [Login_op ''u'' ''p'', Quit_op] (snd (sample_mail Handshake_done))))) =
     ''EHLO me'' @ crlf @ ''STARTTLS'' @ crlf"
proof -
  have n: "ehlo_name ''me'' (new_gxsSMTPClient True []) = ''me''" by code_simp
  have "fst (sample_mail Handshake_done) = 0" by code_simp
  then have "smtp_Connect ''me'' ''mail'' 587 gxsMAIL_STARTTLS (sample_link Handshake_done) (new_gxsSMTPClient True []) =
      (0, snd (sample_mail Handshake_done))"
    by (metis sample_mail_def prod.collapse)
  from smtp_session_secure [OF this, of "[Login_op ''u'' ''p'', Quit_op]"] show ?thesis
    unfolding n by simp
qed

text \<open>
  After a \<open>Connect\<close> that fails in the handshake the plain connection is open, and a \<open>Login\<close> sends the credentials
  over it.
\<close>

lemma smtp_login_without_TLS:
  "fst (sample_mail (No_handshake ''bad'')) = -1 \<and>
   sent (sock (smtp_conn (smtp_session [Login_op ''u'' ''p''] (snd (sample_mail (No_handshake ''bad'')))))) =
     ''EHLO me'' @ crlf @ ''STARTTLS'' @ crlf @ ''AUTH PLAIN AHUAcA=='' @ crlf"
  by code_simp

section \<open>HTTP messages\<close>

definition header_ok :: "header \<Rightarrow> bool" where
  "header_ok h \<longleftrightarrow> fst h \<noteq> [] \<and> CHR '':'' \<notin> set (fst h) \<and> trim (fst h) = fst h \<and> trim (snd h) = snd h \<and>
     length (fst h) + length (snd h) + 3 \<le> 16384"

definition field_size :: "header \<Rightarrow> nat" where
  "field_size h = length (fst h) + length (snd h) + 2"

definition word_ok :: "string \<Rightarrow> bool" where
  "word_ok w \<longleftrightarrow> w \<noteq> [] \<and> CHR '' '' \<notin> set w \<and> \<not> has_line_break w"

text \<open>A request that its receiver can tell apart: words without blanks, trimmed headers, no length of its own.\<close>

definition request_ok :: "gxsHTTPMessage \<Rightarrow> bool" where
  "request_ok m \<longleftrightarrow> http_status m = 0 \<and> http_reason m = [] \<and>
     word_ok (http_method m) \<and> word_ok (http_target m) \<and> word_ok (http_version m) \<and> starts_with (http_version m) ''HTTP/'' \<and>
     length (http_method m) + length (http_target m) + length (http_version m) + 3 \<le> 16384 \<and>
     list_all header_ok (http_headers m) \<and> length (http_headers m) \<le> 200 \<and>
     sum_list (map field_size (http_headers (with_length m))) \<le> max_headers_size \<and>
     \<not> HasHeader ''Transfer-Encoding'' m \<and> \<not> HasHeader ''Content-Length'' m"

lemma trim_left_space: "trim (CHR '' '' # s) = trim s"
  by (simp add: trim_def trim_left_def is_space_def)

lemma trim_fixed_hd:
  assumes "trim s = s" "s \<noteq> []"
  shows "\<not> is_space (hd s)"
proof
  assume h: "is_space (hd s)"
  have le: "length (trim_right t) \<le> length t" for t
    by (simp add: trim_right_def) (metis length_dropWhile_le length_rev)
  have "length (trim_left s) < length s"
    using h assms(2) length_dropWhile_le [of is_space "tl s"] by (cases s) (auto simp: trim_left_def)
  then show False using le [of "trim_left s"] assms(1) by (simp add: trim_def)
qed

lemma line_read:
  assumes "alive c" "stream c = l @ crlf @ rest" "\<not> has_line_break l" "length l < n"
  shows "\<exists>c1. ReadLine n c = (Some l, c1) \<and> stream c1 = rest \<and> same_side c c1"
proof -
  have "stream c = (l @ [CHR 0x0D]) @ CHR 0x0A # rest" using assms(2) by (simp add: crlf_def)
  from ReadLine_stream [OF assms(1) this, of n] show ?thesis
    using assms(3,4) by (auto simp: has_line_break_def drop_cr_def)
qed

lemma cut_at_append: "x \<notin> set a \<Longrightarrow> cut_at x (a @ x # b) = (a, Some b)"
  by (induction a) (auto simp: cut_at_def)

lemma read_headers_stream:
  assumes "alive c" "stream c = header_lines hs @ crlf @ rest" "list_all header_ok hs"
    and "\<forall>h\<in>set hs. \<not> has_line_break (fst h) \<and> \<not> has_line_break (snd h)"
    and "k + sum_list (map field_size hs) \<le> max_headers_size" "length (http_headers m) + length hs \<le> 201"
  shows "\<exists>c1. read_headers_loop k m c = (0, m\<lparr>http_headers := http_headers m @ hs\<rparr>, c1) \<and> stream c1 = rest \<and> same_side c c1"
  using assms
proof (induction hs arbitrary: k m c)
  case Nil
  obtain c1 where c1: "ReadLine 16384 c = (Some [], c1)" "stream c1 = rest" "same_side c c1"
    using line_read [OF Nil(1), of "[]" rest 16384] Nil(2) by (auto simp: header_lines_def has_line_break_def)
  show ?case by (subst read_headers_loop.simps) (simp add: c1)
next
  case (Cons h hs)
  obtain n v where h: "h = (n, v)" by fastforce
  let ?l = "n @ '': '' @ v"
  have ok: "n \<noteq> []" "CHR '':'' \<notin> set n" "trim n = n" "trim v = v" "length ?l < 16384" "\<not> has_line_break ?l"
    using Cons.prems(3,4) by (auto simp: h header_ok_def has_line_break_def)
  obtain c1 where c1: "ReadLine 16384 c = (Some ?l, c1)" "stream c1 = header_lines hs @ crlf @ rest" "same_side c c1"
    using line_read [OF Cons.prems(1) _ ok(6,5), of "header_lines hs @ crlf @ rest"] Cons.prems(2)
    by (auto simp: header_lines_def h)
  have hd: "hd ?l \<noteq> CHR '' ''" "hd ?l \<noteq> CHR 0x09" "?l \<noteq> []"
    using trim_fixed_hd [OF ok(3,1)] ok(1) by (auto simp: is_space_def)
  have cut: "cut_at (CHR '':'') ?l = (n, Some ('' '' @ v))" using cut_at_append [OF ok(2)] by simp
  have sz: "\<not> k + length ?l > max_headers_size" "\<not> length (http_headers m) > 200"
    using Cons.prems(5,6) by (simp_all add: h field_size_def)
  have e: "read_headers_loop k m c = read_headers_loop (k + length ?l) (AddHeader n v m) c1"
    using hd sz ok(1,3,4) cut trim_left_space [of v]
    by (subst read_headers_loop.simps) (simp add: c1(1) Let_def)
  have "\<exists>c2. read_headers_loop (k + length ?l) (AddHeader n v m) c1 =
      (0, (AddHeader n v m)\<lparr>http_headers := http_headers (AddHeader n v m) @ hs\<rparr>, c2) \<and> stream c2 = rest \<and> same_side c1 c2"
    by (rule Cons.IH) (use c1 Cons.prems same_side_alive in \<open>auto simp: h field_size_def AddHeader_def\<close>)
  then show ?case using c1(3) by (auto simp: e AddHeader_def h dest: same_side_trans)
qed

lemma whole_decimal_to_string: "int n < 2 ^ 64 \<Longrightarrow> whole_decimal (to_string (int n)) = Some (int n)"
proof -
  assume n: "int n < 2 ^ 64"
  let ?s = "dec_digits n"
  have d: "\<forall>c\<in>set ?s. is_digit c" by (rule dec_digits_digits)
  then have c: "\<forall>c\<in>set ?s. c \<noteq> CHR 0x00 \<and> \<not> is_space c \<and> c \<noteq> CHR ''-'' \<and> c \<noteq> CHR ''+''"
    by (auto simp: is_digit_def is_space_def)
  have ne: "?s \<noteq> []" by (rule dec_digits_ne)
  have t: "takeWhile (\<lambda>c. c \<noteq> CHR 0x00) ?s = ?s" using c by (simp add: takeWhile_eq_all_conv)
  have "hd ?s \<in> set ?s" using ne by simp
  then have "trim_left ?s = ?s" "hd ?s \<noteq> CHR ''-''" "hd ?s \<noteq> CHR ''+''"
    using c ne by (auto simp: trim_left_def dropWhile_eq_self_iff)
  then have "sign_cut ?s = (False, ?s)" using ne by (simp add: sign_cut_def)
  then show ?thesis
    using ne d n digits_value_dec_digits [of n]
    by (simp add: whole_decimal_def to_string_def to_ull_def list_all_iff Let_def t)
qed

lemma words_split:
  assumes "word_ok a" "word_ok b" "word_ok v"
  shows "split (a @ '' '' @ b @ '' '' @ v) (CHR '' '') True = [a, b, v]"
proof -
  have tw: "takeWhile (\<lambda>c. c \<noteq> CHR '' '') (x @ CHR '' '' # y) = x \<and> dropWhile (\<lambda>c. c \<noteq> CHR '' '') (x @ CHR '' '' # y) = CHR '' '' # y"
    if "CHR '' '' \<notin> set x" for x y using that by (induction x) auto
  have l: "takeWhile (\<lambda>c. c \<noteq> CHR '' '') v = v" "dropWhile (\<lambda>c. c \<noteq> CHR '' '') v = []"
    using assms(3) by (auto simp: word_ok_def takeWhile_eq_all_conv)
  have "split v (CHR '' '') True = [v]" using assms(3) by (subst split.simps) (simp add: word_ok_def Let_def l)
  moreover have "split (b @ CHR '' '' # v) (CHR '' '') True = b # split v (CHR '' '') True"
    using assms(2) tw [of b v] by (subst split.simps) (simp add: word_ok_def)
  moreover have "split (a @ CHR '' '' # b @ CHR '' '' # v) (CHR '' '') True = a # split (b @ CHR '' '' # v) (CHR '' '') True"
    using assms(1) tw [of a "b @ CHR '' '' # v"] by (subst split.simps) (simp add: word_ok_def)
  ultimately show ?thesis by simp
qed

lemma Header_none: "\<not> HasHeader n m \<Longrightarrow> Header n m = []"
  by (auto simp: HasHeader_def Header_def find_None_iff list_ex_iff split: option.splits dest: find_Some_iff [THEN iffD1])

lemma iequals_refl: "iequals s s"
  by (simp add: iequals_def list_all2_refl)

lemma with_length_headers:
  assumes "\<not> HasHeader ''Transfer-Encoding'' m" "\<not> HasHeader ''Content-Length'' m"
  shows "with_length m = m\<lparr>http_headers := http_headers m @ [(''Content-Length'', to_string (int (length (http_body m))))]\<rparr>"
proof -
  have "filter (\<lambda>h. \<not> iequals (fst h) ''Content-Length'') (http_headers m) = http_headers m"
    using assms(2) by (auto simp: HasHeader_def list_ex_iff intro: filter_True)
  then show ?thesis using assms by (simp add: with_length_def SetHeader_def AddHeader_def RemoveHeader_def)
qed

lemma Header_of_length:
  assumes "\<not> HasHeader ''Content-Length'' m"
  shows "Header ''Content-Length'' (m\<lparr>http_headers := http_headers m @ [(''Content-Length'', v)]\<rparr>) = v"
proof -
  have "List.find (\<lambda>h. iequals (fst h) ''Content-Length'') (hs @ [(''Content-Length'', v)]) = Some (''Content-Length'', v)"
    if "\<not> list_ex (\<lambda>h. iequals (fst h) ''Content-Length'') hs" for hs
    using that iequals_refl by (induction hs) auto
  then show ?thesis using assms by (simp add: HasHeader_def Header_def)
qed

lemma no_transfer_encoding:
  assumes "\<not> HasHeader ''Transfer-Encoding'' m"
  shows "Header ''Transfer-Encoding'' (m\<lparr>http_headers := http_headers m @ [(''Content-Length'', v)]\<rparr>) = []"
proof (rule Header_none)
  have "\<not> iequals ''Content-Length'' ''Transfer-Encoding''" by code_simp
  then show "\<not> HasHeader ''Transfer-Encoding'' (m\<lparr>http_headers := http_headers m @ [(''Content-Length'', v)]\<rparr>)"
    using assms by (simp add: HasHeader_def)
qed

lemma to_string_plain: "\<not> has_line_break (to_string (int n))" "trim (to_string (int n)) = to_string (int n)"
proof -
  have s: "\<forall>c\<in>set (to_string (int n)). \<not> is_space c" by (rule to_string_no_space)
  then show "\<not> has_line_break (to_string (int n))" by (auto simp: has_line_break_def is_space_def)
  have t: "dropWhile is_space x = x" if "\<forall>c\<in>set x. \<not> is_space c" for x using that by (cases x) auto
  show "trim (to_string (int n)) = to_string (int n)" using s by (simp add: trim_def trim_left_def trim_right_def t)
qed

text \<open>What the length header adds is accepted too.\<close>

lemma length_header_ok:
  assumes "n < 2 ^ 63"
  shows "header_ok (''Content-Length'', to_string (int n))"
proof -
  have "length (dec_digits k) \<le> length (dec_digits k)" for k by simp
  have d: "length (dec_digits k) \<le> Suc j" if "k < 10 ^ Suc j" for k j
    using that
  proof (induction j arbitrary: k)
    case (Suc j)
    show ?case
    proof (cases "k < 10")
      case False
      have "length (dec_digits (k div 10)) \<le> Suc j" by (rule Suc.IH) (use Suc.prems in auto)
      then show ?thesis using False by (subst dec_digits.simps) simp
    qed (subst dec_digits.simps, simp)
  qed (subst dec_digits.simps, simp)
  have "length (to_string (int n)) \<le> Suc 18" using d [of n 18] assms by (simp add: to_string_def)
  moreover have "trim ''Content-Length'' = ''Content-Length''" by code_simp
  ultimately show ?thesis using to_string_plain by (simp add: header_ok_def)
qed

lemma Send_tls:
  assumes "Send b c = (rv, c1)" "secure c" "0 \<le> rv"
  shows "tls_sent c1 = tls_sent c @ b"
  using assms by (auto simp: Send_def SendSSLSocket_def conn_fail_def split: if_splits prod.splits list.splits bool.splits)

text \<open>
  C26: A request that \<open>gxsHTTPWriteRequest\<close> writes is the message that \<open>gxsHTTPReadRequest\<close> reads from these bytes,
  however they arrive: its line, its headers in their order with the length that was added, and its body, whatever bytes
  that has; nothing of what follows is read.
\<close>

theorem http_request_roundtrip:
  assumes "request_ok m" and "gxsHTTPWriteRequest w m = (0, m1, w1)" and "secure w"
    and "int (length (http_body m)) \<le> max_size" and "max_size < 2 ^ 63"
    and "alive c" and "tls_sent w1 = tls_sent w @ b" and "stream c = b @ rest"
  shows "\<exists>c1. gxsHTTPReadRequest max_size c = (0, m1, c1) \<and> stream c1 = rest"
proof -
  let ?v = "to_string (int (length (http_body m)))"
  let ?hs = "http_headers m @ [(''Content-Length'', ?v)]"
  have nh: "\<not> HasHeader ''Transfer-Encoding'' m" "\<not> HasHeader ''Content-Length'' m" and w: "word_ok (http_method m)"
      "word_ok (http_target m)" "word_ok (http_version m)"
    using assms(1) by (simp_all add: request_ok_def)
  note wl = with_length_headers [OF nh]
  let ?line = "http_method m @ '' '' @ http_target m @ '' '' @ http_version m"
  have lb: "\<not> has_line_break (http_method m)" "\<not> has_line_break (http_target m)" "http_target m \<noteq> []"
    using w by (simp_all add: word_ok_def)
  have wr: "write_message ?line w m = (0, m1, w1)" using assms(2) lb by (simp add: gxsHTTPWriteRequest_def)
  have nb: "\<not> list_ex (\<lambda>h. has_line_break (fst h) \<or> has_line_break (snd h)) ?hs"
    using wr wl by (auto simp: write_message_def Let_def split: if_splits)
  have "m1 = m\<lparr>http_headers := ?hs\<rparr> \<and> tls_sent w1 = tls_sent w @ ?line @ crlf @ header_lines ?hs @ crlf @ http_body m"
    using wr nb Send_tls [OF _ assms(3)]
    by (auto simp: write_message_def Let_def wl split: prod.splits if_splits)
  then have m1: "m1 = m\<lparr>http_headers := ?hs\<rparr>" and b: "b = ?line @ crlf @ header_lines ?hs @ crlf @ http_body m"
    using assms(7) by simp_all
  have st: "stream c = ?line @ crlf @ header_lines ?hs @ crlf @ http_body m @ rest" using assms(8) b by simp
  have ll: "\<not> has_line_break ?line" "length ?line < 16384" "?line \<noteq> []"
    using assms(1) by (auto simp: request_ok_def word_ok_def has_line_break_def)
  obtain c2 where c2: "ReadLine 16384 c = (Some ?line, c2)" "stream c2 = header_lines ?hs @ crlf @ http_body m @ rest" "same_side c c2"
    using line_read [OF assms(6) st ll(1,2)] by blast
  have rl: "request_line c = (Some ?line, c2)" using ll(3) c2(1) by (subst request_line.simps) simp
  let ?m0 = "Clear\<lparr>http_method := http_method m, http_target := http_target m, http_version := http_version m\<rparr>"
  have hok: "list_all header_ok ?hs" "\<forall>h\<in>set ?hs. \<not> has_line_break (fst h) \<and> \<not> has_line_break (snd h)"
      "0 + sum_list (map field_size ?hs) \<le> max_headers_size" "length (http_headers ?m0) + length ?hs \<le> 201"
    using assms(1,4,5) nb length_header_ok [of "length (http_body m)"]
    by (simp_all add: request_ok_def wl Clear_def list_ex_iff)
  have al: "alive c2" using assms(6) c2(3) same_side_alive by blast
  obtain c3 where c3: "read_headers_loop 0 ?m0 c2 = (0, ?m0\<lparr>http_headers := http_headers ?m0 @ ?hs\<rparr>, c3)"
      "stream c3 = http_body m @ rest" "same_side c2 c3"
    using read_headers_stream [OF al c2(2) hok] by blast
  let ?m2 = "?m0\<lparr>http_headers := http_headers ?m0 @ ?hs\<rparr>"
  have al3: "alive c3" using al c3(3) same_side_alive by blast
  obtain c4 where c4: "Read_conn (length (http_body m)) c3 = (http_body m, c4)" "stream c4 = rest"
    using Read_conn_stream [OF al3, of "length (http_body m)"] c3(2) by auto
  have hd: "Header ''Transfer-Encoding'' (?m2\<lparr>http_body := []\<rparr>) = []" "Header ''Content-Length'' (?m2\<lparr>http_body := []\<rparr>) = ?v"
    using no_transfer_encoding [OF nh(1), of ?v] Header_of_length [OF nh(2), of ?v]
    by (simp_all add: Header_def Clear_def)
  have wd: "whole_decimal ?v = Some (int (length (http_body m)))" by (rule whole_decimal_to_string) (use assms(4,5) in simp)
  have vne: "?v \<noteq> []" by (rule to_string_ne)
  have "read_body max_size False ?m2 c3 = (0, ?m2\<lparr>http_body := http_body m\<rparr>, c4)"
    using assms(4) by (simp only: read_body_def Let_def hd) (simp add: vne wd c4(1) ifind_def)
  moreover have "?m2\<lparr>http_body := http_body m\<rparr> = m1"
    using assms(1) by (simp add: m1 Clear_def request_ok_def)
  moreover have "starts_with (http_version m) ''HTTP/''" using assms(1) by (simp add: request_ok_def)
  ultimately have "gxsHTTPReadRequest max_size c = (0, m1, c4)"
    by (simp add: gxsHTTPReadRequest_def rl words_split [OF w, simplified] headers_and_body_def c3(1))
  then show ?thesis using c4(2) by blast
qed

definition sample_request :: gxsHTTPMessage where
  "sample_request = Clear\<lparr>http_method := ''PUT'', http_target := ''/a'', http_headers := [(''Host'', ''h'')], http_body := crlf\<rparr>"

definition sample_side :: "string \<Rightarrow> gxsTLSConnection" where
  "sample_side s = (new_gxsTLSConnection True)\<lparr>secure := True, sock := new_gxSocket\<lparr>sock_open := True\<rparr>, tls_reads := [Arrived s]\<rparr>"

theorem http_request_roundtrip_witness:
  "\<exists>c1. gxsHTTPReadRequest 100
      (sample_side (''PUT /a HTTP/1.1'' @ crlf @ ''Host: h'' @ crlf @ ''Content-Length: 2'' @ crlf @ crlf @ crlf @ ''GET'')) =
    (0, sample_request\<lparr>http_headers := [(''Host'', ''h''), (''Content-Length'', ''2'')]\<rparr>, c1) \<and> stream c1 = ''GET''"
proof -
  let ?b = "''PUT /a HTTP/1.1'' @ crlf @ ''Host: h'' @ crlf @ ''Content-Length: 2'' @ crlf @ crlf @ crlf"
  let ?m1 = "sample_request\<lparr>http_headers := [(''Host'', ''h''), (''Content-Length'', ''2'')]\<rparr>"
  let ?r = "gxsHTTPWriteRequest (sample_side []) sample_request"
  let ?c = "sample_side (?b @ ''GET'')"
  have ok: "request_ok sample_request" by code_simp
  have "fst ?r = 0" "fst (snd ?r) = ?m1" by code_simp+
  then have wr: "?r = (0, ?m1, snd (snd ?r))" by (metis prod.collapse)
  have ts: "tls_sent (snd (snd ?r)) = tls_sent (sample_side []) @ ?b" by code_simp
  have al: "alive ?c" "secure (sample_side [])" by (simp_all add: alive_def sample_side_def)
  have st: "stream ?c = ?b @ ''GET''" by (simp add: stream_def sample_side_def pending_def new_gxsTLSConnection_def)
  have sz: "int (length (http_body sample_request)) \<le> 100" "(100::int) < 2 ^ 63" by (simp_all add: sample_request_def crlf_def)
  from http_request_roundtrip [OF ok wr al(2) sz al(1) ts st] show ?thesis by simp
qed

section \<open>The HTTP client\<close>

lemma fill_to_same: "same_side c (fill_to n c)"
proof (induction n c rule: fill_to.induct)
  case (1 n c)
  obtain rv c1 where f: "fill c = (rv, c1)" by fastforce
  show ?case
    using "1.IH" [OF _ f [symmetric]] fill_same [OF f]
    by (subst fill_to.simps) (auto simp: f dest: same_side_trans)
qed

lemma Read_conn_same: "Read_conn n c = (s, c1) \<Longrightarrow> same_side c c1"
  using fill_to_same [of c n] by (auto simp: Read_conn_def Let_def same_side_def)

lemma ReadAll_same: "ReadAll n c = (s, c1) \<Longrightarrow> same_side c c1"
proof (induction n c rule: ReadAll.induct)
  case (1 n c)
  obtain rv c2 where f: "fill c = (rv, c2)" by fastforce
  note e = "1.prems" [unfolded ReadAll.simps [of n c] f prod.case]
  show ?case
    using e "1.IH" [OF _ f [symmetric]] fill_same [OF f]
    by (auto simp: conn_fail_def same_side_def split: if_splits option.splits)
qed

lemma read_headers_same: "read_headers_loop k m c = (rv, m1, c1) \<Longrightarrow> same_side c c1"
proof (induction k m c arbitrary: rv m1 rule: read_headers_loop.induct)
  case (1 k m c)
  obtain r c2 where R: "ReadLine 16384 c = (r, c2)" by fastforce
  note s = ReadLine_same [OF R]
  note e = "1.prems" [unfolded read_headers_loop.simps [of k m c] R prod.case]
  show ?case
  proof (cases r)
    case None
    then show ?thesis using e s by simp
  next
    case (Some line)
    show ?thesis
    proof (cases "line = []")
      case True
      then show ?thesis using e s Some by simp
    next
      case False
      have "c1 = c2 \<or> same_side c2 c1"
        using e Some False "1.IH" [OF R [symmetric] Some False refl]
        by (auto simp: Let_def dest: sym split: if_splits list.splits option.splits prod.splits)
      then show ?thesis using s by (auto dest: same_side_trans)
    qed
  qed
qed

lemma skip_trailers_same: "skip_trailers c = (rv, c1) \<Longrightarrow> same_side c c1"
proof (induction c arbitrary: rv rule: skip_trailers.induct)
  case (1 c)
  obtain r c2 where R: "ReadLine 16384 c = (r, c2)" by fastforce
  note s = ReadLine_same [OF R]
  note e = "1.prems" [unfolded skip_trailers.simps [of c] R prod.case]
  show ?case
    using e s "1.IH" [OF R [symmetric]] by (auto dest: same_side_trans split: option.splits if_splits)
qed

lemma read_chunks_same: "read_chunks n b c = (rv, b1, c1) \<Longrightarrow> same_side c c1"
proof (induction n b c arbitrary: rv b1 rule: read_chunks.induct)
  case (1 n b c)
  obtain r c2 where R: "ReadLine 1024 c = (r, c2)" by fastforce
  note s = ReadLine_same [OF R]
  note e = "1.prems" [unfolded read_chunks.simps [of n b c] R prod.case Let_def]
  show ?case
  proof (cases r)
    case None
    then show ?thesis using e s by simp
  next
    case (Some line)
    let ?size = "trim (takeWhile (\<lambda>x. x \<noteq> CHR '';'') line)"
    show ?thesis
    proof (cases "?size = [] \<or> whole_hex ?size = None")
      case True
      then show ?thesis using e s Some by (auto split: if_splits)
    next
      case False
      then obtain k where k: "whole_hex ?size = Some k" "?size \<noteq> []" by auto
      obtain chunk c3 where C: "Read_conn (nat k) c2 = (chunk, c3)" by fastforce
      obtain r2 c4 where L: "ReadLine 2 c3 = (r2, c4)" by fastforce
      note s2 = same_side_trans [OF s Read_conn_same [OF C]] and s3 = ReadLine_same [OF L]
      have tr: "same_side c4 c1 \<Longrightarrow> same_side c c1" using same_side_trans [OF same_side_trans [OF s2 s3]] by blast
      show ?thesis
        using e Some k s s2 same_side_trans [OF s2 s3] C L tr
          "1.IH" [OF R [symmetric] Some refl k(2) k(1) _ _ C [symmetric] _ L [symmetric]]
        by (auto split: if_splits prod.splits option.splits dest: skip_trailers_same same_side_trans)
    qed
  qed
qed

lemma read_body_same: "read_body n t m c = (rv, m1, c1) \<Longrightarrow> same_side c c1"
  by (auto simp: read_body_def Let_def split: if_splits prod.splits option.splits
      dest: read_chunks_same Read_conn_same ReadAll_same)

lemma ReadResponse_same: "gxsHTTPReadResponse h n c = (rv, m, c1) \<Longrightarrow> same_side c c1"
proof (induction h n c arbitrary: rv m rule: gxsHTTPReadResponse.induct)
  case (1 h n c)
  obtain r c2 where R: "ReadLine 16384 c = (r, c2)" by fastforce
  note s = ReadLine_same [OF R]
  note e = "1.prems" [unfolded gxsHTTPReadResponse.simps [of h n c] R prod.case Let_def]
  show ?case
  proof (cases r)
    case None
    then show ?thesis using e s by simp
  next
    case (Some line)
    obtain v w where k: "cut_at (CHR '' '') line = (v, w)" by fastforce
    show ?thesis
    proof (cases "starts_with line ''HTTP/'' \<and> w \<noteq> None")
      case False
      then show ?thesis using e s Some k by (auto split: if_splits option.splits)
    next
      case True
      then obtain x where w: "w = Some x" by auto
      let ?m = "Clear\<lparr>http_version := v, http_status := atoi x,
                  http_reason := (case cut_at (CHR '' '') x of (_, None) \<Rightarrow> [] | (_, Some x) \<Rightarrow> x)\<rparr>"
      obtain rv2 m2 c3 where L: "read_headers_loop 0 ?m c2 = (rv2, m2, c3)" by (metis prod.collapse)
      note s2 = same_side_trans [OF s read_headers_same [OF L]]
      note f = e [unfolded Some option.case k w prod.case L]
      show ?thesis
        using f True s s2 "1.IH" [OF R [symmetric] Some _ k [symmetric] w refl _ L [symmetric] refl]
          read_body_same [of n True m2 c3 rv m c1]
        by (auto split: if_splits dest: same_side_trans)
    qed
  qed
qed

text \<open>What a request puts on the network: nothing, or its text. The text goes through TLS.\<close>

definition request_text :: "gxsHTTPMessage \<Rightarrow> string" where
  "request_text q =
     http_method q @ '' '' @ (if http_target q = [] then ''/'' else http_target q) @ '' '' @ http_version q @ crlf @
     header_lines (http_headers (with_length q)) @ crlf @ http_body q"

lemma with_length_body [simp]: "http_body (with_length q) = http_body q"
  by (simp add: with_length_def SetHeader_def AddHeader_def RemoveHeader_def)

lemma write_request_secure:
  assumes "gxsHTTPWriteRequest c q = (rv, m, c1)" "secure c"
  shows "secure c1 \<and> sent (sock c1) = sent (sock c) \<and> (tls_sent c1 = tls_sent c \<or> tls_sent c1 = tls_sent c @ request_text q)"
  using assms
  by (auto simp: gxsHTTPWriteRequest_def write_message_def Let_def Send_def SendSSLSocket_def conn_fail_def request_text_def
      split: if_splits prod.splits list.splits bool.splits)

lemma Connect_tls_sent:
  assumes "Connect_conn host port True l c = (rv, c1)"
  shows "sent (sock c1) = (if link_error l = gxSOCKET_NO_ERROR then [] else sent (sock c))" "tls_sent c1 = []"
    "rv = 0 \<Longrightarrow> secure c1"
  using assms
  by (auto simp: Connect_conn_def Connect_socket_def Let_def conn_fail_def set_socket_error_def set_link_def Close_conn_def
      Close_socket_def StartTLS_def tls_handshake_client_def split: if_splits list.splits tls_outcome.splits)

lemma send_one_traffic:
  assumes "send_one meth u body ct l response h = ((rv, m, plain, tls), h1)"
  shows "plain = [] \<and> (tls = [] \<or> tls = request_text (build_request meth u body ct h))" "h1 = h\<lparr>hc_error := hc_error h1\<rparr>"
proof -
  let ?q = "build_request meth u body ct h"
  obtain rv1 c where k: "Connect_conn (url_host u) (url_port u) True l (new_gxsTLSConnection (hc_verify h)) = (rv1, c)" by fastforce
  obtain rv2 m2 c1 where w: "gxsHTTPWriteRequest c ?q = (rv2, m2, c1)" by (metis prod.collapse)
  obtain rv3 m3 c2 where r: "gxsHTTPReadResponse (meth = ''HEAD'') (max_body h) c1 = (rv3, m3, c2)" by (metis prod.collapse)
  have s: "sent (sock c) = []" "tls_sent c = []"
    using Connect_tls_sent(1,2) [OF k] by (simp_all add: new_gxsTLSConnection_def new_gxSocket_def)
  note e = assms [unfolded send_one_def k prod.case Let_def w r]
  show "plain = [] \<and> (tls = [] \<or> tls = request_text ?q)"
  proof (cases "rv1 = 0")
    case False
    then show ?thesis using e s by (auto simp: hc_fail_def)
  next
    case True
    note w1 = write_request_secure [OF w Connect_tls_sent(3) [OF k True]]
    show ?thesis using e s w1 True ReadResponse_same [OF r] by (auto simp: hc_fail_def same_side_def split: if_splits)
  qed
  show "h1 = h\<lparr>hc_error := hc_error h1\<rparr>" using e by (auto simp: hc_fail_def split: if_splits)
qed

lemma parse_port_host: "parse_port p u = (True, v) \<Longrightarrow> url_host v \<noteq> []"
  by (auto simp: parse_port_def Let_def to_lower_def split: if_splits option.splits)

lemma parse_host_host: "parse_host a u = (True, v) \<Longrightarrow> url_host v \<noteq> []"
  by (auto simp: parse_host_def Let_def dest: parse_port_host split: if_splits option.splits prod.splits)

lemma Parse_host: "Parse s = (True, u) \<Longrightarrow> url_host u \<noteq> []"
  by (auto simp: Parse_def Let_def dest: parse_host_host split: if_splits option.splits prod.splits)

lemma iequals_sym: "iequals a b = iequals b a"
  by (auto simp: iequals_def list_all2_conv_all_nth)

lemma HasHeader_SetHeader:
  assumes "\<not> iequals k n" "\<not> HasHeader n m"
  shows "\<not> HasHeader n (SetHeader k v m)"
  using assms by (auto simp: HasHeader_def SetHeader_def AddHeader_def RemoveHeader_def list_ex_iff)

lemma HasHeader_fold:
  assumes "list_all (\<lambda>e. \<not> iequals (fst e) n) es" "\<not> HasHeader n m"
  shows "\<not> HasHeader n (fold (\<lambda>e. SetHeader (fst e) (snd e)) es m)"
  using assms by (induction es arbitrary: m) (auto simp: HasHeader_SetHeader)

text \<open>Without a header of the caller, only a request with a user has credentials.\<close>

lemma build_request_plain:
  assumes "list_all (\<lambda>e. \<not> iequals (fst e) ''Authorization'') (extra_headers h)" "fst (credentials u h) = []"
  shows "\<not> HasHeader ''Authorization'' (build_request meth u body ct h)"
proof -
  have n: "\<not> iequals ''Connection'' ''Authorization''" "\<not> iequals ''Accept'' ''Authorization''"
    "\<not> iequals ''User-Agent'' ''Authorization''" "\<not> iequals ''Host'' ''Authorization''"
    "\<not> iequals ''Content-Type'' ''Authorization''" by code_simp+
  have b: "HasHeader n (m\<lparr>http_body := x\<rparr>) = HasHeader n m" for n m x by (simp add: HasHeader_def)
  have c: "\<not> HasHeader ''Authorization'' (Clear\<lparr>http_method := meth, http_target := PathAndQuery u\<rparr>)"
    by (simp add: HasHeader_def Clear_def)
  obtain p where "credentials u h = ([], p)" using assms(2) by (cases "credentials u h") auto
  then show ?thesis
    using n c assms(1) by (simp add: build_request_def Let_def HasHeader_SetHeader HasHeader_fold b)
qed

definition safe_exchange :: "string \<Rightarrow> gxsURLInfo \<times> string \<times> string \<Rightarrow> bool" where
  "safe_exchange home x \<longleftrightarrow>
     (case x of (u, plain, tls) \<Rightarrow> scheme u = ''https'' \<and> plain = [] \<and>
        (url_host u = home \<or> tls = [] \<or> (\<exists>q. tls = request_text q \<and> \<not> HasHeader ''Authorization'' q)))"

lemma request_loop_safe:
  assumes "request_loop k meth url body ct ls response h = ((rv, m, ts), h1)"
    and "list_all (\<lambda>e. \<not> iequals (fst e) ''Authorization'') (extra_headers h)"
  shows "list_all (safe_exchange (if auth_host h = [] then url_host (fst (hd ts)) else auth_host h)) ts"
  using assms
proof (induction k meth url body ct ls response h arbitrary: rv m ts h1 rule: request_loop.induct)
  case (1 k meth url body ct ls response h)
  obtain ok u where p: "Parse url = (ok, u)" by fastforce
  note e = "1.prems"(1) [unfolded request_loop.simps [of k meth url body ct ls response h] p prod.case]
  show ?case
  proof (cases "ok \<and> scheme u = ''https''")
    case False
    then show ?thesis using e by (auto simp: hc_fail_def split: if_splits)
  next
    case True
    let ?h = "h\<lparr>final_url := url, auth_host := (if auth_host h = [] then url_host u else auth_host h)\<rparr>"
    let ?home = "auth_host ?h"
    obtain rv1 m1 plain tls h2 where o: "send_one meth u body ct (if ls = [] then no_link else hd ls) response ?h =
        ((rv1, m1, plain, tls), h2)" by (metis prod.collapse)
    note s = send_one_traffic [OF o]
    have home: "?home \<noteq> []" using Parse_host [of url u] p True by auto
    have cred: "fst (credentials u ?h) = []" if "url_host u \<noteq> ?home"
      using that home by (simp add: credentials_def Let_def)
    have safe: "safe_exchange ?home (u, plain, tls)"
      using s(1) True cred build_request_plain [of ?h u meth body ct] "1.prems"(2) by (auto simp: safe_exchange_def)
    have hs: "auth_host h2 = ?home" "extra_headers h2 = extra_headers h" by (subst s(2), simp)+
    have tail: "\<exists>ts'. ts = (u, plain, tls) # ts' \<and> list_all (safe_exchange ?home) ts'"
    proof (cases "rv1 \<noteq> 0 \<or> \<not> is_redirect (http_status m1) \<or> Header ''Location'' m1 = [] \<or> max_redirects h2 \<le> 0 \<or> k = 0")
      case True
      then show ?thesis using e \<open>ok \<and> scheme u = ''https''\<close> o by (auto simp: hc_fail_def Let_def split: if_splits nat.splits)
    next
      case False
      then obtain k' where k': "k = Suc k'" by (cases k) auto
      obtain meth1 body1 where q: "next_request (http_status m1) meth body = (meth1, body1)" by fastforce
      obtain rv3 m3 ts' h3 where l: "request_loop k' meth1 (Resolve u (Header ''Location'' m1)) body1 ct (tl ls) m1 h2 =
          ((rv3, m3, ts'), h3)" by (metis prod.collapse)
      have "list_all (safe_exchange ?home) ts'"
        using "1.IH" [OF p [symmetric] _ _ refl o [symmetric] refl refl _ refl _ k' q [symmetric] l] hs home True False "1.prems"(2)
        by simp
      moreover have "ts = (u, plain, tls) # ts'" using e True False o k' q l by (auto simp: Let_def)
      ultimately show ?thesis by blast
    qed
    have "(if auth_host h = [] then url_host (fst (hd ts)) else auth_host h) = ?home" using tail by auto
    then show ?thesis using tail safe by auto
  qed
qed

text \<open>
  C27: Whatever redirects a request follows, every connection is made for an https URL and nothing is sent in plain text,
  and a request to another host than the first one has no credentials, neither the ones of the client nor
  ones from a URL, unless the caller gave an \<open>Authorization\<close> header of its own.
\<close>

theorem Request_keeps_credentials:
  assumes "Request meth url body ct ls response h = ((rv, m, ts), h1)"
    and "list_all (\<lambda>e. \<not> iequals (fst e) ''Authorization'') (extra_headers h)"
  shows "list_all (safe_exchange (url_host (fst (hd ts)))) ts"
  using request_loop_safe [OF assms(1) [unfolded Request_def]] assms(2) by simp

definition redirecting :: "link list" where
  "redirecting =
     [\<lparr>link_error = gxSOCKET_NO_ERROR, link_reads = [], link_writes = [], link_handshakes = [Handshake_done],
       link_tls_reads = [Arrived (''HTTP/1.1 302 x'' @ crlf @ ''Location: https://b/'' @ crlf @ crlf), Closed],
       link_tls_writes = [], link_tls_message = []\<rparr>,
      \<lparr>link_error = gxSOCKET_NO_ERROR, link_reads = [], link_writes = [], link_handshakes = [Handshake_done],
       link_tls_reads = [Arrived (''HTTP/1.1 200 x'' @ crlf @ crlf), Closed], link_tls_writes = [], link_tls_message = []\<rparr>]"

definition redirected :: "(int \<times> gxsHTTPMessage \<times> exchange list) \<times> gxsHTTPClient" where
  "redirected = http_Get ''https://a/'' redirecting Clear (new_gxsHTTPClient\<lparr>auth_user := ''u'', auth_passwd := ''p''\<rparr>)"

theorem Request_keeps_credentials_witness:
  "list_all (safe_exchange ''a'') (snd (snd (fst redirected))) \<and>
   map (\<lambda>x. (url_host (fst x), find_sub ''Authorization'' (snd (snd x)) = None)) (snd (snd (fst redirected))) =
     [(''a'', False), (''b'', True)]"
proof -
  let ?h = "new_gxsHTTPClient\<lparr>auth_user := ''u'', auth_passwd := ''p''\<rparr>"
  have x: "list_all (\<lambda>e. \<not> iequals (fst e) ''Authorization'') (extra_headers ?h)" by code_simp
  have m: "map (\<lambda>x. (url_host (fst x), find_sub ''Authorization'' (snd (snd x)) = None)) (snd (snd (fst redirected))) =
      [(''a'', False), (''b'', True)]" by code_simp
  have r: "Request ''GET'' ''https://a/'' [] [] redirecting Clear ?h =
      ((fst (fst redirected), fst (snd (fst redirected)), snd (snd (fst redirected))), snd redirected)"
    by (simp add: redirected_def http_Get_def)
  have "url_host (fst (hd (snd (snd (fst redirected))))) = ''a''"
    using m by (cases "snd (snd (fst redirected))") auto
  with Request_keeps_credentials [OF r x] m show ?thesis by metis
qed

section \<open>The block stream\<close>

lemma WriteHeader_sent:
  assumes "WriteHeader gx w = (gxSOCKET_NO_ERROR, w1)" and "secure (stream_conn w)"
  shows "tls_sent (stream_conn w1) = tls_sent (stream_conn w) @ map char_of_byte (enc_gxBlockHeader gx) \<and> secure (stream_conn w1)"
  using assms Send_tls Send_secure
  by (auto simp: WriteHeader_def set_stream_error_def split: prod.splits if_splits)

lemma WriteBlock_sent:
  assumes "WriteBlock buf gx w = Some (gxSOCKET_NO_ERROR, w1)" and "secure (stream_conn w)"
    and "0 \<le> block_length gx" and "block_length gx < 2 ^ 31"
  shows "tls_sent (stream_conn w1) =
      tls_sent (stream_conn w) @ map char_of_byte (enc_gxBlockHeader gx) @ List.take (nat (block_length gx)) buf \<and>
    secure (stream_conn w1) \<and> block_length gx \<le> int (length buf)"
proof -
  obtain e w2 where h: "WriteHeader gx w = (e, w2)" by fastforce
  have l: "to_s32 (block_length gx) = block_length gx" using assms(3,4) by (simp add: to_s32_def)
  have "stream_error w2 = e" using h by (auto simp: WriteHeader_def set_stream_error_def split: prod.splits)
  then have e: "e = gxSOCKET_NO_ERROR" using assms(1) h by (cases "e = gxSOCKET_NO_ERROR") (simp_all add: WriteBlock_def)
  note s = WriteHeader_sent [OF h [unfolded e] assms(2)]
  show ?thesis
  proof (cases "block_length gx = 0")
    case True
    then have "w2\<lparr>stream_error := gxSOCKET_NO_ERROR\<rparr> = w1"
      using assms(1) h e l by (simp add: WriteBlock_def set_stream_error_def Let_def)
    then show ?thesis using s True by auto
  next
    case False
    obtain rv c where d: "Send (List.take (nat (block_length gx)) buf) (stream_conn w2) = (rv, c)" by fastforce
    have "rv = block_length gx" "stream_conn w1 = c" "block_length gx \<le> int (length buf)"
      using assms(1,3) h e d False by (auto simp: WriteBlock_def set_stream_error_def Let_def l split: if_splits)
    then show ?thesis using s assms(3) Send_tls [OF d] Send_secure [OF d] by auto
  qed
qed

lemma byte_of_char_of_byte [simp]: "byte_of_char (char_of_byte b) = b"
proof -
  have "uint b mod 256 = uint b" using uint_lt2p [of b] by (simp add: mod_pos_pos_trivial)
  then show ?thesis by (simp add: byte_of_char_def char_of_byte_def of_char_of)
qed

lemma ReadHeader_stream:
  assumes "alive (stream_conn s)" and "stream (stream_conn s) = map char_of_byte (enc_gxBlockHeader gx) @ rest"
    and "ok_gxBlockHeader gx" and "block_check_word gx = gxCheckWord" and "block_length gx \<le> max_block s"
  shows "\<exists>s1. ReadHeader h s = ((gxSOCKET_NO_ERROR, gx), s1) \<and> stream (stream_conn s1) = rest \<and>
    alive (stream_conn s1) \<and> max_block s1 = max_block s"
proof -
  have l: "length (enc_gxBlockHeader gx) = 20" by (rule bhdr.len)
  obtain c where c: "Read_conn 20 (stream_conn s) = (map char_of_byte (enc_gxBlockHeader gx), c)" "stream c = rest"
      "same_side (stream_conn s) c"
    using Read_conn_stream [OF assms(1), of 20] assms(2) l by auto
  have i: "map (byte_of_char \<circ> char_of_byte) xs = xs" for xs :: "byte list" by (induction xs) simp_all
  show ?thesis
    using c assms(4,5) same_side_alive [OF c(3)] assms(1) l
    by (simp add: ReadHeader_def sizeof_gxBlockHeader_def Let_def set_stream_error_def i bhdr.dec_enc [OF assms(3)])
qed

lemma ReadBlock_stream:
  assumes "alive (stream_conn s)" and "stream (stream_conn s) = b @ rest"
    and "int (length b) = block_length gx" and "block_length gx \<le> max_block s"
  shows "\<exists>s1. ReadBlock gx s = ((gxSOCKET_NO_ERROR, b), s1) \<and> stream (stream_conn s1) = rest \<and>
    alive (stream_conn s1) \<and> max_block s1 = max_block s"
proof (cases "block_length gx = 0")
  case True
  then show ?thesis using assms by (simp add: ReadBlock_def Let_def set_stream_error_def)
next
  case False
  obtain c where c: "Read_conn (length b) (stream_conn s) = (b, c)" "stream c = rest" "same_side (stream_conn s) c"
    using Read_conn_stream [OF assms(1), of "length b"] assms(2) by auto
  have "nat (block_length gx) = length b" using assms(3) by linarith
  then show ?thesis using False c assms same_side_alive [OF c(3)] by (simp add: ReadBlock_def Let_def set_stream_error_def)
qed

lemma BlockStatus_Set: "- 128 \<le> net \<Longrightarrow> net < 128 \<Longrightarrow> BlockStatus (SetBlockStatus net file gx) = net"
proof -
  assume n: "- 128 \<le> net" "net < 128"
  have "(net mod 256 * 256 + file mod 256) div 256 = net mod 256" by simp
  then have "BlockStatus (SetBlockStatus net file gx) = (net mod 256 + 128) mod 256 - 128"
    by (simp add: BlockStatus_def SetBlockStatus_def)
  also have "\<dots> = net" using n by (simp add: mod_simps)
  finally show ?thesis .
qed

lemma SetBlockStatus_ok: "in_u32 (block_length gx) \<Longrightarrow> ok_gxBlockHeader (SetBlockStatus net file gx)"
proof -
  have "0 \<le> net mod 256" "net mod 256 < 256" "0 \<le> file mod 256" "file mod 256 < 256" by simp_all
  then have "in_u32 (net mod 256 * 256 + file mod 256)" by (simp add: in_u32_def)
  then show "in_u32 (block_length gx) \<Longrightarrow> ok_gxBlockHeader (SetBlockStatus net file gx)"
    by (simp add: ok_gxBlockHeader_def SetBlockStatus_def gxCheckWord_def in_u32_def in_s64_def)
qed

text \<open>
  C29: A block that \<open>WriteBlock\<close> sends, with any network command and any kind of block in its status, is what the other
  end reads with \<open>ReadHeader\<close> and \<open>ReadBlock\<close>, however the bytes arrive: the header with the command, the data, and
  nothing of what follows. This holds for blocks of less than 2 GB that are not longer than the reader allows.
\<close>

theorem stream_block_roundtrip:
  assumes "WriteBlock buf (SetBlockStatus net file gx) w = Some (gxSOCKET_NO_ERROR, w1)" and "secure (stream_conn w)"
    and "tls_sent (stream_conn w1) = tls_sent (stream_conn w) @ b" and "- 128 \<le> net" and "net < 128"
    and "0 \<le> block_length gx" and "block_length gx < 2 ^ 31" and "block_length gx \<le> max_block s"
    and "alive (stream_conn s)" and "stream (stream_conn s) = b @ rest"
  shows "\<exists>a s1 s2. ReadHeader h s = ((gxSOCKET_NO_ERROR, a), s1) \<and> a = SetBlockStatus net file gx \<and> BlockStatus a = net \<and>
    ReadBlock a s1 = ((gxSOCKET_NO_ERROR, List.take (nat (block_length gx)) buf), s2) \<and> stream (stream_conn s2) = rest"
proof -
  let ?g = "SetBlockStatus net file gx"
  have g: "block_length ?g = block_length gx" "block_check_word ?g = gxCheckWord" by (simp_all add: SetBlockStatus_def)
  have ok: "ok_gxBlockHeader ?g" using assms(6,7) by (intro SetBlockStatus_ok) (simp add: in_u32_def)
  have W: "b = map char_of_byte (enc_gxBlockHeader ?g) @ List.take (nat (block_length gx)) buf"
      "block_length gx \<le> int (length buf)"
    using WriteBlock_sent [OF assms(1,2)] assms(3,6,7) g by simp_all
  let ?d = "List.take (nat (block_length gx)) buf"
  have st: "stream (stream_conn s) = map char_of_byte (enc_gxBlockHeader ?g) @ ?d @ rest" using assms(10) W(1) by simp
  have l: "block_length ?g \<le> max_block s" "int (length ?d) = block_length ?g" using assms(6,8) W(2) g(1) by simp_all
  obtain s1 where r: "ReadHeader h s = ((gxSOCKET_NO_ERROR, ?g), s1)" "stream (stream_conn s1) = ?d @ rest"
      "alive (stream_conn s1)" "max_block s1 = max_block s"
    using ReadHeader_stream [OF assms(9) st ok g(2) l(1)] by blast
  obtain s2 where d: "ReadBlock ?g s1 = ((gxSOCKET_NO_ERROR, ?d), s2)" "stream (stream_conn s2) = rest"
    using ReadBlock_stream [OF r(3,2) l(2)] l(1) r(4) by auto
  show ?thesis using r(1) d BlockStatus_Set [OF assms(4,5)] by blast
qed

definition sample_stream :: gxStream where
  "sample_stream = (new_gxStream True)\<lparr>stream_conn := (new_gxsTLSConnection True)\<lparr>secure := True,
     sock := new_gxSocket\<lparr>sock_open := True\<rparr>\<rparr>\<rparr>"

definition sample_block :: "byte list" where
  "sample_block = [0xFE, 0xFE, 0, 0, 2, 0, 0, 0, 0x56, 0x41, 0, 0, 0, 0, 0, 0, 0, 0, 0, 0, 0x68, 0x69]"

definition block_reader :: gxStream where
  "block_reader = sample_stream\<lparr>stream_conn := (stream_conn sample_stream)\<lparr>
     tls_reads := [Arrived (map char_of_byte (List.take 5 sample_block)),
       Arrived (map char_of_byte (drop 5 sample_block)), Arrived ''more'']\<rparr>\<rparr>"

theorem stream_block_roundtrip_witness:
  "\<exists>a s1 s2. ReadHeader new_gxBlockHeader block_reader = ((gxSOCKET_NO_ERROR, a), s1) \<and> BlockStatus a = gxAddRemoteBlock \<and>
     ReadBlock a s1 = ((gxSOCKET_NO_ERROR, ''hi''), s2) \<and> stream (stream_conn s2) = ''more''"
proof -
  let ?gx = "new_gxBlockHeader\<lparr>block_length := 2\<rparr>" and ?b = "map char_of_byte sample_block"
  let ?c = "stream_conn sample_stream"
  have w: "WriteBlock ''hi!'' (SetBlockStatus gxAddRemoteBlock gxRemoteDeviceBlock ?gx) sample_stream =
      Some (gxSOCKET_NO_ERROR, sample_stream\<lparr>stream_conn := ?c\<lparr>tls_sent := ?b\<rparr>\<rparr>)" by code_simp
  have f: "secure ?c" "tls_sent ?c = []" "alive (stream_conn block_reader)" "stream (stream_conn block_reader) = ?b @ ''more''"
    "block_length ?gx \<le> max_block block_reader" "- 128 \<le> gxAddRemoteBlock" "gxAddRemoteBlock < 128"
    by code_simp+
  have t: "List.take (nat (block_length ?gx)) ''hi!'' = ''hi''" by simp
  have "tls_sent (stream_conn (sample_stream\<lparr>stream_conn := ?c\<lparr>tls_sent := ?b\<rparr>\<rparr>)) = tls_sent ?c @ ?b" using f(2) by simp
  from stream_block_roundtrip [OF w f(1) this f(6,7) _ _ f(5,3,4), of new_gxBlockHeader]
  show ?thesis unfolding t by auto
qed

text \<open>A result of an operation goes to the other end in an acknowledgment.\<close>

lemma write_ack_sent:
  assumes "write_ack v w = (gxSOCKET_NO_ERROR, w1)" and "secure (stream_conn w)"
  shows "tls_sent (stream_conn w1) = tls_sent (stream_conn w) @ map char_of_byte
    (enc_gxBlockHeader ((SetBlockStatus gxAcknowledgeBlock gxRemoteDeviceBlock new_gxBlockHeader)\<lparr>block_nd_fptr := v\<rparr>))"
proof -
  let ?g = "(SetBlockStatus gxAcknowledgeBlock gxRemoteDeviceBlock new_gxBlockHeader)\<lparr>block_nd_fptr := v\<rparr>"
  obtain e w2 where h: "WriteHeader ?g w = (e, w2)" by fastforce
  have "e = gxSOCKET_NO_ERROR \<and> w1 = w2\<lparr>stream_error := gxSOCKET_NO_ERROR\<rparr>"
    using assms(1) h by (auto simp: write_ack_def set_stream_error_def split: if_splits)
  then show ?thesis using WriteHeader_sent [of ?g w w2] h assms(2) by simp
qed

lemma result_roundtrip:
  assumes "WriteResultBlock v w = (gxSOCKET_NO_ERROR, w1)" and "secure (stream_conn w)" and "- (2 ^ 31) \<le> v" and "v < 2 ^ 31"
    and "tls_sent (stream_conn w1) = tls_sent (stream_conn w) @ b" and "alive (stream_conn s)"
    and "stream (stream_conn s) = b @ rest" and "0 \<le> max_block s"
  shows "\<exists>s1. ReadResultBlock d s = ((gxSOCKET_NO_ERROR, v), s1) \<and> stream (stream_conn s1) = rest"
proof -
  let ?h = "SetBlockStatus gxAcknowledgeBlock gxRemoteDeviceBlock new_gxBlockHeader"
  let ?g = "?h\<lparr>block_nd_fptr := v\<rparr>"
  have b: "stream (stream_conn s) = map char_of_byte (enc_gxBlockHeader ?g) @ rest"
    using write_ack_sent [OF assms(1) [unfolded WriteResultBlock_def] assms(2)] assms(5,7) by simp
  have "ok_gxBlockHeader ?h" by (rule SetBlockStatus_ok) (simp add: new_gxBlockHeader_def in_u32_def)
  then have ok: "ok_gxBlockHeader ?g" using assms(3,4) by (simp add: ok_gxBlockHeader_def in_s64_def)
  have g: "block_check_word ?g = gxCheckWord" "block_length ?g \<le> max_block s"
    using assms(8) by (simp_all add: SetBlockStatus_def new_gxBlockHeader_def)
  have "BlockStatus ?g = gxAcknowledgeBlock"
    using BlockStatus_Set [of gxAcknowledgeBlock gxRemoteDeviceBlock new_gxBlockHeader]
    by (simp add: BlockStatus_def gxAcknowledgeBlock_def)
  moreover have "to_s32 (block_nd_fptr ?g) = v" using assms(3,4) by (simp add: to_s32_def)
  ultimately show ?thesis
    using ReadHeader_stream [OF assms(6) b ok g, of new_gxBlockHeader]
    by (auto simp: ReadResultBlock_def read_ack_def set_stream_error_def)
qed

text \<open>A block of 2 GB or more is sent without its data, and the result is no error.\<close>

lemma big_block_not_sent:
  assumes "2 ^ 31 \<le> block_length gx" and "block_length gx < 2 ^ 32" and "WriteHeader gx w = (gxSOCKET_NO_ERROR, w1)"
  shows "WriteBlock buf gx w = Some (gxSOCKET_NO_ERROR, w1)"
proof -
  have "(block_length gx + 2 ^ 31) mod 2 ^ 32 = (block_length gx - 2 ^ 31 + 2 ^ 32) mod 2 ^ 32" by (simp add: add.commute)
  also have "\<dots> = block_length gx - 2 ^ 31" unfolding mod_add_self2 using assms(1,2) by simp
  finally have "to_s32 (block_length gx) < 0" using assms(2) by (simp add: to_s32_def)
  moreover have "stream_error w1 = gxSOCKET_NO_ERROR"
    using assms(3) by (auto simp: WriteHeader_def set_stream_error_def split: prod.splits)
  ultimately show ?thesis using assms(3) by (simp add: WriteBlock_def set_stream_error_def Let_def)
qed

end
