(* ===== verification/Telnet.thy ===== *)
theory Telnet
  imports NetConn
begin

text \<open>
  The telnet client, \<open>src/src/gxtelnet.cpp\<close>: the automaton that reads the bytes of the server, the replies to option
  requests, the two terminals, and the functions that receive and send text over a plain socket. A
  byte is a character. The buffer of a caller is the list of its characters; \<open>None\<close> is a call
  that reads behind it.
\<close>

section \<open>Codes and state\<close>

definition gxsTEL_IAC :: char where "gxsTEL_IAC = CHR 0xFF"
definition gxsTEL_DONT :: char where "gxsTEL_DONT = CHR 0xFE"
definition gxsTEL_DO :: char where "gxsTEL_DO = CHR 0xFD"
definition gxsTEL_WONT :: char where "gxsTEL_WONT = CHR 0xFC"
definition gxsTEL_WILL :: char where "gxsTEL_WILL = CHR 0xFB"
definition gxsTEL_SB :: char where "gxsTEL_SB = CHR 0xFA"
definition gxsTEL_SE :: char where "gxsTEL_SE = CHR 0xF0"
definition gxsTELOPT_ECHO :: char where "gxsTELOPT_ECHO = CHR 0x01"
definition gxsTELOPT_SUPP :: char where "gxsTELOPT_SUPP = CHR 0x03"
definition gxsTELOPT_TERM :: char where "gxsTELOPT_TERM = CHR 0x18"
definition gxsTELOPT_NAWS :: char where "gxsTELOPT_NAWS = CHR 0x1F"

lemmas telnet_codes = gxsTEL_IAC_def gxsTEL_DONT_def gxsTEL_DO_def gxsTEL_WONT_def gxsTEL_WILL_def gxsTEL_SB_def
  gxsTEL_SE_def gxsTELOPT_ECHO_def gxsTELOPT_SUPP_def gxsTELOPT_TERM_def gxsTELOPT_NAWS_def

datatype gxsTelnetTermTypes = gxsTEL_NVT_TERM | gxsTEL_VT100F_TERM | gxsTEL_ENV_TERM

datatype gxsTelnetState = telnet_data | telnet_code | telnet_option

datatype data_proc = proc_WriteToTerminal | proc_NegotiateTermType

record gxsTelnetClient =
  tn_sock :: gxSocket
  tn_output :: char
  output_char_waiting :: bool
  term_type :: gxsTelnetTermTypes
  term_string :: string
  tn_state :: gxsTelnetState
  curr_code :: char
  vt_escape_seq :: bool
  server_unix :: bool
  DataProc :: data_proc

definition term_name :: "string \<Rightarrow> string" where
  "term_name s = List.take 15 (takeWhile (\<lambda>c. c \<noteq> CHR 0x00) s)"

definition new_gxsTelnetClient :: gxsTelnetClient where
  "new_gxsTelnetClient =
     \<lparr>tn_sock = new_gxSocket, tn_output = CHR 0x00, output_char_waiting = False, term_type = gxsTEL_NVT_TERM,
      term_string = ''NVT'', tn_state = telnet_data, curr_code = CHR 0x00, vt_escape_seq = False, server_unix = True,
      DataProc = proc_WriteToTerminal\<rparr>"

definition SetTermType_name :: "string option \<Rightarrow> gxsTelnetClient \<Rightarrow> gxsTelnetClient" where
  "SetTermType_name s t =
     t\<lparr>term_string := (case s of None \<Rightarrow> ''NVT'' | Some x \<Rightarrow> term_name x), term_type := gxsTEL_NVT_TERM\<rparr>"

text \<open>The value of \<open>TERM\<close> in the environment is an argument.\<close>

definition SetTermType :: "string option \<Rightarrow> gxsTelnetTermTypes \<Rightarrow> gxsTelnetClient \<Rightarrow> gxsTelnetClient" where
  "SetTermType env ttype t =
     (case ttype of
        gxsTEL_VT100F_TERM \<Rightarrow> t\<lparr>term_string := ''VT100'', term_type := gxsTEL_VT100F_TERM\<rparr>
      | _ \<Rightarrow> (case (ttype, env) of
               (gxsTEL_ENV_TERM, Some x) \<Rightarrow> t\<lparr>term_string := term_name x, term_type := gxsTEL_ENV_TERM\<rparr>
             | _ \<Rightarrow> t\<lparr>term_string := ''NVT'', term_type := gxsTEL_NVT_TERM\<rparr>))"

definition ConnectClient :: "string option \<Rightarrow> link \<Rightarrow> gxsTelnetClient \<Rightarrow> gxSocketError \<times> gxsTelnetClient" where
  "ConnectClient host l t =
     (let s = (if host = None then set_socket_error gxSOCKET_HOSTNAME_ERROR (tn_sock t) else Connect_socket l (tn_sock t))
      in (socket_error s, t\<lparr>tn_sock := s\<rparr>))"

section \<open>Sending\<close>

definition send_bytes :: "string \<Rightarrow> gxsTelnetClient \<Rightarrow> int \<times> gxsTelnetClient" where
  "send_bytes buf t = (case Send_socket buf (tn_sock t) of (rv, s) \<Rightarrow> (rv, t\<lparr>tn_sock := s\<rparr>))"

definition end_with :: "gxSocketError \<Rightarrow> gxsTelnetClient \<Rightarrow> gxSocketError \<times> gxsTelnetClient" where
  "end_with e t = (e, t\<lparr>tn_sock := set_socket_error e (tn_sock t)\<rparr>)"

definition SendString :: "string \<Rightarrow> gxsTelnetClient \<Rightarrow> gxSocketError \<times> gxsTelnetClient" where
  "SendString buf t =
     (case send_bytes buf t of (rv, t1) \<Rightarrow>
        if rv < 0 then end_with gxSOCKET_TRANSMIT_ERROR t1
        else (case send_bytes (if server_unix t1 then [CHR 0x0A] else [CHR 0x0D, CHR 0x0A]) t1 of (rv2, t2) \<Rightarrow>
                end_with (if rv2 < 0 then gxSOCKET_TRANSMIT_ERROR else gxSOCKET_NO_ERROR) t2))"

definition SendInitSeq :: "gxsTelnetClient \<Rightarrow> gxSocketError \<times> gxsTelnetClient" where
  "SendInitSeq t =
     (case send_bytes
        [gxsTEL_IAC, gxsTEL_WILL, gxsTELOPT_TERM, gxsTEL_IAC, gxsTEL_DO, gxsTELOPT_SUPP, gxsTEL_IAC, gxsTEL_WILL,
         gxsTELOPT_SUPP, gxsTEL_IAC, gxsTEL_DO, gxsTELOPT_ECHO, gxsTEL_IAC, gxsTEL_WILL, gxsTELOPT_NAWS, gxsTEL_IAC] t of
        (rv, t1) \<Rightarrow> (socket_error (tn_sock t1), t1))"

definition SendCommand :: "char \<Rightarrow> char \<Rightarrow> gxsTelnetClient \<Rightarrow> gxSocketError \<times> gxsTelnetClient" where
  "SendCommand command opt t =
     (case send_bytes [gxsTEL_IAC, command, opt] t of (rv, t1) \<Rightarrow> (socket_error (tn_sock t1), t1))"

section \<open>The terminals\<close>

definition no_output :: "gxsTelnetClient \<Rightarrow> gxsTelnetClient" where
  "no_output t = t\<lparr>output_char_waiting := False, tn_output := CHR 0x00\<rparr>"

definition GetChar :: "gxsTelnetClient \<Rightarrow> char option" where
  "GetChar t = (if output_char_waiting t then Some (tn_output t) else None)"

definition NVTWrite :: "char \<Rightarrow> gxsTelnetClient \<Rightarrow> gxsTelnetClient" where
  "NVTWrite data t =
     (if data = CHR 0x00 then no_output t else (no_output t)\<lparr>output_char_waiting := True, tn_output := data\<rparr>)"

definition ends_escape :: "char \<Rightarrow> bool" where
  "ends_escape data \<longleftrightarrow> data \<in> {CHR ''m'', CHR ''H'', CHR ''K'', CHR ''J'', CHR ''A''}"

definition VT100FWrite :: "char \<Rightarrow> gxsTelnetClient \<Rightarrow> gxsTelnetClient" where
  "VT100FWrite data t0 =
     (let t = no_output t0
      in if vt_escape_seq t \<and> \<not> ends_escape data then t
         else if data = CHR 0x00 then t
         else if data = CHR 0x1B then t\<lparr>vt_escape_seq := True\<rparr>
         else if ends_escape data \<and> vt_escape_seq t then t\<lparr>vt_escape_seq := False\<rparr>
         else t\<lparr>tn_output := data, output_char_waiting := True\<rparr>)"

definition WriteToTerminal :: "char \<Rightarrow> gxsTelnetClient \<Rightarrow> gxsTelnetClient" where
  "WriteToTerminal data t =
     (case term_type t of gxsTEL_VT100F_TERM \<Rightarrow> VT100FWrite data (no_output t) | _ \<Rightarrow> NVTWrite data (no_output t))"

section \<open>Options\<close>

definition SetUnknownOption :: "char \<Rightarrow> char \<Rightarrow> gxsTelnetClient \<Rightarrow> gxSocketError \<times> gxsTelnetClient" where
  "SetUnknownOption code opt t =
     (if code = gxsTEL_WILL then SendCommand gxsTEL_DONT opt t
      else if code = gxsTEL_DO \<or> code = gxsTEL_DONT then SendCommand gxsTEL_WONT opt t
      else (gxSOCKET_NO_ERROR, t))"

definition SetEchoOption :: "char \<Rightarrow> char \<Rightarrow> gxsTelnetClient \<Rightarrow> gxSocketError \<times> gxsTelnetClient" where
  "SetEchoOption code opt t =
     (if code = gxsTEL_WILL then SendCommand gxsTEL_DO opt t
      else if code = gxsTEL_WONT then SendCommand gxsTEL_WILL opt t
      else if code = gxsTEL_DO \<or> code = gxsTEL_DONT then SendCommand gxsTEL_WONT opt t
      else SendCommand gxsTEL_DONT opt t)"

definition SetSuppOption :: "char \<Rightarrow> char \<Rightarrow> gxsTelnetClient \<Rightarrow> gxSocketError \<times> gxsTelnetClient" where
  "SetSuppOption code opt t =
     (if code = gxsTEL_WILL then
        SendCommand gxsTEL_DO gxsTELOPT_ECHO
          (snd (SendCommand gxsTEL_WILL gxsTELOPT_SUPP (snd (SendCommand gxsTEL_DO gxsTELOPT_SUPP t))))
      else if code = gxsTEL_WONT then
        SendCommand gxsTEL_WONT gxsTELOPT_SUPP (snd (SendCommand gxsTEL_DONT gxsTELOPT_SUPP t))
      else if code = gxsTEL_DO then SendCommand gxsTEL_DO gxsTELOPT_SUPP t
      else if code = gxsTEL_DONT then SendCommand gxsTEL_DONT gxsTELOPT_SUPP t
      else (gxSOCKET_NO_ERROR, t))"

definition SetTermOption :: "char \<Rightarrow> char \<Rightarrow> gxsTelnetClient \<Rightarrow> gxSocketError \<times> gxsTelnetClient" where
  "SetTermOption code opt t =
     (if code = gxsTEL_WILL then SendCommand gxsTEL_DONT opt t
      else if code = gxsTEL_DO then SendCommand gxsTEL_WILL opt t
      else (gxSOCKET_NO_ERROR, t))"

definition NegotiateTermType :: "char \<Rightarrow> gxsTelnetClient \<Rightarrow> gxSocketError \<times> gxsTelnetClient" where
  "NegotiateTermType data t0 =
     (let t = no_output t0
      in if data \<noteq> CHR 0x01 then (gxSOCKET_NO_ERROR, t)
         else (case send_bytes ([gxsTEL_IAC, gxsTEL_SB, gxsTELOPT_TERM, CHR 0x00] @ term_string t @ [gxsTEL_IAC, gxsTEL_SE]) t of
                 (rv, t1) \<Rightarrow> (socket_error (tn_sock t1), t1)))"

definition run_DataProc :: "char \<Rightarrow> gxsTelnetClient \<Rightarrow> gxSocketError \<times> gxsTelnetClient" where
  "run_DataProc data t =
     (case DataProc t of
        proc_WriteToTerminal \<Rightarrow> (gxSOCKET_NO_ERROR, WriteToTerminal data t)
      | proc_NegotiateTermType \<Rightarrow> NegotiateTermType data t)"

section \<open>The automaton\<close>

definition ReadTelnetData :: "char \<Rightarrow> gxsTelnetClient \<Rightarrow> gxSocketError \<times> gxsTelnetClient" where
  "ReadTelnetData data t0 =
     (let t = no_output t0
      in case tn_state t of
           telnet_data \<Rightarrow>
             if data = gxsTEL_IAC then (gxSOCKET_NO_ERROR, t\<lparr>tn_state := telnet_code\<rparr>) else run_DataProc data t
         | telnet_code \<Rightarrow>
             let t1 = t\<lparr>tn_state := telnet_data\<rparr>
             in if data = gxsTEL_IAC then run_DataProc data t1
                else if data = gxsTEL_SE then (gxSOCKET_NO_ERROR, t1\<lparr>DataProc := proc_WriteToTerminal\<rparr>)
                else if data \<in> {gxsTEL_SB, gxsTEL_WILL, gxsTEL_WONT, gxsTEL_DO, gxsTEL_DONT}
                then (gxSOCKET_NO_ERROR, t1\<lparr>curr_code := data, tn_state := telnet_option\<rparr>)
                else (gxSOCKET_NO_ERROR, t1)
         | telnet_option \<Rightarrow>
             let t1 = t\<lparr>tn_state := telnet_data\<rparr>; code = curr_code t1
             in if code = gxsTEL_SB then (gxSOCKET_NO_ERROR, t1\<lparr>DataProc := proc_NegotiateTermType\<rparr>)
                else if data = gxsTELOPT_ECHO then SetEchoOption code data t1
                else if data = gxsTELOPT_SUPP then SetSuppOption code data t1
                else if data = gxsTELOPT_TERM then SetTermOption code data t1
                else SetUnknownOption code data t1)"

section \<open>Receiving\<close>

text \<open>Some bytes, one after the other until one of them fails.\<close>

fun read_all :: "string \<Rightarrow> gxsTelnetClient \<Rightarrow> gxSocketError \<times> gxsTelnetClient" where
  "read_all [] t = (gxSOCKET_NO_ERROR, t)"
| "read_all (x # xs) t =
     (case ReadTelnetData x t of (e, t1) \<Rightarrow> if e \<noteq> gxSOCKET_NO_ERROR then (socket_error (tn_sock t1), t1) else read_all xs t1)"

definition rx_size :: nat where "rx_size = 4096"

definition receive :: "gxsTelnetClient \<Rightarrow> (int \<times> string) \<times> gxsTelnetClient" where
  "receive t = (case RecvSome rx_size (tn_sock t) of (r, s) \<Rightarrow> (r, t\<lparr>tn_sock := s\<rparr>))"

definition RecvInitSeq :: "gxsTelnetClient \<Rightarrow> gxSocketError \<times> gxsTelnetClient" where
  "RecvInitSeq t =
     (case receive t of ((rv, x), t1) \<Rightarrow>
        if rv \<le> 0 then (socket_error (tn_sock t1), t1)
        else (case read_all x t1 of (e, t2) \<Rightarrow> (socket_error (tn_sock t2), t2)))"

text \<open>The characters of received bytes in the buffer \<open>mem\<close>, of which \<open>n\<close> are filled.\<close>

fun store_chars :: "string \<Rightarrow> string \<Rightarrow> nat \<Rightarrow> gxsTelnetClient \<Rightarrow> gxSocketError \<times> string \<times> nat \<times> gxsTelnetClient" where
  "store_chars [] mem n t = (gxSOCKET_NO_ERROR, mem, n, t)"
| "store_chars (x # xs) mem n t =
     (case ReadTelnetData x t of (e, t1) \<Rightarrow>
        if e \<noteq> gxSOCKET_NO_ERROR then (e, mem, n, t1)
        else (case GetChar t1 of
                None \<Rightarrow> store_chars xs mem n t1
              | Some c \<Rightarrow>
                  if n < length mem - 1 then store_chars xs (mem[n := c]) (n + 1) t1 else store_chars xs mem n t1))"

text \<open>The search for the text \<open>str\<close>: \<open>pat\<close> is what is left of it, \<open>nxt\<close> the place that is read. It is not bounded by \<open>n\<close>.\<close>

function find_text :: "string \<Rightarrow> string \<Rightarrow> nat \<Rightarrow> string \<Rightarrow> nat \<Rightarrow> nat \<Rightarrow> bool option" where
  "find_text mem str n pat i nxt =
     (if \<not> i < n \<or> pat = [] then Some False
      else if length mem \<le> nxt then None
      else if mem ! nxt = hd pat
      then (if tl pat = [] then Some True else find_text mem str n (tl pat) i (nxt + 1))
      else find_text mem str n str (i + 1) (nxt + 1))"
  by pat_completeness auto
termination
  by (relation "inv_image (less_than <*lex*> less_than) (\<lambda>(mem, str, n, pat, i, nxt). (n - i, length pat))") auto

declare find_text.simps [simp del]

definition ended :: "string \<Rightarrow> nat \<Rightarrow> string" where
  "ended mem n = mem[n := CHR 0x00]"

text \<open>Nothing that is done with a byte takes from what the server sends.\<close>

lemma Send_loop_reads: "reads (snd (Send_loop k buf s)) = reads s"
proof (induction k buf s rule: Send_loop.induct)
  case (1 k buf s)
  show ?case
    using "1.IH"
    by (subst Send_loop.simps)
      (auto simp: RawWrite_def set_socket_error_def split: prod.splits list.splits write_result.splits if_splits)
qed

lemma send_bytes_frame:
  "reads (tn_sock (snd (send_bytes b t))) = reads (tn_sock t)"
  "snd (send_bytes b t) = t\<lparr>tn_sock := tn_sock (snd (send_bytes b t))\<rparr>"
  using Send_loop_reads [of 0 b "tn_sock t"]
  by (auto simp: send_bytes_def Send_socket_def split: prod.splits)

lemma SendCommand_frame:
  "reads (tn_sock (snd (SendCommand a b t))) = reads (tn_sock t)"
  "snd (SendCommand a b t) = t\<lparr>tn_sock := tn_sock (snd (SendCommand a b t))\<rparr>"
  using send_bytes_frame [of "[gxsTEL_IAC, a, b]" t]
  by (auto simp: SendCommand_def split: prod.splits)

lemma option_reads:
  "reads (tn_sock (snd (SetUnknownOption a b t))) = reads (tn_sock t)"
  "reads (tn_sock (snd (SetEchoOption a b t))) = reads (tn_sock t)"
  "reads (tn_sock (snd (SetSuppOption a b t))) = reads (tn_sock t)"
  "reads (tn_sock (snd (SetTermOption a b t))) = reads (tn_sock t)"
  by (simp_all add: SetUnknownOption_def SetEchoOption_def SetSuppOption_def SetTermOption_def SendCommand_frame(1))

lemma run_DataProc_reads: "reads (tn_sock (snd (run_DataProc x t))) = reads (tn_sock t)"
proof -
  have "reads (tn_sock (snd (NegotiateTermType x t))) = reads (tn_sock t)"
    using send_bytes_frame(1) [of _ "no_output t"]
    by (auto simp: NegotiateTermType_def Let_def no_output_def split: prod.splits) (metis snd_conv)+
  then show ?thesis
    by (simp add: run_DataProc_def WriteToTerminal_def NVTWrite_def VT100FWrite_def no_output_def Let_def
        split: data_proc.splits gxsTelnetTermTypes.splits)
qed

lemma ReadTelnetData_reads: "reads (tn_sock (snd (ReadTelnetData x t))) = reads (tn_sock t)"
  by (simp add: ReadTelnetData_def Let_def run_DataProc_reads option_reads no_output_def split: gxsTelnetState.splits)

lemma store_chars_reads: "store_chars xs mem n t = (e, mem1, n1, t1) \<Longrightarrow> reads (tn_sock t1) = reads (tn_sock t)"
proof (induction xs mem n t rule: store_chars.induct)
  case (2 x xs mem n t)
  obtain e1 t2 where r: "ReadTelnetData x t = (e1, t2)" by fastforce
  have k: "reads (tn_sock t2) = reads (tn_sock t)" using ReadTelnetData_reads [of x t] by (simp add: r)
  show ?case using "2.prems" "2.IH" r k by (auto split: if_splits option.splits)
qed simp

lemma receive_less: "receive t = ((rv, x), t1) \<Longrightarrow> 0 < rv \<Longrightarrow> weight (reads (tn_sock t1)) < weight (reads (tn_sock t))"
  by (auto simp: receive_def RecvSome_def set_socket_error_def next_arrival_less split: if_splits prod.splits sum.splits)

function recv_loop :: "string \<Rightarrow> string \<Rightarrow> nat \<Rightarrow> gxsTelnetClient \<Rightarrow> ((gxSocketError \<times> gxsTelnetClient) \<times> string) option" where
  "recv_loop str mem n t =
     (if \<not> n < length mem - 1 then Some (end_with gxSOCKET_BUFOVER_ERROR t, ended mem n)
      else (case receive t of ((rv, x), t1) \<Rightarrow>
              if rv < 0 then Some ((socket_error (tn_sock t1), t1), ended mem n)
              else if rv = 0 then Some (end_with gxSOCKET_DISCONNECTED_ERROR t1, mem)
              else (case store_chars x mem n t1 of (e, mem1, n1, t2) \<Rightarrow>
                      if e \<noteq> gxSOCKET_NO_ERROR then Some ((socket_error (tn_sock t2), t2), ended mem1 n1)
                      else (case find_text mem1 str n1 str 0 0 of
                              None \<Rightarrow> None
                            | Some True \<Rightarrow> Some (end_with gxSOCKET_NO_ERROR t2, ended mem1 n1)
                            | Some False \<Rightarrow> recv_loop str mem1 n1 t2))))"
  by pat_completeness auto
termination
  by (relation "measure (\<lambda>(str, mem, n, t). weight (reads (tn_sock t)))")
    (auto dest!: store_chars_reads [OF sym] receive_less [OF sym])

declare recv_loop.simps [simp del]

text \<open>The buffer of \<open>bytes\<close> characters, which has what was in it; no buffer is an empty one.\<close>

definition RecvString :: "string \<Rightarrow> string \<Rightarrow> gxsTelnetClient \<Rightarrow> ((gxSocketError \<times> gxsTelnetClient) \<times> string) option" where
  "RecvString str mem t =
     (if mem = [] then Some (end_with gxSOCKET_BUFOVER_ERROR t, mem) else recv_loop str mem 0 t)"

section \<open>A conversation\<close>

text \<open>
  What a server sends: characters of text, commands without an option, requests for options, and
  subnegotiations, each with its bytes, the text that it shows on a plain terminal, and what the client answers. The byte 255 is
  doubled in text.
\<close>

datatype telnet_token = Text char | Plain_command char | Request char char | Subnegotiation char string

definition doubled :: "char \<Rightarrow> string" where
  "doubled c = (if c = gxsTEL_IAC then [gxsTEL_IAC, gxsTEL_IAC] else [c])"

fun token_bytes :: "telnet_token \<Rightarrow> string" where
  "token_bytes (Text c) = doubled c"
| "token_bytes (Plain_command c) = [gxsTEL_IAC, c]"
| "token_bytes (Request code opt) = [gxsTEL_IAC, code, opt]"
| "token_bytes (Subnegotiation opt data) = [gxsTEL_IAC, gxsTEL_SB, opt] @ concat (map doubled data) @ [gxsTEL_IAC, gxsTEL_SE]"

definition requests :: "char set" where
  "requests = {gxsTEL_WILL, gxsTEL_WONT, gxsTEL_DO, gxsTEL_DONT}"

fun token_ok :: "telnet_token \<Rightarrow> bool" where
  "token_ok (Plain_command c) \<longleftrightarrow> c \<noteq> gxsTEL_IAC \<and> c \<noteq> gxsTEL_SB \<and> c \<notin> requests"
| "token_ok (Request code opt) \<longleftrightarrow> code \<in> requests"
| "token_ok _ \<longleftrightarrow> True"

fun token_text :: "telnet_token \<Rightarrow> string" where
  "token_text (Text c) = (if c = CHR 0x00 then [] else [c])"
| "token_text _ = []"

text \<open>The answers to a request, as pairs of a command and an option.\<close>

definition answers :: "char \<Rightarrow> char \<Rightarrow> (char \<times> char) list" where
  "answers code opt =
     (if opt = gxsTELOPT_ECHO then
        [(if code = gxsTEL_WILL then gxsTEL_DO else if code = gxsTEL_WONT then gxsTEL_WILL else gxsTEL_WONT, opt)]
      else if opt = gxsTELOPT_SUPP then
        (if code = gxsTEL_WILL then [(gxsTEL_DO, opt), (gxsTEL_WILL, opt), (gxsTEL_DO, gxsTELOPT_ECHO)]
         else if code = gxsTEL_WONT then [(gxsTEL_DONT, opt), (gxsTEL_WONT, opt)] else [(code, opt)])
      else if code = gxsTEL_WILL then [(gxsTEL_DONT, opt)]
      else if code = gxsTEL_DO then [(if opt = gxsTELOPT_TERM then gxsTEL_WILL else gxsTEL_WONT, opt)]
      else if code = gxsTEL_DONT \<and> opt \<noteq> gxsTELOPT_TERM then [(gxsTEL_WONT, opt)]
      else [])"

definition type_answer :: "string \<Rightarrow> string" where
  "type_answer name = [gxsTEL_IAC, gxsTEL_SB, gxsTELOPT_TERM, CHR 0x00] @ name @ [gxsTEL_IAC, gxsTEL_SE]"

fun token_answer :: "string \<Rightarrow> telnet_token \<Rightarrow> string" where
  "token_answer name (Request code opt) = concat (map (\<lambda>(c, p). [gxsTEL_IAC, c, p]) (answers code opt))"
| "token_answer name (Subnegotiation opt data) = concat (map (\<lambda>c. if c = CHR 0x01 then type_answer name else []) data)"
| "token_answer name _ = []"

text \<open>A client between two tokens, whose system takes all that is sent.\<close>

definition accepting :: "gxsTelnetClient \<Rightarrow> bool" where
  "accepting t \<longleftrightarrow> sock_open (tn_sock t) \<and> \<not> sock_shut (tn_sock t) \<and> writes (tn_sock t) = []"

definition between_tokens :: "gxsTelnetClient \<Rightarrow> bool" where
  "between_tokens t \<longleftrightarrow> accepting t \<and> tn_state t = telnet_data \<and> DataProc t = proc_WriteToTerminal \<and>
     term_type t \<noteq> gxsTEL_VT100F_TERM"

definition sent_more :: "string \<Rightarrow> gxsTelnetClient \<Rightarrow> gxsTelnetClient" where
  "sent_more b t = t\<lparr>tn_sock := (tn_sock t)\<lparr>sent := sent (tn_sock t) @ b, socket_error := gxSOCKET_NO_ERROR\<rparr>\<rparr>"

lemma send_bytes_ok:
  assumes "accepting t" "b \<noteq> []"
  shows "send_bytes b t = (int (length b), sent_more b t)"
proof -
  have "Send_loop 0 b (tn_sock t) = Send_loop (int (length b)) [] (tn_sock (sent_more b t))"
    using assms by (subst Send_loop.simps) (simp add: RawWrite_def accepting_def set_socket_error_def sent_more_def)
  also have "\<dots> = (int (length b), tn_sock (sent_more b t))" by (subst Send_loop.simps) simp
  finally show ?thesis by (simp add: send_bytes_def Send_socket_def sent_more_def)
qed

lemma sent_more_fields [simp]:
  "accepting (sent_more b t) = accepting t" "tn_state (sent_more b t) = tn_state t" "DataProc (sent_more b t) = DataProc t"
  "term_type (sent_more b t) = term_type t" "term_string (sent_more b t) = term_string t"
  "sent (tn_sock (sent_more b t)) = sent (tn_sock t) @ b" "GetChar (sent_more b t) = GetChar t"
  "socket_error (tn_sock (sent_more b t)) = gxSOCKET_NO_ERROR"
  "sent_more a (sent_more b t) = sent_more (b @ a) t"
  by (simp_all add: sent_more_def accepting_def GetChar_def)

lemma SendCommand_ok: "accepting t \<Longrightarrow> SendCommand c p t = (gxSOCKET_NO_ERROR, sent_more [gxsTEL_IAC, c, p] t)"
  by (simp add: SendCommand_def send_bytes_ok)

lemma store_chars_append:
  "store_chars (xs @ ys) mem n t =
     (case store_chars xs mem n t of (e, mem1, n1, t1) \<Rightarrow>
        if e \<noteq> gxSOCKET_NO_ERROR then (e, mem1, n1, t1) else store_chars ys mem1 n1 t1)"
  by (induction xs mem n t rule: store_chars.induct) (auto split: prod.splits option.splits)

lemma accepting_fields [simp]:
  "accepting (t\<lparr>tn_state := x\<rparr>) = accepting t" "accepting (t\<lparr>DataProc := d\<rparr>) = accepting t"
  "accepting (t\<lparr>curr_code := c\<rparr>) = accepting t" "accepting (no_output t) = accepting t"
  by (simp_all add: accepting_def no_output_def)

lemma no_output_fields [simp]:
  "tn_sock (no_output t) = tn_sock t" "tn_state (no_output t) = tn_state t" "DataProc (no_output t) = DataProc t"
  "term_type (no_output t) = term_type t" "term_string (no_output t) = term_string t" "curr_code (no_output t) = curr_code t"
  "GetChar (no_output t) = None"
  by (simp_all add: no_output_def GetChar_def)

lemma write_ok:
  assumes "DataProc t = proc_WriteToTerminal" "term_type t \<noteq> gxsTEL_VT100F_TERM"
  shows "run_DataProc c t =
    (gxSOCKET_NO_ERROR, if c = CHR 0x00 then no_output t else (no_output t)\<lparr>output_char_waiting := True, tn_output := c\<rparr>)"
  using assms
  by (cases "term_type t") (auto simp: run_DataProc_def WriteToTerminal_def NVTWrite_def no_output_def)

lemma GetChar_fields [simp]:
  "GetChar (t\<lparr>tn_state := x\<rparr>) = GetChar t" "GetChar (t\<lparr>DataProc := d\<rparr>) = GetChar t" "GetChar (t\<lparr>curr_code := c\<rparr>) = GetChar t"
  "no_output (no_output t) = no_output t" "no_output (t\<lparr>tn_state := x\<rparr>) = (no_output t)\<lparr>tn_state := x\<rparr>"
  "no_output (t\<lparr>curr_code := c\<rparr>) = (no_output t)\<lparr>curr_code := c\<rparr>"
  by (simp_all add: GetChar_def no_output_def)

lemma read_IAC:
  "tn_state t = telnet_data \<Longrightarrow>
   store_chars (gxsTEL_IAC # xs) mem n t = store_chars xs mem n ((no_output t)\<lparr>tn_state := telnet_code\<rparr>)"
  by (simp add: ReadTelnetData_def Let_def)

lemma read_code:
  assumes "tn_state t = telnet_code" "c \<noteq> gxsTEL_IAC"
  shows "store_chars (c # xs) mem n t = store_chars xs mem n
    (if c = gxsTEL_SE then (no_output t)\<lparr>tn_state := telnet_data, DataProc := proc_WriteToTerminal\<rparr>
     else if c = gxsTEL_SB \<or> c \<in> requests then (no_output t)\<lparr>curr_code := c, tn_state := telnet_option\<rparr>
     else (no_output t)\<lparr>tn_state := telnet_data\<rparr>)"
  using assms by (simp add: ReadTelnetData_def Let_def requests_def)

text \<open>A byte of text at the end of its code.\<close>

lemma shown_byte:
  assumes "between_tokens t" "n + length (token_text (Text c)) < length mem" "ReadTelnetData x u = run_DataProc c t"
  shows "\<exists>t1. store_chars [x] mem n u =
      (gxSOCKET_NO_ERROR, List.take n mem @ token_text (Text c) @ drop (n + length (token_text (Text c))) mem,
       n + length (token_text (Text c)), t1) \<and>
    between_tokens t1 \<and> term_string t1 = term_string t \<and> sent (tn_sock t1) = sent (tn_sock t)"
  using assms write_ok [of t c]
  by (cases "c = CHR 0x00") (auto simp: between_tokens_def accepting_def GetChar_def no_output_def upd_conv_take_nth_drop)

text \<open>The bytes of a subnegotiation.\<close>

lemma subnegotiation_read:
  assumes "accepting t" "tn_state t = telnet_data" "DataProc t = proc_NegotiateTermType"
  shows "\<exists>t1. store_chars (concat (map doubled data)) mem n t = (gxSOCKET_NO_ERROR, mem, n, t1) \<and> accepting t1 \<and>
    tn_state t1 = telnet_data \<and> DataProc t1 = proc_NegotiateTermType \<and> term_type t1 = term_type t \<and>
    term_string t1 = term_string t \<and>
    sent (tn_sock t1) = sent (tn_sock t) @ concat (map (\<lambda>c. if c = CHR 0x01 then type_answer (term_string t) else []) data)"
  using assms
proof (induction data arbitrary: t)
  case (Cons c data)
  have one: "\<exists>t1. store_chars (doubled c) mem n t = (gxSOCKET_NO_ERROR, mem, n, t1) \<and> accepting t1 \<and>
    tn_state t1 = telnet_data \<and> DataProc t1 = proc_NegotiateTermType \<and> term_type t1 = term_type t \<and>
    term_string t1 = term_string t \<and>
    sent (tn_sock t1) = sent (tn_sock t) @ (if c = CHR 0x01 then type_answer (term_string t) else [])"
    using Cons.prems
    by (auto simp: doubled_def ReadTelnetData_def run_DataProc_def NegotiateTermType_def send_bytes_ok type_answer_def telnet_codes)
  then obtain t1 where t1: "store_chars (doubled c) mem n t = (gxSOCKET_NO_ERROR, mem, n, t1)" "accepting t1"
    "tn_state t1 = telnet_data" "DataProc t1 = proc_NegotiateTermType" "term_type t1 = term_type t"
    "term_string t1 = term_string t"
    "sent (tn_sock t1) = sent (tn_sock t) @ (if c = CHR 0x01 then type_answer (term_string t) else [])" by blast
  show ?case using Cons.IH [OF t1(2,3,4), unfolded t1(5,6)] t1 by (auto simp: store_chars_append)
qed auto

lemma option_reply:
  assumes "accepting u" "curr_code u = code" "code \<in> requests" "tn_state u = telnet_option" "GetChar u = None"
  shows "\<exists>t1. store_chars [opt] mem n u = (gxSOCKET_NO_ERROR, mem, n, t1) \<and> accepting t1 \<and> tn_state t1 = telnet_data \<and>
    DataProc t1 = DataProc u \<and> term_type t1 = term_type u \<and> term_string t1 = term_string u \<and>
    sent (tn_sock t1) = sent (tn_sock u) @ token_answer (term_string u) (Request code opt)"
proof -
  have ne: "code \<noteq> gxsTEL_SB" using assms(3) by (auto simp: requests_def telnet_codes)
  let ?t = "(no_output u)\<lparr>tn_state := telnet_data\<rparr>"
  have r: "ReadTelnetData opt u =
      (if opt = gxsTELOPT_ECHO then SetEchoOption code opt ?t else if opt = gxsTELOPT_SUPP then SetSuppOption code opt ?t
       else if opt = gxsTELOPT_TERM then SetTermOption code opt ?t else SetUnknownOption code opt ?t)"
    using assms(2,4) ne by (simp add: ReadTelnetData_def Let_def)
  have a: "accepting ?t" using assms(1) by simp
  have "\<exists>t1. ReadTelnetData opt u = (gxSOCKET_NO_ERROR, t1) \<and> GetChar t1 = None \<and> accepting t1 \<and> tn_state t1 = telnet_data \<and>
    DataProc t1 = DataProc u \<and> term_type t1 = term_type u \<and> term_string t1 = term_string u \<and>
    sent (tn_sock t1) = sent (tn_sock u) @ token_answer (term_string u) (Request code opt)"
    using assms(3) a unfolding requests_def insert_iff empty_iff
  proof (elim disjE FalseE)
    assume c: "code = gxsTEL_WILL"
    show ?thesis
      by (auto simp: r c assms(1) SetEchoOption_def SetSuppOption_def SetTermOption_def SetUnknownOption_def SendCommand_ok answers_def
          telnet_codes)
  next
    assume c: "code = gxsTEL_WONT"
    show ?thesis
      by (auto simp: r c assms(1) SetEchoOption_def SetSuppOption_def SetTermOption_def SetUnknownOption_def SendCommand_ok answers_def
          telnet_codes)
  next
    assume c: "code = gxsTEL_DO"
    show ?thesis
      by (auto simp: r c assms(1) SetEchoOption_def SetSuppOption_def SetTermOption_def SetUnknownOption_def SendCommand_ok answers_def
          telnet_codes)
  next
    assume c: "code = gxsTEL_DONT"
    show ?thesis
      by (auto simp: r c assms(1) SetEchoOption_def SetSuppOption_def SetTermOption_def SetUnknownOption_def SendCommand_ok answers_def
          telnet_codes)
  qed
  then show ?thesis by auto
qed

lemma token_read:
  assumes "between_tokens t" "token_ok tok" "n + length (token_text tok) < length mem"
  shows "\<exists>t1. store_chars (token_bytes tok) mem n t =
      (gxSOCKET_NO_ERROR, List.take n mem @ token_text tok @ drop (n + length (token_text tok)) mem,
       n + length (token_text tok), t1) \<and>
    between_tokens t1 \<and> term_string t1 = term_string t \<and>
    sent (tn_sock t1) = sent (tn_sock t) @ token_answer (term_string t) tok"
proof (cases tok)
  case (Text c)
  have t: "between_tokens (no_output t)" "tn_state t = telnet_data" using assms(1) by (simp_all add: between_tokens_def)
  show ?thesis
  proof (cases "c = gxsTEL_IAC")
    case False
    have "ReadTelnetData c t = run_DataProc c (no_output t)" using False t by (simp add: ReadTelnetData_def Let_def)
    from shown_byte [OF t(1) _ this, of n mem] show ?thesis using assms False by (simp add: Text doubled_def)
  next
    case True
    let ?t = "no_output (no_output (no_output t)\<lparr>tn_state := telnet_code\<rparr>)\<lparr>tn_state := telnet_data\<rparr>"
    have e: "store_chars [gxsTEL_IAC] mem n t = (gxSOCKET_NO_ERROR, mem, n, (no_output t)\<lparr>tn_state := telnet_code\<rparr>)"
      using t by (simp add: ReadTelnetData_def GetChar_def no_output_def)
    have "ReadTelnetData gxsTEL_IAC ((no_output t)\<lparr>tn_state := telnet_code\<rparr>) = run_DataProc gxsTEL_IAC ?t"
      by (simp add: ReadTelnetData_def Let_def no_output_def)
    moreover have "between_tokens ?t" using assms(1) by (simp add: between_tokens_def)
    ultimately show ?thesis
      using shown_byte [of ?t n c mem gxsTEL_IAC] e assms True store_chars_append [of "[gxsTEL_IAC]" "[gxsTEL_IAC]" mem n t]
      by (simp add: Text doubled_def)
  qed
next
  case (Plain_command c)
  show ?thesis using assms
    by (auto simp: Plain_command between_tokens_def read_IAC read_code simp del: store_chars.simps(2))
next
  case (Request code opt)
  have c: "code \<in> requests" using assms(2) by (simp add: Request)
  have ne: "code \<noteq> gxsTEL_IAC" "code \<noteq> gxsTEL_SE" using c by (auto simp: requests_def telnet_codes)
  let ?u = "(no_output t)\<lparr>curr_code := code, tn_state := telnet_option\<rparr>"
  have e: "store_chars (token_bytes tok) mem n t = store_chars [opt] mem n ?u"
    using assms(1) c ne
    by (simp add: Request between_tokens_def read_IAC read_code del: store_chars.simps(2))
  have "accepting ?u" using assms(1) by (simp add: between_tokens_def)
  from option_reply [OF this _ c, of opt mem n] show ?thesis
    using assms(1) unfolding e by (auto simp: Request between_tokens_def)
next
  case (Subnegotiation opt data)
  let ?a = "concat (map (\<lambda>c. if c = CHR 0x01 then type_answer (term_string t) else []) data)"
  obtain t2 where t2: "store_chars [gxsTEL_IAC, gxsTEL_SB, opt] mem n t = (gxSOCKET_NO_ERROR, mem, n, t2)" "accepting t2"
    "tn_state t2 = telnet_data" "DataProc t2 = proc_NegotiateTermType" "term_type t2 = term_type t"
    "term_string t2 = term_string t" "sent (tn_sock t2) = sent (tn_sock t)"
    using assms(1) by (auto simp: between_tokens_def ReadTelnetData_def Let_def telnet_codes)
  obtain t3 where t3: "store_chars (concat (map doubled data)) mem n t2 = (gxSOCKET_NO_ERROR, mem, n, t3)" "accepting t3"
    "tn_state t3 = telnet_data" "DataProc t3 = proc_NegotiateTermType" "term_type t3 = term_type t"
    "term_string t3 = term_string t" "sent (tn_sock t3) = sent (tn_sock t) @ ?a"
    using subnegotiation_read [OF t2(2,3,4), of data mem n, unfolded t2(5,6,7)] by auto
  obtain t4 where t4: "store_chars [gxsTEL_IAC, gxsTEL_SE] mem n t3 = (gxSOCKET_NO_ERROR, mem, n, t4)" "accepting t4"
    "tn_state t4 = telnet_data" "DataProc t4 = proc_WriteToTerminal" "term_type t4 = term_type t"
    "term_string t4 = term_string t" "sent (tn_sock t4) = sent (tn_sock t) @ ?a"
    using t3 by (auto simp: ReadTelnetData_def Let_def telnet_codes)
  have "store_chars (token_bytes tok) mem n t = (gxSOCKET_NO_ERROR, mem, n, t4)"
    by (simp only: Subnegotiation token_bytes.simps store_chars_append t2(1) t3(1) t4(1) prod.case if_False simp_thms)
  then show ?thesis using t4 assms(1) by (simp add: Subnegotiation between_tokens_def)
qed

definition shown_text :: "telnet_token list \<Rightarrow> string" where
  "shown_text toks = concat (map token_text toks)"

lemma tokens_read:
  assumes "between_tokens t" "list_all token_ok toks" "n + length (shown_text toks) < length mem"
  shows "\<exists>t1. store_chars (concat (map token_bytes toks)) mem n t =
      (gxSOCKET_NO_ERROR, List.take n mem @ shown_text toks @ drop (n + length (shown_text toks)) mem,
       n + length (shown_text toks), t1) \<and>
    between_tokens t1 \<and> term_string t1 = term_string t \<and>
    sent (tn_sock t1) = sent (tn_sock t) @ concat (map (token_answer (term_string t)) toks)"
  using assms
proof (induction toks arbitrary: t n mem)
  case Nil
  then show ?case by (simp add: shown_text_def)
next
  case (Cons tok toks)
  let ?x = "token_text tok"
  have len: "n + length ?x < length mem" "n + length ?x + length (shown_text toks) < length mem"
    using Cons.prems(3) by (simp_all add: shown_text_def)
  let ?m = "List.take n mem @ ?x @ drop (n + length ?x) mem"
  obtain t1 where t1: "store_chars (token_bytes tok) mem n t = (gxSOCKET_NO_ERROR, ?m, n + length ?x, t1)" "between_tokens t1"
    "term_string t1 = term_string t" "sent (tn_sock t1) = sent (tn_sock t) @ token_answer (term_string t) tok"
    using token_read [of t tok n mem] Cons.prems len by auto
  have m: "length ?m = length mem" "List.take (n + length ?x) ?m = List.take n mem @ ?x"
    "drop (n + length ?x + k) ?m = drop (n + length ?x + k) mem" for k
    using len by (simp_all add: add.commute)
  have fits: "n + length ?x + length (shown_text toks) < length ?m" using len m(1) by simp
  have ok: "list_all token_ok toks" using Cons.prems(2) by simp
  from Cons.IH [OF t1(2) ok fits] obtain t2 where
    "store_chars (concat (map token_bytes toks)) ?m (n + length ?x) t1 =
      (gxSOCKET_NO_ERROR, (List.take n mem @ ?x) @ shown_text toks @ drop (n + length ?x + length (shown_text toks)) mem,
       n + length ?x + length (shown_text toks), t2)" "between_tokens t2" "term_string t2 = term_string t"
    "sent (tn_sock t2) = (sent (tn_sock t) @ token_answer (term_string t) tok) @ concat (map (token_answer (term_string t)) toks)"
    unfolding m t1(3,4) by blast
  then show ?case using t1(1) by (simp add: store_chars_append shown_text_def add.assoc)
qed

text \<open>
  C30: On a plain terminal the client gives back just the text that the server sends, whatever commands, requests and
  subnegotiations lie between its characters, with the byte 255 where it was doubled and without null characters, and it
  answers every request and every request for the terminal type, in their order.
\<close>

theorem telnet_conversation:
  assumes "between_tokens t" and "list_all token_ok toks" and "n + length (shown_text toks) < length mem"
  shows "\<exists>t1. store_chars (concat (map token_bytes toks)) mem n t =
      (gxSOCKET_NO_ERROR, List.take n mem @ shown_text toks @ drop (n + length (shown_text toks)) mem,
       n + length (shown_text toks), t1) \<and>
    between_tokens t1 \<and>
    sent (tn_sock t1) = sent (tn_sock t) @ concat (map (token_answer (term_string t)) toks)"
  using tokens_read [OF assms] by blast

definition sample_telnet :: gxsTelnetClient where
  "sample_telnet = new_gxsTelnetClient\<lparr>tn_sock := new_gxSocket\<lparr>sock_open := True\<rparr>\<rparr>"

theorem telnet_conversation_witness:
  "\<exists>t1. store_chars (''o'' @ [gxsTEL_IAC, gxsTEL_WILL, gxsTELOPT_ECHO] @ ''k'') ''.....'' 1 sample_telnet =
      (gxSOCKET_NO_ERROR, ''.ok..'', 3, t1) \<and>
    sent (tn_sock t1) = [gxsTEL_IAC, gxsTEL_DO, gxsTELOPT_ECHO]"
proof -
  let ?toks = "[Text (CHR ''o''), Request gxsTEL_WILL gxsTELOPT_ECHO, Text (CHR ''k'')]"
  have b: "between_tokens sample_telnet" "list_all token_ok ?toks" by code_simp+
  have x: "shown_text ?toks = ''ok''" "concat (map token_bytes ?toks) = ''o'' @ [gxsTEL_IAC, gxsTEL_WILL, gxsTELOPT_ECHO] @ ''k''"
    "concat (map (token_answer (term_string sample_telnet)) ?toks) = [gxsTEL_IAC, gxsTEL_DO, gxsTELOPT_ECHO]"
    "sent (tn_sock sample_telnet) = []" by code_simp+
  have l: "1 + length (shown_text ?toks) < length ''.....''" unfolding x by simp
  from telnet_conversation [OF b l] show ?thesis unfolding x by auto
qed

text \<open>
  The search for a text: after a part of it was found it goes on behind the character that differs, so a text
  that starts there is missed, and it reads on behind the characters that were received.
\<close>

lemma find_text_misses:
  "find_text ''aab.....'' ''ab'' 3 ''ab'' 0 0 = Some False"
  "find_text ''aaaa'' ''ab'' 4 ''ab'' 0 0 = None"
  by code_simp+

end
