(* ===== verification/Spec2Isabelle.thy ===== *)
theory Spec2Isabelle
  imports IntProps HeapProps NavProps LockProps BtNodeProps BtSearchProps BtDelete BtCacheProps Dates Base64 Url Config RdDiskProps RdOrder DbCacheProps PodProps PersistProps RdbKeyProps RdbProps RdbRepair DebugProps NetProps Telnet
begin

text \<open>
  A model of the DataReel library, its databases and its network clients, and the theorems that make it
  correct.

  The program. DataReel is a C++ toolkit whose core is a file-based database. A \<open>gxDatabase\<close>
  (\<open>src/src/gxdbase.cpp\<close>) is a file with a header, an optional static area and a heap of
  variable-size blocks: \<open>Alloc\<close> finds a block or extends the file, \<open>Delete\<close> and \<open>Remove\<close> put a block
  on the free space list that starts in the file header, \<open>UnDelete\<close> takes it off again, and the
  navigation functions go from block to block. Locked revisions of the format have a lock word in the
  file header and in each block. A \<open>gxBtree\<close> (\<open>src/src/gxbtree.cpp\<close>) keeps an index in such a file:
  its nodes are objects allocated from the heap, addressed by file position, and its header lies in
  the static area. Persistent integers are byte arrays in little-endian order
  (\<open>src/src/gxint32.cpp\<close> and its siblings), and the file itself is reached through the stream
  functions of \<open>src/src/gxdfp64.cpp\<close>. Two caches lie between the engine and its users, one for tree nodes
  (\<open>btcache.cpp\<close>) and one for data (\<open>dbfcache.cpp\<close>). On top are persistent objects (\<open>pod.cpp\<close>, \<open>gpersist.cpp\<close>,
  \<open>infohog.h\<close>) and the relational database (\<open>gxrdbhdr.cpp\<close>, \<open>gxrdbms.cpp\<close>, \<open>gxrdbdef.cpp\<close>); the debug manager
  (\<open>dbugmgr.cpp\<close>) rebuilds a damaged file block by block. Beside the databases there are clients for mail,
  FTP, HTTP and telnet over plain and secure connections.

  The build that is modelled is the one for 64-bit Linux: the portable integer types, the 64-bit
  engine, \<open>__USE_BINARY_SEARCH__\<close> and \<open>__USE_SINGLE_COMPARE__\<close>. There \<open>__ULWORD__\<close> has 64 bits and
  a \<open>gxINT32\<close> reads back as a number from 0 to 2^32-1.

  How the code is modelled. Objects are records (\<open>gxDatabase\<close>, \<open>gxBtree\<close>, \<open>BtreeNode\<close>) with the data
  members of the classes; a member function is a function from the object to the object, with the
  C++ result beside it where the result is not the error code in \<open>gxd_error\<close>. Errors are the values
  of \<open>gxDatabaseError\<close>, and every early return is a branch. \<open>FAU_t\<close> and the other native integers are
  \<open>int\<close>, wrapped with \<open>to_s64\<close>, \<open>to_u64\<close> and \<open>to_u32\<close> where they are stored. The file is a list of bytes
  with a position, a capacity and a permission; it fails to write past its capacity and to read past
  its end. Loops that end by a counter or by the data are total functions; loops that follow
  addresses in the file without a bound are \<open>partial_function (option)\<close>, where \<open>None\<close> is a call that
  never returns. No fuel is used: the walks down a B-tree end because the code counts the
  nodes it reads (\<open>gxBtreeMaxNodeReads\<close>), and the measure of the recursion is that counter.

  The theories.
  \<^item> \<open>Prelude\<close>: native widths, \<open>bytes_at\<close> and \<open>put_at\<close> on byte images, with their frame lemmas.
  \<^item> \<open>FixedInts\<close>: \<open>PackBits\<close> and \<open>UnPackBits\<close> of the six integer classes, the locale \<open>codec\<close>
    (what is encoded is read back) and its interpretations. \<open>IntOps\<close>: the operators of the six
    classes on objects and native integers, the decimal strings of the 64-bit ones, the format and the
    comparisons of \<open>gxFLOAT64\<close> (\<open>gxfloat.cpp\<close>); \<open>IntProps\<close> has the properties.
  \<^item> \<open>Crc32\<close>: the table, the generator and the checksum of \<open>gxcrc32.cpp\<close>.
  \<^item> \<open>FilePtr\<close>: the stream functions over an abstract file system.
  \<^item> \<open>Headers\<close>: constants, errors and the five persistent headers of \<open>gxheader.h\<close> and \<open>gxderror.h\<close>.
  \<^item> \<open>Engine\<close>, \<open>Files\<close>: the engine object, seeking, reading, writing, the headers on disk, \<open>Create\<close>,
    \<open>Open\<close>, \<open>Close\<close>, \<open>Flush\<close>, checksums of objects, error texts.
  \<^item> \<open>Blocks\<close>: \<open>Alloc\<close>, the two reclaim searches, \<open>Delete\<close>, \<open>Remove\<close>, \<open>UnDelete\<close>, \<open>DeletedBlocks\<close>.
  \<^item> \<open>Navigate\<close>: the searches for blocks and objects.
  \<^item> \<open>BlockMap\<close>, \<open>Store\<close>, \<open>Layout\<close>: the abstract heap (a map from addresses to block headers,
    a tiling of the file and a free list as a path), and what each engine call does to the
    image of a file whose accesses succeed.
  \<^item> \<open>Heap\<close>, \<open>HeapOps\<close>, \<open>HeapAlloc\<close>, \<open>HeapUndelete\<close>: the operations of \<open>Blocks\<close> refine operations on the
    abstract heap; \<open>HeapProps\<close> and \<open>Samples\<close> have the properties and a concrete file.
  \<^item> \<open>HeapNav\<close>, \<open>NavProps\<close>: navigation on a well-formed heap, and on one that is not.
  \<^item> \<open>Locks\<close>, \<open>LockProps\<close>: the file and record locks, the abstract readers-writer lock, the locale
    \<open>lock_interface\<close>, its interpretations for file and record locks, and interleaved schedules.
  \<^item> \<open>BtNode\<close>, \<open>BtFile\<close>, \<open>BtSearch\<close>, \<open>BtUpdate\<close>, \<open>BtDelete\<close>: nodes in memory, the tree object and its
    nodes and header on disk, the searches, insertion and fast deletion, balanced deletion and
    change of keys.
  \<^item> \<open>RdKey\<close>, \<open>BtOrder\<close>, \<open>BtNodeOps\<close>: the comparisons of the two key classes, the locales \<open>key_order\<close> and
    \<open>key_search\<close>, and the node operations as operations on the list of entries; \<open>BtNodeProps\<close> has
    the properties.
  \<^item> \<open>BtCodec\<close>, \<open>BtTree\<close>, \<open>BtFind\<close>: nodes in the byte image, stored trees and their in-order lists, and
    the correctness of the searches; \<open>BtSearchProps\<close> has the properties.
  \<^item> \<open>BtCache\<close>, \<open>BtCached\<close>, \<open>BtCachedUpdate\<close>: the node cache of \<open>btcache.cpp\<close>, its buckets, their list
    and the cache nodes that refer to them, and the searches and updates of \<open>gxbtree.cpp\<close> that go
    through it. \<open>BtCacheList\<close>, \<open>BtCacheFind\<close>: the list of buckets as a list, what is seen
    through a coherent cache, and the cached \<open>Find\<close>; \<open>BtCacheProps\<close> has the properties.
  \<^item> \<open>DbCache\<close>, \<open>DbCacheProps\<close>: the block cache of \<open>dbfcache.cpp\<close>, segments of file data in a list like that of the
    node cache, whose lemmas carry over by a view of the segments as buckets.
  \<^item> \<open>StrUtil\<close>, \<open>StrProps\<close>, \<open>Dates\<close>: the string helpers of \<open>strutil.h\<close> and the date of a record field
    (\<open>cdate.cpp\<close>).
  \<^item> \<open>Base64\<close>, \<open>Url\<close>, \<open>Config\<close>: base64 and basic authentication (\<open>gxs_b64.cpp\<close>), the parts of a URL (\<open>gxsurl.cpp\<close>),
    configuration files (\<open>gxconfig.cpp\<close>) and the definition files of the relational database
    (\<open>gxrdbdef.cpp\<close>), each with its round trip.
  \<^item> \<open>RdTable\<close>, \<open>RdRecord\<close>, \<open>RdCompare\<close>: the relational part of \<open>gxrdbhdr.cpp\<close>: headers,
    table definitions, records as arrays of typed byte vectors, their disk format, comparison and
    keys. \<open>RdRecordProps\<close>, \<open>RdDiskProps\<close> and \<open>RdOrder\<close> have the properties.
  \<^item> \<open>Pod\<close>, \<open>PodProps\<close>: the manager of persistent object databases, \<open>pod.cpp\<close>, a data file and an array of
    index files.
  \<^item> \<open>Persist\<close>: the base class of persistent objects (\<open>gpersist.cpp\<close>) and the template
    \<open>InfoHog\<close> (\<open>infohog.h\<close>) of objects made of byte vectors; the template parameter is the record
    \<open>hog_type\<close> of its size and operators, and \<open>sizeof\<close> its keys is taken to be that size plus 16.
    \<open>PersistProps\<close> has the properties.
  \<^item> \<open>DebugMgr\<close>, \<open>DebugRebuild\<close>: the debug manager (\<open>dbugmgr.cpp\<close>): opening without checks, the search for
    blocks, the analysis of a file header, the rebuilding of a file. \<open>DebugProps\<close> has the property.
  \<^item> \<open>RdbState\<close>, \<open>RdbRecords\<close>, \<open>RdbFind\<close>, \<open>RdbChange\<close>, \<open>RdbFiles\<close>, \<open>RdbSearch\<close>, \<open>RdbCheck\<close>, \<open>RdbRepair\<close>:
    the relational database manager (\<open>gxrdbms.cpp\<close>): its state and the definition of keys, records and their
    keys, finding and changing records, its files, creating and opening a database, searching and
    sorting, verifying and rebuilding an index, checking and rebuilding the data file. \<open>RdbKeyProps\<close>
    and \<open>RdbProps\<close> have the properties.
  \<^item> \<open>NetConn\<close>: sockets (\<open>gxsocket.cpp\<close>) and client connections, plain and secure (\<open>gxstls.cpp\<close>). The other
    end and the TLS library are a script of events, a \<open>link\<close>: what each read, write and handshake gives.
    What goes over the network in plain text is \<open>sent\<close>, what is protected is \<open>tls_sent\<close>.
  \<^item> \<open>NetClients\<close>, \<open>Http\<close>, \<open>Telnet\<close>: the clients for SMTP, POP3 and FTP, the stream of database blocks
    (\<open>gxstream.cpp\<close>), HTTP messages and the HTTP client, and
    the telnet client. \<open>NetProps\<close> has the properties of mail, HTTP and blocks, \<open>Telnet\<close> its own.

  What the lemmas show. A well-formed heap (\<open>heap_ok\<close>) stays well-formed under allocation, deletion
  and undeletion, with the data of all other blocks unchanged; navigation gives neighbours; the
  locks keep readers and writers apart when calls do not interleave, and do not when they do. Node
  operations are the list operations they mean to be; on a stored B-tree (\<open>stored_btree\<close>) the
  searches are lookups in the sorted list of keys. A tree may be partly in the node cache, in buckets
  that are changed and not yet written: reserving, evicting and flushing buckets keep the tree that
  is seen (\<open>cached_btree\<close>), the cached \<open>Find\<close> looks up in it, and a flush writes it to the file.

  A record made from a definition is typed by it and stays so under \<open>SetField\<close>; a disk record is read
  back; \<open>Compare\<close> orders records by keys in an ordered type. A file behind a block cache is a memory of its
  regions under any sequence of cached reads, writes and flushes. The array of index files of a database
  manager stays well formed whatever calls fail. A persistent object that is written gets a block of its
  own on the heap, also when its key cannot be added to the index, and is read back into any object of its class, but
  for members of length zero, which leave what was there; a string is not read back. A record that the relational
  database manager writes is read back at the address it gives, whatever happens to the index files; a key definition that is accepted fits the record, and the index that is
  searched for a field is the one that holds its keys.

  A database that is rebuilt has just the objects in use of the old one. The lists of the caches keep their
  links in both directions when a bucket is moved, but for one link that a demotion forgets. A URL, base64 text and a parameter of a
  configuration file are read back as they were written. A mail, an HTTP request and a database block that are
  sent are read back, however the bytes arrive in pieces; a mail session sends nothing in plain text after its
  connection is made; redirects do not carry credentials to other hosts; the telnet client answers each
  request of a server and shows just its text.

  Not modelled. The arithmetic operators of \<open>gxFLOAT64\<close>; the printing of statistics (\<open>gxdstats.cpp\<close>); the file
  pointers of other builds; a new file in the format of an old version. A node cache is connected to the
  database of the tree it is used with, and its statistic \<open>cache_size\<close> is left out. Of the network: the TLS
  libraries, the server side of TLS, listening sockets and datagrams, ping, serial lines. Threads, logs,
  clocks and the console are input and output through the operating system. Memory allocation
  does not fail in the model, and bytes of memory that the program does not initialise are zero.
\<close>

end
